(* ===== verification/Prelude.thy ===== *)
theory Prelude
  imports Main "HOL-Library.AList" "HOL-Library.Multiset" "HOL-Library.List_Lexorder" "HOL-Library.Char_ord"
begin

text \<open>
  What the components share: results that are an error or a value (the code's throws as
  values), JavaScript's insertion-ordered \<open>Map\<close> as an association list, and the stable sort
  by identifier that the store's list operations end with.

  A JavaScript string is modelled by \<^typ>\<open>string\<close>, one \<^typ>\<open>char\<close> per UTF-16 code unit;
  \<open><\<close> on strings is the lexicographic order on code units, which is the order
  \<open>List_Lexorder\<close> and \<open>Char_ord\<close> give.
\<close>

named_theorems outcome_simps "unfolding and inversion of results"
named_theorems map_simps "reading a JavaScript Map after a write"

section \<open>Results\<close>

text \<open>\<open>Inl\<close> carries the code of the thrown error, \<open>Inr\<close> the returned value.\<close>

definition rbind :: "'e + 'a \<Rightarrow> ('a \<Rightarrow> 'e + 'b) \<Rightarrow> 'e + 'b" where
  "rbind r f = (case r of Inl e \<Rightarrow> Inl e | Inr a \<Rightarrow> f a)"

definition check :: "'e \<Rightarrow> bool \<Rightarrow> 'e + unit" where
  "check e ok = (if ok then Inr () else Inl e)"

text \<open>\<open>attempt r st k\<close>: a throw leaves the state as it is, a value goes on in \<open>k\<close>.\<close>

definition attempt :: "'e + 'a \<Rightarrow> 's \<Rightarrow> ('a \<Rightarrow> ('e + 'b) \<times> 's) \<Rightarrow> ('e + 'b) \<times> 's" where
  "attempt r st k = (case r of Inl e \<Rightarrow> (Inl e, st) | Inr a \<Rightarrow> k a)"

text \<open>\<open>xs.map(f)\<close> where \<open>f\<close> may throw: the first throw ends the whole call.\<close>

fun mapR :: "('a \<Rightarrow> 'e + 'b) \<Rightarrow> 'a list \<Rightarrow> 'e + 'b list" where
  "mapR f [] = Inr []"
| "mapR f (x # xs) = rbind (f x) (\<lambda>y. rbind (mapR f xs) (\<lambda>ys. Inr (y # ys)))"

lemma rbind_simps [simp]: "rbind (Inl e) f = Inl e" "rbind (Inr a) f = f a"
  by (simp_all add: rbind_def)

lemma attempt_simps [simp]: "attempt (Inl e) st k = (Inl e, st)" "attempt (Inr a) st k = k a"
  by (simp_all add: attempt_def)

lemma check_simps [simp]: "check e True = Inr ()" "check e False = Inl e"
  by (simp_all add: check_def)

lemma rbind_Inr [outcome_simps]: "rbind r f = Inr y \<longleftrightarrow> (\<exists>x. r = Inr x \<and> f x = Inr y)"
  by (cases r) auto

lemma rbind_Inl [outcome_simps]:
  "rbind r f = Inl e \<longleftrightarrow> r = Inl e \<or> (\<exists>x. r = Inr x \<and> f x = Inl e)"
  by (cases r) auto

lemma check_Inr [outcome_simps]: "check e b = Inr u \<longleftrightarrow> b"
  by (cases b) auto

lemma check_Inl [outcome_simps]: "check e b = Inl e' \<longleftrightarrow> \<not> b \<and> e' = e"
  by (cases b) auto

lemma attempt_Inr [outcome_simps]:
  "attempt r st k = (Inr y, st') \<longleftrightarrow> (\<exists>x. r = Inr x \<and> k x = (Inr y, st'))"
  by (cases r) auto

lemma attempt_Inl [outcome_simps]:
  "attempt r st k = (Inl e, st') \<longleftrightarrow>
     (r = Inl e \<and> st' = st) \<or> (\<exists>x. r = Inr x \<and> k x = (Inl e, st'))"
  by (cases r) auto

lemma mapR_Inr_all2: "mapR f xs = Inr ys \<Longrightarrow> list_all2 (\<lambda>x y. f x = Inr y) xs ys"
  by (induction xs arbitrary: ys) (auto simp: outcome_simps)

text \<open>A check that returns its argument: mapping it over a list returns the list, or throws.\<close>

lemma mapR_same:
  assumes "\<And>x y. f x = Inr y \<Longrightarrow> y = x" and "mapR f xs = Inr ys"
  shows "ys = xs"
  using assms(2) by (induction xs arbitrary: ys) (auto simp: outcome_simps dest: assms(1))

lemma mapR_id:
  assumes "\<And>x. x \<in> set xs \<Longrightarrow> f x = Inr x"
  shows "mapR f xs = Inr xs"
  using assms by (induction xs) auto

lemma mapR_Inr_all: "mapR f xs = Inr ys \<Longrightarrow> x \<in> set xs \<Longrightarrow> \<exists>y. f x = Inr y"
  by (induction xs arbitrary: ys) (auto simp: outcome_simps)

section \<open>JavaScript's Map\<close>

text \<open>
  \<open>Map\<close> keeps insertion order; \<open>set\<close> on a present key replaces the value in place and on
  a new key appends.
\<close>

type_synonym ('k, 'v) js_map = "('k \<times> 'v) list"

definition map_get :: "('k, 'v) js_map \<Rightarrow> 'k \<Rightarrow> 'v option" where
  "map_get m k = map_of m k"

definition map_set :: "('k, 'v) js_map \<Rightarrow> 'k \<Rightarrow> 'v \<Rightarrow> ('k, 'v) js_map" where
  "map_set m k v = AList.update k v m"

definition map_values :: "('k, 'v) js_map \<Rightarrow> 'v list" where
  "map_values m = map snd m"

text \<open>The interface every component uses a \<open>Map\<close> through, and its laws.\<close>

locale keyed_map =
  fixes get :: "'m \<Rightarrow> 'k \<Rightarrow> 'v option"
    and put :: "'m \<Rightarrow> 'k \<Rightarrow> 'v \<Rightarrow> 'm"
    and vals :: "'m \<Rightarrow> 'v list"
    and okay :: "'m \<Rightarrow> bool"
  assumes get_put: "get (put m k v) k' = (if k' = k then Some v else get m k')"
    and get_vals: "okay m \<Longrightarrow> v \<in> set (vals m) \<longleftrightarrow> (\<exists>k. get m k = Some v)"
    and okay_put: "okay m \<Longrightarrow> okay (put m k v)"
begin

lemma get_put_same: "get (put m k v) k = Some v"
  by (simp add: get_put)

lemma get_put_other: "k' \<noteq> k \<Longrightarrow> get (put m k v) k' = get m k'"
  by (simp add: get_put)

lemma vals_put_iff:
  "okay m \<Longrightarrow> x \<in> set (vals (put m k v)) \<longleftrightarrow> x = v \<or> (\<exists>k'. k' \<noteq> k \<and> get m k' = Some x)"
  by (auto simp: get_vals okay_put get_put split: if_splits)

lemma vals_all_put:
  "okay m \<Longrightarrow> (\<And>x. x \<in> set (vals m) \<Longrightarrow> P x) \<Longrightarrow> P v \<Longrightarrow> x \<in> set (vals (put m k v)) \<Longrightarrow> P x"
  by (auto simp: vals_put_iff get_vals)

end

definition map_ok :: "('k, 'v) js_map \<Rightarrow> bool" where
  "map_ok m \<longleftrightarrow> distinct (map fst m)"

interpretation jsmap: keyed_map map_get map_set map_values map_ok
proof unfold_locales
  fix m :: "('k, 'v) js_map" and k k' :: 'k and v :: 'v
  show "map_get (map_set m k v) k' = (if k' = k then Some v else map_get m k')"
    by (simp add: map_get_def map_set_def update_conv')
next
  fix m :: "('k, 'v) js_map" and v :: 'v
  assume "map_ok m"
  then show "v \<in> set (map_values m) \<longleftrightarrow> (\<exists>k. map_get m k = Some v)"
    by (force simp: map_ok_def map_get_def map_values_def image_iff
        dest: map_of_SomeD intro: map_of_is_SomeI)
next
  fix m :: "('k, 'v) js_map" and k :: 'k and v :: 'v
  assume "map_ok m"
  then show "map_ok (map_set m k v)"
    by (simp add: map_ok_def map_set_def distinct_update)
qed

lemmas js_map_simps [map_simps] = jsmap.get_put jsmap.okay_put

lemma map_ok_Nil [simp]: "map_ok []"
  by (simp add: map_ok_def)

lemma map_get_Nil [simp]: "map_get [] k = None"
  by (simp add: map_get_def)

lemma map_values_Nil [simp]: "map_values [] = []"
  by (simp add: map_values_def)

text \<open>A condition on every entry of a well-formed map, kept by writing an entry that meets it.\<close>

definition map_all :: "('k \<Rightarrow> 'v \<Rightarrow> bool) \<Rightarrow> ('k, 'v) js_map \<Rightarrow> bool" where
  "map_all P m \<longleftrightarrow> map_ok m \<and> (\<forall>k v. map_get m k = Some v \<longrightarrow> P k v)"

lemma map_all_Nil [simp]: "map_all P []"
  by (simp add: map_all_def)

lemma map_all_set [intro]: "map_all P m \<Longrightarrow> P k v \<Longrightarrow> map_all P (map_set m k v)"
  by (auto simp: map_all_def map_simps split: if_splits)

lemma map_all_get: "map_all P m \<Longrightarrow> map_get m k = Some v \<Longrightarrow> P k v"
  by (simp add: map_all_def)

lemma map_all_member: "map_all P m \<Longrightarrow> map_get m k = Some v \<Longrightarrow> v \<in> set (map_values m)"
  by (metis jsmap.get_vals map_all_def)

lemma map_all_values:
  "map_all P m \<Longrightarrow> v \<in> set (map_values m) \<Longrightarrow> \<exists>k. map_get m k = Some v \<and> P k v"
  by (metis jsmap.get_vals map_all_def)

text \<open>
  A total over the values of a \<open>Map\<close> changes by exactly the value written, less the value
  it replaces.
\<close>

definition map_total :: "('v \<Rightarrow> int) \<Rightarrow> ('k, 'v) js_map \<Rightarrow> int" where
  "map_total f m = sum_list (map f (map_values m))"

lemma map_total_Nil [simp]: "map_total f [] = 0"
  by (simp add: map_total_def)

lemma map_total_set:
  "map_total f (map_set m k v) =
     map_total f m - (case map_get m k of None \<Rightarrow> 0 | Some old \<Rightarrow> f old) + f v"
  by (induction m) (auto simp: map_total_def map_set_def map_values_def map_get_def)

lemma map_total_nonneg:
  "(\<And>v. v \<in> set (map_values m) \<Longrightarrow> 0 \<le> f v) \<Longrightarrow> 0 \<le> map_total f m"
  unfolding map_total_def by (rule sum_list_nonneg) auto

lemma map_total_cong:
  "(\<And>v. v \<in> set (map_values m) \<Longrightarrow> f v = g v) \<Longrightarrow> map_total f m = map_total g m"
  unfolding map_total_def by (rule arg_cong [where f = sum_list]) simp

lemma map_total_mono:
  "(\<And>v. v \<in> set (map_values m) \<Longrightarrow> f v \<le> g v) \<Longrightarrow> map_total f m \<le> map_total g m"
  unfolding map_total_def by (rule sum_list_mono) simp

lemma map_total_member:
  assumes "\<And>v. v \<in> set (map_values m) \<Longrightarrow> 0 \<le> f v" and "v \<in> set (map_values m)"
  shows "f v \<le> map_total f m"
  unfolding map_total_def using assms
  by (intro member_le_sum_list) auto

text \<open>The sum over a filtered list is a total with the filter as an indicator.\<close>

lemma sum_list_filter_indicator:
  "sum_list (map f (filter P xs)) = sum_list (map (\<lambda>x. if P x then f x else (0::int)) xs)"
  by (induction xs) auto

text \<open>A sum in which one element may have grown, by at most \<open>a\<close>.\<close>

lemma sum_list_one_grows:
  assumes "distinct xs" and "0 \<le> (a :: int)"
    and "\<And>x. x \<in> set xs \<Longrightarrow> x \<noteq> x0 \<Longrightarrow> g x \<le> f x" and "x0 \<in> set xs \<Longrightarrow> g x0 \<le> f x0 + a"
  shows "sum_list (map g xs) \<le> sum_list (map f xs) + a"
  using assms
proof (induction xs)
  case (Cons x xs)
  show ?case
  proof (cases "x = x0")
    case True
    then have "x0 \<notin> set xs" using Cons.prems(1) by simp
    then have "sum_list (map g xs) \<le> sum_list (map f xs)"
      using Cons.prems(3) by (intro sum_list_mono) (metis list.set_intros(2))
    with Cons.prems(4) True show ?thesis by simp
  next
    case False
    have "sum_list (map g xs) \<le> sum_list (map f xs) + a" using Cons False by simp
    moreover have "g x \<le> f x" using Cons.prems(3) False by simp
    ultimately show ?thesis by simp
  qed
qed simp

text \<open>A sum in which one element shrinks by at least \<open>d\<close>.\<close>

lemma sum_list_one_shrinks:
  assumes "x0 \<in> set xs" and "\<And>x. x \<in> set xs \<Longrightarrow> g x \<le> (f x :: int)" and "g x0 + d \<le> f x0"
  shows "sum_list (map g xs) + d \<le> sum_list (map f xs)"
  using assms
proof (induction xs)
  case (Cons x xs)
  show ?case
  proof (cases "x = x0")
    case True
    have "sum_list (map g xs) \<le> sum_list (map f xs)" using Cons.prems(2) by (intro sum_list_mono) simp
    with True Cons.prems(3) show ?thesis by simp
  next
    case False
    have "g x \<le> f x" using Cons.prems(2) by simp
    moreover have "sum_list (map g xs) + d \<le> sum_list (map f xs)" using Cons False by simp
    ultimately show ?thesis by simp
  qed
qed simp

section \<open>Sorting by identifier\<close>

text \<open>
  \<open>list.sort((a, b) => a.id < b.id ? -1 : a.id > b.id ? 1 : 0)\<close>: \<open>Array.prototype.sort\<close> is
  stable, and so is \<^const>\<open>sort_key\<close>.
\<close>

definition sort_by_id :: "('a \<Rightarrow> string) \<Rightarrow> 'a list \<Rightarrow> 'a list" where
  "sort_by_id f xs = sort_key f xs"

lemma set_sort_by_id [simp]: "set (sort_by_id f xs) = set xs"
  by (simp add: sort_by_id_def)

lemma sorted_sort_by_id: "sorted (map f (sort_by_id f xs))"
  by (simp add: sort_by_id_def)

lemma sum_sort_by_id [simp]:
  "sum_list (map g (sort_by_id f xs)) = sum_list (map (g :: 'a \<Rightarrow> int) xs)"
proof -
  have "mset (map g (sort_by_id f xs)) = mset (map g xs)"
    by (simp add: sort_by_id_def)
  then show ?thesis by (metis sum_mset_sum_list)
qed

lemma mset_sort_by_id [simp]: "mset (sort_by_id f xs) = mset xs"
  by (simp add: sort_by_id_def)

section \<open>Lists\<close>

lemma find_None_iff_all: "find P xs = None \<longleftrightarrow> (\<forall>x \<in> set xs. \<not> P x)"
  by (auto simp: find_None_iff)

lemma find_SomeD: "find P xs = Some x \<Longrightarrow> x \<in> set xs \<and> P x"
  by (auto simp: find_Some_iff)

section \<open>State machines\<close>

text \<open>
  The interface of a state machine whose every call, refused or not, keeps its invariant; its
  one consequence is that no run leaves it.
\<close>

locale invariant_machine =
  fixes start :: 's and run :: "'c \<Rightarrow> 's \<Rightarrow> 's" and inv :: "'s \<Rightarrow> bool"
  assumes inv_start: "inv start" and inv_run: "inv s \<Longrightarrow> inv (run c s)"
begin

lemma inv_runs: "inv s \<Longrightarrow> inv (fold run cs s)"
  by (induction cs arbitrary: s) (auto intro: inv_run)

lemma inv_reached: "inv (fold run cs start)"
  by (rule inv_runs) (rule inv_start)

end

end
