(* ===== verification/JsNumber.thy ===== *)
theory JsNumber
  imports Prelude
begin

text \<open>
  JavaScript numbers, for the integer quantities the code counts with: an integer-valued
  double. Sums and differences are rounded to the nearest double (ties to even), so they are
  exact up to \<open>2^53\<close> and may lose units above it. Overflow to infinity (from \<open>2^1024\<close>
  on) is not modelled.

  Also the decimal rendering of a number, which string keys and JSON are built from.
\<close>

section \<open>Rounding to a double\<close>

text \<open>The exponent of the last bit a 53-bit significand of \<open>n\<close> keeps.\<close>

function ulp :: "int \<Rightarrow> int" where
  "ulp n = (if n < 9007199254740992 then 1 else 2 * ulp (n div 2))"
  by pat_completeness auto
termination
  by (relation "measure nat") auto

declare ulp.simps [simp del]

definition js_round_pos :: "int \<Rightarrow> int" where
  "js_round_pos n =
     (let u = ulp n; q = n div u; r = n mod u
      in if 2 * r < u \<or> (2 * r = u \<and> q mod 2 = 0) then q * u else (q + 1) * u)"

definition js_round :: "int \<Rightarrow> int" where
  "js_round x = (if x < 0 then - js_round_pos (- x) else js_round_pos x)"

definition js_add :: "int \<Rightarrow> int \<Rightarrow> int" where
  "js_add a b = js_round (a + b)"

definition js_sub :: "int \<Rightarrow> int \<Rightarrow> int" where
  "js_sub a b = js_round (a - b)"

text \<open>\<open>Number.MAX_SAFE_INTEGER\<close> and \<open>Number.isSafeInteger\<close> on an integer-valued number.\<close>

definition MAX_SAFE_INTEGER :: int where
  "MAX_SAFE_INTEGER = 9007199254740991"

definition isSafeInteger :: "int \<Rightarrow> bool" where
  "isSafeInteger x \<longleftrightarrow> \<bar>x\<bar> \<le> MAX_SAFE_INTEGER"

lemma ulp_pos: "0 < ulp n"
proof (induction n rule: ulp.induct)
  case (1 n)
  then show ?case by (subst ulp.simps) simp
qed

lemma js_round_pos_exact: "n \<le> 2 ^ 53 \<Longrightarrow> js_round_pos n = n"
proof (cases "n < 9007199254740992")
  case True
  then show ?thesis by (simp add: js_round_pos_def ulp.simps [of n])
next
  case False
  assume "n \<le> 2 ^ 53"
  with False have n: "n = 9007199254740992" by simp
  show ?thesis by (simp add: n js_round_pos_def ulp.simps)
qed

lemma js_round_exact: "\<bar>x\<bar> \<le> 2 ^ 53 \<Longrightarrow> js_round x = x"
  by (auto simp: js_round_def js_round_pos_exact)

lemma js_round_pos_nonneg: "0 \<le> n \<Longrightarrow> 0 \<le> js_round_pos n"
  using ulp_pos [of n] by (auto simp: js_round_pos_def Let_def pos_imp_zdiv_nonneg_iff)

lemma js_add_exact: "0 \<le> a \<Longrightarrow> 0 \<le> b \<Longrightarrow> a + b \<le> MAX_SAFE_INTEGER \<Longrightarrow> js_add a b = a + b"
  by (simp add: js_add_def js_round_exact MAX_SAFE_INTEGER_def)

lemma js_sub_exact: "0 \<le> b \<Longrightarrow> b \<le> a \<Longrightarrow> a \<le> MAX_SAFE_INTEGER \<Longrightarrow> js_sub a b = a - b"
  by (simp add: js_sub_def js_round_exact MAX_SAFE_INTEGER_def)

lemma js_round_nonneg: "0 \<le> x \<Longrightarrow> 0 \<le> js_round x"
  by (simp add: js_round_def js_round_pos_nonneg)

lemma js_sub_nonneg: "b \<le> a \<Longrightarrow> 0 \<le> js_sub a b"
  by (simp add: js_sub_def js_round_nonneg)

lemma js_add_nonneg: "0 \<le> a \<Longrightarrow> 0 \<le> b \<Longrightarrow> 0 \<le> js_add a b"
  by (simp add: js_add_def js_round_nonneg)

lemma js_add_commute: "js_add a b = js_add b a"
  by (simp add: js_add_def add.commute)

text \<open>
  A sum that leaves the safe range does not come back into it by rounding, so a sum that is
  found to be safe was exact.
\<close>

lemma ulp_large: "9007199254740992 \<le> n \<Longrightarrow> 2 \<le> ulp n \<and> 4503599627370496 \<le> n div ulp n"
proof (induction n rule: ulp.induct)
  case (1 n)
  have u: "ulp n = 2 * ulp (n div 2)" using 1(2) by (subst ulp.simps) simp
  have d: "n div ulp n = (n div 2) div ulp (n div 2)"
    unfolding u by (rule zdiv_zmult2_eq) (use ulp_pos [of "n div 2"] in simp)
  show ?case
  proof (cases "9007199254740992 \<le> n div 2")
    case True
    with 1 u d show ?thesis by simp
  next
    case False
    then have "ulp (n div 2) = 1" by (subst ulp.simps) simp
    with 1(2) u d show ?thesis by simp
  qed
qed

lemma js_round_pos_large: "9007199254740992 \<le> n \<Longrightarrow> 9007199254740992 \<le> js_round_pos n"
proof -
  assume n: "9007199254740992 \<le> n"
  from ulp_large [OF n] have "4503599627370496 * 2 \<le> (n div ulp n) * ulp n"
    by (intro mult_mono) auto
  moreover have "(n div ulp n) * ulp n \<le> js_round_pos n"
    using ulp_pos [of n] by (auto simp: js_round_pos_def Let_def distrib_right)
  ultimately show ?thesis by simp
qed

lemma js_add_safe:
  assumes "0 \<le> a" and "0 \<le> b" and "js_add a b \<le> MAX_SAFE_INTEGER"
  shows "a + b \<le> MAX_SAFE_INTEGER"
proof (rule ccontr)
  assume "\<not> a + b \<le> MAX_SAFE_INTEGER"
  then have "9007199254740992 \<le> js_round_pos (a + b)"
    by (intro js_round_pos_large) (simp add: MAX_SAFE_INTEGER_def)
  with assms show False by (simp add: js_add_def js_round_def MAX_SAFE_INTEGER_def)
qed

section \<open>Decimal rendering\<close>

definition digit_char :: "int \<Rightarrow> char" where
  "digit_char d = ''0123456789'' ! nat d"

text \<open>The decimal digits of a non-negative integer.\<close>

function pos_str :: "int \<Rightarrow> string" where
  "pos_str n = (if n < 10 then [digit_char n] else pos_str (n div 10) @ [digit_char (n mod 10)])"
  by pat_completeness auto
termination
  by (relation "measure nat") auto

declare pos_str.simps [simp del]

definition int_str :: "int \<Rightarrow> string" where
  "int_str x = (if x < 0 then CHR ''-'' # pos_str (- x) else pos_str x)"

definition is_digit :: "char \<Rightarrow> bool" where
  "is_digit c \<longleftrightarrow> c \<in> set ''0123456789''"

definition digit_val :: "char \<Rightarrow> int" where
  "digit_val c = of_char c - 48"

lemma digit_cases:
  "0 \<le> d \<Longrightarrow> d < 10 \<Longrightarrow> d \<in> {0, 1, 2, 3, 4, 5, 6, 7, 8, 9 :: int}"
  unfolding insert_iff empty_iff by presburger

lemma digit_char_val: "0 \<le> d \<Longrightarrow> d < 10 \<Longrightarrow> digit_val (digit_char d) = d"
  by (drule (1) digit_cases) (auto simp: digit_val_def digit_char_def)

lemma digit_char_is_digit: "0 \<le> d \<Longrightarrow> d < 10 \<Longrightarrow> is_digit (digit_char d)"
  by (drule (1) digit_cases) (auto simp: is_digit_def digit_char_def)

lemma pos_str_digits: "0 \<le> n \<Longrightarrow> \<forall>c \<in> set (pos_str n). is_digit c"
proof (induction n rule: pos_str.induct)
  case (1 n)
  then show ?case
    by (subst pos_str.simps) (auto simp: digit_char_is_digit pos_imp_zdiv_nonneg_iff)
qed

lemma pos_str_nonempty: "pos_str n \<noteq> []"
  by (subst pos_str.simps) simp

definition str_val :: "string \<Rightarrow> int" where
  "str_val s = foldl (\<lambda>acc c. 10 * acc + digit_val c) 0 s"

lemma str_val_pos_str: "0 \<le> n \<Longrightarrow> str_val (pos_str n) = n"
proof (induction n rule: pos_str.induct)
  case (1 n)
  show ?case
  proof (cases "n < 10")
    case True
    with 1 show ?thesis by (subst pos_str.simps) (simp add: str_val_def digit_char_val)
  next
    case False
    with 1 have "str_val (pos_str (n div 10)) = n div 10" by simp
    with False show ?thesis
      by (subst pos_str.simps) (simp add: str_val_def digit_char_val)
  qed
qed

lemma pos_str_inject: "0 \<le> m \<Longrightarrow> 0 \<le> n \<Longrightarrow> pos_str m = pos_str n \<longleftrightarrow> m = n"
  by (metis str_val_pos_str)

lemma pos_str_not_minus: "0 \<le> n \<Longrightarrow> pos_str n \<noteq> CHR ''-'' # s"
proof
  assume "0 \<le> n" and "pos_str n = CHR ''-'' # s"
  then have "is_digit (CHR ''-'')" using pos_str_digits [of n] by simp
  then show False by (simp add: is_digit_def)
qed

lemma int_str_inject [simp]: "int_str a = int_str b \<longleftrightarrow> a = b"
proof
  assume eq: "int_str a = int_str b"
  consider "a < 0" "b < 0" | "0 \<le> a" "0 \<le> b" | "a < 0" "0 \<le> b" | "0 \<le> a" "b < 0" by linarith
  then show "a = b"
  proof cases
    case 1
    with eq have "pos_str (- a) = pos_str (- b)" unfolding int_str_def by simp
    with 1 show ?thesis using pos_str_inject [of "- a" "- b"] by simp
  next
    case 2
    with eq have "pos_str a = pos_str b" unfolding int_str_def by simp
    with 2 show ?thesis using pos_str_inject [of a b] by simp
  next
    case 3
    with eq have "pos_str b = CHR ''-'' # pos_str (- a)" unfolding int_str_def by simp
    with 3 show ?thesis using pos_str_not_minus by blast
  next
    case 4
    with eq have "pos_str a = CHR ''-'' # pos_str (- b)" unfolding int_str_def by simp
    with 4 show ?thesis using pos_str_not_minus by blast
  qed
qed simp

text \<open>
  Digits followed by something that is not a digit split in one way only: what makes a
  length prefix unambiguous.
\<close>

lemma digits_prefix_unique:
  assumes "\<forall>c \<in> set xs. is_digit c" and "\<forall>c \<in> set ys. is_digit c"
    and "\<not> is_digit a" and "\<not> is_digit b" and "xs @ a # us = ys @ b # vs"
  shows "xs = ys \<and> a = b \<and> us = vs"
  using assms
proof (induction xs arbitrary: ys)
  case Nil
  then show ?case by (cases ys) auto
next
  case (Cons x xs)
  then show ?case by (cases ys) auto
qed

lemma int_str_prefix:
  assumes "int_str a @ x # u = int_str b @ y # v"
    and "x \<notin> set (CHR ''-'' # ''0123456789'')" and "y \<notin> set (CHR ''-'' # ''0123456789'')"
  shows "a = b \<and> x # u = y # v"
proof -
  let ?P = "\<lambda>c. c \<in> set (CHR ''-'' # ''0123456789'')"
  have dig: "\<forall>c \<in> set (int_str n). ?P c" for n
    using pos_str_digits [of "- n"] pos_str_digits [of n] by (auto simp: int_str_def is_digit_def)
  have "takeWhile ?P (int_str a @ x # u) = int_str a" "takeWhile ?P (int_str b @ y # v) = int_str b"
    using dig assms(2,3) by (simp_all add: takeWhile_append del: set_simps)
  with assms(1) have "int_str a = int_str b" by metis
  with assms(1) show ?thesis by simp
qed

text \<open>A part written with its length in front: \<open>`${part.length}:${part}`\<close>.\<close>

lemma length_prefixed_unique:
  assumes "int_str (int (length p)) @ '':'' @ p @ r = int_str (int (length q)) @ '':'' @ q @ s"
  shows "p = q \<and> r = s"
proof -
  have "int_str (int (length p)) @ CHR '':'' # (p @ r) = int_str (int (length q)) @ CHR '':'' # (q @ s)"
    using assms by simp
  then have "length p = length q" and "p @ r = q @ s"
    by (auto dest: int_str_prefix)
  then show ?thesis by simp
qed

end
