(* ===== verification/CanonicalJson.thy ===== *)
theory CanonicalJson
  imports JsNumber
begin

text \<open>
  \<open>src/src/enterprise/governance-store/canonical-json.ts\<close> and \<open>digest.ts\<close>: the canonical
  serialization every digest is taken of, and the digest itself.

  The values are the plain data the stores digest: JSON data with integer numbers, and
  \<open>undefined\<close>. The branches of \<open>serializeValue\<close> that refuse functions, symbols, bigints,
  non-finite numbers, foreign prototypes and cycles have no value of \<open>json\<close> to reach them,
  and no digested record holds a \<open>Date\<close>. SHA-256 is Node's \<open>createHash\<close>: it is the parameter
  \<open>sha\<close>, from the serialized text to the hexadecimal digest.
\<close>

datatype json =
    JNull
  | JUndefined
  | JBool bool
  | JNum int
  | JStr string
  | JArr "json list"
  | JObj "(string \<times> json) list"

section \<open>Strings\<close>

definition hex_char :: "nat \<Rightarrow> char" where
  "hex_char n = ''0123456789abcdef'' ! n"

text \<open>One code unit inside a JSON string literal, as \<open>JSON.stringify\<close> writes it.\<close>

definition escape_char :: "char \<Rightarrow> string" where
  "escape_char c =
     (if c = CHR 0x22 then [CHR 0x5C, CHR 0x22]
      else if c = CHR 0x5C then [CHR 0x5C, CHR 0x5C]
      else if c = CHR 0x08 then [CHR 0x5C, CHR ''b'']
      else if c = CHR 0x0C then [CHR 0x5C, CHR ''f'']
      else if c = CHR 0x0A then [CHR 0x5C, CHR ''n'']
      else if c = CHR 0x0D then [CHR 0x5C, CHR ''r'']
      else if c = CHR 0x09 then [CHR 0x5C, CHR ''t'']
      else if of_char c < (32 :: nat)
        then [CHR 0x5C, CHR ''u'', CHR ''0'', CHR ''0'',
              hex_char (of_char c div 16), hex_char (of_char c mod 16)]
      else [c])"

definition json_quote :: "string \<Rightarrow> string" where
  "json_quote s = [CHR 0x22] @ concat (map escape_char s) @ [CHR 0x22]"

fun join :: "string \<Rightarrow> string list \<Rightarrow> string" where
  "join sep [] = []"
| "join sep [x] = x"
| "join sep (x # y # ys) = x @ sep @ join sep (y # ys)"

section \<open>Reading a string literal back\<close>

text \<open>
  The text of a string literal determines the string and where it ends: it is read back one
  code unit at a time, up to the closing quote.
\<close>

definition hex_val :: "char \<Rightarrow> int" where
  "hex_val c =
     (if c = CHR ''a'' then 10 else if c = CHR ''b'' then 11 else if c = CHR ''c'' then 12
      else if c = CHR ''d'' then 13 else if c = CHR ''e'' then 14 else if c = CHR ''f'' then 15
      else digit_val c)"

fun unescape_char :: "string \<Rightarrow> (char \<times> string) option" where
  "unescape_char [] = None"
| "unescape_char (c # r) =
     (if c = CHR 0x22 then None
      else if c \<noteq> CHR 0x5C then Some (c, r)
      else case r of
          [] \<Rightarrow> None
        | e # r' \<Rightarrow>
            if e = CHR ''u'' then Some (char_of (16 * hex_val (r' ! 2) + hex_val (r' ! 3)), drop 4 r')
            else Some (if e = CHR ''b'' then CHR 0x08 else if e = CHR ''f'' then CHR 0x0C
                       else if e = CHR ''n'' then CHR 0x0A else if e = CHR ''r'' then CHR 0x0D
                       else if e = CHR ''t'' then CHR 0x09 else e, r'))"

lemma unescape_control:
  assumes "of_char c < (32 :: nat)"
  shows "unescape_char (escape_char c @ r) = Some (c, r)"
proof (cases c)
  case (Char b0 b1 b2 b3 b4 b5 b6 b7)
  with assms have "b5 = False" "b6 = False" "b7 = False"
    by (auto simp: of_bool_def split: if_splits)
  then have "c = Char b0 b1 b2 b3 b4 False False False" using Char by simp
  then show ?thesis
    by (cases b0; cases b1; cases b2; cases b3; cases b4)
      (simp_all add: escape_char_def hex_char_def hex_val_def digit_val_def char_of_def)
qed

lemma unescape_escape: "unescape_char (escape_char c @ r) = Some (c, r)"
proof (cases "of_char c < (32 :: nat)")
  case True
  then show ?thesis by (rule unescape_control)
next
  case False
  then have "c \<noteq> CHR 0x08" "c \<noteq> CHR 0x0C" "c \<noteq> CHR 0x0A" "c \<noteq> CHR 0x0D" "c \<noteq> CHR 0x09"
    by auto
  with False show ?thesis by (auto simp: escape_char_def)
qed

lemma json_quote_unique:
  assumes "json_quote s @ r = json_quote t @ u"
  shows "s = t \<and> r = u"
proof -
  have next_char: "unescape_char (concat (map escape_char s) @ CHR 0x22 # r) =
      (case s of [] \<Rightarrow> None | c # cs \<Rightarrow> Some (c, concat (map escape_char cs) @ CHR 0x22 # r))" for s r
    by (cases s) (simp_all add: unescape_escape del: unescape_char.simps(2), simp)
  from assms have "concat (map escape_char s) @ CHR 0x22 # r = concat (map escape_char t) @ CHR 0x22 # u"
    by (simp add: json_quote_def)
  then show ?thesis
  proof (induction s arbitrary: t)
    case Nil
    then show ?case using next_char [of "[]" r] next_char [of t u] by (cases t) auto
  next
    case (Cons c s)
    then show ?case using next_char [of "c # s" r] next_char [of t u] by (cases t) auto
  qed
qed

lemma json_quote_inject [simp]: "json_quote s = json_quote t \<longleftrightarrow> s = t"
  using json_quote_unique [of s "[]" t "[]"] by auto

section \<open>Canonical serialization\<close>

text \<open>
  Keys with an \<open>undefined\<close> value are dropped, the others are written in the order of their
  code units; array elements keep their order.
\<close>

fun serializeValue :: "json \<Rightarrow> string"
  and serializeItems :: "json list \<Rightarrow> string list"
  and serializeEntries :: "(string \<times> json) list \<Rightarrow> (string \<times> string) list" where
  "serializeValue JNull = ''null''"
| "serializeValue JUndefined = ''null''"
| "serializeValue (JBool b) = (if b then ''true'' else ''false'')"
| "serializeValue (JNum n) = int_str n"
| "serializeValue (JStr s) = json_quote s"
| "serializeValue (JArr xs) = ''['' @ join '','' (serializeItems xs) @ '']''"
| "serializeValue (JObj fs) =
     ''{'' @ join '',''
        (map (\<lambda>(k, t). json_quote k @ '':'' @ t) (sort_by_id fst (serializeEntries fs))) @ ''}''"
| "serializeItems [] = []"
| "serializeItems (x # xs) = serializeValue x # serializeItems xs"
| "serializeEntries [] = []"
| "serializeEntries ((k, v) # fs) =
     (case v of JUndefined \<Rightarrow> serializeEntries fs
      | _ \<Rightarrow> (k, serializeValue v) # serializeEntries fs)"

definition canonicalSerialize :: "json \<Rightarrow> string" where
  "canonicalSerialize v = serializeValue v"

definition computeDigest :: "(string \<Rightarrow> string) \<Rightarrow> json \<Rightarrow> string" where
  "computeDigest sha v = ''sha256:'' @ sha (canonicalSerialize v)"

text \<open>\<open>digest.slice('sha256:'.length, 'sha256:'.length + n)\<close>\<close>

definition digest_slice :: "nat \<Rightarrow> string \<Rightarrow> string" where
  "digest_slice n d = take n (drop (length ''sha256:'') d)"

text \<open>\<open>...(value !== undefined ? { key: value } : {})\<close>\<close>

definition opt_field :: "string \<Rightarrow> string option \<Rightarrow> (string \<times> json) list" where
  "opt_field k v = (case v of None \<Rightarrow> [] | Some s \<Rightarrow> [(k, JStr s)])"

definition opt_list_field :: "string \<Rightarrow> string list option \<Rightarrow> (string \<times> json) list" where
  "opt_list_field k v = (case v of None \<Rightarrow> [] | Some xs \<Rightarrow> [(k, JArr (map JStr xs))])"

section \<open>Key order does not matter\<close>

lemma serializeEntries_append:
  "serializeEntries (fs @ gs) = serializeEntries fs @ serializeEntries gs"
  by (induction fs) (auto split: json.splits)

lemma serializeEntries_keys: "set (map fst (serializeEntries fs)) \<subseteq> set (map fst fs)"
proof (induction fs)
  case (Cons f fs)
  obtain k v where f: "f = (k, v)" by (cases f)
  from Cons show ?case by (cases v) (auto simp del: set_map simp: f)
qed simp

lemma serializeEntries_distinct:
  "distinct (map fst fs) \<Longrightarrow> distinct (map fst (serializeEntries fs))"
proof (induction fs)
  case (Cons f fs)
  obtain k v where f: "f = (k, v)" by (cases f)
  from Cons.prems have "k \<notin> set (map fst fs)" by (simp add: f)
  then have "k \<notin> set (map fst (serializeEntries fs))" using serializeEntries_keys by blast
  moreover have "distinct (map fst (serializeEntries fs))" using Cons by (simp add: f)
  ultimately show ?case by (cases v) (simp_all add: f)
qed simp

lemma mset_serializeEntries:
  "mset fs = mset gs \<Longrightarrow> mset (serializeEntries fs) = mset (serializeEntries gs)"
proof -
  define sel where "sel = (\<lambda>f :: string \<times> json. snd f \<noteq> JUndefined)"
  have conv: "serializeEntries fs = map (\<lambda>(k, v). (k, serializeValue v)) (filter sel fs)" for fs
    by (induction fs) (auto simp: sel_def split: json.splits)
  assume "mset fs = mset gs"
  then have "mset (filter sel fs) = mset (filter sel gs)" by simp
  then show ?thesis unfolding conv by (metis mset_map)
qed

lemma sort_by_id_unique:
  assumes "mset xs = mset ys" and "distinct (map f xs)"
  shows "sort_by_id f xs = sort_by_id f ys"
proof (rule map_inj_on [where f = f])
  have "mset (map f (sort_by_id f xs)) = mset (map f (sort_by_id f ys))"
    using assms(1) by simp
  then show "map f (sort_by_id f xs) = map f (sort_by_id f ys)"
    using sorted_sort_by_id [of f xs] sorted_sort_by_id [of f ys]
    by (metis properties_for_sort sorted_sort_id)
  have "set ys = set xs" using assms(1) by (metis set_mset_mset)
  then show "inj_on f (set (sort_by_id f xs) \<union> set (sort_by_id f ys))"
    using assms(2) by (simp add: distinct_map)
qed

text \<open>
  The digested text of an object does not depend on the order its keys were written in: the
  property the store's integrity checks rest on when a record is rebuilt field by field.
\<close>

lemma serialize_key_order:
  assumes "mset fs = mset gs" and "distinct (map fst fs)"
  shows "canonicalSerialize (JObj fs) = canonicalSerialize (JObj gs)"
proof -
  have "sort_by_id fst (serializeEntries fs) = sort_by_id fst (serializeEntries gs)"
    by (intro sort_by_id_unique mset_serializeEntries serializeEntries_distinct assms)
  then show ?thesis by (simp add: canonicalSerialize_def)
qed

end
