(* ===== verification/RightsScope.thy ===== *)
theory RightsScope
  imports CanonicalJson
begin

text \<open>
  \<open>src/packages/governed-authorization/src/governed-right.ts\<close> and
  \<open>governed-rights-scope.ts\<close>: the governed rights and the exact quantities of them, with the
  interface (\<open>quantity\<close>) through which every sum, comparison and difference of the capacity
  accounting is proved, interpreted on the code's three scope functions.
\<close>

section \<open>Governed rights\<close>

type_synonym GovernedRightType = string

definition GOVERNED_RIGHT_TYPES :: "GovernedRightType list" where
  "GOVERNED_RIGHT_TYPES =
     [''economic-interest'', ''revenue-right'', ''ownership-interest'', ''usage-right'',
      ''contractual-claim'']"

definition isGovernedRightType :: "string \<Rightarrow> bool" where
  "isGovernedRightType value = (value \<in> set GOVERNED_RIGHT_TYPES)"

section \<open>Scopes\<close>

text \<open>
  Quantities are whole numbers of any size and sign. The authority store refuses every other number,
  and negative ones; a report of an execution is recorded by the mandate stores with whatever number
  it carries, so for reports with a fraction of a unit nothing is said here.
\<close>

datatype GovernedRightsScope =
    Proportional (basisPoints: int)
  | Unitized (units: int) (unitDenomination: string)

definition GOVERNED_RIGHTS_SCOPE_FULL_BASIS_POINTS :: int where
  "GOVERNED_RIGHTS_SCOPE_FULL_BASIS_POINTS = 10000"

fun governedRightsScopeEquals :: "GovernedRightsScope \<Rightarrow> GovernedRightsScope \<Rightarrow> bool" where
  "governedRightsScopeEquals (Proportional a) (Proportional b) = (a = b)"
| "governedRightsScopeEquals (Proportional _) (Unitized _ _) = False"
| "governedRightsScopeEquals (Unitized a d) (Unitized b d') = (a = b \<and> d = d')"
| "governedRightsScopeEquals (Unitized _ _) (Proportional _) = False"

fun governedRightsScopeWithin :: "GovernedRightsScope \<Rightarrow> GovernedRightsScope \<Rightarrow> bool" where
  "governedRightsScopeWithin (Proportional a) (Proportional b) = (a \<le> b)"
| "governedRightsScopeWithin (Proportional _) (Unitized _ _) = False"
| "governedRightsScopeWithin (Unitized a d) (Unitized b d') = (d = d' \<and> a \<le> b)"
| "governedRightsScopeWithin (Unitized _ _) (Proportional _) = False"

text \<open>\<open>None\<close> is the code's \<open>null\<close>: the scopes are not commensurable.\<close>

fun governedRightsScopeSum ::
  "GovernedRightsScope \<Rightarrow> GovernedRightsScope \<Rightarrow> GovernedRightsScope option" where
  "governedRightsScopeSum (Proportional a) (Proportional b) = Some (Proportional (js_add a b))"
| "governedRightsScopeSum (Unitized a d) (Unitized b d') =
     (if d = d' then Some (Unitized (js_add a b) d) else None)"
| "governedRightsScopeSum _ _ = None"

fun serializeGovernedRightsScope :: "GovernedRightsScope \<Rightarrow> GovernedRightsScope" where
  "serializeGovernedRightsScope (Proportional a) = Proportional a"
| "serializeGovernedRightsScope (Unitized a d) = Unitized a d"

lemma serializeGovernedRightsScope_id [simp]: "serializeGovernedRightsScope s = s"
  by (cases s) simp_all

text \<open>\<open>isZeroGovernedRightsScope\<close> of \<open>governed-authority-position.ts\<close>.\<close>

fun isZeroGovernedRightsScope :: "GovernedRightsScope \<Rightarrow> bool" where
  "isZeroGovernedRightsScope (Proportional a) = (a = 0)"
| "isZeroGovernedRightsScope (Unitized a _) = (a = 0)"

text \<open>The scope as digested data, and as the text \<open>JSON.stringify\<close> gives for it.\<close>

fun scope_json :: "GovernedRightsScope \<Rightarrow> json" where
  "scope_json (Proportional a) = JObj [(''kind'', JStr ''proportional''), (''basisPoints'', JNum a)]"
| "scope_json (Unitized a d) =
     JObj [(''kind'', JStr ''unitized''), (''units'', JNum a), (''unitDenomination'', JStr d)]"

text \<open>\<open>JSON.stringify(serializeGovernedRightsScope(s))\<close>, which replays are compared by.\<close>

fun scope_text :: "GovernedRightsScope \<Rightarrow> string" where
  "scope_text (Proportional a) =
     ''{'' @ json_quote ''kind'' @ '':'' @ json_quote ''proportional'' @ '','' @
     json_quote ''basisPoints'' @ '':'' @ int_str a @ ''}''"
| "scope_text (Unitized a d) =
     ''{'' @ json_quote ''kind'' @ '':'' @ json_quote ''unitized'' @ '','' @
     json_quote ''units'' @ '':'' @ int_str a @ '','' @
     json_quote ''unitDenomination'' @ '':'' @ json_quote d @ ''}''"

lemma scope_text_inject: "scope_text s = scope_text t \<longleftrightarrow> s = t"
proof
  assume eq: "scope_text s = scope_text t"
  show "s = t"
  proof (cases s; cases t)
    fix a b
    assume "s = Proportional a" "t = Proportional b"
    with eq show ?thesis by (auto dest: int_str_prefix)
  next
    fix a b d
    assume "s = Proportional a" "t = Unitized b d"
    with eq show ?thesis by (auto dest: json_quote_unique)
  next
    fix a b d
    assume "s = Unitized b d" "t = Proportional a"
    with eq show ?thesis by (auto dest: json_quote_unique)
  next
    fix a d b d'
    assume "s = Unitized a d" "t = Unitized b d'"
    with eq show ?thesis by (auto dest!: int_str_prefix)
  qed
qed simp

section \<open>Units and amounts\<close>

text \<open>The abstract reading of a scope: what it counts, and how many of it.\<close>

fun unit_of :: "GovernedRightsScope \<Rightarrow> string option" where
  "unit_of (Proportional _) = None"
| "unit_of (Unitized _ d) = Some d"

fun amount :: "GovernedRightsScope \<Rightarrow> int" where
  "amount (Proportional a) = a"
| "amount (Unitized a _) = a"

lemma scope_eq_iff: "s = t \<longleftrightarrow> unit_of s = unit_of t \<and> amount s = amount t"
  by (cases s; cases t) auto

lemma scopeEquals_iff [simp]: "governedRightsScopeEquals s t \<longleftrightarrow> s = t"
  by (cases s; cases t) auto

lemma isZero_iff: "isZeroGovernedRightsScope s \<longleftrightarrow> amount s = 0"
  by (cases s) auto

lemma within_iff:
  "governedRightsScopeWithin s t \<longleftrightarrow> unit_of s = unit_of t \<and> amount s \<le> amount t"
  by (cases s; cases t) auto

section \<open>The interface of a quantity\<close>

text \<open>The running sum over a list of scopes, as the loops of the accounting take it.\<close>

datatype 'q sum_total = NoScope | TotalScope 'q | IncompatibleScopes

type_synonym ScopeTotal = "GovernedRightsScope sum_total"

fun sum_from :: "('q \<Rightarrow> 'q \<Rightarrow> 'q option) \<Rightarrow> 'q \<Rightarrow> 'q list \<Rightarrow> 'q option" where
  "sum_from add acc [] = Some acc"
| "sum_from add acc (x # xs) =
     (case add acc x of None \<Rightarrow> None | Some acc' \<Rightarrow> sum_from add acc' xs)"

fun total_of :: "('q \<Rightarrow> 'q \<Rightarrow> 'q option) \<Rightarrow> 'q list \<Rightarrow> 'q sum_total" where
  "total_of add [] = NoScope"
| "total_of add (x # xs) =
     (case sum_from add x xs of None \<Rightarrow> IncompatibleScopes | Some t \<Rightarrow> TotalScope t)"

locale quantity =
  fixes unitf :: "'q \<Rightarrow> 'u" and amt :: "'q \<Rightarrow> int"
    and within :: "'q \<Rightarrow> 'q \<Rightarrow> bool" and add :: "'q \<Rightarrow> 'q \<Rightarrow> 'q option"
    and limit :: int
  assumes within_law: "within a b \<longleftrightarrow> unitf a = unitf b \<and> amt a \<le> amt b"
    and ext: "unitf a = unitf b \<Longrightarrow> amt a = amt b \<Longrightarrow> a = b"
    and add_None: "add a b = None \<longleftrightarrow> unitf a \<noteq> unitf b"
    and add_unit: "add a b = Some c \<Longrightarrow> unitf c = unitf a"
    and add_amt: "add a b = Some c \<Longrightarrow> 0 \<le> amt a \<Longrightarrow> 0 \<le> amt b \<Longrightarrow>
                    amt a + amt b \<le> limit \<Longrightarrow> amt c = amt a + amt b"
    and add_safe: "add a b = Some c \<Longrightarrow> 0 \<le> amt a \<Longrightarrow> 0 \<le> amt b \<Longrightarrow>
                    amt c \<le> limit \<Longrightarrow> amt a + amt b \<le> limit"
    and add_nonneg: "add a b = Some c \<Longrightarrow> 0 \<le> amt a \<Longrightarrow> 0 \<le> amt b \<Longrightarrow> 0 \<le> amt c"
    and add_comm: "add a b = add b a"
begin

lemma within_refl: "within a a"
  by (simp add: within_law)

lemma within_trans: "within a b \<Longrightarrow> within b c \<Longrightarrow> within a c"
  by (simp add: within_law)

lemma within_antisym: "within a b \<Longrightarrow> within b a \<Longrightarrow> a = b"
  by (simp add: within_law ext)

lemma sum_from_None:
  "sum_from add acc xs = None \<longleftrightarrow> (\<exists>x \<in> set xs. unitf x \<noteq> unitf acc)"
proof (induction xs arbitrary: acc)
  case (Cons x xs)
  show ?case
  proof (cases "add acc x")
    case None
    then have "unitf x \<noteq> unitf acc" by (metis add_None)
    with None show ?thesis by simp
  next
    case (Some acc')
    then have "unitf acc' = unitf acc" and "unitf x = unitf acc"
      by (metis add_unit, metis add_None option.distinct(1))
    with Some Cons.IH [of acc'] show ?thesis by simp
  qed
qed simp

lemma sum_from_unit: "sum_from add acc xs = Some t \<Longrightarrow> unitf t = unitf acc"
  by (induction xs arbitrary: acc) (auto split: option.splits dest: add_unit)

lemma sum_from_nonneg:
  "sum_from add acc xs = Some t \<Longrightarrow> 0 \<le> amt acc \<Longrightarrow> (\<And>x. x \<in> set xs \<Longrightarrow> 0 \<le> amt x) \<Longrightarrow>
     0 \<le> amt t"
  by (induction xs arbitrary: acc) (auto split: option.splits dest: add_nonneg)

lemma sum_from_amt:
  assumes "sum_from add acc xs = Some t" and "0 \<le> amt acc"
    and "\<And>x. x \<in> set xs \<Longrightarrow> 0 \<le> amt x" and "amt acc + sum_list (map amt xs) \<le> limit"
  shows "amt t = amt acc + sum_list (map amt xs)"
  using assms
proof (induction xs arbitrary: acc)
  case (Cons x xs)
  then obtain acc' where a: "add acc x = Some acc'" and s: "sum_from add acc' xs = Some t"
    by (auto split: option.splits)
  have "0 \<le> sum_list (map amt xs)" using Cons.prems(3) by (intro sum_list_nonneg) auto
  with Cons.prems have "amt acc + amt x \<le> limit" by simp
  with a Cons.prems have "amt acc' = amt acc + amt x" by (intro add_amt) auto
  then show ?case using Cons.IH [OF s] Cons.prems by simp
qed simp

lemma sum_from_safe:
  assumes "sum_from add acc xs = Some t" and "0 \<le> amt acc"
    and "\<And>x. x \<in> set xs \<Longrightarrow> 0 \<le> amt x" and "amt t \<le> limit"
  shows "amt acc + sum_list (map amt xs) \<le> limit"
  using assms
proof (induction xs arbitrary: acc)
  case (Cons x xs)
  then obtain acc' where a: "add acc x = Some acc'" and s: "sum_from add acc' xs = Some t"
    by (auto split: option.splits)
  from a Cons.prems have nn: "0 \<le> amt acc'" by (auto intro: add_nonneg [OF a])
  have sum: "amt acc' + sum_list (map amt xs) \<le> limit" using Cons.IH [OF s nn] Cons.prems by simp
  moreover have "0 \<le> sum_list (map amt xs)" using Cons.prems(3) by (intro sum_list_nonneg) auto
  ultimately have "amt acc' \<le> limit" by simp
  with a Cons.prems have "amt acc + amt x \<le> limit" by (auto intro: add_safe [OF a])
  with a Cons.prems have "amt acc' = amt acc + amt x" by (intro add_amt) auto
  with sum show ?case by simp
qed simp

lemma total_NoScope: "total_of add xs = NoScope \<longleftrightarrow> xs = []"
  by (cases xs) (auto split: option.splits)

lemma total_Incompatible:
  "total_of add xs = IncompatibleScopes \<longleftrightarrow> (\<exists>x \<in> set xs. \<exists>y \<in> set xs. unitf x \<noteq> unitf y)"
proof (cases xs)
  case (Cons x ys)
  have "total_of add xs = IncompatibleScopes \<longleftrightarrow> (\<exists>y \<in> set ys. unitf y \<noteq> unitf x)"
    using sum_from_None [of x ys] by (auto simp: Cons split: option.splits)
  also have "\<dots> \<longleftrightarrow> (\<exists>y \<in> set xs. \<exists>z \<in> set xs. unitf y \<noteq> unitf z)"
    unfolding Cons by (simp, metis)
  finally show ?thesis .
qed simp

lemma total_unit:
  assumes "total_of add xs = TotalScope t" and "x \<in> set xs"
  shows "unitf x = unitf t"
proof -
  obtain y ys where xs: "xs = y # ys" using assms by (cases xs) auto
  with assms have s: "sum_from add y ys = Some t" by (simp split: option.splits)
  then have "\<forall>x \<in> set ys. unitf x = unitf y" using sum_from_None [of y ys] by auto
  with assms(2) sum_from_unit [OF s] show ?thesis by (auto simp: xs)
qed

lemma total_all_unit:
  assumes "total_of add xs = TotalScope t" and "\<And>x. x \<in> set xs \<Longrightarrow> unitf x = u"
  shows "unitf t = u"
proof -
  from assms(1) obtain x where "x \<in> set xs" by (cases xs) auto
  with total_unit [OF assms(1)] assms(2) show ?thesis by metis
qed

lemma total_nonneg:
  assumes "total_of add xs = TotalScope t" and "\<And>x. x \<in> set xs \<Longrightarrow> 0 \<le> amt x"
  shows "0 \<le> amt t"
  using assms by (cases xs) (auto split: option.splits intro: sum_from_nonneg)

lemma total_exact:
  assumes t: "total_of add xs = TotalScope t" and nn: "\<And>x. x \<in> set xs \<Longrightarrow> 0 \<le> amt x"
    and small: "amt t \<le> limit \<or> sum_list (map amt xs) \<le> limit"
  shows "amt t = sum_list (map amt xs)"
proof -
  obtain y ys where xs: "xs = y # ys" using t by (cases xs) auto
  with t have s: "sum_from add y ys = Some t" by (simp split: option.splits)
  from small have "amt y + sum_list (map amt ys) \<le> limit"
    using sum_from_safe [OF s] nn by (auto simp: xs)
  with sum_from_amt [OF s] nn show ?thesis by (simp add: xs)
qed

end

interpretation scopes: quantity unit_of amount governedRightsScopeWithin governedRightsScopeSum
  MAX_SAFE_INTEGER
proof unfold_locales
  fix a b c :: GovernedRightsScope
  show "governedRightsScopeWithin a b \<longleftrightarrow> unit_of a = unit_of b \<and> amount a \<le> amount b"
    by (rule within_iff)
  show "unit_of a = unit_of b \<Longrightarrow> amount a = amount b \<Longrightarrow> a = b"
    by (simp add: scope_eq_iff)
  show "governedRightsScopeSum a b = None \<longleftrightarrow> unit_of a \<noteq> unit_of b"
    by (cases a; cases b) auto
  show "governedRightsScopeSum a b = Some c \<Longrightarrow> unit_of c = unit_of a"
    by (cases a; cases b) (auto split: if_splits)
  show "governedRightsScopeSum a b = Some c \<Longrightarrow> 0 \<le> amount a \<Longrightarrow> 0 \<le> amount b \<Longrightarrow>
      amount a + amount b \<le> MAX_SAFE_INTEGER \<Longrightarrow> amount c = amount a + amount b"
    by (cases a; cases b) (auto split: if_splits simp: js_add_exact)
  show "governedRightsScopeSum a b = Some c \<Longrightarrow> 0 \<le> amount a \<Longrightarrow> 0 \<le> amount b \<Longrightarrow>
      amount c \<le> MAX_SAFE_INTEGER \<Longrightarrow> amount a + amount b \<le> MAX_SAFE_INTEGER"
    by (cases a; cases b) (auto split: if_splits simp: js_add_safe)
  show "governedRightsScopeSum a b = Some c \<Longrightarrow> 0 \<le> amount a \<Longrightarrow> 0 \<le> amount b \<Longrightarrow> 0 \<le> amount c"
    by (cases a; cases b) (auto split: if_splits simp: js_add_nonneg)
  show "governedRightsScopeSum a b = governedRightsScopeSum b a"
    by (cases a; cases b) (auto simp: js_add_commute)
qed

text \<open>The amount of a scope in one unit: zero for a scope that counts something else.\<close>

definition amount_in :: "string option \<Rightarrow> GovernedRightsScope \<Rightarrow> int" where
  "amount_in u s = (if unit_of s = u then amount s else 0)"

lemma amount_in_unit [simp]: "amount_in (unit_of s) s = amount s"
  by (simp add: amount_in_def)

lemma amount_in_nonneg: "0 \<le> amount s \<Longrightarrow> 0 \<le> amount_in u s"
  by (simp add: amount_in_def)

end
