(* ===== verification/UtcTime.thy ===== *)
theory UtcTime
  imports JsNumber "HOL-Library.Monad_Syntax"
begin

text \<open>
  The strict UTC timestamps every store requires and the instant \<open>Date.parse\<close> reads from
  one, in milliseconds since the epoch.

  \<open>Date.parse\<close> is modelled on the strings the strict pattern accepts, by the rules of the
  platform's ISO 8601 reader: month 1 to 12, day 1 to 31 (a day past the end of its month
  runs into the next one), hour 0 to 23 or exactly 24:00:00, fractions cut to
  milliseconds. Every other string reads as \<open>NaN\<close>, here \<^const>\<open>None\<close>. The stores reject such strings
  before they compare instants; the resolvers compare the instant of a query as it comes, so for
  a query whose instant is written in another form that \<open>Date.parse\<close> happens to read (a date
  without a time, an offset) the model answers as for an instant that cannot be read.
\<close>

section \<open>Reading the pattern\<close>

definition read2 :: "string \<Rightarrow> (int \<times> string) option" where
  "read2 s =
     (case s of
        a # b # r \<Rightarrow>
          if is_digit a \<and> is_digit b then Some (10 * digit_val a + digit_val b, r) else None
      | _ \<Rightarrow> None)"

definition read4 :: "string \<Rightarrow> (int \<times> string) option" where
  "read4 s = do {
     (hi, r) \<leftarrow> read2 s;
     (lo, r) \<leftarrow> read2 r;
     Some (100 * hi + lo, r)
   }"

fun read_char :: "char \<Rightarrow> string \<Rightarrow> string option" where
  "read_char c [] = None"
| "read_char c (d # s) = (if c = d then Some s else None)"

record utc_fields =
  u_year :: int
  u_month :: int
  u_day :: int
  u_hour :: int
  u_minute :: int
  u_second :: int
  u_ms :: int

text \<open>The optional \<open>(\.\d{1,9})\<close> part, cut to milliseconds, with what follows it.\<close>

definition read_fraction :: "string \<Rightarrow> (int \<times> string) option" where
  "read_fraction s =
     (case s of
        CHR ''.'' # r \<Rightarrow>
          (let ds = takeWhile is_digit r
           in if ds = [] \<or> 9 < length ds then None
              else Some (str_val (take 3 (ds @ ''00'')), dropWhile is_digit r))
      | _ \<Rightarrow> Some (0, s))"

definition utc_suffix :: "string \<Rightarrow> bool" where
  "utc_suffix s \<longleftrightarrow> s = ''Z'' \<or> s = ''+00:00'' \<or> s = ''-00:00''"

text \<open>
  \<open>/^\d{4}-\d{2}-\d{2}T\d{2}:\d{2}:\d{2}(\.\d{1,9})?(Z|[+-]00:00)$/\<close>, returning what its
  groups read.
\<close>

definition read_strict_utc :: "string \<Rightarrow> utc_fields option" where
  "read_strict_utc s = do {
     (y, s) \<leftarrow> read4 s;
     s \<leftarrow> read_char (CHR ''-'') s;
     (mo, s) \<leftarrow> read2 s;
     s \<leftarrow> read_char (CHR ''-'') s;
     (d, s) \<leftarrow> read2 s;
     s \<leftarrow> read_char (CHR ''T'') s;
     (h, s) \<leftarrow> read2 s;
     s \<leftarrow> read_char (CHR '':'') s;
     (mi, s) \<leftarrow> read2 s;
     s \<leftarrow> read_char (CHR '':'') s;
     (sec, s) \<leftarrow> read2 s;
     (ms, s) \<leftarrow> read_fraction s;
     if utc_suffix s
     then Some \<lparr>u_year = y, u_month = mo, u_day = d, u_hour = h, u_minute = mi,
                u_second = sec, u_ms = ms\<rparr>
     else None
   }"

section \<open>The instant\<close>

text \<open>Days since 1970-01-01 of a date in the proleptic Gregorian calendar.\<close>

definition days_from_civil :: "int \<Rightarrow> int \<Rightarrow> int \<Rightarrow> int" where
  "days_from_civil y m d =
     (let y' = (if m \<le> 2 then y - 1 else y);
          era = y' div 400;
          yoe = y' mod 400;
          doy = (153 * (m + (if m > 2 then -3 else 9)) + 2) div 5 + d - 1;
          doe = yoe * 365 + yoe div 4 - yoe div 100 + doy
      in era * 146097 + doe - 719468)"

definition valid_utc_fields :: "utc_fields \<Rightarrow> bool" where
  "valid_utc_fields u \<longleftrightarrow>
     1 \<le> u_month u \<and> u_month u \<le> 12 \<and> 1 \<le> u_day u \<and> u_day u \<le> 31 \<and>
     u_minute u \<le> 59 \<and> u_second u \<le> 59 \<and>
     (u_hour u \<le> 23 \<or> (u_hour u = 24 \<and> u_minute u = 0 \<and> u_second u = 0 \<and> u_ms u = 0))"

definition Date_parse :: "string \<Rightarrow> int option" where
  "Date_parse s =
     (case read_strict_utc s of
        None \<Rightarrow> None
      | Some u \<Rightarrow>
          if valid_utc_fields u
          then Some (((days_from_civil (u_year u) (u_month u) (u_day u) * 24
                        + u_hour u) * 60 + u_minute u) * 60000
                     + u_second u * 1000 + u_ms u)
          else None)"

text \<open>The pattern test and \<open>Number.isFinite(Date.parse(value))\<close>.\<close>

definition isStrictUtcTimestamp :: "string \<Rightarrow> bool" where
  "isStrictUtcTimestamp s \<longleftrightarrow> read_strict_utc s \<noteq> None \<and> Date_parse s \<noteq> None"

text \<open>\<open>Date.parse(a) >= Date.parse(b)\<close> and \<open>Date.parse(a) < Date.parse(b)\<close>; false on \<open>NaN\<close>.\<close>

definition instant_ge :: "string \<Rightarrow> string \<Rightarrow> bool" where
  "instant_ge a b =
     (case Date_parse a of None \<Rightarrow> False
      | Some x \<Rightarrow> (case Date_parse b of None \<Rightarrow> False | Some y \<Rightarrow> y \<le> x))"

definition instant_lt :: "string \<Rightarrow> string \<Rightarrow> bool" where
  "instant_lt a b =
     (case Date_parse a of None \<Rightarrow> False
      | Some x \<Rightarrow> (case Date_parse b of None \<Rightarrow> False | Some y \<Rightarrow> x < y))"

lemma isStrictUtcTimestamp_instant: "isStrictUtcTimestamp s \<longleftrightarrow> (\<exists>t. Date_parse s = Some t)"
  by (auto simp: isStrictUtcTimestamp_def Date_parse_def split: option.splits)

lemma instant_ge_trans: "instant_ge a b \<Longrightarrow> instant_ge b c \<Longrightarrow> instant_ge a c"
  by (auto simp: instant_ge_def split: option.splits)

lemma instant_ge_refl: "isStrictUtcTimestamp a \<Longrightarrow> instant_ge a a"
  by (auto simp: instant_ge_def isStrictUtcTimestamp_instant)

lemma instant_not_lt:
  "isStrictUtcTimestamp a \<Longrightarrow> isStrictUtcTimestamp b \<Longrightarrow> \<not> instant_lt a b \<longleftrightarrow> instant_ge a b"
  by (auto simp: instant_ge_def instant_lt_def isStrictUtcTimestamp_instant)

lemma instant_lt_not_ge: "instant_lt a b \<Longrightarrow> \<not> instant_ge a b"
  by (auto simp: instant_ge_def instant_lt_def split: option.splits)

lemma instant_ge_strict: "instant_ge a b \<Longrightarrow> isStrictUtcTimestamp a \<and> isStrictUtcTimestamp b"
  by (auto simp: instant_ge_def isStrictUtcTimestamp_instant split: option.splits)

end
