(* ===== verification/AuthorityTypes.thy ===== *)
theory AuthorityTypes
  imports RightsScope UtcTime
begin

text \<open>
  The records of governed authority: positions, transitions, reservations and encumbrances
  (\<open>src/packages/governed-authority/src\<close>), the inputs and outcomes of the store's operations
  (\<open>src/src/enterprise/authority-governance/contracts.ts\<close>), its errors (\<open>errors.ts\<close>, as their
  codes) and its tenancy and timestamp guards (\<open>authority-store.ts\<close>).

  A TypeScript optional field is an \<open>option\<close>; a field that other records share the name of
  carries the initial of its record.
\<close>

section \<open>Errors\<close>

datatype AuthorityGovernanceErrorCode =
    INSUFFICIENT_SCOPE
  | SCOPE_INCOMPATIBLE
  | SCOPE_INVALID
  | BASIS_INVALID
  | BOOTSTRAP_NOT_PERMITTED
  | POSITION_NOT_FOUND
  | TRANSITION_CONFLICT
  | INVALID_TIMESTAMP
  | TENANT_SCOPE_REQUIRED
  | ACCESS_SCOPE_VIOLATION
  | STORE_UNAVAILABLE
  | RECORD_CORRUPTED
  | AVAILABILITY_INSUFFICIENT
  | RESERVATION_CONFLICT
  | RESERVATION_NOT_FOUND
  | RESERVATION_RECORD_CORRUPTED
  | ENCUMBRANCE_BASIS_INVALID
  | ENCUMBRANCE_CONFLICT
  | ENCUMBRANCE_NOT_FOUND
  | ENCUMBRANCE_UNCOVERED
  | ENCUMBRANCE_RECORD_CORRUPTED
  | ENCUMBRANCE_RELEASE_BASIS_INVALID
  | ENCUMBRANCE_RELEASE_CONFLICT
  | ENCUMBRANCE_RELEASE_NOT_PERMITTED
  | CONSTRAINT_APPLICABILITY_UNDECLARED
  | CONSTRAINT_STATE_INVALID
  | REPRESENTATION_GRANT_NOT_PERMITTED
  | REPRESENTATION_INVALID
  | REPRESENTATION_BASIS_INVALID
  | REPRESENTATION_SCOPE_EXPANSION
  | REPRESENTATION_NOT_FOUND
  | REPRESENTATION_CONFLICT
  | REPRESENTATION_RECORD_CORRUPTED

type_synonym 'a outcome = "AuthorityGovernanceErrorCode + 'a"

section \<open>Positions, bases and transitions\<close>

record GovernedAuthorityPositionKey =
  pk_tenantId :: string
  pk_actorRef :: string
  pk_resourceKind :: string
  pk_resourceId :: string
  pk_governedRight :: GovernedRightType

record GovernedAuthorityPosition =
  p_id :: string
  p_tenantId :: string
  p_actorRef :: string
  p_resourceKind :: string
  p_resourceId :: string
  p_governedRight :: GovernedRightType
  p_scope :: GovernedRightsScope
  p_effectiveFrom :: string
  p_expiresAt :: "string option"
  p_createdAt :: string
  p_updatedAt :: string
  p_lastTransitionRef :: string
  p_digest :: string

text \<open>The three bases, with the code's fields.\<close>

datatype GovernedAuthorityBasis =
    AdministrativeBootstrap (ab_assertedBy: string) (ab_evidenceRefs: "string list option")
  | RecognizedExternalEvidence (ee_assertedBy: string) (ee_evidenceRefs: "string list")
      (ee_externalSystem: "string option")
  | GovernedExecution (gx_capability: string) (gx_executionRef: string) (gx_mandateRef: string)
      (gx_decisionRef: "string option") (gx_evaluationRef: "string option")
      (gx_evidenceRefs: "string list option")

record GovernedAuthorityTransition =
  t_id :: string
  t_tenantId :: string
  t_sequence :: int
  t_resourceKind :: string
  t_resourceId :: string
  t_governedRight :: GovernedRightType
  t_scope :: GovernedRightsScope
  t_fromActorRef :: "string option"
  t_toActorRef :: string
  t_basis :: GovernedAuthorityBasis
  t_occurredAt :: string
  t_recordedAt :: string
  t_correlationId :: "string option"
  t_previousDigest :: "string option"
  t_digest :: string

section \<open>Reservations and encumbrances\<close>

datatype GovernedAuthorityReservationStatus = RsActive | RsConsumed | RsEncumbered | RsReleased

record GovernedAuthorityReservation =
  r_id :: string
  r_tenantId :: string
  r_holderRef :: string
  r_resourceKind :: string
  r_resourceId :: string
  r_governedRight :: GovernedRightType
  r_scope :: GovernedRightsScope
  r_action :: string
  r_sourceRequestRef :: string
  r_sourceDecisionRef :: "string option"
  r_sourceMandateRef :: string
  r_effectiveFrom :: string
  r_expiresAt :: string
  r_status :: GovernedAuthorityReservationStatus
  r_idempotencyKey :: string
  r_correlationId :: "string option"
  r_createdAt :: string
  r_updatedAt :: string
  r_digest :: string

datatype GovernedAuthorityEncumbranceStatus = EsActive | EsReleased

datatype GovernedAuthorityEncumbranceReleaseBasisKind = RbGovernedExecution | RbAdministrative

datatype GovernedAuthorityEncumbranceReleaseBasis =
    ReleaseByExecution (rb_action: string) (rb_mandateRef: string) (rb_executionRef: string)
  | ReleaseByAdministrator (rb_assertedBy: string) (rb_reasonCode: string)

record GovernedAuthorityEncumbrance =
  e_id :: string
  e_tenantId :: string
  e_holderRef :: string
  e_resourceKind :: string
  e_resourceId :: string
  e_governedRight :: GovernedRightType
  e_scope :: GovernedRightsScope
  e_sourceAction :: string
  e_sourceMandateRef :: string
  e_sourceExecutionRef :: string
  e_sourceReservationRef :: "string option"
  e_effectiveFrom :: string
  e_status :: GovernedAuthorityEncumbranceStatus
  e_releasedAt :: "string option"
  e_releaseBasis :: "GovernedAuthorityEncumbranceReleaseBasisKind option"
  e_releaseAction :: "string option"
  e_releaseMandateRef :: "string option"
  e_releaseExecutionRef :: "string option"
  e_releasedBy :: "string option"
  e_releaseReasonCode :: "string option"
  e_idempotencyKey :: string
  e_correlationId :: "string option"
  e_createdAt :: string
  e_updatedAt :: string
  e_digest :: string

section \<open>Inputs and outcomes\<close>

record AuthorityGovernanceContext =
  cx_system :: bool
  cx_organizationId :: "string option"
  cx_actorId :: "string option"

record GovernedAuthorityResourceRef =
  rr_kind :: string
  rr_id :: string

record BootstrapGovernedAuthorityInput =
  b_transitionId :: "string option"
  b_positionId :: "string option"
  b_tenantId :: string
  b_holderRef :: string
  b_resource :: GovernedAuthorityResourceRef
  b_governedRight :: GovernedRightType
  b_scope :: GovernedRightsScope
  b_basis :: GovernedAuthorityBasis
  b_effectiveFrom :: string
  b_expiresAt :: "string option"
  b_occurredAt :: "string option"
  b_correlationId :: "string option"

text \<open>\<open>basis\<close> is the \<open>governed-execution\<close> variant: its fields stand in the record.\<close>

record ApplyGovernedAuthorityTransitionInput =
  a_transitionIdPrefix :: "string option"
  a_tenantId :: string
  a_resource :: GovernedAuthorityResourceRef
  a_governedRights :: "GovernedRightType list"
  a_scope :: GovernedRightsScope
  a_fromHolderRef :: string
  a_toHolderRef :: string
  a_basis :: GovernedAuthorityBasis
  a_occurredAt :: string
  a_correlationId :: "string option"
  a_consumesReservationsForMandateRef :: "string option"

record ApplyGovernedAuthorityTransitionOutcome =
  ao_transitions :: "GovernedAuthorityTransition list"
  ao_replayed :: bool

record AcquireGovernedAuthorityReservationInput =
  q_tenantId :: string
  q_holderRef :: string
  q_resource :: GovernedAuthorityResourceRef
  q_governedRight :: GovernedRightType
  q_scope :: GovernedRightsScope
  q_action :: string
  q_sourceRequestRef :: string
  q_sourceDecisionRef :: "string option"
  q_sourceMandateRef :: string
  q_effectiveFrom :: string
  q_expiresAt :: string
  q_idempotencyKey :: "string option"
  q_correlationId :: "string option"

datatype AcquireGovernedAuthorityReservationOutcome =
    Reserved GovernedAuthorityReservation bool
  | ReservationNotEnrolled

datatype GovernedAuthorityReservationReleaseReason = AuthorizationEnded | AdministrativeRelease

record ReleaseGovernedAuthorityReservationInput =
  rl_tenantId :: string
  rl_reservationId :: string
  rl_reason :: GovernedAuthorityReservationReleaseReason
  rl_releasedAt :: "string option"

record GovernedAuthorityAvailabilityQuery =
  av_tenantId :: string
  av_holderRef :: string
  av_resource :: GovernedAuthorityResourceRef
  av_governedRight :: GovernedRightType
  av_at :: string

record RecordGovernedAuthorityEncumbranceInput =
  n_tenantId :: string
  n_holderRef :: string
  n_resource :: GovernedAuthorityResourceRef
  n_governedRight :: GovernedRightType
  n_scope :: GovernedRightsScope
  n_sourceAction :: string
  n_sourceMandateRef :: string
  n_sourceExecutionRef :: string
  n_effectiveFrom :: string
  n_consumesReservationsForMandateRef :: "string option"
  n_idempotencyKey :: "string option"
  n_correlationId :: "string option"

datatype RecordGovernedAuthorityEncumbranceOutcome =
    Encumbered GovernedAuthorityEncumbrance bool
  | EncumbranceNotEnrolled

record ReleaseGovernedAuthorityEncumbranceInput =
  l_tenantId :: string
  l_encumbranceId :: string
  l_basis :: GovernedAuthorityEncumbranceReleaseBasis
  l_releasedAt :: "string option"

record GovernedAuthorityProvenance =
  pv_position :: GovernedAuthorityPosition
  pv_transitions :: "GovernedAuthorityTransition list"

section \<open>Guards\<close>

definition canAccessAuthorityOrganization :: "AuthorityGovernanceContext \<Rightarrow> string \<Rightarrow> bool" where
  "canAccessAuthorityOrganization context recordOrganizationId =
     (cx_system context \<or> cx_organizationId context = Some recordOrganizationId)"

definition requireAuthorityTenantScope :: "AuthorityGovernanceContext \<Rightarrow> unit outcome" where
  "requireAuthorityTenantScope context =
     check TENANT_SCOPE_REQUIRED
       (\<not> (\<not> cx_system context \<and> cx_organizationId context \<in> {None, Some []}))"

definition requireAuthorityAccessToOrganization ::
  "AuthorityGovernanceContext \<Rightarrow> string \<Rightarrow> unit outcome" where
  "requireAuthorityAccessToOrganization context organizationId =
     rbind (requireAuthorityTenantScope context) (\<lambda>_.
       check ACCESS_SCOPE_VIOLATION (canAccessAuthorityOrganization context organizationId))"

definition requireStrictUtcAuthorityTimestamp :: "string \<Rightarrow> string outcome" where
  "requireStrictUtcAuthorityTimestamp value =
     (if isStrictUtcTimestamp value then Inr value else Inl INVALID_TIMESTAMP)"

lemma requireAuthorityAccess_Inr [outcome_simps]:
  "requireAuthorityAccessToOrganization c org = Inr u \<longleftrightarrow>
     cx_system c \<or> (cx_organizationId c = Some org \<and> org \<noteq> [])"
  by (auto simp: requireAuthorityAccessToOrganization_def requireAuthorityTenantScope_def
      canAccessAuthorityOrganization_def outcome_simps)

lemma requireStrictUtc_Inr [outcome_simps]:
  "requireStrictUtcAuthorityTimestamp v = Inr w \<longleftrightarrow> w = v \<and> isStrictUtcTimestamp v"
  by (auto simp: requireStrictUtcAuthorityTimestamp_def)

lemma requireStrictUtc_Inl [outcome_simps]:
  "requireStrictUtcAuthorityTimestamp v = Inl e \<longleftrightarrow> e = INVALID_TIMESTAMP \<and> \<not> isStrictUtcTimestamp v"
  by (auto simp: requireStrictUtcAuthorityTimestamp_def)

end
