(* ===== verification/AuthorityLifecycle.thy ===== *)
theory AuthorityLifecycle
  imports AuthorityTypes
begin

text \<open>
  \<open>src/src/enterprise/authority-governance/lifecycle.ts\<close> and the pure functions of
  \<open>governed-authority-position.ts\<close> and \<open>governed-authority-basis.ts\<close>: what a position and a
  transition may be, how scopes are added and subtracted, the digests that seal records, the
  chain of a tenant's transitions, and the derived identifiers.

  The interface \<open>sealed_record\<close> is the contract of a record that carries its own digest; it is
  interpreted here on positions and transitions.
\<close>

section \<open>Positions and bases\<close>

definition governedAuthorityPositionKey :: "GovernedAuthorityPositionKey \<Rightarrow> string" where
  "governedAuthorityPositionKey k =
     join ''|'' (map (\<lambda>part. int_str (int (length part)) @ '':'' @ part)
       [pk_tenantId k, pk_actorRef k, pk_resourceKind k, pk_resourceId k, pk_governedRight k])"

datatype GovernedAuthorityPositionState = PsPending | PsActive | PsExhausted | PsExpired

definition governedAuthorityPositionState ::
  "GovernedAuthorityPosition \<Rightarrow> string \<Rightarrow> GovernedAuthorityPositionState" where
  "governedAuthorityPositionState position at =
     (if instant_lt at (p_effectiveFrom position) then PsPending
      else if (case p_expiresAt position of None \<Rightarrow> False | Some ex \<Rightarrow> instant_ge at ex) then PsExpired
      else if isZeroGovernedRightsScope (p_scope position) then PsExhausted else PsActive)"

fun isGovernedAuthorityIssuanceBasis :: "GovernedAuthorityBasis \<Rightarrow> bool" where
  "isGovernedAuthorityIssuanceBasis (AdministrativeBootstrap _ _) = True"
| "isGovernedAuthorityIssuanceBasis (RecognizedExternalEvidence _ _ _) = True"
| "isGovernedAuthorityIssuanceBasis (GovernedExecution _ _ _ _ _ _) = False"

section \<open>Validation\<close>

fun assertValidAuthorityScope :: "GovernedRightsScope \<Rightarrow> GovernedRightsScope outcome" where
  "assertValidAuthorityScope (Proportional b) =
     (if \<not> isSafeInteger b \<or> b < 0 then Inl SCOPE_INVALID else Inr (Proportional b))"
| "assertValidAuthorityScope (Unitized n d) =
     (if \<not> isSafeInteger n \<or> n < 0 then Inl SCOPE_INVALID
      else if length d = 0 then Inl SCOPE_INVALID
      else Inr (Unitized n d))"

definition assertNonZeroAuthorityScope :: "GovernedRightsScope \<Rightarrow> GovernedRightsScope outcome" where
  "assertNonZeroAuthorityScope scope =
     (if isZeroGovernedRightsScope scope then Inl SCOPE_INVALID else Inr scope)"

definition assertKnownGovernedRight :: "string \<Rightarrow> unit outcome" where
  "assertKnownGovernedRight value = check SCOPE_INVALID (isGovernedRightType value)"

definition assertBasisMatchesMovement :: "GovernedAuthorityBasis \<Rightarrow> string option \<Rightarrow> unit outcome" where
  "assertBasisMatchesMovement basis fromActorRef =
     (let issuance = isGovernedAuthorityIssuanceBasis basis
      in if issuance \<and> fromActorRef \<noteq> None then Inl BASIS_INVALID
         else if \<not> issuance \<and> fromActorRef = None then Inl BASIS_INVALID
         else Inr ())"

definition assertDistinctHolders :: "string \<Rightarrow> string \<Rightarrow> unit outcome" where
  "assertDistinctHolders fromActorRef toActorRef = check BASIS_INVALID (fromActorRef \<noteq> toActorRef)"

section \<open>Adding and subtracting scopes\<close>

definition addAuthorityScopes ::
  "GovernedRightsScope \<Rightarrow> GovernedRightsScope \<Rightarrow> GovernedRightsScope outcome" where
  "addAuthorityScopes a b =
     (case governedRightsScopeSum a b of None \<Rightarrow> Inl SCOPE_INCOMPATIBLE | Some summed \<Rightarrow> Inr summed)"

text \<open>The code's kind guard, which names the pairs that cannot be subtracted.\<close>

fun scopesDiffer :: "GovernedRightsScope \<Rightarrow> GovernedRightsScope \<Rightarrow> bool" where
  "scopesDiffer (Proportional _) (Proportional _) = False"
| "scopesDiffer (Unitized _ d) (Unitized _ d') = (d \<noteq> d')"
| "scopesDiffer _ _ = True"

definition subtractAuthorityScope ::
  "GovernedRightsScope \<Rightarrow> GovernedRightsScope \<Rightarrow> GovernedRightsScope outcome" where
  "subtractAuthorityScope available amt =
     (if scopesDiffer available amt then Inl SCOPE_INCOMPATIBLE
      else if \<not> governedRightsScopeWithin amt available then Inl INSUFFICIENT_SCOPE
      else case (available, amt) of
          (Proportional a, Proportional b) \<Rightarrow> Inr (Proportional (js_sub a b))
        | (Unitized a d, Unitized b _) \<Rightarrow> Inr (Unitized (js_sub a b) d)
        | _ \<Rightarrow> Inl SCOPE_INCOMPATIBLE)"

section \<open>Digests\<close>

fun basis_json :: "GovernedAuthorityBasis \<Rightarrow> json" where
  "basis_json (AdministrativeBootstrap by refs) =
     JObj ([(''kind'', JStr ''administrative-bootstrap''), (''assertedBy'', JStr by)]
       @ opt_list_field ''evidenceRefs'' refs)"
| "basis_json (RecognizedExternalEvidence by refs sys) =
     JObj ([(''kind'', JStr ''recognized-external-evidence''), (''assertedBy'', JStr by),
            (''evidenceRefs'', JArr (map JStr refs))] @ opt_field ''externalSystem'' sys)"
| "basis_json (GovernedExecution cap ex man dec ev refs) =
     JObj ([(''kind'', JStr ''governed-execution''), (''capability'', JStr cap),
            (''executionRef'', JStr ex), (''mandateRef'', JStr man)]
       @ opt_field ''decisionRef'' dec @ opt_field ''evaluationRef'' ev
       @ opt_list_field ''evidenceRefs'' refs)"

definition projectPositionForDigest :: "GovernedAuthorityPosition \<Rightarrow> json" where
  "projectPositionForDigest p = JObj (
     [(''id'', JStr (p_id p)), (''tenantId'', JStr (p_tenantId p)),
      (''actorRef'', JStr (p_actorRef p)), (''resourceKind'', JStr (p_resourceKind p)),
      (''resourceId'', JStr (p_resourceId p)), (''governedRight'', JStr (p_governedRight p)),
      (''scope'', scope_json (serializeGovernedRightsScope (p_scope p))),
      (''effectiveFrom'', JStr (p_effectiveFrom p))]
     @ opt_field ''expiresAt'' (p_expiresAt p) @
     [(''createdAt'', JStr (p_createdAt p)), (''updatedAt'', JStr (p_updatedAt p)),
      (''lastTransitionRef'', JStr (p_lastTransitionRef p))])"

definition computePositionDigest :: "(string \<Rightarrow> string) \<Rightarrow> GovernedAuthorityPosition \<Rightarrow> string" where
  "computePositionDigest sha p = computeDigest sha (projectPositionForDigest p)"

definition projectTransitionForDigest :: "GovernedAuthorityTransition \<Rightarrow> json" where
  "projectTransitionForDigest t = JObj (
     [(''id'', JStr (t_id t)), (''tenantId'', JStr (t_tenantId t)),
      (''sequence'', JNum (t_sequence t)), (''resourceKind'', JStr (t_resourceKind t)),
      (''resourceId'', JStr (t_resourceId t)), (''governedRight'', JStr (t_governedRight t)),
      (''scope'', scope_json (serializeGovernedRightsScope (t_scope t)))]
     @ opt_field ''fromActorRef'' (t_fromActorRef t) @
     [(''toActorRef'', JStr (t_toActorRef t)), (''basis'', basis_json (t_basis t)),
      (''occurredAt'', JStr (t_occurredAt t)), (''recordedAt'', JStr (t_recordedAt t))]
     @ opt_field ''correlationId'' (t_correlationId t)
     @ opt_field ''previousDigest'' (t_previousDigest t))"

definition computeTransitionDigest :: "(string \<Rightarrow> string) \<Rightarrow> GovernedAuthorityTransition \<Rightarrow> string" where
  "computeTransitionDigest sha t = computeDigest sha (projectTransitionForDigest t)"

definition assertPositionIntegrity ::
  "(string \<Rightarrow> string) \<Rightarrow> GovernedAuthorityPosition \<Rightarrow> GovernedAuthorityPosition outcome" where
  "assertPositionIntegrity sha p =
     (if computePositionDigest sha p \<noteq> p_digest p then Inl RECORD_CORRUPTED else Inr p)"

definition assertTransitionIntegrity ::
  "(string \<Rightarrow> string) \<Rightarrow> GovernedAuthorityTransition \<Rightarrow> GovernedAuthorityTransition outcome" where
  "assertTransitionIntegrity sha t =
     (if computeTransitionDigest sha t \<noteq> t_digest t then Inl RECORD_CORRUPTED else Inr t)"

text \<open>The loop of \<open>assertTransitionChain\<close>, carrying \<open>previousDigest\<close>.\<close>

fun chain_from ::
  "(string \<Rightarrow> string) \<Rightarrow> string option \<Rightarrow> GovernedAuthorityTransition list \<Rightarrow> unit outcome" where
  "chain_from sha previousDigest [] = Inr ()"
| "chain_from sha previousDigest (t # ts) =
     rbind (assertTransitionIntegrity sha t) (\<lambda>_.
       if t_previousDigest t \<noteq> previousDigest then Inl RECORD_CORRUPTED
       else chain_from sha (Some (t_digest t)) ts)"

definition assertTransitionChain ::
  "(string \<Rightarrow> string) \<Rightarrow> GovernedAuthorityTransition list \<Rightarrow> GovernedAuthorityTransition list outcome" where
  "assertTransitionChain sha ts = rbind (chain_from sha None ts) (\<lambda>_. Inr ts)"

section \<open>Derived identifiers\<close>

definition deriveAuthorityPositionId :: "(string \<Rightarrow> string) \<Rightarrow> GovernedAuthorityPositionKey \<Rightarrow> string" where
  "deriveAuthorityPositionId sha key =
     ''governed-authority-position-'' @
     digest_slice 16 (computeDigest sha (JObj [(''key'', JStr (governedAuthorityPositionKey key))]))"

definition deriveAuthorityIssuanceTransitionId :: "(string \<Rightarrow> string) \<Rightarrow> string \<Rightarrow> int \<Rightarrow> string" where
  "deriveAuthorityIssuanceTransitionId sha tenantId sequence =
     ''governed-authority-transition-'' @
     digest_slice 8 (computeDigest sha (JObj [(''tenantId'', JStr tenantId)])) @ ''-'' @ int_str sequence"

definition deriveAuthorityMovementTransitionId ::
  "(string \<Rightarrow> string) \<Rightarrow> string \<Rightarrow> string \<Rightarrow> string \<Rightarrow> GovernedRightType \<Rightarrow> string" where
  "deriveAuthorityMovementTransitionId sha prefix tenantId executionRef governedRight =
     prefix @ ''-'' @
     digest_slice 12 (computeDigest sha
       (JObj [(''tenantId'', JStr tenantId), (''executionRef'', JStr executionRef)]))
     @ ''-'' @ governedRight"

section \<open>What the validations accept\<close>

definition valid_scope :: "GovernedRightsScope \<Rightarrow> bool" where
  "valid_scope s \<longleftrightarrow> 0 \<le> amount s \<and> amount s \<le> MAX_SAFE_INTEGER \<and> unit_of s \<noteq> Some []"

lemma assertValidAuthorityScope_Inr [outcome_simps]:
  "assertValidAuthorityScope s = Inr t \<longleftrightarrow> t = s \<and> valid_scope s"
  by (cases s) (auto simp: valid_scope_def isSafeInteger_def)

lemma assertNonZeroAuthorityScope_Inr [outcome_simps]:
  "assertNonZeroAuthorityScope s = Inr t \<longleftrightarrow> t = s \<and> amount s \<noteq> 0"
  by (auto simp: assertNonZeroAuthorityScope_def isZero_iff)

lemma assertKnownGovernedRight_Inr [outcome_simps]:
  "assertKnownGovernedRight r = Inr u \<longleftrightarrow> isGovernedRightType r"
  by (simp add: assertKnownGovernedRight_def outcome_simps)

lemma assertBasisMatchesMovement_Inr [outcome_simps]:
  "assertBasisMatchesMovement b f = Inr u \<longleftrightarrow> (isGovernedAuthorityIssuanceBasis b \<longleftrightarrow> f = None)"
  by (auto simp: assertBasisMatchesMovement_def split: if_splits)

lemma assertDistinctHolders_Inr [outcome_simps]:
  "assertDistinctHolders a b = Inr u \<longleftrightarrow> a \<noteq> b"
  by (simp add: assertDistinctHolders_def outcome_simps)

lemma scopesDiffer_iff: "scopesDiffer s t \<longleftrightarrow> unit_of s \<noteq> unit_of t"
  by (cases s; cases t) auto

lemma subtractAuthorityScope_Inr:
  "subtractAuthorityScope s t = Inr r \<longleftrightarrow>
     unit_of t = unit_of s \<and> amount t \<le> amount s \<and> unit_of r = unit_of s \<and>
     amount r = js_sub (amount s) (amount t)"
  by (cases s; cases t; cases r) (auto simp: subtractAuthorityScope_def)

lemma subtractAuthorityScope_Inl:
  "subtractAuthorityScope s t = Inl e \<longleftrightarrow>
     (unit_of t \<noteq> unit_of s \<and> e = SCOPE_INCOMPATIBLE) \<or>
     (unit_of t = unit_of s \<and> amount s < amount t \<and> e = INSUFFICIENT_SCOPE)"
  by (cases s; cases t) (auto simp: subtractAuthorityScope_def)

lemma addAuthorityScopes_Inl:
  "addAuthorityScopes s t = Inl e \<longleftrightarrow> unit_of s \<noteq> unit_of t \<and> e = SCOPE_INCOMPATIBLE"
  using scopes.add_None [of s t] by (auto simp: addAuthorityScopes_def split: option.splits)

lemma addAuthorityScopes_Inr:
  "addAuthorityScopes s t = Inr r \<longleftrightarrow>
     unit_of t = unit_of s \<and> unit_of r = unit_of s \<and> amount r = js_add (amount s) (amount t)"
  by (cases s; cases t; cases r) (auto simp: addAuthorityScopes_def)

text \<open>No choice of separators inside the parts forges another key.\<close>

lemma positionKey_inject:
  "governedAuthorityPositionKey k = governedAuthorityPositionKey k' \<longleftrightarrow> k = k'"
proof
  assume eq: "governedAuthorityPositionKey k = governedAuthorityPositionKey k'"
  have parts: "governedAuthorityPositionKey k =
      int_str (int (length (pk_tenantId k))) @ '':'' @ pk_tenantId k @ ''|'' @
      int_str (int (length (pk_actorRef k))) @ '':'' @ pk_actorRef k @ ''|'' @
      int_str (int (length (pk_resourceKind k))) @ '':'' @ pk_resourceKind k @ ''|'' @
      int_str (int (length (pk_resourceId k))) @ '':'' @ pk_resourceId k @ ''|'' @
      int_str (int (length (pk_governedRight k))) @ '':'' @ pk_governedRight k @ []" for k
    by (simp add: governedAuthorityPositionKey_def)
  from eq [unfolded parts]
  show "k = k'"
    by (cases k; cases k') (auto dest!: length_prefixed_unique [simplified] length_prefixed_unique [where r = "[]" and s = "[]", simplified])
qed simp

section \<open>Sealed records\<close>

text \<open>
  A record that carries the digest of its other fields: \<open>seal\<close> writes the digest, \<open>verify\<close>
  is the integrity assertion every read goes through.
\<close>

locale sealed_record =
  fixes seal :: "'r \<Rightarrow> 'r" and intact :: "'r \<Rightarrow> bool" and verify :: "'r \<Rightarrow> 'e + 'r" and err :: 'e
  assumes verify_def: "verify r = (if intact r then Inr r else Inl err)"
    and seal_intact: "intact (seal r)"
begin

lemma verify_Inr: "verify r = Inr x \<longleftrightarrow> x = r \<and> intact r"
  by (auto simp: verify_def)

lemma verify_Inl: "verify r = Inl e \<longleftrightarrow> e = err \<and> \<not> intact r"
  by (auto simp: verify_def)

lemma verify_intact: "intact r \<Longrightarrow> verify r = Inr r"
  by (simp add: verify_def)

lemma verify_seal: "verify (seal r) = Inr (seal r)"
  by (simp add: verify_def seal_intact)

lemma mapR_verify: "(\<And>x. x \<in> set xs \<Longrightarrow> intact x) \<Longrightarrow> mapR verify xs = Inr xs"
  by (rule mapR_id) (simp add: verify_def)

lemma mapR_verify_Inr: "mapR verify xs = Inr ys \<Longrightarrow> ys = xs \<and> (\<forall>x \<in> set xs. intact x)"
  by (induction xs arbitrary: ys) (auto simp: outcome_simps verify_Inr)

lemma mapR_verify_Inl: "mapR verify xs = Inl e \<Longrightarrow> e = err \<and> (\<exists>x \<in> set xs. \<not> intact x)"
  by (induction xs) (auto simp: outcome_simps verify_Inl)

end

definition seal_position :: "(string \<Rightarrow> string) \<Rightarrow> GovernedAuthorityPosition \<Rightarrow> GovernedAuthorityPosition" where
  "seal_position sha p = p\<lparr>p_digest := computePositionDigest sha p\<rparr>"

definition seal_transition ::
  "(string \<Rightarrow> string) \<Rightarrow> GovernedAuthorityTransition \<Rightarrow> GovernedAuthorityTransition" where
  "seal_transition sha t = t\<lparr>t_digest := computeTransitionDigest sha t\<rparr>"

definition position_intact :: "(string \<Rightarrow> string) \<Rightarrow> GovernedAuthorityPosition \<Rightarrow> bool" where
  "position_intact sha p \<longleftrightarrow> computePositionDigest sha p = p_digest p"

definition transition_intact :: "(string \<Rightarrow> string) \<Rightarrow> GovernedAuthorityTransition \<Rightarrow> bool" where
  "transition_intact sha t \<longleftrightarrow> computeTransitionDigest sha t = t_digest t"

interpretation position_seal: sealed_record "seal_position sha" "position_intact sha"
  "assertPositionIntegrity sha" RECORD_CORRUPTED for sha
  by unfold_locales (auto simp: assertPositionIntegrity_def position_intact_def seal_position_def
      computePositionDigest_def projectPositionForDigest_def)

interpretation transition_seal: sealed_record "seal_transition sha" "transition_intact sha"
  "assertTransitionIntegrity sha" RECORD_CORRUPTED for sha
  by unfold_locales (auto simp: assertTransitionIntegrity_def transition_intact_def seal_transition_def
      computeTransitionDigest_def projectTransitionForDigest_def)

lemma seal_position_fields [simp]:
  "p_id (seal_position sha p) = p_id p"
  "p_tenantId (seal_position sha p) = p_tenantId p"
  "p_actorRef (seal_position sha p) = p_actorRef p"
  "p_resourceKind (seal_position sha p) = p_resourceKind p"
  "p_resourceId (seal_position sha p) = p_resourceId p"
  "p_governedRight (seal_position sha p) = p_governedRight p"
  "p_scope (seal_position sha p) = p_scope p"
  "p_effectiveFrom (seal_position sha p) = p_effectiveFrom p"
  "p_expiresAt (seal_position sha p) = p_expiresAt p"
  "p_lastTransitionRef (seal_position sha p) = p_lastTransitionRef p"
  by (simp_all add: seal_position_def)

lemma seal_transition_fields [simp]:
  "t_id (seal_transition sha t) = t_id t"
  "t_tenantId (seal_transition sha t) = t_tenantId t"
  "t_sequence (seal_transition sha t) = t_sequence t"
  "t_previousDigest (seal_transition sha t) = t_previousDigest t"
  "t_basis (seal_transition sha t) = t_basis t"
  "t_scope (seal_transition sha t) = t_scope t"
  "t_governedRight (seal_transition sha t) = t_governedRight t"
  "t_resourceKind (seal_transition sha t) = t_resourceKind t"
  "t_resourceId (seal_transition sha t) = t_resourceId t"
  "t_fromActorRef (seal_transition sha t) = t_fromActorRef t"
  "t_toActorRef (seal_transition sha t) = t_toActorRef t"
  by (simp_all add: seal_transition_def)

section \<open>Chains\<close>

lemma chain_from_append:
  "chain_from sha d (ts @ [t]) = Inr () \<longleftrightarrow>
     chain_from sha d ts = Inr () \<and> transition_intact sha t \<and>
     t_previousDigest t = (if ts = [] then d else Some (t_digest (last ts)))"
  by (induction ts arbitrary: d) (auto simp: outcome_simps transition_seal.verify_Inr split: if_splits)

end
