(* ===== verification/Representation.thy ===== *)
theory Representation
  imports AuthorityLifecycle
begin

text \<open>
  Who may exercise another party's governed authority: the records and pure functions of
  \<open>src/packages/governed-authority/src/governed-representative-authority.ts\<close> and
  \<open>governed-representative-basis.ts\<close>, the inputs of \<open>representation-contracts.ts\<close> and the rules of
  \<open>representation-lifecycle.ts\<close>.

  The Authority Graph is not part of this store: its lookup is the parameter \<open>delegations\<close>,
  \<^const>\<open>None\<close> where no lookup is configured.
\<close>

section \<open>Records\<close>

datatype GovernedRepresentativeBasis =
    RepAdministrativeBootstrap string "string list option"
  | RepAuthorityGraphDelegation string string string
  | RepRecognizedExternal string "string list" "string option"
  | RepRedelegation string string

fun basis_assertedBy :: "GovernedRepresentativeBasis \<Rightarrow> string" where
  "basis_assertedBy (RepAdministrativeBootstrap by _) = by"
| "basis_assertedBy (RepAuthorityGraphDelegation _ _ by) = by"
| "basis_assertedBy (RepRecognizedExternal by _ _) = by"
| "basis_assertedBy (RepRedelegation _ by) = by"

datatype GovernedRepresentativeScopeLimit = BoundedLimit GovernedRightsScope | UnboundedLimit

record GovernedRepresentativeAuthority =
  g_id :: string
  g_tenantId :: string
  g_holderRef :: string
  g_representativeRef :: string
  g_resourceKind :: string
  g_resourceId :: string
  g_governedRights :: "GovernedRightType list"
  g_scopeLimit :: GovernedRepresentativeScopeLimit
  g_actions :: "string list"
  g_effectiveFrom :: string
  g_expiresAt :: "string option"
  g_canRedelegate :: bool
  g_delegationDepth :: int
  g_parentRepresentativeAuthorityId :: "string option"
  g_basis :: GovernedRepresentativeBasis
  g_revokedAt :: "string option"
  g_createdAt :: string
  g_updatedAt :: string
  g_correlationId :: "string option"
  g_digest :: string

record GrantRepresentativeAuthorityInput =
  i_id :: "string option"
  i_tenantId :: string
  i_holderRef :: "string option"
  i_representativeRef :: string
  i_resource :: "GovernedAuthorityResourceRef option"
  i_governedRights :: "GovernedRightType list"
  i_scopeLimit :: GovernedRepresentativeScopeLimit
  i_actions :: "string list"
  i_effectiveFrom :: string
  i_expiresAt :: "string option"
  i_canRedelegate :: "bool option"
  i_basis :: GovernedRepresentativeBasis
  i_correlationId :: "string option"
  i_idempotencyKey :: "string option"

record GrantRepresentativeAuthorityOutcome =
  go_representation :: GovernedRepresentativeAuthority
  go_replayed :: bool

record GovernedRepresentationDelegationRecord =
  d_delegateActorId :: string
  d_principalActorId :: string
  d_trustDomainId :: string
  d_status :: string

type_synonym GovernedRepresentationDelegationPort =
  "string \<Rightarrow> GovernedRepresentationDelegationRecord option"

section \<open>State and containment\<close>

datatype GovernedRepresentativeAuthorityState = RepPending | RepActive | RepExpired | RepRevoked

definition governedRepresentativeAuthorityState ::
  "GovernedRepresentativeAuthority \<Rightarrow> string \<Rightarrow> GovernedRepresentativeAuthorityState" where
  "governedRepresentativeAuthorityState representation at =
     (if (case g_revokedAt representation of None \<Rightarrow> False | Some rv \<Rightarrow> instant_ge at rv) then RepRevoked
      else if instant_lt at (g_effectiveFrom representation) then RepPending
      else if (case g_expiresAt representation of None \<Rightarrow> False | Some ex \<Rightarrow> instant_ge at ex) then RepExpired
      else RepActive)"

fun governedRepresentativeScopeLimitWithin ::
  "GovernedRepresentativeScopeLimit \<Rightarrow> GovernedRepresentativeScopeLimit \<Rightarrow>
     (GovernedRightsScope \<Rightarrow> GovernedRightsScope \<Rightarrow> bool) \<Rightarrow> bool" where
  "governedRepresentativeScopeLimitWithin _ UnboundedLimit within = True"
| "governedRepresentativeScopeLimitWithin UnboundedLimit (BoundedLimit _) within = False"
| "governedRepresentativeScopeLimitWithin (BoundedLimit a) (BoundedLimit b) within = within a b"

datatype GovernedRepresentativeContainmentBreach =
    BreachHolder string string
  | BreachResource string string
  | BreachRight GovernedRightType
  | BreachAction string
  | BreachScope
  | BreachEffectiveFrom string string
  | BreachExpiresAt "string option" "string option"

text \<open>The terms a child is granted on: what the containment check reads of it.\<close>

record RepresentationTerms =
  c_holderRef :: string
  c_resourceKind :: string
  c_resourceId :: string
  c_governedRights :: "GovernedRightType list"
  c_actions :: "string list"
  c_scopeLimit :: GovernedRepresentativeScopeLimit
  c_effectiveFrom :: string
  c_expiresAt :: "string option"

definition governedRepresentativeAuthorityContainmentBreach ::
  "GovernedRepresentativeAuthority \<Rightarrow> RepresentationTerms \<Rightarrow>
     (GovernedRightsScope \<Rightarrow> GovernedRightsScope \<Rightarrow> bool) \<Rightarrow>
     GovernedRepresentativeContainmentBreach option" where
  "governedRepresentativeAuthorityContainmentBreach parent child within =
     (if c_holderRef child \<noteq> g_holderRef parent
        then Some (BreachHolder (g_holderRef parent) (c_holderRef child))
      else if c_resourceKind child \<noteq> g_resourceKind parent
        then Some (BreachResource (g_resourceKind parent) (c_resourceKind child))
      else if c_resourceId child \<noteq> g_resourceId parent
        then Some (BreachResource (g_resourceId parent) (c_resourceId child))
      else case find (\<lambda>right. right \<notin> set (g_governedRights parent)) (c_governedRights child) of
        Some widerRight \<Rightarrow> Some (BreachRight widerRight)
      | None \<Rightarrow>
      (case find (\<lambda>action. action \<notin> set (g_actions parent)) (c_actions child) of
        Some widerAction \<Rightarrow> Some (BreachAction widerAction)
      | None \<Rightarrow>
      if \<not> governedRepresentativeScopeLimitWithin (c_scopeLimit child) (g_scopeLimit parent) within
        then Some BreachScope
      else if instant_lt (c_effectiveFrom child) (g_effectiveFrom parent)
        then Some (BreachEffectiveFrom (g_effectiveFrom parent) (c_effectiveFrom child))
      else case g_expiresAt parent of
        None \<Rightarrow> None
      | Some parentEnd \<Rightarrow>
          if (case c_expiresAt child of None \<Rightarrow> True | Some childEnd \<Rightarrow> instant_lt parentEnd childEnd)
            then Some (BreachExpiresAt (Some parentEnd) (c_expiresAt child))
          else None))"

fun isGovernedRepresentativeIssuanceBasis :: "GovernedRepresentativeBasis \<Rightarrow> bool" where
  "isGovernedRepresentativeIssuanceBasis (RepRedelegation _ _) = False"
| "isGovernedRepresentativeIssuanceBasis _ = True"

section \<open>Field validation\<close>

definition assertDistinctRepresentative :: "string \<Rightarrow> string \<Rightarrow> unit outcome" where
  "assertDistinctRepresentative holderRef representativeRef =
     (if holderRef = representativeRef then Inl REPRESENTATION_INVALID else Inr ())"

definition assertRepresentedRights :: "GovernedRightType list \<Rightarrow> GovernedRightType list outcome" where
  "assertRepresentedRights governedRights =
     (if governedRights = [] then Inl REPRESENTATION_INVALID
      else if list_ex (\<lambda>right. \<not> isGovernedRightType right) governedRights then Inl REPRESENTATION_INVALID
      else Inr governedRights)"

definition assertRepresentedActions :: "string list \<Rightarrow> string list outcome" where
  "assertRepresentedActions actions =
     (if actions = [] then Inl REPRESENTATION_INVALID
      else if list_ex (\<lambda>action. length action = 0) actions then Inl REPRESENTATION_INVALID
      else Inr actions)"

fun assertRepresentativeScopeLimit ::
  "GovernedRepresentativeScopeLimit \<Rightarrow> GovernedRepresentativeScopeLimit outcome" where
  "assertRepresentativeScopeLimit UnboundedLimit = Inr UnboundedLimit"
| "assertRepresentativeScopeLimit (BoundedLimit (Proportional b)) =
     (if \<not> isSafeInteger b \<or> b \<le> 0 then Inl REPRESENTATION_INVALID
      else Inr (BoundedLimit (Proportional b)))"
| "assertRepresentativeScopeLimit (BoundedLimit (Unitized n d)) =
     (if \<not> isSafeInteger n \<or> n \<le> 0 then Inl REPRESENTATION_INVALID
      else if length d = 0 then Inl REPRESENTATION_INVALID
      else Inr (BoundedLimit (Unitized n d)))"

section \<open>Who may grant and who may withdraw\<close>

definition assertMayGrantRepresentation ::
  "AuthorityGovernanceContext \<Rightarrow> GovernedRepresentativeBasis \<Rightarrow>
     GovernedRepresentativeAuthority option \<Rightarrow> unit outcome" where
  "assertMayGrantRepresentation context basis parent =
     (if cx_system context then Inr ()
      else if isGovernedRepresentativeIssuanceBasis basis then Inl REPRESENTATION_GRANT_NOT_PERMITTED
      else case parent of
        None \<Rightarrow> Inl REPRESENTATION_BASIS_INVALID
      | Some p \<Rightarrow>
          if cx_actorId context = None \<or> cx_actorId context \<noteq> Some (g_representativeRef p)
            then Inl REPRESENTATION_GRANT_NOT_PERMITTED
          else Inr ())"

definition assertMayRevokeRepresentation ::
  "AuthorityGovernanceContext \<Rightarrow> GovernedRepresentativeAuthority \<Rightarrow>
     GovernedRepresentativeAuthority option \<Rightarrow> unit outcome" where
  "assertMayRevokeRepresentation context representation parent =
     (if cx_system context then Inr ()
      else if (case parent of
                 None \<Rightarrow> False
               | Some p \<Rightarrow> cx_actorId context \<noteq> None \<and> cx_actorId context = Some (g_representativeRef p))
        then Inr ()
      else Inl REPRESENTATION_GRANT_NOT_PERMITTED)"

section \<open>Bases\<close>

definition assertRepresentationBasisShape :: "GovernedRepresentativeBasis \<Rightarrow> unit outcome" where
  "assertRepresentationBasisShape basis =
     (if (case basis of RepRecognizedExternal _ refs _ \<Rightarrow> refs = [] | _ \<Rightarrow> False)
        then Inl REPRESENTATION_BASIS_INVALID
      else if length (basis_assertedBy basis) = 0 then Inl REPRESENTATION_BASIS_INVALID
      else Inr ())"

fun delegationCorroborates ::
  "GovernedRepresentationDelegationRecord option \<Rightarrow> string \<Rightarrow> string \<Rightarrow> string \<Rightarrow> bool" where
  "delegationCorroborates None representativeRef holderRef trustDomainId = False"
| "delegationCorroborates (Some rec) representativeRef holderRef trustDomainId =
     (if d_status rec \<noteq> ''active'' then False
      else if d_trustDomainId rec \<noteq> trustDomainId then False
      else if d_delegateActorId rec \<noteq> representativeRef then False
      else d_principalActorId rec = holderRef)"

definition assertRedelegationContained ::
  "GovernedRepresentativeAuthority \<Rightarrow> RepresentationTerms \<Rightarrow> unit outcome" where
  "assertRedelegationContained parent child =
     (if \<not> g_canRedelegate parent then Inl REPRESENTATION_BASIS_INVALID
      else if governedRepresentativeAuthorityContainmentBreach parent child governedRightsScopeWithin \<noteq> None
        then Inl REPRESENTATION_SCOPE_EXPANSION
      else Inr ())"

section \<open>Integrity\<close>

fun representative_basis_json :: "GovernedRepresentativeBasis \<Rightarrow> json" where
  "representative_basis_json (RepAdministrativeBootstrap by refs) =
     JObj ([(''kind'', JStr ''administrative-bootstrap''), (''assertedBy'', JStr by)]
       @ opt_list_field ''evidenceRefs'' refs)"
| "representative_basis_json (RepAuthorityGraphDelegation grant domain by) =
     JObj [(''kind'', JStr ''authority-graph-delegation''), (''delegationGrantId'', JStr grant),
           (''trustDomainId'', JStr domain), (''assertedBy'', JStr by)]"
| "representative_basis_json (RepRecognizedExternal by refs sys) =
     JObj ([(''kind'', JStr ''recognized-external-representation''), (''assertedBy'', JStr by),
            (''evidenceRefs'', JArr (map JStr refs))] @ opt_field ''externalSystem'' sys)"
| "representative_basis_json (RepRedelegation parent by) =
     JObj [(''kind'', JStr ''representative-redelegation''),
           (''parentRepresentativeAuthorityId'', JStr parent), (''assertedBy'', JStr by)]"

fun limit_json :: "GovernedRepresentativeScopeLimit \<Rightarrow> json" where
  "limit_json (BoundedLimit s) =
     JObj [(''kind'', JStr ''bounded''), (''maximum'', scope_json (serializeGovernedRightsScope s))]"
| "limit_json UnboundedLimit = JObj [(''kind'', JStr ''unbounded'')]"

definition projectRepresentationForDigest :: "GovernedRepresentativeAuthority \<Rightarrow> json" where
  "projectRepresentationForDigest g = JObj (
     [(''id'', JStr (g_id g)), (''tenantId'', JStr (g_tenantId g)),
      (''holderRef'', JStr (g_holderRef g)), (''representativeRef'', JStr (g_representativeRef g)),
      (''resourceKind'', JStr (g_resourceKind g)), (''resourceId'', JStr (g_resourceId g)),
      (''governedRights'', JArr (map JStr (g_governedRights g))),
      (''scopeLimit'', limit_json (g_scopeLimit g)),
      (''actions'', JArr (map JStr (g_actions g))), (''effectiveFrom'', JStr (g_effectiveFrom g))]
     @ opt_field ''expiresAt'' (g_expiresAt g) @
     [(''canRedelegate'', JBool (g_canRedelegate g)), (''delegationDepth'', JNum (g_delegationDepth g))]
     @ opt_field ''parentRepresentativeAuthorityId'' (g_parentRepresentativeAuthorityId g) @
     [(''basis'', representative_basis_json (g_basis g))]
     @ opt_field ''revokedAt'' (g_revokedAt g) @
     [(''createdAt'', JStr (g_createdAt g)), (''updatedAt'', JStr (g_updatedAt g))]
     @ opt_field ''correlationId'' (g_correlationId g))"

definition computeRepresentationDigest ::
  "(string \<Rightarrow> string) \<Rightarrow> GovernedRepresentativeAuthority \<Rightarrow> string" where
  "computeRepresentationDigest sha g = computeDigest sha (projectRepresentationForDigest g)"

definition assertRepresentationIntegrity ::
  "(string \<Rightarrow> string) \<Rightarrow> GovernedRepresentativeAuthority \<Rightarrow> GovernedRepresentativeAuthority outcome" where
  "assertRepresentationIntegrity sha g =
     (if computeRepresentationDigest sha g \<noteq> g_digest g then Inl REPRESENTATION_RECORD_CORRUPTED else Inr g)"

text \<open>\<open>parts.map((part) => `${part.length}:${part}`).join('|')\<close>.\<close>

definition length_prefixed :: "string list \<Rightarrow> string" where
  "length_prefixed parts = join ''|'' (map (\<lambda>part. int_str (int (length part)) @ '':'' @ part) parts)"

definition deriveRepresentationId ::
  "(string \<Rightarrow> string) \<Rightarrow> string \<Rightarrow> string \<Rightarrow> string \<Rightarrow> string \<Rightarrow> string \<Rightarrow> string \<Rightarrow> string" where
  "deriveRepresentationId sha tenantId holderRef representativeRef resourceKind resourceId discriminator =
     (let canonical = length_prefixed
            [tenantId, holderRef, representativeRef, resourceKind, resourceId, discriminator]
      in ''governed-representation-'' @
         digest_slice 16 (computeDigest sha (JObj [(''key'', JStr canonical)])))"

section \<open>Replay\<close>

definition limit_replay_json :: "GovernedRepresentativeScopeLimit \<Rightarrow> json" where
  "limit_replay_json limit =
     (case limit of BoundedLimit s \<Rightarrow> scope_json (serializeGovernedRightsScope s)
      | UnboundedLimit \<Rightarrow> JStr ''unbounded'')"

definition projectRepresentationInputForReplay :: "string \<Rightarrow> RepresentationTerms \<Rightarrow> json" where
  "projectRepresentationInputForReplay representativeRef c = JObj
     [(''holderRef'', JStr (c_holderRef c)), (''representativeRef'', JStr representativeRef),
      (''resourceKind'', JStr (c_resourceKind c)), (''resourceId'', JStr (c_resourceId c)),
      (''governedRights'', JArr (map JStr (sort (c_governedRights c)))),
      (''actions'', JArr (map JStr (sort (c_actions c)))),
      (''scopeLimit'', limit_replay_json (c_scopeLimit c)),
      (''effectiveFrom'', JStr (c_effectiveFrom c)),
      (''expiresAt'', (case c_expiresAt c of None \<Rightarrow> JNull | Some x \<Rightarrow> JStr x))]"

definition assertRepresentationReplayMatches ::
  "(string \<Rightarrow> string) \<Rightarrow> GovernedRepresentativeAuthority \<Rightarrow> json \<Rightarrow> unit outcome" where
  "assertRepresentationReplayMatches sha existing replayInput =
     (let stored = JObj
        [(''holderRef'', JStr (g_holderRef existing)),
         (''representativeRef'', JStr (g_representativeRef existing)),
         (''resourceKind'', JStr (g_resourceKind existing)), (''resourceId'', JStr (g_resourceId existing)),
         (''governedRights'', JArr (map JStr (sort (g_governedRights existing)))),
         (''actions'', JArr (map JStr (sort (g_actions existing)))),
         (''scopeLimit'', limit_replay_json (g_scopeLimit existing)),
         (''effectiveFrom'', JStr (g_effectiveFrom existing)),
         (''expiresAt'', (case g_expiresAt existing of None \<Rightarrow> JNull | Some x \<Rightarrow> JStr x))]
      in if computeDigest sha stored \<noteq> computeDigest sha replayInput
         then Inl REPRESENTATION_CONFLICT else Inr ())"

section \<open>What the checks accept\<close>

lemma assertDistinctRepresentative_Inr [outcome_simps]:
  "assertDistinctRepresentative h r = Inr u \<longleftrightarrow> h \<noteq> r"
  by (simp add: assertDistinctRepresentative_def)

lemma assertRepresentedRights_Inr [outcome_simps]:
  "assertRepresentedRights rs = Inr xs \<longleftrightarrow> xs = rs \<and> rs \<noteq> [] \<and> (\<forall>r \<in> set rs. isGovernedRightType r)"
  by (auto simp: assertRepresentedRights_def list_ex_iff split: if_splits)

lemma assertRepresentedActions_Inr [outcome_simps]:
  "assertRepresentedActions xs = Inr ys \<longleftrightarrow> ys = xs \<and> xs \<noteq> [] \<and> [] \<notin> set xs"
  by (auto simp: assertRepresentedActions_def list_ex_iff split: if_splits)

definition valid_limit :: "GovernedRepresentativeScopeLimit \<Rightarrow> bool" where
  "valid_limit l \<longleftrightarrow> (case l of UnboundedLimit \<Rightarrow> True | BoundedLimit s \<Rightarrow> valid_scope s \<and> 0 < amount s)"

lemma assertRepresentativeScopeLimit_Inr [outcome_simps]:
  "assertRepresentativeScopeLimit l = Inr m \<longleftrightarrow> m = l \<and> valid_limit l"
  by (cases l rule: assertRepresentativeScopeLimit.cases)
    (auto simp: valid_limit_def valid_scope_def isSafeInteger_def)

lemma delegationCorroborates_iff [simp]:
  "delegationCorroborates found r h d \<longleftrightarrow>
     (\<exists>rec. found = Some rec \<and> d_status rec = ''active'' \<and> d_trustDomainId rec = d \<and>
            d_delegateActorId rec = r \<and> d_principalActorId rec = h)"
  by (cases found) auto

text \<open>The order of the ceilings: reflexive, transitive, and with \<^const>\<open>UnboundedLimit\<close> on top.\<close>

definition limit_within :: "GovernedRepresentativeScopeLimit \<Rightarrow> GovernedRepresentativeScopeLimit \<Rightarrow> bool" where
  "limit_within a b \<longleftrightarrow> governedRepresentativeScopeLimitWithin a b governedRightsScopeWithin"

lemma limit_within_refl: "limit_within a a"
  by (cases a) (auto simp: limit_within_def scopes.within_refl)

lemma limit_within_trans: "limit_within a b \<Longrightarrow> limit_within b c \<Longrightarrow> limit_within a c"
  by (cases a; cases b; cases c) (auto simp: limit_within_def intro: scopes.within_trans)

lemma limit_within_covers:
  "limit_within (BoundedLimit a) l \<Longrightarrow> l = BoundedLimit b \<Longrightarrow> governedRightsScopeWithin a b"
  by (simp add: limit_within_def)

definition expiry_within :: "string option \<Rightarrow> string option \<Rightarrow> bool" where
  "expiry_within a b \<longleftrightarrow>
     (case b of None \<Rightarrow> True | Some y \<Rightarrow> (case a of None \<Rightarrow> False | Some x \<Rightarrow> \<not> instant_lt y x))"

lemma subset_find: "set xs \<subseteq> A \<longleftrightarrow> find (\<lambda>x. x \<notin> A) xs = None"
  by (auto simp: find_None_iff_all)

lemma breach_None:
  "governedRepresentativeAuthorityContainmentBreach parent child governedRightsScopeWithin = None \<longleftrightarrow>
     c_holderRef child = g_holderRef parent \<and> c_resourceKind child = g_resourceKind parent \<and>
     c_resourceId child = g_resourceId parent \<and>
     set (c_governedRights child) \<subseteq> set (g_governedRights parent) \<and>
     set (c_actions child) \<subseteq> set (g_actions parent) \<and>
     limit_within (c_scopeLimit child) (g_scopeLimit parent) \<and>
     \<not> instant_lt (c_effectiveFrom child) (g_effectiveFrom parent) \<and>
     expiry_within (c_expiresAt child) (g_expiresAt parent)"
proof -
  note subset_find [simp]
  show ?thesis
    by (cases "find (\<lambda>right. right \<notin> set (g_governedRights parent)) (c_governedRights child)";
        cases "find (\<lambda>action. action \<notin> set (g_actions parent)) (c_actions child)";
        cases "g_expiresAt parent")
      (simp_all add: governedRepresentativeAuthorityContainmentBreach_def limit_within_def expiry_within_def
         split: option.splits)
qed

lemma assertRedelegationContained_Inr [outcome_simps]:
  "assertRedelegationContained parent child = Inr u \<longleftrightarrow>
     g_canRedelegate parent \<and>
     governedRepresentativeAuthorityContainmentBreach parent child governedRightsScopeWithin = None"
  by (auto simp: assertRedelegationContained_def)

section \<open>Sealed representations\<close>

definition seal_representation ::
  "(string \<Rightarrow> string) \<Rightarrow> GovernedRepresentativeAuthority \<Rightarrow> GovernedRepresentativeAuthority" where
  "seal_representation sha g = g\<lparr>g_digest := computeRepresentationDigest sha g\<rparr>"

definition representation_intact :: "(string \<Rightarrow> string) \<Rightarrow> GovernedRepresentativeAuthority \<Rightarrow> bool" where
  "representation_intact sha g \<longleftrightarrow> computeRepresentationDigest sha g = g_digest g"

interpretation representation_seal: sealed_record "seal_representation sha" "representation_intact sha"
  "assertRepresentationIntegrity sha" REPRESENTATION_RECORD_CORRUPTED for sha
  by unfold_locales (auto simp: assertRepresentationIntegrity_def representation_intact_def
      seal_representation_def computeRepresentationDigest_def projectRepresentationForDigest_def)

lemma seal_representation_fields [simp]:
  "g_id (seal_representation sha g) = g_id g"
  "g_tenantId (seal_representation sha g) = g_tenantId g"
  "g_holderRef (seal_representation sha g) = g_holderRef g"
  "g_representativeRef (seal_representation sha g) = g_representativeRef g"
  "g_resourceKind (seal_representation sha g) = g_resourceKind g"
  "g_resourceId (seal_representation sha g) = g_resourceId g"
  "g_governedRights (seal_representation sha g) = g_governedRights g"
  "g_scopeLimit (seal_representation sha g) = g_scopeLimit g"
  "g_actions (seal_representation sha g) = g_actions g"
  "g_effectiveFrom (seal_representation sha g) = g_effectiveFrom g"
  "g_expiresAt (seal_representation sha g) = g_expiresAt g"
  "g_canRedelegate (seal_representation sha g) = g_canRedelegate g"
  "g_delegationDepth (seal_representation sha g) = g_delegationDepth g"
  "g_parentRepresentativeAuthorityId (seal_representation sha g) = g_parentRepresentativeAuthorityId g"
  "g_basis (seal_representation sha g) = g_basis g"
  "g_revokedAt (seal_representation sha g) = g_revokedAt g"
  "g_createdAt (seal_representation sha g) = g_createdAt g"
  by (simp_all add: seal_representation_def)

text \<open>Two lists of parts of one length share a key only when they are equal.\<close>

lemma length_prefixed_inject:
  "length xs = length ys \<Longrightarrow> length_prefixed xs = length_prefixed ys \<longleftrightarrow> xs = ys"
proof (induction xs ys rule: list_induct2)
  case (Cons x xs y ys)
  show ?case
  proof (cases xs)
    case Nil
    with Cons.hyps show ?thesis
      by (auto simp: length_prefixed_def dest!: length_prefixed_unique [where r = "[]" and s = "[]", simplified])
  next
    case (Cons x' xs')
    with Cons.hyps obtain y' ys' where ys: "ys = y' # ys'" by (cases ys) auto
    have split: "length_prefixed (a # b # zs) =
        int_str (int (length a)) @ '':'' @ a @ ''|'' @ length_prefixed (b # zs)" for a b zs
      by (simp add: length_prefixed_def)
    show ?thesis using Cons.IH unfolding Cons ys split
      by (auto dest!: length_prefixed_unique [simplified])
  qed
qed simp

end
