(* ===== verification/RepresentationStore.thy ===== *)
theory RepresentationStore
  imports Representation
begin

text \<open>
  The in-memory representation store
  (\<open>src/src/enterprise/authority-governance/in-memory-representation-store.ts\<close>) and the resolver that
  answers the kernel from it (\<open>representation-resolver.ts\<close>, with the verdicts of
  \<open>governed-representation-coverage.ts\<close>).

  \<open>rep_store\<close> is the closure of \<open>createInMemoryGovernedRepresentationStore\<close>. The one \<open>await\<close> of a
  grant, the delegation lookup, comes before everything the grant reads from the store and keeps:
  a basis that is looked up has no parent. So a grant is one step, with \<open>delegations\<close> what the
  lookup answers during it. The resolver only reads; it is modelled on one state of the store and
  of the delegations. \<open>collate\<close> is \<open>String.prototype.localeCompare\<close>, whose order the host's locale
  decides.
\<close>

section \<open>The store\<close>

record rep_store =
  byId :: "(string, GovernedRepresentativeAuthority) js_map"
  byBinding :: "(string, string list) js_map"
  byIdempotencyKey :: "(string, string) js_map"
  ordinal :: int

definition empty_rep_store :: rep_store where
  "empty_rep_store = \<lparr>byId = [], byBinding = [], byIdempotencyKey = [], ordinal = 0\<rparr>"

definition bindingKey :: "string \<Rightarrow> string \<Rightarrow> string \<Rightarrow> GovernedAuthorityResourceRef \<Rightarrow> string" where
  "bindingKey tenantId representativeRef holderRef resource =
     length_prefixed [tenantId, representativeRef, holderRef, rr_kind resource, rr_id resource]"

definition readById ::
  "(string \<Rightarrow> string) \<Rightarrow> rep_store \<Rightarrow> string \<Rightarrow> string \<Rightarrow> GovernedRepresentativeAuthority option outcome" where
  "readById sha st tenantId rid =
     (case map_get (byId st) rid of
        None \<Rightarrow> Inr None
      | Some found \<Rightarrow>
          if g_tenantId found \<noteq> tenantId then Inr None
          else rbind (assertRepresentationIntegrity sha found) (\<lambda>g. Inr (Some g)))"

definition seal_put ::
  "(string \<Rightarrow> string) \<Rightarrow> GovernedRepresentativeAuthority \<Rightarrow> rep_store \<Rightarrow>
     GovernedRepresentativeAuthority \<times> rep_store" where
  "seal_put sha draft st =
     (let sealed = seal_representation sha draft
      in (sealed, st\<lparr>byId := map_set (byId st) (g_id sealed) sealed\<rparr>))"

section \<open>Granting\<close>

text \<open>The parent a redelegation names, which must exist in the tenant.\<close>

definition grantParent ::
  "(string \<Rightarrow> string) \<Rightarrow> GrantRepresentativeAuthorityInput \<Rightarrow> rep_store \<Rightarrow>
     GovernedRepresentativeAuthority option outcome" where
  "grantParent sha input st =
     (case i_basis input of
        RepRedelegation parentId _ \<Rightarrow>
          rbind (readById sha st (i_tenantId input) parentId) (\<lambda>parent.
            if parent = None then Inl REPRESENTATION_BASIS_INVALID else Inr parent)
      | _ \<Rightarrow> Inr None)"

text \<open>The holder and the resource, copied from the parent where there is one.\<close>

definition grantSubject ::
  "GrantRepresentativeAuthorityInput \<Rightarrow> GovernedRepresentativeAuthority option \<Rightarrow>
     (string \<times> GovernedAuthorityResourceRef) outcome" where
  "grantSubject input parent =
     (let holderRef = (case parent of None \<Rightarrow> i_holderRef input | Some p \<Rightarrow> Some (g_holderRef p));
          resource = (case parent of None \<Rightarrow> i_resource input
                      | Some p \<Rightarrow> Some \<lparr>rr_kind = g_resourceKind p, rr_id = g_resourceId p\<rparr>)
      in case holderRef of
           None \<Rightarrow> Inl REPRESENTATION_INVALID
         | Some h \<Rightarrow>
             if length h = 0 then Inl REPRESENTATION_INVALID
             else case resource of
                 None \<Rightarrow> Inl REPRESENTATION_INVALID
               | Some r \<Rightarrow> Inr (h, r))"

definition assertDelegationBasis ::
  "GovernedRepresentationDelegationPort option \<Rightarrow> GovernedRepresentativeBasis \<Rightarrow> string \<Rightarrow> string \<Rightarrow>
     unit outcome" where
  "assertDelegationBasis delegations basis representativeRef holderRef =
     (case basis of
        RepAuthorityGraphDelegation delegationGrantId trustDomainId _ \<Rightarrow>
          (case delegations of
             None \<Rightarrow> Inl REPRESENTATION_BASIS_INVALID
           | Some getDelegationGrant \<Rightarrow>
               if \<not> delegationCorroborates (getDelegationGrant delegationGrantId) representativeRef
                     holderRef trustDomainId
               then Inl REPRESENTATION_BASIS_INVALID else Inr ())
      | _ \<Rightarrow> Inr ())"

text \<open>Everything the grant checks before it looks at replays, and the terms it grants.\<close>

definition grantTerms ::
  "(string \<Rightarrow> string) \<Rightarrow> GovernedRepresentationDelegationPort option \<Rightarrow> AuthorityGovernanceContext \<Rightarrow>
     GrantRepresentativeAuthorityInput \<Rightarrow> rep_store \<Rightarrow>
     (GovernedRepresentativeAuthority option \<times> RepresentationTerms) outcome" where
  "grantTerms sha delegations context input st =
     rbind (requireAuthorityAccessToOrganization context (i_tenantId input)) (\<lambda>_.
     rbind (assertRepresentationBasisShape (i_basis input)) (\<lambda>_.
     rbind (grantParent sha input st) (\<lambda>parent.
     rbind (assertMayGrantRepresentation context (i_basis input) parent) (\<lambda>_.
     rbind (grantSubject input parent) (\<lambda>(holderRef, resource).
     rbind (assertDistinctRepresentative holderRef (i_representativeRef input)) (\<lambda>_.
     rbind (assertRepresentedRights (i_governedRights input)) (\<lambda>governedRights.
     rbind (assertRepresentedActions (i_actions input)) (\<lambda>actions.
     rbind (assertRepresentativeScopeLimit (i_scopeLimit input)) (\<lambda>scopeLimit.
     rbind (requireStrictUtcAuthorityTimestamp (i_effectiveFrom input)) (\<lambda>effectiveFrom.
     rbind (case i_expiresAt input of
              None \<Rightarrow> Inr None
            | Some ex \<Rightarrow> rbind (requireStrictUtcAuthorityTimestamp ex) (\<lambda>x. Inr (Some x))) (\<lambda>expiresAt.
     rbind (assertDelegationBasis delegations (i_basis input) (i_representativeRef input) holderRef) (\<lambda>_.
       let terms = \<lparr>c_holderRef = holderRef, c_resourceKind = rr_kind resource,
                    c_resourceId = rr_id resource, c_governedRights = governedRights,
                    c_actions = actions, c_scopeLimit = scopeLimit,
                    c_effectiveFrom = effectiveFrom, c_expiresAt = expiresAt\<rparr>
       in rbind (case parent of None \<Rightarrow> Inr () | Some p \<Rightarrow> assertRedelegationContained p terms) (\<lambda>_.
            Inr (parent, terms))))))))))))))"

definition idempotencyScope :: "GrantRepresentativeAuthorityInput \<Rightarrow> string option" where
  "idempotencyScope input =
     (case i_idempotencyKey input of None \<Rightarrow> None | Some key \<Rightarrow> Some (i_tenantId input @ ''::'' @ key))"

text \<open>The representation already granted under the key, where it is one of this tenant.\<close>

definition grantReplay ::
  "(string \<Rightarrow> string) \<Rightarrow> GrantRepresentativeAuthorityInput \<Rightarrow> RepresentationTerms \<Rightarrow> rep_store \<Rightarrow>
     GovernedRepresentativeAuthority option outcome" where
  "grantReplay sha input terms st =
     (case idempotencyScope input of
        None \<Rightarrow> Inr None
      | Some scope \<Rightarrow>
          (case map_get (byIdempotencyKey st) scope of
             None \<Rightarrow> Inr None
           | Some existingId \<Rightarrow>
               rbind (readById sha st (i_tenantId input) existingId) (\<lambda>existing.
                 case existing of
                   None \<Rightarrow> Inr None
                 | Some e \<Rightarrow>
                     rbind (assertRepresentationReplayMatches sha e
                              (projectRepresentationInputForReplay (i_representativeRef input) terms))
                       (\<lambda>_. Inr (Some e)))))"

definition grantedDraft ::
  "GrantRepresentativeAuthorityInput \<Rightarrow> GovernedRepresentativeAuthority option \<Rightarrow>
     RepresentationTerms \<Rightarrow> string \<Rightarrow> string \<Rightarrow> GovernedRepresentativeAuthority" where
  "grantedDraft input parent terms rid timestamp =
     \<lparr>g_id = rid, g_tenantId = i_tenantId input, g_holderRef = c_holderRef terms,
      g_representativeRef = i_representativeRef input, g_resourceKind = c_resourceKind terms,
      g_resourceId = c_resourceId terms, g_governedRights = c_governedRights terms,
      g_scopeLimit = c_scopeLimit terms, g_actions = c_actions terms,
      g_effectiveFrom = c_effectiveFrom terms, g_expiresAt = c_expiresAt terms,
      g_canRedelegate = (case i_canRedelegate input of None \<Rightarrow> False | Some b \<Rightarrow> b),
      g_delegationDepth = (case parent of None \<Rightarrow> 0 | Some p \<Rightarrow> js_add (g_delegationDepth p) 1),
      g_parentRepresentativeAuthorityId = map_option g_id parent, g_basis = i_basis input,
      g_revokedAt = None, g_createdAt = timestamp, g_updatedAt = timestamp,
      g_correlationId = i_correlationId input, g_digest = []\<rparr>"

text \<open>\<open>input.id ?? deriveRepresentationId(...)\<close>, with the ordinal already advanced.\<close>

definition grantedId ::
  "(string \<Rightarrow> string) \<Rightarrow> GrantRepresentativeAuthorityInput \<Rightarrow> RepresentationTerms \<Rightarrow> int \<Rightarrow> string" where
  "grantedId sha input terms n =
     (case i_id input of
        Some rid \<Rightarrow> rid
      | None \<Rightarrow>
          deriveRepresentationId sha (i_tenantId input) (c_holderRef terms) (i_representativeRef input)
            (c_resourceKind terms) (c_resourceId terms)
            (case i_idempotencyKey input of None \<Rightarrow> ''ordinal:'' @ int_str n | Some key \<Rightarrow> key))"

definition recordGrant ::
  "(string \<Rightarrow> string) \<Rightarrow> string \<Rightarrow> GrantRepresentativeAuthorityInput \<Rightarrow>
     GovernedRepresentativeAuthority option \<Rightarrow> RepresentationTerms \<Rightarrow> rep_store \<Rightarrow>
     GrantRepresentativeAuthorityOutcome outcome \<times> rep_store" where
  "recordGrant sha now input parent terms st =
     (let st1 = st\<lparr>ordinal := js_add (ordinal st) 1\<rparr>;
          rid = grantedId sha input terms (ordinal st1)
      in if map_get (byId st1) rid \<noteq> None then (Inl REPRESENTATION_CONFLICT, st1)
         else let (representation, st2) = seal_put sha (grantedDraft input parent terms rid now) st1;
                  key = bindingKey (i_tenantId input) (g_representativeRef representation)
                          (g_holderRef representation)
                          \<lparr>rr_kind = c_resourceKind terms, rr_id = c_resourceId terms\<rparr>;
                  st3 = st2\<lparr>byBinding := map_set (byBinding st2) key
                          ((case map_get (byBinding st2) key of None \<Rightarrow> [] | Some ids \<Rightarrow> ids)
                             @ [g_id representation])\<rparr>;
                  st4 = (case idempotencyScope input of
                           None \<Rightarrow> st3
                         | Some scope \<Rightarrow> st3\<lparr>byIdempotencyKey :=
                             map_set (byIdempotencyKey st3) scope (g_id representation)\<rparr>)
              in (Inr \<lparr>go_representation = representation, go_replayed = False\<rparr>, st4))"

definition grantRepresentativeAuthority ::
  "(string \<Rightarrow> string) \<Rightarrow> GovernedRepresentationDelegationPort option \<Rightarrow> string \<Rightarrow>
     AuthorityGovernanceContext \<Rightarrow> GrantRepresentativeAuthorityInput \<Rightarrow> rep_store \<Rightarrow>
     GrantRepresentativeAuthorityOutcome outcome \<times> rep_store" where
  "grantRepresentativeAuthority sha delegations now context input st =
     attempt (grantTerms sha delegations context input st) st (\<lambda>(parent, terms).
     attempt (grantReplay sha input terms st) st (\<lambda>replay.
       case replay of
         Some existing \<Rightarrow> (Inr \<lparr>go_representation = existing, go_replayed = True\<rparr>, st)
       | None \<Rightarrow> recordGrant sha now input parent terms st))"

section \<open>Withdrawing and reading\<close>

definition revokeRepresentativeAuthority ::
  "(string \<Rightarrow> string) \<Rightarrow> string \<Rightarrow> AuthorityGovernanceContext \<Rightarrow> string \<Rightarrow> string \<Rightarrow> rep_store \<Rightarrow>
     GovernedRepresentativeAuthority outcome \<times> rep_store" where
  "revokeRepresentativeAuthority sha now context tenantId rid st =
     attempt (requireAuthorityAccessToOrganization context tenantId) st (\<lambda>_.
     attempt (readById sha st tenantId rid) st (\<lambda>found.
       case found of
         None \<Rightarrow> (Inl REPRESENTATION_NOT_FOUND, st)
       | Some existing \<Rightarrow>
           attempt (case g_parentRepresentativeAuthorityId existing of
                      None \<Rightarrow> Inr None
                    | Some parentId \<Rightarrow> readById sha st tenantId parentId) st (\<lambda>parent.
           attempt (assertMayRevokeRepresentation context existing parent) st (\<lambda>_.
             if g_revokedAt existing \<noteq> None then (Inr existing, st)
             else let (sealed, st') =
                        seal_put sha (existing\<lparr>g_revokedAt := Some now, g_updatedAt := now\<rparr>) st
                  in (Inr sealed, st')))))"

definition getRepresentativeAuthority ::
  "(string \<Rightarrow> string) \<Rightarrow> AuthorityGovernanceContext \<Rightarrow> string \<Rightarrow> string \<Rightarrow> rep_store \<Rightarrow>
     GovernedRepresentativeAuthority option outcome" where
  "getRepresentativeAuthority sha context tenantId rid st =
     rbind (requireAuthorityAccessToOrganization context tenantId) (\<lambda>_. readById sha st tenantId rid)"

text \<open>
  \<open>Array.prototype.sort\<close> with a comparator: stable, and determined by the comparator when it is a
  consistent one, as collation orders are.
\<close>

fun insert_by :: "('a \<Rightarrow> 'a \<Rightarrow> int) \<Rightarrow> 'a \<Rightarrow> 'a list \<Rightarrow> 'a list" where
  "insert_by cmp x [] = [x]"
| "insert_by cmp x (y # ys) = (if cmp x y \<le> 0 then x # y # ys else y # insert_by cmp x ys)"

definition sort_by :: "('a \<Rightarrow> 'a \<Rightarrow> int) \<Rightarrow> 'a list \<Rightarrow> 'a list" where
  "sort_by cmp xs = foldr (insert_by cmp) xs []"

lemma set_sort_by [simp]: "set (sort_by cmp xs) = set xs"
proof -
  have ins: "set (insert_by cmp x ys) = insert x (set ys)" for x ys by (induction ys) auto
  show ?thesis unfolding sort_by_def by (induction xs) (simp_all add: ins)
qed

definition representationOrder ::
  "(string \<Rightarrow> string \<Rightarrow> int) \<Rightarrow> GovernedRepresentativeAuthority \<Rightarrow>
     GovernedRepresentativeAuthority \<Rightarrow> int" where
  "representationOrder collate a b =
     (if g_createdAt a = g_createdAt b then collate (g_id a) (g_id b)
      else collate (g_createdAt a) (g_createdAt b))"

definition listRepresentativeAuthorities ::
  "(string \<Rightarrow> string) \<Rightarrow> (string \<Rightarrow> string \<Rightarrow> int) \<Rightarrow> AuthorityGovernanceContext \<Rightarrow> string \<Rightarrow>
     string \<Rightarrow> string \<Rightarrow> GovernedAuthorityResourceRef \<Rightarrow> rep_store \<Rightarrow>
     GovernedRepresentativeAuthority list outcome" where
  "listRepresentativeAuthorities sha collate context tenantId representativeRef holderRef resource st =
     rbind (requireAuthorityAccessToOrganization context tenantId) (\<lambda>_.
       let ids = (case map_get (byBinding st) (bindingKey tenantId representativeRef holderRef resource) of
                    None \<Rightarrow> [] | Some ids \<Rightarrow> ids)
       in rbind (mapR (readById sha st tenantId) ids) (\<lambda>found.
            Inr (sort_by (representationOrder collate) (List.map_filter (\<lambda>r. r) found))))"

record GovernedRepresentationStoreHealth =
  rh_providerKind :: string
  rh_available :: bool
  rh_schemaVersion :: string
  rh_representationCount :: nat

definition GOVERNED_REPRESENTATION_STORE_SCHEMA_VERSION :: string where
  "GOVERNED_REPRESENTATION_STORE_SCHEMA_VERSION = ''aoc.governed-representation-store.schema.v1''"

definition representation_health :: "rep_store \<Rightarrow> GovernedRepresentationStoreHealth" where
  "representation_health st = \<lparr>rh_providerKind = ''memory'', rh_available = True,
     rh_schemaVersion = GOVERNED_REPRESENTATION_STORE_SCHEMA_VERSION,
     rh_representationCount = length (byId st)\<rparr>"

text \<open>Closing clears the maps; the ordinal goes on from where it was.\<close>

definition close_rep_store :: "rep_store \<Rightarrow> rep_store" where
  "close_rep_store st = st\<lparr>byId := [], byBinding := [], byIdempotencyKey := []\<rparr>"

section \<open>The resolver\<close>

record GovernedRepresentationQuery =
  rq_tenantId :: string
  rq_representativeRef :: string
  rq_holderRef :: string
  rq_resourceKind :: string
  rq_resourceId :: string
  rq_governedRight :: GovernedRightType
  rq_requestedScope :: "GovernedRightsScope option"
  rq_action :: string
  rq_at :: string

datatype withdrawal_reason = ParentRevoked | DelegationNotLive

datatype GovernedRepresentationCoverage =
    NotRequired
  | Represented string "string list"
  | NoRepresentation
  | RightNotRepresented string GovernedRightType
  | ActionNotRepresented string string
  | ScopeExceeded string GovernedRightsScope GovernedRightsScope
  | IncompatibleRepScope string GovernedRightsScope GovernedRightsScope
  | RepresentationExpired string
  | RepresentationRevoked string
  | BasisWithdrawn string withdrawal_reason

fun isGovernedRepresentationCovered :: "GovernedRepresentationCoverage \<Rightarrow> bool" where
  "isGovernedRepresentationCovered NotRequired = True"
| "isGovernedRepresentationCovered (Represented _ _) = True"
| "isGovernedRepresentationCovered _ = False"

definition MAX_REPRESENTATION_CHAIN_HOPS :: nat where
  "MAX_REPRESENTATION_CHAIN_HOPS = 16"

datatype basis_verdict = BasisHolds "string list" | BasisFails withdrawal_reason

text \<open>The delegation a binding is grounded in, where it is, is live now.\<close>

definition delegationStands ::
  "GovernedRepresentationDelegationPort option \<Rightarrow> GovernedRepresentativeAuthority \<Rightarrow> bool" where
  "delegationStands delegations current =
     (case g_basis current of
        RepAuthorityGraphDelegation delegationGrantId trustDomainId _ \<Rightarrow>
          (case delegations of
             None \<Rightarrow> False
           | Some getDelegationGrant \<Rightarrow>
               delegationCorroborates (getDelegationGrant delegationGrantId)
                 (g_representativeRef current) (g_holderRef current) trustDomainId)
      | _ \<Rightarrow> True)"

text \<open>The loop over the ancestors, \<open>fuel\<close> the hops it has left and \<open>chain\<close> the links so far.\<close>

fun basis_loop ::
  "(string \<Rightarrow> string) \<Rightarrow> GovernedRepresentationDelegationPort option \<Rightarrow> AuthorityGovernanceContext \<Rightarrow>
     string \<Rightarrow> string \<Rightarrow> rep_store \<Rightarrow> nat \<Rightarrow> GovernedRepresentativeAuthority \<Rightarrow> string list \<Rightarrow>
     basis_verdict outcome" where
  "basis_loop sha delegations context tenantId at st 0 current chain = Inr (BasisFails ParentRevoked)"
| "basis_loop sha delegations context tenantId at st (Suc fuel) current chain =
     (if \<not> delegationStands delegations current then Inr (BasisFails DelegationNotLive)
      else case g_parentRepresentativeAuthorityId current of
          None \<Rightarrow> Inr (BasisHolds chain)
        | Some parentId \<Rightarrow>
            rbind (getRepresentativeAuthority sha context tenantId parentId st) (\<lambda>found.
              case found of
                None \<Rightarrow> Inr (BasisFails ParentRevoked)
              | Some parent \<Rightarrow>
                  if governedRepresentativeAuthorityState parent at \<noteq> RepActive \<or> \<not> g_canRedelegate parent
                  then Inr (BasisFails ParentRevoked)
                  else basis_loop sha delegations context tenantId at st fuel parent
                         (chain @ [g_id parent])))"

definition basisStillHolds ::
  "(string \<Rightarrow> string) \<Rightarrow> GovernedRepresentationDelegationPort option \<Rightarrow> AuthorityGovernanceContext \<Rightarrow>
     GovernedRepresentativeAuthority \<Rightarrow> string \<Rightarrow> string \<Rightarrow> rep_store \<Rightarrow> basis_verdict outcome" where
  "basisStillHolds sha delegations context representation tenantId at st =
     basis_loop sha delegations context tenantId at st MAX_REPRESENTATION_CHAIN_HOPS representation
       [g_id representation]"

fun rank :: "GovernedRepresentationCoverage \<Rightarrow> int" where
  "rank NotRequired = 100"
| "rank (Represented _ _) = 100"
| "rank (ScopeExceeded _ _ _) = 60"
| "rank (IncompatibleRepScope _ _ _) = 60"
| "rank (BasisWithdrawn _ _) = 50"
| "rank (RepresentationRevoked _) = 45"
| "rank (RepresentationExpired _) = 40"
| "rank (ActionNotRepresented _ _) = 30"
| "rank (RightNotRepresented _ _) = 20"
| "rank NoRepresentation = 0"

text \<open>
  What a candidate's ceiling says against the requested quantity: \<^const>\<open>None\<close> where it lets the
  request through.
\<close>

definition ceilingRefusal ::
  "GovernedRepresentativeAuthority \<Rightarrow> GovernedRightsScope option \<Rightarrow> GovernedRepresentationCoverage option" where
  "ceilingRefusal candidate requestedScope =
     (case requestedScope of
        None \<Rightarrow> None
      | Some scope \<Rightarrow>
          (case g_scopeLimit candidate of
             UnboundedLimit \<Rightarrow> None
           | BoundedLimit maximum \<Rightarrow>
               let requested = serializeGovernedRightsScope scope;
                   permitted = serializeGovernedRightsScope maximum
               in if scopesDiffer requested permitted
                    then Some (IncompatibleRepScope (g_id candidate) permitted requested)
                  else if \<not> governedRightsScopeWithin requested permitted
                    then Some (ScopeExceeded (g_id candidate) permitted requested)
                  else None))"

text \<open>The verdict one candidate hands to \<open>keep\<close>.\<close>

definition candidateCoverage ::
  "(string \<Rightarrow> string) \<Rightarrow> GovernedRepresentationDelegationPort option \<Rightarrow> AuthorityGovernanceContext \<Rightarrow>
     GovernedRepresentationQuery \<Rightarrow> rep_store \<Rightarrow> GovernedRepresentativeAuthority \<Rightarrow>
     GovernedRepresentationCoverage outcome" where
  "candidateCoverage sha delegations context query st candidate =
     (if rq_governedRight query \<notin> set (g_governedRights candidate)
        then Inr (RightNotRepresented (g_id candidate) (rq_governedRight query))
      else if rq_action query \<notin> set (g_actions candidate)
        then Inr (ActionNotRepresented (g_id candidate) (rq_action query))
      else let state = governedRepresentativeAuthorityState candidate (rq_at query)
      in if state = RepRevoked then Inr (RepresentationRevoked (g_id candidate))
      else if state \<noteq> RepActive then Inr (RepresentationExpired (g_id candidate))
      else case ceilingRefusal candidate (rq_requestedScope query) of
        Some refusal \<Rightarrow> Inr refusal
      | None \<Rightarrow>
          rbind (basisStillHolds sha delegations context candidate (rq_tenantId query) (rq_at query) st)
            (\<lambda>basis. case basis of
               BasisFails reason \<Rightarrow> Inr (BasisWithdrawn (g_id candidate) reason)
             | BasisHolds chain \<Rightarrow> Inr (Represented (g_id candidate) chain)))"

text \<open>\<open>keep\<close>: a verdict replaces the best so far when it ranks higher.\<close>

definition keep ::
  "GovernedRepresentationCoverage \<Rightarrow> GovernedRepresentationCoverage \<Rightarrow> GovernedRepresentationCoverage" where
  "keep coverage best = (if rank coverage > rank best then coverage else best)"

definition resolveGovernedRepresentation ::
  "(string \<Rightarrow> string) \<Rightarrow> (string \<Rightarrow> string \<Rightarrow> int) \<Rightarrow> GovernedRepresentationDelegationPort option \<Rightarrow>
     AuthorityGovernanceContext \<Rightarrow> GovernedRepresentationQuery \<Rightarrow> rep_store \<Rightarrow>
     GovernedRepresentationCoverage outcome" where
  "resolveGovernedRepresentation sha collate delegations context query st =
     (if rq_representativeRef query = rq_holderRef query then Inr NotRequired
      else rbind (listRepresentativeAuthorities sha collate context (rq_tenantId query)
                    (rq_representativeRef query) (rq_holderRef query)
                    \<lparr>rr_kind = rq_resourceKind query, rr_id = rq_resourceId query\<rparr> st) (\<lambda>candidates.
             if candidates = [] then Inr NoRepresentation
             else rbind (mapR (candidateCoverage sha delegations context query st) candidates)
                    (\<lambda>verdicts. Inr (fold keep verdicts NoRepresentation))))"

end
