(* ===== verification/RepresentationInvariants.thy ===== *)
theory RepresentationInvariants
  imports RepresentationStore
begin

text \<open>
  What every reachable representation store satisfies, and what later calls keep of an earlier
  one: the order of narrowing, the lineage of a binding, well-formedness (\<open>rep_wf\<close>), the runs of
  the store, and the evolution of its records.
\<close>

section \<open>Narrowing\<close>

text \<open>A binding no wider than another, on every dimension.\<close>

definition expiry_le :: "string option \<Rightarrow> string option \<Rightarrow> bool" where
  "expiry_le a b \<longleftrightarrow>
     (case b of None \<Rightarrow> True
      | Some y \<Rightarrow> (case a of None \<Rightarrow> False | Some x \<Rightarrow> instant_ge y x))"

definition narrows :: "GovernedRepresentativeAuthority \<Rightarrow> GovernedRepresentativeAuthority \<Rightarrow> bool" where
  "narrows g p \<longleftrightarrow>
     g_tenantId g = g_tenantId p \<and> g_holderRef g = g_holderRef p \<and>
     g_resourceKind g = g_resourceKind p \<and> g_resourceId g = g_resourceId p \<and>
     set (g_governedRights g) \<subseteq> set (g_governedRights p) \<and> set (g_actions g) \<subseteq> set (g_actions p) \<and>
     limit_within (g_scopeLimit g) (g_scopeLimit p) \<and>
     instant_ge (g_effectiveFrom g) (g_effectiveFrom p) \<and> expiry_le (g_expiresAt g) (g_expiresAt p)"

lemma expiry_le_refl: "pred_option isStrictUtcTimestamp a \<Longrightarrow> expiry_le a a"
  by (cases a) (auto simp: expiry_le_def instant_ge_refl)

lemma expiry_le_trans: "expiry_le a b \<Longrightarrow> expiry_le b c \<Longrightarrow> expiry_le a c"
  by (auto simp: expiry_le_def split: option.splits intro: instant_ge_trans)

lemma narrows_refl:
  "isStrictUtcTimestamp (g_effectiveFrom g) \<Longrightarrow> pred_option isStrictUtcTimestamp (g_expiresAt g) \<Longrightarrow>
     narrows g g"
  by (simp add: narrows_def limit_within_refl instant_ge_refl expiry_le_refl)

lemma narrows_trans: "narrows a b \<Longrightarrow> narrows b c \<Longrightarrow> narrows a c"
  unfolding narrows_def
  by (elim conjE, intro conjI) (auto intro: limit_within_trans instant_ge_trans expiry_le_trans)

lemma expiry_within_le:
  "pred_option isStrictUtcTimestamp a \<Longrightarrow> pred_option isStrictUtcTimestamp b \<Longrightarrow>
     expiry_within a b \<longleftrightarrow> expiry_le a b"
  by (auto simp: expiry_within_def expiry_le_def instant_not_lt split: option.splits
      dest: instant_lt_not_ge)

section \<open>Records across calls\<close>

text \<open>The same binding, up to its withdrawal.\<close>

definition same_terms ::
  "GovernedRepresentativeAuthority \<Rightarrow> GovernedRepresentativeAuthority \<Rightarrow> bool" where
  "same_terms g g' \<longleftrightarrow>
     (\<exists>rv up d. g' = g\<lparr>g_revokedAt := rv, g_updatedAt := up, g_digest := d\<rparr>)"

lemma same_terms_refl [simp]: "same_terms g g"
  unfolding same_terms_def by (intro exI [of _ "g_revokedAt g"] exI [of _ "g_updatedAt g"] exI [of _ "g_digest g"]) simp

lemma same_terms_fields:
  assumes "same_terms g g'"
  shows "g_id g' = g_id g" "g_tenantId g' = g_tenantId g" "g_holderRef g' = g_holderRef g"
    "g_representativeRef g' = g_representativeRef g" "g_resourceKind g' = g_resourceKind g"
    "g_resourceId g' = g_resourceId g" "g_governedRights g' = g_governedRights g"
    "g_scopeLimit g' = g_scopeLimit g" "g_actions g' = g_actions g"
    "g_effectiveFrom g' = g_effectiveFrom g" "g_expiresAt g' = g_expiresAt g"
    "g_canRedelegate g' = g_canRedelegate g" "g_delegationDepth g' = g_delegationDepth g"
    "g_parentRepresentativeAuthorityId g' = g_parentRepresentativeAuthorityId g" "g_basis g' = g_basis g"
  using assms by (auto simp: same_terms_def)

lemma same_terms_trans: "same_terms a b \<Longrightarrow> same_terms b c \<Longrightarrow> same_terms a c"
  by (auto simp: same_terms_def) blast

lemma same_terms_narrows: "same_terms g g' \<Longrightarrow> narrows x g' \<longleftrightarrow> narrows x g"
  "same_terms g g' \<Longrightarrow> narrows g' x \<longleftrightarrow> narrows g x"
  by (simp_all add: narrows_def same_terms_fields)

definition stored :: "rep_store \<Rightarrow> string \<Rightarrow> GovernedRepresentativeAuthority \<Rightarrow> bool" where
  "stored st rid g \<longleftrightarrow> map_get (byId st) rid = Some g"

lemma stored_unique: "stored st rid g \<Longrightarrow> stored st rid g' \<Longrightarrow> g' = g"
  by (simp add: stored_def)

text \<open>Every record is still there, on the same terms, and a withdrawn one exactly as it was.\<close>

definition evolves :: "rep_store \<Rightarrow> rep_store \<Rightarrow> bool" where
  "evolves st st' \<longleftrightarrow>
     (\<forall>rid g. stored st rid g \<longrightarrow>
        (\<exists>g'. stored st' rid g' \<and> same_terms g g' \<and> (g_revokedAt g \<noteq> None \<longrightarrow> g' = g)))"

lemma evolves_refl [simp]: "evolves st st"
  by (auto simp: evolves_def)

lemma evolves_trans: "evolves a b \<Longrightarrow> evolves b c \<Longrightarrow> evolves a c"
  unfolding evolves_def by (metis same_terms_trans)

lemma evolvesD:
  "evolves st st' \<Longrightarrow> stored st rid g \<Longrightarrow> \<exists>g'. stored st' rid g' \<and> same_terms g g'"
  unfolding evolves_def by metis

section \<open>Lineage\<close>

text \<open>A binding with its ancestors, the root last.\<close>

inductive lineage ::
  "rep_store \<Rightarrow> GovernedRepresentativeAuthority \<Rightarrow> GovernedRepresentativeAuthority list \<Rightarrow> bool"
  for st where
  root: "g_parentRepresentativeAuthorityId g = None \<Longrightarrow> lineage st g [g]"
| link: "g_parentRepresentativeAuthorityId g = Some pid \<Longrightarrow> stored st pid p \<Longrightarrow> lineage st p ps \<Longrightarrow>
     lineage st g (g # ps)"

inductive_cases lineage_elim: "lineage st g ps"

lemma lineage_root: "g_parentRepresentativeAuthorityId g = None \<Longrightarrow> lineage st g ps \<longleftrightarrow> ps = [g]"
  by (auto elim: lineage_elim intro: lineage.root)

lemma lineage_link:
  "g_parentRepresentativeAuthorityId g = Some pid \<Longrightarrow> stored st pid p \<Longrightarrow>
     lineage st g ps \<longleftrightarrow> (\<exists>ps'. ps = g # ps' \<and> lineage st p ps')"
  by (metis lineage.link lineage_elim option.distinct(1) option.inject stored_unique)

lemma lineage_hd: "lineage st g ps \<Longrightarrow> \<exists>qs. ps = g # qs"
  by (auto elim: lineage_elim)

lemma lineage_unique: "lineage st g ps \<Longrightarrow> lineage st g qs \<Longrightarrow> qs = ps"
  by (induction arbitrary: qs rule: lineage.induct) (metis lineage_root, metis lineage_link)

lemma lineage_later:
  assumes "lineage st g ps" and "evolves st st'" and "same_terms g g'"
  shows "\<exists>ps'. lineage st' g' ps' \<and> map g_id ps' = map g_id ps"
  using assms(1,3)
proof (induction arbitrary: g' rule: lineage.induct)
  case (root g)
  then show ?case by (intro exI [of _ "[g']"]) (simp add: lineage_root same_terms_fields)
next
  case (link g pid p ps)
  obtain p' where "stored st' pid p'" "same_terms p p'"
    using evolvesD [OF assms(2) link.hyps(2)] by blast
  moreover from link.IH [OF this(2)] obtain ps' where "lineage st' p' ps'" "map g_id ps' = map g_id ps"
    by blast
  ultimately show ?case using link.hyps(1) link.prems
    by (intro exI [of _ "g' # ps'"]) (auto simp: same_terms_fields intro: lineage.link)
qed

section \<open>Well-formed stores\<close>

definition rep_ok :: "(string \<Rightarrow> string) \<Rightarrow> string \<Rightarrow> GovernedRepresentativeAuthority \<Rightarrow> bool" where
  "rep_ok sha rid g \<longleftrightarrow>
     g_id g = rid \<and> representation_intact sha g \<and> g_holderRef g \<noteq> [] \<and>
     g_holderRef g \<noteq> g_representativeRef g \<and>
     g_governedRights g \<noteq> [] \<and> (\<forall>r \<in> set (g_governedRights g). isGovernedRightType r) \<and>
     g_actions g \<noteq> [] \<and> [] \<notin> set (g_actions g) \<and> valid_limit (g_scopeLimit g) \<and>
     isStrictUtcTimestamp (g_effectiveFrom g) \<and> pred_option isStrictUtcTimestamp (g_expiresAt g)"

definition binding_of :: "GovernedRepresentativeAuthority \<Rightarrow> string" where
  "binding_of g = bindingKey (g_tenantId g) (g_representativeRef g) (g_holderRef g)
     \<lparr>rr_kind = g_resourceKind g, rr_id = g_resourceId g\<rparr>"

text \<open>A root was issued; a redelegation narrows a binding that may be redelegated.\<close>

definition parent_ok :: "rep_store \<Rightarrow> GovernedRepresentativeAuthority \<Rightarrow> bool" where
  "parent_ok st g \<longleftrightarrow>
     (case g_parentRepresentativeAuthorityId g of
        None \<Rightarrow> isGovernedRepresentativeIssuanceBasis (g_basis g)
      | Some pid \<Rightarrow> (\<exists>by. g_basis g = RepRedelegation pid by) \<and>
          (\<exists>p. stored st pid p \<and> g_canRedelegate p \<and> narrows g p))"

definition rep_wf :: "(string \<Rightarrow> string) \<Rightarrow> rep_store \<Rightarrow> bool" where
  "rep_wf sha st \<longleftrightarrow>
     map_all (rep_ok sha) (byId st) \<and>
     (\<forall>rid g. stored st rid g \<longrightarrow> parent_ok st g \<and> (\<exists>ps. lineage st g ps)) \<and>
     (\<forall>k ids. map_get (byBinding st) k = Some ids \<longrightarrow>
        (\<forall>rid \<in> set ids. \<exists>g. stored st rid g \<and> binding_of g = k)) \<and>
     (\<forall>rid g. stored st rid g \<longrightarrow>
        (\<exists>ids. map_get (byBinding st) (binding_of g) = Some ids \<and> rid \<in> set ids)) \<and>
     (\<forall>scope rid. map_get (byIdempotencyKey st) scope = Some rid \<longrightarrow> (\<exists>g. stored st rid g))"

lemma rep_wf_stored: "rep_wf sha st \<Longrightarrow> stored st rid g \<Longrightarrow> rep_ok sha rid g"
  by (auto simp: rep_wf_def stored_def map_all_def)

lemma rep_wf_parent: "rep_wf sha st \<Longrightarrow> stored st rid g \<Longrightarrow> parent_ok st g"
  by (simp add: rep_wf_def)

lemma rep_wf_lineage: "rep_wf sha st \<Longrightarrow> stored st rid g \<Longrightarrow> \<exists>ps. lineage st g ps"
  by (simp add: rep_wf_def)

lemma rep_wf_empty: "rep_wf sha empty_rep_store"
  by (simp add: rep_wf_def empty_rep_store_def stored_def)

lemma rep_wf_narrows_self: "rep_wf sha st \<Longrightarrow> stored st rid g \<Longrightarrow> narrows g g"
  using rep_wf_stored [of sha st rid g] by (intro narrows_refl) (simp_all add: rep_ok_def)

text \<open>Reading a well-formed store does not fail.\<close>

lemma readById_wf:
  assumes "rep_wf sha st"
  shows "readById sha st tid rid =
    Inr (case map_get (byId st) rid of None \<Rightarrow> None
         | Some g \<Rightarrow> if g_tenantId g = tid then Some g else None)"
  using rep_wf_stored [OF assms, of rid]
  by (auto simp: readById_def stored_def rep_ok_def representation_seal.verify_intact
      split: option.splits)

lemma readById_Inr:
  "readById sha st tid rid = Inr (Some g) \<Longrightarrow> stored st rid g \<and> g_tenantId g = tid"
  by (auto simp: readById_def stored_def outcome_simps representation_seal.verify_Inr
      split: option.splits if_splits)

text \<open>A binding narrows each of its ancestors, and each ancestor but itself may be redelegated.\<close>

lemma lineage_narrows:
  assumes "lineage st g ps" and "rep_wf sha st" and "stored st rid g" and "p \<in> set ps"
  shows "narrows g p \<and> stored st (g_id p) p"
  using assms(1,3,4)
proof (induction arbitrary: rid rule: lineage.induct)
  case (root g)
  then show ?case using assms(2) rep_wf_stored [OF assms(2)]
    by (auto dest: rep_wf_narrows_self simp: rep_ok_def)
next
  case (link g pid q ps)
  then show ?case
  proof (cases "p = g")
    case True
    with link.prems show ?thesis using assms(2) rep_wf_stored [OF assms(2)]
      by (auto dest: rep_wf_narrows_self simp: rep_ok_def)
  next
    case False
    with link.IH [OF link.hyps(2)] link.prems have "narrows q p" "stored st (g_id p) p" by auto
    moreover have "narrows g q"
      using rep_wf_parent [OF assms(2) link.prems(1)] link.hyps(1,2)
      by (auto simp: parent_ok_def dest: stored_unique)
    ultimately show ?thesis by (blast intro: narrows_trans)
  qed
qed

lemma lineage_redelegable:
  assumes "lineage st g ps" and "rep_wf sha st" and "stored st rid g"
  shows "\<forall>p \<in> set (tl ps). g_canRedelegate p"
  using assms(1,3)
proof (induction arbitrary: rid rule: lineage.induct)
  case (link g pid q ps)
  have "g_canRedelegate q"
    using rep_wf_parent [OF assms(2) link.prems] link.hyps(1,2)
    by (auto simp: parent_ok_def dest: stored_unique)
  moreover obtain qs where "ps = q # qs" using lineage_hd [OF link.hyps(3)] by blast
  ultimately show ?case using link.IH [OF link.hyps(2)] by auto
qed simp

section \<open>The calls\<close>

lemma seal_put_eq:
  "seal_put sha draft st = (seal_representation sha draft,
     st\<lparr>byId := map_set (byId st) (g_id draft) (seal_representation sha draft)\<rparr>)"
  by (simp add: seal_put_def Let_def)

lemma stored_put:
  "stored (st\<lparr>byId := map_set (byId st) k v\<rparr>) rid g \<longleftrightarrow>
     (if rid = k then g = v else stored st rid g)"
  by (auto simp: stored_def map_simps)

lemma binding_of_seal [simp]: "binding_of (seal_representation sha g) = binding_of g"
  by (simp add: binding_of_def)

lemma grantParent_Inr:
  "grantParent sha input st = Inr parent \<longleftrightarrow>
     (case i_basis input of
        RepRedelegation pid _ \<Rightarrow> parent \<noteq> None \<and> readById sha st (i_tenantId input) pid = Inr parent
      | _ \<Rightarrow> parent = None)"
  by (auto simp: grantParent_def outcome_simps split: GovernedRepresentativeBasis.splits if_splits)

lemma grantSubject_Inr:
  "grantSubject input parent = Inr (h, r) \<longleftrightarrow>
     (case parent of
        None \<Rightarrow> i_holderRef input = Some h \<and> i_resource input = Some r
      | Some p \<Rightarrow> h = g_holderRef p \<and> r = \<lparr>rr_kind = g_resourceKind p, rr_id = g_resourceId p\<rparr>) \<and> h \<noteq> []"
  by (auto simp: grantSubject_def Let_def split: option.splits if_splits)

text \<open>What a grant that gets past its checks has established.\<close>

lemma optional_timestamp_Inr:
  "(case x of None \<Rightarrow> Inr None
    | Some ex \<Rightarrow> rbind (requireStrictUtcAuthorityTimestamp ex) (\<lambda>y. Inr (Some y))) = Inr r \<longleftrightarrow>
   r = x \<and> pred_option isStrictUtcTimestamp x"
  by (cases x) (auto simp: rbind_Inr requireStrictUtc_Inr)

lemma grantTerms_Inr:
  assumes "grantTerms sha delegations context input st = Inr (parent, terms)"
  shows "requireAuthorityAccessToOrganization context (i_tenantId input) = Inr ()"
    and "grantParent sha input st = Inr parent"
    and "assertMayGrantRepresentation context (i_basis input) parent = Inr ()"
    and "\<exists>res. grantSubject input parent = Inr (c_holderRef terms, res) \<and>
           c_resourceKind terms = rr_kind res \<and> c_resourceId terms = rr_id res"
    and "c_holderRef terms \<noteq> i_representativeRef input"
    and "assertRepresentedRights (i_governedRights input) = Inr (c_governedRights terms)"
    and "assertRepresentedActions (i_actions input) = Inr (c_actions terms)"
    and "assertRepresentativeScopeLimit (i_scopeLimit input) = Inr (c_scopeLimit terms)"
    and "requireStrictUtcAuthorityTimestamp (i_effectiveFrom input) = Inr (c_effectiveFrom terms)"
    and "c_expiresAt terms = i_expiresAt input" and "pred_option isStrictUtcTimestamp (i_expiresAt input)"
    and "assertDelegationBasis delegations (i_basis input) (i_representativeRef input) (c_holderRef terms) = Inr ()"
    and "case parent of None \<Rightarrow> True | Some p \<Rightarrow> assertRedelegationContained p terms = Inr ()"
    and "assertRepresentationBasisShape (i_basis input) = Inr ()"
proof -
  note rbind_Inr [simp] optional_timestamp_Inr [simp] assertDistinctRepresentative_Inr [simp]
  from assms obtain h res rs xs l ef ex where
    f: "requireAuthorityAccessToOrganization context (i_tenantId input) = Inr ()"
      "assertRepresentationBasisShape (i_basis input) = Inr ()"
      "grantParent sha input st = Inr parent"
      "assertMayGrantRepresentation context (i_basis input) parent = Inr ()"
      "grantSubject input parent = Inr (h, res)" "h \<noteq> i_representativeRef input"
      "assertRepresentedRights (i_governedRights input) = Inr rs"
      "assertRepresentedActions (i_actions input) = Inr xs"
      "assertRepresentativeScopeLimit (i_scopeLimit input) = Inr l"
      "requireStrictUtcAuthorityTimestamp (i_effectiveFrom input) = Inr ef"
      "ex = i_expiresAt input" "pred_option isStrictUtcTimestamp (i_expiresAt input)"
      "assertDelegationBasis delegations (i_basis input) (i_representativeRef input) h = Inr ()"
      "(case parent of None \<Rightarrow> Inr () | Some p \<Rightarrow> assertRedelegationContained p terms) = Inr ()"
      "terms = \<lparr>c_holderRef = h, c_resourceKind = rr_kind res, c_resourceId = rr_id res,
         c_governedRights = rs, c_actions = xs, c_scopeLimit = l, c_effectiveFrom = ef, c_expiresAt = ex\<rparr>"
    unfolding grantTerms_def Let_def by auto
  then show "requireAuthorityAccessToOrganization context (i_tenantId input) = Inr ()"
    "grantParent sha input st = Inr parent"
    "assertMayGrantRepresentation context (i_basis input) parent = Inr ()"
    "\<exists>res. grantSubject input parent = Inr (c_holderRef terms, res) \<and>
           c_resourceKind terms = rr_kind res \<and> c_resourceId terms = rr_id res"
    "c_holderRef terms \<noteq> i_representativeRef input"
    "assertRepresentedRights (i_governedRights input) = Inr (c_governedRights terms)"
    "assertRepresentedActions (i_actions input) = Inr (c_actions terms)"
    "assertRepresentativeScopeLimit (i_scopeLimit input) = Inr (c_scopeLimit terms)"
    "requireStrictUtcAuthorityTimestamp (i_effectiveFrom input) = Inr (c_effectiveFrom terms)"
    "c_expiresAt terms = i_expiresAt input" "pred_option isStrictUtcTimestamp (i_expiresAt input)"
    "assertDelegationBasis delegations (i_basis input) (i_representativeRef input) (c_holderRef terms) = Inr ()"
    "assertRepresentationBasisShape (i_basis input) = Inr ()"
    by simp_all
  from f(14) show "case parent of None \<Rightarrow> True | Some p \<Rightarrow> assertRedelegationContained p terms = Inr ()"
    by (simp split: option.splits)
qed

text \<open>The store a new binding is recorded in, with what the grant returned.\<close>

definition granted_in ::
  "(string \<Rightarrow> string) \<Rightarrow> string \<Rightarrow> GrantRepresentativeAuthorityInput \<Rightarrow>
     GovernedRepresentativeAuthority option \<Rightarrow> RepresentationTerms \<Rightarrow> rep_store \<Rightarrow>
     GovernedRepresentativeAuthority \<Rightarrow> rep_store \<Rightarrow> bool" where
  "granted_in sha now input parent terms st g st' \<longleftrightarrow>
     map_get (byId st) (g_id g) = None \<and>
     g_id g = grantedId sha input terms (js_add (ordinal st) 1) \<and>
     g = seal_representation sha (grantedDraft input parent terms (g_id g) now) \<and>
     byId st' = map_set (byId st) (g_id g) g \<and>
     byBinding st' = map_set (byBinding st) (binding_of g)
       ((case map_get (byBinding st) (binding_of g) of None \<Rightarrow> [] | Some ids \<Rightarrow> ids) @ [g_id g]) \<and>
     byIdempotencyKey st' = (case idempotencyScope input of None \<Rightarrow> byIdempotencyKey st
       | Some scope \<Rightarrow> map_set (byIdempotencyKey st) scope (g_id g))"

lemma grantedDraft_fields [simp]:
  "g_id (grantedDraft i p c r n) = r" "g_tenantId (grantedDraft i p c r n) = i_tenantId i"
  "g_holderRef (grantedDraft i p c r n) = c_holderRef c"
  "g_representativeRef (grantedDraft i p c r n) = i_representativeRef i"
  "g_resourceKind (grantedDraft i p c r n) = c_resourceKind c"
  "g_resourceId (grantedDraft i p c r n) = c_resourceId c"
  "g_governedRights (grantedDraft i p c r n) = c_governedRights c"
  "g_scopeLimit (grantedDraft i p c r n) = c_scopeLimit c"
  "g_actions (grantedDraft i p c r n) = c_actions c"
  "g_effectiveFrom (grantedDraft i p c r n) = c_effectiveFrom c"
  "g_expiresAt (grantedDraft i p c r n) = c_expiresAt c"
  "g_parentRepresentativeAuthorityId (grantedDraft i p c r n) = map_option g_id p"
  "g_basis (grantedDraft i p c r n) = i_basis i" "g_revokedAt (grantedDraft i p c r n) = None"
  by (simp_all add: grantedDraft_def)

lemma recordGrant_cases:
  "(\<exists>g st'. recordGrant sha now input parent terms st =
       (Inr \<lparr>go_representation = g, go_replayed = False\<rparr>, st') \<and>
       granted_in sha now input parent terms st g st') \<or>
   recordGrant sha now input parent terms st =
     (Inl REPRESENTATION_CONFLICT, st\<lparr>ordinal := js_add (ordinal st) 1\<rparr>)"
proof (cases "map_get (byId st) (grantedId sha input terms (js_add (ordinal st) 1))")
  case None
  then show ?thesis
    by (auto simp: recordGrant_def Let_def seal_put_eq granted_in_def binding_of_def split: option.splits)
next
  case (Some x)
  then show ?thesis by (simp add: recordGrant_def Let_def)
qed

text \<open>The three ways a grant ends.\<close>

lemma grant_cases:
  obtains
    (refused) e n where "grantRepresentativeAuthority sha delegations now context input st =
      (Inl e, st\<lparr>ordinal := n\<rparr>)"
  | (replayed) parent terms g where "grantRepresentativeAuthority sha delegations now context input st =
      (Inr \<lparr>go_representation = g, go_replayed = True\<rparr>, st)"
      and "grantTerms sha delegations context input st = Inr (parent, terms)"
      and "grantReplay sha input terms st = Inr (Some g)"
  | (granted) parent terms g st' where "grantRepresentativeAuthority sha delegations now context input st =
      (Inr \<lparr>go_representation = g, go_replayed = False\<rparr>, st')"
      and "grantTerms sha delegations context input st = Inr (parent, terms)"
      and "grantReplay sha input terms st = Inr None"
      and "granted_in sha now input parent terms st g st'"
proof (cases "grantTerms sha delegations context input st")
  case (Inl e)
  then show ?thesis by (intro refused [of e "ordinal st"]) (simp add: grantRepresentativeAuthority_def)
next
  case (Inr r)
  then obtain parent terms where t: "grantTerms sha delegations context input st = Inr (parent, terms)"
    by (cases r) auto
  show ?thesis
  proof (cases "grantReplay sha input terms st")
    case (Inl e)
    with t show ?thesis
      by (intro refused [of e "ordinal st"]) (simp add: grantRepresentativeAuthority_def)
  next
    case (Inr found)
    show ?thesis
    proof (cases found)
      case None
      with t Inr have "grantRepresentativeAuthority sha delegations now context input st =
          recordGrant sha now input parent terms st"
        by (simp add: grantRepresentativeAuthority_def)
      with t Inr None show ?thesis
        using recordGrant_cases [of sha now input parent terms st]
        by (elim disjE exE conjE) (rule granted, simp_all, rule refused, simp)
    next
      case (Some g)
      with t Inr show ?thesis by (intro replayed [of g]) (simp_all add: grantRepresentativeAuthority_def)
    qed
  qed
qed

text \<open>The two ways a withdrawal ends, when it returns.\<close>

lemma revoke_cases:
  obtains
    (refused) e where "revokeRepresentativeAuthority sha now context tid rid st = (Inl e, st)"
  | (already) g where "revokeRepresentativeAuthority sha now context tid rid st = (Inr g, st)"
      and "stored st rid g" and "g_tenantId g = tid" and "g_revokedAt g \<noteq> None"
      and "requireAuthorityAccessToOrganization context tid = Inr ()"
  | (revoked) g g' where "revokeRepresentativeAuthority sha now context tid rid st =
      (Inr g', st\<lparr>byId := map_set (byId st) (g_id g) g'\<rparr>)"
      and "g' = seal_representation sha (g\<lparr>g_revokedAt := Some now, g_updatedAt := now\<rparr>)"
      and "stored st rid g" and "g_tenantId g = tid" and "g_revokedAt g = None"
      and "requireAuthorityAccessToOrganization context tid = Inr ()"
proof (cases "revokeRepresentativeAuthority sha now context tid rid st")
  case (Pair r st')
  show ?thesis
  proof (cases r)
    case (Inl e)
    with Pair have "st' = st"
      by (auto simp: revokeRepresentativeAuthority_def attempt_def seal_put_eq
          split: sum.split_asm option.split_asm if_split_asm)
    with Pair Inl show ?thesis by (intro refused [of e]) simp
  next
    case (Inr x)
    with Pair obtain g where acc: "requireAuthorityAccessToOrganization context tid = Inr ()"
      and rd: "readById sha st tid rid = Inr (Some g)"
      and br: "if g_revokedAt g \<noteq> None then x = g \<and> st' = st
        else x = seal_representation sha (g\<lparr>g_revokedAt := Some now, g_updatedAt := now\<rparr>) \<and>
             st' = st\<lparr>byId := map_set (byId st) (g_id g) x\<rparr>"
      by (auto simp: revokeRepresentativeAuthority_def attempt_def seal_put_eq
          split: sum.split_asm option.split_asm if_split_asm)
    note s = readById_Inr [OF rd]
    show ?thesis
    proof (cases "g_revokedAt g")
      case None
      with Pair Inr acc s br show ?thesis by (intro revoked [of x g]) auto
    next
      case (Some t)
      with Pair Inr acc s br show ?thesis by (intro already [of g]) auto
    qed
  qed
qed

lemma lineage_root_issued:
  assumes "lineage st g ps" and "rep_wf sha st" and "stored st rid g"
  shows "isGovernedRepresentativeIssuanceBasis (g_basis (last ps))"
  using assms(1,3)
proof (induction arbitrary: rid rule: lineage.induct)
  case (root g)
  with rep_wf_parent [OF assms(2) root.prems] show ?case by (simp add: parent_ok_def)
next
  case (link g pid p ps)
  then show ?case using lineage_hd [OF link.hyps(3)] by auto
qed

lemma rep_wf_bindings:
  "rep_wf sha st \<Longrightarrow> map_get (byBinding st) k = Some ids \<Longrightarrow> rid \<in> set ids \<Longrightarrow>
     \<exists>g. stored st rid g \<and> binding_of g = k"
  unfolding rep_wf_def by metis

lemma rep_wf_bound:
  "rep_wf sha st \<Longrightarrow> stored st rid g \<Longrightarrow>
     \<exists>ids. map_get (byBinding st) (binding_of g) = Some ids \<and> rid \<in> set ids"
  unfolding rep_wf_def by metis

lemma rep_wf_idem:
  "rep_wf sha st \<Longrightarrow> map_get (byIdempotencyKey st) scope = Some rid \<Longrightarrow> \<exists>g. stored st rid g"
  unfolding rep_wf_def by metis

section \<open>Every call keeps the store well formed\<close>

lemma granted_stored:
  assumes "granted_in sha now input parent terms st g st'"
  shows "stored st' rid x \<longleftrightarrow> (if rid = g_id g then x = g else stored st rid x)"
  using assms by (auto simp: granted_in_def stored_def map_simps)

lemma granted_new: "granted_in sha now input parent terms st g st' \<Longrightarrow> \<not> stored st (g_id g) x"
  unfolding granted_in_def stored_def by (metis option.distinct(1))

lemma granted_maps:
  assumes "granted_in sha now input parent terms st g st'"
  shows "map_get (byBinding st') k =
      (if k = binding_of g
       then Some ((case map_get (byBinding st) k of None \<Rightarrow> [] | Some ids \<Rightarrow> ids) @ [g_id g])
       else map_get (byBinding st) k)"
    and "map_get (byIdempotencyKey st') scope =
      (if idempotencyScope input = Some scope then Some (g_id g) else map_get (byIdempotencyKey st) scope)"
  using assms by (auto simp: granted_in_def map_simps split: option.splits)

lemma granted_fields:
  assumes "granted_in sha now input parent terms st g st'"
  shows "g_tenantId g = i_tenantId input" "g_holderRef g = c_holderRef terms"
    "g_representativeRef g = i_representativeRef input"
    "g_resourceKind g = c_resourceKind terms" "g_resourceId g = c_resourceId terms"
    "g_governedRights g = c_governedRights terms" "g_scopeLimit g = c_scopeLimit terms"
    "g_actions g = c_actions terms" "g_effectiveFrom g = c_effectiveFrom terms"
    "g_expiresAt g = c_expiresAt terms" "g_parentRepresentativeAuthorityId g = map_option g_id parent"
    "g_basis g = i_basis input" "g_revokedAt g = None"
  using assms unfolding granted_in_def
  by (metis seal_representation_fields grantedDraft_fields)+

lemma granted_later: "granted_in sha now input parent terms st g st' \<Longrightarrow> evolves st st'"
  unfolding evolves_def granted_stored
  by (auto simp: granted_in_def stored_def)

text \<open>The parent is a stored binding of the tenant, and the child narrows it.\<close>

lemma granted_parent:
  assumes t: "grantTerms sha delegations context input st = Inr (parent, terms)"
    and g: "granted_in sha now input parent terms st g st'" and wf: "rep_wf sha st"
  shows "case parent of
      None \<Rightarrow> isGovernedRepresentativeIssuanceBasis (i_basis input)
    | Some p \<Rightarrow> (\<exists>by. i_basis input = RepRedelegation (g_id p) by) \<and> stored st (g_id p) p \<and>
        g_canRedelegate p \<and> narrows g p"
proof (cases parent)
  case None
  with grantTerms_Inr(2) [OF t] show ?thesis
    by (cases "i_basis input") (auto simp: grantParent_Inr)
next
  case (Some p)
  obtain pid "by" where b: "i_basis input = RepRedelegation pid by"
    and r: "readById sha st (i_tenantId input) pid = Inr (Some p)"
    using grantTerms_Inr(2) [OF t] Some by (cases "i_basis input") (auto simp: grantParent_Inr)
  from readById_Inr [OF r] have s: "stored st pid p" and tn: "g_tenantId p = i_tenantId input" by auto
  from rep_wf_stored [OF wf s] have ok: "rep_ok sha pid p" .
  from grantTerms_Inr(13) [OF t] Some have c: "g_canRedelegate p"
    "governedRepresentativeAuthorityContainmentBreach p terms governedRightsScopeWithin = None"
    by (simp_all add: assertRedelegationContained_Inr)
  have "narrows g p"
    using c(2) tn ok grantTerms_Inr(9-11) [OF t]
    by (simp add: narrows_def granted_fields [OF g] breach_None expiry_within_le rep_ok_def
        instant_not_lt requireStrictUtc_Inr)
  with b s c(1) ok Some show ?thesis by (simp add: rep_ok_def)
qed

lemma granted_ok:
  assumes t: "grantTerms sha delegations context input st = Inr (parent, terms)"
    and g: "granted_in sha now input parent terms st g st'"
  shows "rep_ok sha (g_id g) g"
proof -
  have "representation_intact sha g"
    using g representation_seal.seal_intact unfolding granted_in_def by metis
  moreover have "c_holderRef terms \<noteq> []"
    using grantTerms_Inr(4) [OF t] by (auto simp: grantSubject_Inr)
  ultimately show ?thesis
    using grantTerms_Inr(5-11) [OF t]
    by (simp add: rep_ok_def granted_fields [OF g] assertRepresentedRights_Inr
        assertRepresentedActions_Inr assertRepresentativeScopeLimit_Inr requireStrictUtc_Inr)
qed

lemma parent_ok_later: "parent_ok st g \<Longrightarrow> evolves st st' \<Longrightarrow> same_terms g g' \<Longrightarrow> parent_ok st' g'"
  by (auto simp: parent_ok_def same_terms_fields same_terms_narrows split: option.splits
      dest!: evolvesD)

lemma granted_wf:
  assumes t: "grantTerms sha delegations context input st = Inr (parent, terms)"
    and g: "granted_in sha now input parent terms st g st'" and wf: "rep_wf sha st"
  shows "rep_wf sha st'"
proof -
  note later = granted_later [OF g] and gs = granted_stored [OF g]
  note old = wf [unfolded rep_wf_def]
  have by_id: "map_all (rep_ok sha) (byId st')"
    using old g granted_ok [OF t g] by (auto simp: granted_in_def)
  have par: "parent_ok st' g \<and> (\<exists>ps. lineage st' g ps)"
  proof (cases parent)
    case None
    then have "lineage st' g [g]" by (intro lineage.root) (simp add: granted_fields [OF g])
    with None granted_parent [OF t g wf] show ?thesis
      by (auto simp: parent_ok_def granted_fields [OF g])
  next
    case (Some p)
    with granted_parent [OF t g wf] have p: "\<exists>by. i_basis input = RepRedelegation (g_id p) by"
      "stored st (g_id p) p" "g_canRedelegate p" "narrows g p" by auto
    with granted_new [OF g] have sp: "stored st' (g_id p) p" by (auto simp: gs)
    obtain qs where qs: "lineage st' p qs"
      using rep_wf_lineage [OF wf p(2)] lineage_later [OF _ later same_terms_refl] by blast
    from sp qs have "lineage st' g (g # qs)"
      by (intro lineage.link [of g "g_id p" st' p]) (simp_all add: granted_fields [OF g] Some)
    with sp p Some show ?thesis
      by (auto simp: parent_ok_def granted_fields [OF g])
  qed
  have recs: "parent_ok st' x \<and> (\<exists>ps. lineage st' x ps)" if "stored st' rid x" for rid x
  proof (cases "rid = g_id g")
    case True
    with that par show ?thesis by (simp add: gs)
  next
    case False
    with that have "stored st rid x" by (simp add: gs)
    then show ?thesis
      using rep_wf_parent [OF wf] rep_wf_lineage [OF wf] parent_ok_later [OF _ later same_terms_refl]
        lineage_later [OF _ later same_terms_refl] by metis
  qed
  have binds: "\<forall>rid \<in> set ids. \<exists>x. stored st' rid x \<and> binding_of x = k"
    if "map_get (byBinding st') k = Some ids" for k ids
  proof
    fix rid assume r: "rid \<in> set ids"
    show "\<exists>x. stored st' rid x \<and> binding_of x = k"
    proof (cases "rid = g_id g \<and> k = binding_of g")
      case False
      with that r have "\<exists>ids. map_get (byBinding st) k = Some ids \<and> rid \<in> set ids"
        by (auto simp: granted_maps [OF g] split: if_splits option.splits)
      then obtain x where "stored st rid x" "binding_of x = k" using rep_wf_bindings [OF wf] by blast
      with granted_new [OF g] show ?thesis by (auto simp: gs)
    qed (simp add: gs)
  qed
  have bound: "\<exists>ids. map_get (byBinding st') (binding_of x) = Some ids \<and> rid \<in> set ids"
    if "stored st' rid x" for rid x
  proof (cases "rid = g_id g")
    case True
    with that show ?thesis by (simp add: gs granted_maps [OF g])
  next
    case False
    with that have "stored st rid x" by (simp add: gs)
    with rep_wf_bound [OF wf] obtain ids
      where "map_get (byBinding st) (binding_of x) = Some ids" "rid \<in> set ids" by metis
    then show ?thesis by (auto simp: granted_maps [OF g])
  qed
  have idem: "\<exists>x. stored st' rid x" if "map_get (byIdempotencyKey st') scope = Some rid" for scope rid
  proof (cases "rid = g_id g")
    case False
    with that have "map_get (byIdempotencyKey st) scope = Some rid"
      by (auto simp: granted_maps [OF g] split: if_splits)
    with rep_wf_idem [OF wf] obtain x where "stored st rid x" by metis
    with False show ?thesis by (auto simp: gs)
  qed (simp add: gs)
  show ?thesis unfolding rep_wf_def using by_id recs binds bound idem by blast
qed

lemma revoked_later:
  assumes wf: "rep_wf sha st" and s: "stored st rid g" and live: "g_revokedAt g = None"
    and g': "g' = seal_representation sha (g\<lparr>g_revokedAt := Some now, g_updatedAt := now\<rparr>)"
  shows "same_terms g g'" and "evolves st (st\<lparr>byId := map_set (byId st) (g_id g) g'\<rparr>)"
proof -
  show same: "same_terms g g'" unfolding same_terms_def g' seal_representation_def by (intro exI) simp
  have "g_id g = rid" using rep_wf_stored [OF wf s] by (simp add: rep_ok_def)
  with same s live show "evolves st (st\<lparr>byId := map_set (byId st) (g_id g) g'\<rparr>)"
    unfolding evolves_def stored_put by (metis same_terms_refl stored_unique)
qed

lemma revoked_wf:
  assumes wf: "rep_wf sha st" and s: "stored st rid g" and live: "g_revokedAt g = None"
    and g': "g' = seal_representation sha (g\<lparr>g_revokedAt := Some now, g_updatedAt := now\<rparr>)"
  shows "rep_wf sha (st\<lparr>byId := map_set (byId st) (g_id g) g'\<rparr>)" (is "rep_wf sha ?st'")
proof -
  note same = revoked_later(1) [OF assms] and later = revoked_later(2) [OF assms]
  note old = wf [unfolded rep_wf_def]
  have ok: "rep_ok sha rid g" by (rule rep_wf_stored [OF wf s])
  then have i: "g_id g = rid" by (simp add: rep_ok_def)
  have "representation_intact sha g'" unfolding g' by (rule representation_seal.seal_intact)
  with ok have ok': "rep_ok sha rid g'" by (simp add: rep_ok_def same_terms_fields [OF same])
  have b: "binding_of g' = binding_of g" by (simp add: binding_of_def same_terms_fields [OF same])
  have st: "stored ?st' r x \<longleftrightarrow> (if r = rid then x = g' else stored st r x)" for r x
    using i by (simp add: stored_put)
  have recs: "parent_ok ?st' x \<and> (\<exists>ps. lineage ?st' x ps)" if x: "stored ?st' r x" for r x
  proof -
    obtain y where "stored st r y" "same_terms y x"
      using x s same by (cases "r = rid") (auto simp: st intro: same_terms_refl)
    then show ?thesis
      using rep_wf_parent [OF wf] rep_wf_lineage [OF wf] parent_ok_later [OF _ later]
        lineage_later [OF _ later] by metis
  qed
  have "map_all (rep_ok sha) (byId ?st')" using old ok' i by auto
  moreover have "\<forall>k ids. map_get (byBinding ?st') k = Some ids \<longrightarrow>
        (\<forall>rid \<in> set ids. \<exists>g. stored ?st' rid g \<and> binding_of g = k)"
  proof (intro allI impI ballI)
    fix k ids r assume "map_get (byBinding ?st') k = Some ids" "r \<in> set ids"
    then obtain x where x: "stored st r x" "binding_of x = k"
      using rep_wf_bindings [OF wf, of k ids r] by auto
    show "\<exists>g. stored ?st' r g \<and> binding_of g = k"
    proof (cases "r = rid")
      case True
      with x(1) s have "x = g" by (auto dest: stored_unique)
      with x(2) b have "binding_of g' = k" by simp
      with True show ?thesis by (auto simp: st)
    qed (use x in \<open>auto simp: st\<close>)
  qed
  moreover have "\<forall>r x. stored ?st' r x \<longrightarrow>
        (\<exists>ids. map_get (byBinding ?st') (binding_of x) = Some ids \<and> r \<in> set ids)"
    using rep_wf_bound [OF wf] s b by (simp add: st)
  moreover have "\<forall>scope r. map_get (byIdempotencyKey ?st') scope = Some r \<longrightarrow> (\<exists>g. stored ?st' r g)"
    using rep_wf_idem [OF wf] by (simp add: st) metis
  ultimately show ?thesis unfolding rep_wf_def using recs by blast
qed

section \<open>Runs\<close>

datatype rep_call =
    RepGrant "GovernedRepresentationDelegationPort option" string AuthorityGovernanceContext
      GrantRepresentativeAuthorityInput
  | RepRevoke string AuthorityGovernanceContext string string
  | RepClose

fun run_rep :: "(string \<Rightarrow> string) \<Rightarrow> rep_call \<Rightarrow> rep_store \<Rightarrow> rep_store" where
  "run_rep sha (RepGrant delegations now cx i) st =
     snd (grantRepresentativeAuthority sha delegations now cx i st)"
| "run_rep sha (RepRevoke now cx tid rid) st = snd (revokeRepresentativeAuthority sha now cx tid rid st)"
| "run_rep sha RepClose st = close_rep_store st"

lemma rep_wf_ordinal: "rep_wf sha (st\<lparr>ordinal := n\<rparr>) \<longleftrightarrow> rep_wf sha st"
proof -
  have s: "stored (st\<lparr>ordinal := n\<rparr>) = stored st" by (intro ext) (simp add: stored_def)
  have "lineage (st\<lparr>ordinal := n\<rparr>) = lineage st"
    by (intro ext iffI; erule lineage.induct) (auto intro: lineage.intros simp: s)
  moreover have "parent_ok (st\<lparr>ordinal := n\<rparr>) = parent_ok st" by (intro ext) (simp add: parent_ok_def s split: option.split)
  ultimately show ?thesis unfolding rep_wf_def s by simp
qed

lemma later_ordinal [simp]: "evolves st (st\<lparr>ordinal := n\<rparr>)"
  by (auto simp: evolves_def stored_def)

lemma grant_wf:
  assumes "rep_wf sha st"
  shows "rep_wf sha (snd (grantRepresentativeAuthority sha delegations now cx i st))"
  by (rule grant_cases [of sha delegations now cx i st])
    (use assms granted_wf in \<open>auto simp: rep_wf_ordinal\<close>)

lemma grant_later: "evolves st (snd (grantRepresentativeAuthority sha delegations now cx i st))"
  by (rule grant_cases [of sha delegations now cx i st]) (auto intro: granted_later)

lemma revoke_wf:
  assumes "rep_wf sha st"
  shows "rep_wf sha (snd (revokeRepresentativeAuthority sha now cx tid rid st))"
  by (rule revoke_cases [of sha now cx tid rid st])
    (use assms revoked_wf in \<open>auto simp del: rep_wf_ordinal\<close>)

lemma revoke_later:
  assumes "rep_wf sha st"
  shows "evolves st (snd (revokeRepresentativeAuthority sha now cx tid rid st))"
  by (rule revoke_cases [of sha now cx tid rid st]) (use assms revoked_later(2) in auto)

lemma close_wf_rep: "rep_wf sha (close_rep_store st)"
  by (simp add: close_rep_store_def rep_wf_def stored_def)

lemma run_rep_wf: "rep_wf sha st \<Longrightarrow> rep_wf sha (run_rep sha c st)"
  by (cases c) (auto intro: grant_wf revoke_wf close_wf_rep)

interpretation rep_machine: invariant_machine empty_rep_store "run_rep sha" "rep_wf sha" for sha
  by unfold_locales (auto intro: rep_wf_empty run_rep_wf)

lemma run_rep_later: "rep_wf sha st \<Longrightarrow> c \<noteq> RepClose \<Longrightarrow> evolves st (run_rep sha c st)"
  by (cases c) (auto intro: grant_later revoke_later)

lemma runs_later: "rep_wf sha st \<Longrightarrow> RepClose \<notin> set cs \<Longrightarrow> evolves st (fold (run_rep sha) cs st)"
proof (induction cs arbitrary: st)
  case (Cons c cs)
  then have "evolves (run_rep sha c st) (fold (run_rep sha) cs (run_rep sha c st))"
    by (intro Cons.IH run_rep_wf) auto
  moreover have "evolves st (run_rep sha c st)" using Cons.prems by (intro run_rep_later) auto
  ultimately show ?case by (auto intro: evolves_trans)
qed simp

end
