(* ===== verification/RepresentationProtocol.thy ===== *)
theory RepresentationProtocol
  imports RepresentationInvariants
begin

text \<open>
  What the representation store promises across calls, and that the resolver answers exactly
  when a binding may be exercised: the specification \<open>exercisable\<close> reads the stored bindings and
  their lineage, with no loop, rank or lookup table in it.
\<close>

section \<open>The ancestors\<close>

text \<open>Every delegation of the lineage is live, and every ancestor is in force.\<close>

definition live_lineage ::
  "GovernedRepresentationDelegationPort option \<Rightarrow> string \<Rightarrow> GovernedRepresentativeAuthority list \<Rightarrow> bool" where
  "live_lineage delegations at ps \<longleftrightarrow>
     (\<forall>p \<in> set ps. delegationStands delegations p) \<and>
     (\<forall>p \<in> set (tl ps). governedRepresentativeAuthorityState p at = RepActive)"

lemma live_lineage_Cons:
  "live_lineage delegations at (g # p # ps) \<longleftrightarrow>
     delegationStands delegations g \<and> governedRepresentativeAuthorityState p at = RepActive \<and>
     live_lineage delegations at (p # ps)"
  by (auto simp: live_lineage_def)

lemma live_lineage_single [simp]: "live_lineage delegations at [g] \<longleftrightarrow> delegationStands delegations g"
  by (simp add: live_lineage_def)

lemma getRepresentative_wf:
  assumes "rep_wf sha st" and "requireAuthorityAccessToOrganization cx tid = Inr ()"
    and "stored st rid g" and "g_tenantId g = tid"
  shows "getRepresentativeAuthority sha cx tid rid st = Inr (Some g)"
  using assms(2-) by (simp add: getRepresentativeAuthority_def readById_wf [OF assms(1)] stored_def)

lemma basis_loop_correct:
  assumes wf: "rep_wf sha st" and acc: "requireAuthorityAccessToOrganization cx tid = Inr ()"
    and "lineage st g ps" and "stored st rid g" and "g_tenantId g = tid"
  shows "\<exists>v. basis_loop sha delegations cx tid at st fuel g chain = Inr v \<and>
    (\<forall>c. v = BasisHolds c \<longleftrightarrow>
       length ps \<le> fuel \<and> live_lineage delegations at ps \<and> c = chain @ map g_id (tl ps))"
  using assms(3-)
proof (induction arbitrary: rid fuel chain rule: lineage.induct)
  case (root g)
  then show ?case by (cases fuel) auto
next
  case (link g pid p ps)
  have pm: "g_canRedelegate p" "narrows g p"
    using rep_wf_parent [OF wf link.prems(1)] link.hyps(1,2)
    by (auto simp: parent_ok_def dest: stored_unique)
  then have tp: "g_tenantId p = tid" using link.prems(2) by (simp add: narrows_def)
  note rd = getRepresentative_wf [OF wf acc link.hyps(2) tp]
  obtain qs where ps: "ps = p # qs" using lineage_hd [OF link.hyps(3)] by blast
  show ?case
  proof (cases fuel)
    case (Suc n)
    show ?thesis
    proof (cases "delegationStands delegations g \<and> governedRepresentativeAuthorityState p at = RepActive")
      case True
      then have "basis_loop sha delegations cx tid at st fuel g chain =
          basis_loop sha delegations cx tid at st n p (chain @ [g_id p])"
        using Suc link.hyps(1) rd pm by simp
      with link.IH [OF link.hyps(2) tp, of n "chain @ [g_id p]"] show ?thesis
        using True by (auto simp: ps Suc live_lineage_Cons)
    next
      case False
      then show ?thesis using Suc link.hyps(1) rd pm by (auto simp: ps live_lineage_Cons)
    qed
  qed simp
qed

section \<open>The candidates\<close>

text \<open>A binding from the query's requester to its holder over its resource.\<close>

definition binds :: "GovernedRepresentationQuery \<Rightarrow> GovernedRepresentativeAuthority \<Rightarrow> bool" where
  "binds q g \<longleftrightarrow> g_tenantId g = rq_tenantId q \<and> g_representativeRef g = rq_representativeRef q \<and>
     g_holderRef g = rq_holderRef q \<and> g_resourceKind g = rq_resourceKind q \<and>
     g_resourceId g = rq_resourceId q"

lemma binding_of_iff:
  "binding_of g = bindingKey (rq_tenantId q) (rq_representativeRef q) (rq_holderRef q)
     \<lparr>rr_kind = rq_resourceKind q, rr_id = rq_resourceId q\<rparr> \<longleftrightarrow> binds q g"
  by (auto simp: binding_of_def bindingKey_def binds_def length_prefixed_inject)

lemma set_map_filter_id: "x \<in> set (List.map_filter (\<lambda>r. r) xs) \<longleftrightarrow> Some x \<in> set xs"
  by (induction xs) (auto simp: List.map_filter_simps split: option.splits)

lemma candidates_exact:
  assumes wf: "rep_wf sha st"
    and acc: "requireAuthorityAccessToOrganization cx (rq_tenantId q) = Inr ()"
  shows "\<exists>gs. listRepresentativeAuthorities sha collate cx (rq_tenantId q) (rq_representativeRef q)
      (rq_holderRef q) \<lparr>rr_kind = rq_resourceKind q, rr_id = rq_resourceId q\<rparr> st = Inr gs \<and>
    (\<forall>g. g \<in> set gs \<longleftrightarrow> stored st (g_id g) g \<and> binds q g)"
proof -
  define key where "key = bindingKey (rq_tenantId q) (rq_representativeRef q) (rq_holderRef q)
     \<lparr>rr_kind = rq_resourceKind q, rr_id = rq_resourceId q\<rparr>"
  define ids where "ids = (case map_get (byBinding st) key of None \<Rightarrow> [] | Some ids \<Rightarrow> ids)"
  define got where "got rid = (case map_get (byId st) rid of None \<Rightarrow> None
      | Some g \<Rightarrow> if g_tenantId g = rq_tenantId q then Some g else None)" for rid
  have "mapR (readById sha st (rq_tenantId q)) ids = Inr (map got ids)"
    by (induction ids) (simp_all add: readById_wf [OF wf] got_def)
  with acc have l: "listRepresentativeAuthorities sha collate cx (rq_tenantId q) (rq_representativeRef q)
      (rq_holderRef q) \<lparr>rr_kind = rq_resourceKind q, rr_id = rq_resourceId q\<rparr> st =
      Inr (sort_by (representationOrder collate) (List.map_filter (\<lambda>r. r) (map got ids)))"
    by (simp add: listRepresentativeAuthorities_def ids_def key_def)
  have "Some g \<in> set (map got ids) \<longleftrightarrow> stored st (g_id g) g \<and> binds q g" for g
  proof
    assume "Some g \<in> set (map got ids)"
    then obtain rid where rid: "rid \<in> set ids" "stored st rid g"
      by (auto simp: got_def stored_def split: option.splits if_splits)
    then have "map_get (byBinding st) key = Some ids"
      by (cases "map_get (byBinding st) key") (auto simp: ids_def)
    with rid obtain x where "stored st rid x" "binding_of x = key"
      using rep_wf_bindings [OF wf, of key ids rid] by auto
    with rid rep_wf_stored [OF wf rid(2)] show "stored st (g_id g) g \<and> binds q g"
      by (auto simp: rep_ok_def key_def binding_of_iff dest: stored_unique)
  next
    assume g: "stored st (g_id g) g \<and> binds q g"
    then have "binding_of g = key" by (simp add: key_def binding_of_iff)
    with g rep_wf_bound [OF wf, of "g_id g" g] have "g_id g \<in> set ids" by (auto simp: ids_def)
    with g show "Some g \<in> set (map got ids)"
      by (auto simp: got_def stored_def binds_def image_iff intro!: bexI [of _ "g_id g"])
  qed
  with l show ?thesis by (simp add: set_map_filter_id)
qed

section \<open>The verdict\<close>

lemma keep_fold:
  "fold keep vs b \<in> insert b (set vs) \<and> (\<forall>v \<in> insert b (set vs). rank v \<le> rank (fold keep vs b))"
proof (induction vs arbitrary: b)
  case (Cons v vs)
  from Cons [of "keep v b"] show ?case by (auto simp: keep_def split: if_splits)
qed simp

lemma covered_rank: "isGovernedRepresentationCovered v \<longleftrightarrow> rank v = 100"
  by (cases v) auto

lemma rank_le: "rank v \<le> 100"
  by (cases v) auto

text \<open>
  The specification: a stored binding for exactly this requester, holder and resource that lists
  the right and the action, is in force, has a ceiling that covers the quantity asked for, and
  whose whole lineage stands, in at most sixteen links.
\<close>

definition exercisable ::
  "GovernedRepresentationDelegationPort option \<Rightarrow> GovernedRepresentationQuery \<Rightarrow> rep_store \<Rightarrow>
     GovernedRepresentativeAuthority \<Rightarrow> GovernedRepresentativeAuthority list \<Rightarrow> bool" where
  "exercisable delegations q st g ps \<longleftrightarrow>
     stored st (g_id g) g \<and> binds q g \<and> rq_governedRight q \<in> set (g_governedRights g) \<and>
     rq_action q \<in> set (g_actions g) \<and> governedRepresentativeAuthorityState g (rq_at q) = RepActive \<and>
     (\<forall>s m. rq_requestedScope q = Some s \<longrightarrow> g_scopeLimit g = BoundedLimit m \<longrightarrow>
        governedRightsScopeWithin s m) \<and>
     lineage st g ps \<and> length ps \<le> 16 \<and> live_lineage delegations (rq_at q) ps"

lemma ceilingRefusal_None:
  "ceilingRefusal g r = None \<longleftrightarrow>
     (\<forall>s m. r = Some s \<longrightarrow> g_scopeLimit g = BoundedLimit m \<longrightarrow> governedRightsScopeWithin s m)"
  by (auto simp: ceilingRefusal_def Let_def scopesDiffer_iff within_iff
      split: option.splits GovernedRepresentativeScopeLimit.splits)

lemma ceilingRefusal_rank: "ceilingRefusal g r = Some v \<Longrightarrow> rank v = 60"
  by (auto simp: ceilingRefusal_def Let_def split: option.splits GovernedRepresentativeScopeLimit.splits if_splits)

lemma candidate_correct:
  assumes wf: "rep_wf sha st" and acc: "requireAuthorityAccessToOrganization cx (rq_tenantId q) = Inr ()"
    and g: "stored st (g_id g) g" "binds q g"
  shows "\<exists>v. candidateCoverage sha delegations cx q st g = Inr v \<and>
    (rank v = 100 \<longrightarrow> (\<exists>ps. exercisable delegations q st g ps \<and> v = Represented (g_id g) (map g_id ps))) \<and>
    (\<forall>ps. exercisable delegations q st g ps \<longrightarrow> rank v = 100)"
proof -
  obtain ps where ps: "lineage st g ps" using rep_wf_lineage [OF wf g(1)] by blast
  have tn: "g_tenantId g = rq_tenantId q" using g(2) by (simp add: binds_def)
  obtain b where b: "basisStillHolds sha delegations cx g (rq_tenantId q) (rq_at q) st = Inr b"
    and holds: "\<And>c. b = BasisHolds c \<longleftrightarrow>
      length ps \<le> 16 \<and> live_lineage delegations (rq_at q) ps \<and> c = [g_id g] @ map g_id (tl ps)"
    using basis_loop_correct [OF wf acc ps g(1) tn, of delegations "rq_at q" 16 "[g_id g]"]
    by (auto simp: basisStillHolds_def MAX_REPRESENTATION_CHAIN_HOPS_def)
  have ids: "[g_id g] @ map g_id (tl ps) = map g_id ps" using lineage_hd [OF ps] by auto
  define fit where "fit \<longleftrightarrow> rq_governedRight q \<in> set (g_governedRights g) \<and>
     rq_action q \<in> set (g_actions g) \<and> governedRepresentativeAuthorityState g (rq_at q) = RepActive \<and>
     ceilingRefusal g (rq_requestedScope q) = None"
  have ex: "exercisable delegations q st g qs \<longleftrightarrow>
      fit \<and> qs = ps \<and> length ps \<le> 16 \<and> live_lineage delegations (rq_at q) ps" for qs
  proof -
    have "lineage st g qs \<longleftrightarrow> qs = ps" using ps lineage_unique [OF ps] by blast
    with g show ?thesis by (auto simp: exercisable_def fit_def ceilingRefusal_None)
  qed
  show ?thesis
  proof (cases fit)
    case True
    then have cov: "candidateCoverage sha delegations cx q st g =
        (case b of BasisFails reason \<Rightarrow> Inr (BasisWithdrawn (g_id g) reason)
         | BasisHolds chain \<Rightarrow> Inr (Represented (g_id g) chain))"
      by (simp add: candidateCoverage_def fit_def b)
    then show ?thesis
    proof (cases b)
      case (BasisHolds c)
      with holds [of c] ids have "c = map g_id ps" "length ps \<le> 16" "live_lineage delegations (rq_at q) ps"
        by simp_all
      with cov BasisHolds True show ?thesis by (simp add: ex)
    next
      case (BasisFails reason)
      with holds [of "map g_id ps"] ids have "\<not> (length ps \<le> 16 \<and> live_lineage delegations (rq_at q) ps)"
        by auto
      with cov BasisFails True show ?thesis by (simp add: ex)
    qed
  next
    case False
    then show ?thesis
      using ceilingRefusal_rank [of g "rq_requestedScope q"]
      by (auto simp: candidateCoverage_def fit_def ex Let_def split: option.splits)
  qed
qed

lemma mapR_total:
  assumes "\<And>x. x \<in> set xs \<Longrightarrow> \<exists>v. f x = Inr v \<and> P x v"
  shows "\<exists>vs. mapR f xs = Inr vs \<and> list_all2 P xs vs"
  using assms
proof (induction xs)
  case (Cons x xs)
  then obtain v vs where "f x = Inr v" "P x v" "mapR f xs = Inr vs" "list_all2 P xs vs" by fastforce
  then show ?case by simp
qed simp

lemma resolver_correct:
  assumes wf: "rep_wf sha st" and acc: "requireAuthorityAccessToOrganization cx (rq_tenantId q) = Inr ()"
    and ne: "rq_representativeRef q \<noteq> rq_holderRef q"
  shows "\<exists>v. resolveGovernedRepresentation sha collate delegations cx q st = Inr v \<and>
    (isGovernedRepresentationCovered v \<longleftrightarrow> (\<exists>g ps. exercisable delegations q st g ps)) \<and>
    (isGovernedRepresentationCovered v \<longrightarrow>
       (\<exists>g ps. exercisable delegations q st g ps \<and> v = Represented (g_id g) (map g_id ps)))"
proof -
  obtain gs where l: "listRepresentativeAuthorities sha collate cx (rq_tenantId q)
      (rq_representativeRef q) (rq_holderRef q)
      \<lparr>rr_kind = rq_resourceKind q, rr_id = rq_resourceId q\<rparr> st = Inr gs"
    and gs: "\<And>g. g \<in> set gs \<longleftrightarrow> stored st (g_id g) g \<and> binds q g"
    using candidates_exact [OF wf acc] by blast
  let ?P = "\<lambda>g v. (rank v = 100 \<longrightarrow> (\<exists>ps. exercisable delegations q st g ps \<and>
        v = Represented (g_id g) (map g_id ps))) \<and>
      (\<forall>ps. exercisable delegations q st g ps \<longrightarrow> rank v = 100)"
  obtain vs where vs: "mapR (candidateCoverage sha delegations cx q st) gs = Inr vs"
    and rel: "list_all2 ?P gs vs"
    using mapR_total [of gs "candidateCoverage sha delegations cx q st" ?P]
      candidate_correct [OF wf acc] gs by blast
  define v where "v = fold keep vs NoRepresentation"
  have r: "resolveGovernedRepresentation sha collate delegations cx q st = Inr v"
    using ne l vs by (cases gs) (auto simp: resolveGovernedRepresentation_def v_def)
  have v: "v \<in> insert NoRepresentation (set vs)" and top: "\<forall>x \<in> set vs. rank x \<le> rank v"
    using keep_fold [of vs NoRepresentation] by (auto simp: v_def)
  have sound: "\<exists>g ps. exercisable delegations q st g ps \<and> v = Represented (g_id g) (map g_id ps)"
    if c: "isGovernedRepresentationCovered v"
  proof -
    from c v have "v \<in> set vs" by auto
    then obtain i where i: "i < length vs" "vs ! i = v" by (auto simp: in_set_conv_nth)
    with list_all2_nthD2 [OF rel i(1)] c show ?thesis by (auto simp: covered_rank)
  qed
  have complete: "isGovernedRepresentationCovered v" if e: "exercisable delegations q st g ps" for g ps
  proof -
    from e gs have "g \<in> set gs" by (simp add: exercisable_def)
    then obtain i where i: "i < length gs" "gs ! i = g" by (auto simp: in_set_conv_nth)
    with list_all2_nthD [OF rel i(1)] e have "rank (vs ! i) = 100" by auto
    moreover have "vs ! i \<in> set vs" using i list_all2_lengthD [OF rel] by simp
    ultimately show ?thesis using top rank_le [of v] by (force simp: covered_rank)
  qed
  from r sound complete show ?thesis by blast
qed

section \<open>Withdrawal\<close>

text \<open>An ancestor withdrawn by the instant of a query is in no chain that answers it.\<close>

lemma withdrawn_not_exercisable:
  assumes "exercisable delegations q st g ps" and "p \<in> set ps" and "g_revokedAt p = Some t"
  shows "\<not> instant_ge (rq_at q) t"
proof -
  from assms(1) have "lineage st g ps" and "governedRepresentativeAuthorityState g (rq_at q) = RepActive"
    and "\<forall>p \<in> set (tl ps). governedRepresentativeAuthorityState p (rq_at q) = RepActive"
    by (auto simp: exercisable_def live_lineage_def)
  with assms(2) have "governedRepresentativeAuthorityState p (rq_at q) = RepActive"
    using lineage_hd by fastforce
  with assms(3) show ?thesis by (auto simp: governedRepresentativeAuthorityState_def split: if_splits)
qed

lemma lineage_stored:
  assumes wf: "rep_wf sha st" and "lineage st g ps" and "stored st (g_id g) g" and "p \<in> set ps"
  shows "stored st (g_id p) p"
  using lineage_narrows [OF assms(2) wf assms(3,4)] by simp

lemma withdrawn_disables:
  assumes wf: "rep_wf sha st" and acc: "requireAuthorityAccessToOrganization cx (rq_tenantId q) = Inr ()"
    and s: "stored st rid p" and rv: "g_revokedAt p = Some t" and at: "instant_ge (rq_at q) t"
    and r: "resolveGovernedRepresentation sha collate delegations cx q st = Inr (Represented x chain)"
  shows "rid \<notin> set chain"
proof
  assume rid: "rid \<in> set chain"
  have ne: "rq_representativeRef q \<noteq> rq_holderRef q"
    using r by (auto simp: resolveGovernedRepresentation_def split: if_splits)
  obtain g ps where e: "exercisable delegations q st g ps" and c: "chain = map g_id ps"
    using resolver_correct [OF wf acc ne, of collate delegations] r by auto
  from rid c obtain p' where p': "p' \<in> set ps" "g_id p' = rid" by auto
  with lineage_stored [OF wf _ _ p'(1)] e have "stored st rid p'" by (auto simp: exercisable_def)
  with s have "p' = p" by (auto dest: stored_unique)
  with withdrawn_not_exercisable [OF e p'(1)] rv at show False by simp
qed

text \<open>What a withdrawal returns is stored, withdrawn, and stays exactly so.\<close>

lemma revoke_returns:
  assumes wf: "rep_wf sha st" and r: "revokeRepresentativeAuthority sha now cx tid rid st = (Inr g, st')"
  shows "stored st' rid g \<and> g_revokedAt g \<noteq> None \<and> rep_wf sha st'"
proof -
  have w: "rep_wf sha st'" using revoke_wf [OF wf, of now cx tid rid] r by simp
  show ?thesis
  proof (rule revoke_cases [of sha now cx tid rid st])
    fix x x' assume *: "revokeRepresentativeAuthority sha now cx tid rid st =
        (Inr x', st\<lparr>byId := map_set (byId st) (g_id x) x'\<rparr>)"
      "x' = seal_representation sha (x\<lparr>g_revokedAt := Some now, g_updatedAt := now\<rparr>)" "stored st rid x"
    then have "g_id x = rid" using rep_wf_stored [OF wf] by (auto simp: rep_ok_def)
    with * r w show ?thesis by (auto simp: stored_put)
  qed (use r w in auto)
qed

lemma withdrawn_stays:
  assumes "rep_wf sha st" and "stored st rid g" and "g_revokedAt g \<noteq> None" and "RepClose \<notin> set cs"
  shows "stored (fold (run_rep sha) cs st) rid g"
  using runs_later [OF assms(1,4)] assms(2,3) unfolding evolves_def by metis

lemma revoke_again:
  assumes wf: "rep_wf sha st" and s: "stored st rid g" and rv: "g_revokedAt g \<noteq> None"
  shows "snd (revokeRepresentativeAuthority sha now cx tid rid st) = st"
  by (rule revoke_cases [of sha now cx tid rid st]) (use s rv in \<open>auto simp: stored_def\<close>)

section \<open>Delegated callers\<close>

text \<open>A call that no privileged context makes.\<close>

fun unprivileged :: "rep_call \<Rightarrow> bool" where
  "unprivileged (RepGrant _ _ cx _) = (\<not> cx_system cx)"
| "unprivileged (RepRevoke _ cx _ _) = (\<not> cx_system cx)"
| "unprivileged RepClose = True"

lemma unprivileged_grant_parent:
  assumes t: "grantTerms sha delegations cx i st = Inr (parent, terms)" and "\<not> cx_system cx"
  shows "\<exists>p. parent = Some p \<and> cx_actorId cx = Some (g_representativeRef p)"
  using grantTerms_Inr(3) [OF t] assms(2)
  by (auto simp: assertMayGrantRepresentation_def split: option.splits if_splits)

lemma unprivileged_step:
  assumes wf: "rep_wf sha st" and c: "unprivileged c" and s: "stored (run_rep sha c st) rid g"
  shows "\<exists>rid0 g0. stored st rid0 g0 \<and> narrows g g0"
proof (cases c)
  case (RepGrant delegations now cx i)
  show ?thesis
  proof (rule grant_cases [of sha delegations now cx i st])
    fix parent terms x st'
    assume e: "grantRepresentativeAuthority sha delegations now cx i st =
        (Inr \<lparr>go_representation = x, go_replayed = False\<rparr>, st')"
      and t: "grantTerms sha delegations cx i st = Inr (parent, terms)"
      and g: "granted_in sha now i parent terms st x st'"
    from unprivileged_grant_parent [OF t] c RepGrant obtain p where p: "parent = Some p" by auto
    with granted_parent [OF t g wf] have "stored st (g_id p) p" "narrows x p" by auto
    with s e RepGrant rep_wf_narrows_self [OF wf] show ?thesis
      by (auto simp: granted_stored [OF g] split: if_splits)
  qed (use s RepGrant rep_wf_narrows_self [OF wf] in \<open>auto simp: stored_def\<close>)
next
  case (RepRevoke now cx tid r)
  show ?thesis
  proof (rule revoke_cases [of sha now cx tid r st])
    fix x x' assume *: "revokeRepresentativeAuthority sha now cx tid r st =
        (Inr x', st\<lparr>byId := map_set (byId st) (g_id x) x'\<rparr>)"
      "x' = seal_representation sha (x\<lparr>g_revokedAt := Some now, g_updatedAt := now\<rparr>)"
      "stored st r x" "g_revokedAt x = None"
    note same = revoked_later(1) [OF wf *(3,4,2)]
    show ?thesis
      using * s RepRevoke rep_wf_narrows_self [OF wf] same_terms_narrows(2) [OF same]
      by (auto simp: stored_put split: if_splits)
  qed (use s RepRevoke rep_wf_narrows_self [OF wf] in auto)
qed (use s in \<open>simp add: close_rep_store_def stored_def\<close>)

lemma unprivileged_runs:
  assumes "rep_wf sha st" and "\<forall>c \<in> set cs. unprivileged c"
    and "stored (fold (run_rep sha) cs st) rid g"
  shows "\<exists>rid0 g0. stored st rid0 g0 \<and> narrows g g0"
  using assms
proof (induction cs arbitrary: st)
  case Nil
  then show ?case using rep_wf_narrows_self by (metis fold_Nil id_apply)
next
  case (Cons c cs)
  have wf': "rep_wf sha (run_rep sha c st)" using Cons.prems(1) by (rule run_rep_wf)
  from Cons.IH [OF wf'] Cons.prems obtain r1 g1 where "stored (run_rep sha c st) r1 g1" "narrows g g1"
    by auto
  moreover from unprivileged_step [OF Cons.prems(1) _ this(1)] Cons.prems(2)
  obtain r0 g0 where "stored st r0 g0" "narrows g1 g0" by auto
  ultimately show ?case by (blast intro: narrows_trans)
qed

section \<open>Retries\<close>

lemma same_terms_checks:
  assumes "same_terms p p'"
  shows "assertMayGrantRepresentation cx b (Some p') = assertMayGrantRepresentation cx b (Some p)"
    and "grantSubject i (Some p') = grantSubject i (Some p)"
    and "assertRedelegationContained p' t = assertRedelegationContained p t"
    and "assertRepresentationReplayMatches sha p' x = assertRepresentationReplayMatches sha p x"
  by (simp_all add: assertMayGrantRepresentation_def grantSubject_def assertRedelegationContained_def
      governedRepresentativeAuthorityContainmentBreach_def assertRepresentationReplayMatches_def
      same_terms_fields [OF assms] cong: option.case_cong if_cong)

text \<open>Terms accepted once are accepted again, by any evolves store.\<close>

lemma grantTerms_later:
  assumes t: "grantTerms sha delegations cx i st = Inr (parent, terms)"
    and l: "evolves st st'" and wf: "rep_wf sha st'"
  shows "\<exists>parent'. grantTerms sha delegations cx i st' = Inr (parent', terms)"
proof -
  note f = grantTerms_Inr [OF t]
  have "\<exists>parent'. grantParent sha i st' = Inr parent' \<and>
      assertMayGrantRepresentation cx (i_basis i) parent' = Inr () \<and>
      grantSubject i parent' = grantSubject i parent \<and>
      (case parent' of None \<Rightarrow> Inr () | Some p \<Rightarrow> assertRedelegationContained p terms) = Inr ()"
  proof (cases parent)
    case None
    with f(2) have "grantParent sha i st' = Inr None"
      by (cases "i_basis i") (auto simp: grantParent_Inr)
    with None f(3) show ?thesis by auto
  next
    case (Some p)
    with f(2) obtain pid "by" where b: "i_basis i = RepRedelegation pid by"
      and r: "readById sha st (i_tenantId i) pid = Inr (Some p)"
      by (cases "i_basis i") (auto simp: grantParent_Inr)
    from readById_Inr [OF r] evolvesD [OF l] obtain p' where s': "stored st' pid p'" and p': "same_terms p p'"
      by blast
    have "g_tenantId p' = i_tenantId i" using readById_Inr [OF r] same_terms_fields(2) [OF p'] by simp
    with b s' have "grantParent sha i st' = Inr (Some p')"
      by (simp add: grantParent_Inr readById_wf [OF wf] stored_def)
    with Some f(3,13) same_terms_checks [OF p'] show ?thesis by auto
  qed
  then obtain parent' where p: "grantParent sha i st' = Inr parent'"
    "assertMayGrantRepresentation cx (i_basis i) parent' = Inr ()"
    "grantSubject i parent' = grantSubject i parent"
    "(case parent' of None \<Rightarrow> Inr () | Some p \<Rightarrow> assertRedelegationContained p terms) = Inr ()"
    by blast
  obtain res where res: "grantSubject i parent = Inr (c_holderRef terms, res)"
    "rr_kind res = c_resourceKind terms" "rr_id res = c_resourceId terms"
    using f(4) by auto
  have ex: "(case i_expiresAt i of None \<Rightarrow> Inr None
      | Some ex \<Rightarrow> rbind (requireStrictUtcAuthorityTimestamp ex) (\<lambda>y. Inr (Some y))) = Inr (c_expiresAt terms)"
    using f(10,11) by (simp add: optional_timestamp_Inr)
  have rec: "\<lparr>c_holderRef = c_holderRef terms, c_resourceKind = c_resourceKind terms,
      c_resourceId = c_resourceId terms, c_governedRights = c_governedRights terms,
      c_actions = c_actions terms, c_scopeLimit = c_scopeLimit terms,
      c_effectiveFrom = c_effectiveFrom terms, c_expiresAt = c_expiresAt terms\<rparr> = terms"
    by simp
  have "grantTerms sha delegations cx i st' = Inr (parent', terms)"
    unfolding grantTerms_def
    by (simp add: f(1) f(5-9) f(12) f(14) p res ex rec assertDistinctRepresentative_def)
  then show ?thesis ..
qed

text \<open>The key of a grant leads to what the grant returned.\<close>

definition keyed :: "GrantRepresentativeAuthorityInput \<Rightarrow> GovernedRepresentativeAuthority \<Rightarrow> rep_store \<Rightarrow> bool" where
  "keyed i g st \<longleftrightarrow>
     (\<exists>scope. idempotencyScope i = Some scope \<and> map_get (byIdempotencyKey st) scope = Some (g_id g)) \<and>
     (\<exists>g'. stored st (g_id g) g' \<and> same_terms g g') \<and> g_tenantId g = i_tenantId i"

lemma keyed_replay:
  assumes k: "keyed i g st" and wf: "rep_wf sha st"
    and s: "idempotencyScope j = idempotencyScope i" and tn: "i_tenantId j = i_tenantId i"
  shows "\<exists>g'. stored st (g_id g) g' \<and> same_terms g g' \<and> grantReplay sha j terms st =
    rbind (assertRepresentationReplayMatches sha g
      (projectRepresentationInputForReplay (i_representativeRef j) terms)) (\<lambda>_. Inr (Some g'))"
proof -
  obtain scope g' where g': "idempotencyScope i = Some scope"
    "map_get (byIdempotencyKey st) scope = Some (g_id g)" "stored st (g_id g) g'" "same_terms g g'"
    "g_tenantId g = i_tenantId i"
    using k by (auto simp: keyed_def)
  have "readById sha st (i_tenantId j) (g_id g) = Inr (Some g')"
    using g' tn same_terms_fields(2) [OF g'(4)] by (simp add: readById_wf [OF wf] stored_def)
  with g' s same_terms_checks(4) [OF g'(4)] show ?thesis
    by (intro exI [of _ g']) (simp add: grantReplay_def)
qed

lemma grant_keyed:
  assumes r: "grantRepresentativeAuthority sha delegations now cx i st =
      (Inr \<lparr>go_representation = g, go_replayed = b\<rparr>, st')"
    and k: "i_idempotencyKey i \<noteq> None" and wf: "rep_wf sha st"
  shows "keyed i g st' \<and> (\<exists>parent terms. grantTerms sha delegations cx i st = Inr (parent, terms) \<and>
     assertRepresentationReplayMatches sha g
       (projectRepresentationInputForReplay (i_representativeRef i) terms) = Inr ())"
proof (rule grant_cases [of sha delegations now cx i st])
  fix parent terms x
  assume e: "grantRepresentativeAuthority sha delegations now cx i st =
      (Inr \<lparr>go_representation = x, go_replayed = True\<rparr>, st)"
    and t: "grantTerms sha delegations cx i st = Inr (parent, terms)"
    and p: "grantReplay sha i terms st = Inr (Some x)"
  from p obtain scope rid where "idempotencyScope i = Some scope"
    "map_get (byIdempotencyKey st) scope = Some rid" "stored st rid x \<and> g_tenantId x = i_tenantId i"
    and m: "assertRepresentationReplayMatches sha x
       (projectRepresentationInputForReplay (i_representativeRef i) terms) = Inr ()"
    by (auto simp: grantReplay_def rbind_Inr dest!: readById_Inr split: option.splits)
  moreover from this rep_wf_stored [OF wf] have "g_id x = rid" by (auto simp: rep_ok_def)
  ultimately show ?thesis using e r t by (auto simp: keyed_def intro: same_terms_refl)
next
  fix parent terms x st''
  assume e: "grantRepresentativeAuthority sha delegations now cx i st =
      (Inr \<lparr>go_representation = x, go_replayed = False\<rparr>, st'')"
    and t: "grantTerms sha delegations cx i st = Inr (parent, terms)"
    and g: "granted_in sha now i parent terms st x st''"
  have "keyed i x st''"
    using k by (auto simp: keyed_def granted_maps [OF g] granted_stored [OF g] granted_fields [OF g]
        idempotencyScope_def)
  moreover have "assertRepresentationReplayMatches sha x
       (projectRepresentationInputForReplay (i_representativeRef i) terms) = Inr ()"
    by (simp add: assertRepresentationReplayMatches_def projectRepresentationInputForReplay_def
        granted_fields [OF g])
  ultimately show ?thesis using e r t by auto
qed (use r in auto)

text \<open>No other tenant's grant spells the same idempotency scope.\<close>

fun scope_private :: "GrantRepresentativeAuthorityInput \<Rightarrow> rep_call \<Rightarrow> bool" where
  "scope_private i (RepGrant _ _ _ j) \<longleftrightarrow>
     (idempotencyScope j = idempotencyScope i \<longrightarrow> i_tenantId j = i_tenantId i)"
| "scope_private i (RepRevoke _ _ _ _) = True"
| "scope_private i RepClose = False"

lemma keyed_step:
  assumes wf: "rep_wf sha st" and k: "keyed i g st" and c: "scope_private i c"
  shows "keyed i g (run_rep sha c st)"
proof -
  have "evolves st (run_rep sha c st)" using c by (intro run_rep_later [OF wf]) auto
  with k have s: "\<exists>g'. stored (run_rep sha c st) (g_id g) g' \<and> same_terms g g'"
    by (auto simp: keyed_def dest!: evolvesD intro: same_terms_trans)
  have "map_get (byIdempotencyKey (run_rep sha c st)) scope = map_get (byIdempotencyKey st) scope"
    if "idempotencyScope i = Some scope" for scope
  proof (cases c)
    case (RepGrant delegations now cx j)
    show ?thesis
    proof (rule grant_cases [of sha delegations now cx j st])
      fix parent terms x st'
      assume e: "grantRepresentativeAuthority sha delegations now cx j st =
          (Inr \<lparr>go_representation = x, go_replayed = False\<rparr>, st')"
        and n: "grantReplay sha j terms st = Inr None"
        and g: "granted_in sha now j parent terms st x st'"
      have "idempotencyScope j \<noteq> idempotencyScope i"
        using keyed_replay [OF k wf, of j terms] c n RepGrant
        by (cases "assertRepresentationReplayMatches sha g
              (projectRepresentationInputForReplay (i_representativeRef j) terms)") auto
      with e RepGrant that show ?thesis by (auto simp: granted_maps [OF g])
    qed (use RepGrant in auto)
  next
    case (RepRevoke now cx tid rid)
    then show ?thesis by (rule_tac revoke_cases [of sha now cx tid rid st]) auto
  qed (use c in auto)
  with k s show ?thesis by (auto simp: keyed_def)
qed

lemma keyed_runs:
  "rep_wf sha st \<Longrightarrow> keyed i g st \<Longrightarrow> \<forall>c \<in> set cs. scope_private i c \<Longrightarrow>
     keyed i g (fold (run_rep sha) cs st)"
  by (induction cs arbitrary: st) (auto intro: keyed_step run_rep_wf)

lemma grant_retry:
  assumes wf: "rep_wf sha st"
    and r: "grantRepresentativeAuthority sha delegations now cx i st =
      (Inr \<lparr>go_representation = g, go_replayed = b\<rparr>, st')"
    and k: "i_idempotencyKey i \<noteq> None" and cs: "\<forall>c \<in> set cs. scope_private i c"
    and st2: "st2 = fold (run_rep sha) cs st'"
  shows "\<exists>g'. stored st2 (g_id g) g' \<and> same_terms g g' \<and>
    grantRepresentativeAuthority sha delegations now' cx i st2 =
      (Inr \<lparr>go_representation = g', go_replayed = True\<rparr>, st2)"
proof -
  have wf': "rep_wf sha st'" using grant_wf [OF wf, of delegations now cx i] r by simp
  have "RepClose \<notin> set cs" using cs by auto
  then have "evolves st' st2" unfolding st2 by (rule runs_later [OF wf'])
  moreover have "evolves st st'" using grant_later [of st sha delegations now cx i] r by simp
  ultimately have l: "evolves st st2" by (rule evolves_trans [rotated])
  have wf2: "rep_wf sha st2" unfolding st2 by (rule rep_machine.inv_runs [OF wf'])
  from grant_keyed [OF r k wf] obtain parent terms where ky: "keyed i g st'"
    and t: "grantTerms sha delegations cx i st = Inr (parent, terms)"
    and m: "assertRepresentationReplayMatches sha g
       (projectRepresentationInputForReplay (i_representativeRef i) terms) = Inr ()" by blast
  from grantTerms_later [OF t l wf2] obtain parent' where
    "grantTerms sha delegations cx i st2 = Inr (parent', terms)" by blast
  moreover have "keyed i g st2" unfolding st2 by (rule keyed_runs [OF wf' ky cs])
  from keyed_replay [OF this wf2, of i terms] m obtain g' where "stored st2 (g_id g) g'" "same_terms g g'"
    "grantReplay sha i terms st2 = Inr (Some g')" by auto
  ultimately show ?thesis by (auto simp: grantRepresentativeAuthority_def)
qed

text \<open>
  Where another tenant's key spells the same scope, its grant takes the entry over, and the
  retry of the first grant is refused.
\<close>

lemma grant_collision:
  assumes wf: "rep_wf sha st"
    and r: "grantRepresentativeAuthority sha delegations now cx i st =
      (Inr \<lparr>go_representation = g, go_replayed = False\<rparr>, st1)"
    and k: "i_idempotencyKey i \<noteq> None"
    and r2: "grantRepresentativeAuthority sha delegations2 now2 cx2 j st1 =
      (Inr \<lparr>go_representation = h, go_replayed = False\<rparr>, st2)"
    and same: "idempotencyScope j = idempotencyScope i" and tn: "i_tenantId j \<noteq> i_tenantId i"
  shows "fst (grantRepresentativeAuthority sha delegations now3 cx i st2) = Inl REPRESENTATION_CONFLICT"
proof -
  have wf1: "rep_wf sha st1" using grant_wf [OF wf, of delegations now cx i] r by simp
  have wf2: "rep_wf sha st2" using grant_wf [OF wf1, of delegations2 now2 cx2 j] r2 by simp
  obtain parent terms where t: "grantTerms sha delegations cx i st = Inr (parent, terms)"
    and g: "granted_in sha now i parent terms st g st1"
    by (rule grant_cases [of sha delegations now cx i st]) (use r in auto)
  obtain parent2 terms2 where g2: "granted_in sha now2 j parent2 terms2 st1 h st2"
    by (rule grant_cases [of sha delegations2 now2 cx2 j st1]) (use r2 in auto)
  have "evolves st st2" using granted_later [OF g] granted_later [OF g2] by (rule evolves_trans)
  from grantTerms_later [OF t this wf2] obtain parent3 where
    t2: "grantTerms sha delegations cx i st2 = Inr (parent3, terms)" by blast
  obtain scope where sc: "idempotencyScope i = Some scope" using k by (auto simp: idempotencyScope_def)
  have "map_get (byIdempotencyKey st2) scope = Some (g_id h)"
    using granted_maps(2) [OF g2, of scope] same sc by simp
  moreover have "readById sha st2 (i_tenantId i) (g_id h) = Inr None"
    using granted_stored [OF g2, of "g_id h" h] granted_fields(1) [OF g2] tn
    by (simp add: readById_wf [OF wf2] stored_def)
  ultimately have n: "grantReplay sha i terms st2 = Inr None" by (simp add: grantReplay_def sc)
  have "g_id g = grantedId sha i terms m" for m
    using g k by (auto simp: granted_in_def grantedId_def split: option.splits)
  moreover have "map_get (byId st2) (g_id g) \<noteq> None"
    using granted_stored [OF g, of "g_id g" g] evolvesD [OF granted_later [OF g2]]
    by (auto simp: stored_def)
  ultimately show ?thesis by (simp add: grantRepresentativeAuthority_def t2 n recordGrant_def Let_def)
qed

section \<open>Tenants\<close>

text \<open>The context a call is made in, and the tenant it names.\<close>

fun call_cx :: "rep_call \<Rightarrow> (AuthorityGovernanceContext \<times> string) option" where
  "call_cx (RepGrant _ _ cx i) = Some (cx, i_tenantId i)"
| "call_cx (RepRevoke _ cx tid _) = Some (cx, tid)"
| "call_cx RepClose = None"

lemma call_frame:
  assumes wf: "rep_wf sha st" and c: "call_cx c = Some (cx, tid)" and ne: "g_tenantId g \<noteq> tid"
  shows "stored (run_rep sha c st) rid g \<longleftrightarrow> stored st rid g"
proof (cases c)
  case (RepGrant delegations now cx' i)
  show ?thesis
  proof (rule grant_cases [of sha delegations now cx' i st])
    fix parent terms x st'
    assume e: "grantRepresentativeAuthority sha delegations now cx' i st =
        (Inr \<lparr>go_representation = x, go_replayed = False\<rparr>, st')"
      and g: "granted_in sha now i parent terms st x st'"
    from granted_fields(1) [OF g] ne c RepGrant have "x \<noteq> g" by auto
    with granted_new [OF g] e RepGrant show ?thesis by (auto simp: granted_stored [OF g])
  qed (use RepGrant in \<open>auto simp: stored_def\<close>)
next
  case (RepRevoke now cx' tid' r)
  show ?thesis
  proof (rule revoke_cases [of sha now cx' tid' r st])
    fix x x' assume *: "revokeRepresentativeAuthority sha now cx' tid' r st =
        (Inr x', st\<lparr>byId := map_set (byId st) (g_id x) x'\<rparr>)"
      "x' = seal_representation sha (x\<lparr>g_revokedAt := Some now, g_updatedAt := now\<rparr>)"
      "stored st r x" "g_tenantId x = tid'"
    have i: "g_id x = r" using rep_wf_stored [OF wf *(3)] by (simp add: rep_ok_def)
    have "g_tenantId x' = tid'" using *(2,4) by simp
    with ne c RepRevoke have "x' \<noteq> g" and "x \<noteq> g" using *(4) by auto
    with * i RepRevoke show ?thesis by (auto simp: stored_put dest: stored_unique)
  qed (use RepRevoke in auto)
qed (use c in auto)

lemma call_outside:
  assumes c: "call_cx c = Some (cx, tid)" and "requireAuthorityAccessToOrganization cx tid \<noteq> Inr ()"
  shows "run_rep sha c st = st"
proof -
  from assms(2) obtain e where "requireAuthorityAccessToOrganization cx tid = Inl e"
    by (cases "requireAuthorityAccessToOrganization cx tid") auto
  with c show ?thesis
    by (cases c) (auto simp: grantRepresentativeAuthority_def grantTerms_def revokeRepresentativeAuthority_def)
qed

end
