(* ===== verification/Capacity.thy ===== *)
theory Capacity
  imports AuthorityLifecycle
begin

text \<open>
  \<open>reservation-lifecycle.ts\<close> and \<open>encumbrance-lifecycle.ts\<close> of
  \<open>src/src/enterprise/authority-governance\<close>, with the pure functions of
  \<open>governed-authority-reservation.ts\<close> and \<open>governed-authority-encumbrance.ts\<close>: which
  commitments and constraints count at an instant, the sums over them, how much of a position
  is left, what counts as a replay, and what may release a constraint.
\<close>

section \<open>Which actions commit, conserve, encumber and release\<close>

definition GOVERNED_AUTHORITY_CONSERVING_ACTIONS :: "string list" where
  "GOVERNED_AUTHORITY_CONSERVING_ACTIONS = [''transfer'']"

definition GOVERNED_AUTHORITY_ENCUMBERING_ACTIONS :: "string list" where
  "GOVERNED_AUTHORITY_ENCUMBERING_ACTIONS = [''collateralize'']"

definition GOVERNED_AUTHORITY_RELEASING_ACTIONS :: "string list" where
  "GOVERNED_AUTHORITY_RELEASING_ACTIONS = [''release-encumbrance'']"

definition governedActionEncumbersAuthority :: "string \<Rightarrow> bool" where
  "governedActionEncumbersAuthority action = (action \<in> set GOVERNED_AUTHORITY_ENCUMBERING_ACTIONS)"

definition governedActionReleasesEncumbrance :: "string \<Rightarrow> bool" where
  "governedActionReleasesEncumbrance action = (action \<in> set GOVERNED_AUTHORITY_RELEASING_ACTIONS)"

definition governedActionCommitsAuthority :: "string \<Rightarrow> bool" where
  "governedActionCommitsAuthority action =
     (action \<in> set GOVERNED_AUTHORITY_CONSERVING_ACTIONS \<or> governedActionEncumbersAuthority action)"

definition governedActionConservesAuthority :: "string \<Rightarrow> bool" where
  "governedActionConservesAuthority action = (action \<in> set GOVERNED_AUTHORITY_CONSERVING_ACTIONS)"

section \<open>What counts at an instant\<close>

datatype GovernedAuthorityReservationState =
  RtActive | RtConsumed | RtEncumbered | RtReleased | RtExpired

definition governedAuthorityReservationState ::
  "GovernedAuthorityReservation \<Rightarrow> string \<Rightarrow> GovernedAuthorityReservationState" where
  "governedAuthorityReservationState reservation at =
     (case r_status reservation of
        RsConsumed \<Rightarrow> RtConsumed
      | RsEncumbered \<Rightarrow> RtEncumbered
      | RsReleased \<Rightarrow> RtReleased
      | RsActive \<Rightarrow> if instant_ge at (r_expiresAt reservation) then RtExpired else RtActive)"

definition governedAuthorityReservationReducesAvailability ::
  "GovernedAuthorityReservation \<Rightarrow> string \<Rightarrow> bool" where
  "governedAuthorityReservationReducesAvailability reservation at =
     (if governedAuthorityReservationState reservation at \<noteq> RtActive then False
      else instant_ge at (r_effectiveFrom reservation))"

definition governedAuthorityEncumbranceConstrains ::
  "GovernedAuthorityEncumbrance \<Rightarrow> string \<Rightarrow> bool" where
  "governedAuthorityEncumbranceConstrains encumbrance at =
     (if e_status encumbrance \<noteq> EsActive then False
      else instant_ge at (e_effectiveFrom encumbrance))"

section \<open>Sums\<close>

text \<open>The loop of \<open>sumActiveEncumbrances\<close>, with its running total \<open>acc\<close>.\<close>

fun sumEncumbrances_from ::
  "GovernedRightsScope option \<Rightarrow> GovernedAuthorityEncumbrance list \<Rightarrow> string \<Rightarrow> ScopeTotal" where
  "sumEncumbrances_from acc [] at =
     (case acc of None \<Rightarrow> NoScope | Some t \<Rightarrow> TotalScope t)"
| "sumEncumbrances_from acc (e # es) at =
     (if \<not> governedAuthorityEncumbranceConstrains e at then sumEncumbrances_from acc es at
      else case acc of
          None \<Rightarrow> sumEncumbrances_from (Some (e_scope e)) es at
        | Some t \<Rightarrow>
            (case governedRightsScopeSum t (e_scope e) of
               None \<Rightarrow> IncompatibleScopes
             | Some next \<Rightarrow> sumEncumbrances_from (Some next) es at))"

definition sumActiveEncumbrances :: "GovernedAuthorityEncumbrance list \<Rightarrow> string \<Rightarrow> ScopeTotal" where
  "sumActiveEncumbrances encumbrances at = sumEncumbrances_from None encumbrances at"

text \<open>The constraints a reservation's own authorization has already turned into.\<close>

definition carvedOutOf ::
  "GovernedAuthorityReservation \<Rightarrow> GovernedAuthorityEncumbrance list \<Rightarrow> GovernedAuthorityEncumbrance list" where
  "carvedOutOf reservation encumbrances =
     filter (\<lambda>e. e_sourceMandateRef e = r_sourceMandateRef reservation \<and>
                 e_governedRight e = r_governedRight reservation) encumbrances"

text \<open>
  One turn of the netting loop: skip the reservation, refuse the whole question, or the
  residual still protected.
\<close>

datatype Residual = SkipReservation | RefuseSum | KeepResidual GovernedRightsScope

definition residualOf ::
  "GovernedAuthorityReservation \<Rightarrow> GovernedAuthorityEncumbrance list \<Rightarrow> string \<Rightarrow> Residual" where
  "residualOf reservation encumbrances at =
     (if \<not> governedAuthorityReservationReducesAvailability reservation at then SkipReservation
      else case sumActiveEncumbrances (carvedOutOf reservation encumbrances) at of
          IncompatibleScopes \<Rightarrow> RefuseSum
        | NoScope \<Rightarrow> KeepResidual (r_scope reservation)
        | TotalScope carvedOut \<Rightarrow>
            (case subtractAuthorityScope (r_scope reservation) carvedOut of
               Inl code \<Rightarrow> if code = INSUFFICIENT_SCOPE then SkipReservation else RefuseSum
             | Inr residual \<Rightarrow>
                 if isZeroGovernedRightsScope residual then SkipReservation
                 else KeepResidual residual))"

fun sumReservations_from ::
  "GovernedRightsScope option \<Rightarrow> GovernedAuthorityReservation list \<Rightarrow>
     GovernedAuthorityEncumbrance list \<Rightarrow> string \<Rightarrow> ScopeTotal" where
  "sumReservations_from acc [] encumbrances at =
     (case acc of None \<Rightarrow> NoScope | Some t \<Rightarrow> TotalScope t)"
| "sumReservations_from acc (r # rs) encumbrances at =
     (case residualOf r encumbrances at of
        SkipReservation \<Rightarrow> sumReservations_from acc rs encumbrances at
      | RefuseSum \<Rightarrow> IncompatibleScopes
      | KeepResidual residual \<Rightarrow>
          (case acc of
             None \<Rightarrow> sumReservations_from (Some residual) rs encumbrances at
           | Some t \<Rightarrow>
               (case governedRightsScopeSum t residual of
                  None \<Rightarrow> IncompatibleScopes
                | Some next \<Rightarrow> sumReservations_from (Some next) rs encumbrances at)))"

definition sumActiveReservationsNetOfEncumbrances ::
  "GovernedAuthorityReservation list \<Rightarrow> GovernedAuthorityEncumbrance list \<Rightarrow> string \<Rightarrow> ScopeTotal" where
  "sumActiveReservationsNetOfEncumbrances reservations encumbrances at =
     sumReservations_from None reservations encumbrances at"

section \<open>Capacity\<close>

datatype GovernedAuthorityAvailability =
    Available (ca_positionId: string) (ca_held: GovernedRightsScope)
      (ca_committed: "GovernedRightsScope option") (ca_encumbered: "GovernedRightsScope option")
      (ca_available: GovernedRightsScope)
  | NoAuthority
  | Overcommitted string GovernedRightsScope GovernedRightsScope
  | Overencumbered string GovernedRightsScope GovernedRightsScope
  | IncompatibleAvailability string GovernedRightsScope

text \<open>The second half of \<open>computeActionCapacity\<close>, from \<open>afterEncumbrances\<close> on.\<close>

definition capacityAfterEncumbrances ::
  "GovernedAuthorityPosition \<Rightarrow> GovernedRightsScope option \<Rightarrow> GovernedRightsScope \<Rightarrow>
     GovernedAuthorityReservation list \<Rightarrow> GovernedAuthorityEncumbrance list \<Rightarrow> string \<Rightarrow>
     GovernedAuthorityAvailability" where
  "capacityAfterEncumbrances position encumbered afterEncumbrances reservations encumbrances at =
     (let held = serializeGovernedRightsScope (p_scope position)
      in case sumActiveReservationsNetOfEncumbrances reservations encumbrances at of
          IncompatibleScopes \<Rightarrow> IncompatibleAvailability (p_id position) held
        | NoScope \<Rightarrow> Available (p_id position) held None encumbered
            (serializeGovernedRightsScope afterEncumbrances)
        | TotalScope committed \<Rightarrow>
            (case subtractAuthorityScope afterEncumbrances committed of
               Inl code \<Rightarrow>
                 if code = INSUFFICIENT_SCOPE
                 then Overcommitted (p_id position) held (serializeGovernedRightsScope committed)
                 else IncompatibleAvailability (p_id position) held
             | Inr available \<Rightarrow>
                 Available (p_id position) held (Some (serializeGovernedRightsScope committed))
                   encumbered (serializeGovernedRightsScope available)))"

definition computeActionCapacity ::
  "GovernedAuthorityPosition option \<Rightarrow> GovernedAuthorityReservation list \<Rightarrow>
     GovernedAuthorityEncumbrance list \<Rightarrow> GovernedAuthorityEncumbrance list \<Rightarrow> string \<Rightarrow>
     GovernedAuthorityAvailability" where
  "computeActionCapacity position reservations encumbrances applicable at =
     (case position of
        None \<Rightarrow> NoAuthority
      | Some p \<Rightarrow>
          (let held = serializeGovernedRightsScope (p_scope p)
           in case sumActiveEncumbrances applicable at of
               IncompatibleScopes \<Rightarrow> IncompatibleAvailability (p_id p) held
             | NoScope \<Rightarrow>
                 capacityAfterEncumbrances p None (p_scope p) reservations encumbrances at
             | TotalScope encumbered \<Rightarrow>
                 (case subtractAuthorityScope (p_scope p) encumbered of
                    Inl code \<Rightarrow>
                      if code = INSUFFICIENT_SCOPE
                      then Overencumbered (p_id p) held (serializeGovernedRightsScope encumbered)
                      else IncompatibleAvailability (p_id p) held
                  | Inr after \<Rightarrow>
                      capacityAfterEncumbrances p (Some (serializeGovernedRightsScope encumbered))
                        after reservations encumbrances at)))"

definition computeCapacity ::
  "GovernedAuthorityPosition option \<Rightarrow> GovernedAuthorityReservation list \<Rightarrow>
     GovernedAuthorityEncumbrance list \<Rightarrow> string \<Rightarrow> GovernedAuthorityAvailability" where
  "computeCapacity position reservations encumbrances at =
     computeActionCapacity position reservations encumbrances encumbrances at"

definition computeAvailability ::
  "GovernedAuthorityPosition option \<Rightarrow> GovernedAuthorityReservation list \<Rightarrow> string \<Rightarrow>
     GovernedAuthorityAvailability" where
  "computeAvailability position reservations at = computeCapacity position reservations [] at"

definition assertRemainingScopeCoversEncumbrances ::
  "GovernedRightsScope \<Rightarrow> GovernedAuthorityEncumbrance list \<Rightarrow> string \<Rightarrow> unit outcome" where
  "assertRemainingScopeCoversEncumbrances remaining encumbrances at =
     (case sumActiveEncumbrances encumbrances at of
        NoScope \<Rightarrow> Inr ()
      | IncompatibleScopes \<Rightarrow> Inl SCOPE_INCOMPATIBLE
      | TotalScope constrained \<Rightarrow>
          if \<not> governedRightsScopeWithin constrained remaining then Inl ENCUMBRANCE_UNCOVERED
          else Inr ())"

section \<open>Release bases\<close>

definition assertEncumbranceReleaseBasisAcceptable ::
  "GovernedAuthorityEncumbranceReleaseBasis \<Rightarrow> unit outcome" where
  "assertEncumbranceReleaseBasisAcceptable basis =
     (case basis of
        ReleaseByExecution action mandateRef executionRef \<Rightarrow>
          if \<not> governedActionReleasesEncumbrance action then Inl ENCUMBRANCE_RELEASE_BASIS_INVALID
          else if mandateRef = [] \<or> executionRef = [] then Inl ENCUMBRANCE_RELEASE_BASIS_INVALID
          else Inr ()
      | ReleaseByAdministrator assertedBy reasonCode \<Rightarrow>
          if assertedBy = [] \<or> reasonCode = [] then Inl ENCUMBRANCE_RELEASE_BASIS_INVALID
          else Inr ())"

text \<open>The spread \<open>{...encumbrance, ...projectReleaseBasis(basis)}\<close>.\<close>

fun applyReleaseBasis ::
  "GovernedAuthorityEncumbranceReleaseBasis \<Rightarrow> GovernedAuthorityEncumbrance \<Rightarrow>
     GovernedAuthorityEncumbrance" where
  "applyReleaseBasis (ReleaseByExecution action mandateRef executionRef) e =
     e\<lparr>e_releaseBasis := Some RbGovernedExecution, e_releaseAction := Some action,
       e_releaseMandateRef := Some mandateRef, e_releaseExecutionRef := Some executionRef\<rparr>"
| "applyReleaseBasis (ReleaseByAdministrator assertedBy reasonCode) e =
     e\<lparr>e_releaseBasis := Some RbAdministrative, e_releasedBy := Some assertedBy,
       e_releaseReasonCode := Some reasonCode\<rparr>"

text \<open>
  \<open>projectReleaseBasis\<close> as the tuple of its six fields, in the order
  \<open>encumbranceReleaseReplayMatches\<close> compares them.
\<close>

fun projectReleaseBasis ::
  "GovernedAuthorityEncumbranceReleaseBasis \<Rightarrow>
     GovernedAuthorityEncumbranceReleaseBasisKind option \<times> string option \<times> string option \<times>
     string option \<times> string option \<times> string option" where
  "projectReleaseBasis (ReleaseByExecution action mandateRef executionRef) =
     (Some RbGovernedExecution, Some action, Some mandateRef, Some executionRef, None, None)"
| "projectReleaseBasis (ReleaseByAdministrator assertedBy reasonCode) =
     (Some RbAdministrative, None, None, None, Some assertedBy, Some reasonCode)"

definition encumbranceReleaseReplayMatches ::
  "GovernedAuthorityEncumbrance \<Rightarrow> GovernedAuthorityEncumbranceReleaseBasis \<Rightarrow> bool" where
  "encumbranceReleaseReplayMatches existing basis =
     ((e_releaseBasis existing, e_releaseAction existing, e_releaseMandateRef existing,
       e_releaseExecutionRef existing, e_releasedBy existing, e_releaseReasonCode existing)
      = projectReleaseBasis basis)"

section \<open>Digests, integrity and identifiers\<close>

fun reservation_status_str :: "GovernedAuthorityReservationStatus \<Rightarrow> string" where
  "reservation_status_str RsActive = ''active''"
| "reservation_status_str RsConsumed = ''consumed''"
| "reservation_status_str RsEncumbered = ''encumbered''"
| "reservation_status_str RsReleased = ''released''"

fun encumbrance_status_str :: "GovernedAuthorityEncumbranceStatus \<Rightarrow> string" where
  "encumbrance_status_str EsActive = ''active''"
| "encumbrance_status_str EsReleased = ''released''"

fun release_kind_str :: "GovernedAuthorityEncumbranceReleaseBasisKind \<Rightarrow> string" where
  "release_kind_str RbGovernedExecution = ''governed-execution''"
| "release_kind_str RbAdministrative = ''administrative''"

definition projectReservationForDigest :: "GovernedAuthorityReservation \<Rightarrow> json" where
  "projectReservationForDigest r = JObj (
     [(''id'', JStr (r_id r)), (''tenantId'', JStr (r_tenantId r)),
      (''holderRef'', JStr (r_holderRef r)), (''resourceKind'', JStr (r_resourceKind r)),
      (''resourceId'', JStr (r_resourceId r)), (''governedRight'', JStr (r_governedRight r)),
      (''scope'', scope_json (serializeGovernedRightsScope (r_scope r))),
      (''action'', JStr (r_action r)), (''sourceRequestRef'', JStr (r_sourceRequestRef r))]
     @ opt_field ''sourceDecisionRef'' (r_sourceDecisionRef r) @
     [(''sourceMandateRef'', JStr (r_sourceMandateRef r)),
      (''effectiveFrom'', JStr (r_effectiveFrom r)), (''expiresAt'', JStr (r_expiresAt r)),
      (''status'', JStr (reservation_status_str (r_status r))),
      (''idempotencyKey'', JStr (r_idempotencyKey r))]
     @ opt_field ''correlationId'' (r_correlationId r) @
     [(''createdAt'', JStr (r_createdAt r)), (''updatedAt'', JStr (r_updatedAt r))])"

definition computeReservationDigest :: "(string \<Rightarrow> string) \<Rightarrow> GovernedAuthorityReservation \<Rightarrow> string" where
  "computeReservationDigest sha r = computeDigest sha (projectReservationForDigest r)"

definition assertReservationIntegrity ::
  "(string \<Rightarrow> string) \<Rightarrow> GovernedAuthorityReservation \<Rightarrow> GovernedAuthorityReservation outcome" where
  "assertReservationIntegrity sha r =
     (if computeReservationDigest sha r \<noteq> r_digest r then Inl RESERVATION_RECORD_CORRUPTED else Inr r)"

definition projectEncumbranceForDigest :: "GovernedAuthorityEncumbrance \<Rightarrow> json" where
  "projectEncumbranceForDigest e = JObj (
     [(''id'', JStr (e_id e)), (''tenantId'', JStr (e_tenantId e)),
      (''holderRef'', JStr (e_holderRef e)), (''resourceKind'', JStr (e_resourceKind e)),
      (''resourceId'', JStr (e_resourceId e)), (''governedRight'', JStr (e_governedRight e)),
      (''scope'', scope_json (serializeGovernedRightsScope (e_scope e))),
      (''sourceAction'', JStr (e_sourceAction e)),
      (''sourceMandateRef'', JStr (e_sourceMandateRef e)),
      (''sourceExecutionRef'', JStr (e_sourceExecutionRef e))]
     @ opt_field ''sourceReservationRef'' (e_sourceReservationRef e) @
     [(''effectiveFrom'', JStr (e_effectiveFrom e)),
      (''status'', JStr (encumbrance_status_str (e_status e)))]
     @ opt_field ''releasedAt'' (e_releasedAt e)
     @ opt_field ''releaseBasis'' (map_option release_kind_str (e_releaseBasis e))
     @ opt_field ''releaseAction'' (e_releaseAction e)
     @ opt_field ''releaseMandateRef'' (e_releaseMandateRef e)
     @ opt_field ''releaseExecutionRef'' (e_releaseExecutionRef e)
     @ opt_field ''releasedBy'' (e_releasedBy e)
     @ opt_field ''releaseReasonCode'' (e_releaseReasonCode e) @
     [(''idempotencyKey'', JStr (e_idempotencyKey e))]
     @ opt_field ''correlationId'' (e_correlationId e) @
     [(''createdAt'', JStr (e_createdAt e)), (''updatedAt'', JStr (e_updatedAt e))])"

definition computeEncumbranceDigest :: "(string \<Rightarrow> string) \<Rightarrow> GovernedAuthorityEncumbrance \<Rightarrow> string" where
  "computeEncumbranceDigest sha e = computeDigest sha (projectEncumbranceForDigest e)"

definition assertEncumbranceIntegrity ::
  "(string \<Rightarrow> string) \<Rightarrow> GovernedAuthorityEncumbrance \<Rightarrow> GovernedAuthorityEncumbrance outcome" where
  "assertEncumbranceIntegrity sha e =
     (if computeEncumbranceDigest sha e \<noteq> e_digest e then Inl ENCUMBRANCE_RECORD_CORRUPTED else Inr e)"

definition deriveReservationId :: "(string \<Rightarrow> string) \<Rightarrow> string \<Rightarrow> string \<Rightarrow> string \<Rightarrow> string" where
  "deriveReservationId sha tenantId sourceMandateRef governedRight =
     ''governed-authority-reservation-'' @ digest_slice 16 (computeDigest sha (JObj
       [(''tenantId'', JStr tenantId), (''sourceMandateRef'', JStr sourceMandateRef),
        (''governedRight'', JStr governedRight)]))"

definition deriveEncumbranceId :: "(string \<Rightarrow> string) \<Rightarrow> string \<Rightarrow> string \<Rightarrow> string \<Rightarrow> string" where
  "deriveEncumbranceId sha tenantId sourceExecutionRef governedRight =
     ''governed-authority-encumbrance-'' @ digest_slice 16 (computeDigest sha (JObj
       [(''tenantId'', JStr tenantId), (''sourceExecutionRef'', JStr sourceExecutionRef),
        (''governedRight'', JStr governedRight)]))"

definition deriveEncumbranceIdempotencyKey :: "string \<Rightarrow> string \<Rightarrow> string" where
  "deriveEncumbranceIdempotencyKey sourceExecutionRef governedRight =
     sourceExecutionRef @ '':'' @ governedRight"

section \<open>Replays\<close>

definition reservationReplayMatches ::
  "GovernedAuthorityReservation \<Rightarrow> AcquireGovernedAuthorityReservationInput \<Rightarrow> bool" where
  "reservationReplayMatches existing candidate =
     (r_holderRef existing = q_holderRef candidate \<and>
      r_resourceKind existing = rr_kind (q_resource candidate) \<and>
      r_resourceId existing = rr_id (q_resource candidate) \<and>
      r_governedRight existing = q_governedRight candidate \<and>
      r_action existing = q_action candidate \<and>
      r_sourceMandateRef existing = q_sourceMandateRef candidate \<and>
      scope_text (serializeGovernedRightsScope (r_scope existing)) =
        scope_text (serializeGovernedRightsScope (q_scope candidate)))"

definition encumbranceReplayMatches ::
  "GovernedAuthorityEncumbrance \<Rightarrow> RecordGovernedAuthorityEncumbranceInput \<Rightarrow> bool" where
  "encumbranceReplayMatches existing candidate =
     (e_holderRef existing = n_holderRef candidate \<and>
      e_resourceKind existing = rr_kind (n_resource candidate) \<and>
      e_resourceId existing = rr_id (n_resource candidate) \<and>
      e_governedRight existing = n_governedRight candidate \<and>
      e_sourceAction existing = n_sourceAction candidate \<and>
      e_sourceMandateRef existing = n_sourceMandateRef candidate \<and>
      e_sourceExecutionRef existing = n_sourceExecutionRef candidate \<and>
      scope_text (serializeGovernedRightsScope (e_scope existing)) =
        scope_text (serializeGovernedRightsScope (n_scope candidate)))"

section \<open>The sums are sums\<close>

text \<open>What the loops add up, as lists of scopes, and the exact amounts they stand for.\<close>

definition activeEncumbranceScopes :: "GovernedAuthorityEncumbrance list \<Rightarrow> string \<Rightarrow> GovernedRightsScope list" where
  "activeEncumbranceScopes es at = map e_scope (filter (\<lambda>e. governedAuthorityEncumbranceConstrains e at) es)"

definition residualScopes ::
  "GovernedAuthorityReservation list \<Rightarrow> GovernedAuthorityEncumbrance list \<Rightarrow> string \<Rightarrow> GovernedRightsScope list" where
  "residualScopes rs es at =
     concat (map (\<lambda>r. case residualOf r es at of KeepResidual s \<Rightarrow> [s] | _ \<Rightarrow> []) rs)"

lemma sumEncumbrances_from_Some:
  "sumEncumbrances_from (Some t) es at =
     (case sum_from governedRightsScopeSum t (activeEncumbranceScopes es at) of
        None \<Rightarrow> IncompatibleScopes | Some s \<Rightarrow> TotalScope s)"
  by (induction es arbitrary: t) (auto simp: activeEncumbranceScopes_def split: option.splits)

lemma sumActiveEncumbrances_total:
  "sumActiveEncumbrances es at = total_of governedRightsScopeSum (activeEncumbranceScopes es at)"
proof (induction es)
  case (Cons e es)
  then show ?case
    by (auto simp: sumActiveEncumbrances_def activeEncumbranceScopes_def sumEncumbrances_from_Some)
qed (simp add: sumActiveEncumbrances_def activeEncumbranceScopes_def)

lemma sumReservations_from_Some:
  "sumReservations_from (Some t) rs es at =
     (if \<exists>r \<in> set rs. residualOf r es at = RefuseSum then IncompatibleScopes
      else case sum_from governedRightsScopeSum t (residualScopes rs es at) of
        None \<Rightarrow> IncompatibleScopes | Some s \<Rightarrow> TotalScope s)"
  by (induction rs arbitrary: t)
    (auto simp: residualScopes_def split: option.splits Residual.splits)

lemma sumReservations_total:
  "sumActiveReservationsNetOfEncumbrances rs es at =
     (if \<exists>r \<in> set rs. residualOf r es at = RefuseSum then IncompatibleScopes
      else total_of governedRightsScopeSum (residualScopes rs es at))"
proof (induction rs)
  case (Cons r rs)
  then show ?case
    by (auto simp: sumActiveReservationsNetOfEncumbrances_def residualScopes_def sumReservations_from_Some
        split: Residual.splits)
qed (simp add: sumActiveReservationsNetOfEncumbrances_def residualScopes_def)

section \<open>Exact capacity\<close>

text \<open>
  The arithmetic the accounting stands for: what constrains, and what each reservation still
  protects beyond the constraints its own authorization has already produced.
\<close>

definition constrainedAmount :: "GovernedAuthorityEncumbrance list \<Rightarrow> string \<Rightarrow> int" where
  "constrainedAmount es at =
     sum_list (map (\<lambda>e. if governedAuthorityEncumbranceConstrains e at then amount (e_scope e) else 0) es)"

definition residualAmount ::
  "GovernedAuthorityReservation \<Rightarrow> GovernedAuthorityEncumbrance list \<Rightarrow> string \<Rightarrow> int" where
  "residualAmount r es at =
     (if governedAuthorityReservationReducesAvailability r at
      then max 0 (amount (r_scope r) - constrainedAmount (carvedOutOf r es) at) else 0)"

definition committedAmount ::
  "GovernedAuthorityReservation list \<Rightarrow> GovernedAuthorityEncumbrance list \<Rightarrow> string \<Rightarrow> int" where
  "committedAmount rs es at = sum_list (map (\<lambda>r. residualAmount r es at) rs)"

text \<open>The quantities a store holds are valid: non-negative and within the safe integers.\<close>

definition valid_encumbrances :: "GovernedAuthorityEncumbrance list \<Rightarrow> bool" where
  "valid_encumbrances es \<longleftrightarrow> (\<forall>e \<in> set es. valid_scope (e_scope e))"

definition valid_reservations :: "GovernedAuthorityReservation list \<Rightarrow> bool" where
  "valid_reservations rs \<longleftrightarrow> (\<forall>r \<in> set rs. valid_scope (r_scope r))"

lemma valid_encumbrances_filter [intro]: "valid_encumbrances es \<Longrightarrow> valid_encumbrances (filter P es)"
  by (auto simp: valid_encumbrances_def)

lemma valid_carvedOut [intro]: "valid_encumbrances es \<Longrightarrow> valid_encumbrances (carvedOutOf r es)"
  unfolding carvedOutOf_def by (rule valid_encumbrances_filter)

lemma sum_activeEncumbranceScopes:
  "sum_list (map amount (activeEncumbranceScopes es at)) = constrainedAmount es at"
  by (induction es) (simp_all add: activeEncumbranceScopes_def constrainedAmount_def)

lemma activeEncumbranceScopes_nonneg:
  "valid_encumbrances es \<Longrightarrow> s \<in> set (activeEncumbranceScopes es at) \<Longrightarrow> 0 \<le> amount s"
  by (auto simp: activeEncumbranceScopes_def valid_encumbrances_def valid_scope_def)

lemma constrainedAmount_nonneg: "valid_encumbrances es \<Longrightarrow> 0 \<le> constrainedAmount es at"
  unfolding sum_activeEncumbranceScopes [symmetric]
  by (rule sum_list_nonneg) (auto dest: activeEncumbranceScopes_nonneg)

lemma residualAmount_nonneg: "0 \<le> residualAmount r es at"
  by (simp add: residualAmount_def)

lemma committedAmount_nonneg: "0 \<le> committedAmount rs es at"
  unfolding committedAmount_def by (rule sum_list_nonneg) (auto simp: residualAmount_nonneg)

text \<open>A total of constraints is exact whenever it, or the true sum, is within the safe integers.\<close>

lemma encumbrance_total_exact:
  assumes "sumActiveEncumbrances es at = TotalScope t" and "valid_encumbrances es"
    and "amount t \<le> MAX_SAFE_INTEGER \<or> constrainedAmount es at \<le> MAX_SAFE_INTEGER"
  shows "amount t = constrainedAmount es at"
  using assms
  unfolding sumActiveEncumbrances_total sum_activeEncumbranceScopes [symmetric]
  by (intro scopes.total_exact) (auto dest: activeEncumbranceScopes_nonneg)

lemma encumbrance_total_none:
  "sumActiveEncumbrances es at = NoScope \<Longrightarrow> constrainedAmount es at = 0"
  unfolding sumActiveEncumbrances_total sum_activeEncumbranceScopes [symmetric]
  by (simp add: scopes.total_NoScope)

lemma encumbrance_total_nonneg:
  assumes "sumActiveEncumbrances es at = TotalScope t" and "valid_encumbrances es"
  shows "0 \<le> amount t"
  using assms unfolding sumActiveEncumbrances_total
  by (auto intro: scopes.total_nonneg dest: activeEncumbranceScopes_nonneg)

lemma residualOf_amount:
  assumes r: "valid_scope (r_scope r)" and es: "valid_encumbrances es"
    and not_refused: "residualOf r es at \<noteq> RefuseSum"
  shows "(case residualOf r es at of KeepResidual s \<Rightarrow> amount s | _ \<Rightarrow> 0) = residualAmount r es at"
proof (cases "governedAuthorityReservationReducesAvailability r at")
  case True
  have rs: "0 \<le> amount (r_scope r)" "amount (r_scope r) \<le> MAX_SAFE_INTEGER"
    using r by (auto simp: valid_scope_def)
  have ces: "valid_encumbrances (carvedOutOf r es)" using es by auto
  show ?thesis
  proof (cases "sumActiveEncumbrances (carvedOutOf r es) at")
    case NoScope
    with True rs show ?thesis
      by (simp add: residualOf_def residualAmount_def encumbrance_total_none [OF NoScope])
  next
    case (TotalScope t)
    have big: "MAX_SAFE_INTEGER < amount t \<Longrightarrow> MAX_SAFE_INTEGER < constrainedAmount (carvedOutOf r es) at"
      using encumbrance_total_exact [OF TotalScope ces] by force
    have exact: "amount t \<le> MAX_SAFE_INTEGER \<Longrightarrow> amount t = constrainedAmount (carvedOutOf r es) at"
      using encumbrance_total_exact [OF TotalScope ces] by blast
    show ?thesis
    proof (cases "subtractAuthorityScope (r_scope r) t")
      case (Inl e)
      with True TotalScope not_refused have "e = INSUFFICIENT_SCOPE"
        by (auto simp: residualOf_def split: if_splits)
      with Inl have "amount (r_scope r) < amount t" by (simp add: subtractAuthorityScope_Inl)
      with big exact rs have "amount (r_scope r) < constrainedAmount (carvedOutOf r es) at" by linarith
      with True TotalScope Inl \<open>e = INSUFFICIENT_SCOPE\<close> show ?thesis
        by (simp add: residualOf_def residualAmount_def)
    next
      case (Inr d)
      then have "amount t \<le> amount (r_scope r)" and d: "amount d = js_sub (amount (r_scope r)) (amount t)"
        by (auto simp: subtractAuthorityScope_Inr)
      moreover have "0 \<le> amount t" by (rule encumbrance_total_nonneg [OF TotalScope ces])
      ultimately have "amount d = amount (r_scope r) - amount t" using rs by (simp add: js_sub_exact)
      with True TotalScope Inr exact rs \<open>amount t \<le> amount (r_scope r)\<close> show ?thesis
        by (auto simp: residualOf_def residualAmount_def isZero_iff)
    qed
  next
    case IncompatibleScopes
    with True not_refused show ?thesis by (simp add: residualOf_def)
  qed
next
  case False
  then show ?thesis by (simp add: residualOf_def residualAmount_def)
qed

lemma sum_residualScopes:
  assumes "valid_reservations rs" and "valid_encumbrances es"
    and "\<forall>r \<in> set rs. residualOf r es at \<noteq> RefuseSum"
  shows "sum_list (map amount (residualScopes rs es at)) = committedAmount rs es at"
  using assms(1,3)
proof (induction rs)
  case (Cons r rs)
  have "sum_list (map amount (case residualOf r es at of KeepResidual s \<Rightarrow> [s] | _ \<Rightarrow> []))
      = residualAmount r es at"
    using residualOf_amount [of r es at] Cons.prems assms(2)
    by (auto simp: valid_reservations_def split: Residual.splits)
  with Cons show ?case
    by (simp add: residualScopes_def committedAmount_def valid_reservations_def)
qed (simp add: residualScopes_def committedAmount_def)

lemma residualScopes_nonneg:
  assumes "valid_reservations rs" and "valid_encumbrances es" and "s \<in> set (residualScopes rs es at)"
    and "\<forall>r \<in> set rs. residualOf r es at \<noteq> RefuseSum"
  shows "0 \<le> amount s"
proof -
  from assms(3) obtain r where r: "r \<in> set rs" "residualOf r es at = KeepResidual s"
    by (auto simp: residualScopes_def split: Residual.splits)
  with assms have "amount s = residualAmount r es at"
    using residualOf_amount [of r es at] by (auto simp: valid_reservations_def)
  then show ?thesis by (simp add: residualAmount_nonneg)
qed

lemma reservation_total_exact:
  assumes t: "sumActiveReservationsNetOfEncumbrances rs es at = TotalScope t"
    and "valid_reservations rs" and "valid_encumbrances es"
    and small: "amount t \<le> MAX_SAFE_INTEGER \<or> committedAmount rs es at \<le> MAX_SAFE_INTEGER"
  shows "amount t = committedAmount rs es at"
proof -
  from t have ok: "\<forall>r \<in> set rs. residualOf r es at \<noteq> RefuseSum"
    and tot: "total_of governedRightsScopeSum (residualScopes rs es at) = TotalScope t"
    unfolding sumReservations_total by (auto split: if_splits)
  show ?thesis
    using scopes.total_exact [OF tot] residualScopes_nonneg [OF assms(2,3) _ ok] small
    unfolding sum_residualScopes [OF assms(2,3) ok] by blast
qed

lemma reservation_total_none:
  assumes t: "sumActiveReservationsNetOfEncumbrances rs es at = NoScope"
    and "valid_reservations rs" and "valid_encumbrances es"
  shows "committedAmount rs es at = 0"
proof -
  from t have ok: "\<forall>r \<in> set rs. residualOf r es at \<noteq> RefuseSum" and "residualScopes rs es at = []"
    unfolding sumReservations_total by (auto simp: scopes.total_NoScope split: if_splits)
  then show ?thesis using sum_residualScopes [OF assms(2,3) ok] by simp
qed

lemma reservation_total_nonneg:
  assumes t: "sumActiveReservationsNetOfEncumbrances rs es at = TotalScope t"
    and "valid_reservations rs" and "valid_encumbrances es"
  shows "0 \<le> amount t"
proof -
  from t have ok: "\<forall>r \<in> set rs. residualOf r es at \<noteq> RefuseSum"
    and tot: "total_of governedRightsScopeSum (residualScopes rs es at) = TotalScope t"
    unfolding sumReservations_total by (auto split: if_splits)
  show ?thesis
    using scopes.total_nonneg [OF tot] residualScopes_nonneg [OF assms(2,3) _ ok] by blast
qed

text \<open>Soundness: what \<open>computeActionCapacity\<close> calls available is exactly what is left.\<close>

lemma capacityAfterEncumbrances_exact:
  assumes c: "capacityAfterEncumbrances p enc after rs es at = Available i h cm en a"
    and rs: "valid_reservations rs" and es: "valid_encumbrances es"
    and after: "0 \<le> amount after" "amount after \<le> MAX_SAFE_INTEGER"
  shows "unit_of a = unit_of after \<and> amount a = amount after - committedAmount rs es at \<and>
    0 \<le> amount a \<and> i = p_id p \<and> h = p_scope p"
proof (cases "sumActiveReservationsNetOfEncumbrances rs es at")
  case NoScope
  with c after reservation_total_none [OF NoScope rs es] show ?thesis
    by (simp add: capacityAfterEncumbrances_def)
next
  case (TotalScope t)
  with c obtain "subtractAuthorityScope after t = Inr a" and "i = p_id p" "h = p_scope p"
    by (auto simp: capacityAfterEncumbrances_def Let_def split: sum.splits if_splits)
  then have le: "amount t \<le> amount after" and u: "unit_of a = unit_of after"
    and a: "amount a = js_sub (amount after) (amount t)"
    by (auto simp: subtractAuthorityScope_Inr)
  have "0 \<le> amount t" by (rule reservation_total_nonneg [OF TotalScope rs es])
  moreover have "amount t = committedAmount rs es at"
    using reservation_total_exact [OF TotalScope rs es] le after by simp
  ultimately show ?thesis using le u a after \<open>i = _\<close> \<open>h = _\<close> by (simp add: js_sub_exact)
next
  case IncompatibleScopes
  with c show ?thesis by (simp add: capacityAfterEncumbrances_def Let_def)
qed

lemma computeActionCapacity_Available:
  assumes c: "computeActionCapacity pos rs es ap at = Available i h cm en a"
  obtains p where "pos = Some p"
  using c by (cases pos) (auto simp: computeActionCapacity_def)

lemma action_capacity_exact:
  assumes c: "computeActionCapacity (Some p) rs es ap at = Available i h cm en a"
    and rs: "valid_reservations rs" and es: "valid_encumbrances es" and ap: "valid_encumbrances ap"
    and p: "0 \<le> amount (p_scope p)" "amount (p_scope p) \<le> MAX_SAFE_INTEGER"
  shows "unit_of a = unit_of (p_scope p) \<and>
    amount a = amount (p_scope p) - constrainedAmount ap at - committedAmount rs es at \<and>
    0 \<le> amount a \<and> i = p_id p \<and> h = p_scope p"
proof (cases "sumActiveEncumbrances ap at")
  case NoScope
  with c have "capacityAfterEncumbrances p None (p_scope p) rs es at = Available i h cm en a"
    by (simp add: computeActionCapacity_def Let_def)
  from capacityAfterEncumbrances_exact [OF this rs es] p encumbrance_total_none [OF NoScope]
  show ?thesis by simp
next
  case (TotalScope t)
  with c obtain after where s: "subtractAuthorityScope (p_scope p) t = Inr after"
    and k: "capacityAfterEncumbrances p (Some t) after rs es at = Available i h cm en a"
    by (auto simp: computeActionCapacity_def Let_def split: sum.splits if_splits)
  from s have le: "amount t \<le> amount (p_scope p)" and u: "unit_of after = unit_of (p_scope p)"
    and a: "amount after = js_sub (amount (p_scope p)) (amount t)"
    by (auto simp: subtractAuthorityScope_Inr)
  have "0 \<le> amount t" by (rule encumbrance_total_nonneg [OF TotalScope ap])
  with le a p have after: "amount after = amount (p_scope p) - amount t"
    by (simp add: js_sub_exact)
  have "amount t = constrainedAmount ap at"
    using encumbrance_total_exact [OF TotalScope ap] le p by simp
  with capacityAfterEncumbrances_exact [OF k rs es] after u le p \<open>0 \<le> amount t\<close>
  show ?thesis by auto
next
  case IncompatibleScopes
  with c show ?thesis by (simp add: computeActionCapacity_def Let_def)
qed

text \<open>
  The converse, when every quantity in play counts the same unit: the verdict is decided by the
  exact arithmetic alone.
\<close>

lemma residualOf_not_refused:
  assumes r: "unit_of (r_scope r) = u" and es: "\<forall>e \<in> set es. unit_of (e_scope e) = u"
  shows "residualOf r es at \<noteq> RefuseSum" and "residualOf r es at = KeepResidual s \<Longrightarrow> unit_of s = u"
proof -
  have ces: "\<forall>s \<in> set (activeEncumbranceScopes (carvedOutOf r es) at). unit_of s = u"
    using es by (auto simp: activeEncumbranceScopes_def carvedOutOf_def)
  have ni: "sumActiveEncumbrances (carvedOutOf r es) at \<noteq> IncompatibleScopes"
    unfolding sumActiveEncumbrances_total scopes.total_Incompatible using ces by auto
  have tu: "sumActiveEncumbrances (carvedOutOf r es) at = TotalScope t \<Longrightarrow> unit_of t = u" for t
    unfolding sumActiveEncumbrances_total using ces scopes.total_unit scopes.total_NoScope
    by (metis list.set_intros(1) neq_Nil_conv sum_total.distinct(1))
  show "residualOf r es at \<noteq> RefuseSum"
    using ni r by (auto simp: residualOf_def subtractAuthorityScope_Inl dest: tu split: sum_total.splits sum.splits if_splits)
  show "residualOf r es at = KeepResidual s \<Longrightarrow> unit_of s = u"
    using r by (auto simp: residualOf_def subtractAuthorityScope_Inr dest: tu split: sum_total.splits sum.splits if_splits)
qed

lemma residualScopes_unit:
  assumes "\<forall>r \<in> set rs. unit_of (r_scope r) = u" and "\<forall>e \<in> set es. unit_of (e_scope e) = u"
    and "s \<in> set (residualScopes rs es at)"
  shows "unit_of s = u"
proof -
  from assms(3) obtain r where "r \<in> set rs" "residualOf r es at = KeepResidual s"
    by (auto simp: residualScopes_def split: Residual.splits)
  with residualOf_not_refused(2) [of r u es at s] assms(1,2) show ?thesis by blast
qed

lemma capacityAfterEncumbrances_complete:
  assumes u: "unit_of after = u" "\<forall>r \<in> set rs. unit_of (r_scope r) = u"
      "\<forall>e \<in> set es. unit_of (e_scope e) = u"
    and rs: "valid_reservations rs" and es: "valid_encumbrances es"
    and le: "committedAmount rs es at \<le> amount after" "amount after \<le> MAX_SAFE_INTEGER"
  shows "\<exists>cm en a. capacityAfterEncumbrances p enc after rs es at = Available (p_id p) (p_scope p) cm en a"
proof (cases "sumActiveReservationsNetOfEncumbrances rs es at")
  case NoScope
  then show ?thesis by (simp add: capacityAfterEncumbrances_def Let_def)
next
  case (TotalScope t)
  then have tot: "total_of governedRightsScopeSum (residualScopes rs es at) = TotalScope t"
    using residualOf_not_refused(1) u by (auto simp: sumReservations_total split: if_splits)
  have "unit_of t = u"
    by (rule scopes.total_all_unit [OF tot]) (rule residualScopes_unit [OF u(2,3)])
  moreover have "amount t = committedAmount rs es at"
    using reservation_total_exact [OF TotalScope rs es] le by simp
  ultimately obtain d where "subtractAuthorityScope after t = Inr d"
    using u le subtractAuthorityScope_Inl [of after t] by (cases "subtractAuthorityScope after t") auto
  with TotalScope show ?thesis by (simp add: capacityAfterEncumbrances_def Let_def)
next
  case IncompatibleScopes
  have "\<forall>r \<in> set rs. residualOf r es at \<noteq> RefuseSum" using residualOf_not_refused(1) u by blast
  with IncompatibleScopes residualScopes_unit [OF u(2,3)] show ?thesis
    by (simp add: sumReservations_total scopes.total_Incompatible)
qed

lemma constraints_complete:
  assumes u: "unit_of s = u" "\<forall>e \<in> set ap. unit_of (e_scope e) = u"
    and ap: "valid_encumbrances ap"
    and le: "constrainedAmount ap at \<le> amount s" "amount s \<le> MAX_SAFE_INTEGER"
  shows "sumActiveEncumbrances ap at = NoScope \<or>
    (\<exists>t d. sumActiveEncumbrances ap at = TotalScope t \<and> subtractAuthorityScope s t = Inr d \<and>
       unit_of d = u \<and> amount d = amount s - constrainedAmount ap at)"
proof (cases "sumActiveEncumbrances ap at")
  case (TotalScope t)
  have apu: "\<forall>x \<in> set (activeEncumbranceScopes ap at). unit_of x = u"
    using u by (auto simp: activeEncumbranceScopes_def)
  from TotalScope have tot: "total_of governedRightsScopeSum (activeEncumbranceScopes ap at) = TotalScope t"
    by (simp add: sumActiveEncumbrances_total)
  have tu: "unit_of t = u"
    by (rule scopes.total_all_unit [OF tot]) (use apu in blast)
  have ta: "amount t = constrainedAmount ap at"
    using encumbrance_total_exact [OF TotalScope ap] le by simp
  with tu u le obtain d where d: "subtractAuthorityScope s t = Inr d"
    using subtractAuthorityScope_Inl [of s t] by (cases "subtractAuthorityScope s t") auto
  with TotalScope u ta le constrainedAmount_nonneg [OF ap, of at] show ?thesis
    by (auto simp: subtractAuthorityScope_Inr js_sub_exact)
next
  case IncompatibleScopes
  then show ?thesis using u by (auto simp: sumActiveEncumbrances_total scopes.total_Incompatible activeEncumbranceScopes_def)
qed simp

lemma action_capacity_complete:
  assumes u: "unit_of (p_scope p) = u" "\<forall>r \<in> set rs. unit_of (r_scope r) = u"
      "\<forall>e \<in> set es. unit_of (e_scope e) = u" "\<forall>e \<in> set ap. unit_of (e_scope e) = u"
    and rs: "valid_reservations rs" and es: "valid_encumbrances es" and ap: "valid_encumbrances ap"
    and p: "0 \<le> amount (p_scope p)" "amount (p_scope p) \<le> MAX_SAFE_INTEGER"
  shows "(\<exists>cm en a. computeActionCapacity (Some p) rs es ap at = Available (p_id p) (p_scope p) cm en a)
     \<longleftrightarrow> constrainedAmount ap at + committedAmount rs es at \<le> amount (p_scope p)"
    (is "?L \<longleftrightarrow> ?R")
proof
  assume ?L
  then obtain cm en a where "computeActionCapacity (Some p) rs es ap at = Available (p_id p) (p_scope p) cm en a"
    by blast
  from action_capacity_exact [OF this rs es ap p] show ?R by linarith
next
  assume R: ?R
  note after = capacityAfterEncumbrances_complete [OF _ u(2,3) rs es, where p = p]
  have "constrainedAmount ap at \<le> amount (p_scope p)" and "committedAmount rs es at \<le> amount (p_scope p)"
    using R constrainedAmount_nonneg [OF ap, of at] committedAmount_nonneg [of rs es at] by linarith+
  from constraints_complete [OF u(1,4) ap this(1) p(2)] show ?L
  proof (elim disjE exE conjE)
    assume "sumActiveEncumbrances ap at = NoScope"
    with after [OF u(1) \<open>committedAmount rs es at \<le> _\<close> p(2)] show ?L
      by (simp add: computeActionCapacity_def Let_def)
  next
    fix t d
    assume *: "sumActiveEncumbrances ap at = TotalScope t" "subtractAuthorityScope (p_scope p) t = Inr d"
      and d: "unit_of d = u" "amount d = amount (p_scope p) - constrainedAmount ap at"
    have "committedAmount rs es at \<le> amount d" "amount d \<le> MAX_SAFE_INTEGER"
      using R d p constrainedAmount_nonneg [OF ap, of at] by linarith+
    with after [OF d(1)] * show ?L by (simp add: computeActionCapacity_def Let_def)
  qed
qed


text \<open>What the structural guard of a movement establishes, in exact arithmetic.\<close>

lemma remaining_covers:
  assumes a: "assertRemainingScopeCoversEncumbrances s es at = Inr ()" and es: "valid_encumbrances es"
    and s: "0 \<le> amount s" "amount s \<le> MAX_SAFE_INTEGER"
  shows "constrainedAmount es at \<le> amount s"
proof (cases "sumActiveEncumbrances es at")
  case NoScope
  with s encumbrance_total_none [OF NoScope] show ?thesis by simp
next
  case (TotalScope t)
  with a have "amount t \<le> amount s"
    by (auto simp: assertRemainingScopeCoversEncumbrances_def within_iff split: if_splits)
  with encumbrance_total_exact [OF TotalScope es] s show ?thesis by simp
next
  case IncompatibleScopes
  with a show ?thesis by (simp add: assertRemainingScopeCoversEncumbrances_def)
qed

end
