(* ===== verification/ConstraintApplicability.thy ===== *)
theory ConstraintApplicability
  imports Capacity
begin

text \<open>
  Which persistent constraints bear on a requested action:
  \<open>src/packages/governed-authority/src/governed-constraint-applicability.ts\<close> (the evaluation
  and the policy view) and \<open>src/src/enterprise/authority-governance/constraint-applicability.ts\<close>
  (the five declared profiles, the completeness check of the registry, and the refusal on a
  constraint that cannot be classified).
\<close>

section \<open>Data\<close>

datatype GovernedAuthorityConstraintClass = CollateralCommitmentCapacity

record GovernedActionConstraintProfile =
  cp_action :: string
  cp_producesConstraintClass :: "GovernedAuthorityConstraintClass option"
  cp_consumesConstraintClasses :: "GovernedAuthorityConstraintClass list"
  cp_constrainsHolderTransition :: bool
  cp_terminalizesTargetConstraint :: bool

datatype GovernedConstraintApplicabilityKind = CapacityKind | StructuralKind

datatype GovernedConstraintNonApplicabilityReason =
  NotConstraining | DifferentBinding | ClassNotEngaged

record AppliedGovernedConstraint =
  ac_constraintId :: string
  ac_constraintClass :: GovernedAuthorityConstraintClass
  ac_sourceAction :: string
  ac_governedRight :: GovernedRightType
  ac_scope :: GovernedRightsScope
  ac_applicability :: "GovernedConstraintApplicabilityKind list"

record UnappliedGovernedConstraint =
  uc_constraintId :: string
  uc_constraintClass :: "GovernedAuthorityConstraintClass option"
  uc_sourceAction :: "string option"
  uc_governedRight :: "GovernedRightType option"
  uc_reason :: GovernedConstraintNonApplicabilityReason

record InvalidGovernedConstraint =
  ic_constraintId :: string
  ic_sourceAction :: string

datatype GovernedConstraintApplicabilityStatus =
  Unconstrained | CapacityConstrained | StructurallyConstrained | ConstraintStateInvalid

record GovernedConstraintApplicability =
  ga_action :: string
  ga_status :: GovernedConstraintApplicabilityStatus
  ga_applicable :: "AppliedGovernedConstraint list"
  ga_nonApplicable :: "UnappliedGovernedConstraint list"
  ga_invalid :: "InvalidGovernedConstraint list"

text \<open>What is asked about: the tuple a constraint must be bound to, and the instant.\<close>

record ConstraintQuestion =
  cq_tenantId :: string
  cq_holderRef :: string
  cq_resource :: GovernedAuthorityResourceRef
  cq_governedRight :: GovernedRightType
  cq_at :: string

section \<open>Evaluation\<close>

text \<open>Where the loop puts one constraint.\<close>

datatype ConstraintVerdict =
    Applies AppliedGovernedConstraint
  | Dismissed UnappliedGovernedConstraint
  | Unclassifiable InvalidGovernedConstraint

definition boundTo :: "ConstraintQuestion \<Rightarrow> GovernedAuthorityEncumbrance \<Rightarrow> bool" where
  "boundTo q e \<longleftrightarrow>
     e_tenantId e = cq_tenantId q \<and> e_holderRef e = cq_holderRef q \<and>
     e_resourceKind e = rr_kind (cq_resource q) \<and> e_resourceId e = rr_id (cq_resource q) \<and>
     e_governedRight e = cq_governedRight q"

definition engagementKinds ::
  "GovernedActionConstraintProfile \<Rightarrow> GovernedAuthorityConstraintClass \<Rightarrow>
     GovernedConstraintApplicabilityKind list" where
  "engagementKinds profile constraintClass =
     (if constraintClass \<in> set (cp_consumesConstraintClasses profile) then [CapacityKind] else [])
     @ (if cp_constrainsHolderTransition profile then [StructuralKind] else [])"

definition constraintVerdict ::
  "GovernedActionConstraintProfile \<Rightarrow> (string \<Rightarrow> GovernedAuthorityConstraintClass option) \<Rightarrow>
     ConstraintQuestion \<Rightarrow> GovernedAuthorityEncumbrance \<Rightarrow> ConstraintVerdict" where
  "constraintVerdict profile classify q e =
     (if \<not> boundTo q e then
        Dismissed \<lparr>uc_constraintId = e_id e, uc_constraintClass = None, uc_sourceAction = None,
                   uc_governedRight = None, uc_reason = DifferentBinding\<rparr>
      else if \<not> governedAuthorityEncumbranceConstrains e (cq_at q) then
        Dismissed \<lparr>uc_constraintId = e_id e, uc_constraintClass = None, uc_sourceAction = None,
                   uc_governedRight = None, uc_reason = NotConstraining\<rparr>
      else case classify (e_sourceAction e) of
          None \<Rightarrow> Unclassifiable \<lparr>ic_constraintId = e_id e, ic_sourceAction = e_sourceAction e\<rparr>
        | Some cls \<Rightarrow>
            let kinds = engagementKinds profile cls
            in if kinds = [] then
                 Dismissed \<lparr>uc_constraintId = e_id e, uc_constraintClass = Some cls,
                            uc_sourceAction = Some (e_sourceAction e),
                            uc_governedRight = Some (e_governedRight e), uc_reason = ClassNotEngaged\<rparr>
               else
                 Applies \<lparr>ac_constraintId = e_id e, ac_constraintClass = cls,
                          ac_sourceAction = e_sourceAction e, ac_governedRight = e_governedRight e,
                          ac_scope = e_scope e, ac_applicability = kinds\<rparr>)"

text \<open>The three arrays the loop pushes to.\<close>

fun appliedOf :: "ConstraintVerdict list \<Rightarrow> AppliedGovernedConstraint list" where
  "appliedOf [] = []"
| "appliedOf (Applies a # vs) = a # appliedOf vs"
| "appliedOf (_ # vs) = appliedOf vs"

fun dismissedOf :: "ConstraintVerdict list \<Rightarrow> UnappliedGovernedConstraint list" where
  "dismissedOf [] = []"
| "dismissedOf (Dismissed u # vs) = u # dismissedOf vs"
| "dismissedOf (_ # vs) = dismissedOf vs"

fun invalidOf :: "ConstraintVerdict list \<Rightarrow> InvalidGovernedConstraint list" where
  "invalidOf [] = []"
| "invalidOf (Unclassifiable i # vs) = i # invalidOf vs"
| "invalidOf (_ # vs) = invalidOf vs"

definition statusOf ::
  "AppliedGovernedConstraint list \<Rightarrow> InvalidGovernedConstraint list \<Rightarrow>
     GovernedConstraintApplicabilityStatus" where
  "statusOf applicable invalid =
     (if invalid \<noteq> [] then ConstraintStateInvalid
      else if list_ex (\<lambda>a. CapacityKind \<in> set (ac_applicability a)) applicable then CapacityConstrained
      else if list_ex (\<lambda>a. StructuralKind \<in> set (ac_applicability a)) applicable then StructurallyConstrained
      else Unconstrained)"

definition evaluateGovernedConstraintApplicability ::
  "GovernedActionConstraintProfile \<Rightarrow> (string \<Rightarrow> GovernedAuthorityConstraintClass option) \<Rightarrow>
     ConstraintQuestion \<Rightarrow> GovernedAuthorityEncumbrance list \<Rightarrow> GovernedConstraintApplicability" where
  "evaluateGovernedConstraintApplicability profile classify q constraints =
     (let verdicts = map (constraintVerdict profile classify q) constraints
      in \<lparr>ga_action = cp_action profile,
          ga_status = statusOf (appliedOf verdicts) (invalidOf verdicts),
          ga_applicable = sort_by_id ac_constraintId (appliedOf verdicts),
          ga_nonApplicable = sort_by_id uc_constraintId (dismissedOf verdicts),
          ga_invalid = sort_by_id ic_constraintId (invalidOf verdicts)\<rparr>)"

section \<open>The declared profiles\<close>

definition governedConstraintClassOf :: "string \<Rightarrow> GovernedAuthorityConstraintClass option" where
  "governedConstraintClassOf sourceAction =
     (if sourceAction = ''collateralize'' then Some CollateralCommitmentCapacity else None)"

definition GOVERNED_ACTION_CONSTRAINT_PROFILES :: "GovernedActionConstraintProfile list" where
  "GOVERNED_ACTION_CONSTRAINT_PROFILES =
     [\<lparr>cp_action = ''transfer'', cp_producesConstraintClass = None, cp_consumesConstraintClasses = [],
       cp_constrainsHolderTransition = True, cp_terminalizesTargetConstraint = False\<rparr>,
      \<lparr>cp_action = ''collateralize'', cp_producesConstraintClass = Some CollateralCommitmentCapacity,
       cp_consumesConstraintClasses = [CollateralCommitmentCapacity],
       cp_constrainsHolderTransition = False, cp_terminalizesTargetConstraint = False\<rparr>,
      \<lparr>cp_action = ''tokenize'', cp_producesConstraintClass = None, cp_consumesConstraintClasses = [],
       cp_constrainsHolderTransition = False, cp_terminalizesTargetConstraint = False\<rparr>,
      \<lparr>cp_action = ''license'', cp_producesConstraintClass = None, cp_consumesConstraintClasses = [],
       cp_constrainsHolderTransition = False, cp_terminalizesTargetConstraint = False\<rparr>,
      \<lparr>cp_action = ''release-encumbrance'', cp_producesConstraintClass = None,
       cp_consumesConstraintClasses = [], cp_constrainsHolderTransition = False,
       cp_terminalizesTargetConstraint = True\<rparr>]"

definition PROFILES_BY_ACTION :: "(string, GovernedActionConstraintProfile) js_map" where
  "PROFILES_BY_ACTION =
     foldl (\<lambda>m profile. map_set m (cp_action profile) profile) [] GOVERNED_ACTION_CONSTRAINT_PROFILES"

definition governedActionConstraintProfile :: "string \<Rightarrow> GovernedActionConstraintProfile option" where
  "governedActionConstraintProfile action = map_get PROFILES_BY_ACTION action"

definition requireGovernedActionConstraintProfile :: "string \<Rightarrow> GovernedActionConstraintProfile outcome" where
  "requireGovernedActionConstraintProfile action =
     (case governedActionConstraintProfile action of
        None \<Rightarrow> Inl CONSTRAINT_APPLICABILITY_UNDECLARED
      | Some profile \<Rightarrow> Inr profile)"

definition resolveGovernedConstraintApplicability ::
  "string \<Rightarrow> ConstraintQuestion \<Rightarrow> GovernedAuthorityEncumbrance list \<Rightarrow>
     GovernedConstraintApplicability outcome" where
  "resolveGovernedConstraintApplicability action q constraints =
     rbind (requireGovernedActionConstraintProfile action) (\<lambda>profile.
       Inr (evaluateGovernedConstraintApplicability profile governedConstraintClassOf q constraints))"

text \<open>One turn of the completeness loop.\<close>

definition assertProfileConsistent :: "string \<Rightarrow> unit outcome" where
  "assertProfileConsistent action =
     rbind (requireGovernedActionConstraintProfile action) (\<lambda>profile.
       if governedActionEncumbersAuthority action \<and> cp_producesConstraintClass profile = None
         then Inl CONSTRAINT_APPLICABILITY_UNDECLARED
       else if \<not> governedActionEncumbersAuthority action \<and> cp_producesConstraintClass profile \<noteq> None
         then Inl CONSTRAINT_APPLICABILITY_UNDECLARED
       else if governedActionReleasesEncumbrance action \<noteq> cp_terminalizesTargetConstraint profile
         then Inl CONSTRAINT_APPLICABILITY_UNDECLARED
       else if governedActionConservesAuthority action \<noteq> cp_constrainsHolderTransition profile
         then Inl CONSTRAINT_APPLICABILITY_UNDECLARED
       else Inr ())"

fun assertGovernedActionProfilesComplete :: "string list \<Rightarrow> unit outcome" where
  "assertGovernedActionProfilesComplete [] = Inr ()"
| "assertGovernedActionProfilesComplete (action # actions) =
     rbind (assertProfileConsistent action) (\<lambda>_. assertGovernedActionProfilesComplete actions)"

definition applicableGovernedConstraintsFor ::
  "string \<Rightarrow> ConstraintQuestion \<Rightarrow> GovernedAuthorityEncumbrance list \<Rightarrow>
     (GovernedConstraintApplicability \<times> GovernedAuthorityEncumbrance list) outcome" where
  "applicableGovernedConstraintsFor action q constraints =
     rbind (resolveGovernedConstraintApplicability action q constraints) (\<lambda>applicability.
       if ga_status applicability = ConstraintStateInvalid then Inl CONSTRAINT_STATE_INVALID
       else Inr (applicability,
         filter (\<lambda>e. e_id e \<in> set (map ac_constraintId (ga_applicable applicability))) constraints))"

section \<open>The policy view\<close>

record GovernedConstraintPolicyFact =
  pf_constraintId :: string
  pf_constraintClass :: GovernedAuthorityConstraintClass
  pf_sourceAction :: string
  pf_governedRight :: GovernedRightType
  pf_applicability :: "GovernedConstraintApplicabilityKind list"

record GovernedConstraintPolicyContext =
  pc_resolved :: bool
  pc_status :: GovernedConstraintApplicabilityStatus
  pc_constraints :: "GovernedConstraintPolicyFact list"

fun STATUS_RANK :: "GovernedConstraintApplicabilityStatus \<Rightarrow> int" where
  "STATUS_RANK Unconstrained = 0"
| "STATUS_RANK StructurallyConstrained = 1"
| "STATUS_RANK CapacityConstrained = 2"
| "STATUS_RANK ConstraintStateInvalid = 3"

text \<open>The loops push a fact unless its constraint was seen; \<open>seen\<close> is the ids of the facts so far.\<close>

definition pushFact ::
  "GovernedConstraintPolicyFact \<Rightarrow> GovernedConstraintPolicyFact list \<Rightarrow> GovernedConstraintPolicyFact list" where
  "pushFact f facts =
     (if pf_constraintId f \<in> set (map pf_constraintId facts) then facts else facts @ [f])"

definition appliedFact :: "AppliedGovernedConstraint \<Rightarrow> GovernedConstraintPolicyFact" where
  "appliedFact a =
     \<lparr>pf_constraintId = ac_constraintId a, pf_constraintClass = ac_constraintClass a,
      pf_sourceAction = ac_sourceAction a, pf_governedRight = ac_governedRight a,
      pf_applicability = ac_applicability a\<rparr>"

definition pushDismissed ::
  "GovernedConstraintPolicyFact list \<Rightarrow> UnappliedGovernedConstraint \<Rightarrow> GovernedConstraintPolicyFact list" where
  "pushDismissed facts u =
     (if uc_reason u \<noteq> ClassNotEngaged then facts
      else case (uc_constraintClass u, uc_sourceAction u, uc_governedRight u) of
          (Some cls, Some src, Some right) \<Rightarrow>
            pushFact \<lparr>pf_constraintId = uc_constraintId u, pf_constraintClass = cls,
                      pf_sourceAction = src, pf_governedRight = right, pf_applicability = []\<rparr> facts
        | _ \<Rightarrow> facts)"

definition policyStep ::
  "GovernedConstraintApplicabilityStatus \<times> GovernedConstraintPolicyFact list \<Rightarrow>
     GovernedConstraintApplicability \<Rightarrow>
     GovernedConstraintApplicabilityStatus \<times> GovernedConstraintPolicyFact list" where
  "policyStep acc result =
     (let (status, facts) = acc
      in (if STATUS_RANK (ga_status result) > STATUS_RANK status then ga_status result else status,
          foldl pushDismissed
            (foldl (\<lambda>fs a. pushFact (appliedFact a) fs) facts (ga_applicable result))
            (ga_nonApplicable result)))"

definition toGovernedConstraintPolicyContext ::
  "GovernedConstraintApplicability list \<Rightarrow> GovernedConstraintPolicyContext" where
  "toGovernedConstraintPolicyContext results =
     (let (status, facts) = foldl policyStep (Unconstrained, []) results
      in \<lparr>pc_resolved = True, pc_status = status, pc_constraints = sort_by_id pf_constraintId facts\<rparr>)"

definition UNRESOLVED_GOVERNED_CONSTRAINT_POLICY_CONTEXT :: GovernedConstraintPolicyContext where
  "UNRESOLVED_GOVERNED_CONSTRAINT_POLICY_CONTEXT =
     \<lparr>pc_resolved = False, pc_status = Unconstrained, pc_constraints = []\<rparr>"

section \<open>What the profiles say\<close>

lemma profile_cases:
  "governedActionConstraintProfile action = Some profile \<Longrightarrow>
     action \<in> {''transfer'', ''collateralize'', ''tokenize'', ''license'', ''release-encumbrance''} \<and>
     cp_action profile = action \<and>
     cp_constrainsHolderTransition profile = (action = ''transfer'') \<and>
     cp_consumesConstraintClasses profile =
       (if action = ''collateralize'' then [CollateralCommitmentCapacity] else []) \<and>
     cp_terminalizesTargetConstraint profile = (action = ''release-encumbrance'')"
  by (auto simp: governedActionConstraintProfile_def PROFILES_BY_ACTION_def
      GOVERNED_ACTION_CONSTRAINT_PROFILES_def map_set_def map_get_def split: if_splits)

lemma profile_declared_iff:
  "governedActionConstraintProfile action \<noteq> None \<longleftrightarrow>
     action \<in> {''transfer'', ''collateralize'', ''tokenize'', ''license'', ''release-encumbrance''}"
  by (auto simp: governedActionConstraintProfile_def PROFILES_BY_ACTION_def
      GOVERNED_ACTION_CONSTRAINT_PROFILES_def map_set_def map_get_def)

section \<open>What the evaluation decides\<close>

lemma appliedOf_iff: "a \<in> set (appliedOf vs) \<longleftrightarrow> Applies a \<in> set vs"
  by (induction vs rule: appliedOf.induct) auto

lemma invalidOf_iff: "i \<in> set (invalidOf vs) \<longleftrightarrow> Unclassifiable i \<in> set vs"
  by (induction vs rule: invalidOf.induct) auto

lemma dismissedOf_iff: "u \<in> set (dismissedOf vs) \<longleftrightarrow> Dismissed u \<in> set vs"
  by (induction vs rule: dismissedOf.induct) auto

lemma statusOf_invalid: "statusOf ap bad = ConstraintStateInvalid \<longleftrightarrow> bad \<noteq> []"
  by (auto simp: statusOf_def)

lemma verdict_unclassifiable:
  "(\<exists>i. constraintVerdict profile classify q e = Unclassifiable i) \<longleftrightarrow>
     boundTo q e \<and> governedAuthorityEncumbranceConstrains e (cq_at q) \<and> classify (e_sourceAction e) = None"
  by (auto simp: constraintVerdict_def Let_def split: option.splits)

lemma verdict_applies:
  "(\<exists>a. constraintVerdict profile classify q e = Applies a) \<longleftrightarrow>
     boundTo q e \<and> governedAuthorityEncumbranceConstrains e (cq_at q) \<and>
     (\<exists>cls. classify (e_sourceAction e) = Some cls \<and> engagementKinds profile cls \<noteq> [])"
  by (auto simp: constraintVerdict_def Let_def split: option.splits)

lemma verdict_applies_id:
  "constraintVerdict profile classify q e = Applies a \<Longrightarrow> ac_constraintId a = e_id e"
  by (auto simp: constraintVerdict_def Let_def split: option.splits if_splits)

lemma evaluation_invalid_iff:
  "ga_status (evaluateGovernedConstraintApplicability profile classify q cs) = ConstraintStateInvalid \<longleftrightarrow>
     (\<exists>e \<in> set cs. boundTo q e \<and> governedAuthorityEncumbranceConstrains e (cq_at q) \<and>
        classify (e_sourceAction e) = None)"
proof -
  have "(\<exists>i. i \<in> set (invalidOf (map (constraintVerdict profile classify q) cs))) \<longleftrightarrow>
      (\<exists>e \<in> set cs. \<exists>i. constraintVerdict profile classify q e = Unclassifiable i)"
    by (simp add: invalidOf_iff image_iff) metis
  then show ?thesis
    by (simp add: evaluateGovernedConstraintApplicability_def Let_def statusOf_invalid
        verdict_unclassifiable ex_in_conv)
qed

lemma applicable_ids:
  "ac_constraintId ` set (ga_applicable (evaluateGovernedConstraintApplicability profile classify q cs)) =
     e_id ` {e \<in> set cs. \<exists>a. constraintVerdict profile classify q e = Applies a}"
    (is "?L = ?R")
proof -
  have set: "set (ga_applicable (evaluateGovernedConstraintApplicability profile classify q cs)) =
      {a. \<exists>e \<in> set cs. constraintVerdict profile classify q e = Applies a}"
    by (simp add: evaluateGovernedConstraintApplicability_def Let_def appliedOf_iff image_iff set_eq_iff)
      metis
  have "x \<in> ?L \<longleftrightarrow> (\<exists>e \<in> set cs. \<exists>a. constraintVerdict profile classify q e = Applies a \<and> x = e_id e)" for x
    unfolding set using verdict_applies_id by (simp add: image_iff) metis
  then show ?thesis by blast
qed

text \<open>
  For the two actions that commit authority every constraint in force over the same authority
  applies: what they are measured against is everything that constrains.
\<close>

lemma committing_action_applicable:
  assumes ok: "applicableGovernedConstraintsFor action q cs = Inr (g, ap)"
    and action: "action \<in> {''transfer'', ''collateralize''}"
    and bound: "\<forall>e \<in> set cs. boundTo q e"
  shows "constrainedAmount ap (cq_at q) = constrainedAmount cs (cq_at q)" and "set ap \<subseteq> set cs"
proof -
  let ?on = "\<lambda>e. governedAuthorityEncumbranceConstrains e (cq_at q)"
  from ok obtain profile where p: "governedActionConstraintProfile action = Some profile"
    and g: "g = evaluateGovernedConstraintApplicability profile governedConstraintClassOf q cs"
    and st: "ga_status g \<noteq> ConstraintStateInvalid"
    and ap: "ap = filter (\<lambda>e. e_id e \<in> ac_constraintId ` set (ga_applicable g)) cs"
    by (auto simp: applicableGovernedConstraintsFor_def resolveGovernedConstraintApplicability_def
        requireGovernedActionConstraintProfile_def outcome_simps split: option.splits if_splits)
  have kinds: "engagementKinds profile cls \<noteq> []" for cls
    using profile_cases [OF p] action by (cases cls) (auto simp: engagementKinds_def)
  have known: "\<forall>e \<in> set cs. ?on e \<longrightarrow> governedConstraintClassOf (e_sourceAction e) \<noteq> None"
    using st bound by (simp add: g evaluation_invalid_iff)
  have "e_id e \<in> ac_constraintId ` set (ga_applicable g)" if e: "e \<in> set cs" "?on e" for e
  proof -
    obtain cls where "governedConstraintClassOf (e_sourceAction e) = Some cls" using known e by blast
    then have "\<exists>a. constraintVerdict profile governedConstraintClassOf q e = Applies a"
      using e bound kinds verdict_applies by blast
    with e show ?thesis unfolding g applicable_ids by blast
  qed
  then have "constrainedAmount (filter (\<lambda>e. e_id e \<in> ac_constraintId ` set (ga_applicable g)) xs) (cq_at q)
      = constrainedAmount xs (cq_at q)" if "set xs \<subseteq> set cs" for xs
    using that by (induction xs) (auto simp: constrainedAmount_def)
  then show "constrainedAmount ap (cq_at q) = constrainedAmount cs (cq_at q)" by (simp add: ap)
  show "set ap \<subseteq> set cs" by (auto simp: ap)
qed

end
