(* ===== verification/AuthorityStore.thy ===== *)
theory AuthorityStore
  imports ConstraintApplicability
begin

text \<open>
  The in-memory governed authority store,
  \<open>src/src/enterprise/authority-governance/in-memory-authority-store.ts\<close>.

  \<open>auth_store\<close> is the closure of \<open>createInMemoryGovernedAuthorityStore\<close>: its maps and its
  append-only list of transitions. Every method is one synchronous critical section, so it is
  one function from the store to its result and the next store; a throw is \<open>Inl\<close> of the error's
  code, with the store as the throw leaves it. \<open>sha\<close> is SHA-256 and \<open>now\<close> the value the clock
  returns during the call.
\<close>

record auth_store =
  positions :: "(string, GovernedAuthorityPosition) js_map"
  transitions :: "GovernedAuthorityTransition list"
  reservations :: "(string, GovernedAuthorityReservation) js_map"
  encumbrances :: "(string, GovernedAuthorityEncumbrance) js_map"
  sequenceByTenant :: "(string, int) js_map"
  lastDigestByTenant :: "(string, string) js_map"
  issuanceOrdinalByTenant :: "(string, int) js_map"

definition empty_store :: auth_store where
  "empty_store = \<lparr>positions = [], transitions = [], reservations = [], encumbrances = [],
     sequenceByTenant = [], lastDigestByTenant = [], issuanceOrdinalByTenant = []\<rparr>"

type_synonym 'a store_result = "'a outcome \<times> auth_store"

section \<open>Private operations\<close>

definition resourceKey :: "string \<Rightarrow> GovernedAuthorityResourceRef \<Rightarrow> string" where
  "resourceKey tenantId resource =
     int_str (int (length tenantId)) @ '':'' @ tenantId @ ''|'' @
     int_str (int (length (rr_kind resource))) @ '':'' @ rr_kind resource @ ''|'' @
     int_str (int (length (rr_id resource))) @ '':'' @ rr_id resource"

definition positionKey ::
  "string \<Rightarrow> string \<Rightarrow> GovernedAuthorityResourceRef \<Rightarrow> GovernedRightType \<Rightarrow> GovernedAuthorityPositionKey" where
  "positionKey tenantId holderRef resource governedRight =
     \<lparr>pk_tenantId = tenantId, pk_actorRef = holderRef, pk_resourceKind = rr_kind resource,
      pk_resourceId = rr_id resource, pk_governedRight = governedRight\<rparr>"

definition keyOf :: "GovernedAuthorityPosition \<Rightarrow> GovernedAuthorityPositionKey" where
  "keyOf p = \<lparr>pk_tenantId = p_tenantId p, pk_actorRef = p_actorRef p,
     pk_resourceKind = p_resourceKind p, pk_resourceId = p_resourceId p,
     pk_governedRight = p_governedRight p\<rparr>"

text \<open>\<open>(map.get(tenantId) ?? 0) + 1\<close>, stored and returned.\<close>

definition nextCount :: "(string, int) js_map \<Rightarrow> string \<Rightarrow> int" where
  "nextCount m tenantId = js_add (case map_get m tenantId of None \<Rightarrow> 0 | Some n \<Rightarrow> n) 1"

definition nextIssuanceOrdinal :: "string \<Rightarrow> auth_store \<Rightarrow> int \<times> auth_store" where
  "nextIssuanceOrdinal tenantId st =
     (let n = nextCount (issuanceOrdinalByTenant st) tenantId
      in (n, st\<lparr>issuanceOrdinalByTenant := map_set (issuanceOrdinalByTenant st) tenantId n\<rparr>))"

definition nextSequence :: "string \<Rightarrow> auth_store \<Rightarrow> int \<times> auth_store" where
  "nextSequence tenantId st =
     (let n = nextCount (sequenceByTenant st) tenantId
      in (n, st\<lparr>sequenceByTenant := map_set (sequenceByTenant st) tenantId n\<rparr>))"

text \<open>The draft's sequence, previous digest and digest are the store's to write.\<close>

definition appendTransition ::
  "(string \<Rightarrow> string) \<Rightarrow> GovernedAuthorityTransition \<Rightarrow> auth_store \<Rightarrow>
     GovernedAuthorityTransition \<times> auth_store" where
  "appendTransition sha draft st =
     (let previousDigest = map_get (lastDigestByTenant st) (t_tenantId draft);
          (sequence, st1) = nextSequence (t_tenantId draft) st;
          unsealed = draft\<lparr>t_sequence := sequence, t_previousDigest := previousDigest\<rparr>;
          sealed = seal_transition sha unsealed
      in (sealed,
          st1\<lparr>lastDigestByTenant := map_set (lastDigestByTenant st1) (t_tenantId draft) (t_digest sealed),
              transitions := transitions st1 @ [sealed]\<rparr>))"

definition putPosition ::
  "(string \<Rightarrow> string) \<Rightarrow> GovernedAuthorityPosition \<Rightarrow> auth_store \<Rightarrow>
     GovernedAuthorityPosition \<times> auth_store" where
  "putPosition sha draft st =
     (let sealed = seal_position sha draft
      in (sealed, st\<lparr>positions :=
            map_set (positions st) (governedAuthorityPositionKey (keyOf sealed)) sealed\<rparr>))"

definition readPosition ::
  "(string \<Rightarrow> string) \<Rightarrow> auth_store \<Rightarrow> GovernedAuthorityPositionKey \<Rightarrow>
     GovernedAuthorityPosition option outcome" where
  "readPosition sha st key =
     (case map_get (positions st) (governedAuthorityPositionKey key) of
        None \<Rightarrow> Inr None
      | Some found \<Rightarrow> rbind (assertPositionIntegrity sha found) (\<lambda>p. Inr (Some p)))"

definition seal_reservation ::
  "(string \<Rightarrow> string) \<Rightarrow> GovernedAuthorityReservation \<Rightarrow> GovernedAuthorityReservation" where
  "seal_reservation sha r = r\<lparr>r_digest := computeReservationDigest sha r\<rparr>"

definition seal_encumbrance ::
  "(string \<Rightarrow> string) \<Rightarrow> GovernedAuthorityEncumbrance \<Rightarrow> GovernedAuthorityEncumbrance" where
  "seal_encumbrance sha e = e\<lparr>e_digest := computeEncumbranceDigest sha e\<rparr>"

definition putReservation ::
  "(string \<Rightarrow> string) \<Rightarrow> GovernedAuthorityReservation \<Rightarrow> auth_store \<Rightarrow>
     GovernedAuthorityReservation \<times> auth_store" where
  "putReservation sha draft st =
     (let sealed = seal_reservation sha draft
      in (sealed, st\<lparr>reservations := map_set (reservations st) (r_id sealed) sealed\<rparr>))"

definition putEncumbrance ::
  "(string \<Rightarrow> string) \<Rightarrow> GovernedAuthorityEncumbrance \<Rightarrow> auth_store \<Rightarrow>
     GovernedAuthorityEncumbrance \<times> auth_store" where
  "putEncumbrance sha draft st =
     (let sealed = seal_encumbrance sha draft
      in (sealed, st\<lparr>encumbrances := map_set (encumbrances st) (e_id sealed) sealed\<rparr>))"

definition isEnrolled :: "auth_store \<Rightarrow> string \<Rightarrow> GovernedAuthorityResourceRef \<Rightarrow> bool" where
  "isEnrolled st tenantId resource =
     list_ex (\<lambda>p. resourceKey (p_tenantId p) \<lparr>rr_kind = p_resourceKind p, rr_id = p_resourceId p\<rparr>
                   = resourceKey tenantId resource)
       (map_values (positions st))"

definition reservationOver ::
  "string \<Rightarrow> string \<Rightarrow> GovernedAuthorityResourceRef \<Rightarrow> GovernedRightType \<Rightarrow>
     GovernedAuthorityReservation \<Rightarrow> bool" where
  "reservationOver tenantId holderRef resource governedRight r \<longleftrightarrow>
     r_tenantId r = tenantId \<and> r_holderRef r = holderRef \<and> r_resourceKind r = rr_kind resource \<and>
     r_resourceId r = rr_id resource \<and> r_governedRight r = governedRight"

definition readReservationsFor ::
  "(string \<Rightarrow> string) \<Rightarrow> auth_store \<Rightarrow> string \<Rightarrow> string \<Rightarrow> GovernedAuthorityResourceRef \<Rightarrow>
     GovernedRightType \<Rightarrow> GovernedAuthorityReservation list outcome" where
  "readReservationsFor sha st tenantId holderRef resource governedRight =
     rbind (mapR (assertReservationIntegrity sha)
              (filter (reservationOver tenantId holderRef resource governedRight)
                 (map_values (reservations st))))
       (\<lambda>rs. Inr (sort_by_id r_id rs))"

definition encumbranceOver ::
  "string \<Rightarrow> string \<Rightarrow> GovernedAuthorityResourceRef \<Rightarrow> GovernedRightType \<Rightarrow>
     GovernedAuthorityEncumbrance \<Rightarrow> bool" where
  "encumbranceOver tenantId holderRef resource governedRight e \<longleftrightarrow>
     e_tenantId e = tenantId \<and> e_holderRef e = holderRef \<and> e_resourceKind e = rr_kind resource \<and>
     e_resourceId e = rr_id resource \<and> e_governedRight e = governedRight"

definition readEncumbrancesFor ::
  "(string \<Rightarrow> string) \<Rightarrow> auth_store \<Rightarrow> string \<Rightarrow> string \<Rightarrow> GovernedAuthorityResourceRef \<Rightarrow>
     GovernedRightType \<Rightarrow> GovernedAuthorityEncumbrance list outcome" where
  "readEncumbrancesFor sha st tenantId holderRef resource governedRight =
     rbind (mapR (assertEncumbranceIntegrity sha)
              (filter (encumbranceOver tenantId holderRef resource governedRight)
                 (map_values (encumbrances st))))
       (\<lambda>es. Inr (sort_by_id e_id es))"

definition assertReleaseExecutionUnclaimed ::
  "auth_store \<Rightarrow> string \<Rightarrow> string \<Rightarrow> string \<Rightarrow> unit outcome" where
  "assertReleaseExecutionUnclaimed st tenantId releaseExecutionRef encumbranceId =
     (if list_ex (\<lambda>e. e_tenantId e = tenantId \<and> e_id e \<noteq> encumbranceId \<and>
                      e_releaseExecutionRef e = Some releaseExecutionRef)
           (map_values (encumbrances st))
      then Inl ENCUMBRANCE_RELEASE_CONFLICT else Inr ())"

section \<open>Bootstrap\<close>

text \<open>The guards, and the four instants they produce.\<close>

definition bootstrapGuards ::
  "string \<Rightarrow> AuthorityGovernanceContext \<Rightarrow> BootstrapGovernedAuthorityInput \<Rightarrow>
     (string \<times> string option \<times> string \<times> string) outcome" where
  "bootstrapGuards now context input =
     rbind (requireAuthorityAccessToOrganization context (b_tenantId input)) (\<lambda>_.
     rbind (check BOOTSTRAP_NOT_PERMITTED (cx_system context)) (\<lambda>_.
     rbind (assertKnownGovernedRight (b_governedRight input)) (\<lambda>_.
     rbind (assertValidAuthorityScope (b_scope input)) (\<lambda>_.
     rbind (assertNonZeroAuthorityScope (b_scope input)) (\<lambda>_.
     rbind (assertBasisMatchesMovement (b_basis input) None) (\<lambda>_.
     rbind (requireStrictUtcAuthorityTimestamp (b_effectiveFrom input)) (\<lambda>effectiveFrom.
     rbind (case b_expiresAt input of
              None \<Rightarrow> Inr None
            | Some ex \<Rightarrow> rbind (requireStrictUtcAuthorityTimestamp ex) (\<lambda>x. Inr (Some x))) (\<lambda>expiresAt.
     rbind (requireStrictUtcAuthorityTimestamp
              (case b_occurredAt input of None \<Rightarrow> b_effectiveFrom input | Some o' \<Rightarrow> o')) (\<lambda>occurredAt.
     rbind (requireStrictUtcAuthorityTimestamp now) (\<lambda>recordedAt.
       Inr (effectiveFrom, expiresAt, occurredAt, recordedAt)))))))))))"

definition bootstrapTransition ::
  "BootstrapGovernedAuthorityInput \<Rightarrow> string \<Rightarrow> string \<Rightarrow> string \<Rightarrow> GovernedAuthorityTransition" where
  "bootstrapTransition input transitionId occurredAt recordedAt =
     \<lparr>t_id = transitionId, t_tenantId = b_tenantId input, t_sequence = 0,
      t_resourceKind = rr_kind (b_resource input), t_resourceId = rr_id (b_resource input),
      t_governedRight = b_governedRight input,
      t_scope = serializeGovernedRightsScope (b_scope input), t_fromActorRef = None,
      t_toActorRef = b_holderRef input, t_basis = b_basis input, t_occurredAt = occurredAt,
      t_recordedAt = recordedAt, t_correlationId = b_correlationId input,
      t_previousDigest = None, t_digest = []\<rparr>"

definition bootstrapKey :: "BootstrapGovernedAuthorityInput \<Rightarrow> GovernedAuthorityPositionKey" where
  "bootstrapKey input =
     positionKey (b_tenantId input) (b_holderRef input) (b_resource input) (b_governedRight input)"

definition bootstrapFresh ::
  "(string \<Rightarrow> string) \<Rightarrow> BootstrapGovernedAuthorityInput \<Rightarrow> string \<Rightarrow> string option \<Rightarrow> string \<Rightarrow>
     string \<Rightarrow> GovernedAuthorityPosition" where
  "bootstrapFresh sha input effectiveFrom expiresAt recordedAt transitionId =
     \<lparr>p_id = (case b_positionId input of
                None \<Rightarrow> deriveAuthorityPositionId sha (bootstrapKey input) | Some i \<Rightarrow> i),
      p_tenantId = b_tenantId input, p_actorRef = b_holderRef input,
      p_resourceKind = rr_kind (b_resource input), p_resourceId = rr_id (b_resource input),
      p_governedRight = b_governedRight input,
      p_scope = serializeGovernedRightsScope (b_scope input), p_effectiveFrom = effectiveFrom,
      p_expiresAt = expiresAt, p_createdAt = recordedAt, p_updatedAt = recordedAt,
      p_lastTransitionRef = transitionId, p_digest = []\<rparr>"

definition bootstrapPosition ::
  "(string \<Rightarrow> string) \<Rightarrow> string \<Rightarrow> AuthorityGovernanceContext \<Rightarrow> BootstrapGovernedAuthorityInput \<Rightarrow>
     auth_store \<Rightarrow> GovernedAuthorityPosition store_result" where
  "bootstrapPosition sha now context input st =
     attempt (bootstrapGuards now context input) st (\<lambda>(effectiveFrom, expiresAt, occurredAt, recordedAt).
     attempt (readPosition sha st (bootstrapKey input)) st (\<lambda>existing.
       let (transitionId, st1) =
             (case b_transitionId input of
                Some i \<Rightarrow> (i, st)
              | None \<Rightarrow> (let (n, st') = nextIssuanceOrdinal (b_tenantId input) st
                         in (deriveAuthorityIssuanceTransitionId sha (b_tenantId input) n, st')));
           (transition, st2) =
             appendTransition sha (bootstrapTransition input transitionId occurredAt recordedAt) st1
       in case existing of
            None \<Rightarrow>
              (let (p, st3) = putPosition sha
                     (bootstrapFresh sha input effectiveFrom expiresAt recordedAt (t_id transition)) st2
               in (Inr p, st3))
          | Some ex \<Rightarrow>
              attempt (addAuthorityScopes (p_scope ex) (b_scope input)) st2 (\<lambda>scope.
                let (p, st3) = putPosition sha
                      (ex\<lparr>p_scope := scope, p_updatedAt := recordedAt,
                          p_lastTransitionRef := t_id transition\<rparr>) st2
                in (Inr p, st3))))"

section \<open>Movements\<close>

fun executionRefOf :: "GovernedAuthorityBasis \<Rightarrow> string option" where
  "executionRefOf (GovernedExecution _ ex _ _ _ _) = Some ex"
| "executionRefOf _ = None"

definition applyGuards ::
  "string \<Rightarrow> AuthorityGovernanceContext \<Rightarrow> ApplyGovernedAuthorityTransitionInput \<Rightarrow>
     (string \<times> string) outcome" where
  "applyGuards now context input =
     rbind (requireAuthorityAccessToOrganization context (a_tenantId input)) (\<lambda>_.
     rbind (assertBasisMatchesMovement (a_basis input) (Some (a_fromHolderRef input))) (\<lambda>_.
     rbind (assertDistinctHolders (a_fromHolderRef input) (a_toHolderRef input)) (\<lambda>_.
     rbind (assertValidAuthorityScope (a_scope input)) (\<lambda>_.
     rbind (assertNonZeroAuthorityScope (a_scope input)) (\<lambda>_.
     rbind (mapR assertKnownGovernedRight (a_governedRights input)) (\<lambda>_.
     rbind (check BASIS_INVALID (a_governedRights input \<noteq> [])) (\<lambda>_.
     rbind (requireStrictUtcAuthorityTimestamp (a_occurredAt input)) (\<lambda>occurredAt.
     rbind (requireStrictUtcAuthorityTimestamp now) (\<lambda>recordedAt.
       Inr (occurredAt, recordedAt))))))))))"

definition alreadyApplied :: "auth_store \<Rightarrow> string \<Rightarrow> string \<Rightarrow> GovernedAuthorityTransition list" where
  "alreadyApplied st tenantId executionRef =
     filter (\<lambda>t. t_tenantId t = tenantId \<and> executionRefOf (t_basis t) = Some executionRef)
       (transitions st)"

text \<open>The loop of \<open>assertReplayMatches\<close> over the applied transitions.\<close>

fun replayEntriesMatch ::
  "ApplyGovernedAuthorityTransitionInput \<Rightarrow> GovernedAuthorityTransition list \<Rightarrow> unit outcome" where
  "replayEntriesMatch input [] = Inr ()"
| "replayEntriesMatch input (t # ts) =
     (if t_fromActorRef t \<noteq> Some (a_fromHolderRef input) then Inl TRANSITION_CONFLICT
      else if t_toActorRef t \<noteq> a_toHolderRef input then Inl TRANSITION_CONFLICT
      else if t_resourceKind t \<noteq> rr_kind (a_resource input) \<or>
              t_resourceId t \<noteq> rr_id (a_resource input) then Inl TRANSITION_CONFLICT
      else if scope_text (serializeGovernedRightsScope (t_scope t)) \<noteq>
              scope_text (serializeGovernedRightsScope (a_scope input)) then Inl TRANSITION_CONFLICT
      else replayEntriesMatch input ts)"

definition assertReplayMatches ::
  "GovernedAuthorityTransition list \<Rightarrow> ApplyGovernedAuthorityTransitionInput \<Rightarrow> unit outcome" where
  "assertReplayMatches applied input =
     (let rights = remdups (map t_governedRight applied)
      in if length rights \<noteq> length (a_governedRights input) \<or>
            \<not> list_all (\<lambda>right. right \<in> set rights) (a_governedRights input)
         then Inl TRANSITION_CONFLICT
         else replayEntriesMatch input applied)"

record staged_right =
  sg_governedRight :: GovernedRightType
  sg_source :: GovernedAuthorityPosition
  sg_target :: "GovernedAuthorityPosition option"
  sg_debited :: GovernedRightsScope
  sg_credited :: GovernedRightsScope

definition stageRight ::
  "(string \<Rightarrow> string) \<Rightarrow> auth_store \<Rightarrow> ApplyGovernedAuthorityTransitionInput \<Rightarrow> string \<Rightarrow>
     GovernedRightType \<Rightarrow> staged_right outcome" where
  "stageRight sha st input occurredAt governedRight =
     rbind (readPosition sha st
              (positionKey (a_tenantId input) (a_fromHolderRef input) (a_resource input) governedRight)) (\<lambda>src.
     case src of
       None \<Rightarrow> Inl INSUFFICIENT_SCOPE
     | Some source \<Rightarrow>
         rbind (readPosition sha st
                  (positionKey (a_tenantId input) (a_toHolderRef input) (a_resource input) governedRight)) (\<lambda>target.
         rbind (subtractAuthorityScope (p_scope source) (a_scope input)) (\<lambda>debited.
         rbind (readEncumbrancesFor sha st (a_tenantId input) (a_fromHolderRef input) (a_resource input) governedRight) (\<lambda>es.
         rbind (assertRemainingScopeCoversEncumbrances debited es occurredAt) (\<lambda>_.
         rbind (case target of
                  None \<Rightarrow> Inr (serializeGovernedRightsScope (a_scope input))
                | Some t \<Rightarrow> addAuthorityScopes (p_scope t) (a_scope input)) (\<lambda>credited.
           Inr \<lparr>sg_governedRight = governedRight, sg_source = source, sg_target = target,
                sg_debited = debited, sg_credited = credited\<rparr>))))))"

definition movementTransition ::
  "(string \<Rightarrow> string) \<Rightarrow> ApplyGovernedAuthorityTransitionInput \<Rightarrow> string \<Rightarrow> string \<Rightarrow>
     GovernedRightType \<Rightarrow> GovernedAuthorityTransition" where
  "movementTransition sha input occurredAt recordedAt governedRight =
     \<lparr>t_id = deriveAuthorityMovementTransitionId sha
               (case a_transitionIdPrefix input of
                  None \<Rightarrow> ''governed-authority-transition'' | Some prefix \<Rightarrow> prefix)
               (a_tenantId input) (gx_executionRef (a_basis input)) governedRight,
      t_tenantId = a_tenantId input, t_sequence = 0,
      t_resourceKind = rr_kind (a_resource input), t_resourceId = rr_id (a_resource input),
      t_governedRight = governedRight, t_scope = serializeGovernedRightsScope (a_scope input),
      t_fromActorRef = Some (a_fromHolderRef input), t_toActorRef = a_toHolderRef input,
      t_basis = a_basis input, t_occurredAt = occurredAt, t_recordedAt = recordedAt,
      t_correlationId = a_correlationId input, t_previousDigest = None, t_digest = []\<rparr>"

definition creditedFresh ::
  "(string \<Rightarrow> string) \<Rightarrow> ApplyGovernedAuthorityTransitionInput \<Rightarrow> string \<Rightarrow> string \<Rightarrow> staged_right \<Rightarrow>
     string \<Rightarrow> GovernedAuthorityPosition" where
  "creditedFresh sha input occurredAt recordedAt entry transitionId =
     \<lparr>p_id = deriveAuthorityPositionId sha
               (positionKey (a_tenantId input) (a_toHolderRef input) (a_resource input) (sg_governedRight entry)),
      p_tenantId = a_tenantId input, p_actorRef = a_toHolderRef input,
      p_resourceKind = rr_kind (a_resource input), p_resourceId = rr_id (a_resource input),
      p_governedRight = sg_governedRight entry, p_scope = sg_credited entry,
      p_effectiveFrom = occurredAt, p_expiresAt = None, p_createdAt = recordedAt,
      p_updatedAt = recordedAt, p_lastTransitionRef = transitionId, p_digest = []\<rparr>"

definition debitedDraft :: "string \<Rightarrow> staged_right \<Rightarrow> string \<Rightarrow> GovernedAuthorityPosition" where
  "debitedDraft recordedAt entry transitionId =
     (sg_source entry)\<lparr>p_scope := sg_debited entry, p_updatedAt := recordedAt,
                       p_lastTransitionRef := transitionId\<rparr>"

definition creditedDraft ::
  "(string \<Rightarrow> string) \<Rightarrow> ApplyGovernedAuthorityTransitionInput \<Rightarrow> string \<Rightarrow> string \<Rightarrow> staged_right \<Rightarrow>
     string \<Rightarrow> GovernedAuthorityPosition" where
  "creditedDraft sha input occurredAt recordedAt entry transitionId =
     (case sg_target entry of
        None \<Rightarrow> creditedFresh sha input occurredAt recordedAt entry transitionId
      | Some t \<Rightarrow> t\<lparr>p_scope := sg_credited entry, p_updatedAt := recordedAt,
                    p_lastTransitionRef := transitionId\<rparr>)"

text \<open>One turn of the apply loop, and the loop.\<close>

definition applyEntry ::
  "(string \<Rightarrow> string) \<Rightarrow> ApplyGovernedAuthorityTransitionInput \<Rightarrow> string \<Rightarrow> string \<Rightarrow> staged_right \<Rightarrow>
     auth_store \<Rightarrow> GovernedAuthorityTransition \<times> auth_store" where
  "applyEntry sha input occurredAt recordedAt entry st =
     (let (transition, st1) = appendTransition sha
            (movementTransition sha input occurredAt recordedAt (sg_governedRight entry)) st;
          (_, st2) = putPosition sha (debitedDraft recordedAt entry (t_id transition)) st1;
          (_, st3) = putPosition sha
            (creditedDraft sha input occurredAt recordedAt entry (t_id transition)) st2
      in (transition, st3))"

fun applyStaged ::
  "(string \<Rightarrow> string) \<Rightarrow> ApplyGovernedAuthorityTransitionInput \<Rightarrow> string \<Rightarrow> string \<Rightarrow>
     staged_right list \<Rightarrow> auth_store \<Rightarrow> GovernedAuthorityTransition list \<times> auth_store" where
  "applyStaged sha input occurredAt recordedAt [] st = ([], st)"
| "applyStaged sha input occurredAt recordedAt (entry # entries) st =
     (let (transition, st1) = applyEntry sha input occurredAt recordedAt entry st;
          (applied, st2) = applyStaged sha input occurredAt recordedAt entries st1
      in (transition # applied, st2))"

text \<open>
  \<open>for (const reservation of reservations.values())\<close>: the loop rewrites only the entry it
  stands on, so it walks the values the map had when it started.
\<close>

fun consumeReservations ::
  "(string \<Rightarrow> string) \<Rightarrow> string \<Rightarrow> string \<Rightarrow> string \<Rightarrow> GovernedAuthorityReservation list \<Rightarrow>
     auth_store \<Rightarrow> unit store_result" where
  "consumeReservations sha tenantId mandateRef recordedAt [] st = (Inr (), st)"
| "consumeReservations sha tenantId mandateRef recordedAt (r # rs) st =
     (if r_tenantId r \<noteq> tenantId \<or> r_sourceMandateRef r \<noteq> mandateRef \<or> r_status r \<noteq> RsActive
      then consumeReservations sha tenantId mandateRef recordedAt rs st
      else attempt (assertReservationIntegrity sha r) st (\<lambda>v.
        let (_, st1) = putReservation sha (v\<lparr>r_status := RsConsumed, r_updatedAt := recordedAt\<rparr>) st
        in consumeReservations sha tenantId mandateRef recordedAt rs st1))"

definition applyTransition ::
  "(string \<Rightarrow> string) \<Rightarrow> string \<Rightarrow> AuthorityGovernanceContext \<Rightarrow> ApplyGovernedAuthorityTransitionInput \<Rightarrow>
     auth_store \<Rightarrow> ApplyGovernedAuthorityTransitionOutcome store_result" where
  "applyTransition sha now context input st =
     attempt (applyGuards now context input) st (\<lambda>(occurredAt, recordedAt).
       let already = alreadyApplied st (a_tenantId input) (gx_executionRef (a_basis input))
       in if already \<noteq> [] then
            attempt (assertReplayMatches already input) st (\<lambda>_.
            attempt (mapR (assertTransitionIntegrity sha) already) st (\<lambda>ts.
              (Inr \<lparr>ao_transitions = ts, ao_replayed = True\<rparr>, st)))
          else
            attempt (mapR (stageRight sha st input occurredAt) (a_governedRights input)) st (\<lambda>staged.
              let (applied, st1) = applyStaged sha input occurredAt recordedAt staged st;
                  (consumed, st2) =
                    (case a_consumesReservationsForMandateRef input of
                       None \<Rightarrow> (Inr (), st1)
                     | Some mandateRef \<Rightarrow>
                         consumeReservations sha (a_tenantId input) mandateRef recordedAt
                           (map_values (reservations st1)) st1)
              in attempt consumed st2 (\<lambda>_.
                   (Inr \<lparr>ao_transitions = applied, ao_replayed = False\<rparr>, st2))))"

end
