(* ===== verification/CommitmentStore.thy ===== *)
theory CommitmentStore
  imports AuthorityStore
begin

text \<open>
  The rest of the in-memory governed authority store: reservations, encumbrances, and the
  reads (\<open>src/src/enterprise/authority-governance/in-memory-authority-store.ts\<close>).
\<close>

section \<open>Reservations\<close>

definition acquireGuards ::
  "string \<Rightarrow> AuthorityGovernanceContext \<Rightarrow> AcquireGovernedAuthorityReservationInput \<Rightarrow> string outcome" where
  "acquireGuards now context input =
     rbind (requireAuthorityAccessToOrganization context (q_tenantId input)) (\<lambda>_.
     rbind (assertKnownGovernedRight (q_governedRight input)) (\<lambda>_.
     rbind (assertValidAuthorityScope (q_scope input)) (\<lambda>_.
     rbind (assertNonZeroAuthorityScope (q_scope input)) (\<lambda>_.
     rbind (requireStrictUtcAuthorityTimestamp (q_effectiveFrom input)) (\<lambda>effectiveFrom.
     rbind (requireStrictUtcAuthorityTimestamp (q_expiresAt input)) (\<lambda>expiresAt.
     rbind (check SCOPE_INVALID (\<not> instant_ge effectiveFrom expiresAt)) (\<lambda>_.
     requireStrictUtcAuthorityTimestamp now)))))))"

definition reservationKeyOf :: "AcquireGovernedAuthorityReservationInput \<Rightarrow> string" where
  "reservationKeyOf input =
     (case q_idempotencyKey input of None \<Rightarrow> q_sourceMandateRef input | Some k \<Rightarrow> k)"

definition findReservationByKey ::
  "auth_store \<Rightarrow> string \<Rightarrow> string \<Rightarrow> GovernedAuthorityReservation option" where
  "findReservationByKey st tenantId idempotencyKey =
     find (\<lambda>r. r_tenantId r = tenantId \<and> r_idempotencyKey r = idempotencyKey)
       (map_values (reservations st))"

definition findReservationForMandate ::
  "auth_store \<Rightarrow> string \<Rightarrow> string \<Rightarrow> string \<Rightarrow> GovernedAuthorityReservation option" where
  "findReservationForMandate st tenantId sourceMandateRef governedRight =
     find (\<lambda>r. r_tenantId r = tenantId \<and> r_sourceMandateRef r = sourceMandateRef \<and>
                r_governedRight r = governedRight)
       (map_values (reservations st))"

text \<open>The availability the acquisition is decided on, read inside the critical section.\<close>

definition acquireAvailability ::
  "(string \<Rightarrow> string) \<Rightarrow> auth_store \<Rightarrow> AcquireGovernedAuthorityReservationInput \<Rightarrow> string \<Rightarrow>
     GovernedAuthorityAvailability outcome" where
  "acquireAvailability sha st input recordedAt =
     rbind (readPosition sha st
              (positionKey (q_tenantId input) (q_holderRef input) (q_resource input) (q_governedRight input))) (\<lambda>position.
     rbind (readReservationsFor sha st (q_tenantId input) (q_holderRef input) (q_resource input) (q_governedRight input)) (\<lambda>standing.
     rbind (readEncumbrancesFor sha st (q_tenantId input) (q_holderRef input) (q_resource input) (q_governedRight input)) (\<lambda>constraints.
     rbind (applicableGovernedConstraintsFor (q_action input)
              \<lparr>cq_tenantId = q_tenantId input, cq_holderRef = q_holderRef input,
               cq_resource = q_resource input, cq_governedRight = q_governedRight input,
               cq_at = recordedAt\<rparr> constraints) (\<lambda>(applicability, applicable).
       Inr (computeActionCapacity position standing constraints applicable recordedAt)))))"

definition acquiredReservation ::
  "(string \<Rightarrow> string) \<Rightarrow> AcquireGovernedAuthorityReservationInput \<Rightarrow> string \<Rightarrow>
     GovernedAuthorityReservation" where
  "acquiredReservation sha input recordedAt =
     \<lparr>r_id = deriveReservationId sha (q_tenantId input) (q_sourceMandateRef input) (q_governedRight input),
      r_tenantId = q_tenantId input, r_holderRef = q_holderRef input,
      r_resourceKind = rr_kind (q_resource input), r_resourceId = rr_id (q_resource input),
      r_governedRight = q_governedRight input,
      r_scope = serializeGovernedRightsScope (q_scope input), r_action = q_action input,
      r_sourceRequestRef = q_sourceRequestRef input,
      r_sourceDecisionRef = q_sourceDecisionRef input,
      r_sourceMandateRef = q_sourceMandateRef input, r_effectiveFrom = q_effectiveFrom input,
      r_expiresAt = q_expiresAt input, r_status = RsActive,
      r_idempotencyKey = reservationKeyOf input, r_correlationId = q_correlationId input,
      r_createdAt = recordedAt, r_updatedAt = recordedAt, r_digest = []\<rparr>"

text \<open>From the verdict on: the refusals, and the commitment.\<close>

definition acquireDecide ::
  "(string \<Rightarrow> string) \<Rightarrow> AcquireGovernedAuthorityReservationInput \<Rightarrow> string \<Rightarrow>
     GovernedAuthorityAvailability \<Rightarrow> auth_store \<Rightarrow>
     AcquireGovernedAuthorityReservationOutcome store_result" where
  "acquireDecide sha input recordedAt availability st =
     (case availability of
        NoAuthority \<Rightarrow>
          if \<not> isEnrolled st (q_tenantId input) (q_resource input) then (Inr ReservationNotEnrolled, st)
          else (Inl INSUFFICIENT_SCOPE, st)
      | IncompatibleAvailability _ _ \<Rightarrow> (Inl SCOPE_INCOMPATIBLE, st)
      | Overcommitted _ _ _ \<Rightarrow> (Inl AVAILABILITY_INSUFFICIENT, st)
      | Overencumbered _ _ _ \<Rightarrow> (Inl AVAILABILITY_INSUFFICIENT, st)
      | Available _ _ _ _ available \<Rightarrow>
          if \<not> governedRightsScopeWithin (serializeGovernedRightsScope (q_scope input)) available
          then (Inl AVAILABILITY_INSUFFICIENT, st)
          else (let (r, st1) = putReservation sha (acquiredReservation sha input recordedAt) st
                in (Inr (Reserved r False), st1)))"

definition acquireReservation ::
  "(string \<Rightarrow> string) \<Rightarrow> string \<Rightarrow> AuthorityGovernanceContext \<Rightarrow>
     AcquireGovernedAuthorityReservationInput \<Rightarrow> auth_store \<Rightarrow>
     AcquireGovernedAuthorityReservationOutcome store_result" where
  "acquireReservation sha now context input st =
     attempt (acquireGuards now context input) st (\<lambda>recordedAt.
       case findReservationByKey st (q_tenantId input) (reservationKeyOf input) of
         Some existing \<Rightarrow>
           attempt (assertReservationIntegrity sha existing) st (\<lambda>verified.
             if \<not> reservationReplayMatches verified input then (Inl RESERVATION_CONFLICT, st)
             else (Inr (Reserved verified True), st))
       | None \<Rightarrow>
           if findReservationForMandate st (q_tenantId input) (q_sourceMandateRef input) (q_governedRight input)
                \<noteq> None
           then (Inl RESERVATION_CONFLICT, st)
           else attempt (acquireAvailability sha st input recordedAt) st (\<lambda>availability.
                  acquireDecide sha input recordedAt availability st))"

definition releaseReservation ::
  "(string \<Rightarrow> string) \<Rightarrow> string \<Rightarrow> AuthorityGovernanceContext \<Rightarrow>
     ReleaseGovernedAuthorityReservationInput \<Rightarrow> auth_store \<Rightarrow>
     GovernedAuthorityReservation store_result" where
  "releaseReservation sha now context input st =
     attempt (requireAuthorityAccessToOrganization context (rl_tenantId input)) st (\<lambda>_.
       if rl_reason input = AdministrativeRelease \<and> \<not> cx_system context
       then (Inl BOOTSTRAP_NOT_PERMITTED, st)
       else case map_get (reservations st) (rl_reservationId input) of
           None \<Rightarrow> (Inl RESERVATION_NOT_FOUND, st)
         | Some found \<Rightarrow>
             if r_tenantId found \<noteq> rl_tenantId input then (Inl RESERVATION_NOT_FOUND, st)
             else attempt (assertReservationIntegrity sha found) st (\<lambda>verified.
               case r_status verified of
                 RsReleased \<Rightarrow> (Inr verified, st)
               | RsConsumed \<Rightarrow> (Inl RESERVATION_CONFLICT, st)
               | RsEncumbered \<Rightarrow> (Inl RESERVATION_CONFLICT, st)
               | RsActive \<Rightarrow>
                   attempt (requireStrictUtcAuthorityTimestamp
                              (case rl_releasedAt input of None \<Rightarrow> now | Some x \<Rightarrow> x)) st (\<lambda>releasedAt.
                     let (r, st1) = putReservation sha
                           (verified\<lparr>r_status := RsReleased, r_updatedAt := releasedAt\<rparr>) st
                     in (Inr r, st1))))"

definition resolveAvailability ::
  "(string \<Rightarrow> string) \<Rightarrow> AuthorityGovernanceContext \<Rightarrow> GovernedAuthorityAvailabilityQuery \<Rightarrow>
     auth_store \<Rightarrow> GovernedAuthorityAvailability outcome" where
  "resolveAvailability sha context query st =
     rbind (requireAuthorityAccessToOrganization context (av_tenantId query)) (\<lambda>_.
     rbind (requireStrictUtcAuthorityTimestamp (av_at query)) (\<lambda>at.
     rbind (readPosition sha st
              (positionKey (av_tenantId query) (av_holderRef query) (av_resource query) (av_governedRight query))) (\<lambda>position.
     rbind (readReservationsFor sha st (av_tenantId query) (av_holderRef query) (av_resource query) (av_governedRight query)) (\<lambda>rs.
     rbind (readEncumbrancesFor sha st (av_tenantId query) (av_holderRef query) (av_resource query) (av_governedRight query)) (\<lambda>es.
       Inr (computeCapacity position rs es at))))))"

section \<open>Encumbrances\<close>

definition encumberGuards ::
  "string \<Rightarrow> AuthorityGovernanceContext \<Rightarrow> RecordGovernedAuthorityEncumbranceInput \<Rightarrow> string outcome" where
  "encumberGuards now context input =
     rbind (requireAuthorityAccessToOrganization context (n_tenantId input)) (\<lambda>_.
     rbind (assertKnownGovernedRight (n_governedRight input)) (\<lambda>_.
     rbind (assertValidAuthorityScope (n_scope input)) (\<lambda>_.
     rbind (assertNonZeroAuthorityScope (n_scope input)) (\<lambda>_.
     rbind (check ENCUMBRANCE_BASIS_INVALID (governedActionEncumbersAuthority (n_sourceAction input))) (\<lambda>_.
     rbind (check ENCUMBRANCE_BASIS_INVALID
              (\<not> (length (n_sourceExecutionRef input) = 0 \<or> length (n_sourceMandateRef input) = 0))) (\<lambda>_.
     rbind (requireStrictUtcAuthorityTimestamp (n_effectiveFrom input)) (\<lambda>_.
     requireStrictUtcAuthorityTimestamp now)))))))"

definition encumbranceKeyOf :: "RecordGovernedAuthorityEncumbranceInput \<Rightarrow> string" where
  "encumbranceKeyOf input =
     (case n_idempotencyKey input of
        None \<Rightarrow> deriveEncumbranceIdempotencyKey (n_sourceExecutionRef input) (n_governedRight input)
      | Some k \<Rightarrow> k)"

definition findEncumbranceByKey ::
  "auth_store \<Rightarrow> string \<Rightarrow> string \<Rightarrow> GovernedAuthorityEncumbrance option" where
  "findEncumbranceByKey st tenantId idempotencyKey =
     find (\<lambda>e. e_tenantId e = tenantId \<and> e_idempotencyKey e = idempotencyKey)
       (map_values (encumbrances st))"

text \<open>The commitments the constraint takes over from, as the \<open>Set\<close> of their ids.\<close>

definition surrenderedIds ::
  "RecordGovernedAuthorityEncumbranceInput \<Rightarrow> GovernedAuthorityReservation list \<Rightarrow> string list" where
  "surrenderedIds input standing =
     (case n_consumesReservationsForMandateRef input of
        None \<Rightarrow> []
      | Some mandateRef \<Rightarrow>
          remdups (map r_id (filter (\<lambda>r. r_sourceMandateRef r = mandateRef \<and> r_status r = RsActive) standing)))"

definition encumberCapacity ::
  "RecordGovernedAuthorityEncumbranceInput \<Rightarrow> string \<Rightarrow> GovernedAuthorityPosition \<Rightarrow>
     GovernedAuthorityReservation list \<Rightarrow> GovernedAuthorityEncumbrance list \<Rightarrow>
     GovernedAuthorityAvailability outcome" where
  "encumberCapacity input recordedAt position standing constraints =
     rbind (applicableGovernedConstraintsFor (n_sourceAction input)
              \<lparr>cq_tenantId = n_tenantId input, cq_holderRef = n_holderRef input,
               cq_resource = n_resource input, cq_governedRight = n_governedRight input,
               cq_at = recordedAt\<rparr> constraints) (\<lambda>(applicability, applicable).
       Inr (computeActionCapacity (Some position)
              (filter (\<lambda>r. r_id r \<notin> set (surrenderedIds input standing)) standing)
              constraints applicable recordedAt))"

text \<open>The refusals on the capacity verdict; what is left is the right to constrain.\<close>

definition encumberRefusal ::
  "RecordGovernedAuthorityEncumbranceInput \<Rightarrow> GovernedAuthorityAvailability \<Rightarrow> unit outcome" where
  "encumberRefusal input capacity =
     (case capacity of
        IncompatibleAvailability _ _ \<Rightarrow> Inl SCOPE_INCOMPATIBLE
      | NoAuthority \<Rightarrow> Inl AVAILABILITY_INSUFFICIENT
      | Overcommitted _ _ _ \<Rightarrow> Inl AVAILABILITY_INSUFFICIENT
      | Overencumbered _ _ _ \<Rightarrow> Inl AVAILABILITY_INSUFFICIENT
      | Available _ _ _ _ available \<Rightarrow>
          (let requestedScope = serializeGovernedRightsScope (n_scope input)
           in if scopesDiffer requestedScope available then Inl SCOPE_INCOMPATIBLE
              else if \<not> governedRightsScopeWithin requestedScope available then Inl AVAILABILITY_INSUFFICIENT
              else Inr ()))"

definition recordedEncumbrance ::
  "(string \<Rightarrow> string) \<Rightarrow> RecordGovernedAuthorityEncumbranceInput \<Rightarrow> string \<Rightarrow> string list \<Rightarrow>
     GovernedAuthorityEncumbrance" where
  "recordedEncumbrance sha input recordedAt surrendered =
     \<lparr>e_id = deriveEncumbranceId sha (n_tenantId input) (n_sourceExecutionRef input) (n_governedRight input),
      e_tenantId = n_tenantId input, e_holderRef = n_holderRef input,
      e_resourceKind = rr_kind (n_resource input), e_resourceId = rr_id (n_resource input),
      e_governedRight = n_governedRight input,
      e_scope = serializeGovernedRightsScope (n_scope input),
      e_sourceAction = n_sourceAction input, e_sourceMandateRef = n_sourceMandateRef input,
      e_sourceExecutionRef = n_sourceExecutionRef input,
      e_sourceReservationRef = (case surrendered of [] \<Rightarrow> None | i # _ \<Rightarrow> Some i),
      e_effectiveFrom = n_effectiveFrom input, e_status = EsActive, e_releasedAt = None,
      e_releaseBasis = None, e_releaseAction = None, e_releaseMandateRef = None,
      e_releaseExecutionRef = None, e_releasedBy = None, e_releaseReasonCode = None,
      e_idempotencyKey = encumbranceKeyOf input, e_correlationId = n_correlationId input,
      e_createdAt = recordedAt, e_updatedAt = recordedAt, e_digest = []\<rparr>"

text \<open>The handoff loop over the surrendered commitments.\<close>

fun handOff ::
  "(string \<Rightarrow> string) \<Rightarrow> GovernedAuthorityEncumbrance list \<Rightarrow> string \<Rightarrow> string list \<Rightarrow> auth_store \<Rightarrow>
     unit store_result" where
  "handOff sha afterWrite recordedAt [] st = (Inr (), st)"
| "handOff sha afterWrite recordedAt (i # is) st =
     (case map_get (reservations st) i of
        None \<Rightarrow> handOff sha afterWrite recordedAt is st
      | Some r \<Rightarrow>
          if r_status r \<noteq> RsActive then handOff sha afterWrite recordedAt is st
          else (case sumActiveEncumbrances (carvedOutOf r afterWrite) recordedAt of
              NoScope \<Rightarrow> handOff sha afterWrite recordedAt is st
            | IncompatibleScopes \<Rightarrow> handOff sha afterWrite recordedAt is st
            | TotalScope carvedOut \<Rightarrow>
                if \<not> governedRightsScopeWithin (r_scope r) carvedOut
                then handOff sha afterWrite recordedAt is st
                else attempt (assertReservationIntegrity sha r) st (\<lambda>v.
                  let (_, st1) = putReservation sha
                        (v\<lparr>r_status := RsEncumbered, r_updatedAt := recordedAt\<rparr>) st
                  in handOff sha afterWrite recordedAt is st1)))"

text \<open>From the position on: capacity, the constraint, and the handoff.\<close>

definition encumberPosition ::
  "(string \<Rightarrow> string) \<Rightarrow> RecordGovernedAuthorityEncumbranceInput \<Rightarrow> string \<Rightarrow>
     GovernedAuthorityPosition \<Rightarrow> auth_store \<Rightarrow>
     RecordGovernedAuthorityEncumbranceOutcome store_result" where
  "encumberPosition sha input recordedAt position st =
     attempt (readReservationsFor sha st (n_tenantId input) (n_holderRef input) (n_resource input) (n_governedRight input)) st (\<lambda>standing.
     attempt (readEncumbrancesFor sha st (n_tenantId input) (n_holderRef input) (n_resource input) (n_governedRight input)) st (\<lambda>constraints.
     attempt (encumberCapacity input recordedAt position standing constraints) st (\<lambda>capacity.
     attempt (encumberRefusal input capacity) st (\<lambda>_.
       let surrendered = surrenderedIds input standing;
           (e, st1) = putEncumbrance sha (recordedEncumbrance sha input recordedAt surrendered) st
       in if n_consumesReservationsForMandateRef input = None then (Inr (Encumbered e False), st1)
          else attempt (readEncumbrancesFor sha st1 (n_tenantId input) (n_holderRef input) (n_resource input) (n_governedRight input)) st1 (\<lambda>afterWrite.
            let (handed, st2) = handOff sha afterWrite recordedAt surrendered st1
            in attempt handed st2 (\<lambda>_. (Inr (Encumbered e False), st2)))))))"

definition recordEncumbrance ::
  "(string \<Rightarrow> string) \<Rightarrow> string \<Rightarrow> AuthorityGovernanceContext \<Rightarrow>
     RecordGovernedAuthorityEncumbranceInput \<Rightarrow> auth_store \<Rightarrow>
     RecordGovernedAuthorityEncumbranceOutcome store_result" where
  "recordEncumbrance sha now context input st =
     attempt (encumberGuards now context input) st (\<lambda>recordedAt.
       case findEncumbranceByKey st (n_tenantId input) (encumbranceKeyOf input) of
         Some existing \<Rightarrow>
           attempt (assertEncumbranceIntegrity sha existing) st (\<lambda>verified.
             if \<not> encumbranceReplayMatches verified input then (Inl ENCUMBRANCE_CONFLICT, st)
             else (Inr (Encumbered verified True), st))
       | None \<Rightarrow>
           attempt (readPosition sha st
                      (positionKey (n_tenantId input) (n_holderRef input) (n_resource input) (n_governedRight input))) st (\<lambda>position.
             case position of
               None \<Rightarrow>
                 if \<not> isEnrolled st (n_tenantId input) (n_resource input)
                 then (Inr EncumbranceNotEnrolled, st)
                 else (Inl INSUFFICIENT_SCOPE, st)
             | Some p \<Rightarrow> encumberPosition sha input recordedAt p st))"

definition releaseEncumbrance ::
  "(string \<Rightarrow> string) \<Rightarrow> string \<Rightarrow> AuthorityGovernanceContext \<Rightarrow>
     ReleaseGovernedAuthorityEncumbranceInput \<Rightarrow> auth_store \<Rightarrow>
     GovernedAuthorityEncumbrance store_result" where
  "releaseEncumbrance sha now context input st =
     attempt (requireAuthorityAccessToOrganization context (l_tenantId input)) st (\<lambda>_.
     attempt (case l_basis input of
                ReleaseByAdministrator _ _ \<Rightarrow> check ENCUMBRANCE_RELEASE_NOT_PERMITTED (cx_system context)
              | ReleaseByExecution _ _ _ \<Rightarrow> Inr ()) st (\<lambda>_.
     attempt (assertEncumbranceReleaseBasisAcceptable (l_basis input)) st (\<lambda>_.
       case map_get (encumbrances st) (l_encumbranceId input) of
         None \<Rightarrow> (Inl ENCUMBRANCE_NOT_FOUND, st)
       | Some found \<Rightarrow>
           if e_tenantId found \<noteq> l_tenantId input then (Inl ENCUMBRANCE_NOT_FOUND, st)
           else attempt (assertEncumbranceIntegrity sha found) st (\<lambda>verified.
             if e_status verified = EsReleased then
               (if \<not> encumbranceReleaseReplayMatches verified (l_basis input)
                then (Inl ENCUMBRANCE_RELEASE_CONFLICT, st)
                else (Inr verified, st))
             else attempt (case l_basis input of
                    ReleaseByExecution _ _ executionRef \<Rightarrow>
                      assertReleaseExecutionUnclaimed st (l_tenantId input) executionRef (e_id verified)
                  | ReleaseByAdministrator _ _ \<Rightarrow> Inr ()) st (\<lambda>_.
               attempt (requireStrictUtcAuthorityTimestamp
                          (case l_releasedAt input of None \<Rightarrow> now | Some x \<Rightarrow> x)) st (\<lambda>releasedAt.
                 let (e, st1) = putEncumbrance sha
                       ((applyReleaseBasis (l_basis input)
                          (verified\<lparr>e_status := EsReleased, e_releasedAt := Some releasedAt\<rparr>))
                        \<lparr>e_updatedAt := releasedAt\<rparr>) st
                 in (Inr e, st1)))))))"

section \<open>Reads\<close>

definition getPosition ::
  "(string \<Rightarrow> string) \<Rightarrow> AuthorityGovernanceContext \<Rightarrow> GovernedAuthorityPositionKey \<Rightarrow> auth_store \<Rightarrow>
     GovernedAuthorityPosition option outcome" where
  "getPosition sha context key st =
     rbind (requireAuthorityAccessToOrganization context (pk_tenantId key)) (\<lambda>_. readPosition sha st key)"

definition isResourceEnrolled ::
  "AuthorityGovernanceContext \<Rightarrow> string \<Rightarrow> GovernedAuthorityResourceRef \<Rightarrow> auth_store \<Rightarrow> bool outcome" where
  "isResourceEnrolled context tenantId resource st =
     rbind (requireAuthorityAccessToOrganization context tenantId) (\<lambda>_.
       Inr (isEnrolled st tenantId resource))"

definition listPositionsForHolder ::
  "(string \<Rightarrow> string) \<Rightarrow> AuthorityGovernanceContext \<Rightarrow> string \<Rightarrow> string \<Rightarrow>
     GovernedAuthorityResourceRef \<Rightarrow> auth_store \<Rightarrow> GovernedAuthorityPosition list outcome" where
  "listPositionsForHolder sha context tenantId holderRef resource st =
     rbind (requireAuthorityAccessToOrganization context tenantId) (\<lambda>_.
     rbind (mapR (assertPositionIntegrity sha)
              (filter (\<lambda>p. p_tenantId p = tenantId \<and> p_actorRef p = holderRef \<and>
                            p_resourceKind p = rr_kind resource \<and> p_resourceId p = rr_id resource)
                 (map_values (positions st)))) (\<lambda>ps.
       Inr (sort_by_id p_governedRight ps)))"

definition transitionTouches ::
  "GovernedAuthorityPositionKey \<Rightarrow> GovernedAuthorityTransition \<Rightarrow> bool" where
  "transitionTouches key t \<longleftrightarrow>
     t_tenantId t = pk_tenantId key \<and> t_resourceKind t = pk_resourceKind key \<and>
     t_resourceId t = pk_resourceId key \<and> t_governedRight t = pk_governedRight key \<and>
     (t_toActorRef t = pk_actorRef key \<or> t_fromActorRef t = Some (pk_actorRef key))"

definition getProvenance ::
  "(string \<Rightarrow> string) \<Rightarrow> AuthorityGovernanceContext \<Rightarrow> GovernedAuthorityPositionKey \<Rightarrow> auth_store \<Rightarrow>
     GovernedAuthorityProvenance outcome" where
  "getProvenance sha context key st =
     rbind (requireAuthorityAccessToOrganization context (pk_tenantId key)) (\<lambda>_.
     rbind (readPosition sha st key) (\<lambda>position.
       case position of
         None \<Rightarrow> Inl POSITION_NOT_FOUND
       | Some p \<Rightarrow>
           rbind (mapR (assertTransitionIntegrity sha) (filter (transitionTouches key) (transitions st))) (\<lambda>ts.
             Inr \<lparr>pv_position = p, pv_transitions = ts\<rparr>)))"

definition listTransitionsByExecutionRef ::
  "(string \<Rightarrow> string) \<Rightarrow> AuthorityGovernanceContext \<Rightarrow> string \<Rightarrow> string \<Rightarrow> auth_store \<Rightarrow>
     GovernedAuthorityTransition list outcome" where
  "listTransitionsByExecutionRef sha context tenantId executionRef st =
     rbind (requireAuthorityAccessToOrganization context tenantId) (\<lambda>_.
       mapR (assertTransitionIntegrity sha) (alreadyApplied st tenantId executionRef))"

definition getReservation ::
  "(string \<Rightarrow> string) \<Rightarrow> AuthorityGovernanceContext \<Rightarrow> string \<Rightarrow> string \<Rightarrow> auth_store \<Rightarrow>
     GovernedAuthorityReservation option outcome" where
  "getReservation sha context tenantId reservationId st =
     rbind (requireAuthorityAccessToOrganization context tenantId) (\<lambda>_.
       case map_get (reservations st) reservationId of
         None \<Rightarrow> Inr None
       | Some found \<Rightarrow>
           if r_tenantId found \<noteq> tenantId then Inr None
           else rbind (assertReservationIntegrity sha found) (\<lambda>r. Inr (Some r)))"

definition listReservationsByMandateRef ::
  "(string \<Rightarrow> string) \<Rightarrow> AuthorityGovernanceContext \<Rightarrow> string \<Rightarrow> string \<Rightarrow> auth_store \<Rightarrow>
     GovernedAuthorityReservation list outcome" where
  "listReservationsByMandateRef sha context tenantId sourceMandateRef st =
     rbind (requireAuthorityAccessToOrganization context tenantId) (\<lambda>_.
     rbind (mapR (assertReservationIntegrity sha)
              (filter (\<lambda>r. r_tenantId r = tenantId \<and> r_sourceMandateRef r = sourceMandateRef)
                 (map_values (reservations st)))) (\<lambda>rs.
       Inr (sort_by_id r_id rs)))"

definition listActiveReservations ::
  "(string \<Rightarrow> string) \<Rightarrow> AuthorityGovernanceContext \<Rightarrow> GovernedAuthorityAvailabilityQuery \<Rightarrow>
     auth_store \<Rightarrow> GovernedAuthorityReservation list outcome" where
  "listActiveReservations sha context query st =
     rbind (requireAuthorityAccessToOrganization context (av_tenantId query)) (\<lambda>_.
     rbind (requireStrictUtcAuthorityTimestamp (av_at query)) (\<lambda>at.
     rbind (readReservationsFor sha st (av_tenantId query) (av_holderRef query) (av_resource query) (av_governedRight query)) (\<lambda>rs.
       Inr (filter (\<lambda>r. governedAuthorityReservationReducesAvailability r at) rs))))"

definition getEncumbranceByReleaseExecutionRef ::
  "(string \<Rightarrow> string) \<Rightarrow> AuthorityGovernanceContext \<Rightarrow> string \<Rightarrow> string \<Rightarrow> auth_store \<Rightarrow>
     GovernedAuthorityEncumbrance option outcome" where
  "getEncumbranceByReleaseExecutionRef sha context tenantId releaseExecutionRef st =
     rbind (requireAuthorityAccessToOrganization context tenantId) (\<lambda>_.
       case find (\<lambda>e. e_tenantId e = tenantId \<and> e_releaseExecutionRef e = Some releaseExecutionRef)
              (map_values (encumbrances st)) of
         None \<Rightarrow> Inr None
       | Some e \<Rightarrow> rbind (assertEncumbranceIntegrity sha e) (\<lambda>v. Inr (Some v)))"

definition getEncumbrance ::
  "(string \<Rightarrow> string) \<Rightarrow> AuthorityGovernanceContext \<Rightarrow> string \<Rightarrow> string \<Rightarrow> auth_store \<Rightarrow>
     GovernedAuthorityEncumbrance option outcome" where
  "getEncumbrance sha context tenantId encumbranceId st =
     rbind (requireAuthorityAccessToOrganization context tenantId) (\<lambda>_.
       case map_get (encumbrances st) encumbranceId of
         None \<Rightarrow> Inr None
       | Some found \<Rightarrow>
           if e_tenantId found \<noteq> tenantId then Inr None
           else rbind (assertEncumbranceIntegrity sha found) (\<lambda>e. Inr (Some e)))"

definition listEncumbrancesByMandateRef ::
  "(string \<Rightarrow> string) \<Rightarrow> AuthorityGovernanceContext \<Rightarrow> string \<Rightarrow> string \<Rightarrow> auth_store \<Rightarrow>
     GovernedAuthorityEncumbrance list outcome" where
  "listEncumbrancesByMandateRef sha context tenantId sourceMandateRef st =
     rbind (requireAuthorityAccessToOrganization context tenantId) (\<lambda>_.
     rbind (mapR (assertEncumbranceIntegrity sha)
              (filter (\<lambda>e. e_tenantId e = tenantId \<and> e_sourceMandateRef e = sourceMandateRef)
                 (map_values (encumbrances st)))) (\<lambda>es.
       Inr (sort_by_id e_id es)))"

definition listActiveEncumbrances ::
  "(string \<Rightarrow> string) \<Rightarrow> AuthorityGovernanceContext \<Rightarrow> GovernedAuthorityAvailabilityQuery \<Rightarrow>
     auth_store \<Rightarrow> GovernedAuthorityEncumbrance list outcome" where
  "listActiveEncumbrances sha context query st =
     rbind (requireAuthorityAccessToOrganization context (av_tenantId query)) (\<lambda>_.
     rbind (requireStrictUtcAuthorityTimestamp (av_at query)) (\<lambda>at.
     rbind (readEncumbrancesFor sha st (av_tenantId query) (av_holderRef query) (av_resource query) (av_governedRight query)) (\<lambda>es.
       Inr (filter (\<lambda>e. governedAuthorityEncumbranceConstrains e at) es))))"

record GovernedAuthorityStoreHealth =
  h_positionCount :: nat
  h_transitionCount :: nat
  h_activeReservationCount :: nat
  h_activeEncumbranceCount :: nat

definition health :: "auth_store \<Rightarrow> GovernedAuthorityStoreHealth" where
  "health st =
     \<lparr>h_positionCount = length (positions st), h_transitionCount = length (transitions st),
      h_activeReservationCount =
        length (filter (\<lambda>r. r_status r = RsActive) (map_values (reservations st))),
      h_activeEncumbranceCount =
        length (filter (\<lambda>e. e_status e = EsActive) (map_values (encumbrances st)))\<rparr>"

definition close_store :: "auth_store \<Rightarrow> auth_store" where
  "close_store st = st\<lparr>positions := [], transitions := [], reservations := [], encumbrances := [],
     sequenceByTenant := [], lastDigestByTenant := [], issuanceOrdinalByTenant := []\<rparr>"

end
