(* ===== verification/StoreInvariants.thy ===== *)
theory StoreInvariants
  imports CommitmentStore
begin

text \<open>
  The well-formedness of a governed authority store, kept by every operation whether it returns
  or throws: every record stands under its own key, is sealed by its own digest and holds a
  valid quantity, and each tenant's transitions form one unbroken, gaplessly numbered chain.
\<close>

section \<open>Well-formed records\<close>

definition position_ok :: "(string \<Rightarrow> string) \<Rightarrow> string \<Rightarrow> GovernedAuthorityPosition \<Rightarrow> bool" where
  "position_ok sha k p \<longleftrightarrow>
     k = governedAuthorityPositionKey (keyOf p) \<and> position_intact sha p \<and>
     0 \<le> amount (p_scope p) \<and> unit_of (p_scope p) \<noteq> Some [] \<and>
     isGovernedRightType (p_governedRight p) \<and> isStrictUtcTimestamp (p_effectiveFrom p)"

definition reservation_intact :: "(string \<Rightarrow> string) \<Rightarrow> GovernedAuthorityReservation \<Rightarrow> bool" where
  "reservation_intact sha r \<longleftrightarrow> computeReservationDigest sha r = r_digest r"

definition encumbrance_intact :: "(string \<Rightarrow> string) \<Rightarrow> GovernedAuthorityEncumbrance \<Rightarrow> bool" where
  "encumbrance_intact sha e \<longleftrightarrow> computeEncumbranceDigest sha e = e_digest e"

interpretation reservation_seal: sealed_record "seal_reservation sha" "reservation_intact sha"
  "assertReservationIntegrity sha" RESERVATION_RECORD_CORRUPTED for sha
  by unfold_locales (auto simp: assertReservationIntegrity_def reservation_intact_def
      seal_reservation_def computeReservationDigest_def projectReservationForDigest_def)

interpretation encumbrance_seal: sealed_record "seal_encumbrance sha" "encumbrance_intact sha"
  "assertEncumbranceIntegrity sha" ENCUMBRANCE_RECORD_CORRUPTED for sha
  by unfold_locales (auto simp: assertEncumbranceIntegrity_def encumbrance_intact_def
      seal_encumbrance_def computeEncumbranceDigest_def projectEncumbranceForDigest_def)

definition reservation_ok :: "(string \<Rightarrow> string) \<Rightarrow> string \<Rightarrow> GovernedAuthorityReservation \<Rightarrow> bool" where
  "reservation_ok sha k r \<longleftrightarrow>
     k = r_id r \<and> reservation_intact sha r \<and> valid_scope (r_scope r) \<and> amount (r_scope r) \<noteq> 0 \<and>
     isGovernedRightType (r_governedRight r) \<and> isStrictUtcTimestamp (r_effectiveFrom r) \<and>
     isStrictUtcTimestamp (r_expiresAt r) \<and> instant_lt (r_effectiveFrom r) (r_expiresAt r)"

definition encumbrance_ok :: "(string \<Rightarrow> string) \<Rightarrow> string \<Rightarrow> GovernedAuthorityEncumbrance \<Rightarrow> bool" where
  "encumbrance_ok sha k e \<longleftrightarrow>
     k = e_id e \<and> encumbrance_intact sha e \<and> valid_scope (e_scope e) \<and> amount (e_scope e) \<noteq> 0 \<and>
     isGovernedRightType (e_governedRight e) \<and> isStrictUtcTimestamp (e_effectiveFrom e) \<and>
     governedActionEncumbersAuthority (e_sourceAction e) \<and>
     (case e_status e of
        EsActive \<Rightarrow> e_releasedAt e = None \<and> e_releaseBasis e = None \<and> e_releaseAction e = None \<and>
          e_releaseMandateRef e = None \<and> e_releaseExecutionRef e = None \<and> e_releasedBy e = None \<and>
          e_releaseReasonCode e = None
      | EsReleased \<Rightarrow> (\<exists>at. e_releasedAt e = Some at \<and> isStrictUtcTimestamp at) \<and>
          (\<exists>basis. assertEncumbranceReleaseBasisAcceptable basis = Inr () \<and>
             encumbranceReleaseReplayMatches e basis))"

section \<open>The ledger of transitions\<close>

definition tenantTransitions :: "auth_store \<Rightarrow> string \<Rightarrow> GovernedAuthorityTransition list" where
  "tenantTransitions st tenantId = filter (\<lambda>t. t_tenantId t = tenantId) (transitions st)"

text \<open>
  The chain of one tenant: it verifies, the remembered digest is its last one's, and its
  sequence numbers are 1, 2, 3, ... as long as the count is a safe integer.
\<close>

definition ledger_ok :: "(string \<Rightarrow> string) \<Rightarrow> auth_store \<Rightarrow> bool" where
  "ledger_ok sha st \<longleftrightarrow> (\<forall>tenantId. let ts = tenantTransitions st tenantId in
     chain_from sha None ts = Inr () \<and>
     map_get (lastDigestByTenant st) tenantId = (if ts = [] then None else Some (t_digest (last ts))) \<and>
     (int (length ts) \<le> MAX_SAFE_INTEGER \<longrightarrow>
        (case map_get (sequenceByTenant st) tenantId of None \<Rightarrow> 0 | Some n \<Rightarrow> n) = int (length ts) \<and>
        map t_sequence ts = map int [1..<length ts + 1]))"

definition store_wf :: "(string \<Rightarrow> string) \<Rightarrow> auth_store \<Rightarrow> bool" where
  "store_wf sha st \<longleftrightarrow>
     map_all (position_ok sha) (positions st) \<and>
     map_all (reservation_ok sha) (reservations st) \<and>
     map_all (encumbrance_ok sha) (encumbrances st) \<and>
     ledger_ok sha st"

lemma store_wf_empty: "store_wf sha empty_store"
  by (simp add: store_wf_def empty_store_def ledger_ok_def tenantTransitions_def)

section \<open>Private operations\<close>

lemma nextSequence_other:
  "positions (snd (nextSequence ten st)) = positions st"
  "reservations (snd (nextSequence ten st)) = reservations st"
  "encumbrances (snd (nextSequence ten st)) = encumbrances st"
  by (simp_all add: nextSequence_def Let_def)

lemma nextIssuanceOrdinal_wf:
  "store_wf sha (snd (nextIssuanceOrdinal ten st)) = store_wf sha st"
  by (simp add: nextIssuanceOrdinal_def Let_def store_wf_def ledger_ok_def tenantTransitions_def)

text \<open>What \<open>appendTransition\<close> leaves in the store.\<close>

lemma appendTransition_eq:
  "appendTransition sha draft st =
     (let n = nextCount (sequenceByTenant st) (t_tenantId draft);
          sealed = seal_transition sha (draft\<lparr>t_sequence := n,
            t_previousDigest := map_get (lastDigestByTenant st) (t_tenantId draft)\<rparr>)
      in (sealed, st\<lparr>sequenceByTenant := map_set (sequenceByTenant st) (t_tenantId draft) n,
            lastDigestByTenant := map_set (lastDigestByTenant st) (t_tenantId draft) (t_digest sealed),
            transitions := transitions st @ [sealed]\<rparr>))"
  by (simp add: appendTransition_def nextSequence_def Let_def)

lemma appendTransition_maps [simp]:
  assumes "appendTransition sha draft st = (t, st')"
  shows "positions st' = positions st" and "reservations st' = reservations st"
    and "encumbrances st' = encumbrances st"
  using assms by (auto simp: appendTransition_eq Let_def)

lemma appendTransition_ledger:
  assumes "ledger_ok sha st" and "appendTransition sha draft st = (t, st')"
  shows "ledger_ok sha st'"
  unfolding ledger_ok_def Let_def
proof (rule allI)
  fix ten
  let ?ts = "tenantTransitions st ten"
  let ?n = "nextCount (sequenceByTenant st) (t_tenantId draft)"
  have old: "chain_from sha None ?ts = Inr ()"
    "map_get (lastDigestByTenant st) ten = (if ?ts = [] then None else Some (t_digest (last ?ts)))"
    "int (length ?ts) \<le> MAX_SAFE_INTEGER \<Longrightarrow>
       (case map_get (sequenceByTenant st) ten of None \<Rightarrow> 0 | Some n \<Rightarrow> n) = int (length ?ts) \<and>
       map t_sequence ?ts = map int [1..<length ?ts + 1]"
    using assms(1) by (auto simp: ledger_ok_def Let_def)
  note eq = assms(2) [symmetric, unfolded appendTransition_eq Let_def prod.inject]
  have t: "t = seal_transition sha (draft\<lparr>t_sequence := ?n,
      t_previousDigest := map_get (lastDigestByTenant st) (t_tenantId draft)\<rparr>)"
    and st': "st' = st\<lparr>sequenceByTenant := map_set (sequenceByTenant st) (t_tenantId draft) ?n,
      lastDigestByTenant := map_set (lastDigestByTenant st) (t_tenantId draft) (t_digest t),
      transitions := transitions st @ [t]\<rparr>"
    using eq by (blast, metis)
  show "chain_from sha None (tenantTransitions st' ten) = Inr () \<and>
     map_get (lastDigestByTenant st') ten =
       (if tenantTransitions st' ten = [] then None
        else Some (t_digest (last (tenantTransitions st' ten)))) \<and>
     (int (length (tenantTransitions st' ten)) \<le> MAX_SAFE_INTEGER \<longrightarrow>
        (case map_get (sequenceByTenant st') ten of None \<Rightarrow> 0 | Some n \<Rightarrow> n)
          = int (length (tenantTransitions st' ten)) \<and>
        map t_sequence (tenantTransitions st' ten)
          = map int [1..<length (tenantTransitions st' ten) + 1])"
  proof (cases "t_tenantId draft = ten")
    case False
    then have "tenantTransitions st' ten = ?ts"
      by (simp add: tenantTransitions_def st' t)
    moreover have "map_get (lastDigestByTenant st') ten = map_get (lastDigestByTenant st) ten"
      and "map_get (sequenceByTenant st') ten = map_get (sequenceByTenant st) ten"
      using False by (auto simp: st' map_simps)
    ultimately show ?thesis using old by simp
  next
    case True
    then have ts': "tenantTransitions st' ten = ?ts @ [t]"
      by (simp add: tenantTransitions_def st' t)
    have "chain_from sha None (?ts @ [t]) = Inr ()"
      using old(1,2) True by (simp add: chain_from_append t transition_seal.seal_intact)
    moreover have "map_get (lastDigestByTenant st') ten = Some (t_digest t)"
      "map_get (sequenceByTenant st') ten = Some ?n"
      using True by (simp_all add: st' map_simps)
    moreover have "?n = int (length ?ts) + 1 \<and> t_sequence t = ?n \<and>
        map t_sequence ?ts = map int [1..<length ?ts + 1]"
      if "int (length ?ts) + 1 \<le> MAX_SAFE_INTEGER"
    proof -
      have "?n = js_add (int (length ?ts)) 1" using old(3) that True by (simp add: nextCount_def)
      with that old(3) show ?thesis by (simp add: js_add_exact t)
    qed
    ultimately show ?thesis by (simp add: ts')
  qed
qed

lemma appendTransition_wf:
  assumes "store_wf sha st" and "appendTransition sha draft st = (t, st')"
  shows "store_wf sha st'"
  using assms appendTransition_ledger [OF _ assms(2)] by (simp add: store_wf_def)

text \<open>The ledger does not look at the other maps.\<close>

lemma ledger_ok_cong:
  assumes "transitions st' = transitions st" and "lastDigestByTenant st' = lastDigestByTenant st"
    and "sequenceByTenant st' = sequenceByTenant st"
  shows "ledger_ok sha st' = ledger_ok sha st"
  by (simp add: ledger_ok_def tenantTransitions_def assms)

definition put_position_in :: "auth_store \<Rightarrow> GovernedAuthorityPosition \<Rightarrow> auth_store" where
  "put_position_in st p =
     st\<lparr>positions := map_set (positions st) (governedAuthorityPositionKey (keyOf p)) p\<rparr>"

lemma putPosition_eq:
  "putPosition sha draft st = (seal_position sha draft, put_position_in st (seal_position sha draft))"
  by (simp add: putPosition_def put_position_in_def Let_def)

lemma keyOf_seal [simp]: "keyOf (seal_position sha p) = keyOf p"
  by (simp add: keyOf_def)

lemma put_position_wf:
  assumes "store_wf sha st" and "position_ok sha (governedAuthorityPositionKey (keyOf p)) p"
  shows "store_wf sha (put_position_in st p)"
  using assms by (auto simp: store_wf_def put_position_in_def ledger_ok_def tenantTransitions_def)

lemma position_ok_seal:
  assumes "0 \<le> amount (p_scope d)" "unit_of (p_scope d) \<noteq> Some []"
    and "isGovernedRightType (p_governedRight d)" "isStrictUtcTimestamp (p_effectiveFrom d)"
  shows "position_ok sha (governedAuthorityPositionKey (keyOf d)) (seal_position sha d)"
  using assms by (simp add: position_ok_def position_seal.seal_intact)

lemma put_sealed_position_wf:
  assumes "store_wf sha st" and "0 \<le> amount (p_scope d)" "unit_of (p_scope d) \<noteq> Some []"
    and "isGovernedRightType (p_governedRight d)" "isStrictUtcTimestamp (p_effectiveFrom d)"
  shows "store_wf sha (put_position_in st (seal_position sha d))"
  by (rule put_position_wf [OF assms(1)]) (use position_ok_seal assms in simp)

lemma readPosition_wf:
  assumes "store_wf sha st" and "readPosition sha st key = Inr (Some p)"
  shows "keyOf p = key" and "map_get (positions st) (governedAuthorityPositionKey key) = Some p"
    and "position_ok sha (governedAuthorityPositionKey key) p"
proof -
  show get: "map_get (positions st) (governedAuthorityPositionKey key) = Some p"
    using assms(2) by (auto simp: readPosition_def outcome_simps position_seal.verify_Inr split: option.splits)
  then show ok: "position_ok sha (governedAuthorityPositionKey key) p"
    using assms(1) map_all_get by (fastforce simp: store_wf_def)
  then show "keyOf p = key" by (simp add: position_ok_def positionKey_inject)
qed

lemma readPosition_total:
  assumes "store_wf sha st"
  shows "readPosition sha st key = Inr (map_get (positions st) (governedAuthorityPositionKey key))"
proof (cases "map_get (positions st) (governedAuthorityPositionKey key)")
  case (Some p)
  with assms have "position_intact sha p"
    using map_all_get by (fastforce simp: store_wf_def position_ok_def)
  with Some show ?thesis by (simp add: readPosition_def position_seal.verify_intact)
qed (simp add: readPosition_def)

definition put_reservation_in :: "auth_store \<Rightarrow> GovernedAuthorityReservation \<Rightarrow> auth_store" where
  "put_reservation_in st r = st\<lparr>reservations := map_set (reservations st) (r_id r) r\<rparr>"

lemma putReservation_eq:
  "putReservation sha draft st =
     (seal_reservation sha draft, put_reservation_in st (seal_reservation sha draft))"
  by (simp add: putReservation_def put_reservation_in_def Let_def)

lemma put_reservation_wf:
  assumes "store_wf sha st" and "reservation_ok sha (r_id r) r"
  shows "store_wf sha (put_reservation_in st r)"
  using assms by (auto simp: store_wf_def put_reservation_in_def ledger_ok_def tenantTransitions_def)

lemma reservation_ok_status:
  assumes "reservation_ok sha k r"
  shows "reservation_ok sha k (seal_reservation sha (r\<lparr>r_status := s, r_updatedAt := u\<rparr>))"
  using assms reservation_seal.seal_intact [of sha "r\<lparr>r_status := s, r_updatedAt := u\<rparr>"]
  by (simp add: reservation_ok_def seal_reservation_def)

definition put_encumbrance_in :: "auth_store \<Rightarrow> GovernedAuthorityEncumbrance \<Rightarrow> auth_store" where
  "put_encumbrance_in st e = st\<lparr>encumbrances := map_set (encumbrances st) (e_id e) e\<rparr>"

lemma putEncumbrance_eq:
  "putEncumbrance sha draft st =
     (seal_encumbrance sha draft, put_encumbrance_in st (seal_encumbrance sha draft))"
  by (simp add: putEncumbrance_def put_encumbrance_in_def Let_def)

lemma put_encumbrance_wf:
  assumes "store_wf sha st" and "encumbrance_ok sha (e_id e) e"
  shows "store_wf sha (put_encumbrance_in st e)"
  using assms by (auto simp: store_wf_def put_encumbrance_in_def ledger_ok_def tenantTransitions_def)

text \<open>On a well-formed store no read of commitments or constraints throws.\<close>

lemma readReservationsFor_total:
  assumes "store_wf sha st"
  shows "readReservationsFor sha st ten holder res right =
    Inr (sort_by_id r_id (filter (reservationOver ten holder res right) (map_values (reservations st))))"
proof -
  have "\<forall>r \<in> set (map_values (reservations st)). reservation_intact sha r"
    using assms map_all_values unfolding store_wf_def reservation_ok_def by fast
  then have "mapR (assertReservationIntegrity sha)
      (filter (reservationOver ten holder res right) (map_values (reservations st))) =
      Inr (filter (reservationOver ten holder res right) (map_values (reservations st)))"
    by (intro reservation_seal.mapR_verify) simp
  then show ?thesis by (simp add: readReservationsFor_def)
qed

lemma readEncumbrancesFor_total:
  assumes "store_wf sha st"
  shows "readEncumbrancesFor sha st ten holder res right =
    Inr (sort_by_id e_id (filter (encumbranceOver ten holder res right) (map_values (encumbrances st))))"
proof -
  have "\<forall>e \<in> set (map_values (encumbrances st)). encumbrance_intact sha e"
    using assms map_all_values unfolding store_wf_def encumbrance_ok_def by fast
  then have "mapR (assertEncumbranceIntegrity sha)
      (filter (encumbranceOver ten holder res right) (map_values (encumbrances st))) =
      Inr (filter (encumbranceOver ten holder res right) (map_values (encumbrances st)))"
    by (intro encumbrance_seal.mapR_verify) simp
  then show ?thesis by (simp add: readEncumbrancesFor_def)
qed

lemma wf_reservation_value:
  "store_wf sha st \<Longrightarrow> r \<in> set (map_values (reservations st)) \<Longrightarrow>
     map_get (reservations st) (r_id r) = Some r \<and> reservation_ok sha (r_id r) r"
  using map_all_values [of "reservation_ok sha" "reservations st" r]
  by (auto simp: store_wf_def reservation_ok_def)

lemma wf_encumbrance_value:
  "store_wf sha st \<Longrightarrow> e \<in> set (map_values (encumbrances st)) \<Longrightarrow>
     map_get (encumbrances st) (e_id e) = Some e \<and> encumbrance_ok sha (e_id e) e"
  using map_all_values [of "encumbrance_ok sha" "encumbrances st" e]
  by (auto simp: store_wf_def encumbrance_ok_def)

section \<open>Bootstrap and movements\<close>

lemma bootstrapGuards_Inr:
  "bootstrapGuards now context input = Inr (eff, ex, occ, rec) \<longleftrightarrow>
     cx_system context \<and> isGovernedRightType (b_governedRight input) \<and> valid_scope (b_scope input) \<and>
     amount (b_scope input) \<noteq> 0 \<and> isGovernedAuthorityIssuanceBasis (b_basis input) \<and>
     eff = b_effectiveFrom input \<and> isStrictUtcTimestamp eff \<and>
     ex = b_expiresAt input \<and> (\<forall>x. ex = Some x \<longrightarrow> isStrictUtcTimestamp x) \<and>
     occ = (case b_occurredAt input of None \<Rightarrow> b_effectiveFrom input | Some x \<Rightarrow> x) \<and>
     isStrictUtcTimestamp occ \<and> rec = now \<and> isStrictUtcTimestamp now"
  by (cases "b_expiresAt input") (auto simp: bootstrapGuards_def outcome_simps)

lemma bootstrap_wf:
  assumes wf: "store_wf sha st"
  shows "store_wf sha (snd (bootstrapPosition sha now context input st))"
proof (cases "bootstrapGuards now context input")
  case (Inl e)
  with wf show ?thesis by (simp add: bootstrapPosition_def)
next
  case (Inr g)
  obtain eff ex occ rec where g: "g = (eff, ex, occ, rec)" by (cases g)
  from Inr have ok: "isGovernedRightType (b_governedRight input)" "valid_scope (b_scope input)"
    "isStrictUtcTimestamp eff" by (auto simp: g bootstrapGuards_Inr)
  obtain tid st1 where tid: "(case b_transitionId input of
        Some i \<Rightarrow> (i, st)
      | None \<Rightarrow> (let (n, st') = nextIssuanceOrdinal (b_tenantId input) st
                 in (deriveAuthorityIssuanceTransitionId sha (b_tenantId input) n, st'))) = (tid, st1)"
    by fastforce
  then have wf1: "store_wf sha st1"
    using wf nextIssuanceOrdinal_wf [of sha "b_tenantId input" st]
    by (auto split: option.splits prod.splits)
  obtain t st2 where ap: "appendTransition sha (bootstrapTransition input tid occ rec) st1 = (t, st2)"
    by fastforce
  have wf2: "store_wf sha st2" by (rule appendTransition_wf [OF wf1 ap])
  show ?thesis
  proof (cases "map_get (positions st) (governedAuthorityPositionKey (bootstrapKey input))")
    case None
    let ?d = "bootstrapFresh sha input eff ex rec (t_id t)"
    have "store_wf sha (put_position_in st2 (seal_position sha ?d))"
      by (rule put_sealed_position_wf [OF wf2])
        (use ok in \<open>auto simp: bootstrapFresh_def valid_scope_def\<close>)
    with None tid ap show ?thesis
      by (simp add: bootstrapPosition_def Inr g readPosition_total [OF wf] putPosition_eq)
  next
    case (Some p)
    then have p: "position_ok sha (governedAuthorityPositionKey (bootstrapKey input)) p"
      using wf map_all_get by (fastforce simp: store_wf_def)
    show ?thesis
    proof (cases "addAuthorityScopes (p_scope p) (b_scope input)")
      case (Inl e)
      with Some tid ap wf2 show ?thesis
        by (simp add: bootstrapPosition_def Inr g readPosition_total [OF wf])
    next
      case (Inr s)
      let ?d = "p\<lparr>p_scope := s, p_updatedAt := rec, p_lastTransitionRef := t_id t\<rparr>"
      have "0 \<le> amount s" "unit_of s = unit_of (p_scope p)"
        using Inr p ok by (auto simp: addAuthorityScopes_Inr position_ok_def valid_scope_def intro: js_add_nonneg)
      then have "store_wf sha (put_position_in st2 (seal_position sha ?d))"
        using p by (intro put_sealed_position_wf [OF wf2]) (auto simp: position_ok_def)
      with Some tid ap Inr \<open>bootstrapGuards now context input = Inr g\<close> show ?thesis
        by (simp add: bootstrapPosition_def g readPosition_total [OF wf] putPosition_eq)
    qed
  qed
qed

lemma consumeReservations_wf:
  "store_wf sha st \<Longrightarrow> \<forall>r \<in> set rs. reservation_ok sha (r_id r) r \<Longrightarrow>
     store_wf sha (snd (consumeReservations sha ten man rec rs st)) \<and>
     fst (consumeReservations sha ten man rec rs st) = Inr ()"
proof (induction rs arbitrary: st)
  case (Cons r rs)
  show ?case
  proof (cases "r_tenantId r \<noteq> ten \<or> r_sourceMandateRef r \<noteq> man \<or> r_status r \<noteq> RsActive")
    case True
    with Cons show ?thesis by simp
  next
    case False
    let ?r = "seal_reservation sha (r\<lparr>r_status := RsConsumed, r_updatedAt := rec\<rparr>)"
    have ok: "reservation_ok sha (r_id r) r" using Cons.prems by simp
    then have "reservation_ok sha (r_id r) ?r" by (rule reservation_ok_status)
    then have "store_wf sha (put_reservation_in st ?r)"
      by (intro put_reservation_wf Cons.prems) (simp add: reservation_ok_def)
    with Cons False ok show ?thesis
      by (simp add: reservation_ok_def reservation_seal.verify_intact putReservation_eq)
  qed
qed simp

definition sourceKey :: "ApplyGovernedAuthorityTransitionInput \<Rightarrow> GovernedRightType \<Rightarrow> GovernedAuthorityPositionKey" where
  "sourceKey input right = positionKey (a_tenantId input) (a_fromHolderRef input) (a_resource input) right"

definition targetKey :: "ApplyGovernedAuthorityTransitionInput \<Rightarrow> GovernedRightType \<Rightarrow> GovernedAuthorityPositionKey" where
  "targetKey input right = positionKey (a_tenantId input) (a_toHolderRef input) (a_resource input) right"

text \<open>The constraints standing over the source of a movement.\<close>

definition sourceConstraints ::
  "auth_store \<Rightarrow> ApplyGovernedAuthorityTransitionInput \<Rightarrow> GovernedRightType \<Rightarrow>
     GovernedAuthorityEncumbrance list" where
  "sourceConstraints st input right =
     sort_by_id e_id (filter (encumbranceOver (a_tenantId input) (a_fromHolderRef input) (a_resource input) right)
       (map_values (encumbrances st)))"

lemma applyGuards_Inr:
  "applyGuards now context input = Inr (occ, rec) \<longleftrightarrow>
     (\<exists>u. requireAuthorityAccessToOrganization context (a_tenantId input) = Inr u) \<and>
     \<not> isGovernedAuthorityIssuanceBasis (a_basis input) \<and>
     a_fromHolderRef input \<noteq> a_toHolderRef input \<and> valid_scope (a_scope input) \<and>
     amount (a_scope input) \<noteq> 0 \<and> (\<forall>r \<in> set (a_governedRights input). isGovernedRightType r) \<and>
     a_governedRights input \<noteq> [] \<and> occ = a_occurredAt input \<and> isStrictUtcTimestamp occ \<and>
     rec = now \<and> isStrictUtcTimestamp now"
proof -
  have known: "(\<exists>us. mapR assertKnownGovernedRight rs = Inr us) \<longleftrightarrow> (\<forall>r \<in> set rs. isGovernedRightType r)" for rs
    by (induction rs) (auto simp: outcome_simps)
  show ?thesis unfolding known [symmetric] by (auto simp: applyGuards_def outcome_simps)
qed

lemma stageRight_Inr:
  assumes wf: "store_wf sha st" and g: "stageRight sha st input occ right = Inr g"
  shows "sg_governedRight g = right"
    and "map_get (positions st) (governedAuthorityPositionKey (sourceKey input right)) = Some (sg_source g)"
    and "map_get (positions st) (governedAuthorityPositionKey (targetKey input right)) = sg_target g"
    and "subtractAuthorityScope (p_scope (sg_source g)) (a_scope input) = Inr (sg_debited g)"
    and "assertRemainingScopeCoversEncumbrances (sg_debited g) (sourceConstraints st input right) occ = Inr ()"
    and "(case sg_target g of None \<Rightarrow> Inr (a_scope input) | Some t \<Rightarrow> addAuthorityScopes (p_scope t) (a_scope input))
           = Inr (sg_credited g)"
  using g by (auto simp: stageRight_def readPosition_total [OF wf] readEncumbrancesFor_total [OF wf]
      outcome_simps sourceKey_def targetKey_def sourceConstraints_def split: option.splits)

definition staged_ok :: "(string \<Rightarrow> string) \<Rightarrow> ApplyGovernedAuthorityTransitionInput \<Rightarrow> staged_right \<Rightarrow> bool" where
  "staged_ok sha input g \<longleftrightarrow>
     isGovernedRightType (sg_governedRight g) \<and>
     position_ok sha (governedAuthorityPositionKey (sourceKey input (sg_governedRight g))) (sg_source g) \<and>
     (\<forall>t. sg_target g = Some t \<longrightarrow>
        position_ok sha (governedAuthorityPositionKey (targetKey input (sg_governedRight g))) t) \<and>
     0 \<le> amount (sg_debited g) \<and> unit_of (sg_debited g) = unit_of (a_scope input) \<and>
     0 \<le> amount (sg_credited g) \<and> unit_of (sg_credited g) = unit_of (a_scope input)"

lemma stageRight_ok:
  assumes wf: "store_wf sha st" and g: "stageRight sha st input occ right = Inr g"
    and "isGovernedRightType right" and "valid_scope (a_scope input)"
  shows "staged_ok sha input g"
proof -
  note s = stageRight_Inr [OF wf g]
  have pos: "map_get (positions st) k = Some p \<Longrightarrow> position_ok sha k p" for k p
    using wf map_all_get by (fastforce simp: store_wf_def)
  have "unit_of (sg_debited g) = unit_of (a_scope input)" "0 \<le> amount (sg_debited g)"
    using s(4) by (auto simp: subtractAuthorityScope_Inr js_sub_nonneg)
  moreover have "unit_of (sg_credited g) = unit_of (a_scope input)" "0 \<le> amount (sg_credited g)"
    using s(3,6) assms(4) pos
    by (auto simp: addAuthorityScopes_Inr valid_scope_def position_ok_def split: option.splits
        intro!: js_add_nonneg)
  ultimately show ?thesis using s(1,2,3) pos assms(3) by (auto simp: staged_ok_def)
qed

lemma mapR_stageRight:
  assumes "mapR (stageRight sha st input occ) rights = Inr staged"
  shows "list_all2 (\<lambda>right g. stageRight sha st input occ right = Inr g) rights staged"
  using mapR_Inr_all2 [OF assms] .

lemma staged_all_ok:
  assumes wf: "store_wf sha st" and "mapR (stageRight sha st input occ) rights = Inr staged"
    and "\<forall>r \<in> set rights. isGovernedRightType r" and "valid_scope (a_scope input)"
  shows "\<forall>g \<in> set staged. staged_ok sha input g"
  using mapR_stageRight [OF assms(2)] assms(3)
  by (induction rule: list_all2_induct) (auto intro: stageRight_ok [OF wf] assms(4))

lemma debited_key:
  "staged_ok sha input g \<Longrightarrow> keyOf (debitedDraft rec g tid) = sourceKey input (sg_governedRight g)"
  by (auto simp: staged_ok_def position_ok_def positionKey_inject debitedDraft_def keyOf_def)

lemma credited_key:
  "staged_ok sha input g \<Longrightarrow> keyOf (creditedDraft sha input occ rec g tid) = targetKey input (sg_governedRight g)"
  by (auto simp: staged_ok_def position_ok_def positionKey_inject creditedDraft_def creditedFresh_def
      keyOf_def targetKey_def positionKey_def split: option.splits)

lemma applyEntry_eq:
  "applyEntry sha input occ rec g st =
     (let (t, st1) = appendTransition sha (movementTransition sha input occ rec (sg_governedRight g)) st
      in (t, put_position_in (put_position_in st1
               (seal_position sha (debitedDraft rec g (t_id t))))
               (seal_position sha (creditedDraft sha input occ rec g (t_id t)))))"
  by (simp add: applyEntry_def putPosition_eq split: prod.splits)

lemma applyEntry_wf:
  assumes wf: "store_wf sha st" and g: "staged_ok sha input g" and occ: "isStrictUtcTimestamp occ"
    and scope: "valid_scope (a_scope input)"
  shows "store_wf sha (snd (applyEntry sha input occ rec g st))"
proof -
  obtain t st1 where ap: "appendTransition sha (movementTransition sha input occ rec (sg_governedRight g)) st = (t, st1)"
    by fastforce
  have wf1: "store_wf sha st1" by (rule appendTransition_wf [OF wf ap])
  have "unit_of (sg_debited g) \<noteq> Some []" "unit_of (sg_credited g) \<noteq> Some []"
    using g scope by (auto simp: staged_ok_def valid_scope_def)
  then have "store_wf sha (put_position_in st1 (seal_position sha (debitedDraft rec g (t_id t))))"
    using g by (intro put_sealed_position_wf wf1) (auto simp: staged_ok_def debitedDraft_def position_ok_def)
  then have "store_wf sha (put_position_in (put_position_in st1
      (seal_position sha (debitedDraft rec g (t_id t)))) (seal_position sha (creditedDraft sha input occ rec g (t_id t))))"
    by (rule put_sealed_position_wf)
      (use g occ \<open>unit_of (sg_credited g) \<noteq> Some []\<close> in
        \<open>auto simp: staged_ok_def creditedDraft_def creditedFresh_def position_ok_def split: option.splits\<close>)
  then show ?thesis by (simp add: applyEntry_eq ap)
qed

lemma applyStaged_wf:
  "store_wf sha st \<Longrightarrow> \<forall>g \<in> set gs. staged_ok sha input g \<Longrightarrow> isStrictUtcTimestamp occ \<Longrightarrow>
     valid_scope (a_scope input) \<Longrightarrow> store_wf sha (snd (applyStaged sha input occ rec gs st))"
proof (induction gs arbitrary: st)
  case (Cons g gs)
  then have "store_wf sha (snd (applyEntry sha input occ rec g st))" by (intro applyEntry_wf) auto
  moreover obtain t st1 where "applyEntry sha input occ rec g st = (t, st1)" by fastforce
  moreover obtain ts st2 where "applyStaged sha input occ rec gs st1 = (ts, st2)" by fastforce
  ultimately show ?case using Cons.IH [of st1] Cons.prems by simp
qed simp

lemma apply_wf:
  assumes wf: "store_wf sha st"
  shows "store_wf sha (snd (applyTransition sha now context input st))"
proof (cases "applyGuards now context input")
  case (Inl e)
  with wf show ?thesis by (simp add: applyTransition_def)
next
  case (Inr g)
  obtain occ rec where g: "g = (occ, rec)" by (cases g)
  note guards = Inr [unfolded g applyGuards_Inr]
  show ?thesis
  proof (cases "alreadyApplied st (a_tenantId input) (gx_executionRef (a_basis input)) = []")
    case False
    with wf show ?thesis
      by (auto simp: applyTransition_def Inr g attempt_def Let_def split: sum.splits)
  next
    case True
    show ?thesis
    proof (cases "mapR (stageRight sha st input occ) (a_governedRights input)")
      case (Inl e)
      with True wf show ?thesis by (simp add: applyTransition_def \<open>applyGuards _ _ _ = _\<close> g)
    next
      case (Inr staged)
      obtain applied st1 where ap: "applyStaged sha input occ rec staged st = (applied, st1)" by fastforce
      have scope: "valid_scope (a_scope input)" and occ: "isStrictUtcTimestamp occ"
        using guards by auto
      have ok: "\<forall>g \<in> set staged. staged_ok sha input g"
        using guards by (intro staged_all_ok [OF wf Inr]) auto
      from applyStaged_wf [OF wf ok occ scope, of rec] have wf1: "store_wf sha st1" by (simp add: ap)
      then have "store_wf sha (snd (consumeReservations sha ten man rec (map_values (reservations st1)) st1))" for ten man
        using consumeReservations_wf wf_reservation_value by blast
      with wf1 True Inr ap show ?thesis
        by (auto simp: applyTransition_def \<open>applyGuards _ _ _ = _\<close> g attempt_def Let_def
            split: option.splits sum.splits prod.splits) (metis snd_conv)+
    qed
  qed
qed

section \<open>Commitments and constraints\<close>

lemma acquireGuards_Inr:
  "acquireGuards now context input = Inr rec \<longleftrightarrow>
     (\<exists>u. requireAuthorityAccessToOrganization context (q_tenantId input) = Inr u) \<and>
     isGovernedRightType (q_governedRight input) \<and> valid_scope (q_scope input) \<and>
     amount (q_scope input) \<noteq> 0 \<and> isStrictUtcTimestamp (q_effectiveFrom input) \<and>
     isStrictUtcTimestamp (q_expiresAt input) \<and> instant_lt (q_effectiveFrom input) (q_expiresAt input) \<and>
     rec = now \<and> isStrictUtcTimestamp now"
  by (auto simp: acquireGuards_def outcome_simps dest: instant_lt_not_ge)
    (metis instant_not_lt)+

lemma acquired_ok:
  assumes "acquireGuards now context input = Inr rec"
  shows "reservation_ok sha (deriveReservationId sha (q_tenantId input) (q_sourceMandateRef input) (q_governedRight input))
    (seal_reservation sha (acquiredReservation sha input rec))"
  using assms reservation_seal.seal_intact [of sha "acquiredReservation sha input rec"]
  by (auto simp: acquireGuards_Inr reservation_ok_def seal_reservation_def acquiredReservation_def)

lemma seal_reservation_id [simp]: "r_id (seal_reservation sha r) = r_id r"
  by (simp add: seal_reservation_def)

lemma seal_encumbrance_id [simp]: "e_id (seal_encumbrance sha e) = e_id e"
  by (simp add: seal_encumbrance_def)

lemma acquire_wf:
  assumes wf: "store_wf sha st"
  shows "store_wf sha (snd (acquireReservation sha now context input st))"
proof (cases "acquireGuards now context input")
  case (Inr rec)
  have "store_wf sha (put_reservation_in st (seal_reservation sha (acquiredReservation sha input rec)))"
    using acquired_ok [OF Inr, of sha]
    by (intro put_reservation_wf [OF wf]) (simp add: acquiredReservation_def)
  then have "store_wf sha (snd (acquireDecide sha input rec av st))" for av
    using wf by (simp add: acquireDecide_def putReservation_eq split: GovernedAuthorityAvailability.splits)
  with wf show ?thesis
    by (auto simp: acquireReservation_def Inr attempt_def split: option.splits sum.splits)
qed (use wf in \<open>simp add: acquireReservation_def\<close>)

lemma releaseReservation_wf:
  assumes wf: "store_wf sha st"
  shows "store_wf sha (snd (releaseReservation sha now context input st))"
proof -
  have "store_wf sha (put_reservation_in st (seal_reservation sha (r\<lparr>r_status := RsReleased, r_updatedAt := u\<rparr>)))"
    if "map_get (reservations st) k = Some r" for k r u
  proof -
    from that wf have "reservation_ok sha k r" using map_all_get by (fastforce simp: store_wf_def)
    then have "reservation_ok sha (r_id r) r" by (simp add: reservation_ok_def)
    then have "reservation_ok sha (r_id r) (seal_reservation sha (r\<lparr>r_status := RsReleased, r_updatedAt := u\<rparr>))"
      by (rule reservation_ok_status)
    then show ?thesis by (intro put_reservation_wf [OF wf]) simp
  qed
  then show ?thesis
    using wf by (auto simp: releaseReservation_def attempt_def reservation_seal.verify_Inr putReservation_eq
        split: option.splits sum.splits GovernedAuthorityReservationStatus.splits)
qed

lemma encumberGuards_Inr:
  "encumberGuards now context input = Inr rec \<longleftrightarrow>
     (\<exists>u. requireAuthorityAccessToOrganization context (n_tenantId input) = Inr u) \<and>
     isGovernedRightType (n_governedRight input) \<and> valid_scope (n_scope input) \<and>
     amount (n_scope input) \<noteq> 0 \<and> governedActionEncumbersAuthority (n_sourceAction input) \<and>
     n_sourceExecutionRef input \<noteq> [] \<and> n_sourceMandateRef input \<noteq> [] \<and>
     isStrictUtcTimestamp (n_effectiveFrom input) \<and> rec = now \<and> isStrictUtcTimestamp now"
  by (auto simp: encumberGuards_def outcome_simps)

lemma recorded_ok:
  assumes "encumberGuards now context input = Inr rec"
  shows "encumbrance_ok sha (deriveEncumbranceId sha (n_tenantId input) (n_sourceExecutionRef input) (n_governedRight input))
    (seal_encumbrance sha (recordedEncumbrance sha input rec sur))"
  using assms encumbrance_seal.seal_intact [of sha "recordedEncumbrance sha input rec sur"]
  by (auto simp: encumberGuards_Inr encumbrance_ok_def seal_encumbrance_def recordedEncumbrance_def)

lemma handOff_wf:
  "store_wf sha st \<Longrightarrow> store_wf sha (snd (handOff sha es rec ids st)) \<and> fst (handOff sha es rec ids st) = Inr ()"
proof (induction ids arbitrary: st)
  case (Cons i ids)
  show ?case
  proof (cases "map_get (reservations st) i")
    case (Some r)
    have ok: "reservation_ok sha i r"
      using Some Cons.prems map_all_get by (fastforce simp: store_wf_def)
    then have "reservation_ok sha i (seal_reservation sha (r\<lparr>r_status := RsEncumbered, r_updatedAt := rec\<rparr>))"
      by (rule reservation_ok_status)
    then have "store_wf sha (put_reservation_in st (seal_reservation sha (r\<lparr>r_status := RsEncumbered, r_updatedAt := rec\<rparr>)))"
      by (intro put_reservation_wf Cons.prems) (simp add: reservation_ok_def)
    with Cons Some ok show ?thesis
      by (auto simp: reservation_ok_def reservation_seal.verify_intact putReservation_eq split: sum_total.splits)
  qed (use Cons in simp)
qed simp

lemma encumber_wf:
  assumes wf: "store_wf sha st"
  shows "store_wf sha (snd (recordEncumbrance sha now context input st))"
proof (cases "encumberGuards now context input")
  case (Inr rec)
  let ?st1 = "\<lambda>sur. put_encumbrance_in st (seal_encumbrance sha (recordedEncumbrance sha input rec sur))"
  have wf1: "store_wf sha (?st1 sur)" for sur
    using recorded_ok [OF Inr, of sha sur]
    by (intro put_encumbrance_wf [OF wf]) (simp add: recordedEncumbrance_def)
  have "store_wf sha (snd (encumberPosition sha input rec p st))" for p
    using wf wf1 handOff_wf [OF wf1]
    by (auto simp: encumberPosition_def attempt_def putEncumbrance_eq Let_def
        split: sum.splits prod.splits) (metis snd_conv)+
  with wf show ?thesis
    by (auto simp: recordEncumbrance_def Inr attempt_def split: option.splits sum.splits)
qed (use wf in \<open>simp add: recordEncumbrance_def\<close>)

lemma released_ok:
  assumes "encumbrance_ok sha k e" and "e_status e = EsActive" and "isStrictUtcTimestamp at"
    and "assertEncumbranceReleaseBasisAcceptable basis = Inr ()"
  shows "encumbrance_ok sha k (seal_encumbrance sha ((applyReleaseBasis basis
    (e\<lparr>e_status := EsReleased, e_releasedAt := Some at\<rparr>))\<lparr>e_updatedAt := at\<rparr>))"
    (is "encumbrance_ok sha k (seal_encumbrance sha ?e)")
proof -
  have "encumbranceReleaseReplayMatches (seal_encumbrance sha ?e) basis"
    using assms by (cases basis) (auto simp: encumbranceReleaseReplayMatches_def seal_encumbrance_def encumbrance_ok_def)
  with assms encumbrance_seal.seal_intact [of sha ?e] show ?thesis
    by (cases basis) (auto simp: encumbrance_ok_def seal_encumbrance_def)
qed

lemma applyReleaseBasis_id [simp]: "e_id (applyReleaseBasis basis e) = e_id e"
  by (cases basis) auto

lemma releaseEncumbrance_wf:
  assumes wf: "store_wf sha st"
  shows "store_wf sha (snd (releaseEncumbrance sha now context input st))"
proof -
  have put: "store_wf sha (put_encumbrance_in st (seal_encumbrance sha ((applyReleaseBasis basis
      (e\<lparr>e_status := EsReleased, e_releasedAt := Some at\<rparr>))\<lparr>e_updatedAt := at\<rparr>)))"
    if "map_get (encumbrances st) k = Some e" "e_status e \<noteq> EsReleased" "isStrictUtcTimestamp at"
      "assertEncumbranceReleaseBasisAcceptable basis = Inr ()" for k e at basis
  proof -
    from that wf have "encumbrance_ok sha k e" using map_all_get by (fastforce simp: store_wf_def)
    then have "encumbrance_ok sha (e_id e) e" by (simp add: encumbrance_ok_def)
    moreover have "e_status e = EsActive" using that(2) by (cases "e_status e") auto
    ultimately show ?thesis by (intro put_encumbrance_wf [OF wf]) (auto intro: released_ok that)
  qed
  show ?thesis
    unfolding releaseEncumbrance_def attempt_def
    using wf by (auto simp: encumbrance_seal.verify_Inr putEncumbrance_eq outcome_simps
        split: option.splits sum.splits dest!: put)
qed

section \<open>Runs\<close>

text \<open>A call of the store, with what its clock returns during it.\<close>

datatype store_call =
    CallBootstrap string AuthorityGovernanceContext BootstrapGovernedAuthorityInput
  | CallApply string AuthorityGovernanceContext ApplyGovernedAuthorityTransitionInput
  | CallAcquire string AuthorityGovernanceContext AcquireGovernedAuthorityReservationInput
  | CallReleaseReservation string AuthorityGovernanceContext ReleaseGovernedAuthorityReservationInput
  | CallEncumber string AuthorityGovernanceContext RecordGovernedAuthorityEncumbranceInput
  | CallReleaseEncumbrance string AuthorityGovernanceContext ReleaseGovernedAuthorityEncumbranceInput
  | CallClose

fun run_call :: "(string \<Rightarrow> string) \<Rightarrow> store_call \<Rightarrow> auth_store \<Rightarrow> auth_store" where
  "run_call sha (CallBootstrap now cx i) st = snd (bootstrapPosition sha now cx i st)"
| "run_call sha (CallApply now cx i) st = snd (applyTransition sha now cx i st)"
| "run_call sha (CallAcquire now cx i) st = snd (acquireReservation sha now cx i st)"
| "run_call sha (CallReleaseReservation now cx i) st = snd (releaseReservation sha now cx i st)"
| "run_call sha (CallEncumber now cx i) st = snd (recordEncumbrance sha now cx i st)"
| "run_call sha (CallReleaseEncumbrance now cx i) st = snd (releaseEncumbrance sha now cx i st)"
| "run_call sha CallClose st = close_store st"

definition run_store :: "(string \<Rightarrow> string) \<Rightarrow> store_call list \<Rightarrow> auth_store" where
  "run_store sha calls = fold (run_call sha) calls empty_store"

lemma close_wf: "store_wf sha (close_store st)"
  by (simp add: close_store_def store_wf_def ledger_ok_def tenantTransitions_def)

lemma run_call_wf: "store_wf sha st \<Longrightarrow> store_wf sha (run_call sha c st)"
  by (cases c) (auto intro: bootstrap_wf apply_wf acquire_wf releaseReservation_wf encumber_wf
      releaseEncumbrance_wf close_wf)

interpretation store_machine: invariant_machine empty_store "run_call sha" "store_wf sha" for sha
  by unfold_locales (auto intro: store_wf_empty run_call_wf)

lemma run_store_wf: "store_wf sha (run_store sha calls)"
  unfolding run_store_def by (rule store_machine.inv_reached)

end
