(* ===== verification/Movement.thy ===== *)
theory Movement
  imports StoreInvariants
begin

text \<open>
  What \<open>bootstrapPosition\<close> and \<open>applyTransition\<close> do to the recognized quantities: an issuance adds
  exactly its scope, a movement conserves the total of every right, debits the source and
  credits the target by its scope, and touches nothing else.
\<close>

section \<open>Totals over a right\<close>

definition over_right ::
  "string \<Rightarrow> GovernedAuthorityResourceRef \<Rightarrow> GovernedRightType \<Rightarrow> GovernedAuthorityPositionKey \<Rightarrow> bool" where
  "over_right ten res right k \<longleftrightarrow>
     pk_tenantId k = ten \<and> pk_resourceKind k = rr_kind res \<and> pk_resourceId k = rr_id res \<and>
     pk_governedRight k = right"

definition held_in ::
  "string \<Rightarrow> GovernedAuthorityResourceRef \<Rightarrow> GovernedRightType \<Rightarrow> string option \<Rightarrow>
     GovernedAuthorityPosition \<Rightarrow> int" where
  "held_in ten res right u p =
     (if over_right ten res right (keyOf p) then amount_in u (p_scope p) else 0)"

definition total_held ::
  "string \<Rightarrow> GovernedAuthorityResourceRef \<Rightarrow> GovernedRightType \<Rightarrow> string option \<Rightarrow> auth_store \<Rightarrow> int" where
  "total_held ten res right u st = map_total (held_in ten res right u) (positions st)"

text \<open>The quantities stay in the range where the code's arithmetic is exact.\<close>

definition room_for :: "GovernedRightsScope \<Rightarrow> auth_store \<Rightarrow> bool" where
  "room_for scope st \<longleftrightarrow>
     (\<forall>p \<in> set (map_values (positions st)). amount (p_scope p) + amount scope \<le> MAX_SAFE_INTEGER)"

section \<open>One staged right\<close>

definition amount_at :: "GovernedAuthorityPosition option \<Rightarrow> int" where
  "amount_at p = (case p of None \<Rightarrow> 0 | Some q \<Rightarrow> amount (p_scope q))"

lemma keys_differ:
  "a_fromHolderRef input \<noteq> a_toHolderRef input \<Longrightarrow>
     governedAuthorityPositionKey (sourceKey input r) \<noteq> governedAuthorityPositionKey (targetKey input r')"
  "a_fromHolderRef input \<noteq> a_toHolderRef input \<Longrightarrow>
     governedAuthorityPositionKey (targetKey input r') \<noteq> governedAuthorityPositionKey (sourceKey input r)"
  by (simp_all add: positionKey_inject sourceKey_def targetKey_def positionKey_def)

lemma keys_of_rights:
  "r \<noteq> r' \<Longrightarrow> governedAuthorityPositionKey (sourceKey input r) \<noteq> governedAuthorityPositionKey (sourceKey input r')"
  "r \<noteq> r' \<Longrightarrow> governedAuthorityPositionKey (targetKey input r) \<noteq> governedAuthorityPositionKey (targetKey input r')"
  by (simp_all add: positionKey_inject sourceKey_def targetKey_def positionKey_def)

lemma keys_of_right_iff:
  "governedAuthorityPositionKey (sourceKey input r) = governedAuthorityPositionKey (sourceKey input r') \<longleftrightarrow> r = r'"
  "governedAuthorityPositionKey (targetKey input r) = governedAuthorityPositionKey (targetKey input r') \<longleftrightarrow> r = r'"
  by (simp_all add: positionKey_inject sourceKey_def targetKey_def positionKey_def)

text \<open>What staging computed, in exact arithmetic.\<close>

lemma staged_exact:
  assumes wf: "store_wf sha st" and g: "stageRight sha st input occ right = Inr g"
    and scope: "valid_scope (a_scope input)" and room: "room_for (a_scope input) st"
  shows "amount (sg_debited g) = amount (p_scope (sg_source g)) - amount (a_scope input)"
    and "amount (sg_credited g) = amount_at (sg_target g) + amount (a_scope input)"
proof -
  note s = stageRight_Inr [OF wf g]
  have ok: "map_all (position_ok sha) (positions st)" using wf by (simp add: store_wf_def)
  have bound: "amount (p_scope p) + amount (a_scope input) \<le> MAX_SAFE_INTEGER \<and> 0 \<le> amount (p_scope p)"
    if "map_get (positions st) k = Some p" for k p
  proof -
    have "p \<in> set (map_values (positions st))"
      by (rule map_all_member [OF ok that])
    moreover have "0 \<le> amount (p_scope p)" using map_all_get [OF ok that] by (simp add: position_ok_def)
    ultimately show ?thesis using room by (simp add: room_for_def)
  qed
  from s(4) bound [OF s(2)] scope
  show "amount (sg_debited g) = amount (p_scope (sg_source g)) - amount (a_scope input)"
    by (auto simp: subtractAuthorityScope_Inr valid_scope_def intro!: js_sub_exact)
  show "amount (sg_credited g) = amount_at (sg_target g) + amount (a_scope input)"
  proof (cases "sg_target g")
    case None
    with s(6) show ?thesis by (simp add: amount_at_def)
  next
    case (Some t)
    with s(6) bound [OF s(3) [unfolded Some]] scope show ?thesis
      by (auto simp: addAuthorityScopes_Inr amount_at_def valid_scope_def intro!: js_add_exact)
  qed
qed

section \<open>The apply loop conserves\<close>

text \<open>
  Between the turns of the loop, what source and target of each staged right hold together has
  not changed, whether its turn has come or not, or has come twice.
\<close>

definition pair_kept ::
  "ApplyGovernedAuthorityTransitionInput \<Rightarrow> (string, GovernedAuthorityPosition) js_map \<Rightarrow>
     staged_right \<Rightarrow> bool" where
  "pair_kept input m g \<longleftrightarrow>
     (\<exists>p. map_get m (governedAuthorityPositionKey (sourceKey input (sg_governedRight g))) = Some p \<and>
        keyOf p = sourceKey input (sg_governedRight g) \<and> unit_of (p_scope p) = unit_of (a_scope input) \<and>
        (let t = map_get m (governedAuthorityPositionKey (targetKey input (sg_governedRight g)))
         in (\<forall>q. t = Some q \<longrightarrow> keyOf q = targetKey input (sg_governedRight g) \<and>
                   unit_of (p_scope q) = unit_of (a_scope input)) \<and>
            amount (p_scope p) + amount_at t = amount (p_scope (sg_source g)) + amount_at (sg_target g)))"

definition exact_stage :: "ApplyGovernedAuthorityTransitionInput \<Rightarrow> staged_right \<Rightarrow> bool" where
  "exact_stage input g \<longleftrightarrow>
     amount (sg_debited g) = amount (p_scope (sg_source g)) - amount (a_scope input) \<and>
     amount (sg_credited g) = amount_at (sg_target g) + amount (a_scope input)"

definition entry_positions ::
  "(string \<Rightarrow> string) \<Rightarrow> ApplyGovernedAuthorityTransitionInput \<Rightarrow> string \<Rightarrow> string \<Rightarrow> staged_right \<Rightarrow>
     string \<Rightarrow> (string, GovernedAuthorityPosition) js_map \<Rightarrow> (string, GovernedAuthorityPosition) js_map" where
  "entry_positions sha input occ rec g tid m =
     (let d = seal_position sha (debitedDraft rec g tid);
          c = seal_position sha (creditedDraft sha input occ rec g tid)
      in map_set (map_set m (governedAuthorityPositionKey (keyOf d)) d)
           (governedAuthorityPositionKey (keyOf c)) c)"

lemma applyEntry_positions:
  "positions (snd (applyEntry sha input occ rec g st)) =
     entry_positions sha input occ rec g (t_id (fst (applyEntry sha input occ rec g st))) (positions st)"
  by (auto simp: applyEntry_eq put_position_in_def entry_positions_def Let_def split: prod.splits)

lemma draft_scopes [simp]:
  "p_scope (debitedDraft rec g tid) = sg_debited g"
  "p_scope (creditedDraft sha input occ rec g tid) = sg_credited g"
  by (auto simp: debitedDraft_def creditedDraft_def creditedFresh_def split: option.splits)

lemma entry_total:
  assumes kept: "pair_kept input m g" and ok: "staged_ok sha input g" and ex: "exact_stage input g"
    and "a_fromHolderRef input \<noteq> a_toHolderRef input"
  shows "map_total (held_in ten res right u) (entry_positions sha input occ rec g tid m) =
         map_total (held_in ten res right u) m"
proof -
  let ?s = "governedAuthorityPositionKey (sourceKey input (sg_governedRight g))"
  let ?t = "governedAuthorityPositionKey (targetKey input (sg_governedRight g))"
  obtain p where p: "map_get m ?s = Some p" "keyOf p = sourceKey input (sg_governedRight g)"
      "unit_of (p_scope p) = unit_of (a_scope input)"
    and q: "\<And>q. map_get m ?t = Some q \<Longrightarrow> keyOf q = targetKey input (sg_governedRight g) \<and>
        unit_of (p_scope q) = unit_of (a_scope input)"
    and sum: "amount (p_scope p) + amount_at (map_get m ?t) =
        amount (p_scope (sg_source g)) + amount_at (sg_target g)"
    using kept unfolding pair_kept_def Let_def by blast
  have over: "over_right ten res right (sourceKey input r) = over_right ten res right (targetKey input r)" for r
    by (simp add: over_right_def sourceKey_def targetKey_def positionKey_def)
  have sum': "amount (p_scope p) + amount_at (map_get m ?t) = amount (sg_debited g) + amount (sg_credited g)"
    using sum ex by (simp add: exact_stage_def)
  have tgt: "map_get (map_set m ?s d) ?t = map_get m ?t" for d
    using keys_differ [OF assms(4)] by (simp add: map_simps)
  from ok have units: "unit_of (sg_debited g) = unit_of (a_scope input)"
    "unit_of (sg_credited g) = unit_of (a_scope input)" by (auto simp: staged_ok_def)
  show ?thesis
    using p q units sum' over
    by (cases "map_get m ?t")
      (simp_all add: entry_positions_def Let_def map_total_set debited_key [OF ok] credited_key [OF ok]
        tgt held_in_def amount_in_def amount_at_def)
qed

lemma entry_kept:
  assumes kept: "pair_kept input m h" and ok: "staged_ok sha input g" and ex: "exact_stage input g"
    and holders: "a_fromHolderRef input \<noteq> a_toHolderRef input"
    and same: "sg_governedRight h = sg_governedRight g \<Longrightarrow> h = g"
  shows "pair_kept input (entry_positions sha input occ rec g tid m) h"
proof (cases "sg_governedRight h = sg_governedRight g")
  case True
  from ok have units: "unit_of (sg_debited g) = unit_of (a_scope input)"
    "unit_of (sg_credited g) = unit_of (a_scope input)" by (auto simp: staged_ok_def)
  show ?thesis
    using same [OF True] ex units keys_differ [OF holders] True
    by (simp add: pair_kept_def entry_positions_def Let_def map_simps debited_key [OF ok]
        credited_key [OF ok] exact_stage_def amount_at_def)
next
  case False
  with kept show ?thesis
    using keys_differ [OF holders] keys_of_rights [OF False]
    by (simp add: pair_kept_def entry_positions_def Let_def map_simps debited_key [OF ok]
        credited_key [OF ok])
qed

text \<open>Two stages of one right are the same stage: staging reads the store before the first write.\<close>

definition uniform_stages :: "staged_right list \<Rightarrow> bool" where
  "uniform_stages gs \<longleftrightarrow> (\<forall>g \<in> set gs. \<forall>h \<in> set gs. sg_governedRight h = sg_governedRight g \<longrightarrow> h = g)"

definition movable :: "(string \<Rightarrow> string) \<Rightarrow> ApplyGovernedAuthorityTransitionInput \<Rightarrow>
    (string, GovernedAuthorityPosition) js_map \<Rightarrow> staged_right \<Rightarrow> bool" where
  "movable sha input m g \<longleftrightarrow> pair_kept input m g \<and> staged_ok sha input g \<and> exact_stage input g"

lemma movable_step:
  assumes "a_fromHolderRef input \<noteq> a_toHolderRef input" and "uniform_stages (g # gs)"
    and "movable sha input m g" and "h \<in> set gs" and "movable sha input m h"
  shows "movable sha input (entry_positions sha input occ rec g tid m) h"
proof -
  have "sg_governedRight h = sg_governedRight g \<Longrightarrow> h = g"
    using assms(2,4) unfolding uniform_stages_def by (meson list.set_intros)
  with assms show ?thesis unfolding movable_def by (blast intro: entry_kept)
qed

lemma applyStaged_total:
  assumes "a_fromHolderRef input \<noteq> a_toHolderRef input"
  shows "\<forall>g \<in> set gs. movable sha input (positions st) g \<Longrightarrow> uniform_stages gs \<Longrightarrow>
    total_held ten res right u (snd (applyStaged sha input occ rec gs st)) = total_held ten res right u st"
proof (induction gs arbitrary: st)
  case (Cons g gs)
  obtain t st1 where e: "applyEntry sha input occ rec g st = (t, st1)" by fastforce
  obtain ts st2 where r: "applyStaged sha input occ rec gs st1 = (ts, st2)" by fastforce
  have p1: "positions st1 = entry_positions sha input occ rec g (t_id t) (positions st)"
    using applyEntry_positions [of sha input occ rec g st] by (simp add: e)
  have mg: "movable sha input (positions st) g" using Cons.prems(1) by simp
  have "\<forall>h \<in> set gs. movable sha input (positions st1) h"
    unfolding p1 using movable_step [OF assms Cons.prems(2) mg] Cons.prems(1) by simp
  moreover have "uniform_stages gs"
    using Cons.prems(2) unfolding uniform_stages_def by (meson list.set_intros(2))
  ultimately have "total_held ten res right u st2 = total_held ten res right u st1"
    using Cons.IH [of st1] by (simp add: r)
  moreover have "total_held ten res right u st1 = total_held ten res right u st"
    using mg entry_total [OF _ _ _ assms] by (simp add: total_held_def p1 movable_def)
  ultimately show ?case by (simp add: e r)
qed simp

text \<open>What a staging that returned gives the loop.\<close>

lemma staged_uniform:
  assumes wf: "store_wf sha st" and m: "mapR (stageRight sha st input occ) rights = Inr staged"
  shows "uniform_stages staged"
proof -
  have "\<forall>g \<in> set staged. \<exists>right. stageRight sha st input occ right = Inr g"
    using mapR_stageRight [OF m] by (induction rule: list_all2_induct) auto
  then have "stageRight sha st input occ (sg_governedRight g) = Inr g" if "g \<in> set staged" for g
    using that stageRight_Inr(1) [OF wf] by metis
  then show ?thesis unfolding uniform_stages_def by (metis sum.inject(2))
qed

lemma staged_movable:
  assumes wf: "store_wf sha st" and m: "mapR (stageRight sha st input occ) rights = Inr staged"
    and "\<forall>r \<in> set rights. isGovernedRightType r" and scope: "valid_scope (a_scope input)"
    and room: "room_for (a_scope input) st"
  shows "\<forall>g \<in> set staged. movable sha input (positions st) g"
proof
  fix g assume g: "g \<in> set staged"
  have ok: "staged_ok sha input g" using staged_all_ok [OF wf m assms(3) scope] g by blast
  have "\<forall>g \<in> set staged. \<exists>right. stageRight sha st input occ right = Inr g"
    using mapR_stageRight [OF m] by (induction rule: list_all2_induct) auto
  with g obtain right where s: "stageRight sha st input occ right = Inr g" by blast
  note r = stageRight_Inr [OF wf s]
  have ex: "exact_stage input g" using staged_exact [OF wf s scope room] by (simp add: exact_stage_def)
  have "unit_of (p_scope (sg_source g)) = unit_of (a_scope input)"
    using r(4) by (simp add: subtractAuthorityScope_Inr)
  moreover have "\<forall>q. sg_target g = Some q \<longrightarrow> unit_of (p_scope q) = unit_of (a_scope input)"
    using r(6) by (auto simp: addAuthorityScopes_Inr)
  ultimately have "pair_kept input (positions st) g"
    using ok r(1,2,3) by (simp add: pair_kept_def staged_ok_def position_ok_def positionKey_inject)
  with ok ex show "movable sha input (positions st) g" by (simp add: movable_def)
qed

lemma consume_positions:
  "positions (snd (consumeReservations sha ten man rec rs st)) = positions st \<and>
   transitions (snd (consumeReservations sha ten man rec rs st)) = transitions st \<and>
   encumbrances (snd (consumeReservations sha ten man rec rs st)) = encumbrances st"
  by (induction rs arbitrary: st) (auto simp: attempt_def putReservation_def Let_def split: sum.splits)

text \<open>The two ways an apply returns: a replay that writes nothing, or the staged movement.\<close>

lemma apply_returns:
  assumes "applyTransition sha now context input st = (Inr out, st')"
  shows "\<exists>occ rec. applyGuards now context input = Inr (occ, rec) \<and>
    (let already = alreadyApplied st (a_tenantId input) (gx_executionRef (a_basis input))
     in if already \<noteq> [] then
          assertReplayMatches already input = Inr () \<and> st' = st \<and> ao_replayed out \<and> ao_transitions out = already
        else \<exists>staged applied st1. mapR (stageRight sha st input occ) (a_governedRights input) = Inr staged \<and>
          applyStaged sha input occ rec staged st = (applied, st1) \<and> \<not> ao_replayed out \<and>
          ao_transitions out = applied \<and>
          (case a_consumesReservationsForMandateRef input of
             None \<Rightarrow> st' = st1
           | Some man \<Rightarrow> consumeReservations sha (a_tenantId input) man rec (map_values (reservations st1)) st1
               = (Inr (), st')))"
proof -
  obtain occ rec where g: "applyGuards now context input = Inr (occ, rec)"
    using assms by (cases "applyGuards now context input") (auto simp: applyTransition_def)
  show ?thesis
  proof (cases "alreadyApplied st (a_tenantId input) (gx_executionRef (a_basis input)) = []")
    case True
    with assms g obtain staged where m: "mapR (stageRight sha st input occ) (a_governedRights input) = Inr staged"
      by (cases "mapR (stageRight sha st input occ) (a_governedRights input)") (auto simp: applyTransition_def)
    obtain applied st1 where a: "applyStaged sha input occ rec staged st = (applied, st1)" by fastforce
    show ?thesis
    proof (cases "a_consumesReservationsForMandateRef input")
      case None
      with assms g True m a show ?thesis by (auto simp: applyTransition_def)
    next
      case (Some man)
      obtain c st2 where c: "consumeReservations sha (a_tenantId input) man rec (map_values (reservations st1)) st1 = (c, st2)"
        by fastforce
      with assms g True m a Some show ?thesis by (cases c) (auto simp: applyTransition_def)
    qed
  next
    case False
    with assms g show ?thesis
      by (auto simp: applyTransition_def Let_def outcome_simps dest: transition_seal.mapR_verify_Inr)
  qed
qed

lemma apply_conserves:
  assumes wf: "store_wf sha st" and room: "room_for (a_scope input) st"
    and ret: "applyTransition sha now context input st = (Inr out, st')"
  shows "total_held ten res right u st' = total_held ten res right u st"
proof -
  from apply_returns [OF ret] obtain occ rec where g: "applyGuards now context input = Inr (occ, rec)"
    and cases: "st' = st \<or> (\<exists>staged applied st1. mapR (stageRight sha st input occ) (a_governedRights input) = Inr staged \<and>
          applyStaged sha input occ rec staged st = (applied, st1) \<and> positions st' = positions st1)"
    by (auto simp: Let_def split: if_splits option.splits) (metis consume_positions snd_conv)+
  note guards = g [unfolded applyGuards_Inr]
  from cases show ?thesis
  proof (elim disjE exE conjE)
    fix staged applied st1
    assume m: "mapR (stageRight sha st input occ) (a_governedRights input) = Inr staged"
      and a: "applyStaged sha input occ rec staged st = (applied, st1)" and p: "positions st' = positions st1"
    have "a_fromHolderRef input \<noteq> a_toHolderRef input" and known: "\<forall>r \<in> set (a_governedRights input). isGovernedRightType r"
      and scope: "valid_scope (a_scope input)" using guards by auto
    from applyStaged_total [OF this(1) staged_movable [OF wf m known scope room] staged_uniform [OF wf m],
        of ten res right u occ rec]
    have "total_held ten res right u st1 = total_held ten res right u st" by (simp add: a)
    with p show ?thesis by (simp add: total_held_def)
  qed simp
qed

section \<open>What a movement leaves\<close>

lemma entry_get_other:
  assumes "staged_ok sha input g"
    and "k \<noteq> governedAuthorityPositionKey (sourceKey input (sg_governedRight g))"
    and "k \<noteq> governedAuthorityPositionKey (targetKey input (sg_governedRight g))"
  shows "map_get (entry_positions sha input occ rec g tid m) k = map_get m k"
  using assms by (simp add: entry_positions_def Let_def map_simps debited_key credited_key)

lemma applyStaged_step:
  assumes "applyEntry sha input occ rec g st = (t, st1)" and "applyStaged sha input occ rec gs st1 = (ts, st2)"
  shows "applyStaged sha input occ rec (g # gs) st = (t # ts, st2)"
    and "positions st1 = entry_positions sha input occ rec g (t_id t) (positions st)"
  using assms applyEntry_positions [of sha input occ rec g st] by simp_all

lemma applyStaged_get_other:
  "\<forall>g \<in> set gs. staged_ok sha input g \<Longrightarrow>
   \<forall>g \<in> set gs. k \<noteq> governedAuthorityPositionKey (sourceKey input (sg_governedRight g)) \<and>
      k \<noteq> governedAuthorityPositionKey (targetKey input (sg_governedRight g)) \<Longrightarrow>
   map_get (positions (snd (applyStaged sha input occ rec gs st))) k = map_get (positions st) k"
proof (induction gs arbitrary: st)
  case (Cons g gs)
  obtain t st1 where e: "applyEntry sha input occ rec g st = (t, st1)" by fastforce
  obtain ts st2 where r: "applyStaged sha input occ rec gs st1 = (ts, st2)" by fastforce
  note s = applyStaged_step [OF e r]
  from Cons have "map_get (positions st2) k = map_get (positions st1) k" using Cons.IH [of st1] by (simp add: r)
  with Cons.prems s show ?case by (simp add: entry_get_other)
qed simp

text \<open>The scope found under the keys of a staged right once its turn has come.\<close>

definition scope_at :: "auth_store \<Rightarrow> GovernedAuthorityPositionKey \<Rightarrow> GovernedRightsScope option" where
  "scope_at st k = map_option p_scope (map_get (positions st) (governedAuthorityPositionKey k))"

lemma applyEntry_scopes:
  assumes "staged_ok sha input g" and "a_fromHolderRef input \<noteq> a_toHolderRef input"
    and "applyEntry sha input occ rec g st = (t, st1)"
  shows "scope_at st1 (sourceKey input (sg_governedRight g)) = Some (sg_debited g)"
    and "scope_at st1 (targetKey input (sg_governedRight g)) = Some (sg_credited g)"
proof -
  have p: "positions st1 = entry_positions sha input occ rec g (t_id t) (positions st)"
    using applyEntry_positions [of sha input occ rec g st] assms(3) by simp
  show "scope_at st1 (sourceKey input (sg_governedRight g)) = Some (sg_debited g)"
    and "scope_at st1 (targetKey input (sg_governedRight g)) = Some (sg_credited g)"
    using keys_differ [OF assms(2)] debited_key [OF assms(1)] credited_key [OF assms(1)]
    by (simp_all add: scope_at_def p entry_positions_def Let_def map_simps)
qed

lemma applyStaged_scopes:
  assumes holders: "a_fromHolderRef input \<noteq> a_toHolderRef input"
  shows "\<forall>g \<in> set gs. staged_ok sha input g \<Longrightarrow> uniform_stages gs \<Longrightarrow> h \<in> set gs \<Longrightarrow>
    scope_at (snd (applyStaged sha input occ rec gs st)) (sourceKey input (sg_governedRight h)) = Some (sg_debited h) \<and>
    scope_at (snd (applyStaged sha input occ rec gs st)) (targetKey input (sg_governedRight h)) = Some (sg_credited h)"
proof (induction gs arbitrary: st)
  case (Cons g gs)
  obtain t st1 where e: "applyEntry sha input occ rec g st = (t, st1)" by fastforce
  obtain ts st2 where r: "applyStaged sha input occ rec gs st1 = (ts, st2)" by fastforce
  have uni: "uniform_stages gs"
    using Cons.prems(2) unfolding uniform_stages_def by (meson list.set_intros(2))
  show ?case
  proof (cases "h \<in> set gs")
    case True
    with Cons.IH [OF _ uni True, of st1] Cons.prems show ?thesis by (simp add: e r)
  next
    case False
    then have hg: "h = g" using Cons.prems by simp
    have diff: "sg_governedRight g' \<noteq> sg_governedRight g" if "g' \<in> set gs" for g'
    proof
      assume "sg_governedRight g' = sg_governedRight g"
      then have "g' = g" using Cons.prems(2) that unfolding uniform_stages_def by (meson list.set_intros)
      with that False hg show False by simp
    qed
    have ok: "\<forall>g' \<in> set gs. staged_ok sha input g'" using Cons.prems(1) by simp
    have "map_get (positions st2) (governedAuthorityPositionKey (sourceKey input (sg_governedRight g))) =
        map_get (positions st1) (governedAuthorityPositionKey (sourceKey input (sg_governedRight g)))"
      and "map_get (positions st2) (governedAuthorityPositionKey (targetKey input (sg_governedRight g))) =
        map_get (positions st1) (governedAuthorityPositionKey (targetKey input (sg_governedRight g)))"
      using applyStaged_get_other [OF ok, of "governedAuthorityPositionKey (sourceKey input (sg_governedRight g))" occ rec st1]
        applyStaged_get_other [OF ok, of "governedAuthorityPositionKey (targetKey input (sg_governedRight g))" occ rec st1]
        diff [THEN not_sym] keys_differ [OF holders]
      by (simp_all add: r keys_of_right_iff)
    with applyEntry_scopes [OF _ holders e] Cons.prems(1) show ?thesis
      by (simp add: e r hg scope_at_def)
  qed
qed simp

definition held_at :: "auth_store \<Rightarrow> GovernedAuthorityPositionKey \<Rightarrow> int" where
  "held_at st k = (case scope_at st k of None \<Rightarrow> 0 | Some s \<Rightarrow> amount s)"

text \<open>A movement that returned without replaying, taken apart.\<close>

lemma apply_moved:
  assumes wf: "store_wf sha st" and ret: "applyTransition sha now context input st = (Inr out, st')"
    and moved: "\<not> ao_replayed out"
  obtains staged st1 where "applyGuards now context input = Inr (a_occurredAt input, now)"
    and "alreadyApplied st (a_tenantId input) (gx_executionRef (a_basis input)) = []"
    and "mapR (stageRight sha st input (a_occurredAt input)) (a_governedRights input) = Inr staged"
    and "applyStaged sha input (a_occurredAt input) now staged st = (ao_transitions out, st1)"
    and "positions st' = positions st1" and "transitions st' = transitions st1"
    and "encumbrances st' = encumbrances st1"
    and "case a_consumesReservationsForMandateRef input of
        None \<Rightarrow> st' = st1
      | Some man \<Rightarrow> consumeReservations sha (a_tenantId input) man now (map_values (reservations st1)) st1 = (Inr (), st')"
proof -
  from apply_returns [OF ret] obtain occ rec where g: "applyGuards now context input = Inr (occ, rec)"
    and c: "let already = alreadyApplied st (a_tenantId input) (gx_executionRef (a_basis input))
     in if already \<noteq> [] then
          assertReplayMatches already input = Inr () \<and> st' = st \<and> ao_replayed out \<and> ao_transitions out = already
        else \<exists>staged applied st1. mapR (stageRight sha st input occ) (a_governedRights input) = Inr staged \<and>
          applyStaged sha input occ rec staged st = (applied, st1) \<and> \<not> ao_replayed out \<and>
          ao_transitions out = applied \<and>
          (case a_consumesReservationsForMandateRef input of
             None \<Rightarrow> st' = st1
           | Some man \<Rightarrow> consumeReservations sha (a_tenantId input) man rec (map_values (reservations st1)) st1
               = (Inr (), st'))" by blast
  from g have or: "occ = a_occurredAt input" "rec = now" by (auto simp: applyGuards_Inr)
  from c moved obtain staged st1 where
      n: "alreadyApplied st (a_tenantId input) (gx_executionRef (a_basis input)) = []"
    and m: "mapR (stageRight sha st input occ) (a_governedRights input) = Inr staged"
    and a: "applyStaged sha input occ rec staged st = (ao_transitions out, st1)"
    and k: "case a_consumesReservationsForMandateRef input of
        None \<Rightarrow> st' = st1
      | Some man \<Rightarrow> consumeReservations sha (a_tenantId input) man rec (map_values (reservations st1)) st1 = (Inr (), st')"
    unfolding Let_def by (auto split: if_splits)
  have "positions st' = positions st1 \<and> transitions st' = transitions st1 \<and> encumbrances st' = encumbrances st1"
    using k consume_positions by (auto split: option.splits) (metis snd_conv)+
  with g n m a k or that show ?thesis by blast
qed

lemma apply_effect:
  assumes wf: "store_wf sha st" and room: "room_for (a_scope input) st"
    and ret: "applyTransition sha now context input st = (Inr out, st')" and moved: "\<not> ao_replayed out"
    and right: "right \<in> set (a_governedRights input)"
  shows "amount (a_scope input) \<le> held_at st (sourceKey input right)"
    and "held_at st' (sourceKey input right) = held_at st (sourceKey input right) - amount (a_scope input)"
    and "held_at st' (targetKey input right) = held_at st (targetKey input right) + amount (a_scope input)"
    and "constrainedAmount (sourceConstraints st input right) (a_occurredAt input)
           \<le> held_at st' (sourceKey input right)"
proof -
  obtain staged st1 where g: "applyGuards now context input = Inr (a_occurredAt input, now)"
    and m: "mapR (stageRight sha st input (a_occurredAt input)) (a_governedRights input) = Inr staged"
    and a: "applyStaged sha input (a_occurredAt input) now staged st = (ao_transitions out, st1)"
    and p: "positions st' = positions st1" using apply_moved [OF wf ret moved] by metis
  note guards = g [unfolded applyGuards_Inr]
  have known: "\<forall>r \<in> set (a_governedRights input). isGovernedRightType r" and scope: "valid_scope (a_scope input)"
    and holders: "a_fromHolderRef input \<noteq> a_toHolderRef input" using guards by auto
  obtain h where h: "h \<in> set staged" "stageRight sha st input (a_occurredAt input) right = Inr h"
    using mapR_stageRight [OF m] right by (induction rule: list_all2_induct) auto
  note r = stageRight_Inr [OF wf h(2)]
  have ex: "amount (sg_debited h) = amount (p_scope (sg_source h)) - amount (a_scope input)"
      "amount (sg_credited h) = amount_at (sg_target h) + amount (a_scope input)"
    using staged_exact [OF wf h(2) scope room] by auto
  have old: "held_at st (sourceKey input right) = amount (p_scope (sg_source h))"
    "held_at st (targetKey input right) = amount_at (sg_target h)"
    using r(2,3) by (auto simp: held_at_def scope_at_def amount_at_def split: option.splits)
  have "scope_at st1 (sourceKey input right) = Some (sg_debited h) \<and>
      scope_at st1 (targetKey input right) = Some (sg_credited h)"
    using applyStaged_scopes [OF holders staged_all_ok [OF wf m known scope] staged_uniform [OF wf m] h(1),
        of "a_occurredAt input" now st] r(1) by (simp add: a)
  then have new: "held_at st' (sourceKey input right) = amount (sg_debited h)"
    "held_at st' (targetKey input right) = amount (sg_credited h)"
    by (auto simp: held_at_def scope_at_def p)
  show "amount (a_scope input) \<le> held_at st (sourceKey input right)"
    using r(4) by (simp add: old subtractAuthorityScope_Inr)
  show "held_at st' (sourceKey input right) = held_at st (sourceKey input right) - amount (a_scope input)"
    "held_at st' (targetKey input right) = held_at st (targetKey input right) + amount (a_scope input)"
    using ex old new by simp_all
  have small: "amount (sg_debited h) \<le> MAX_SAFE_INTEGER"
  proof -
    have "sg_source h \<in> set (map_values (positions st))"
      using wf r(2) map_all_member by (fastforce simp: store_wf_def)
    with room scope ex show ?thesis by (auto simp: room_for_def valid_scope_def)
  qed
  have ve: "valid_encumbrances (sourceConstraints st input right)"
    using wf_encumbrance_value [OF wf] by (auto simp: valid_encumbrances_def sourceConstraints_def encumbrance_ok_def)
  have nn: "0 \<le> amount (sg_debited h)" using r(4) by (auto simp: subtractAuthorityScope_Inr js_sub_nonneg)
  show "constrainedAmount (sourceConstraints st input right) (a_occurredAt input)
           \<le> held_at st' (sourceKey input right)"
    using remaining_covers [OF r(5) ve nn small] by (simp add: new)
qed

lemma apply_frame:
  assumes wf: "store_wf sha st"
    and ret: "applyTransition sha now context input st = (Inr out, st')"
    and k: "\<And>right. right \<in> set (a_governedRights input) \<Longrightarrow> k \<noteq> sourceKey input right \<and> k \<noteq> targetKey input right"
  shows "scope_at st' k = scope_at st k" and "encumbrances st' = encumbrances st"
proof -
  have "scope_at st' k = scope_at st k \<and> encumbrances st' = encumbrances st"
  proof (cases "ao_replayed out")
    case True
    with apply_returns [OF ret] show ?thesis by (auto simp: Let_def split: if_splits)
  next
    case False
    obtain staged st1 where g: "applyGuards now context input = Inr (a_occurredAt input, now)"
      and m: "mapR (stageRight sha st input (a_occurredAt input)) (a_governedRights input) = Inr staged"
      and a: "applyStaged sha input (a_occurredAt input) now staged st = (ao_transitions out, st1)"
      and p: "positions st' = positions st1" "encumbrances st' = encumbrances st1"
      using apply_moved [OF wf ret False] by metis
    have known: "\<forall>r \<in> set (a_governedRights input). isGovernedRightType r" and scope: "valid_scope (a_scope input)"
      using g [unfolded applyGuards_Inr] by auto
    have "\<forall>h \<in> set staged. sg_governedRight h \<in> set (a_governedRights input)"
      using mapR_stageRight [OF m] stageRight_Inr(1) [OF wf] by (induction rule: list_all2_induct) auto
    with k have "\<forall>h \<in> set staged. governedAuthorityPositionKey k \<noteq> governedAuthorityPositionKey (sourceKey input (sg_governedRight h)) \<and>
        governedAuthorityPositionKey k \<noteq> governedAuthorityPositionKey (targetKey input (sg_governedRight h))"
      by (auto simp: positionKey_inject)
    from applyStaged_get_other [OF staged_all_ok [OF wf m known scope] this, of "a_occurredAt input" now st]
    have "scope_at st' k = scope_at st k" by (simp add: scope_at_def p a)
    moreover have "encumbrances (snd (applyStaged sha input occ rec gs st0)) = encumbrances st0" for occ rec gs st0
    proof (induction gs arbitrary: st0)
      case (Cons g gs)
      obtain t s1 where e: "applyEntry sha input occ rec g st0 = (t, s1)" by fastforce
      then have "encumbrances s1 = encumbrances st0"
        by (auto simp: applyEntry_eq put_position_in_def split: prod.splits)
      with Cons [of s1] e show ?case by (simp split: prod.splits) (metis snd_conv)
    qed simp
    from this [of "a_occurredAt input" now staged st] have "encumbrances st' = encumbrances st" by (simp add: p a)
    ultimately show ?thesis by simp
  qed
  then show "scope_at st' k = scope_at st k" and "encumbrances st' = encumbrances st" by auto
qed

text \<open>A refused movement leaves the store as it was: every right is staged before one is written.\<close>

lemma apply_atomic:
  assumes wf: "store_wf sha st" and ret: "applyTransition sha now context input st = (Inl e, st')"
  shows "st' = st"
proof (cases "applyGuards now context input")
  case (Inl e)
  with ret show ?thesis by (simp add: applyTransition_def)
next
  case (Inr g)
  obtain occ rec where g: "g = (occ, rec)" by (cases g)
  note guards = Inr [unfolded g applyGuards_Inr]
  show ?thesis
  proof (cases "mapR (stageRight sha st input occ) (a_governedRights input)")
    case (Inl e)
    with ret \<open>applyGuards _ _ _ = _\<close> show ?thesis
      by (auto simp: applyTransition_def g attempt_def Let_def split: sum.splits if_splits)
  next
    case (Inr staged)
    obtain applied st1 where a: "applyStaged sha input occ rec staged st = (applied, st1)" by fastforce
    have scope: "valid_scope (a_scope input)" and occ: "isStrictUtcTimestamp occ" and
      known: "\<forall>r \<in> set (a_governedRights input). isGovernedRightType r" using guards by auto
    have wf1: "store_wf sha st1"
      using applyStaged_wf [OF wf staged_all_ok [OF wf Inr known scope] occ scope, of rec] by (simp add: a)
    have c: "fst (consumeReservations sha ten man rec (map_values (reservations st1)) st1) = Inr ()" for ten man
      using consumeReservations_wf [OF wf1] wf_reservation_value [OF wf1] by blast
    show ?thesis
      using ret \<open>applyGuards _ _ _ = _\<close> Inr a c
      by (auto simp: applyTransition_def g attempt_def Let_def split: sum.splits if_splits option.splits prod.splits)
        (metis fst_conv sum.distinct(1))+
  qed
qed

section \<open>Replays\<close>

text \<open>The transitions one apply appends, one per staged right, in order.\<close>

definition moves :: "ApplyGovernedAuthorityTransitionInput \<Rightarrow> GovernedRightType \<Rightarrow> GovernedAuthorityTransition \<Rightarrow> bool" where
  "moves input right t \<longleftrightarrow>
     t_tenantId t = a_tenantId input \<and> t_basis t = a_basis input \<and> t_governedRight t = right \<and>
     t_fromActorRef t = Some (a_fromHolderRef input) \<and> t_toActorRef t = a_toHolderRef input \<and>
     t_resourceKind t = rr_kind (a_resource input) \<and> t_resourceId t = rr_id (a_resource input) \<and>
     t_scope t = a_scope input"

lemma applyEntry_transition:
  assumes "applyEntry sha input occ rec g st = (t, st1)"
  shows "transitions st1 = transitions st @ [t]" and "moves input (sg_governedRight g) t"
proof -
  obtain t' s1 where ap: "appendTransition sha (movementTransition sha input occ rec (sg_governedRight g)) st = (t', s1)"
    by fastforce
  note eq = ap [symmetric, unfolded appendTransition_eq Let_def prod.inject]
  from assms have t: "t = t'" and st1: "transitions st1 = transitions s1"
    by (auto simp: applyEntry_eq ap put_position_in_def)
  from eq show "transitions st1 = transitions st @ [t]" by (simp add: st1 t)
  from eq show "moves input (sg_governedRight g) t" by (simp add: t moves_def movementTransition_def)
qed

lemma applyStaged_transitions:
  "applyStaged sha input occ rec gs st = (ts, st') \<Longrightarrow>
     transitions st' = transitions st @ ts \<and> list_all2 (\<lambda>g t. moves input (sg_governedRight g) t) gs ts"
proof (induction gs arbitrary: st ts)
  case (Cons g gs)
  obtain t st1 where e: "applyEntry sha input occ rec g st = (t, st1)" by fastforce
  obtain us where r: "applyStaged sha input occ rec gs st1 = (us, st')" and ts: "ts = t # us"
    using Cons.prems e by (auto split: prod.splits)
  from Cons.IH [OF r] applyEntry_transition [OF e] show ?case by (simp add: ts)
qed simp

lemma chain_from_intact: "chain_from sha d ts = Inr () \<Longrightarrow> t \<in> set ts \<Longrightarrow> transition_intact sha t"
  by (induction ts arbitrary: d) (auto simp: outcome_simps transition_seal.verify_Inr split: if_splits)

lemma wf_transition_intact:
  assumes "store_wf sha st" and "t \<in> set (transitions st)"
  shows "transition_intact sha t"
proof (rule chain_from_intact)
  show "chain_from sha None (tenantTransitions st (t_tenantId t)) = Inr ()"
    using assms(1) by (simp add: store_wf_def ledger_ok_def Let_def)
  show "t \<in> set (tenantTransitions st (t_tenantId t))" using assms(2) by (simp add: tenantTransitions_def)
qed

lemma replayEntriesMatch_moves:
  "\<forall>t \<in> set ts. \<exists>right. moves input right t \<Longrightarrow> replayEntriesMatch input ts = Inr ()"
  by (induction ts) (auto simp: moves_def)

text \<open>What a returned movement recorded, as a later call with the same execution finds it.\<close>

lemma apply_recorded:
  assumes wf: "store_wf sha st" and ret: "applyTransition sha now context input st = (Inr out, st')"
    and moved: "\<not> ao_replayed out"
  shows "alreadyApplied st' (a_tenantId input) (gx_executionRef (a_basis input)) = ao_transitions out"
    and "list_all2 (moves input) (a_governedRights input) (ao_transitions out)"
    and "ao_transitions out \<noteq> []"
proof -
  obtain staged st1 where g: "applyGuards now context input = Inr (a_occurredAt input, now)"
    and n: "alreadyApplied st (a_tenantId input) (gx_executionRef (a_basis input)) = []"
    and m: "mapR (stageRight sha st input (a_occurredAt input)) (a_governedRights input) = Inr staged"
    and a: "applyStaged sha input (a_occurredAt input) now staged st = (ao_transitions out, st1)"
    and p: "transitions st' = transitions st1" using apply_moved [OF wf ret moved] by metis
  have t: "transitions st1 = transitions st @ ao_transitions out"
    and l: "list_all2 (\<lambda>g t. moves input (sg_governedRight g) t) staged (ao_transitions out)"
    using applyStaged_transitions [OF a] by auto
  have gx: "executionRefOf (a_basis input) = Some (gx_executionRef (a_basis input))" and ne: "a_governedRights input \<noteq> []"
    using g [unfolded applyGuards_Inr] by (cases "a_basis input", auto)
  have r: "list_all2 (\<lambda>right g. sg_governedRight g = right) (a_governedRights input) staged"
    using mapR_stageRight [OF m] stageRight_Inr(1) [OF wf] by (auto elim: list_all2_mono)
  show l2: "list_all2 (moves input) (a_governedRights input) (ao_transitions out)"
    by (rule list_all2_trans [OF _ r l]) simp
  then have "\<forall>t \<in> set (ao_transitions out). t_tenantId t = a_tenantId input \<and> t_basis t = a_basis input"
    by (auto simp: list_all2_conv_all_nth in_set_conv_nth moves_def)
  then show "alreadyApplied st' (a_tenantId input) (gx_executionRef (a_basis input)) = ao_transitions out"
    using n gx by (simp add: alreadyApplied_def p t filter_id_conv)
  show "ao_transitions out \<noteq> []" using l2 ne by auto
qed

lemma moves_rights:
  assumes "list_all2 (moves input) rights ts"
  shows "map t_governedRight ts = rights" and "\<forall>t \<in> set ts. \<exists>right. moves input right t"
  using assms by (induction rule: list_all2_induct) (auto simp: moves_def)

lemma apply_replay:
  assumes wf: "store_wf sha st" and ret: "applyTransition sha now context input st = (Inr out, st')"
    and moved: "\<not> ao_replayed out" and later: "isStrictUtcTimestamp later"
  shows "applyTransition sha later context input st' =
    (if distinct (a_governedRights input)
     then (Inr \<lparr>ao_transitions = ao_transitions out, ao_replayed = True\<rparr>, st')
     else (Inl TRANSITION_CONFLICT, st'))"
proof -
  note rec = apply_recorded [OF wf ret moved]
  note rights = moves_rights [OF rec(2)]
  obtain occ rc where "applyGuards now context input = Inr (occ, rc)" using apply_returns [OF ret] by blast
  then have g: "applyGuards later context input = Inr (a_occurredAt input, later)"
    using later by (auto simp: applyGuards_Inr)
  have wf': "store_wf sha st'" using apply_wf [OF wf, of now "context" input] ret by simp
  have "set (ao_transitions out) \<subseteq> set (transitions st')"
    unfolding rec(1) [symmetric] by (auto simp: alreadyApplied_def)
  then have i: "mapR (assertTransitionIntegrity sha) (ao_transitions out) = Inr (ao_transitions out)"
    using wf_transition_intact [OF wf'] by (intro transition_seal.mapR_verify) auto
  show ?thesis
  proof (cases "distinct (a_governedRights input)")
    case True
    then have "assertReplayMatches (ao_transitions out) input = Inr ()"
      using rights replayEntriesMatch_moves
      by (simp add: assertReplayMatches_def Let_def distinct_remdups_id list_all_iff)
    with True rec(1,3) i g show ?thesis by (simp add: applyTransition_def Let_def)
  next
    case False
    then have "length (remdups (a_governedRights input)) \<noteq> length (a_governedRights input)"
      by (metis distinct_remdups length_remdups_eq)
    then have "assertReplayMatches (ao_transitions out) input = Inl TRANSITION_CONFLICT"
      using rights by (simp add: assertReplayMatches_def Let_def)
    with False rec(1,3) g show ?thesis by (simp add: applyTransition_def Let_def)
  qed
qed

section \<open>Issuance\<close>

text \<open>The identifier of the issuance transition, and the store it is appended to.\<close>

definition issuanceId ::
  "(string \<Rightarrow> string) \<Rightarrow> BootstrapGovernedAuthorityInput \<Rightarrow> auth_store \<Rightarrow> string \<times> auth_store" where
  "issuanceId sha input st =
     (case b_transitionId input of
        Some i \<Rightarrow> (i, st)
      | None \<Rightarrow> (let (n, st') = nextIssuanceOrdinal (b_tenantId input) st
                 in (deriveAuthorityIssuanceTransitionId sha (b_tenantId input) n, st')))"

lemma issuanceId_keeps:
  assumes "issuanceId sha input st = (tid, st1)"
  shows "positions st1 = positions st" "transitions st1 = transitions st"
    "reservations st1 = reservations st" "encumbrances st1 = encumbrances st"
  using assms by (auto simp: issuanceId_def nextIssuanceOrdinal_def Let_def split: option.splits)

lemma appendTransition_transitions:
  assumes "appendTransition sha draft st = (t, st')"
  shows "transitions st' = transitions st @ [t]"
proof -
  note eq = assms [symmetric, unfolded appendTransition_eq Let_def prod.inject]
  then show ?thesis by simp
qed

text \<open>The three ways a bootstrap that passed its guards ends, on a well-formed store.\<close>

lemma bootstrap_cases:
  assumes wf: "store_wf sha st" and g: "bootstrapGuards now context input = Inr (eff, ex, occ, rec)"
  obtains t :: GovernedAuthorityTransition and st2 where "positions st2 = positions st" and "reservations st2 = reservations st"
    and "encumbrances st2 = encumbrances st" and "transitions st2 = transitions st @ [t]"
    and "bootstrapPosition sha now context input st =
      (case map_get (positions st) (governedAuthorityPositionKey (bootstrapKey input)) of
         None \<Rightarrow>
           (let p = seal_position sha (bootstrapFresh sha input eff ex rec (t_id t))
            in (Inr p, put_position_in st2 p))
       | Some p \<Rightarrow>
           (case addAuthorityScopes (p_scope p) (b_scope input) of
              Inl e \<Rightarrow> (Inl e, st2)
            | Inr s \<Rightarrow>
                (let q = seal_position sha (p\<lparr>p_scope := s, p_updatedAt := rec, p_lastTransitionRef := t_id t\<rparr>)
                 in (Inr q, put_position_in st2 q))))"
proof -
  obtain tid st1 where i: "issuanceId sha input st = (tid, st1)" by fastforce
  obtain t st2 where a: "appendTransition sha (bootstrapTransition input tid occ rec) st1 = (t, st2)" by fastforce
  have "bootstrapPosition sha now context input st =
      (case map_get (positions st) (governedAuthorityPositionKey (bootstrapKey input)) of
         None \<Rightarrow>
           (let p = seal_position sha (bootstrapFresh sha input eff ex rec (t_id t))
            in (Inr p, put_position_in st2 p))
       | Some p \<Rightarrow>
           (case addAuthorityScopes (p_scope p) (b_scope input) of
              Inl e \<Rightarrow> (Inl e, st2)
            | Inr s \<Rightarrow>
                (let q = seal_position sha (p\<lparr>p_scope := s, p_updatedAt := rec, p_lastTransitionRef := t_id t\<rparr>)
                 in (Inr q, put_position_in st2 q))))"
    using i a unfolding issuanceId_def bootstrapPosition_def g attempt_simps prod.case
      readPosition_total [OF wf] putPosition_eq Let_def
    by (simp add: attempt_def split: option.split sum.split)
  with that [of st2 t] issuanceId_keeps [OF i] appendTransition_maps [OF a] appendTransition_transitions [OF a]
  show ?thesis by simp
qed

lemma bootstrap_effect:
  assumes wf: "store_wf sha st" and room: "room_for (b_scope input) st"
    and ret: "bootstrapPosition sha now context input st = (Inr p, st')"
  shows "total_held ten res right u st' = total_held ten res right u st +
      (if over_right ten res right (bootstrapKey input) then amount_in u (b_scope input) else 0)"
    and "held_at st' (bootstrapKey input) = held_at st (bootstrapKey input) + amount (b_scope input)"
    and "k \<noteq> bootstrapKey input \<Longrightarrow> scope_at st' k = scope_at st k"
proof -
  let ?K = "governedAuthorityPositionKey (bootstrapKey input)"
  obtain eff ex occ rec where g: "bootstrapGuards now context input = Inr (eff, ex, occ, rec)"
    using ret by (cases "bootstrapGuards now context input") (auto simp: bootstrapPosition_def)
  obtain t :: GovernedAuthorityTransition and st2 where p2: "positions st2 = positions st"
    and b: "bootstrapPosition sha now context input st =
      (case map_get (positions st) ?K of
         None \<Rightarrow>
           (let p = seal_position sha (bootstrapFresh sha input eff ex rec (t_id t))
            in (Inr p, put_position_in st2 p))
       | Some p \<Rightarrow>
           (case addAuthorityScopes (p_scope p) (b_scope input) of
              Inl e \<Rightarrow> (Inl e, st2)
            | Inr s \<Rightarrow>
                (let q = seal_position sha (p\<lparr>p_scope := s, p_updatedAt := rec, p_lastTransitionRef := t_id t\<rparr>)
                 in (Inr q, put_position_in st2 q))))"
    by (rule bootstrap_cases [OF wf g])
  have scope: "valid_scope (b_scope input)" using g by (simp add: bootstrapGuards_Inr)
  have main: "\<exists>s q. st' = put_position_in st2 q \<and> keyOf q = bootstrapKey input \<and> p_scope q = s \<and>
      unit_of s = unit_of (b_scope input) \<and>
      amount s = held_at st (bootstrapKey input) + amount (b_scope input) \<and>
      (\<forall>old. map_get (positions st) ?K = Some old \<longrightarrow> keyOf old = bootstrapKey input \<and>
         unit_of (p_scope old) = unit_of (b_scope input))"
  proof (cases "map_get (positions st) ?K")
    case None
    have "keyOf (bootstrapFresh sha input eff ex rec (t_id t)) = bootstrapKey input"
      by (simp add: bootstrapFresh_def keyOf_def bootstrapKey_def positionKey_def)
    with None b ret show ?thesis
      by (auto simp: Let_def held_at_def scope_at_def bootstrapFresh_def)
  next
    case (Some old)
    have ok: "position_ok sha ?K old" using wf Some map_all_get by (fastforce simp: store_wf_def)
    have "old \<in> set (map_values (positions st))"
      using wf Some map_all_member by (fastforce simp: store_wf_def)
    with room have small: "amount (p_scope old) + amount (b_scope input) \<le> MAX_SAFE_INTEGER"
      by (simp add: room_for_def)
    from Some b ret obtain s where s: "addAuthorityScopes (p_scope old) (b_scope input) = Inr s"
      and st': "st' = put_position_in st2 (seal_position sha (old\<lparr>p_scope := s, p_updatedAt := rec, p_lastTransitionRef := t_id t\<rparr>))"
      by (auto simp: Let_def split: sum.splits)
    have "keyOf old = bootstrapKey input" using ok by (simp add: position_ok_def positionKey_inject)
    moreover have "keyOf (old\<lparr>p_scope := s, p_updatedAt := rec, p_lastTransitionRef := t_id t\<rparr>) = keyOf old"
      by (simp add: keyOf_def)
    moreover have "amount s = amount (p_scope old) + amount (b_scope input)"
      using s ok small scope by (auto simp: addAuthorityScopes_Inr position_ok_def valid_scope_def intro!: js_add_exact)
    ultimately show ?thesis
      using s Some unfolding st'
      by (intro exI [of _ s] exI [of _ "seal_position sha (old\<lparr>p_scope := s, p_updatedAt := rec, p_lastTransitionRef := t_id t\<rparr>)"])
        (simp add: addAuthorityScopes_Inr held_at_def scope_at_def)
  qed
  then obtain s q where q: "st' = put_position_in st2 q" "keyOf q = bootstrapKey input" "p_scope q = s"
      "unit_of s = unit_of (b_scope input)" "amount s = held_at st (bootstrapKey input) + amount (b_scope input)"
    and old: "\<forall>old. map_get (positions st) ?K = Some old \<longrightarrow> keyOf old = bootstrapKey input \<and>
         unit_of (p_scope old) = unit_of (b_scope input)" by blast
  have pos: "positions st' = map_set (positions st) ?K q" by (simp add: q put_position_in_def p2)
  show "held_at st' (bootstrapKey input) = held_at st (bootstrapKey input) + amount (b_scope input)"
    using q(2,3,5) by (simp add: held_at_def scope_at_def pos map_simps)
  show "k \<noteq> bootstrapKey input \<Longrightarrow> scope_at st' k = scope_at st k"
    by (simp add: scope_at_def pos map_simps positionKey_inject)
  show "total_held ten res right u st' = total_held ten res right u st +
      (if over_right ten res right (bootstrapKey input) then amount_in u (b_scope input) else 0)"
    using q(2-5) old by (auto simp: total_held_def pos map_total_set held_in_def amount_in_def held_at_def
        scope_at_def split: option.splits)
qed

text \<open>A refused bootstrap writes no position; it may leave a transition behind.\<close>

lemma bootstrap_refused:
  assumes wf: "store_wf sha st" and ret: "bootstrapPosition sha now context input st = (Inl e, st')"
  shows "positions st' = positions st" and "reservations st' = reservations st"
    and "encumbrances st' = encumbrances st" and "e \<noteq> SCOPE_INCOMPATIBLE \<Longrightarrow> st' = st"
proof -
  have "positions st' = positions st \<and> reservations st' = reservations st \<and> encumbrances st' = encumbrances st \<and>
      (e \<noteq> SCOPE_INCOMPATIBLE \<longrightarrow> st' = st)"
  proof (cases "bootstrapGuards now context input")
    case (Inl e)
    with ret show ?thesis by (simp add: bootstrapPosition_def)
  next
    case (Inr g)
    obtain eff ex occ rec where g: "bootstrapGuards now context input = Inr (eff, ex, occ, rec)"
      using Inr by (cases g) auto
    show ?thesis
      by (rule bootstrap_cases [OF wf g])
        (use ret in \<open>auto simp: Let_def addAuthorityScopes_Inl split: option.splits sum.splits\<close>)
  qed
  then show "positions st' = positions st" and "reservations st' = reservations st"
    and "encumbrances st' = encumbrances st" and "e \<noteq> SCOPE_INCOMPATIBLE \<Longrightarrow> st' = st" by auto
qed

text \<open>
  The orphan: a bootstrap onto a position counted in another unit is refused only after its
  transition has been appended to the tenant's chain.
\<close>

lemma bootstrap_orphan:
  assumes wf: "store_wf sha st" and g: "bootstrapGuards now context input = Inr (eff, ex, occ, rec)"
    and old: "scope_at st (bootstrapKey input) = Some s" and u: "unit_of s \<noteq> unit_of (b_scope input)"
  shows "\<exists>(t :: GovernedAuthorityTransition) st'. bootstrapPosition sha now context input st = (Inl SCOPE_INCOMPATIBLE, st') \<and>
    positions st' = positions st \<and> transitions st' = transitions st @ [t]"
proof -
  obtain p where p: "map_get (positions st) (governedAuthorityPositionKey (bootstrapKey input)) = Some p" "p_scope p = s"
    using old by (auto simp: scope_at_def)
  then have "addAuthorityScopes (p_scope p) (b_scope input) = Inl SCOPE_INCOMPATIBLE"
    using u by (simp add: addAuthorityScopes_Inl)
  then show ?thesis using p by - (rule bootstrap_cases [OF wf g], auto)
qed

section \<open>Consumed commitments\<close>

text \<open>Which reservations the loop ends: the active ones of the tenant under the mandate.\<close>

definition spent_by :: "string \<Rightarrow> string \<Rightarrow> GovernedAuthorityReservation \<Rightarrow> bool" where
  "spent_by ten man r \<longleftrightarrow> r_tenantId r = ten \<and> r_sourceMandateRef r = man \<and> r_status r = RsActive"

lemma consume_step:
  assumes wf: "store_wf sha st" and r: "map_get (reservations st) (r_id r) = Some r" and m: "spent_by ten man r"
  shows "consumeReservations sha ten man rec (r # rs) st = consumeReservations sha ten man rec rs
      (put_reservation_in st (seal_reservation sha (r\<lparr>r_status := RsConsumed, r_updatedAt := rec\<rparr>)))"
    and "store_wf sha (put_reservation_in st (seal_reservation sha (r\<lparr>r_status := RsConsumed, r_updatedAt := rec\<rparr>)))"
proof -
  have ok: "reservation_ok sha (r_id r) r" using wf r map_all_get by (fastforce simp: store_wf_def)
  then show "consumeReservations sha ten man rec (r # rs) st = consumeReservations sha ten man rec rs
      (put_reservation_in st (seal_reservation sha (r\<lparr>r_status := RsConsumed, r_updatedAt := rec\<rparr>)))"
    using m by (simp add: spent_by_def reservation_ok_def reservation_seal.verify_intact putReservation_eq)
  show "store_wf sha (put_reservation_in st (seal_reservation sha (r\<lparr>r_status := RsConsumed, r_updatedAt := rec\<rparr>)))"
    using reservation_ok_status [OF ok] by (intro put_reservation_wf [OF wf]) simp
qed

lemma consume_result:
  "store_wf sha st \<Longrightarrow> \<forall>r \<in> set rs. map_get (reservations st) (r_id r) = Some r \<Longrightarrow> distinct (map r_id rs) \<Longrightarrow>
   map_get (reservations (snd (consumeReservations sha ten man rec rs st))) k =
     (case map_get (reservations st) k of
        None \<Rightarrow> None
      | Some r \<Rightarrow> Some (if spent_by ten man r \<and> k \<in> set (map r_id rs)
          then seal_reservation sha (r\<lparr>r_status := RsConsumed, r_updatedAt := rec\<rparr>) else r))"
proof (induction rs arbitrary: st)
  case (Cons x rs)
  have x: "map_get (reservations st) (r_id x) = Some x" using Cons.prems by simp
  show ?case
  proof (cases "spent_by ten man x")
    case True
    let ?x = "seal_reservation sha (x\<lparr>r_status := RsConsumed, r_updatedAt := rec\<rparr>)"
    note step = consume_step [OF Cons.prems(1) x True, of rec]
    have get: "map_get (reservations (put_reservation_in st ?x)) j =
        (if j = r_id x then Some ?x else map_get (reservations st) j)" for j
      by (simp add: put_reservation_in_def map_simps)
    have "\<forall>r \<in> set rs. map_get (reservations (put_reservation_in st ?x)) (r_id r) = Some r"
    proof
      fix r assume r: "r \<in> set rs"
      with Cons.prems(3) have "r_id r \<noteq> r_id x" by (simp, metis imageI)
      with r Cons.prems(2) show "map_get (reservations (put_reservation_in st ?x)) (r_id r) = Some r"
        unfolding get by simp
    qed
    note ih = Cons.IH [OF step(2) this]
    show ?thesis
    proof (cases "k = r_id x")
      case True
      with ih Cons.prems(3) x \<open>spent_by ten man x\<close> show ?thesis
        by (simp add: step(1) get del: consumeReservations.simps(2))
    next
      case False
      with ih Cons.prems(3) show ?thesis
        by (simp add: step(1) get del: consumeReservations.simps(2) split: option.split)
    qed
  next
    case False
    have same: "r_id x = k \<Longrightarrow> map_get (reservations st) k = Some x" using x by simp
    from False have "consumeReservations sha ten man rec (x # rs) st = consumeReservations sha ten man rec rs st"
      by (auto simp: spent_by_def)
    with Cons.IH [OF Cons.prems(1)] Cons.prems(2,3) same False show ?thesis
      by (cases "r_id x = k") (simp_all del: consumeReservations.simps(2) split: option.split)
  qed
qed (simp split: option.split)

lemma map_values_ids:
  assumes "store_wf sha st"
  shows "distinct (map r_id (map_values (reservations st)))" and
    "\<forall>r \<in> set (map_values (reservations st)). map_get (reservations st) (r_id r) = Some r"
proof -
  have ok: "map_all (reservation_ok sha) (reservations st)" using assms by (simp add: store_wf_def)
  then have d: "distinct (map fst (reservations st))" by (simp add: map_all_def map_ok_def)
  have "r_id (snd x) = fst x" if "x \<in> set (reservations st)" for x
  proof -
    have "map_get (reservations st) (fst x) = Some (snd x)"
      using that d by (simp add: map_get_def map_of_is_SomeI)
    then show ?thesis using map_all_get [OF ok] by (auto simp: reservation_ok_def)
  qed
  then have "map r_id (map_values (reservations st)) = map fst (reservations st)"
    by (simp add: map_values_def)
  with d show "distinct (map r_id (map_values (reservations st)))" by simp
  show "\<forall>r \<in> set (map_values (reservations st)). map_get (reservations st) (r_id r) = Some r"
    using wf_reservation_value [OF assms] by blast
qed

text \<open>
  What a movement authorized under a mandate does to the commitments: every active one of the
  tenant under that mandate is spent, whole, and no other changes.
\<close>

lemma apply_consumes:
  assumes wf: "store_wf sha st" and ret: "applyTransition sha now context input st = (Inr out, st')"
    and moved: "\<not> ao_replayed out"
  shows "map_get (reservations st') k =
     (case map_get (reservations st) k of
        None \<Rightarrow> None
      | Some r \<Rightarrow> Some (case a_consumesReservationsForMandateRef input of
          None \<Rightarrow> r
        | Some man \<Rightarrow> if spent_by (a_tenantId input) man r
            then seal_reservation sha (r\<lparr>r_status := RsConsumed, r_updatedAt := now\<rparr>) else r))"
proof -
  obtain staged st1 where g: "applyGuards now context input = Inr (a_occurredAt input, now)"
    and m: "mapR (stageRight sha st input (a_occurredAt input)) (a_governedRights input) = Inr staged"
    and a: "applyStaged sha input (a_occurredAt input) now staged st = (ao_transitions out, st1)"
    and c: "case a_consumesReservationsForMandateRef input of
        None \<Rightarrow> st' = st1
      | Some man \<Rightarrow> consumeReservations sha (a_tenantId input) man now (map_values (reservations st1)) st1 = (Inr (), st')"
    using apply_moved [OF wf ret moved] by metis
  have known: "\<forall>r \<in> set (a_governedRights input). isGovernedRightType r" and scope: "valid_scope (a_scope input)"
    and occ: "isStrictUtcTimestamp (a_occurredAt input)" using g [unfolded applyGuards_Inr] by auto
  have wf1: "store_wf sha st1"
    using applyStaged_wf [OF wf staged_all_ok [OF wf m known scope] occ scope, of now] by (simp add: a)
  have keep: "reservations (snd (applyStaged sha input occ rec gs s)) = reservations s" for occ rec gs s
  proof (induction gs arbitrary: s)
    case (Cons h gs)
    obtain t s1 where e: "applyEntry sha input occ rec h s = (t, s1)" by fastforce
    then have "reservations s1 = reservations s"
      by (auto simp: applyEntry_eq put_position_in_def split: prod.splits)
    with Cons [of s1] e show ?case by (simp split: prod.splits) (metis snd_conv)
  qed simp
  have r1: "reservations st1 = reservations st" using keep [of "a_occurredAt input" now staged st] by (simp add: a)
  show ?thesis
  proof (cases "a_consumesReservationsForMandateRef input")
    case None
    with c r1 show ?thesis by (simp split: option.split)
  next
    case (Some man)
    with c have st': "st' = snd (consumeReservations sha (a_tenantId input) man now (map_values (reservations st1)) st1)"
      by simp
    have "map_get (reservations st) k = Some r \<Longrightarrow> k \<in> set (map r_id (map_values (reservations st)))" for r
      using wf map_all_get map_all_member by (fastforce simp: store_wf_def reservation_ok_def image_iff)
    then show ?thesis
      using consume_result [OF wf1 map_values_ids(2) [OF wf1] map_values_ids(1) [OF wf1], of "a_tenantId input" man now k]
      by (auto simp: st' r1 Some split: option.split)
  qed
qed

end
