(* ===== verification/CommitmentInvariants.thy ===== *)
theory CommitmentInvariants
  imports Movement
begin

text \<open>
  Conservation of committed authority. A pool is one holder's authority over one right of one
  resource (a position key). What constrains a pool and what stands committed against it never
  exceeds what its position holds, along every run in which: the clock does not go back;
  commitments and constraints take effect when they are recorded; only the two actions that
  commit authority reserve it; a handoff names the mandate it runs under; a movement spends a
  commitment that covers it; derived identifiers do not collide; and quantities stay within the
  safe integers.
\<close>

section \<open>Pools\<close>

definition pool_resource :: "GovernedAuthorityPositionKey \<Rightarrow> GovernedAuthorityResourceRef" where
  "pool_resource k = \<lparr>rr_kind = pk_resourceKind k, rr_id = pk_resourceId k\<rparr>"

definition res_over :: "GovernedAuthorityPositionKey \<Rightarrow> GovernedAuthorityReservation \<Rightarrow> bool" where
  "res_over k = reservationOver (pk_tenantId k) (pk_actorRef k) (pool_resource k) (pk_governedRight k)"

definition enc_over :: "GovernedAuthorityPositionKey \<Rightarrow> GovernedAuthorityEncumbrance \<Rightarrow> bool" where
  "enc_over k = encumbranceOver (pk_tenantId k) (pk_actorRef k) (pool_resource k) (pk_governedRight k)"

definition res_pool :: "GovernedAuthorityReservation \<Rightarrow> GovernedAuthorityPositionKey" where
  "res_pool r = \<lparr>pk_tenantId = r_tenantId r, pk_actorRef = r_holderRef r,
     pk_resourceKind = r_resourceKind r, pk_resourceId = r_resourceId r,
     pk_governedRight = r_governedRight r\<rparr>"

definition enc_pool :: "GovernedAuthorityEncumbrance \<Rightarrow> GovernedAuthorityPositionKey" where
  "enc_pool e = \<lparr>pk_tenantId = e_tenantId e, pk_actorRef = e_holderRef e,
     pk_resourceKind = e_resourceKind e, pk_resourceId = e_resourceId e,
     pk_governedRight = e_governedRight e\<rparr>"

lemma res_over_iff: "res_over k r \<longleftrightarrow> k = res_pool r"
  by (cases k) (auto simp: res_over_def reservationOver_def res_pool_def pool_resource_def)

lemma enc_over_iff: "enc_over k e \<longleftrightarrow> k = enc_pool e"
  by (cases k) (auto simp: enc_over_def encumbranceOver_def enc_pool_def pool_resource_def)

lemma reservationOver_key: "reservationOver ten holder res right = res_over (positionKey ten holder res right)"
  by (cases res) (simp add: res_over_def pool_resource_def positionKey_def)

lemma encumbranceOver_key: "encumbranceOver ten holder res right = enc_over (positionKey ten holder res right)"
  by (cases res) (simp add: enc_over_def pool_resource_def positionKey_def)

definition pool_reservations :: "auth_store \<Rightarrow> GovernedAuthorityPositionKey \<Rightarrow> GovernedAuthorityReservation list" where
  "pool_reservations st k = sort_by_id r_id (filter (res_over k) (map_values (reservations st)))"

definition pool_encumbrances :: "auth_store \<Rightarrow> GovernedAuthorityPositionKey \<Rightarrow> GovernedAuthorityEncumbrance list" where
  "pool_encumbrances st k = sort_by_id e_id (filter (enc_over k) (map_values (encumbrances st)))"

section \<open>Totals of a pool\<close>

definition enc_amount :: "GovernedAuthorityPositionKey \<Rightarrow> string \<Rightarrow> GovernedAuthorityEncumbrance \<Rightarrow> int" where
  "enc_amount k t e =
     (if enc_over k e \<and> governedAuthorityEncumbranceConstrains e t then amount (e_scope e) else 0)"

definition carved_amount :: "GovernedAuthorityPositionKey \<Rightarrow> string \<Rightarrow> string \<Rightarrow> GovernedAuthorityEncumbrance \<Rightarrow> int" where
  "carved_amount k t man e = (if e_sourceMandateRef e = man then enc_amount k t e else 0)"

definition pool_constrained :: "auth_store \<Rightarrow> GovernedAuthorityPositionKey \<Rightarrow> string \<Rightarrow> int" where
  "pool_constrained st k t = map_total (enc_amount k t) (encumbrances st)"

definition pool_carved :: "auth_store \<Rightarrow> GovernedAuthorityPositionKey \<Rightarrow> string \<Rightarrow> string \<Rightarrow> int" where
  "pool_carved st k t man = map_total (carved_amount k t man) (encumbrances st)"

definition res_amount :: "auth_store \<Rightarrow> GovernedAuthorityPositionKey \<Rightarrow> string \<Rightarrow> GovernedAuthorityReservation \<Rightarrow> int" where
  "res_amount st k t r =
     (if res_over k r \<and> governedAuthorityReservationReducesAvailability r t
      then max 0 (amount (r_scope r) - pool_carved st k t (r_sourceMandateRef r)) else 0)"

definition pool_committed :: "auth_store \<Rightarrow> GovernedAuthorityPositionKey \<Rightarrow> string \<Rightarrow> int" where
  "pool_committed st k t = map_total (res_amount st k t) (reservations st)"

lemma res_amount_nonneg: "0 \<le> res_amount st k t r"
  by (simp add: res_amount_def)

text \<open>The lists the store reads have exactly these totals.\<close>

lemma constrained_pool: "constrainedAmount (pool_encumbrances st k) t = pool_constrained st k t"
  unfolding constrainedAmount_def pool_encumbrances_def sum_sort_by_id pool_constrained_def map_total_def
  unfolding sum_list_filter_indicator enc_amount_def
  by (rule arg_cong [where f = sum_list]) simp

lemma residual_pool:
  assumes "res_over k r"
  shows "residualAmount r (pool_encumbrances st k) t = res_amount st k t r"
proof -
  have "constrainedAmount (carvedOutOf r (pool_encumbrances st k)) t = pool_carved st k t (r_sourceMandateRef r)"
  proof -
    have r: "r_governedRight r = pk_governedRight k"
      using assms by (simp add: res_over_def reservationOver_def)
    have "constrainedAmount (carvedOutOf r (pool_encumbrances st k)) t =
        sum_list (map (\<lambda>e. if e_sourceMandateRef e = r_sourceMandateRef r \<and> e_governedRight e = r_governedRight r
          then (if governedAuthorityEncumbranceConstrains e t then amount (e_scope e) else 0) else 0)
          (pool_encumbrances st k))"
      unfolding constrainedAmount_def carvedOutOf_def by (rule sum_list_filter_indicator)
    also have "\<dots> = pool_carved st k t (r_sourceMandateRef r)"
      unfolding pool_encumbrances_def sum_sort_by_id sum_list_filter_indicator pool_carved_def map_total_def
      by (rule arg_cong [where f = sum_list])
        (auto simp: carved_amount_def enc_amount_def enc_over_def encumbranceOver_def r)
    finally show ?thesis .
  qed
  with assms show ?thesis by (simp add: residualAmount_def res_amount_def)
qed

lemma committed_pool:
  "committedAmount (pool_reservations st k) (pool_encumbrances st k) t = pool_committed st k t"
proof -
  have "committedAmount (pool_reservations st k) (pool_encumbrances st k) t =
      sum_list (map (res_amount st k t) (filter (res_over k) (map_values (reservations st))))"
    unfolding committedAmount_def pool_reservations_def sum_sort_by_id
    by (rule arg_cong [where f = sum_list]) (simp add: residual_pool)
  also have "\<dots> = pool_committed st k t"
    unfolding sum_list_filter_indicator pool_committed_def map_total_def
    by (rule arg_cong [where f = sum_list]) (simp add: res_amount_def)
  finally show ?thesis .
qed

text \<open>The reads of a pool, on a well-formed store.\<close>

lemma read_pool:
  assumes "store_wf sha st"
  shows "readReservationsFor sha st ten holder res right = Inr (pool_reservations st (positionKey ten holder res right))"
    and "readEncumbrancesFor sha st ten holder res right = Inr (pool_encumbrances st (positionKey ten holder res right))"
  by (simp_all add: readReservationsFor_total [OF assms] readEncumbrancesFor_total [OF assms]
      pool_reservations_def pool_encumbrances_def reservationOver_key encumbranceOver_key)

lemma pool_valid:
  assumes "store_wf sha st"
  shows "valid_reservations (pool_reservations st k)" and "valid_encumbrances (pool_encumbrances st k)"
  using wf_reservation_value [OF assms] wf_encumbrance_value [OF assms]
  by (auto simp: valid_reservations_def valid_encumbrances_def pool_reservations_def pool_encumbrances_def
      reservation_ok_def encumbrance_ok_def)

section \<open>Covered pools\<close>

text \<open>
  The instant of the accounting is the store's clock. A pool is covered when what its position
  holds is at least what constrains it and what stands committed against it.
\<close>

definition covered :: "auth_store \<Rightarrow> string \<Rightarrow> bool" where
  "covered st t \<longleftrightarrow> (\<forall>k. pool_constrained st k t + pool_committed st k t \<le> held_at st k)"

definition safe_positions :: "auth_store \<Rightarrow> bool" where
  "safe_positions st \<longleftrightarrow> (\<forall>p \<in> set (map_values (positions st)). amount (p_scope p) \<le> MAX_SAFE_INTEGER)"

lemma held_position:
  assumes "store_wf sha st" and "readPosition sha st k = Inr (Some p)"
  shows "held_at st k = amount (p_scope p)" and "0 \<le> amount (p_scope p)"
    and "p \<in> set (map_values (positions st))"
proof -
  note w = readPosition_wf [OF assms]
  show "held_at st k = amount (p_scope p)" using w(2) by (simp add: held_at_def scope_at_def)
  show "0 \<le> amount (p_scope p)" using w(3) by (simp add: position_ok_def)
  show "p \<in> set (map_values (positions st))"
    using map_all_member [of "position_ok sha" "positions st"] w(2) assms(1) by (auto simp: store_wf_def)
qed

lemma enc_amount_nonneg:
  "store_wf sha st \<Longrightarrow> e \<in> set (map_values (encumbrances st)) \<Longrightarrow> 0 \<le> enc_amount k t e"
  using wf_encumbrance_value by (fastforce simp: enc_amount_def encumbrance_ok_def valid_scope_def)

lemma pool_carved_nonneg: "store_wf sha st \<Longrightarrow> 0 \<le> pool_carved st k t man"
  unfolding pool_carved_def
  by (rule map_total_nonneg) (simp add: carved_amount_def enc_amount_nonneg)

lemma pool_constrained_nonneg: "store_wf sha st \<Longrightarrow> 0 \<le> pool_constrained st k t"
  unfolding pool_constrained_def by (rule map_total_nonneg) (simp add: enc_amount_nonneg)

lemma pool_committed_nonneg: "0 \<le> pool_committed st k t"
  unfolding pool_committed_def by (rule map_total_nonneg) (simp add: res_amount_nonneg)

lemma res_amount_le:
  assumes "store_wf sha st" and "0 \<le> amount (r_scope r)"
  shows "res_amount st k t r \<le> (if res_over k r then amount (r_scope r) else 0)"
  using pool_carved_nonneg [OF assms(1), of k t "r_sourceMandateRef r"] assms(2)
  by (simp add: res_amount_def)

lemma pool_cong:
  assumes "reservations st' = reservations st" and "encumbrances st' = encumbrances st"
  shows "pool_constrained st' k t = pool_constrained st k t"
    and "pool_committed st' k t = pool_committed st k t"
    and "res_amount st' k t = res_amount st k t"
    and "pool_carved st' k t man = pool_carved st k t man"
  by (simp_all add: pool_constrained_def pool_committed_def res_amount_def [abs_def] pool_carved_def assms cong: if_cong)

lemma held_cong: "positions st' = positions st \<Longrightarrow> held_at st' k = held_at st k"
  by (simp add: held_at_def scope_at_def)

text \<open>Writing one reservation.\<close>

lemma committed_put_reservation:
  "pool_committed (put_reservation_in st r) k t =
     pool_committed st k t
     - (case map_get (reservations st) (r_id r) of None \<Rightarrow> 0 | Some old \<Rightarrow> res_amount st k t old)
     + res_amount st k t r"
  "pool_constrained (put_reservation_in st r) k t = pool_constrained st k t"
  "held_at (put_reservation_in st r) k = held_at st k"
proof -
  have "res_amount (put_reservation_in st r) k t = res_amount st k t"
    by (simp add: res_amount_def [abs_def] pool_carved_def put_reservation_in_def cong: if_cong)
  then show "pool_committed (put_reservation_in st r) k t =
     pool_committed st k t
     - (case map_get (reservations st) (r_id r) of None \<Rightarrow> 0 | Some old \<Rightarrow> res_amount st k t old)
     + res_amount st k t r"
    by (simp add: pool_committed_def put_reservation_in_def map_total_set split: option.splits)
qed (simp_all add: pool_constrained_def put_reservation_in_def held_at_def scope_at_def)

section \<open>Acquisition\<close>

lemma acquire_unchanged:
  assumes "acquireReservation sha now context input st = (res, st')" and "\<nexists>r. res = Inr (Reserved r False)"
  shows "st' = st"
  using assms
  by (auto simp: acquireReservation_def acquireDecide_def attempt_def putReservation_eq
      split: option.splits sum.splits if_splits GovernedAuthorityAvailability.splits)

lemma acquire_new:
  assumes wf: "store_wf sha st"
    and ret: "acquireReservation sha now context input st = (Inr (Reserved r False), st')"
  obtains p cm en a g ap where
    "acquireGuards now context input = Inr now"
    "findReservationForMandate st (q_tenantId input) (q_sourceMandateRef input) (q_governedRight input) = None"
    "findReservationByKey st (q_tenantId input) (reservationKeyOf input) = None"
    "r = seal_reservation sha (acquiredReservation sha input now)" "st' = put_reservation_in st r"
    "readPosition sha st (positionKey (q_tenantId input) (q_holderRef input) (q_resource input) (q_governedRight input)) = Inr (Some p)"
    "applicableGovernedConstraintsFor (q_action input)
       \<lparr>cq_tenantId = q_tenantId input, cq_holderRef = q_holderRef input, cq_resource = q_resource input,
        cq_governedRight = q_governedRight input, cq_at = now\<rparr>
       (pool_encumbrances st (positionKey (q_tenantId input) (q_holderRef input) (q_resource input) (q_governedRight input)))
       = Inr (g, ap)"
    "computeActionCapacity (Some p)
       (pool_reservations st (positionKey (q_tenantId input) (q_holderRef input) (q_resource input) (q_governedRight input)))
       (pool_encumbrances st (positionKey (q_tenantId input) (q_holderRef input) (q_resource input) (q_governedRight input)))
       ap now = Available (p_id p) (p_scope p) cm en a"
    "governedRightsScopeWithin (q_scope input) a"
proof -
  let ?k = "positionKey (q_tenantId input) (q_holderRef input) (q_resource input) (q_governedRight input)"
  obtain rec where g: "acquireGuards now context input = Inr rec"
    using ret by (auto simp: acquireReservation_def outcome_simps)
  then have rec: "rec = now" by (simp add: acquireGuards_Inr)
  have none: "findReservationByKey st (q_tenantId input) (reservationKeyOf input) = None"
    "findReservationForMandate st (q_tenantId input) (q_sourceMandateRef input) (q_governedRight input) = None"
    using ret g by (auto simp: acquireReservation_def outcome_simps split: option.splits if_splits)
  obtain av where av: "acquireAvailability sha st input now = Inr av"
    and dec: "acquireDecide sha input now av st = (Inr (Reserved r False), st')"
    using ret g none by (auto simp: acquireReservation_def outcome_simps rec)
  from dec obtain i h cm en a where av': "av = Available i h cm en a"
    and within: "governedRightsScopeWithin (q_scope input) a"
    and r: "r = seal_reservation sha (acquiredReservation sha input now)" "st' = put_reservation_in st r"
    by (auto simp: acquireDecide_def putReservation_eq split: GovernedAuthorityAvailability.splits if_splits)
  from av obtain pos g ap where read: "readPosition sha st ?k = Inr pos"
    and app: "applicableGovernedConstraintsFor (q_action input)
       \<lparr>cq_tenantId = q_tenantId input, cq_holderRef = q_holderRef input, cq_resource = q_resource input,
        cq_governedRight = q_governedRight input, cq_at = now\<rparr> (pool_encumbrances st ?k) = Inr (g, ap)"
    and cap: "computeActionCapacity pos (pool_reservations st ?k) (pool_encumbrances st ?k) ap now = Available i h cm en a"
    by (auto simp: acquireAvailability_def outcome_simps read_pool [OF wf] av')
  from cap obtain p where p: "pos = Some p" by (cases pos) (auto simp: computeActionCapacity_def)
  have ih: "i = p_id p" "h = p_scope p"
    using cap by (auto simp: p computeActionCapacity_def capacityAfterEncumbrances_def Let_def
        split: sum_total.splits sum.splits if_splits)
  show ?thesis
    by (rule that [OF g [unfolded rec] none(2) none(1) r read [unfolded p] app cap [unfolded p ih] within])
qed

lemma pool_bound: "\<forall>e \<in> set (pool_encumbrances st (positionKey ten h res right)).
    boundTo \<lparr>cq_tenantId = ten, cq_holderRef = h, cq_resource = res, cq_governedRight = right, cq_at = t\<rparr> e"
  by (auto simp: pool_encumbrances_def boundTo_def enc_over_def encumbranceOver_def pool_resource_def positionKey_def)

text \<open>
  What the capacity check on a pool establishes, for the actions that commit authority: the
  available quantity is what is held, less what constrains and what stands committed.
\<close>

lemma pool_capacity:
  assumes wf: "store_wf sha st" and safe: "safe_positions st"
    and k: "k = positionKey ten h res right" and read: "readPosition sha st k = Inr (Some p)"
    and app: "applicableGovernedConstraintsFor action
       \<lparr>cq_tenantId = ten, cq_holderRef = h, cq_resource = res, cq_governedRight = right, cq_at = t\<rparr>
       (pool_encumbrances st k) = Inr (g, ap)"
    and action: "action \<in> {''transfer'', ''collateralize''}"
    and cap: "computeActionCapacity (Some p) rs (pool_encumbrances st k) ap t = Available i hl cm en a"
    and rs: "set rs \<subseteq> set (pool_reservations st k)"
  shows "unit_of a = unit_of (p_scope p)"
    and "amount a = held_at st k - pool_constrained st k t - committedAmount rs (pool_encumbrances st k) t"
    and "0 \<le> amount a"
proof -
  have bound: "\<forall>e \<in> set (pool_encumbrances st k).
      boundTo \<lparr>cq_tenantId = ten, cq_holderRef = h, cq_resource = res, cq_governedRight = right, cq_at = t\<rparr> e"
    unfolding k by (rule pool_bound)
  note com = committing_action_applicable [OF app action bound]
  have ap: "valid_encumbrances ap"
    using pool_valid(2) [OF wf, of k] com by (auto simp: valid_encumbrances_def)
  have rs': "valid_reservations rs"
    using pool_valid(1) [OF wf, of k] rs by (auto simp: valid_reservations_def)
  note hp = held_position [OF wf read]
  have "amount (p_scope p) \<le> MAX_SAFE_INTEGER" using safe hp(3) by (simp add: safe_positions_def)
  note ex = action_capacity_exact [OF cap rs' pool_valid(2) [OF wf] ap hp(2) this]
  show "unit_of a = unit_of (p_scope p)" and "0 \<le> amount a" using ex by auto
  show "amount a = held_at st k - pool_constrained st k t - committedAmount rs (pool_encumbrances st k) t"
    using ex com hp(1) constrained_pool [of st k t] by simp
qed

lemma acquire_covered:
  assumes wf: "store_wf sha st" and safe: "safe_positions st" and cov: "covered st now"
    and action: "q_action input \<in> {''transfer'', ''collateralize''}"
  shows "covered (snd (acquireReservation sha now context input st)) now"
proof (cases "\<exists>r. fst (acquireReservation sha now context input st) = Inr (Reserved r False)")
  case False
  then have "snd (acquireReservation sha now context input st) = st"
    by (intro acquire_unchanged [OF prod.collapse [symmetric]]) auto
  with cov show ?thesis by simp
next
  case True
  then obtain r st' where ret: "acquireReservation sha now context input st = (Inr (Reserved r False), st')"
    by (metis prod.collapse)
  let ?k = "positionKey (q_tenantId input) (q_holderRef input) (q_resource input) (q_governedRight input)"
  from acquire_new [OF wf ret] obtain p cm en a g ap where
    guards: "acquireGuards now context input = Inr now" and
    r: "r = seal_reservation sha (acquiredReservation sha input now)" "st' = put_reservation_in st r" and
    read: "readPosition sha st ?k = Inr (Some p)" and
    app: "applicableGovernedConstraintsFor (q_action input)
       \<lparr>cq_tenantId = q_tenantId input, cq_holderRef = q_holderRef input, cq_resource = q_resource input,
        cq_governedRight = q_governedRight input, cq_at = now\<rparr> (pool_encumbrances st ?k) = Inr (g, ap)" and
    cap: "computeActionCapacity (Some p) (pool_reservations st ?k) (pool_encumbrances st ?k) ap now
       = Available (p_id p) (p_scope p) cm en a" and
    within: "governedRightsScopeWithin (q_scope input) a" by metis
  have amt: "amount a = held_at st ?k - pool_constrained st ?k now - pool_committed st ?k now"
    using pool_capacity(2) [OF wf safe refl read app action cap] by (simp add: committed_pool)
  have "pool_constrained st' k now + pool_committed st' k now \<le> held_at st' k" for k
  proof -
    have old: "0 \<le> (case map_get (reservations st) (r_id r) of None \<Rightarrow> 0 | Some old \<Rightarrow> res_amount st k now old)"
      by (simp add: res_amount_nonneg split: option.splits)
    have scope: "r_scope r = q_scope input" "res_pool r = ?k"
      by (simp_all add: r(1) seal_reservation_def acquiredReservation_def res_pool_def positionKey_def)
    have "res_amount st k now r \<le> (if k = ?k then amount (q_scope input) else 0)"
      using res_amount_le [OF wf, of r k now] guards
      by (auto simp: scope res_over_iff acquireGuards_Inr valid_scope_def)
    with old have "pool_committed st' k now \<le>
        pool_committed st k now + (if k = ?k then amount (q_scope input) else 0)"
      by (simp add: r(2) committed_put_reservation)
    moreover have "pool_constrained st k now + pool_committed st k now \<le> held_at st k"
      using cov by (simp add: covered_def)
    moreover have "amount (q_scope input) \<le> amount a" using within by (simp add: within_iff)
    ultimately show ?thesis using amt by (cases "k = ?k") (simp_all add: r(2) committed_put_reservation)
  qed
  then show ?thesis by (simp add: covered_def ret)
qed

section \<open>Ending a commitment\<close>

lemma inactive_amount:
  "r_status r \<noteq> RsActive \<Longrightarrow> res_amount st k t r = 0"
  by (simp add: res_amount_def governedAuthorityReservationReducesAvailability_def
      governedAuthorityReservationState_def split: GovernedAuthorityReservationStatus.splits)

lemma ended_pools:
  assumes "r_status r \<noteq> RsActive"
  shows "pool_committed (put_reservation_in st r) k t \<le> pool_committed st k t"
proof -
  have "0 \<le> (case map_get (reservations st) (r_id r) of None \<Rightarrow> 0 | Some old \<Rightarrow> res_amount st k t old)"
    by (simp add: res_amount_nonneg split: option.splits)
  then show ?thesis by (simp add: committed_put_reservation inactive_amount [OF assms])
qed

text \<open>A change of a store that holds no less and commits no more, in every pool.\<close>

definition relaxes :: "string \<Rightarrow> auth_store \<Rightarrow> auth_store \<Rightarrow> bool" where
  "relaxes t st st' \<longleftrightarrow> positions st' = positions st \<and> encumbrances st' = encumbrances st \<and>
     (\<forall>k. pool_committed st' k t \<le> pool_committed st k t)"

lemma relaxes_refl: "relaxes t st st"
  by (simp add: relaxes_def)

lemma relaxes_trans: "relaxes t a b \<Longrightarrow> relaxes t b c \<Longrightarrow> relaxes t a c"
  by (auto simp: relaxes_def intro: order_trans)

lemma relaxes_covered:
  assumes "relaxes t st st'" and "covered st t"
  shows "covered st' t"
  unfolding covered_def
proof
  fix k
  have "pool_constrained st k t + pool_committed st k t \<le> held_at st k"
    using assms(2) by (simp add: covered_def)
  moreover have "pool_committed st' k t \<le> pool_committed st k t" "positions st' = positions st"
    "pool_constrained st' k t = pool_constrained st k t"
    using assms(1) by (simp_all add: relaxes_def pool_constrained_def)
  ultimately show "pool_constrained st' k t + pool_committed st' k t \<le> held_at st' k"
    using held_cong [of st' st k] by simp
qed

lemma relaxes_end:
  assumes "r_status r \<noteq> RsActive"
  shows "relaxes t st (put_reservation_in st r)"
  using ended_pools [OF assms] by (simp add: relaxes_def put_reservation_in_def)

lemma seal_reservation_status [simp]: "r_status (seal_reservation sha r) = r_status r"
  by (simp add: seal_reservation_def)

lemma handOff_relaxes: "store_wf sha st \<Longrightarrow> relaxes t st (snd (handOff sha es rec ids st))"
proof (induction ids arbitrary: st)
  case (Cons i ids)
  show ?case
  proof (cases "map_get (reservations st) i")
    case (Some r)
    have ok: "reservation_ok sha (r_id r) r"
      using Some Cons.prems map_all_get by (fastforce simp: store_wf_def reservation_ok_def)
    let ?st = "put_reservation_in st (seal_reservation sha (r\<lparr>r_status := RsEncumbered, r_updatedAt := rec\<rparr>))"
    have "store_wf sha ?st"
      using reservation_ok_status [OF ok] by (intro put_reservation_wf Cons.prems) simp
    then have "relaxes t ?st (snd (handOff sha es rec ids ?st))" by (rule Cons.IH)
    moreover have "relaxes t st ?st" by (rule relaxes_end) simp
    ultimately have "relaxes t st (snd (handOff sha es rec ids ?st))" by (blast intro: relaxes_trans)
    with Cons Some ok show ?thesis
      by (auto simp: reservation_ok_def reservation_seal.verify_intact putReservation_eq split: sum_total.splits)
  qed (use Cons in simp)
qed (simp add: relaxes_refl)

lemma releaseReservation_relaxes:
  "relaxes t st (snd (releaseReservation sha now context input st))"
  by (auto simp: releaseReservation_def attempt_def reservation_seal.verify_Inr putReservation_eq relaxes_refl
      split: option.splits sum.splits GovernedAuthorityReservationStatus.splits intro!: relaxes_end)

lemma releaseReservation_covered:
  "covered st t \<Longrightarrow> covered (snd (releaseReservation sha now context input st)) t"
  by (rule relaxes_covered [OF releaseReservation_relaxes])

section \<open>Recording a constraint\<close>

lemma encumber_unchanged:
  assumes wf: "store_wf sha st"
    and "recordEncumbrance sha now context input st = (res, st')" and "\<nexists>e. res = Inr (Encumbered e False)"
  shows "st' = st"
proof -
  have wf1: "encumberGuards now context input = Inr rec \<Longrightarrow>
      store_wf sha (put_encumbrance_in st (seal_encumbrance sha (recordedEncumbrance sha input rec sur)))" for rec sur
    using recorded_ok [of now "context" input rec sha sur]
    by (intro put_encumbrance_wf [OF wf]) (simp add: recordedEncumbrance_def)
  show ?thesis
    using assms(2,3) handOff_wf [OF wf1] read_pool [OF wf1]
    by (auto simp: recordEncumbrance_def encumberPosition_def attempt_def putEncumbrance_eq Let_def
        split: option.splits sum.splits if_splits prod.splits) (metis Inr_not_Inl fst_conv)+
qed

lemma encumber_new:
  assumes wf: "store_wf sha st" and k: "k = positionKey (n_tenantId input) (n_holderRef input) (n_resource input) (n_governedRight input)"
    and ret: "recordEncumbrance sha now context input st = (Inr (Encumbered e False), st')"
  obtains p i h cm en a g ap where
    "encumberGuards now context input = Inr now"
    "e = seal_encumbrance sha (recordedEncumbrance sha input now (surrenderedIds input (pool_reservations st k)))"
    "readPosition sha st k = Inr (Some p)"
    "applicableGovernedConstraintsFor (n_sourceAction input)
       \<lparr>cq_tenantId = n_tenantId input, cq_holderRef = n_holderRef input, cq_resource = n_resource input,
        cq_governedRight = n_governedRight input, cq_at = now\<rparr> (pool_encumbrances st k) = Inr (g, ap)"
    "computeActionCapacity (Some p)
       (filter (\<lambda>r. r_id r \<notin> set (surrenderedIds input (pool_reservations st k))) (pool_reservations st k))
       (pool_encumbrances st k) ap now = Available i h cm en a"
    "governedRightsScopeWithin (n_scope input) a"
    "store_wf sha (put_encumbrance_in st e)"
    "st' = put_encumbrance_in st e \<or> (\<exists>es. st' = snd (handOff sha es now
       (surrenderedIds input (pool_reservations st k)) (put_encumbrance_in st e)))"
proof -
  obtain rec where "encumberGuards now context input = Inr rec"
    using ret by (auto simp: recordEncumbrance_def outcome_simps)
  then have g: "encumberGuards now context input = Inr now" by (simp add: encumberGuards_Inr)
  have none: "findEncumbranceByKey st (n_tenantId input) (encumbranceKeyOf input) = None"
    using ret g by (auto simp: recordEncumbrance_def outcome_simps split: option.splits if_splits)
  obtain p where read: "readPosition sha st k = Inr (Some p)"
    and pos: "encumberPosition sha input now p st = (Inr (Encumbered e False), st')"
    using ret g none by (auto simp: recordEncumbrance_def outcome_simps k split: option.splits if_splits)
  note rp = read_pool [OF wf, of "n_tenantId input" "n_holderRef input" "n_resource input" "n_governedRight input", folded k]
  from pos obtain av where cap: "encumberCapacity input now p (pool_reservations st k) (pool_encumbrances st k) = Inr av"
    and ref: "encumberRefusal input av = Inr ()"
    by (auto simp: encumberPosition_def rp outcome_simps)
  let ?e = "seal_encumbrance sha (recordedEncumbrance sha input now (surrenderedIds input (pool_reservations st k)))"
  have wf1: "store_wf sha (put_encumbrance_in st ?e)"
    using recorded_ok [OF g, of sha]
    by (intro put_encumbrance_wf [OF wf]) (simp add: recordedEncumbrance_def)
  let ?sur = "surrenderedIds input (pool_reservations st k)"
  let ?st1 = "put_encumbrance_in st ?e"
  obtain st2 where hand: "handOff sha (pool_encumbrances ?st1 k) now ?sur ?st1 = (Inr (), st2)"
    and rel: "st2 = snd (handOff sha (pool_encumbrances ?st1 k) now ?sur ?st1)"
    using handOff_wf [OF wf1, of "pool_encumbrances ?st1 k" now ?sur]
    by (cases "handOff sha (pool_encumbrances ?st1 k) now ?sur ?st1") auto
  have "encumberPosition sha input now p st =
      (Inr (Encumbered ?e False), if n_consumesReservationsForMandateRef input = None then ?st1 else st2)"
    using cap ref hand by (simp add: encumberPosition_def rp read_pool [OF wf1, of "n_tenantId input" "n_holderRef input" "n_resource input" "n_governedRight input", folded k] putEncumbrance_eq Let_def)
  with pos rel have e: "e = ?e"
    and st': "st' = ?st1 \<or> (\<exists>es. st' = snd (handOff sha es now ?sur ?st1))"
    by (auto split: if_splits)
  from ref obtain i h cm en a where av: "av = Available i h cm en a" and within: "governedRightsScopeWithin (n_scope input) a"
    by (cases av) (auto simp: encumberRefusal_def Let_def split: if_splits)
  from cap obtain gg ap where app: "applicableGovernedConstraintsFor (n_sourceAction input)
       \<lparr>cq_tenantId = n_tenantId input, cq_holderRef = n_holderRef input, cq_resource = n_resource input,
        cq_governedRight = n_governedRight input, cq_at = now\<rparr> (pool_encumbrances st k) = Inr (gg, ap)"
    and c: "computeActionCapacity (Some p)
       (filter (\<lambda>r. r_id r \<notin> set (surrenderedIds input (pool_reservations st k))) (pool_reservations st k))
       (pool_encumbrances st k) ap now = av"
    by (auto simp: encumberCapacity_def outcome_simps)
  show ?thesis by (rule that [OF g e read app c [unfolded av] within wf1 [folded e] st' [folded e]])
qed


text \<open>Writing a fresh constraint.\<close>

lemma put_encumbrance_pools:
  assumes "map_get (encumbrances st) (e_id e) = None"
  shows "pool_constrained (put_encumbrance_in st e) k t = pool_constrained st k t + enc_amount k t e"
    and "pool_carved (put_encumbrance_in st e) k t man = pool_carved st k t man + carved_amount k t man e"
    and "pool_reservations (put_encumbrance_in st e) k = pool_reservations st k"
    and "held_at (put_encumbrance_in st e) k = held_at st k"
  using assms
  by (simp_all add: pool_constrained_def pool_carved_def pool_reservations_def put_encumbrance_in_def
      map_total_set held_at_def scope_at_def)

lemma committed_list: "pool_committed st k t = sum_list (map (res_amount st k t) (pool_reservations st k))"
  unfolding committed_pool [symmetric] committedAmount_def
  by (rule arg_cong [where f = sum_list]) (auto simp: residual_pool pool_reservations_def)

lemma committed_sublist:
  "committedAmount (filter P (pool_reservations st k)) (pool_encumbrances st k) t =
     sum_list (map (res_amount st k t) (filter P (pool_reservations st k)))"
  unfolding committedAmount_def
  by (rule arg_cong [where f = sum_list]) (auto simp: residual_pool pool_reservations_def)

lemma sum_list_partition:
  "sum_list (map f xs) = sum_list (map f (filter P xs)) + sum_list (map (f :: 'a \<Rightarrow> int) (filter (\<lambda>x. \<not> P x) xs))"
  by (induction xs) auto

text \<open>One authorization stands as at most one reservation of each right.\<close>

definition mandate_unique :: "auth_store \<Rightarrow> bool" where
  "mandate_unique st \<longleftrightarrow> (\<forall>r \<in> set (map_values (reservations st)). \<forall>r' \<in> set (map_values (reservations st)).
     r_tenantId r = r_tenantId r' \<and> r_sourceMandateRef r = r_sourceMandateRef r' \<and>
     r_governedRight r = r_governedRight r' \<longrightarrow> r_id r = r_id r')"

lemma pool_ids:
  assumes "store_wf sha st"
  shows "distinct (map r_id (pool_reservations st k))"
proof -
  have "distinct (map r_id (filter (res_over k) (map_values (reservations st))))"
    using map_values_ids(1) [OF assms] by (rule distinct_map_filter)
  moreover have "mset (map r_id (pool_reservations st k)) = mset (map r_id (filter (res_over k) (map_values (reservations st))))"
    by (simp add: pool_reservations_def)
  ultimately show ?thesis by (metis mset_eq_imp_distinct_iff)
qed

lemma surrendered_at_most_one:
  assumes wf: "store_wf sha st" and uniq: "mandate_unique st"
    and k: "k = positionKey (n_tenantId input) (n_holderRef input) (n_resource input) (n_governedRight input)"
    and man: "n_consumesReservationsForMandateRef input = Some man"
  obtains "filter (\<lambda>r. r_id r \<in> set (surrenderedIds input (pool_reservations st k))) (pool_reservations st k) = []"
  | r0 where "filter (\<lambda>r. r_id r \<in> set (surrenderedIds input (pool_reservations st k))) (pool_reservations st k) = [r0]"
      "r_sourceMandateRef r0 = man" "res_over k r0"
proof -
  let ?rs = "pool_reservations st k"
  let ?fs = "filter (\<lambda>r. r_id r \<in> set (surrenderedIds input ?rs)) ?rs"
  have mem: "r_sourceMandateRef r = man \<and> res_over k r \<and> r \<in> set (map_values (reservations st))"
    if "r \<in> set ?fs" for r
  proof -
    from that obtain r' where "r' \<in> set ?rs" "r_id r' = r_id r" "r_sourceMandateRef r' = man" and r: "r \<in> set ?rs"
      by (auto simp: surrenderedIds_def man)
    then have "r' = r" using pool_ids [OF wf, of k] by (auto simp: distinct_map inj_on_def)
    with r \<open>r_sourceMandateRef r' = man\<close> show ?thesis by (auto simp: pool_reservations_def)
  qed
  have one: "r_id r = r_id r'" if "r \<in> set ?fs" "r' \<in> set ?fs" for r r'
    using mem [OF that(1)] mem [OF that(2)] uniq
    by (auto simp: mandate_unique_def res_over_def reservationOver_def)
  have dist: "distinct (map r_id ?fs)" using pool_ids [OF wf] by (rule distinct_map_filter)
  show thesis
  proof (cases ?fs)
    case Nil
    then show thesis by (rule that(1))
  next
    case (Cons r0 rs)
    have "rs = []"
    proof (cases rs)
      case (Cons r1 rs')
      with \<open>?fs = r0 # rs\<close> have "r_id r0 \<noteq> r_id r1" and "r0 \<in> set ?fs" "r1 \<in> set ?fs" using dist by auto
      with one show ?thesis by blast
    qed
    with Cons have "?fs = [r0]" by simp
    moreover have "r0 \<in> set ?fs" using Cons by simp
    ultimately show thesis using mem that(2) by blast
  qed
qed

text \<open>
  A reservation's residual after the constraint: never more than before; and for a reservation
  of the constraint's own mandate, constraint and residual together are no more than the larger
  of the constraint and the old residual.
\<close>

lemma res_amount_encumbered:
  assumes fresh: "map_get (encumbrances st) (e_id e) = None" and e: "0 \<le> amount (e_scope e)"
  shows "res_amount (put_encumbrance_in st e) k t r \<le> res_amount st k t r"
    and "r_sourceMandateRef r = e_sourceMandateRef e \<Longrightarrow>
      enc_amount k t e + res_amount (put_encumbrance_in st e) k t r \<le> max (amount (e_scope e)) (res_amount st k t r)"
  using e by (auto simp: res_amount_def put_encumbrance_pools [OF fresh] carved_amount_def enc_amount_def max_def)

lemma encumber_put_covered:
  assumes wf: "store_wf sha st" and cov: "covered st t" and uniq: "mandate_unique st"
    and k: "k0 = positionKey (n_tenantId input) (n_holderRef input) (n_resource input) (n_governedRight input)"
    and fresh: "map_get (encumbrances st) (e_id e) = None"
    and e: "enc_pool e = k0" "e_sourceMandateRef e = n_sourceMandateRef input" "0 \<le> amount (e_scope e)"
    and own: "n_consumesReservationsForMandateRef input \<in> {None, Some (n_sourceMandateRef input)}"
    and room: "amount (e_scope e) \<le> held_at st k0 - pool_constrained st k0 t -
      committedAmount (filter (\<lambda>r. r_id r \<notin> set (surrenderedIds input (pool_reservations st k0)))
        (pool_reservations st k0)) (pool_encumbrances st k0) t"
  shows "covered (put_encumbrance_in st e) t"
  unfolding covered_def
proof
  fix k
  let ?st = "put_encumbrance_in st e"
  let ?S = "\<lambda>r. r_id r \<in> set (surrenderedIds input (pool_reservations st k0))"
  let ?rs = "pool_reservations st k0"
  have before: "pool_constrained st k t + pool_committed st k t \<le> held_at st k" using cov by (simp add: covered_def)
  note less = res_amount_encumbered(1) [OF fresh e(3)]
  have all: "sum_list (map (res_amount ?st k t) xs) \<le> sum_list (map (res_amount st k t) xs)" for xs
    by (rule sum_list_mono) (rule less)
  show "pool_constrained ?st k t + pool_committed ?st k t \<le> held_at ?st k"
  proof (cases "k = k0")
    case False
    then have "enc_amount k t e = 0" using e(1) by (simp add: enc_amount_def enc_over_iff)
    with before all [of "pool_reservations st k"] show ?thesis
      by (simp add: put_encumbrance_pools [OF fresh] committed_list)
  next
    case True
    let ?keep = "sum_list (map (res_amount st k0 t) (filter (\<lambda>r. \<not> ?S r) ?rs))"
    let ?sur = "\<lambda>st'. sum_list (map (res_amount st' k0 t) (filter ?S ?rs))"
    have split: "pool_committed st k0 t = ?sur st + ?keep"
      by (simp add: committed_list sum_list_partition [of _ ?rs ?S])
    have split': "pool_committed ?st k0 t \<le> ?sur ?st + ?keep"
      using all [of "filter (\<lambda>r. \<not> ?S r) ?rs"] True
      by (simp add: committed_list put_encumbrance_pools [OF fresh] sum_list_partition [of _ ?rs ?S])
    have r: "amount (e_scope e) \<le> held_at st k0 - pool_constrained st k0 t - ?keep"
      using room by (simp add: committed_sublist)
    have ea: "enc_amount k0 t e \<le> amount (e_scope e)" using e by (simp add: enc_amount_def)
    have "enc_amount k0 t e + ?sur ?st \<le> max (amount (e_scope e)) (?sur st)"
    proof (cases "n_consumesReservationsForMandateRef input")
      case None
      then have "filter ?S ?rs = []" by (simp add: surrenderedIds_def)
      with ea show ?thesis by simp
    next
      case (Some man)
      with own have man: "man = e_sourceMandateRef e" using e by simp
      from surrendered_at_most_one [OF wf uniq k Some] show ?thesis
      proof cases
        case 1
        with ea show ?thesis by simp
      next
        case (2 r0)
        with res_amount_encumbered(2) [OF fresh e(3), of r0 k0 t] man show ?thesis by simp
      qed
    qed
    with split split' r before True show ?thesis
      by (simp add: put_encumbrance_pools [OF fresh])
  qed
qed

lemma encumber_covered:
  assumes wf: "store_wf sha st" and safe: "safe_positions st" and cov: "covered st now"
    and uniq: "mandate_unique st"
    and fresh: "findEncumbranceByKey st (n_tenantId input) (encumbranceKeyOf input) = None \<Longrightarrow>
      map_get (encumbrances st) (deriveEncumbranceId sha (n_tenantId input) (n_sourceExecutionRef input) (n_governedRight input)) = None"
    and own: "n_consumesReservationsForMandateRef input \<in> {None, Some (n_sourceMandateRef input)}"
  shows "covered (snd (recordEncumbrance sha now context input st)) now"
proof (cases "\<exists>e. fst (recordEncumbrance sha now context input st) = Inr (Encumbered e False)")
  case False
  then have "snd (recordEncumbrance sha now context input st) = st"
    by (intro encumber_unchanged [OF wf prod.collapse [symmetric]]) auto
  with cov show ?thesis by simp
next
  case True
  then obtain e st' where ret: "recordEncumbrance sha now context input st = (Inr (Encumbered e False), st')"
    by (metis prod.collapse)
  define k where "k = positionKey (n_tenantId input) (n_holderRef input) (n_resource input) (n_governedRight input)"
  from encumber_new [OF wf k_def ret] obtain p i h cm en a g ap where
    guards: "encumberGuards now context input = Inr now" and
    e: "e = seal_encumbrance sha (recordedEncumbrance sha input now (surrenderedIds input (pool_reservations st k)))" and
    read: "readPosition sha st k = Inr (Some p)" and
    app: "applicableGovernedConstraintsFor (n_sourceAction input)
       \<lparr>cq_tenantId = n_tenantId input, cq_holderRef = n_holderRef input, cq_resource = n_resource input,
        cq_governedRight = n_governedRight input, cq_at = now\<rparr> (pool_encumbrances st k) = Inr (g, ap)" and
    cap: "computeActionCapacity (Some p)
       (filter (\<lambda>r. r_id r \<notin> set (surrenderedIds input (pool_reservations st k))) (pool_reservations st k))
       (pool_encumbrances st k) ap now = Available i h cm en a" and
    within: "governedRightsScopeWithin (n_scope input) a" and wf1: "store_wf sha (put_encumbrance_in st e)" and
    st': "st' = put_encumbrance_in st e \<or> (\<exists>es ids. st' = snd (handOff sha es now ids (put_encumbrance_in st e)))"
    by metis
  have rel: "relaxes now (put_encumbrance_in st e) st'"
    using st' handOff_relaxes [OF wf1] relaxes_refl by metis
  have action: "n_sourceAction input \<in> {''transfer'', ''collateralize''}"
    using guards by (simp add: encumberGuards_Inr governedActionEncumbersAuthority_def GOVERNED_AUTHORITY_ENCUMBERING_ACTIONS_def)
  note cap' = pool_capacity(2) [OF wf safe k_def read app action cap]
  have new: "findEncumbranceByKey st (n_tenantId input) (encumbranceKeyOf input) = None"
    using ret guards by (auto simp: recordEncumbrance_def outcome_simps split: option.splits if_splits)
  have id: "map_get (encumbrances st) (e_id e) = None"
    using fresh [OF new] by (simp add: e recordedEncumbrance_def)
  have fields: "enc_pool e = k" "e_sourceMandateRef e = n_sourceMandateRef input" "e_scope e = n_scope input"
    by (simp_all add: e seal_encumbrance_def recordedEncumbrance_def enc_pool_def k_def positionKey_def)
  have "0 \<le> amount (e_scope e)" using guards by (simp add: fields encumberGuards_Inr valid_scope_def)
  moreover have "amount (e_scope e) \<le> amount a" using within by (simp add: fields within_iff)
  ultimately have "covered (put_encumbrance_in st e) now"
    using cap' by (intro encumber_put_covered [OF wf cov uniq k_def id fields(1,2) _ own]) auto
  with rel show ?thesis by (simp add: ret relaxes_covered)
qed

section \<open>Releasing a constraint\<close>

lemma seal_encumbrance_fields [simp]:
  "e_scope (seal_encumbrance sha e) = e_scope e" "e_status (seal_encumbrance sha e) = e_status e"
  "e_sourceMandateRef (seal_encumbrance sha e) = e_sourceMandateRef e"
  "e_effectiveFrom (seal_encumbrance sha e) = e_effectiveFrom e"
  "enc_pool (seal_encumbrance sha e) = enc_pool e"
  by (simp_all add: seal_encumbrance_def enc_pool_def)

lemma applyReleaseBasis_fields [simp]:
  "e_status (applyReleaseBasis b e) = e_status e" "e_scope (applyReleaseBasis b e) = e_scope e"
  "e_sourceMandateRef (applyReleaseBasis b e) = e_sourceMandateRef e"
  "e_effectiveFrom (applyReleaseBasis b e) = e_effectiveFrom e"
  "enc_pool (applyReleaseBasis b e) = enc_pool e"
  by (cases b; simp add: enc_pool_def)+

lemma enc_pool_updates [simp]:
  "enc_pool (e\<lparr>e_updatedAt := u\<rparr>) = enc_pool e" "enc_pool (e\<lparr>e_status := s\<rparr>) = enc_pool e"
  "enc_pool (e\<lparr>e_releasedAt := a\<rparr>) = enc_pool e"
  by (simp_all add: enc_pool_def)

lemma releaseEncumbrance_cases:
  assumes "releaseEncumbrance sha now context input st = (res, st')"
  obtains "st' = st"
  | e e' where "map_get (encumbrances st) (l_encumbranceId input) = Some e" "e_status e = EsActive" "e_status e' = EsReleased"
      "e_id e' = e_id e" "e_sourceMandateRef e' = e_sourceMandateRef e" "enc_pool e' = enc_pool e"
      "e_scope e' = e_scope e" "e_effectiveFrom e' = e_effectiveFrom e"
      "st' = put_encumbrance_in st e'"
proof (cases "map_get (encumbrances st) (l_encumbranceId input)")
  case None
  then show ?thesis using assms that(1)
    by (auto simp: releaseEncumbrance_def attempt_def split: sum.splits)
next
  case (Some e)
  have released: "e_status e = EsActive \<and> st' = put_encumbrance_in st (seal_encumbrance sha
      ((applyReleaseBasis (l_basis input) (e\<lparr>e_status := EsReleased, e_releasedAt := Some at\<rparr>))\<lparr>e_updatedAt := at\<rparr>))
      \<Longrightarrow> thesis" for at
    by (rule that(2) [OF Some]) auto
  show ?thesis
    using assms released that(1)
    by (auto simp: releaseEncumbrance_def Some attempt_def encumbrance_seal.verify_Inr putEncumbrance_eq Let_def
        split: sum.splits if_splits GovernedAuthorityEncumbranceReleaseBasis.splits
        intro: GovernedAuthorityEncumbranceStatus.exhaust [of "e_status e"])
qed


lemma releaseEncumbrance_covered:
  assumes wf: "store_wf sha st" and cov: "covered st t" and uniq: "mandate_unique st"
  shows "covered (snd (releaseEncumbrance sha now context input st)) t"
proof (rule releaseEncumbrance_cases [OF prod.collapse [symmetric], of sha now "context" input st])
  assume "snd (releaseEncumbrance sha now context input st) = st"
  with cov show ?thesis by simp
next
  fix e e'
  let ?st = "put_encumbrance_in st e'"
  assume get: "map_get (encumbrances st) (l_encumbranceId input) = Some e" and s: "e_status e = EsActive" "e_status e' = EsReleased"
    and e': "e_id e' = e_id e" "e_sourceMandateRef e' = e_sourceMandateRef e" "enc_pool e' = enc_pool e"
    and st': "snd (releaseEncumbrance sha now context input st) = ?st"
  have ok: "encumbrance_ok sha (l_encumbranceId input) e"
    using wf get map_all_get by (fastforce simp: store_wf_def)
  then have id: "map_get (encumbrances st) (e_id e) = Some e" using get by (simp add: encumbrance_ok_def)
  have zero: "enc_amount k t e' = 0" for k
    by (simp add: enc_amount_def governedAuthorityEncumbranceConstrains_def s)
  have nn: "0 \<le> enc_amount k t e" for k
    using ok by (simp add: enc_amount_def encumbrance_ok_def valid_scope_def)
  have con: "pool_constrained ?st k t = pool_constrained st k t - enc_amount k t e" for k
    by (simp add: pool_constrained_def put_encumbrance_in_def map_total_set e' id zero)
  have car: "pool_carved ?st k t man = pool_carved st k t man -
      (if e_sourceMandateRef e = man then enc_amount k t e else 0)" for k man
    by (simp add: pool_carved_def put_encumbrance_in_def map_total_set e' id zero carved_amount_def)
  have pools: "pool_reservations ?st k = pool_reservations st k" for k
    by (simp add: pool_reservations_def put_encumbrance_in_def)
  have same: "r_id r = r_id r'" if "r \<in> set (pool_reservations st k)" "r' \<in> set (pool_reservations st k)"
    "r_sourceMandateRef r = r_sourceMandateRef r'" for r r' k
    using that uniq by (auto simp: pool_reservations_def mandate_unique_def res_over_def reservationOver_def)
  have com: "pool_committed ?st k t \<le> pool_committed st k t + enc_amount k t e" for k
  proof -
    define r0 where "r0 = (SOME r. r \<in> set (pool_reservations st k) \<and> r_sourceMandateRef r = e_sourceMandateRef e)"
    have r0: "r = r0" if "r \<in> set (pool_reservations st k)" "r_sourceMandateRef r = e_sourceMandateRef e" for r
    proof -
      have "r0 \<in> set (pool_reservations st k) \<and> r_sourceMandateRef r0 = e_sourceMandateRef e"
        unfolding r0_def by (rule someI) (use that in simp)
      with that same [of r k r0] pool_ids [OF wf, of k] show ?thesis by (auto simp: distinct_map inj_on_def)
    qed
    have "distinct (pool_reservations st k)" using pool_ids [OF wf] by (simp add: distinct_map)
    then have "sum_list (map (res_amount ?st k t) (pool_reservations st k)) \<le>
        sum_list (map (res_amount st k t) (pool_reservations st k)) + enc_amount k t e"
    proof (rule sum_list_one_grows [where ?x0.0 = r0])
      show "0 \<le> enc_amount k t e" by (rule nn)
    next
      fix r
      assume "r \<in> set (pool_reservations st k)" and "r \<noteq> r0"
      with r0 have "r_sourceMandateRef r \<noteq> e_sourceMandateRef e" by blast
      then show "res_amount ?st k t r \<le> res_amount st k t r" by (simp add: res_amount_def car)
    next
      show "res_amount ?st k t r0 \<le> res_amount st k t r0 + enc_amount k t e"
        using nn [of k] by (auto simp: res_amount_def car max_def)
    qed
    then show ?thesis by (simp add: committed_list pools)
  qed
  have held: "held_at ?st k = held_at st k" for k by (simp add: held_at_def scope_at_def put_encumbrance_in_def)
  have before: "pool_constrained st k t + pool_committed st k t \<le> held_at st k" for k
    using cov by (simp add: covered_def)
  have "pool_constrained ?st k t + pool_committed ?st k t \<le> held_at ?st k" for k
    using com [of k] before [of k] by (simp add: con held)
  then show ?thesis by (simp add: covered_def st')
qed

section \<open>The clock moves on\<close>

text \<open>Every commitment and constraint has taken effect by the store's clock.\<close>

definition started :: "auth_store \<Rightarrow> string \<Rightarrow> bool" where
  "started st t \<longleftrightarrow> (\<forall>r \<in> set (map_values (reservations st)). instant_ge t (r_effectiveFrom r)) \<and>
     (\<forall>e \<in> set (map_values (encumbrances st)). instant_ge t (e_effectiveFrom e))"

lemma started_later: "started st t \<Longrightarrow> instant_ge t' t \<Longrightarrow> started st t'"
  by (auto simp: started_def intro: instant_ge_trans)

lemma later_covered:
  assumes s: "started st t" and later: "instant_ge t' t" and cov: "covered st t"
  shows "covered st t'"
  unfolding covered_def
proof
  fix k
  have enc: "enc_amount k t' e = enc_amount k t e" if "e \<in> set (map_values (encumbrances st))" for e
    using that s instant_ge_trans [OF later, of "e_effectiveFrom e"]
    by (auto simp: enc_amount_def governedAuthorityEncumbranceConstrains_def started_def)
  have con: "pool_constrained st k t' = pool_constrained st k t"
    unfolding pool_constrained_def by (rule map_total_cong) (rule enc)
  have car: "pool_carved st k t' man = pool_carved st k t man" for man
    unfolding pool_carved_def by (rule map_total_cong) (simp add: carved_amount_def enc)
  have "res_amount st k t' r \<le> res_amount st k t r" if "r \<in> set (map_values (reservations st))" for r
    using that s instant_ge_trans [OF later, of "r_expiresAt r"]
    by (auto simp: res_amount_def car started_def governedAuthorityReservationReducesAvailability_def
        governedAuthorityReservationState_def split: GovernedAuthorityReservationStatus.splits)
  then have "pool_committed st k t' \<le> pool_committed st k t"
    unfolding pool_committed_def by (rule map_total_mono)
  moreover have "pool_constrained st k t + pool_committed st k t \<le> held_at st k"
    using cov by (simp add: covered_def)
  ultimately show "pool_constrained st k t' + pool_committed st k t' \<le> held_at st k"
    by (simp add: con)
qed


section \<open>Issuance and movement\<close>

lemma bootstrap_keeps:
  assumes wf: "store_wf sha st"
  shows "reservations (snd (bootstrapPosition sha now context input st)) = reservations st"
    and "encumbrances (snd (bootstrapPosition sha now context input st)) = encumbrances st"
proof (atomize (full), cases "bootstrapGuards now context input")
  case (Inr g)
  obtain eff ex occ rec where g: "g = (eff, ex, occ, rec)" by (cases g)
  show "reservations (snd (bootstrapPosition sha now context input st)) = reservations st \<and>
      encumbrances (snd (bootstrapPosition sha now context input st)) = encumbrances st"
    by (rule bootstrap_cases [OF wf Inr [unfolded g]])
      (simp add: Let_def put_position_in_def split: option.split sum.split)
qed (simp add: bootstrapPosition_def)

lemma bootstrap_covered:
  assumes wf: "store_wf sha st" and room: "room_for (b_scope input) st" and cov: "covered st t"
  shows "covered (snd (bootstrapPosition sha now context input st)) t"
proof -
  let ?st = "snd (bootstrapPosition sha now context input st)"
  have held: "held_at st k \<le> held_at ?st k" for k
  proof (cases "fst (bootstrapPosition sha now context input st)")
    case (Inl e)
    then have "bootstrapPosition sha now context input st = (Inl e, ?st)" by (metis prod.collapse)
    then have "positions ?st = positions st" by (rule bootstrap_refused(1) [OF wf])
    then have "held_at ?st k = held_at st k" by (rule held_cong)
    then show ?thesis by simp
  next
    case (Inr p)
    then have ret: "bootstrapPosition sha now context input st = (Inr p, ?st)" by (metis prod.collapse)
    obtain eff ex occ rec where "bootstrapGuards now context input = Inr (eff, ex, occ, rec)"
      using ret by (cases "bootstrapGuards now context input") (auto simp: bootstrapPosition_def)
    then have nn: "0 \<le> amount (b_scope input)" by (simp add: bootstrapGuards_Inr valid_scope_def)
    show ?thesis
    proof (cases "k = bootstrapKey input")
      case True
      with bootstrap_effect(2) [OF wf room ret] nn show ?thesis by simp
    next
      case False
      then have "scope_at ?st k = scope_at st k" by (rule bootstrap_effect(3) [OF wf room ret])
      then show ?thesis by (simp add: held_at_def)
    qed
  qed
  have "pool_constrained st k t + pool_committed st k t \<le> held_at st k" for k
    using cov by (simp add: covered_def)
  then show ?thesis
    unfolding covered_def pool_cong [OF bootstrap_keeps [OF wf]]
    using held order_trans by blast
qed

lemma consume_committed:
  "store_wf sha st \<Longrightarrow> \<forall>r \<in> set rs. map_get (reservations st) (r_id r) = Some r \<Longrightarrow> distinct (map r_id rs) \<Longrightarrow>
   pool_committed (snd (consumeReservations sha ten man rec rs st)) k t =
     pool_committed st k t - sum_list (map (\<lambda>r. if spent_by ten man r then res_amount st k t r else 0) rs)"
proof (induction rs arbitrary: st)
  case (Cons x rs)
  have x: "map_get (reservations st) (r_id x) = Some x" using Cons.prems(2) by simp
  show ?case
  proof (cases "spent_by ten man x")
    case True
    let ?x = "seal_reservation sha (x\<lparr>r_status := RsConsumed, r_updatedAt := rec\<rparr>)"
    let ?st = "put_reservation_in st ?x"
    note step = consume_step [OF Cons.prems(1) x True, of rec]
    have rest: "\<forall>r \<in> set rs. r_id r \<noteq> r_id x"
      using Cons.prems(3) by simp (metis image_eqI)
    have "\<forall>r \<in> set rs. map_get (reservations ?st) (r_id r) = Some r"
      using rest Cons.prems(2) by (simp add: put_reservation_in_def map_simps)
    then have "pool_committed (snd (consumeReservations sha ten man rec rs ?st)) k t =
        pool_committed ?st k t - sum_list (map (\<lambda>r. if spent_by ten man r then res_amount ?st k t r else 0) rs)"
      using Cons.prems(3) by (intro Cons.IH [OF step(2)]) auto
    moreover have "pool_committed ?st k t = pool_committed st k t - res_amount st k t x"
      using inactive_amount [of ?x st k t] by (simp add: committed_put_reservation x)
    moreover have "res_amount ?st k t = res_amount st k t"
      by (simp add: res_amount_def [abs_def] pool_carved_def put_reservation_in_def cong: if_cong)
    ultimately show ?thesis by (simp add: step(1) True del: consumeReservations.simps cong: if_cong)
  next
    case False
    then have "consumeReservations sha ten man rec (x # rs) st = consumeReservations sha ten man rec rs st"
      by (auto simp: spent_by_def)
    with Cons.IH [OF Cons.prems(1)] Cons.prems(2,3) False show ?thesis by simp
  qed
qed simp


lemma applyStaged_keeps:
  "reservations (snd (applyStaged sha input occ rec gs st)) = reservations st \<and>
   encumbrances (snd (applyStaged sha input occ rec gs st)) = encumbrances st"
proof (induction gs arbitrary: st)
  case (Cons h gs)
  obtain t s1 where e: "applyEntry sha input occ rec h st = (t, s1)" by fastforce
  then have "reservations s1 = reservations st \<and> encumbrances s1 = encumbrances st"
    by (auto simp: applyEntry_eq put_position_in_def split: prod.splits)
  with Cons [of s1] e show ?case by (simp split: prod.splits) (metis snd_conv)
qed simp

lemma apply_committed:
  assumes wf: "store_wf sha st" and ret: "applyTransition sha now context input st = (Inr out, st')"
    and moved: "\<not> ao_replayed out"
  shows "pool_constrained st' k t = pool_constrained st k t"
    and "pool_committed st' k t = pool_committed st k t -
      (case a_consumesReservationsForMandateRef input of
         None \<Rightarrow> 0
       | Some man \<Rightarrow> map_total (\<lambda>r. if spent_by (a_tenantId input) man r then res_amount st k t r else 0) (reservations st))"
proof -
  obtain staged st1 where g: "applyGuards now context input = Inr (a_occurredAt input, now)"
    and m: "mapR (stageRight sha st input (a_occurredAt input)) (a_governedRights input) = Inr staged"
    and a: "applyStaged sha input (a_occurredAt input) now staged st = (ao_transitions out, st1)"
    and e: "encumbrances st' = encumbrances st1"
    and c: "case a_consumesReservationsForMandateRef input of
        None \<Rightarrow> st' = st1
      | Some man \<Rightarrow> consumeReservations sha (a_tenantId input) man now (map_values (reservations st1)) st1 = (Inr (), st')"
    using apply_moved [OF wf ret moved] by metis
  have known: "\<forall>r \<in> set (a_governedRights input). isGovernedRightType r" and scope: "valid_scope (a_scope input)"
    and occ: "isStrictUtcTimestamp (a_occurredAt input)" using g [unfolded applyGuards_Inr] by auto
  have wf1: "store_wf sha st1"
    using applyStaged_wf [OF wf staged_all_ok [OF wf m known scope] occ scope, of now] by (simp add: a)
  have keep: "reservations st1 = reservations st" "encumbrances st1 = encumbrances st"
    using applyStaged_keeps [of sha input "a_occurredAt input" now staged st] by (simp_all add: a)
  show "pool_constrained st' k t = pool_constrained st k t"
    by (simp add: pool_constrained_def e keep)
  show "pool_committed st' k t = pool_committed st k t -
      (case a_consumesReservationsForMandateRef input of
         None \<Rightarrow> 0
       | Some man \<Rightarrow> map_total (\<lambda>r. if spent_by (a_tenantId input) man r then res_amount st k t r else 0) (reservations st))"
  proof (cases "a_consumesReservationsForMandateRef input")
    case None
    with c show ?thesis by (simp add: pool_cong [OF keep])
  next
    case (Some man)
    with c consume_committed [OF wf1 map_values_ids(2) [OF wf1] map_values_ids(1) [OF wf1], of "a_tenantId input" man now k t]
    show ?thesis by (simp add: pool_cong [OF keep] map_total_def keep cong: if_cong)
  qed
qed

text \<open>
  A movement is backed when, for every right it moves, the mandate it consumes has reserved at
  least the moved quantity of the source's pool.
\<close>

definition backed :: "auth_store \<Rightarrow> string \<Rightarrow> ApplyGovernedAuthorityTransitionInput \<Rightarrow> bool" where
  "backed st t input \<longleftrightarrow> (\<exists>man. a_consumesReservationsForMandateRef input = Some man \<and>
     (\<forall>right \<in> set (a_governedRights input). \<exists>r \<in> set (map_values (reservations st)).
        spent_by (a_tenantId input) man r \<and> amount (a_scope input) \<le> res_amount st (sourceKey input right) t r))"

lemma apply_covered:
  assumes wf: "store_wf sha st" and room: "room_for (a_scope input) st" and cov: "covered st t"
    and bk: "backed st t input"
  shows "covered (snd (applyTransition sha now context input st)) t"
proof (cases "fst (applyTransition sha now context input st)")
  case (Inl e)
  then have "applyTransition sha now context input st = (Inl e, snd (applyTransition sha now context input st))"
    by (metis prod.collapse)
  from apply_atomic [OF wf this] cov show ?thesis by simp
next
  case (Inr out)
  then obtain st' where ret: "applyTransition sha now context input st = (Inr out, st')" by (metis prod.collapse)
  have "covered st' t"
  proof (cases "ao_replayed out")
    case True
    have "st' = st" using apply_returns [OF ret] True by (auto simp: Let_def split: if_splits)
    with cov show ?thesis by simp
  next
    case False
    note moved = apply_effect [OF wf room ret False] and com = apply_committed [OF wf ret False]
    have nn: "0 \<le> amount (a_scope input)"
      using apply_returns [OF ret] by (auto simp: applyGuards_Inr valid_scope_def)
    from bk obtain man where man: "a_consumesReservationsForMandateRef input = Some man"
      and res: "\<And>right. right \<in> set (a_governedRights input) \<Longrightarrow> \<exists>r \<in> set (map_values (reservations st)).
        spent_by (a_tenantId input) man r \<and> amount (a_scope input) \<le> res_amount st (sourceKey input right) t r"
      by (auto simp: backed_def)
    let ?spent = "\<lambda>k. map_total (\<lambda>r. if spent_by (a_tenantId input) man r then res_amount st k t r else 0) (reservations st)"
    have spent0: "0 \<le> ?spent k" for k
      by (rule map_total_nonneg) (simp add: res_amount_nonneg)
    show ?thesis
      unfolding covered_def
    proof
      fix k
      have before: "pool_constrained st k t + pool_committed st k t \<le> held_at st k" using cov by (simp add: covered_def)
      consider right where "right \<in> set (a_governedRights input)" "k = sourceKey input right"
        | right where "right \<in> set (a_governedRights input)" "k = targetKey input right"
        | "\<And>right. right \<in> set (a_governedRights input) \<Longrightarrow> k \<noteq> sourceKey input right \<and> k \<noteq> targetKey input right"
        by blast
      then have "held_at st k \<le> held_at st' k + ?spent k"
      proof cases
        case (1 right)
        from res [OF 1(1)] obtain r where r: "r \<in> set (map_values (reservations st))" "spent_by (a_tenantId input) man r"
          "amount (a_scope input) \<le> res_amount st k t r" using 1(2) by auto
        have "res_amount st k t r \<le> ?spent k"
          using map_total_member [of "reservations st" "\<lambda>r. if spent_by (a_tenantId input) man r then res_amount st k t r else 0" r] r(1,2)
          by (simp add: res_amount_nonneg)
        with r(3) moved(2) [OF 1(1)] 1(2) show ?thesis by simp
      next
        case (2 right)
        with moved(3) [OF 2(1)] nn spent0 [of k] show ?thesis by simp
      next
        case 3
        with apply_frame(1) [OF wf ret, of k] spent0 [of k] show ?thesis by (simp add: held_at_def)
      qed
      with before com show "pool_constrained st' k t + pool_committed st' k t \<le> held_at st' k"
        by (simp add: man)
    qed
  qed
  with ret show ?thesis by simp
qed

end
