(* ===== verification/CommitmentMachine.thy ===== *)
theory CommitmentMachine
  imports CommitmentInvariants
begin

text \<open>
  The store as a machine: the units of what stands against a position never come apart from it,
  and along every disciplined run each pool stays covered, so that the availability the store
  reports is always a quantity and never an overcommitment.
\<close>

section \<open>Units\<close>

text \<open>
  A position never changes its unit, and every commitment and constraint is denominated in the
  unit of the position it stands over. This holds along every run.
\<close>

definition units_kept :: "auth_store \<Rightarrow> auth_store \<Rightarrow> bool" where
  "units_kept st st' \<longleftrightarrow> (\<forall>k s. scope_at st k = Some s \<longrightarrow>
     (\<exists>s'. scope_at st' k = Some s' \<and> unit_of s' = unit_of s))"

lemma units_kept_same: "positions st' = positions st \<Longrightarrow> units_kept st st'"
  by (auto simp: units_kept_def scope_at_def)

lemma apply_units:
  assumes wf: "store_wf sha st"
  shows "units_kept st (snd (applyTransition sha now context input st))"
proof (cases "fst (applyTransition sha now context input st)")
  case (Inl e)
  then have "applyTransition sha now context input st = (Inl e, snd (applyTransition sha now context input st))"
    by (metis prod.collapse)
  from apply_atomic [OF wf this] show ?thesis by (simp add: units_kept_same)
next
  case (Inr out)
  then obtain st' where ret: "applyTransition sha now context input st = (Inr out, st')" by (metis prod.collapse)
  have "units_kept st st'"
  proof (cases "ao_replayed out")
    case True
    have "st' = st" using apply_returns [OF ret] True by (auto simp: Let_def split: if_splits)
    then show ?thesis by (simp add: units_kept_same)
  next
    case False
    obtain staged st1 where g: "applyGuards now context input = Inr (a_occurredAt input, now)"
      and m: "mapR (stageRight sha st input (a_occurredAt input)) (a_governedRights input) = Inr staged"
      and a: "applyStaged sha input (a_occurredAt input) now staged st = (ao_transitions out, st1)"
      and p: "positions st' = positions st1" using apply_moved [OF wf ret False] by metis
    have known: "\<forall>r \<in> set (a_governedRights input). isGovernedRightType r" and scope: "valid_scope (a_scope input)"
      and holders: "a_fromHolderRef input \<noteq> a_toHolderRef input" using g [unfolded applyGuards_Inr] by auto
    have moved: "(\<exists>s'. scope_at st' k = Some s' \<and> unit_of s' = unit_of (a_scope input)) \<and>
        (\<forall>s. scope_at st k = Some s \<longrightarrow> unit_of s = unit_of (a_scope input))"
      if right: "right \<in> set (a_governedRights input)" and k: "k = sourceKey input right \<or> k = targetKey input right" for right k
    proof -
      obtain h where h: "h \<in> set staged" "stageRight sha st input (a_occurredAt input) right = Inr h"
        using mapR_stageRight [OF m] right by (induction rule: list_all2_induct) auto
      note r = stageRight_Inr [OF wf h(2)]
      have ok: "staged_ok sha input h" using staged_all_ok [OF wf m known scope] h(1) by simp
      have "scope_at st1 (sourceKey input right) = Some (sg_debited h) \<and>
          scope_at st1 (targetKey input right) = Some (sg_credited h)"
        using applyStaged_scopes [OF holders staged_all_ok [OF wf m known scope] staged_uniform [OF wf m] h(1),
            of "a_occurredAt input" now st] r(1) by (simp add: a)
      then have "\<exists>s'. scope_at st' k = Some s' \<and> unit_of s' = unit_of (a_scope input)"
        using k ok by (auto simp: scope_at_def p staged_ok_def)
      moreover have "scope_at st k = Some s \<Longrightarrow> unit_of s = unit_of (a_scope input)" for s
        using k r(2,3,4,6) by (auto simp: scope_at_def subtractAuthorityScope_Inr addAuthorityScopes_Inr split: option.splits)
      ultimately show ?thesis by blast
    qed
    show ?thesis
      unfolding units_kept_def
    proof (intro allI impI)
      fix k s
      assume s: "scope_at st k = Some s"
      show "\<exists>s'. scope_at st' k = Some s' \<and> unit_of s' = unit_of s"
      proof (cases "\<exists>right \<in> set (a_governedRights input). k = sourceKey input right \<or> k = targetKey input right")
        case True
        with moved s show ?thesis by metis
      next
        case False
        with apply_frame(1) [OF wf ret, of k] s show ?thesis by auto
      qed
    qed
  qed
  with ret show ?thesis by simp
qed

lemma bootstrap_units:
  assumes wf: "store_wf sha st"
  shows "units_kept st (snd (bootstrapPosition sha now context input st))"
proof (cases "bootstrapGuards now context input")
  case (Inr g)
  obtain eff ex occ rec where g: "g = (eff, ex, occ, rec)" by (cases g)
  show ?thesis
  proof (rule bootstrap_cases [OF wf Inr [unfolded g]])
    fix t :: GovernedAuthorityTransition and st2
    assume st2: "positions st2 = positions st" and res: "bootstrapPosition sha now context input st =
      (case map_get (positions st) (governedAuthorityPositionKey (bootstrapKey input)) of
         None \<Rightarrow>
           (let p = seal_position sha (bootstrapFresh sha input eff ex rec (t_id t))
            in (Inr p, put_position_in st2 p))
       | Some p \<Rightarrow>
           (case addAuthorityScopes (p_scope p) (b_scope input) of
              Inl e \<Rightarrow> (Inl e, st2)
            | Inr s \<Rightarrow>
                (let q = seal_position sha (p\<lparr>p_scope := s, p_updatedAt := rec, p_lastTransitionRef := t_id t\<rparr>)
                 in (Inr q, put_position_in st2 q))))"
    show ?thesis
    proof (cases "map_get (positions st) (governedAuthorityPositionKey (bootstrapKey input))")
      case None
      have "keyOf (bootstrapFresh sha input eff ex rec (t_id t)) = bootstrapKey input"
        by (simp add: keyOf_def bootstrapFresh_def bootstrapKey_def positionKey_def)
      with None st2 show ?thesis
        by (auto simp: res Let_def units_kept_def scope_at_def put_position_in_def map_simps positionKey_inject)
    next
      case (Some p)
      then have "position_ok sha (governedAuthorityPositionKey (bootstrapKey input)) p"
        using wf map_all_get by (fastforce simp: store_wf_def)
      then have "keyOf p = bootstrapKey input" by (simp add: position_ok_def positionKey_inject)
      then have key: "keyOf (p\<lparr>p_scope := s, p_updatedAt := rec, p_lastTransitionRef := t_id t\<rparr>) = bootstrapKey input" for s
        by (simp add: keyOf_def)
      show ?thesis
      proof (cases "addAuthorityScopes (p_scope p) (b_scope input)")
        case (Inl e)
        with Some st2 show ?thesis by (simp add: res units_kept_same)
      next
        case (Inr s)
        then have "unit_of s = unit_of (p_scope p)" by (simp add: addAuthorityScopes_Inr)
        with Some st2 Inr show ?thesis
          by (auto simp: res units_kept_def scope_at_def put_position_in_def map_simps key positionKey_inject Let_def)
      qed
    qed
  qed
qed (simp add: bootstrapPosition_def units_kept_same)

section \<open>The identity of commitments and constraints\<close>

text \<open>What no operation changes in a reservation or a constraint that stands.\<close>

definition res_core :: "GovernedAuthorityReservation \<Rightarrow> GovernedAuthorityReservation" where
  "res_core r = r\<lparr>r_status := RsActive, r_updatedAt := [], r_digest := []\<rparr>"

definition enc_core :: "GovernedAuthorityEncumbrance \<Rightarrow>
    string \<times> GovernedAuthorityPositionKey \<times> GovernedRightsScope \<times> string \<times> string" where
  "enc_core e = (e_id e, enc_pool e, e_scope e, e_sourceMandateRef e, e_effectiveFrom e)"

definition cores_from :: "auth_store \<Rightarrow> auth_store \<Rightarrow> bool" where
  "cores_from st st' \<longleftrightarrow>
     res_core ` set (map_values (reservations st')) \<subseteq> res_core ` set (map_values (reservations st)) \<and>
     enc_core ` set (map_values (encumbrances st')) \<subseteq> enc_core ` set (map_values (encumbrances st))"

lemma cores_same: "reservations st' = reservations st \<Longrightarrow> encumbrances st' = encumbrances st \<Longrightarrow> cores_from st st'"
  by (simp add: cores_from_def)

lemma cores_trans: "cores_from a b \<Longrightarrow> cores_from b c \<Longrightarrow> cores_from a c"
  unfolding cores_from_def by (meson subset_trans)

lemma res_core_fields:
  "res_core r = res_core r' \<Longrightarrow> r_id r = r_id r' \<and> res_pool r = res_pool r' \<and> r_scope r = r_scope r' \<and>
     r_tenantId r = r_tenantId r' \<and> r_sourceMandateRef r = r_sourceMandateRef r' \<and>
     r_governedRight r = r_governedRight r' \<and> r_effectiveFrom r = r_effectiveFrom r'"
  by (cases r; cases r') (simp add: res_core_def res_pool_def)

lemma cores_reservation:
  assumes "cores_from st st'" and "r \<in> set (map_values (reservations st'))"
  obtains r' where "r' \<in> set (map_values (reservations st))" "res_core r = res_core r'"
  using assms by (auto simp: cores_from_def)

lemma cores_encumbrance:
  assumes "cores_from st st'" and "e \<in> set (map_values (encumbrances st'))"
  obtains e' where "e' \<in> set (map_values (encumbrances st))" "enc_core e = enc_core e'"
  using assms by (auto simp: cores_from_def)

lemma cores_unique:
  assumes c: "cores_from st st'" and u: "mandate_unique st"
  shows "mandate_unique st'"
  unfolding mandate_unique_def
proof (intro ballI impI)
  fix r1 r2
  assume "r1 \<in> set (map_values (reservations st'))" and "r2 \<in> set (map_values (reservations st'))"
    and same: "r_tenantId r1 = r_tenantId r2 \<and> r_sourceMandateRef r1 = r_sourceMandateRef r2 \<and>
      r_governedRight r1 = r_governedRight r2"
  then obtain r1' r2' where r: "r1' \<in> set (map_values (reservations st))" "r2' \<in> set (map_values (reservations st))"
    "res_core r1 = res_core r1'" "res_core r2 = res_core r2'"
    using cores_reservation [OF c] by metis
  note f = res_core_fields [OF r(3)] res_core_fields [OF r(4)]
  have "r_tenantId r1' = r_tenantId r2' \<and> r_sourceMandateRef r1' = r_sourceMandateRef r2' \<and>
      r_governedRight r1' = r_governedRight r2'"
    by (metis same f)
  with u r(1,2) have "r_id r1' = r_id r2'" unfolding mandate_unique_def by blast
  then show "r_id r1 = r_id r2" by (metis f)
qed

lemma cores_started:
  assumes c: "cores_from st st'" and s: "started st t"
  shows "started st' t"
  unfolding started_def
proof (intro conjI ballI)
  fix r assume "r \<in> set (map_values (reservations st'))"
  then obtain r' where "r' \<in> set (map_values (reservations st))" "res_core r = res_core r'"
    by (rule cores_reservation [OF c])
  with s res_core_fields [of r r'] show "instant_ge t (r_effectiveFrom r)" by (simp add: started_def)
next
  fix e assume "e \<in> set (map_values (encumbrances st'))"
  then obtain e' where "e' \<in> set (map_values (encumbrances st))" "enc_core e = enc_core e'"
    by (rule cores_encumbrance [OF c])
  with s show "instant_ge t (e_effectiveFrom e)" by (simp add: started_def enc_core_def)
qed

lemma map_values_set_subset: "set (map_values (map_set m k v)) \<subseteq> insert v (set (map_values m))"
  by (induction m) (auto simp: map_values_def map_set_def)

lemma cores_put_reservation:
  assumes "map_get (reservations st) i = Some r" and "res_core r' = res_core r"
  shows "cores_from st (put_reservation_in st r')"
proof -
  have "r \<in> set (map_values (reservations st))"
    using assms(1) by (force simp: map_get_def map_values_def dest: map_of_SomeD)
  with assms(2) map_values_set_subset [of "reservations st" "r_id r'" r'] show ?thesis
    by (auto simp: cores_from_def put_reservation_in_def image_iff)
qed

lemma cores_put_encumbrance:
  assumes "map_get (encumbrances st) i = Some e" and "enc_core e' = enc_core e"
  shows "cores_from st (put_encumbrance_in st e')"
proof -
  have "e \<in> set (map_values (encumbrances st))"
    using assms(1) by (force simp: map_get_def map_values_def dest: map_of_SomeD)
  then have "enc_core ` insert e' (set (map_values (encumbrances st))) \<subseteq> enc_core ` set (map_values (encumbrances st))"
    using assms(2) by simp
  then have "enc_core ` set (map_values (map_set (encumbrances st) (e_id e') e')) \<subseteq> enc_core ` set (map_values (encumbrances st))"
    by (rule subset_trans [OF image_mono [OF map_values_set_subset]])
  then show ?thesis by (simp add: cores_from_def put_encumbrance_in_def)
qed

lemma res_core_status [simp]:
  "res_core (seal_reservation sha (r\<lparr>r_status := s, r_updatedAt := u\<rparr>)) = res_core r"
  by (simp add: res_core_def seal_reservation_def)

lemma handOff_cores: "store_wf sha st \<Longrightarrow> cores_from st (snd (handOff sha es rec ids st))"
proof (induction ids arbitrary: st)
  case (Cons i ids)
  show ?case
  proof (cases "map_get (reservations st) i")
    case (Some r)
    have ok: "reservation_ok sha (r_id r) r"
      using Some Cons.prems map_all_get by (fastforce simp: store_wf_def reservation_ok_def)
    let ?st = "put_reservation_in st (seal_reservation sha (r\<lparr>r_status := RsEncumbered, r_updatedAt := rec\<rparr>))"
    have "store_wf sha ?st"
      using reservation_ok_status [OF ok] by (intro put_reservation_wf Cons.prems) simp
    then have "cores_from ?st (snd (handOff sha es rec ids ?st))" by (rule Cons.IH)
    moreover have "cores_from st ?st" by (rule cores_put_reservation [OF Some]) simp
    ultimately have "cores_from st (snd (handOff sha es rec ids ?st))" by (blast intro: cores_trans)
    with Cons Some ok show ?thesis
      by (auto simp: reservation_ok_def reservation_seal.verify_intact putReservation_eq split: sum_total.splits)
  qed (use Cons in simp)
qed (simp add: cores_same)

lemma consume_cores:
  "store_wf sha st \<Longrightarrow> \<forall>r \<in> set rs. map_get (reservations st) (r_id r) = Some r \<Longrightarrow> distinct (map r_id rs) \<Longrightarrow>
   cores_from st (snd (consumeReservations sha ten man rec rs st))"
proof (induction rs arbitrary: st)
  case (Cons x rs)
  have x: "map_get (reservations st) (r_id x) = Some x" using Cons.prems(2) by simp
  show ?case
  proof (cases "spent_by ten man x")
    case True
    let ?st = "put_reservation_in st (seal_reservation sha (x\<lparr>r_status := RsConsumed, r_updatedAt := rec\<rparr>))"
    note step = consume_step [OF Cons.prems(1) x True, of rec]
    have rest: "\<forall>r \<in> set rs. r_id r \<noteq> r_id x"
      using Cons.prems(3) by simp (metis image_eqI)
    have "\<forall>r \<in> set rs. map_get (reservations ?st) (r_id r) = Some r"
      using rest Cons.prems(2) by (simp add: put_reservation_in_def map_simps)
    then have "cores_from ?st (snd (consumeReservations sha ten man rec rs ?st))"
      using Cons.prems(3) by (intro Cons.IH [OF step(2)]) auto
    moreover have "cores_from st ?st" by (rule cores_put_reservation [OF x]) simp
    ultimately show ?thesis unfolding step(1) by (blast intro: cores_trans)
  next
    case False
    then have "consumeReservations sha ten man rec (x # rs) st = consumeReservations sha ten man rec rs st"
      by (auto simp: spent_by_def)
    with Cons.IH [OF Cons.prems(1)] Cons.prems(2,3) show ?thesis by simp
  qed
qed (simp add: cores_same)

lemma releaseReservation_cores: "cores_from st (snd (releaseReservation sha now context input st))"
  by (auto simp: releaseReservation_def attempt_def reservation_seal.verify_Inr putReservation_eq cores_same
      split: option.splits sum.splits GovernedAuthorityReservationStatus.splits intro!: cores_put_reservation)

lemma releaseEncumbrance_cores: "cores_from st (snd (releaseEncumbrance sha now context input st))"
  by (rule releaseEncumbrance_cases [OF prod.collapse [symmetric], of sha now "context" input st])
    (auto simp: cores_same enc_core_def intro: cores_put_encumbrance)

lemma bootstrap_cores: "store_wf sha st \<Longrightarrow> cores_from st (snd (bootstrapPosition sha now context input st))"
  by (simp add: cores_same bootstrap_keeps)

lemma apply_cores:
  assumes wf: "store_wf sha st"
  shows "cores_from st (snd (applyTransition sha now context input st))"
proof (cases "fst (applyTransition sha now context input st)")
  case (Inl e)
  then have "applyTransition sha now context input st = (Inl e, snd (applyTransition sha now context input st))"
    by (metis prod.collapse)
  from apply_atomic [OF wf this] show ?thesis by (simp add: cores_same)
next
  case (Inr out)
  then obtain st' where ret: "applyTransition sha now context input st = (Inr out, st')" by (metis prod.collapse)
  have "cores_from st st'"
  proof (cases "ao_replayed out")
    case True
    have "st' = st" using apply_returns [OF ret] True by (auto simp: Let_def split: if_splits)
    then show ?thesis by (simp add: cores_same)
  next
    case False
    obtain staged st1 where g: "applyGuards now context input = Inr (a_occurredAt input, now)"
      and m: "mapR (stageRight sha st input (a_occurredAt input)) (a_governedRights input) = Inr staged"
      and a: "applyStaged sha input (a_occurredAt input) now staged st = (ao_transitions out, st1)"
      and c: "case a_consumesReservationsForMandateRef input of
          None \<Rightarrow> st' = st1
        | Some man \<Rightarrow> consumeReservations sha (a_tenantId input) man now (map_values (reservations st1)) st1 = (Inr (), st')"
      using apply_moved [OF wf ret False] by metis
    have known: "\<forall>r \<in> set (a_governedRights input). isGovernedRightType r" and scope: "valid_scope (a_scope input)"
      and occ: "isStrictUtcTimestamp (a_occurredAt input)" using g [unfolded applyGuards_Inr] by auto
    have wf1: "store_wf sha st1"
      using applyStaged_wf [OF wf staged_all_ok [OF wf m known scope] occ scope, of now] by (simp add: a)
    have one: "cores_from st st1"
      using applyStaged_keeps [of sha input "a_occurredAt input" now staged st] by (simp add: a cores_same)
    show ?thesis
    proof (cases "a_consumesReservationsForMandateRef input")
      case None
      with c one show ?thesis by simp
    next
      case (Some man)
      with c consume_cores [OF wf1 map_values_ids(2) [OF wf1] map_values_ids(1) [OF wf1], of "a_tenantId input" man now]
      show ?thesis by (auto intro: cores_trans [OF one])
    qed
  qed
  with ret show ?thesis by simp
qed


section \<open>Units agree along every run\<close>

definition units_agree :: "auth_store \<Rightarrow> bool" where
  "units_agree st \<longleftrightarrow>
     (\<forall>r \<in> set (map_values (reservations st)). map_option unit_of (scope_at st (res_pool r)) = Some (unit_of (r_scope r))) \<and>
     (\<forall>e \<in> set (map_values (encumbrances st)). map_option unit_of (scope_at st (enc_pool e)) = Some (unit_of (e_scope e)))"

lemma units_kept_unit:
  "units_kept st st' \<Longrightarrow> map_option unit_of (scope_at st k) = Some u \<Longrightarrow> map_option unit_of (scope_at st' k) = Some u"
  unfolding units_kept_def by (cases "scope_at st k") fastforce+

lemma units_agree_from:
  assumes a: "units_agree st" and u: "units_kept st st'" and c: "cores_from st st'"
  shows "units_agree st'"
  unfolding units_agree_def
proof (intro conjI ballI)
  fix r assume "r \<in> set (map_values (reservations st'))"
  then obtain r' where "r' \<in> set (map_values (reservations st))" "res_core r = res_core r'"
    by (rule cores_reservation [OF c])
  with a res_core_fields [of r r'] show "map_option unit_of (scope_at st' (res_pool r)) = Some (unit_of (r_scope r))"
    by (intro units_kept_unit [OF u]) (simp add: units_agree_def)
next
  fix e assume "e \<in> set (map_values (encumbrances st'))"
  then obtain e' where "e' \<in> set (map_values (encumbrances st))" "enc_core e = enc_core e'"
    by (rule cores_encumbrance [OF c])
  with a show "map_option unit_of (scope_at st' (enc_pool e)) = Some (unit_of (e_scope e))"
    by (intro units_kept_unit [OF u]) (simp add: units_agree_def enc_core_def)
qed

lemma capacity_unit:
  "computeActionCapacity (Some p) rs es ap t = Available i h cm en a \<Longrightarrow> unit_of a = unit_of (p_scope p)"
  by (auto simp: computeActionCapacity_def capacityAfterEncumbrances_def Let_def subtractAuthorityScope_Inr
      split: sum_total.splits sum.splits if_splits)

lemma read_unit:
  assumes "store_wf sha st" and "readPosition sha st k = Inr (Some p)"
  shows "map_option unit_of (scope_at st k) = Some (unit_of (p_scope p))"
  using readPosition_wf(2) [OF assms] by (simp add: scope_at_def)

lemma acquire_agree:
  assumes wf: "store_wf sha st" and a: "units_agree st"
  shows "units_agree (snd (acquireReservation sha now context input st))"
proof (cases "\<exists>r. fst (acquireReservation sha now context input st) = Inr (Reserved r False)")
  case False
  then have "snd (acquireReservation sha now context input st) = st"
    by (intro acquire_unchanged [OF prod.collapse [symmetric]]) auto
  with a show ?thesis by simp
next
  case True
  then obtain r st' where ret: "acquireReservation sha now context input st = (Inr (Reserved r False), st')"
    by (metis prod.collapse)
  let ?k = "positionKey (q_tenantId input) (q_holderRef input) (q_resource input) (q_governedRight input)"
  from acquire_new [OF wf ret] obtain p cm en av g ap where
    r: "r = seal_reservation sha (acquiredReservation sha input now)" "st' = put_reservation_in st r" and
    read: "readPosition sha st ?k = Inr (Some p)" and
    cap: "computeActionCapacity (Some p) (pool_reservations st ?k) (pool_encumbrances st ?k) ap now
       = Available (p_id p) (p_scope p) cm en av" and
    within: "governedRightsScopeWithin (q_scope input) av" by metis
  have pool: "res_pool r = ?k" "r_scope r = q_scope input"
    by (simp_all add: r(1) seal_reservation_def acquiredReservation_def res_pool_def positionKey_def)
  have "unit_of (p_scope p) = unit_of (q_scope input)"
    using capacity_unit [OF cap] within by (simp add: within_iff)
  then have new: "map_option unit_of (scope_at st (res_pool r)) = Some (unit_of (r_scope r))"
    using read_unit [OF wf read] by (simp add: pool)
  have scopes: "scope_at st' = scope_at st" by (simp add: r(2) put_reservation_in_def scope_at_def fun_eq_iff)
  show ?thesis
    using a new map_values_set_subset [of "reservations st" "r_id r" r]
    by (auto simp: ret units_agree_def scopes) (auto simp: r(2) put_reservation_in_def)
qed

lemma encumber_agree:
  assumes wf: "store_wf sha st" and a: "units_agree st"
  shows "units_agree (snd (recordEncumbrance sha now context input st))"
proof (cases "\<exists>e. fst (recordEncumbrance sha now context input st) = Inr (Encumbered e False)")
  case False
  then have "snd (recordEncumbrance sha now context input st) = st"
    by (intro encumber_unchanged [OF wf prod.collapse [symmetric]]) auto
  with a show ?thesis by simp
next
  case True
  then obtain e st' where ret: "recordEncumbrance sha now context input st = (Inr (Encumbered e False), st')"
    by (metis prod.collapse)
  define k where "k = positionKey (n_tenantId input) (n_holderRef input) (n_resource input) (n_governedRight input)"
  from encumber_new [OF wf k_def ret] obtain p i h cm en av g ap where
    e: "e = seal_encumbrance sha (recordedEncumbrance sha input now (surrenderedIds input (pool_reservations st k)))" and
    read: "readPosition sha st k = Inr (Some p)" and
    cap: "computeActionCapacity (Some p)
       (filter (\<lambda>r. r_id r \<notin> set (surrenderedIds input (pool_reservations st k))) (pool_reservations st k))
       (pool_encumbrances st k) ap now = Available i h cm en av" and
    within: "governedRightsScopeWithin (n_scope input) av" and wf1: "store_wf sha (put_encumbrance_in st e)" and
    st': "st' = put_encumbrance_in st e \<or> (\<exists>es ids. st' = snd (handOff sha es now ids (put_encumbrance_in st e)))"
    by metis
  let ?st = "put_encumbrance_in st e"
  have pool: "enc_pool e = k" "e_scope e = n_scope input"
    by (simp_all add: e recordedEncumbrance_def k_def positionKey_def) (simp add: enc_pool_def)
  have "unit_of (p_scope p) = unit_of (n_scope input)"
    using capacity_unit [OF cap] within by (simp add: within_iff)
  then have new: "map_option unit_of (scope_at st (enc_pool e)) = Some (unit_of (e_scope e))"
    using read_unit [OF wf read] by (simp add: pool)
  have scopes: "scope_at ?st = scope_at st" by (simp add: put_encumbrance_in_def scope_at_def fun_eq_iff)
  have "units_agree ?st"
    using a new map_values_set_subset [of "encumbrances st" "e_id e" e]
    by (auto simp: units_agree_def scopes) (auto simp: put_encumbrance_in_def)
  moreover have "units_kept ?st (snd (handOff sha es now ids ?st))" for es ids
    using handOff_relaxes [OF wf1] by (intro units_kept_same) (simp add: relaxes_def)
  ultimately show ?thesis
    using st' units_agree_from handOff_cores [OF wf1] by (auto simp: ret)
qed

definition sound_store :: "(string \<Rightarrow> string) \<Rightarrow> auth_store \<Rightarrow> bool" where
  "sound_store sha st \<longleftrightarrow> store_wf sha st \<and> units_agree st"

lemma releaseReservation_positions:
  "positions (snd (releaseReservation sha now context input st)) = positions st"
  using releaseReservation_relaxes [of t st] by (simp add: relaxes_def)

lemma releaseEncumbrance_positions:
  "positions (snd (releaseEncumbrance sha now context input st)) = positions st"
  by (rule releaseEncumbrance_cases [OF prod.collapse [symmetric], of sha now "context" input st])
    (simp_all add: put_encumbrance_in_def)

lemma sound_store_empty: "sound_store sha empty_store"
  by (simp add: sound_store_def store_wf_empty) (simp add: units_agree_def empty_store_def)

lemma run_call_sound:
  assumes "sound_store sha st"
  shows "sound_store sha (run_call sha c st)"
proof -
  have wf: "store_wf sha st" and a: "units_agree st" using assms by (simp_all add: sound_store_def)
  have "units_agree (run_call sha c st)"
  proof (cases c)
    case CallClose
    then show ?thesis by (simp add: close_store_def units_agree_def)
  qed (use a wf in \<open>auto intro: units_agree_from apply_units apply_cores bootstrap_units bootstrap_cores
      acquire_agree encumber_agree units_kept_same
      releaseReservation_positions releaseEncumbrance_positions releaseReservation_cores releaseEncumbrance_cores\<close>)
  with run_call_wf [OF wf] show ?thesis by (simp add: sound_store_def)
qed

interpretation sound_machine: invariant_machine empty_store "run_call sha" "sound_store sha" for sha
  by unfold_locales (auto intro: run_call_sound sound_store_empty)

lemma run_store_units: "units_agree (run_store sha calls)"
  using sound_machine.inv_reached [of sha calls] by (simp add: run_store_def sound_store_def)

section \<open>Disciplined runs\<close>

text \<open>
  A step of the store beside its clock, under the discipline of its callers: the clock does not
  go back; only the two committing actions reserve authority; commitments and constraints take
  effect when they are recorded; a handoff names the mandate it runs under, and the derived
  identifier of a new constraint is not in use; a movement spends a commitment that covers it;
  and no position outgrows the safe integers.
\<close>

inductive disciplined :: "(string \<Rightarrow> string) \<Rightarrow> string \<times> auth_store \<Rightarrow> string \<times> auth_store \<Rightarrow> bool"
  for sha where
  tick: "instant_ge t' t \<Longrightarrow> disciplined sha (t, st) (t', st)"
| issue: "room_for (b_scope bi) st \<Longrightarrow>
    disciplined sha (t, st) (t, snd (bootstrapPosition sha t cx bi st))"
| reserve: "q_action qi \<in> {''transfer'', ''collateralize''} \<Longrightarrow> instant_ge t (q_effectiveFrom qi) \<Longrightarrow>
    disciplined sha (t, st) (t, snd (acquireReservation sha t cx qi st))"
| giveBack: "disciplined sha (t, st) (t, snd (releaseReservation sha t cx ri st))"
| constrain: "instant_ge t (n_effectiveFrom ni) \<Longrightarrow>
    n_consumesReservationsForMandateRef ni \<in> {None, Some (n_sourceMandateRef ni)} \<Longrightarrow>
    (findEncumbranceByKey st (n_tenantId ni) (encumbranceKeyOf ni) = None \<Longrightarrow>
       map_get (encumbrances st) (deriveEncumbranceId sha (n_tenantId ni) (n_sourceExecutionRef ni) (n_governedRight ni)) = None) \<Longrightarrow>
    disciplined sha (t, st) (t, snd (recordEncumbrance sha t cx ni st))"
| free: "disciplined sha (t, st) (t, snd (releaseEncumbrance sha t cx li st))"
| move: "room_for (a_scope ai) st \<Longrightarrow> backed st t ai \<Longrightarrow>
    disciplined sha (t, st) (t, snd (applyTransition sha t cx ai st))"

inductive_cases disciplined_cases: "disciplined sha (t, st) s'"

fun accounted :: "(string \<Rightarrow> string) \<Rightarrow> string \<times> auth_store \<Rightarrow> bool" where
  "accounted sha (t, st) \<longleftrightarrow> sound_store sha st \<and> covered st t \<and> mandate_unique st \<and> started st t \<and> safe_positions st"

lemma safe_held:
  assumes "store_wf sha st"
  shows "safe_positions st \<longleftrightarrow> (\<forall>k. held_at st k \<le> MAX_SAFE_INTEGER)"
proof
  assume s: "safe_positions st"
  show "\<forall>k. held_at st k \<le> MAX_SAFE_INTEGER"
  proof
    fix k
    show "held_at st k \<le> MAX_SAFE_INTEGER"
    proof (cases "map_get (positions st) (governedAuthorityPositionKey k)")
      case (Some p)
      then have "p \<in> set (map_values (positions st))" using assms map_all_member by (fastforce simp: store_wf_def)
      with s Some show ?thesis by (simp add: safe_positions_def held_at_def scope_at_def)
    qed (simp add: held_at_def scope_at_def MAX_SAFE_INTEGER_def)
  qed
next
  assume h: "\<forall>k. held_at st k \<le> MAX_SAFE_INTEGER"
  show "safe_positions st"
    unfolding safe_positions_def
  proof
    fix p assume "p \<in> set (map_values (positions st))"
    then obtain key where "map_get (positions st) key = Some p" "position_ok sha key p"
      using assms map_all_values [of "position_ok sha" "positions st" p] by (auto simp: store_wf_def)
    then have "held_at st (keyOf p) = amount (p_scope p)"
      by (simp add: held_at_def scope_at_def position_ok_def)
    with h show "amount (p_scope p) \<le> MAX_SAFE_INTEGER" by metis
  qed
qed

lemma room_held:
  assumes wf: "store_wf sha st" and room: "room_for s st" and s: "amount s \<le> MAX_SAFE_INTEGER"
  shows "held_at st k + amount s \<le> MAX_SAFE_INTEGER"
proof (cases "map_get (positions st) (governedAuthorityPositionKey k)")
  case (Some p)
  then have "p \<in> set (map_values (positions st))" using wf map_all_member by (fastforce simp: store_wf_def)
  with room Some show ?thesis by (simp add: room_for_def held_at_def scope_at_def)
qed (use s in \<open>simp add: held_at_def scope_at_def\<close>)

lemma bootstrap_safe:
  assumes wf: "store_wf sha st" and room: "room_for (b_scope input) st" and safe: "safe_positions st"
  shows "safe_positions (snd (bootstrapPosition sha now context input st))"
proof (cases "fst (bootstrapPosition sha now context input st)")
  case (Inl e)
  then have "bootstrapPosition sha now context input st = (Inl e, snd (bootstrapPosition sha now context input st))"
    by (metis prod.collapse)
  from bootstrap_refused(1) [OF wf this] safe show ?thesis by (simp add: safe_positions_def)
next
  case (Inr p)
  let ?st = "snd (bootstrapPosition sha now context input st)"
  have ret: "bootstrapPosition sha now context input st = (Inr p, ?st)" using Inr by (metis prod.collapse)
  obtain eff ex occ rec where "bootstrapGuards now context input = Inr (eff, ex, occ, rec)"
    using ret by (cases "bootstrapGuards now context input") (auto simp: bootstrapPosition_def)
  then have s: "amount (b_scope input) \<le> MAX_SAFE_INTEGER" by (simp add: bootstrapGuards_Inr valid_scope_def)
  have "held_at ?st k \<le> MAX_SAFE_INTEGER" for k
  proof (cases "k = bootstrapKey input")
    case True
    with bootstrap_effect(2) [OF wf room ret] room_held [OF wf room s, of k] show ?thesis by simp
  next
    case False
    then have "scope_at ?st k = scope_at st k" by (rule bootstrap_effect(3) [OF wf room ret])
    with safe safe_held [OF wf] show ?thesis by (simp add: held_at_def)
  qed
  then show ?thesis using safe_held [OF bootstrap_wf [OF wf]] by blast
qed

lemma apply_unmoved:
  assumes wf: "store_wf sha st" and ret: "applyTransition sha now context input st = (res, st')"
    and same: "\<nexists>out. res = Inr out \<and> \<not> ao_replayed out"
  shows "st' = st"
proof (cases res)
  case (Inl e)
  with apply_atomic [OF wf] ret show ?thesis by simp
next
  case (Inr out)
  with same have "ao_replayed out" by simp
  with apply_returns [OF ret [unfolded Inr]] show ?thesis by (auto simp: Let_def split: if_splits)
qed

lemma apply_safe:
  assumes wf: "store_wf sha st" and room: "room_for (a_scope input) st" and safe: "safe_positions st"
  shows "safe_positions (snd (applyTransition sha now context input st))"
proof (cases "\<exists>out. fst (applyTransition sha now context input st) = Inr out \<and> \<not> ao_replayed out")
  case False
  then have "snd (applyTransition sha now context input st) = st"
    by (intro apply_unmoved [OF wf prod.collapse [symmetric]]) auto
  with safe show ?thesis by simp
next
  case True
  let ?st = "snd (applyTransition sha now context input st)"
  from True obtain out where ret: "applyTransition sha now context input st = (Inr out, ?st)" and moved: "\<not> ao_replayed out"
    by (metis prod.collapse)
  obtain occ rec where "applyGuards now context input = Inr (occ, rec)" using apply_returns [OF ret] by blast
  then have s: "0 \<le> amount (a_scope input)" "amount (a_scope input) \<le> MAX_SAFE_INTEGER"
    by (simp_all add: applyGuards_Inr valid_scope_def)
  have "held_at ?st k \<le> MAX_SAFE_INTEGER" for k
  proof -
    consider right where "right \<in> set (a_governedRights input)" "k = sourceKey input right"
      | right where "right \<in> set (a_governedRights input)" "k = targetKey input right"
      | "\<And>right. right \<in> set (a_governedRights input) \<Longrightarrow> k \<noteq> sourceKey input right \<and> k \<noteq> targetKey input right"
      by blast
    then show ?thesis
    proof cases
      case (1 right)
      have "held_at st k \<le> MAX_SAFE_INTEGER" using safe safe_held [OF wf] by blast
      with 1 apply_effect(2) [OF wf room ret moved 1(1)] s show ?thesis by simp
    next
      case (2 right)
      with apply_effect(3) [OF wf room ret moved 2(1)] room_held [OF wf room s(2), of k] show ?thesis by simp
    next
      case 3
      with apply_frame(1) [OF wf ret, of k] safe safe_held [OF wf] show ?thesis by (simp add: held_at_def)
    qed
  qed
  then show ?thesis using safe_held [OF apply_wf [OF wf]] by blast
qed


text \<open>Acquisition and constraint keep the identity invariants.\<close>

lemma acquire_keeps:
  assumes wf: "store_wf sha st" and u: "mandate_unique st" and s: "started st now" and e: "instant_ge now (q_effectiveFrom input)"
  shows "mandate_unique (snd (acquireReservation sha now context input st)) \<and>
    started (snd (acquireReservation sha now context input st)) now \<and>
    positions (snd (acquireReservation sha now context input st)) = positions st"
proof (cases "\<exists>r. fst (acquireReservation sha now context input st) = Inr (Reserved r False)")
  case False
  then have "snd (acquireReservation sha now context input st) = st"
    by (intro acquire_unchanged [OF prod.collapse [symmetric]]) auto
  with u s show ?thesis by simp
next
  case True
  then obtain r st' where ret: "acquireReservation sha now context input st = (Inr (Reserved r False), st')"
    by (metis prod.collapse)
  from acquire_new [OF wf ret] have
    none: "findReservationForMandate st (q_tenantId input) (q_sourceMandateRef input) (q_governedRight input) = None" and
    r: "r = seal_reservation sha (acquiredReservation sha input now)" "st' = put_reservation_in st r" by metis+
  have f: "r_tenantId r = q_tenantId input" "r_sourceMandateRef r = q_sourceMandateRef input"
    "r_governedRight r = q_governedRight input" "r_effectiveFrom r = q_effectiveFrom input"
    by (simp_all add: r(1) seal_reservation_def acquiredReservation_def)
  have other: "\<not> (r_tenantId x = r_tenantId r \<and> r_sourceMandateRef x = r_sourceMandateRef r \<and> r_governedRight x = r_governedRight r)"
    if "x \<in> set (map_values (reservations st))" for x
    using none that by (simp add: findReservationForMandate_def find_None_iff_all f)
  have sub: "x = r \<or> x \<in> set (map_values (reservations st))" if "x \<in> set (map_values (reservations st'))" for x
    using that map_values_set_subset [of "reservations st" "r_id r" r] by (auto simp: r(2) put_reservation_in_def)
  have "mandate_unique st'"
    unfolding mandate_unique_def
  proof (intro ballI impI)
    fix x y
    assume "x \<in> set (map_values (reservations st'))" "y \<in> set (map_values (reservations st'))"
      and same: "r_tenantId x = r_tenantId y \<and> r_sourceMandateRef x = r_sourceMandateRef y \<and> r_governedRight x = r_governedRight y"
    then consider "x = y" | "x = r" "y \<in> set (map_values (reservations st))" | "y = r" "x \<in> set (map_values (reservations st))"
      | "x \<in> set (map_values (reservations st))" "y \<in> set (map_values (reservations st))" using sub by blast
    then show "r_id x = r_id y"
    proof cases
      case 2
      then show ?thesis using other [OF 2(2)] same by simp
    next
      case 3
      then show ?thesis using other [OF 3(2)] same by simp
    next
      case 4
      with u same show ?thesis unfolding mandate_unique_def by blast
    qed simp
  qed
  moreover have "started st' now"
    using s e sub f(4) by (fastforce simp: started_def r(2) put_reservation_in_def)
  ultimately show ?thesis by (simp add: ret r(2)) (simp add: put_reservation_in_def)
qed

lemma encumber_keeps:
  assumes wf: "store_wf sha st" and u: "mandate_unique st" and s: "started st now" and e: "instant_ge now (n_effectiveFrom input)"
  shows "mandate_unique (snd (recordEncumbrance sha now context input st)) \<and>
    started (snd (recordEncumbrance sha now context input st)) now \<and>
    positions (snd (recordEncumbrance sha now context input st)) = positions st"
proof (cases "\<exists>e. fst (recordEncumbrance sha now context input st) = Inr (Encumbered e False)")
  case False
  then have "snd (recordEncumbrance sha now context input st) = st"
    by (intro encumber_unchanged [OF wf prod.collapse [symmetric]]) auto
  with u s show ?thesis by simp
next
  case True
  then obtain x st' where ret: "recordEncumbrance sha now context input st = (Inr (Encumbered x False), st')"
    by (metis prod.collapse)
  from encumber_new [OF wf refl ret] have
    x: "\<exists>sur. x = seal_encumbrance sha (recordedEncumbrance sha input now sur)" and
    wf1: "store_wf sha (put_encumbrance_in st x)" and
    st': "st' = put_encumbrance_in st x \<or> (\<exists>es ids. st' = snd (handOff sha es now ids (put_encumbrance_in st x)))"
    by metis+
  let ?st = "put_encumbrance_in st x"
  have "e_effectiveFrom x = n_effectiveFrom input" using x by (auto simp: recordedEncumbrance_def)
  moreover have "y = x \<or> y \<in> set (map_values (encumbrances st))" if "y \<in> set (map_values (encumbrances ?st))" for y
    using that map_values_set_subset [of "encumbrances st" "e_id x" x] by (auto simp: put_encumbrance_in_def)
  ultimately have "started ?st now" using s e by (fastforce simp: started_def put_encumbrance_in_def)
  moreover have "reservations ?st = reservations st" by (simp add: put_encumbrance_in_def)
  then have "mandate_unique ?st" using u unfolding mandate_unique_def by (rule ssubst)
  moreover have "cores_from ?st st' \<and> positions st' = positions ?st"
    using st'
  proof
    assume "st' = ?st"
    then show ?thesis by (simp add: cores_same)
  next
    assume "\<exists>es ids. st' = snd (handOff sha es now ids ?st)"
    then obtain es ids where h: "st' = snd (handOff sha es now ids ?st)" by blast
    show ?thesis
      using handOff_cores [OF wf1, of es now ids] handOff_relaxes [OF wf1, of now es now ids]
      unfolding h relaxes_def by blast
  qed
  ultimately have "mandate_unique st' \<and> started st' now \<and> positions st' = positions ?st"
    using cores_unique cores_started by blast
  then show ?thesis by (simp add: ret put_encumbrance_in_def)
qed

section \<open>The accounting is kept\<close>

lemmas store_keeps_wf = bootstrap_wf apply_wf acquire_wf releaseReservation_wf encumber_wf releaseEncumbrance_wf

lemma call_sound:
  assumes "sound_store sha st"
  shows "sound_store sha (snd (bootstrapPosition sha t cx bi st))"
    and "sound_store sha (snd (applyTransition sha t cx ai st))"
    and "sound_store sha (snd (acquireReservation sha t cx qi st))"
    and "sound_store sha (snd (releaseReservation sha t cx ri st))"
    and "sound_store sha (snd (recordEncumbrance sha t cx ni st))"
    and "sound_store sha (snd (releaseEncumbrance sha t cx li st))"
  using run_call_sound [OF assms, of "CallBootstrap t cx bi"] run_call_sound [OF assms, of "CallApply t cx ai"]
    run_call_sound [OF assms, of "CallAcquire t cx qi"] run_call_sound [OF assms, of "CallReleaseReservation t cx ri"]
    run_call_sound [OF assms, of "CallEncumber t cx ni"] run_call_sound [OF assms, of "CallReleaseEncumbrance t cx li"]
  by simp_all

lemma safe_cong: "positions st' = positions st \<Longrightarrow> safe_positions st \<Longrightarrow> safe_positions st'"
  by (simp add: safe_positions_def)

lemma disciplined_accounted:
  assumes "disciplined sha s s'" and "accounted sha s"
  shows "accounted sha s'"
  using assms
proof cases
  case (tick t' t st)
  with assms(2) show ?thesis by (auto intro: later_covered started_later)
next
  case (issue bi st t cx)
  with assms(2) have wf: "store_wf sha st" by (simp add: sound_store_def)
  note c = bootstrap_cores [OF wf, of t cx bi]
  from issue assms(2) show ?thesis
    by (auto intro: call_sound bootstrap_covered [OF wf] bootstrap_safe [OF wf] cores_unique [OF c] cores_started [OF c])
next
  case (reserve qi t st cx)
  with assms(2) have wf: "store_wf sha st" by (simp add: sound_store_def)
  note k = acquire_keeps [OF wf _ _ reserve(4), of cx]
  from reserve assms(2) k show ?thesis
    by (auto intro: call_sound acquire_covered [OF wf] safe_cong)
next
  case (giveBack t st cx ri)
  note c = releaseReservation_cores [of st sha t cx ri]
  from giveBack assms(2) show ?thesis
    by (auto intro: call_sound releaseReservation_covered safe_cong [OF releaseReservation_positions]
        cores_unique [OF c] cores_started [OF c])
next
  case (constrain t ni st cx)
  with assms(2) have wf: "store_wf sha st" by (simp add: sound_store_def)
  note k = encumber_keeps [OF wf _ _ constrain(3), of cx]
  from constrain assms(2) k show ?thesis
    by (auto intro: call_sound encumber_covered [OF wf] safe_cong)
next
  case (free t st cx li)
  with assms(2) have wf: "store_wf sha st" by (simp add: sound_store_def)
  note c = releaseEncumbrance_cores [of st sha t cx li]
  from free assms(2) show ?thesis
    by (auto intro: call_sound releaseEncumbrance_covered [OF wf] safe_cong [OF releaseEncumbrance_positions]
        cores_unique [OF c] cores_started [OF c])
next
  case (move ai st t cx)
  with assms(2) have wf: "store_wf sha st" by (simp add: sound_store_def)
  note c = apply_cores [OF wf, of t cx ai]
  from move assms(2) show ?thesis
    by (auto intro: call_sound apply_covered [OF wf] apply_safe [OF wf] cores_unique [OF c] cores_started [OF c])
qed

lemma empty_accounted: "accounted sha (t, empty_store)"
  by (simp add: sound_store_empty covered_def pool_constrained_def pool_committed_def held_at_def scope_at_def
      mandate_unique_def started_def safe_positions_def) (simp add: empty_store_def)

lemma disciplined_run_accounted:
  assumes "(disciplined sha)\<^sup>*\<^sup>* (t0, empty_store) s"
  shows "accounted sha s"
  using assms by (induction rule: rtranclp_induct) (auto intro: empty_accounted disciplined_accounted simp del: accounted.simps)

section \<open>What the store then reports\<close>

lemma pool_units:
  assumes u: "units_agree st" and s: "scope_at st k = Some s"
  shows "\<forall>r \<in> set (pool_reservations st k). unit_of (r_scope r) = unit_of s"
    and "\<forall>e \<in> set (pool_encumbrances st k). unit_of (e_scope e) = unit_of s"
  using u s by (auto simp: units_agree_def pool_reservations_def pool_encumbrances_def res_over_iff enc_over_iff)

text \<open>
  On an accounted store the question has two answers: no position, or a quantity; and the
  quantity is exactly what is held less what constrains and what stands committed.
\<close>

lemma availability_exact:
  assumes acc: "accounted sha (t, st)"
    and access: "requireAuthorityAccessToOrganization cx (av_tenantId q) = Inr ()" and at: "av_at q = t" "isStrictUtcTimestamp t"
    and k: "k = positionKey (av_tenantId q) (av_holderRef q) (av_resource q) (av_governedRight q)"
  shows "case scope_at st k of
      None \<Rightarrow> resolveAvailability sha cx q st = Inr NoAuthority
    | Some held \<Rightarrow> \<exists>i cm en a. resolveAvailability sha cx q st = Inr (Available i held cm en a) \<and>
        unit_of a = unit_of held \<and>
        amount a = held_at st k - pool_constrained st k t - pool_committed st k t"
proof -
  have wf: "store_wf sha st" and u: "units_agree st" and cov: "covered st t" and safe: "safe_positions st"
    using acc by (simp_all add: sound_store_def)
  note rp = read_pool [OF wf, of "av_tenantId q" "av_holderRef q" "av_resource q" "av_governedRight q", folded k]
  let ?pos = "map_get (positions st) (governedAuthorityPositionKey k)"
  have eq: "resolveAvailability sha cx q st =
      Inr (computeCapacity ?pos (pool_reservations st k) (pool_encumbrances st k) t)"
    using access at
    by (simp add: resolveAvailability_def readPosition_total [OF wf] rp k [symmetric] requireStrictUtcAuthorityTimestamp_def)
  show ?thesis
  proof (cases ?pos)
    case None
    then show ?thesis by (simp add: eq scope_at_def computeCapacity_def computeActionCapacity_def)
  next
    case (Some p)
    then have read: "readPosition sha st k = Inr (Some p)" by (simp add: readPosition_total [OF wf])
    note hp = held_position [OF wf read] and pv = pool_valid [OF wf, of k]
    have max: "amount (p_scope p) \<le> MAX_SAFE_INTEGER" using safe hp(3) by (simp add: safe_positions_def)
    have s: "scope_at st k = Some (p_scope p)" by (simp add: scope_at_def Some)
    have "constrainedAmount (pool_encumbrances st k) t + committedAmount (pool_reservations st k) (pool_encumbrances st k) t
        \<le> amount (p_scope p)"
      using cov hp(1) unfolding covered_def constrained_pool committed_pool by metis
    then obtain cm en a where cap: "computeActionCapacity (Some p) (pool_reservations st k) (pool_encumbrances st k)
        (pool_encumbrances st k) t = Available (p_id p) (p_scope p) cm en a"
      using action_capacity_complete [OF refl pool_units [OF u s] pool_units(2) [OF u s] pv pv(2) hp(2) max] by blast
    from action_capacity_exact [OF cap pv pv(2) hp(2) max] cap hp(1) show ?thesis
      by (simp add: eq s Some computeCapacity_def constrained_pool committed_pool)
  qed
qed

end
