(* ===== verification/StoreProtocol.thy ===== *)
theory StoreProtocol
  imports CommitmentMachine
begin

text \<open>
  How the store's calls compose: replays return what was done and write nothing, a release is
  final, one release execution ends at most one constraint, a call without access to its tenant
  changes nothing, and a call over one tenant leaves every other tenant's records alone.
\<close>

section \<open>Reservations: replay and release\<close>

text \<open>The same acquisition again returns the reservation it made, and writes nothing.\<close>

lemma acquire_replay:
  assumes wf: "store_wf sha st"
    and ret: "acquireReservation sha now context input st = (Inr (Reserved r False), st')"
    and later: "isStrictUtcTimestamp later"
  shows "acquireReservation sha later context input st' = (Inr (Reserved r True), st')"
proof -
  from acquire_new [OF wf ret] have guards: "acquireGuards now context input = Inr now"
    and none: "findReservationByKey st (q_tenantId input) (reservationKeyOf input) = None"
    and r: "r = seal_reservation sha (acquiredReservation sha input now)" "st' = put_reservation_in st r" by metis+
  have g: "acquireGuards later context input = Inr later" using guards later by (simp add: acquireGuards_Inr)
  have wf': "store_wf sha st'" using acquire_wf [OF wf, of now "context" input] by (simp add: ret)
  let ?P = "\<lambda>x. r_tenantId x = q_tenantId input \<and> r_idempotencyKey x = reservationKeyOf input"
  have f: "?P r" by (simp add: r(1) seal_reservation_def acquiredReservation_def)
  have mem: "r \<in> set (map_values (reservations st'))"
    using wf' map_all_member [of "reservation_ok sha" "reservations st'" "r_id r" r]
    unfolding store_wf_def r(2) put_reservation_in_def by (simp add: map_simps)
  have old: "\<forall>x \<in> set (map_values (reservations st)). \<not> ?P x"
    using none by (simp add: findReservationByKey_def find_None_iff_all)
  have sub: "set (map_values (reservations st')) \<subseteq> insert r (set (map_values (reservations st)))"
    using map_values_set_subset [of "reservations st" "r_id r" r] unfolding r(2) put_reservation_in_def by simp
  obtain x where x: "find ?P (map_values (reservations st')) = Some x"
    using mem f by (cases "find ?P (map_values (reservations st'))") (auto simp only: find_None_iff_all)
  from find_SomeD [OF x] old sub have "x = r" by blast
  with x have "findReservationByKey st' (q_tenantId input) (reservationKeyOf input) = Some r"
    by (simp add: findReservationByKey_def)
  moreover have "assertReservationIntegrity sha r = Inr r"
    by (simp add: r(1) reservation_seal.verify_seal)
  moreover have "reservationReplayMatches r input"
    by (simp add: r(1) reservationReplayMatches_def seal_reservation_def acquiredReservation_def)
  ultimately show ?thesis by (simp add: acquireReservation_def g)
qed

lemma releaseReservation_result:
  assumes "releaseReservation sha now context input st = (Inr r, st')"
  shows "r_status r = RsReleased \<and> map_get (reservations st') (rl_reservationId input) \<noteq> None"
  using assms
  by (auto simp: releaseReservation_def outcome_simps reservation_seal.verify_Inr putReservation_eq
      put_reservation_in_def map_simps split: option.splits if_splits GovernedAuthorityReservationStatus.splits)

text \<open>A release returns a released reservation, and releasing it again changes nothing.\<close>

lemma releaseReservation_idempotent:
  assumes wf: "store_wf sha st" and ret: "releaseReservation sha now context input st = (Inr r, st')"
  shows "r_status r = RsReleased \<and> releaseReservation sha later context input st' = (Inr r, st')"
proof -
  from ret obtain found where acc: "requireAuthorityAccessToOrganization context (rl_tenantId input) = Inr ()"
    and adm: "\<not> (rl_reason input = AdministrativeRelease \<and> \<not> cx_system context)"
    and get: "map_get (reservations st) (rl_reservationId input) = Some found"
    and ten: "r_tenantId found = rl_tenantId input"
    by (auto simp: releaseReservation_def outcome_simps split: option.splits if_splits)
  have ok: "reservation_ok sha (rl_reservationId input) found"
    using wf get map_all_get by (fastforce simp: store_wf_def)
  then have id: "r_id found = rl_reservationId input" by (simp add: reservation_ok_def)
  have int: "assertReservationIntegrity sha found = Inr found"
    using ok by (simp add: reservation_ok_def reservation_seal.verify_intact)
  from ret show ?thesis
    using acc adm get ten int id
    by (auto simp: releaseReservation_def outcome_simps putReservation_eq put_reservation_in_def map_simps
        reservation_seal.verify_seal
        split: GovernedAuthorityReservationStatus.splits) (simp_all add: seal_reservation_def)
qed

section \<open>Constraints: release\<close>

lemma releaseEncumbrance_writes:
  assumes wf: "store_wf sha st" and ret: "releaseEncumbrance sha now context input st = (Inr e', st')"
  obtains e where "map_get (encumbrances st) (l_encumbranceId input) = Some e" "e_tenantId e = l_tenantId input"
    "e_status e = EsReleased" "e' = e" "st' = st" "encumbranceReleaseReplayMatches e (l_basis input)"
  | e at where "map_get (encumbrances st) (l_encumbranceId input) = Some e" "e_tenantId e = l_tenantId input"
    "e_status e = EsActive" "isStrictUtcTimestamp at"
    "e' = seal_encumbrance sha ((applyReleaseBasis (l_basis input)
       (e\<lparr>e_status := EsReleased, e_releasedAt := Some at\<rparr>))\<lparr>e_updatedAt := at\<rparr>)"
    "st' = put_encumbrance_in st e'"
    "\<And>a m x. l_basis input = ReleaseByExecution a m x \<Longrightarrow> assertReleaseExecutionUnclaimed st (l_tenantId input) x (e_id e) = Inr ()"
proof -
  from ret obtain e where get: "map_get (encumbrances st) (l_encumbranceId input) = Some e"
    and ten: "e_tenantId e = l_tenantId input"
    by (auto simp: releaseEncumbrance_def outcome_simps split: option.splits if_splits)
  have int: "assertEncumbranceIntegrity sha e = Inr e"
    using wf get map_all_get by (fastforce simp: store_wf_def encumbrance_ok_def encumbrance_seal.verify_intact)
  show thesis
  proof (cases "e_status e")
    case EsReleased
    with ret get ten int show thesis
      by (intro that(1) [OF get ten EsReleased]) (auto simp: releaseEncumbrance_def outcome_simps split: if_splits)
  next
    case EsActive
    from ret get ten int EsActive obtain at where at: "isStrictUtcTimestamp at"
      and e': "e' = seal_encumbrance sha ((applyReleaseBasis (l_basis input)
         (e\<lparr>e_status := EsReleased, e_releasedAt := Some at\<rparr>))\<lparr>e_updatedAt := at\<rparr>)" "st' = put_encumbrance_in st e'"
      and un: "(case l_basis input of
                    ReleaseByExecution _ _ executionRef \<Rightarrow>
                      assertReleaseExecutionUnclaimed st (l_tenantId input) executionRef (e_id e)
                  | ReleaseByAdministrator _ _ \<Rightarrow> Inr ()) = Inr ()"
      by (auto simp: releaseEncumbrance_def outcome_simps putEncumbrance_eq Let_def)
    from un show thesis by (intro that(2) [OF get ten EsActive at e']) simp
  qed
qed

lemma projectReleaseBasis_inject: "projectReleaseBasis a = projectReleaseBasis b \<longleftrightarrow> a = b"
  by (cases a; cases b) auto

lemma released_matches:
  assumes "e_releaseBasis e = None" "e_releaseAction e = None" "e_releaseMandateRef e = None"
    "e_releaseExecutionRef e = None" "e_releasedBy e = None" "e_releaseReasonCode e = None"
  shows "encumbranceReleaseReplayMatches (seal_encumbrance sha ((applyReleaseBasis basis
    (e\<lparr>e_status := EsReleased, e_releasedAt := Some at\<rparr>))\<lparr>e_updatedAt := at\<rparr>)) b \<longleftrightarrow> b = basis"
  using assms by (cases basis; cases b) (auto simp: encumbranceReleaseReplayMatches_def seal_encumbrance_def)

text \<open>
  A release is final: the same basis again returns the same record, any other acceptable and
  permitted basis is a conflict, and neither writes.
\<close>

lemma releaseEncumbrance_final:
  assumes wf: "store_wf sha st" and ret: "releaseEncumbrance sha now context input st = (Inr e, st')"
    and ok: "assertEncumbranceReleaseBasisAcceptable b = Inr ()"
    and sys: "\<And>by why. b = ReleaseByAdministrator by why \<Longrightarrow> cx_system context"
  shows "e_status e = EsReleased \<and> releaseEncumbrance sha later context (input\<lparr>l_basis := b\<rparr>) st' =
    (if b = l_basis input then Inr e else Inl ENCUMBRANCE_RELEASE_CONFLICT, st')"
proof -
  have acc: "requireAuthorityAccessToOrganization context (l_tenantId input) = Inr ()"
    using ret by (auto simp: releaseEncumbrance_def outcome_simps)
  have wf': "store_wf sha st'" using releaseEncumbrance_wf [OF wf, of now "context" input] by (simp add: ret)
  have perm: "(case b of ReleaseByAdministrator _ _ \<Rightarrow> check ENCUMBRANCE_RELEASE_NOT_PERMITTED (cx_system context)
      | ReleaseByExecution _ _ _ \<Rightarrow> Inr ()) = Inr ()"
    using sys by (cases b) (auto simp: outcome_simps)
  have "map_get (encumbrances st') (l_encumbranceId input) = Some e \<and> e_tenantId e = l_tenantId input \<and>
      e_status e = EsReleased \<and> (encumbranceReleaseReplayMatches e b \<longleftrightarrow> b = l_basis input)"
  proof (rule releaseEncumbrance_writes [OF wf ret])
    fix x
    assume "map_get (encumbrances st) (l_encumbranceId input) = Some x" "e_tenantId x = l_tenantId input"
      "e_status x = EsReleased" "e = x" "st' = st" "encumbranceReleaseReplayMatches x (l_basis input)"
    then show ?thesis
      by (auto simp: encumbranceReleaseReplayMatches_def projectReleaseBasis_inject)
  next
    fix x at
    assume get: "map_get (encumbrances st) (l_encumbranceId input) = Some x" and x: "e_tenantId x = l_tenantId input"
      "e_status x = EsActive"
      and e: "e = seal_encumbrance sha ((applyReleaseBasis (l_basis input)
         (x\<lparr>e_status := EsReleased, e_releasedAt := Some at\<rparr>))\<lparr>e_updatedAt := at\<rparr>)" and st': "st' = put_encumbrance_in st e"
    have okx: "encumbrance_ok sha (l_encumbranceId input) x"
      using wf get map_all_get by (fastforce simp: store_wf_def)
    then have id: "e_id e = l_encumbranceId input" by (simp add: e encumbrance_ok_def)
    have "e_tenantId e = e_tenantId x" by (cases "l_basis input") (simp_all add: e seal_encumbrance_def)
    with okx x id show ?thesis
      by (simp add: st' put_encumbrance_in_def map_simps) (simp add: e released_matches encumbrance_ok_def)
  qed
  moreover from this have "assertEncumbranceIntegrity sha e = Inr e"
    using wf' map_all_get by (fastforce simp: store_wf_def encumbrance_ok_def encumbrance_seal.verify_intact)
  ultimately show ?thesis using acc ok perm by (simp add: releaseEncumbrance_def)
qed

section \<open>One release execution, one constraint\<close>

definition release_unique :: "auth_store \<Rightarrow> bool" where
  "release_unique st \<longleftrightarrow> (\<forall>e \<in> set (map_values (encumbrances st)). \<forall>e' \<in> set (map_values (encumbrances st)).
     e_tenantId e = e_tenantId e' \<and> e_releaseExecutionRef e \<noteq> None \<and>
     e_releaseExecutionRef e = e_releaseExecutionRef e' \<longrightarrow> e_id e = e_id e')"

text \<open>Writing one record keeps it when no other record carries the same release execution.\<close>

lemma release_unique_put:
  assumes u: "release_unique st"
    and new: "\<And>e. e \<in> set (map_values (encumbrances st)) \<Longrightarrow> e_tenantId e = e_tenantId x \<Longrightarrow>
      e_releaseExecutionRef x \<noteq> None \<Longrightarrow> e_releaseExecutionRef e = e_releaseExecutionRef x \<Longrightarrow> e_id e = e_id x"
  shows "release_unique (put_encumbrance_in st x)"
proof -
  have sub: "set (map_values (encumbrances (put_encumbrance_in st x))) \<subseteq> insert x (set (map_values (encumbrances st)))"
    using map_values_set_subset [of "encumbrances st" "e_id x" x] by (simp add: put_encumbrance_in_def)
  show ?thesis
    unfolding release_unique_def
  proof (intro ballI impI)
    fix a b
    assume "a \<in> set (map_values (encumbrances (put_encumbrance_in st x)))" "b \<in> set (map_values (encumbrances (put_encumbrance_in st x)))"
      and same: "e_tenantId a = e_tenantId b \<and> e_releaseExecutionRef a \<noteq> None \<and> e_releaseExecutionRef a = e_releaseExecutionRef b"
    with sub consider "a = b" | "a = x" "b \<in> set (map_values (encumbrances st))"
      | "b = x" "a \<in> set (map_values (encumbrances st))"
      | "a \<in> set (map_values (encumbrances st))" "b \<in> set (map_values (encumbrances st))" by blast
    then show "e_id a = e_id b"
    proof cases
      case 2
      with same have "e_tenantId b = e_tenantId x" "e_releaseExecutionRef x \<noteq> None"
        "e_releaseExecutionRef b = e_releaseExecutionRef x" by metis+
      from new [OF 2(2) this] 2(1) show ?thesis by simp
    next
      case 3
      with same have "e_tenantId a = e_tenantId x" "e_releaseExecutionRef x \<noteq> None"
        "e_releaseExecutionRef a = e_releaseExecutionRef x" by metis+
      from new [OF 3(2) this] 3(1) show ?thesis by simp
    next
      case 4
      with u same show ?thesis unfolding release_unique_def by blast
    qed simp
  qed
qed

lemma release_unique_cong: "encumbrances st' = encumbrances st \<Longrightarrow> release_unique st \<Longrightarrow> release_unique st'"
  unfolding release_unique_def by (rule ssubst)

lemma releaseEncumbrance_failed:
  assumes "releaseEncumbrance sha now context input st = (Inl err, st')"
  shows "st' = st"
  using assms
  by (auto simp: releaseEncumbrance_def attempt_def putEncumbrance_eq Let_def
      split: option.splits sum.splits if_splits)

lemma release_unique_release:
  assumes wf: "store_wf sha st" and u: "release_unique st"
  shows "release_unique (snd (releaseEncumbrance sha now context input st))"
proof (cases "fst (releaseEncumbrance sha now context input st)")
  case (Inl err)
  then have "snd (releaseEncumbrance sha now context input st) = st"
    by (intro releaseEncumbrance_failed [of sha now "context" input st err]) (metis prod.collapse)
  with u show ?thesis by simp
next
  case (Inr e')
  then obtain st' where ret: "releaseEncumbrance sha now context input st = (Inr e', st')" by (metis prod.collapse)
  have "release_unique st'"
  proof (rule releaseEncumbrance_writes [OF wf ret])
    assume "st' = st"
    with u show ?thesis by simp
  next
    fix e at
    assume get: "map_get (encumbrances st) (l_encumbranceId input) = Some e" and ten: "e_tenantId e = l_tenantId input"
      and act: "e_status e = EsActive"
      and e': "e' = seal_encumbrance sha ((applyReleaseBasis (l_basis input)
         (e\<lparr>e_status := EsReleased, e_releasedAt := Some at\<rparr>))\<lparr>e_updatedAt := at\<rparr>)" and st': "st' = put_encumbrance_in st e'"
      and un: "\<And>a m x. l_basis input = ReleaseByExecution a m x \<Longrightarrow>
        assertReleaseExecutionUnclaimed st (l_tenantId input) x (e_id e) = Inr ()"
    have ok: "encumbrance_ok sha (l_encumbranceId input) e"
      using wf get map_all_get by (fastforce simp: store_wf_def)
    show ?thesis
      unfolding st'
    proof (rule release_unique_put [OF u])
      fix o'
      assume o': "o' \<in> set (map_values (encumbrances st))" "e_tenantId o' = e_tenantId e'"
        "e_releaseExecutionRef e' \<noteq> None" "e_releaseExecutionRef o' = e_releaseExecutionRef e'"
      show "e_id o' = e_id e'"
      proof (cases "l_basis input")
        case (ReleaseByExecution a m x)
        with un [OF ReleaseByExecution] o' ten show ?thesis
          by (auto simp: e' assertReleaseExecutionUnclaimed_def list_ex_iff seal_encumbrance_def split: if_splits)
      next
        case (ReleaseByAdministrator b c)
        with o'(3) ok act show ?thesis by (simp add: e' seal_encumbrance_def encumbrance_ok_def)
      qed
    qed
  qed
  with ret show ?thesis by simp
qed


lemma release_unique_encumber:
  assumes wf: "store_wf sha st" and u: "release_unique st"
  shows "release_unique (snd (recordEncumbrance sha now context input st))"
proof (cases "\<exists>e. fst (recordEncumbrance sha now context input st) = Inr (Encumbered e False)")
  case False
  then have "snd (recordEncumbrance sha now context input st) = st"
    by (intro encumber_unchanged [OF wf prod.collapse [symmetric]]) auto
  with u show ?thesis by simp
next
  case True
  then obtain e st' where ret: "recordEncumbrance sha now context input st = (Inr (Encumbered e False), st')"
    by (metis prod.collapse)
  from encumber_new [OF wf refl ret] have
    e: "\<exists>sur. e = seal_encumbrance sha (recordedEncumbrance sha input now sur)" and
    wf1: "store_wf sha (put_encumbrance_in st e)" and
    st': "st' = put_encumbrance_in st e \<or> (\<exists>es ids. st' = snd (handOff sha es now ids (put_encumbrance_in st e)))"
    by metis+
  have "e_releaseExecutionRef e = None" using e by (auto simp: seal_encumbrance_def recordedEncumbrance_def)
  then have "release_unique (put_encumbrance_in st e)" by (intro release_unique_put [OF u]) simp
  moreover have "encumbrances (snd (handOff sha es now ids (put_encumbrance_in st e))) = encumbrances (put_encumbrance_in st e)" for es ids
    using handOff_relaxes [OF wf1, of now es now ids] by (simp add: relaxes_def)
  ultimately show ?thesis
    using st' release_unique_cong by (simp add: ret) blast
qed

definition released_once :: "(string \<Rightarrow> string) \<Rightarrow> auth_store \<Rightarrow> bool" where
  "released_once sha st \<longleftrightarrow> store_wf sha st \<and> release_unique st"

lemma apply_encumbrances:
  assumes wf: "store_wf sha st"
  shows "encumbrances (snd (applyTransition sha now context input st)) = encumbrances st"
proof (cases "\<exists>out. fst (applyTransition sha now context input st) = Inr out \<and> \<not> ao_replayed out")
  case False
  then have "snd (applyTransition sha now context input st) = st"
    by (intro apply_unmoved [OF wf prod.collapse [symmetric]]) auto
  then show ?thesis by simp
next
  case True
  then obtain out where ret: "applyTransition sha now context input st = (Inr out, snd (applyTransition sha now context input st))"
    by (metis prod.collapse)
  then obtain k :: GovernedAuthorityPositionKey where "pk_tenantId k \<noteq> a_tenantId input"
    using that [of "\<lparr>pk_tenantId = CHR ''x'' # a_tenantId input, pk_actorRef = [], pk_resourceKind = [], pk_resourceId = [], pk_governedRight = []\<rparr>"]
    by auto
  then show ?thesis
    by (intro apply_frame(2) [OF wf ret, of k]) (auto simp: sourceKey_def targetKey_def positionKey_def)
qed

lemma releaseReservation_encumbrances:
  "encumbrances (snd (releaseReservation sha now context input st)) = encumbrances st"
  using releaseReservation_relaxes [of t st] by (simp add: relaxes_def)

lemma acquire_encumbrances:
  "encumbrances (snd (acquireReservation sha now context input st)) = encumbrances st"
  by (auto simp: acquireReservation_def acquireDecide_def attempt_def putReservation_eq put_reservation_in_def
      split: option.splits sum.splits GovernedAuthorityAvailability.splits)

lemma run_call_released_once:
  assumes "released_once sha st"
  shows "released_once sha (run_call sha c st)"
proof -
  have wf: "store_wf sha st" and u: "release_unique st" using assms by (simp_all add: released_once_def)
  have "release_unique (run_call sha c st)"
  proof (cases c)
    case CallClose
    then show ?thesis by (simp add: close_store_def release_unique_def)
  qed (use u wf in \<open>simp_all add: release_unique_cong [OF bootstrap_keeps(2)] release_unique_cong [OF apply_encumbrances]
      release_unique_cong [OF releaseReservation_encumbrances] release_unique_cong [OF acquire_encumbrances]
      release_unique_encumber release_unique_release\<close>)
  with run_call_wf [OF wf] show ?thesis by (simp add: released_once_def)
qed

lemma released_once_empty: "released_once sha empty_store"
  by (simp add: released_once_def store_wf_empty) (simp add: release_unique_def empty_store_def)

interpretation release_machine: invariant_machine empty_store "run_call sha" "released_once sha" for sha
  by unfold_locales (auto intro: run_call_released_once released_once_empty)

lemma run_store_release_unique: "release_unique (run_store sha calls)"
  using release_machine.inv_reached [of sha calls] by (simp add: run_store_def released_once_def)

section \<open>Tenants\<close>

fun call_context :: "store_call \<Rightarrow> AuthorityGovernanceContext option" where
  "call_context (CallBootstrap now cx i) = Some cx"
| "call_context (CallApply now cx i) = Some cx"
| "call_context (CallAcquire now cx i) = Some cx"
| "call_context (CallReleaseReservation now cx i) = Some cx"
| "call_context (CallEncumber now cx i) = Some cx"
| "call_context (CallReleaseEncumbrance now cx i) = Some cx"
| "call_context CallClose = None"

text \<open>The entries of a map that belong to the other tenants, in the order the map holds them.\<close>

definition others :: "('v \<Rightarrow> string) \<Rightarrow> string \<Rightarrow> (string, 'v) js_map \<Rightarrow> (string, 'v) js_map" where
  "others tenantOf ten m = filter (\<lambda>x. tenantOf (snd x) \<noteq> ten) m"

lemma others_set:
  assumes "tenantOf v = ten" and "\<And>old. map_get m k = Some old \<Longrightarrow> tenantOf old = ten"
  shows "others tenantOf ten (map_set m k v) = others tenantOf ten m"
  using assms(2) by (induction m) (auto simp: others_def map_set_def map_get_def assms(1) split: if_splits)

text \<open>
  What a call over tenant \<open>ten\<close> must leave alone: of every other tenant all the positions, reservations,
  constraints and transitions, whole and none added, and the counters and the digest its next
  records are built from.
\<close>

definition foreign_same :: "string \<Rightarrow> auth_store \<Rightarrow> auth_store \<Rightarrow> bool" where
  "foreign_same ten st st' \<longleftrightarrow>
     others p_tenantId ten (positions st') = others p_tenantId ten (positions st) \<and>
     others r_tenantId ten (reservations st') = others r_tenantId ten (reservations st) \<and>
     others e_tenantId ten (encumbrances st') = others e_tenantId ten (encumbrances st) \<and>
     filter (\<lambda>t. t_tenantId t \<noteq> ten) (transitions st') = filter (\<lambda>t. t_tenantId t \<noteq> ten) (transitions st) \<and>
     (\<forall>other. other \<noteq> ten \<longrightarrow>
        map_get (sequenceByTenant st') other = map_get (sequenceByTenant st) other \<and>
        map_get (lastDigestByTenant st') other = map_get (lastDigestByTenant st) other \<and>
        map_get (issuanceOrdinalByTenant st') other = map_get (issuanceOrdinalByTenant st) other)"

lemma foreign_same_refl: "foreign_same ten st st"
  by (simp add: foreign_same_def)

lemma foreign_same_trans: "foreign_same ten a b \<Longrightarrow> foreign_same ten b c \<Longrightarrow> foreign_same ten a c"
  by (auto simp: foreign_same_def)

text \<open>A derived identifier that is already another tenant's: a collision of truncated digests.\<close>

fun foreign_id :: "(string \<Rightarrow> string) \<Rightarrow> store_call \<Rightarrow> auth_store \<Rightarrow> bool" where
  "foreign_id sha (CallAcquire now cx i) st =
     (case map_get (reservations st) (deriveReservationId sha (q_tenantId i) (q_sourceMandateRef i) (q_governedRight i)) of
        None \<Rightarrow> False | Some r \<Rightarrow> r_tenantId r \<noteq> q_tenantId i)"
| "foreign_id sha (CallEncumber now cx i) st =
     (case map_get (encumbrances st) (deriveEncumbranceId sha (n_tenantId i) (n_sourceExecutionRef i) (n_governedRight i)) of
        None \<Rightarrow> False | Some e \<Rightarrow> e_tenantId e \<noteq> n_tenantId i)"
| "foreign_id sha c st = False"

lemma sealed_tenant: "r_tenantId (seal_reservation sha r) = r_tenantId r" "e_tenantId (seal_encumbrance sha e) = e_tenantId e"
  "e_tenantId (applyReleaseBasis b e) = e_tenantId e"
  by (simp_all add: seal_reservation_def seal_encumbrance_def) (cases b; simp)

lemma foreign_put_reservation:
  assumes "r_tenantId r = ten" and "\<And>old. map_get (reservations st) (r_id r) = Some old \<Longrightarrow> r_tenantId old = ten"
  shows "foreign_same ten st (put_reservation_in st r)"
  using others_set [of r_tenantId r ten, OF assms] by (simp add: foreign_same_def put_reservation_in_def)

lemma foreign_put_encumbrance:
  assumes "e_tenantId e = ten" and "\<And>old. map_get (encumbrances st) (e_id e) = Some old \<Longrightarrow> e_tenantId old = ten"
  shows "foreign_same ten st (put_encumbrance_in st e)"
  using others_set [of e_tenantId e ten, OF assms] by (simp add: foreign_same_def put_encumbrance_in_def)

lemma foreign_put_position:
  assumes "p_tenantId p = ten"
    and "\<And>old. map_get (positions st) (governedAuthorityPositionKey (keyOf p)) = Some old \<Longrightarrow> p_tenantId old = ten"
  shows "foreign_same ten st (put_position_in st p)"
  using others_set [of p_tenantId p ten, OF assms] by (simp add: foreign_same_def put_position_in_def)

lemma foreign_append:
  assumes "appendTransition sha draft st = (t, st')" and "t_tenantId draft = ten"
  shows "foreign_same ten st st'"
proof -
  note eq = assms(1) [symmetric, unfolded appendTransition_eq Let_def prod.inject]
  then show ?thesis by (simp add: foreign_same_def seal_transition_def assms(2) map_simps)
qed

text \<open>A position stands under its own key, so what stands under a tenant's key is the tenant's.\<close>

lemma position_tenant:
  assumes "store_wf sha st" and "map_get (positions st) (governedAuthorityPositionKey k) = Some p"
  shows "p_tenantId p = pk_tenantId k"
proof -
  have "position_ok sha (governedAuthorityPositionKey k) p"
    using assms map_all_get by (fastforce simp: store_wf_def)
  then show ?thesis by (auto simp: position_ok_def positionKey_inject keyOf_def)
qed

lemma entry_foreign:
  assumes wf: "store_wf sha st" and g: "staged_ok sha input g"
  shows "foreign_same (a_tenantId input) st (snd (applyEntry sha input occ rec g st))"
proof -
  let ?ten = "a_tenantId input"
  obtain t st1 where ap: "appendTransition sha (movementTransition sha input occ rec (sg_governedRight g)) st = (t, st1)"
    by fastforce
  let ?d = "seal_position sha (debitedDraft rec g (t_id t))" and ?c = "seal_position sha (creditedDraft sha input occ rec g (t_id t))"
  have kd: "keyOf ?d = sourceKey input (sg_governedRight g)" and kc: "keyOf ?c = targetKey input (sg_governedRight g)"
    using debited_key [OF g] credited_key [OF g] by simp_all
  have td: "p_tenantId ?d = ?ten" and tc: "p_tenantId ?c = ?ten"
    using arg_cong [OF kd, of pk_tenantId] arg_cong [OF kc, of pk_tenantId]
    by (simp_all add: keyOf_def sourceKey_def targetKey_def positionKey_def)
  have tenant: "pk_tenantId (keyOf p) = p_tenantId p" for p by (simp add: keyOf_def)
  have old: "p_tenantId p = ?ten" if "map_get (positions st1) (governedAuthorityPositionKey k) = Some p" "pk_tenantId k = ?ten" for k p
    using position_tenant [OF appendTransition_wf [OF wf ap] that(1)] that(2) by simp
  have "foreign_same ?ten st st1" by (rule foreign_append [OF ap]) (simp add: movementTransition_def)
  moreover have "foreign_same ?ten st1 (put_position_in st1 ?d)"
    by (rule foreign_put_position [OF td]) (erule old, unfold tenant, rule td)
  moreover have "foreign_same ?ten (put_position_in st1 ?d) (put_position_in (put_position_in st1 ?d) ?c)"
  proof (rule foreign_put_position [OF tc])
    fix p assume "map_get (positions (put_position_in st1 ?d)) (governedAuthorityPositionKey (keyOf ?c)) = Some p"
    then have "p = ?d \<or> map_get (positions st1) (governedAuthorityPositionKey (keyOf ?c)) = Some p"
      by (auto simp: put_position_in_def map_simps split: if_splits)
    then show "p_tenantId p = ?ten"
      using td tc old [of "keyOf ?c" p] by (auto simp: tenant)
  qed
  ultimately show ?thesis by (simp add: applyEntry_eq ap) (blast intro: foreign_same_trans)
qed

lemma staged_foreign:
  "store_wf sha st \<Longrightarrow> \<forall>g \<in> set gs. staged_ok sha input g \<Longrightarrow> isStrictUtcTimestamp occ \<Longrightarrow>
     valid_scope (a_scope input) \<Longrightarrow> foreign_same (a_tenantId input) st (snd (applyStaged sha input occ rec gs st))"
proof (induction gs arbitrary: st)
  case (Cons g gs)
  obtain t st1 where e: "applyEntry sha input occ rec g st = (t, st1)" by fastforce
  obtain ts st2 where r: "applyStaged sha input occ rec gs st1 = (ts, st2)" by fastforce
  have wf1: "store_wf sha st1" using applyEntry_wf [OF Cons.prems(1) _ Cons.prems(3,4), of g rec] Cons.prems(2) e by simp
  have "foreign_same (a_tenantId input) st st1" using entry_foreign [OF Cons.prems(1), of input g occ rec] Cons.prems(2) e by simp
  moreover have "foreign_same (a_tenantId input) st1 st2" using Cons.IH [OF wf1] Cons.prems(2-4) r by simp
  ultimately show ?case by (simp add: e r) (blast intro: foreign_same_trans)
qed (simp add: foreign_same_refl)

lemma consume_foreign:
  "\<forall>r \<in> set rs. r_tenantId r = ten \<longrightarrow> (\<forall>old. map_get (reservations st) (r_id r) = Some old \<longrightarrow> r_tenantId old = ten) \<Longrightarrow>
   foreign_same ten st (snd (consumeReservations sha ten man rec rs st))"
proof (induction rs arbitrary: st)
  case (Cons x rs)
  show ?case
  proof (cases "r_tenantId x = ten \<and> r_sourceMandateRef x = man \<and> r_status x = RsActive \<and> reservation_intact sha x")
    case True
    let ?x = "seal_reservation sha (x\<lparr>r_status := RsConsumed, r_updatedAt := rec\<rparr>)"
    let ?st = "put_reservation_in st ?x"
    have "foreign_same ten st ?st" using Cons.prems True by (intro foreign_put_reservation) (auto simp: sealed_tenant)
    moreover have "foreign_same ten ?st (snd (consumeReservations sha ten man rec rs ?st))"
      using Cons.prems True by (intro Cons.IH) (auto simp: put_reservation_in_def map_simps sealed_tenant)
    ultimately show ?thesis using True
      by (simp add: reservation_seal.verify_intact putReservation_eq) (blast intro: foreign_same_trans)
  next
    case False
    have rest: "foreign_same ten st (snd (consumeReservations sha ten man rec rs st))"
      by (rule Cons.IH) (meson Cons.prems list.set_intros(2))
    show ?thesis
    proof (cases "r_tenantId x \<noteq> ten \<or> r_sourceMandateRef x \<noteq> man \<or> r_status x \<noteq> RsActive")
      case True
      with rest show ?thesis by simp
    next
      case own: False
      with False have "assertReservationIntegrity sha x \<noteq> Inr v" for v by (auto simp: reservation_seal.verify_Inr)
      then obtain err where "assertReservationIntegrity sha x = Inl err" by (cases "assertReservationIntegrity sha x") auto
      with own show ?thesis by (simp add: foreign_same_refl)
    qed
  qed
qed (simp add: foreign_same_refl)

text \<open>Without access a call changes nothing; issuing needs the system context.\<close>

definition no_access :: "AuthorityGovernanceContext \<Rightarrow> string \<Rightarrow> bool" where
  "no_access cx ten \<longleftrightarrow> \<not> cx_system cx \<and> cx_organizationId cx \<noteq> Some ten"

lemma no_access_refused:
  assumes "no_access cx ten"
  shows "\<exists>e. requireAuthorityAccessToOrganization cx ten = Inl e"
  using assms requireAuthorityAccess_Inr [of cx ten]
  by (cases "requireAuthorityAccessToOrganization cx ten") (auto simp: no_access_def)

lemma bootstrap_privileged:
  "\<not> cx_system cx \<Longrightarrow> snd (bootstrapPosition sha now cx i st) = st"
proof -
  assume "\<not> cx_system cx"
  then have "bootstrapGuards now cx i \<noteq> Inr g" for g by (cases g) (simp add: bootstrapGuards_Inr)
  then obtain e where "bootstrapGuards now cx i = Inl e" by (cases "bootstrapGuards now cx i") auto
  then show ?thesis by (simp add: bootstrapPosition_def)
qed

lemma access_calls:
  "no_access cx (a_tenantId ai) \<Longrightarrow> snd (applyTransition sha now cx ai st) = st"
  "no_access cx (q_tenantId qi) \<Longrightarrow> snd (acquireReservation sha now cx qi st) = st"
  "no_access cx (rl_tenantId ri) \<Longrightarrow> snd (releaseReservation sha now cx ri st) = st"
  "no_access cx (n_tenantId ni) \<Longrightarrow> snd (recordEncumbrance sha now cx ni st) = st"
  "no_access cx (l_tenantId li) \<Longrightarrow> snd (releaseEncumbrance sha now cx li st) = st"
  by (drule no_access_refused, force simp: applyTransition_def applyGuards_def acquireReservation_def acquireGuards_def
      releaseReservation_def recordEncumbrance_def encumberGuards_def releaseEncumbrance_def)+

lemma apply_foreign:
  assumes wf: "store_wf sha st"
  shows "foreign_same (a_tenantId input) st (snd (applyTransition sha now cx input st))"
proof (cases "\<exists>out. fst (applyTransition sha now cx input st) = Inr out \<and> \<not> ao_replayed out")
  case False
  then have "snd (applyTransition sha now cx input st) = st"
    by (intro apply_unmoved [OF wf prod.collapse [symmetric]]) auto
  then show ?thesis by (simp add: foreign_same_refl)
next
  case True
  let ?st = "snd (applyTransition sha now cx input st)" and ?ten = "a_tenantId input"
  from True obtain out where ret: "applyTransition sha now cx input st = (Inr out, ?st)" and moved: "\<not> ao_replayed out"
    by (metis prod.collapse)
  obtain staged st1 where g: "applyGuards now cx input = Inr (a_occurredAt input, now)"
    and m: "mapR (stageRight sha st input (a_occurredAt input)) (a_governedRights input) = Inr staged"
    and a: "applyStaged sha input (a_occurredAt input) now staged st = (ao_transitions out, st1)"
    and c: "case a_consumesReservationsForMandateRef input of
        None \<Rightarrow> ?st = st1
      | Some man \<Rightarrow> consumeReservations sha ?ten man now (map_values (reservations st1)) st1 = (Inr (), ?st)"
    using apply_moved [OF wf ret moved] by metis
  have known: "\<forall>r \<in> set (a_governedRights input). isGovernedRightType r" and scope: "valid_scope (a_scope input)"
    and occ: "isStrictUtcTimestamp (a_occurredAt input)" using g [unfolded applyGuards_Inr] by auto
  note ok = staged_all_ok [OF wf m known scope]
  have wf1: "store_wf sha st1" using applyStaged_wf [OF wf ok occ scope, of now] by (simp add: a)
  have moved: "foreign_same ?ten st st1" using staged_foreign [OF wf ok occ scope, of now] by (simp add: a)
  have "foreign_same ?ten st1 (snd (consumeReservations sha ?ten man now (map_values (reservations st1)) st1))" for man
    using wf_reservation_value [OF wf1] by (intro consume_foreign) auto
  with c have "foreign_same ?ten st1 ?st"
    by (auto simp: foreign_same_refl split: option.splits) (metis snd_conv)
  with moved show ?thesis by (blast intro: foreign_same_trans)
qed

lemma acquire_foreign:
  assumes wf: "store_wf sha st" and own: "\<not> foreign_id sha (CallAcquire now cx input) st"
  shows "foreign_same (q_tenantId input) st (snd (acquireReservation sha now cx input st))"
proof (cases "\<exists>r. fst (acquireReservation sha now cx input st) = Inr (Reserved r False)")
  case False
  then have "snd (acquireReservation sha now cx input st) = st"
    by (intro acquire_unchanged [OF prod.collapse [symmetric]]) auto
  then show ?thesis by (simp add: foreign_same_refl)
next
  case True
  then obtain r st' where ret: "acquireReservation sha now cx input st = (Inr (Reserved r False), st')"
    by (metis prod.collapse)
  from acquire_new [OF wf ret] have r: "r = seal_reservation sha (acquiredReservation sha input now)" "st' = put_reservation_in st r"
    by metis+
  have id: "r_id r = deriveReservationId sha (q_tenantId input) (q_sourceMandateRef input) (q_governedRight input)"
    by (simp add: r(1) acquiredReservation_def)
  show ?thesis unfolding ret snd_conv r(2)
    by (rule foreign_put_reservation) (use own in \<open>auto simp: id r(1) sealed_tenant acquiredReservation_def split: option.splits\<close>)
qed

lemma releaseReservation_foreign:
  assumes wf: "store_wf sha st"
  shows "foreign_same (rl_tenantId input) st (snd (releaseReservation sha now cx input st))"
proof -
  have "foreign_same (rl_tenantId input) st (put_reservation_in st (seal_reservation sha (r\<lparr>r_status := RsReleased, r_updatedAt := u\<rparr>)))"
    if "map_get (reservations st) (rl_reservationId input) = Some r" "r_tenantId r = rl_tenantId input" for r u
  proof (rule foreign_put_reservation)
    fix old
    assume "map_get (reservations st) (r_id (seal_reservation sha (r\<lparr>r_status := RsReleased, r_updatedAt := u\<rparr>))) = Some old"
    moreover have "reservation_ok sha (rl_reservationId input) r"
      using wf that(1) map_all_get by (fastforce simp: store_wf_def)
    ultimately show "r_tenantId old = rl_tenantId input" using that by (simp add: reservation_ok_def)
  qed (simp add: sealed_tenant that(2))
  then show ?thesis
    by (auto simp: releaseReservation_def attempt_def reservation_seal.verify_Inr putReservation_eq foreign_same_refl
        split: option.splits sum.splits GovernedAuthorityReservationStatus.splits)
qed

lemma releaseEncumbrance_foreign:
  assumes wf: "store_wf sha st"
  shows "foreign_same (l_tenantId input) st (snd (releaseEncumbrance sha now cx input st))"
proof (cases "fst (releaseEncumbrance sha now cx input st)")
  case (Inl err)
  then have "snd (releaseEncumbrance sha now cx input st) = st"
    by (intro releaseEncumbrance_failed [of sha now cx input st err]) (metis prod.collapse)
  then show ?thesis by (simp add: foreign_same_refl)
next
  case (Inr e')
  then obtain st' where ret: "releaseEncumbrance sha now cx input st = (Inr e', st')" by (metis prod.collapse)
  have "foreign_same (l_tenantId input) st st'"
  proof (rule releaseEncumbrance_writes [OF wf ret])
    assume "st' = st"
    then show ?thesis by (simp add: foreign_same_refl)
  next
    fix e at
    assume get: "map_get (encumbrances st) (l_encumbranceId input) = Some e" and ten: "e_tenantId e = l_tenantId input"
      and e': "e' = seal_encumbrance sha ((applyReleaseBasis (l_basis input)
         (e\<lparr>e_status := EsReleased, e_releasedAt := Some at\<rparr>))\<lparr>e_updatedAt := at\<rparr>)" and st': "st' = put_encumbrance_in st e'"
    have "encumbrance_ok sha (l_encumbranceId input) e"
      using wf get map_all_get by (fastforce simp: store_wf_def)
    then have "e_id e' = l_encumbranceId input" by (simp add: e' encumbrance_ok_def)
    then show ?thesis unfolding st' by (intro foreign_put_encumbrance) (use get ten in \<open>auto simp: e' sealed_tenant\<close>)
  qed
  with ret show ?thesis by simp
qed

text \<open>The handoff writes only the reservations it was given.\<close>

lemma handOff_foreign:
  "store_wf sha st \<Longrightarrow> \<forall>i \<in> set ids. \<forall>r. map_get (reservations st) i = Some r \<longrightarrow> r_tenantId r = ten \<Longrightarrow>
   foreign_same ten st (snd (handOff sha es rec ids st))"
proof (induction ids arbitrary: st)
  case (Cons i ids)
  show ?case
  proof (cases "map_get (reservations st) i")
    case (Some r)
    have ok: "reservation_ok sha i r"
      using Some Cons.prems(1) map_all_get by (fastforce simp: store_wf_def)
    then have okr: "reservation_ok sha (r_id r) r" and id: "r_id r = i" by (simp_all add: reservation_ok_def)
    let ?r = "seal_reservation sha (r\<lparr>r_status := RsEncumbered, r_updatedAt := rec\<rparr>)"
    let ?st = "put_reservation_in st ?r"
    have wf1: "store_wf sha ?st"
      using reservation_ok_status [OF okr] by (intro put_reservation_wf Cons.prems) simp
    have ten: "r_tenantId r = ten" using Cons.prems(2) Some by simp
    have "r_tenantId ?r = ten" by (simp add: seal_reservation_def ten)
    then have "\<forall>j \<in> set ids. \<forall>x. map_get (reservations ?st) j = Some x \<longrightarrow> r_tenantId x = ten"
      using Cons.prems(2) by (auto simp: put_reservation_in_def map_simps split: if_splits)
    then have "foreign_same ten ?st (snd (handOff sha es rec ids ?st))" by (rule Cons.IH [OF wf1])
    moreover have "foreign_same ten st ?st"
      by (rule foreign_put_reservation) (use Some id ten in \<open>simp_all add: sealed_tenant\<close>)
    ultimately have "foreign_same ten st (snd (handOff sha es rec ids ?st))" by (blast intro: foreign_same_trans)
    with Cons Some ok show ?thesis
      by (auto simp: reservation_ok_def reservation_seal.verify_intact putReservation_eq split: sum_total.splits)
  qed (use Cons in simp)
qed (simp add: foreign_same_refl)

lemma encumber_foreign:
  assumes wf: "store_wf sha st" and own: "\<not> foreign_id sha (CallEncumber now cx input) st"
  shows "foreign_same (n_tenantId input) st (snd (recordEncumbrance sha now cx input st))"
proof (cases "\<exists>e. fst (recordEncumbrance sha now cx input st) = Inr (Encumbered e False)")
  case False
  then have "snd (recordEncumbrance sha now cx input st) = st"
    by (intro encumber_unchanged [OF wf prod.collapse [symmetric]]) auto
  then show ?thesis by (simp add: foreign_same_refl)
next
  case True
  then obtain e st' where ret: "recordEncumbrance sha now cx input st = (Inr (Encumbered e False), st')"
    by (metis prod.collapse)
  define k where "k = positionKey (n_tenantId input) (n_holderRef input) (n_resource input) (n_governedRight input)"
  from encumber_new [OF wf k_def ret] have
    e: "\<exists>sur. e = seal_encumbrance sha (recordedEncumbrance sha input now sur)" and
    wf1: "store_wf sha (put_encumbrance_in st e)" and
    st': "st' = put_encumbrance_in st e \<or> (\<exists>es. st' = snd (handOff sha es now
       (surrenderedIds input (pool_reservations st k)) (put_encumbrance_in st e)))" by metis+
  have id: "e_id e = deriveEncumbranceId sha (n_tenantId input) (n_sourceExecutionRef input) (n_governedRight input)"
    using e by (auto simp: recordedEncumbrance_def)
  have one: "foreign_same (n_tenantId input) st (put_encumbrance_in st e)"
    by (rule foreign_put_encumbrance) (use own e in \<open>auto simp: id sealed_tenant recordedEncumbrance_def split: option.splits\<close>)
  have "\<forall>i \<in> set (surrenderedIds input (pool_reservations st k)).
      \<forall>r. map_get (reservations (put_encumbrance_in st e)) i = Some r \<longrightarrow> r_tenantId r = n_tenantId input"
  proof (intro ballI allI impI)
    fix i r
    assume "i \<in> set (surrenderedIds input (pool_reservations st k))" and r: "map_get (reservations (put_encumbrance_in st e)) i = Some r"
    then obtain r' where r': "r' \<in> set (pool_reservations st k)" "r_id r' = i"
      by (auto simp: surrenderedIds_def split: option.splits)
    then have "map_get (reservations st) i = Some r'" using wf_reservation_value [OF wf, of r'] by (auto simp: pool_reservations_def)
    with r have "r = r'" by (simp add: put_encumbrance_in_def)
    with r'(1) show "r_tenantId r = n_tenantId input"
      by (auto simp: pool_reservations_def res_over_def reservationOver_def k_def positionKey_def)
  qed
  then have "foreign_same (n_tenantId input) (put_encumbrance_in st e) (snd (handOff sha es now
       (surrenderedIds input (pool_reservations st k)) (put_encumbrance_in st e)))" for es
    by (rule handOff_foreign [OF wf1])
  with st' one show ?thesis by (auto simp: ret intro: foreign_same_trans)
qed

lemma call_isolated:
  assumes wf: "store_wf sha st" and cx: "call_context c = Some cx" "\<not> cx_system cx" "cx_organizationId cx = Some org"
    and own: "\<not> foreign_id sha c st"
  shows "foreign_same org st (run_call sha c st)"
proof -
  have acc: "no_access cx ten \<longleftrightarrow> ten \<noteq> org" for ten using cx(2,3) by (auto simp: no_access_def)
  show ?thesis
  proof (cases c)
    case (CallBootstrap now cx' i)
    with cx show ?thesis by (simp add: bootstrap_privileged foreign_same_refl)
  next
    case (CallApply now cx' i)
    with cx apply_foreign [OF wf, of i now cx] access_calls(1) [of cx i sha now st] show ?thesis
      by (cases "a_tenantId i = org") (simp_all add: acc foreign_same_refl)
  next
    case (CallAcquire now cx' i)
    with cx own acquire_foreign [OF wf, of now cx i] access_calls(2) [of cx i sha now st] show ?thesis
      by (cases "q_tenantId i = org") (simp_all add: acc foreign_same_refl)
  next
    case (CallReleaseReservation now cx' i)
    with cx releaseReservation_foreign [OF wf, of i now cx] access_calls(3) [of cx i sha now st] show ?thesis
      by (cases "rl_tenantId i = org") (simp_all add: acc foreign_same_refl)
  next
    case (CallEncumber now cx' i)
    with cx own encumber_foreign [OF wf, of now cx i] access_calls(4) [of cx i sha now st] show ?thesis
      by (cases "n_tenantId i = org") (simp_all add: acc foreign_same_refl)
  next
    case (CallReleaseEncumbrance now cx' i)
    with cx releaseEncumbrance_foreign [OF wf, of i now cx] access_calls(5) [of cx i sha now st] show ?thesis
      by (cases "l_tenantId i = org") (simp_all add: acc foreign_same_refl)
  qed (use cx in simp)
qed

end
