(* ===== verification/Resolvers.thy ===== *)
theory Resolvers
  imports CommitmentStore
begin

text \<open>
  The two resolvers that answer the kernel from the store: coverage
  (\<open>src/src/enterprise/authority-governance/resolver.ts\<close>, with the verdicts of
  \<open>governed-authority-coverage.ts\<close>) and the constraint view of policies
  (\<open>constraint-resolver.ts\<close>).
\<close>

record GovernedAuthorityQuery =
  gq_tenantId :: string
  gq_holderRef :: string
  gq_resource :: GovernedAuthorityResourceRef
  gq_governedRight :: GovernedRightType
  gq_requestedScope :: "GovernedRightsScope option"
  gq_at :: string

datatype GovernedAuthorityCoverage =
    Covered string GovernedRightsScope
  | ResourceNotEnrolled
  | NoRightAuthority GovernedRightType
  | InsufficientScope string GovernedRightsScope GovernedRightsScope
  | IncompatibleScope string GovernedRightsScope GovernedRightsScope
  | ExpiredAuthority string

fun isGovernedAuthorityCovered :: "GovernedAuthorityCoverage \<Rightarrow> bool" where
  "isGovernedAuthorityCovered (Covered _ _) = True"
| "isGovernedAuthorityCovered _ = False"

datatype UnenrolledResourcePolicy = Defer | Deny

text \<open>The verdict on a position the holder has.\<close>

definition coverageOfPosition ::
  "GovernedAuthorityQuery \<Rightarrow> GovernedAuthorityPosition \<Rightarrow> GovernedAuthorityCoverage" where
  "coverageOfPosition query position =
     (case governedAuthorityPositionState position (gq_at query) of
        PsExpired \<Rightarrow> ExpiredAuthority (p_id position)
      | PsPending \<Rightarrow> ExpiredAuthority (p_id position)
      | PsExhausted \<Rightarrow> NoRightAuthority (gq_governedRight query)
      | PsActive \<Rightarrow>
          (case gq_requestedScope query of
             None \<Rightarrow> Covered (p_id position) (serializeGovernedRightsScope (p_scope position))
           | Some scope \<Rightarrow>
               let requested = serializeGovernedRightsScope scope;
                   available = serializeGovernedRightsScope (p_scope position)
               in if scopesDiffer requested available
                    then IncompatibleScope (p_id position) available requested
                  else if \<not> governedRightsScopeWithin requested available
                    then InsufficientScope (p_id position) available requested
                  else if isZeroGovernedRightsScope requested
                    then InsufficientScope (p_id position) available requested
                  else Covered (p_id position) available))"

definition resolveGovernedAuthority ::
  "(string \<Rightarrow> string) \<Rightarrow> UnenrolledResourcePolicy \<Rightarrow> AuthorityGovernanceContext \<Rightarrow>
     GovernedAuthorityQuery \<Rightarrow> auth_store \<Rightarrow> GovernedAuthorityCoverage outcome" where
  "resolveGovernedAuthority sha unenrolledResourcePolicy context query st =
     rbind (getPosition sha context
              (positionKey (gq_tenantId query) (gq_holderRef query) (gq_resource query) (gq_governedRight query)) st) (\<lambda>position.
       case position of
         None \<Rightarrow>
           rbind (isResourceEnrolled context (gq_tenantId query) (gq_resource query) st) (\<lambda>enrolled.
             if \<not> enrolled then
               (if unenrolledResourcePolicy = Deny
                then Inr (NoRightAuthority (gq_governedRight query)) else Inr ResourceNotEnrolled)
             else Inr (NoRightAuthority (gq_governedRight query)))
       | Some p \<Rightarrow> Inr (coverageOfPosition query p))"

record GovernedConstraintQuery =
  gc_tenantId :: string
  gc_holderRef :: string
  gc_resource :: GovernedAuthorityResourceRef
  gc_governedRights :: "GovernedRightType list"
  gc_action :: string
  gc_at :: string

text \<open>One right of the loop: the constraints in force, and how they bear on the action.\<close>

definition constraintsForRight ::
  "(string \<Rightarrow> string) \<Rightarrow> AuthorityGovernanceContext \<Rightarrow> GovernedConstraintQuery \<Rightarrow> auth_store \<Rightarrow>
     GovernedRightType \<Rightarrow> GovernedConstraintApplicability outcome" where
  "constraintsForRight sha context query st governedRight =
     rbind (listActiveEncumbrances sha context
              \<lparr>av_tenantId = gc_tenantId query, av_holderRef = gc_holderRef query,
               av_resource = gc_resource query, av_governedRight = governedRight,
               av_at = gc_at query\<rparr> st) (\<lambda>constraints.
       resolveGovernedConstraintApplicability (gc_action query)
         \<lparr>cq_tenantId = gc_tenantId query, cq_holderRef = gc_holderRef query,
          cq_resource = gc_resource query, cq_governedRight = governedRight,
          cq_at = gc_at query\<rparr> constraints)"

definition resolveGovernedConstraints ::
  "(string \<Rightarrow> string) \<Rightarrow> AuthorityGovernanceContext \<Rightarrow> GovernedConstraintQuery \<Rightarrow> auth_store \<Rightarrow>
     GovernedConstraintPolicyContext" where
  "resolveGovernedConstraints sha context query st =
     (if gc_governedRights query = [] then UNRESOLVED_GOVERNED_CONSTRAINT_POLICY_CONTEXT
      else case mapR (constraintsForRight sha context query st) (gc_governedRights query) of
          Inl _ \<Rightarrow> UNRESOLVED_GOVERNED_CONSTRAINT_POLICY_CONTEXT
        | Inr results \<Rightarrow> toGovernedConstraintPolicyContext results)"

end
