(* ===== verification/Scenario.thy ===== *)
theory Scenario
  imports StoreProtocol Resolvers
begin

text \<open>
  A small concrete history that the properties' witnesses run on: an administrator enrols
  \<open>work-a\<close> with Alice, Alice's interest is reserved, pledged, released and transferred to Bob.
  Each call is evaluated once here; the digest is the constant function, since no property rests
  on what SHA-256 returns.
\<close>

section \<open>The calls\<close>

abbreviation zero_sha :: "string \<Rightarrow> string" where "zero_sha \<equiv> (\<lambda>_. ''0'')"

definition sys_cx :: AuthorityGovernanceContext where
  "sys_cx = \<lparr>cx_system = True, cx_organizationId = None, cx_actorId = None\<rparr>"

definition work_a :: GovernedAuthorityResourceRef where
  "work_a = \<lparr>rr_kind = ''asset'', rr_id = ''work-a''\<rparr>"

definition t0 :: string where "t0 = ''2026-01-01T00:00:00.000Z''"
definition t1 :: string where "t1 = ''2026-02-01T00:00:00.000Z''"
definition t2 :: string where "t2 = ''2026-03-01T00:00:00.000Z''"
definition t3 :: string where "t3 = ''2026-04-01T00:00:00.000Z''"

definition issue_alice :: "GovernedRightsScope \<Rightarrow> BootstrapGovernedAuthorityInput" where
  "issue_alice scope = \<lparr>b_transitionId = None, b_positionId = None, b_tenantId = ''org'',
     b_holderRef = ''alice'', b_resource = work_a, b_governedRight = ''ownership-interest'',
     b_scope = scope, b_basis = AdministrativeBootstrap ''ops'' None, b_effectiveFrom = t0,
     b_expiresAt = None, b_occurredAt = None, b_correlationId = None\<rparr>"

definition move_alice_bob :: "string option \<Rightarrow> ApplyGovernedAuthorityTransitionInput" where
  "move_alice_bob consumes = \<lparr>a_transitionIdPrefix = None, a_tenantId = ''org'', a_resource = work_a,
     a_governedRights = [''ownership-interest''], a_scope = Proportional 2500,
     a_fromHolderRef = ''alice'', a_toHolderRef = ''bob'',
     a_basis = GovernedExecution ''transfer'' ''ex-1'' ''man-1'' None None None,
     a_occurredAt = t1, a_correlationId = None, a_consumesReservationsForMandateRef = consumes\<rparr>"

definition reserve_alice :: AcquireGovernedAuthorityReservationInput where
  "reserve_alice = \<lparr>q_tenantId = ''org'', q_holderRef = ''alice'', q_resource = work_a,
     q_governedRight = ''ownership-interest'', q_scope = Proportional 4000, q_action = ''transfer'',
     q_sourceRequestRef = ''req-1'', q_sourceDecisionRef = None, q_sourceMandateRef = ''man-1'',
     q_effectiveFrom = t1, q_expiresAt = t3, q_idempotencyKey = None, q_correlationId = None\<rparr>"

definition pledge_alice :: RecordGovernedAuthorityEncumbranceInput where
  "pledge_alice = \<lparr>n_tenantId = ''org'', n_holderRef = ''alice'', n_resource = work_a,
     n_governedRight = ''ownership-interest'', n_scope = Proportional 6000,
     n_sourceAction = ''collateralize'', n_sourceMandateRef = ''man-2'',
     n_sourceExecutionRef = ''ex-2'', n_effectiveFrom = t1,
     n_consumesReservationsForMandateRef = None, n_idempotencyKey = None, n_correlationId = None\<rparr>"

definition reserve_release :: ReleaseGovernedAuthorityReservationInput where
  "reserve_release = \<lparr>rl_tenantId = ''org'', rl_reservationId = ''governed-authority-reservation-0'',
     rl_reason = AuthorizationEnded, rl_releasedAt = None\<rparr>"

definition pledge_release :: ReleaseGovernedAuthorityEncumbranceInput where
  "pledge_release = \<lparr>l_tenantId = ''org'', l_encumbranceId = ''governed-authority-encumbrance-0'',
     l_basis = ReleaseByExecution ''release-encumbrance'' ''man-3'' ''ex-3'', l_releasedAt = None\<rparr>"

section \<open>The records the runs produce\<close>

definition alice_position :: "GovernedRightsScope \<Rightarrow> string \<Rightarrow> string \<Rightarrow> GovernedAuthorityPosition" where
  "alice_position scope updated ref =
     \<lparr>p_id = ''governed-authority-position-0'', p_tenantId = ''org'', p_actorRef = ''alice'',
      p_resourceKind = ''asset'', p_resourceId = ''work-a'',
      p_governedRight = ''ownership-interest'', p_scope = scope, p_effectiveFrom = t0,
      p_expiresAt = None, p_createdAt = t0, p_updatedAt = updated, p_lastTransitionRef = ref,
      p_digest = ''sha256:0''\<rparr>"

definition bob_position :: GovernedAuthorityPosition where
  "bob_position =
     \<lparr>p_id = ''governed-authority-position-0'', p_tenantId = ''org'', p_actorRef = ''bob'',
      p_resourceKind = ''asset'', p_resourceId = ''work-a'',
      p_governedRight = ''ownership-interest'', p_scope = Proportional 2500, p_effectiveFrom = t1,
      p_expiresAt = None, p_createdAt = t1, p_updatedAt = t1,
      p_lastTransitionRef = ''governed-authority-transition-0-ownership-interest'',
      p_digest = ''sha256:0''\<rparr>"

definition alice_issuance :: GovernedAuthorityTransition where
  "alice_issuance =
     \<lparr>t_id = ''governed-authority-transition-0-1'', t_tenantId = ''org'', t_sequence = 1,
      t_resourceKind = ''asset'', t_resourceId = ''work-a'',
      t_governedRight = ''ownership-interest'', t_scope = Proportional 10000,
      t_fromActorRef = None, t_toActorRef = ''alice'',
      t_basis = AdministrativeBootstrap ''ops'' None, t_occurredAt = t0, t_recordedAt = t0,
      t_correlationId = None, t_previousDigest = None, t_digest = ''sha256:0''\<rparr>"

definition alice_transfer :: GovernedAuthorityTransition where
  "alice_transfer =
     \<lparr>t_id = ''governed-authority-transition-0-ownership-interest'', t_tenantId = ''org'',
      t_sequence = 2, t_resourceKind = ''asset'', t_resourceId = ''work-a'',
      t_governedRight = ''ownership-interest'', t_scope = Proportional 2500,
      t_fromActorRef = Some ''alice'', t_toActorRef = ''bob'',
      t_basis = GovernedExecution ''transfer'' ''ex-1'' ''man-1'' None None None,
      t_occurredAt = t1, t_recordedAt = t1, t_correlationId = None,
      t_previousDigest = Some ''sha256:0'', t_digest = ''sha256:0''\<rparr>"

definition alice_reservation ::
  "GovernedAuthorityReservationStatus \<Rightarrow> string \<Rightarrow> GovernedAuthorityReservation" where
  "alice_reservation status updated =
     \<lparr>r_id = ''governed-authority-reservation-0'', r_tenantId = ''org'', r_holderRef = ''alice'',
      r_resourceKind = ''asset'', r_resourceId = ''work-a'',
      r_governedRight = ''ownership-interest'', r_scope = Proportional 4000,
      r_action = ''transfer'', r_sourceRequestRef = ''req-1'', r_sourceDecisionRef = None,
      r_sourceMandateRef = ''man-1'', r_effectiveFrom = t1, r_expiresAt = t3, r_status = status,
      r_idempotencyKey = ''man-1'', r_correlationId = None, r_createdAt = t1,
      r_updatedAt = updated, r_digest = ''sha256:0''\<rparr>"

definition alice_pledge :: GovernedAuthorityEncumbrance where
  "alice_pledge =
     \<lparr>e_id = ''governed-authority-encumbrance-0'', e_tenantId = ''org'', e_holderRef = ''alice'',
      e_resourceKind = ''asset'', e_resourceId = ''work-a'',
      e_governedRight = ''ownership-interest'', e_scope = Proportional 6000,
      e_sourceAction = ''collateralize'', e_sourceMandateRef = ''man-2'',
      e_sourceExecutionRef = ''ex-2'', e_sourceReservationRef = None, e_effectiveFrom = t1,
      e_status = EsActive, e_releasedAt = None, e_releaseBasis = None, e_releaseAction = None,
      e_releaseMandateRef = None, e_releaseExecutionRef = None, e_releasedBy = None,
      e_releaseReasonCode = None, e_idempotencyKey = ''ex-2:ownership-interest'',
      e_correlationId = None, e_createdAt = t1, e_updatedAt = t1, e_digest = ''sha256:0''\<rparr>"

definition pledge_released :: GovernedAuthorityEncumbrance where
  "pledge_released = alice_pledge\<lparr>e_status := EsReleased, e_releasedAt := Some t2,
     e_releaseBasis := Some RbGovernedExecution, e_releaseAction := Some ''release-encumbrance'',
     e_releaseMandateRef := Some ''man-3'', e_releaseExecutionRef := Some ''ex-3'',
     e_updatedAt := t2\<rparr>"

section \<open>The stores the runs reach\<close>

definition alice_key :: GovernedAuthorityPositionKey where
  "alice_key = \<lparr>pk_tenantId = ''org'', pk_actorRef = ''alice'', pk_resourceKind = ''asset'',
     pk_resourceId = ''work-a'', pk_governedRight = ''ownership-interest''\<rparr>"

definition alice_store :: auth_store where
  "alice_store = \<lparr>positions = [(''3:org|5:alice|5:asset|6:work-a|18:ownership-interest'',
       alice_position (Proportional 10000) t0 ''governed-authority-transition-0-1'')],
     transitions = [alice_issuance], reservations = [], encumbrances = [],
     sequenceByTenant = [(''org'', 1)], lastDigestByTenant = [(''org'', ''sha256:0'')],
     issuanceOrdinalByTenant = [(''org'', 1)]\<rparr>"

definition reserved_store :: "GovernedAuthorityReservationStatus \<Rightarrow> string \<Rightarrow> auth_store" where
  "reserved_store status updated = alice_store\<lparr>reservations :=
     [(''governed-authority-reservation-0'', alice_reservation status updated)]\<rparr>"

definition pledged_store :: "GovernedAuthorityEncumbrance \<Rightarrow> auth_store" where
  "pledged_store e = alice_store\<lparr>encumbrances := [(''governed-authority-encumbrance-0'', e)]\<rparr>"

definition moved_from :: "auth_store \<Rightarrow> auth_store" where
  "moved_from st = st\<lparr>positions :=
       [(''3:org|5:alice|5:asset|6:work-a|18:ownership-interest'',
         alice_position (Proportional 7500) t1 ''governed-authority-transition-0-ownership-interest''),
        (''3:org|3:bob|5:asset|6:work-a|18:ownership-interest'', bob_position)],
     transitions := [alice_issuance, alice_transfer], sequenceByTenant := [(''org'', 2)]\<rparr>"

section \<open>The runs, evaluated\<close>

lemma bootstrap_run:
  "bootstrapPosition zero_sha t0 sys_cx (issue_alice (Proportional 10000)) empty_store =
     (Inr (alice_position (Proportional 10000) t0 ''governed-authority-transition-0-1''), alice_store)"
  by code_simp

lemma acquire_run:
  "acquireReservation zero_sha t1 sys_cx reserve_alice alice_store =
     (Inr (Reserved (alice_reservation RsActive t1) False), reserved_store RsActive t1)"
  by code_simp

lemma pledge_run:
  "recordEncumbrance zero_sha t1 sys_cx pledge_alice alice_store =
     (Inr (Encumbered alice_pledge False), pledged_store alice_pledge)"
  by code_simp

lemma move_run:
  "applyTransition zero_sha t1 sys_cx (move_alice_bob None) alice_store =
     (Inr \<lparr>ao_transitions = [alice_transfer], ao_replayed = False\<rparr>, moved_from alice_store)"
  by code_simp

lemma consume_run:
  "applyTransition zero_sha t1 sys_cx (move_alice_bob (Some ''man-1'')) (reserved_store RsActive t1) =
     (Inr \<lparr>ao_transitions = [alice_transfer], ao_replayed = False\<rparr>,
      moved_from (reserved_store RsConsumed t1))"
  by code_simp

lemma releaseReservation_run:
  "releaseReservation zero_sha t2 sys_cx reserve_release (reserved_store RsActive t1) =
     (Inr (alice_reservation RsReleased t2), reserved_store RsReleased t2)"
  by code_simp

lemma releaseEncumbrance_run:
  "releaseEncumbrance zero_sha t2 sys_cx pledge_release (pledged_store alice_pledge) =
     (Inr pledge_released, pledged_store pledge_released)"
  by code_simp

section \<open>The stores are well formed\<close>

lemma alice_store_wf: "store_wf zero_sha alice_store"
  using bootstrap_wf [OF store_wf_empty, of zero_sha t0 sys_cx "issue_alice (Proportional 10000)"]
  by (simp add: bootstrap_run)

lemma reserved_store_wf: "store_wf zero_sha (reserved_store RsActive t1)"
  using acquire_wf [OF alice_store_wf, of t1 sys_cx reserve_alice] by (simp add: acquire_run)

lemma pledged_store_wf: "store_wf zero_sha (pledged_store alice_pledge)"
  using encumber_wf [OF alice_store_wf, of t1 sys_cx pledge_alice] by (simp add: pledge_run)

lemma moved_store_wf: "store_wf zero_sha (moved_from alice_store)"
  using apply_wf [OF alice_store_wf, of t1 sys_cx "move_alice_bob None"] by (simp add: move_run)

end
