(* ===== verification/RepresentationScenario.thy ===== *)
theory RepresentationScenario
  imports RepresentationProtocol Scenario
begin

text \<open>
  A concrete history of representations for the witnesses: the administrator lets Carol act for
  Alice, Carol redelegates a part of it to Dave, and the administrator withdraws Carol's binding.
\<close>

definition carol_cx :: AuthorityGovernanceContext where
  "carol_cx = \<lparr>cx_system = False, cx_organizationId = Some ''org'', cx_actorId = Some ''carol''\<rparr>"

definition appoint_carol :: GrantRepresentativeAuthorityInput where
  "appoint_carol = \<lparr>i_id = Some ''rep-1'', i_tenantId = ''org'', i_holderRef = Some ''alice'',
     i_representativeRef = ''carol'', i_resource = Some work_a,
     i_governedRights = [''ownership-interest'', ''usage-right''],
     i_scopeLimit = BoundedLimit (Proportional 5000), i_actions = [''transfer'', ''license''],
     i_effectiveFrom = t0, i_expiresAt = Some t3, i_canRedelegate = Some True,
     i_basis = RepAdministrativeBootstrap ''ops'' None, i_correlationId = None,
     i_idempotencyKey = Some ''key-1''\<rparr>"

definition redelegate_dave :: GrantRepresentativeAuthorityInput where
  "redelegate_dave = \<lparr>i_id = Some ''rep-2'', i_tenantId = ''org'', i_holderRef = None,
     i_representativeRef = ''dave'', i_resource = None, i_governedRights = [''ownership-interest''],
     i_scopeLimit = BoundedLimit (Proportional 2000), i_actions = [''transfer''],
     i_effectiveFrom = t1, i_expiresAt = Some t2, i_canRedelegate = None,
     i_basis = RepRedelegation ''rep-1'' ''carol'', i_correlationId = None, i_idempotencyKey = None\<rparr>"

definition carol_rep :: GovernedRepresentativeAuthority where
  "carol_rep = \<lparr>g_id = ''rep-1'', g_tenantId = ''org'', g_holderRef = ''alice'',
     g_representativeRef = ''carol'', g_resourceKind = ''asset'', g_resourceId = ''work-a'',
     g_governedRights = [''ownership-interest'', ''usage-right''],
     g_scopeLimit = BoundedLimit (Proportional 5000), g_actions = [''transfer'', ''license''],
     g_effectiveFrom = t0, g_expiresAt = Some t3, g_canRedelegate = True, g_delegationDepth = 0,
     g_parentRepresentativeAuthorityId = None, g_basis = RepAdministrativeBootstrap ''ops'' None,
     g_revokedAt = None, g_createdAt = t0, g_updatedAt = t0, g_correlationId = None,
     g_digest = ''sha256:0''\<rparr>"

definition carol_revoked :: GovernedRepresentativeAuthority where
  "carol_revoked = carol_rep\<lparr>g_revokedAt := Some t1, g_updatedAt := t1\<rparr>"

definition dave_rep :: GovernedRepresentativeAuthority where
  "dave_rep = \<lparr>g_id = ''rep-2'', g_tenantId = ''org'', g_holderRef = ''alice'',
     g_representativeRef = ''dave'', g_resourceKind = ''asset'', g_resourceId = ''work-a'',
     g_governedRights = [''ownership-interest''],
     g_scopeLimit = BoundedLimit (Proportional 2000), g_actions = [''transfer''],
     g_effectiveFrom = t1, g_expiresAt = Some t2, g_canRedelegate = False, g_delegationDepth = 1,
     g_parentRepresentativeAuthorityId = Some ''rep-1'', g_basis = RepRedelegation ''rep-1'' ''carol'',
     g_revokedAt = None, g_createdAt = t1, g_updatedAt = t1, g_correlationId = None,
     g_digest = ''sha256:0''\<rparr>"

definition carol_store :: rep_store where
  "carol_store = \<lparr>byId = [(''rep-1'', carol_rep)],
     byBinding = [(''3:org|5:carol|5:alice|5:asset|6:work-a'', [''rep-1''])],
     byIdempotencyKey = [(''org::key-1'', ''rep-1'')], ordinal = 1\<rparr>"

definition dave_store :: rep_store where
  "dave_store = \<lparr>byId = [(''rep-1'', carol_rep), (''rep-2'', dave_rep)],
     byBinding = [(''3:org|5:carol|5:alice|5:asset|6:work-a'', [''rep-1'']),
                  (''3:org|4:dave|5:alice|5:asset|6:work-a'', [''rep-2''])],
     byIdempotencyKey = [(''org::key-1'', ''rep-1'')], ordinal = 2\<rparr>"

definition dave_query :: GovernedRepresentationQuery where
  "dave_query = \<lparr>rq_tenantId = ''org'', rq_representativeRef = ''dave'', rq_holderRef = ''alice'',
     rq_resourceKind = ''asset'', rq_resourceId = ''work-a'',
     rq_governedRight = ''ownership-interest'', rq_requestedScope = Some (Proportional 1500),
     rq_action = ''transfer'', rq_at = t1\<rparr>"

section \<open>The runs, evaluated\<close>

lemma appoint_run:
  "grantRepresentativeAuthority zero_sha None t0 sys_cx appoint_carol empty_rep_store =
     (Inr \<lparr>go_representation = carol_rep, go_replayed = False\<rparr>, carol_store)"
  by code_simp

lemma redelegate_run:
  "grantRepresentativeAuthority zero_sha None t1 carol_cx redelegate_dave carol_store =
     (Inr \<lparr>go_representation = dave_rep, go_replayed = False\<rparr>, dave_store)"
  by code_simp

lemma withdraw_run:
  "revokeRepresentativeAuthority zero_sha t1 sys_cx ''org'' ''rep-1'' dave_store =
     (Inr carol_revoked, dave_store\<lparr>byId := [(''rep-1'', carol_revoked), (''rep-2'', dave_rep)]\<rparr>)"
  by code_simp

lemma dave_represented:
  "resolveGovernedRepresentation zero_sha (\<lambda>_ _. 0) None sys_cx dave_query dave_store =
     Inr (Represented ''rep-2'' [''rep-2'', ''rep-1''])"
  by code_simp

lemma dave_not_represented:
  "resolveGovernedRepresentation zero_sha (\<lambda>_ _. 0) None sys_cx dave_query
     (dave_store\<lparr>byId := [(''rep-1'', carol_revoked), (''rep-2'', dave_rep)]\<rparr>) =
     Inr (BasisWithdrawn ''rep-2'' ParentRevoked)"
  by code_simp

lemma carol_store_wf: "rep_wf zero_sha carol_store"
  using grant_wf [OF rep_wf_empty, of zero_sha None t0 sys_cx appoint_carol] by (simp add: appoint_run)

lemma dave_store_wf: "rep_wf zero_sha dave_store"
  using grant_wf [OF carol_store_wf, of None t1 carol_cx redelegate_dave] by (simp add: redelegate_run)

end
