(* ===== verification/ReleaseMandateStore.thy ===== *)
theory ReleaseMandateStore
  imports AuthorityLifecycle
begin

text \<open>
  Release authorizations: the records of
  \<open>src/src/enterprise/encumbrance-release-governance/contracts.ts\<close>, the errors (\<open>errors.ts\<close>), the
  guards of \<open>mandate-store.ts\<close>, the rules of \<open>lifecycle.ts\<close> and the in-memory store of mandates and
  execution evidence (\<open>in-memory-mandate-store.ts\<close>).

  The context has the shape of \<^typ>\<open>AuthorityGovernanceContext\<close>, and the timestamp predicate is the
  one of the authority store; both are used for both. Every method is one synchronous section.
\<close>

section \<open>Errors and records\<close>

datatype EncumbranceReleaseGovernanceErrorCode =
    RELEASE_MANDATE_NOT_FOUND
  | RELEASE_MANDATE_ALREADY_EXISTS
  | RELEASE_MANDATE_ALREADY_ACTIVE
  | RELEASE_MANDATE_NOT_EXECUTABLE
  | RELEASE_EXECUTION_ALREADY_RECORDED
  | RELEASE_TARGET_NOT_FOUND
  | RELEASE_TARGET_NOT_ACTIVE
  | RELEASE_TARGET_MISMATCH
  | RELEASE_EXECUTOR_TARGET_MISMATCH
  | RELEASE_EXECUTOR_UNAVAILABLE
  | RELEASE_VALIDATION_ERROR
  | RELEASE_INVALID_TIMESTAMP
  | RELEASE_TENANT_SCOPE_REQUIRED
  | RELEASE_ACCESS_SCOPE_VIOLATION
  | RELEASE_RESOURCE_TENANT_MISMATCH
  | RELEASE_STORE_UNAVAILABLE
  | RELEASE_RECORD_CORRUPTED
  | RELEASE_EVALUATION_FAILED
  | RELEASE_REQUEST_CONFLICT
  | RELEASE_PERSISTENCE_FAILED

type_synonym 'a release_outcome = "EncumbranceReleaseGovernanceErrorCode + 'a"

datatype EncumbranceReleaseMandateStatus = MsActive | MsExecuted | MsRevoked

record EncumbranceReleaseResourceRef =
  er_kind :: string
  er_id :: string
  er_tenantId :: "string option"

record EncumbranceReleaseMandateRecord =
  m_id :: string
  m_organizationId :: string
  m_status :: EncumbranceReleaseMandateStatus
  m_resourceKind :: string
  m_resourceId :: string
  m_resourceTenantId :: "string option"
  m_encumbranceRef :: string
  m_requestRef :: string
  m_requestedBy :: string
  m_decisionRef :: string
  m_evaluationRef :: "string option"
  m_effectiveFrom :: string
  m_expiresAt :: string
  m_correlationId :: string
  m_issuerRef :: "string option"
  m_approvalRefs :: "string list option"
  m_obligationRefs :: "string list option"
  m_evidenceRefs :: "string list option"
  m_auditRefs :: "string list option"
  m_executionRef :: "string option"
  m_createdAt :: string

datatype EncumbranceReleaseExecutionOutcomeKind = ConfirmedSuccess | ConfirmedFailure | Indeterminate

record EncumbranceReleaseExecutionRecord =
  x_id :: string
  x_mandateId :: string
  x_organizationId :: string
  x_encumbranceRef :: string
  x_outcome :: EncumbranceReleaseExecutionOutcomeKind
  x_providerSystem :: string
  x_attemptedAt :: string
  x_confirmedAt :: "string option"
  x_providerReleaseReference :: "string option"
  x_failureCode :: "string option"
  x_failureReason :: "string option"
  x_correlationId :: string
  x_recordedAt :: string

record EncumbranceReleaseMandateRevocationRecord =
  v_id :: string
  v_mandateId :: string
  v_organizationId :: string
  v_revokedAt :: string
  v_reason :: string
  v_issuerRef :: string
  v_correlationId :: string
  v_description :: "string option"
  v_evidenceRefs :: "string list option"

record IssueEncumbranceReleaseMandateInput =
  im_id :: string
  im_organizationId :: string
  im_resourceKind :: string
  im_resourceId :: string
  im_resourceTenantId :: "string option"
  im_encumbranceRef :: string
  im_requestRef :: string
  im_requestedBy :: string
  im_decisionRef :: string
  im_evaluationRef :: "string option"
  im_effectiveFrom :: string
  im_expiresAt :: string
  im_correlationId :: string
  im_issuerRef :: "string option"
  im_approvalRefs :: "string list option"
  im_obligationRefs :: "string list option"
  im_evidenceRefs :: "string list option"
  im_auditRefs :: "string list option"

record RecordEncumbranceReleaseExecutionInput =
  ix_id :: string
  ix_mandateId :: string
  ix_organizationId :: string
  ix_encumbranceRef :: string
  ix_outcome :: EncumbranceReleaseExecutionOutcomeKind
  ix_providerSystem :: string
  ix_attemptedAt :: string
  ix_confirmedAt :: "string option"
  ix_providerReleaseReference :: "string option"
  ix_failureCode :: "string option"
  ix_failureReason :: "string option"
  ix_correlationId :: string

record RevokeEncumbranceReleaseMandateInput =
  iv_revocationId :: string
  iv_mandateId :: string
  iv_organizationId :: string
  iv_revokedAt :: string
  iv_reason :: string
  iv_issuerRef :: string
  iv_correlationId :: string
  iv_description :: "string option"
  iv_evidenceRefs :: "string list option"

record EncumbranceReleaseRevokeOutcome =
  vo_mandate :: EncumbranceReleaseMandateRecord
  vo_revocation :: EncumbranceReleaseMandateRevocationRecord

record EncumbranceReleaseMandateStoreHealth =
  mh_providerKind :: string
  mh_available :: bool
  mh_schemaVersion :: string
  mh_mandateCount :: nat
  mh_executionCount :: nat
  mh_activeMandateCount :: nat

section \<open>Guards\<close>

definition canAccessEncumbranceReleaseOrganization :: "AuthorityGovernanceContext \<Rightarrow> string \<Rightarrow> bool" where
  "canAccessEncumbranceReleaseOrganization context recordOrganizationId =
     (if cx_system context then True else cx_organizationId context = Some recordOrganizationId)"

definition requireEncumbranceReleaseTenantScope :: "AuthorityGovernanceContext \<Rightarrow> unit release_outcome" where
  "requireEncumbranceReleaseTenantScope context =
     (if \<not> cx_system context \<and> (cx_organizationId context = None \<or> cx_organizationId context = Some [])
      then Inl RELEASE_TENANT_SCOPE_REQUIRED else Inr ())"

definition requireEncumbranceReleaseAccessToOrganization ::
  "AuthorityGovernanceContext \<Rightarrow> string \<Rightarrow> unit release_outcome" where
  "requireEncumbranceReleaseAccessToOrganization context organizationId =
     rbind (requireEncumbranceReleaseTenantScope context) (\<lambda>_.
       if \<not> canAccessEncumbranceReleaseOrganization context organizationId
       then Inl RELEASE_ACCESS_SCOPE_VIOLATION else Inr ())"

definition requireStrictUtcEncumbranceReleaseTimestamp :: "string \<Rightarrow> string release_outcome" where
  "requireStrictUtcEncumbranceReleaseTimestamp value =
     (if \<not> isStrictUtcTimestamp value then Inl RELEASE_INVALID_TIMESTAMP else Inr value)"

section \<open>Rules\<close>

definition assertEncumbranceReleaseMandateExecutable ::
  "EncumbranceReleaseMandateRecord \<Rightarrow> string \<Rightarrow> unit release_outcome" where
  "assertEncumbranceReleaseMandateExecutable mandate at =
     (if m_status mandate = MsRevoked then Inl RELEASE_MANDATE_NOT_EXECUTABLE
      else if m_status mandate = MsExecuted then Inl RELEASE_MANDATE_NOT_EXECUTABLE
      else if instant_lt at (m_effectiveFrom mandate) then Inl RELEASE_MANDATE_NOT_EXECUTABLE
      else if instant_ge at (m_expiresAt mandate) then Inl RELEASE_MANDATE_NOT_EXECUTABLE
      else Inr ())"

definition assertEncumbranceMatchesTarget ::
  "GovernedAuthorityEncumbrance \<Rightarrow> string \<Rightarrow> EncumbranceReleaseResourceRef \<Rightarrow> unit release_outcome" where
  "assertEncumbranceMatchesTarget encumbrance organizationId resource =
     (if e_tenantId encumbrance \<noteq> organizationId then Inl RELEASE_TARGET_MISMATCH
      else if e_resourceKind encumbrance \<noteq> er_kind resource \<or> e_resourceId encumbrance \<noteq> er_id resource
        then Inl RELEASE_TARGET_MISMATCH
      else Inr ())"

definition assertEncumbranceActive :: "GovernedAuthorityEncumbrance \<Rightarrow> unit release_outcome" where
  "assertEncumbranceActive encumbrance =
     (if e_status encumbrance \<noteq> EsActive then Inl RELEASE_TARGET_NOT_ACTIVE else Inr ())"

definition deriveEncumbranceReleaseIdempotencyKey :: "EncumbranceReleaseMandateRecord \<Rightarrow> string" where
  "deriveEncumbranceReleaseIdempotencyKey mandate = m_id mandate @ '':'' @ m_encumbranceRef mandate"

definition encumbranceReleaseResourceScope :: "EncumbranceReleaseResourceRef \<Rightarrow> string" where
  "encumbranceReleaseResourceScope resource = er_kind resource @ '':'' @ er_id resource"

definition requireEncumbranceReleaseRef :: "string \<Rightarrow> string release_outcome" where
  "requireEncumbranceReleaseRef value = (if length value = 0 then Inl RELEASE_VALIDATION_ERROR else Inr value)"

section \<open>The store\<close>

record release_store =
  mandates :: "(string, EncumbranceReleaseMandateRecord) js_map"
  mandateIdByRequestRef :: "(string, string) js_map"
  executions :: "(string, EncumbranceReleaseExecutionRecord list) js_map"
  executionIds :: "string list"
  revocations :: "(string, EncumbranceReleaseMandateRevocationRecord) js_map"
  closed :: bool

definition empty_release_store :: release_store where
  "empty_release_store = \<lparr>mandates = [], mandateIdByRequestRef = [], executions = [],
     executionIds = [], revocations = [], closed = False\<rparr>"

type_synonym 'a mandate_result = "'a release_outcome \<times> release_store"

definition assertOpen :: "release_store \<Rightarrow> unit release_outcome" where
  "assertOpen ms = (if closed ms then Inl RELEASE_STORE_UNAVAILABLE else Inr ())"

definition requireMandate :: "release_store \<Rightarrow> string \<Rightarrow> EncumbranceReleaseMandateRecord release_outcome" where
  "requireMandate ms mandateId =
     (case map_get (mandates ms) mandateId of None \<Rightarrow> Inl RELEASE_MANDATE_NOT_FOUND | Some m \<Rightarrow> Inr m)"

definition requireVisibleMandate ::
  "AuthorityGovernanceContext \<Rightarrow> string \<Rightarrow> release_store \<Rightarrow> EncumbranceReleaseMandateRecord release_outcome" where
  "requireVisibleMandate context mandateId ms =
     rbind (requireEncumbranceReleaseTenantScope context) (\<lambda>_.
     rbind (requireMandate ms mandateId) (\<lambda>mandate.
       if \<not> canAccessEncumbranceReleaseOrganization context (m_organizationId mandate)
       then Inl RELEASE_ACCESS_SCOPE_VIOLATION else Inr mandate))"

definition findActiveMandateForEncumbrance ::
  "release_store \<Rightarrow> string \<Rightarrow> string \<Rightarrow> EncumbranceReleaseMandateRecord option" where
  "findActiveMandateForEncumbrance ms organizationId encumbranceRef =
     find (\<lambda>m. m_organizationId m = organizationId \<and> m_encumbranceRef m = encumbranceRef \<and>
               m_status m = MsActive)
       (map_values (mandates ms))"

definition issuedMandate ::
  "IssueEncumbranceReleaseMandateInput \<Rightarrow> string \<Rightarrow> string \<Rightarrow> string \<Rightarrow> EncumbranceReleaseMandateRecord" where
  "issuedMandate input effectiveFrom expiresAt now =
     \<lparr>m_id = im_id input, m_organizationId = im_organizationId input, m_status = MsActive,
      m_resourceKind = im_resourceKind input, m_resourceId = im_resourceId input,
      m_resourceTenantId = im_resourceTenantId input, m_encumbranceRef = im_encumbranceRef input,
      m_requestRef = im_requestRef input, m_requestedBy = im_requestedBy input,
      m_decisionRef = im_decisionRef input, m_evaluationRef = im_evaluationRef input,
      m_effectiveFrom = effectiveFrom, m_expiresAt = expiresAt,
      m_correlationId = im_correlationId input, m_issuerRef = im_issuerRef input,
      m_approvalRefs = im_approvalRefs input, m_obligationRefs = im_obligationRefs input,
      m_evidenceRefs = im_evidenceRefs input, m_auditRefs = im_auditRefs input,
      m_executionRef = None, m_createdAt = now\<rparr>"

definition issueMandate ::
  "string \<Rightarrow> AuthorityGovernanceContext \<Rightarrow> IssueEncumbranceReleaseMandateInput \<Rightarrow> release_store \<Rightarrow>
     EncumbranceReleaseMandateRecord mandate_result" where
  "issueMandate now context input ms =
     attempt (assertOpen ms) ms (\<lambda>_.
     attempt (requireEncumbranceReleaseAccessToOrganization context (im_organizationId input)) ms (\<lambda>_.
     attempt (requireStrictUtcEncumbranceReleaseTimestamp (im_effectiveFrom input)) ms (\<lambda>effectiveFrom.
     attempt (requireStrictUtcEncumbranceReleaseTimestamp (im_expiresAt input)) ms (\<lambda>expiresAt.
       if instant_ge effectiveFrom expiresAt then (Inl RELEASE_VALIDATION_ERROR, ms)
       else if map_get (mandates ms) (im_id input) \<noteq> None then (Inl RELEASE_MANDATE_ALREADY_EXISTS, ms)
       else if map_get (mandateIdByRequestRef ms) (im_requestRef input) \<noteq> None
         then (Inl RELEASE_MANDATE_ALREADY_EXISTS, ms)
       else if findActiveMandateForEncumbrance ms (im_organizationId input) (im_encumbranceRef input) \<noteq> None
         then (Inl RELEASE_MANDATE_ALREADY_ACTIVE, ms)
       else let mandate = issuedMandate input effectiveFrom expiresAt now
            in (Inr mandate,
                ms\<lparr>mandates := map_set (mandates ms) (m_id mandate) mandate,
                   mandateIdByRequestRef := map_set (mandateIdByRequestRef ms) (m_requestRef mandate) (m_id mandate),
                   executions := map_set (executions ms) (m_id mandate) []\<rparr>)))))"

definition getMandate ::
  "AuthorityGovernanceContext \<Rightarrow> string \<Rightarrow> release_store \<Rightarrow> EncumbranceReleaseMandateRecord release_outcome" where
  "getMandate context mandateId ms =
     rbind (assertOpen ms) (\<lambda>_. requireVisibleMandate context mandateId ms)"

definition getMandateByRequestRef ::
  "AuthorityGovernanceContext \<Rightarrow> string \<Rightarrow> release_store \<Rightarrow>
     EncumbranceReleaseMandateRecord option release_outcome" where
  "getMandateByRequestRef context requestRef ms =
     rbind (assertOpen ms) (\<lambda>_.
       case map_get (mandateIdByRequestRef ms) requestRef of
         None \<Rightarrow> Inr None
       | Some mandateId \<Rightarrow> rbind (requireVisibleMandate context mandateId ms) (\<lambda>m. Inr (Some m)))"

definition getActiveMandateForEncumbrance ::
  "AuthorityGovernanceContext \<Rightarrow> string \<Rightarrow> string \<Rightarrow> release_store \<Rightarrow>
     EncumbranceReleaseMandateRecord option release_outcome" where
  "getActiveMandateForEncumbrance context organizationId encumbranceRef ms =
     rbind (assertOpen ms) (\<lambda>_.
     rbind (requireEncumbranceReleaseAccessToOrganization context organizationId) (\<lambda>_.
       Inr (findActiveMandateForEncumbrance ms organizationId encumbranceRef)))"

definition executionsOf :: "release_store \<Rightarrow> string \<Rightarrow> EncumbranceReleaseExecutionRecord list" where
  "executionsOf ms mandateId = (case map_get (executions ms) mandateId of None \<Rightarrow> [] | Some xs \<Rightarrow> xs)"

definition recordedExecution ::
  "RecordEncumbranceReleaseExecutionInput \<Rightarrow> EncumbranceReleaseMandateRecord \<Rightarrow> string \<Rightarrow>
     string option \<Rightarrow> string \<Rightarrow> EncumbranceReleaseExecutionRecord" where
  "recordedExecution input mandate attemptedAt confirmedAt now =
     \<lparr>x_id = ix_id input, x_mandateId = m_id mandate, x_organizationId = m_organizationId mandate,
      x_encumbranceRef = ix_encumbranceRef input, x_outcome = ix_outcome input,
      x_providerSystem = ix_providerSystem input, x_attemptedAt = attemptedAt,
      x_confirmedAt = confirmedAt, x_providerReleaseReference = ix_providerReleaseReference input,
      x_failureCode = ix_failureCode input, x_failureReason = ix_failureReason input,
      x_correlationId = ix_correlationId input, x_recordedAt = now\<rparr>"

text \<open>The guards of \<open>recordExecution\<close>, and the record it will append.\<close>

definition executionGuards ::
  "string \<Rightarrow> AuthorityGovernanceContext \<Rightarrow> RecordEncumbranceReleaseExecutionInput \<Rightarrow> release_store \<Rightarrow>
     (EncumbranceReleaseMandateRecord \<times> EncumbranceReleaseExecutionRecord) release_outcome" where
  "executionGuards now context input ms =
     rbind (assertOpen ms) (\<lambda>_.
     rbind (requireEncumbranceReleaseAccessToOrganization context (ix_organizationId input)) (\<lambda>_.
     rbind (requireStrictUtcEncumbranceReleaseTimestamp (ix_attemptedAt input)) (\<lambda>attemptedAt.
     rbind (requireVisibleMandate context (ix_mandateId input) ms) (\<lambda>mandate.
       if m_organizationId mandate \<noteq> ix_organizationId input then Inl RELEASE_ACCESS_SCOPE_VIOLATION
       else if ix_id input \<in> set (executionIds ms) then Inl RELEASE_EXECUTION_ALREADY_RECORDED
       else if ix_encumbranceRef input \<noteq> m_encumbranceRef mandate then Inl RELEASE_TARGET_MISMATCH
       else if ix_outcome input = ConfirmedSuccess \<and> m_status mandate \<noteq> MsActive
         then Inl RELEASE_MANDATE_NOT_EXECUTABLE
       else if ix_outcome input = ConfirmedSuccess \<and>
               list_ex (\<lambda>x. x_outcome x = ConfirmedSuccess) (executionsOf ms (m_id mandate))
         then Inl RELEASE_EXECUTION_ALREADY_RECORDED
       else rbind (case ix_confirmedAt input of
                     None \<Rightarrow> Inr None
                   | Some c \<Rightarrow> rbind (requireStrictUtcEncumbranceReleaseTimestamp c) (\<lambda>y. Inr (Some y)))
              (\<lambda>confirmedAt. Inr (mandate, recordedExecution input mandate attemptedAt confirmedAt now))))))"

definition recordExecution ::
  "string \<Rightarrow> AuthorityGovernanceContext \<Rightarrow> RecordEncumbranceReleaseExecutionInput \<Rightarrow> release_store \<Rightarrow>
     (EncumbranceReleaseMandateRecord \<times> EncumbranceReleaseExecutionRecord) mandate_result" where
  "recordExecution now context input ms =
     attempt (executionGuards now context input ms) ms (\<lambda>(mandate, execution).
       let ms1 = ms\<lparr>executionIds := executionIds ms @ [x_id execution],
                    executions := map_set (executions ms) (m_id mandate)
                      (executionsOf ms (m_id mandate) @ [execution])\<rparr>
       in if x_outcome execution = ConfirmedSuccess
          then let next_mandate = mandate\<lparr>m_status := MsExecuted, m_executionRef := Some (x_id execution)\<rparr>
               in (Inr (next_mandate, execution),
                   ms1\<lparr>mandates := map_set (mandates ms1) (m_id next_mandate) next_mandate\<rparr>)
          else (Inr (mandate, execution), ms1))"

definition listExecutions ::
  "AuthorityGovernanceContext \<Rightarrow> string \<Rightarrow> release_store \<Rightarrow>
     EncumbranceReleaseExecutionRecord list release_outcome" where
  "listExecutions context mandateId ms =
     rbind (assertOpen ms) (\<lambda>_.
     rbind (requireVisibleMandate context mandateId ms) (\<lambda>mandate. Inr (executionsOf ms (m_id mandate))))"

definition getConfirmedExecution ::
  "AuthorityGovernanceContext \<Rightarrow> string \<Rightarrow> release_store \<Rightarrow>
     EncumbranceReleaseExecutionRecord option release_outcome" where
  "getConfirmedExecution context mandateId ms =
     rbind (assertOpen ms) (\<lambda>_.
     rbind (requireVisibleMandate context mandateId ms) (\<lambda>mandate.
       Inr (find (\<lambda>x. x_outcome x = ConfirmedSuccess) (executionsOf ms (m_id mandate)))))"

definition revokeMandate ::
  "AuthorityGovernanceContext \<Rightarrow> RevokeEncumbranceReleaseMandateInput \<Rightarrow> release_store \<Rightarrow>
     EncumbranceReleaseRevokeOutcome mandate_result" where
  "revokeMandate context input ms =
     attempt (assertOpen ms) ms (\<lambda>_.
     attempt (requireEncumbranceReleaseAccessToOrganization context (iv_organizationId input)) ms (\<lambda>_.
     attempt (requireStrictUtcEncumbranceReleaseTimestamp (iv_revokedAt input)) ms (\<lambda>revokedAt.
     attempt (requireVisibleMandate context (iv_mandateId input) ms) ms (\<lambda>mandate.
       if m_status mandate \<noteq> MsActive then (Inl RELEASE_MANDATE_NOT_EXECUTABLE, ms)
       else let revocation = \<lparr>v_id = iv_revocationId input, v_mandateId = m_id mandate,
                   v_organizationId = m_organizationId mandate, v_revokedAt = revokedAt,
                   v_reason = iv_reason input, v_issuerRef = iv_issuerRef input,
                   v_correlationId = iv_correlationId input, v_description = iv_description input,
                   v_evidenceRefs = iv_evidenceRefs input\<rparr>;
                next_mandate = mandate\<lparr>m_status := MsRevoked\<rparr>
            in (Inr \<lparr>vo_mandate = next_mandate, vo_revocation = revocation\<rparr>,
                ms\<lparr>mandates := map_set (mandates ms) (m_id next_mandate) next_mandate,
                   revocations := map_set (revocations ms) (m_id next_mandate) revocation\<rparr>)))))"

definition getRevocation ::
  "AuthorityGovernanceContext \<Rightarrow> string \<Rightarrow> release_store \<Rightarrow>
     EncumbranceReleaseMandateRevocationRecord option release_outcome" where
  "getRevocation context mandateId ms =
     rbind (assertOpen ms) (\<lambda>_.
     rbind (requireVisibleMandate context mandateId ms) (\<lambda>mandate.
       Inr (map_get (revocations ms) (m_id mandate))))"

definition mandate_health :: "release_store \<Rightarrow> EncumbranceReleaseMandateStoreHealth" where
  "mandate_health ms = \<lparr>mh_providerKind = ''memory'', mh_available = (\<not> closed ms),
     mh_schemaVersion = ''aoc.encumbrance-release-mandate-store.schema.v1'',
     mh_mandateCount = length (mandates ms), mh_executionCount = length (executionIds ms),
     mh_activeMandateCount = length (filter (\<lambda>m. m_status m = MsActive) (map_values (mandates ms)))\<rparr>"

definition close_mandates :: "release_store \<Rightarrow> release_store" where
  "close_mandates ms = ms\<lparr>closed := True\<rparr>"

end
