(* ===== verification/ReleaseService.thy ===== *)
theory ReleaseService
  imports ReleaseMandateStore CommitmentStore
begin

text \<open>
  The governed release of a standing constraint,
  \<open>src/src/enterprise/encumbrance-release-governance/service.ts\<close>, with the executor port of
  \<open>executor-port.ts\<close>. The service is given its collaborators: the kernel, the governance store
  and the executor are parameters here, answering what they answered during the call; the mandate
  store and the authority store are the modelled ones. The service keeps no state of its own.

  The parts between two \<open>await\<close>s that write are definitions of their own (\<open>recordAttempt\<close>,
  \<open>terminalize\<close>, \<open>issueMandate\<close>), so that the machine of the release system can interleave them.
\<close>

section \<open>Errors\<close>

text \<open>A call fails with its own error, an error of the authority store, or one of the governance store.\<close>

datatype release_failure =
    ReleaseFailed EncumbranceReleaseGovernanceErrorCode
  | AuthorityFailed AuthorityGovernanceErrorCode
  | GovernanceStoreFailed

fun from_release :: "'a release_outcome \<Rightarrow> release_failure + 'a" where
  "from_release (Inl e) = Inl (ReleaseFailed e)"
| "from_release (Inr a) = Inr a"

fun from_authority :: "'a outcome \<Rightarrow> release_failure + 'a" where
  "from_authority (Inl e) = Inl (AuthorityFailed e)"
| "from_authority (Inr a) = Inr a"

section \<open>The executor\<close>

record EncumbranceReleaseExecutionRequest =
  q2_mandateId :: string
  q2_organizationId :: string
  q2_encumbranceRef :: string
  q2_resource :: GovernedAuthorityResourceRef
  q2_governedRight :: string
  q2_encumberedScope :: GovernedRightsScope
  q2_sourceAction :: string
  q2_sourceMandateRef :: string
  q2_sourceExecutionRef :: string
  q2_idempotencyKey :: string
  q2_attemptedAt :: string
  q2_correlationId :: string

datatype EncumbranceReleaseExecutionOutcome =
    ExecutorConfirmed string string "string option"
  | ExecutorFailed string "string option"
  | ExecutorIndeterminate string

text \<open>A call of the port returns an outcome, or throws (an \<open>Error\<close> with its message, or another value).\<close>

datatype executor_reply = Replied EncumbranceReleaseExecutionOutcome | Threw "string option"

fun settledOutcome :: "executor_reply \<Rightarrow> EncumbranceReleaseExecutionOutcome" where
  "settledOutcome (Replied outcome) = outcome"
| "settledOutcome (Threw (Some message)) = ExecutorIndeterminate (''executor_error: '' @ message)"
| "settledOutcome (Threw None) = ExecutorIndeterminate ''executor_error''"

section \<open>Inputs and results\<close>

record SubmitEncumbranceReleaseRequestInput =
  s_requestId :: "string option"
  s_resource :: EncumbranceReleaseResourceRef
  s_encumbranceRef :: string
  s_requestedBy :: string
  s_trustDomainId :: string
  s_principalActorId :: "string option"
  s_actorType :: "string option"
  s_resourceScope :: "string option"
  s_requestedAt :: "string option"
  s_correlationId :: "string option"
  s_justification :: "string option"
  s_evidenceRefs :: "string list option"
  s_idempotencyKey :: "string option"
  s_mandateExpiresAt :: string
  s_issuerRef :: "string option"
  s_obligationRefs :: "string list option"
  s_auditRefs :: "string list option"

datatype KernelDecisionStatus = KernelAllowed | KernelDenied | KernelApprovalRequired | KernelIndeterminate

text \<open>What the service reads of a kernel result.\<close>

record KernelEvaluationResult =
  kr_requestId :: string
  kr_decisionId :: string
  kr_status :: KernelDecisionStatus
  kr_reasonCodes :: "string list"
  kr_summary :: string
  kr_approvalProofId :: "string option"
  kr_approvalDecisionId :: "string option"
  kr_approvalRequestId :: "string option"
  kr_evaluatedAt :: string

text \<open>The kernel request the service builds; \<open>context\<close> is passed through and is left out.\<close>

record ReleaseKernelRequest =
  kq_requestId :: string
  kq_actorId :: string
  kq_trustDomainId :: string
  kq_principalId :: "string option"
  kq_actorType :: "string option"
  kq_actionType :: string
  kq_capability :: string
  kq_resourceScope :: string
  kq_encumbranceRef :: string
  kq_encumberedHolderRef :: string
  kq_governedRight :: string
  kq_encumberedScope :: GovernedRightsScope
  kq_sourceAction :: string
  kq_sourceMandateRef :: string
  kq_sourceExecutionRef :: string
  kq_encumbranceStatus :: GovernedAuthorityEncumbranceStatus
  kq_effectiveFrom :: string
  kq_justification :: "string option"
  kq_evidenceIds :: "string list option"
  kq_target :: GovernedAuthorityResourceRef
  kq_organizationId :: string
  kq_requestedAt :: string
  kq_correlationId :: string
  kq_idempotencyKey :: "string option"

text \<open>What \<open>appendEvaluation\<close> answered: the evaluation and whether it was a replay, or a refusal.\<close>

datatype append_answer = Appended string bool | AppendConflict | AppendFailed

record EncumbranceReleaseRequestOutcome =
  ro_status :: KernelDecisionStatus
  ro_requestId :: string
  ro_decisionId :: string
  ro_evaluationId :: string
  ro_reasonCodes :: "string list"
  ro_summary :: string
  ro_mandate :: "EncumbranceReleaseMandateRecord option"

record ExecuteEncumbranceReleaseRequest =
  z_mandateId :: string
  z_executionId :: "string option"
  z_attemptedAt :: "string option"
  z_correlationId :: "string option"

record EncumbranceReleaseExecutionOutcomeResult =
  zo_mandate :: EncumbranceReleaseMandateRecord
  zo_execution :: EncumbranceReleaseExecutionRecord
  zo_encumbrance :: GovernedAuthorityEncumbrance
  zo_terminalized :: bool

definition ENTERPRISE_RELEASE_ENCUMBRANCE_CAPABILITY :: string where
  "ENTERPRISE_RELEASE_ENCUMBRANCE_CAPABILITY = ''release-encumbrance''"

section \<open>The target\<close>

definition assertResourceBelongsToOrganization ::
  "EncumbranceReleaseResourceRef \<Rightarrow> string \<Rightarrow> unit release_outcome" where
  "assertResourceBelongsToOrganization resource organizationId =
     (case er_tenantId resource of
        None \<Rightarrow> Inr ()
      | Some t \<Rightarrow> if t \<noteq> organizationId then Inl RELEASE_RESOURCE_TENANT_MISMATCH else Inr ())"

definition loadTargetEncumbrance ::
  "(string \<Rightarrow> string) \<Rightarrow> AuthorityGovernanceContext \<Rightarrow> string \<Rightarrow> string \<Rightarrow>
     EncumbranceReleaseResourceRef \<Rightarrow> auth_store \<Rightarrow> release_failure + GovernedAuthorityEncumbrance" where
  "loadTargetEncumbrance sha context organizationId encumbranceRef resource st =
     rbind (from_authority (getEncumbrance sha context organizationId encumbranceRef st)) (\<lambda>found.
       case found of
         None \<Rightarrow> Inl (ReleaseFailed RELEASE_TARGET_NOT_FOUND)
       | Some encumbrance \<Rightarrow>
           rbind (from_release (assertEncumbranceMatchesTarget encumbrance organizationId resource)) (\<lambda>_.
             Inr encumbrance))"

section \<open>Requesting a release\<close>

definition toKernelRequest ::
  "SubmitEncumbranceReleaseRequestInput \<Rightarrow> string \<Rightarrow> string \<Rightarrow> string \<Rightarrow>
     GovernedAuthorityEncumbrance \<Rightarrow> string \<Rightarrow> ReleaseKernelRequest" where
  "toKernelRequest input requestId correlationId requestedAt encumbrance organizationId =
     \<lparr>kq_requestId = requestId, kq_actorId = s_requestedBy input,
      kq_trustDomainId = s_trustDomainId input, kq_principalId = s_principalActorId input,
      kq_actorType = s_actorType input, kq_actionType = ENTERPRISE_RELEASE_ENCUMBRANCE_CAPABILITY,
      kq_capability = ENTERPRISE_RELEASE_ENCUMBRANCE_CAPABILITY,
      kq_resourceScope = (case s_resourceScope input of None \<Rightarrow> encumbranceReleaseResourceScope (s_resource input)
                          | Some r \<Rightarrow> r),
      kq_encumbranceRef = e_id encumbrance, kq_encumberedHolderRef = e_holderRef encumbrance,
      kq_governedRight = e_governedRight encumbrance,
      kq_encumberedScope = serializeGovernedRightsScope (e_scope encumbrance),
      kq_sourceAction = e_sourceAction encumbrance, kq_sourceMandateRef = e_sourceMandateRef encumbrance,
      kq_sourceExecutionRef = e_sourceExecutionRef encumbrance,
      kq_encumbranceStatus = e_status encumbrance, kq_effectiveFrom = e_effectiveFrom encumbrance,
      kq_justification = s_justification input, kq_evidenceIds = s_evidenceRefs input,
      kq_target = \<lparr>rr_kind = er_kind (s_resource input), rr_id = er_id (s_resource input)\<rparr>,
      kq_organizationId = organizationId, kq_requestedAt = requestedAt, kq_correlationId = correlationId,
      kq_idempotencyKey = s_idempotencyKey input\<rparr>"

text \<open>What a request establishes before the kernel is asked, and the kernel request.\<close>

definition prepareRelease ::
  "(string \<Rightarrow> string) \<Rightarrow> string \<Rightarrow> (string \<Rightarrow> string) \<Rightarrow> AuthorityGovernanceContext \<Rightarrow> string \<Rightarrow>
     SubmitEncumbranceReleaseRequestInput \<Rightarrow> auth_store \<Rightarrow>
     release_failure + (ReleaseKernelRequest \<times> GovernedAuthorityEncumbrance \<times> string)" where
  "prepareRelease sha now nextId context organizationId input st =
     rbind (from_release (requireEncumbranceReleaseAccessToOrganization context organizationId)) (\<lambda>_.
     rbind (from_release (assertResourceBelongsToOrganization (s_resource input) organizationId)) (\<lambda>_.
     rbind (from_release (requireEncumbranceReleaseRef (s_encumbranceRef input))) (\<lambda>encumbranceRef.
     rbind (from_release (requireEncumbranceReleaseRef (s_requestedBy input))) (\<lambda>_.
     rbind (from_release (requireEncumbranceReleaseRef (s_trustDomainId input))) (\<lambda>_.
     rbind (from_release (requireEncumbranceReleaseRef (er_kind (s_resource input)))) (\<lambda>_.
     rbind (from_release (requireEncumbranceReleaseRef (er_id (s_resource input)))) (\<lambda>_.
       let requestId = (case s_requestId input of None \<Rightarrow> nextId ''encumbrance-release-request'' | Some r \<Rightarrow> r);
           correlationId = (case s_correlationId input of None \<Rightarrow> nextId ''encumbrance-release-correlation''
                            | Some c \<Rightarrow> c)
       in rbind (from_release (requireStrictUtcEncumbranceReleaseTimestamp
                   (case s_requestedAt input of None \<Rightarrow> now | Some r \<Rightarrow> r))) (\<lambda>requestedAt.
          rbind (from_release (requireStrictUtcEncumbranceReleaseTimestamp (s_mandateExpiresAt input))) (\<lambda>mandateExpiresAt.
          rbind (loadTargetEncumbrance sha context organizationId encumbranceRef (s_resource input) st) (\<lambda>encumbrance.
          rbind (from_release (assertEncumbranceActive encumbrance)) (\<lambda>_.
            Inr (toKernelRequest input requestId correlationId requestedAt encumbrance organizationId,
                 encumbrance, mandateExpiresAt))))))))))))"

definition mandateInput ::
  "SubmitEncumbranceReleaseRequestInput \<Rightarrow> (string \<Rightarrow> string) \<Rightarrow> ReleaseKernelRequest \<Rightarrow>
     KernelEvaluationResult \<Rightarrow> string \<Rightarrow> string \<Rightarrow> string \<Rightarrow> string \<Rightarrow> IssueEncumbranceReleaseMandateInput" where
  "mandateInput input nextId request result organizationId evaluationId effectiveFrom mandateExpiresAt =
     (let approvalRefs = List.map_filter (\<lambda>r. r)
            [kr_approvalProofId result, kr_approvalDecisionId result, kr_approvalRequestId result]
      in \<lparr>im_id = nextId ''encumbrance-release-mandate'', im_organizationId = organizationId,
          im_resourceKind = er_kind (s_resource input), im_resourceId = er_id (s_resource input),
          im_resourceTenantId = er_tenantId (s_resource input),
          im_encumbranceRef = kq_encumbranceRef request, im_requestRef = kq_requestId request,
          im_requestedBy = s_requestedBy input, im_decisionRef = kr_decisionId result,
          im_evaluationRef = Some evaluationId, im_effectiveFrom = effectiveFrom,
          im_expiresAt = mandateExpiresAt, im_correlationId = kq_correlationId request,
          im_issuerRef = s_issuerRef input,
          im_approvalRefs = (if length approvalRefs > 0 then Some approvalRefs else None),
          im_obligationRefs = s_obligationRefs input, im_evidenceRefs = s_evidenceRefs input,
          im_auditRefs = s_auditRefs input\<rparr>)"

definition outcomeBase ::
  "KernelEvaluationResult \<Rightarrow> string \<Rightarrow> EncumbranceReleaseMandateRecord option \<Rightarrow>
     EncumbranceReleaseRequestOutcome" where
  "outcomeBase result evaluationId mandate =
     \<lparr>ro_status = kr_status result, ro_requestId = kr_requestId result,
      ro_decisionId = kr_decisionId result, ro_evaluationId = evaluationId,
      ro_reasonCodes = kr_reasonCodes result, ro_summary = kr_summary result, ro_mandate = mandate\<rparr>"

text \<open>
  \<open>evaluate\<close> is the kernel, which answers or throws (\<^const>\<open>None\<close>); \<open>appendEvaluation\<close> is what the
  governance store answers, and \<open>appendReference\<close> whether its link to an artifact returns; \<open>mnow\<close> is
  the mandate store's clock.
\<close>

definition requestEncumbranceRelease ::
  "(string \<Rightarrow> string) \<Rightarrow> string \<Rightarrow> string \<Rightarrow> (string \<Rightarrow> string) \<Rightarrow>
     (ReleaseKernelRequest \<Rightarrow> KernelEvaluationResult option) \<Rightarrow>
     (ReleaseKernelRequest \<Rightarrow> KernelEvaluationResult \<Rightarrow> append_answer) \<Rightarrow> (string \<Rightarrow> string \<Rightarrow> bool) \<Rightarrow>
     AuthorityGovernanceContext \<Rightarrow> string \<Rightarrow> SubmitEncumbranceReleaseRequestInput \<Rightarrow> auth_store \<Rightarrow>
     release_store \<Rightarrow> (release_failure + EncumbranceReleaseRequestOutcome) \<times> release_store" where
  "requestEncumbranceRelease sha now mnow nextId evaluate appendEvaluation appendReference context organizationId input st ms =
     attempt (prepareRelease sha now nextId context organizationId input st) ms
       (\<lambda>(request, encumbrance, mandateExpiresAt).
     case evaluate request of
       None \<Rightarrow> (Inl (ReleaseFailed RELEASE_EVALUATION_FAILED), ms)
     | Some result \<Rightarrow>
     (case appendEvaluation request result of
       AppendConflict \<Rightarrow> (Inl (ReleaseFailed RELEASE_REQUEST_CONFLICT), ms)
     | AppendFailed \<Rightarrow> (Inl (ReleaseFailed RELEASE_PERSISTENCE_FAILED), ms)
     | Appended evaluationId idempotentReplay \<Rightarrow>
         if kr_status result \<noteq> KernelAllowed then (Inr (outcomeBase result evaluationId None), ms)
         else if idempotentReplay then
           attempt (from_release (getMandateByRequestRef context (kq_requestId request) ms)) ms (\<lambda>existing.
             (Inr (outcomeBase result evaluationId existing), ms))
         else
           attempt (from_release (requireStrictUtcEncumbranceReleaseTimestamp (kr_evaluatedAt result))) ms (\<lambda>effectiveFrom.
             let (issued, ms1) = issueMandate mnow context
                   (mandateInput input nextId request result organizationId evaluationId effectiveFrom mandateExpiresAt) ms
             in case issued of
                  Inl e \<Rightarrow> (Inl (ReleaseFailed e), ms1)
                | Inr mandate \<Rightarrow>
                    if appendReference evaluationId (m_id mandate)
                    then (Inr (outcomeBase result evaluationId (Some mandate)), ms1)
                    else (Inl GovernanceStoreFailed, ms1))))"

section \<open>Executing a release\<close>

definition mandateResource :: "EncumbranceReleaseMandateRecord \<Rightarrow> EncumbranceReleaseResourceRef" where
  "mandateResource mandate =
     \<lparr>er_kind = m_resourceKind mandate, er_id = m_resourceId mandate, er_tenantId = None\<rparr>"

definition executorRequest ::
  "EncumbranceReleaseMandateRecord \<Rightarrow> GovernedAuthorityEncumbrance \<Rightarrow> string \<Rightarrow> string \<Rightarrow>
     EncumbranceReleaseExecutionRequest" where
  "executorRequest mandate encumbrance attemptedAt correlationId =
     \<lparr>q2_mandateId = m_id mandate, q2_organizationId = m_organizationId mandate,
      q2_encumbranceRef = m_encumbranceRef mandate,
      q2_resource = \<lparr>rr_kind = m_resourceKind mandate, rr_id = m_resourceId mandate\<rparr>,
      q2_governedRight = e_governedRight encumbrance,
      q2_encumberedScope = serializeGovernedRightsScope (e_scope encumbrance),
      q2_sourceAction = e_sourceAction encumbrance,
      q2_sourceMandateRef = e_sourceMandateRef encumbrance,
      q2_sourceExecutionRef = e_sourceExecutionRef encumbrance,
      q2_idempotencyKey = deriveEncumbranceReleaseIdempotencyKey mandate,
      q2_attemptedAt = attemptedAt, q2_correlationId = correlationId\<rparr>"

text \<open>The evidence of a settled outcome, and of a confirmation about another constraint.\<close>

definition attemptInput ::
  "string \<Rightarrow> EncumbranceReleaseMandateRecord \<Rightarrow> string \<Rightarrow> string \<Rightarrow> string \<Rightarrow>
     EncumbranceReleaseExecutionOutcome \<Rightarrow> RecordEncumbranceReleaseExecutionInput" where
  "attemptInput providerSystem mandate executionId attemptedAt correlationId outcome =
     (let base = \<lparr>ix_id = executionId, ix_mandateId = m_id mandate,
            ix_organizationId = m_organizationId mandate, ix_encumbranceRef = m_encumbranceRef mandate,
            ix_outcome = Indeterminate, ix_providerSystem = providerSystem,
            ix_attemptedAt = attemptedAt, ix_confirmedAt = None, ix_providerReleaseReference = None,
            ix_failureCode = None, ix_failureReason = None, ix_correlationId = correlationId\<rparr>
      in case outcome of
           ExecutorConfirmed _ confirmedAt ref \<Rightarrow>
             base\<lparr>ix_outcome := ConfirmedSuccess, ix_confirmedAt := Some confirmedAt,
                  ix_providerReleaseReference := ref\<rparr>
         | ExecutorFailed code reason \<Rightarrow>
             base\<lparr>ix_outcome := ConfirmedFailure, ix_failureCode := Some code, ix_failureReason := reason\<rparr>
         | ExecutorIndeterminate reason \<Rightarrow>
             base\<lparr>ix_failureCode := Some ''indeterminate'', ix_failureReason := Some reason\<rparr>)"

definition mismatchInput ::
  "string \<Rightarrow> EncumbranceReleaseMandateRecord \<Rightarrow> string \<Rightarrow> string \<Rightarrow> string \<Rightarrow> string \<Rightarrow>
     RecordEncumbranceReleaseExecutionInput" where
  "mismatchInput providerSystem mandate executionId attemptedAt correlationId reported =
     (attemptInput providerSystem mandate executionId attemptedAt correlationId
        (ExecutorFailed ''executor_target_mismatch''
           (Some (''The executor reported a release of '' @ [CHR 0x27] @ reported @ [CHR 0x27] @ '', not of ''
                  @ [CHR 0x27] @ m_encumbranceRef mandate @ [CHR 0x27] @ ''.''))))"

text \<open>
  What the service does with the executor's reply before it terminalizes: the evidence is recorded
  first, and a confirmation about another constraint is recorded as a failure and refused. The
  instant of a confirmation is checked before it is handed to the store.
\<close>

definition recordAttempt ::
  "string \<Rightarrow> AuthorityGovernanceContext \<Rightarrow> string \<Rightarrow> EncumbranceReleaseMandateRecord \<Rightarrow> string \<Rightarrow>
     string \<Rightarrow> string \<Rightarrow> EncumbranceReleaseExecutionOutcome \<Rightarrow> release_store \<Rightarrow>
     (release_failure + (EncumbranceReleaseMandateRecord \<times> EncumbranceReleaseExecutionRecord)) \<times> release_store" where
  "recordAttempt mnow context providerSystem mandate executionId attemptedAt correlationId outcome ms =
     (case outcome of
        ExecutorConfirmed reported confirmedAt _ \<Rightarrow>
          if reported \<noteq> m_encumbranceRef mandate then
            (let (res, ms1) = recordExecution mnow context
                   (mismatchInput providerSystem mandate executionId attemptedAt correlationId reported) ms
             in case res of
                  Inl e \<Rightarrow> (Inl (ReleaseFailed e), ms1)
                | Inr _ \<Rightarrow> (Inl (ReleaseFailed RELEASE_EXECUTOR_TARGET_MISMATCH), ms1))
          else attempt (from_release (requireStrictUtcEncumbranceReleaseTimestamp confirmedAt)) ms (\<lambda>_.
            let (res, ms1) = recordExecution mnow context
                  (attemptInput providerSystem mandate executionId attemptedAt correlationId outcome) ms
            in (from_release res, ms1))
      | _ \<Rightarrow>
          (let (res, ms1) = recordExecution mnow context
                 (attemptInput providerSystem mandate executionId attemptedAt correlationId outcome) ms
           in (from_release res, ms1)))"

definition releaseInput ::
  "EncumbranceReleaseMandateRecord \<Rightarrow> EncumbranceReleaseExecutionRecord \<Rightarrow>
     ReleaseGovernedAuthorityEncumbranceInput" where
  "releaseInput mandate execution =
     \<lparr>l_tenantId = m_organizationId mandate, l_encumbranceId = m_encumbranceRef mandate,
      l_basis = ReleaseByExecution ENTERPRISE_RELEASE_ENCUMBRANCE_CAPABILITY (m_id mandate) (x_id execution),
      l_releasedAt = Some (case x_confirmedAt execution of None \<Rightarrow> x_attemptedAt execution | Some c \<Rightarrow> c)\<rparr>"

definition terminalize ::
  "(string \<Rightarrow> string) \<Rightarrow> string \<Rightarrow> AuthorityGovernanceContext \<Rightarrow> EncumbranceReleaseMandateRecord \<Rightarrow>
     EncumbranceReleaseExecutionRecord \<Rightarrow> auth_store \<Rightarrow>
     (release_failure + GovernedAuthorityEncumbrance) \<times> auth_store" where
  "terminalize sha anow context mandate execution st =
     (let (res, st1) = releaseEncumbrance sha anow context (releaseInput mandate execution) st
      in (from_authority res, st1))"

definition finishConfirmedRelease ::
  "(string \<Rightarrow> string) \<Rightarrow> string \<Rightarrow> AuthorityGovernanceContext \<Rightarrow> EncumbranceReleaseMandateRecord \<Rightarrow>
     EncumbranceReleaseExecutionRecord \<Rightarrow> auth_store \<Rightarrow>
     (release_failure + EncumbranceReleaseExecutionOutcomeResult) \<times> auth_store" where
  "finishConfirmedRelease sha anow context mandate confirmed st =
     attempt (from_authority (getEncumbrance sha context (m_organizationId mandate) (m_encumbranceRef mandate) st)) st
       (\<lambda>found. case found of
          None \<Rightarrow> (Inl (ReleaseFailed RELEASE_TARGET_NOT_FOUND), st)
        | Some current \<Rightarrow>
            if e_status current = EsReleased
            then (Inr \<lparr>zo_mandate = mandate, zo_execution = confirmed, zo_encumbrance = current,
                       zo_terminalized = False\<rparr>, st)
            else let (res, st1) = terminalize sha anow context mandate confirmed st
                 in case res of
                      Inl e \<Rightarrow> (Inl e, st1)
                    | Inr released \<Rightarrow>
                        (Inr \<lparr>zo_mandate = mandate, zo_execution = confirmed, zo_encumbrance = released,
                              zo_terminalized = True\<rparr>, st1))"

text \<open>What an execution establishes before it calls the executor: a live mandate and a standing target.\<close>

definition startExecution ::
  "(string \<Rightarrow> string) \<Rightarrow> AuthorityGovernanceContext \<Rightarrow> EncumbranceReleaseMandateRecord \<Rightarrow> string \<Rightarrow>
     string \<Rightarrow> auth_store \<Rightarrow> release_failure + EncumbranceReleaseExecutionRequest" where
  "startExecution sha context mandate attemptedAt correlationId st =
     rbind (from_release (assertEncumbranceReleaseMandateExecutable mandate attemptedAt)) (\<lambda>_.
     rbind (loadTargetEncumbrance sha context (m_organizationId mandate) (m_encumbranceRef mandate)
              (mandateResource mandate) st) (\<lambda>encumbrance.
     rbind (from_release (assertEncumbranceActive encumbrance)) (\<lambda>_.
       Inr (executorRequest mandate encumbrance attemptedAt correlationId))))"

text \<open>After the evidence: the reference, and for a confirmed release the terminalization.\<close>

definition afterRecord ::
  "(string \<Rightarrow> string) \<Rightarrow> string \<Rightarrow> (string \<Rightarrow> string \<Rightarrow> bool) \<Rightarrow> AuthorityGovernanceContext \<Rightarrow>
     EncumbranceReleaseMandateRecord \<Rightarrow> EncumbranceReleaseMandateRecord \<Rightarrow>
     EncumbranceReleaseExecutionRecord \<Rightarrow> auth_store \<Rightarrow>
     (release_failure + EncumbranceReleaseExecutionOutcomeResult) \<times> auth_store" where
  "afterRecord sha anow appendReference context mandate recordedMandate execution st =
     (if (case m_evaluationRef mandate of None \<Rightarrow> False | Some ev \<Rightarrow> \<not> appendReference ev (x_id execution))
      then (Inl GovernanceStoreFailed, st)
      else if x_outcome execution \<noteq> ConfirmedSuccess then
        attempt (loadTargetEncumbrance sha context (m_organizationId mandate) (m_encumbranceRef mandate)
                   (mandateResource mandate) st) st (\<lambda>unchanged.
          (Inr \<lparr>zo_mandate = recordedMandate, zo_execution = execution, zo_encumbrance = unchanged,
                zo_terminalized = False\<rparr>, st))
      else let (res, st1) = terminalize sha anow context recordedMandate execution st
           in case res of
                Inl e \<Rightarrow> (Inl e, st1)
              | Inr released \<Rightarrow>
                  (Inr \<lparr>zo_mandate = recordedMandate, zo_execution = execution,
                        zo_encumbrance = released, zo_terminalized = True\<rparr>, st1))"

definition executeEncumbranceRelease ::
  "(string \<Rightarrow> string) \<Rightarrow> string \<Rightarrow> string \<Rightarrow> string \<Rightarrow> (string \<Rightarrow> string) \<Rightarrow> string \<Rightarrow>
     (EncumbranceReleaseExecutionRequest \<Rightarrow> executor_reply) \<Rightarrow> (string \<Rightarrow> string \<Rightarrow> bool) \<Rightarrow>
     AuthorityGovernanceContext \<Rightarrow> ExecuteEncumbranceReleaseRequest \<Rightarrow> release_store \<times> auth_store \<Rightarrow>
     (release_failure + EncumbranceReleaseExecutionOutcomeResult) \<times> release_store \<times> auth_store" where
  "executeEncumbranceRelease sha now mnow anow nextId providerSystem executor appendReference context input s =
     (case s of (ms, st) \<Rightarrow>
     attempt (from_release (getMandate context (z_mandateId input) ms)) (ms, st) (\<lambda>mandate.
     attempt (from_release (requireStrictUtcEncumbranceReleaseTimestamp
                (case z_attemptedAt input of None \<Rightarrow> now | Some a \<Rightarrow> a))) (ms, st) (\<lambda>attemptedAt.
     attempt (if m_status mandate = MsExecuted
              then from_release (getConfirmedExecution context (m_id mandate) ms) else Inr None) (ms, st) (\<lambda>confirmed.
     case confirmed of
       Some c \<Rightarrow> (let (res, st1) = finishConfirmedRelease sha anow context mandate c st in (res, ms, st1))
     | None \<Rightarrow>
         let correlationId = (case z_correlationId input of None \<Rightarrow> m_correlationId mandate | Some c \<Rightarrow> c)
         in attempt (startExecution sha context mandate attemptedAt correlationId st) (ms, st) (\<lambda>request.
            let executionId = (case z_executionId input of None \<Rightarrow> nextId ''encumbrance-release-execution''
                               | Some i \<Rightarrow> i);
                outcome = settledOutcome (executor request);
                (recorded, ms1) = recordAttempt mnow context providerSystem mandate executionId attemptedAt
                                    correlationId outcome ms
            in case recorded of
                 Inl e \<Rightarrow> (Inl e, ms1, st)
               | Inr (recordedMandate, execution) \<Rightarrow>
                   (let (res, st1) = afterRecord sha anow appendReference context mandate recordedMandate execution st
                    in (res, ms1, st1)))))))"

section \<open>Recovery and withdrawal\<close>

definition recoverEncumbranceRelease ::
  "(string \<Rightarrow> string) \<Rightarrow> string \<Rightarrow> AuthorityGovernanceContext \<Rightarrow> string \<Rightarrow> release_store \<times> auth_store \<Rightarrow>
     (release_failure + EncumbranceReleaseExecutionOutcomeResult option) \<times> release_store \<times> auth_store" where
  "recoverEncumbranceRelease sha anow context mandateId s =
     (case s of (ms, st) \<Rightarrow>
     attempt (from_release (getMandate context mandateId ms)) (ms, st) (\<lambda>mandate.
     attempt (from_release (getConfirmedExecution context (m_id mandate) ms)) (ms, st) (\<lambda>confirmed.
     case confirmed of
       None \<Rightarrow> (Inr None, ms, st)
     | Some c \<Rightarrow>
         (let (res, st1) = finishConfirmedRelease sha anow context mandate c st
          in (rbind res (\<lambda>r. Inr (Some r)), ms, st1)))))"

record RevokeEncumbranceReleaseMandateRequest =
  y_mandateId :: string
  y_reason :: string
  y_requestedBy :: string
  y_revokedAt :: "string option"
  y_description :: "string option"
  y_evidenceRefs :: "string list option"
  y_correlationId :: "string option"

definition revokeReleaseMandate ::
  "string \<Rightarrow> (string \<Rightarrow> string) \<Rightarrow> AuthorityGovernanceContext \<Rightarrow> RevokeEncumbranceReleaseMandateRequest \<Rightarrow>
     release_store \<Rightarrow> EncumbranceReleaseRevokeOutcome mandate_result" where
  "revokeReleaseMandate now nextId context input ms =
     attempt (getMandate context (y_mandateId input) ms) ms (\<lambda>mandate.
       revokeMandate context
         \<lparr>iv_revocationId = nextId ''encumbrance-release-revocation'', iv_mandateId = m_id mandate,
          iv_organizationId = m_organizationId mandate,
          iv_revokedAt = (case y_revokedAt input of None \<Rightarrow> now | Some r \<Rightarrow> r),
          iv_reason = y_reason input, iv_issuerRef = y_requestedBy input,
          iv_correlationId = (case y_correlationId input of
            None \<Rightarrow> nextId ''encumbrance-release-revocation-correlation'' | Some c \<Rightarrow> c),
          iv_description = y_description input, iv_evidenceRefs = y_evidenceRefs input\<rparr> ms)"

section \<open>The evidence lineage\<close>

record EncumbranceReleaseEvidenceLineage =
  w_mandateId :: string
  w_organizationId :: string
  w_resource :: EncumbranceReleaseResourceRef
  w_encumbranceRef :: string
  w_requestRef :: string
  w_requestedBy :: string
  w_decisionRef :: string
  w_evaluationRef :: "string option"
  w_approvalRefs :: "string list"
  w_obligationRefs :: "string list"
  w_evidenceRefs :: "string list"
  w_auditRefs :: "string list"
  w_executionRefs :: "string list"
  w_revocationRef :: "string option"
  w_releaseExecutionRef :: "string option"
  w_encumbrance :: "GovernedAuthorityEncumbrance option"

definition or_empty :: "string list option \<Rightarrow> string list" where
  "or_empty x = (case x of None \<Rightarrow> [] | Some xs \<Rightarrow> xs)"

definition getEvidenceLineage ::
  "(string \<Rightarrow> string) \<Rightarrow> AuthorityGovernanceContext \<Rightarrow> string \<Rightarrow> release_store \<Rightarrow> auth_store \<Rightarrow>
     release_failure + EncumbranceReleaseEvidenceLineage" where
  "getEvidenceLineage sha context mandateId ms st =
     rbind (from_release (getMandate context mandateId ms)) (\<lambda>mandate.
     rbind (from_release (listExecutions context (m_id mandate) ms)) (\<lambda>attempts.
     rbind (from_release (getRevocation context (m_id mandate) ms)) (\<lambda>revocation.
     rbind (from_authority (getEncumbrance sha context (m_organizationId mandate) (m_encumbranceRef mandate) st))
       (\<lambda>encumbrance. Inr
         \<lparr>w_mandateId = m_id mandate, w_organizationId = m_organizationId mandate,
          w_resource = \<lparr>er_kind = m_resourceKind mandate, er_id = m_resourceId mandate,
                        er_tenantId = m_resourceTenantId mandate\<rparr>,
          w_encumbranceRef = m_encumbranceRef mandate, w_requestRef = m_requestRef mandate,
          w_requestedBy = m_requestedBy mandate, w_decisionRef = m_decisionRef mandate,
          w_evaluationRef = m_evaluationRef mandate, w_approvalRefs = or_empty (m_approvalRefs mandate),
          w_obligationRefs = or_empty (m_obligationRefs mandate),
          w_evidenceRefs = or_empty (m_evidenceRefs mandate), w_auditRefs = or_empty (m_auditRefs mandate),
          w_executionRefs = map x_id attempts, w_revocationRef = map_option v_id revocation,
          w_releaseExecutionRef =
            map_option x_id (find (\<lambda>x. x_outcome x = ConfirmedSuccess) attempts),
          w_encumbrance = encumbrance\<rparr>))))"

end
