(* ===== verification/ReleaseMachine.thy ===== *)
theory ReleaseMachine
  imports ReleaseService StoreProtocol
begin

text \<open>
  The release system as a state machine: the mandate store, the authority store and the
  terminalizations in flight, with every writing section of every service call its own step, so
  that concurrent calls may interleave in any way and stop anywhere. The invariants say what
  evidence stands behind every constraint the service has ended; the operations of the service
  are runs of the machine.
\<close>

section \<open>The mandate store\<close>

definition mandate_of :: "release_store \<Rightarrow> string \<Rightarrow> EncumbranceReleaseMandateRecord \<Rightarrow> bool" where
  "mandate_of ms mid m \<longleftrightarrow> map_get (mandates ms) mid = Some m"

lemma mandate_of_fun: "mandate_of ms mid m \<Longrightarrow> mandate_of ms mid m' \<Longrightarrow> m' = m"
  by (simp add: mandate_of_def)

text \<open>An attempt is evidence about its own mandate; a confirmed one has spent it.\<close>

definition execution_ok :: "release_store \<Rightarrow> string \<Rightarrow> EncumbranceReleaseExecutionRecord \<Rightarrow> bool" where
  "execution_ok ms mid x \<longleftrightarrow>
     x_id x \<in> set (executionIds ms) \<and> x_mandateId x = mid \<and> isStrictUtcTimestamp (x_attemptedAt x) \<and>
     pred_option isStrictUtcTimestamp (x_confirmedAt x) \<and>
     (\<exists>m. mandate_of ms mid m \<and> x_encumbranceRef x = m_encumbranceRef m \<and>
        x_organizationId x = m_organizationId m \<and>
        (x_outcome x = ConfirmedSuccess \<longrightarrow> m_status m = MsExecuted \<and> m_executionRef m = Some (x_id x)))"

definition release_wf :: "release_store \<Rightarrow> bool" where
  "release_wf ms \<longleftrightarrow>
     map_all (\<lambda>mid m. m_id m = mid \<and> map_get (mandateIdByRequestRef ms) (m_requestRef m) = Some mid) (mandates ms) \<and>
     (\<forall>mid. distinct (executionsOf ms mid) \<and> (\<forall>x \<in> set (executionsOf ms mid). execution_ok ms mid x)) \<and>
     (\<forall>mid m. mandate_of ms mid m \<longrightarrow> m_status m = MsExecuted \<longrightarrow>
        (\<exists>x \<in> set (executionsOf ms mid). x_outcome x = ConfirmedSuccess)) \<and>
     (\<forall>mid mid'. \<forall>x \<in> set (executionsOf ms mid). \<forall>y \<in> set (executionsOf ms mid').
        x_id x = x_id y \<longrightarrow> x = y) \<and>
     (\<forall>mid mid' m m'. mandate_of ms mid m \<longrightarrow> mandate_of ms mid' m' \<longrightarrow>
        m_status m = MsActive \<longrightarrow> m_status m' = MsActive \<longrightarrow>
        m_organizationId m = m_organizationId m' \<longrightarrow> m_encumbranceRef m = m_encumbranceRef m' \<longrightarrow> mid = mid')"

lemma release_wf_id: "release_wf ms \<Longrightarrow> mandate_of ms mid m \<Longrightarrow> m_id m = mid"
  by (auto simp: release_wf_def map_all_def mandate_of_def)

lemma release_wf_request:
  "release_wf ms \<Longrightarrow> mandate_of ms mid m \<Longrightarrow> map_get (mandateIdByRequestRef ms) (m_requestRef m) = Some mid"
  by (auto simp: release_wf_def map_all_def mandate_of_def)

lemma release_wf_execution: "release_wf ms \<Longrightarrow> x \<in> set (executionsOf ms mid) \<Longrightarrow> execution_ok ms mid x"
  by (simp add: release_wf_def)

lemma release_wf_distinct: "release_wf ms \<Longrightarrow> distinct (executionsOf ms mid)"
  by (simp add: release_wf_def)

lemma release_wf_unique:
  "release_wf ms \<Longrightarrow> x \<in> set (executionsOf ms mid) \<Longrightarrow> y \<in> set (executionsOf ms mid') \<Longrightarrow>
     x_id x = x_id y \<Longrightarrow> x = y"
  unfolding release_wf_def by blast

lemma release_wf_active:
  "release_wf ms \<Longrightarrow> mandate_of ms mid m \<Longrightarrow> mandate_of ms mid' m' \<Longrightarrow> m_status m = MsActive \<Longrightarrow>
     m_status m' = MsActive \<Longrightarrow> m_organizationId m = m_organizationId m' \<Longrightarrow>
     m_encumbranceRef m = m_encumbranceRef m' \<Longrightarrow> mid = mid'"
  unfolding release_wf_def by blast

lemma release_wf_spent:
  "release_wf ms \<Longrightarrow> mandate_of ms mid m \<Longrightarrow> m_status m = MsExecuted \<Longrightarrow>
     \<exists>x \<in> set (executionsOf ms mid). x_outcome x = ConfirmedSuccess"
  unfolding release_wf_def by blast

text \<open>A mandate is spent at most once.\<close>

lemma confirmed_once:
  assumes wf: "release_wf ms" and x: "x \<in> set (executionsOf ms mid)" "x_outcome x = ConfirmedSuccess"
    and y: "y \<in> set (executionsOf ms mid)" "y_outcome = x_outcome y" "y_outcome = ConfirmedSuccess"
  shows "x = y"
proof -
  from release_wf_execution [OF wf x(1)] x(2) release_wf_execution [OF wf y(1)] y(2,3)
  have "x_id x = x_id y" by (auto simp: execution_ok_def dest: mandate_of_fun)
  with release_wf_unique [OF wf x(1) y(1)] show ?thesis .
qed

lemma all_equal_length: "distinct xs \<Longrightarrow> \<forall>x \<in> set xs. \<forall>y \<in> set xs. x = y \<Longrightarrow> length xs \<le> 1"
  by (metis One_nat_def List.finite_set card_le_Suc0_iff_eq distinct_card)

lemma release_wf_empty: "release_wf empty_release_store"
  by (simp add: release_wf_def empty_release_store_def executionsOf_def mandate_of_def)

text \<open>Mandates keep their terms, and evidence is only added.\<close>

definition same_mandate :: "EncumbranceReleaseMandateRecord \<Rightarrow> EncumbranceReleaseMandateRecord \<Rightarrow> bool" where
  "same_mandate m m' \<longleftrightarrow> (\<exists>s r. m' = m\<lparr>m_status := s, m_executionRef := r\<rparr>) \<and>
     (m_status m \<noteq> MsActive \<longrightarrow> m' = m)"

lemma same_mandate_refl [simp]: "same_mandate m m"
  unfolding same_mandate_def by (intro conjI exI [of _ "m_status m"] exI [of _ "m_executionRef m"]) simp_all

lemma same_mandate_trans:
  assumes "same_mandate a b" and "same_mandate b c"
  shows "same_mandate a c"
proof (cases "m_status a = MsActive")
  case True
  with assms show ?thesis unfolding same_mandate_def by (elim conjE exE) (simp, blast)
next
  case False
  with assms have "c = a" by (simp add: same_mandate_def)
  then show ?thesis by simp
qed

lemma same_mandate_fields:
  assumes "same_mandate m m'"
  shows "m_id m' = m_id m" "m_organizationId m' = m_organizationId m"
    "m_encumbranceRef m' = m_encumbranceRef m" "m_requestRef m' = m_requestRef m"
    "m_resourceKind m' = m_resourceKind m" "m_resourceId m' = m_resourceId m"
  using assms by (auto simp: same_mandate_def)

definition ms_grows :: "release_store \<Rightarrow> release_store \<Rightarrow> bool" where
  "ms_grows ms ms' \<longleftrightarrow>
     (\<forall>mid m. mandate_of ms mid m \<longrightarrow> (\<exists>m'. mandate_of ms' mid m' \<and> same_mandate m m')) \<and>
     (\<forall>mid. set (executionsOf ms mid) \<subseteq> set (executionsOf ms' mid))"

lemma ms_grows_refl [simp]: "ms_grows ms ms"
  by (auto simp: ms_grows_def)

lemma ms_grows_trans: "ms_grows a b \<Longrightarrow> ms_grows b c \<Longrightarrow> ms_grows a c"
  unfolding ms_grows_def by (meson same_mandate_trans subset_trans)

subsection \<open>Issuing\<close>

lemma issue_cases:
  obtains (refused) e where "issueMandate now cx i ms = (Inl e, ms)"
  | (issued) m ms' where "issueMandate now cx i ms = (Inr m, ms')"
      and "m_id m = im_id i" and "m_status m = MsActive" and "m_executionRef m = None"
      and "m_requestRef m = im_requestRef i" and "m_organizationId m = im_organizationId i"
      and "m_encumbranceRef m = im_encumbranceRef i"
      and "map_get (mandates ms) (m_id m) = None"
      and "map_get (mandateIdByRequestRef ms) (m_requestRef m) = None"
      and "findActiveMandateForEncumbrance ms (m_organizationId m) (m_encumbranceRef m) = None"
      and "ms' = ms\<lparr>mandates := map_set (mandates ms) (m_id m) m,
         mandateIdByRequestRef := map_set (mandateIdByRequestRef ms) (m_requestRef m) (m_id m),
         executions := map_set (executions ms) (m_id m) []\<rparr>"
proof (cases "issueMandate now cx i ms")
  case (Pair r ms')
  show ?thesis
  proof (cases r)
    case (Inl e)
    with Pair have "ms' = ms"
      by (auto simp: issueMandate_def attempt_def Let_def split: sum.split_asm if_split_asm)
    with Pair Inl show ?thesis by (intro refused [of e]) simp
  next
    case (Inr m)
    with Pair show ?thesis
      by (intro issued [of m ms'])
        (auto simp: issueMandate_def attempt_def Let_def issuedMandate_def split: sum.split_asm if_split_asm)
  qed
qed

lemma executionsOf_set [simp]:
  "executionsOf (ms\<lparr>executions := map_set (executions ms) k xs\<rparr>) mid = (if mid = k then xs else executionsOf ms mid)"
  "executionsOf (ms\<lparr>executionIds := is\<rparr>) mid = executionsOf ms mid"
  "executionsOf (ms\<lparr>mandates := M\<rparr>) mid = executionsOf ms mid"
  "executionsOf (ms\<lparr>mandateIdByRequestRef := R\<rparr>) mid = executionsOf ms mid"
  "executionsOf (ms\<lparr>revocations := V\<rparr>) mid = executionsOf ms mid"
  "executionsOf (ms\<lparr>closed := c\<rparr>) mid = executionsOf ms mid"
  by (simp_all add: executionsOf_def map_simps)

lemma mandate_of_set [simp]:
  "mandate_of (ms\<lparr>mandates := map_set (mandates ms) k v\<rparr>) mid m \<longleftrightarrow> (if mid = k then m = v else mandate_of ms mid m)"
  "mandate_of (ms\<lparr>executions := E\<rparr>) mid m = mandate_of ms mid m"
  "mandate_of (ms\<lparr>executionIds := is\<rparr>) mid m = mandate_of ms mid m"
  "mandate_of (ms\<lparr>mandateIdByRequestRef := R\<rparr>) mid m = mandate_of ms mid m"
  "mandate_of (ms\<lparr>revocations := V\<rparr>) mid m = mandate_of ms mid m"
  "mandate_of (ms\<lparr>closed := c\<rparr>) mid m = mandate_of ms mid m"
  by (auto simp: mandate_of_def map_simps)

lemma no_mandate_no_execution:
  assumes "release_wf ms" and "map_get (mandates ms) mid = None"
  shows "executionsOf ms mid = []"
proof (rule ccontr)
  assume "executionsOf ms mid \<noteq> []"
  then obtain x where "x \<in> set (executionsOf ms mid)" by (meson last_in_set)
  from release_wf_execution [OF assms(1) this] assms(2) show False
    by (auto simp: execution_ok_def mandate_of_def)
qed

text \<open>Writing one record at a time: each clause of the invariant follows from the one before.\<close>

lemma release_wfI:
  assumes "map_ok (mandates ms)" and "\<And>mid m. mandate_of ms mid m \<Longrightarrow> m_id m = mid"
    and "\<And>mid m. mandate_of ms mid m \<Longrightarrow> map_get (mandateIdByRequestRef ms) (m_requestRef m) = Some mid"
    and "\<And>mid. distinct (executionsOf ms mid)"
    and "\<And>mid x. x \<in> set (executionsOf ms mid) \<Longrightarrow> execution_ok ms mid x"
    and "\<And>mid m. mandate_of ms mid m \<Longrightarrow> m_status m = MsExecuted \<Longrightarrow>
      \<exists>x \<in> set (executionsOf ms mid). x_outcome x = ConfirmedSuccess"
    and "\<And>mid mid' x y. x \<in> set (executionsOf ms mid) \<Longrightarrow> y \<in> set (executionsOf ms mid') \<Longrightarrow>
      x_id x = x_id y \<Longrightarrow> x = y"
    and "\<And>mid mid' m m'. mandate_of ms mid m \<Longrightarrow> mandate_of ms mid' m' \<Longrightarrow> m_status m = MsActive \<Longrightarrow>
      m_status m' = MsActive \<Longrightarrow> m_organizationId m = m_organizationId m' \<Longrightarrow>
      m_encumbranceRef m = m_encumbranceRef m' \<Longrightarrow> mid = mid'"
  shows "release_wf ms"
  unfolding release_wf_def map_all_def
  by (intro conjI allI ballI impI) (auto simp: mandate_of_def assms(1,4) dest: assms(2,3,5-) [unfolded mandate_of_def])

lemma release_wf_map: "release_wf ms \<Longrightarrow> map_ok (mandates ms)"
  by (simp add: release_wf_def map_all_def)

lemma no_active_found:
  assumes "release_wf ms" and "findActiveMandateForEncumbrance ms org ref = None"
    and "mandate_of ms mid m" and "m_organizationId m = org" and "m_encumbranceRef m = ref"
  shows "m_status m \<noteq> MsActive"
proof -
  have "m \<in> set (map_values (mandates ms))"
    using assms(3) jsmap.get_vals [OF release_wf_map [OF assms(1)]] by (auto simp: mandate_of_def)
  with assms(2,4,5) show ?thesis by (auto simp: findActiveMandateForEncumbrance_def find_None_iff_all)
qed

text \<open>A mandate leaves the active state in place: on revocation, and when it is spent.\<close>

lemma execution_ok_same:
  assumes "execution_ok ms mid x" and "set (executionIds ms) \<subseteq> set (executionIds ms')"
    and "\<And>m. mandate_of ms mid m \<Longrightarrow> \<exists>m'. mandate_of ms' mid m' \<and> same_mandate m m'"
  shows "execution_ok ms' mid x"
proof -
  from assms(1) obtain m where m: "mandate_of ms mid m" "x_encumbranceRef x = m_encumbranceRef m"
    "x_organizationId x = m_organizationId m"
    "x_outcome x = ConfirmedSuccess \<longrightarrow> m_status m = MsExecuted \<and> m_executionRef m = Some (x_id x)"
    by (auto simp: execution_ok_def)
  from assms(3) [OF m(1)] obtain m' where m': "mandate_of ms' mid m'" "same_mandate m m'" by blast
  have "x_outcome x = ConfirmedSuccess \<longrightarrow> m_status m' = MsExecuted \<and> m_executionRef m' = Some (x_id x)"
    using m(4) m'(2) by (auto simp: same_mandate_def)
  with assms(1,2) m m' same_mandate_fields [OF m'(2)] show ?thesis
    unfolding execution_ok_def by (intro conjI exI [of _ m']) auto
qed

lemma grows_set:
  assumes "mandate_of ms (m_id m) m" and "same_mandate m m'" and "mandate_of ms mid k"
  shows "\<exists>k'. mandate_of (ms\<lparr>mandates := map_set (mandates ms) (m_id m) m'\<rparr>) mid k' \<and> same_mandate k k'"
proof (cases "mid = m_id m")
  case True
  with assms mandate_of_fun have "k = m" by blast
  with True assms(2) show ?thesis by auto
next
  case False
  with assms(3) show ?thesis by (intro exI [of _ k]) simp
qed

lemma withdraw_wf:
  assumes wf: "release_wf ms" and m: "mandate_of ms (m_id m) m" "m_status m = MsActive"
    and s: "m' = m\<lparr>m_status := MsRevoked\<rparr>"
  shows "release_wf (ms\<lparr>mandates := map_set (mandates ms) (m_id m) m'\<rparr>)" (is "release_wf ?ms")
proof -
  have same: "same_mandate m m'" using m(2) unfolding s same_mandate_def
    by (intro conjI exI [of _ MsRevoked] exI [of _ "m_executionRef m"]) simp_all
  show ?thesis
proof (rule release_wfI)
  show "map_ok (mandates ?ms)" using release_wf_map [OF wf] by (simp add: map_simps)
  fix mid k
  assume k: "mandate_of ?ms mid k"
  show "m_id k = mid" using k release_wf_id [OF wf] by (auto simp: s split: if_splits)
  show "map_get (mandateIdByRequestRef ?ms) (m_requestRef k) = Some mid"
    using k release_wf_request [OF wf] release_wf_request [OF wf m(1)] by (auto simp: s split: if_splits)
  show "m_status k = MsExecuted \<Longrightarrow> \<exists>x \<in> set (executionsOf ?ms mid). x_outcome x = ConfirmedSuccess"
    using k release_wf_spent [OF wf] by (auto simp: s split: if_splits)
next
  show "distinct (executionsOf ?ms mid)" for mid using release_wf_distinct [OF wf] by simp
next
  fix mid x
  assume "x \<in> set (executionsOf ?ms mid)"
  then have "execution_ok ms mid x" using release_wf_execution [OF wf] by simp
  then show "execution_ok ?ms mid x"
  proof (rule execution_ok_same)
    fix k assume "mandate_of ms mid k"
    then show "\<exists>k'. mandate_of ?ms mid k' \<and> same_mandate k k'" by (rule grows_set [OF m(1) same])
  qed simp
next
  fix mid mid' x y
  assume "x \<in> set (executionsOf ?ms mid)" "y \<in> set (executionsOf ?ms mid')" "x_id x = x_id y"
  then show "x = y" using release_wf_unique [OF wf] by simp
next
  fix mid mid' k k'
  assume "mandate_of ?ms mid k" "mandate_of ?ms mid' k'" "m_status k = MsActive" "m_status k' = MsActive"
    "m_organizationId k = m_organizationId k'" "m_encumbranceRef k = m_encumbranceRef k'"
  then show "mid = mid'" using release_wf_active [OF wf] by (auto simp: s split: if_splits)
qed
qed

lemma issued_wf:
  assumes wf: "release_wf ms" and m: "m_status m = MsActive" "map_get (mandates ms) (m_id m) = None"
    "map_get (mandateIdByRequestRef ms) (m_requestRef m) = None"
    "findActiveMandateForEncumbrance ms (m_organizationId m) (m_encumbranceRef m) = None"
  shows "release_wf (ms\<lparr>mandates := map_set (mandates ms) (m_id m) m,
         mandateIdByRequestRef := map_set (mandateIdByRequestRef ms) (m_requestRef m) (m_id m),
         executions := map_set (executions ms) (m_id m) []\<rparr>)" (is "release_wf ?ms")
proof (rule release_wfI)
  have none: "executionsOf ms (m_id m) = []" by (rule no_mandate_no_execution [OF wf m(2)])
  have xs: "executionsOf ?ms mid = executionsOf ms mid" for mid by (simp add: executionsOf_def map_simps none [unfolded executionsOf_def])
  have ms: "mandate_of ?ms mid k \<longleftrightarrow> (if mid = m_id m then k = m else mandate_of ms mid k)" for mid k
    by (auto simp: mandate_of_def map_simps)
  show "map_ok (mandates ?ms)" using release_wf_map [OF wf] by (simp add: map_simps)
  fix mid k
  assume k: "mandate_of ?ms mid k"
  show "m_id k = mid" using k release_wf_id [OF wf] by (auto simp: ms split: if_splits)
  show "map_get (mandateIdByRequestRef ?ms) (m_requestRef k) = Some mid"
    using k release_wf_request [OF wf, of mid k] m(3) by (cases "m_requestRef k = m_requestRef m") (auto simp: ms map_simps split: if_splits)
  show "m_status k = MsExecuted \<Longrightarrow> \<exists>x \<in> set (executionsOf ?ms mid). x_outcome x = ConfirmedSuccess"
    using k release_wf_spent [OF wf] m(1) by (auto simp: ms xs split: if_splits)
next
  show "distinct (executionsOf ?ms mid)" for mid
    using release_wf_distinct [OF wf, of mid] by (simp add: executionsOf_def map_simps)
next
  fix mid x
  assume "x \<in> set (executionsOf ?ms mid)"
  then have "x \<in> set (executionsOf ms mid)"
    by (auto simp: executionsOf_def map_simps split: if_splits)
  then have "execution_ok ms mid x" using release_wf_execution [OF wf] by simp
  then show "execution_ok ?ms mid x"
    using m(2) by (rule_tac execution_ok_same) (auto simp: mandate_of_def map_simps)
next
  fix mid mid' x y
  assume "x \<in> set (executionsOf ?ms mid)" "y \<in> set (executionsOf ?ms mid')" "x_id x = x_id y"
  then show "x = y" using release_wf_unique [OF wf, of x mid y mid'] by (auto simp: executionsOf_def map_simps split: if_splits)
next
  fix mid mid' k k'
  assume a: "mandate_of ?ms mid k" "mandate_of ?ms mid' k'" "m_status k = MsActive" "m_status k' = MsActive"
    "m_organizationId k = m_organizationId k'" "m_encumbranceRef k = m_encumbranceRef k'"
  then show "mid = mid'" using release_wf_active [OF wf, of mid k mid' k'] no_active_found [OF wf m(4), of mid k] no_active_found [OF wf m(4), of mid' k']
    by (auto simp: mandate_of_def map_simps split: if_splits)
qed

subsection \<open>Withdrawing\<close>

lemma withdraw_cases:
  obtains (refused) e where "revokeMandate cx i ms = (Inl e, ms)"
  | (revoked) m m' out where "mandate_of ms (iv_mandateId i) m" and "m_status m = MsActive"
      and "m' = m\<lparr>m_status := MsRevoked\<rparr>"
      and "revokeMandate cx i ms = (Inr out, ms\<lparr>mandates := map_set (mandates ms) (m_id m') m',
         revocations := map_set (revocations ms) (m_id m') (vo_revocation out)\<rparr>)"
proof (cases "revokeMandate cx i ms")
  case (Pair r ms')
  show ?thesis
  proof (cases r)
    case (Inl e)
    with Pair have "ms' = ms"
      by (auto simp: revokeMandate_def attempt_def Let_def split: sum.split_asm if_split_asm)
    with Pair Inl show ?thesis by (intro refused [of e]) simp
  next
    case (Inr out)
    with Pair obtain m where "mandate_of ms (iv_mandateId i) m" "m_status m = MsActive"
      "ms' = ms\<lparr>mandates := map_set (mandates ms) (m_id m) (m\<lparr>m_status := MsRevoked\<rparr>),
         revocations := map_set (revocations ms) (m_id m) (vo_revocation out)\<rparr>"
      by (auto simp: revokeMandate_def attempt_def Let_def requireVisibleMandate_def requireMandate_def rbind_def
          mandate_of_def split: sum.split_asm if_split_asm option.split_asm)
    with Pair Inr show ?thesis by (intro revoked [of m "m\<lparr>m_status := MsRevoked\<rparr>" out]) simp_all
  qed
qed

subsection \<open>Recording an attempt\<close>

lemma record_cases:
  obtains (refused) e where "recordExecution now cx i ms = (Inl e, ms)"
  | (recorded) m x m' where "mandate_of ms (ix_mandateId i) m" and "x_mandateId x = m_id m" and "x_id x = ix_id i"
      and "x_id x \<notin> set (executionIds ms)" and "x_organizationId x = m_organizationId m"
      and "x_encumbranceRef x = m_encumbranceRef m" and "isStrictUtcTimestamp (x_attemptedAt x)"
      and "pred_option isStrictUtcTimestamp (x_confirmedAt x)" and "x_outcome x = ix_outcome i"
      and "m' = (if x_outcome x = ConfirmedSuccess then m\<lparr>m_status := MsExecuted, m_executionRef := Some (x_id x)\<rparr> else m)"
      and "x_outcome x = ConfirmedSuccess \<Longrightarrow> m_status m = MsActive"
      and "x_outcome x = ConfirmedSuccess \<Longrightarrow> \<forall>y \<in> set (executionsOf ms (m_id m)). x_outcome y \<noteq> ConfirmedSuccess"
      and "fst (recordExecution now cx i ms) = Inr (m', x)"
      and "snd (recordExecution now cx i ms) =
         (let ms1 = ms\<lparr>executionIds := executionIds ms @ [x_id x],
            executions := map_set (executions ms) (m_id m) (executionsOf ms (m_id m) @ [x])\<rparr>
          in if x_outcome x = ConfirmedSuccess then ms1\<lparr>mandates := map_set (mandates ms1) (m_id m) m'\<rparr> else ms1)"
proof (cases "executionGuards now cx i ms")
  case (Inl e)
  then show ?thesis by (intro refused [of e]) (simp add: recordExecution_def attempt_def)
next
  case (Inr mx)
  obtain m x where mx: "mx = (m, x)" by (cases mx)
  have g: "mandate_of ms (ix_mandateId i) m" "x_mandateId x = m_id m" "x_id x = ix_id i"
      "x_id x \<notin> set (executionIds ms)" "x_organizationId x = m_organizationId m"
      "x_encumbranceRef x = m_encumbranceRef m" "isStrictUtcTimestamp (x_attemptedAt x)"
      "pred_option isStrictUtcTimestamp (x_confirmedAt x)" "x_outcome x = ix_outcome i"
      "x_outcome x = ConfirmedSuccess \<Longrightarrow> m_status m = MsActive"
      "x_outcome x = ConfirmedSuccess \<Longrightarrow> \<forall>y \<in> set (executionsOf ms (m_id m)). x_outcome y \<noteq> ConfirmedSuccess"
    using Inr unfolding mx
    by (auto simp: executionGuards_def rbind_def requireVisibleMandate_def requireMandate_def mandate_of_def
        recordedExecution_def requireStrictUtcEncumbranceReleaseTimestamp_def list_ex_iff
        split: sum.split_asm if_split_asm option.split_asm)
  show ?thesis
    by (rule recorded [OF g(1-9) refl g(10,11)])
      (simp_all add: recordExecution_def attempt_def Inr mx Let_def)
qed

text \<open>The store a recorded attempt leaves, seen through mandates and evidence.\<close>

lemma record_view:
  assumes wf: "release_wf ms" and ms': "ms' = snd (recordExecution now cx i ms)"
  obtains (refused) e where "fst (recordExecution now cx i ms) = Inl e" and "ms' = ms"
  | (recorded) m x m' where "fst (recordExecution now cx i ms) = Inr (m', x)"
      and "mandate_of ms (m_id m) m" and "m_id m = ix_mandateId i" and "same_mandate m m'"
      and "m' = (if x_outcome x = ConfirmedSuccess then m\<lparr>m_status := MsExecuted, m_executionRef := Some (x_id x)\<rparr> else m)"
      and "x_outcome x = ix_outcome i" and "x_id x = ix_id i" and "x_id x \<notin> set (executionIds ms)"
      and "\<And>mid k. mandate_of ms' mid k \<longleftrightarrow> (if mid = m_id m then k = m' else mandate_of ms mid k)"
      and "\<And>mid. executionsOf ms' mid = executionsOf ms mid @ (if mid = m_id m then [x] else [])"
      and "executionIds ms' = executionIds ms @ [x_id x]" and "mandateIdByRequestRef ms' = mandateIdByRequestRef ms"
      and "map_ok (mandates ms')" and "execution_ok ms' (m_id m) x"
proof (cases rule: record_cases [of now cx i ms])
  case (refused e)
  then show ?thesis by (intro that(1) [of e]) (simp_all add: ms')
next
  case (recorded m x m')
  have id: "m_id m = ix_mandateId i" using release_wf_id [OF wf recorded(1)] .
  have m: "mandate_of ms (m_id m) m" using recorded(1) id by simp
  have same: "same_mandate m m'"
  proof (cases "x_outcome x = ConfirmedSuccess")
    case True
    then show ?thesis unfolding recorded(10) same_mandate_def using recorded(11) by auto
  qed (simp add: recorded(10))
  have v: "mandate_of ms' mid k \<longleftrightarrow> (if mid = m_id m then k = m' else mandate_of ms mid k)" for mid k
    using m by (auto simp: ms' recorded(10,14) Let_def mandate_of_def map_simps)
  have ids: "executionIds ms' = executionIds ms @ [x_id x]"
    by (simp add: ms' recorded(14) Let_def)
  show ?thesis
  proof (rule that(2) [OF recorded(13) m id same recorded(10,9,3,4) v _ ids])
    show "executionsOf ms' mid = executionsOf ms mid @ (if mid = m_id m then [x] else [])" for mid
      by (simp add: ms' recorded(14) Let_def executionsOf_def map_simps)
    show "mandateIdByRequestRef ms' = mandateIdByRequestRef ms" by (simp add: ms' recorded(14) Let_def)
    show "map_ok (mandates ms')" using release_wf_map [OF wf] by (simp add: ms' recorded(14) Let_def map_simps)
    show "execution_ok ms' (m_id m) x"
      using recorded(2,5-8) same_mandate_fields [OF same] by (simp add: execution_ok_def ids v recorded(10))
  qed
qed

lemma recordExecution_wf:
  assumes wf: "release_wf ms"
  shows "release_wf (snd (recordExecution now cx i ms))"
using wf refl [of "snd (recordExecution now cx i ms)"]
proof (cases rule: record_view)
  case (recorded m x m')
  let ?ms = "snd (recordExecution now cx i ms)"
  note ms = recorded(9) and xs = recorded(10)
  note m' = same_mandate_fields [OF recorded(4)]
  have act: "m_status m' = MsActive \<Longrightarrow> m_status m = MsActive" by (simp add: recorded(5) split: if_splits)
  have mem: "y \<in> set (executionsOf ?ms mid) \<longleftrightarrow> y \<in> set (executionsOf ms mid) \<or> y = x \<and> mid = m_id m" for y mid
    by (simp add: xs)
  have before: "\<exists>o1. mandate_of ms mid o1 \<and> m_status o1 = MsActive \<and> m_organizationId o1 = m_organizationId k \<and>
      m_encumbranceRef o1 = m_encumbranceRef k" if "mandate_of ?ms mid k" "m_status k = MsActive" for mid k
    using that act m' recorded(2) by (cases "mid = m_id m") (auto simp: ms)
  have old: "x_id y \<in> set (executionIds ms)" if "y \<in> set (executionsOf ms mid)" for y mid
    using release_wf_execution [OF wf that] by (simp add: execution_ok_def)
  show ?thesis
  proof (rule release_wfI)
    show "map_ok (mandates ?ms)" by (rule recorded(13))
    fix mid k
    assume k: "mandate_of ?ms mid k"
    show "m_id k = mid" using k release_wf_id [OF wf] m' by (auto simp: ms split: if_splits)
    show "map_get (mandateIdByRequestRef ?ms) (m_requestRef k) = Some mid"
      using k release_wf_request [OF wf] release_wf_request [OF wf recorded(2)] m' by (auto simp: ms recorded(12) split: if_splits)
    show "m_status k = MsExecuted \<Longrightarrow> \<exists>x \<in> set (executionsOf ?ms mid). x_outcome x = ConfirmedSuccess"
      using k release_wf_spent [OF wf, of mid k] recorded(2) by (auto simp: ms xs recorded(5) split: if_splits)
  next
    show "distinct (executionsOf ?ms mid)" for mid
      using release_wf_distinct [OF wf, of mid] recorded(8) old [of x mid] by (auto simp: xs)
  next
    fix mid y
    assume "y \<in> set (executionsOf ?ms mid)"
    then consider "y \<in> set (executionsOf ms mid)" | "y = x" "mid = m_id m" by (auto simp: xs split: if_splits)
    then show "execution_ok ?ms mid y"
    proof cases
      case 1
      have "execution_ok ms mid y" by (rule release_wf_execution [OF wf 1])
      then show ?thesis
      proof (rule execution_ok_same)
        fix k assume "mandate_of ms mid k"
        then show "\<exists>k'. mandate_of ?ms mid k' \<and> same_mandate k k'"
          using recorded(4) mandate_of_fun [OF recorded(2)] by (cases "mid = m_id m") (auto simp: ms)
      qed (auto simp: recorded(11))
    next
      case 2
      with recorded(14) show ?thesis by simp
    qed
  next
    fix mid mid' y z
    assume "y \<in> set (executionsOf ?ms mid)" "z \<in> set (executionsOf ?ms mid')" "x_id y = x_id z"
    with mem have "y \<in> set (executionsOf ms mid) \<or> y = x" "z \<in> set (executionsOf ms mid') \<or> z = x" "x_id y = x_id z"
      by blast+
    then consider "y \<in> set (executionsOf ms mid)" "z \<in> set (executionsOf ms mid')" "x_id y = x_id z"
      | "y = x" "z = x" | "x_id x \<in> set (executionIds ms)"
      using old [of y mid] old [of z mid'] by metis
    then show "y = z"
    proof cases
      case 1
      then show ?thesis by (rule release_wf_unique [OF wf])
    qed (simp_all add: recorded(8))
  next
    fix mid mid' k k'
    assume "mandate_of ?ms mid k" "mandate_of ?ms mid' k'" "m_status k = MsActive" "m_status k' = MsActive"
      "m_organizationId k = m_organizationId k'" "m_encumbranceRef k = m_encumbranceRef k'"
    with before [of mid k] before [of mid' k'] release_wf_active [OF wf] show "mid = mid'" by metis
  qed
qed (simp add: wf)

lemma issueMandate_wf:
  assumes "release_wf ms"
  shows "release_wf (snd (issueMandate now cx i ms))"
proof (cases rule: issue_cases [of now cx i ms])
  case (issued m ms')
  from issued_wf [OF assms issued(3,8-10)] issued(1,11) show ?thesis by simp
qed (simp add: assms)

lemma release_wf_cong:
  "mandates ms' = mandates ms \<Longrightarrow> mandateIdByRequestRef ms' = mandateIdByRequestRef ms \<Longrightarrow>
   executions ms' = executions ms \<Longrightarrow> executionIds ms' = executionIds ms \<Longrightarrow> release_wf ms' \<longleftrightarrow> release_wf ms"
  by (simp add: release_wf_def executionsOf_def mandate_of_def execution_ok_def)

lemma revokeMandate_wf:
  assumes wf: "release_wf ms"
  shows "release_wf (snd (revokeMandate cx i ms))"
proof (cases rule: withdraw_cases [of cx i ms])
  case (revoked m m' out)
  have id: "m_id m = iv_mandateId i" using release_wf_id [OF wf revoked(1)] .
  with revoked have "mandate_of ms (m_id m) m" by simp
  from withdraw_wf [OF wf this revoked(2,3)] revoked(3,4) show ?thesis
    by (simp cong: release_wf_cong) (subst release_wf_cong; simp)
qed (simp add: wf)

lemma close_mandates_wf: "release_wf ms \<Longrightarrow> release_wf (close_mandates ms)"
  by (subst release_wf_cong [of _ ms]) (simp_all add: close_mandates_def)

subsection \<open>Evidence and terms only grow\<close>

lemma issueMandate_grows: "release_wf ms \<Longrightarrow> ms_grows ms (snd (issueMandate now cx i ms))"
proof (cases rule: issue_cases [of now cx i ms])
  case (issued m ms')
  assume wf: "release_wf ms"
  have "executionsOf ms (m_id m) = []" by (rule no_mandate_no_execution [OF wf issued(8)])
  then have "set (executionsOf ms mid) \<subseteq> set (executionsOf ms' mid)" for mid
    by (cases "mid = m_id m") (simp_all add: issued(11) executionsOf_def map_simps)
  moreover have "\<exists>k'. mandate_of ms' mid k' \<and> same_mandate k k'" if "mandate_of ms mid k" for mid k
    using that issued(8) by (intro exI [of _ k]) (auto simp: issued(11) mandate_of_def map_simps)
  ultimately show ?thesis by (simp add: ms_grows_def issued(1))
qed simp

lemma recordExecution_grows:
  assumes wf: "release_wf ms"
  shows "ms_grows ms (snd (recordExecution now cx i ms))"
using wf refl [of "snd (recordExecution now cx i ms)"]
proof (cases rule: record_view)
  case (recorded m x m')
  have "\<exists>k'. mandate_of (snd (recordExecution now cx i ms)) mid k' \<and> same_mandate k k'" if "mandate_of ms mid k" for mid k
    using that recorded(4) mandate_of_fun [OF recorded(2)] by (cases "mid = m_id m") (auto simp: recorded(9))
  then show ?thesis by (simp add: ms_grows_def recorded(10))
qed simp

lemma revokeMandate_grows: "release_wf ms \<Longrightarrow> ms_grows ms (snd (revokeMandate cx i ms))"
proof (cases rule: withdraw_cases [of cx i ms])
  case (revoked m m' out)
  assume wf: "release_wf ms"
  have m: "mandate_of ms (m_id m) m" using release_wf_id [OF wf revoked(1)] revoked(1) by simp
  have same: "same_mandate m m'" using revoked(2) unfolding revoked(3) same_mandate_def
    by (intro conjI exI [of _ MsRevoked] exI [of _ "m_executionRef m"]) simp_all
  show ?thesis
    using grows_set [OF m same] revoked(3) by (simp add: ms_grows_def revoked(4))
qed simp

lemma close_mandates_grows [simp]: "ms_grows ms (close_mandates ms)"
  by (auto simp: ms_grows_def close_mandates_def)

section \<open>The machine\<close>

text \<open>
  The mandates a call has read and the confirmed releases a call holds in its hands are part of the
  state: a call that has read one may act on it at any later step, after any number of steps of
  other calls, or never.
\<close>

record release_system =
  rs_mandates :: release_store
  rs_authority :: auth_store
  rs_seen :: "EncumbranceReleaseMandateRecord set"
  rs_pending :: "(EncumbranceReleaseMandateRecord \<times> EncumbranceReleaseExecutionRecord) set"

definition release_start :: release_system where
  "release_start = \<lparr>rs_mandates = empty_release_store, rs_authority = empty_store, rs_seen = {}, rs_pending = {}\<rparr>"

fun ends_by_execution :: "store_call \<Rightarrow> bool" where
  "ends_by_execution (CallReleaseEncumbrance _ _ input) =
     (case l_basis input of ReleaseByExecution _ _ _ \<Rightarrow> True | ReleaseByAdministrator _ _ \<Rightarrow> False)"
| "ends_by_execution _ = False"

text \<open>
  The authority store may be called in any way by anyone, but for ending a constraint on the strength
  of a governed execution: that is the release service's, as the contracts of the authority store say.
\<close>

inductive release_step :: "(string \<Rightarrow> string) \<Rightarrow> release_system \<Rightarrow> release_system \<Rightarrow> bool" for sha where
  issue: "release_step sha s (s\<lparr>rs_mandates := snd (issueMandate now cx i (rs_mandates s))\<rparr>)"
| revoke: "release_step sha s (s\<lparr>rs_mandates := snd (revokeMandate cx v (rs_mandates s))\<rparr>)"
| shut: "release_step sha s (s\<lparr>rs_mandates := close_mandates (rs_mandates s)\<rparr>)"
| load: "getMandate cx mid (rs_mandates s) = Inr m \<Longrightarrow> release_step sha s (s\<lparr>rs_seen := insert m (rs_seen s)\<rparr>)"
| observe: "m \<in> rs_seen s \<Longrightarrow> getConfirmedExecution cx (m_id m) (rs_mandates s) = Inr (Some x) \<Longrightarrow>
    release_step sha s (s\<lparr>rs_pending := insert (m, x) (rs_pending s)\<rparr>)"
| attempted: "recordExecution now cx r (rs_mandates s) = (res, ms') \<Longrightarrow>
    release_step sha s (s\<lparr>rs_mandates := ms', rs_pending := rs_pending s \<union>
      (case res of Inl _ \<Rightarrow> {} | Inr (m, x) \<Rightarrow> if x_outcome x = ConfirmedSuccess then {(m, x)} else {})\<rparr>)"
| terminalize: "(m, x) \<in> rs_pending s \<Longrightarrow>
    release_step sha s (s\<lparr>rs_authority := snd (terminalize sha now cx m x (rs_authority s))\<rparr>)"
| authority: "\<not> ends_by_execution c \<Longrightarrow> release_step sha s (s\<lparr>rs_authority := run_call sha c (rs_authority s)\<rparr>)"

inductive_cases release_step_cases: "release_step sha s s'"

section \<open>The invariant\<close>

text \<open>What stands behind the end of a constraint that an execution ended.\<close>

definition evidenced :: "release_store \<Rightarrow> GovernedAuthorityEncumbrance \<Rightarrow> bool" where
  "evidenced ms e \<longleftrightarrow> (\<forall>xid. e_releaseExecutionRef e = Some xid \<longrightarrow>
     (\<exists>mid x. e_releaseMandateRef e = Some mid \<and>
        e_releaseAction e = Some ENTERPRISE_RELEASE_ENCUMBRANCE_CAPABILITY \<and>
        x \<in> set (executionsOf ms mid) \<and> x_id x = xid \<and> x_outcome x = ConfirmedSuccess \<and>
        x_encumbranceRef x = e_id e \<and> x_organizationId x = e_tenantId e \<and>
        e_releasedAt e = Some (case x_confirmedAt x of None \<Rightarrow> x_attemptedAt x | Some c \<Rightarrow> c)))"

definition confirmed_for :: "release_store \<Rightarrow> EncumbranceReleaseMandateRecord \<Rightarrow> EncumbranceReleaseExecutionRecord \<Rightarrow> bool" where
  "confirmed_for ms m x \<longleftrightarrow> x \<in> set (executionsOf ms (m_id m)) \<and> x_outcome x = ConfirmedSuccess \<and>
     x_encumbranceRef x = m_encumbranceRef m \<and> x_organizationId x = m_organizationId m"

definition release_inv :: "(string \<Rightarrow> string) \<Rightarrow> release_system \<Rightarrow> bool" where
  "release_inv sha s \<longleftrightarrow> release_wf (rs_mandates s) \<and> store_wf sha (rs_authority s) \<and>
     (\<forall>m \<in> rs_seen s. \<exists>m'. mandate_of (rs_mandates s) (m_id m) m' \<and> same_mandate m m') \<and>
     (\<forall>(m, x) \<in> rs_pending s. confirmed_for (rs_mandates s) m x) \<and>
     (\<forall>e \<in> set (map_values (encumbrances (rs_authority s))). evidenced (rs_mandates s) e)"

lemma evidenced_grows: "ms_grows ms ms' \<Longrightarrow> evidenced ms e \<Longrightarrow> evidenced ms' e"
  unfolding evidenced_def ms_grows_def by blast

lemma confirmed_for_grows: "ms_grows ms ms' \<Longrightarrow> confirmed_for ms m x \<Longrightarrow> confirmed_for ms' m x"
  unfolding confirmed_for_def ms_grows_def by blast

text \<open>Any growth of the mandate store keeps the rest of the invariant.\<close>

lemma release_inv_mandates:
  assumes "release_inv sha s" and "release_wf ms'" and "ms_grows (rs_mandates s) ms'"
  shows "release_inv sha (s\<lparr>rs_mandates := ms'\<rparr>)"
proof -
  have "\<exists>m'. mandate_of ms' (m_id m) m' \<and> same_mandate m m'" if m: "m \<in> rs_seen s" for m
  proof -
    from assms(1) m obtain m1 where m1: "mandate_of (rs_mandates s) (m_id m) m1" "same_mandate m m1"
      by (auto simp: release_inv_def)
    with assms(3) same_mandate_trans show ?thesis unfolding ms_grows_def by blast
  qed
  with assms confirmed_for_grows [OF assms(3)] evidenced_grows [OF assms(3)] show ?thesis
    by (auto simp: release_inv_def)
qed

lemma release_inv_start: "release_inv sha release_start"
  by (simp add: release_inv_def release_start_def release_wf_empty store_wf_empty) (simp add: empty_store_def)

lemma release_inv_authority:
  assumes "release_inv sha s" and "store_wf sha st"
    and "\<And>e. e \<in> set (map_values (encumbrances st)) \<Longrightarrow> evidenced (rs_mandates s) e"
  shows "release_inv sha (s\<lparr>rs_authority := st\<rparr>)"
  using assms by (simp add: release_inv_def)

text \<open>A confirmed execution read back belongs to the mandate it was read for.\<close>

lemma confirmed_backed:
  assumes wf: "release_wf ms" and m: "mandate_of ms (m_id m) m'" "same_mandate m m'"
    and x: "getConfirmedExecution cx (m_id m) ms = Inr (Some x)"
  shows "confirmed_for ms m x"
proof -
  from x have "\<exists>y. mandate_of ms (m_id m) y \<and> x \<in> set (executionsOf ms (m_id y)) \<and> x_outcome x = ConfirmedSuccess"
    by (auto simp: getConfirmedExecution_def rbind_def requireVisibleMandate_def requireMandate_def mandate_of_def
        dest!: find_SomeD split: sum.split_asm option.split_asm if_split_asm)
  then have x': "x \<in> set (executionsOf ms (m_id m))" "x_outcome x = ConfirmedSuccess"
    using release_wf_id [OF wf] by metis+
  from release_wf_execution [OF wf x'(1)] m(1) have "x_encumbranceRef x = m_encumbranceRef m'" "x_organizationId x = m_organizationId m'"
    by (auto simp: execution_ok_def dest: mandate_of_fun)
  with x' same_mandate_fields [OF m(2)] show ?thesis by (simp add: confirmed_for_def)
qed

lemma evidenced_put:
  assumes "\<And>e. e \<in> set (map_values (encumbrances st)) \<Longrightarrow> evidenced ms e" and "evidenced ms x"
    and "e \<in> set (map_values (encumbrances (put_encumbrance_in st x)))"
  shows "evidenced ms e"
  using assms map_values_set_subset [of "encumbrances st" "e_id x" x] by (auto simp: put_encumbrance_in_def)

lemma releaseEncumbrance_instant:
  assumes "store_wf sha st" and "releaseEncumbrance sha now cx input st = (Inr e', st')"
    and "map_get (encumbrances st) (l_encumbranceId input) = Some e" and "e_status e = EsActive"
  shows "e_releasedAt e' = Some (case l_releasedAt input of None \<Rightarrow> now | Some y \<Rightarrow> y)"
proof -
  have int: "assertEncumbranceIntegrity sha e = Inr e"
    using assms(1,3) map_all_get by (fastforce simp: store_wf_def encumbrance_ok_def encumbrance_seal.verify_intact)
  from assms(2-4) int show ?thesis
    by (cases "l_basis input")
      (auto simp: releaseEncumbrance_def outcome_simps putEncumbrance_eq Let_def requireStrictUtcAuthorityTimestamp_def
        seal_encumbrance_def split: if_split_asm)
qed

lemma release_evidenced:
  assumes wf: "store_wf sha st" and ev: "\<And>e. e \<in> set (map_values (encumbrances st)) \<Longrightarrow> evidenced ms e"
    and basis: "(\<exists>m x. confirmed_for ms m x \<and> input = releaseInput m x) \<or> (\<exists>a b. l_basis input = ReleaseByAdministrator a b)"
    and e: "e \<in> set (map_values (encumbrances (snd (releaseEncumbrance sha now cx input st))))"
  shows "evidenced ms e"
proof (cases "fst (releaseEncumbrance sha now cx input st)")
  case (Inl err)
  with e ev releaseEncumbrance_failed [of sha now cx input st err] show ?thesis by (metis prod.collapse)
next
  case (Inr e')
  then obtain st' where ret: "releaseEncumbrance sha now cx input st = (Inr e', st')" by (metis prod.collapse)
  show ?thesis
  proof (rule releaseEncumbrance_writes [OF wf ret])
    assume "st' = st"
    with e ev ret show ?thesis by simp
  next
    fix o1 at
    assume get: "map_get (encumbrances st) (l_encumbranceId input) = Some o1" and ten: "e_tenantId o1 = l_tenantId input"
      and act: "e_status o1 = EsActive" and strict: "isStrictUtcTimestamp at"
      and e': "e' = seal_encumbrance sha ((applyReleaseBasis (l_basis input)
         (o1\<lparr>e_status := EsReleased, e_releasedAt := Some at\<rparr>))\<lparr>e_updatedAt := at\<rparr>)"
      and st': "st' = put_encumbrance_in st e'"
    have ok: "encumbrance_ok sha (l_encumbranceId input) o1"
      using wf get map_all_get by (fastforce simp: store_wf_def)
    have at: "e_releasedAt e' = Some (case l_releasedAt input of None \<Rightarrow> now | Some y \<Rightarrow> y)"
      by (rule releaseEncumbrance_instant [OF wf ret get act])
    have id: "e_id o1 = l_encumbranceId input" using ok by (simp add: encumbrance_ok_def)
    have "evidenced ms e'"
      using basis
    proof (elim disjE exE conjE)
      fix m x assume b: "confirmed_for ms m x" and i: "input = releaseInput m x"
      have "e_releaseExecutionRef e' = Some (x_id x)" "e_releaseMandateRef e' = Some (m_id m)"
        "e_releaseAction e' = Some ENTERPRISE_RELEASE_ENCUMBRANCE_CAPABILITY"
        "e_id e' = m_encumbranceRef m" "e_tenantId e' = m_organizationId m"
        using id ten by (simp_all add: e' i releaseInput_def seal_encumbrance_def)
      with b at show ?thesis unfolding evidenced_def confirmed_for_def
        by (intro allI impI exI [of _ "m_id m"] exI [of _ x]) (simp add: i releaseInput_def)
    next
      fix a b assume "l_basis input = ReleaseByAdministrator a b"
      with ok act have "e_releaseExecutionRef e' = None" by (simp add: e' seal_encumbrance_def encumbrance_ok_def)
      then show ?thesis by (simp add: evidenced_def)
    qed
    moreover have "e \<in> set (map_values (encumbrances (put_encumbrance_in st e')))" using e ret st' by simp
    ultimately show ?thesis using evidenced_put [OF ev] by blast
  qed
qed

lemma encumber_evidenced:
  assumes wf: "store_wf sha st" and ev: "\<And>e. e \<in> set (map_values (encumbrances st)) \<Longrightarrow> evidenced ms e"
    and e: "e \<in> set (map_values (encumbrances (snd (recordEncumbrance sha now cx input st))))"
  shows "evidenced ms e"
proof (cases "\<exists>e. fst (recordEncumbrance sha now cx input st) = Inr (Encumbered e False)")
  case False
  then have "snd (recordEncumbrance sha now cx input st) = st"
    by (intro encumber_unchanged [OF wf prod.collapse [symmetric]]) auto
  with e ev show ?thesis by simp
next
  case True
  then obtain e1 st' where ret: "recordEncumbrance sha now cx input st = (Inr (Encumbered e1 False), st')"
    by (metis prod.collapse)
  from encumber_new [OF wf refl ret] have
    e1: "\<exists>sur. e1 = seal_encumbrance sha (recordedEncumbrance sha input now sur)" and
    wf1: "store_wf sha (put_encumbrance_in st e1)" and
    st': "st' = put_encumbrance_in st e1 \<or> (\<exists>es ids. st' = snd (handOff sha es now ids (put_encumbrance_in st e1)))"
    by metis+
  have "e_releaseExecutionRef e1 = None" using e1 by (auto simp: seal_encumbrance_def recordedEncumbrance_def)
  then have "evidenced ms e1" by (simp add: evidenced_def)
  moreover have "encumbrances (snd (handOff sha es now ids (put_encumbrance_in st e1))) = encumbrances (put_encumbrance_in st e1)" for es ids
    using handOff_relaxes [OF wf1, of now es now ids] by (simp add: relaxes_def)
  then have "e \<in> set (map_values (encumbrances (put_encumbrance_in st e1)))" using st' e ret by auto
  ultimately show ?thesis using evidenced_put [OF ev] by blast
qed

lemma authority_call_evidenced:
  assumes wf: "store_wf sha st" and ev: "\<And>e. e \<in> set (map_values (encumbrances st)) \<Longrightarrow> evidenced ms e"
    and c: "\<not> ends_by_execution c" and e: "e \<in> set (map_values (encumbrances (run_call sha c st)))"
  shows "evidenced ms e"
proof (cases c)
  case (CallReleaseEncumbrance now cx input)
  with c obtain a b where "l_basis input = ReleaseByAdministrator a b"
    by (cases "l_basis input") simp_all
  with release_evidenced [OF wf ev] e show ?thesis by (simp add: CallReleaseEncumbrance) blast
next
  case (CallEncumber now cx input)
  with e encumber_evidenced [OF wf ev] show ?thesis by simp
qed (use ev e wf in \<open>simp_all add: close_store_def bootstrap_keeps(2) apply_encumbrances releaseReservation_encumbrances acquire_encumbrances\<close>)

lemma release_inv_wf: "release_inv sha s \<Longrightarrow> release_wf (rs_mandates s)"
  by (simp add: release_inv_def)

lemma release_step_inv: "release_step sha s s' \<Longrightarrow> release_inv sha s \<Longrightarrow> release_inv sha s'"
proof (induction rule: release_step.induct)
  case (load cx mid s m)
  then have "mandate_of (rs_mandates s) mid m" and "m_id m = mid"
    by (auto simp: release_inv_def getMandate_def rbind_def requireVisibleMandate_def requireMandate_def mandate_of_def
        dest: release_wf_id [unfolded mandate_of_def] split: sum.split_asm option.split_asm if_split_asm)
  with load.prems show ?case by (auto simp: release_inv_def)
next
  case (observe m s cx x)
  then obtain m' where "mandate_of (rs_mandates s) (m_id m) m'" "same_mandate m m'" by (auto simp: release_inv_def)
  with observe confirmed_backed show ?case by (auto simp: release_inv_def)
next
  case (attempted now cx r s res ms')
  have wf: "release_wf (rs_mandates s)" using attempted by (simp add: release_inv_def)
  have ms': "ms' = snd (recordExecution now cx r (rs_mandates s))" "res = fst (recordExecution now cx r (rs_mandates s))"
    by (simp_all add: attempted)
  have inv: "release_inv sha (s\<lparr>rs_mandates := ms'\<rparr>)"
    unfolding ms' by (rule release_inv_mandates [OF attempted.prems recordExecution_wf [OF wf] recordExecution_grows [OF wf]])
  have "confirmed_for ms' m x" if "res = Inr (m, x)" "x_outcome x = ConfirmedSuccess" for m x
    using wf ms'(1)
  proof (cases rule: record_view)
    case (recorded m0 y m0')
    with that ms' have "y = x" "m0' = m" by auto
    with recorded(14) recorded(9,10) that(2) same_mandate_fields [OF recorded(4)] show ?thesis
      by (auto simp: confirmed_for_def execution_ok_def)
  qed (use that ms' in simp)
  with inv show ?case by (auto simp: release_inv_def split: sum.split)
next
  case (terminalize m x s now cx)
  then have b: "confirmed_for (rs_mandates s) m x" and wf: "store_wf sha (rs_authority s)"
    and ev: "\<And>e. e \<in> set (map_values (encumbrances (rs_authority s))) \<Longrightarrow> evidenced (rs_mandates s) e"
    by (auto simp: release_inv_def)
  have st: "snd (terminalize sha now cx m x (rs_authority s)) = snd (releaseEncumbrance sha now cx (releaseInput m x) (rs_authority s))"
    by (simp add: terminalize_def split: prod.split)
  show ?case
    unfolding st
  proof (rule release_inv_authority [OF terminalize.prems releaseEncumbrance_wf [OF wf]])
    fix e assume "e \<in> set (map_values (encumbrances (snd (releaseEncumbrance sha now cx (releaseInput m x) (rs_authority s)))))"
    with b show "evidenced (rs_mandates s) e" by (intro release_evidenced [OF wf ev]) blast+
  qed
next
  case (authority c s)
  then show ?case
    by (intro release_inv_authority) (auto simp: release_inv_def intro: run_call_wf authority_call_evidenced)
qed (auto intro!: release_inv_mandates issueMandate_wf issueMandate_grows revokeMandate_wf revokeMandate_grows
    close_mandates_wf dest: release_inv_wf)

lemma release_reachable_inv: "(release_step sha)\<^sup>*\<^sup>* release_start s \<Longrightarrow> release_inv sha s"
  by (induction rule: rtranclp_induct) (auto intro: release_inv_start release_step_inv)

end
