(* ===== verification/ReleaseProtocol.thy ===== *)
theory ReleaseProtocol
  imports ReleaseMachine
begin

text \<open>
  The service against the machine: every call of the release service is a run of the machine,
  recovery finishes what confirmed evidence justifies, and a reply that is not a confirmation of
  the constraint frees nothing.
\<close>

section \<open>The service runs on the machine\<close>

text \<open>A run that leaves the two stores as given; what calls hold in hand is not compared.\<close>

definition release_run :: "(string \<Rightarrow> string) \<Rightarrow> release_system \<Rightarrow> release_store \<Rightarrow> auth_store \<Rightarrow> bool" where
  "release_run sha s ms st \<longleftrightarrow> (\<exists>s'. (release_step sha)\<^sup>*\<^sup>* s s' \<and> rs_mandates s' = ms \<and> rs_authority s' = st)"

lemma release_run_refl: "release_run sha s (rs_mandates s) (rs_authority s)"
  unfolding release_run_def by blast

lemma release_run_step: "release_step sha s s' \<Longrightarrow> release_run sha s' ms st \<Longrightarrow> release_run sha s ms st"
  unfolding release_run_def by (blast intro: converse_rtranclp_into_rtranclp)

lemma release_run_one:
  "release_step sha s s' \<Longrightarrow> rs_mandates s' = ms \<Longrightarrow> rs_authority s' = st \<Longrightarrow> release_run sha s ms st"
  unfolding release_run_def by blast

lemma from_release_Inr [simp]: "from_release r = Inr p \<longleftrightarrow> r = Inr p"
  by (cases r) simp_all

lemma from_release_pair [simp]:
  "fst (case rec of (res, ms1) \<Rightarrow> (from_release res, ms1)) = from_release (fst rec)"
  "snd (case rec of (res, ms1) \<Rightarrow> (from_release res, ms1)) = snd rec"
  by (simp_all split: prod.split)

lemma finish_run:
  assumes p: "(m, c) \<in> rs_pending s"
  shows "release_run sha s (rs_mandates s) (snd (finishConfirmedRelease sha anow cx m c (rs_authority s)))"
proof -
  let ?t = "snd (terminalize sha anow cx m c (rs_authority s))"
  have "snd (finishConfirmedRelease sha anow cx m c (rs_authority s)) \<in> {rs_authority s, ?t}"
    by (auto simp: finishConfirmedRelease_def attempt_def split: sum.split option.split prod.split)
  then show ?thesis
    using release_run_refl release_run_one [OF release_step.terminalize [OF p, of sha anow cx]] by auto
qed

lemma terminalize_run:
  assumes "(m, x) \<in> rs_pending s"
  shows "release_run sha s (rs_mandates s) (snd (terminalize sha anow cx m x (rs_authority s)))"
  using release_run_one [OF release_step.terminalize [OF assms, of sha anow cx]] by simp

lemma observed_finish_run:
  assumes m: "getMandate cx mid (rs_mandates s) = Inr m"
    and c: "getConfirmedExecution cx (m_id m) (rs_mandates s) = Inr (Some c)"
  shows "release_run sha s (rs_mandates s) (snd (finishConfirmedRelease sha anow cx m c (rs_authority s)))"
proof -
  let ?s1 = "s\<lparr>rs_seen := insert m (rs_seen s)\<rparr>"
  let ?s2 = "?s1\<lparr>rs_pending := insert (m, c) (rs_pending ?s1)\<rparr>"
  have "release_step sha s ?s1" by (rule release_step.load [OF m])
  moreover have "release_step sha ?s1 ?s2" by (rule release_step.observe [of m _ cx]) (simp_all add: c)
  ultimately show ?thesis using finish_run [of m c ?s2 sha anow cx] by (auto intro: release_run_step)
qed

lemma recover_runs:
  assumes "recoverEncumbranceRelease sha anow cx mid (rs_mandates s, rs_authority s) = (res, ms', st')"
  shows "release_run sha s ms' st'"
proof (cases "\<exists>m c. getMandate cx mid (rs_mandates s) = Inr m \<and> getConfirmedExecution cx (m_id m) (rs_mandates s) = Inr (Some c)")
  case True
  then obtain m c where m: "getMandate cx mid (rs_mandates s) = Inr m"
    and c: "getConfirmedExecution cx (m_id m) (rs_mandates s) = Inr (Some c)" by blast
  have "ms' = rs_mandates s" "st' = snd (finishConfirmedRelease sha anow cx m c (rs_authority s))"
    using assms m c by (auto simp: recoverEncumbranceRelease_def attempt_def split: prod.split_asm)
  then show ?thesis using observed_finish_run [OF m c] by simp
next
  case False
  then have "ms' = rs_mandates s" "st' = rs_authority s"
    using assms by (auto simp: recoverEncumbranceRelease_def attempt_def split: sum.split_asm option.split_asm)
  then show ?thesis using release_run_refl by simp
qed

lemma recordAttempt_record:
  "snd (recordAttempt mnow cx ps m xid at co out ms) = ms \<and> (\<forall>p. fst (recordAttempt mnow cx ps m xid at co out ms) \<noteq> Inr p) \<or>
   (\<exists>i. snd (recordAttempt mnow cx ps m xid at co out ms) = snd (recordExecution mnow cx i ms) \<and>
     (\<forall>p. fst (recordAttempt mnow cx ps m xid at co out ms) = Inr p \<longrightarrow> fst (recordExecution mnow cx i ms) = Inr p))"
proof (cases out)
  case (ExecutorConfirmed reported confirmedAt ref)
  show ?thesis
  proof (cases "reported = m_encumbranceRef m")
    case True
    show ?thesis
      by (cases "requireStrictUtcEncumbranceReleaseTimestamp confirmedAt")
        (auto simp: recordAttempt_def ExecutorConfirmed True attempt_def)
  next
    case False
    then show ?thesis
      by (intro disjI2 exI [of _ "mismatchInput ps m xid at co reported"])
        (auto simp: recordAttempt_def ExecutorConfirmed split: prod.splits sum.splits)
  qed
qed (intro disjI2 exI [of _ "attemptInput ps m xid at co out"], simp add: recordAttempt_def)+

lemma afterRecord_run:
  assumes "x_outcome x = ConfirmedSuccess \<Longrightarrow> (m, x) \<in> rs_pending s"
  shows "release_run sha s (rs_mandates s) (snd (afterRecord sha anow ar cx m0 m x (rs_authority s)))"
proof -
  have "snd (afterRecord sha anow ar cx m0 m x (rs_authority s)) = rs_authority s \<or>
      x_outcome x = ConfirmedSuccess \<and>
      snd (afterRecord sha anow ar cx m0 m x (rs_authority s)) = snd (terminalize sha anow cx m x (rs_authority s))"
    by (auto simp: afterRecord_def attempt_def split: sum.split option.split prod.split)
  then show ?thesis using release_run_refl terminalize_run assms by metis
qed

lemma recordAttempt_run:
  assumes ret: "recordAttempt mnow cx ps m xid at co out (rs_mandates s) = (r, ms')"
  obtains s' where "release_step sha s s'" "rs_mandates s' = ms'" "rs_authority s' = rs_authority s"
    "\<And>m x. r = Inr (m, x) \<Longrightarrow> x_outcome x = ConfirmedSuccess \<Longrightarrow> (m, x) \<in> rs_pending s'"
  | "ms' = rs_mandates s" "\<And>p. r \<noteq> Inr p"
proof -
  from recordAttempt_record [of mnow cx ps m xid at co out "rs_mandates s"] ret
  consider "ms' = rs_mandates s" "\<And>p. r \<noteq> Inr p"
    | i where "ms' = snd (recordExecution mnow cx i (rs_mandates s))"
      "\<And>p. r = Inr p \<Longrightarrow> fst (recordExecution mnow cx i (rs_mandates s)) = Inr p"
    by auto
  then show thesis
  proof cases
    case 1
    then show thesis by (rule that(2))
  next
    case (2 i)
    show thesis
      by (rule that(1), rule release_step.attempted [where now = mnow and cx = cx and r = i and s = s, OF prod.collapse [symmetric]])
        (auto simp: 2)
  qed
qed

text \<open>What an execution does to the stores: nothing, a replayed finish, or an attempt and what follows it.\<close>

lemma execute_cases:
  assumes ret: "executeEncumbranceRelease sha now mnow anow nid ps executor ar cx i (ms, st) = (res, ms', st')"
  obtains (idle) "ms' = ms" "st' = st" "\<And>out. res \<noteq> Inr out"
    | (finish) m c where "getMandate cx (z_mandateId i) ms = Inr m" "m_status m = MsExecuted" "getConfirmedExecution cx (m_id m) ms = Inr (Some c)"
      "ms' = ms" "st' = snd (finishConfirmedRelease sha anow cx m c st)"
    | (tried) m xid at co q r where "getMandate cx (z_mandateId i) ms = Inr m"
      "startExecution sha cx m at co st = Inr q"
      "recordAttempt mnow cx ps m xid at co (settledOutcome (executor q)) ms = (r, ms')"
      "st' = (case r of Inl _ \<Rightarrow> st | Inr (m', x) \<Rightarrow> snd (afterRecord sha anow ar cx m m' x st))"
      "res = (case r of Inl e \<Rightarrow> Inl e | Inr (m', x) \<Rightarrow> fst (afterRecord sha anow ar cx m m' x st))"
proof (cases "getMandate cx (z_mandateId i) ms")
  case (Inl e)
  with ret that(1) show ?thesis by (auto simp: executeEncumbranceRelease_def attempt_def)
next
  case (Inr m)
  define at where "at = (case z_attemptedAt i of None \<Rightarrow> now | Some a \<Rightarrow> a)"
  define co where "co = (case z_correlationId i of None \<Rightarrow> m_correlationId m | Some c \<Rightarrow> c)"
  define xid where "xid = (case z_executionId i of None \<Rightarrow> nid ''encumbrance-release-execution'' | Some i \<Rightarrow> i)"
  define conf where "conf = (if m_status m = MsExecuted then from_release (getConfirmedExecution cx (m_id m) ms) else Inr None)"
  note run = ret [unfolded executeEncumbranceRelease_def prod.case Inr attempt_def from_release.simps sum.case
      at_def [symmetric] co_def [symmetric] xid_def [symmetric] conf_def [symmetric]]
  show ?thesis
  proof (cases "requireStrictUtcEncumbranceReleaseTimestamp at")
    case (Inl e)
    with run that(1) show ?thesis by auto
  next
    case at: (Inr at')
    then have at': "at' = at" by (simp add: requireStrictUtcEncumbranceReleaseTimestamp_def split: if_split_asm)
    show ?thesis
    proof (cases conf)
      case (Inl e)
      with run at that(1) show ?thesis by auto
    next
      case conf: (Inr found)
      show ?thesis
      proof (cases found)
        case (Some c)
        with conf have "m_status m = MsExecuted" "getConfirmedExecution cx (m_id m) ms = Inr (Some c)"
          by (simp_all add: conf_def split: if_split_asm)
        with run at conf Some that(2) [OF Inr] show ?thesis by (simp split: prod.split_asm)
      next
        case None
        show ?thesis
        proof (cases "startExecution sha cx m at' co st")
          case (Inl e)
          with run at conf None that(1) show ?thesis by (auto simp: Let_def)
        next
          case q: (Inr q)
          obtain r ms1 where ra: "recordAttempt mnow cx ps m xid at' co (settledOutcome (executor q)) ms = (r, ms1)"
            by (cases "recordAttempt mnow cx ps m xid at' co (settledOutcome (executor q)) ms")
          from run at conf None q ra have "ms' = ms1"
            "st' = (case r of Inl _ \<Rightarrow> st | Inr (m', x) \<Rightarrow> snd (afterRecord sha anow ar cx m m' x st))"
            "res = (case r of Inl e \<Rightarrow> Inl e | Inr (m', x) \<Rightarrow> fst (afterRecord sha anow ar cx m m' x st))"
            by (auto simp: Let_def split: sum.splits prod.splits)
          with ra q that(3) [OF Inr] show ?thesis by simp
        qed
      qed
    qed
  qed
qed

lemma execute_runs:
  assumes ret: "executeEncumbranceRelease sha now mnow anow nid ps executor ar cx i (rs_mandates s, rs_authority s) = (res, ms', st')"
  shows "release_run sha s ms' st'"
  using ret
proof (cases rule: execute_cases)
  case idle
  then show ?thesis using release_run_refl by simp
next
  case (finish m c)
  then show ?thesis using observed_finish_run by simp
next
  case (tried m xid at co q r)
  show ?thesis
  proof (rule recordAttempt_run [OF tried(3), of sha])
    fix s' assume s': "release_step sha s s'" "rs_mandates s' = ms'" "rs_authority s' = rs_authority s"
      "\<And>m x. r = Inr (m, x) \<Longrightarrow> x_outcome x = ConfirmedSuccess \<Longrightarrow> (m, x) \<in> rs_pending s'"
    show ?thesis
    proof (cases r)
      case (Inl e)
      with s' tried show ?thesis by (intro release_run_one [OF s'(1)]) simp_all
    next
      case (Inr p)
      obtain m' x where p: "p = (m', x)" by (cases p)
      have "release_run sha s' ms' st'"
        using afterRecord_run [of x m' s' sha anow ar cx m] s' by (simp add: tried(4) Inr p)
      with s'(1) show ?thesis by (rule release_run_step)
    qed
  next
    assume "ms' = rs_mandates s" "\<And>p. r \<noteq> Inr p"
    then show ?thesis using release_run_refl tried(4) by (cases r) (simp, blast)
  qed
qed

lemma request_runs:
  assumes "requestEncumbranceRelease sha now mnow nid evaluate ae ar cx org i (rs_authority s) (rs_mandates s) = (res, ms')"
  shows "release_run sha s ms' (rs_authority s)"
proof -
  have "ms' = rs_mandates s \<or> (\<exists>j. ms' = snd (issueMandate mnow cx j (rs_mandates s)))"
    using assms by (auto simp: requestEncumbranceRelease_def attempt_def
      split: sum.split_asm option.split_asm append_answer.split_asm prod.split_asm if_split_asm) (metis snd_conv)+
  then show ?thesis using release_run_refl release_run_one [OF release_step.issue] by auto
qed

lemma revoke_runs:
  assumes "revokeReleaseMandate now nid cx i (rs_mandates s) = (res, ms')"
  shows "release_run sha s ms' (rs_authority s)"
proof -
  have "ms' = rs_mandates s \<or> (\<exists>j. ms' = snd (revokeMandate cx j (rs_mandates s)))"
    using assms by (auto simp: revokeReleaseMandate_def attempt_def intro: sym [THEN arg_cong [where f = snd]] split: sum.split_asm) (metis snd_conv)
  then show ?thesis using release_run_refl release_run_one [OF release_step.revoke] by auto
qed

section \<open>Recovery\<close>

text \<open>A caller the mandate store shows a mandate to has access to its organization's authority.\<close>

lemma getMandate_access:
  assumes "getMandate cx mid ms = Inr m"
  shows "mandate_of ms mid m" "requireAuthorityAccessToOrganization cx (m_organizationId m) = Inr ()"
    "getMandate cx mid ms = Inr m" "getConfirmedExecution cx mid ms =
      Inr (find (\<lambda>x. x_outcome x = ConfirmedSuccess) (executionsOf ms (m_id m)))"
  using assms
  by (auto simp: getMandate_def getConfirmedExecution_def rbind_def requireVisibleMandate_def requireMandate_def
      mandate_of_def requireEncumbranceReleaseTenantScope_def canAccessEncumbranceReleaseOrganization_def
      requireAuthorityAccess_Inr split: sum.split_asm option.split_asm if_split_asm)

text \<open>The confirmed execution of a mandate is the one the store reads back.\<close>

lemma getConfirmedExecution_found:
  assumes wf: "release_wf ms" and m: "getMandate cx mid ms = Inr m"
    and x: "x \<in> set (executionsOf ms mid)" "x_outcome x = ConfirmedSuccess"
  shows "getConfirmedExecution cx (m_id m) ms = Inr (Some x)" "m_id m = mid" "m_encumbranceRef m = x_encumbranceRef x"
    "m_organizationId m = x_organizationId x" "m_status m = MsExecuted" "m_executionRef m = Some (x_id x)"
proof -
  note acc = getMandate_access [OF m]
  show id: "m_id m = mid" by (rule release_wf_id [OF wf acc(1)])
  from release_wf_execution [OF wf x(1)] acc(1) x(2)
  show "m_encumbranceRef m = x_encumbranceRef x" "m_organizationId m = x_organizationId x"
    "m_status m = MsExecuted" "m_executionRef m = Some (x_id x)"
    by (auto simp: execution_ok_def dest: mandate_of_fun)
  obtain y where y: "find (\<lambda>x. x_outcome x = ConfirmedSuccess) (executionsOf ms mid) = Some y"
    using x by (cases "find (\<lambda>x. x_outcome x = ConfirmedSuccess) (executionsOf ms mid)") (auto simp: find_None_iff_all)
  from find_SomeD [OF y] have "y = x" by (intro confirmed_once [OF wf _ _ x(1) refl x(2)]) auto
  with y acc(4) id show "getConfirmedExecution cx (m_id m) ms = Inr (Some x)" by simp
qed

text \<open>In a reachable system no other constraint carries the release execution.\<close>

lemma execution_unclaimed:
  assumes inv: "release_inv sha s" and x: "x \<in> set (executionsOf (rs_mandates s) mid)"
  shows "assertReleaseExecutionUnclaimed (rs_authority s) ten (x_id x) (x_encumbranceRef x) = Inr ()"
proof -
  have "e_id e = x_encumbranceRef x"
    if "e \<in> set (map_values (encumbrances (rs_authority s)))" "e_releaseExecutionRef e = Some (x_id x)" for e
  proof -
    from inv that have "evidenced (rs_mandates s) e" by (simp add: release_inv_def)
    with that(2) obtain mid' y where "y \<in> set (executionsOf (rs_mandates s) mid')" "x_id y = x_id x" "x_encumbranceRef y = e_id e"
      by (auto simp: evidenced_def)
    moreover from this have "y = x" using release_wf_unique [OF release_inv_wf [OF inv]] x by blast
    ultimately show ?thesis by simp
  qed
  then show ?thesis by (auto simp: assertReleaseExecutionUnclaimed_def list_ex_iff)
qed

definition ended :: "(string \<Rightarrow> string) \<Rightarrow> EncumbranceReleaseMandateRecord \<Rightarrow> EncumbranceReleaseExecutionRecord \<Rightarrow>
    GovernedAuthorityEncumbrance \<Rightarrow> GovernedAuthorityEncumbrance" where
  "ended sha m x e = (let at = (case x_confirmedAt x of None \<Rightarrow> x_attemptedAt x | Some c \<Rightarrow> c)
     in seal_encumbrance sha (e\<lparr>e_status := EsReleased, e_releasedAt := Some at,
          e_releaseBasis := Some RbGovernedExecution, e_releaseAction := Some ENTERPRISE_RELEASE_ENCUMBRANCE_CAPABILITY,
          e_releaseMandateRef := Some (m_id m), e_releaseExecutionRef := Some (x_id x), e_updatedAt := at\<rparr>))"

lemma terminalize_completes:
  assumes wf: "store_wf sha st" and acc: "requireAuthorityAccessToOrganization cx (m_organizationId m) = Inr ()"
    and e: "map_get (encumbrances st) (m_encumbranceRef m) = Some e" "e_tenantId e = m_organizationId m" "e_status e = EsActive"
    and un: "assertReleaseExecutionUnclaimed st (m_organizationId m) (x_id x) (e_id e) = Inr ()"
    and at: "isStrictUtcTimestamp (x_attemptedAt x)" "pred_option isStrictUtcTimestamp (x_confirmedAt x)"
    and ids: "m_id m \<noteq> []" "x_id x \<noteq> []"
  shows "terminalize sha anow cx m x st = (Inr (ended sha m x e), put_encumbrance_in st (ended sha m x e))"
proof -
  have int: "assertEncumbranceIntegrity sha e = Inr e"
    using wf e(1) map_all_get by (fastforce simp: store_wf_def encumbrance_ok_def encumbrance_seal.verify_intact)
  have basis: "assertEncumbranceReleaseBasisAcceptable (l_basis (releaseInput m x)) = Inr ()"
    using ids by (simp add: releaseInput_def assertEncumbranceReleaseBasisAcceptable_def governedActionReleasesEncumbrance_def
        GOVERNED_AUTHORITY_RELEASING_ACTIONS_def ENTERPRISE_RELEASE_ENCUMBRANCE_CAPABILITY_def)
  have st: "requireStrictUtcAuthorityTimestamp (case x_confirmedAt x of None \<Rightarrow> x_attemptedAt x | Some c \<Rightarrow> c) =
      Inr (case x_confirmedAt x of None \<Rightarrow> x_attemptedAt x | Some c \<Rightarrow> c)"
    using at by (cases "x_confirmedAt x") (simp_all add: requireStrictUtcAuthorityTimestamp_def)
  from acc basis e int un st show ?thesis
    by (simp add: terminalize_def releaseEncumbrance_def releaseInput_def putEncumbrance_eq Let_def ended_def)
qed

lemma ended_fields:
  "e_status (ended sha m x e) = EsReleased" "e_id (ended sha m x e) = e_id e"
  "e_tenantId (ended sha m x e) = e_tenantId e" "e_releaseExecutionRef (ended sha m x e) = Some (x_id x)"
  "e_releaseMandateRef (ended sha m x e) = Some (m_id m)"
  "e_releasedAt (ended sha m x e) = Some (case x_confirmedAt x of None \<Rightarrow> x_attemptedAt x | Some c \<Rightarrow> c)"
  "assertEncumbranceIntegrity sha (ended sha m x e) = Inr (ended sha m x e)"
  by (simp_all add: ended_def Let_def seal_encumbrance_def) (simp add: encumbrance_seal.verify_seal [unfolded seal_encumbrance_def])

lemma recover_completes:
  assumes inv: "release_inv sha s" and m: "getMandate cx mid (rs_mandates s) = Inr m"
    and x: "x \<in> set (executionsOf (rs_mandates s) mid)" "x_outcome x = ConfirmedSuccess"
    and e: "map_get (encumbrances (rs_authority s)) (x_encumbranceRef x) = Some e" "e_tenantId e = x_organizationId x"
      "e_status e = EsActive"
    and ids: "mid \<noteq> []" "x_id x \<noteq> []"
  shows "recoverEncumbranceRelease sha anow cx mid (rs_mandates s, rs_authority s) =
      (Inr (Some \<lparr>zo_mandate = m, zo_execution = x, zo_encumbrance = ended sha m x e, zo_terminalized = True\<rparr>),
       rs_mandates s, put_encumbrance_in (rs_authority s) (ended sha m x e))" (is "?first")
    and "recoverEncumbranceRelease sha anow' cx mid (rs_mandates s, put_encumbrance_in (rs_authority s) (ended sha m x e)) =
      (Inr (Some \<lparr>zo_mandate = m, zo_execution = x, zo_encumbrance = ended sha m x e, zo_terminalized = False\<rparr>),
       rs_mandates s, put_encumbrance_in (rs_authority s) (ended sha m x e))" (is "?second")
proof -
  have wf: "release_wf (rs_mandates s)" and swf: "store_wf sha (rs_authority s)" using inv by (simp_all add: release_inv_def)
  note c = getConfirmedExecution_found [OF wf m x]
  note acc = getMandate_access(2) [OF m]
  have ok: "execution_ok (rs_mandates s) mid x" by (rule release_wf_execution [OF wf x(1)])
  have eid: "e_id e = x_encumbranceRef x" and int: "assertEncumbranceIntegrity sha e = Inr e"
    using swf e(1) map_all_get by (fastforce simp: store_wf_def encumbrance_ok_def encumbrance_seal.verify_intact)+
  have get: "getEncumbrance sha cx (m_organizationId m) (m_encumbranceRef m) (rs_authority s) = Inr (Some e)"
    using acc e int by (simp add: getEncumbrance_def c(3,4))
  have "terminalize sha anow cx m x (rs_authority s) = (Inr (ended sha m x e), put_encumbrance_in (rs_authority s) (ended sha m x e))"
    using ok e ids by (intro terminalize_completes [OF swf acc])
      (simp_all add: c eid execution_unclaimed [OF inv x(1)] execution_ok_def)
  with m c(1) get e(3) show ?first
    by (simp add: recoverEncumbranceRelease_def finishConfirmedRelease_def attempt_def)
  have "getEncumbrance sha cx (m_organizationId m) (m_encumbranceRef m) (put_encumbrance_in (rs_authority s) (ended sha m x e)) =
      Inr (Some (ended sha m x e))"
    using acc e eid by (simp add: getEncumbrance_def c(3,4) put_encumbrance_in_def map_simps ended_fields)
  with m c(1) show ?second
    by (simp add: recoverEncumbranceRelease_def finishConfirmedRelease_def attempt_def ended_fields)
qed

section \<open>Replies that confirm nothing\<close>

text \<open>Only a confirmation of this very constraint leaves evidence of a release.\<close>

definition confirms :: "EncumbranceReleaseMandateRecord \<Rightarrow> EncumbranceReleaseExecutionOutcome \<Rightarrow> bool" where
  "confirms m out = (case out of ExecutorConfirmed reported _ _ \<Rightarrow> reported = m_encumbranceRef m | _ \<Rightarrow> False)"

lemma recordExecution_outcome:
  "fst (recordExecution mnow cx i ms) = Inr (m, x) \<Longrightarrow> x_outcome x = ix_outcome i"
  by (cases rule: record_cases [of mnow cx i ms]) auto

lemma recordExecution_kept:
  assumes "release_wf ms" and "ix_outcome i \<noteq> ConfirmedSuccess"
  shows "mandate_of (snd (recordExecution mnow cx i ms)) mid m = mandate_of ms mid m"
  using assms(1) refl [of "snd (recordExecution mnow cx i ms)"]
proof (cases rule: record_view)
  case (recorded m0 x m0')
  with assms(2) show ?thesis by (auto dest: mandate_of_fun)
qed simp

lemma recordAttempt_unconfirmed:
  assumes wf: "release_wf ms" and no: "\<not> confirms m out"
  shows "mandate_of (snd (recordAttempt mnow cx ps m xid at co out ms)) mid k = mandate_of ms mid k"
    and "fst (recordAttempt mnow cx ps m xid at co out ms) = Inr (m', x) \<Longrightarrow> x_outcome x \<noteq> ConfirmedSuccess"
proof -
  let ?R = "recordAttempt mnow cx ps m xid at co out ms"
  have "\<exists>i. ix_outcome i \<noteq> ConfirmedSuccess \<and> snd ?R = snd (recordExecution mnow cx i ms) \<and>
      (\<forall>p. fst ?R = Inr p \<longrightarrow> fst (recordExecution mnow cx i ms) = Inr p)"
  proof (cases out)
    case (ExecutorConfirmed reported c ref)
    with no show ?thesis
      by (intro exI [of _ "mismatchInput ps m xid at co reported"])
        (auto simp: recordAttempt_def confirms_def mismatchInput_def attemptInput_def Let_def split: prod.splits sum.splits)
  qed (intro exI [of _ "attemptInput ps m xid at co out"], simp add: recordAttempt_def attemptInput_def Let_def)+
  then obtain i where i: "ix_outcome i \<noteq> ConfirmedSuccess" "snd ?R = snd (recordExecution mnow cx i ms)"
    "\<And>p. fst ?R = Inr p \<Longrightarrow> fst (recordExecution mnow cx i ms) = Inr p" by blast
  show "mandate_of (snd ?R) mid k = mandate_of ms mid k" using recordExecution_kept [OF wf i(1)] i(2) by simp
  show "x_outcome x \<noteq> ConfirmedSuccess" if "fst ?R = Inr (m', x)"
    using i(1) recordExecution_outcome [OF i(3) [OF that]] by simp
qed

lemma afterRecord_unconfirmed:
  "x_outcome x \<noteq> ConfirmedSuccess \<Longrightarrow> snd (afterRecord sha anow ar cx m m' x st) = st \<and>
     (fst (afterRecord sha anow ar cx m m' x st) = Inr out \<longrightarrow> \<not> zo_terminalized out)"
  by (auto simp: afterRecord_def attempt_def split: sum.split option.split)

lemma execute_unconfirmed:
  assumes wf: "release_wf ms" and m: "getMandate cx (z_mandateId i) ms = Inr m" "m_status m \<noteq> MsExecuted"
    and no: "\<And>q. \<not> confirms m (settledOutcome (executor q))"
    and ret: "executeEncumbranceRelease sha now mnow anow nid ps executor ar cx i (ms, st) = (res, ms', st')"
  shows "st' = st" "mandate_of ms' mid k = mandate_of ms mid k" "res = Inr out \<Longrightarrow> \<not> zo_terminalized out"
proof (atomize (full), use ret in \<open>cases rule: execute_cases\<close>)
  case (tried m1 xid at co q r)
  then have m1: "m1 = m" using m by simp
  note none = recordAttempt_unconfirmed [OF wf no [of q], of mnow cx ps xid at co]
  have k: "mandate_of ms' mid k = mandate_of ms mid k" using none(1) [of mid k] tried(3) by (simp add: m1)
  show "st' = st \<and> mandate_of ms' mid k = mandate_of ms mid k \<and> (res = Inr out \<longrightarrow> \<not> zo_terminalized out)"
  proof (cases r)
    case (Inr p)
    obtain m' x where p: "p = (m', x)" by (cases p)
    with none(2) [of m' x] tried(3) have "x_outcome x \<noteq> ConfirmedSuccess" by (simp add: m1 Inr)
    from afterRecord_unconfirmed [OF this, of sha anow ar cx m1 m' st out] k show ?thesis
      using tried(4,5) by (simp add: Inr p)
  qed (use k tried in simp)
qed (use m in auto)

section \<open>What lasts\<close>

lemma release_step_grows: "release_step sha s s' \<Longrightarrow> release_inv sha s \<Longrightarrow> ms_grows (rs_mandates s) (rs_mandates s')"
proof (induction rule: release_step.induct)
  case (attempted now cx r s res ms')
  from recordExecution_grows [OF release_inv_wf [OF attempted.prems], of now cx r] show ?case
    by (simp add: attempted.hyps)
qed (auto dest!: release_inv_wf intro: issueMandate_grows revokeMandate_grows)

lemma release_run_grows:
  assumes "(release_step sha)\<^sup>*\<^sup>* s s'" and "release_inv sha s"
  shows "ms_grows (rs_mandates s) (rs_mandates s')"
proof -
  from assms have "ms_grows (rs_mandates s) (rs_mandates s') \<and> release_inv sha s'"
    by (induction rule: rtranclp_induct) (auto intro: release_step_inv ms_grows_trans release_step_grows)
  then show ?thesis ..
qed

lemma released_by_execution:
  assumes "store_wf sha st" and "map_get (encumbrances st) i = Some e" and "e_releaseBasis e = Some RbGovernedExecution"
  shows "e_id e = i \<and> e_status e = EsReleased \<and> (\<exists>xid. e_releaseExecutionRef e = Some xid)"
proof -
  have ok: "encumbrance_ok sha i e" using assms(1,2) map_all_get by (fastforce simp: store_wf_def)
  with assms(3) obtain b where "encumbranceReleaseReplayMatches e b" "e_status e = EsReleased"
    by (cases "e_status e") (auto simp: encumbrance_ok_def)
  with ok assms(3) show ?thesis
    by (cases b) (auto simp: encumbrance_ok_def encumbranceReleaseReplayMatches_def)
qed

end
