(* ===== verification/ReleaseScenario.thy ===== *)
theory ReleaseScenario
  imports ReleaseProtocol Scenario
begin

text \<open>
  A concrete release for the witnesses: the pledge of \<open>Scenario\<close> stands, its release is
  authorized, the executor confirms it, and the service crashes before it ends the constraint.
\<close>

definition pledge_id :: string where "pledge_id = ''governed-authority-encumbrance-0''"

definition authorize_release :: IssueEncumbranceReleaseMandateInput where
  "authorize_release = \<lparr>im_id = ''man-3'', im_organizationId = ''org'', im_resourceKind = ''asset'',
     im_resourceId = ''work-a'', im_resourceTenantId = None, im_encumbranceRef = pledge_id,
     im_requestRef = ''req-3'', im_requestedBy = ''ops'', im_decisionRef = ''dec-3'',
     im_evaluationRef = None, im_effectiveFrom = t1, im_expiresAt = t3, im_correlationId = ''c'',
     im_issuerRef = None, im_approvalRefs = None, im_obligationRefs = None, im_evidenceRefs = None,
     im_auditRefs = None\<rparr>"

definition release_mandate ::
  "EncumbranceReleaseMandateStatus \<Rightarrow> string option \<Rightarrow> EncumbranceReleaseMandateRecord" where
  "release_mandate status ref = \<lparr>m_id = ''man-3'', m_organizationId = ''org'', m_status = status,
     m_resourceKind = ''asset'', m_resourceId = ''work-a'', m_resourceTenantId = None,
     m_encumbranceRef = pledge_id, m_requestRef = ''req-3'', m_requestedBy = ''ops'',
     m_decisionRef = ''dec-3'', m_evaluationRef = None, m_effectiveFrom = t1, m_expiresAt = t3,
     m_correlationId = ''c'', m_issuerRef = None, m_approvalRefs = None, m_obligationRefs = None,
     m_evidenceRefs = None, m_auditRefs = None, m_executionRef = ref, m_createdAt = t1\<rparr>"

definition confirmation :: EncumbranceReleaseExecutionOutcome where
  "confirmation = ExecutorConfirmed pledge_id t2 (Some ''ref-1'')"

definition confirmed_release :: EncumbranceReleaseExecutionRecord where
  "confirmed_release = \<lparr>x_id = ''ex-3'', x_mandateId = ''man-3'', x_organizationId = ''org'',
     x_encumbranceRef = pledge_id, x_outcome = ConfirmedSuccess, x_providerSystem = ''bank'',
     x_attemptedAt = t2, x_confirmedAt = Some t2, x_providerReleaseReference = Some ''ref-1'',
     x_failureCode = None, x_failureReason = None, x_correlationId = ''c'', x_recordedAt = t2\<rparr>"

definition authorized_mandates :: release_store where
  "authorized_mandates = \<lparr>mandates = [(''man-3'', release_mandate MsActive None)],
     mandateIdByRequestRef = [(''req-3'', ''man-3'')], executions = [(''man-3'', [])],
     executionIds = [], revocations = [], closed = False\<rparr>"

definition spent_mandates :: release_store where
  "spent_mandates = authorized_mandates\<lparr>mandates := [(''man-3'', release_mandate MsExecuted (Some ''ex-3''))],
     executions := [(''man-3'', [confirmed_release])], executionIds := [''ex-3'']\<rparr>"

section \<open>The runs, evaluated\<close>

lemma authorize_run:
  "issueMandate t1 sys_cx authorize_release empty_release_store =
     (Inr (release_mandate MsActive None), authorized_mandates)"
  by code_simp

abbreviation bank_attempt :: RecordEncumbranceReleaseExecutionInput where
  "bank_attempt \<equiv> attemptInput ''bank'' (release_mandate MsActive None) ''ex-3'' t2 ''c'' confirmation"

lemma confirm_run:
  "recordExecution t2 sys_cx bank_attempt authorized_mandates =
     (Inr (release_mandate MsExecuted (Some ''ex-3''), confirmed_release), spent_mandates)"
  by code_simp

lemma terminalize_pledge_run:
  "terminalize zero_sha t2 sys_cx (release_mandate MsExecuted (Some ''ex-3'')) confirmed_release
     (pledged_store alice_pledge) = (Inr pledge_released, pledged_store pledge_released)"
  by code_simp

definition execute_release :: ExecuteEncumbranceReleaseRequest where
  "execute_release = \<lparr>z_mandateId = ''man-3'', z_executionId = Some ''ex-3'', z_attemptedAt = Some t2,
     z_correlationId = None\<rparr>"

section \<open>The machine's states\<close>

definition crashed :: release_system where
  "crashed = \<lparr>rs_mandates = spent_mandates, rs_authority = pledged_store alice_pledge, rs_seen = {},
     rs_pending = {(release_mandate MsExecuted (Some ''ex-3''), confirmed_release)}\<rparr>"

definition authorized :: release_system where
  "authorized = \<lparr>rs_mandates = authorized_mandates, rs_authority = pledged_store alice_pledge, rs_seen = {},
     rs_pending = {}\<rparr>"

lemma authorized_reachable: "(release_step zero_sha)\<^sup>*\<^sup>* release_start authorized"
proof -
  let ?b = "CallBootstrap t0 sys_cx (issue_alice (Proportional 10000))" and ?p = "CallEncumber t1 sys_cx pledge_alice"
  let ?s1 = "release_start\<lparr>rs_authority := run_call zero_sha ?b (rs_authority release_start)\<rparr>"
  let ?s2 = "?s1\<lparr>rs_authority := run_call zero_sha ?p (rs_authority ?s1)\<rparr>"
  let ?s3 = "?s2\<lparr>rs_mandates := snd (issueMandate t1 sys_cx authorize_release (rs_mandates ?s2))\<rparr>"
  have 1: "release_step zero_sha release_start ?s1" by (rule release_step.authority) simp
  have 2: "release_step zero_sha ?s1 ?s2" by (rule release_step.authority) simp
  have 3: "release_step zero_sha ?s2 ?s3" by (rule release_step.issue)
  have "(release_step zero_sha)\<^sup>*\<^sup>* release_start ?s3"
    by (rule converse_rtranclp_into_rtranclp [OF 1 converse_rtranclp_into_rtranclp [OF 2 r_into_rtranclp [of "release_step zero_sha", OF 3]]])
  moreover have "?s3 = authorized"
    by (simp add: release_start_def authorized_def authorize_run bootstrap_run pledge_run)
  ultimately show ?thesis by (rule back_subst [of "(release_step zero_sha)\<^sup>*\<^sup>* release_start"])
qed

lemma authorized_crashed: "release_step zero_sha authorized crashed"
  using release_step.attempted [of t2 sys_cx bank_attempt authorized _ _ zero_sha, unfolded authorized_def release_system.simps, OF confirm_run]
  by (simp add: authorized_def crashed_def confirmed_release_def)

lemma crashed_reachable: "(release_step zero_sha)\<^sup>*\<^sup>* release_start crashed"
  using authorized_reachable authorized_crashed by (rule rtranclp.rtrancl_into_rtrancl)

definition settled :: release_system where
  "settled = crashed\<lparr>rs_authority := pledged_store pledge_released\<rparr>"

lemma settled_reachable: "(release_step zero_sha)\<^sup>*\<^sup>* release_start settled"
proof -
  have "release_step zero_sha crashed (crashed\<lparr>rs_authority := snd (terminalize zero_sha t2 sys_cx
      (release_mandate MsExecuted (Some ''ex-3'')) confirmed_release (rs_authority crashed))\<rparr>)"
    by (rule release_step.terminalize) (simp add: crashed_def)
  also have "rs_authority crashed = pledged_store alice_pledge" by (simp add: crashed_def)
  finally have "release_step zero_sha crashed settled" by (simp only: terminalize_pledge_run settled_def snd_conv)
  with crashed_reachable show ?thesis by (rule rtranclp.rtrancl_into_rtrancl)
qed

end
