(* ===== verification/ModuleOrder.thy ===== *)
theory ModuleOrder
  imports Prelude
begin

text \<open>
  The order Enterprise modules are started in: the descriptors of
  \<open>src/src/enterprise/modules/enterprise-module.ts\<close> and the dependency graph of
  \<open>src/src/enterprise/registry/dependency-graph.ts\<close>, a topological sort that starts, among the
  modules whose dependencies are all placed, the one registered first, and that names a concrete
  cycle when there is no order. Both loops are recursive functions with their termination proofs.
\<close>

section \<open>Descriptors\<close>

record EnterpriseModuleDependency =
  dep_moduleId :: string
  dep_versionRange :: "string option"
  dep_optional :: "bool option"

datatype criticality = RequiredModule | OptionalModule

record EnterpriseModuleDescriptor =
  md_id :: string
  md_version :: string
  md_displayName :: "string option"
  md_description :: "string option"
  md_dependencies :: "EnterpriseModuleDependency list option"
  md_criticality :: criticality
  md_capabilities :: "string list option"

definition dependenciesOf :: "EnterpriseModuleDescriptor \<Rightarrow> EnterpriseModuleDependency list" where
  "dependenciesOf d = (case md_dependencies d of None \<Rightarrow> [] | Some ds \<Rightarrow> ds)"

section \<open>Versions\<close>

text \<open>\<open>v.split('.')[0]\<close>: a string always has a first part.\<close>

definition major :: "string \<Rightarrow> string" where
  "major v = takeWhile (\<lambda>c. c \<noteq> CHR ''.'') v"

definition isVersionCompatible :: "string option \<Rightarrow> string \<Rightarrow> bool" where
  "isVersionCompatible versionRange actualVersion =
     (case versionRange of
        None \<Rightarrow> True
      | Some r \<Rightarrow> if take 1 r = ''^'' then major (drop 1 r) = major actualVersion else r = actualVersion)"

section \<open>The graph\<close>

definition edgesFor :: "EnterpriseModuleDescriptor \<Rightarrow> string list \<Rightarrow> string list" where
  "edgesFor descriptor registeredIds =
     map dep_moduleId (filter (\<lambda>dep. dep_moduleId dep \<in> set registeredIds) (dependenciesOf descriptor))"

definition get_or :: "'v \<Rightarrow> ('k, 'v) js_map \<Rightarrow> 'k \<Rightarrow> 'v" where
  "get_or v m k = (case map_get m k of None \<Rightarrow> v | Some x \<Rightarrow> x)"

definition registrationIndex :: "EnterpriseModuleDescriptor list \<Rightarrow> (string, nat) js_map" where
  "registrationIndex ds = fold (\<lambda>(i, d) m. map_set m (md_id d) i) (enumerate 0 ds) []"

definition dependsOn :: "EnterpriseModuleDescriptor list \<Rightarrow> (string, string list) js_map" where
  "dependsOn ds = fold (\<lambda>d m. map_set m (md_id d) (edgesFor d (map fst (registrationIndex ds)))) ds []"

text \<open>The second pass: for each module, its count, and an entry with each dependency it has.\<close>

definition addDependent :: "string \<Rightarrow> string \<Rightarrow> (string, string list) js_map \<Rightarrow> (string, string list) js_map" where
  "addDependent i dep m = map_set m dep (get_or [] m dep @ [i])"

definition countModule ::
  "(string, string list) js_map \<Rightarrow> EnterpriseModuleDescriptor \<Rightarrow>
     (string, string list) js_map \<times> (string, int) js_map \<Rightarrow> (string, string list) js_map \<times> (string, int) js_map" where
  "countModule depends d s =
     (let deps = get_or [] depends (md_id d)
      in (fold (addDependent (md_id d)) deps (fst s), map_set (snd s) (md_id d) (int (length deps))))"

definition graph_counts ::
  "EnterpriseModuleDescriptor list \<Rightarrow> (string, string list) js_map \<times> (string, int) js_map" where
  "graph_counts ds = fold (countModule (dependsOn ds)) ds ([], [])"

section \<open>The order\<close>

text \<open>One placed dependency: every dependent's count goes down, and a module is ready at zero.\<close>

fun releaseDependents ::
  "string list \<Rightarrow> (string, int) js_map \<Rightarrow> string list \<Rightarrow> (string, int) js_map \<times> string list" where
  "releaseDependents [] remaining ready = (remaining, ready)"
| "releaseDependents (dependent # rest) remaining ready =
     (let left = get_or 0 remaining dependent - 1;
          remaining1 = map_set remaining dependent left
      in releaseDependents rest remaining1 (if left = 0 then ready @ [dependent] else ready))"

definition positive :: "(string, int) js_map \<Rightarrow> nat" where
  "positive m = length (filter (\<lambda>(k, n). n > 0) m)"

lemma positive_set:
  "positive (map_set m k (get_or 0 m k - 1)) + (if get_or 0 m k = 1 then 1 else 0) = positive m"
proof (induction m)
  case Nil
  then show ?case by (simp add: positive_def map_set_def get_or_def map_get_def)
next
  case (Cons p m)
  obtain j n where p: "p = (j, n)" by (cases p)
  show ?case
  proof (cases "j = k")
    case True
    then show ?thesis by (simp add: p positive_def map_set_def get_or_def map_get_def)
  next
    case False
    then have "get_or 0 (p # m) k = get_or 0 m k"
      "positive (map_set (p # m) k v) = (if n > 0 then 1 else 0) + positive (map_set m k v)"
      "positive (p # m) = (if n > 0 then 1 else 0) + positive m" for v
      by (simp_all add: p positive_def map_set_def get_or_def map_get_def)
    with Cons.IH show ?thesis by simp
  qed
qed

lemma releaseDependents_size:
  "length (snd (releaseDependents xs m r)) + positive (fst (releaseDependents xs m r)) = length r + positive m"
proof (induction xs m r rule: releaseDependents.induct)
  case (2 x xs m r)
  then show ?case using positive_set [of m x] by (simp add: Let_def split: if_splits)
qed simp

definition by_index :: "(string, nat) js_map \<Rightarrow> string list \<Rightarrow> string list" where
  "by_index index ready = sort_key (get_or 0 index) ready"

function order_loop ::
  "(string, nat) js_map \<Rightarrow> (string, string list) js_map \<Rightarrow> (string, int) js_map \<Rightarrow> string list \<Rightarrow>
     string list \<Rightarrow> string list" where
  "order_loop index dependents remaining ready order =
     (case by_index index ready of
        [] \<Rightarrow> order
      | next_id # rest \<Rightarrow>
          let (remaining1, ready1) = releaseDependents (get_or [] dependents next_id) remaining rest
          in order_loop index dependents remaining1 ready1 (order @ [next_id]))"
  by pat_completeness auto

termination
proof (relation "measure (\<lambda>(index, dependents, remaining, ready, order). length ready + positive remaining)", goal_cases)
  case (2 index dependents remaining ready order next_id rest x remaining1 ready1)
  have "length (by_index index ready) = length ready" by (simp add: by_index_def)
  with 2 releaseDependents_size [of "get_or [] dependents next_id" remaining rest] show ?case
    by (cases "releaseDependents (get_or [] dependents next_id) remaining rest") simp
qed simp

section \<open>Naming a cycle\<close>

record cycle_state =
  cs_stack :: "string list"
  cs_onStack :: "string set"
  cs_visited :: "string set"

definition push_id :: "string \<Rightarrow> cycle_state \<Rightarrow> cycle_state" where
  "push_id i s = \<lparr>cs_stack = cs_stack s @ [i], cs_onStack = insert i (cs_onStack s), cs_visited = insert i (cs_visited s)\<rparr>"

definition pop_id :: "string \<Rightarrow> cycle_state \<Rightarrow> cycle_state" where
  "pop_id i s = s\<lparr>cs_stack := butlast (cs_stack s), cs_onStack := cs_onStack s - {i}\<rparr>"

text \<open>
  The body of \<open>visit\<close> in each loop that calls it: over the dependencies of a module, where ids that
  are resolved are passed over, and over the unresolved ids themselves.
\<close>

function visit_all ::
  "string list \<Rightarrow> (string, string list) js_map \<Rightarrow> string list \<Rightarrow> cycle_state \<Rightarrow> string list option \<times> cycle_state" where
  "visit_all unresolved depends [] s = (None, s)"
| "visit_all unresolved depends (i # ids) s =
     (if i \<notin> set unresolved then visit_all unresolved depends ids s
      else if i \<in> cs_onStack s then (Some (dropWhile (\<lambda>x. x \<noteq> i) (cs_stack s) @ [i]), s)
      else if i \<in> cs_visited s then visit_all unresolved depends ids s
      else case visit_all unresolved depends (get_or [] depends i) (push_id i s) of
             (Some path, s1) \<Rightarrow> (Some path, s1)
           | (None, s1) \<Rightarrow> visit_all unresolved depends ids (pop_id i s1))"
  by pat_completeness auto

lemma visit_all_grows:
  "visit_all_dom (u, g, ids, s) \<Longrightarrow> cs_visited s \<subseteq> cs_visited (snd (visit_all u g ids s))"
proof (induction u g ids s rule: visit_all.pinduct)
  case (2 u g i ids s)
  then show ?case
    by (auto simp: visit_all.psimps push_id_def pop_id_def split: option.split prod.split) blast+
qed (simp add: visit_all.psimps)

termination visit_all
proof (relation "inv_image (finite_psubset <*lex*> less_than) (\<lambda>(u, g, ids, s). (set u - cs_visited s, length ids))", goal_cases)
  case 1
  show ?case by (intro wf_inv_image wf_lex_prod wf_finite_psubset wf_less_than)
next
  case (5 u g i ids s x y)
  then have "insert i (cs_visited s) \<subseteq> cs_visited y"
    using visit_all_grows [OF 5(6)] by (metis push_id_def cycle_state.select_convs(3) snd_conv)
  with 5 show ?case by (auto simp: pop_id_def finite_psubset_def)
qed (auto simp: finite_psubset_def push_id_def)

definition findCyclePath :: "string list \<Rightarrow> (string, string list) js_map \<Rightarrow> string list" where
  "findCyclePath unresolvedIds depends =
     (case fst (visit_all unresolvedIds depends unresolvedIds \<lparr>cs_stack = [], cs_onStack = {}, cs_visited = {}\<rparr>) of
        Some path \<Rightarrow> path
      | None \<Rightarrow> unresolvedIds)"

text \<open>The order, or the cycle the thrown error carries.\<close>

definition resolveTopologicalOrder :: "EnterpriseModuleDescriptor list \<Rightarrow> string list + string list" where
  "resolveTopologicalOrder descriptors =
     (let index = registrationIndex descriptors;
          (dependents, remaining) = graph_counts descriptors;
          ready = map md_id (filter (\<lambda>d. get_or 0 remaining (md_id d) = 0) descriptors);
          order = order_loop index dependents remaining ready []
      in if length order < length descriptors
         then Inl (findCyclePath (filter (\<lambda>i. i \<notin> set order) (map md_id descriptors)) (dependsOn descriptors))
         else Inr order)"

end
