(* ===== verification/ModuleRegistry.thy ===== *)
theory ModuleRegistry
  imports ModuleOrder
begin

text \<open>
  The module registry (\<open>src/src/enterprise/registry/enterprise-module-registry.ts\<close>), the state
  tables of \<open>lifecycle/lifecycle-state.ts\<close> and the errors of \<open>lifecycle/lifecycle-errors.ts\<close>.
  What a module does is not modelled: the registry keeps its descriptor.
\<close>

section \<open>States\<close>

datatype EnterpriseModuleState =
  MRegistered | MValidating | MInitializing | MReady | MDegraded | MFailed | MStopping | MStopped

datatype EnterpriseLifecycleState =
  HCreated | HValidating | HStarting | HReady | HDegraded | HFailed | HStopping | HStopped

fun module_transitions :: "EnterpriseModuleState \<Rightarrow> EnterpriseModuleState list" where
  "module_transitions MRegistered = [MValidating]"
| "module_transitions MValidating = [MInitializing, MFailed]"
| "module_transitions MInitializing = [MReady, MDegraded, MFailed]"
| "module_transitions MReady = [MStopping]"
| "module_transitions MDegraded = [MStopping]"
| "module_transitions MFailed = [MStopping, MStopped]"
| "module_transitions MStopping = [MStopped]"
| "module_transitions MStopped = []"

definition isValidModuleTransition :: "EnterpriseModuleState \<Rightarrow> EnterpriseModuleState \<Rightarrow> bool" where
  "isValidModuleTransition from_state to_state = (to_state \<in> set (module_transitions from_state))"

fun host_transitions :: "EnterpriseLifecycleState \<Rightarrow> EnterpriseLifecycleState list" where
  "host_transitions HCreated = [HValidating]"
| "host_transitions HValidating = [HStarting, HFailed]"
| "host_transitions HStarting = [HReady, HDegraded, HFailed]"
| "host_transitions HReady = [HStopping]"
| "host_transitions HDegraded = [HStopping]"
| "host_transitions HFailed = [HStopping, HStopped]"
| "host_transitions HStopping = [HStopped]"
| "host_transitions HStopped = []"

definition isValidHostTransition :: "EnterpriseLifecycleState \<Rightarrow> EnterpriseLifecycleState \<Rightarrow> bool" where
  "isValidHostTransition from_state to_state = (to_state \<in> set (host_transitions from_state))"

section \<open>Errors\<close>

datatype EnterpriseLifecycleError =
    ModuleRegistrationError string
  | ModuleDependencyError "string list"
  | ModuleCycleError "string list"
  | ModuleInitializationError string "string list" "string list"
  | ModuleStateError
  | ModuleShutdownError "string list"

section \<open>The registry\<close>

record registry =
  reg_modules :: "(string, EnterpriseModuleDescriptor) js_map"
  registrationOrder :: "string list"
  reg_states :: "(string, EnterpriseModuleState) js_map"
  frozen :: bool

definition empty_registry :: registry where
  "empty_registry = \<lparr>reg_modules = [], registrationOrder = [], reg_states = [], frozen = False\<rparr>"

definition register :: "EnterpriseModuleDescriptor \<Rightarrow> registry \<Rightarrow> (EnterpriseLifecycleError + unit) \<times> registry" where
  "register m r =
     (if frozen r
      then (Inl (ModuleRegistrationError
              (md_id m @ '' (registry is frozen -- registration is only permitted before startup)'')), r)
      else if map_get (reg_modules r) (md_id m) \<noteq> None then (Inl (ModuleRegistrationError (md_id m)), r)
      else (Inr (), r\<lparr>reg_modules := map_set (reg_modules r) (md_id m) m,
                       registrationOrder := registrationOrder r @ [md_id m],
                       reg_states := map_set (reg_states r) (md_id m) MRegistered\<rparr>))"

definition get_module :: "registry \<Rightarrow> string \<Rightarrow> EnterpriseModuleDescriptor option" where
  "get_module r moduleId = map_get (reg_modules r) moduleId"

text \<open>The descriptors in registration order; every registered id has one.\<close>

definition descriptors :: "registry \<Rightarrow> EnterpriseModuleDescriptor list" where
  "descriptors r = List.map_filter (get_module r) (registrationOrder r)"

definition list_modules :: "registry \<Rightarrow> (EnterpriseModuleDescriptor \<times> EnterpriseModuleState option) list" where
  "list_modules r = map (\<lambda>d. (d, map_get (reg_states r) (md_id d))) (descriptors r)"

definition quoted :: "string \<Rightarrow> string" where
  "quoted s = CHR 0x27 # s @ [CHR 0x27]"

definition dependencyErrors :: "registry \<Rightarrow> string \<Rightarrow> EnterpriseModuleDependency \<Rightarrow> string list" where
  "dependencyErrors r i dependency =
     (case map_get (reg_modules r) (dep_moduleId dependency) of
        None \<Rightarrow>
          if dep_optional dependency = Some True then []
          else [''Module '' @ quoted i @ '' requires missing dependency '' @ quoted (dep_moduleId dependency) @ ''.'']
      | Some dependencyModule \<Rightarrow>
          if isVersionCompatible (dep_versionRange dependency) (md_version dependencyModule) then []
          else [''Module '' @ quoted i @ '' requires '' @ quoted (dep_moduleId dependency) @ '' version '' @
                quoted (case dep_versionRange dependency of None \<Rightarrow> ''undefined'' | Some v \<Rightarrow> v) @
                '', but the registered version is '' @ quoted (md_version dependencyModule) @ ''.''])"

definition validate :: "registry \<Rightarrow> string list" where
  "validate r = concat (map (\<lambda>d. concat (map (dependencyErrors r (md_id d)) (dependenciesOf d))) (descriptors r))"

definition resolveInitializationOrder :: "registry \<Rightarrow> EnterpriseLifecycleError + string list" where
  "resolveInitializationOrder r =
     (case resolveTopologicalOrder (descriptors r) of
        Inl path \<Rightarrow> Inl (ModuleCycleError path)
      | Inr order \<Rightarrow> Inr order)"

definition freeze :: "registry \<Rightarrow> registry" where
  "freeze r = r\<lparr>frozen := True\<rparr>"

definition setState ::
  "string \<Rightarrow> EnterpriseModuleState \<Rightarrow> registry \<Rightarrow> (EnterpriseLifecycleError + unit) \<times> registry" where
  "setState moduleId state r =
     (case map_get (reg_states r) moduleId of
        None \<Rightarrow> (Inl ModuleStateError, r)
      | Some current \<Rightarrow>
          if \<not> isValidModuleTransition current state then (Inl ModuleStateError, r)
          else (Inr (), r\<lparr>reg_states := map_set (reg_states r) moduleId state\<rparr>))"

definition getState :: "string \<Rightarrow> registry \<Rightarrow> EnterpriseLifecycleError + EnterpriseModuleState" where
  "getState moduleId r =
     (case map_get (reg_states r) moduleId of None \<Rightarrow> Inl ModuleStateError | Some s \<Rightarrow> Inr s)"

record EnterpriseModuleSnapshot =
  sn_id :: string
  sn_version :: string
  sn_state :: "EnterpriseModuleState option"
  sn_required :: bool
  sn_dependencies :: "EnterpriseModuleDependency list"
  sn_capabilities :: "string list"

definition snapshot :: "registry \<Rightarrow> EnterpriseModuleSnapshot list" where
  "snapshot r = map (\<lambda>d. \<lparr>sn_id = md_id d, sn_version = md_version d,
       sn_state = map_get (reg_states r) (md_id d), sn_required = (md_criticality d = RequiredModule),
       sn_dependencies = dependenciesOf d,
       sn_capabilities = (case md_capabilities d of None \<Rightarrow> [] | Some cs \<Rightarrow> cs)\<rparr>) (descriptors r)"

section \<open>What registration keeps\<close>

definition registry_wf :: "registry \<Rightarrow> bool" where
  "registry_wf r \<longleftrightarrow> distinct (registrationOrder r) \<and>
     (\<forall>i. map_get (reg_modules r) i \<noteq> None \<longleftrightarrow> i \<in> set (registrationOrder r)) \<and>
     (\<forall>i d. map_get (reg_modules r) i = Some d \<longrightarrow> md_id d = i) \<and>
     (\<forall>i. map_get (reg_states r) i \<noteq> None \<longleftrightarrow> i \<in> set (registrationOrder r))"

lemma registry_wf_empty: "registry_wf empty_registry"
  by (simp add: registry_wf_def empty_registry_def)

lemma register_wf: "registry_wf r \<Longrightarrow> registry_wf (snd (register m r))"
  by (auto simp: register_def registry_wf_def map_simps)

lemma setState_wf: "registry_wf r \<Longrightarrow> registry_wf (snd (setState i s r))"
  by (auto simp: setState_def registry_wf_def map_simps split: option.split)

lemma registered_get:
  assumes "registry_wf r" and "i \<in> set (registrationOrder r)"
  obtains d where "map_get (reg_modules r) i = Some d" and "md_id d = i"
  using assms unfolding registry_wf_def by (cases "map_get (reg_modules r) i") blast+

lemma descriptors_ids: "registry_wf r \<Longrightarrow> map md_id (descriptors r) = registrationOrder r"
proof -
  assume wf: "registry_wf r"
  have "map md_id (List.map_filter (get_module r) xs) = xs" if "set xs \<subseteq> set (registrationOrder r)" for xs
    using that
  proof (induction xs)
    case (Cons i xs)
    then have "i \<in> set (registrationOrder r)" by simp
    with wf obtain d where "map_get (reg_modules r) i = Some d" "md_id d = i" by (rule registered_get)
    with Cons show ?case by (simp add: get_module_def)
  qed simp
  then show ?thesis by (simp add: descriptors_def)
qed

lemma registered_module:
  "registry_wf r \<Longrightarrow> i \<in> set (registrationOrder r) \<Longrightarrow> \<exists>d. get_module r i = Some d \<and> md_id d = i \<and> d \<in> set (descriptors r)"
proof -
  assume "registry_wf r" and i: "i \<in> set (registrationOrder r)"
  then obtain d where "map_get (reg_modules r) i = Some d" "md_id d = i" by (rule registered_get)
  with i show ?thesis
    by (intro exI [of _ d]) (force simp: get_module_def descriptors_def List.map_filter_def)
qed

end
