(* ===== verification/ModuleLifecycle.thy ===== *)
theory ModuleLifecycle
  imports ModuleRegistry
begin

text \<open>
  The lifecycle controller, \<open>src/src/enterprise/lifecycle/enterprise-lifecycle-controller.ts\<close>. Its
  two asynchronous functions are coroutines: what runs between two \<open>await\<close>s is one synchronous step,
  and the controller's state keeps what is awaited. A module's \<open>initialize\<close> or \<open>shutdown\<close> settles by
  returning or by rejecting (a timeout rejects); \<open>settle\<close> resumes the coroutine with the outcome.
  The events published are kept in order; the logger, the telemetry and the health checks are left out.
\<close>

section \<open>State\<close>

datatype lifecycle_event =
    StartupRequested
  | InitializationStarted string
  | ModuleReadyEvent string
  | ModuleFailedEvent string
  | ModuleDegradedEvent string
  | EnterpriseReady
  | StartupFailed string
  | ShutdownRequested
  | ModuleShutdownStarted string
  | ModuleStoppedEvent string
  | EnterpriseStopped

datatype promise = Pending | Resolved | Rejected EnterpriseLifecycleError

text \<open>What follows \<open>shutdownModules\<close>: the end of a failed start, or of a shutdown.\<close>

datatype after_stop = AfterFailedStart string | AfterShutdown

datatype awaiting =
    AwaitInit string "string list" bool
  | AwaitStop string "string list" "string list" after_stop

record controller =
  lc_registry :: registry
  hostState :: EnterpriseLifecycleState
  startupPromise :: "promise option"
  shutdownPromise :: "promise option"
  initializedOrder :: "string list"
  lc_await :: "awaiting option"
  lc_log :: "lifecycle_event list"

definition new_controller :: "registry \<Rightarrow> controller" where
  "new_controller r = \<lparr>lc_registry = r, hostState = HCreated, startupPromise = None, shutdownPromise = None,
     initializedOrder = [], lc_await = None, lc_log = []\<rparr>"

section \<open>Private functions\<close>

definition setHostState :: "EnterpriseLifecycleState \<Rightarrow> controller \<Rightarrow> (EnterpriseLifecycleError + unit) \<times> controller" where
  "setHostState next_state c =
     (if \<not> isValidHostTransition (hostState c) next_state then (Inl ModuleStateError, c)
      else (Inr (), c\<lparr>hostState := next_state\<rparr>))"

definition emit :: "lifecycle_event \<Rightarrow> controller \<Rightarrow> controller" where
  "emit e c = c\<lparr>lc_log := lc_log c @ [e]\<rparr>"

definition moduleState ::
  "string \<Rightarrow> EnterpriseModuleState \<Rightarrow> controller \<Rightarrow> (EnterpriseLifecycleError + unit) \<times> controller" where
  "moduleState i s c = (let (res, r) = setState i s (lc_registry c) in (res, c\<lparr>lc_registry := r\<rparr>))"

text \<open>A coroutine ends: its promise settles and nothing is awaited any more.\<close>

fun settle_promise :: "after_stop \<Rightarrow> promise \<Rightarrow> controller \<Rightarrow> controller" where
  "settle_promise (AfterFailedStart i) p c = c\<lparr>startupPromise := Some p, lc_await := None\<rparr>"
| "settle_promise AfterShutdown p c = c\<lparr>shutdownPromise := Some p, lc_await := None\<rparr>"

definition end_start :: "promise \<Rightarrow> controller \<Rightarrow> controller" where
  "end_start p c = c\<lparr>startupPromise := Some p, lc_await := None\<rparr>"

fun finish_stop :: "string list \<Rightarrow> after_stop \<Rightarrow> controller \<Rightarrow> controller" where
  "finish_stop failures (AfterFailedStart i) c =
     end_start (Rejected (ModuleInitializationError i (initializedOrder c) failures))
       (emit (StartupFailed i) (c\<lparr>hostState := HFailed\<rparr>))"
| "finish_stop failures AfterShutdown c =
     settle_promise AfterShutdown (if length failures > 0 then Rejected (ModuleShutdownError failures) else Resolved)
       (emit EnterpriseStopped (c\<lparr>hostState := HStopped\<rparr>))"

text \<open>The loop of \<open>shutdownModules\<close>, up to its next \<open>await\<close>.\<close>

fun stop_loop :: "string list \<Rightarrow> string list \<Rightarrow> after_stop \<Rightarrow> controller \<Rightarrow> controller" where
  "stop_loop [] failures k c = finish_stop failures k c"
| "stop_loop (moduleId # rest) failures k c =
     (case get_module (lc_registry c) moduleId of
        None \<Rightarrow> stop_loop rest failures k c
      | Some m \<Rightarrow>
          (case getState moduleId (lc_registry c) of
             Inl e \<Rightarrow> settle_promise k (Rejected e) c
           | Inr s \<Rightarrow>
               if s \<noteq> MReady \<and> s \<noteq> MDegraded \<and> s \<noteq> MFailed then stop_loop rest failures k c
               else
                 (case moduleState moduleId MStopping c of
                    (Inl e, c1) \<Rightarrow> settle_promise k (Rejected e) c1
                  | (Inr _, c1) \<Rightarrow>
                      (emit (ModuleShutdownStarted moduleId) c1)\<lparr>lc_await := Some (AwaitStop moduleId rest failures k)\<rparr>)))"

text \<open>The loop of \<open>doStart\<close> over the modules, up to its next \<open>await\<close>, and what follows it.\<close>

fun start_loop :: "string list \<Rightarrow> bool \<Rightarrow> controller \<Rightarrow> controller" where
  "start_loop [] anyOptionalDegraded c =
     (case setHostState (if anyOptionalDegraded then HDegraded else HReady) c of
        (Inl e, c1) \<Rightarrow> end_start (Rejected e) c1
      | (Inr _, c1) \<Rightarrow> end_start Resolved (emit EnterpriseReady c1))"
| "start_loop (moduleId # rest) anyOptionalDegraded c =
     (case get_module (lc_registry c) moduleId of
        None \<Rightarrow> start_loop rest anyOptionalDegraded c
      | Some m \<Rightarrow>
          (case moduleState moduleId MValidating c of
             (Inl e, c1) \<Rightarrow> end_start (Rejected e) c1
           | (Inr _, c1) \<Rightarrow>
               (case moduleState moduleId MInitializing c1 of
                  (Inl e, c2) \<Rightarrow> end_start (Rejected e) c2
                | (Inr _, c2) \<Rightarrow>
                    (emit (InitializationStarted moduleId) c2)
                      \<lparr>lc_await := Some (AwaitInit moduleId rest anyOptionalDegraded)\<rparr>)))"

text \<open>The \<open>catch\<close> of a module's initialization.\<close>

definition initializationFailed :: "string \<Rightarrow> string list \<Rightarrow> bool \<Rightarrow> controller \<Rightarrow> controller" where
  "initializationFailed moduleId rest anyOptionalDegraded c =
     (if map_option md_criticality (get_module (lc_registry c) moduleId) = Some RequiredModule then
        (case moduleState moduleId MFailed c of
           (Inl e, c1) \<Rightarrow> end_start (Rejected e) c1
         | (Inr _, c1) \<Rightarrow>
             stop_loop (rev (initializedOrder c1)) [] (AfterFailedStart moduleId) (emit (ModuleFailedEvent moduleId) c1))
      else
        (case moduleState moduleId MDegraded c of
           (Inl e, c1) \<Rightarrow> end_start (Rejected e) c1
         | (Inr _, c1) \<Rightarrow> start_loop rest True (emit (ModuleDegradedEvent moduleId) c1)))"

text \<open>The awaited promise settles: the coroutine runs on.\<close>

definition settle :: "bool \<Rightarrow> controller \<Rightarrow> controller" where
  "settle ok c =
     (case lc_await c of
        None \<Rightarrow> c
      | Some (AwaitInit moduleId rest anyOptionalDegraded) \<Rightarrow>
          if ok then
            (case moduleState moduleId MReady c of
               (Inl e, c1) \<Rightarrow> initializationFailed moduleId rest anyOptionalDegraded c1
             | (Inr _, c1) \<Rightarrow>
                 start_loop rest anyOptionalDegraded
                   (emit (ModuleReadyEvent moduleId) (c1\<lparr>initializedOrder := initializedOrder c1 @ [moduleId]\<rparr>)))
          else initializationFailed moduleId rest anyOptionalDegraded c
      | Some (AwaitStop moduleId rest failures k) \<Rightarrow>
          if ok then
            (case moduleState moduleId MStopped c of
               (Inl e, c1) \<Rightarrow> stop_loop rest (failures @ [moduleId]) k c1
             | (Inr _, c1) \<Rightarrow> stop_loop rest failures k (emit (ModuleStoppedEvent moduleId) c1))
          else stop_loop rest (failures @ [moduleId]) k c)"

section \<open>Starting and shutting down\<close>

definition doStart :: "controller \<Rightarrow> controller" where
  "doStart c =
     (if hostState c = HReady \<or> hostState c = HDegraded then end_start Resolved c
      else if hostState c = HStopping \<or> hostState c = HStopped \<or> hostState c = HFailed
        then end_start (Rejected ModuleStateError) c
      else
        (case setHostState HValidating c of
           (Inl e, c1) \<Rightarrow> end_start (Rejected e) c1
         | (Inr _, c1) \<Rightarrow>
             if validate (lc_registry c1) \<noteq> []
             then end_start (Rejected (ModuleDependencyError (validate (lc_registry c1)))) (c1\<lparr>hostState := HFailed\<rparr>)
             else
               (case resolveInitializationOrder (lc_registry c1) of
                  Inl e \<Rightarrow> end_start (Rejected e) c1
                | Inr order \<Rightarrow>
                    (case setHostState HStarting c1 of
                       (Inl e, c2) \<Rightarrow> end_start (Rejected e) c2
                     | (Inr _, c2) \<Rightarrow> start_loop order False (emit StartupRequested c2)))))"

text \<open>
  The \<open>await\<close> of \<open>shutdownModules\<close> itself takes one turn of the event loop after the last module;
  here what follows it is part of the step before, so with no module to stop the host is stopped when
  \<open>shutdown\<close> returns its promise, where the code stops it one turn later.
\<close>

definition doShutdown :: "controller \<Rightarrow> controller" where
  "doShutdown c =
     (if hostState c = HStopped then settle_promise AfterShutdown Resolved c
      else if hostState c = HCreated \<or> hostState c = HValidating
        then settle_promise AfterShutdown Resolved (c\<lparr>hostState := HStopped\<rparr>)
      else if hostState c = HFailed
        then settle_promise AfterShutdown Resolved (emit EnterpriseStopped (c\<lparr>hostState := HStopped\<rparr>))
      else
        (case setHostState HStopping c of
           (Inl e, c1) \<Rightarrow> c1\<lparr>shutdownPromise := Some (Rejected e)\<rparr>
         | (Inr _, c1) \<Rightarrow> stop_loop (rev (initializedOrder c1)) [] AfterShutdown (emit ShutdownRequested c1)))"

text \<open>The public calls, with the promise each returns.\<close>

definition start :: "controller \<Rightarrow> promise \<times> controller" where
  "start c =
     (if hostState c = HReady \<or> hostState c = HDegraded then (Resolved, c)
      else if hostState c = HStopping \<or> hostState c = HStopped \<or> hostState c = HFailed
        then (Rejected ModuleStateError, c)
      else let c1 = (if startupPromise c = None then doStart (c\<lparr>startupPromise := Some Pending\<rparr>) else c)
           in (the (startupPromise c1), c1))"

definition shutdown :: "controller \<Rightarrow> promise \<times> controller" where
  "shutdown c =
     (let c1 = (if shutdownPromise c = None then doShutdown (c\<lparr>shutdownPromise := Some Pending\<rparr>) else c)
      in (the (shutdownPromise c1), c1))"

definition isLive :: "controller \<Rightarrow> bool" where
  "isLive c = (hostState c \<noteq> HStopped)"

definition isReady :: "controller \<Rightarrow> bool" where
  "isReady c = (hostState c = HReady \<or> hostState c = HDegraded)"

section \<open>Runs\<close>

datatype host_event = CallStart | CallShutdown | Settle bool | CallRegister EnterpriseModuleDescriptor

fun run_event :: "host_event \<Rightarrow> controller \<Rightarrow> controller" where
  "run_event CallStart c = snd (start c)"
| "run_event CallShutdown c = snd (shutdown c)"
| "run_event (Settle ok) c = settle ok c"
| "run_event (CallRegister m) c = c\<lparr>lc_registry := snd (register m (lc_registry c))\<rparr>"

end
