(* ===== verification/ModuleOrderCorrect.thy ===== *)
theory ModuleOrderCorrect
  imports ModuleOrder
begin

text \<open>
  The module order is a topological order of the registered modules, the greedy one by
  registration, and exists exactly when there is no cycle; the cycle an error names is one.
\<close>

declare order_loop.simps [simp del] and visit_all.simps(2) [simp del]

section \<open>What the maps hold\<close>

lemma get_or_set [simp]: "get_or v (map_set m k x) k' = (if k' = k then x else get_or v m k')"
  by (simp add: get_or_def map_simps)

lemma map_keys_set: "map fst (map_set m k v) = (if k \<in> set (map fst m) then map fst m else map fst m @ [k])"
  by (induction m) (auto simp: map_set_def)

lemma fold_set_other:
  "k \<notin> f ` set xs \<Longrightarrow> get_or v (fold (\<lambda>x m. map_set m (f x) (g x)) xs m) k = get_or v m k"
  by (induction xs arbitrary: m) auto

lemma fold_set_at:
  "distinct (map f xs) \<Longrightarrow> x \<in> set xs \<Longrightarrow> get_or v (fold (\<lambda>x m. map_set m (f x) (g x)) xs m) (f x) = g x"
  by (induction xs arbitrary: m) (auto simp: fold_set_other)

lemma fold_set_keys:
  "set (map fst (fold (\<lambda>x m. map_set m (f x) (g x)) xs m)) = set (map fst m) \<union> f ` set xs"
proof (induction xs arbitrary: m)
  case (Cons x xs)
  have "set (map fst (map_set m (f x) (g x))) = insert (f x) (set (map fst m))"
    unfolding map_keys_set by auto
  with Cons show ?case by (simp del: set_map)
qed simp

text \<open>With distinct ids, the module of an id, its registered dependencies and its index.\<close>

definition module_ids :: "EnterpriseModuleDescriptor list \<Rightarrow> string list" where
  "module_ids ds = map md_id ds"

definition requires :: "EnterpriseModuleDescriptor list \<Rightarrow> string \<Rightarrow> string list" where
  "requires ds i = (case find (\<lambda>d. md_id d = i) ds of
     None \<Rightarrow> [] | Some d \<Rightarrow> filter (\<lambda>x. x \<in> set (module_ids ds)) (map dep_moduleId (dependenciesOf d)))"

definition position_of :: "string list \<Rightarrow> string \<Rightarrow> nat" where
  "position_of xs i = length (takeWhile (\<lambda>x. x \<noteq> i) xs)"

lemma registrationIndex_keys: "set (map fst (registrationIndex ds)) = set (module_ids ds)"
proof -
  have "registrationIndex ds = fold (\<lambda>x m. map_set m (md_id (snd x)) (fst x)) (enumerate 0 ds) []"
    unfolding registrationIndex_def by (intro fold_cong refl) (auto simp: split_beta)
  then show ?thesis
    using fold_set_keys [of "\<lambda>x. md_id (snd x)" fst "enumerate 0 ds" "[]"]
    by (simp add: module_ids_def) (metis image_image map_snd_enumerate set_map)
qed

lemma edgesFor_eq:
  "set ks = set (module_ids ds) \<Longrightarrow> edgesFor d ks = filter (\<lambda>x. x \<in> set (module_ids ds)) (map dep_moduleId (dependenciesOf d))"
  by (simp add: edgesFor_def filter_map comp_def)

lemma find_module: "distinct (module_ids ds) \<Longrightarrow> d \<in> set ds \<Longrightarrow> find (\<lambda>x. md_id x = md_id d) ds = Some d"
  by (induction ds) (auto simp: module_ids_def)

lemma find_no_module: "i \<notin> set (module_ids ds) \<Longrightarrow> find (\<lambda>x. md_id x = i) ds = None"
  by (auto simp: module_ids_def find_None_iff)

lemma dependsOn_get:
  assumes "distinct (module_ids ds)"
  shows "get_or [] (dependsOn ds) i = requires ds i"
proof (cases "i \<in> set (module_ids ds)")
  case True
  then obtain d where d: "d \<in> set ds" "i = md_id d" by (auto simp: module_ids_def)
  from fold_set_at [of md_id ds d "[]" "\<lambda>d. edgesFor d (map fst (registrationIndex ds))" "[]"] assms d
  show ?thesis
    by (simp add: dependsOn_def requires_def find_module edgesFor_eq [OF registrationIndex_keys] module_ids_def [symmetric])
next
  case False
  then have "get_or [] (dependsOn ds) i = get_or [] ([] :: (string, string list) js_map) i"
    unfolding dependsOn_def by (intro fold_set_other) (simp add: module_ids_def)
  with False show ?thesis by (simp add: requires_def find_no_module get_or_def)
qed

lemma registrationIndex_get:
  assumes "distinct (module_ids ds)" and "k < length ds"
  shows "get_or 0 (registrationIndex ds) (md_id (ds ! k)) = k"
proof -
  have eq: "registrationIndex ds = fold (\<lambda>x m. map_set m (md_id (snd x)) (fst x)) (enumerate 0 ds) []"
    unfolding registrationIndex_def by (intro fold_cong refl) (auto simp: split_beta)
  have d: "distinct (map (\<lambda>x. md_id (snd x)) (enumerate 0 ds))"
  proof -
    have "map (\<lambda>x. md_id (snd x)) (enumerate 0 ds) = map md_id (map snd (enumerate 0 ds))"
      unfolding map_map comp_def ..
    then show ?thesis using assms(1) by (simp only: map_snd_enumerate module_ids_def)
  qed
  have "(k, ds ! k) \<in> set (enumerate 0 ds)" using assms(2) by (auto simp: in_set_enumerate_eq)
  from fold_set_at [OF d this, of 0 fst "[]"] show ?thesis by (simp add: eq)
qed

section \<open>The counts\<close>

lemma fold_addDependent:
  "count_list (get_or [] (fold (addDependent i) deps m) x) j =
     count_list (get_or [] m x) j + (if j = i then count_list deps x else 0)"
  by (induction deps arbitrary: m) (auto simp: addDependent_def)

lemma graph_counts_remaining:
  "snd (fold (countModule g) ds s) = fold (\<lambda>d m. map_set m (md_id d) (int (length (get_or [] g (md_id d))))) ds (snd s)"
  by (induction ds arbitrary: s) (simp_all add: countModule_def Let_def)

lemma graph_counts_dependents:
  assumes "distinct (map md_id ds)"
  shows "count_list (get_or [] (fst (fold (countModule g) ds s)) x) j =
     count_list (get_or [] (fst s) x) j + (if j \<in> md_id ` set ds then count_list (get_or [] g j) x else 0)"
  using assms
proof (induction ds arbitrary: s)
  case (Cons d ds)
  then show ?case by (auto simp: countModule_def Let_def fold_addDependent)
qed simp

lemma requires_unknown: "i \<notin> set (module_ids ds) \<Longrightarrow> requires ds i = []"
  by (simp add: requires_def find_no_module)

lemma requires_registered: "set (requires ds i) \<subseteq> set (module_ids ds)"
  by (auto simp: requires_def split: option.splits)

lemma remaining_start:
  assumes "distinct (module_ids ds)"
  shows "get_or 0 (snd (graph_counts ds)) i = int (length (requires ds i))"
proof (cases "i \<in> set (module_ids ds)")
  case True
  then obtain d where d: "d \<in> set ds" "i = md_id d" by (auto simp: module_ids_def)
  from fold_set_at [of md_id ds d 0 "\<lambda>d. int (length (get_or [] (dependsOn ds) (md_id d)))" "[]"] d assms
  show ?thesis by (simp add: graph_counts_def graph_counts_remaining dependsOn_get module_ids_def [symmetric])
next
  case False
  then have "get_or 0 (snd (graph_counts ds)) i = get_or 0 ([] :: (string, int) js_map) i"
    unfolding graph_counts_def graph_counts_remaining by (subst fold_set_other) (auto simp: module_ids_def)
  with False show ?thesis by (simp add: requires_unknown get_or_def)
qed

lemma dependents_count:
  assumes "distinct (module_ids ds)"
  shows "count_list (get_or [] (fst (graph_counts ds)) x) i = count_list (requires ds i) x"
proof -
  have "count_list (get_or [] (fst (graph_counts ds)) x) i =
      (if i \<in> set (module_ids ds) then count_list (requires ds i) x else 0)"
    using graph_counts_dependents [of ds "dependsOn ds" "([], [])" x i] assms
    by (simp add: graph_counts_def dependsOn_get module_ids_def get_or_def [of _ "[]"] map_get_def)
  then show ?thesis by (simp add: requires_unknown)
qed

section \<open>One placed module\<close>

lemma releaseDependents_remaining:
  "get_or 0 (fst (releaseDependents xs m r)) i = get_or 0 m i - int (count_list xs i)"
  by (induction xs m r rule: releaseDependents.induct) (auto simp: Let_def)

text \<open>The modules that become ready are those whose count the placed module exhausts.\<close>

lemma releaseDependents_ready:
  assumes "\<And>i. i \<in> set xs \<Longrightarrow> get_or 0 m i \<ge> int (count_list xs i)"
  shows "\<exists>new. snd (releaseDependents xs m r) = r @ new \<and> distinct new \<and>
     set new = {i \<in> set xs. get_or 0 m i = int (count_list xs i)}"
  using assms
proof (induction xs m r rule: releaseDependents.induct)
  case (2 x xs m r)
  let ?m = "map_set m x (get_or 0 m x - 1)" and ?r = "if get_or 0 m x - 1 = 0 then r @ [x] else r"
  have pre: "get_or 0 ?m i \<ge> int (count_list xs i)" if "i \<in> set xs" for i
    using 2(2) [of i] that by (auto split: if_splits)
  from 2(1) [OF refl refl pre] obtain new where new: "snd (releaseDependents xs ?m ?r) = ?r @ new" "distinct new"
    "set new = {i \<in> set xs. get_or 0 ?m i = int (count_list xs i)}" by auto
  let ?Q = "\<lambda>i. get_or 0 m i = int (count_list (x # xs) i)"
  have Q: "get_or 0 ?m i = int (count_list xs i) \<longleftrightarrow> ?Q i" for i by auto
  have step: "snd (releaseDependents (x # xs) m r) = ?r @ new"
    using new(1) unfolding releaseDependents.simps Let_def .
  show ?case
  proof (cases "get_or 0 m x = 1")
    case True
    with 2(2) [of x] have "count_list xs x = 0" by simp
    then have "x \<notin> set xs" and "?Q x" using True by (simp_all add: count_list_0_iff)
    with True step new(2,3) Q show ?thesis by (intro exI [of _ "x # new"]) auto
  next
    case False
    then have "?Q x \<Longrightarrow> x \<in> set xs" using count_list_0_iff [of xs x] by (cases "x \<in> set xs") simp_all
    then have "set new = {i \<in> set (x # xs). ?Q i}" unfolding new(3) Q by auto
    with False step new(2) show ?thesis by (intro exI [of _ new]) simp
  qed
qed simp

section \<open>The greedy order\<close>

text \<open>
  The module placed next is, of those whose registered dependencies are all placed, the one
  registered first.
\<close>

abbreviation index_of :: "EnterpriseModuleDescriptor list \<Rightarrow> string \<Rightarrow> nat" where
  "index_of ds \<equiv> get_or 0 (registrationIndex ds)"

definition placeable :: "EnterpriseModuleDescriptor list \<Rightarrow> string set \<Rightarrow> string set" where
  "placeable ds placed = {i \<in> set (module_ids ds). i \<notin> placed \<and> set (requires ds i) \<subseteq> placed}"

definition next_module :: "EnterpriseModuleDescriptor list \<Rightarrow> string set \<Rightarrow> string \<Rightarrow> bool" where
  "next_module ds placed i \<longleftrightarrow> i \<in> placeable ds placed \<and> (\<forall>j \<in> placeable ds placed. index_of ds i \<le> index_of ds j)"

definition greedy_order :: "EnterpriseModuleDescriptor list \<Rightarrow> string list \<Rightarrow> bool" where
  "greedy_order ds order \<longleftrightarrow> (\<forall>k < length order. next_module ds (set (take k order)) (order ! k))"

lemma greedy_order_snoc: "greedy_order ds (order @ [i]) \<longleftrightarrow> greedy_order ds order \<and> next_module ds (set order) i"
  by (auto simp: greedy_order_def nth_append less_Suc_eq)

lemma greedy_order_Nil [simp]: "greedy_order ds []"
  by (simp add: greedy_order_def)

lemma greedy_member:
  "greedy_order ds order \<Longrightarrow> i \<in> set order \<Longrightarrow> i \<in> set (module_ids ds) \<and> set (requires ds i) \<subseteq> set order"
  by (induction order rule: rev_induct) (auto simp: greedy_order_snoc next_module_def placeable_def)

lemma greedy_distinct: "greedy_order ds order \<Longrightarrow> distinct order"
  by (induction order rule: rev_induct) (auto simp: greedy_order_snoc next_module_def placeable_def)

definition order_inv :: "EnterpriseModuleDescriptor list \<Rightarrow> (string, int) js_map \<Rightarrow> string list \<Rightarrow> string list \<Rightarrow> bool" where
  "order_inv ds remaining ready order \<longleftrightarrow> greedy_order ds order \<and> distinct ready \<and> set ready = placeable ds (set order) \<and>
     (\<forall>i. get_or 0 remaining i = int (length (filter (\<lambda>d. d \<notin> set order) (requires ds i))))"

lemma filter_snoc_count:
  "n \<notin> S \<Longrightarrow> length (filter (\<lambda>d. d \<notin> insert n S) xs) + count_list xs n = length (filter (\<lambda>d. d \<notin> S) xs)"
  by (induction xs) auto

lemma order_inv_step:
  assumes d: "distinct (module_ids ds)" and inv: "order_inv ds remaining ready order"
    and nxt: "by_index (registrationIndex ds) ready = n # rest"
    and rel: "releaseDependents (get_or [] (fst (graph_counts ds)) n) remaining rest = (remaining1, ready1)"
  shows "order_inv ds remaining1 ready1 (order @ [n])"
proof -
  let ?deps = "get_or [] (fst (graph_counts ds)) n"
  have g: "greedy_order ds order" and dr: "distinct ready" and ready: "set ready = placeable ds (set order)"
    and left: "\<And>i. get_or 0 remaining i = int (length (filter (\<lambda>d. d \<notin> set order) (requires ds i)))"
    using inv by (simp_all add: order_inv_def)
  have perm: "set ready = insert n (set rest)" "distinct (n # rest)"
    using dr nxt by (metis by_index_def set_sort list.set(2), metis by_index_def distinct_sort)
  have srt: "sorted (map (index_of ds) (n # rest))"
    using nxt by (metis by_index_def sorted_sort_key)
  have n: "n \<in> placeable ds (set order)" using ready perm by auto
  have nn: "next_module ds (set order) n"
    using n srt unfolding next_module_def ready [symmetric] perm(1) by auto
  have cnt: "count_list ?deps i = count_list (requires ds i) n" for i by (rule dependents_count [OF d])
  have split: "length (filter (\<lambda>d. d \<notin> set (order @ [n])) (requires ds i)) + count_list (requires ds i) n =
      length (filter (\<lambda>d. d \<notin> set order) (requires ds i))" for i
    using filter_snoc_count [of n "set order" "requires ds i"] n by (simp add: placeable_def)
  have mem: "i \<in> set ?deps \<longleftrightarrow> n \<in> set (requires ds i)" for i
    using cnt [of i] by (metis count_list_0_iff)
  have le: "get_or 0 remaining i \<ge> int (count_list ?deps i)" for i
    using split [of i] unfolding left cnt by linarith
  from releaseDependents_ready [OF le, of rest] rel obtain new where
    new: "ready1 = rest @ new" "distinct new" "set new = {i \<in> set ?deps. get_or 0 remaining i = int (count_list ?deps i)}"
    by auto
  have exhausted: "get_or 0 remaining i = int (count_list ?deps i) \<longleftrightarrow> set (requires ds i) \<subseteq> set (order @ [n])" for i
  proof -
    have "get_or 0 remaining i = int (count_list ?deps i) \<longleftrightarrow> length (filter (\<lambda>d. d \<notin> set (order @ [n])) (requires ds i)) = 0"
      unfolding left cnt split [of i, symmetric] by simp
    also have "\<dots> \<longleftrightarrow> set (requires ds i) \<subseteq> set (order @ [n])" by (auto simp: filter_empty_conv)
    finally show ?thesis .
  qed
  have rest: "i \<in> set rest \<longleftrightarrow> i \<noteq> n \<and> i \<in> placeable ds (set order)" for i using ready perm by auto
  have no: "n \<notin> set order" "set (requires ds n) \<subseteq> set order" using n by (auto simp: placeable_def)
  have set1: "set ready1 = placeable ds (set (order @ [n]))"
  proof (intro set_eqI iffI)
    fix i assume "i \<in> set ready1"
    then consider "i \<in> set rest" | "n \<in> set (requires ds i)" "set (requires ds i) \<subseteq> set (order @ [n])"
      using new(1,3) mem exhausted by auto
    then show "i \<in> placeable ds (set (order @ [n]))"
    proof cases
      case 1
      then show ?thesis by (auto simp: rest placeable_def)
    next
      case 2
      then have "i \<in> set (module_ids ds)"
        by (cases "i \<in> set (module_ids ds)") (simp_all add: requires_unknown)
      moreover have "i \<notin> set order" using greedy_member [OF g, of i] 2(1) no(1) by blast
      moreover have "i \<noteq> n" using 2(1) no by blast
      ultimately show ?thesis using 2(2) by (simp add: placeable_def)
    qed
  next
    fix i assume i: "i \<in> placeable ds (set (order @ [n]))"
    show "i \<in> set ready1"
    proof (cases "n \<in> set (requires ds i)")
      case True
      then show ?thesis using i new(1,3) mem exhausted [of i] by (auto simp: placeable_def)
    next
      case False
      with i have "i \<in> set rest" by (auto simp: rest placeable_def)
      then show ?thesis by (simp add: new(1))
    qed
  qed
  have "distinct ready1"
    using perm(2) new mem no rest by (auto simp: placeable_def)
  moreover have "get_or 0 remaining1 i = int (length (filter (\<lambda>d. d \<notin> set (order @ [n])) (requires ds i)))" for i
    using releaseDependents_remaining [of ?deps remaining rest i] rel split [of i] unfolding left cnt by simp
  ultimately show ?thesis using g nn set1 by (simp add: order_inv_def greedy_order_snoc)
qed

lemma order_loop_greedy:
  assumes "distinct (module_ids ds)" and "order_inv ds remaining ready order"
  shows "greedy_order ds (order_loop (registrationIndex ds) (fst (graph_counts ds)) remaining ready order) \<and>
    placeable ds (set (order_loop (registrationIndex ds) (fst (graph_counts ds)) remaining ready order)) = {}"
  using assms(2)
proof (induction "registrationIndex ds" "fst (graph_counts ds)" remaining ready order rule: order_loop.induct)
  case (1 remaining ready order)
  show ?case
  proof (cases "by_index (registrationIndex ds) ready")
    case Nil
    then have "ready = []" by (metis by_index_def length_0_conv length_sort)
    with 1(2) Nil show ?thesis by (subst (1 2) order_loop.simps) (simp add: order_inv_def)
  next
    case (Cons n rest)
    obtain remaining1 ready1 where r: "releaseDependents (get_or [] (fst (graph_counts ds)) n) remaining rest = (remaining1, ready1)"
      by (cases "releaseDependents (get_or [] (fst (graph_counts ds)) n) remaining rest")
    from 1(1) [OF Cons r [symmetric] refl] order_inv_step [OF assms(1) 1(2) Cons r] Cons r show ?thesis
      by (subst (1 2) order_loop.simps) simp
  qed
qed

section \<open>The cycle an error names\<close>

text \<open>A closed walk along dependencies: each module on it requires the next.\<close>

definition cycle_in :: "(string \<Rightarrow> string list) \<Rightarrow> string list \<Rightarrow> bool" where
  "cycle_in deps p \<longleftrightarrow> 2 \<le> length p \<and> hd p = last p \<and> successively (\<lambda>x y. y \<in> set (deps x)) p"

abbreviation walk :: "(string, string list) js_map \<Rightarrow> string list \<Rightarrow> bool" where
  "walk g \<equiv> successively (\<lambda>x y. y \<in> set (get_or [] g x))"

definition visit_ok :: "(string, string list) js_map \<Rightarrow> cycle_state \<Rightarrow> bool" where
  "visit_ok g s \<longleftrightarrow> walk g (cs_stack s) \<and> cs_onStack s = set (cs_stack s)"

lemma visit_all_simps:
  "i \<notin> set u \<Longrightarrow> visit_all u g (i # ids) s = visit_all u g ids s"
  "i \<in> set u \<Longrightarrow> i \<in> cs_onStack s \<Longrightarrow>
     visit_all u g (i # ids) s = (Some (dropWhile (\<lambda>x. x \<noteq> i) (cs_stack s) @ [i]), s)"
  "i \<in> set u \<Longrightarrow> i \<notin> cs_onStack s \<Longrightarrow> i \<in> cs_visited s \<Longrightarrow> visit_all u g (i # ids) s = visit_all u g ids s"
  "i \<in> set u \<Longrightarrow> i \<notin> cs_onStack s \<Longrightarrow> i \<notin> cs_visited s \<Longrightarrow> visit_all u g (i # ids) s =
     (case visit_all u g (get_or [] g i) (push_id i s) of
        (Some path, s1) \<Rightarrow> (Some path, s1) | (None, s1) \<Rightarrow> visit_all u g ids (pop_id i s1))"
  by (simp_all add: visit_all.simps(2))

lemma visit_induct [case_names empty pass found seen visit]:
  assumes "\<And>s. P [] s"
    and "\<And>i ids s. i \<notin> set u \<Longrightarrow> P ids s \<Longrightarrow> P (i # ids) s"
    and "\<And>i ids s. i \<in> set u \<Longrightarrow> i \<in> cs_onStack s \<Longrightarrow> P (i # ids) s"
    and "\<And>i ids s. i \<in> set u \<Longrightarrow> i \<notin> cs_onStack s \<Longrightarrow> i \<in> cs_visited s \<Longrightarrow> P ids s \<Longrightarrow> P (i # ids) s"
    and "\<And>i ids s. i \<in> set u \<Longrightarrow> i \<notin> cs_onStack s \<Longrightarrow> i \<notin> cs_visited s \<Longrightarrow> P (get_or [] g i) (push_id i s) \<Longrightarrow>
      (\<And>s1. visit_all u g (get_or [] g i) (push_id i s) = (None, s1) \<Longrightarrow> P ids (pop_id i s1)) \<Longrightarrow> P (i # ids) s"
  shows "P ids s"
  using assms
proof (induction u g ids s rule: visit_all.induct)
  case (2 u g i ids s)
  note prem = 2(5-9)
  consider "i \<notin> set u" | "i \<in> set u" "i \<in> cs_onStack s" | "i \<in> set u" "i \<notin> cs_onStack s" "i \<in> cs_visited s"
    | "i \<in> set u" "i \<notin> cs_onStack s" "i \<notin> cs_visited s" by blast
  then show ?case
  proof cases
    case 4
    have "P ids (pop_id i s1)" if "visit_all u g (get_or [] g i) (push_id i s) = (None, s1)" for s1
      using 4 that by (intro 2(4) [OF _ _ _ that [symmetric] refl prem]) simp_all
    moreover have "P (get_or [] g i) (push_id i s)" using 4 by (intro 2(3) [OF _ _ _ prem]) simp_all
    ultimately show ?thesis using prem(5) [OF 4] by blast
  qed (use prem 2(1,2) in blast)+
qed

lemma visit_restores:
  "visit_all u g ids s = (None, s') \<Longrightarrow> cs_onStack s = set (cs_stack s) \<Longrightarrow>
     cs_stack s' = cs_stack s \<and> cs_onStack s' = cs_onStack s"
proof (induction ids s arbitrary: s' rule: visit_induct [where u = u and g = g])
  case (visit i ids s)
  from visit(6) visit(1-3) obtain s1 where s1: "visit_all u g (get_or [] g i) (push_id i s) = (None, s1)"
    and s': "visit_all u g ids (pop_id i s1) = (None, s')"
    by (auto simp: visit_all_simps(4) split: prod.splits option.splits)
  have "cs_stack s1 = cs_stack s @ [i] \<and> cs_onStack s1 = insert i (cs_onStack s)"
    using visit(4) [OF s1] visit(7) by (simp add: push_id_def)
  then have "cs_stack (pop_id i s1) = cs_stack s" "cs_onStack (pop_id i s1) = cs_onStack s"
    using visit(2) by (auto simp: pop_id_def)
  with visit(5) [OF s1 s'] visit(7) show ?case by simp
next
  case (pass i ids s)
  then show ?case by (metis visit_all_simps(1))
next
  case (seen i ids s)
  then show ?case by (metis visit_all_simps(3))
next
  case (found i ids s)
  then show ?case by (simp add: visit_all_simps(2))
qed simp

lemma visit_cycle:
  assumes "visit_all u g ids s = (Some p, s')" and "visit_ok g s"
    and "cs_stack s \<noteq> [] \<Longrightarrow> set ids \<subseteq> set (get_or [] g (last (cs_stack s)))"
  shows "cycle_in (get_or [] g) p"
  using assms
proof (induction ids s arbitrary: s' rule: visit_induct [where u = u and g = g])
  case (found i ids s)
  have w: "walk g (cs_stack s)" and on: "i \<in> set (cs_stack s)" using found by (simp_all add: visit_ok_def)
  let ?d = "dropWhile (\<lambda>x. x \<noteq> i) (cs_stack s)"
  have p: "p = ?d @ [i]" using found(3) by (auto simp: visit_all_simps(2) [OF found(1,2)])
  have ne: "?d \<noteq> []" using on by (simp add: dropWhile_eq_Nil_conv)
  have h: "hd ?d = i" using hd_dropWhile [OF ne] by simp
  have "walk g ?d" using w successively_append_iff [of _ "takeWhile (\<lambda>x. x \<noteq> i) (cs_stack s)" ?d] by simp
  moreover have "last ?d = last (cs_stack s)" using ne by (metis last_appendR takeWhile_dropWhile_id)
  moreover have "cs_stack s \<noteq> []" using ne by auto
  ultimately have "walk g p" using found(5) ne by (auto simp: p successively_append_iff)
  with ne h show ?case by (cases ?d) (auto simp: p cycle_in_def)
next
  case (visit i ids s)
  have sub: "visit_ok g (push_id i s)"
    using visit(7,8) by (auto simp: visit_ok_def push_id_def successively_append_iff)
  show ?case
  proof (cases "visit_all u g (get_or [] g i) (push_id i s)")
    case (Pair r s1)
    show ?thesis
    proof (cases r)
      case (Some q)
      with Pair visit(6) visit(1-3) have "visit_all u g (get_or [] g i) (push_id i s) = (Some p, s1)" by (simp add: visit_all_simps)
      from visit(4) [OF this sub] show ?thesis by (simp add: push_id_def)
    next
      case None
      with Pair have s1: "visit_all u g (get_or [] g i) (push_id i s) = (None, s1)" by simp
      from visit_restores [OF s1] sub have "cs_stack s1 = cs_stack s @ [i] \<and> cs_onStack s1 = insert i (cs_onStack s)"
        by (simp add: visit_ok_def push_id_def)
      then have same: "cs_stack (pop_id i s1) = cs_stack s" "cs_onStack (pop_id i s1) = cs_onStack s"
        using visit(2) by (auto simp: pop_id_def)
      from s1 visit(6) visit(1-3) have "visit_all u g ids (pop_id i s1) = (Some p, s')" by (simp add: visit_all_simps)
      from visit(5) [OF s1 this] visit(7,8) same show ?thesis by (auto simp: visit_ok_def)
    qed
  qed
qed (auto simp: visit_all_simps)

text \<open>Where every unresolved module requires an unresolved one, the walk always closes.\<close>

lemma visit_finds:
  assumes "cs_visited s \<subseteq> cs_onStack s" and "\<exists>i \<in> set ids. i \<in> set u"
    and dead: "\<And>i. i \<in> set u \<Longrightarrow> \<exists>j \<in> set (get_or [] g i). j \<in> set u"
  shows "\<exists>p s'. visit_all u g ids s = (Some p, s')"
  using assms(1,2)
proof (induction ids s rule: visit_induct [where u = u and g = g])
  case (visit i ids s)
  then have "\<exists>p s'. visit_all u g (get_or [] g i) (push_id i s) = (Some p, s')"
    using dead by (intro visit(4)) (auto simp: push_id_def)
  with visit(1-3) show ?case by (auto simp: visit_all_simps)
qed (auto simp: visit_all_simps)

lemma findCyclePath_cycle:
  assumes "u \<noteq> []" and "\<And>i. i \<in> set u \<Longrightarrow> \<exists>j \<in> set (get_or [] g i). j \<in> set u"
  shows "cycle_in (get_or [] g) (findCyclePath u g)"
proof -
  let ?s = "\<lparr>cs_stack = [], cs_onStack = {}, cs_visited = {}\<rparr>"
  have "\<exists>i \<in> set u. i \<in> set u" using assms(1) by (cases u) auto
  then obtain p s' where p: "visit_all u g u ?s = (Some p, s')"
    using visit_finds [of ?s u u g] assms(2) by auto
  then have "cycle_in (get_or [] g) p" by (rule visit_cycle) (simp_all add: visit_ok_def)
  with p show ?thesis by (simp add: findCyclePath_def)
qed

section \<open>The result\<close>

definition kahn_order :: "EnterpriseModuleDescriptor list \<Rightarrow> string list" where
  "kahn_order ds = order_loop (registrationIndex ds) (fst (graph_counts ds)) (snd (graph_counts ds))
     (map md_id (filter (\<lambda>d. get_or 0 (snd (graph_counts ds)) (md_id d) = 0) ds)) []"

lemma resolve_kahn:
  "resolveTopologicalOrder ds =
     (if length (kahn_order ds) < length ds
      then Inl (findCyclePath (filter (\<lambda>i. i \<notin> set (kahn_order ds)) (module_ids ds)) (dependsOn ds))
      else Inr (kahn_order ds))"
  by (simp add: resolveTopologicalOrder_def kahn_order_def Let_def split_beta module_ids_def)

lemma order_inv_start:
  assumes d: "distinct (module_ids ds)"
  shows "order_inv ds (snd (graph_counts ds)) (map md_id (filter (\<lambda>d. get_or 0 (snd (graph_counts ds)) (md_id d) = 0) ds)) []"
  using d by (auto simp: order_inv_def remaining_start [OF d] placeable_def module_ids_def distinct_map inj_on_def)

lemma kahn_order_greedy:
  assumes d: "distinct (module_ids ds)"
  shows "greedy_order ds (kahn_order ds)" "placeable ds (set (kahn_order ds)) = {}"
  using order_loop_greedy [OF d order_inv_start [OF d]] by (simp_all add: kahn_order_def)

text \<open>Along a complete order requirements only point back, so no walk along them closes.\<close>

lemma greedy_no_cycle:
  assumes g: "greedy_order ds order" and all: "set order = set (module_ids ds)"
  shows "\<not> cycle_in (requires ds) p"
proof
  assume c: "cycle_in (requires ds) p"
  have less: "position_of order y < position_of order x" if y: "y \<in> set (requires ds x)" for x y
  proof -
    have "x \<in> set order" using y requires_unknown [of x ds] all by (cases "x \<in> set (module_ids ds)") auto
    then obtain k where k: "k < length order" "order ! k = x" by (auto simp: in_set_conv_nth)
    with g have "set (requires ds x) \<subseteq> set (take k order)" by (auto simp: greedy_order_def next_module_def placeable_def)
    with y have "y \<in> set (take k order)" by blast
    then obtain j where j: "j < k" "order ! j = y" by (auto simp: in_set_conv_nth)
    have pos: "position_of order (order ! n) = n" if "n < length order" for n
    proof -
      have "takeWhile (\<lambda>z. z \<noteq> order ! n) order = take n order"
        using that nth_eq_iff_index_eq [OF greedy_distinct [OF g]]
        by (intro takeWhile_eq_take_P_nth) simp_all
      with that show ?thesis by (simp add: position_of_def)
    qed
    from pos [of j] pos [of k] j k show ?thesis by simp
  qed
  have "position_of order (last q) < position_of order (hd q)"
    if "successively (\<lambda>x y. y \<in> set (requires ds x)) q" "2 \<le> length q" for q
    using that
  proof (induction "\<lambda>x y. y \<in> set (requires ds x)" q rule: successively.induct)
    case (3 x y xs)
    then show ?case using less [of y x] by (cases xs) fastforce+
  qed simp_all
  with c show False unfolding cycle_in_def by fastforce
qed

lemma resolve_order_correct:
  assumes d: "distinct (module_ids ds)"
  shows "case resolveTopologicalOrder ds of
      Inl p \<Rightarrow> cycle_in (requires ds) p
    | Inr order \<Rightarrow> greedy_order ds order \<and> set order = set (module_ids ds) \<and> (\<nexists>p. cycle_in (requires ds) p)"
proof (cases "length (kahn_order ds) < length ds")
  case True
  note g = kahn_order_greedy [OF d]
  let ?u = "filter (\<lambda>i. i \<notin> set (kahn_order ds)) (module_ids ds)"
  have "?u \<noteq> []"
  proof
    assume "?u = []"
    then have "set (module_ids ds) \<subseteq> set (kahn_order ds)" by (auto simp: filter_empty_conv)
    then have "length (module_ids ds) \<le> length (kahn_order ds)"
      using d by (metis card_mono List.finite_set distinct_card card_length le_trans)
    with True show False by (simp add: module_ids_def)
  qed
  moreover have "\<exists>j \<in> set (get_or [] (dependsOn ds) i). j \<in> set ?u" if "i \<in> set ?u" for i
    using that g(2) requires_registered [of ds i] by (auto simp: placeable_def dependsOn_get [OF d])
  ultimately have "cycle_in (get_or [] (dependsOn ds)) (findCyclePath ?u (dependsOn ds))" by (rule findCyclePath_cycle)
  moreover have "get_or [] (dependsOn ds) = requires ds" using dependsOn_get [OF d] by blast
  ultimately show ?thesis using True by (simp add: resolve_kahn)
next
  case False
  note g = kahn_order_greedy [OF d]
  have sub: "set (kahn_order ds) \<subseteq> set (module_ids ds)" using greedy_member [OF g(1)] by blast
  have "card (set (module_ids ds)) \<le> card (set (kahn_order ds))"
    using False distinct_card [OF d] distinct_card [OF greedy_distinct [OF g(1)]] by (simp add: module_ids_def)
  with sub have all: "set (kahn_order ds) = set (module_ids ds)" by (simp add: card_seteq)
  with False g(1) greedy_no_cycle [OF g(1) all] show ?thesis by (simp add: resolve_kahn)
qed

end
