(* ===== verification/LifecycleSpec.thy ===== *)
theory LifecycleSpec
  imports ModuleLifecycle ModuleOrderCorrect
begin

text \<open>
  What the lifecycle controller promises: an abstract life cycle whose state is only the modules'
  outcomes so far. Host state, log, promises and what is awaited are functions of it. The controller
  of \<open>ModuleLifecycle\<close> implements it (\<open>LifecycleRefinement\<close>).
\<close>

section \<open>Phases\<close>

text \<open>
  \<open>outs\<close> says of the first modules of the order whether their initialization succeeded, \<open>stops\<close> says
  the same of the shutdowns, in the order they are made.
\<close>

datatype phase =
    Idle
  | Unsatisfied
  | Cyclic
  | Booting "bool list"
  | Backing "bool list" "bool list"
  | Aborted "bool list" "bool list"
  | Running "bool list"
  | Closing "bool list" "bool list"
  | Closed phase

definition up_modules :: "string list \<Rightarrow> bool list \<Rightarrow> string list" where
  "up_modules order outs = map fst (filter snd (zip order outs))"

definition stop_order :: "string list \<Rightarrow> bool list \<Rightarrow> string list" where
  "stop_order order outs = rev (up_modules order outs)"

definition boot_pair :: "string \<times> bool \<Rightarrow> lifecycle_event list" where
  "boot_pair p = [InitializationStarted (fst p), if snd p then ModuleReadyEvent (fst p) else ModuleDegradedEvent (fst p)]"

definition boot_log :: "string list \<Rightarrow> bool list \<Rightarrow> lifecycle_event list" where
  "boot_log order outs = concat (map boot_pair (zip order outs))"

definition stop_pair :: "string \<times> bool \<Rightarrow> lifecycle_event list" where
  "stop_pair p = ModuleShutdownStarted (fst p) # (if snd p then [ModuleStoppedEvent (fst p)] else [])"

definition stop_log :: "string list \<Rightarrow> bool list \<Rightarrow> lifecycle_event list" where
  "stop_log xs stops = concat (map stop_pair (zip xs stops))"

text \<open>The modules whose shutdown failed.\<close>

definition stop_failures :: "string list \<Rightarrow> bool list \<Rightarrow> string list" where
  "stop_failures xs stops = map fst (filter (\<lambda>p. \<not> snd p) (zip xs stops))"

definition next_stop :: "string list \<Rightarrow> bool list \<Rightarrow> lifecycle_event list" where
  "next_stop xs stops = (if length stops < length xs then [ModuleShutdownStarted (xs ! length stops)] else [])"

fun aborted_log :: "string list \<Rightarrow> bool list \<Rightarrow> lifecycle_event list" where
  "aborted_log order outs =
     StartupRequested # boot_log order outs @
       [InitializationStarted (order ! length outs), ModuleFailedEvent (order ! length outs)]"

fun running_log :: "string list \<Rightarrow> bool list \<Rightarrow> lifecycle_event list" where
  "running_log order outs = StartupRequested # boot_log order outs @ [EnterpriseReady]"

fun phase_log :: "string list \<Rightarrow> phase \<Rightarrow> lifecycle_event list" where
  "phase_log order Idle = []"
| "phase_log order Unsatisfied = []"
| "phase_log order Cyclic = []"
| "phase_log order (Booting outs) =
     StartupRequested # boot_log order outs @ [InitializationStarted (order ! length outs)]"
| "phase_log order (Backing outs stops) =
     aborted_log order outs @ stop_log (stop_order order outs) stops @ next_stop (stop_order order outs) stops"
| "phase_log order (Aborted outs stops) =
     aborted_log order outs @ stop_log (stop_order order outs) stops @ [StartupFailed (order ! length outs)]"
| "phase_log order (Running outs) = running_log order outs"
| "phase_log order (Closing outs stops) =
     running_log order outs @ ShutdownRequested # stop_log (stop_order order outs) stops @
       next_stop (stop_order order outs) stops"
| "phase_log order (Closed ph) =
     (case ph of
        Closing outs stops \<Rightarrow>
          running_log order outs @ ShutdownRequested # stop_log (stop_order order outs) stops @ [EnterpriseStopped]
      | Unsatisfied \<Rightarrow> [EnterpriseStopped]
      | Aborted outs stops \<Rightarrow> phase_log order (Aborted outs stops) @ [EnterpriseStopped]
      | _ \<Rightarrow> [])"

section \<open>Steps\<close>

fun boot_next :: "string list \<Rightarrow> bool list \<Rightarrow> phase" where
  "boot_next order outs = (if length outs < length order then Booting outs else Running outs)"

fun back_next :: "string list \<Rightarrow> bool list \<Rightarrow> bool list \<Rightarrow> phase" where
  "back_next order outs stops =
     (if length stops < length (stop_order order outs) then Backing outs stops else Aborted outs stops)"

fun close_next :: "string list \<Rightarrow> bool list \<Rightarrow> bool list \<Rightarrow> phase" where
  "close_next order outs stops =
     (if length stops < length (stop_order order outs) then Closing outs stops else Closed (Closing outs stops))"

text \<open>
  The registry is fixed from here on; the second component says whether a shutdown was asked for
  while the host was starting. Its promise is kept, so no later call tries again.
\<close>

definition boot_order :: "registry \<Rightarrow> string list" where
  "boot_order r = (case resolveInitializationOrder r of Inl e \<Rightarrow> [] | Inr order \<Rightarrow> order)"

definition is_required :: "registry \<Rightarrow> string \<Rightarrow> bool" where
  "is_required r i \<longleftrightarrow> map_option md_criticality (get_module r i) = Some RequiredModule"

fun begin_phase :: "registry \<Rightarrow> phase" where
  "begin_phase r =
     (if validate r \<noteq> [] then Unsatisfied
      else case resolveInitializationOrder r of Inl e \<Rightarrow> Cyclic | Inr order \<Rightarrow> boot_next order [])"

fun close_phase :: "registry \<Rightarrow> phase \<Rightarrow> phase" where
  "close_phase r (Running outs) = close_next (boot_order r) outs []"
| "close_phase r (Closing outs stops) = Closing outs stops"
| "close_phase r (Closed ph) = Closed ph"
| "close_phase r ph = Closed ph"

fun is_starting :: "phase \<Rightarrow> bool" where
  "is_starting (Booting outs) = True"
| "is_starting (Backing outs stops) = True"
| "is_starting _ = False"

fun phase_step :: "registry \<Rightarrow> host_event \<Rightarrow> phase \<times> bool \<Rightarrow> phase \<times> bool" where
  "phase_step r (CallRegister m) (ph, jammed) = (ph, jammed)"
| "phase_step r CallStart (ph, jammed) = (if ph = Idle then begin_phase r else ph, jammed)"
| "phase_step r CallShutdown (ph, jammed) =
     (if is_starting ph then (ph, True) else if jammed then (ph, jammed) else (close_phase r ph, jammed))"
| "phase_step r (Settle ok) (Booting outs, jammed) =
     (if ok \<or> \<not> is_required r (boot_order r ! length outs) then boot_next (boot_order r) (outs @ [ok])
      else back_next (boot_order r) outs [], jammed)"
| "phase_step r (Settle ok) (Backing outs stops, jammed) = (back_next (boot_order r) outs (stops @ [ok]), jammed)"
| "phase_step r (Settle ok) (Closing outs stops, jammed) = (close_next (boot_order r) outs (stops @ [ok]), jammed)"
| "phase_step r (Settle ok) (ph, jammed) = (ph, jammed)"

definition life_cycle :: "registry \<Rightarrow> host_event list \<Rightarrow> phase \<times> bool" where
  "life_cycle r evs = fold (phase_step r) evs (Idle, False)"

end
