(* ===== verification/LifecycleRefinement.thy ===== *)
theory LifecycleRefinement
  imports LifecycleSpec
begin

text \<open>
  The lifecycle controller implements the abstract life cycle: every call and every settled await
  takes a controller that realises a phase to one that realises the next phase.
\<close>

section \<open>What a phase looks like in the controller\<close>

definition event_state :: "string \<Rightarrow> lifecycle_event \<Rightarrow> EnterpriseModuleState \<Rightarrow> EnterpriseModuleState" where
  "event_state i e s =
     (if e = InitializationStarted i then MInitializing else if e = ModuleReadyEvent i then MReady
      else if e = ModuleDegradedEvent i then MDegraded else if e = ModuleFailedEvent i then MFailed
      else if e = ModuleShutdownStarted i then MStopping else if e = ModuleStoppedEvent i then MStopped else s)"

text \<open>A module's state is what the last event about it says.\<close>

definition logged_state :: "string \<Rightarrow> lifecycle_event list \<Rightarrow> EnterpriseModuleState" where
  "logged_state i log = fold (event_state i) log MRegistered"

fun phase_host :: "phase \<Rightarrow> EnterpriseLifecycleState" where
  "phase_host Idle = HCreated"
| "phase_host Unsatisfied = HFailed"
| "phase_host Cyclic = HValidating"
| "phase_host (Booting outs) = HStarting"
| "phase_host (Backing outs stops) = HStarting"
| "phase_host (Aborted outs stops) = HFailed"
| "phase_host (Running outs) = (if False \<in> set outs then HDegraded else HReady)"
| "phase_host (Closing outs stops) = HStopping"
| "phase_host (Closed ph) = HStopped"

fun phase_outs :: "phase \<Rightarrow> bool list" where
  "phase_outs (Booting outs) = outs"
| "phase_outs (Backing outs stops) = outs"
| "phase_outs (Aborted outs stops) = outs"
| "phase_outs (Running outs) = outs"
| "phase_outs (Closing outs stops) = outs"
| "phase_outs (Closed ph) = phase_outs ph"
| "phase_outs _ = []"

definition await_stop :: "string list \<Rightarrow> bool list \<Rightarrow> after_stop \<Rightarrow> awaiting" where
  "await_stop xs stops k = AwaitStop (xs ! length stops) (drop (Suc (length stops)) xs) (stop_failures xs stops) k"

fun phase_await :: "string list \<Rightarrow> phase \<Rightarrow> awaiting option" where
  "phase_await order (Booting outs) =
     Some (AwaitInit (order ! length outs) (drop (Suc (length outs)) order) (False \<in> set outs))"
| "phase_await order (Backing outs stops) =
     Some (await_stop (stop_order order outs) stops (AfterFailedStart (order ! length outs)))"
| "phase_await order (Closing outs stops) = Some (await_stop (stop_order order outs) stops AfterShutdown)"
| "phase_await order _ = None"

fun phase_startup :: "registry \<Rightarrow> phase \<Rightarrow> promise option" where
  "phase_startup r Idle = None"
| "phase_startup r Unsatisfied = Some (Rejected (ModuleDependencyError (validate r)))"
| "phase_startup r Cyclic = (case resolveInitializationOrder r of Inl e \<Rightarrow> Some (Rejected e) | Inr order \<Rightarrow> None)"
| "phase_startup r (Booting outs) = Some Pending"
| "phase_startup r (Backing outs stops) = Some Pending"
| "phase_startup r (Aborted outs stops) =
     Some (Rejected (ModuleInitializationError (boot_order r ! length outs) (up_modules (boot_order r) outs)
       (stop_failures (stop_order (boot_order r) outs) stops)))"
| "phase_startup r (Running outs) = Some Resolved"
| "phase_startup r (Closing outs stops) = Some Resolved"
| "phase_startup r (Closed ph) = phase_startup r ph"

definition closed_promise :: "string list \<Rightarrow> promise" where
  "closed_promise failures = (if failures = [] then Resolved else Rejected (ModuleShutdownError failures))"

fun phase_shutdown :: "string list \<Rightarrow> phase \<Rightarrow> bool \<Rightarrow> promise option" where
  "phase_shutdown order (Closing outs stops) False = Some Pending"
| "phase_shutdown order (Closed ph) False =
     Some (case ph of Closing outs stops \<Rightarrow> closed_promise (stop_failures (stop_order order outs) stops) | _ \<Rightarrow> Resolved)"
| "phase_shutdown order ph jammed = (if jammed then Some (Rejected ModuleStateError) else None)"

fun phase_ok :: "registry \<Rightarrow> phase \<Rightarrow> bool" where
  "phase_ok r Idle = True"
| "phase_ok r Unsatisfied = (validate r \<noteq> [])"
| "phase_ok r Cyclic = (validate r = [] \<and> isl (resolveInitializationOrder r))"
| "phase_ok r (Booting outs) = (validate r = [] \<and> length outs < length (boot_order r))"
| "phase_ok r (Backing outs stops) =
     (validate r = [] \<and> length outs < length (boot_order r) \<and> length stops < length (stop_order (boot_order r) outs))"
| "phase_ok r (Aborted outs stops) =
     (validate r = [] \<and> length outs < length (boot_order r) \<and> length stops = length (stop_order (boot_order r) outs))"
| "phase_ok r (Running outs) =
     (validate r = [] \<and> \<not> isl (resolveInitializationOrder r) \<and> length outs = length (boot_order r))"
| "phase_ok r (Closing outs stops) =
     (validate r = [] \<and> \<not> isl (resolveInitializationOrder r) \<and> length outs = length (boot_order r) \<and> length stops < length (stop_order (boot_order r) outs))"
| "phase_ok r (Closed ph) =
     (case ph of
        Closing outs stops \<Rightarrow> validate r = [] \<and> \<not> isl (resolveInitializationOrder r) \<and>
          length outs = length (boot_order r) \<and> length stops = length (stop_order (boot_order r) outs)
      | Idle \<Rightarrow> True
      | Unsatisfied \<Rightarrow> phase_ok r ph
      | Cyclic \<Rightarrow> phase_ok r ph
      | Aborted outs stops \<Rightarrow> phase_ok r ph
      | _ \<Rightarrow> False)"

text \<open>A shutdown refused while starting leaves the host in one of these.\<close>

fun may_jam :: "phase \<Rightarrow> bool" where
  "may_jam (Booting outs) = True"
| "may_jam (Backing outs stops) = True"
| "may_jam (Aborted outs stops) = True"
| "may_jam (Running outs) = True"
| "may_jam _ = False"

text \<open>The controller a phase stands for, given the module states kept in the registry.\<close>

definition host_of :: "registry \<Rightarrow> phase \<Rightarrow> bool \<Rightarrow> (string, EnterpriseModuleState) js_map \<Rightarrow> controller" where
  "host_of r ph jammed states =
     \<lparr>lc_registry = r\<lparr>reg_states := states\<rparr>, hostState = phase_host ph, startupPromise = phase_startup r ph,
      shutdownPromise = phase_shutdown (boot_order r) ph jammed,
      initializedOrder = up_modules (boot_order r) (phase_outs ph),
      lc_await = phase_await (boot_order r) ph, lc_log = phase_log (boot_order r) ph\<rparr>"

definition states_ok :: "registry \<Rightarrow> lifecycle_event list \<Rightarrow> (string, EnterpriseModuleState) js_map \<Rightarrow> bool" where
  "states_ok r log states \<longleftrightarrow> (\<forall>i \<in> set (registrationOrder r). map_get states i = Some (logged_state i log))"

definition realises :: "registry \<Rightarrow> phase \<times> bool \<Rightarrow> controller \<Rightarrow> bool" where
  "realises r p c \<longleftrightarrow> phase_ok r (fst p) \<and> (snd p \<longrightarrow> may_jam (fst p)) \<and>
     (\<exists>states. c = host_of r (fst p) (snd p) states \<and> states_ok r (phase_log (boot_order r) (fst p)) states)"

section \<open>The modules' states follow the log\<close>

lemma logged_Nil [simp]: "logged_state i [] = MRegistered"
  by (simp add: logged_state_def)

lemma logged_snoc [simp]: "logged_state i (log @ [e]) = event_state i e (logged_state i log)"
  by (simp add: logged_state_def)

lemma event_other [simp]:
  "event_state i StartupRequested s = s" "event_state i EnterpriseReady s = s" "event_state i (StartupFailed j) s = s"
  "event_state i ShutdownRequested s = s" "event_state i EnterpriseStopped s = s"
  by (simp_all add: event_state_def)

lemma event_module [simp]:
  "event_state i (InitializationStarted j) s = (if j = i then MInitializing else s)"
  "event_state i (ModuleReadyEvent j) s = (if j = i then MReady else s)"
  "event_state i (ModuleDegradedEvent j) s = (if j = i then MDegraded else s)"
  "event_state i (ModuleFailedEvent j) s = (if j = i then MFailed else s)"
  "event_state i (ModuleShutdownStarted j) s = (if j = i then MStopping else s)"
  "event_state i (ModuleStoppedEvent j) s = (if j = i then MStopped else s)"
  by (auto simp: event_state_def)

lemma fold_boot:
  "distinct (map fst ps) \<Longrightarrow> fold (event_state i) (concat (map boot_pair ps)) s =
     (if (i, True) \<in> set ps then MReady else if (i, False) \<in> set ps then MDegraded else s)"
  by (induction ps arbitrary: s) (auto simp: boot_pair_def rev_image_eqI split: if_splits)

lemma fold_stop:
  "i \<notin> fst ` set ps \<Longrightarrow> fold (event_state i) (concat (map stop_pair ps)) s = s"
  by (induction ps arbitrary: s) (auto simp: stop_pair_def)

lemma zip_fst: "map fst (zip xs ys) = take (length ys) xs"
  by (simp add: map_fst_zip_take min_def)

lemma zip_snoc: "length ys < length xs \<Longrightarrow> zip xs (ys @ [y]) = zip xs ys @ [(xs ! length ys, y)]"
proof (induction ys arbitrary: xs)
  case Nil
  then show ?case by (cases xs) simp_all
next
  case (Cons z ys)
  then show ?case by (cases xs) simp_all
qed

lemma up_modules_iff: "i \<in> set (up_modules order outs) \<longleftrightarrow> (i, True) \<in> set (zip order outs)"
  by (force simp: up_modules_def)

lemma up_modules_subset: "set (up_modules order outs) \<subseteq> set (take (length outs) order)"
  unfolding up_modules_def zip_fst [symmetric] by auto

lemma stop_order_set: "set (stop_order order outs) = set (up_modules order outs)"
  by (simp add: stop_order_def)

lemma up_modules_distinct: "distinct order \<Longrightarrow> distinct (up_modules order outs)"
  by (simp add: up_modules_def distinct_map_filter zip_fst distinct_take)

lemma stop_order_distinct: "distinct order \<Longrightarrow> distinct (stop_order order outs)"
  by (simp add: stop_order_def up_modules_distinct)

lemma up_modules_snoc:
  "length outs < length order \<Longrightarrow>
     up_modules order (outs @ [ok]) = up_modules order outs @ (if ok then [order ! length outs] else [])"
  by (simp add: up_modules_def zip_snoc)

lemma boot_log_snoc:
  "length outs < length order \<Longrightarrow> boot_log order (outs @ [ok]) = boot_log order outs @ boot_pair (order ! length outs, ok)"
  by (simp add: boot_log_def zip_snoc)

lemma stop_log_snoc:
  "length stops < length xs \<Longrightarrow> stop_log xs (stops @ [ok]) = stop_log xs stops @ stop_pair (xs ! length stops, ok)"
  by (simp add: stop_log_def zip_snoc)

lemma stop_failures_snoc:
  "length stops < length xs \<Longrightarrow>
     stop_failures xs (stops @ [ok]) = stop_failures xs stops @ (if ok then [] else [xs ! length stops])"
  by (simp add: stop_failures_def zip_snoc)

lemma nth_fresh: "distinct xs \<Longrightarrow> n < length xs \<Longrightarrow> xs ! n \<notin> set (take n xs)"
  by (auto simp: in_set_conv_nth nth_eq_iff_index_eq)

lemma logged_fresh:
  assumes "distinct order" and "length outs < length order"
  shows "logged_state (order ! length outs) (StartupRequested # boot_log order outs) = MRegistered"
proof -
  have "order ! length outs \<notin> set (map fst (zip order outs))" using assms by (simp only: zip_fst nth_fresh not_False_eq_True)
  then have "(order ! length outs, b) \<notin> set (zip order outs)" for b by force
  moreover have "distinct (map fst (zip order outs))" using assms by (simp only: zip_fst distinct_take)
  ultimately show ?thesis by (simp add: logged_state_def boot_log_def fold_boot)
qed

lemma logged_up:
  assumes "distinct order" and "i \<in> set (up_modules order outs)"
  shows "fold (event_state i) (boot_log order outs) s = MReady"
proof -
  have "distinct (map fst (zip order outs))" using assms by (simp only: zip_fst distinct_take)
  with assms show ?thesis by (simp add: up_modules_iff boot_log_def fold_boot)
qed

lemma logged_stop_next:
  assumes "distinct order" and "length stops < length (stop_order order outs)" and "i = stop_order order outs ! length stops"
  shows "logged_state i (running_log order outs @ ShutdownRequested # stop_log (stop_order order outs) stops) = MReady"
    and "length outs < length order \<Longrightarrow>
      logged_state i (aborted_log order outs @ stop_log (stop_order order outs) stops) = MReady"
proof -
  have up: "i \<in> set (up_modules order outs)" using assms nth_mem by (fastforce simp flip: stop_order_set)
  have "i \<notin> set (map fst (zip (stop_order order outs) stops))"
    using assms by (simp only: zip_fst nth_fresh stop_order_distinct not_False_eq_True)
  then have stop: "fold (event_state i) (stop_log (stop_order order outs) stops) s = s" for s
    unfolding stop_log_def by (intro fold_stop) simp
  show "logged_state i (running_log order outs @ ShutdownRequested # stop_log (stop_order order outs) stops) = MReady"
    using assms(1) up stop by (simp add: logged_state_def logged_up)
  assume "length outs < length order"
  then have "order ! length outs \<noteq> i" using nth_fresh [OF assms(1)] up up_modules_subset by fastforce
  then show "logged_state i (aborted_log order outs @ stop_log (stop_order order outs) stops) = MReady"
    using assms(1) up stop by (simp add: logged_state_def logged_up)
qed

section \<open>The registry\<close>

definition fresh_registry :: "registry \<Rightarrow> bool" where
  "fresh_registry r \<longleftrightarrow> registry_wf r \<and> frozen r \<and>
     (\<forall>i \<in> set (registrationOrder r). map_get (reg_states r) i = Some MRegistered)"

lemma boot_order_facts:
  assumes "registry_wf r"
  shows "distinct (boot_order r)" "set (boot_order r) \<subseteq> set (registrationOrder r)"
    "\<not> isl (resolveInitializationOrder r) \<Longrightarrow>
       greedy_order (descriptors r) (boot_order r) \<and> set (boot_order r) = set (registrationOrder r) \<and>
       resolveInitializationOrder r = Inr (boot_order r)"
proof -
  have ids: "module_ids (descriptors r) = registrationOrder r"
    using descriptors_ids [OF assms] by (simp add: module_ids_def)
  with assms have "distinct (module_ids (descriptors r))" by (simp add: registry_wf_def)
  from resolve_order_correct [OF this] ids
  have "resolveInitializationOrder r = Inr (boot_order r) \<longrightarrow>
      greedy_order (descriptors r) (boot_order r) \<and> set (boot_order r) = set (registrationOrder r)"
    by (auto simp: boot_order_def resolveInitializationOrder_def split: sum.splits)
  then show "\<not> isl (resolveInitializationOrder r) \<Longrightarrow>
       greedy_order (descriptors r) (boot_order r) \<and> set (boot_order r) = set (registrationOrder r) \<and>
       resolveInitializationOrder r = Inr (boot_order r)"
    by (auto simp: boot_order_def split: sum.splits)
  then show "distinct (boot_order r)" "set (boot_order r) \<subseteq> set (registrationOrder r)"
    by (cases "resolveInitializationOrder r"; auto simp: boot_order_def dest: greedy_distinct)+
qed

lemma registry_reads [simp]:
  "get_module (r\<lparr>reg_states := x\<rparr>) = get_module r" "descriptors (r\<lparr>reg_states := x\<rparr>) = descriptors r"
  "validate (r\<lparr>reg_states := x\<rparr>) = validate r"
  "resolveInitializationOrder (r\<lparr>reg_states := x\<rparr>) = resolveInitializationOrder r"
proof -
  show g: "get_module (r\<lparr>reg_states := x\<rparr>) = get_module r" by (simp add: get_module_def fun_eq_iff)
  then show d: "descriptors (r\<lparr>reg_states := x\<rparr>) = descriptors r" by (simp add: descriptors_def)
  have "dependencyErrors (r\<lparr>reg_states := x\<rparr>) = dependencyErrors r" by (simp add: dependencyErrors_def fun_eq_iff)
  with d show "validate (r\<lparr>reg_states := x\<rparr>) = validate r" by (simp add: validate_def)
  show "resolveInitializationOrder (r\<lparr>reg_states := x\<rparr>) = resolveInitializationOrder r"
    by (simp add: resolveInitializationOrder_def d)
qed

lemma getState_known:
  "map_get states i = Some s \<Longrightarrow> getState i (r\<lparr>reg_states := states\<rparr>) = Inr s"
  by (simp add: getState_def)

lemma moduleState_known:
  "map_get (reg_states (lc_registry c)) i = Some s \<Longrightarrow> isValidModuleTransition s s1 \<Longrightarrow>
     moduleState i s1 c =
       (Inr (), c\<lparr>lc_registry := (lc_registry c)\<lparr>reg_states := map_set (reg_states (lc_registry c)) i s1\<rparr>\<rparr>)"
  by (simp add: moduleState_def setState_def)

lemma states_ok_snoc:
  "states_ok r log states \<Longrightarrow> i \<in> set (registrationOrder r) \<Longrightarrow>
     (\<And>s. event_state i e s = s1) \<Longrightarrow> (\<And>j s. j \<noteq> i \<Longrightarrow> event_state j e s = s) \<Longrightarrow>
     states_ok r (log @ [e]) (map_set states i s1)"
  by (auto simp: states_ok_def map_simps)

lemma states_ok_host_event:
  "states_ok r log states \<Longrightarrow> (\<And>j s. event_state j e s = s) \<Longrightarrow> states_ok r (log @ [e]) states"
  by (auto simp: states_ok_def)

section \<open>The loops\<close>

lemma fresh_wf: "fresh_registry r \<Longrightarrow> registry_wf r"
  by (simp add: fresh_registry_def)

lemma boot_member:
  "fresh_registry r \<Longrightarrow> n < length (boot_order r) \<Longrightarrow> boot_order r ! n \<in> set (registrationOrder r)"
  using boot_order_facts(2) [OF fresh_wf] nth_mem by blast

lemma stop_member:
  "fresh_registry r \<Longrightarrow> n < length (stop_order (boot_order r) outs) \<Longrightarrow>
     stop_order (boot_order r) outs ! n \<in> set (registrationOrder r)"
  using boot_order_facts(2) [OF fresh_wf] up_modules_subset [of "boot_order r" outs] stop_order_set nth_mem
    set_take_subset by fast

lemma known_module: "fresh_registry r \<Longrightarrow> i \<in> set (registrationOrder r) \<Longrightarrow> get_module r i \<noteq> None"
  using registered_module [OF fresh_wf] by fastforce

lemma start_loop_enter:
  assumes r: "fresh_registry r" and some: "length outs < length (boot_order r)"
    and reg: "lc_registry c = r\<lparr>reg_states := states\<rparr>"
    and log: "lc_log c = StartupRequested # boot_log (boot_order r) outs" and ok: "states_ok r (lc_log c) states"
  shows "\<exists>states1. states_ok r (lc_log c @ [InitializationStarted (boot_order r ! length outs)]) states1 \<and>
    start_loop (drop (length outs) (boot_order r)) flag c =
      c\<lparr>lc_registry := r\<lparr>reg_states := states1\<rparr>, lc_log := lc_log c @ [InitializationStarted (boot_order r ! length outs)],
        lc_await := Some (AwaitInit (boot_order r ! length outs) (drop (Suc (length outs)) (boot_order r)) flag)\<rparr>"
proof -
  let ?i = "boot_order r ! length outs"
  let ?s1 = "map_set states ?i MValidating"
  let ?s2 = "map_set ?s1 ?i MInitializing"
  have i: "?i \<in> set (registrationOrder r)" using r some by (rule boot_member)
  obtain m where m: "get_module r ?i = Some m" using known_module [OF r i] by blast
  have "map_get states ?i = Some MRegistered"
    using ok i logged_fresh [OF boot_order_facts(1) [OF fresh_wf [OF r]] some] by (simp add: states_ok_def log)
  then have 1: "moduleState ?i MValidating c = (Inr (), c\<lparr>lc_registry := r\<lparr>reg_states := ?s1\<rparr>\<rparr>)"
    using moduleState_known [of c ?i MRegistered MValidating] by (simp add: reg isValidModuleTransition_def)
  have 2: "moduleState ?i MInitializing (c\<lparr>lc_registry := r\<lparr>reg_states := ?s1\<rparr>\<rparr>) =
      (Inr (), c\<lparr>lc_registry := r\<lparr>reg_states := ?s2\<rparr>\<rparr>)"
    using moduleState_known [of "c\<lparr>lc_registry := r\<lparr>reg_states := ?s1\<rparr>\<rparr>" ?i MValidating MInitializing]
    by (simp add: isValidModuleTransition_def map_simps)
  have "drop (length outs) (boot_order r) = ?i # drop (Suc (length outs)) (boot_order r)"
    using some by (simp add: Cons_nth_drop_Suc)
  moreover have "states_ok r (lc_log c @ [InitializationStarted ?i]) ?s2"
    using ok by (auto simp: states_ok_def map_simps)
  ultimately show ?thesis by (intro exI [of _ ?s2]) (simp add: m 1 2 reg emit_def)
qed

lemma stop_loop_enter:
  assumes r: "fresh_registry r" and reg: "lc_registry c = r\<lparr>reg_states := states\<rparr>" and ok: "states_ok r (lc_log c) states"
    and xs: "xs = stop_order (boot_order r) outs" and some: "length stops < length xs"
    and up: "logged_state (xs ! length stops) (lc_log c) = MReady"
  shows "\<exists>states1. states_ok r (lc_log c @ next_stop xs stops) states1 \<and>
    stop_loop (drop (length stops) xs) (stop_failures xs stops) k c =
      c\<lparr>lc_registry := r\<lparr>reg_states := states1\<rparr>, lc_log := lc_log c @ next_stop xs stops,
        lc_await := Some (await_stop xs stops k)\<rparr>"
proof -
  let ?i = "xs ! length stops"
  let ?s1 = "map_set states ?i MStopping"
  have i: "?i \<in> set (registrationOrder r)" using r some xs stop_member by simp
  obtain m where m: "get_module r ?i = Some m" using known_module [OF r i] by blast
  have st: "map_get states ?i = Some MReady" using ok i up by (simp add: states_ok_def)
  then have 1: "moduleState ?i MStopping c = (Inr (), c\<lparr>lc_registry := r\<lparr>reg_states := ?s1\<rparr>\<rparr>)"
    using moduleState_known [of c ?i MReady MStopping] by (simp add: reg isValidModuleTransition_def)
  have "drop (length stops) xs = ?i # drop (Suc (length stops)) xs" using some by (simp add: Cons_nth_drop_Suc)
  moreover have "states_ok r (lc_log c @ [ModuleShutdownStarted ?i]) ?s1"
    using ok by (auto simp: states_ok_def map_simps)
  ultimately show ?thesis using some
    by (intro exI [of _ ?s1]) (simp add: m 1 reg emit_def getState_known [OF st] next_stop_def await_stop_def)
qed

lemma boot_enter:
  assumes r: "fresh_registry r" and v: "validate r = []" "\<not> isl (resolveInitializationOrder r)"
    and len: "length outs \<le> length (boot_order r)"
    and ok: "states_ok r (StartupRequested # boot_log (boot_order r) outs) states"
    and c: "lc_registry c = r\<lparr>reg_states := states\<rparr>" "hostState c = HStarting" "startupPromise c = Some Pending"
      "shutdownPromise c = (if jammed then Some (Rejected ModuleStateError) else None)"
      "initializedOrder c = up_modules (boot_order r) outs" "lc_log c = StartupRequested # boot_log (boot_order r) outs"
  shows "realises r (boot_next (boot_order r) outs, jammed)
    (start_loop (drop (length outs) (boot_order r)) (False \<in> set outs) c)"
proof (cases "length outs < length (boot_order r)")
  case True
  then obtain states1 where 1: "states_ok r (lc_log c @ [InitializationStarted (boot_order r ! length outs)]) states1"
    and 2: "start_loop (drop (length outs) (boot_order r)) (False \<in> set outs) c =
      c\<lparr>lc_registry := r\<lparr>reg_states := states1\<rparr>, lc_log := lc_log c @ [InitializationStarted (boot_order r ! length outs)],
        lc_await := Some (AwaitInit (boot_order r ! length outs) (drop (Suc (length outs)) (boot_order r)) (False \<in> set outs))\<rparr>"
    using start_loop_enter [OF r True c(1,6)] ok c(6) by metis
  show ?thesis unfolding realises_def 2 using True 1 v c
    by (intro conjI exI [of _ states1]) (auto simp: host_of_def intro: controller.equality)
next
  case False
  have "states_ok r (running_log (boot_order r) outs) states" using ok by (simp add: states_ok_def logged_state_def)
  with False len v c show ?thesis
    by (auto simp: realises_def host_of_def setHostState_def isValidHostTransition_def end_start_def emit_def
        intro!: controller.equality)
qed


lemma back_enter:
  assumes r: "fresh_registry r" and v: "validate r = []" and len: "length outs < length (boot_order r)"
    and stops: "length stops \<le> length (stop_order (boot_order r) outs)"
    and ok: "states_ok r (aborted_log (boot_order r) outs @ stop_log (stop_order (boot_order r) outs) stops) states"
    and c: "lc_registry c = r\<lparr>reg_states := states\<rparr>" "hostState c = HStarting" "startupPromise c = Some Pending"
      "shutdownPromise c = (if jammed then Some (Rejected ModuleStateError) else None)"
      "initializedOrder c = up_modules (boot_order r) outs"
      "lc_log c = aborted_log (boot_order r) outs @ stop_log (stop_order (boot_order r) outs) stops"
    and i: "i = boot_order r ! length outs"
  shows "realises r (back_next (boot_order r) outs stops, jammed)
    (stop_loop (drop (length stops) (stop_order (boot_order r) outs)) (stop_failures (stop_order (boot_order r) outs) stops)
       (AfterFailedStart i) c)"
proof (cases "length stops < length (stop_order (boot_order r) outs)")
  case True
  let ?xs = "stop_order (boot_order r) outs"
  obtain states1 where 1: "states_ok r (lc_log c @ next_stop ?xs stops) states1"
    and 2: "stop_loop (drop (length stops) ?xs) (stop_failures ?xs stops) (AfterFailedStart i) c =
      c\<lparr>lc_registry := r\<lparr>reg_states := states1\<rparr>, lc_log := lc_log c @ next_stop ?xs stops,
        lc_await := Some (await_stop ?xs stops (AfterFailedStart i))\<rparr>"
    using stop_loop_enter [OF r c(1) _ refl True, of "AfterFailedStart i"] ok c(6)
      logged_stop_next(2) [OF boot_order_facts(1) [OF fresh_wf [OF r]] True refl len] by metis
  show ?thesis unfolding realises_def 2 using True 1 v len c i
    by (intro conjI exI [of _ states1]) (auto simp: host_of_def intro: controller.equality)
next
  case False
  have "states_ok r (phase_log (boot_order r) (Aborted outs stops)) states"
    using ok by (simp add: states_ok_def logged_state_def)
  with False len stops v c i show ?thesis
    by (auto simp: realises_def host_of_def end_start_def emit_def intro!: controller.equality)
qed

lemma close_enter:
  assumes r: "fresh_registry r" and v: "validate r = []" "\<not> isl (resolveInitializationOrder r)"
    and len: "length outs = length (boot_order r)"
    and stops: "length stops \<le> length (stop_order (boot_order r) outs)"
    and ok: "states_ok r (running_log (boot_order r) outs @ ShutdownRequested # stop_log (stop_order (boot_order r) outs) stops) states"
    and c: "lc_registry c = r\<lparr>reg_states := states\<rparr>" "hostState c = HStopping" "startupPromise c = Some Resolved"
      "shutdownPromise c = Some Pending" "initializedOrder c = up_modules (boot_order r) outs"
      "lc_log c = running_log (boot_order r) outs @ ShutdownRequested # stop_log (stop_order (boot_order r) outs) stops"
  shows "realises r (close_next (boot_order r) outs stops, False)
    (stop_loop (drop (length stops) (stop_order (boot_order r) outs)) (stop_failures (stop_order (boot_order r) outs) stops)
       AfterShutdown c)"
proof (cases "length stops < length (stop_order (boot_order r) outs)")
  case True
  let ?xs = "stop_order (boot_order r) outs"
  obtain states1 where 1: "states_ok r (lc_log c @ next_stop ?xs stops) states1"
    and 2: "stop_loop (drop (length stops) ?xs) (stop_failures ?xs stops) AfterShutdown c =
      c\<lparr>lc_registry := r\<lparr>reg_states := states1\<rparr>, lc_log := lc_log c @ next_stop ?xs stops,
        lc_await := Some (await_stop ?xs stops AfterShutdown)\<rparr>"
    using stop_loop_enter [OF r c(1) _ refl True, of AfterShutdown] ok c(6)
      logged_stop_next(1) [OF boot_order_facts(1) [OF fresh_wf [OF r]] True refl] by metis
  show ?thesis unfolding realises_def 2 using True 1 v len c
    by (intro conjI exI [of _ states1]) (auto simp: host_of_def intro: controller.equality)
next
  case False
  have "states_ok r (phase_log (boot_order r) (Closed (Closing outs stops))) states"
    using ok by (simp add: states_ok_def logged_state_def)
  with False len stops v c show ?thesis
    by (auto simp: realises_def host_of_def emit_def closed_promise_def intro!: controller.equality)
qed

section \<open>The steps\<close>

lemma realises_start: "fresh_registry r \<Longrightarrow> realises r (Idle, False) (new_controller r)"
  by (auto simp: realises_def host_of_def new_controller_def fresh_registry_def states_ok_def up_modules_def
      intro!: exI [of _ "reg_states r"] controller.equality)

lemma not_cyclic: "validate r = [] \<Longrightarrow> n < length (boot_order r) \<Longrightarrow> \<not> isl (resolveInitializationOrder r)"
  by (auto simp: boot_order_def split: sum.splits)

lemma boot_state_write:
  assumes r: "fresh_registry r" and n: "length outs < length (boot_order r)"
    and ok: "states_ok r (phase_log (boot_order r) (Booting outs)) states" and v: "isValidModuleTransition MInitializing s1"
    and i: "i = boot_order r ! length outs" and c: "lc_registry c = r\<lparr>reg_states := states\<rparr>"
  shows "moduleState i s1 c = (Inr (), c\<lparr>lc_registry := r\<lparr>reg_states := map_set states i s1\<rparr>\<rparr>)"
proof -
  have "map_get states i = Some MInitializing"
    using ok boot_member [OF r n] by (simp add: states_ok_def logged_state_def i)
  with v c show ?thesis using moduleState_known [of c i MInitializing s1] by simp
qed

lemma boot_states:
  assumes "states_ok r (phase_log (boot_order r) (Booting outs)) states" and "i = boot_order r ! length outs"
    and "\<And>s. event_state i e s = s1" and "\<And>j s. j \<noteq> i \<Longrightarrow> event_state j e s = s"
  shows "states_ok r (StartupRequested # boot_log (boot_order r) outs @ [InitializationStarted i, e]) (map_set states i s1)"
  using assms by (simp add: states_ok_def logged_state_def map_simps)

lemma is_required_states [simp]: "is_required (r\<lparr>reg_states := x\<rparr>) = is_required r"
  by (simp add: is_required_def fun_eq_iff)

lemma initializationFailed_eq:
  "initializationFailed i rest flag c =
     (if is_required (lc_registry c) i then
        (case moduleState i MFailed c of
           (Inl e, c1) \<Rightarrow> end_start (Rejected e) c1
         | (Inr _, c1) \<Rightarrow> stop_loop (rev (initializedOrder c1)) [] (AfterFailedStart i) (emit (ModuleFailedEvent i) c1))
      else
        (case moduleState i MDegraded c of
           (Inl e, c1) \<Rightarrow> end_start (Rejected e) c1
         | (Inr _, c1) \<Rightarrow> start_loop rest True (emit (ModuleDegradedEvent i) c1)))"
  unfolding initializationFailed_def is_required_def by (rule refl)

lemma required_failure_step:
  assumes r: "fresh_registry r" and n: "length outs < length (boot_order r)" and v: "validate r = []"
    and ok: "states_ok r (phase_log (boot_order r) (Booting outs)) states" and req: "is_required r (boot_order r ! length outs)"
  shows "realises r (back_next (boot_order r) outs [], jammed)
    (initializationFailed (boot_order r ! length outs) (drop (Suc (length outs)) (boot_order r)) (False \<in> set outs)
       (host_of r (Booting outs) jammed states))"
proof -
  let ?c = "host_of r (Booting outs) jammed states"
  let ?i = "boot_order r ! length outs"
  let ?xs = "stop_order (boot_order r) outs"
  let ?s = "map_set states ?i MFailed"
  let ?d = "emit (ModuleFailedEvent ?i) (?c\<lparr>lc_registry := r\<lparr>reg_states := ?s\<rparr>\<rparr>)"
  have reg: "lc_registry ?c = r\<lparr>reg_states := states\<rparr>" by (simp add: host_of_def)
  have ini: "initializedOrder ?c = up_modules (boot_order r) outs" by (simp add: host_of_def)
  have "moduleState ?i MFailed ?c = (Inr (), ?c\<lparr>lc_registry := r\<lparr>reg_states := ?s\<rparr>\<rparr>)"
    by (rule boot_state_write [OF r n ok _ refl reg]) (simp add: isValidModuleTransition_def)
  with req reg have "initializationFailed ?i (drop (Suc (length outs)) (boot_order r)) (False \<in> set outs) ?c =
      stop_loop (drop (length ([] :: bool list)) ?xs) (stop_failures ?xs []) (AfterFailedStart ?i) ?d"
    by (simp add: initializationFailed_eq stop_failures_def stop_order_def ini)
  moreover have "states_ok r (aborted_log (boot_order r) outs @ stop_log ?xs []) ?s"
    using boot_states [OF ok refl, of "ModuleFailedEvent ?i" MFailed] by (simp add: stop_log_def)
  then have "realises r (back_next (boot_order r) outs [], jammed)
      (stop_loop (drop (length ([] :: bool list)) ?xs) (stop_failures ?xs []) (AfterFailedStart ?i) ?d)"
    by (intro back_enter [OF r v n]) (simp_all add: host_of_def emit_def stop_log_def)
  ultimately show ?thesis by simp
qed

lemma optional_failure_step:
  assumes r: "fresh_registry r" and n: "length outs < length (boot_order r)" and v: "validate r = []"
    and ok: "states_ok r (phase_log (boot_order r) (Booting outs)) states" and opt: "\<not> is_required r (boot_order r ! length outs)"
  shows "realises r (boot_next (boot_order r) (outs @ [False]), jammed)
    (initializationFailed (boot_order r ! length outs) (drop (Suc (length outs)) (boot_order r)) (False \<in> set outs)
       (host_of r (Booting outs) jammed states))"
proof -
  let ?c = "host_of r (Booting outs) jammed states"
  let ?i = "boot_order r ! length outs"
  let ?s = "map_set states ?i MDegraded"
  let ?d = "emit (ModuleDegradedEvent ?i) (?c\<lparr>lc_registry := r\<lparr>reg_states := ?s\<rparr>\<rparr>)"
  let ?outs = "outs @ [False]"
  have reg: "lc_registry ?c = r\<lparr>reg_states := states\<rparr>" by (simp add: host_of_def)
  have "moduleState ?i MDegraded ?c = (Inr (), ?c\<lparr>lc_registry := r\<lparr>reg_states := ?s\<rparr>\<rparr>)"
    by (rule boot_state_write [OF r n ok _ refl reg]) (simp add: isValidModuleTransition_def)
  with opt reg have "initializationFailed ?i (drop (Suc (length outs)) (boot_order r)) (False \<in> set outs) ?c =
      start_loop (drop (length ?outs) (boot_order r)) (False \<in> set ?outs) ?d"
    by (simp add: initializationFailed_eq)
  moreover have "states_ok r (StartupRequested # boot_log (boot_order r) ?outs) ?s"
    using boot_states [OF ok refl, of "ModuleDegradedEvent ?i" MDegraded] n by (simp add: boot_log_snoc boot_pair_def)
  then have "realises r (boot_next (boot_order r) ?outs, jammed) (start_loop (drop (length ?outs) (boot_order r)) (False \<in> set ?outs) ?d)"
    using n by (intro boot_enter [OF r v not_cyclic [OF v n]])
      (simp_all add: host_of_def emit_def boot_log_snoc boot_pair_def up_modules_snoc)
  ultimately show ?thesis by simp
qed

lemma settle_boot_step:
  assumes r: "fresh_registry r" and n: "length outs < length (boot_order r)" and v: "validate r = []"
    and ok: "states_ok r (phase_log (boot_order r) (Booting outs)) states"
  shows "realises r (phase_step r (Settle b) (Booting outs, jammed)) (settle b (host_of r (Booting outs) jammed states))"
proof (cases b)
  case False
  have aw: "lc_await (host_of r (Booting outs) jammed states) =
      Some (AwaitInit (boot_order r ! length outs) (drop (Suc (length outs)) (boot_order r)) (False \<in> set outs))"
    by (simp add: host_of_def)
  from False required_failure_step [OF r n v ok, of jammed] optional_failure_step [OF r n v ok, of jammed] show ?thesis
    by (cases "is_required r (boot_order r ! length outs)")
      (simp_all add: settle_def aw del: boot_next.simps back_next.simps)
next
  case True
  let ?c = "host_of r (Booting outs) jammed states"
  let ?i = "boot_order r ! length outs"
  let ?s = "map_set states ?i MReady"
  let ?d = "emit (ModuleReadyEvent ?i) (?c\<lparr>lc_registry := r\<lparr>reg_states := ?s\<rparr>,
      initializedOrder := up_modules (boot_order r) outs @ [?i]\<rparr>)"
  let ?outs = "outs @ [True]"
  have reg: "lc_registry ?c = r\<lparr>reg_states := states\<rparr>" by (simp add: host_of_def)
  have aw: "lc_await ?c =
      Some (AwaitInit ?i (drop (Suc (length outs)) (boot_order r)) (False \<in> set outs))"
    by (simp add: host_of_def)
  have ini: "initializedOrder ?c = up_modules (boot_order r) outs" by (simp add: host_of_def)
  have "moduleState ?i MReady ?c = (Inr (), ?c\<lparr>lc_registry := r\<lparr>reg_states := ?s\<rparr>\<rparr>)"
    by (rule boot_state_write [OF r n ok _ refl reg]) (simp add: isValidModuleTransition_def)
  with True aw have "settle b ?c = start_loop (drop (length ?outs) (boot_order r)) (False \<in> set ?outs) ?d"
    by (simp add: settle_def ini)
  moreover have "states_ok r (StartupRequested # boot_log (boot_order r) ?outs) ?s"
    using boot_states [OF ok refl, of "ModuleReadyEvent ?i" MReady] n by (simp add: boot_log_snoc boot_pair_def)
  then have "realises r (boot_next (boot_order r) ?outs, jammed) (start_loop (drop (length ?outs) (boot_order r)) (False \<in> set ?outs) ?d)"
    using n by (intro boot_enter [OF r v not_cyclic [OF v n]])
      (simp_all add: host_of_def emit_def boot_log_snoc boot_pair_def up_modules_snoc)
  ultimately show ?thesis using True by (simp del: boot_next.simps)
qed

text \<open>The awaited shutdown of a module, in either coroutine.\<close>

lemma settle_stop:
  assumes aw: "lc_await c = Some (await_stop xs stops k)" and some: "length stops < length xs"
    and st: "map_get (reg_states (lc_registry c)) (xs ! length stops) = Some MStopping"
  shows "settle b c = stop_loop (drop (length (stops @ [b])) xs) (stop_failures xs (stops @ [b])) k
     (if b then emit (ModuleStoppedEvent (xs ! length stops)) (c\<lparr>lc_registry := (lc_registry c)
          \<lparr>reg_states := map_set (reg_states (lc_registry c)) (xs ! length stops) MStopped\<rparr>\<rparr>) else c)"
proof -
  have "moduleState (xs ! length stops) MStopped c = (Inr (), c\<lparr>lc_registry := (lc_registry c)
      \<lparr>reg_states := map_set (reg_states (lc_registry c)) (xs ! length stops) MStopped\<rparr>\<rparr>)"
    by (rule moduleState_known [OF st]) (simp add: isValidModuleTransition_def)
  with some show ?thesis by (simp add: settle_def aw await_stop_def stop_failures_snoc)
qed

lemma stop_states:
  assumes ok: "states_ok r (log @ [ModuleShutdownStarted i]) states" and i: "i \<in> set (registrationOrder r)"
  shows "map_get states i = Some MStopping"
    and "states_ok r (log @ stop_pair (i, b)) (if b then map_set states i MStopped else states)"
  using assms by (auto simp: states_ok_def stop_pair_def logged_state_def map_simps)

lemma settle_back_step:
  assumes r: "fresh_registry r" and p: "phase_ok r (Backing outs stops)"
    and ok: "states_ok r (phase_log (boot_order r) (Backing outs stops)) states"
  shows "realises r (phase_step r (Settle b) (Backing outs stops, jammed)) (settle b (host_of r (Backing outs stops) jammed states))"
proof -
  let ?xs = "stop_order (boot_order r) outs"
  let ?c = "host_of r (Backing outs stops) jammed states"
  let ?i = "?xs ! length stops"
  from p have n: "length stops < length ?xs" "length outs < length (boot_order r)" "validate r = []" by simp_all
  have i: "?i \<in> set (registrationOrder r)" using r n(1) by (rule stop_member)
  from ok n have ok1: "states_ok r ((aborted_log (boot_order r) outs @ stop_log ?xs stops) @ [ModuleShutdownStarted ?i]) states"
    by (simp add: next_stop_def)
  note st = stop_states [OF ok1 i]
  have log: "(aborted_log (boot_order r) outs @ stop_log ?xs stops) @ stop_pair (?i, b) =
      aborted_log (boot_order r) outs @ stop_log ?xs (stops @ [b])" using n by (simp add: stop_log_snoc)
  have "settle b ?c = stop_loop (drop (length (stops @ [b])) ?xs) (stop_failures ?xs (stops @ [b]))
      (AfterFailedStart (boot_order r ! length outs))
      (if b then emit (ModuleStoppedEvent ?i) (?c\<lparr>lc_registry := (lc_registry ?c)
          \<lparr>reg_states := map_set (reg_states (lc_registry ?c)) ?i MStopped\<rparr>\<rparr>) else ?c)"
    using st(1) n by (intro settle_stop) (simp_all add: host_of_def)
  moreover have "realises r (back_next (boot_order r) outs (stops @ [b]), jammed)
      (stop_loop (drop (length (stops @ [b])) ?xs) (stop_failures ?xs (stops @ [b])) (AfterFailedStart (boot_order r ! length outs))
      (if b then emit (ModuleStoppedEvent ?i) (?c\<lparr>lc_registry := (lc_registry ?c)
          \<lparr>reg_states := map_set (reg_states (lc_registry ?c)) ?i MStopped\<rparr>\<rparr>) else ?c))"
    using st(2) [of b] n unfolding log
    by (intro back_enter [OF r n(3,2), where states = "if b then map_set states ?i MStopped else states"])
      (simp_all add: host_of_def emit_def next_stop_def stop_log_snoc stop_pair_def)
  ultimately show ?thesis by (simp del: back_next.simps)
qed

lemma settle_close_step:
  assumes r: "fresh_registry r" and p: "phase_ok r (Closing outs stops)"
    and ok: "states_ok r (phase_log (boot_order r) (Closing outs stops)) states"
  shows "realises r (phase_step r (Settle b) (Closing outs stops, False)) (settle b (host_of r (Closing outs stops) False states))"
proof -
  let ?xs = "stop_order (boot_order r) outs"
  let ?c = "host_of r (Closing outs stops) False states"
  let ?i = "?xs ! length stops"
  let ?log = "running_log (boot_order r) outs @ ShutdownRequested # stop_log ?xs stops"
  from p have n: "length stops < length ?xs" "length outs = length (boot_order r)" "validate r = []"
    "\<not> isl (resolveInitializationOrder r)" by simp_all
  have i: "?i \<in> set (registrationOrder r)" using r n(1) by (rule stop_member)
  from ok n have ok1: "states_ok r (?log @ [ModuleShutdownStarted ?i]) states"
    by (simp add: next_stop_def)
  note st = stop_states [OF ok1 i]
  have log: "?log @ stop_pair (?i, b) =
      running_log (boot_order r) outs @ ShutdownRequested # stop_log ?xs (stops @ [b])" using n by (simp add: stop_log_snoc)
  have "settle b ?c = stop_loop (drop (length (stops @ [b])) ?xs) (stop_failures ?xs (stops @ [b])) AfterShutdown
      (if b then emit (ModuleStoppedEvent ?i) (?c\<lparr>lc_registry := (lc_registry ?c)
          \<lparr>reg_states := map_set (reg_states (lc_registry ?c)) ?i MStopped\<rparr>\<rparr>) else ?c)"
    using st(1) n by (intro settle_stop) (simp_all add: host_of_def)
  moreover have "realises r (close_next (boot_order r) outs (stops @ [b]), False)
      (stop_loop (drop (length (stops @ [b])) ?xs) (stop_failures ?xs (stops @ [b])) AfterShutdown
      (if b then emit (ModuleStoppedEvent ?i) (?c\<lparr>lc_registry := (lc_registry ?c)
          \<lparr>reg_states := map_set (reg_states (lc_registry ?c)) ?i MStopped\<rparr>\<rparr>) else ?c))"
    using st(2) [of b] n unfolding log
    by (intro close_enter [OF r n(3,4,2), where states = "if b then map_set states ?i MStopped else states"])
      (simp_all add: host_of_def emit_def next_stop_def stop_log_snoc stop_pair_def)
  ultimately show ?thesis by (simp del: close_next.simps)
qed

lemma start_idle_step:
  assumes r: "fresh_registry r" and ok: "states_ok r [] states"
  shows "realises r (begin_phase r, False) (snd (start (host_of r Idle False states)))"
proof -
  let ?c = "host_of r Idle False states"
  let ?v = "?c\<lparr>startupPromise := Some Pending, hostState := HValidating\<rparr>"
  have start: "snd (start ?c) = doStart (?c\<lparr>startupPromise := Some Pending\<rparr>)"
    by (simp add: start_def host_of_def Let_def)
  have reg: "lc_registry ?v = r\<lparr>reg_states := states\<rparr>" by (simp add: host_of_def)
  have doStart: "doStart (?c\<lparr>startupPromise := Some Pending\<rparr>) =
     (if validate r \<noteq> [] then end_start (Rejected (ModuleDependencyError (validate r))) (?v\<lparr>hostState := HFailed\<rparr>)
      else case resolveInitializationOrder r of
          Inl e \<Rightarrow> end_start (Rejected e) ?v
        | Inr order \<Rightarrow> start_loop order False (emit StartupRequested (?v\<lparr>hostState := HStarting\<rparr>)))"
    by (simp add: doStart_def host_of_def setHostState_def isValidHostTransition_def split: sum.split)
  show ?thesis
  proof (cases "validate r = []")
    case False
    with ok show ?thesis unfolding start doStart
      by (auto simp: realises_def host_of_def end_start_def intro!: controller.equality)
  next
    case v: True
    show ?thesis
    proof (cases "resolveInitializationOrder r")
      case (Inl e)
      with v ok show ?thesis unfolding start doStart
        by (auto simp: realises_def host_of_def end_start_def boot_order_def up_modules_def intro!: controller.equality)
    next
      case (Inr order)
      then have o: "boot_order r = order" by (simp add: boot_order_def)
      have "states_ok r (StartupRequested # boot_log (boot_order r) []) states"
        using ok by (simp add: states_ok_def logged_state_def boot_log_def)
      with Inr have "realises r (boot_next (boot_order r) [], False)
          (start_loop (drop (length ([] :: bool list)) (boot_order r)) (False \<in> set []) (emit StartupRequested (?v\<lparr>hostState := HStarting\<rparr>)))"
        by (intro boot_enter [OF r v]) (simp_all add: host_of_def emit_def boot_log_def)
      with Inr v o show ?thesis unfolding start doStart by (simp del: boot_next.simps)
    qed
  qed
qed

lemma shutdown_running_step:
  assumes r: "fresh_registry r" and p: "phase_ok r (Running outs)"
    and ok: "states_ok r (phase_log (boot_order r) (Running outs)) states"
  shows "realises r (close_next (boot_order r) outs [], False) (snd (shutdown (host_of r (Running outs) False states)))"
proof -
  let ?c = "host_of r (Running outs) False states"
  let ?xs = "stop_order (boot_order r) outs"
  let ?d = "emit ShutdownRequested (?c\<lparr>shutdownPromise := Some Pending, hostState := HStopping\<rparr>)"
  from p have v: "validate r = []" "\<not> isl (resolveInitializationOrder r)" "length outs = length (boot_order r)" by simp_all
  have "snd (shutdown ?c) = stop_loop (drop (length ([] :: bool list)) ?xs) (stop_failures ?xs []) AfterShutdown ?d"
    by (simp add: shutdown_def doShutdown_def host_of_def setHostState_def isValidHostTransition_def Let_def
        stop_failures_def stop_order_def)
  moreover have "states_ok r (running_log (boot_order r) outs @ ShutdownRequested # stop_log ?xs []) states"
    using ok by (simp add: states_ok_def logged_state_def stop_log_def)
  then have "realises r (close_next (boot_order r) outs [], False)
      (stop_loop (drop (length ([] :: bool list)) ?xs) (stop_failures ?xs []) AfterShutdown ?d)"
    by (intro close_enter [OF r v]) (simp_all add: host_of_def emit_def stop_log_def)
  ultimately show ?thesis by simp
qed

lemma shutdown_keeps: "shutdownPromise c \<noteq> None \<Longrightarrow> snd (shutdown c) = c"
  by (auto simp: shutdown_def Let_def)

lemma start_keeps:
  "hostState c \<in> {HReady, HDegraded, HStopping, HStopped, HFailed} \<or> startupPromise c \<noteq> None \<Longrightarrow> snd (start c) = c"
  by (auto simp: start_def)

lemma call_start_step:
  assumes "fresh_registry r" and "realises r p c"
  shows "realises r (phase_step r CallStart p) (run_event CallStart c)"
proof -
  obtain ph jammed states where p: "p = (ph, jammed)" and ok: "phase_ok r ph" "jammed \<longrightarrow> may_jam ph"
    and c: "c = host_of r ph jammed states" and st: "states_ok r (phase_log (boot_order r) ph) states"
    using assms(2) by (cases p) (auto simp: realises_def)
  show ?thesis
  proof (cases "ph = Idle")
    case True
    with ok start_idle_step [OF assms(1)] st show ?thesis by (simp add: p c del: begin_phase.simps)
  next
    case False
    then have "snd (start c) = c"
      using ok(1) by (intro start_keeps) (cases ph; auto simp: c host_of_def split: sum.splits)
    with False assms(2) show ?thesis by (simp add: p)
  qed
qed

lemma call_shutdown_step:
  assumes "fresh_registry r" and "realises r p c"
  shows "realises r (phase_step r CallShutdown p) (run_event CallShutdown c)"
proof -
  obtain ph jammed states where p: "p = (ph, jammed)" and ok: "phase_ok r ph" "jammed \<longrightarrow> may_jam ph"
    and c: "c = host_of r ph jammed states" and st: "states_ok r (phase_log (boot_order r) ph) states"
    using assms(2) by (cases p) (auto simp: realises_def)
  show ?thesis
  proof (cases "shutdownPromise c = None")
    case False
    then have "phase_step r CallShutdown p = p" using ok by (cases ph; cases jammed; auto simp: c host_of_def p)
    with shutdown_keeps [OF False] assms(2) show ?thesis by simp
  next
    case True
    then have j: "\<not> jammed" using ok by (cases ph; cases jammed; auto simp: c host_of_def)
    show ?thesis
    proof (cases ph)
      case (Running outs)
      with shutdown_running_step [OF assms(1), of outs states] ok st j show ?thesis
        by (simp add: p c del: close_next.simps)
    qed (use True ok st j in \<open>auto simp: p c realises_def host_of_def shutdown_def doShutdown_def setHostState_def
          isValidHostTransition_def Let_def emit_def states_ok_def logged_state_def intro!: exI [of _ states] controller.equality\<close>)
  qed
qed

lemma settle_step:
  assumes "fresh_registry r" and "realises r p c"
  shows "realises r (phase_step r (Settle b) p) (run_event (Settle b) c)"
proof -
  obtain ph jammed states where p: "p = (ph, jammed)" and ok: "phase_ok r ph" "jammed \<longrightarrow> may_jam ph"
    and c: "c = host_of r ph jammed states" and st: "states_ok r (phase_log (boot_order r) ph) states"
    using assms(2) by (cases p) (auto simp: realises_def)
  show ?thesis
  proof (cases ph)
    case (Booting outs)
    with settle_boot_step [OF assms(1)] ok st show ?thesis by (simp add: p c del: phase_step.simps phase_log.simps)
  next
    case (Backing outs stops)
    with settle_back_step [OF assms(1)] ok st show ?thesis by (simp add: p c del: phase_step.simps phase_log.simps phase_ok.simps)
  next
    case (Closing outs stops)
    with settle_close_step [OF assms(1)] ok st show ?thesis
      by (cases jammed) (simp_all add: p c del: phase_step.simps phase_log.simps phase_ok.simps)
  qed (use assms(2) in \<open>auto simp: p settle_def c host_of_def\<close>)
qed

lemma run_event_step:
  assumes "fresh_registry r" and "realises r p c"
  shows "realises r (phase_step r e p) (run_event e c)"
proof (cases e)
  case (CallRegister m)
  have "frozen (lc_registry c)" using assms by (auto simp: realises_def host_of_def fresh_registry_def)
  then have "run_event e c = c" by (simp add: CallRegister register_def)
  with assms(2) CallRegister show ?thesis by (cases p) simp
qed (use assms call_start_step call_shutdown_step settle_step in simp_all)

lemma run_events_realise:
  assumes r: "fresh_registry r"
  shows "realises r (life_cycle r evs) (fold run_event evs (new_controller r))"
proof (induction evs rule: rev_induct)
  case Nil
  show ?case using realises_start [OF r] by (simp add: life_cycle_def)
next
  case (snoc e evs)
  from run_event_step [OF r this, of e] show ?case by (simp add: life_cycle_def)
qed

end
