(* ===== verification/LifecycleProperties.thy ===== *)
theory LifecycleProperties
  imports LifecycleRefinement "HOL-Library.Sublist"
begin

text \<open>
  What follows from the abstract life cycle for every run of the host over modules registered
  before the registry is frozen, as the composition root does.
\<close>

section \<open>Hosts\<close>

definition built :: "EnterpriseModuleDescriptor list \<Rightarrow> registry" where
  "built ms = freeze (fold (\<lambda>m r. snd (register m r)) ms empty_registry)"

definition host :: "EnterpriseModuleDescriptor list \<Rightarrow> host_event list \<Rightarrow> controller" where
  "host ms evs = fold run_event evs (new_controller (built ms))"

lemma built_fresh: "fresh_registry (built ms)"
proof -
  let ?r = "fold (\<lambda>m r. snd (register m r)) ms empty_registry"
  have "registry_wf ?r \<and> (\<forall>i \<in> set (registrationOrder ?r). map_get (reg_states ?r) i = Some MRegistered)"
  proof (induction ms rule: rev_induct)
    case Nil
    show ?case by (simp add: registry_wf_empty) (simp add: empty_registry_def)
  next
    case (snoc m ms)
    then show ?case using register_wf [of _ m] by (auto simp: register_def map_simps)
  qed
  then show ?thesis by (simp add: built_def fresh_registry_def freeze_def registry_wf_def)
qed

lemma host_realises: "realises (built ms) (life_cycle (built ms) evs) (host ms evs)"
  unfolding host_def by (rule run_events_realise [OF built_fresh])

lemma host_append: "host ms (evs @ evs') = fold run_event evs' (host ms evs)"
  by (simp add: host_def)

lemma life_cycle_append: "life_cycle r (evs @ evs') = fold (phase_step r) evs' (life_cycle r evs)"
  by (simp add: life_cycle_def)

text \<open>A run's phase, its controller in full.\<close>

lemma host_phase:
  obtains ph jammed states where "life_cycle (built ms) evs = (ph, jammed)" and "phase_ok (built ms) ph"
    and "jammed \<longrightarrow> may_jam ph" and "host ms evs = host_of (built ms) ph jammed states"
    and "states_ok (built ms) (phase_log (boot_order (built ms)) ph) states"
  using host_realises [of ms evs] by (cases "life_cycle (built ms) evs") (auto simp: realises_def)

lemma host_of_reads [simp]:
  "hostState (host_of r ph j states) = phase_host ph" "lc_log (host_of r ph j states) = phase_log (boot_order r) ph"
  "lc_await (host_of r ph j states) = phase_await (boot_order r) ph"
  "shutdownPromise (host_of r ph j states) = phase_shutdown (boot_order r) ph j"
  "startupPromise (host_of r ph j states) = phase_startup r ph"
  "initializedOrder (host_of r ph j states) = up_modules (boot_order r) (phase_outs ph)"
  by (simp_all add: host_of_def)

section \<open>Only optional modules degrade\<close>

fun degraded_ok :: "registry \<Rightarrow> phase \<Rightarrow> bool" where
  "degraded_ok r ph \<longleftrightarrow> (\<forall>k < length (phase_outs ph). phase_outs ph ! k \<or> \<not> is_required r (boot_order r ! k))"

lemma degraded_ok_step: "degraded_ok r (fst p) \<Longrightarrow> degraded_ok r (fst (phase_step r e p))"
proof (induction r e p rule: phase_step.induct)
  case (3 r ph jammed)
  then show ?case by (cases ph) (auto split: if_splits)
qed (auto simp: nth_append less_Suc_eq split: if_splits sum.split)

lemma degraded_ok_run: "degraded_ok r (fst (life_cycle r evs))"
proof (induction evs rule: rev_induct)
  case Nil
  show ?case by (simp add: life_cycle_def)
next
  case (snoc e evs)
  then show ?case by (simp add: life_cycle_append degraded_ok_step del: degraded_ok.simps)
qed

section \<open>Work left\<close>

fun phase_work :: "nat \<Rightarrow> string list \<Rightarrow> phase \<Rightarrow> nat" where
  "phase_work n order (Booting outs) = 2 * n - length outs"
| "phase_work n order (Backing outs stops) = length (stop_order order outs) - length stops"
| "phase_work n order (Closing outs stops) = length (stop_order order outs) - length stops"
| "phase_work n order _ = 0"

lemma stop_order_length: "length (stop_order order outs) \<le> length outs \<and> length (stop_order order outs) \<le> length order"
  using length_filter_le [of snd "zip order outs"] by (simp add: stop_order_def up_modules_def)

lemma settle_work:
  "phase_ok r (fst p) \<Longrightarrow> phase_await (boot_order r) (fst p) \<noteq> None \<Longrightarrow>
     phase_work (length (boot_order r)) (boot_order r) (fst (phase_step r (Settle b) p)) <
     phase_work (length (boot_order r)) (boot_order r) (fst p)"
  using stop_order_length [of "boot_order r" "phase_outs (fst p)"]
  by (induction r "Settle b" p rule: phase_step.induct) auto

lemma phase_settled:
  "phase_ok r ph \<Longrightarrow> phase_await (boot_order r) ph = None \<Longrightarrow> phase_step r (Settle b) (ph, jammed) = (ph, jammed)"
  by (cases ph) auto

lemma host_phase_ok: "phase_ok (built ms) (fst (life_cycle (built ms) evs))"
  using host_realises by (simp add: realises_def)

lemma phase_settles:
  "phase_work (length (boot_order (built ms))) (boot_order (built ms)) (fst (life_cycle (built ms) evs)) \<le> length bs \<Longrightarrow>
     phase_await (boot_order (built ms)) (fst (life_cycle (built ms) (evs @ map Settle bs))) = None"
proof (induction bs arbitrary: evs)
  case Nil
  then show ?case
    using settle_work [OF host_phase_ok, of ms evs True] by fastforce
next
  case (Cons b bs)
  let ?p = "life_cycle (built ms) evs"
  have next_p: "life_cycle (built ms) (evs @ [Settle b]) = phase_step (built ms) (Settle b) ?p"
    by (simp add: life_cycle_append)
  have "phase_work (length (boot_order (built ms))) (boot_order (built ms)) (fst (life_cycle (built ms) (evs @ [Settle b]))) \<le> length bs"
  proof (cases "phase_await (boot_order (built ms)) (fst ?p) = None")
    case True
    then have "phase_work (length (boot_order (built ms))) (boot_order (built ms)) (fst ?p) = 0"
      by (cases "fst ?p") simp_all
    with phase_settled [OF host_phase_ok True, of b "snd ?p"] show ?thesis by (simp add: next_p)
  next
    case False
    with settle_work [OF host_phase_ok False, of b] Cons.prems show ?thesis by (simp add: next_p)
  qed
  from Cons.IH [OF this] show ?case by simp
qed

lemma boot_order_length: "length (boot_order (built ms)) \<le> length ms"
proof -
  let ?r = "fold (\<lambda>m r. snd (register m r)) ms empty_registry"
  have "length (registrationOrder ?r) \<le> length ms"
    by (induction ms rule: rev_induct) (auto simp: register_def empty_registry_def)
  moreover have "registrationOrder (built ms) = registrationOrder ?r" by (simp add: built_def freeze_def)
  moreover have "length (boot_order (built ms)) \<le> length (registrationOrder (built ms))"
    using boot_order_facts(1,2) [OF fresh_wf [OF built_fresh [of ms]]]
    by (metis card_length card_mono List.finite_set distinct_card order_trans)
  ultimately show ?thesis by simp
qed

lemma host_settled:
  assumes "2 * length ms \<le> length outcomes"
  shows "lc_await (host ms (evs @ map Settle outcomes)) = None"
proof -
  have "phase_work n (boot_order (built ms)) ph \<le> 2 * n" if "n = length (boot_order (built ms))" for ph n
    using stop_order_length [of "boot_order (built ms)"] that by (cases ph) (simp_all, (metis diff_le_self le_trans mult_2 trans_le_add1)+)
  then have "phase_work (length (boot_order (built ms))) (boot_order (built ms)) (fst (life_cycle (built ms) evs)) \<le> length outcomes"
    using boot_order_length [of ms] assms by (meson le_trans mult_le_mono2)
  from phase_settles [OF this] show ?thesis
    using host_phase [of ms "evs @ map Settle outcomes"] by (metis fst_conv host_of_reads(3))
qed

text \<open>Nothing awaited, nothing pending.\<close>

lemma pending_awaits:
  "startupPromise (host ms evs) = Some Pending \<or> shutdownPromise (host ms evs) = Some Pending \<Longrightarrow>
     lc_await (host ms evs) \<noteq> None"
proof -
  obtain ph jammed states where p: "phase_ok (built ms) ph" "host ms evs = host_of (built ms) ph jammed states"
    using host_phase [of ms evs] by blast
  show "startupPromise (host ms evs) = Some Pending \<or> shutdownPromise (host ms evs) = Some Pending \<Longrightarrow>
     lc_await (host ms evs) \<noteq> None"
    using p(1) unfolding p(2)
    by (cases ph; cases jammed) (auto simp: closed_promise_def split: phase.splits sum.splits if_splits)
qed

section \<open>A shutdown refused while starting\<close>

lemma jammed_stays: "snd p \<Longrightarrow> snd (phase_step r e p)"
  by (induction r e p rule: phase_step.induct) auto

lemma jammed_run: "snd p \<Longrightarrow> snd (fold (phase_step r) evs p)"
  by (induction evs arbitrary: p) (simp_all add: jammed_stays)

lemma starting_phase: "phase_host ph = HStarting \<Longrightarrow> is_starting ph"
  by (cases ph) (auto split: if_splits)

lemma jammed_host:
  assumes "snd (life_cycle (built ms) evs)"
  shows "hostState (host ms evs) \<notin> {HStopping, HStopped} \<and> shutdownPromise (host ms evs) = Some (Rejected ModuleStateError)"
proof -
  obtain ph states where "may_jam ph" and h: "host ms evs = host_of (built ms) ph True states"
    using host_phase [of ms evs] assms by (metis snd_conv)
  then show ?thesis unfolding h by (cases ph) simp_all
qed

lemma refused_shutdown_jams:
  assumes "hostState (host ms evs) = HStarting"
  shows "snd (life_cycle (built ms) (evs @ CallShutdown # later))"
proof -
  obtain ph jammed where p: "life_cycle (built ms) evs = (ph, jammed)" and "is_starting ph"
    using host_phase [of ms evs] assms by (metis host_of_reads(1) starting_phase)
  then have "snd (phase_step (built ms) CallShutdown (ph, jammed))" by simp
  with p jammed_run show ?thesis by (simp add: life_cycle_append)
qed

section \<open>Which modules came up and went down\<close>

fun ready_of :: "lifecycle_event \<Rightarrow> string option" where
  "ready_of (ModuleReadyEvent i) = Some i"
| "ready_of _ = None"

fun stopping_of :: "lifecycle_event \<Rightarrow> string option" where
  "stopping_of (ModuleShutdownStarted i) = Some i"
| "stopping_of _ = None"

definition readied :: "lifecycle_event list \<Rightarrow> string list" where
  "readied log = List.map_filter ready_of log"

definition stopped_from :: "lifecycle_event list \<Rightarrow> string list" where
  "stopped_from log = List.map_filter stopping_of log"

lemma readied_simps [simp]:
  "readied [] = []" "readied (e # log) = (case ready_of e of None \<Rightarrow> [] | Some i \<Rightarrow> [i]) @ readied log"
  "readied (log @ log') = readied log @ readied log'"
  by (simp_all add: readied_def List.map_filter_def split: option.split)

lemma stopped_from_simps [simp]:
  "stopped_from [] = []" "stopped_from (e # log) = (case stopping_of e of None \<Rightarrow> [] | Some i \<Rightarrow> [i]) @ stopped_from log"
  "stopped_from (log @ log') = stopped_from log @ stopped_from log'"
  by (simp_all add: stopped_from_def List.map_filter_def split: option.split)

lemma boot_log_counts [simp]: "readied (boot_log order outs) = up_modules order outs" "stopped_from (boot_log order outs) = []"
proof -
  have "readied (concat (map boot_pair ps)) = map fst (filter snd ps)" "stopped_from (concat (map boot_pair ps)) = []" for ps
    by (induction ps) (auto simp: boot_pair_def)
  then show "readied (boot_log order outs) = up_modules order outs" "stopped_from (boot_log order outs) = []"
    by (simp_all add: boot_log_def up_modules_def)
qed

lemma stop_log_counts [simp]: "readied (stop_log xs stops) = []" "stopped_from (stop_log xs stops) = take (length stops) xs"
proof -
  have "readied (concat (map stop_pair ps)) = []" "stopped_from (concat (map stop_pair ps)) = map fst ps" for ps
    by (induction ps) (auto simp: stop_pair_def)
  then show "readied (stop_log xs stops) = []" "stopped_from (stop_log xs stops) = take (length stops) xs"
    by (simp_all add: stop_log_def zip_fst)
qed

lemma stop_progress:
  "length stops \<le> length xs \<Longrightarrow> prefix (stopped_from (stop_log xs stops @ next_stop xs stops)) xs"
proof (cases "length stops < length xs")
  case True
  then have "stopped_from (stop_log xs stops @ next_stop xs stops) = take (Suc (length stops)) xs"
    by (simp add: next_stop_def take_Suc_conv_app_nth)
  then show ?thesis by (simp add: take_is_prefix)
qed (simp add: next_stop_def)

lemma stop_log_ends: "StartupFailed i \<notin> set (stop_log xs stops)" "EnterpriseStopped \<notin> set (stop_log xs stops)"
  by (auto simp: stop_log_def stop_pair_def)

lemma boot_log_ends: "StartupFailed i \<notin> set (boot_log xs outs)" "EnterpriseStopped \<notin> set (boot_log xs outs)"
  by (auto simp: boot_log_def boot_pair_def)

lemma phase_stops_reverse:
  assumes "phase_ok r ph"
  shows "prefix (stopped_from (phase_log (boot_order r) ph)) (rev (readied (phase_log (boot_order r) ph)))"
    and "StartupFailed i \<in> set (phase_log (boot_order r) ph) \<or> EnterpriseStopped \<in> set (phase_log (boot_order r) ph) \<Longrightarrow>
      stopped_from (phase_log (boot_order r) ph) = rev (readied (phase_log (boot_order r) ph))"
proof -
  have prog: "prefix (take (length stops) (stop_order order outs) @ stopped_from (next_stop (stop_order order outs) stops))
      (rev (up_modules order outs))" if "length stops < length (stop_order order outs)" for order outs stops
    using stop_progress [of stops "stop_order order outs"] that by (simp add: stop_order_def)
  have nxt: "readied (next_stop xs stops) = []" "StartupFailed i \<notin> set (next_stop xs stops)"
    "EnterpriseStopped \<notin> set (next_stop xs stops)" for xs stops
    by (simp_all add: next_stop_def)
  show "prefix (stopped_from (phase_log (boot_order r) ph)) (rev (readied (phase_log (boot_order r) ph)))"
    using assms prog by (cases ph) (auto simp: stop_order_def nxt split: phase.split)
  show "stopped_from (phase_log (boot_order r) ph) = rev (readied (phase_log (boot_order r) ph))"
    if "StartupFailed i \<in> set (phase_log (boot_order r) ph) \<or> EnterpriseStopped \<in> set (phase_log (boot_order r) ph)"
    using assms that
    by (cases ph) (auto simp: stop_order_def nxt boot_log_ends stop_log_ends split: phase.splits)
qed

section \<open>A module starts after what it depends on\<close>

definition available_in :: "registry \<Rightarrow> lifecycle_event list \<Rightarrow> string \<Rightarrow> bool" where
  "available_in r log j \<longleftrightarrow> ModuleReadyEvent j \<in> set log \<or> \<not> is_required r j \<and> ModuleDegradedEvent j \<in> set log"

definition starts_in_order :: "registry \<Rightarrow> lifecycle_event list \<Rightarrow> bool" where
  "starts_in_order r log \<longleftrightarrow> (\<forall>before i after. log = before @ InitializationStarted i # after \<longrightarrow>
     (\<forall>j \<in> set (requires (descriptors r) i). available_in r before j))"

lemma starts_in_order_snoc:
  "starts_in_order r (log @ [e]) \<longleftrightarrow> starts_in_order r log \<and>
     (\<forall>i. e = InitializationStarted i \<longrightarrow> (\<forall>j \<in> set (requires (descriptors r) i). available_in r log j))"
proof -
  have "log @ [e] = before @ InitializationStarted i # after \<longleftrightarrow>
      (after = [] \<and> before = log \<and> e = InitializationStarted i) \<or>
      (\<exists>rest. after = rest @ [e] \<and> log = before @ InitializationStarted i # rest)" for before i after
    by (cases after rule: rev_cases) auto
  then show ?thesis unfolding starts_in_order_def by (simp only:) blast
qed

lemma starts_in_order_append:
  "starts_in_order r log \<Longrightarrow> (\<And>i. InitializationStarted i \<notin> set tail) \<Longrightarrow> starts_in_order r (log @ tail)"
proof (induction tail rule: rev_induct)
  case (snoc e tail)
  then show ?case using starts_in_order_snoc [of r "log @ tail" e] by fastforce
qed simp

lemma starts_in_order_Nil [simp]: "starts_in_order r []"
  by (simp add: starts_in_order_def)

lemma booted_available:
  assumes "j \<in> set (take (length outs) order)" and "length outs \<le> length order"
    and "\<forall>k < length outs. outs ! k \<or> \<not> is_required r (order ! k)"
  shows "available_in r (StartupRequested # boot_log order outs) j"
proof -
  from assms(1,2) obtain k where k: "k < length outs" "j = order ! k" by (auto simp: in_set_conv_nth)
  with assms(2) have "(j, outs ! k) \<in> set (zip order outs)" by (auto simp: set_zip)
  then have "set (boot_pair (j, outs ! k)) \<subseteq> set (boot_log order outs)"
    unfolding boot_log_def set_concat set_map by blast
  moreover have "outs ! k \<or> \<not> is_required r j" using assms(3) k by simp
  ultimately show ?thesis by (cases "outs ! k") (simp_all add: boot_pair_def available_in_def)
qed

lemma next_start_available:
  assumes "greedy_order (descriptors r) order" and "length outs < length order"
    and "\<forall>k < length outs. outs ! k \<or> \<not> is_required r (order ! k)"
    and "j \<in> set (requires (descriptors r) (order ! length outs))"
  shows "available_in r (StartupRequested # boot_log order outs) j"
  using assms by (intro booted_available) (auto simp: greedy_order_def next_module_def placeable_def)

lemma boot_starts_in_order:
  assumes g: "greedy_order (descriptors r) order"
  shows "length outs \<le> length order \<Longrightarrow> \<forall>k < length outs. outs ! k \<or> \<not> is_required r (order ! k) \<Longrightarrow>
    starts_in_order r (StartupRequested # boot_log order outs)"
proof (induction outs rule: rev_induct)
  case Nil
  show ?case using starts_in_order_append [of r "[]" "[StartupRequested]"] by (simp add: boot_log_def)
next
  case (snoc b outs)
  have old: "\<forall>k < length outs. outs ! k \<or> \<not> is_required r (order ! k)"
  proof (intro allI impI)
    fix k assume "k < length outs"
    with snoc.prems(2) show "outs ! k \<or> \<not> is_required r (order ! k)" by (auto simp: nth_append dest!: spec [of _ k])
  qed
  with snoc have "starts_in_order r (StartupRequested # boot_log order outs)" by simp
  moreover have "available_in r (StartupRequested # boot_log order outs) j"
    if "j \<in> set (requires (descriptors r) (order ! length outs))" for j
    using next_start_available [OF g _ old that] snoc.prems(1) by simp
  ultimately have "starts_in_order r ((StartupRequested # boot_log order outs) @ [InitializationStarted (order ! length outs)])"
    using starts_in_order_snoc [of r "StartupRequested # boot_log order outs" "InitializationStarted (order ! length outs)"] by blast
  note started = starts_in_order_append [OF this, of "[e]" for e]
  show ?case
    using started [of "ModuleReadyEvent (order ! length outs)"] started [of "ModuleDegradedEvent (order ! length outs)"]
      snoc.prems(1)
    by (cases b) (simp_all add: boot_log_snoc boot_pair_def)
qed

lemma no_starts:
  "InitializationStarted i \<notin> set (stop_log xs stops)" "InitializationStarted i \<notin> set (next_stop xs stops)"
  by (auto simp: stop_log_def stop_pair_def next_stop_def)

lemma running_starts_in_order:
  assumes "registry_wf r" and "\<not> isl (resolveInitializationOrder r)" and "length outs \<le> length (boot_order r)"
    and "\<forall>k < length outs. outs ! k \<or> \<not> is_required r (boot_order r ! k)" and "\<And>i. InitializationStarted i \<notin> set tail"
  shows "starts_in_order r (StartupRequested # boot_log (boot_order r) outs @ tail)"
proof -
  from boot_order_facts(3) [OF assms(1,2)] have "greedy_order (descriptors r) (boot_order r)" by simp
  from boot_starts_in_order [OF this assms(3,4)] starts_in_order_append [OF _ assms(5)] show ?thesis by fastforce
qed

lemma booting_starts_in_order:
  assumes "registry_wf r" and "\<not> isl (resolveInitializationOrder r)" and "length outs < length (boot_order r)"
    and "\<forall>k < length outs. outs ! k \<or> \<not> is_required r (boot_order r ! k)" and "\<And>i. InitializationStarted i \<notin> set tail"
  shows "starts_in_order r (StartupRequested # boot_log (boot_order r) outs @ InitializationStarted (boot_order r ! length outs) # tail)"
proof -
  let ?log = "StartupRequested # boot_log (boot_order r) outs"
  have "starts_in_order r ?log" using running_starts_in_order [OF assms(1,2) _ assms(4), of "[]"] assms(3) by simp
  moreover from boot_order_facts(3) [OF assms(1,2)] have "greedy_order (descriptors r) (boot_order r)" by simp
  note next_start_available [OF this assms(3,4)]
  ultimately have "starts_in_order r (?log @ [InitializationStarted (boot_order r ! length outs)])"
    by (simp add: starts_in_order_snoc del: append_Cons)
  from starts_in_order_append [OF this assms(5)] show ?thesis by simp
qed

lemma phase_starts_in_order:
  assumes wf: "registry_wf r" and ok: "phase_ok r ph" and deg: "degraded_ok r ph"
  shows "starts_in_order r (phase_log (boot_order r) ph)"
proof -
  note up = running_starts_in_order [OF wf] and failed = booting_starts_in_order [OF wf] and acyclic = not_cyclic
  have ended: "starts_in_order r [EnterpriseStopped]" using starts_in_order_append [of r "[]" "[EnterpriseStopped]"] by simp
  let ?xs = "\<lambda>outs. stop_order (boot_order r) outs"
  show ?thesis
  proof (cases ph)
    case (Booting outs)
    with ok deg failed [of outs "[]"] acyclic show ?thesis by simp
  next
    case (Running outs)
    with ok deg up [of outs "[EnterpriseReady]"] show ?thesis by simp
  next
    case (Closing outs stops)
    with ok deg show ?thesis
      using up [of outs "EnterpriseReady # ShutdownRequested # stop_log (?xs outs) stops @ next_stop (?xs outs) stops"]
      by (simp add: no_starts)
  next
    case (Backing outs stops)
    with ok deg acyclic show ?thesis
      using failed [of outs "ModuleFailedEvent (boot_order r ! length outs) # stop_log (?xs outs) stops @ next_stop (?xs outs) stops"]
      by (simp add: no_starts)
  next
    case (Aborted outs stops)
    with ok deg acyclic show ?thesis
      using failed [of outs "ModuleFailedEvent (boot_order r ! length outs) # stop_log (?xs outs) stops @
          [StartupFailed (boot_order r ! length outs)]"]
      by (simp add: no_starts)
  next
    case (Closed ph1)
    show ?thesis
    proof (cases ph1)
      case (Closing outs stops)
      with Closed ok deg show ?thesis
        using up [of outs "EnterpriseReady # ShutdownRequested # stop_log (?xs outs) stops @ [EnterpriseStopped]"]
        by (simp add: no_starts)
    next
      case (Aborted outs stops)
      with Closed ok deg acyclic show ?thesis
        using failed [of outs "ModuleFailedEvent (boot_order r ! length outs) # stop_log (?xs outs) stops @
            [StartupFailed (boot_order r ! length outs), EnterpriseStopped]"]
        by (simp add: no_starts)
    qed (use Closed ended in simp_all)
  qed simp_all
qed

lemma host_starts_in_order: "starts_in_order (built ms) (lc_log (host ms evs))"
proof -
  obtain ph jammed states where p: "life_cycle (built ms) evs = (ph, jammed)" "phase_ok (built ms) ph"
    and h: "host ms evs = host_of (built ms) ph jammed states" using host_phase [of ms evs] by blast
  have "degraded_ok (built ms) ph" using degraded_ok_run [of "built ms" evs] p(1) by simp
  from phase_starts_in_order [OF fresh_wf [OF built_fresh] p(2) this] show ?thesis by (simp add: h)
qed

lemma host_stops_reverse:
  "prefix (stopped_from (lc_log (host ms evs))) (rev (readied (lc_log (host ms evs))))"
  "StartupFailed i \<in> set (lc_log (host ms evs)) \<or> EnterpriseStopped \<in> set (lc_log (host ms evs)) \<Longrightarrow>
     stopped_from (lc_log (host ms evs)) = rev (readied (lc_log (host ms evs)))"
  using host_phase [of ms evs] phase_stops_reverse [of "built ms"] by (metis host_of_reads(2))+

section \<open>An example\<close>

definition example_module :: "string \<Rightarrow> criticality \<Rightarrow> string list \<Rightarrow> EnterpriseModuleDescriptor" where
  "example_module i crit deps =
     \<lparr>md_id = i, md_version = ''1.0.0'', md_displayName = None, md_description = None,
      md_dependencies = Some (map (\<lambda>d. \<lparr>dep_moduleId = d, dep_versionRange = Some ''^1.2'', dep_optional = None\<rparr>) deps),
      md_criticality = crit, md_capabilities = None\<rparr>"

definition example_modules :: "EnterpriseModuleDescriptor list" where
  "example_modules =
     [example_module ''api'' RequiredModule [''store'', ''cache''], example_module ''cache'' OptionalModule [''store''],
      example_module ''store'' RequiredModule []]"

lemma example_boot:
  "lc_log (host example_modules [CallStart, Settle True, Settle False, Settle True]) =
     [StartupRequested, InitializationStarted ''store'', ModuleReadyEvent ''store'', InitializationStarted ''cache'',
      ModuleDegradedEvent ''cache'', InitializationStarted ''api'', ModuleReadyEvent ''api'', EnterpriseReady]"
  by code_simp

lemma example_failed:
  "lc_log (host example_modules [CallStart, CallShutdown, Settle True, Settle True, Settle False, Settle True, Settle False]) =
     [StartupRequested, InitializationStarted ''store'', ModuleReadyEvent ''store'', InitializationStarted ''cache'',
      ModuleReadyEvent ''cache'', InitializationStarted ''api'', ModuleFailedEvent ''api'',
      ModuleShutdownStarted ''cache'', ModuleStoppedEvent ''cache'', ModuleShutdownStarted ''store'', StartupFailed ''api'']"
  by code_simp

end
