(* ===== verification/TransferTerms.thy ===== *)
theory TransferTerms
  imports AuthorityLifecycle
begin

text \<open>
  The transfer contract: terms and their containment, validation and text
  (\<open>src/packages/transfer-mandate/src/enterprise-transfer-terms.ts\<close>), and the request
  (\<open>enterprise-transfer-request.ts\<close>).

  The validators take \<open>unknown\<close> values; a value here has its declared type, so the branches for a
  missing field or one of another type do not arise. The issues are the codes, in order.
\<close>

section \<open>Terms\<close>

definition ENTERPRISE_TRANSFER_SCHEMA_VERSION :: string where
  "ENTERPRISE_TRANSFER_SCHEMA_VERSION = ''1.0.0''"

definition ENTERPRISE_TRANSFER_CAPABILITY :: string where
  "ENTERPRISE_TRANSFER_CAPABILITY = ''transfer''"

datatype EnterpriseTransferDisposition = TdProhibited | TdApprovalRequired | TdPermitted

record EnterpriseTransferConstraints =
  tc_partialTransferAllowed :: bool
  tc_onwardTransferAllowed :: EnterpriseTransferDisposition
  tc_recipientAcceptanceRequired :: "bool option"
  tc_considerationEvidenceRequired :: "bool option"
  tc_externalAgreementReferenceRequired :: "bool option"
  tc_permittedRegistries :: "string list option"

record EnterpriseTransferTerms =
  tt_rights :: "GovernedRightType list"
  tt_transferorRef :: string
  tt_transfereeRef :: string
  tt_scope :: GovernedRightsScope
  tt_constraints :: EnterpriseTransferConstraints
  tt_executorRef :: "string option"

section \<open>Values\<close>

definition isTransferNonEmptyString :: "string \<Rightarrow> bool" where
  "isTransferNonEmptyString value \<longleftrightarrow> length value > 0"

text \<open>\<open>Number.isSafeInteger(value) && value > 0\<close>; a quantity is an integer here.\<close>

definition isTransferPositiveInteger :: "int \<Rightarrow> bool" where
  "isTransferPositiveInteger value \<longleftrightarrow> isSafeInteger value \<and> value > 0"

definition isTransferCanonicalIdArray :: "string list \<Rightarrow> bool" where
  "isTransferCanonicalIdArray value \<longleftrightarrow> list_all isTransferNonEmptyString value"

text \<open>\<open>/^\d{4}-\d{2}-\d{2}T\d{2}:\d{2}:\d{2}(\.\d+)?(Z|[+-]\d{2}:\d{2})$/\<close>\<close>

definition skip_fraction :: "string \<Rightarrow> string option" where
  "skip_fraction s =
     (case s of
        CHR ''.'' # r \<Rightarrow> if takeWhile is_digit r = [] then None else Some (dropWhile is_digit r)
      | _ \<Rightarrow> Some s)"

definition offset_suffix :: "string \<Rightarrow> bool" where
  "offset_suffix s \<longleftrightarrow> s = ''Z'' \<or>
     (case s of
        [sign, a, b, c, d, e] \<Rightarrow>
          (sign = CHR ''+'' \<or> sign = CHR ''-'') \<and> is_digit a \<and> is_digit b \<and> c = CHR '':'' \<and> is_digit d \<and> is_digit e
      | _ \<Rightarrow> False)"

definition isTransferTimestamp :: "string \<Rightarrow> bool" where
  "isTransferTimestamp s =
     (case (do {
        (y, s) \<leftarrow> read4 s;
        s \<leftarrow> read_char (CHR ''-'') s;
        (mo, s) \<leftarrow> read2 s;
        s \<leftarrow> read_char (CHR ''-'') s;
        (d, s) \<leftarrow> read2 s;
        s \<leftarrow> read_char (CHR ''T'') s;
        (h, s) \<leftarrow> read2 s;
        s \<leftarrow> read_char (CHR '':'') s;
        (mi, s) \<leftarrow> read2 s;
        s \<leftarrow> read_char (CHR '':'') s;
        (sec, s) \<leftarrow> read2 s;
        skip_fraction s
      }) of None \<Rightarrow> False | Some r \<Rightarrow> offset_suffix r)"

definition sort_strings :: "string list \<Rightarrow> string list" where
  "sort_strings xs = sort_by_id (\<lambda>x. x) xs"

definition transferStringArrayEquals :: "string list \<Rightarrow> string list \<Rightarrow> bool" where
  "transferStringArrayEquals a b \<longleftrightarrow> sort_strings a = sort_strings b"

definition transferOptionalStringArrayEquals :: "string list option \<Rightarrow> string list option \<Rightarrow> bool" where
  "transferOptionalStringArrayEquals a b =
     (case (a, b) of (Some x, Some y) \<Rightarrow> transferStringArrayEquals x y | _ \<Rightarrow> a = None \<and> b = None)"

section \<open>Containment and equality\<close>

fun DISPOSITION_RANK :: "EnterpriseTransferDisposition \<Rightarrow> nat" where
  "DISPOSITION_RANK TdProhibited = 0"
| "DISPOSITION_RANK TdApprovalRequired = 1"
| "DISPOSITION_RANK TdPermitted = 2"

definition dispositionWithin :: "EnterpriseTransferDisposition \<Rightarrow> EnterpriseTransferDisposition \<Rightarrow> bool" where
  "dispositionWithin inner outer \<longleftrightarrow> DISPOSITION_RANK inner \<le> DISPOSITION_RANK outer"

fun labelListWithin :: "string list option \<Rightarrow> string list option \<Rightarrow> bool" where
  "labelListWithin inner None = True"
| "labelListWithin None (Some outer) = False"
| "labelListWithin (Some inner) (Some outer) = list_all (\<lambda>label. label \<in> set outer) inner"

definition enterpriseTransferConstraintsWithin ::
  "EnterpriseTransferConstraints \<Rightarrow> EnterpriseTransferConstraints \<Rightarrow> bool" where
  "enterpriseTransferConstraintsWithin inner outer =
     (if \<not> tc_partialTransferAllowed outer \<and> tc_partialTransferAllowed inner then False
      else if \<not> dispositionWithin (tc_onwardTransferAllowed inner) (tc_onwardTransferAllowed outer) then False
      else if tc_recipientAcceptanceRequired outer = Some True \<and> tc_recipientAcceptanceRequired inner \<noteq> Some True
        then False
      else if tc_considerationEvidenceRequired outer = Some True \<and> tc_considerationEvidenceRequired inner \<noteq> Some True
        then False
      else if tc_externalAgreementReferenceRequired outer = Some True \<and>
              tc_externalAgreementReferenceRequired inner \<noteq> Some True
        then False
      else if \<not> labelListWithin (tc_permittedRegistries inner) (tc_permittedRegistries outer) then False
      else True)"

definition enterpriseTransferConstraintsEquals ::
  "EnterpriseTransferConstraints \<Rightarrow> EnterpriseTransferConstraints \<Rightarrow> bool" where
  "enterpriseTransferConstraintsEquals a b \<longleftrightarrow>
     tc_partialTransferAllowed a = tc_partialTransferAllowed b \<and>
     tc_onwardTransferAllowed a = tc_onwardTransferAllowed b \<and>
     tc_recipientAcceptanceRequired a = tc_recipientAcceptanceRequired b \<and>
     tc_considerationEvidenceRequired a = tc_considerationEvidenceRequired b \<and>
     tc_externalAgreementReferenceRequired a = tc_externalAgreementReferenceRequired b \<and>
     transferOptionalStringArrayEquals (tc_permittedRegistries a) (tc_permittedRegistries b)"

definition enterpriseTransferTermsEquals :: "EnterpriseTransferTerms \<Rightarrow> EnterpriseTransferTerms \<Rightarrow> bool" where
  "enterpriseTransferTermsEquals a b \<longleftrightarrow>
     transferStringArrayEquals (tt_rights a) (tt_rights b) \<and>
     tt_transferorRef a = tt_transferorRef b \<and>
     tt_transfereeRef a = tt_transfereeRef b \<and>
     governedRightsScopeEquals (tt_scope a) (tt_scope b) \<and>
     tt_executorRef a = tt_executorRef b \<and>
     enterpriseTransferConstraintsEquals (tt_constraints a) (tt_constraints b)"

definition enterpriseTransferTermsWithin :: "EnterpriseTransferTerms \<Rightarrow> EnterpriseTransferTerms \<Rightarrow> bool" where
  "enterpriseTransferTermsWithin inner outer \<longleftrightarrow>
     list_all (\<lambda>right. right \<in> set (tt_rights outer)) (tt_rights inner) \<and>
     tt_transferorRef inner = tt_transferorRef outer \<and>
     tt_transfereeRef inner = tt_transfereeRef outer \<and>
     governedRightsScopeWithin (tt_scope inner) (tt_scope outer) \<and>
     tt_executorRef inner = tt_executorRef outer \<and>
     enterpriseTransferConstraintsWithin (tt_constraints inner) (tt_constraints outer)"

section \<open>Validation\<close>

datatype EnterpriseTransferTermsValidationCode =
    INVALID_RIGHTS
  | EMPTY_RIGHTS
  | DUPLICATE_RIGHTS
  | INVALID_TRANSFEROR_REF
  | INVALID_TRANSFEREE_REF
  | TRANSFEROR_IS_TRANSFEREE
  | INVALID_SCOPE_BASIS_POINTS
  | INVALID_SCOPE_UNITS
  | INVALID_SCOPE_UNIT_DENOMINATION
  | INVALID_EXECUTOR_REF
  | EXECUTOR_IS_TRANSFEREE
  | INVALID_PERMITTED_REGISTRIES

fun collectEnterpriseTransferScopeIssues :: "GovernedRightsScope \<Rightarrow> EnterpriseTransferTermsValidationCode list" where
  "collectEnterpriseTransferScopeIssues (Proportional n) =
     (if \<not> isTransferPositiveInteger n \<or> n > GOVERNED_RIGHTS_SCOPE_FULL_BASIS_POINTS
      then [INVALID_SCOPE_BASIS_POINTS] else [])"
| "collectEnterpriseTransferScopeIssues (Unitized n denomination) =
     (if \<not> isTransferPositiveInteger n then [INVALID_SCOPE_UNITS] else []) @
     (if \<not> isTransferNonEmptyString denomination then [INVALID_SCOPE_UNIT_DENOMINATION] else [])"

definition collectConstraintIssues ::
  "EnterpriseTransferConstraints \<Rightarrow> EnterpriseTransferTermsValidationCode list" where
  "collectConstraintIssues c =
     (case tc_permittedRegistries c of
        None \<Rightarrow> []
      | Some labels \<Rightarrow>
          if \<not> isTransferCanonicalIdArray labels \<or> labels = [] then [INVALID_PERMITTED_REGISTRIES]
          else if \<not> distinct labels then [INVALID_PERMITTED_REGISTRIES] else [])"

definition collectEnterpriseTransferTermsIssues ::
  "EnterpriseTransferTerms \<Rightarrow> EnterpriseTransferTermsValidationCode list" where
  "collectEnterpriseTransferTermsIssues t =
     (if \<not> list_all isGovernedRightType (tt_rights t) then [INVALID_RIGHTS]
      else if tt_rights t = [] then [EMPTY_RIGHTS]
      else if \<not> distinct (tt_rights t) then [DUPLICATE_RIGHTS] else []) @
     (if \<not> isTransferNonEmptyString (tt_transferorRef t) then [INVALID_TRANSFEROR_REF] else []) @
     (if \<not> isTransferNonEmptyString (tt_transfereeRef t) then [INVALID_TRANSFEREE_REF] else []) @
     (if isTransferNonEmptyString (tt_transferorRef t) \<and> isTransferNonEmptyString (tt_transfereeRef t) \<and>
         tt_transferorRef t = tt_transfereeRef t
      then [TRANSFEROR_IS_TRANSFEREE] else []) @
     collectEnterpriseTransferScopeIssues (tt_scope t) @
     (case tt_executorRef t of
        None \<Rightarrow> []
      | Some e \<Rightarrow> if \<not> isTransferNonEmptyString e then [INVALID_EXECUTOR_REF]
                  else if e = tt_transfereeRef t then [EXECUTOR_IS_TRANSFEREE] else []) @
     collectConstraintIssues (tt_constraints t)"

section \<open>Text\<close>

text \<open>The serialized form: the lists whose order carries no meaning are sorted.\<close>

definition serializeEnterpriseTransferTerms :: "EnterpriseTransferTerms \<Rightarrow> EnterpriseTransferTerms" where
  "serializeEnterpriseTransferTerms t =
     \<lparr>tt_rights = sort_strings (tt_rights t), tt_transferorRef = tt_transferorRef t,
      tt_transfereeRef = tt_transfereeRef t, tt_scope = serializeGovernedRightsScope (tt_scope t),
      tt_constraints = (tt_constraints t)
        \<lparr>tc_permittedRegistries := map_option sort_strings (tc_permittedRegistries (tt_constraints t))\<rparr>,
      tt_executorRef = tt_executorRef t\<rparr>"

definition readEnterpriseTransferTerms :: "EnterpriseTransferTerms \<Rightarrow> EnterpriseTransferTerms" where
  "readEnterpriseTransferTerms v =
     \<lparr>tt_rights = tt_rights v, tt_transferorRef = tt_transferorRef v, tt_transfereeRef = tt_transfereeRef v,
      tt_scope = serializeGovernedRightsScope (tt_scope v), tt_constraints = tt_constraints v,
      tt_executorRef = tt_executorRef v\<rparr>"

section \<open>Requests\<close>

record TransferResourceRef =
  ta_kind :: string
  ta_id :: string
  ta_tenantId :: "string option"

record EnterpriseTransferRequest =
  tr_schemaVersion :: string
  tr_id :: string
  tr_capability :: string
  tr_asset :: TransferResourceRef
  tr_requestedBy :: string
  tr_terms :: EnterpriseTransferTerms
  tr_requestedAt :: string
  tr_correlationId :: string
  tr_requestedExpiresAt :: "string option"
  tr_justification :: "string option"
  tr_evidenceRefs :: "string list option"

datatype EnterpriseTransferRequestValidationCode =
    RvUnsupportedSchemaVersion
  | RvInvalidId
  | RvCapabilityMismatch
  | RvInvalidAsset
  | RvInvalidRequestedBy
  | RvTerms EnterpriseTransferTermsValidationCode
  | RvInvalidRequestedAt
  | RvInvalidRequestedExpiresAt
  | RvMissingCorrelationId
  | RvInvalidJustification
  | RvInvalidEvidenceRefs

definition validateEnterpriseTransferRequest ::
  "EnterpriseTransferRequest \<Rightarrow> EnterpriseTransferRequestValidationCode list" where
  "validateEnterpriseTransferRequest q =
     (if tr_schemaVersion q \<noteq> ENTERPRISE_TRANSFER_SCHEMA_VERSION then [RvUnsupportedSchemaVersion] else []) @
     (if \<not> isTransferNonEmptyString (tr_id q) then [RvInvalidId] else []) @
     (if tr_capability q \<noteq> ENTERPRISE_TRANSFER_CAPABILITY then [RvCapabilityMismatch] else []) @
     (if \<not> isTransferNonEmptyString (ta_kind (tr_asset q)) \<or> \<not> isTransferNonEmptyString (ta_id (tr_asset q))
      then [RvInvalidAsset] else []) @
     (if \<not> isTransferNonEmptyString (tr_requestedBy q) then [RvInvalidRequestedBy] else []) @
     map RvTerms (collectEnterpriseTransferTermsIssues (tr_terms q)) @
     (if \<not> isTransferTimestamp (tr_requestedAt q) then [RvInvalidRequestedAt] else []) @
     (case tr_requestedExpiresAt q of
        None \<Rightarrow> [] | Some at \<Rightarrow> if \<not> isTransferTimestamp at then [RvInvalidRequestedExpiresAt] else []) @
     (if \<not> isTransferNonEmptyString (tr_correlationId q) then [RvMissingCorrelationId] else []) @
     (case tr_justification q of
        None \<Rightarrow> [] | Some j \<Rightarrow> if \<not> isTransferNonEmptyString j then [RvInvalidJustification] else []) @
     (case tr_evidenceRefs q of
        None \<Rightarrow> [] | Some refs \<Rightarrow> if \<not> isTransferCanonicalIdArray refs then [RvInvalidEvidenceRefs] else [])"

end
