(* ===== verification/TransferMandate.thy ===== *)
theory TransferMandate
  imports TransferTerms
begin

text \<open>
  The transfer mandate and the one place that decides whether it authorizes a concrete movement:
  \<open>src/packages/transfer-mandate/src/enterprise-transfer-mandate.ts\<close>. Instants are read by
  \<open>Date.parse\<close> on strict UTC timestamps, the only ones the store lets through to these functions.
\<close>

datatype EnterpriseTransferMandateStatus = TmActive | TmRevoked

record EnterpriseTransferMandate =
  tm_schemaVersion :: string
  tm_id :: string
  tm_status :: EnterpriseTransferMandateStatus
  tm_asset :: TransferResourceRef
  tm_terms :: EnterpriseTransferTerms
  tm_requestRef :: string
  tm_requestedBy :: string
  tm_decisionRef :: string
  tm_effectiveFrom :: string
  tm_expiresAt :: string
  tm_correlationId :: string
  tm_evaluationRef :: "string option"
  tm_issuerRef :: "string option"
  tm_approvalRefs :: "string list option"
  tm_obligationRefs :: "string list option"
  tm_evidenceRefs :: "string list option"
  tm_auditRefs :: "string list option"

record EnterpriseTransferExerciseAttempt =
  at_executedBy :: string
  at_transferorRef :: string
  at_transfereeRef :: string
  at_rights :: "GovernedRightType list"
  at_scope :: GovernedRightsScope
  at_at :: string
  at_alreadyTransferredScope :: "GovernedRightsScope option"
  at_registry :: "string option"
  at_hasRecipientAcceptance :: bool
  at_hasConsiderationEvidence :: bool
  at_hasExternalAgreementReference :: bool
  at_priorExecutionCount :: int

datatype EnterpriseTransferRefusalCode =
    INVALID_EXERCISE_INSTANT
  | MANDATE_REVOKED
  | MANDATE_NOT_YET_EFFECTIVE
  | MANDATE_EXPIRED
  | EXECUTOR_NOT_AUTHORIZED
  | TRANSFEROR_NOT_AUTHORIZED
  | TRANSFEREE_NOT_AUTHORIZED
  | RIGHTS_NOT_AUTHORIZED
  | SCOPE_EXCEEDS_MANDATE
  | PARTIAL_TRANSFER_PROHIBITED
  | CUMULATIVE_SCOPE_EXCEEDS_MANDATE
  | REGISTRY_NOT_PERMITTED
  | RECIPIENT_ACCEPTANCE_REQUIRED
  | CONSIDERATION_EVIDENCE_REQUIRED
  | EXTERNAL_AGREEMENT_REFERENCE_REQUIRED

section \<open>Authorization\<close>

text \<open>The checks in their order; \<open>Inr\<close> is \<open>authorized: true\<close>.\<close>

definition exerciseInstant :: "EnterpriseTransferMandate \<Rightarrow> string \<Rightarrow> EnterpriseTransferRefusalCode + unit" where
  "exerciseInstant m at =
     (if Date_parse at = None then Inl INVALID_EXERCISE_INSTANT
      else if instant_lt at (tm_effectiveFrom m) then Inl MANDATE_NOT_YET_EFFECTIVE
      else if instant_ge at (tm_expiresAt m) then Inl MANDATE_EXPIRED
      else Inr ())"

definition exerciseParties ::
  "EnterpriseTransferTerms \<Rightarrow> EnterpriseTransferExerciseAttempt \<Rightarrow> EnterpriseTransferRefusalCode + unit" where
  "exerciseParties terms exercise =
     (if tt_executorRef terms \<noteq> None \<and> tt_executorRef terms \<noteq> Some (at_executedBy exercise)
        then Inl EXECUTOR_NOT_AUTHORIZED
      else if at_transferorRef exercise \<noteq> tt_transferorRef terms then Inl TRANSFEROR_NOT_AUTHORIZED
      else if at_transfereeRef exercise \<noteq> tt_transfereeRef terms then Inl TRANSFEREE_NOT_AUTHORIZED
      else if find (\<lambda>right. right \<notin> set (tt_rights terms)) (at_rights exercise) \<noteq> None \<or> length (at_rights exercise) = 0
        then Inl RIGHTS_NOT_AUTHORIZED
      else Inr ())"

definition exercisePartiality ::
  "EnterpriseTransferTerms \<Rightarrow> EnterpriseTransferExerciseAttempt \<Rightarrow> EnterpriseTransferRefusalCode + unit" where
  "exercisePartiality terms exercise =
     (if \<not> tc_partialTransferAllowed (tt_constraints terms) then
        if at_priorExecutionCount exercise > 0 then Inl PARTIAL_TRANSFER_PROHIBITED
        else if \<not> governedRightsScopeEquals (at_scope exercise) (tt_scope terms) then Inl PARTIAL_TRANSFER_PROHIBITED
        else Inr ()
      else Inr ())"

definition exerciseCumulative ::
  "EnterpriseTransferTerms \<Rightarrow> EnterpriseTransferExerciseAttempt \<Rightarrow> EnterpriseTransferRefusalCode + unit" where
  "exerciseCumulative terms exercise =
     (case at_alreadyTransferredScope exercise of
        None \<Rightarrow> Inr ()
      | Some already \<Rightarrow>
          (case governedRightsScopeSum already (at_scope exercise) of
             None \<Rightarrow> Inl CUMULATIVE_SCOPE_EXCEEDS_MANDATE
           | Some whole \<Rightarrow>
               if \<not> governedRightsScopeWithin whole (tt_scope terms) then Inl CUMULATIVE_SCOPE_EXCEEDS_MANDATE
               else Inr ()))"

definition exerciseEvidence ::
  "EnterpriseTransferConstraints \<Rightarrow> EnterpriseTransferExerciseAttempt \<Rightarrow> EnterpriseTransferRefusalCode + unit" where
  "exerciseEvidence constraints exercise =
     (if (case tc_permittedRegistries constraints of
            None \<Rightarrow> False
          | Some registries \<Rightarrow>
              (case at_registry exercise of None \<Rightarrow> True | Some registry \<Rightarrow> registry \<notin> set registries))
        then Inl REGISTRY_NOT_PERMITTED
      else if tc_recipientAcceptanceRequired constraints = Some True \<and> \<not> at_hasRecipientAcceptance exercise
        then Inl RECIPIENT_ACCEPTANCE_REQUIRED
      else if tc_considerationEvidenceRequired constraints = Some True \<and> \<not> at_hasConsiderationEvidence exercise
        then Inl CONSIDERATION_EVIDENCE_REQUIRED
      else if tc_externalAgreementReferenceRequired constraints = Some True \<and>
              \<not> at_hasExternalAgreementReference exercise
        then Inl EXTERNAL_AGREEMENT_REFERENCE_REQUIRED
      else Inr ())"

definition enterpriseTransferMandateAuthorizes ::
  "EnterpriseTransferMandate \<Rightarrow> EnterpriseTransferExerciseAttempt \<Rightarrow> EnterpriseTransferRefusalCode + unit" where
  "enterpriseTransferMandateAuthorizes mandate exercise =
     (if tm_status mandate = TmRevoked then Inl MANDATE_REVOKED
      else
        rbind (exerciseInstant mandate (at_at exercise)) (\<lambda>_.
        rbind (exerciseParties (tm_terms mandate) exercise) (\<lambda>_.
          if \<not> governedRightsScopeWithin (at_scope exercise) (tt_scope (tm_terms mandate)) then Inl SCOPE_EXCEEDS_MANDATE
          else
            rbind (exercisePartiality (tm_terms mandate) exercise) (\<lambda>_.
            rbind (exerciseCumulative (tm_terms mandate) exercise) (\<lambda>_.
              exerciseEvidence (tt_constraints (tm_terms mandate)) exercise)))))"

section \<open>Validation\<close>

datatype EnterpriseTransferMandateValidationCode =
    MvUnsupportedSchemaVersion
  | MvInvalidId
  | MvInvalidAsset
  | MvTerms EnterpriseTransferTermsValidationCode
  | MvMissingRequestRef
  | MvMissingRequestedBy
  | MvMissingDecisionRef
  | MvInvalidEffectiveFrom
  | MvInvalidExpiresAt
  | MvExpiryNotAfterEffectiveFrom
  | MvMissingCorrelationId
  | MvInvalidEvaluationRef
  | MvInvalidIssuerRef
  | MvInvalidApprovalRefs
  | MvInvalidObligationRefs
  | MvInvalidEvidenceRefs
  | MvInvalidAuditRefs

fun optional_text :: "'c \<Rightarrow> string option \<Rightarrow> 'c list" where
  "optional_text code None = []"
| "optional_text code (Some v) = (if \<not> isTransferNonEmptyString v then [code] else [])"

fun optional_refs :: "'c \<Rightarrow> string list option \<Rightarrow> 'c list" where
  "optional_refs code None = []"
| "optional_refs code (Some v) = (if \<not> isTransferCanonicalIdArray v then [code] else [])"

definition validateEnterpriseTransferMandate ::
  "EnterpriseTransferMandate \<Rightarrow> EnterpriseTransferMandateValidationCode list" where
  "validateEnterpriseTransferMandate m =
     (if tm_schemaVersion m \<noteq> ENTERPRISE_TRANSFER_SCHEMA_VERSION then [MvUnsupportedSchemaVersion] else []) @
     (if \<not> isTransferNonEmptyString (tm_id m) then [MvInvalidId] else []) @
     (if \<not> isTransferNonEmptyString (ta_kind (tm_asset m)) \<or> \<not> isTransferNonEmptyString (ta_id (tm_asset m))
      then [MvInvalidAsset] else []) @
     map MvTerms (collectEnterpriseTransferTermsIssues (tm_terms m)) @
     (if \<not> isTransferNonEmptyString (tm_requestRef m) then [MvMissingRequestRef] else []) @
     (if \<not> isTransferNonEmptyString (tm_requestedBy m) then [MvMissingRequestedBy] else []) @
     (if \<not> isTransferNonEmptyString (tm_decisionRef m) then [MvMissingDecisionRef] else []) @
     (if \<not> isTransferTimestamp (tm_effectiveFrom m) then [MvInvalidEffectiveFrom] else []) @
     (if \<not> isTransferTimestamp (tm_expiresAt m) then [MvInvalidExpiresAt] else []) @
     (if isTransferTimestamp (tm_effectiveFrom m) \<and> isTransferTimestamp (tm_expiresAt m) \<and>
         instant_ge (tm_effectiveFrom m) (tm_expiresAt m)
      then [MvExpiryNotAfterEffectiveFrom] else []) @
     (if \<not> isTransferNonEmptyString (tm_correlationId m) then [MvMissingCorrelationId] else []) @
     optional_text MvInvalidEvaluationRef (tm_evaluationRef m) @
     optional_text MvInvalidIssuerRef (tm_issuerRef m) @
     optional_refs MvInvalidApprovalRefs (tm_approvalRefs m) @
     optional_refs MvInvalidObligationRefs (tm_obligationRefs m) @
     optional_refs MvInvalidEvidenceRefs (tm_evidenceRefs m) @
     optional_refs MvInvalidAuditRefs (tm_auditRefs m)"

section \<open>Text and equality\<close>

definition serializeEnterpriseTransferMandate :: "EnterpriseTransferMandate \<Rightarrow> EnterpriseTransferMandate" where
  "serializeEnterpriseTransferMandate m =
     m\<lparr>tm_terms := serializeEnterpriseTransferTerms (tm_terms m),
       tm_approvalRefs := map_option sort_strings (tm_approvalRefs m),
       tm_obligationRefs := map_option sort_strings (tm_obligationRefs m),
       tm_evidenceRefs := map_option sort_strings (tm_evidenceRefs m),
       tm_auditRefs := map_option sort_strings (tm_auditRefs m)\<rparr>"

definition deserializeEnterpriseTransferMandate ::
  "EnterpriseTransferMandate \<Rightarrow> EnterpriseTransferMandateValidationCode list + EnterpriseTransferMandate" where
  "deserializeEnterpriseTransferMandate candidate =
     (if validateEnterpriseTransferMandate candidate \<noteq> [] then Inl (validateEnterpriseTransferMandate candidate)
      else Inr (candidate\<lparr>tm_schemaVersion := ENTERPRISE_TRANSFER_SCHEMA_VERSION,
                          tm_terms := readEnterpriseTransferTerms (tm_terms candidate)\<rparr>))"

end
