(* ===== verification/CollateralTerms.thy ===== *)
theory CollateralTerms
  imports TransferMandate
begin

text \<open>
  The collateralization contract of \<open>src/packages/collateralization-mandate/src\<close>: terms, their
  containment, validation and text (\<open>enterprise-collateralization-terms.ts\<close>), the request, the mandate
  and the decision whether it authorizes a concrete arrangement. Values have their declared types, so
  the validators' branches for values of another type do not arise; the issues are the codes, in
  order. A resource reference and the status of a mandate are the ones of the transfer contract, as
  in the code. Names the transfer contract has too carry the suffix \<open>_collateral\<close>.
\<close>

section \<open>Terms\<close>

definition ENTERPRISE_COLLATERALIZATION_SCHEMA_VERSION :: string where
  "ENTERPRISE_COLLATERALIZATION_SCHEMA_VERSION = ''1.0.0''"

definition ENTERPRISE_COLLATERALIZE_CAPABILITY :: string where
  "ENTERPRISE_COLLATERALIZE_CAPABILITY = ''collateralize''"

record EnterpriseSecuredAmount =
  sa_minorUnits :: int
  sa_currency :: string

record EnterpriseCollateralizationConstraints =
  cc_maximumSecuredAmount :: "EnterpriseSecuredAmount option"
  cc_permittedJurisdictions :: "string list option"
  cc_permittedRegistries :: "string list option"
  cc_requiredPriorityRank :: "int option"
  cc_exclusive :: "bool option"
  cc_releaseEvidenceRequired :: "bool option"
  cc_additionalCollateralizationAllowed :: bool

record EnterpriseCollateralizationTerms =
  ct_rights :: "GovernedRightType list"
  ct_scope :: GovernedRightsScope
  ct_securedObligationRef :: string
  ct_securedObligationKind :: "string option"
  ct_securedPartyRef :: string
  ct_executorRef :: string
  ct_constraints :: EnterpriseCollateralizationConstraints

section \<open>Values\<close>

definition isCollateralizationNonEmptyString :: "string \<Rightarrow> bool" where
  "isCollateralizationNonEmptyString value \<longleftrightarrow> length value > 0"

text \<open>The pattern is the one of the transfer contract.\<close>

definition isCollateralizationTimestamp :: "string \<Rightarrow> bool" where
  "isCollateralizationTimestamp value = isTransferTimestamp value"

definition isCollateralizationPositiveInteger :: "int \<Rightarrow> bool" where
  "isCollateralizationPositiveInteger value \<longleftrightarrow> isSafeInteger value \<and> value > 0"

definition isCollateralizationCanonicalIdArray :: "string list \<Rightarrow> bool" where
  "isCollateralizationCanonicalIdArray value \<longleftrightarrow> list_all isCollateralizationNonEmptyString value"

definition collateralizationStringArrayEquals :: "string list \<Rightarrow> string list \<Rightarrow> bool" where
  "collateralizationStringArrayEquals a b \<longleftrightarrow> sort_strings a = sort_strings b"

definition collateralizationOptionalStringArrayEquals :: "string list option \<Rightarrow> string list option \<Rightarrow> bool" where
  "collateralizationOptionalStringArrayEquals a b =
     (case (a, b) of (Some x, Some y) \<Rightarrow> collateralizationStringArrayEquals x y | _ \<Rightarrow> a = None \<and> b = None)"

definition isEnterpriseSecuredAmount :: "EnterpriseSecuredAmount \<Rightarrow> bool" where
  "isEnterpriseSecuredAmount value \<longleftrightarrow>
     isSafeInteger (sa_minorUnits value) \<and> sa_minorUnits value \<ge> 0 \<and>
     isCollateralizationNonEmptyString (sa_currency value)"

definition enterpriseSecuredAmountEquals ::
  "EnterpriseSecuredAmount option \<Rightarrow> EnterpriseSecuredAmount option \<Rightarrow> bool" where
  "enterpriseSecuredAmountEquals a b =
     (case (a, b) of
        (Some x, Some y) \<Rightarrow> sa_minorUnits x = sa_minorUnits y \<and> sa_currency x = sa_currency y
      | _ \<Rightarrow> a = None \<and> b = None)"

definition enterpriseSecuredAmountWithin :: "EnterpriseSecuredAmount \<Rightarrow> EnterpriseSecuredAmount \<Rightarrow> bool" where
  "enterpriseSecuredAmountWithin inner outer \<longleftrightarrow>
     sa_currency inner = sa_currency outer \<and> sa_minorUnits inner \<le> sa_minorUnits outer"

section \<open>Containment and equality\<close>

fun labelListWithin_collateral :: "string list option \<Rightarrow> string list option \<Rightarrow> bool" where
  "labelListWithin_collateral inner None = True"
| "labelListWithin_collateral None (Some outer) = False"
| "labelListWithin_collateral (Some inner) (Some outer) = list_all (\<lambda>label. label \<in> set outer) inner"

definition enterpriseCollateralizationConstraintsWithin ::
  "EnterpriseCollateralizationConstraints \<Rightarrow> EnterpriseCollateralizationConstraints \<Rightarrow> bool" where
  "enterpriseCollateralizationConstraintsWithin inner outer =
     (if (case cc_maximumSecuredAmount outer of
            None \<Rightarrow> False
          | Some o' \<Rightarrow> (case cc_maximumSecuredAmount inner of
                          None \<Rightarrow> True | Some i \<Rightarrow> \<not> enterpriseSecuredAmountWithin i o'))
        then False
      else if \<not> labelListWithin_collateral (cc_permittedJurisdictions inner) (cc_permittedJurisdictions outer) then False
      else if \<not> labelListWithin_collateral (cc_permittedRegistries inner) (cc_permittedRegistries outer) then False
      else if (case cc_requiredPriorityRank outer of
                 None \<Rightarrow> False
               | Some o' \<Rightarrow> (case cc_requiredPriorityRank inner of None \<Rightarrow> True | Some i \<Rightarrow> i > o'))
        then False
      else if cc_exclusive outer = Some True \<and> cc_exclusive inner \<noteq> Some True then False
      else if cc_releaseEvidenceRequired outer = Some True \<and> cc_releaseEvidenceRequired inner \<noteq> Some True then False
      else if \<not> cc_additionalCollateralizationAllowed outer \<and> cc_additionalCollateralizationAllowed inner then False
      else True)"

definition enterpriseCollateralizationConstraintsEquals ::
  "EnterpriseCollateralizationConstraints \<Rightarrow> EnterpriseCollateralizationConstraints \<Rightarrow> bool" where
  "enterpriseCollateralizationConstraintsEquals a b \<longleftrightarrow>
     enterpriseSecuredAmountEquals (cc_maximumSecuredAmount a) (cc_maximumSecuredAmount b) \<and>
     collateralizationOptionalStringArrayEquals (cc_permittedJurisdictions a) (cc_permittedJurisdictions b) \<and>
     collateralizationOptionalStringArrayEquals (cc_permittedRegistries a) (cc_permittedRegistries b) \<and>
     cc_requiredPriorityRank a = cc_requiredPriorityRank b \<and> cc_exclusive a = cc_exclusive b \<and>
     cc_releaseEvidenceRequired a = cc_releaseEvidenceRequired b \<and>
     cc_additionalCollateralizationAllowed a = cc_additionalCollateralizationAllowed b"

definition enterpriseCollateralizationTermsEquals ::
  "EnterpriseCollateralizationTerms \<Rightarrow> EnterpriseCollateralizationTerms \<Rightarrow> bool" where
  "enterpriseCollateralizationTermsEquals a b \<longleftrightarrow>
     collateralizationStringArrayEquals (ct_rights a) (ct_rights b) \<and>
     governedRightsScopeEquals (ct_scope a) (ct_scope b) \<and>
     ct_securedObligationRef a = ct_securedObligationRef b \<and>
     ct_securedObligationKind a = ct_securedObligationKind b \<and>
     ct_securedPartyRef a = ct_securedPartyRef b \<and> ct_executorRef a = ct_executorRef b \<and>
     enterpriseCollateralizationConstraintsEquals (ct_constraints a) (ct_constraints b)"

definition enterpriseCollateralizationTermsWithin ::
  "EnterpriseCollateralizationTerms \<Rightarrow> EnterpriseCollateralizationTerms \<Rightarrow> bool" where
  "enterpriseCollateralizationTermsWithin inner outer \<longleftrightarrow>
     list_all (\<lambda>right. right \<in> set (ct_rights outer)) (ct_rights inner) \<and>
     governedRightsScopeWithin (ct_scope inner) (ct_scope outer) \<and>
     ct_securedObligationRef inner = ct_securedObligationRef outer \<and>
     ct_securedObligationKind inner = ct_securedObligationKind outer \<and>
     ct_securedPartyRef inner = ct_securedPartyRef outer \<and>
     ct_executorRef inner = ct_executorRef outer \<and>
     enterpriseCollateralizationConstraintsWithin (ct_constraints inner) (ct_constraints outer)"

section \<open>Validation\<close>

datatype EnterpriseCollateralizationTermsValidationCode =
    CtInvalidRights
  | CtEmptyRights
  | CtDuplicateRights
  | CtInvalidScopeBasisPoints
  | CtInvalidScopeUnits
  | CtInvalidScopeUnitDenomination
  | CtInvalidSecuredObligationRef
  | CtInvalidSecuredObligationKind
  | CtInvalidSecuredPartyRef
  | CtInvalidExecutorRef
  | CtInvalidMaximumSecuredAmount
  | CtInvalidPermittedJurisdictions
  | CtInvalidPermittedRegistries
  | CtInvalidRequiredPriorityRank

fun collectEnterpriseCollateralizationScopeIssues ::
  "GovernedRightsScope \<Rightarrow> EnterpriseCollateralizationTermsValidationCode list" where
  "collectEnterpriseCollateralizationScopeIssues (Proportional n) =
     (if \<not> isCollateralizationPositiveInteger n \<or> n > GOVERNED_RIGHTS_SCOPE_FULL_BASIS_POINTS
      then [CtInvalidScopeBasisPoints] else [])"
| "collectEnterpriseCollateralizationScopeIssues (Unitized n denomination) =
     (if \<not> isCollateralizationPositiveInteger n then [CtInvalidScopeUnits] else []) @
     (if \<not> isCollateralizationNonEmptyString denomination then [CtInvalidScopeUnitDenomination] else [])"

definition label_issue ::
  "EnterpriseCollateralizationTermsValidationCode \<Rightarrow> string list option \<Rightarrow>
     EnterpriseCollateralizationTermsValidationCode list" where
  "label_issue code labels =
     (case labels of
        None \<Rightarrow> []
      | Some v \<Rightarrow> if \<not> isCollateralizationCanonicalIdArray v \<or> length v = 0 then [code] else [])"

definition collectConstraintIssues_collateral ::
  "EnterpriseCollateralizationConstraints \<Rightarrow> EnterpriseCollateralizationTermsValidationCode list" where
  "collectConstraintIssues_collateral c =
     (case cc_maximumSecuredAmount c of
        None \<Rightarrow> [] | Some v \<Rightarrow> if \<not> isEnterpriseSecuredAmount v then [CtInvalidMaximumSecuredAmount] else []) @
     label_issue CtInvalidPermittedJurisdictions (cc_permittedJurisdictions c) @
     label_issue CtInvalidPermittedRegistries (cc_permittedRegistries c) @
     (case cc_requiredPriorityRank c of
        None \<Rightarrow> []
      | Some v \<Rightarrow> if \<not> isCollateralizationPositiveInteger v then [CtInvalidRequiredPriorityRank] else [])"

definition collectEnterpriseCollateralizationTermsIssues ::
  "EnterpriseCollateralizationTerms \<Rightarrow> EnterpriseCollateralizationTermsValidationCode list" where
  "collectEnterpriseCollateralizationTermsIssues t =
     (if \<not> list_all isGovernedRightType (ct_rights t) then [CtInvalidRights]
      else if length (ct_rights t) = 0 then [CtEmptyRights]
      else if \<not> distinct (ct_rights t) then [CtDuplicateRights] else []) @
     collectEnterpriseCollateralizationScopeIssues (ct_scope t) @
     (if \<not> isCollateralizationNonEmptyString (ct_securedObligationRef t) then [CtInvalidSecuredObligationRef] else []) @
     (case ct_securedObligationKind t of
        None \<Rightarrow> []
      | Some k \<Rightarrow> if \<not> isCollateralizationNonEmptyString k then [CtInvalidSecuredObligationKind] else []) @
     (if \<not> isCollateralizationNonEmptyString (ct_securedPartyRef t) then [CtInvalidSecuredPartyRef] else []) @
     (if \<not> isCollateralizationNonEmptyString (ct_executorRef t) then [CtInvalidExecutorRef] else []) @
     collectConstraintIssues_collateral (ct_constraints t)"

section \<open>Text\<close>

definition serializeEnterpriseCollateralizationTerms ::
  "EnterpriseCollateralizationTerms \<Rightarrow> EnterpriseCollateralizationTerms" where
  "serializeEnterpriseCollateralizationTerms t =
     t\<lparr>ct_rights := sort_strings (ct_rights t), ct_scope := serializeGovernedRightsScope (ct_scope t),
       ct_constraints := (ct_constraints t)
         \<lparr>cc_permittedJurisdictions := map_option sort_strings (cc_permittedJurisdictions (ct_constraints t)),
          cc_permittedRegistries := map_option sort_strings (cc_permittedRegistries (ct_constraints t))\<rparr>\<rparr>"

definition readEnterpriseCollateralizationTerms ::
  "EnterpriseCollateralizationTerms \<Rightarrow> EnterpriseCollateralizationTerms" where
  "readEnterpriseCollateralizationTerms v = v\<lparr>ct_scope := serializeGovernedRightsScope (ct_scope v)\<rparr>"

section \<open>Requests\<close>

record EnterpriseCollateralizationRequest =
  cr_schemaVersion :: string
  cr_id :: string
  cr_capability :: string
  cr_asset :: TransferResourceRef
  cr_requestedBy :: string
  cr_terms :: EnterpriseCollateralizationTerms
  cr_requestedAt :: string
  cr_correlationId :: string
  cr_requestedExpiresAt :: "string option"
  cr_justification :: "string option"
  cr_evidenceRefs :: "string list option"

datatype EnterpriseCollateralizationRequestValidationCode =
    CqUnsupportedSchemaVersion
  | CqInvalidId
  | CqCapabilityMismatch
  | CqInvalidAsset
  | CqInvalidRequestedBy
  | CqTerms EnterpriseCollateralizationTermsValidationCode
  | CqInvalidRequestedAt
  | CqInvalidRequestedExpiresAt
  | CqMissingCorrelationId
  | CqInvalidJustification
  | CqInvalidEvidenceRefs

definition validateEnterpriseCollateralizationRequest ::
  "EnterpriseCollateralizationRequest \<Rightarrow> EnterpriseCollateralizationRequestValidationCode list" where
  "validateEnterpriseCollateralizationRequest q =
     (if cr_schemaVersion q \<noteq> ENTERPRISE_COLLATERALIZATION_SCHEMA_VERSION then [CqUnsupportedSchemaVersion] else []) @
     (if \<not> isCollateralizationNonEmptyString (cr_id q) then [CqInvalidId] else []) @
     (if cr_capability q \<noteq> ENTERPRISE_COLLATERALIZE_CAPABILITY then [CqCapabilityMismatch] else []) @
     (if \<not> isCollateralizationNonEmptyString (ta_kind (cr_asset q)) \<or>
         \<not> isCollateralizationNonEmptyString (ta_id (cr_asset q)) then [CqInvalidAsset] else []) @
     (if \<not> isCollateralizationNonEmptyString (cr_requestedBy q) then [CqInvalidRequestedBy] else []) @
     map CqTerms (collectEnterpriseCollateralizationTermsIssues (cr_terms q)) @
     (if \<not> isCollateralizationTimestamp (cr_requestedAt q) then [CqInvalidRequestedAt] else []) @
     (case cr_requestedExpiresAt q of
        None \<Rightarrow> [] | Some at \<Rightarrow> if \<not> isCollateralizationTimestamp at then [CqInvalidRequestedExpiresAt] else []) @
     (if \<not> isCollateralizationNonEmptyString (cr_correlationId q) then [CqMissingCorrelationId] else []) @
     (case cr_justification q of
        None \<Rightarrow> [] | Some j \<Rightarrow> if \<not> isCollateralizationNonEmptyString j then [CqInvalidJustification] else []) @
     (case cr_evidenceRefs q of
        None \<Rightarrow> [] | Some refs \<Rightarrow> if \<not> isCollateralizationCanonicalIdArray refs then [CqInvalidEvidenceRefs] else [])"

definition serializeEnterpriseCollateralizationRequest ::
  "EnterpriseCollateralizationRequest \<Rightarrow> EnterpriseCollateralizationRequest" where
  "serializeEnterpriseCollateralizationRequest q =
     q\<lparr>cr_terms := serializeEnterpriseCollateralizationTerms (cr_terms q),
       cr_evidenceRefs := map_option sort_strings (cr_evidenceRefs q)\<rparr>"

definition deserializeEnterpriseCollateralizationRequest ::
  "EnterpriseCollateralizationRequest \<Rightarrow>
     EnterpriseCollateralizationRequestValidationCode list + EnterpriseCollateralizationRequest" where
  "deserializeEnterpriseCollateralizationRequest candidate =
     (if validateEnterpriseCollateralizationRequest candidate \<noteq> []
      then Inl (validateEnterpriseCollateralizationRequest candidate)
      else Inr (candidate\<lparr>cr_schemaVersion := ENTERPRISE_COLLATERALIZATION_SCHEMA_VERSION,
                          cr_capability := ENTERPRISE_COLLATERALIZE_CAPABILITY,
                          cr_terms := readEnterpriseCollateralizationTerms (cr_terms candidate)\<rparr>))"

end
