(* ===== verification/CollateralMandate.thy ===== *)
theory CollateralMandate
  imports CollateralTerms
begin

text \<open>
  The collateralization mandate and whether it authorizes a concrete arrangement:
  \<open>src/packages/collateralization-mandate/src/enterprise-collateralization-mandate.ts\<close>. Instants are
  read by \<open>Date.parse\<close> on strict UTC timestamps, the only ones the store lets through.
\<close>

type_synonym EnterpriseCollateralizationMandateStatus = EnterpriseTransferMandateStatus

record EnterpriseCollateralizationMandate =
  cm_schemaVersion :: string
  cm_id :: string
  cm_status :: EnterpriseCollateralizationMandateStatus
  cm_asset :: TransferResourceRef
  cm_terms :: EnterpriseCollateralizationTerms
  cm_requestRef :: string
  cm_requestedBy :: string
  cm_decisionRef :: string
  cm_effectiveFrom :: string
  cm_expiresAt :: string
  cm_correlationId :: string
  cm_evaluationRef :: "string option"
  cm_issuerRef :: "string option"
  cm_approvalRefs :: "string list option"
  cm_obligationRefs :: "string list option"
  cm_evidenceRefs :: "string list option"
  cm_auditRefs :: "string list option"

record EnterpriseCollateralizationExerciseAttempt =
  ca_executorRef :: string
  ca_securedObligationRef :: string
  ca_securedPartyRef :: string
  ca_rights :: "GovernedRightType list"
  ca_scope :: GovernedRightsScope
  ca_at :: string
  ca_alreadyCommittedScope :: "GovernedRightsScope option"
  ca_priorExecutionCount :: int
  ca_securedAmount :: "EnterpriseSecuredAmount option"
  ca_externalRegistry :: "string option"
  ca_jurisdiction :: "string option"
  ca_priorityRank :: "int option"

datatype EnterpriseCollateralizationRefusalCode =
    CrInvalidExerciseInstant
  | CrMandateRevoked
  | CrMandateNotYetEffective
  | CrMandateExpired
  | CrExecutorNotAuthorized
  | CrSecuredObligationNotAuthorized
  | CrSecuredPartyNotAuthorized
  | CrRightsNotAuthorized
  | CrScopeExceedsMandate
  | CrCumulativeScopeExceedsMandate
  | CrAdditionalCollateralizationProhibited
  | CrSecuredAmountExceedsMandate
  | CrRegistryNotPermitted
  | CrJurisdictionNotPermitted
  | CrPriorityRankNotAuthorized

section \<open>Authorization\<close>

text \<open>The checks in their order; \<open>Inr\<close> is \<open>authorized: true\<close>.\<close>

definition collateralInstant ::
  "EnterpriseCollateralizationMandate \<Rightarrow> string \<Rightarrow> EnterpriseCollateralizationRefusalCode + unit" where
  "collateralInstant m at =
     (if Date_parse at = None then Inl CrInvalidExerciseInstant
      else if instant_lt at (cm_effectiveFrom m) then Inl CrMandateNotYetEffective
      else if instant_ge at (cm_expiresAt m) then Inl CrMandateExpired
      else Inr ())"

definition collateralParties ::
  "EnterpriseCollateralizationTerms \<Rightarrow> EnterpriseCollateralizationExerciseAttempt \<Rightarrow>
     EnterpriseCollateralizationRefusalCode + unit" where
  "collateralParties terms exercise =
     (if ca_executorRef exercise \<noteq> ct_executorRef terms then Inl CrExecutorNotAuthorized
      else if ca_securedObligationRef exercise \<noteq> ct_securedObligationRef terms
        then Inl CrSecuredObligationNotAuthorized
      else if ca_securedPartyRef exercise \<noteq> ct_securedPartyRef terms then Inl CrSecuredPartyNotAuthorized
      else if find (\<lambda>right. right \<notin> set (ct_rights terms)) (ca_rights exercise) \<noteq> None \<or>
              length (ca_rights exercise) = 0
        then Inl CrRightsNotAuthorized
      else Inr ())"

definition collateralCumulative ::
  "EnterpriseCollateralizationTerms \<Rightarrow> EnterpriseCollateralizationExerciseAttempt \<Rightarrow>
     EnterpriseCollateralizationRefusalCode + unit" where
  "collateralCumulative terms exercise =
     (case ca_alreadyCommittedScope exercise of
        None \<Rightarrow> Inr ()
      | Some committed \<Rightarrow>
          (case governedRightsScopeSum committed (ca_scope exercise) of
             None \<Rightarrow> Inl CrCumulativeScopeExceedsMandate
           | Some whole \<Rightarrow>
               if \<not> governedRightsScopeWithin whole (ct_scope terms) then Inl CrCumulativeScopeExceedsMandate
               else Inr ()))"

definition restricted_label :: "string list option \<Rightarrow> string option \<Rightarrow> bool" where
  "restricted_label permitted reported =
     (case permitted of
        None \<Rightarrow> False
      | Some labels \<Rightarrow> (case reported of None \<Rightarrow> True | Some l \<Rightarrow> l \<notin> set labels))"

definition collateralLimits ::
  "EnterpriseCollateralizationConstraints \<Rightarrow> EnterpriseCollateralizationExerciseAttempt \<Rightarrow>
     EnterpriseCollateralizationRefusalCode + unit" where
  "collateralLimits constraints exercise =
     (if (case cc_maximumSecuredAmount constraints of
            None \<Rightarrow> False
          | Some maximum \<Rightarrow> (case ca_securedAmount exercise of
                               None \<Rightarrow> True | Some a \<Rightarrow> \<not> enterpriseSecuredAmountWithin a maximum))
        then Inl CrSecuredAmountExceedsMandate
      else if restricted_label (cc_permittedRegistries constraints) (ca_externalRegistry exercise)
        then Inl CrRegistryNotPermitted
      else if restricted_label (cc_permittedJurisdictions constraints) (ca_jurisdiction exercise)
        then Inl CrJurisdictionNotPermitted
      else if (case cc_requiredPriorityRank constraints of
                 None \<Rightarrow> False
               | Some required \<Rightarrow> (case ca_priorityRank exercise of None \<Rightarrow> True | Some r \<Rightarrow> r > required))
        then Inl CrPriorityRankNotAuthorized
      else Inr ())"

definition enterpriseCollateralizationMandateAuthorizes ::
  "EnterpriseCollateralizationMandate \<Rightarrow> EnterpriseCollateralizationExerciseAttempt \<Rightarrow>
     EnterpriseCollateralizationRefusalCode + unit" where
  "enterpriseCollateralizationMandateAuthorizes mandate exercise =
     (if cm_status mandate = TmRevoked then Inl CrMandateRevoked
      else
        rbind (collateralInstant mandate (ca_at exercise)) (\<lambda>_.
        rbind (collateralParties (cm_terms mandate) exercise) (\<lambda>_.
          if \<not> governedRightsScopeWithin (ca_scope exercise) (ct_scope (cm_terms mandate)) then Inl CrScopeExceedsMandate
          else if ca_priorExecutionCount exercise > 0 \<and>
                  \<not> cc_additionalCollateralizationAllowed (ct_constraints (cm_terms mandate))
            then Inl CrAdditionalCollateralizationProhibited
          else
            rbind (collateralCumulative (cm_terms mandate) exercise) (\<lambda>_.
              collateralLimits (ct_constraints (cm_terms mandate)) exercise))))"

section \<open>Validation\<close>

datatype EnterpriseCollateralizationMandateValidationCode =
    CmvUnsupportedSchemaVersion
  | CmvInvalidId
  | CmvInvalidAsset
  | CmvTerms EnterpriseCollateralizationTermsValidationCode
  | CmvMissingRequestRef
  | CmvMissingRequestedBy
  | CmvMissingDecisionRef
  | CmvInvalidEffectiveFrom
  | CmvInvalidExpiresAt
  | CmvExpiryNotAfterEffectiveFrom
  | CmvMissingCorrelationId
  | CmvInvalidEvaluationRef
  | CmvInvalidIssuerRef
  | CmvInvalidApprovalRefs
  | CmvInvalidObligationRefs
  | CmvInvalidEvidenceRefs
  | CmvInvalidAuditRefs

fun optional_text_collateral :: "'c \<Rightarrow> string option \<Rightarrow> 'c list" where
  "optional_text_collateral code None = []"
| "optional_text_collateral code (Some v) = (if \<not> isCollateralizationNonEmptyString v then [code] else [])"

fun optional_refs_collateral :: "'c \<Rightarrow> string list option \<Rightarrow> 'c list" where
  "optional_refs_collateral code None = []"
| "optional_refs_collateral code (Some v) = (if \<not> isCollateralizationCanonicalIdArray v then [code] else [])"

definition validateEnterpriseCollateralizationMandate ::
  "EnterpriseCollateralizationMandate \<Rightarrow> EnterpriseCollateralizationMandateValidationCode list" where
  "validateEnterpriseCollateralizationMandate m =
     (if cm_schemaVersion m \<noteq> ENTERPRISE_COLLATERALIZATION_SCHEMA_VERSION then [CmvUnsupportedSchemaVersion] else []) @
     (if \<not> isCollateralizationNonEmptyString (cm_id m) then [CmvInvalidId] else []) @
     (if \<not> isCollateralizationNonEmptyString (ta_kind (cm_asset m)) \<or>
         \<not> isCollateralizationNonEmptyString (ta_id (cm_asset m)) then [CmvInvalidAsset] else []) @
     map CmvTerms (collectEnterpriseCollateralizationTermsIssues (cm_terms m)) @
     (if \<not> isCollateralizationNonEmptyString (cm_requestRef m) then [CmvMissingRequestRef] else []) @
     (if \<not> isCollateralizationNonEmptyString (cm_requestedBy m) then [CmvMissingRequestedBy] else []) @
     (if \<not> isCollateralizationNonEmptyString (cm_decisionRef m) then [CmvMissingDecisionRef] else []) @
     (if \<not> isCollateralizationTimestamp (cm_effectiveFrom m) then [CmvInvalidEffectiveFrom] else []) @
     (if \<not> isCollateralizationTimestamp (cm_expiresAt m) then [CmvInvalidExpiresAt] else []) @
     (if isCollateralizationTimestamp (cm_effectiveFrom m) \<and> isCollateralizationTimestamp (cm_expiresAt m) \<and>
         instant_ge (cm_effectiveFrom m) (cm_expiresAt m)
      then [CmvExpiryNotAfterEffectiveFrom] else []) @
     (if \<not> isCollateralizationNonEmptyString (cm_correlationId m) then [CmvMissingCorrelationId] else []) @
     optional_text_collateral CmvInvalidEvaluationRef (cm_evaluationRef m) @
     optional_text_collateral CmvInvalidIssuerRef (cm_issuerRef m) @
     optional_refs_collateral CmvInvalidApprovalRefs (cm_approvalRefs m) @
     optional_refs_collateral CmvInvalidObligationRefs (cm_obligationRefs m) @
     optional_refs_collateral CmvInvalidEvidenceRefs (cm_evidenceRefs m) @
     optional_refs_collateral CmvInvalidAuditRefs (cm_auditRefs m)"

section \<open>Text and equality\<close>

definition serializeEnterpriseCollateralizationMandate ::
  "EnterpriseCollateralizationMandate \<Rightarrow> EnterpriseCollateralizationMandate" where
  "serializeEnterpriseCollateralizationMandate m =
     m\<lparr>cm_terms := serializeEnterpriseCollateralizationTerms (cm_terms m),
       cm_approvalRefs := map_option sort_strings (cm_approvalRefs m),
       cm_obligationRefs := map_option sort_strings (cm_obligationRefs m),
       cm_evidenceRefs := map_option sort_strings (cm_evidenceRefs m),
       cm_auditRefs := map_option sort_strings (cm_auditRefs m)\<rparr>"

definition deserializeEnterpriseCollateralizationMandate ::
  "EnterpriseCollateralizationMandate \<Rightarrow>
     EnterpriseCollateralizationMandateValidationCode list + EnterpriseCollateralizationMandate" where
  "deserializeEnterpriseCollateralizationMandate candidate =
     (if validateEnterpriseCollateralizationMandate candidate \<noteq> []
      then Inl (validateEnterpriseCollateralizationMandate candidate)
      else Inr (candidate\<lparr>cm_schemaVersion := ENTERPRISE_COLLATERALIZATION_SCHEMA_VERSION,
                          cm_terms := readEnterpriseCollateralizationTerms (cm_terms candidate)\<rparr>))"

definition enterpriseCollateralizationMandateIdentityEquals ::
  "EnterpriseCollateralizationMandate \<Rightarrow> EnterpriseCollateralizationMandate \<Rightarrow> bool" where
  "enterpriseCollateralizationMandateIdentityEquals a b \<longleftrightarrow>
     cm_id a = cm_id b \<and> cm_requestRef a = cm_requestRef b \<and> cm_decisionRef a = cm_decisionRef b \<and>
     ta_kind (cm_asset a) = ta_kind (cm_asset b) \<and> ta_id (cm_asset a) = ta_id (cm_asset b) \<and>
     ta_tenantId (cm_asset a) = ta_tenantId (cm_asset b)"

definition enterpriseCollateralizationMandateEquals ::
  "EnterpriseCollateralizationMandate \<Rightarrow> EnterpriseCollateralizationMandate \<Rightarrow> bool" where
  "enterpriseCollateralizationMandateEquals a b \<longleftrightarrow>
     enterpriseCollateralizationMandateIdentityEquals a b \<and>
     cm_schemaVersion a = cm_schemaVersion b \<and> cm_status a = cm_status b \<and>
     enterpriseCollateralizationTermsEquals (cm_terms a) (cm_terms b) \<and>
     cm_requestedBy a = cm_requestedBy b \<and> cm_effectiveFrom a = cm_effectiveFrom b \<and>
     cm_expiresAt a = cm_expiresAt b \<and> cm_correlationId a = cm_correlationId b \<and>
     cm_evaluationRef a = cm_evaluationRef b \<and> cm_issuerRef a = cm_issuerRef b \<and>
     collateralizationOptionalStringArrayEquals (cm_approvalRefs a) (cm_approvalRefs b) \<and>
     collateralizationOptionalStringArrayEquals (cm_obligationRefs a) (cm_obligationRefs b) \<and>
     collateralizationOptionalStringArrayEquals (cm_evidenceRefs a) (cm_evidenceRefs b) \<and>
     collateralizationOptionalStringArrayEquals (cm_auditRefs a) (cm_auditRefs b)"

end
