(* ===== verification/CollateralStore.thy ===== *)
theory CollateralStore
  imports CollateralMandate
begin

text \<open>
  Collateralization mandates and the evidence recorded under them: the records of
  \<open>src/src/enterprise/collateralization-governance/contracts.ts\<close>, the errors (\<open>errors.ts\<close>), the
  guards of \<open>mandate-store.ts\<close>, the rules of \<open>lifecycle.ts\<close> and the in-memory store
  (\<open>in-memory-mandate-store.ts\<close>). The context has the shape of \<^typ>\<open>AuthorityGovernanceContext\<close>, and
  the timestamp predicate is the one of the authority store; both are used for both.
\<close>

section \<open>Errors and records\<close>

datatype CollateralizationGovernanceErrorCode =
    COLLATERALIZATION_MANDATE_NOT_FOUND
  | COLLATERALIZATION_MANDATE_ALREADY_EXISTS
  | COLLATERALIZATION_MANDATE_NOT_ACTIVE
  | COLLATERALIZATION_EXECUTION_NOT_FOUND
  | COLLATERALIZATION_EXECUTION_ALREADY_RECORDED
  | COLLATERALIZATION_EXECUTION_NOT_AUTHORIZED EnterpriseCollateralizationRefusalCode
  | COLLATERALIZATION_RELEASE_ALREADY_RECORDED
  | COLLATERALIZATION_VALIDATION_ERROR
  | COLLATERALIZATION_SCOPE_ESCALATION
  | COLLATERALIZATION_INVALID_TIMESTAMP
  | COLLATERALIZATION_TENANT_SCOPE_REQUIRED
  | COLLATERALIZATION_ACCESS_SCOPE_VIOLATION
  | COLLATERALIZATION_ASSET_TENANT_MISMATCH
  | COLLATERALIZATION_STORE_UNAVAILABLE
  | COLLATERALIZATION_RECORD_CORRUPTED
  | COLLATERALIZATION_EVALUATION_FAILED
  | COLLATERALIZATION_REQUEST_CONFLICT
  | COLLATERALIZATION_PERSISTENCE_FAILED

type_synonym 'a collateral_outcome = "CollateralizationGovernanceErrorCode + 'a"

record CollateralizationMandateRecord =
  km_id :: string
  km_organizationId :: string
  km_status :: EnterpriseCollateralizationMandateStatus
  km_assetKind :: string
  km_assetId :: string
  km_assetTenantId :: "string option"
  km_terms :: EnterpriseCollateralizationTerms
  km_requestRef :: string
  km_requestedBy :: string
  km_decisionRef :: string
  km_evaluationRef :: "string option"
  km_effectiveFrom :: string
  km_expiresAt :: string
  km_correlationId :: string
  km_issuerRef :: "string option"
  km_approvalRefs :: "string list option"
  km_obligationRefs :: "string list option"
  km_evidenceRefs :: "string list option"
  km_auditRefs :: "string list option"
  km_committedScope :: "GovernedRightsScope option"
  km_executionCount :: int
  km_createdAt :: string

record CollateralizationExecutionRecord =
  kx_id :: string
  kx_mandateId :: string
  kx_organizationId :: string
  kx_executorRef :: string
  kx_executedAt :: string
  kx_securedObligationRef :: string
  kx_securedPartyRef :: string
  kx_committedScope :: GovernedRightsScope
  kx_rights :: "GovernedRightType list"
  kx_correlationId :: string
  kx_securedAmount :: "EnterpriseSecuredAmount option"
  kx_externalSystem :: "string option"
  kx_externalRegistry :: "string option"
  kx_externalAgreementReference :: "string option"
  kx_externalFilingReference :: "string option"
  kx_externalTransactionReference :: "string option"
  kx_jurisdiction :: "string option"
  kx_priorityRank :: "int option"
  kx_evidenceRefs :: "string list option"
  kx_recordedAt :: string

text \<open>\<open>ENTERPRISE_COLLATERAL_RELEASE_TYPES\<close> of \<open>enterprise-collateralization-execution.ts\<close>.\<close>

datatype EnterpriseCollateralReleaseType =
    CollateralReleased | CollateralDischarged | CollateralSatisfied | CollateralTerminated

record CollateralizationReleaseRecord =
  ks_id :: string
  ks_mandateId :: string
  ks_executionId :: string
  ks_organizationId :: string
  ks_reportedBy :: string
  ks_releasedAt :: string
  ks_releaseType :: EnterpriseCollateralReleaseType
  ks_correlationId :: string
  ks_externalSystem :: "string option"
  ks_externalRegistry :: "string option"
  ks_externalReleaseReference :: "string option"
  ks_evidenceRefs :: "string list option"
  ks_recordedAt :: string

record CollateralizationMandateRevocationRecord =
  kv_id :: string
  kv_mandateId :: string
  kv_organizationId :: string
  kv_revokedAt :: string
  kv_reason :: string
  kv_issuerRef :: string
  kv_correlationId :: string
  kv_description :: "string option"
  kv_evidenceRefs :: "string list option"
  kv_executionsAtRevocation :: int
  kv_committedScopeAtRevocation :: "GovernedRightsScope option"

record IssueCollateralizationMandateInput =
  imk_id :: string
  imk_organizationId :: string
  imk_assetKind :: string
  imk_assetId :: string
  imk_assetTenantId :: "string option"
  imk_terms :: EnterpriseCollateralizationTerms
  imk_requestedTerms :: EnterpriseCollateralizationTerms
  imk_requestRef :: string
  imk_requestedBy :: string
  imk_decisionRef :: string
  imk_evaluationRef :: "string option"
  imk_effectiveFrom :: string
  imk_expiresAt :: string
  imk_correlationId :: string
  imk_issuerRef :: "string option"
  imk_approvalRefs :: "string list option"
  imk_obligationRefs :: "string list option"
  imk_evidenceRefs :: "string list option"
  imk_auditRefs :: "string list option"

record RecordCollateralizationExecutionInput =
  ixk_id :: string
  ixk_mandateId :: string
  ixk_organizationId :: string
  ixk_executorRef :: string
  ixk_executedAt :: string
  ixk_securedObligationRef :: string
  ixk_securedPartyRef :: string
  ixk_committedScope :: GovernedRightsScope
  ixk_rights :: "GovernedRightType list"
  ixk_correlationId :: string
  ixk_securedAmount :: "EnterpriseSecuredAmount option"
  ixk_externalSystem :: "string option"
  ixk_externalRegistry :: "string option"
  ixk_externalAgreementReference :: "string option"
  ixk_externalFilingReference :: "string option"
  ixk_externalTransactionReference :: "string option"
  ixk_jurisdiction :: "string option"
  ixk_priorityRank :: "int option"
  ixk_evidenceRefs :: "string list option"

record RecordCollateralizationReleaseInput =
  isk_id :: string
  isk_mandateId :: string
  isk_executionId :: string
  isk_organizationId :: string
  isk_reportedBy :: string
  isk_releasedAt :: string
  isk_releaseType :: EnterpriseCollateralReleaseType
  isk_correlationId :: string
  isk_externalSystem :: "string option"
  isk_externalRegistry :: "string option"
  isk_externalReleaseReference :: "string option"
  isk_evidenceRefs :: "string list option"

record RevokeCollateralizationMandateInput =
  ivk_revocationId :: string
  ivk_mandateId :: string
  ivk_organizationId :: string
  ivk_revokedAt :: string
  ivk_reason :: string
  ivk_issuerRef :: string
  ivk_correlationId :: string
  ivk_description :: "string option"
  ivk_evidenceRefs :: "string list option"

datatype CollateralizationRevokeOutcome =
    CollateralizationRevoked CollateralizationMandateRecord CollateralizationMandateRevocationRecord
  | CollateralizationAlreadyRevoked CollateralizationMandateRecord CollateralizationMandateRevocationRecord

section \<open>Guards\<close>

definition canAccessCollateralizationOrganization :: "AuthorityGovernanceContext \<Rightarrow> string \<Rightarrow> bool" where
  "canAccessCollateralizationOrganization context recordOrganizationId =
     (if cx_system context then True else cx_organizationId context = Some recordOrganizationId)"

definition requireCollateralizationTenantScope :: "AuthorityGovernanceContext \<Rightarrow> unit collateral_outcome" where
  "requireCollateralizationTenantScope context =
     (if \<not> cx_system context \<and> (cx_organizationId context = None \<or> cx_organizationId context = Some [])
      then Inl COLLATERALIZATION_TENANT_SCOPE_REQUIRED else Inr ())"

definition requireCollateralizationAccessToOrganization ::
  "AuthorityGovernanceContext \<Rightarrow> string \<Rightarrow> unit collateral_outcome" where
  "requireCollateralizationAccessToOrganization context organizationId =
     rbind (requireCollateralizationTenantScope context) (\<lambda>_.
       if \<not> canAccessCollateralizationOrganization context organizationId
       then Inl COLLATERALIZATION_ACCESS_SCOPE_VIOLATION else Inr ())"

definition requireStrictUtcCollateralizationTimestamp :: "string \<Rightarrow> string collateral_outcome" where
  "requireStrictUtcCollateralizationTimestamp value =
     (if \<not> isStrictUtcTimestamp value then Inl COLLATERALIZATION_INVALID_TIMESTAMP else Inr value)"

section \<open>Rules\<close>

definition assertCollateralizationRevocable ::
  "EnterpriseCollateralizationMandateStatus \<Rightarrow> unit collateral_outcome" where
  "assertCollateralizationRevocable status =
     (if status = TmRevoked then Inl COLLATERALIZATION_MANDATE_NOT_ACTIVE else Inr ())"

definition assertCollateralizationActive ::
  "EnterpriseCollateralizationMandateStatus \<Rightarrow> unit collateral_outcome" where
  "assertCollateralizationActive status =
     (if status \<noteq> TmActive then Inl COLLATERALIZATION_MANDATE_NOT_ACTIVE else Inr ())"

definition assertNoCollateralScopeEscalation ::
  "EnterpriseCollateralizationTerms \<Rightarrow> EnterpriseCollateralizationTerms \<Rightarrow> unit collateral_outcome" where
  "assertNoCollateralScopeEscalation terms requestedTerms =
     (if \<not> enterpriseCollateralizationTermsWithin terms requestedTerms
      then Inl COLLATERALIZATION_SCOPE_ESCALATION else Inr ())"

definition toCanonicalCollateralizationMandate ::
  "CollateralizationMandateRecord \<Rightarrow> EnterpriseCollateralizationMandate" where
  "toCanonicalCollateralizationMandate r =
     \<lparr>cm_schemaVersion = ENTERPRISE_COLLATERALIZATION_SCHEMA_VERSION, cm_id = km_id r, cm_status = km_status r,
      cm_asset = \<lparr>ta_kind = km_assetKind r, ta_id = km_assetId r, ta_tenantId = km_assetTenantId r\<rparr>,
      cm_terms = km_terms r, cm_requestRef = km_requestRef r, cm_requestedBy = km_requestedBy r,
      cm_decisionRef = km_decisionRef r, cm_effectiveFrom = km_effectiveFrom r, cm_expiresAt = km_expiresAt r,
      cm_correlationId = km_correlationId r, cm_evaluationRef = km_evaluationRef r, cm_issuerRef = km_issuerRef r,
      cm_approvalRefs = km_approvalRefs r, cm_obligationRefs = km_obligationRefs r,
      cm_evidenceRefs = km_evidenceRefs r, cm_auditRefs = km_auditRefs r\<rparr>"

definition collateralExercise ::
  "CollateralizationMandateRecord \<Rightarrow> RecordCollateralizationExecutionInput \<Rightarrow> string \<Rightarrow>
     EnterpriseCollateralizationExerciseAttempt" where
  "collateralExercise r input executedAt =
     \<lparr>ca_executorRef = ixk_executorRef input, ca_securedObligationRef = ixk_securedObligationRef input,
      ca_securedPartyRef = ixk_securedPartyRef input, ca_rights = ixk_rights input,
      ca_scope = ixk_committedScope input, ca_at = executedAt,
      ca_alreadyCommittedScope = km_committedScope r, ca_priorExecutionCount = km_executionCount r,
      ca_securedAmount = ixk_securedAmount input, ca_externalRegistry = ixk_externalRegistry input,
      ca_jurisdiction = ixk_jurisdiction input, ca_priorityRank = ixk_priorityRank input\<rparr>"

definition assertCollateralExerciseAuthorized ::
  "CollateralizationMandateRecord \<Rightarrow> RecordCollateralizationExecutionInput \<Rightarrow> string \<Rightarrow> unit collateral_outcome" where
  "assertCollateralExerciseAuthorized r input executedAt =
     (case enterpriseCollateralizationMandateAuthorizes (toCanonicalCollateralizationMandate r)
             (collateralExercise r input executedAt) of
        Inl code \<Rightarrow> Inl (COLLATERALIZATION_EXECUTION_NOT_AUTHORIZED code)
      | Inr _ \<Rightarrow> Inr ())"

definition nextCommittedCollateralScope ::
  "GovernedRightsScope option \<Rightarrow> GovernedRightsScope \<Rightarrow> GovernedRightsScope option" where
  "nextCommittedCollateralScope current addition =
     (case current of None \<Rightarrow> Some addition | Some c \<Rightarrow> governedRightsScopeSum c addition)"

section \<open>The store\<close>

record collateral_store =
  ks_mandates :: "(string, CollateralizationMandateRecord) js_map"
  ks_mandateIdByRequestRef :: "(string, string) js_map"
  ks_executions :: "(string, CollateralizationExecutionRecord list) js_map"
  ks_executionIds :: "string list"
  ks_releases :: "(string, CollateralizationReleaseRecord list) js_map"
  ks_releaseIds :: "string list"
  ks_revocations :: "(string, CollateralizationMandateRevocationRecord) js_map"
  ks_closed :: bool

definition empty_collateral_store :: collateral_store where
  "empty_collateral_store = \<lparr>ks_mandates = [], ks_mandateIdByRequestRef = [], ks_executions = [], ks_executionIds = [],
     ks_releases = [], ks_releaseIds = [], ks_revocations = [], ks_closed = False\<rparr>"

type_synonym 'a collateral_result = "'a collateral_outcome \<times> collateral_store"

definition assertOpen_collateral :: "collateral_store \<Rightarrow> unit collateral_outcome" where
  "assertOpen_collateral ks = (if ks_closed ks then Inl COLLATERALIZATION_STORE_UNAVAILABLE else Inr ())"

definition requireMandate_collateral ::
  "collateral_store \<Rightarrow> string \<Rightarrow> CollateralizationMandateRecord collateral_outcome" where
  "requireMandate_collateral ks mandateId =
     (case map_get (ks_mandates ks) mandateId of None \<Rightarrow> Inl COLLATERALIZATION_MANDATE_NOT_FOUND | Some m \<Rightarrow> Inr m)"

definition requireVisibleMandate_collateral ::
  "AuthorityGovernanceContext \<Rightarrow> string \<Rightarrow> collateral_store \<Rightarrow> CollateralizationMandateRecord collateral_outcome" where
  "requireVisibleMandate_collateral context mandateId ks =
     rbind (requireCollateralizationTenantScope context) (\<lambda>_.
     rbind (requireMandate_collateral ks mandateId) (\<lambda>mandate.
       if \<not> canAccessCollateralizationOrganization context (km_organizationId mandate)
       then Inl COLLATERALIZATION_ACCESS_SCOPE_VIOLATION else Inr mandate))"

definition issuedMandate_collateral ::
  "IssueCollateralizationMandateInput \<Rightarrow> string \<Rightarrow> string \<Rightarrow> string \<Rightarrow> CollateralizationMandateRecord" where
  "issuedMandate_collateral input effectiveFrom expiresAt now =
     \<lparr>km_id = imk_id input, km_organizationId = imk_organizationId input, km_status = TmActive,
      km_assetKind = imk_assetKind input, km_assetId = imk_assetId input, km_assetTenantId = imk_assetTenantId input,
      km_terms = imk_terms input, km_requestRef = imk_requestRef input, km_requestedBy = imk_requestedBy input,
      km_decisionRef = imk_decisionRef input, km_evaluationRef = imk_evaluationRef input,
      km_effectiveFrom = effectiveFrom, km_expiresAt = expiresAt, km_correlationId = imk_correlationId input,
      km_issuerRef = imk_issuerRef input, km_approvalRefs = imk_approvalRefs input,
      km_obligationRefs = imk_obligationRefs input, km_evidenceRefs = imk_evidenceRefs input,
      km_auditRefs = imk_auditRefs input, km_committedScope = None, km_executionCount = 0, km_createdAt = now\<rparr>"

definition issueMandate_collateral ::
  "string \<Rightarrow> AuthorityGovernanceContext \<Rightarrow> IssueCollateralizationMandateInput \<Rightarrow> collateral_store \<Rightarrow>
     CollateralizationMandateRecord collateral_result" where
  "issueMandate_collateral now context input ks =
     attempt (assertOpen_collateral ks) ks (\<lambda>_.
     attempt (requireCollateralizationAccessToOrganization context (imk_organizationId input)) ks (\<lambda>_.
     attempt (requireStrictUtcCollateralizationTimestamp (imk_effectiveFrom input)) ks (\<lambda>effectiveFrom.
     attempt (requireStrictUtcCollateralizationTimestamp (imk_expiresAt input)) ks (\<lambda>expiresAt.
     attempt (assertNoCollateralScopeEscalation (imk_terms input) (imk_requestedTerms input)) ks (\<lambda>_.
       if map_get (ks_mandates ks) (imk_id input) \<noteq> None then (Inl COLLATERALIZATION_MANDATE_ALREADY_EXISTS, ks)
       else if map_get (ks_mandateIdByRequestRef ks) (imk_requestRef input) \<noteq> None
         then (Inl COLLATERALIZATION_MANDATE_ALREADY_EXISTS, ks)
       else let mandate = issuedMandate_collateral input effectiveFrom expiresAt now
            in if validateEnterpriseCollateralizationMandate (toCanonicalCollateralizationMandate mandate) \<noteq> []
               then (Inl COLLATERALIZATION_VALIDATION_ERROR, ks)
               else (Inr mandate,
                     ks\<lparr>ks_mandates := map_set (ks_mandates ks) (km_id mandate) mandate,
                        ks_mandateIdByRequestRef :=
                          map_set (ks_mandateIdByRequestRef ks) (km_requestRef mandate) (km_id mandate),
                        ks_executions := map_set (ks_executions ks) (km_id mandate) [],
                        ks_releases := map_set (ks_releases ks) (km_id mandate) []\<rparr>))))))"

definition getMandate_collateral ::
  "AuthorityGovernanceContext \<Rightarrow> string \<Rightarrow> collateral_store \<Rightarrow> CollateralizationMandateRecord collateral_outcome" where
  "getMandate_collateral context mandateId ks =
     rbind (assertOpen_collateral ks) (\<lambda>_. requireVisibleMandate_collateral context mandateId ks)"

definition getMandateByRequestRef_collateral ::
  "AuthorityGovernanceContext \<Rightarrow> string \<Rightarrow> collateral_store \<Rightarrow>
     CollateralizationMandateRecord option collateral_outcome" where
  "getMandateByRequestRef_collateral context requestRef ks =
     rbind (assertOpen_collateral ks) (\<lambda>_.
       case map_get (ks_mandateIdByRequestRef ks) requestRef of
         None \<Rightarrow> Inr None
       | Some mandateId \<Rightarrow> rbind (requireVisibleMandate_collateral context mandateId ks) (\<lambda>m. Inr (Some m)))"

definition recordedExecution_collateral ::
  "RecordCollateralizationExecutionInput \<Rightarrow> CollateralizationMandateRecord \<Rightarrow> string \<Rightarrow> string \<Rightarrow>
     CollateralizationExecutionRecord" where
  "recordedExecution_collateral input mandate executedAt now =
     \<lparr>kx_id = ixk_id input, kx_mandateId = km_id mandate, kx_organizationId = km_organizationId mandate,
      kx_executorRef = ixk_executorRef input, kx_executedAt = executedAt,
      kx_securedObligationRef = ixk_securedObligationRef input, kx_securedPartyRef = ixk_securedPartyRef input,
      kx_committedScope = ixk_committedScope input, kx_rights = ixk_rights input,
      kx_correlationId = ixk_correlationId input, kx_securedAmount = ixk_securedAmount input,
      kx_externalSystem = ixk_externalSystem input, kx_externalRegistry = ixk_externalRegistry input,
      kx_externalAgreementReference = ixk_externalAgreementReference input,
      kx_externalFilingReference = ixk_externalFilingReference input,
      kx_externalTransactionReference = ixk_externalTransactionReference input,
      kx_jurisdiction = ixk_jurisdiction input, kx_priorityRank = ixk_priorityRank input,
      kx_evidenceRefs = ixk_evidenceRefs input, kx_recordedAt = now\<rparr>"

text \<open>The guards of \<open>recordExecution\<close>, with the mandate they find.\<close>

definition executionGuards_collateral ::
  "AuthorityGovernanceContext \<Rightarrow> RecordCollateralizationExecutionInput \<Rightarrow> collateral_store \<Rightarrow>
     CollateralizationMandateRecord collateral_outcome" where
  "executionGuards_collateral context input ks =
     rbind (assertOpen_collateral ks) (\<lambda>_.
     rbind (requireCollateralizationAccessToOrganization context (ixk_organizationId input)) (\<lambda>_.
     rbind (requireStrictUtcCollateralizationTimestamp (ixk_executedAt input)) (\<lambda>executedAt.
     rbind (requireVisibleMandate_collateral context (ixk_mandateId input) ks) (\<lambda>mandate.
       if km_organizationId mandate \<noteq> ixk_organizationId input then Inl COLLATERALIZATION_ACCESS_SCOPE_VIOLATION
       else if ixk_id input \<in> set (ks_executionIds ks) then Inl COLLATERALIZATION_EXECUTION_ALREADY_RECORDED
       else rbind (assertCollateralExerciseAuthorized mandate input executedAt) (\<lambda>_. Inr mandate)))))"

definition recordExecution_collateral ::
  "string \<Rightarrow> AuthorityGovernanceContext \<Rightarrow> RecordCollateralizationExecutionInput \<Rightarrow> collateral_store \<Rightarrow>
     (CollateralizationMandateRecord \<times> CollateralizationExecutionRecord) collateral_result" where
  "recordExecution_collateral now context input ks =
     attempt (executionGuards_collateral context input ks) ks (\<lambda>mandate.
       case nextCommittedCollateralScope (km_committedScope mandate) (ixk_committedScope input) of
         None \<Rightarrow> (Inl (COLLATERALIZATION_EXECUTION_NOT_AUTHORIZED CrCumulativeScopeExceedsMandate), ks)
       | Some committedScope \<Rightarrow>
           let execution = recordedExecution_collateral input mandate (ixk_executedAt input) now;
               updated = mandate\<lparr>km_committedScope := Some committedScope,
                                 km_executionCount := km_executionCount mandate + 1\<rparr>
           in case map_get (ks_executions ks) (km_id mandate) of
                None \<Rightarrow> (Inl COLLATERALIZATION_STORE_UNAVAILABLE, ks)
              | Some log \<Rightarrow>
                  (Inr (updated, execution),
                   ks\<lparr>ks_executionIds := kx_id execution # ks_executionIds ks,
                      ks_executions := map_set (ks_executions ks) (km_id mandate) (log @ [execution]),
                      ks_mandates := map_set (ks_mandates ks) (km_id updated) updated\<rparr>))"

definition executionsOf_collateral :: "collateral_store \<Rightarrow> string \<Rightarrow> CollateralizationExecutionRecord list" where
  "executionsOf_collateral ks mandateId =
     (case map_get (ks_executions ks) mandateId of None \<Rightarrow> [] | Some xs \<Rightarrow> xs)"

definition listExecutions_collateral ::
  "AuthorityGovernanceContext \<Rightarrow> string \<Rightarrow> collateral_store \<Rightarrow>
     CollateralizationExecutionRecord list collateral_outcome" where
  "listExecutions_collateral context mandateId ks =
     rbind (assertOpen_collateral ks) (\<lambda>_.
     rbind (requireVisibleMandate_collateral context mandateId ks) (\<lambda>_. Inr (executionsOf_collateral ks mandateId)))"

definition recordedRelease ::
  "RecordCollateralizationReleaseInput \<Rightarrow> CollateralizationMandateRecord \<Rightarrow> string \<Rightarrow> string \<Rightarrow>
     CollateralizationReleaseRecord" where
  "recordedRelease input mandate releasedAt now =
     \<lparr>ks_id = isk_id input, ks_mandateId = km_id mandate, ks_executionId = isk_executionId input,
      ks_organizationId = km_organizationId mandate, ks_reportedBy = isk_reportedBy input,
      ks_releasedAt = releasedAt, ks_releaseType = isk_releaseType input,
      ks_correlationId = isk_correlationId input, ks_externalSystem = isk_externalSystem input,
      ks_externalRegistry = isk_externalRegistry input,
      ks_externalReleaseReference = isk_externalReleaseReference input,
      ks_evidenceRefs = isk_evidenceRefs input, ks_recordedAt = now\<rparr>"

definition releaseGuards ::
  "AuthorityGovernanceContext \<Rightarrow> RecordCollateralizationReleaseInput \<Rightarrow> collateral_store \<Rightarrow>
     CollateralizationMandateRecord collateral_outcome" where
  "releaseGuards context input ks =
     rbind (assertOpen_collateral ks) (\<lambda>_.
     rbind (requireCollateralizationAccessToOrganization context (isk_organizationId input)) (\<lambda>_.
     rbind (requireStrictUtcCollateralizationTimestamp (isk_releasedAt input)) (\<lambda>_.
     rbind (requireVisibleMandate_collateral context (isk_mandateId input) ks) (\<lambda>mandate.
       if km_organizationId mandate \<noteq> isk_organizationId input then Inl COLLATERALIZATION_ACCESS_SCOPE_VIOLATION
       else if \<not> list_ex (\<lambda>x. kx_id x = isk_executionId input) (executionsOf_collateral ks (km_id mandate))
         then Inl COLLATERALIZATION_EXECUTION_NOT_FOUND
       else if isk_id input \<in> set (ks_releaseIds ks) then Inl COLLATERALIZATION_RELEASE_ALREADY_RECORDED
       else Inr mandate))))"

definition recordRelease ::
  "string \<Rightarrow> AuthorityGovernanceContext \<Rightarrow> RecordCollateralizationReleaseInput \<Rightarrow> collateral_store \<Rightarrow>
     CollateralizationReleaseRecord collateral_result" where
  "recordRelease now context input ks =
     attempt (releaseGuards context input ks) ks (\<lambda>mandate.
       let release = recordedRelease input mandate (isk_releasedAt input) now
       in case map_get (ks_releases ks) (km_id mandate) of
            None \<Rightarrow> (Inl COLLATERALIZATION_STORE_UNAVAILABLE, ks)
          | Some log \<Rightarrow>
              (Inr release,
               ks\<lparr>ks_releaseIds := ks_id release # ks_releaseIds ks,
                  ks_releases := map_set (ks_releases ks) (km_id mandate) (log @ [release])\<rparr>))"

definition listReleases ::
  "AuthorityGovernanceContext \<Rightarrow> string \<Rightarrow> collateral_store \<Rightarrow>
     CollateralizationReleaseRecord list collateral_outcome" where
  "listReleases context mandateId ks =
     rbind (assertOpen_collateral ks) (\<lambda>_.
     rbind (requireVisibleMandate_collateral context mandateId ks) (\<lambda>_.
       Inr (case map_get (ks_releases ks) mandateId of None \<Rightarrow> [] | Some xs \<Rightarrow> xs)))"

definition revocationOf_collateral ::
  "RevokeCollateralizationMandateInput \<Rightarrow> CollateralizationMandateRecord \<Rightarrow> string \<Rightarrow>
     CollateralizationMandateRevocationRecord" where
  "revocationOf_collateral input mandate revokedAt =
     \<lparr>kv_id = ivk_revocationId input, kv_mandateId = km_id mandate, kv_organizationId = km_organizationId mandate,
      kv_revokedAt = revokedAt, kv_reason = ivk_reason input, kv_issuerRef = ivk_issuerRef input,
      kv_correlationId = ivk_correlationId input, kv_description = ivk_description input,
      kv_evidenceRefs = ivk_evidenceRefs input, kv_executionsAtRevocation = km_executionCount mandate,
      kv_committedScopeAtRevocation = km_committedScope mandate\<rparr>"

definition revokeMandate_collateral ::
  "AuthorityGovernanceContext \<Rightarrow> RevokeCollateralizationMandateInput \<Rightarrow> collateral_store \<Rightarrow>
     CollateralizationRevokeOutcome collateral_result" where
  "revokeMandate_collateral context input ks =
     attempt (assertOpen_collateral ks) ks (\<lambda>_.
     attempt (requireCollateralizationAccessToOrganization context (ivk_organizationId input)) ks (\<lambda>_.
     attempt (requireStrictUtcCollateralizationTimestamp (ivk_revokedAt input)) ks (\<lambda>revokedAt.
     attempt (requireVisibleMandate_collateral context (ivk_mandateId input) ks) ks (\<lambda>mandate.
       case map_get (ks_revocations ks) (km_id mandate) of
         Some existing \<Rightarrow> (Inr (CollateralizationAlreadyRevoked mandate existing), ks)
       | None \<Rightarrow>
           attempt (assertCollateralizationRevocable (km_status mandate)) ks (\<lambda>_.
             let revocation = revocationOf_collateral input mandate revokedAt;
                 revoked = mandate\<lparr>km_status := TmRevoked\<rparr>
             in (Inr (CollateralizationRevoked revoked revocation),
                 ks\<lparr>ks_revocations := map_set (ks_revocations ks) (km_id mandate) revocation,
                    ks_mandates := map_set (ks_mandates ks) (km_id revoked) revoked\<rparr>))))))"

definition getRevocation_collateral ::
  "AuthorityGovernanceContext \<Rightarrow> string \<Rightarrow> collateral_store \<Rightarrow>
     CollateralizationMandateRevocationRecord option collateral_outcome" where
  "getRevocation_collateral context mandateId ks =
     rbind (assertOpen_collateral ks) (\<lambda>_.
     rbind (requireVisibleMandate_collateral context mandateId ks) (\<lambda>_. Inr (map_get (ks_revocations ks) mandateId)))"

record CollateralizationMandateStoreHealth =
  kh_healthy :: bool
  kh_readable :: bool
  kh_writable :: bool
  kh_schemaVersion :: string
  kh_checkedAt :: string

definition health_collateral :: "string \<Rightarrow> collateral_store \<Rightarrow> CollateralizationMandateStoreHealth" where
  "health_collateral now ks =
     \<lparr>kh_healthy = (\<not> ks_closed ks), kh_readable = (\<not> ks_closed ks), kh_writable = (\<not> ks_closed ks),
      kh_schemaVersion = ''aoc.collateralization-mandate-store.schema.v1'', kh_checkedAt = now\<rparr>"

definition close_collateral :: "collateral_store \<Rightarrow> collateral_store" where
  "close_collateral ks = ks\<lparr>ks_closed := True\<rparr>"

end
