(* ===== verification/TransferStore.thy ===== *)
theory TransferStore
  imports TransferMandate
begin

text \<open>
  Transfer mandates and the evidence recorded under them: the records of
  \<open>src/src/enterprise/transfer-governance/contracts.ts\<close>, the errors (\<open>errors.ts\<close>), the guards of
  \<open>mandate-store.ts\<close>, the rules of \<open>lifecycle.ts\<close> and the in-memory store
  (\<open>in-memory-mandate-store.ts\<close>). Names the release store has too carry the suffix \<open>_transfer\<close>.

  The context has the shape of \<^typ>\<open>AuthorityGovernanceContext\<close>, and the timestamp predicate is the
  one of the authority store; both are used for both. Every method is one synchronous section.
\<close>

section \<open>Errors and records\<close>

datatype TransferGovernanceErrorCode =
    TRANSFER_MANDATE_NOT_FOUND
  | TRANSFER_MANDATE_ALREADY_EXISTS
  | TRANSFER_MANDATE_NOT_ACTIVE
  | TRANSFER_EXECUTION_NOT_FOUND
  | TRANSFER_EXECUTION_ALREADY_RECORDED
  | TRANSFER_EXECUTION_NOT_AUTHORIZED EnterpriseTransferRefusalCode
  | TRANSFER_LIFECYCLE_ALREADY_RECORDED
  | TRANSFER_VALIDATION_ERROR
  | TRANSFER_SCOPE_ESCALATION
  | TRANSFER_INVALID_TIMESTAMP
  | TRANSFER_TENANT_SCOPE_REQUIRED
  | TRANSFER_ACCESS_SCOPE_VIOLATION
  | TRANSFER_ASSET_TENANT_MISMATCH
  | TRANSFER_STORE_UNAVAILABLE
  | TRANSFER_RECORD_CORRUPTED
  | TRANSFER_EVALUATION_FAILED
  | TRANSFER_REQUEST_CONFLICT
  | TRANSFER_PERSISTENCE_FAILED

type_synonym 'a transfer_outcome = "TransferGovernanceErrorCode + 'a"

record TransferMandateRecord =
  mr_id :: string
  mr_organizationId :: string
  mr_status :: EnterpriseTransferMandateStatus
  mr_assetKind :: string
  mr_assetId :: string
  mr_assetTenantId :: "string option"
  mr_terms :: EnterpriseTransferTerms
  mr_requestRef :: string
  mr_requestedBy :: string
  mr_decisionRef :: string
  mr_evaluationRef :: "string option"
  mr_effectiveFrom :: string
  mr_expiresAt :: string
  mr_correlationId :: string
  mr_issuerRef :: "string option"
  mr_approvalRefs :: "string list option"
  mr_obligationRefs :: "string list option"
  mr_evidenceRefs :: "string list option"
  mr_auditRefs :: "string list option"
  mr_transferredScope :: "GovernedRightsScope option"
  mr_executionCount :: int
  mr_createdAt :: string

record TransferExecutionRecord =
  xr_id :: string
  xr_mandateId :: string
  xr_organizationId :: string
  xr_executedBy :: string
  xr_executedAt :: string
  xr_transferorRef :: string
  xr_transfereeRef :: string
  xr_rights :: "GovernedRightType list"
  xr_transferredScope :: GovernedRightsScope
  xr_correlationId :: string
  xr_transferEffectiveAt :: "string option"
  xr_registry :: "string option"
  xr_externalSystem :: "string option"
  xr_externalAgreementReference :: "string option"
  xr_externalAcceptanceReference :: "string option"
  xr_externalConsiderationReference :: "string option"
  xr_externalRegistrationReference :: "string option"
  xr_externalTransactionReference :: "string option"
  xr_evidenceRefs :: "string list option"
  xr_recordedAt :: string

text \<open>What an external system may report of a movement (\<open>enterprise-transfer-execution.ts\<close>).\<close>

datatype EnterpriseTransferLifecycleType =
    TransferRegistered | TransferRejected | TransferReversed | TransferCorrected | TransferSuperseded

record TransferLifecycleRecord =
  lr_id :: string
  lr_mandateId :: string
  lr_executionId :: string
  lr_organizationId :: string
  lr_reportedBy :: string
  lr_occurredAt :: string
  lr_lifecycleType :: EnterpriseTransferLifecycleType
  lr_correlationId :: string
  lr_externalSystem :: "string option"
  lr_externalReference :: "string option"
  lr_evidenceRefs :: "string list option"
  lr_recordedAt :: string

record TransferMandateRevocationRecord =
  vr_id :: string
  vr_mandateId :: string
  vr_organizationId :: string
  vr_revokedAt :: string
  vr_reason :: string
  vr_issuerRef :: string
  vr_correlationId :: string
  vr_description :: "string option"
  vr_evidenceRefs :: "string list option"
  vr_executionsAtRevocation :: int
  vr_transferredScopeAtRevocation :: "GovernedRightsScope option"

record IssueTransferMandateInput =
  imt_id :: string
  imt_organizationId :: string
  imt_assetKind :: string
  imt_assetId :: string
  imt_assetTenantId :: "string option"
  imt_terms :: EnterpriseTransferTerms
  imt_requestedTerms :: EnterpriseTransferTerms
  imt_requestRef :: string
  imt_requestedBy :: string
  imt_decisionRef :: string
  imt_evaluationRef :: "string option"
  imt_effectiveFrom :: string
  imt_expiresAt :: string
  imt_correlationId :: string
  imt_issuerRef :: "string option"
  imt_approvalRefs :: "string list option"
  imt_obligationRefs :: "string list option"
  imt_evidenceRefs :: "string list option"
  imt_auditRefs :: "string list option"

record RecordTransferExecutionInput =
  ixt_id :: string
  ixt_mandateId :: string
  ixt_organizationId :: string
  ixt_executedBy :: string
  ixt_executedAt :: string
  ixt_transferorRef :: string
  ixt_transfereeRef :: string
  ixt_rights :: "GovernedRightType list"
  ixt_transferredScope :: GovernedRightsScope
  ixt_correlationId :: string
  ixt_transferEffectiveAt :: "string option"
  ixt_registry :: "string option"
  ixt_externalSystem :: "string option"
  ixt_externalAgreementReference :: "string option"
  ixt_externalAcceptanceReference :: "string option"
  ixt_externalConsiderationReference :: "string option"
  ixt_externalRegistrationReference :: "string option"
  ixt_externalTransactionReference :: "string option"
  ixt_evidenceRefs :: "string list option"

record RecordTransferLifecycleInput =
  ilt_id :: string
  ilt_mandateId :: string
  ilt_executionId :: string
  ilt_organizationId :: string
  ilt_reportedBy :: string
  ilt_occurredAt :: string
  ilt_lifecycleType :: EnterpriseTransferLifecycleType
  ilt_correlationId :: string
  ilt_externalSystem :: "string option"
  ilt_externalReference :: "string option"
  ilt_evidenceRefs :: "string list option"

record RevokeTransferMandateInput =
  ivt_revocationId :: string
  ivt_mandateId :: string
  ivt_organizationId :: string
  ivt_revokedAt :: string
  ivt_reason :: string
  ivt_issuerRef :: string
  ivt_correlationId :: string
  ivt_description :: "string option"
  ivt_evidenceRefs :: "string list option"

datatype TransferRevokeOutcome =
    TransferRevoked TransferMandateRecord TransferMandateRevocationRecord
  | TransferAlreadyRevoked TransferMandateRecord TransferMandateRevocationRecord

section \<open>Guards\<close>

definition canAccessTransferOrganization :: "AuthorityGovernanceContext \<Rightarrow> string \<Rightarrow> bool" where
  "canAccessTransferOrganization context recordOrganizationId =
     (if cx_system context then True else cx_organizationId context = Some recordOrganizationId)"

definition requireTransferTenantScope :: "AuthorityGovernanceContext \<Rightarrow> unit transfer_outcome" where
  "requireTransferTenantScope context =
     (if \<not> cx_system context \<and> (cx_organizationId context = None \<or> cx_organizationId context = Some [])
      then Inl TRANSFER_TENANT_SCOPE_REQUIRED else Inr ())"

definition requireTransferAccessToOrganization :: "AuthorityGovernanceContext \<Rightarrow> string \<Rightarrow> unit transfer_outcome" where
  "requireTransferAccessToOrganization context organizationId =
     rbind (requireTransferTenantScope context) (\<lambda>_.
       if \<not> canAccessTransferOrganization context organizationId
       then Inl TRANSFER_ACCESS_SCOPE_VIOLATION else Inr ())"

definition requireStrictUtcTransferTimestamp :: "string \<Rightarrow> string transfer_outcome" where
  "requireStrictUtcTransferTimestamp value =
     (if \<not> isStrictUtcTimestamp value then Inl TRANSFER_INVALID_TIMESTAMP else Inr value)"

section \<open>Rules\<close>

definition assertTransferRevocable :: "EnterpriseTransferMandateStatus \<Rightarrow> unit transfer_outcome" where
  "assertTransferRevocable status = (if status = TmRevoked then Inl TRANSFER_MANDATE_NOT_ACTIVE else Inr ())"

definition assertTransferActive :: "EnterpriseTransferMandateStatus \<Rightarrow> unit transfer_outcome" where
  "assertTransferActive status = (if status \<noteq> TmActive then Inl TRANSFER_MANDATE_NOT_ACTIVE else Inr ())"

definition assertNoTransferScopeEscalation ::
  "EnterpriseTransferTerms \<Rightarrow> EnterpriseTransferTerms \<Rightarrow> unit transfer_outcome" where
  "assertNoTransferScopeEscalation terms requestedTerms =
     (if \<not> enterpriseTransferTermsWithin terms requestedTerms then Inl TRANSFER_SCOPE_ESCALATION else Inr ())"

definition toCanonicalTransferMandate :: "TransferMandateRecord \<Rightarrow> EnterpriseTransferMandate" where
  "toCanonicalTransferMandate r =
     \<lparr>tm_schemaVersion = ENTERPRISE_TRANSFER_SCHEMA_VERSION, tm_id = mr_id r, tm_status = mr_status r,
      tm_asset = \<lparr>ta_kind = mr_assetKind r, ta_id = mr_assetId r, ta_tenantId = mr_assetTenantId r\<rparr>,
      tm_terms = mr_terms r, tm_requestRef = mr_requestRef r, tm_requestedBy = mr_requestedBy r,
      tm_decisionRef = mr_decisionRef r, tm_effectiveFrom = mr_effectiveFrom r, tm_expiresAt = mr_expiresAt r,
      tm_correlationId = mr_correlationId r, tm_evaluationRef = mr_evaluationRef r, tm_issuerRef = mr_issuerRef r,
      tm_approvalRefs = mr_approvalRefs r, tm_obligationRefs = mr_obligationRefs r,
      tm_evidenceRefs = mr_evidenceRefs r, tm_auditRefs = mr_auditRefs r\<rparr>"

definition exerciseOf :: "TransferMandateRecord \<Rightarrow> RecordTransferExecutionInput \<Rightarrow> string \<Rightarrow> EnterpriseTransferExerciseAttempt" where
  "exerciseOf r input executedAt =
     \<lparr>at_executedBy = ixt_executedBy input, at_transferorRef = ixt_transferorRef input,
      at_transfereeRef = ixt_transfereeRef input, at_rights = ixt_rights input,
      at_scope = ixt_transferredScope input, at_at = executedAt,
      at_alreadyTransferredScope = mr_transferredScope r, at_registry = ixt_registry input,
      at_hasRecipientAcceptance = (ixt_externalAcceptanceReference input \<noteq> None),
      at_hasConsiderationEvidence = (ixt_externalConsiderationReference input \<noteq> None),
      at_hasExternalAgreementReference = (ixt_externalAgreementReference input \<noteq> None),
      at_priorExecutionCount = mr_executionCount r\<rparr>"

definition assertTransferExerciseAuthorized ::
  "TransferMandateRecord \<Rightarrow> RecordTransferExecutionInput \<Rightarrow> string \<Rightarrow> unit transfer_outcome" where
  "assertTransferExerciseAuthorized r input executedAt =
     (case enterpriseTransferMandateAuthorizes (toCanonicalTransferMandate r) (exerciseOf r input executedAt) of
        Inl code \<Rightarrow> Inl (TRANSFER_EXECUTION_NOT_AUTHORIZED code)
      | Inr _ \<Rightarrow> Inr ())"

definition nextTransferredScope :: "GovernedRightsScope option \<Rightarrow> GovernedRightsScope \<Rightarrow> GovernedRightsScope option" where
  "nextTransferredScope current addition =
     (case current of None \<Rightarrow> Some addition | Some c \<Rightarrow> governedRightsScopeSum c addition)"

section \<open>The store\<close>

record transfer_store =
  ts_mandates :: "(string, TransferMandateRecord) js_map"
  ts_mandateIdByRequestRef :: "(string, string) js_map"
  ts_executions :: "(string, TransferExecutionRecord list) js_map"
  ts_executionIds :: "string list"
  ts_lifecycleEvents :: "(string, TransferLifecycleRecord list) js_map"
  ts_lifecycleIds :: "string list"
  ts_revocations :: "(string, TransferMandateRevocationRecord) js_map"
  ts_closed :: bool

definition empty_transfer_store :: transfer_store where
  "empty_transfer_store = \<lparr>ts_mandates = [], ts_mandateIdByRequestRef = [], ts_executions = [], ts_executionIds = [],
     ts_lifecycleEvents = [], ts_lifecycleIds = [], ts_revocations = [], ts_closed = False\<rparr>"

type_synonym 'a transfer_result = "'a transfer_outcome \<times> transfer_store"

definition assertOpen_transfer :: "transfer_store \<Rightarrow> unit transfer_outcome" where
  "assertOpen_transfer ts = (if ts_closed ts then Inl TRANSFER_STORE_UNAVAILABLE else Inr ())"

definition requireMandate_transfer :: "transfer_store \<Rightarrow> string \<Rightarrow> TransferMandateRecord transfer_outcome" where
  "requireMandate_transfer ts mandateId =
     (case map_get (ts_mandates ts) mandateId of None \<Rightarrow> Inl TRANSFER_MANDATE_NOT_FOUND | Some m \<Rightarrow> Inr m)"

definition requireVisibleMandate_transfer ::
  "AuthorityGovernanceContext \<Rightarrow> string \<Rightarrow> transfer_store \<Rightarrow> TransferMandateRecord transfer_outcome" where
  "requireVisibleMandate_transfer context mandateId ts =
     rbind (requireTransferTenantScope context) (\<lambda>_.
     rbind (requireMandate_transfer ts mandateId) (\<lambda>mandate.
       if \<not> canAccessTransferOrganization context (mr_organizationId mandate)
       then Inl TRANSFER_ACCESS_SCOPE_VIOLATION else Inr mandate))"

definition issuedMandate_transfer ::
  "IssueTransferMandateInput \<Rightarrow> string \<Rightarrow> string \<Rightarrow> string \<Rightarrow> TransferMandateRecord" where
  "issuedMandate_transfer input effectiveFrom expiresAt now =
     \<lparr>mr_id = imt_id input, mr_organizationId = imt_organizationId input, mr_status = TmActive,
      mr_assetKind = imt_assetKind input, mr_assetId = imt_assetId input, mr_assetTenantId = imt_assetTenantId input,
      mr_terms = imt_terms input, mr_requestRef = imt_requestRef input, mr_requestedBy = imt_requestedBy input,
      mr_decisionRef = imt_decisionRef input, mr_evaluationRef = imt_evaluationRef input,
      mr_effectiveFrom = effectiveFrom, mr_expiresAt = expiresAt, mr_correlationId = imt_correlationId input,
      mr_issuerRef = imt_issuerRef input, mr_approvalRefs = imt_approvalRefs input,
      mr_obligationRefs = imt_obligationRefs input, mr_evidenceRefs = imt_evidenceRefs input,
      mr_auditRefs = imt_auditRefs input, mr_transferredScope = None, mr_executionCount = 0, mr_createdAt = now\<rparr>"

definition issueMandate_transfer ::
  "string \<Rightarrow> AuthorityGovernanceContext \<Rightarrow> IssueTransferMandateInput \<Rightarrow> transfer_store \<Rightarrow>
     TransferMandateRecord transfer_result" where
  "issueMandate_transfer now context input ts =
     attempt (assertOpen_transfer ts) ts (\<lambda>_.
     attempt (requireTransferAccessToOrganization context (imt_organizationId input)) ts (\<lambda>_.
     attempt (requireStrictUtcTransferTimestamp (imt_effectiveFrom input)) ts (\<lambda>effectiveFrom.
     attempt (requireStrictUtcTransferTimestamp (imt_expiresAt input)) ts (\<lambda>expiresAt.
     attempt (assertNoTransferScopeEscalation (imt_terms input) (imt_requestedTerms input)) ts (\<lambda>_.
       if map_get (ts_mandates ts) (imt_id input) \<noteq> None then (Inl TRANSFER_MANDATE_ALREADY_EXISTS, ts)
       else if map_get (ts_mandateIdByRequestRef ts) (imt_requestRef input) \<noteq> None
         then (Inl TRANSFER_MANDATE_ALREADY_EXISTS, ts)
       else let mandate = issuedMandate_transfer input effectiveFrom expiresAt now
            in if validateEnterpriseTransferMandate (toCanonicalTransferMandate mandate) \<noteq> []
               then (Inl TRANSFER_VALIDATION_ERROR, ts)
               else (Inr mandate,
                     ts\<lparr>ts_mandates := map_set (ts_mandates ts) (mr_id mandate) mandate,
                        ts_mandateIdByRequestRef :=
                          map_set (ts_mandateIdByRequestRef ts) (mr_requestRef mandate) (mr_id mandate),
                        ts_executions := map_set (ts_executions ts) (mr_id mandate) [],
                        ts_lifecycleEvents := map_set (ts_lifecycleEvents ts) (mr_id mandate) []\<rparr>))))))"

definition getMandate_transfer ::
  "AuthorityGovernanceContext \<Rightarrow> string \<Rightarrow> transfer_store \<Rightarrow> TransferMandateRecord transfer_outcome" where
  "getMandate_transfer context mandateId ts =
     rbind (assertOpen_transfer ts) (\<lambda>_. requireVisibleMandate_transfer context mandateId ts)"

definition getMandateByRequestRef_transfer ::
  "AuthorityGovernanceContext \<Rightarrow> string \<Rightarrow> transfer_store \<Rightarrow> TransferMandateRecord option transfer_outcome" where
  "getMandateByRequestRef_transfer context requestRef ts =
     rbind (assertOpen_transfer ts) (\<lambda>_.
       case map_get (ts_mandateIdByRequestRef ts) requestRef of
         None \<Rightarrow> Inr None
       | Some mandateId \<Rightarrow> rbind (requireVisibleMandate_transfer context mandateId ts) (\<lambda>m. Inr (Some m)))"

definition recordedExecution_transfer ::
  "RecordTransferExecutionInput \<Rightarrow> TransferMandateRecord \<Rightarrow> string \<Rightarrow> string \<Rightarrow> TransferExecutionRecord" where
  "recordedExecution_transfer input mandate executedAt now =
     \<lparr>xr_id = ixt_id input, xr_mandateId = mr_id mandate, xr_organizationId = mr_organizationId mandate,
      xr_executedBy = ixt_executedBy input, xr_executedAt = executedAt,
      xr_transferorRef = ixt_transferorRef input, xr_transfereeRef = ixt_transfereeRef input,
      xr_rights = ixt_rights input, xr_transferredScope = ixt_transferredScope input,
      xr_correlationId = ixt_correlationId input, xr_transferEffectiveAt = ixt_transferEffectiveAt input,
      xr_registry = ixt_registry input, xr_externalSystem = ixt_externalSystem input,
      xr_externalAgreementReference = ixt_externalAgreementReference input,
      xr_externalAcceptanceReference = ixt_externalAcceptanceReference input,
      xr_externalConsiderationReference = ixt_externalConsiderationReference input,
      xr_externalRegistrationReference = ixt_externalRegistrationReference input,
      xr_externalTransactionReference = ixt_externalTransactionReference input,
      xr_evidenceRefs = ixt_evidenceRefs input, xr_recordedAt = now\<rparr>"

text \<open>The guards of \<open>recordExecution\<close>, with the mandate they find.\<close>

definition executionGuards_transfer ::
  "AuthorityGovernanceContext \<Rightarrow> RecordTransferExecutionInput \<Rightarrow> transfer_store \<Rightarrow> TransferMandateRecord transfer_outcome" where
  "executionGuards_transfer context input ts =
     rbind (assertOpen_transfer ts) (\<lambda>_.
     rbind (requireTransferAccessToOrganization context (ixt_organizationId input)) (\<lambda>_.
     rbind (requireStrictUtcTransferTimestamp (ixt_executedAt input)) (\<lambda>executedAt.
     rbind (requireVisibleMandate_transfer context (ixt_mandateId input) ts) (\<lambda>mandate.
       if mr_organizationId mandate \<noteq> ixt_organizationId input then Inl TRANSFER_ACCESS_SCOPE_VIOLATION
       else if ixt_id input \<in> set (ts_executionIds ts) then Inl TRANSFER_EXECUTION_ALREADY_RECORDED
       else rbind (assertTransferExerciseAuthorized mandate input executedAt) (\<lambda>_. Inr mandate)))))"

definition recordExecution_transfer ::
  "string \<Rightarrow> AuthorityGovernanceContext \<Rightarrow> RecordTransferExecutionInput \<Rightarrow> transfer_store \<Rightarrow>
     (TransferMandateRecord \<times> TransferExecutionRecord) transfer_result" where
  "recordExecution_transfer now context input ts =
     attempt (executionGuards_transfer context input ts) ts (\<lambda>mandate.
       case nextTransferredScope (mr_transferredScope mandate) (ixt_transferredScope input) of
         None \<Rightarrow> (Inl (TRANSFER_EXECUTION_NOT_AUTHORIZED CUMULATIVE_SCOPE_EXCEEDS_MANDATE), ts)
       | Some transferredScope \<Rightarrow>
           let execution = recordedExecution_transfer input mandate (ixt_executedAt input) now;
               updated = mandate\<lparr>mr_executionCount := mr_executionCount mandate + 1,
                                 mr_transferredScope := Some transferredScope\<rparr>
           in case map_get (ts_executions ts) (mr_id mandate) of
                None \<Rightarrow> (Inl TRANSFER_STORE_UNAVAILABLE, ts)
              | Some log \<Rightarrow>
                  (Inr (updated, execution),
                   ts\<lparr>ts_executionIds := xr_id execution # ts_executionIds ts,
                      ts_executions := map_set (ts_executions ts) (mr_id mandate) (log @ [execution]),
                      ts_mandates := map_set (ts_mandates ts) (mr_id updated) updated\<rparr>))"

definition executionsOf_transfer :: "transfer_store \<Rightarrow> string \<Rightarrow> TransferExecutionRecord list" where
  "executionsOf_transfer ts mandateId =
     (case map_get (ts_executions ts) mandateId of None \<Rightarrow> [] | Some xs \<Rightarrow> xs)"

definition listExecutions_transfer ::
  "AuthorityGovernanceContext \<Rightarrow> string \<Rightarrow> transfer_store \<Rightarrow> TransferExecutionRecord list transfer_outcome" where
  "listExecutions_transfer context mandateId ts =
     rbind (assertOpen_transfer ts) (\<lambda>_.
     rbind (requireVisibleMandate_transfer context mandateId ts) (\<lambda>_. Inr (executionsOf_transfer ts mandateId)))"

definition recordedLifecycle ::
  "RecordTransferLifecycleInput \<Rightarrow> TransferMandateRecord \<Rightarrow> string \<Rightarrow> string \<Rightarrow> TransferLifecycleRecord" where
  "recordedLifecycle input mandate occurredAt now =
     \<lparr>lr_id = ilt_id input, lr_mandateId = mr_id mandate, lr_executionId = ilt_executionId input,
      lr_organizationId = mr_organizationId mandate, lr_reportedBy = ilt_reportedBy input,
      lr_occurredAt = occurredAt, lr_lifecycleType = ilt_lifecycleType input,
      lr_correlationId = ilt_correlationId input, lr_externalSystem = ilt_externalSystem input,
      lr_externalReference = ilt_externalReference input, lr_evidenceRefs = ilt_evidenceRefs input,
      lr_recordedAt = now\<rparr>"

definition lifecycleGuards ::
  "AuthorityGovernanceContext \<Rightarrow> RecordTransferLifecycleInput \<Rightarrow> transfer_store \<Rightarrow> TransferMandateRecord transfer_outcome" where
  "lifecycleGuards context input ts =
     rbind (assertOpen_transfer ts) (\<lambda>_.
     rbind (requireTransferAccessToOrganization context (ilt_organizationId input)) (\<lambda>_.
     rbind (requireStrictUtcTransferTimestamp (ilt_occurredAt input)) (\<lambda>_.
     rbind (requireVisibleMandate_transfer context (ilt_mandateId input) ts) (\<lambda>mandate.
       if mr_organizationId mandate \<noteq> ilt_organizationId input then Inl TRANSFER_ACCESS_SCOPE_VIOLATION
       else if \<not> list_ex (\<lambda>x. xr_id x = ilt_executionId input) (executionsOf_transfer ts (mr_id mandate))
         then Inl TRANSFER_EXECUTION_NOT_FOUND
       else if ilt_id input \<in> set (ts_lifecycleIds ts) then Inl TRANSFER_LIFECYCLE_ALREADY_RECORDED
       else Inr mandate))))"

definition recordLifecycleEvent ::
  "string \<Rightarrow> AuthorityGovernanceContext \<Rightarrow> RecordTransferLifecycleInput \<Rightarrow> transfer_store \<Rightarrow>
     TransferLifecycleRecord transfer_result" where
  "recordLifecycleEvent now context input ts =
     attempt (lifecycleGuards context input ts) ts (\<lambda>mandate.
       let event = recordedLifecycle input mandate (ilt_occurredAt input) now
       in case map_get (ts_lifecycleEvents ts) (mr_id mandate) of
            None \<Rightarrow> (Inl TRANSFER_STORE_UNAVAILABLE, ts)
          | Some log \<Rightarrow>
              (Inr event,
               ts\<lparr>ts_lifecycleIds := lr_id event # ts_lifecycleIds ts,
                  ts_lifecycleEvents := map_set (ts_lifecycleEvents ts) (mr_id mandate) (log @ [event])\<rparr>))"

definition listLifecycleEvents ::
  "AuthorityGovernanceContext \<Rightarrow> string \<Rightarrow> transfer_store \<Rightarrow> TransferLifecycleRecord list transfer_outcome" where
  "listLifecycleEvents context mandateId ts =
     rbind (assertOpen_transfer ts) (\<lambda>_.
     rbind (requireVisibleMandate_transfer context mandateId ts) (\<lambda>_.
       Inr (case map_get (ts_lifecycleEvents ts) mandateId of None \<Rightarrow> [] | Some xs \<Rightarrow> xs)))"

definition revocationOf ::
  "RevokeTransferMandateInput \<Rightarrow> TransferMandateRecord \<Rightarrow> string \<Rightarrow> TransferMandateRevocationRecord" where
  "revocationOf input mandate revokedAt =
     \<lparr>vr_id = ivt_revocationId input, vr_mandateId = mr_id mandate, vr_organizationId = mr_organizationId mandate,
      vr_revokedAt = revokedAt, vr_reason = ivt_reason input, vr_issuerRef = ivt_issuerRef input,
      vr_correlationId = ivt_correlationId input, vr_description = ivt_description input,
      vr_evidenceRefs = ivt_evidenceRefs input, vr_executionsAtRevocation = mr_executionCount mandate,
      vr_transferredScopeAtRevocation = mr_transferredScope mandate\<rparr>"

definition revokeMandate_transfer ::
  "AuthorityGovernanceContext \<Rightarrow> RevokeTransferMandateInput \<Rightarrow> transfer_store \<Rightarrow> TransferRevokeOutcome transfer_result" where
  "revokeMandate_transfer context input ts =
     attempt (assertOpen_transfer ts) ts (\<lambda>_.
     attempt (requireTransferAccessToOrganization context (ivt_organizationId input)) ts (\<lambda>_.
     attempt (requireStrictUtcTransferTimestamp (ivt_revokedAt input)) ts (\<lambda>revokedAt.
     attempt (requireVisibleMandate_transfer context (ivt_mandateId input) ts) ts (\<lambda>mandate.
       case map_get (ts_revocations ts) (mr_id mandate) of
         Some existing \<Rightarrow> (Inr (TransferAlreadyRevoked mandate existing), ts)
       | None \<Rightarrow>
           attempt (assertTransferRevocable (mr_status mandate)) ts (\<lambda>_.
             let revocation = revocationOf input mandate revokedAt;
                 revoked = mandate\<lparr>mr_status := TmRevoked\<rparr>
             in (Inr (TransferRevoked revoked revocation),
                 ts\<lparr>ts_revocations := map_set (ts_revocations ts) (mr_id mandate) revocation,
                    ts_mandates := map_set (ts_mandates ts) (mr_id revoked) revoked\<rparr>))))))"

definition getRevocation_transfer ::
  "AuthorityGovernanceContext \<Rightarrow> string \<Rightarrow> transfer_store \<Rightarrow>
     TransferMandateRevocationRecord option transfer_outcome" where
  "getRevocation_transfer context mandateId ts =
     rbind (assertOpen_transfer ts) (\<lambda>_.
     rbind (requireVisibleMandate_transfer context mandateId ts) (\<lambda>_. Inr (map_get (ts_revocations ts) mandateId)))"

record TransferMandateStoreHealth =
  th_healthy :: bool
  th_readable :: bool
  th_writable :: bool
  th_schemaVersion :: string
  th_checkedAt :: string

definition health_transfer :: "string \<Rightarrow> transfer_store \<Rightarrow> TransferMandateStoreHealth" where
  "health_transfer now ts =
     \<lparr>th_healthy = (\<not> ts_closed ts), th_readable = (\<not> ts_closed ts), th_writable = (\<not> ts_closed ts),
      th_schemaVersion = ''aoc.transfer-mandate-store.schema.v1'', th_checkedAt = now\<rparr>"

definition close_transfer :: "transfer_store \<Rightarrow> transfer_store" where
  "close_transfer ts = ts\<lparr>ts_closed := True\<rparr>"

end
