(* ===== verification/TransferService.thy ===== *)
theory TransferService
  imports TransferStore ReleaseService
begin

text \<open>
  The governed transfer of authority, \<open>src/src/enterprise/transfer-governance/service.ts\<close>. The kernel
  and the governance store are parameters, answering what they answered during the call; the mandate
  store and the authority store are the modelled ones. The authority store is optional: without one
  (\<^const>\<open>None\<close>) evidence is recorded and no authority moves.

  The world of a call is the pair of the two stores. \<open>now\<close> is the service's clock, \<open>mnow\<close> the mandate
  store's and \<open>anow\<close> the authority store's, each read once per call; \<open>nextId\<close> gives the identifier the
  call mints for a prefix, and no prefix is used twice in a call that returns its identifiers.
\<close>

section \<open>Inputs, outcomes and failures\<close>

datatype transfer_failure =
    TransferFailed TransferGovernanceErrorCode
  | TransferAuthorityFailed AuthorityGovernanceErrorCode
  | TransferGovernanceStoreFailed

fun from_transfer :: "'a transfer_outcome \<Rightarrow> transfer_failure + 'a" where
  "from_transfer (Inl e) = Inl (TransferFailed e)"
| "from_transfer (Inr a) = Inr a"

fun authority_failure :: "'a outcome \<Rightarrow> transfer_failure + 'a" where
  "authority_failure (Inl e) = Inl (TransferAuthorityFailed e)"
| "authority_failure (Inr a) = Inr a"

type_synonym transfer_world = "transfer_store \<times> auth_store option"

record SubmitTransferRequestInput =
  sb_requestId :: "string option"
  sb_asset :: TransferResourceRef
  sb_requestedBy :: string
  sb_trustDomainId :: string
  sb_principalActorId :: "string option"
  sb_actorType :: "string option"
  sb_terms :: EnterpriseTransferTerms
  sb_resourceScope :: "string option"
  sb_requestedAt :: "string option"
  sb_correlationId :: "string option"
  sb_requestedExpiresAt :: "string option"
  sb_justification :: "string option"
  sb_evidenceRefs :: "string list option"
  sb_idempotencyKey :: "string option"
  sb_mandateExpiresAt :: string
  sb_issuerRef :: "string option"
  sb_obligationRefs :: "string list option"
  sb_auditRefs :: "string list option"

record RecordTransferExecutionRequest =
  rx_executionId :: "string option"
  rx_mandateId :: string
  rx_executedBy :: string
  rx_executedAt :: string
  rx_transferorRef :: string
  rx_transfereeRef :: string
  rx_rights :: "GovernedRightType list"
  rx_transferredScope :: GovernedRightsScope
  rx_correlationId :: "string option"
  rx_transferEffectiveAt :: "string option"
  rx_registry :: "string option"
  rx_externalSystem :: "string option"
  rx_externalAgreementReference :: "string option"
  rx_externalAcceptanceReference :: "string option"
  rx_externalConsiderationReference :: "string option"
  rx_externalRegistrationReference :: "string option"
  rx_externalTransactionReference :: "string option"
  rx_evidenceRefs :: "string list option"

record RecordTransferLifecycleRequest =
  rq_lifecycleId :: "string option"
  rq_mandateId :: string
  rq_executionId :: string
  rq_reportedBy :: string
  rq_occurredAt :: string
  rq_lifecycleType :: EnterpriseTransferLifecycleType
  rq_correlationId :: "string option"
  rq_externalSystem :: "string option"
  rq_externalReference :: "string option"
  rq_evidenceRefs :: "string list option"

record RevokeTransferMandateRequest =
  rv_mandateId :: string
  rv_reason :: string
  rv_requestedBy :: string
  rv_revokedAt :: "string option"
  rv_description :: "string option"
  rv_evidenceRefs :: "string list option"
  rv_correlationId :: "string option"

record TransferRequestOutcome =
  to_status :: KernelDecisionStatus
  to_requestId :: string
  to_decisionId :: string
  to_evaluationId :: string
  to_reasonCodes :: "string list"
  to_summary :: string
  to_mandate :: "TransferMandateRecord option"

text \<open>The kernel request the service builds; \<open>context\<close> is passed through and is left out.\<close>

record TransferKernelRequest =
  tq_requestId :: string
  tq_actorId :: string
  tq_trustDomainId :: string
  tq_principalId :: "string option"
  tq_actorType :: "string option"
  tq_actionType :: string
  tq_capability :: string
  tq_resourceScope :: string
  tq_sideEffectType :: string
  tq_riskLevel :: string
  tq_parameters :: EnterpriseTransferRequest
  tq_governedRights :: "GovernedRightType list"
  tq_governedRightsScope :: GovernedRightsScope
  tq_governedAuthorityHolderRef :: string
  tq_counterpartyId :: string
  tq_evidenceIds :: "string list option"
  tq_target :: GovernedAuthorityResourceRef
  tq_organizationId :: string
  tq_requestedAt :: string
  tq_correlationId :: string
  tq_idempotencyKey :: "string option"

section \<open>The request\<close>

definition serializeEnterpriseTransferRequest :: "EnterpriseTransferRequest \<Rightarrow> EnterpriseTransferRequest" where
  "serializeEnterpriseTransferRequest q =
     q\<lparr>tr_terms := serializeEnterpriseTransferTerms (tr_terms q),
       tr_evidenceRefs := map_option sort_strings (tr_evidenceRefs q)\<rparr>"

definition deserializeEnterpriseTransferRequest ::
  "EnterpriseTransferRequest \<Rightarrow> EnterpriseTransferRequestValidationCode list + EnterpriseTransferRequest" where
  "deserializeEnterpriseTransferRequest candidate =
     (if validateEnterpriseTransferRequest candidate \<noteq> [] then Inl (validateEnterpriseTransferRequest candidate)
      else Inr (candidate\<lparr>tr_schemaVersion := ENTERPRISE_TRANSFER_SCHEMA_VERSION,
                          tr_capability := ENTERPRISE_TRANSFER_CAPABILITY,
                          tr_terms := readEnterpriseTransferTerms (tr_terms candidate)\<rparr>))"

definition defaultResourceScope :: "TransferResourceRef \<Rightarrow> string" where
  "defaultResourceScope asset = ta_kind asset @ '':'' @ ta_id asset"

definition assertAssetBelongsToOrganization :: "TransferResourceRef \<Rightarrow> string \<Rightarrow> unit transfer_outcome" where
  "assertAssetBelongsToOrganization asset organizationId =
     (if ta_tenantId asset \<noteq> None \<and> ta_tenantId asset \<noteq> Some organizationId
      then Inl TRANSFER_ASSET_TENANT_MISMATCH else Inr ())"

definition buildCanonicalRequest ::
  "string \<Rightarrow> SubmitTransferRequestInput \<Rightarrow> string \<Rightarrow> string \<Rightarrow> EnterpriseTransferRequest transfer_outcome" where
  "buildCanonicalRequest now input requestId correlationId =
     (let candidate =
        \<lparr>tr_schemaVersion = ENTERPRISE_TRANSFER_SCHEMA_VERSION, tr_id = requestId,
         tr_capability = ENTERPRISE_TRANSFER_CAPABILITY, tr_asset = sb_asset input,
         tr_requestedBy = sb_requestedBy input, tr_terms = sb_terms input,
         tr_requestedAt = (case sb_requestedAt input of None \<Rightarrow> now | Some t \<Rightarrow> t),
         tr_correlationId = correlationId, tr_requestedExpiresAt = sb_requestedExpiresAt input,
         tr_justification = sb_justification input, tr_evidenceRefs = sb_evidenceRefs input\<rparr>
      in if validateEnterpriseTransferRequest candidate \<noteq> [] then Inl TRANSFER_VALIDATION_ERROR
         else Inr candidate)"

definition toTransferKernelRequest ::
  "EnterpriseTransferRequest \<Rightarrow> SubmitTransferRequestInput \<Rightarrow> string \<Rightarrow> TransferKernelRequest" where
  "toTransferKernelRequest request input organizationId =
     \<lparr>tq_requestId = tr_id request, tq_actorId = tr_requestedBy request,
      tq_trustDomainId = sb_trustDomainId input, tq_principalId = sb_principalActorId input,
      tq_actorType = sb_actorType input, tq_actionType = ENTERPRISE_TRANSFER_CAPABILITY,
      tq_capability = ENTERPRISE_TRANSFER_CAPABILITY,
      tq_resourceScope = (case sb_resourceScope input of None \<Rightarrow> defaultResourceScope (tr_asset request) | Some s \<Rightarrow> s),
      tq_sideEffectType = ''external_api_call'', tq_riskLevel = ''critical'',
      tq_parameters = serializeEnterpriseTransferRequest request,
      tq_governedRights = tt_rights (tr_terms request), tq_governedRightsScope = tt_scope (tr_terms request),
      tq_governedAuthorityHolderRef = tt_transferorRef (tr_terms request),
      tq_counterpartyId = tt_transfereeRef (tr_terms request), tq_evidenceIds = tr_evidenceRefs request,
      tq_target = \<lparr>rr_kind = ta_kind (tr_asset request), rr_id = ta_id (tr_asset request)\<rparr>,
      tq_organizationId = organizationId, tq_requestedAt = tr_requestedAt request,
      tq_correlationId = tr_correlationId request, tq_idempotencyKey = sb_idempotencyKey input\<rparr>"

section \<open>The commitment gate\<close>

definition toAuthorityContext :: "AuthorityGovernanceContext \<Rightarrow> AuthorityGovernanceContext" where
  "toAuthorityContext context =
     \<lparr>cx_system = cx_system context, cx_organizationId = cx_organizationId context, cx_actorId = cx_actorId context\<rparr>"

text \<open>The loop of \<open>releaseTransferReservations\<close>: the first release that throws ends it.\<close>

fun releaseEach ::
  "(string \<Rightarrow> string) \<Rightarrow> string \<Rightarrow> AuthorityGovernanceContext \<Rightarrow> string \<Rightarrow> string list \<Rightarrow> auth_store \<Rightarrow>
     unit store_result" where
  "releaseEach sha anow context organizationId [] st = (Inr (), st)"
| "releaseEach sha anow context organizationId (i # is) st =
     (case releaseReservation sha anow (toAuthorityContext context)
             \<lparr>rl_tenantId = organizationId, rl_reservationId = i, rl_reason = AuthorizationEnded,
              rl_releasedAt = None\<rparr> st of
        (Inl e, st1) \<Rightarrow> (Inl e, st1)
      | (Inr _, st1) \<Rightarrow> releaseEach sha anow context organizationId is st1)"

definition releaseTransferReservations ::
  "(string \<Rightarrow> string) \<Rightarrow> string \<Rightarrow> AuthorityGovernanceContext \<Rightarrow> string \<Rightarrow> string list \<Rightarrow> auth_store option \<Rightarrow>
     (transfer_failure + unit) \<times> auth_store option" where
  "releaseTransferReservations sha anow context organizationId reservationIds au =
     (case au of
        None \<Rightarrow> (Inr (), None)
      | Some st \<Rightarrow>
          if length reservationIds = 0 then (Inr (), Some st)
          else let (res, st1) = releaseEach sha anow context organizationId reservationIds st
               in (authority_failure res, Some st1))"

definition reservationInput ::
  "string \<Rightarrow> EnterpriseTransferRequest \<Rightarrow> string \<Rightarrow> string \<Rightarrow> string \<Rightarrow> string \<Rightarrow> GovernedRightType \<Rightarrow>
     AcquireGovernedAuthorityReservationInput" where
  "reservationInput organizationId request mandateId decisionRef effectiveFrom expiresAt governedRight =
     \<lparr>q_tenantId = organizationId, q_holderRef = tt_transferorRef (tr_terms request),
      q_resource = \<lparr>rr_kind = ta_kind (tr_asset request), rr_id = ta_id (tr_asset request)\<rparr>,
      q_governedRight = governedRight, q_scope = tt_scope (tr_terms request),
      q_action = ENTERPRISE_TRANSFER_CAPABILITY, q_sourceRequestRef = tr_id request,
      q_sourceDecisionRef = Some decisionRef, q_sourceMandateRef = mandateId,
      q_effectiveFrom = effectiveFrom, q_expiresAt = expiresAt,
      q_idempotencyKey = Some (mandateId @ '':'' @ governedRight),
      q_correlationId = Some (tr_correlationId request)\<rparr>"

text \<open>The loop over the rights: what it acquired, and the error that ended it early.\<close>

fun acquireEach ::
  "(string \<Rightarrow> string) \<Rightarrow> string \<Rightarrow> AuthorityGovernanceContext \<Rightarrow>
     (GovernedRightType \<Rightarrow> AcquireGovernedAuthorityReservationInput) \<Rightarrow> GovernedRightType list \<Rightarrow> string list \<Rightarrow>
     auth_store \<Rightarrow> (AuthorityGovernanceErrorCode option \<times> string list) \<times> auth_store" where
  "acquireEach sha anow context inputOf [] acquired st = ((None, acquired), st)"
| "acquireEach sha anow context inputOf (governedRight # rest) acquired st =
     (case acquireReservation sha anow (toAuthorityContext context) (inputOf governedRight) st of
        (Inl e, st1) \<Rightarrow> ((Some e, acquired), st1)
      | (Inr (Reserved r _), st1) \<Rightarrow> acquireEach sha anow context inputOf rest (acquired @ [r_id r]) st1
      | (Inr ReservationNotEnrolled, st1) \<Rightarrow> acquireEach sha anow context inputOf rest acquired st1)"

definition reserveTransferAuthority ::
  "(string \<Rightarrow> string) \<Rightarrow> string \<Rightarrow> AuthorityGovernanceContext \<Rightarrow> string \<Rightarrow> EnterpriseTransferRequest \<Rightarrow> string \<Rightarrow>
     string \<Rightarrow> string \<Rightarrow> string \<Rightarrow> auth_store option \<Rightarrow> (transfer_failure + string list) \<times> auth_store option" where
  "reserveTransferAuthority sha anow context organizationId request mandateId decisionRef effectiveFrom expiresAt au =
     (case au of
        None \<Rightarrow> (Inr [], None)
      | Some st \<Rightarrow>
          if \<not> governedActionCommitsAuthority ENTERPRISE_TRANSFER_CAPABILITY
          then (Inl (TransferFailed TRANSFER_EVALUATION_FAILED), Some st)
          else
            (case acquireEach sha anow context
                    (reservationInput organizationId request mandateId decisionRef effectiveFrom expiresAt)
                    (tt_rights (tr_terms request)) [] st of
               ((None, acquired), st1) \<Rightarrow> (Inr acquired, Some st1)
             | ((Some e, acquired), st1) \<Rightarrow>
                 (Inl (TransferAuthorityFailed e),
                  snd (releaseTransferReservations sha anow context organizationId acquired (Some st1)))))"

definition releaseActiveReservationsForMandate ::
  "(string \<Rightarrow> string) \<Rightarrow> string \<Rightarrow> AuthorityGovernanceContext \<Rightarrow> string \<Rightarrow> string \<Rightarrow> auth_store option \<Rightarrow>
     (transfer_failure + unit) \<times> auth_store option" where
  "releaseActiveReservationsForMandate sha anow context organizationId mandateId au =
     (case au of
        None \<Rightarrow> (Inr (), None)
      | Some st \<Rightarrow>
          attempt (authority_failure
                     (listReservationsByMandateRef sha (toAuthorityContext context) organizationId mandateId st))
            (Some st) (\<lambda>held.
              let (res, st1) = releaseEach sha anow context organizationId
                     (map r_id (filter (\<lambda>r. r_status r = RsActive) held)) st
              in (authority_failure res, Some st1)))"

section \<open>The transition of a completed movement\<close>

definition transitionInput ::
  "TransferMandateRecord \<Rightarrow> TransferExecutionRecord \<Rightarrow> ApplyGovernedAuthorityTransitionInput" where
  "transitionInput mandate execution =
     \<lparr>a_transitionIdPrefix = None, a_tenantId = mr_organizationId mandate,
      a_resource = \<lparr>rr_kind = mr_assetKind mandate, rr_id = mr_assetId mandate\<rparr>,
      a_governedRights = xr_rights execution, a_scope = xr_transferredScope execution,
      a_fromHolderRef = xr_transferorRef execution, a_toHolderRef = xr_transfereeRef execution,
      a_basis = GovernedExecution ENTERPRISE_TRANSFER_CAPABILITY (xr_id execution) (mr_id mandate)
                  (Some (mr_decisionRef mandate)) (mr_evaluationRef mandate) (xr_evidenceRefs execution),
      a_occurredAt = (case xr_transferEffectiveAt execution of None \<Rightarrow> xr_executedAt execution | Some t \<Rightarrow> t),
      a_correlationId = Some (xr_correlationId execution),
      a_consumesReservationsForMandateRef = Some (mr_id mandate)\<rparr>"

definition applyAuthorityTransition ::
  "(string \<Rightarrow> string) \<Rightarrow> string \<Rightarrow> AuthorityGovernanceContext \<Rightarrow> TransferMandateRecord \<Rightarrow>
     TransferExecutionRecord \<Rightarrow> auth_store option \<Rightarrow> (transfer_failure + unit) \<times> auth_store option" where
  "applyAuthorityTransition sha anow context mandate execution au =
     (case au of
        None \<Rightarrow> (Inr (), None)
      | Some st \<Rightarrow>
          (case applyTransition sha anow (toAuthorityContext context) (transitionInput mandate execution) st of
             (Inl e, st1) \<Rightarrow> (Inl (TransferAuthorityFailed e), Some st1)
           | (Inr _, st1) \<Rightarrow> (Inr (), Some st1)))"

section \<open>Requesting a transfer\<close>

definition transferMandateInput ::
  "SubmitTransferRequestInput \<Rightarrow> EnterpriseTransferRequest \<Rightarrow> KernelEvaluationResult \<Rightarrow> string \<Rightarrow> string \<Rightarrow>
     string \<Rightarrow> string \<Rightarrow> string \<Rightarrow> IssueTransferMandateInput" where
  "transferMandateInput input request result organizationId mandateId evaluationId effectiveFrom mandateExpiresAt =
     (let approvalRefs = List.map_filter (\<lambda>r. r)
            [kr_approvalProofId result, kr_approvalDecisionId result, kr_approvalRequestId result]
      in \<lparr>imt_id = mandateId, imt_organizationId = organizationId,
          imt_assetKind = ta_kind (tr_asset request), imt_assetId = ta_id (tr_asset request),
          imt_assetTenantId = ta_tenantId (tr_asset request), imt_terms = tr_terms request,
          imt_requestedTerms = tr_terms request, imt_requestRef = tr_id request,
          imt_requestedBy = tr_requestedBy request, imt_decisionRef = kr_decisionId result,
          imt_evaluationRef = Some evaluationId, imt_effectiveFrom = effectiveFrom,
          imt_expiresAt = mandateExpiresAt, imt_correlationId = tr_correlationId request,
          imt_issuerRef = sb_issuerRef input,
          imt_approvalRefs = (if length approvalRefs > 0 then Some approvalRefs else None),
          imt_obligationRefs = sb_obligationRefs input, imt_evidenceRefs = tr_evidenceRefs request,
          imt_auditRefs = sb_auditRefs input\<rparr>)"

definition transferOutcomeBase ::
  "KernelEvaluationResult \<Rightarrow> string \<Rightarrow> TransferMandateRecord option \<Rightarrow> TransferRequestOutcome" where
  "transferOutcomeBase result evaluationId mandate =
     \<lparr>to_status = kr_status result, to_requestId = kr_requestId result, to_decisionId = kr_decisionId result,
      to_evaluationId = evaluationId, to_reasonCodes = kr_reasonCodes result, to_summary = kr_summary result,
      to_mandate = mandate\<rparr>"

text \<open>What a request establishes before the kernel is asked.\<close>

definition prepareTransfer ::
  "string \<Rightarrow> (string \<Rightarrow> string) \<Rightarrow> AuthorityGovernanceContext \<Rightarrow> string \<Rightarrow> SubmitTransferRequestInput \<Rightarrow>
     (EnterpriseTransferRequest \<times> string) transfer_outcome" where
  "prepareTransfer now nextId context organizationId input =
     rbind (requireTransferAccessToOrganization context organizationId) (\<lambda>_.
     rbind (assertAssetBelongsToOrganization (sb_asset input) organizationId) (\<lambda>_.
       let requestId = (case sb_requestId input of None \<Rightarrow> nextId ''transfer-request'' | Some r \<Rightarrow> r);
           correlationId = (case sb_correlationId input of None \<Rightarrow> nextId ''transfer-correlation'' | Some c \<Rightarrow> c)
       in rbind (buildCanonicalRequest now input requestId correlationId) (\<lambda>request.
          rbind (requireStrictUtcTransferTimestamp (sb_mandateExpiresAt input)) (\<lambda>mandateExpiresAt.
            Inr (request, mandateExpiresAt)))))"

text \<open>From an allowed, freshly recorded decision on: the commitment, the mandate, and the compensation.\<close>

definition commitAndIssue ::
  "(string \<Rightarrow> string) \<Rightarrow> string \<Rightarrow> string \<Rightarrow> AuthorityGovernanceContext \<Rightarrow> string \<Rightarrow> EnterpriseTransferRequest \<Rightarrow>
     IssueTransferMandateInput \<Rightarrow> transfer_world \<Rightarrow> (transfer_failure + TransferMandateRecord) \<times> transfer_world" where
  "commitAndIssue sha mnow anow context organizationId request issue w =
     (case w of (ts, au) \<Rightarrow>
        (case reserveTransferAuthority sha anow context organizationId request (imt_id issue) (imt_decisionRef issue)
                (imt_effectiveFrom issue) (imt_expiresAt issue) au of
           (Inl e, au1) \<Rightarrow> (Inl e, ts, au1)
         | (Inr reservationIds, au1) \<Rightarrow>
             (case issueMandate_transfer mnow context issue ts of
                (Inl e, ts1) \<Rightarrow>
                  (Inl (TransferFailed e), ts1,
                   snd (releaseTransferReservations sha anow context organizationId reservationIds au1))
              | (Inr mandate, ts1) \<Rightarrow> (Inr mandate, ts1, au1))))"

text \<open>
  \<open>evaluate\<close> is the kernel, which answers or throws (\<^const>\<open>None\<close>); \<open>appendEvaluation\<close> is what the
  governance store answers, and \<open>appendReference\<close> whether its link to an artifact returns.
\<close>

definition requestTransfer ::
  "(string \<Rightarrow> string) \<Rightarrow> string \<Rightarrow> string \<Rightarrow> string \<Rightarrow> (string \<Rightarrow> string) \<Rightarrow>
     (TransferKernelRequest \<Rightarrow> KernelEvaluationResult option) \<Rightarrow>
     (TransferKernelRequest \<Rightarrow> KernelEvaluationResult \<Rightarrow> append_answer) \<Rightarrow> (string \<Rightarrow> string \<Rightarrow> bool) \<Rightarrow>
     AuthorityGovernanceContext \<Rightarrow> string \<Rightarrow> SubmitTransferRequestInput \<Rightarrow> transfer_world \<Rightarrow>
     (transfer_failure + TransferRequestOutcome) \<times> transfer_world" where
  "requestTransfer sha now mnow anow nextId evaluate appendEvaluation appendReference context organizationId input w =
     attempt (from_transfer (prepareTransfer now nextId context organizationId input)) w
       (\<lambda>(request, mandateExpiresAt).
     let kernelRequest = toTransferKernelRequest request input organizationId
     in case evaluate kernelRequest of
       None \<Rightarrow> (Inl (TransferFailed TRANSFER_EVALUATION_FAILED), w)
     | Some result \<Rightarrow>
     (case appendEvaluation kernelRequest result of
       AppendConflict \<Rightarrow> (Inl (TransferFailed TRANSFER_REQUEST_CONFLICT), w)
     | AppendFailed \<Rightarrow> (Inl (TransferFailed TRANSFER_PERSISTENCE_FAILED), w)
     | Appended evaluationId idempotentReplay \<Rightarrow>
         if kr_status result \<noteq> KernelAllowed then (Inr (transferOutcomeBase result evaluationId None), w)
         else if idempotentReplay then
           attempt (from_transfer (getMandateByRequestRef_transfer context (tr_id request) (fst w))) w (\<lambda>existing.
             (Inr (transferOutcomeBase result evaluationId existing), w))
         else
           attempt (from_transfer (requireStrictUtcTransferTimestamp (kr_evaluatedAt result))) w (\<lambda>effectiveFrom.
             (case commitAndIssue sha mnow anow context organizationId request
                     (transferMandateInput input request result organizationId (nextId ''transfer-mandate'')
                        evaluationId effectiveFrom mandateExpiresAt) w of
                (Inl e, w1) \<Rightarrow> (Inl e, w1)
              | (Inr mandate, w1) \<Rightarrow>
                  if appendReference evaluationId (mr_id mandate)
                  then (Inr (transferOutcomeBase result evaluationId (Some mandate)), w1)
                  else (Inl TransferGovernanceStoreFailed, w1)))))"

section \<open>Evidence\<close>

definition executionInput ::
  "(string \<Rightarrow> string) \<Rightarrow> RecordTransferExecutionRequest \<Rightarrow> TransferMandateRecord \<Rightarrow> RecordTransferExecutionInput" where
  "executionInput nextId input mandate =
     \<lparr>ixt_id = (case rx_executionId input of None \<Rightarrow> nextId ''transfer-execution'' | Some i \<Rightarrow> i),
      ixt_mandateId = mr_id mandate, ixt_organizationId = mr_organizationId mandate,
      ixt_executedBy = rx_executedBy input, ixt_executedAt = rx_executedAt input,
      ixt_transferorRef = rx_transferorRef input, ixt_transfereeRef = rx_transfereeRef input,
      ixt_rights = rx_rights input, ixt_transferredScope = rx_transferredScope input,
      ixt_correlationId = (case rx_correlationId input of None \<Rightarrow> nextId ''transfer-execution-correlation''
                           | Some c \<Rightarrow> c),
      ixt_transferEffectiveAt = rx_transferEffectiveAt input, ixt_registry = rx_registry input,
      ixt_externalSystem = rx_externalSystem input,
      ixt_externalAgreementReference = rx_externalAgreementReference input,
      ixt_externalAcceptanceReference = rx_externalAcceptanceReference input,
      ixt_externalConsiderationReference = rx_externalConsiderationReference input,
      ixt_externalRegistrationReference = rx_externalRegistrationReference input,
      ixt_externalTransactionReference = rx_externalTransactionReference input,
      ixt_evidenceRefs = rx_evidenceRefs input\<rparr>"

definition referenceFails :: "(string \<Rightarrow> string \<Rightarrow> bool) \<Rightarrow> string option \<Rightarrow> string \<Rightarrow> bool" where
  "referenceFails appendReference evaluationRef externalId =
     (case evaluationRef of None \<Rightarrow> False | Some ev \<Rightarrow> \<not> appendReference ev externalId)"

definition recordTransferExecution ::
  "(string \<Rightarrow> string) \<Rightarrow> string \<Rightarrow> string \<Rightarrow> (string \<Rightarrow> string) \<Rightarrow> (string \<Rightarrow> string \<Rightarrow> bool) \<Rightarrow>
     AuthorityGovernanceContext \<Rightarrow> RecordTransferExecutionRequest \<Rightarrow> transfer_world \<Rightarrow>
     (transfer_failure + (TransferMandateRecord \<times> TransferExecutionRecord)) \<times> transfer_world" where
  "recordTransferExecution sha mnow anow nextId appendReference context input w =
     (case w of (ts, au) \<Rightarrow>
     attempt (from_transfer (getMandate_transfer context (rx_mandateId input) ts)) (ts, au) (\<lambda>mandate.
       (case recordExecution_transfer mnow context (executionInput nextId input mandate) ts of
          (Inl e, ts1) \<Rightarrow> (Inl (TransferFailed e), ts1, au)
        | (Inr (updated, execution), ts1) \<Rightarrow>
            if referenceFails appendReference (mr_evaluationRef mandate) (xr_id execution)
            then (Inl TransferGovernanceStoreFailed, ts1, au)
            else (case applyAuthorityTransition sha anow context updated execution au of
                    (Inl e, au1) \<Rightarrow> (Inl e, ts1, au1)
                  | (Inr _, au1) \<Rightarrow> (Inr (updated, execution), ts1, au1)))))"

definition lifecycleInput ::
  "(string \<Rightarrow> string) \<Rightarrow> RecordTransferLifecycleRequest \<Rightarrow> TransferMandateRecord \<Rightarrow> RecordTransferLifecycleInput" where
  "lifecycleInput nextId input mandate =
     \<lparr>ilt_id = (case rq_lifecycleId input of None \<Rightarrow> nextId ''transfer-lifecycle'' | Some i \<Rightarrow> i),
      ilt_mandateId = mr_id mandate, ilt_executionId = rq_executionId input,
      ilt_organizationId = mr_organizationId mandate, ilt_reportedBy = rq_reportedBy input,
      ilt_occurredAt = rq_occurredAt input, ilt_lifecycleType = rq_lifecycleType input,
      ilt_correlationId = (case rq_correlationId input of None \<Rightarrow> nextId ''transfer-lifecycle-correlation''
                           | Some c \<Rightarrow> c),
      ilt_externalSystem = rq_externalSystem input, ilt_externalReference = rq_externalReference input,
      ilt_evidenceRefs = rq_evidenceRefs input\<rparr>"

definition recordTransferLifecycle ::
  "string \<Rightarrow> (string \<Rightarrow> string) \<Rightarrow> (string \<Rightarrow> string \<Rightarrow> bool) \<Rightarrow> AuthorityGovernanceContext \<Rightarrow>
     RecordTransferLifecycleRequest \<Rightarrow> transfer_store \<Rightarrow> (transfer_failure + TransferLifecycleRecord) \<times> transfer_store" where
  "recordTransferLifecycle mnow nextId appendReference context input ts =
     attempt (from_transfer (getMandate_transfer context (rq_mandateId input) ts)) ts (\<lambda>mandate.
       (case recordLifecycleEvent mnow context (lifecycleInput nextId input mandate) ts of
          (Inl e, ts1) \<Rightarrow> (Inl (TransferFailed e), ts1)
        | (Inr event, ts1) \<Rightarrow>
            if referenceFails appendReference (mr_evaluationRef mandate) (lr_id event)
            then (Inl TransferGovernanceStoreFailed, ts1)
            else (Inr event, ts1)))"

section \<open>Withdrawal and recovery\<close>

definition revocationInput ::
  "string \<Rightarrow> (string \<Rightarrow> string) \<Rightarrow> RevokeTransferMandateRequest \<Rightarrow> TransferMandateRecord \<Rightarrow> RevokeTransferMandateInput" where
  "revocationInput now nextId input mandate =
     \<lparr>ivt_revocationId = nextId ''transfer-revocation'', ivt_mandateId = mr_id mandate,
      ivt_organizationId = mr_organizationId mandate,
      ivt_revokedAt = (case rv_revokedAt input of None \<Rightarrow> now | Some t \<Rightarrow> t), ivt_reason = rv_reason input,
      ivt_issuerRef = rv_requestedBy input,
      ivt_correlationId = (case rv_correlationId input of None \<Rightarrow> nextId ''transfer-revocation-correlation''
                           | Some c \<Rightarrow> c),
      ivt_description = rv_description input, ivt_evidenceRefs = rv_evidenceRefs input\<rparr>"

definition revokeTransferMandate ::
  "(string \<Rightarrow> string) \<Rightarrow> string \<Rightarrow> string \<Rightarrow> (string \<Rightarrow> string) \<Rightarrow> AuthorityGovernanceContext \<Rightarrow>
     RevokeTransferMandateRequest \<Rightarrow> transfer_world \<Rightarrow> (transfer_failure + TransferRevokeOutcome) \<times> transfer_world" where
  "revokeTransferMandate sha now anow nextId context input w =
     (case w of (ts, au) \<Rightarrow>
     attempt (from_transfer (getMandate_transfer context (rv_mandateId input) ts)) (ts, au) (\<lambda>mandate.
       (case revokeMandate_transfer context (revocationInput now nextId input mandate) ts of
          (Inl e, ts1) \<Rightarrow> (Inl (TransferFailed e), ts1, au)
        | (Inr outcome, ts1) \<Rightarrow>
            (case releaseActiveReservationsForMandate sha anow context (mr_organizationId mandate) (mr_id mandate) au of
               (Inl e, au1) \<Rightarrow> (Inl e, ts1, au1)
             | (Inr _, au1) \<Rightarrow> (Inr outcome, ts1, au1)))))"

text \<open>The loop of \<open>reconcileAuthorityTransitions\<close>, with the executions it has repaired so far.\<close>

fun reconcileEach ::
  "(string \<Rightarrow> string) \<Rightarrow> string \<Rightarrow> AuthorityGovernanceContext \<Rightarrow> TransferMandateRecord \<Rightarrow>
     TransferExecutionRecord list \<Rightarrow> string list \<Rightarrow> auth_store \<Rightarrow> (transfer_failure + string list) \<times> auth_store" where
  "reconcileEach sha anow context mandate [] repaired st = (Inr repaired, st)"
| "reconcileEach sha anow context mandate (execution # rest) repaired st =
     attempt (authority_failure
                (listTransitionsByExecutionRef sha (toAuthorityContext context) (mr_organizationId mandate)
                   (xr_id execution) st)) st (\<lambda>existing.
       if length existing > 0 then reconcileEach sha anow context mandate rest repaired st
       else (case applyTransition sha anow (toAuthorityContext context) (transitionInput mandate execution) st of
               (Inl e, st1) \<Rightarrow> (Inl (TransferAuthorityFailed e), st1)
             | (Inr _, st1) \<Rightarrow>
                 reconcileEach sha anow context mandate rest (repaired @ [xr_id execution]) st1))"

definition reconcileAuthorityTransitions ::
  "(string \<Rightarrow> string) \<Rightarrow> string \<Rightarrow> AuthorityGovernanceContext \<Rightarrow> string \<Rightarrow> transfer_world \<Rightarrow>
     (transfer_failure + string list) \<times> transfer_world" where
  "reconcileAuthorityTransitions sha anow context mandateId w =
     (case w of
        (ts, None) \<Rightarrow> (Inr [], ts, None)
      | (ts, Some st) \<Rightarrow>
          attempt (from_transfer (getMandate_transfer context mandateId ts)) (ts, Some st) (\<lambda>mandate.
          attempt (from_transfer (listExecutions_transfer context mandateId ts)) (ts, Some st) (\<lambda>executions.
            let (res, st1) = reconcileEach sha anow context mandate executions [] st
            in (res, ts, Some st1))))"

section \<open>The evidence lineage\<close>

record TransferEvidenceLineage =
  tl_mandateId :: string
  tl_organizationId :: string
  tl_asset :: TransferResourceRef
  tl_terms :: EnterpriseTransferTerms
  tl_requestRef :: string
  tl_requestedBy :: string
  tl_transferorRef :: string
  tl_transfereeRef :: string
  tl_rights :: "GovernedRightType list"
  tl_authorizedScope :: GovernedRightsScope
  tl_transferredScope :: "GovernedRightsScope option"
  tl_executorRef :: "string option"
  tl_partialTransferAllowed :: bool
  tl_permittedRegistries :: "string list option"
  tl_decisionRef :: string
  tl_evaluationRef :: "string option"
  tl_approvalRefs :: "string list"
  tl_obligationRefs :: "string list"
  tl_evidenceRefs :: "string list"
  tl_auditRefs :: "string list"
  tl_executionRefs :: "string list"
  tl_lifecycleRefs :: "string list"
  tl_executionCount :: int
  tl_revocationRef :: "string option"

definition getTransferEvidenceLineage ::
  "AuthorityGovernanceContext \<Rightarrow> string \<Rightarrow> transfer_store \<Rightarrow> TransferEvidenceLineage transfer_outcome" where
  "getTransferEvidenceLineage context mandateId ts =
     rbind (getMandate_transfer context mandateId ts) (\<lambda>mandate.
     rbind (listExecutions_transfer context mandateId ts) (\<lambda>executions.
     rbind (listLifecycleEvents context mandateId ts) (\<lambda>lifecycleEvents.
     rbind (getRevocation_transfer context mandateId ts) (\<lambda>revocation.
       let terms = mr_terms mandate
       in Inr
         \<lparr>tl_mandateId = mr_id mandate, tl_organizationId = mr_organizationId mandate,
          tl_asset = \<lparr>ta_kind = mr_assetKind mandate, ta_id = mr_assetId mandate,
                      ta_tenantId = mr_assetTenantId mandate\<rparr>,
          tl_terms = terms, tl_requestRef = mr_requestRef mandate, tl_requestedBy = mr_requestedBy mandate,
          tl_transferorRef = tt_transferorRef terms, tl_transfereeRef = tt_transfereeRef terms,
          tl_rights = tt_rights terms, tl_authorizedScope = tt_scope terms,
          tl_transferredScope = mr_transferredScope mandate, tl_executorRef = tt_executorRef terms,
          tl_partialTransferAllowed = tc_partialTransferAllowed (tt_constraints terms),
          tl_permittedRegistries = tc_permittedRegistries (tt_constraints terms),
          tl_decisionRef = mr_decisionRef mandate, tl_evaluationRef = mr_evaluationRef mandate,
          tl_approvalRefs = or_empty (mr_approvalRefs mandate),
          tl_obligationRefs = or_empty (mr_obligationRefs mandate),
          tl_evidenceRefs = or_empty (mr_evidenceRefs mandate), tl_auditRefs = or_empty (mr_auditRefs mandate),
          tl_executionRefs = map xr_id executions, tl_lifecycleRefs = map lr_id lifecycleEvents,
          tl_executionCount = mr_executionCount mandate, tl_revocationRef = map_option vr_id revocation\<rparr>))))"

end
