(* ===== verification/CollateralService.thy ===== *)
theory CollateralService
  imports CollateralStore TransferService
begin

text \<open>
  The governed collateralization of authority,
  \<open>src/src/enterprise/collateralization-governance/service.ts\<close>. As for the transfer, the kernel and the
  governance store are parameters and the two stores are the modelled ones; the loops over the
  authority store and \<^const>\<open>toAuthorityContext\<close> are those of the transfer service, whose text the code
  repeats. A recorded execution leaves a persistent constraint on the holder's authority and moves
  nothing.
\<close>

section \<open>Inputs, outcomes and failures\<close>

datatype collateral_failure =
    CollateralizationFailed CollateralizationGovernanceErrorCode
  | CollateralAuthorityFailed AuthorityGovernanceErrorCode
  | CollateralGovernanceStoreFailed

fun from_collateral :: "'a collateral_outcome \<Rightarrow> collateral_failure + 'a" where
  "from_collateral (Inl e) = Inl (CollateralizationFailed e)"
| "from_collateral (Inr a) = Inr a"

fun from_authority :: "'a outcome \<Rightarrow> collateral_failure + 'a" where
  "from_authority (Inl e) = Inl (CollateralAuthorityFailed e)"
| "from_authority (Inr a) = Inr a"

type_synonym collateral_world = "collateral_store \<times> auth_store option"

record SubmitCollateralizationRequestInput =
  sk_requestId :: "string option"
  sk_asset :: TransferResourceRef
  sk_requestedBy :: string
  sk_trustDomainId :: string
  sk_principalActorId :: "string option"
  sk_actorType :: "string option"
  sk_terms :: EnterpriseCollateralizationTerms
  sk_resourceScope :: "string option"
  sk_requestedAt :: "string option"
  sk_correlationId :: "string option"
  sk_requestedExpiresAt :: "string option"
  sk_justification :: "string option"
  sk_evidenceRefs :: "string list option"
  sk_idempotencyKey :: "string option"
  sk_mandateExpiresAt :: string
  sk_issuerRef :: "string option"
  sk_obligationRefs :: "string list option"
  sk_auditRefs :: "string list option"
  sk_authorityHolderRef :: "string option"

record RecordCollateralizationExecutionRequest =
  rk_executionId :: "string option"
  rk_mandateId :: string
  rk_executorRef :: string
  rk_executedAt :: string
  rk_securedObligationRef :: string
  rk_securedPartyRef :: string
  rk_committedScope :: GovernedRightsScope
  rk_rights :: "GovernedRightType list"
  rk_correlationId :: "string option"
  rk_securedAmount :: "EnterpriseSecuredAmount option"
  rk_externalSystem :: "string option"
  rk_externalRegistry :: "string option"
  rk_externalAgreementReference :: "string option"
  rk_externalFilingReference :: "string option"
  rk_externalTransactionReference :: "string option"
  rk_jurisdiction :: "string option"
  rk_priorityRank :: "int option"
  rk_evidenceRefs :: "string list option"

record RecordCollateralizationReleaseRequest =
  rz_releaseId :: "string option"
  rz_mandateId :: string
  rz_executionId :: string
  rz_reportedBy :: string
  rz_releasedAt :: string
  rz_releaseType :: EnterpriseCollateralReleaseType
  rz_correlationId :: "string option"
  rz_externalSystem :: "string option"
  rz_externalRegistry :: "string option"
  rz_externalReleaseReference :: "string option"
  rz_evidenceRefs :: "string list option"

record RevokeCollateralizationMandateRequest =
  rw_mandateId :: string
  rw_reason :: string
  rw_requestedBy :: string
  rw_revokedAt :: "string option"
  rw_description :: "string option"
  rw_evidenceRefs :: "string list option"
  rw_correlationId :: "string option"

record CollateralizationRequestOutcome =
  ko_status :: KernelDecisionStatus
  ko_requestId :: string
  ko_decisionId :: string
  ko_evaluationId :: string
  ko_reasonCodes :: "string list"
  ko_summary :: string
  ko_mandate :: "CollateralizationMandateRecord option"

text \<open>The kernel request the service builds; \<open>context\<close> is passed through and is left out.\<close>

record CollateralKernelRequest =
  kn_requestId :: string
  kn_actorId :: string
  kn_trustDomainId :: string
  kn_principalId :: "string option"
  kn_actorType :: "string option"
  kn_actionType :: string
  kn_capability :: string
  kn_resourceScope :: string
  kn_sideEffectType :: string
  kn_riskLevel :: string
  kn_parameters :: EnterpriseCollateralizationRequest
  kn_governedRights :: "GovernedRightType list"
  kn_governedRightsScope :: GovernedRightsScope
  kn_governedAuthorityHolderRef :: "string option"
  kn_counterpartyId :: string
  kn_evidenceIds :: "string list option"
  kn_target :: GovernedAuthorityResourceRef
  kn_organizationId :: string
  kn_requestedAt :: string
  kn_correlationId :: string
  kn_idempotencyKey :: "string option"

section \<open>The request\<close>

definition collateralAssetOfOrganization :: "TransferResourceRef \<Rightarrow> string \<Rightarrow> unit collateral_outcome" where
  "collateralAssetOfOrganization asset organizationId =
     (if ta_tenantId asset \<noteq> None \<and> ta_tenantId asset \<noteq> Some organizationId
      then Inl COLLATERALIZATION_ASSET_TENANT_MISMATCH else Inr ())"

definition buildCollateralRequest ::
  "string \<Rightarrow> SubmitCollateralizationRequestInput \<Rightarrow> string \<Rightarrow> string \<Rightarrow>
     EnterpriseCollateralizationRequest collateral_outcome" where
  "buildCollateralRequest now input requestId correlationId =
     (let candidate =
        \<lparr>cr_schemaVersion = ENTERPRISE_COLLATERALIZATION_SCHEMA_VERSION, cr_id = requestId,
         cr_capability = ENTERPRISE_COLLATERALIZE_CAPABILITY, cr_asset = sk_asset input,
         cr_requestedBy = sk_requestedBy input, cr_terms = sk_terms input,
         cr_requestedAt = (case sk_requestedAt input of None \<Rightarrow> now | Some t \<Rightarrow> t),
         cr_correlationId = correlationId, cr_requestedExpiresAt = sk_requestedExpiresAt input,
         cr_justification = sk_justification input, cr_evidenceRefs = sk_evidenceRefs input\<rparr>
      in if validateEnterpriseCollateralizationRequest candidate \<noteq> [] then Inl COLLATERALIZATION_VALIDATION_ERROR
         else Inr candidate)"

definition toCollateralKernelRequest ::
  "EnterpriseCollateralizationRequest \<Rightarrow> SubmitCollateralizationRequestInput \<Rightarrow> string \<Rightarrow> CollateralKernelRequest" where
  "toCollateralKernelRequest request input organizationId =
     \<lparr>kn_requestId = cr_id request, kn_actorId = cr_requestedBy request,
      kn_trustDomainId = sk_trustDomainId input, kn_principalId = sk_principalActorId input,
      kn_actorType = sk_actorType input, kn_actionType = ENTERPRISE_COLLATERALIZE_CAPABILITY,
      kn_capability = ENTERPRISE_COLLATERALIZE_CAPABILITY,
      kn_resourceScope = (case sk_resourceScope input of None \<Rightarrow> defaultResourceScope (cr_asset request) | Some s \<Rightarrow> s),
      kn_sideEffectType = ''external_api_call'', kn_riskLevel = ''critical'',
      kn_parameters = serializeEnterpriseCollateralizationRequest request,
      kn_governedRights = ct_rights (cr_terms request), kn_governedRightsScope = ct_scope (cr_terms request),
      kn_governedAuthorityHolderRef = sk_authorityHolderRef input,
      kn_counterpartyId = ct_securedPartyRef (cr_terms request), kn_evidenceIds = cr_evidenceRefs request,
      kn_target = \<lparr>rr_kind = ta_kind (cr_asset request), rr_id = ta_id (cr_asset request)\<rparr>,
      kn_organizationId = organizationId, kn_requestedAt = cr_requestedAt request,
      kn_correlationId = cr_correlationId request, kn_idempotencyKey = sk_idempotencyKey input\<rparr>"

definition holderOf :: "EnterpriseCollateralizationRequest \<Rightarrow> SubmitCollateralizationRequestInput \<Rightarrow> string" where
  "holderOf request input =
     (case sk_authorityHolderRef input of None \<Rightarrow> cr_requestedBy request | Some h \<Rightarrow> h)"

section \<open>The commitment gate\<close>

definition releaseCollateralReservations ::
  "(string \<Rightarrow> string) \<Rightarrow> string \<Rightarrow> AuthorityGovernanceContext \<Rightarrow> string \<Rightarrow> string list \<Rightarrow> auth_store option \<Rightarrow>
     (collateral_failure + unit) \<times> auth_store option" where
  "releaseCollateralReservations sha anow context organizationId reservationIds au =
     (case au of
        None \<Rightarrow> (Inr (), None)
      | Some st \<Rightarrow>
          if length reservationIds = 0 then (Inr (), Some st)
          else let (res, st1) = releaseEach sha anow context organizationId reservationIds st
               in (from_authority res, Some st1))"

definition collateralReservationInput ::
  "string \<Rightarrow> EnterpriseCollateralizationRequest \<Rightarrow> string \<Rightarrow> string \<Rightarrow> string \<Rightarrow> string \<Rightarrow> string \<Rightarrow>
     GovernedRightType \<Rightarrow> AcquireGovernedAuthorityReservationInput" where
  "collateralReservationInput organizationId request holderRef mandateId decisionRef effectiveFrom expiresAt governedRight =
     \<lparr>q_tenantId = organizationId, q_holderRef = holderRef,
      q_resource = \<lparr>rr_kind = ta_kind (cr_asset request), rr_id = ta_id (cr_asset request)\<rparr>,
      q_governedRight = governedRight, q_scope = ct_scope (cr_terms request),
      q_action = ENTERPRISE_COLLATERALIZE_CAPABILITY, q_sourceRequestRef = cr_id request,
      q_sourceDecisionRef = Some decisionRef, q_sourceMandateRef = mandateId,
      q_effectiveFrom = effectiveFrom, q_expiresAt = expiresAt,
      q_idempotencyKey = Some (mandateId @ '':'' @ governedRight),
      q_correlationId = Some (cr_correlationId request)\<rparr>"

definition reserveCollateralAuthority ::
  "(string \<Rightarrow> string) \<Rightarrow> string \<Rightarrow> AuthorityGovernanceContext \<Rightarrow> string \<Rightarrow> EnterpriseCollateralizationRequest \<Rightarrow>
     string \<Rightarrow> string \<Rightarrow> string \<Rightarrow> string \<Rightarrow> string \<Rightarrow> auth_store option \<Rightarrow>
     (collateral_failure + string list) \<times> auth_store option" where
  "reserveCollateralAuthority sha anow context organizationId request holderRef mandateId decisionRef
     effectiveFrom expiresAt au =
     (case au of
        None \<Rightarrow> (Inr [], None)
      | Some st \<Rightarrow>
          if \<not> governedActionCommitsAuthority ENTERPRISE_COLLATERALIZE_CAPABILITY \<or>
             \<not> governedActionEncumbersAuthority ENTERPRISE_COLLATERALIZE_CAPABILITY
          then (Inl (CollateralizationFailed COLLATERALIZATION_EVALUATION_FAILED), Some st)
          else
            (case acquireEach sha anow context
                    (collateralReservationInput organizationId request holderRef mandateId decisionRef
                       effectiveFrom expiresAt)
                    (ct_rights (cr_terms request)) [] st of
               ((None, acquired), st1) \<Rightarrow> (Inr acquired, Some st1)
             | ((Some e, acquired), st1) \<Rightarrow>
                 (Inl (CollateralAuthorityFailed e),
                  snd (releaseCollateralReservations sha anow context organizationId acquired (Some st1)))))"

definition releaseActiveCollateralReservations ::
  "(string \<Rightarrow> string) \<Rightarrow> string \<Rightarrow> AuthorityGovernanceContext \<Rightarrow> string \<Rightarrow> string \<Rightarrow> auth_store option \<Rightarrow>
     (collateral_failure + unit) \<times> auth_store option" where
  "releaseActiveCollateralReservations sha anow context organizationId mandateId au =
     (case au of
        None \<Rightarrow> (Inr (), None)
      | Some st \<Rightarrow>
          attempt (from_authority
                     (listReservationsByMandateRef sha (toAuthorityContext context) organizationId mandateId st))
            (Some st) (\<lambda>held.
              let (res, st1) = releaseEach sha anow context organizationId
                     (map r_id (filter (\<lambda>r. r_status r = RsActive) held)) st
              in (from_authority res, Some st1)))"

section \<open>The constraint of a completed collateralization\<close>

definition encumbranceInput ::
  "CollateralizationMandateRecord \<Rightarrow> CollateralizationExecutionRecord \<Rightarrow> GovernedRightType \<Rightarrow>
     GovernedAuthorityReservation \<Rightarrow> RecordGovernedAuthorityEncumbranceInput" where
  "encumbranceInput mandate execution governedRight commitment =
     \<lparr>n_tenantId = km_organizationId mandate, n_holderRef = r_holderRef commitment,
      n_resource = \<lparr>rr_kind = km_assetKind mandate, rr_id = km_assetId mandate\<rparr>,
      n_governedRight = governedRight, n_scope = kx_committedScope execution,
      n_sourceAction = ENTERPRISE_COLLATERALIZE_CAPABILITY, n_sourceMandateRef = km_id mandate,
      n_sourceExecutionRef = kx_id execution, n_effectiveFrom = kx_executedAt execution,
      n_consumesReservationsForMandateRef = Some (km_id mandate), n_idempotencyKey = None,
      n_correlationId = Some (kx_correlationId execution)\<rparr>"

text \<open>The loop over the executed rights; a right with no commitment is skipped, a refusal ends it.\<close>

fun encumberEach ::
  "(string \<Rightarrow> string) \<Rightarrow> string \<Rightarrow> AuthorityGovernanceContext \<Rightarrow> CollateralizationMandateRecord \<Rightarrow>
     CollateralizationExecutionRecord \<Rightarrow> GovernedAuthorityReservation list \<Rightarrow> GovernedRightType list \<Rightarrow>
     auth_store \<Rightarrow> unit store_result" where
  "encumberEach sha anow context mandate execution commitments [] st = (Inr (), st)"
| "encumberEach sha anow context mandate execution commitments (governedRight # rest) st =
     (case List.find (\<lambda>r. r_governedRight r = governedRight) commitments of
        None \<Rightarrow> encumberEach sha anow context mandate execution commitments rest st
      | Some commitment \<Rightarrow>
          (case recordEncumbrance sha anow (toAuthorityContext context)
                  (encumbranceInput mandate execution governedRight commitment) st of
             (Inl e, st1) \<Rightarrow> (Inl e, st1)
           | (Inr _, st1) \<Rightarrow> encumberEach sha anow context mandate execution commitments rest st1))"

definition recordCollateralEncumbrance ::
  "(string \<Rightarrow> string) \<Rightarrow> string \<Rightarrow> AuthorityGovernanceContext \<Rightarrow> CollateralizationMandateRecord \<Rightarrow>
     CollateralizationExecutionRecord \<Rightarrow> auth_store option \<Rightarrow> (collateral_failure + unit) \<times> auth_store option" where
  "recordCollateralEncumbrance sha anow context mandate execution au =
     (case au of
        None \<Rightarrow> (Inr (), None)
      | Some st \<Rightarrow>
          attempt (from_authority
                     (listReservationsByMandateRef sha (toAuthorityContext context) (km_organizationId mandate)
                        (km_id mandate) st))
            (Some st) (\<lambda>commitments.
              if length commitments = 0 then (Inr (), Some st)
              else let (res, st1) = encumberEach sha anow context mandate execution commitments (kx_rights execution) st
                   in (from_authority res, Some st1)))"

section \<open>Requesting a collateralization\<close>

definition collateralMandateInput ::
  "SubmitCollateralizationRequestInput \<Rightarrow> EnterpriseCollateralizationRequest \<Rightarrow> KernelEvaluationResult \<Rightarrow>
     string \<Rightarrow> string \<Rightarrow> string \<Rightarrow> string \<Rightarrow> string \<Rightarrow> IssueCollateralizationMandateInput" where
  "collateralMandateInput input request result organizationId mandateId evaluationId effectiveFrom mandateExpiresAt =
     (let approvalRefs = List.map_filter (\<lambda>r. r)
            [kr_approvalProofId result, kr_approvalDecisionId result, kr_approvalRequestId result]
      in \<lparr>imk_id = mandateId, imk_organizationId = organizationId,
          imk_assetKind = ta_kind (cr_asset request), imk_assetId = ta_id (cr_asset request),
          imk_assetTenantId = ta_tenantId (cr_asset request), imk_terms = cr_terms request,
          imk_requestedTerms = cr_terms request, imk_requestRef = cr_id request,
          imk_requestedBy = cr_requestedBy request, imk_decisionRef = kr_decisionId result,
          imk_evaluationRef = Some evaluationId, imk_effectiveFrom = effectiveFrom,
          imk_expiresAt = mandateExpiresAt, imk_correlationId = cr_correlationId request,
          imk_issuerRef = sk_issuerRef input,
          imk_approvalRefs = (if length approvalRefs > 0 then Some approvalRefs else None),
          imk_obligationRefs = sk_obligationRefs input, imk_evidenceRefs = cr_evidenceRefs request,
          imk_auditRefs = sk_auditRefs input\<rparr>)"

definition collateralOutcomeBase ::
  "KernelEvaluationResult \<Rightarrow> string \<Rightarrow> CollateralizationMandateRecord option \<Rightarrow> CollateralizationRequestOutcome" where
  "collateralOutcomeBase result evaluationId mandate =
     \<lparr>ko_status = kr_status result, ko_requestId = kr_requestId result, ko_decisionId = kr_decisionId result,
      ko_evaluationId = evaluationId, ko_reasonCodes = kr_reasonCodes result, ko_summary = kr_summary result,
      ko_mandate = mandate\<rparr>"

text \<open>What a request establishes before the kernel is asked.\<close>

definition prepareCollateralization ::
  "string \<Rightarrow> (string \<Rightarrow> string) \<Rightarrow> AuthorityGovernanceContext \<Rightarrow> string \<Rightarrow> SubmitCollateralizationRequestInput \<Rightarrow>
     (EnterpriseCollateralizationRequest \<times> string) collateral_outcome" where
  "prepareCollateralization now nextId context organizationId input =
     rbind (requireCollateralizationAccessToOrganization context organizationId) (\<lambda>_.
     rbind (collateralAssetOfOrganization (sk_asset input) organizationId) (\<lambda>_.
       let requestId = (case sk_requestId input of None \<Rightarrow> nextId ''collateralization-request'' | Some r \<Rightarrow> r);
           correlationId = (case sk_correlationId input of None \<Rightarrow> nextId ''collateralization-correlation''
                            | Some c \<Rightarrow> c)
       in rbind (buildCollateralRequest now input requestId correlationId) (\<lambda>request.
          rbind (requireStrictUtcCollateralizationTimestamp (sk_mandateExpiresAt input)) (\<lambda>mandateExpiresAt.
            Inr (request, mandateExpiresAt)))))"

text \<open>From an allowed, freshly recorded decision on: the commitment, the mandate, and the compensation.\<close>

definition encumberAndIssue ::
  "(string \<Rightarrow> string) \<Rightarrow> string \<Rightarrow> string \<Rightarrow> AuthorityGovernanceContext \<Rightarrow> string \<Rightarrow>
     EnterpriseCollateralizationRequest \<Rightarrow> string \<Rightarrow> IssueCollateralizationMandateInput \<Rightarrow> collateral_world \<Rightarrow>
     (collateral_failure + CollateralizationMandateRecord) \<times> collateral_world" where
  "encumberAndIssue sha mnow anow context organizationId request holderRef issue w =
     (case w of (ks, au) \<Rightarrow>
        (case reserveCollateralAuthority sha anow context organizationId request holderRef (imk_id issue)
                (imk_decisionRef issue) (imk_effectiveFrom issue) (imk_expiresAt issue) au of
           (Inl e, au1) \<Rightarrow> (Inl e, ks, au1)
         | (Inr reservationIds, au1) \<Rightarrow>
             (case issueMandate_collateral mnow context issue ks of
                (Inl e, ks1) \<Rightarrow>
                  (Inl (CollateralizationFailed e), ks1,
                   snd (releaseCollateralReservations sha anow context organizationId reservationIds au1))
              | (Inr mandate, ks1) \<Rightarrow> (Inr mandate, ks1, au1))))"

definition requestCollateralization ::
  "(string \<Rightarrow> string) \<Rightarrow> string \<Rightarrow> string \<Rightarrow> string \<Rightarrow> (string \<Rightarrow> string) \<Rightarrow>
     (CollateralKernelRequest \<Rightarrow> KernelEvaluationResult option) \<Rightarrow>
     (CollateralKernelRequest \<Rightarrow> KernelEvaluationResult \<Rightarrow> append_answer) \<Rightarrow> (string \<Rightarrow> string \<Rightarrow> bool) \<Rightarrow>
     AuthorityGovernanceContext \<Rightarrow> string \<Rightarrow> SubmitCollateralizationRequestInput \<Rightarrow> collateral_world \<Rightarrow>
     (collateral_failure + CollateralizationRequestOutcome) \<times> collateral_world" where
  "requestCollateralization sha now mnow anow nextId evaluate appendEvaluation appendReference context
     organizationId input w =
     attempt (from_collateral (prepareCollateralization now nextId context organizationId input)) w
       (\<lambda>(request, mandateExpiresAt).
     let kernelRequest = toCollateralKernelRequest request input organizationId
     in case evaluate kernelRequest of
       None \<Rightarrow> (Inl (CollateralizationFailed COLLATERALIZATION_EVALUATION_FAILED), w)
     | Some result \<Rightarrow>
     (case appendEvaluation kernelRequest result of
       AppendConflict \<Rightarrow> (Inl (CollateralizationFailed COLLATERALIZATION_REQUEST_CONFLICT), w)
     | AppendFailed \<Rightarrow> (Inl (CollateralizationFailed COLLATERALIZATION_PERSISTENCE_FAILED), w)
     | Appended evaluationId idempotentReplay \<Rightarrow>
         if kr_status result \<noteq> KernelAllowed then (Inr (collateralOutcomeBase result evaluationId None), w)
         else if idempotentReplay then
           attempt (from_collateral (getMandateByRequestRef_collateral context (cr_id request) (fst w))) w (\<lambda>existing.
             (Inr (collateralOutcomeBase result evaluationId existing), w))
         else
           attempt (from_collateral (requireStrictUtcCollateralizationTimestamp (kr_evaluatedAt result))) w
             (\<lambda>effectiveFrom.
             (case encumberAndIssue sha mnow anow context organizationId request (holderOf request input)
                     (collateralMandateInput input request result organizationId
                        (nextId ''collateralization-mandate'') evaluationId effectiveFrom mandateExpiresAt) w of
                (Inl e, w1) \<Rightarrow> (Inl e, w1)
              | (Inr mandate, w1) \<Rightarrow>
                  if appendReference evaluationId (km_id mandate)
                  then (Inr (collateralOutcomeBase result evaluationId (Some mandate)), w1)
                  else (Inl CollateralGovernanceStoreFailed, w1)))))"

section \<open>Evidence\<close>

definition collateralExecutionInput ::
  "(string \<Rightarrow> string) \<Rightarrow> RecordCollateralizationExecutionRequest \<Rightarrow> CollateralizationMandateRecord \<Rightarrow>
     RecordCollateralizationExecutionInput" where
  "collateralExecutionInput nextId input mandate =
     \<lparr>ixk_id = (case rk_executionId input of None \<Rightarrow> nextId ''collateralization-execution'' | Some i \<Rightarrow> i),
      ixk_mandateId = km_id mandate, ixk_organizationId = km_organizationId mandate,
      ixk_executorRef = rk_executorRef input, ixk_executedAt = rk_executedAt input,
      ixk_securedObligationRef = rk_securedObligationRef input, ixk_securedPartyRef = rk_securedPartyRef input,
      ixk_committedScope = rk_committedScope input, ixk_rights = rk_rights input,
      ixk_correlationId = (case rk_correlationId input of None \<Rightarrow> nextId ''collateralization-execution-correlation''
                           | Some c \<Rightarrow> c),
      ixk_securedAmount = rk_securedAmount input, ixk_externalSystem = rk_externalSystem input,
      ixk_externalRegistry = rk_externalRegistry input,
      ixk_externalAgreementReference = rk_externalAgreementReference input,
      ixk_externalFilingReference = rk_externalFilingReference input,
      ixk_externalTransactionReference = rk_externalTransactionReference input,
      ixk_jurisdiction = rk_jurisdiction input, ixk_priorityRank = rk_priorityRank input,
      ixk_evidenceRefs = rk_evidenceRefs input\<rparr>"

definition recordCollateralExecution ::
  "(string \<Rightarrow> string) \<Rightarrow> string \<Rightarrow> string \<Rightarrow> (string \<Rightarrow> string) \<Rightarrow> (string \<Rightarrow> string \<Rightarrow> bool) \<Rightarrow>
     AuthorityGovernanceContext \<Rightarrow> RecordCollateralizationExecutionRequest \<Rightarrow> collateral_world \<Rightarrow>
     (collateral_failure + (CollateralizationMandateRecord \<times> CollateralizationExecutionRecord)) \<times> collateral_world" where
  "recordCollateralExecution sha mnow anow nextId appendReference context input w =
     (case w of (ks, au) \<Rightarrow>
     attempt (from_collateral (getMandate_collateral context (rk_mandateId input) ks)) (ks, au) (\<lambda>mandate.
       (case recordExecution_collateral mnow context (collateralExecutionInput nextId input mandate) ks of
          (Inl e, ks1) \<Rightarrow> (Inl (CollateralizationFailed e), ks1, au)
        | (Inr (updated, execution), ks1) \<Rightarrow>
            (case recordCollateralEncumbrance sha anow context updated execution au of
               (Inl e, au1) \<Rightarrow> (Inl e, ks1, au1)
             | (Inr _, au1) \<Rightarrow>
                 if referenceFails appendReference (km_evaluationRef mandate) (kx_id execution)
                 then (Inl CollateralGovernanceStoreFailed, ks1, au1)
                 else (Inr (updated, execution), ks1, au1)))))"

definition collateralReleaseInput ::
  "(string \<Rightarrow> string) \<Rightarrow> RecordCollateralizationReleaseRequest \<Rightarrow> CollateralizationMandateRecord \<Rightarrow>
     RecordCollateralizationReleaseInput" where
  "collateralReleaseInput nextId input mandate =
     \<lparr>isk_id = (case rz_releaseId input of None \<Rightarrow> nextId ''collateralization-release'' | Some i \<Rightarrow> i),
      isk_mandateId = km_id mandate, isk_executionId = rz_executionId input,
      isk_organizationId = km_organizationId mandate, isk_reportedBy = rz_reportedBy input,
      isk_releasedAt = rz_releasedAt input, isk_releaseType = rz_releaseType input,
      isk_correlationId = (case rz_correlationId input of None \<Rightarrow> nextId ''collateralization-release-correlation''
                           | Some c \<Rightarrow> c),
      isk_externalSystem = rz_externalSystem input, isk_externalRegistry = rz_externalRegistry input,
      isk_externalReleaseReference = rz_externalReleaseReference input, isk_evidenceRefs = rz_evidenceRefs input\<rparr>"

definition recordCollateralRelease ::
  "string \<Rightarrow> (string \<Rightarrow> string) \<Rightarrow> (string \<Rightarrow> string \<Rightarrow> bool) \<Rightarrow> AuthorityGovernanceContext \<Rightarrow>
     RecordCollateralizationReleaseRequest \<Rightarrow> collateral_store \<Rightarrow>
     (collateral_failure + CollateralizationReleaseRecord) \<times> collateral_store" where
  "recordCollateralRelease mnow nextId appendReference context input ks =
     attempt (from_collateral (getMandate_collateral context (rz_mandateId input) ks)) ks (\<lambda>mandate.
       (case recordRelease mnow context (collateralReleaseInput nextId input mandate) ks of
          (Inl e, ks1) \<Rightarrow> (Inl (CollateralizationFailed e), ks1)
        | (Inr release, ks1) \<Rightarrow>
            if referenceFails appendReference (km_evaluationRef mandate) (ks_id release)
            then (Inl CollateralGovernanceStoreFailed, ks1)
            else (Inr release, ks1)))"

section \<open>Withdrawal\<close>

definition collateralRevocationInput ::
  "string \<Rightarrow> (string \<Rightarrow> string) \<Rightarrow> RevokeCollateralizationMandateRequest \<Rightarrow> CollateralizationMandateRecord \<Rightarrow>
     RevokeCollateralizationMandateInput" where
  "collateralRevocationInput now nextId input mandate =
     \<lparr>ivk_revocationId = nextId ''collateralization-revocation'', ivk_mandateId = km_id mandate,
      ivk_organizationId = km_organizationId mandate,
      ivk_revokedAt = (case rw_revokedAt input of None \<Rightarrow> now | Some t \<Rightarrow> t), ivk_reason = rw_reason input,
      ivk_issuerRef = rw_requestedBy input,
      ivk_correlationId = (case rw_correlationId input of None \<Rightarrow> nextId ''collateralization-revocation-correlation''
                           | Some c \<Rightarrow> c),
      ivk_description = rw_description input, ivk_evidenceRefs = rw_evidenceRefs input\<rparr>"

definition revokeCollateralMandate ::
  "(string \<Rightarrow> string) \<Rightarrow> string \<Rightarrow> string \<Rightarrow> (string \<Rightarrow> string) \<Rightarrow> AuthorityGovernanceContext \<Rightarrow>
     RevokeCollateralizationMandateRequest \<Rightarrow> collateral_world \<Rightarrow>
     (collateral_failure + CollateralizationRevokeOutcome) \<times> collateral_world" where
  "revokeCollateralMandate sha now anow nextId context input w =
     (case w of (ks, au) \<Rightarrow>
     attempt (from_collateral (getMandate_collateral context (rw_mandateId input) ks)) (ks, au) (\<lambda>mandate.
       (case revokeMandate_collateral context (collateralRevocationInput now nextId input mandate) ks of
          (Inl e, ks1) \<Rightarrow> (Inl (CollateralizationFailed e), ks1, au)
        | (Inr outcome, ks1) \<Rightarrow>
            (case releaseActiveCollateralReservations sha anow context (km_organizationId mandate) (km_id mandate) au of
               (Inl e, au1) \<Rightarrow> (Inl e, ks1, au1)
             | (Inr _, au1) \<Rightarrow> (Inr outcome, ks1, au1)))))"

section \<open>The evidence lineage\<close>

record CollateralizationEvidenceLineage =
  kl_mandateId :: string
  kl_organizationId :: string
  kl_asset :: TransferResourceRef
  kl_terms :: EnterpriseCollateralizationTerms
  kl_requestRef :: string
  kl_requestedBy :: string
  kl_securedObligationRef :: string
  kl_securedPartyRef :: string
  kl_executorRef :: string
  kl_decisionRef :: string
  kl_approvalRefs :: "string list"
  kl_obligationRefs :: "string list"
  kl_evidenceRefs :: "string list"
  kl_auditRefs :: "string list"
  kl_executionRefs :: "string list"
  kl_releaseRefs :: "string list"
  kl_committedScope :: "GovernedRightsScope option"
  kl_evaluationRef :: "string option"
  kl_revocationRef :: "string option"

definition getCollateralEvidenceLineage ::
  "AuthorityGovernanceContext \<Rightarrow> string \<Rightarrow> collateral_store \<Rightarrow>
     CollateralizationEvidenceLineage collateral_outcome" where
  "getCollateralEvidenceLineage context mandateId ks =
     rbind (getMandate_collateral context mandateId ks) (\<lambda>mandate.
     rbind (listExecutions_collateral context mandateId ks) (\<lambda>executions.
     rbind (listReleases context mandateId ks) (\<lambda>releases.
     rbind (getRevocation_collateral context mandateId ks) (\<lambda>revocation.
       let terms = km_terms mandate
       in Inr
         \<lparr>kl_mandateId = km_id mandate, kl_organizationId = km_organizationId mandate,
          kl_asset = \<lparr>ta_kind = km_assetKind mandate, ta_id = km_assetId mandate,
                      ta_tenantId = km_assetTenantId mandate\<rparr>,
          kl_terms = terms, kl_requestRef = km_requestRef mandate, kl_requestedBy = km_requestedBy mandate,
          kl_securedObligationRef = ct_securedObligationRef terms, kl_securedPartyRef = ct_securedPartyRef terms,
          kl_executorRef = ct_executorRef terms, kl_decisionRef = km_decisionRef mandate,
          kl_approvalRefs = or_empty (km_approvalRefs mandate),
          kl_obligationRefs = or_empty (km_obligationRefs mandate),
          kl_evidenceRefs = or_empty (km_evidenceRefs mandate), kl_auditRefs = or_empty (km_auditRefs mandate),
          kl_executionRefs = map kx_id executions, kl_releaseRefs = map ks_id releases,
          kl_committedScope = km_committedScope mandate, kl_evaluationRef = km_evaluationRef mandate,
          kl_revocationRef = map_option kv_id revocation\<rparr>))))"

end
