(* ===== verification/TransferInvariants.thy ===== *)
theory TransferInvariants
  imports TransferStore
begin

text \<open>
  What holds of every store the transfer operations can reach: the evidence recorded under a mandate
  was authorized by it, and what it has moved in all stays within what it authorizes.
\<close>

section \<open>Runs\<close>

datatype transfer_call =
    CallIssue string AuthorityGovernanceContext IssueTransferMandateInput
  | CallExecution string AuthorityGovernanceContext RecordTransferExecutionInput
  | CallLifecycle string AuthorityGovernanceContext RecordTransferLifecycleInput
  | CallRevoke AuthorityGovernanceContext RevokeTransferMandateInput
  | CallClose

fun run_transfer_call :: "transfer_call \<Rightarrow> transfer_store \<Rightarrow> transfer_store" where
  "run_transfer_call (CallIssue now cx i) ts = snd (issueMandate_transfer now cx i ts)"
| "run_transfer_call (CallExecution now cx i) ts = snd (recordExecution_transfer now cx i ts)"
| "run_transfer_call (CallLifecycle now cx i) ts = snd (recordLifecycleEvent now cx i ts)"
| "run_transfer_call (CallRevoke cx i) ts = snd (revokeMandate_transfer cx i ts)"
| "run_transfer_call CallClose ts = close_transfer ts"

definition run_transfers :: "transfer_call list \<Rightarrow> transfer_store" where
  "run_transfers calls = fold run_transfer_call calls empty_transfer_store"

section \<open>The invariant\<close>

text \<open>A recorded execution is one its mandate authorizes: parties, executor, rights, quantity, instant.\<close>

definition execution_authorized :: "TransferMandateRecord \<Rightarrow> TransferExecutionRecord \<Rightarrow> bool" where
  "execution_authorized m x \<longleftrightarrow>
     xr_mandateId x = mr_id m \<and> xr_organizationId x = mr_organizationId m \<and>
     xr_transferorRef x = tt_transferorRef (mr_terms m) \<and> xr_transfereeRef x = tt_transfereeRef (mr_terms m) \<and>
     (tt_executorRef (mr_terms m) = None \<or> tt_executorRef (mr_terms m) = Some (xr_executedBy x)) \<and>
     xr_rights x \<noteq> [] \<and> set (xr_rights x) \<subseteq> set (tt_rights (mr_terms m)) \<and>
     governedRightsScopeWithin (xr_transferredScope x) (tt_scope (mr_terms m)) \<and>
     isStrictUtcTimestamp (xr_executedAt x) \<and>
     \<not> instant_lt (xr_executedAt x) (mr_effectiveFrom m) \<and> \<not> instant_ge (xr_executedAt x) (mr_expiresAt m)"

text \<open>The running total against the quantities it was summed from.\<close>

definition total_of_log :: "GovernedRightsScope \<Rightarrow> GovernedRightsScope option \<Rightarrow> GovernedRightsScope list \<Rightarrow> bool" where
  "total_of_log authorized moved scopes \<longleftrightarrow>
     (case moved of
        None \<Rightarrow> scopes = []
      | Some s \<Rightarrow> scopes \<noteq> [] \<and> governedRightsScopeWithin s authorized \<and>
          ((\<forall>x \<in> set scopes. 0 \<le> amount x) \<longrightarrow> amount s = sum_list (map amount scopes)))"

definition log_ok :: "TransferMandateRecord \<Rightarrow> TransferExecutionRecord list \<Rightarrow> bool" where
  "log_ok m log \<longleftrightarrow>
     mr_executionCount m = int (length log) \<and> list_all (execution_authorized m) log \<and>
     total_of_log (tt_scope (mr_terms m)) (mr_transferredScope m) (map xr_transferredScope log) \<and>
     (tc_partialTransferAllowed (tt_constraints (mr_terms m)) \<or> log = [] \<or>
      (\<exists>x. log = [x] \<and> xr_transferredScope x = tt_scope (mr_terms m)))"

definition mandate_ok :: "transfer_store \<Rightarrow> string \<Rightarrow> TransferMandateRecord \<Rightarrow> bool" where
  "mandate_ok ts k m \<longleftrightarrow>
     mr_id m = k \<and> collectEnterpriseTransferTermsIssues (mr_terms m) = [] \<and>
     (\<exists>log. map_get (ts_executions ts) k = Some log \<and> log_ok m log)"

definition transfer_wf :: "transfer_store \<Rightarrow> bool" where
  "transfer_wf ts \<longleftrightarrow> (\<forall>k m. map_get (ts_mandates ts) k = Some m \<longrightarrow> mandate_ok ts k m)"

lemma transfer_wf_empty: "transfer_wf empty_transfer_store"
  by (simp add: transfer_wf_def empty_transfer_store_def map_get_def)

section \<open>Issuing\<close>

lemma issue_returns:
  assumes "issueMandate_transfer now cx i ts = (Inr m, ts')"
  shows "m = issuedMandate_transfer i (imt_effectiveFrom i) (imt_expiresAt i) now"
    and "map_get (ts_mandates ts) (imt_id i) = None"
    and "collectEnterpriseTransferTermsIssues (imt_terms i) = []"
    and "ts' = ts\<lparr>ts_mandates := map_set (ts_mandates ts) (imt_id i) m,
                  ts_mandateIdByRequestRef := map_set (ts_mandateIdByRequestRef ts) (imt_requestRef i) (imt_id i),
                  ts_executions := map_set (ts_executions ts) (imt_id i) [],
                  ts_lifecycleEvents := map_set (ts_lifecycleEvents ts) (imt_id i) []\<rparr>"
  using assms
  by (auto simp: issueMandate_transfer_def outcome_simps requireStrictUtcTransferTimestamp_def Let_def
      issuedMandate_transfer_def toCanonicalTransferMandate_def validateEnterpriseTransferMandate_def
      split: if_splits)

lemma issue_refused:
  assumes "issueMandate_transfer now cx i ts = (Inl e, ts')"
  shows "ts' = ts"
  using assms by (auto simp: issueMandate_transfer_def outcome_simps Let_def split: if_splits)

lemma issue_wf:
  assumes "transfer_wf ts"
  shows "transfer_wf (snd (issueMandate_transfer now cx i ts))"
proof (cases "issueMandate_transfer now cx i ts")
  case (Pair res ts')
  show ?thesis
  proof (cases res)
    case (Inl e)
    with Pair issue_refused assms show ?thesis by force
  next
    case (Inr m)
    note r = issue_returns [OF Pair [unfolded Inr]]
    have "mandate_ok ts' (imt_id i) m"
      by (simp add: mandate_ok_def r(1,3,4) map_simps log_ok_def total_of_log_def issuedMandate_transfer_def)
    moreover have "mandate_ok ts' k m'" if "k \<noteq> imt_id i" "map_get (ts_mandates ts) k = Some m'" for k m'
      using assms that by (simp add: transfer_wf_def mandate_ok_def r(4) map_simps)
    ultimately show ?thesis
      by (simp add: Pair transfer_wf_def r(4) map_simps)
  qed
qed

section \<open>Recording an execution\<close>

lemma authorizes_Inr:
  assumes "enterpriseTransferMandateAuthorizes (toCanonicalTransferMandate m) (exerciseOf m i at) = Inr u"
  shows "mr_status m = TmActive"
    and "\<not> instant_lt at (mr_effectiveFrom m)" and "\<not> instant_ge at (mr_expiresAt m)"
    and "tt_executorRef (mr_terms m) = None \<or> tt_executorRef (mr_terms m) = Some (ixt_executedBy i)"
    and "ixt_transferorRef i = tt_transferorRef (mr_terms m)"
    and "ixt_transfereeRef i = tt_transfereeRef (mr_terms m)"
    and "ixt_rights i \<noteq> []" and "set (ixt_rights i) \<subseteq> set (tt_rights (mr_terms m))"
    and "governedRightsScopeWithin (ixt_transferredScope i) (tt_scope (mr_terms m))"
    and "tc_partialTransferAllowed (tt_constraints (mr_terms m)) \<or>
         mr_executionCount m \<le> 0 \<and> ixt_transferredScope i = tt_scope (mr_terms m)"
    and "mr_transferredScope m = Some s \<Longrightarrow>
         \<exists>whole. governedRightsScopeSum s (ixt_transferredScope i) = Some whole \<and>
           governedRightsScopeWithin whole (tt_scope (mr_terms m))"
  using assms
  by (auto simp: enterpriseTransferMandateAuthorizes_def toCanonicalTransferMandate_def exerciseOf_def
      outcome_simps exerciseInstant_def exerciseParties_def exercisePartiality_def exerciseCumulative_def
      find_None_iff split: if_splits option.splits)
    (cases "mr_status m"; simp)+

lemma guards_Inr:
  assumes "executionGuards_transfer cx i ts = Inr m"
  shows "map_get (ts_mandates ts) (ixt_mandateId i) = Some m" and "isStrictUtcTimestamp (ixt_executedAt i)"
    and "ixt_id i \<notin> set (ts_executionIds ts)"
    and "enterpriseTransferMandateAuthorizes (toCanonicalTransferMandate m) (exerciseOf m i (ixt_executedAt i)) = Inr ()"
  using assms
  by (auto simp: executionGuards_transfer_def outcome_simps requireVisibleMandate_transfer_def
      requireMandate_transfer_def requireStrictUtcTransferTimestamp_def assertTransferExerciseAuthorized_def
      split: if_splits option.splits sum.splits)

definition moved_mandate :: "TransferMandateRecord \<Rightarrow> GovernedRightsScope \<Rightarrow> TransferMandateRecord" where
  "moved_mandate m s = m\<lparr>mr_executionCount := mr_executionCount m + 1, mr_transferredScope := Some s\<rparr>"

lemma execution_returns:
  assumes "recordExecution_transfer now cx i ts = (Inr (updated, x), ts')"
  obtains m s log where
    "executionGuards_transfer cx i ts = Inr m"
    "nextTransferredScope (mr_transferredScope m) (ixt_transferredScope i) = Some s"
    "map_get (ts_executions ts) (mr_id m) = Some log"
    "updated = moved_mandate m s" "x = recordedExecution_transfer i m (ixt_executedAt i) now"
    "ts' = ts\<lparr>ts_executionIds := ixt_id i # ts_executionIds ts,
              ts_executions := map_set (ts_executions ts) (mr_id m) (log @ [x]),
              ts_mandates := map_set (ts_mandates ts) (mr_id m) updated\<rparr>"
  using assms
  by (auto simp: recordExecution_transfer_def outcome_simps Let_def moved_mandate_def recordedExecution_transfer_def
      split: option.splits)

lemma execution_refused:
  assumes "recordExecution_transfer now cx i ts = (Inl e, ts')"
  shows "ts' = ts"
  using assms by (auto simp: recordExecution_transfer_def outcome_simps Let_def split: option.splits)

text \<open>The authorized quantity of valid terms is in the range where the code's sums are exact.\<close>

lemma valid_terms_scope:
  assumes "collectEnterpriseTransferTermsIssues t = []"
  shows "0 < amount (tt_scope t)" and "amount (tt_scope t) \<le> MAX_SAFE_INTEGER"
  using assms
  by (cases "tt_scope t"; auto simp: collectEnterpriseTransferTermsIssues_def isTransferPositiveInteger_def
      isSafeInteger_def split: if_splits)+

lemma total_of_log_step:
  assumes "total_of_log authorized moved scopes" and "0 < amount authorized" and "amount authorized \<le> MAX_SAFE_INTEGER"
    and nxt: "nextTransferredScope moved x = Some s" and within: "governedRightsScopeWithin x authorized"
    and cumulative: "\<And>c. moved = Some c \<Longrightarrow> governedRightsScopeWithin s authorized"
  shows "total_of_log authorized (Some s) (scopes @ [x])"
proof (cases moved)
  case None
  with assms show ?thesis by (simp add: total_of_log_def nextTransferredScope_def)
next
  case (Some c)
  have sum: "governedRightsScopeSum c x = Some s" using nxt Some by (simp add: nextTransferredScope_def)
  have w: "governedRightsScopeWithin s authorized" using cumulative Some by simp
  have "amount s = amount c + amount x"
    if "\<forall>y \<in> set scopes. 0 \<le> amount y" "amount c = sum_list (map amount scopes)" "0 \<le> amount x"
  proof -
    have c: "0 \<le> amount c" unfolding that(2) using that(1) by (intro sum_list_nonneg) auto
    have "amount s \<le> MAX_SAFE_INTEGER" using w assms(3) by (simp add: within_iff)
    with scopes.add_safe [OF sum c that(3)] have "amount c + amount x \<le> MAX_SAFE_INTEGER" by simp
    from scopes.add_amt [OF sum c that(3) this] show ?thesis .
  qed
  with w assms(1) Some show ?thesis by (auto simp: total_of_log_def)
qed

lemma execution_wf:
  assumes wf: "transfer_wf ts"
  shows "transfer_wf (snd (recordExecution_transfer now cx i ts))"
proof (cases "recordExecution_transfer now cx i ts")
  case (Pair res ts')
  show ?thesis
  proof (cases res)
    case (Inl e)
    with Pair execution_refused wf show ?thesis by force
  next
    case (Inr r)
    obtain updated x where r: "r = (updated, x)" by fastforce
    obtain m s log where g: "executionGuards_transfer cx i ts = Inr m"
      and s: "nextTransferredScope (mr_transferredScope m) (ixt_transferredScope i) = Some s"
      and log: "map_get (ts_executions ts) (mr_id m) = Some log"
      and up: "updated = moved_mandate m s" and x: "x = recordedExecution_transfer i m (ixt_executedAt i) now"
      and ts': "ts' = ts\<lparr>ts_executionIds := ixt_id i # ts_executionIds ts,
              ts_executions := map_set (ts_executions ts) (mr_id m) (log @ [x]),
              ts_mandates := map_set (ts_mandates ts) (mr_id m) updated\<rparr>"
      using execution_returns [OF Pair [unfolded Inr r]] by blast
    note gs = guards_Inr [OF g] and a = authorizes_Inr [OF guards_Inr(4) [OF g]]
    have ok: "mandate_ok ts (ixt_mandateId i) m" using wf gs(1) by (simp add: transfer_wf_def)
    then have id: "mr_id m = ixt_mandateId i" and terms: "collectEnterpriseTransferTermsIssues (mr_terms m) = []"
      and lo: "log_ok m log" using log by (auto simp: mandate_ok_def)
    have auth: "execution_authorized updated x"
      using a gs(2) by (simp add: execution_authorized_def up x moved_mandate_def recordedExecution_transfer_def)
    have same: "execution_authorized updated = execution_authorized m"
      by (rule ext) (simp add: execution_authorized_def up moved_mandate_def)
    have "total_of_log (tt_scope (mr_terms m)) (Some s) (map xr_transferredScope log @ [ixt_transferredScope i])"
    proof (rule total_of_log_step [OF _ valid_terms_scope [OF terms] s a(9)])
      show "total_of_log (tt_scope (mr_terms m)) (mr_transferredScope m) (map xr_transferredScope log)"
        using lo by (simp add: log_ok_def)
      show "governedRightsScopeWithin s (tt_scope (mr_terms m))" if "mr_transferredScope m = Some c" for c
        using a(11) [OF that] s that by (simp add: nextTransferredScope_def)
    qed
    moreover have "tc_partialTransferAllowed (tt_constraints (mr_terms m)) \<or>
        log = [] \<and> ixt_transferredScope i = tt_scope (mr_terms m)"
      using a(10) lo by (auto simp: log_ok_def)
    ultimately have "log_ok updated (log @ [x])"
      using lo auth same
      by (auto simp: log_ok_def up moved_mandate_def x recordedExecution_transfer_def)
    then have "mandate_ok ts' (ixt_mandateId i) updated"
      using id terms by (simp add: mandate_ok_def ts' map_simps up moved_mandate_def)
    moreover have "mandate_ok ts' k m'" if "k \<noteq> ixt_mandateId i" "map_get (ts_mandates ts) k = Some m'" for k m'
      using wf that id by (simp add: transfer_wf_def mandate_ok_def ts' map_simps)
    ultimately show ?thesis by (simp add: Pair transfer_wf_def ts' map_simps id)
  qed
qed

section \<open>Every run\<close>

lemma transfer_wf_cong:
  assumes "transfer_wf ts" and "ts_mandates ts' = ts_mandates ts" and "ts_executions ts' = ts_executions ts"
  shows "transfer_wf ts'"
  using assms by (simp add: transfer_wf_def mandate_ok_def)

lemma lifecycle_wf:
  assumes "transfer_wf ts"
  shows "transfer_wf (snd (recordLifecycleEvent now cx i ts))"
  by (rule transfer_wf_cong [OF assms])
    (auto simp: recordLifecycleEvent_def attempt_def Let_def split: sum.splits option.splits)

lemma transfer_revoke_cases:
  assumes "revokeMandate_transfer cx i ts = (res, ts')"
  shows "ts' = ts \<or> (\<exists>m. map_get (ts_mandates ts) (ivt_mandateId i) = Some m \<and>
     ts' = ts\<lparr>ts_revocations := map_set (ts_revocations ts) (mr_id m) (revocationOf i m (ivt_revokedAt i)),
              ts_mandates := map_set (ts_mandates ts) (mr_id m) (m\<lparr>mr_status := TmRevoked\<rparr>)\<rparr>)"
  using assms
  by (auto simp: revokeMandate_transfer_def attempt_def requireVisibleMandate_transfer_def requireMandate_transfer_def
      requireStrictUtcTransferTimestamp_def outcome_simps Let_def split: sum.splits option.splits if_splits)

lemma transfer_revoke_wf:
  assumes wf: "transfer_wf ts"
  shows "transfer_wf (snd (revokeMandate_transfer cx i ts))"
proof (cases "revokeMandate_transfer cx i ts")
  case (Pair res ts')
  from transfer_revoke_cases [OF this] show ?thesis
  proof (elim disjE exE conjE)
    fix m assume m: "map_get (ts_mandates ts) (ivt_mandateId i) = Some m"
      and ts': "ts' = ts\<lparr>ts_revocations := map_set (ts_revocations ts) (mr_id m) (revocationOf i m (ivt_revokedAt i)),
              ts_mandates := map_set (ts_mandates ts) (mr_id m) (m\<lparr>mr_status := TmRevoked\<rparr>)\<rparr>"
    have ok: "mandate_ok ts (ivt_mandateId i) m" using wf m by (simp add: transfer_wf_def)
    have same: "log_ok (m\<lparr>mr_status := TmRevoked\<rparr>) = log_ok m"
      by (rule ext) (simp add: log_ok_def execution_authorized_def [abs_def])
    from ok wf show ?thesis
      by (auto simp: Pair transfer_wf_def ts' map_simps mandate_ok_def same)
  qed (use wf Pair in simp)
qed

lemma run_transfer_call_wf: "transfer_wf ts \<Longrightarrow> transfer_wf (run_transfer_call c ts)"
  by (cases c)
    (simp_all add: issue_wf execution_wf lifecycle_wf transfer_revoke_wf transfer_wf_cong close_transfer_def)

lemma run_transfers_wf: "transfer_wf (run_transfers calls)"
proof -
  have "transfer_wf ts \<Longrightarrow> transfer_wf (fold run_transfer_call calls ts)" for ts
    by (induction calls arbitrary: ts) (simp_all add: run_transfer_call_wf)
  then show ?thesis by (simp add: run_transfers_def transfer_wf_empty)
qed

text \<open>What the invariant gives for one mandate and its log.\<close>

lemma run_log:
  assumes "map_get (ts_mandates (run_transfers calls)) k = Some m"
  shows "mr_id m = k" and "log_ok m (executionsOf_transfer (run_transfers calls) k)"
    and "collectEnterpriseTransferTermsIssues (mr_terms m) = []"
proof -
  have "mandate_ok (run_transfers calls) k m" using run_transfers_wf [of calls] assms by (simp add: transfer_wf_def)
  then show "mr_id m = k" "log_ok m (executionsOf_transfer (run_transfers calls) k)"
    "collectEnterpriseTransferTermsIssues (mr_terms m) = []"
    by (auto simp: mandate_ok_def executionsOf_transfer_def)
qed

lemma run_execution_authorized:
  assumes "map_get (ts_mandates (run_transfers calls)) k = Some m"
    and "x \<in> set (executionsOf_transfer (run_transfers calls) k)"
  shows "execution_authorized m x"
  using run_log(2) [OF assms(1)] assms(2) by (simp add: log_ok_def list_all_iff)

lemma run_total:
  assumes m: "map_get (ts_mandates (run_transfers calls)) k = Some m"
    and pos: "\<forall>x \<in> set (executionsOf_transfer (run_transfers calls) k). 0 \<le> amount (xr_transferredScope x)"
  shows "(\<Sum>x \<leftarrow> executionsOf_transfer (run_transfers calls) k. amount (xr_transferredScope x)) \<le> amount (tt_scope (mr_terms m))"
proof -
  have t: "total_of_log (tt_scope (mr_terms m)) (mr_transferredScope m)
      (map xr_transferredScope (executionsOf_transfer (run_transfers calls) k))"
    using run_log(2) [OF m] by (simp add: log_ok_def)
  show ?thesis
  proof (cases "mr_transferredScope m")
    case None
    with t valid_terms_scope(1) [OF run_log(3) [OF m]] show ?thesis by (simp add: total_of_log_def)
  next
    case (Some s)
    with t pos show ?thesis by (simp add: total_of_log_def within_iff o_def)
  qed
qed

end
