(* ===== verification/CollateralInvariants.thy ===== *)
theory CollateralInvariants
  imports CollateralStore TransferInvariants
begin

text \<open>
  What holds of every store the collateralization operations can reach: each recorded execution was
  authorized by its mandate, limits included, the total committed stays within what the mandate
  authorizes, and an execution identifier that has been used is refused from then on.
\<close>

section \<open>Runs\<close>

datatype collateral_call =
    CollateralIssue string AuthorityGovernanceContext IssueCollateralizationMandateInput
  | CollateralExecution string AuthorityGovernanceContext RecordCollateralizationExecutionInput
  | CollateralRelease string AuthorityGovernanceContext RecordCollateralizationReleaseInput
  | CollateralRevoke AuthorityGovernanceContext RevokeCollateralizationMandateInput
  | CollateralClose

fun run_collateral_call :: "collateral_call \<Rightarrow> collateral_store \<Rightarrow> collateral_store" where
  "run_collateral_call (CollateralIssue now cx i) ks = snd (issueMandate_collateral now cx i ks)"
| "run_collateral_call (CollateralExecution now cx i) ks = snd (recordExecution_collateral now cx i ks)"
| "run_collateral_call (CollateralRelease now cx i) ks = snd (recordRelease now cx i ks)"
| "run_collateral_call (CollateralRevoke cx i) ks = snd (revokeMandate_collateral cx i ks)"
| "run_collateral_call CollateralClose ks = close_collateral ks"

definition run_collaterals :: "collateral_call list \<Rightarrow> collateral_store" where
  "run_collaterals calls = fold run_collateral_call calls empty_collateral_store"

section \<open>The invariant\<close>

text \<open>The limits a mandate puts on an arrangement, as predicates of the recorded execution.\<close>

definition limits_kept :: "EnterpriseCollateralizationConstraints \<Rightarrow> CollateralizationExecutionRecord \<Rightarrow> bool" where
  "limits_kept c x \<longleftrightarrow>
     (case cc_maximumSecuredAmount c of
        None \<Rightarrow> True
      | Some limit \<Rightarrow> \<exists>a. kx_securedAmount x = Some a \<and> enterpriseSecuredAmountWithin a limit) \<and>
     (case cc_permittedRegistries c of
        None \<Rightarrow> True | Some ls \<Rightarrow> \<exists>l \<in> set ls. kx_externalRegistry x = Some l) \<and>
     (case cc_permittedJurisdictions c of
        None \<Rightarrow> True | Some ls \<Rightarrow> \<exists>l \<in> set ls. kx_jurisdiction x = Some l) \<and>
     (case cc_requiredPriorityRank c of
        None \<Rightarrow> True | Some r \<Rightarrow> \<exists>rank. kx_priorityRank x = Some rank \<and> rank \<le> r)"

definition arrangement_authorized ::
  "CollateralizationMandateRecord \<Rightarrow> CollateralizationExecutionRecord \<Rightarrow> bool" where
  "arrangement_authorized m x \<longleftrightarrow>
     kx_mandateId x = km_id m \<and> kx_organizationId x = km_organizationId m \<and>
     kx_executorRef x = ct_executorRef (km_terms m) \<and>
     kx_securedObligationRef x = ct_securedObligationRef (km_terms m) \<and>
     kx_securedPartyRef x = ct_securedPartyRef (km_terms m) \<and>
     kx_rights x \<noteq> [] \<and> set (kx_rights x) \<subseteq> set (ct_rights (km_terms m)) \<and>
     governedRightsScopeWithin (kx_committedScope x) (ct_scope (km_terms m)) \<and>
     limits_kept (ct_constraints (km_terms m)) x \<and> isStrictUtcTimestamp (kx_executedAt x) \<and>
     \<not> instant_lt (kx_executedAt x) (km_effectiveFrom m) \<and> \<not> instant_ge (kx_executedAt x) (km_expiresAt m)"

definition collateral_log_ok ::
  "CollateralizationMandateRecord \<Rightarrow> CollateralizationExecutionRecord list \<Rightarrow> bool" where
  "collateral_log_ok m log \<longleftrightarrow>
     km_executionCount m = int (length log) \<and> list_all (arrangement_authorized m) log \<and>
     total_of_log (ct_scope (km_terms m)) (km_committedScope m) (map kx_committedScope log) \<and>
     (cc_additionalCollateralizationAllowed (ct_constraints (km_terms m)) \<or> length log \<le> 1)"

definition collateral_mandate_ok :: "collateral_store \<Rightarrow> string \<Rightarrow> CollateralizationMandateRecord \<Rightarrow> bool" where
  "collateral_mandate_ok ks k m \<longleftrightarrow>
     km_id m = k \<and> collectEnterpriseCollateralizationTermsIssues (km_terms m) = [] \<and>
     (\<exists>log. map_get (ks_executions ks) k = Some log \<and> collateral_log_ok m log)"

definition collateral_wf :: "collateral_store \<Rightarrow> bool" where
  "collateral_wf ks \<longleftrightarrow> (\<forall>k m. map_get (ks_mandates ks) k = Some m \<longrightarrow> collateral_mandate_ok ks k m)"

lemma collateral_wf_empty: "collateral_wf empty_collateral_store"
  by (simp add: collateral_wf_def empty_collateral_store_def map_get_def)

lemma collateral_wf_cong:
  assumes "collateral_wf ks" and "ks_mandates ks' = ks_mandates ks" and "ks_executions ks' = ks_executions ks"
  shows "collateral_wf ks'"
  using assms by (simp add: collateral_wf_def collateral_mandate_ok_def)

section \<open>Issuing\<close>

lemma collateral_issue_returns:
  assumes "issueMandate_collateral now cx i ks = (Inr m, ks')"
  shows "m = issuedMandate_collateral i (imk_effectiveFrom i) (imk_expiresAt i) now"
    and "map_get (ks_mandates ks) (imk_id i) = None"
    and "collectEnterpriseCollateralizationTermsIssues (imk_terms i) = []"
    and "ks' = ks\<lparr>ks_mandates := map_set (ks_mandates ks) (imk_id i) m,
                  ks_mandateIdByRequestRef := map_set (ks_mandateIdByRequestRef ks) (imk_requestRef i) (imk_id i),
                  ks_executions := map_set (ks_executions ks) (imk_id i) [],
                  ks_releases := map_set (ks_releases ks) (imk_id i) []\<rparr>"
  using assms
  by (auto simp: issueMandate_collateral_def outcome_simps requireStrictUtcCollateralizationTimestamp_def Let_def
      issuedMandate_collateral_def toCanonicalCollateralizationMandate_def
      validateEnterpriseCollateralizationMandate_def split: if_splits)

lemma collateral_issue_refused:
  assumes "issueMandate_collateral now cx i ks = (Inl e, ks')"
  shows "ks' = ks"
  using assms by (auto simp: issueMandate_collateral_def outcome_simps Let_def split: if_splits)

lemma collateral_issue_wf:
  assumes "collateral_wf ks"
  shows "collateral_wf (snd (issueMandate_collateral now cx i ks))"
proof (cases "issueMandate_collateral now cx i ks")
  case (Pair res ks')
  show ?thesis
  proof (cases res)
    case (Inl e)
    with Pair collateral_issue_refused assms show ?thesis by force
  next
    case (Inr m)
    note r = collateral_issue_returns [OF Pair [unfolded Inr]]
    have "collateral_mandate_ok ks' (imk_id i) m"
      by (simp add: collateral_mandate_ok_def r(1,3,4) map_simps collateral_log_ok_def total_of_log_def
          issuedMandate_collateral_def)
    moreover have "collateral_mandate_ok ks' k m'" if "k \<noteq> imk_id i" "map_get (ks_mandates ks) k = Some m'" for k m'
      using assms that by (simp add: collateral_wf_def collateral_mandate_ok_def r(4) map_simps)
    ultimately show ?thesis by (simp add: Pair collateral_wf_def r(4) map_simps)
  qed
qed

section \<open>Recording an execution\<close>

text \<open>The four limits of the decision are the four of \<^const>\<open>limits_kept\<close>.\<close>

lemma restricted_label_iff:
  "\<not> restricted_label permitted reported \<longleftrightarrow>
     (case permitted of None \<Rightarrow> True | Some ls \<Rightarrow> \<exists>l \<in> set ls. reported = Some l)"
  by (auto simp: restricted_label_def split: option.splits)

lemma collateralLimits_Inr:
  assumes "collateralLimits c (collateralExercise m i at) = Inr u"
  shows "limits_kept c (recordedExecution_collateral i m at' now)"
  using assms
  unfolding collateralLimits_def limits_kept_def restricted_label_iff [symmetric] collateralExercise_def
    recordedExecution_collateral_def
  by (auto split: if_splits option.splits)

text \<open>The decision is its four checks, and each check its conditions.\<close>

lemma collateral_checks:
  assumes "enterpriseCollateralizationMandateAuthorizes mandate exercise = Inr u"
  shows "cm_status mandate \<noteq> TmRevoked" and "collateralInstant mandate (ca_at exercise) = Inr ()"
    and "collateralParties (cm_terms mandate) exercise = Inr ()"
    and "governedRightsScopeWithin (ca_scope exercise) (ct_scope (cm_terms mandate))"
    and "cc_additionalCollateralizationAllowed (ct_constraints (cm_terms mandate)) \<or> ca_priorExecutionCount exercise \<le> 0"
    and "collateralCumulative (cm_terms mandate) exercise = Inr ()"
    and "collateralLimits (ct_constraints (cm_terms mandate)) exercise = Inr ()"
  using assms
  by (auto simp: enterpriseCollateralizationMandateAuthorizes_def outcome_simps split: if_splits)

lemma collateralInstant_Inr:
  assumes "collateralInstant mandate at = Inr u"
  shows "\<not> instant_lt at (cm_effectiveFrom mandate)" and "\<not> instant_ge at (cm_expiresAt mandate)"
  using assms by (auto simp: collateralInstant_def split: if_splits)

lemma collateralParties_Inr:
  assumes "collateralParties terms exercise = Inr u"
  shows "ca_executorRef exercise = ct_executorRef terms"
    and "ca_securedObligationRef exercise = ct_securedObligationRef terms"
    and "ca_securedPartyRef exercise = ct_securedPartyRef terms"
    and "ca_rights exercise \<noteq> []" and "set (ca_rights exercise) \<subseteq> set (ct_rights terms)"
  using assms by (auto simp: collateralParties_def find_None_iff split: if_splits)

lemma collateralCumulative_Inr:
  assumes "collateralCumulative terms exercise = Inr u" and "ca_alreadyCommittedScope exercise = Some s"
  shows "\<exists>whole. governedRightsScopeSum s (ca_scope exercise) = Some whole \<and>
    governedRightsScopeWithin whole (ct_scope terms)"
  using assms by (auto simp: collateralCumulative_def split: option.splits if_splits)

lemma exercise_fields [simp]:
  "ca_executorRef (collateralExercise m i at) = ixk_executorRef i"
  "ca_securedObligationRef (collateralExercise m i at) = ixk_securedObligationRef i"
  "ca_securedPartyRef (collateralExercise m i at) = ixk_securedPartyRef i"
  "ca_rights (collateralExercise m i at) = ixk_rights i" "ca_scope (collateralExercise m i at) = ixk_committedScope i"
  "ca_at (collateralExercise m i at) = at" "ca_alreadyCommittedScope (collateralExercise m i at) = km_committedScope m"
  "ca_priorExecutionCount (collateralExercise m i at) = km_executionCount m"
  by (simp_all add: collateralExercise_def)

lemma canonical_fields [simp]:
  "cm_status (toCanonicalCollateralizationMandate m) = km_status m"
  "cm_terms (toCanonicalCollateralizationMandate m) = km_terms m"
  "cm_effectiveFrom (toCanonicalCollateralizationMandate m) = km_effectiveFrom m"
  "cm_expiresAt (toCanonicalCollateralizationMandate m) = km_expiresAt m"
  by (simp_all add: toCanonicalCollateralizationMandate_def)

lemma collateral_guards_Inr:
  assumes "executionGuards_collateral cx i ks = Inr m"
  shows "map_get (ks_mandates ks) (ixk_mandateId i) = Some m" and "isStrictUtcTimestamp (ixk_executedAt i)"
    and "ixk_id i \<notin> set (ks_executionIds ks)"
    and "enterpriseCollateralizationMandateAuthorizes (toCanonicalCollateralizationMandate m)
           (collateralExercise m i (ixk_executedAt i)) = Inr ()"
  using assms
  by (auto simp: executionGuards_collateral_def outcome_simps requireVisibleMandate_collateral_def
      requireMandate_collateral_def requireStrictUtcCollateralizationTimestamp_def
      assertCollateralExerciseAuthorized_def split: if_splits option.splits sum.splits)

definition committed_mandate :: "CollateralizationMandateRecord \<Rightarrow> GovernedRightsScope \<Rightarrow> CollateralizationMandateRecord" where
  "committed_mandate m s = m\<lparr>km_committedScope := Some s, km_executionCount := km_executionCount m + 1\<rparr>"

lemma next_committed: "nextCommittedCollateralScope = nextTransferredScope"
  by (intro ext) (simp add: nextCommittedCollateralScope_def nextTransferredScope_def)

lemma collateral_execution_returns:
  assumes "recordExecution_collateral now cx i ks = (Inr (updated, x), ks')"
  obtains m s log where
    "executionGuards_collateral cx i ks = Inr m"
    "nextTransferredScope (km_committedScope m) (ixk_committedScope i) = Some s"
    "map_get (ks_executions ks) (km_id m) = Some log"
    "updated = committed_mandate m s" "x = recordedExecution_collateral i m (ixk_executedAt i) now"
    "ks' = ks\<lparr>ks_executionIds := ixk_id i # ks_executionIds ks,
              ks_executions := map_set (ks_executions ks) (km_id m) (log @ [x]),
              ks_mandates := map_set (ks_mandates ks) (km_id m) updated\<rparr>"
  using assms
  by (auto simp: recordExecution_collateral_def outcome_simps Let_def committed_mandate_def
      recordedExecution_collateral_def next_committed split: option.splits)

lemma collateral_execution_refused:
  assumes "recordExecution_collateral now cx i ks = (Inl e, ks')"
  shows "ks' = ks"
  using assms by (auto simp: recordExecution_collateral_def outcome_simps Let_def split: option.splits)

lemma valid_collateral_scope:
  assumes "collectEnterpriseCollateralizationTermsIssues t = []"
  shows "0 < amount (ct_scope t)" and "amount (ct_scope t) \<le> MAX_SAFE_INTEGER"
  using assms
  by (cases "ct_scope t"; auto simp: collectEnterpriseCollateralizationTermsIssues_def
      isCollateralizationPositiveInteger_def isSafeInteger_def split: if_splits)+

lemma collateral_execution_wf:
  assumes wf: "collateral_wf ks"
  shows "collateral_wf (snd (recordExecution_collateral now cx i ks))"
proof (cases "recordExecution_collateral now cx i ks")
  case (Pair res ks')
  show ?thesis
  proof (cases res)
    case (Inl e)
    with Pair collateral_execution_refused wf show ?thesis by force
  next
    case (Inr r)
    obtain updated x where r: "r = (updated, x)" by fastforce
    obtain m s log where g: "executionGuards_collateral cx i ks = Inr m"
      and s: "nextTransferredScope (km_committedScope m) (ixk_committedScope i) = Some s"
      and log: "map_get (ks_executions ks) (km_id m) = Some log"
      and up: "updated = committed_mandate m s" and x: "x = recordedExecution_collateral i m (ixk_executedAt i) now"
      and ks': "ks' = ks\<lparr>ks_executionIds := ixk_id i # ks_executionIds ks,
              ks_executions := map_set (ks_executions ks) (km_id m) (log @ [x]),
              ks_mandates := map_set (ks_mandates ks) (km_id m) updated\<rparr>"
      using collateral_execution_returns [OF Pair [unfolded Inr r]] by blast
    note gs = collateral_guards_Inr [OF g]
    note a = collateral_checks [OF gs(4), unfolded exercise_fields canonical_fields]
    note instant = collateralInstant_Inr [OF a(2), unfolded canonical_fields]
      and parties = collateralParties_Inr [OF a(3), unfolded exercise_fields]
    have ok: "collateral_mandate_ok ks (ixk_mandateId i) m" using wf gs(1) by (simp add: collateral_wf_def)
    then have id: "km_id m = ixk_mandateId i" and terms: "collectEnterpriseCollateralizationTermsIssues (km_terms m) = []"
      and lo: "collateral_log_ok m log" using log by (auto simp: collateral_mandate_ok_def)
    have auth: "arrangement_authorized m x"
      using a(4) instant parties gs(2) collateralLimits_Inr [OF a(7)]
      by (simp add: arrangement_authorized_def x) (simp add: recordedExecution_collateral_def)
    have same: "arrangement_authorized updated = arrangement_authorized m"
      by (rule ext) (simp add: arrangement_authorized_def up committed_mandate_def)
    have "total_of_log (ct_scope (km_terms m)) (Some s) (map kx_committedScope log @ [ixk_committedScope i])"
    proof (rule total_of_log_step [OF _ valid_collateral_scope [OF terms] s a(4)])
      show "total_of_log (ct_scope (km_terms m)) (km_committedScope m) (map kx_committedScope log)"
        using lo by (simp add: collateral_log_ok_def)
      show "governedRightsScopeWithin s (ct_scope (km_terms m))" if "km_committedScope m = Some c" for c
        using collateralCumulative_Inr [OF a(6)] s that by (simp add: nextTransferredScope_def)
    qed
    then have "collateral_log_ok updated (log @ [x])"
      using lo auth same a(5)
      by (auto simp: collateral_log_ok_def up committed_mandate_def x) (simp_all add: recordedExecution_collateral_def)
    then have "collateral_mandate_ok ks' (ixk_mandateId i) updated"
      using id terms by (simp add: collateral_mandate_ok_def ks' map_simps up committed_mandate_def)
    moreover have "collateral_mandate_ok ks' k m'" if "k \<noteq> ixk_mandateId i" "map_get (ks_mandates ks) k = Some m'" for k m'
      using wf that id by (simp add: collateral_wf_def collateral_mandate_ok_def ks' map_simps)
    ultimately show ?thesis by (simp add: Pair collateral_wf_def ks' map_simps id)
  qed
qed

section \<open>Every run\<close>

lemma collateral_release_keeps:
  "ks_mandates (snd (recordRelease now cx i ks)) = ks_mandates ks"
  "ks_executions (snd (recordRelease now cx i ks)) = ks_executions ks"
  "ks_executionIds (snd (recordRelease now cx i ks)) = ks_executionIds ks"
  by (auto simp: recordRelease_def attempt_def Let_def split: sum.splits option.splits)

lemma collateral_revoke_cases:
  assumes "revokeMandate_collateral cx i ks = (res, ks')"
  shows "ks' = ks \<or> (\<exists>m. map_get (ks_mandates ks) (ivk_mandateId i) = Some m \<and>
     ks' = ks\<lparr>ks_revocations := map_set (ks_revocations ks) (km_id m) (revocationOf_collateral i m (ivk_revokedAt i)),
              ks_mandates := map_set (ks_mandates ks) (km_id m) (m\<lparr>km_status := TmRevoked\<rparr>)\<rparr>)"
  using assms
  by (auto simp: revokeMandate_collateral_def attempt_def requireVisibleMandate_collateral_def
      requireMandate_collateral_def requireStrictUtcCollateralizationTimestamp_def outcome_simps Let_def
      split: sum.splits option.splits if_splits)

lemma collateral_revoke_wf:
  assumes wf: "collateral_wf ks"
  shows "collateral_wf (snd (revokeMandate_collateral cx i ks))"
proof (cases "revokeMandate_collateral cx i ks")
  case (Pair res ks')
  from collateral_revoke_cases [OF this] show ?thesis
  proof (elim disjE exE conjE)
    fix m assume m: "map_get (ks_mandates ks) (ivk_mandateId i) = Some m"
      and ks': "ks' = ks\<lparr>ks_revocations := map_set (ks_revocations ks) (km_id m) (revocationOf_collateral i m (ivk_revokedAt i)),
              ks_mandates := map_set (ks_mandates ks) (km_id m) (m\<lparr>km_status := TmRevoked\<rparr>)\<rparr>"
    have ok: "collateral_mandate_ok ks (ivk_mandateId i) m" using wf m by (simp add: collateral_wf_def)
    have same: "collateral_log_ok (m\<lparr>km_status := TmRevoked\<rparr>) = collateral_log_ok m"
      by (rule ext) (simp add: collateral_log_ok_def arrangement_authorized_def [abs_def])
    from ok wf show ?thesis
      by (auto simp: Pair collateral_wf_def ks' map_simps collateral_mandate_ok_def same)
  qed (use wf Pair in simp)
qed

lemma run_collateral_call_wf: "collateral_wf ks \<Longrightarrow> collateral_wf (run_collateral_call c ks)"
  by (cases c)
    (simp_all add: collateral_issue_wf collateral_execution_wf collateral_revoke_wf
      collateral_wf_cong collateral_release_keeps close_collateral_def)

lemma run_collaterals_wf: "collateral_wf (run_collaterals calls)"
proof -
  have "collateral_wf ks \<Longrightarrow> collateral_wf (fold run_collateral_call calls ks)" for ks
    by (induction calls arbitrary: ks) (simp_all add: run_collateral_call_wf)
  then show ?thesis by (simp add: run_collaterals_def collateral_wf_empty)
qed

lemma run_collateral_log:
  assumes "map_get (ks_mandates (run_collaterals calls)) k = Some m"
  shows "km_id m = k" and "collateral_log_ok m (executionsOf_collateral (run_collaterals calls) k)"
    and "collectEnterpriseCollateralizationTermsIssues (km_terms m) = []"
proof -
  have "collateral_mandate_ok (run_collaterals calls) k m"
    using run_collaterals_wf [of calls] assms by (simp add: collateral_wf_def)
  then show "km_id m = k" "collateral_log_ok m (executionsOf_collateral (run_collaterals calls) k)"
    "collectEnterpriseCollateralizationTermsIssues (km_terms m) = []"
    by (auto simp: collateral_mandate_ok_def executionsOf_collateral_def)
qed

section \<open>Used identifiers\<close>

lemma used_id_refused:
  assumes "ixk_id i \<in> set (ks_executionIds ks)"
  shows "\<exists>e. recordExecution_collateral now cx i ks = (Inl e, ks)"
proof -
  have "\<nexists>m. executionGuards_collateral cx i ks = Inr m" using collateral_guards_Inr(3) assms by blast
  then show ?thesis
    by (cases "executionGuards_collateral cx i ks") (auto simp: recordExecution_collateral_def)
qed

lemma run_keeps_ids: "set (ks_executionIds ks) \<subseteq> set (ks_executionIds (run_collateral_call c ks))"
proof (cases c)
  case (CollateralIssue now cx i)
  show ?thesis
  proof (cases "issueMandate_collateral now cx i ks")
    case (Pair res ks')
    with CollateralIssue collateral_issue_refused [of now cx i ks] collateral_issue_returns(4) [of now cx i ks]
    show ?thesis by (cases res) force+
  qed
next
  case (CollateralExecution now cx i)
  show ?thesis
  proof (cases "recordExecution_collateral now cx i ks")
    case (Pair res ks')
    show ?thesis
    proof (cases res)
      case (Inl e)
      with Pair collateral_execution_refused CollateralExecution show ?thesis by force
    next
      case (Inr r)
      obtain updated x where r: "r = (updated, x)" by fastforce
      have "ks_executionIds ks' = ixk_id i # ks_executionIds ks"
        by (rule collateral_execution_returns [OF Pair [unfolded Inr r]]) simp
      with Pair CollateralExecution show ?thesis by auto
    qed
  qed
next
  case (CollateralRevoke cx i)
  then show ?thesis
    using collateral_revoke_cases [OF prod.collapse [symmetric], of cx i ks] by auto
qed (simp_all add: collateral_release_keeps close_collateral_def)

lemma runs_keep_ids: "set (ks_executionIds ks) \<subseteq> set (ks_executionIds (fold run_collateral_call calls ks))"
proof (induction calls arbitrary: ks)
  case (Cons c calls)
  from subset_trans [OF run_keeps_ids Cons.IH] show ?case by simp
qed simp

end
