(* ===== verification/TransferProtocol.thy ===== *)
theory TransferProtocol
  imports TransferService TransferInvariants CommitmentInvariants
begin

text \<open>
  The transfer service over both stores: what a request commits and what it leaves when it fails,
  what a recorded execution moves, what a withdrawal frees, and that reconciliation completes.
\<close>

lemma toAuthorityContext_id [simp]: "toAuthorityContext context = context"
  by (simp add: toAuthorityContext_def)

section \<open>Active commitments\<close>

definition active_at :: "auth_store \<Rightarrow> string \<Rightarrow> GovernedAuthorityReservation \<Rightarrow> bool" where
  "active_at st k r \<longleftrightarrow> map_get (reservations st) k = Some r \<and> r_status r = RsActive"

lemma wf_reservation_ok:
  "store_wf sha st \<Longrightarrow> map_get (reservations st) k = Some r \<Longrightarrow> reservation_ok sha k r"
  using map_all_get by (fastforce simp: store_wf_def)

text \<open>A release that returns leaves nothing active under its identifier, and all else as it was.\<close>

lemma release_effect:
  assumes wf: "store_wf sha st"
    and ret: "releaseReservation sha anow cx \<lparr>rl_tenantId = org, rl_reservationId = i, rl_reason = AuthorizationEnded,
                rl_releasedAt = None\<rparr> st = (Inr r, st1)"
  shows "active_at st1 k x \<longleftrightarrow> active_at st k x \<and> k \<noteq> i"
    and "k \<noteq> i \<Longrightarrow> map_get (reservations st1) k = map_get (reservations st) k"
    and "positions st1 = positions st" and "transitions st1 = transitions st"
proof -
  have "st1 = st \<and> (\<forall>y. map_get (reservations st) i = Some y \<longrightarrow> r_status y = RsReleased) \<or>
      (\<exists>y u. map_get (reservations st) i = Some y \<and>
         st1 = put_reservation_in st (seal_reservation sha (y\<lparr>r_status := RsReleased, r_updatedAt := u\<rparr>)))"
    using ret
    by (auto simp: releaseReservation_def outcome_simps reservation_seal.verify_Inr putReservation_eq
        split: option.splits if_splits GovernedAuthorityReservationStatus.splits)
  moreover have "r_id y = i" if "map_get (reservations st) i = Some y" for y
    using wf_reservation_ok [OF wf that] by (simp add: reservation_ok_def)
  ultimately show "active_at st1 k x \<longleftrightarrow> active_at st k x \<and> k \<noteq> i"
    and "k \<noteq> i \<Longrightarrow> map_get (reservations st1) k = map_get (reservations st) k"
    and "positions st1 = positions st" and "transitions st1 = transitions st"
    by (auto simp: active_at_def put_reservation_in_def map_simps split: if_splits)
qed

lemma release_progress:
  assumes wf: "store_wf sha st" and "requireAuthorityAccessToOrganization cx org = Inr ()"
    and "isStrictUtcTimestamp anow" and r: "map_get (reservations st) i = Some r" and "r_tenantId r = org"
    and "r_status r = RsActive \<or> r_status r = RsReleased"
  shows "\<exists>r' st1. releaseReservation sha anow cx \<lparr>rl_tenantId = org, rl_reservationId = i,
     rl_reason = AuthorizationEnded, rl_releasedAt = None\<rparr> st = (Inr r', st1)"
proof -
  have "assertReservationIntegrity sha r = Inr r"
    using wf_reservation_ok [OF wf r] by (simp add: reservation_ok_def reservation_seal.verify_intact)
  with assms show ?thesis
    by (auto simp: releaseReservation_def requireStrictUtcAuthorityTimestamp_def putReservation_eq)
qed

lemma releaseEach_wf: "store_wf sha st \<Longrightarrow> store_wf sha (snd (releaseEach sha anow cx org is st))"
proof (induction "is" arbitrary: st)
  case (Cons i js)
  obtain res st1 where e: "releaseReservation sha anow cx \<lparr>rl_tenantId = org, rl_reservationId = i,
     rl_reason = AuthorizationEnded, rl_releasedAt = None\<rparr> st = (res, st1)" by fastforce
  have "store_wf sha st1" using releaseReservation_wf [OF Cons.prems] e by (metis snd_conv)
  with Cons.IH [of st1] show ?case by (cases res) (simp_all add: e)
qed simp

lemma releaseEach_effect:
  "store_wf sha st \<Longrightarrow> releaseEach sha anow cx org is st = (Inr u, st1) \<Longrightarrow>
     (active_at st1 k x \<longleftrightarrow> active_at st k x \<and> k \<notin> set is)"
proof (induction "is" arbitrary: st)
  case (Cons i js)
  obtain r st2 where e: "releaseReservation sha anow cx \<lparr>rl_tenantId = org, rl_reservationId = i,
     rl_reason = AuthorizationEnded, rl_releasedAt = None\<rparr> st = (Inr r, st2)"
    and rest: "releaseEach sha anow cx org js st2 = (Inr u, st1)"
    using Cons.prems(2) by (auto split: prod.splits sum.splits)
  have "store_wf sha st2" using releaseReservation_wf [OF Cons.prems(1)] e by (metis snd_conv)
  from Cons.IH [OF this rest] release_effect(1) [OF Cons.prems(1) e] show ?case by auto
qed simp

text \<open>Releasing what is active, or already released, returns.\<close>

lemma releaseEach_progress:
  assumes "requireAuthorityAccessToOrganization cx org = Inr ()" and "isStrictUtcTimestamp anow"
  shows "store_wf sha st \<Longrightarrow> \<forall>i \<in> set is. \<exists>r. map_get (reservations st) i = Some r \<and> r_tenantId r = org \<and>
      (r_status r = RsActive \<or> r_status r = RsReleased) \<Longrightarrow>
    \<exists>st1. releaseEach sha anow cx org is st = (Inr (), st1)"
proof (induction "is" arbitrary: st)
  case (Cons i js)
  obtain r where r: "map_get (reservations st) i = Some r" "r_tenantId r = org"
      "r_status r = RsActive \<or> r_status r = RsReleased" using Cons.prems(2) by auto
  obtain r' st1 where e: "releaseReservation sha anow cx \<lparr>rl_tenantId = org, rl_reservationId = i,
     rl_reason = AuthorizationEnded, rl_releasedAt = None\<rparr> st = (Inr r', st1)"
    using release_progress [OF Cons.prems(1) assms r] by blast
  have wf: "store_wf sha st1" using releaseReservation_wf [OF Cons.prems(1)] e by (metis snd_conv)
  have "\<exists>x. map_get (reservations st1) j = Some x \<and> r_tenantId x = org \<and>
      (r_status x = RsActive \<or> r_status x = RsReleased)" if "j \<in> set js" for j
  proof (cases "j = i")
    case False
    with that Cons.prems(2) release_effect(2) [OF Cons.prems(1) e False] show ?thesis by auto
  next
    case True
    have "st1 = st \<or> (\<exists>u. st1 = put_reservation_in st (seal_reservation sha (r\<lparr>r_status := RsReleased, r_updatedAt := u\<rparr>)))"
      using e r(1)
      by (auto simp: releaseReservation_def outcome_simps reservation_seal.verify_Inr putReservation_eq
          split: option.splits if_splits GovernedAuthorityReservationStatus.splits)
    moreover have "r_id r = i" using wf_reservation_ok [OF Cons.prems(1) r(1)] by (simp add: reservation_ok_def)
    ultimately show ?thesis using r True
      by (auto simp: put_reservation_in_def map_simps seal_reservation_def)
  qed
  with Cons.IH [OF wf] show ?case by (simp add: e)
qed simp

section \<open>The commitment gate\<close>

text \<open>No reservation of the tenant was made under one of the keys this mandate's commitments get.\<close>

definition keys_unused :: "string \<Rightarrow> string \<Rightarrow> GovernedRightType list \<Rightarrow> auth_store \<Rightarrow> bool" where
  "keys_unused org man rights st \<longleftrightarrow>
     list_all (\<lambda>right. findReservationByKey st org (man @ '':'' @ right) = None) rights"

lemma unused_put:
  assumes "findReservationByKey st org key = None" and "r_idempotencyKey r \<noteq> key"
    and wf: "store_wf sha st" and "reservation_ok sha (r_id r) r"
  shows "findReservationByKey (put_reservation_in st r) org key = None"
proof -
  have "\<forall>x \<in> set (map_values (reservations (put_reservation_in st r))). x = r \<or> x \<in> set (map_values (reservations st))"
    using wf by (auto simp: put_reservation_in_def store_wf_def map_all_def jsmap.vals_put_iff jsmap.get_vals)
  with assms(1,2) show ?thesis by (auto simp: findReservationByKey_def find_None_iff)
qed

lemma decide_unenrolled:
  "acquireDecide sha i rec av st = (Inr ReservationNotEnrolled, st1) \<Longrightarrow> \<not> isEnrolled st (q_tenantId i) (q_resource i)"
  by (cases av) (auto simp: acquireDecide_def putReservation_eq split: if_splits)

lemma decide_new: "acquireDecide sha i rec av st \<noteq> (Inr (Reserved r True), st1)"
  by (cases av) (simp_all add: acquireDecide_def putReservation_eq)

text \<open>One turn of the loop: refused, not enrolled, or a new commitment.\<close>

lemma acquire_turn:
  assumes wf: "store_wf sha st" and key: "findReservationByKey st (q_tenantId i) (reservationKeyOf i) = None"
    and ret: "acquireReservation sha anow cx i st = (res, st1)"
  obtains e where "res = Inl e" "st1 = st"
  | "res = Inr ReservationNotEnrolled" "st1 = st" "\<not> isEnrolled st (q_tenantId i) (q_resource i)"
  | r where "res = Inr (Reserved r False)" "r = seal_reservation sha (acquiredReservation sha i anow)"
      "st1 = put_reservation_in st r" "reservation_ok sha (r_id r) r"
      "requireAuthorityAccessToOrganization cx (q_tenantId i) = Inr ()" "isStrictUtcTimestamp anow"
proof (cases res)
  case (Inl e)
  with acquire_unchanged [OF ret] that(1) show ?thesis by simp
next
  case (Inr out)
  show ?thesis
  proof (cases out)
    case ReservationNotEnrolled
    then have "\<not> isEnrolled st (q_tenantId i) (q_resource i)"
      using ret Inr key
      by (auto simp: acquireReservation_def outcome_simps split: option.splits if_splits dest: decide_unenrolled)
    with acquire_unchanged [OF ret] Inr ReservationNotEnrolled that(2) show ?thesis by simp
  next
    case (Reserved r replayed)
    have "\<not> replayed"
      using ret Inr Reserved key
      by (cases replayed)
        (auto simp: acquireReservation_def outcome_simps decide_new split: option.splits if_splits)
    with ret Inr Reserved have e: "acquireReservation sha anow cx i st = (Inr (Reserved r False), st1)" by simp
    from acquire_new [OF wf e] have g: "acquireGuards anow cx i = Inr anow"
      and r: "r = seal_reservation sha (acquiredReservation sha i anow)" "st1 = put_reservation_in st r" by blast+
    have "reservation_ok sha (r_id r) r" using acquired_ok [OF g, of sha] by (simp add: r(1) acquiredReservation_def)
    with g r that(3) Inr Reserved \<open>\<not> replayed\<close> show ?thesis by (auto simp: acquireGuards_Inr)
  qed
qed

lemma acquired_fields [simp]:
  "r_status (seal_reservation sha (acquiredReservation sha i n)) = RsActive"
  "r_tenantId (seal_reservation sha (acquiredReservation sha i n)) = q_tenantId i"
  "r_sourceMandateRef (seal_reservation sha (acquiredReservation sha i n)) = q_sourceMandateRef i"
  "r_idempotencyKey (seal_reservation sha (acquiredReservation sha i n)) = reservationKeyOf i"
  "r_governedRight (seal_reservation sha (acquiredReservation sha i n)) = q_governedRight i"
  "r_holderRef (seal_reservation sha (acquiredReservation sha i n)) = q_holderRef i"
  "r_scope (seal_reservation sha (acquiredReservation sha i n)) = q_scope i"
  "r_status (acquiredReservation sha i n) = RsActive"
  "r_id (acquiredReservation sha i n) = deriveReservationId sha (q_tenantId i) (q_sourceMandateRef i) (q_governedRight i)"
  by (simp_all add: seal_reservation_def acquiredReservation_def)

lemma input_fields [simp]:
  "q_tenantId (reservationInput org rq man dec eff ex right) = org"
  "q_sourceMandateRef (reservationInput org rq man dec eff ex right) = man"
  "q_governedRight (reservationInput org rq man dec eff ex right) = right"
  "q_holderRef (reservationInput org rq man dec eff ex right) = tt_transferorRef (tr_terms rq)"
  "q_scope (reservationInput org rq man dec eff ex right) = tt_scope (tr_terms rq)"
  "q_resource (reservationInput org rq man dec eff ex right) =
     \<lparr>rr_kind = ta_kind (tr_asset rq), rr_id = ta_id (tr_asset rq)\<rparr>"
  "reservationKeyOf (reservationInput org rq man dec eff ex right) = man @ '':'' @ right"
  by (simp_all add: reservationInput_def reservationKeyOf_def)

text \<open>What the loop leaves: only the commitments it made are new, each for one of the rights.\<close>

definition commitment_of ::
  "(string \<Rightarrow> string) \<Rightarrow> string \<Rightarrow> (GovernedRightType \<Rightarrow> AcquireGovernedAuthorityReservationInput) \<Rightarrow>
     GovernedRightType list \<Rightarrow> GovernedAuthorityReservation \<Rightarrow> bool" where
  "commitment_of sha anow inputOf rights r \<longleftrightarrow>
     list_ex (\<lambda>right. r = seal_reservation sha (acquiredReservation sha (inputOf right) anow)) rights"

definition committed_only ::
  "(GovernedAuthorityReservation \<Rightarrow> bool) \<Rightarrow> auth_store \<Rightarrow> string list \<Rightarrow> auth_store \<Rightarrow> bool" where
  "committed_only ours st new st1 \<longleftrightarrow>
     positions st1 = positions st \<and>
     (\<forall>k. k \<notin> set new \<longrightarrow> map_get (reservations st1) k = map_get (reservations st) k) \<and>
     (\<forall>k \<in> set new. \<exists>r. map_get (reservations st1) k = Some r \<and> r_id r = k \<and> ours r)"

lemma commitment_fields:
  assumes "commitment_of sha anow (reservationInput org rq man dec eff ex) rights r"
  shows "r_status r = RsActive" and "r_tenantId r = org" and "r_sourceMandateRef r = man"
    and "r_scope r = tt_scope (tr_terms rq)" and "r_holderRef r = tt_transferorRef (tr_terms rq)"
  using assms by (auto simp: commitment_of_def list_ex_iff)

lemma enrolled_cong: "positions st' = positions st \<Longrightarrow> isEnrolled st' org res = isEnrolled st org res"
  by (simp add: isEnrolled_def)

lemma acquireEach_commits:
  assumes input: "inputOf = reservationInput org rq man dec eff ex"
    and res: "res = \<lparr>rr_kind = ta_kind (tr_asset rq), rr_id = ta_id (tr_asset rq)\<rparr>"
  shows "store_wf sha st \<Longrightarrow> distinct rights \<Longrightarrow> keys_unused org man rights st \<Longrightarrow>
    acquireEach sha anow cx inputOf rights acq st = ((err, acq'), st1) \<Longrightarrow>
    store_wf sha st1 \<and> (\<exists>new. acq' = acq @ new \<and> committed_only (commitment_of sha anow inputOf rights) st new st1 \<and>
      (new \<noteq> [] \<longrightarrow> requireAuthorityAccessToOrganization cx org = Inr () \<and> isStrictUtcTimestamp anow) \<and>
      (err = None \<and> isEnrolled st org res \<longrightarrow> new = map (deriveReservationId sha org man) rights))"
proof (induction rights arbitrary: st acq)
  case Nil
  then show ?case by (simp add: committed_only_def)
next
  case (Cons right rights)
  let ?i = "inputOf right" and ?ours = "commitment_of sha anow inputOf (right # rights)"
  obtain out st2 where a: "acquireReservation sha anow cx ?i st = (out, st2)" by fastforce
  have key: "findReservationByKey st (q_tenantId ?i) (reservationKeyOf ?i) = None"
    using Cons.prems(3) by (simp add: input keys_unused_def)
  have none: "keys_unused org man rights st" using Cons.prems(3) by (simp add: keys_unused_def)
  have mono: "commitment_of sha anow inputOf rights r \<Longrightarrow> ?ours r" for r by (simp add: commitment_of_def)
  show ?case
  proof (rule acquire_turn [OF Cons.prems(1) key a])
    fix e assume "out = Inl e" "st2 = st"
    with Cons.prems(1,4) a show ?thesis by (auto simp: committed_only_def)
  next
    assume o: "out = Inr ReservationNotEnrolled" "st2 = st" "\<not> isEnrolled st (q_tenantId ?i) (q_resource ?i)"
    then have "acquireEach sha anow cx inputOf rights acq st = ((err, acq'), st1)" using Cons.prems(4) a by simp
    from Cons.IH [OF Cons.prems(1) _ none this] Cons.prems(2)
    obtain new where "store_wf sha st1" "acq' = acq @ new" "committed_only (commitment_of sha anow inputOf rights) st new st1"
        "new \<noteq> [] \<longrightarrow> requireAuthorityAccessToOrganization cx org = Inr () \<and> isStrictUtcTimestamp anow" by auto
    with o(3) mono show ?thesis unfolding committed_only_def by (auto simp: input res)
  next
    fix r assume r: "out = Inr (Reserved r False)" "r = seal_reservation sha (acquiredReservation sha ?i anow)"
      "st2 = put_reservation_in st r" "reservation_ok sha (r_id r) r"
      "requireAuthorityAccessToOrganization cx (q_tenantId ?i) = Inr ()" "isStrictUtcTimestamp anow"
    have wf2: "store_wf sha st2" using put_reservation_wf [OF Cons.prems(1) r(4)] by (simp add: r(3))
    have "findReservationByKey st2 org (man @ '':'' @ right') = None" if "right' \<in> set rights" for right'
      unfolding r(3)
      by (rule unused_put [OF _ _ Cons.prems(1) r(4)])
        (use none that Cons.prems(2) in \<open>auto simp: keys_unused_def list_all_iff r(2) input\<close>)
    then have none2: "keys_unused org man rights st2" by (simp add: keys_unused_def list_all_iff)
    have pos: "positions st2 = positions st" by (simp add: r(3) put_reservation_in_def)
    have "acquireEach sha anow cx inputOf rights (acq @ [r_id r]) st2 = ((err, acq'), st1)"
      using Cons.prems(4) a r(1) by simp
    from Cons.IH [OF wf2 _ none2 this] Cons.prems(2) enrolled_cong [OF pos]
    obtain new where wf1: "store_wf sha st1" and acq': "acq' = acq @ r_id r # new"
      and co: "committed_only (commitment_of sha anow inputOf rights) st2 new st1"
      and all: "err = None \<and> isEnrolled st org res \<longrightarrow> new = map (deriveReservationId sha org man) rights" by auto
    have "map_get (reservations st2) (r_id r) = Some r \<and> ?ours r"
      by (simp add: r(2,3) put_reservation_in_def map_simps commitment_of_def)
    moreover have "\<And>k. k \<noteq> r_id r \<Longrightarrow> map_get (reservations st2) k = map_get (reservations st) k"
      by (simp add: r(3) put_reservation_in_def map_simps)
    ultimately have "committed_only ?ours st (r_id r # new) st1"
      using co pos mono unfolding committed_only_def by (metis list.set_intros set_ConsD)
    moreover have "r_id r = deriveReservationId sha org man right" by (simp add: r(2) input)
    ultimately show ?thesis using wf1 acq' r(5,6) all by (auto simp: input)
  qed
qed

text \<open>Releasing what was committed leaves nothing active that was not before.\<close>

lemma released_commitments:
  assumes wf: "store_wf sha st1" and co: "committed_only ours st new st1"
    and ours: "\<And>r. ours r \<Longrightarrow> r_status r = RsActive \<and> r_tenantId r = org"
    and ok: "new \<noteq> [] \<longrightarrow> requireAuthorityAccessToOrganization cx org = Inr () \<and> isStrictUtcTimestamp anow"
  shows "\<exists>st2. snd (releaseTransferReservations sha anow cx org new (Some st1)) = Some st2 \<and>
    (\<forall>k r. active_at st2 k r \<longrightarrow> active_at st k r)"
proof (cases "new = []")
  case True
  with co show ?thesis by (simp add: releaseTransferReservations_def committed_only_def active_at_def)
next
  case False
  have "\<forall>i \<in> set new. \<exists>r. map_get (reservations st1) i = Some r \<and> r_tenantId r = org \<and>
      (r_status r = RsActive \<or> r_status r = RsReleased)"
    using co ours unfolding committed_only_def by metis
  with releaseEach_progress [OF _ _ wf] ok False
  obtain st2 where e: "releaseEach sha anow cx org new st1 = (Inr (), st2)" by blast
  have "active_at st k r" if "active_at st2 k r" for k r
  proof -
    have "active_at st1 k r \<and> k \<notin> set new" using that releaseEach_effect [OF wf e] by blast
    with co show ?thesis unfolding committed_only_def active_at_def by metis
  qed
  with False e show ?thesis by (simp add: releaseTransferReservations_def)
qed

section \<open>Requests\<close>

definition ours ::
  "(string \<Rightarrow> string) \<Rightarrow> string \<Rightarrow> string \<Rightarrow> EnterpriseTransferRequest \<Rightarrow> string \<Rightarrow> string \<Rightarrow> string \<Rightarrow> string \<Rightarrow>
     GovernedAuthorityReservation \<Rightarrow> bool" where
  "ours sha anow org rq man dec eff ex =
     commitment_of sha anow (reservationInput org rq man dec eff ex) (tt_rights (tr_terms rq))"

lemma ours_fields:
  assumes "ours sha anow org rq man dec eff ex r"
  shows "r_status r = RsActive" and "r_tenantId r = org" and "r_sourceMandateRef r = man"
    and "r_scope r = tt_scope (tr_terms rq)" and "r_holderRef r = tt_transferorRef (tr_terms rq)"
  using commitment_fields [OF assms [unfolded ours_def]] by simp_all

lemma reserve_result:
  assumes wf: "store_wf sha st" and "distinct (tt_rights (tr_terms rq))"
    and keys: "keys_unused org man (tt_rights (tr_terms rq)) st"
    and ret: "reserveTransferAuthority sha anow cx org rq man dec eff ex (Some st) = (res, au1)"
  obtains st1 acquired where "res = Inr acquired" "au1 = Some st1" "store_wf sha st1"
      "committed_only (ours sha anow org rq man dec eff ex) st acquired st1"
      "acquired \<noteq> [] \<longrightarrow> requireAuthorityAccessToOrganization cx org = Inr () \<and> isStrictUtcTimestamp anow"
      "isEnrolled st org \<lparr>rr_kind = ta_kind (tr_asset rq), rr_id = ta_id (tr_asset rq)\<rparr> \<Longrightarrow>
         acquired = map (deriveReservationId sha org man) (tt_rights (tr_terms rq))"
  | st1 e where "res = Inl e" "au1 = Some st1" "\<And>k r. active_at st1 k r \<Longrightarrow> active_at st k r"
proof -
  have commits: "governedActionCommitsAuthority ENTERPRISE_TRANSFER_CAPABILITY" by code_simp
  obtain err acquired st2 where a: "acquireEach sha anow cx (reservationInput org rq man dec eff ex)
      (tt_rights (tr_terms rq)) [] st = ((err, acquired), st2)"
    by (metis prod.exhaust)
  from acquireEach_commits [OF refl refl wf assms(2) keys a] have wf2: "store_wf sha st2"
    and co: "committed_only (ours sha anow org rq man dec eff ex) st acquired st2"
    and ok: "acquired \<noteq> [] \<longrightarrow> requireAuthorityAccessToOrganization cx org = Inr () \<and> isStrictUtcTimestamp anow"
    and all: "err = None \<and> isEnrolled st org \<lparr>rr_kind = ta_kind (tr_asset rq), rr_id = ta_id (tr_asset rq)\<rparr> \<longrightarrow>
         acquired = map (deriveReservationId sha org man) (tt_rights (tr_terms rq))"
    unfolding ours_def by auto
  show ?thesis
  proof (cases err)
    case None
    with ret a commits wf2 co ok all that(1) show ?thesis by (auto simp: reserveTransferAuthority_def)
  next
    case (Some e)
    let ?out = "releaseTransferReservations sha anow cx org acquired (Some st2)"
    have r: "res = Inl (TransferAuthorityFailed e)" "au1 = snd ?out"
      using ret a commits Some by (auto simp: reserveTransferAuthority_def)
    obtain st3 where s: "snd ?out = Some st3" and act: "\<And>k x. active_at st3 k x \<Longrightarrow> active_at st k x"
      using released_commitments [OF wf2 co _ ok] ours_fields by metis
    with r that(2) show ?thesis by auto
  qed
qed

lemma issue_names:
  assumes "issueMandate_transfer now cx i ts = (Inr m, ts')"
  shows "mr_id m = imt_id i" and "map_get (ts_mandates ts') (imt_id i) = Some m" and "mr_terms m = imt_terms i"
  using issue_returns [OF assms] by (simp_all add: issuedMandate_transfer_def map_simps)

text \<open>
  However the commitment and the issuance end, what is active afterwards was active before, or is a
  commitment of a mandate the store holds.
\<close>

lemma commitAndIssue_no_strand:
  assumes wf: "store_wf sha st" and "distinct (tt_rights (tr_terms rq))"
    and keys: "keys_unused org (imt_id i) (tt_rights (tr_terms rq)) st"
    and ret: "commitAndIssue sha mnow anow cx org rq i (ts, Some st) = (res, ts', Some st')"
    and act: "active_at st' k r"
  shows "active_at st k r \<or> r_sourceMandateRef r = imt_id i \<and> map_get (ts_mandates ts') (imt_id i) \<noteq> None"
proof -
  obtain rres au1 where r: "reserveTransferAuthority sha anow cx org rq (imt_id i) (imt_decisionRef i)
      (imt_effectiveFrom i) (imt_expiresAt i) (Some st) = (rres, au1)" by fastforce
  obtain ires ts1 where iss: "issueMandate_transfer mnow cx i ts = (ires, ts1)" by fastforce
  show ?thesis
  proof (rule reserve_result [OF wf assms(2) keys r])
    fix st1 e assume "rres = Inl e" "au1 = Some st1" and act1: "\<And>k r. active_at st1 k r \<Longrightarrow> active_at st k r"
    with ret r have "st' = st1" by (simp add: commitAndIssue_def)
    with act act1 show ?thesis by blast
  next
    fix st1 acquired
    assume s: "rres = Inr acquired" "au1 = Some st1" "store_wf sha st1" 
      "committed_only (ours sha anow org rq (imt_id i) (imt_decisionRef i) (imt_effectiveFrom i) (imt_expiresAt i)) st acquired st1"
      "acquired \<noteq> [] \<longrightarrow> requireAuthorityAccessToOrganization cx org = Inr () \<and> isStrictUtcTimestamp anow"
    show ?thesis
    proof (cases ires)
      case (Inl e)
      with ret r iss s(1,2)
      have "Some st' = snd (releaseTransferReservations sha anow cx org acquired (Some st1))"
        by (simp add: commitAndIssue_def)
      with released_commitments [OF s(3,4) _ s(5)] ours_fields(1,2) act show ?thesis by (metis option.inject)
    next
      case (Inr m)
      with ret r iss s(1,2) have st': "st' = st1" "ts' = ts1" by (simp_all add: commitAndIssue_def)
      have "map_get (ts_mandates ts') (imt_id i) \<noteq> None" using issue_names(2) [OF iss [unfolded Inr]] st' by simp
      moreover have "active_at st k r \<or> r_sourceMandateRef r = imt_id i"
        using act s(4) st' ours_fields(3) unfolding committed_only_def active_at_def by (metis option.inject)
      ultimately show ?thesis by blast
    qed
  qed
qed

lemma valid_request_distinct:
  assumes "prepareTransfer now nextId cx org input = Inr (rq, ex)"
  shows "distinct (tt_rights (tr_terms rq))" and "tr_terms rq = sb_terms input"
  using assms
  by (auto simp: prepareTransfer_def outcome_simps buildCanonicalRequest_def Let_def
      validateEnterpriseTransferRequest_def collectEnterpriseTransferTermsIssues_def split: if_splits)

lemma transfer_input_id [simp]:
  "imt_id (transferMandateInput input rq kr org man ev eff ex) = man"
  "imt_terms (transferMandateInput input rq kr org man ev eff ex) = tr_terms rq"
  by (simp_all add: transferMandateInput_def Let_def)

text \<open>A request either leaves the world as it was, or is a commitment and issuance under a new identifier.\<close>

lemma by_request_stored:
  "getMandateByRequestRef_transfer cx ref ts = Inr (Some m) \<Longrightarrow> m \<in> set (map_values (ts_mandates ts))"
  by (auto simp: getMandateByRequestRef_transfer_def requireVisibleMandate_transfer_def requireMandate_transfer_def
      outcome_simps map_get_def map_values_def split: option.splits if_splits dest: map_of_SomeD)
    (force dest: map_of_SomeD)

lemma request_world:
  assumes "requestTransfer sha now mnow anow nextId evaluate appendE appendR cx org input w = (res, w')"
  obtains "w' = w" and
      "\<And>outcome m. res = Inr outcome \<Longrightarrow> to_mandate outcome = Some m \<Longrightarrow> m \<in> set (map_values (ts_mandates (fst w)))"
  | rq ex kr ev eff cres where "prepareTransfer now nextId cx org input = Inr (rq, ex)" "kr_status kr = KernelAllowed"
      "evaluate (toTransferKernelRequest rq input org) = Some kr"
      "appendE (toTransferKernelRequest rq input org) kr = Appended ev False"
      "commitAndIssue sha mnow anow cx org rq
         (transferMandateInput input rq kr org (nextId ''transfer-mandate'') ev eff ex) w = (cres, w')"
      "res = (case cres of Inl e \<Rightarrow> Inl e
              | Inr m \<Rightarrow> if appendR ev (mr_id m) then Inr (transferOutcomeBase kr ev (Some m))
                         else Inl TransferGovernanceStoreFailed)"
proof (cases "prepareTransfer now nextId cx org input")
  case (Inl e)
  with assms show ?thesis by (intro that(1)) (auto simp: requestTransfer_def)
next
  case (Inr p)
  obtain rq ex where p: "p = (rq, ex)" by fastforce
  let ?k = "toTransferKernelRequest rq input org"
  show ?thesis
  proof (cases "evaluate ?k")
    case None
    with assms Inr p show ?thesis by (intro that(1)) (auto simp: requestTransfer_def Let_def)
  next
    case (Some kr)
    show ?thesis
    proof (cases "\<exists>ev. appendE ?k kr = Appended ev False \<and> kr_status kr = KernelAllowed \<and>
        isStrictUtcTimestamp (kr_evaluatedAt kr)")
      case True
      then obtain ev where ev: "appendE ?k kr = Appended ev False" "kr_status kr = KernelAllowed"
        "isStrictUtcTimestamp (kr_evaluatedAt kr)" by blast
      obtain cres w1 where c: "commitAndIssue sha mnow anow cx org rq (transferMandateInput input rq kr org
          (nextId ''transfer-mandate'') ev (kr_evaluatedAt kr) ex) w = (cres, w1)" by (metis surj_pair)
      have "w' = w1" and "res = (case cres of Inl e \<Rightarrow> Inl e
              | Inr m \<Rightarrow> if appendR ev (mr_id m) then Inr (transferOutcomeBase kr ev (Some m))
                         else Inl TransferGovernanceStoreFailed)"
        using assms Inr p Some ev c
        by (auto simp: requestTransfer_def Let_def requireStrictUtcTransferTimestamp_def split: sum.splits if_splits)
      with that(2) [OF Inr [unfolded p] ev(2) Some ev(1)] c show ?thesis by blast
    next
      case False
      with assms Inr p Some have "w' = w"
        and "\<And>outcome m. res = Inr outcome \<Longrightarrow> to_mandate outcome = Some m \<Longrightarrow>
               getMandateByRequestRef_transfer cx (tr_id rq) (fst w) = Inr (Some m)"
        by (auto simp: requestTransfer_def Let_def attempt_def requireStrictUtcTransferTimestamp_def
            transferOutcomeBase_def elim!: from_transfer.elims
            split: append_answer.splits if_splits sum.splits)
      with by_request_stored that(1) show ?thesis by blast
    qed
  qed
qed

lemma request_no_strand:
  assumes wf: "store_wf sha st"
    and keys: "keys_unused org (nextId ''transfer-mandate'') (tt_rights (sb_terms input)) st"
    and ret: "requestTransfer sha now mnow anow nextId evaluate appendE appendR cx org input (ts, Some st) =
      (res, ts', Some st')"
    and act: "active_at st' k r"
  shows "active_at st k r \<or> (\<exists>m. map_get (ts_mandates ts') (r_sourceMandateRef r) = Some m)"
proof (rule request_world [OF ret])
  assume "(ts', Some st') = (ts, Some st)"
  with act show ?thesis by simp
next
  fix rq ex kr ev eff cres
  assume p: "prepareTransfer now nextId cx org input = Inr (rq, ex)"
    and c: "commitAndIssue sha mnow anow cx org rq
       (transferMandateInput input rq kr org (nextId ''transfer-mandate'') ev eff ex) (ts, Some st) = (cres, ts', Some st')"
  note v = valid_request_distinct [OF p]
  from commitAndIssue_no_strand [OF wf v(1) _ c act] keys v(2) show ?thesis by auto
qed

text \<open>What a mandate that has been issued over an enrolled resource stands on.\<close>

lemma request_backed:
  assumes wf: "store_wf sha st"
    and keys: "keys_unused org (nextId ''transfer-mandate'') (tt_rights (sb_terms input)) st"
    and enrolled: "isEnrolled st org \<lparr>rr_kind = ta_kind (sb_asset input), rr_id = ta_id (sb_asset input)\<rparr>"
    and ids: "inj_on (deriveReservationId sha org (nextId ''transfer-mandate'')) (set (tt_rights (sb_terms input)))"
    and ret: "requestTransfer sha now mnow anow nextId evaluate appendE appendR cx org input (ts, Some st) =
      (Inr outcome, ts', Some st')"
    and m: "to_mandate outcome = Some m" and new: "m \<notin> set (map_values (ts_mandates ts))"
    and right: "right \<in> set (tt_rights (mr_terms m))"
  shows "\<exists>k r. active_at st' k r \<and> r_sourceMandateRef r = mr_id m \<and> r_governedRight r = right \<and>
    r_holderRef r = tt_transferorRef (mr_terms m) \<and> r_scope r = tt_scope (mr_terms m)"
proof (rule request_world [OF ret])
  assume "\<And>out n. Inr outcome = Inr out \<Longrightarrow> to_mandate out = Some n \<Longrightarrow>
    n \<in> set (map_values (ts_mandates (fst (ts, Some st))))"
  with m new show ?thesis by auto
next
  fix rq ex kr ev eff cres
  let ?man = "nextId ''transfer-mandate''" and ?i = "transferMandateInput input rq kr org (nextId ''transfer-mandate'') ev eff ex"
  assume p: "prepareTransfer now nextId cx org input = Inr (rq, ex)"
    and c: "commitAndIssue sha mnow anow cx org rq ?i (ts, Some st) = (cres, ts', Some st')"
    and out: "Inr outcome = (case cres of Inl e \<Rightarrow> Inl e
              | Inr m \<Rightarrow> if appendR ev (mr_id m) then Inr (transferOutcomeBase kr ev (Some m))
                         else Inl TransferGovernanceStoreFailed)"
  note v = valid_request_distinct [OF p]
  have asset: "tr_asset rq = sb_asset input"
    using p by (auto simp: prepareTransfer_def outcome_simps buildCanonicalRequest_def Let_def split: if_splits)
  from out m have cres: "cres = Inr m"
    by (auto simp: transferOutcomeBase_def split: sum.splits if_splits)
  obtain rres au1 where r: "reserveTransferAuthority sha anow cx org rq ?man (imt_decisionRef ?i)
      (imt_effectiveFrom ?i) (imt_expiresAt ?i) (Some st) = (rres, au1)" by fastforce
  have keys': "keys_unused org ?man (tt_rights (tr_terms rq)) st" using keys v(2) by simp
  show ?thesis
  proof (rule reserve_result [OF wf v(1) keys' r])
    fix st1 e assume "rres = Inl e"
    with c r cres show ?thesis by (simp add: commitAndIssue_def)
  next
    fix st1 acquired
    let ?ours = "ours sha anow org rq ?man (imt_decisionRef ?i) (imt_effectiveFrom ?i) (imt_expiresAt ?i)"
    assume s: "rres = Inr acquired" "au1 = Some st1" "committed_only ?ours st acquired st1"
      "isEnrolled st org \<lparr>rr_kind = ta_kind (tr_asset rq), rr_id = ta_id (tr_asset rq)\<rparr> \<Longrightarrow>
         acquired = map (deriveReservationId sha org ?man) (tt_rights (tr_terms rq))"
    have iss: "issueMandate_transfer mnow cx ?i ts = (Inr m, ts')" and st': "st' = st1"
      using c r cres s(1,2) by (auto simp: commitAndIssue_def split: prod.splits sum.splits)
    note names = issue_names [OF iss]
    have "right \<in> set (tt_rights (tr_terms rq))" using right names(3) by simp
    then have "deriveReservationId sha org ?man right \<in> set acquired"
      using s(4) enrolled asset by auto
    then obtain x where x: "map_get (reservations st1) (deriveReservationId sha org ?man right) = Some x"
      "r_id x = deriveReservationId sha org ?man right" "?ours x"
      using s(3) unfolding committed_only_def by metis
    from x(3) obtain right' where "right' \<in> set (tt_rights (tr_terms rq))"
      and x': "x = seal_reservation sha (acquiredReservation sha (reservationInput org rq ?man (imt_decisionRef ?i)
          (imt_effectiveFrom ?i) (imt_expiresAt ?i) right') anow)"
      by (auto simp: ours_def commitment_of_def list_ex_iff)
    moreover have "right' = right"
      using x(2) ids v(2) \<open>right \<in> set (tt_rights (tr_terms rq))\<close> \<open>right' \<in> _\<close> by (auto simp: x' dest: inj_onD)
    ultimately have "r_governedRight x = right" by simp
    then show ?thesis
      using x(1) names st' ours_fields [OF x(3)] unfolding active_at_def by auto
  qed
qed

section \<open>Executions\<close>

lemma transition_fields [simp]:
  "a_tenantId (transitionInput m x) = mr_organizationId m" "a_scope (transitionInput m x) = xr_transferredScope x"
  "a_governedRights (transitionInput m x) = xr_rights x" "a_fromHolderRef (transitionInput m x) = xr_transferorRef x"
  "a_toHolderRef (transitionInput m x) = xr_transfereeRef x"
  "a_resource (transitionInput m x) = \<lparr>rr_kind = mr_assetKind m, rr_id = mr_assetId m\<rparr>"
  "gx_executionRef (a_basis (transitionInput m x)) = xr_id x"
  "a_consumesReservationsForMandateRef (transitionInput m x) = Some (mr_id m)"
  by (simp_all add: transitionInput_def)

text \<open>The three ends of a recorded execution that has reached the mandate store.\<close>

lemma record_world:
  assumes "recordTransferExecution sha mnow anow nextId appendR cx input (ts, au) = (res, ts', au')"
  obtains e where "res = Inl (TransferFailed e)" "ts' = ts" "au' = au"
  | m x i where "recordExecution_transfer mnow cx i ts = (Inr (m, x), ts')" "ixt_transferredScope i = rx_transferredScope input"
      "ixt_rights i = rx_rights input" "res = Inl TransferGovernanceStoreFailed" "au' = au"
  | m x i ares where "recordExecution_transfer mnow cx i ts = (Inr (m, x), ts')"
      "ixt_transferredScope i = rx_transferredScope input" "ixt_rights i = rx_rights input"
      "ixt_transferorRef i = rx_transferorRef input" "ixt_transfereeRef i = rx_transfereeRef input"
      "applyAuthorityTransition sha anow cx m x au = (ares, au')"
      "res = (case ares of Inl e \<Rightarrow> Inl e | Inr _ \<Rightarrow> Inr (m, x))"
proof (cases "getMandate_transfer cx (rx_mandateId input) ts")
  case (Inl e)
  with assms show ?thesis by (intro that(1)) (auto simp: recordTransferExecution_def)
next
  case (Inr mandate)
  let ?i = "executionInput nextId input mandate"
  obtain rres ts1 where r: "recordExecution_transfer mnow cx ?i ts = (rres, ts1)" by fastforce
  show ?thesis
  proof (cases rres)
    case (Inl e)
    with assms Inr r execution_refused [OF r [unfolded Inl]] show ?thesis
      by (intro that(1)) (auto simp: recordTransferExecution_def)
  next
    case i: (Inr p)
    obtain m x where p: "p = (m, x)" by fastforce
    obtain ares au1 where a: "applyAuthorityTransition sha anow cx m x au = (ares, au1)" by fastforce
    have f: "ixt_transferredScope ?i = rx_transferredScope input" "ixt_rights ?i = rx_rights input"
      "ixt_transferorRef ?i = rx_transferorRef input" "ixt_transfereeRef ?i = rx_transfereeRef input"
      by (simp_all add: executionInput_def)
    show ?thesis
    proof (cases "referenceFails appendR (mr_evaluationRef mandate) (xr_id x)")
      case True
      with assms Inr r i p that(2) f show ?thesis by (auto simp: recordTransferExecution_def)
    next
      case False
      with assms Inr r i p a have "ts' = ts1" "au' = au1" "res = (case ares of Inl e \<Rightarrow> Inl e | Inr _ \<Rightarrow> Inr (m, x))"
        by (auto simp: recordTransferExecution_def split: sum.splits)
      with that(3) r i p a f show ?thesis by blast
    qed
  qed
qed

lemma execution_fields:
  assumes "recordExecution_transfer now cx i ts = (Inr (m, x), ts')"
  shows "xr_transferredScope x = ixt_transferredScope i" and "xr_rights x = ixt_rights i"
    and "xr_transferorRef x = ixt_transferorRef i" and "xr_transfereeRef x = ixt_transfereeRef i"
    and "map_get (ts_mandates ts') (mr_id m) = Some m"
    and "\<exists>log. executionsOf_transfer ts' (mr_id m) = log @ [x]"
proof -
  obtain m0 s0 log where x: "x = recordedExecution_transfer i m0 (ixt_executedAt i) now" and m: "m = moved_mandate m0 s0"
    and ts': "ts' = ts\<lparr>ts_executionIds := ixt_id i # ts_executionIds ts,
              ts_executions := map_set (ts_executions ts) (mr_id m0) (log @ [x]),
              ts_mandates := map_set (ts_mandates ts) (mr_id m0) m\<rparr>"
    using execution_returns [OF assms] by blast
  show "xr_transferredScope x = ixt_transferredScope i" "xr_rights x = ixt_rights i"
    "xr_transferorRef x = ixt_transferorRef i" "xr_transfereeRef x = ixt_transfereeRef i"
    by (simp_all add: x recordedExecution_transfer_def)
  have id: "mr_id m = mr_id m0" by (simp add: m moved_mandate_def)
  show "map_get (ts_mandates ts') (mr_id m) = Some m" by (simp add: ts' id map_simps)
  show "\<exists>log. executionsOf_transfer ts' (mr_id m) = log @ [x]"
    by (simp add: ts' id map_simps executionsOf_transfer_def)
qed

definition asset_of :: "TransferMandateRecord \<Rightarrow> GovernedAuthorityResourceRef" where
  "asset_of m = \<lparr>rr_kind = mr_assetKind m, rr_id = mr_assetId m\<rparr>"

text \<open>A returned call has moved exactly what it reports, and ended every commitment of the mandate.\<close>

lemma record_moves:
  assumes wf: "store_wf sha st" and room: "room_for (rx_transferredScope input) st"
    and ret: "recordTransferExecution sha mnow anow nextId appendR cx input (ts, Some st) =
      (Inr (m, x), ts', Some st')"
    and first: "alreadyApplied st (mr_organizationId m) (xr_id x) = []"
    and right: "right \<in> set (rx_rights input)"
  shows "held_at st' (positionKey (mr_organizationId m) (rx_transferorRef input) (asset_of m) right) =
      held_at st (positionKey (mr_organizationId m) (rx_transferorRef input) (asset_of m) right)
        - amount (rx_transferredScope input)"
    and "held_at st' (positionKey (mr_organizationId m) (rx_transfereeRef input) (asset_of m) right) =
      held_at st (positionKey (mr_organizationId m) (rx_transfereeRef input) (asset_of m) right)
        + amount (rx_transferredScope input)"
    and "active_at st' k r \<Longrightarrow> r_tenantId r = mr_organizationId m \<Longrightarrow> r_sourceMandateRef r \<noteq> mr_id m"
proof -
  obtain i where rec: "recordExecution_transfer mnow cx i ts = (Inr (m, x), ts')"
    and i: "ixt_transferredScope i = rx_transferredScope input" "ixt_rights i = rx_rights input"
      "ixt_transferorRef i = rx_transferorRef input" "ixt_transfereeRef i = rx_transfereeRef input"
    and ap: "\<exists>u. applyAuthorityTransition sha anow cx m x (Some st) = (Inr u, Some st')"
    by (rule record_world [OF ret]) (auto split: sum.splits)
  note f = execution_fields [OF rec, unfolded i]
  obtain out where ap': "applyTransition sha anow cx (transitionInput m x) st = (Inr out, st')"
    using ap by (auto simp: applyAuthorityTransition_def split: prod.splits sum.splits)
  have moved: "\<not> ao_replayed out" using apply_returns [OF ap'] first by (auto simp: Let_def)
  have keys: "sourceKey (transitionInput m x) right = positionKey (mr_organizationId m) (rx_transferorRef input) (asset_of m) right"
    "targetKey (transitionInput m x) right = positionKey (mr_organizationId m) (rx_transfereeRef input) (asset_of m) right"
    by (simp_all add: sourceKey_def targetKey_def f asset_of_def)
  have room': "room_for (a_scope (transitionInput m x)) st" using room by (simp add: f)
  have right': "right \<in> set (a_governedRights (transitionInput m x))" using right by (simp add: f)
  note e = apply_effect [OF wf room' ap' moved right', unfolded keys, simplified f transition_fields]
  show "held_at st' (positionKey (mr_organizationId m) (rx_transferorRef input) (asset_of m) right) =
      held_at st (positionKey (mr_organizationId m) (rx_transferorRef input) (asset_of m) right)
        - amount (rx_transferredScope input)" by (rule e(2))
  show "held_at st' (positionKey (mr_organizationId m) (rx_transfereeRef input) (asset_of m) right) =
      held_at st (positionKey (mr_organizationId m) (rx_transfereeRef input) (asset_of m) right)
        + amount (rx_transferredScope input)" by (rule e(3))
  show "r_sourceMandateRef r \<noteq> mr_id m" if "active_at st' k r" "r_tenantId r = mr_organizationId m"
  proof
    assume "r_sourceMandateRef r = mr_id m"
    with that have s: "spent_by (mr_organizationId m) (mr_id m) r" "map_get (reservations st') k = Some r"
      by (simp_all add: spent_by_def active_at_def)
    with apply_consumes [OF wf ap' moved, of k] show False
      by (auto simp: spent_by_def split: option.splits if_splits)
  qed
qed

text \<open>A refused movement of authority leaves the evidence on record and the authority as it was.\<close>

lemma record_evidence_first:
  assumes wf: "store_wf sha st"
    and ret: "recordTransferExecution sha mnow anow nextId appendR cx input (ts, Some st) =
      (Inl (TransferAuthorityFailed e), ts', au')"
  shows "au' = Some st" and "\<exists>m x i log. recordExecution_transfer mnow cx i ts = (Inr (m, x), ts') \<and>
      executionsOf_transfer ts' (mr_id m) = log @ [x]"
proof -
  obtain m x i ares where rec: "recordExecution_transfer mnow cx i ts = (Inr (m, x), ts')"
    and ap: "applyAuthorityTransition sha anow cx m x (Some st) = (ares, au')"
    and res: "ares = Inl (TransferAuthorityFailed e)"
    by (rule record_world [OF ret]) (auto split: sum.splits)
  show "au' = Some st"
    using ap res apply_atomic [OF wf]
    by (auto simp: applyAuthorityTransition_def split: prod.splits sum.splits)
  show "\<exists>m x i log. recordExecution_transfer mnow cx i ts = (Inr (m, x), ts') \<and>
      executionsOf_transfer ts' (mr_id m) = log @ [x]"
    using rec execution_fields(6) [OF rec] by blast
qed

section \<open>Withdrawal\<close>

lemma releaseEach_positions:
  "store_wf sha st \<Longrightarrow> releaseEach sha anow cx org is st = (Inr u, st1) \<Longrightarrow>
     positions st1 = positions st \<and> transitions st1 = transitions st"
proof (induction "is" arbitrary: st)
  case (Cons i js)
  obtain r st2 where e: "releaseReservation sha anow cx \<lparr>rl_tenantId = org, rl_reservationId = i,
     rl_reason = AuthorizationEnded, rl_releasedAt = None\<rparr> st = (Inr r, st2)"
    and rest: "releaseEach sha anow cx org js st2 = (Inr u, st1)"
    using Cons.prems(2) by (auto split: prod.splits sum.splits)
  have "store_wf sha st2" using releaseReservation_wf [OF Cons.prems(1)] e by (metis snd_conv)
  from Cons.IH [OF this rest] release_effect(3,4) [OF Cons.prems(1) e] show ?case by simp
qed simp

text \<open>Releasing what is active of a mandate leaves nothing active of it.\<close>

lemma active_ended:
  assumes wf: "store_wf sha st" and l: "listReservationsByMandateRef sha cx org man st = Inr held"
    and e: "releaseEach sha anow cx' org (map r_id (filter (\<lambda>r. r_status r = RsActive) held)) st = (Inr u, st')"
    and a: "active_at st' k r" "r_tenantId r = org"
  shows "r_sourceMandateRef r \<noteq> man"
proof
  have held: "set held = {r \<in> set (map_values (reservations st)). r_tenantId r = org \<and> r_sourceMandateRef r = man}"
    using l by (auto simp: listReservationsByMandateRef_def outcome_simps dest!: reservation_seal.mapR_verify_Inr)
  assume "r_sourceMandateRef r = man"
  moreover have act: "active_at st k r" "k \<notin> set (map r_id (filter (\<lambda>r. r_status r = RsActive) held))"
    using a(1) releaseEach_effect [OF wf e] by blast+
  moreover have "r \<in> set (map_values (reservations st))" "r_id r = k"
    using act(1) wf wf_reservation_ok [OF wf] map_all_member
    by (fastforce simp: active_at_def store_wf_def reservation_ok_def)+
  ultimately show False using a(2) held by (auto simp: active_at_def)
qed

lemma revoke_world:
  assumes wf: "store_wf sha st"
    and ret: "revokeTransferMandate sha now anow nextId cx input (ts, Some st) = (Inr outcome, ts', Some st')"
    and m: "map_get (ts_mandates ts) (rv_mandateId input) = Some m"
  shows "active_at st' k r \<Longrightarrow> r_tenantId r = mr_organizationId m \<Longrightarrow> r_sourceMandateRef r \<noteq> mr_id m"
    and "positions st' = positions st" and "transitions st' = transitions st"
proof -
  have gm: "getMandate_transfer cx (rv_mandateId input) ts = Inr m"
    using ret m
    by (cases "getMandate_transfer cx (rv_mandateId input) ts")
      (auto simp: revokeTransferMandate_def getMandate_transfer_def requireVisibleMandate_transfer_def
        requireMandate_transfer_def outcome_simps split: if_splits)
  let ?org = "mr_organizationId m" and ?man = "mr_id m"
  obtain u where "releaseActiveReservationsForMandate sha anow cx ?org ?man (Some st) = (Inr u, Some st')"
    using ret gm by (auto simp: revokeTransferMandate_def split: prod.splits sum.splits)
  then obtain held where l: "listReservationsByMandateRef sha cx ?org ?man st = Inr held"
    and e: "releaseEach sha anow cx ?org (map r_id (filter (\<lambda>r. r_status r = RsActive) held)) st = (Inr (), st')"
    by (cases "listReservationsByMandateRef sha cx ?org ?man st")
      (auto simp: releaseActiveReservationsForMandate_def elim!: authority_failure.elims split: prod.splits)
  show "positions st' = positions st" "transitions st' = transitions st"
    using releaseEach_positions [OF wf e] by simp_all
  show "active_at st' k r \<Longrightarrow> r_tenantId r = ?org \<Longrightarrow> r_sourceMandateRef r \<noteq> ?man"
    by (rule active_ended [OF wf l e])
qed

section \<open>Reconciliation\<close>

lemma apply_keeps_transitions:
  assumes wf: "store_wf sha st" and ret: "applyTransition sha now cx input st = (Inr out, st')"
    and ex: "alreadyApplied st ten e \<noteq> []"
  shows "alreadyApplied st' ten e \<noteq> []"
proof (cases "ao_replayed out")
  case True
  with apply_returns [OF ret] have "st' = st" by (auto simp: Let_def split: if_splits)
  with ex show ?thesis by simp
next
  case False
  obtain staged st1 where a: "applyStaged sha input (a_occurredAt input) now staged st = (ao_transitions out, st1)"
    and p: "transitions st' = transitions st1" using apply_moved [OF wf ret False] by metis
  from applyStaged_transitions [OF a] ex p show ?thesis by (simp add: alreadyApplied_def)
qed

lemma apply_leaves_transitions:
  assumes wf: "store_wf sha st" and ret: "applyTransition sha now cx input st = (Inr out, st')"
    and first: "alreadyApplied st (a_tenantId input) (gx_executionRef (a_basis input)) = []"
  shows "alreadyApplied st' (a_tenantId input) (gx_executionRef (a_basis input)) \<noteq> []"
proof -
  have "\<not> ao_replayed out" using apply_returns [OF ret] first by (auto simp: Let_def)
  from apply_recorded(1,3) [OF wf ret this] show ?thesis by simp
qed

lemma transitions_listed:
  assumes "store_wf sha st" and "requireAuthorityAccessToOrganization cx org = Inr ()"
  shows "listTransitionsByExecutionRef sha cx org e st = Inr (alreadyApplied st org e)"
proof -
  have "mapR (assertTransitionIntegrity sha) (alreadyApplied st org e) = Inr (alreadyApplied st org e)"
    using wf_transition_intact [OF assms(1)]
    by (intro transition_seal.mapR_verify) (auto simp: alreadyApplied_def)
  with assms(2) show ?thesis by (simp add: listTransitionsByExecutionRef_def)
qed

lemma reconcile_nothing:
  assumes "store_wf sha st" and "xs \<noteq> [] \<longrightarrow> requireAuthorityAccessToOrganization cx (mr_organizationId m) = Inr ()"
  shows "\<forall>x \<in> set xs. alreadyApplied st (mr_organizationId m) (xr_id x) \<noteq> [] \<Longrightarrow>
    reconcileEach sha anow cx m xs rep st = (Inr rep, st)"
  using assms(2) by (induction xs) (simp_all add: transitions_listed [OF assms(1)])

lemma reconcile_complete:
  "store_wf sha st \<Longrightarrow> reconcileEach sha anow cx m xs rep st = (Inr rep', st1) \<Longrightarrow>
     store_wf sha st1 \<and> (xs \<noteq> [] \<longrightarrow> requireAuthorityAccessToOrganization cx (mr_organizationId m) = Inr ()) \<and>
     (\<forall>x \<in> set xs. alreadyApplied st1 (mr_organizationId m) (xr_id x) \<noteq> []) \<and>
     (\<forall>e. alreadyApplied st (mr_organizationId m) e \<noteq> [] \<longrightarrow> alreadyApplied st1 (mr_organizationId m) e \<noteq> [])"
proof (induction xs arbitrary: rep st)
  case (Cons x xs)
  have acc: "requireAuthorityAccessToOrganization cx (mr_organizationId m) = Inr ()"
    using Cons.prems(2)
    by (cases "requireAuthorityAccessToOrganization cx (mr_organizationId m)")
      (auto simp: listTransitionsByExecutionRef_def)
  note l = transitions_listed [OF Cons.prems(1) acc]
  show ?case
  proof (cases "alreadyApplied st (mr_organizationId m) (xr_id x) = []")
    case False
    then have "reconcileEach sha anow cx m xs rep st = (Inr rep', st1)" using Cons.prems(2) by (simp add: l)
    from Cons.IH [OF Cons.prems(1) this] False acc show ?thesis by auto
  next
    case True
    obtain out st2 where a: "applyTransition sha anow cx (transitionInput m x) st = (Inr out, st2)"
      and rest: "reconcileEach sha anow cx m xs (rep @ [xr_id x]) st2 = (Inr rep', st1)"
      using Cons.prems(2) True by (auto simp: l split: prod.splits sum.splits)
    have wf2: "store_wf sha st2" using apply_wf [OF Cons.prems(1)] a by (metis snd_conv)
    have "alreadyApplied st2 (mr_organizationId m) (xr_id x) \<noteq> []"
      using apply_leaves_transitions [OF Cons.prems(1) a] True by simp
    with Cons.IH [OF wf2 rest] acc apply_keeps_transitions [OF Cons.prems(1) a] show ?thesis by auto
  qed
qed simp

lemma reconcile_world:
  assumes wf: "store_wf sha st"
    and ret: "reconcileAuthorityTransitions sha anow cx mandateId (ts, Some st) = (Inr repaired, w)"
    and m: "map_get (ts_mandates ts) mandateId = Some m"
  shows "\<exists>st'. w = (ts, Some st') \<and>
      (\<forall>x \<in> set (executionsOf_transfer ts mandateId). alreadyApplied st' (mr_organizationId m) (xr_id x) \<noteq> []) \<and>
      reconcileAuthorityTransitions sha later cx mandateId w = (Inr [], w)"
proof -
  have gm: "getMandate_transfer cx mandateId ts = Inr m"
    and lx: "listExecutions_transfer cx mandateId ts = Inr (executionsOf_transfer ts mandateId)"
    using ret m
    by (auto simp: reconcileAuthorityTransitions_def getMandate_transfer_def requireVisibleMandate_transfer_def
        requireMandate_transfer_def listExecutions_transfer_def outcome_simps attempt_def
        elim!: from_transfer.elims split: if_splits sum.splits prod.splits)
  obtain st' where e: "reconcileEach sha anow cx m (executionsOf_transfer ts mandateId) [] st = (Inr repaired, st')"
    and w: "w = (ts, Some st')"
    using ret gm lx by (auto simp: reconcileAuthorityTransitions_def split: prod.splits)
  from reconcile_complete [OF wf e]
  have c: "store_wf sha st'" "executionsOf_transfer ts mandateId \<noteq> [] \<longrightarrow>
        requireAuthorityAccessToOrganization cx (mr_organizationId m) = Inr ()"
      "\<forall>x \<in> set (executionsOf_transfer ts mandateId). alreadyApplied st' (mr_organizationId m) (xr_id x) \<noteq> []" by auto
  from reconcile_nothing [OF c] have "reconcileAuthorityTransitions sha later cx mandateId w = (Inr [], w)"
    by (simp add: reconcileAuthorityTransitions_def w gm lx)
  with c(3) w show ?thesis by blast
qed

end
