(* ===== verification/CollateralProtocol.thy ===== *)
theory CollateralProtocol
  imports CollateralService CollateralInvariants TransferProtocol StoreProtocol
begin

text \<open>
  The collateralization service over both stores: what a recorded execution leaves on the holder's
  authority, what a withdrawal frees, and what becomes of an execution whose constraint was refused.
\<close>

section \<open>One constraint\<close>

lemma handOff_transitions: "transitions (snd (handOff sha es rec ids st)) = transitions st"
  by (induction ids arbitrary: st)
    (auto simp: attempt_def putReservation_eq put_reservation_in_def split: option.splits sum_total.splits sum.splits)

text \<open>A recorded constraint writes itself, touches no position and enters no transition.\<close>

lemma encumber_writes:
  assumes wf: "store_wf sha st"
    and ret: "recordEncumbrance sha now cx input st = (Inr (Encumbered e False), st')"
  shows "positions st' = positions st" and "transitions st' = transitions st"
    and "encumbrances st' = map_set (encumbrances st) (e_id e) e"
    and "\<exists>sur. e = seal_encumbrance sha (recordedEncumbrance sha input now sur)"
proof -
  from encumber_new [OF wf refl ret] have
    new: "\<exists>sur. e = seal_encumbrance sha (recordedEncumbrance sha input now sur)"
    and wf1: "store_wf sha (put_encumbrance_in st e)"
    and st': "st' = put_encumbrance_in st e \<or> (\<exists>es ids. st' = snd (handOff sha es now ids (put_encumbrance_in st e)))"
    by metis+
  have h: "positions (snd (handOff sha es now ids (put_encumbrance_in st e))) = positions st \<and>
      encumbrances (snd (handOff sha es now ids (put_encumbrance_in st e))) = map_set (encumbrances st) (e_id e) e" for es ids
    using handOff_relaxes [OF wf1, of now es now ids] by (simp add: relaxes_def put_encumbrance_in_def)
  show "positions st' = positions st" "transitions st' = transitions st"
    "encumbrances st' = map_set (encumbrances st) (e_id e) e"
    using st' h by (auto simp: put_encumbrance_in_def handOff_transitions)
  show "\<exists>sur. e = seal_encumbrance sha (recordedEncumbrance sha input now sur)" by (rule new)
qed

section \<open>The constraints of an execution\<close>

text \<open>The constraint a recorded execution is to leave for one of its rights.\<close>

definition pledge_for ::
  "(string \<Rightarrow> string) \<Rightarrow> CollateralizationMandateRecord \<Rightarrow> CollateralizationExecutionRecord \<Rightarrow>
     GovernedAuthorityReservation list \<Rightarrow> GovernedRightType \<Rightarrow> GovernedAuthorityEncumbrance \<Rightarrow> bool" where
  "pledge_for sha m x commitments right e \<longleftrightarrow>
     e_id e = deriveEncumbranceId sha (km_organizationId m) (kx_id x) right \<and>
     e_tenantId e = km_organizationId m \<and> e_idempotencyKey e = deriveEncumbranceIdempotencyKey (kx_id x) right \<and>
     e_status e = EsActive \<and> e_governedRight e = right \<and>
     e_resourceKind e = km_assetKind m \<and> e_resourceId e = km_assetId m \<and>
     e_scope e = kx_committedScope x \<and> e_sourceMandateRef e = km_id m \<and> e_sourceExecutionRef e = kx_id x \<and>
     e_holderRef e \<in> r_holderRef ` {r \<in> set commitments. r_governedRight r = right}"

definition pledged_for ::
  "(string \<Rightarrow> string) \<Rightarrow> CollateralizationMandateRecord \<Rightarrow> CollateralizationExecutionRecord \<Rightarrow>
     GovernedAuthorityReservation list \<Rightarrow> GovernedRightType \<Rightarrow> auth_store \<Rightarrow> bool" where
  "pledged_for sha m x commitments right st \<longleftrightarrow>
     (\<exists>e. map_get (encumbrances st) (e_id e) = Some e \<and> pledge_for sha m x commitments right e)"

text \<open>The authority store knows nothing of this right of the execution.\<close>

definition unreported :: "CollateralizationMandateRecord \<Rightarrow> CollateralizationExecutionRecord \<Rightarrow> GovernedRightType \<Rightarrow> auth_store \<Rightarrow> bool" where
  "unreported m x right st \<longleftrightarrow>
     findEncumbranceByKey st (km_organizationId m) (deriveEncumbranceIdempotencyKey (kx_id x) right) = None"

lemma encumbrance_fields [simp]:
  "n_tenantId (encumbranceInput m x right c) = km_organizationId m"
  "n_resource (encumbranceInput m x right c) = \<lparr>rr_kind = km_assetKind m, rr_id = km_assetId m\<rparr>"
  "encumbranceKeyOf (encumbranceInput m x right c) = deriveEncumbranceIdempotencyKey (kx_id x) right"
  by (simp_all add: encumbranceInput_def encumbranceKeyOf_def)

lemma serialize_scope [simp]: "serializeGovernedRightsScope s = s"
  by (cases s) simp_all

text \<open>What the call for one right returns: the constraint on record, old or new, over an enrolled asset.\<close>

lemma encumber_outcome:
  assumes wf: "store_wf sha st" and enrolled: "isEnrolled st (n_tenantId i) (n_resource i)"
    and ret: "recordEncumbrance sha now cx i st = (Inr out, st')"
  obtains e where "out = Encumbered e True" "st' = st" "findEncumbranceByKey st (n_tenantId i) (encumbranceKeyOf i) \<noteq> None"
  | e where "out = Encumbered e False" "findEncumbranceByKey st (n_tenantId i) (encumbranceKeyOf i) = None"
proof (cases "findEncumbranceByKey st (n_tenantId i) (encumbranceKeyOf i)")
  case None
  have "\<not> (\<exists>e. out = Encumbered e True)" "out \<noteq> EncumbranceNotEnrolled"
    using ret None enrolled
    by (auto simp: recordEncumbrance_def encumberPosition_def attempt_def Let_def split: sum.splits option.splits prod.splits if_splits)
  with None that(2) show ?thesis by (cases out) (metis (full_types))+
next
  case (Some e)
  with ret have "out = Encumbered e True \<and> st' = st"
    by (auto simp: recordEncumbrance_def outcome_simps encumbrance_seal.verify_Inr split: if_splits)
  with Some that(1) show ?thesis by blast
qed

lemma encumber_turn:
  assumes wf: "store_wf sha st"
    and inj: "inj_on (deriveEncumbranceId sha (km_organizationId m) (kx_id x)) R" and "right' \<in> R" and "right \<in> R"
    and enrolled: "isEnrolled st (km_organizationId m) \<lparr>rr_kind = km_assetKind m, rr_id = km_assetId m\<rparr>"
    and c: "List.find (\<lambda>r. r_governedRight r = right') commitments = Some c"
    and ret: "recordEncumbrance sha now cx (encumbranceInput m x right' c) st = (Inr out, st1)"
  shows "store_wf sha st1" and "positions st1 = positions st" and "transitions st1 = transitions st"
    and "pledged_for sha m x commitments right st \<Longrightarrow> pledged_for sha m x commitments right st1"
    and "unreported m x right' st \<Longrightarrow> pledged_for sha m x commitments right' st1"
    and "right' \<noteq> right \<Longrightarrow> unreported m x right st \<Longrightarrow> unreported m x right st1"
proof -
  let ?i = "encumbranceInput m x right' c"
  show "store_wf sha st1" using encumber_wf [OF wf] ret by (metis snd_conv)
  have en: "isEnrolled st (n_tenantId ?i) (n_resource ?i)" using enrolled by simp
  have c': "c \<in> set commitments" "r_governedRight c = right'" using c by (auto simp: find_Some_iff)
  consider (old) e where "out = Encumbered e True" "st1 = st" "\<not> unreported m x right' st"
    | (new) e where "out = Encumbered e False" "unreported m x right' st"
    by (rule encumber_outcome [OF wf en ret]) (simp_all add: unreported_def)
  then have "positions st1 = positions st \<and> transitions st1 = transitions st \<and>
    (pledged_for sha m x commitments right st \<longrightarrow> pledged_for sha m x commitments right st1) \<and>
    (unreported m x right' st \<longrightarrow> pledged_for sha m x commitments right' st1) \<and>
    (right' \<noteq> right \<longrightarrow> unreported m x right st \<longrightarrow> unreported m x right st1)"
  proof cases
    case old
    then show ?thesis by blast
  next
    case new
    note w = encumber_writes [OF wf ret [unfolded new(1)]]
    have e: "pledge_for sha m x commitments right' e"
      using w(4) c' by (auto simp: pledge_for_def recordedEncumbrance_def seal_encumbrance_def encumbranceInput_def encumbranceKeyOf_def)
    have here: "pledged_for sha m x commitments right' st1"
      using e by (auto simp: pledged_for_def w(3) map_simps)
    have "pledged_for sha m x commitments right st1" if p: "pledged_for sha m x commitments right st"
    proof (cases "right' = right")
      case True
      with here show ?thesis by simp
    next
      case False
      with inj assms(3,4) have "deriveEncumbranceId sha (km_organizationId m) (kx_id x) right'
          \<noteq> deriveEncumbranceId sha (km_organizationId m) (kx_id x) right" by (auto dest: inj_onD)
      moreover obtain e0 where e0: "map_get (encumbrances st) (e_id e0) = Some e0" "pledge_for sha m x commitments right e0"
        using p by (auto simp: pledged_for_def)
      ultimately have "e_id e0 \<noteq> e_id e" using e by (auto simp: pledge_for_def)
      with e0 show ?thesis unfolding pledged_for_def by (intro exI [of _ e0]) (simp add: w(3) map_simps)
    qed
    moreover have "unreported m x right st1" if "right' \<noteq> right" "unreported m x right st"
    proof -
      have "e_idempotencyKey e \<noteq> deriveEncumbranceIdempotencyKey (kx_id x) right"
        using e that(1) by (simp add: pledge_for_def deriveEncumbranceIdempotencyKey_def)
      with that(2) map_values_set_subset [of "encumbrances st" "e_id e" e] show ?thesis
        by (auto simp: unreported_def findEncumbranceByKey_def find_None_iff w(3))
    qed
    ultimately show ?thesis using here w(1,2) by blast
  qed
  then show "positions st1 = positions st" "transitions st1 = transitions st"
    "pledged_for sha m x commitments right st \<Longrightarrow> pledged_for sha m x commitments right st1"
    "unreported m x right' st \<Longrightarrow> pledged_for sha m x commitments right' st1"
    "right' \<noteq> right \<Longrightarrow> unreported m x right st \<Longrightarrow> unreported m x right st1" by blast+
qed

lemma encumberEach_pledges:
  assumes inj: "inj_on (deriveEncumbranceId sha (km_organizationId m) (kx_id x)) R" and r: "right \<in> R"
  shows "store_wf sha st \<Longrightarrow> set rights \<subseteq> R \<Longrightarrow>
    isEnrolled st (km_organizationId m) \<lparr>rr_kind = km_assetKind m, rr_id = km_assetId m\<rparr> \<Longrightarrow>
    encumberEach sha now cx m x commitments rights st = (Inr u, st1) \<Longrightarrow>
    positions st1 = positions st \<and> transitions st1 = transitions st \<and>
    (pledged_for sha m x commitments right st \<longrightarrow> pledged_for sha m x commitments right st1) \<and>
    (right \<in> set rights \<and> unreported m x right st \<and> (\<exists>c \<in> set commitments. r_governedRight c = right) \<longrightarrow>
       pledged_for sha m x commitments right st1)"
proof (induction rights arbitrary: st)
  case (Cons right' rights)
  show ?case
  proof (cases "List.find (\<lambda>r. r_governedRight r = right') commitments")
    case None
    with Cons show ?thesis by (auto simp: find_None_iff)
  next
    case (Some c)
    obtain out st2 where ret: "recordEncumbrance sha now cx (encumbranceInput m x right' c) st = (Inr out, st2)"
      and rest: "encumberEach sha now cx m x commitments rights st2 = (Inr u, st1)"
      using Cons.prems(4) Some by (auto split: prod.splits sum.splits)
    have "right' \<in> R" using Cons.prems(2) by simp
    note turn = encumber_turn [OF Cons.prems(1) inj this r Cons.prems(3) Some ret]
    have "isEnrolled st2 (km_organizationId m) \<lparr>rr_kind = km_assetKind m, rr_id = km_assetId m\<rparr>"
      using enrolled_cong [OF turn(2)] Cons.prems(3) by simp
    from Cons.IH [OF turn(1) _ this rest] Cons.prems(2) turn(2-6) show ?thesis by auto
  qed
qed simp

section \<open>Executions\<close>

text \<open>The ends of a recorded execution: refused by the mandate store, its constraint refused, or recorded.\<close>

lemma collateral_record_world:
  assumes "recordCollateralExecution sha mnow anow nextId appendR cx input (ks, au) = (res, ks', au')"
  obtains e where "res = Inl (CollateralizationFailed e)" "ks' = ks" "au' = au"
  | m0 m x cres where "getMandate_collateral cx (rk_mandateId input) ks = Inr m0"
      "recordExecution_collateral mnow cx (collateralExecutionInput nextId input m0) ks = (Inr (m, x), ks')"
      "recordCollateralEncumbrance sha anow cx m x au = (cres, au')"
      "res = (case cres of Inl e \<Rightarrow> Inl e
              | Inr _ \<Rightarrow> if referenceFails appendR (km_evaluationRef m0) (kx_id x)
                         then Inl CollateralGovernanceStoreFailed else Inr (m, x))"
proof (cases "getMandate_collateral cx (rk_mandateId input) ks")
  case (Inl e)
  with assms show ?thesis by (intro that(1)) (auto simp: recordCollateralExecution_def)
next
  case (Inr m0)
  obtain rres ks1 where r: "recordExecution_collateral mnow cx (collateralExecutionInput nextId input m0) ks = (rres, ks1)"
    by fastforce
  show ?thesis
  proof (cases rres)
    case (Inl e)
    with assms Inr r collateral_execution_refused [OF r [unfolded Inl]] show ?thesis
      by (intro that(1)) (auto simp: recordCollateralExecution_def)
  next
    case i: (Inr p)
    obtain m x where p: "p = (m, x)" by fastforce
    obtain cres au1 where c: "recordCollateralEncumbrance sha anow cx m x au = (cres, au1)" by fastforce
    have "ks' = ks1" "au' = au1" "res = (case cres of Inl e \<Rightarrow> Inl e
              | Inr _ \<Rightarrow> if referenceFails appendR (km_evaluationRef m0) (kx_id x)
                         then Inl CollateralGovernanceStoreFailed else Inr (m, x))"
      using assms Inr r i p c by (auto simp: recordCollateralExecution_def split: sum.splits if_splits)
    with that(2) Inr r i p c show ?thesis by blast
  qed
qed

lemma collateral_execution_fields:
  assumes "recordExecution_collateral now cx i ks = (Inr (m, x), ks')"
  shows "kx_rights x = ixk_rights i" and "kx_committedScope x = ixk_committedScope i" and "kx_id x = ixk_id i"
    and "kx_id x \<in> set (ks_executionIds ks')" and "\<exists>log. executionsOf_collateral ks' (km_id m) = log @ [x]"
    and "\<exists>m0. map_get (ks_mandates ks) (ixk_mandateId i) = Some m0 \<and> km_organizationId m = km_organizationId m0 \<and>
           km_id m = km_id m0 \<and> km_assetKind m = km_assetKind m0 \<and> km_assetId m = km_assetId m0"
proof -
  obtain m0 s log where g: "executionGuards_collateral cx i ks = Inr m0"
    and m: "m = committed_mandate m0 s" and x: "x = recordedExecution_collateral i m0 (ixk_executedAt i) now"
    and ks': "ks' = ks\<lparr>ks_executionIds := ixk_id i # ks_executionIds ks,
              ks_executions := map_set (ks_executions ks) (km_id m0) (log @ [x]),
              ks_mandates := map_set (ks_mandates ks) (km_id m0) m\<rparr>"
    using collateral_execution_returns [OF assms] by blast
  show "kx_rights x = ixk_rights i" "kx_committedScope x = ixk_committedScope i" "kx_id x = ixk_id i"
    by (simp_all add: x recordedExecution_collateral_def)
  then show "kx_id x \<in> set (ks_executionIds ks')" by (simp add: ks')
  show "\<exists>log. executionsOf_collateral ks' (km_id m) = log @ [x]"
    by (simp add: ks' executionsOf_collateral_def m committed_mandate_def map_simps)
  show "\<exists>m0. map_get (ks_mandates ks) (ixk_mandateId i) = Some m0 \<and> km_organizationId m = km_organizationId m0 \<and>
           km_id m = km_id m0 \<and> km_assetKind m = km_assetKind m0 \<and> km_assetId m = km_assetId m0"
    using collateral_guards_Inr(1) [OF g] by (simp add: m committed_mandate_def)
qed

text \<open>A returned call has constrained every reported right the mandate has committed, and moved nothing.\<close>

lemma collateral_record_pledges:
  assumes wf: "store_wf sha st"
    and ret: "recordCollateralExecution sha mnow anow nextId appendR cx input (ks, Some st) =
      (Inr (m, x), ks', Some st')"
    and inj: "inj_on (deriveEncumbranceId sha (km_organizationId m) (kx_id x)) (set (rk_rights input))"
    and right: "right \<in> set (rk_rights input)" and fresh: "unreported m x right st"
    and enrolled: "isEnrolled st (km_organizationId m) \<lparr>rr_kind = km_assetKind m, rr_id = km_assetId m\<rparr>"
    and r: "r \<in> set (map_values (reservations st))" "r_tenantId r = km_organizationId m"
      "r_sourceMandateRef r = km_id m" "r_governedRight r = right"
  shows "positions st' = positions st" and "transitions st' = transitions st"
    and "pledged_for sha m x (filter (\<lambda>r. r_tenantId r = km_organizationId m \<and> r_sourceMandateRef r = km_id m)
           (map_values (reservations st))) right st'"
proof -
  obtain m0 where rec: "recordExecution_collateral mnow cx (collateralExecutionInput nextId input m0) ks = (Inr (m, x), ks')"
    and "\<exists>u. recordCollateralEncumbrance sha anow cx m x (Some st) = (Inr u, Some st')"
    by (rule collateral_record_world [OF ret]) (auto split: sum.splits if_splits)
  then obtain commitments where l: "listReservationsByMandateRef sha cx (km_organizationId m) (km_id m) st = Inr commitments"
    and enc: "commitments = [] \<and> st' = st \<or> encumberEach sha anow cx m x commitments (kx_rights x) st = (Inr (), st')"
    by (cases "listReservationsByMandateRef sha cx (km_organizationId m) (km_id m) st")
      (auto simp: recordCollateralEncumbrance_def elim!: from_authority.elims split: prod.splits if_splits)
  have held: "set commitments = set (filter (\<lambda>r. r_tenantId r = km_organizationId m \<and> r_sourceMandateRef r = km_id m)
           (map_values (reservations st)))"
    using l by (auto simp: listReservationsByMandateRef_def outcome_simps dest!: reservation_seal.mapR_verify_Inr)
  then have c: "r \<in> set commitments" using r by simp
  then have e: "encumberEach sha anow cx m x commitments (kx_rights x) st = (Inr (), st')" using enc by auto
  have f: "kx_rights x = rk_rights input"
    using collateral_execution_fields(1) [OF rec] by (simp add: collateralExecutionInput_def)
  have "positions st' = positions st \<and> transitions st' = transitions st \<and> pledged_for sha m x commitments right st'"
    using encumberEach_pledges [OF inj right wf _ enrolled e] fresh right c r(4) f by auto
  then show "positions st' = positions st" "transitions st' = transitions st"
    "pledged_for sha m x (filter (\<lambda>r. r_tenantId r = km_organizationId m \<and> r_sourceMandateRef r = km_id m)
           (map_values (reservations st))) right st'"
    using held by (auto simp: pledged_for_def pledge_for_def)
qed

text \<open>Once an execution is on record, no report under its identifier reaches the authority store again.\<close>

lemma recorded_never_constrains:
  assumes rec: "recordExecution_collateral mnow cx i ks = (Inr (m, x), ks')"
    and id: "rk_executionId input = Some (kx_id x)"
  shows "\<exists>e. recordCollateralExecution sha mnow' anow nextId appendR cx' input (fold run_collateral_call calls ks', au) =
    (Inl (CollateralizationFailed e), fold run_collateral_call calls ks', au)"
proof -
  let ?ks = "fold run_collateral_call calls ks'"
  have "kx_id x \<in> set (ks_executionIds ?ks)"
    using collateral_execution_fields(4) [OF rec] runs_keep_ids by blast
  then have refused: "\<exists>e. recordExecution_collateral mnow' cx' (collateralExecutionInput nextId input m0) ?ks = (Inl e, ?ks)" for m0
    by (intro used_id_refused) (simp add: collateralExecutionInput_def id)
  show ?thesis
  proof (cases "getMandate_collateral cx' (rk_mandateId input) ?ks")
    case (Inr m0)
    obtain e where "recordExecution_collateral mnow' cx' (collateralExecutionInput nextId input m0) ?ks = (Inl e, ?ks)"
      using refused by blast
    with Inr show ?thesis by (simp add: recordCollateralExecution_def)
  qed (simp add: recordCollateralExecution_def)
qed

section \<open>Withdrawal\<close>

lemma releaseEach_encumbrances:
  "releaseEach sha anow cx org is st = (Inr u, st1) \<Longrightarrow> encumbrances st1 = encumbrances st"
proof (induction "is" arbitrary: st)
  case (Cons i js)
  obtain r st2 where e: "releaseReservation sha anow cx \<lparr>rl_tenantId = org, rl_reservationId = i,
     rl_reason = AuthorizationEnded, rl_releasedAt = None\<rparr> st = (Inr r, st2)"
    and rest: "releaseEach sha anow cx org js st2 = (Inr u, st1)"
    using Cons.prems by (auto split: prod.splits sum.splits)
  with Cons.IH [OF rest] releaseReservation_encumbrances show ?case by (metis snd_conv)
qed simp

lemma collateral_revoke_world:
  assumes wf: "store_wf sha st"
    and ret: "revokeCollateralMandate sha now anow nextId cx input (ks, Some st) = (Inr outcome, ks', Some st')"
    and m: "map_get (ks_mandates ks) (rw_mandateId input) = Some m"
  shows "active_at st' k r \<Longrightarrow> r_tenantId r = km_organizationId m \<Longrightarrow> r_sourceMandateRef r \<noteq> km_id m"
    and "positions st' = positions st" and "encumbrances st' = encumbrances st"
proof -
  have gm: "getMandate_collateral cx (rw_mandateId input) ks = Inr m"
    using ret m
    by (cases "getMandate_collateral cx (rw_mandateId input) ks")
      (auto simp: revokeCollateralMandate_def getMandate_collateral_def requireVisibleMandate_collateral_def
        requireMandate_collateral_def outcome_simps split: if_splits)
  let ?org = "km_organizationId m" and ?man = "km_id m"
  obtain u where "releaseActiveCollateralReservations sha anow cx ?org ?man (Some st) = (Inr u, Some st')"
    using ret gm by (auto simp: revokeCollateralMandate_def split: prod.splits sum.splits)
  then obtain held where l: "listReservationsByMandateRef sha cx ?org ?man st = Inr held"
    and e: "releaseEach sha anow cx ?org (map r_id (filter (\<lambda>r. r_status r = RsActive) held)) st = (Inr (), st')"
    by (cases "listReservationsByMandateRef sha cx ?org ?man st")
      (auto simp: releaseActiveCollateralReservations_def elim!: from_authority.elims split: prod.splits)
  show "positions st' = positions st" using releaseEach_positions [OF wf e] by simp
  show "encumbrances st' = encumbrances st" by (rule releaseEach_encumbrances [OF e])
  show "active_at st' k r \<Longrightarrow> r_tenantId r = ?org \<Longrightarrow> r_sourceMandateRef r \<noteq> ?man"
    by (rule active_ended [OF wf l e])
qed

end
