(* ===== verification/TransferScenario.thy ===== *)
theory TransferScenario
  imports TransferProtocol Scenario
begin

text \<open>
  A concrete transfer for the witnesses: Alice holds the whole of \<open>work-a\<close> (\<open>Scenario\<close>) and asks to
  move 40% of it to Bob in parts.
\<close>

section \<open>The calls\<close>

definition alice_terms :: "bool \<Rightarrow> int \<Rightarrow> EnterpriseTransferTerms" where
  "alice_terms partial points =
     \<lparr>tt_rights = [''ownership-interest''], tt_transferorRef = ''alice'', tt_transfereeRef = ''bob'',
      tt_scope = Proportional points,
      tt_constraints = \<lparr>tc_partialTransferAllowed = partial, tc_onwardTransferAllowed = TdProhibited,
        tc_recipientAcceptanceRequired = None, tc_considerationEvidenceRequired = None,
        tc_externalAgreementReferenceRequired = None, tc_permittedRegistries = None\<rparr>,
      tt_executorRef = None\<rparr>"

definition ask_transfer :: "bool \<Rightarrow> int \<Rightarrow> SubmitTransferRequestInput" where
  "ask_transfer partial points =
     \<lparr>sb_requestId = None, sb_asset = \<lparr>ta_kind = ''asset'', ta_id = ''work-a'', ta_tenantId = None\<rparr>,
      sb_requestedBy = ''manager'', sb_trustDomainId = ''domain'', sb_principalActorId = None, sb_actorType = None,
      sb_terms = alice_terms partial points, sb_resourceScope = None, sb_requestedAt = None, sb_correlationId = None,
      sb_requestedExpiresAt = None, sb_justification = None, sb_evidenceRefs = None, sb_idempotencyKey = None,
      sb_mandateExpiresAt = t3, sb_issuerRef = None, sb_obligationRefs = None, sb_auditRefs = None\<rparr>"

definition id_of :: "string \<Rightarrow> string \<Rightarrow> string" where
  "id_of n p = p @ ''-'' @ n"

definition kernel_allows :: "TransferKernelRequest \<Rightarrow> KernelEvaluationResult option" where
  "kernel_allows q = Some
     \<lparr>kr_requestId = tq_requestId q, kr_decisionId = ''decision'', kr_status = KernelAllowed, kr_reasonCodes = [],
      kr_summary = ''allowed'', kr_approvalProofId = None, kr_approvalDecisionId = None,
      kr_approvalRequestId = None, kr_evaluatedAt = t1\<rparr>"

definition store_appends :: "TransferKernelRequest \<Rightarrow> KernelEvaluationResult \<Rightarrow> append_answer" where
  "store_appends q kr = Appended ''evaluation'' False"

definition move_tranche :: "int \<Rightarrow> RecordTransferExecutionRequest" where
  "move_tranche points =
     \<lparr>rx_executionId = None, rx_mandateId = ''transfer-mandate-1'', rx_executedBy = ''registrar'', rx_executedAt = t1,
      rx_transferorRef = ''alice'', rx_transfereeRef = ''bob'', rx_rights = [''ownership-interest''],
      rx_transferredScope = Proportional points, rx_correlationId = None, rx_transferEffectiveAt = None,
      rx_registry = None, rx_externalSystem = None, rx_externalAgreementReference = None,
      rx_externalAcceptanceReference = None, rx_externalConsiderationReference = None,
      rx_externalRegistrationReference = None, rx_externalTransactionReference = None, rx_evidenceRefs = None\<rparr>"

definition ask_alice :: "bool \<Rightarrow> transfer_world \<Rightarrow> (transfer_failure + TransferRequestOutcome) \<times> transfer_world" where
  "ask_alice partial = requestTransfer zero_sha t1 t1 t1 (id_of ''1'') kernel_allows store_appends (\<lambda>_ _. True) sys_cx
     ''org'' (ask_transfer partial 4000)"

definition record_tranche :: "string \<Rightarrow> int \<Rightarrow> transfer_world \<Rightarrow>
    (transfer_failure + (TransferMandateRecord \<times> TransferExecutionRecord)) \<times> transfer_world" where
  "record_tranche n points =
     recordTransferExecution zero_sha t1 t1 (id_of n) (\<lambda>_ _. True) sys_cx (move_tranche points)"

section \<open>The worlds\<close>

definition asked_mandate :: TransferMandateRecord where
  "asked_mandate =
     \<lparr>mr_id = ''transfer-mandate-1'', mr_organizationId = ''org'', mr_status = TmActive, mr_assetKind = ''asset'',
      mr_assetId = ''work-a'', mr_assetTenantId = None, mr_terms = alice_terms True 4000,
      mr_requestRef = ''transfer-request-1'', mr_requestedBy = ''manager'', mr_decisionRef = ''decision'',
      mr_evaluationRef = Some ''evaluation'', mr_effectiveFrom = t1, mr_expiresAt = t3,
      mr_correlationId = ''transfer-correlation-1'', mr_issuerRef = None, mr_approvalRefs = None,
      mr_obligationRefs = None, mr_evidenceRefs = None, mr_auditRefs = None, mr_transferredScope = None,
      mr_executionCount = 0, mr_createdAt = t1\<rparr>"

definition asked_mandates :: transfer_store where
  "asked_mandates = empty_transfer_store
     \<lparr>ts_mandates := [(''transfer-mandate-1'', asked_mandate)],
      ts_mandateIdByRequestRef := [(''transfer-request-1'', ''transfer-mandate-1'')],
      ts_executions := [(''transfer-mandate-1'', [])], ts_lifecycleEvents := [(''transfer-mandate-1'', [])]\<rparr>"

definition asked_store :: auth_store where
  "asked_store = (case snd (ask_alice True (empty_transfer_store, Some alice_store)) of
     (_, Some st) \<Rightarrow> st | (_, None) \<Rightarrow> alice_store)"

lemma asked_run:
  "ask_alice True (empty_transfer_store, Some alice_store) =
     (Inr \<lparr>to_status = KernelAllowed, to_requestId = ''transfer-request-1'', to_decisionId = ''decision'',
           to_evaluationId = ''evaluation'', to_reasonCodes = [], to_summary = ''allowed'',
           to_mandate = Some asked_mandate\<rparr>,
      asked_mandates, Some asked_store)"
  by code_simp

definition tranche_world :: transfer_world where
  "tranche_world = snd (record_tranche ''1'' 1000 (asked_mandates, Some asked_store))"

definition tranche_mandate :: TransferMandateRecord where
  "tranche_mandate = moved_mandate asked_mandate (Proportional 1000)"

definition tranche_execution :: TransferExecutionRecord where
  "tranche_execution =
     \<lparr>xr_id = ''transfer-execution-1'', xr_mandateId = ''transfer-mandate-1'', xr_organizationId = ''org'',
      xr_executedBy = ''registrar'', xr_executedAt = t1, xr_transferorRef = ''alice'', xr_transfereeRef = ''bob'',
      xr_rights = [''ownership-interest''], xr_transferredScope = Proportional 1000,
      xr_correlationId = ''transfer-execution-correlation-1'', xr_transferEffectiveAt = None, xr_registry = None,
      xr_externalSystem = None, xr_externalAgreementReference = None, xr_externalAcceptanceReference = None,
      xr_externalConsiderationReference = None, xr_externalRegistrationReference = None,
      xr_externalTransactionReference = None, xr_evidenceRefs = None, xr_recordedAt = t1\<rparr>"

definition tranche_store :: auth_store where
  "tranche_store = (case tranche_world of (_, Some st) \<Rightarrow> st | (_, None) \<Rightarrow> alice_store)"

lemma tranche_run:
  "record_tranche ''1'' 1000 (asked_mandates, Some asked_store) =
     (Inr (tranche_mandate, tranche_execution), fst tranche_world, Some tranche_store)"
  by code_simp

text \<open>
  Three reports under the one mandate over 40%: all of it, a negative quantity, and 10% more. The
  second is recorded although no authority can move by it.
\<close>

definition negative_reports :: transfer_world where
  "negative_reports =
     snd (record_tranche ''3'' 1000 (snd (record_tranche ''2'' (-1000)
       (snd (record_tranche ''1'' 4000 (asked_mandates, Some asked_store))))))"

lemma negative_reports_run:
  "map_option (\<lambda>st. (held_at st alice_key, held_at st (alice_key\<lparr>pk_actorRef := ''bob''\<rparr>))) (snd negative_reports) = Some (5000, 5000)"
  "map_option mr_transferredScope (map_get (ts_mandates (fst negative_reports)) ''transfer-mandate-1'') = Some (Some (Proportional 4000))"
  by code_simp+

lemma asked_store_wf: "store_wf zero_sha asked_store"
proof -
  have "asked_store = snd (acquireReservation zero_sha t1 sys_cx (reservationInput ''org''
      \<lparr>tr_schemaVersion = ENTERPRISE_TRANSFER_SCHEMA_VERSION, tr_id = ''transfer-request-1'',
       tr_capability = ENTERPRISE_TRANSFER_CAPABILITY, tr_asset = sb_asset (ask_transfer True 4000),
       tr_requestedBy = ''manager'', tr_terms = alice_terms True 4000, tr_requestedAt = t1,
       tr_correlationId = ''transfer-correlation-1'', tr_requestedExpiresAt = None, tr_justification = None,
       tr_evidenceRefs = None\<rparr> ''transfer-mandate-1'' ''decision'' t1 t3 ''ownership-interest'') alice_store)"
    by code_simp
  with acquire_wf [OF alice_store_wf] show ?thesis by metis
qed

section \<open>Runs of the mandate store\<close>

definition issue_transfer :: "bool \<Rightarrow> IssueTransferMandateInput" where
  "issue_transfer partial =
     \<lparr>imt_id = ''transfer-mandate-1'', imt_organizationId = ''org'', imt_assetKind = ''asset'', imt_assetId = ''work-a'',
      imt_assetTenantId = None, imt_terms = alice_terms partial 4000, imt_requestedTerms = alice_terms partial 4000,
      imt_requestRef = ''transfer-request-1'', imt_requestedBy = ''manager'', imt_decisionRef = ''decision'',
      imt_evaluationRef = Some ''evaluation'', imt_effectiveFrom = t1, imt_expiresAt = t3,
      imt_correlationId = ''transfer-correlation-1'', imt_issuerRef = None, imt_approvalRefs = None,
      imt_obligationRefs = None, imt_evidenceRefs = None, imt_auditRefs = None\<rparr>"

definition transfer_calls :: "bool \<Rightarrow> int \<Rightarrow> transfer_call list" where
  "transfer_calls partial points =
     [CallIssue t1 sys_cx (issue_transfer partial),
      CallExecution t1 sys_cx (executionInput (id_of ''1'') (move_tranche points) asked_mandate)]"

definition moved_whole :: TransferMandateRecord where
  "moved_whole = moved_mandate (asked_mandate\<lparr>mr_terms := alice_terms False 4000\<rparr>) (Proportional 4000)"

lemma transfer_calls_run:
  "map_get (ts_mandates (run_transfers (transfer_calls True 1000))) ''transfer-mandate-1'' = Some tranche_mandate"
  "executionsOf_transfer (run_transfers (transfer_calls True 1000)) ''transfer-mandate-1'' = [tranche_execution]"
  "map_get (ts_mandates (run_transfers (transfer_calls False 4000))) ''transfer-mandate-1'' = Some moved_whole"
  "executionsOf_transfer (run_transfers (transfer_calls False 4000)) ''transfer-mandate-1'' =
     [tranche_execution\<lparr>xr_transferredScope := Proportional 4000\<rparr>]"
  by code_simp+

section \<open>Refusal, recovery and withdrawal\<close>

definition refused_store :: auth_store where
  "refused_store = (case snd (ask_alice True (close_transfer empty_transfer_store, Some alice_store)) of
     (_, Some st) \<Rightarrow> st | (_, None) \<Rightarrow> alice_store)"

lemma refused_run:
  "ask_alice True (close_transfer empty_transfer_store, Some alice_store) =
     (Inl (TransferFailed TRANSFER_STORE_UNAVAILABLE), close_transfer empty_transfer_store, Some refused_store)"
  by code_simp

definition reconciled_world :: transfer_world where
  "reconciled_world = snd (reconcileAuthorityTransitions zero_sha t2 sys_cx ''transfer-mandate-1''
     (fst tranche_world, Some asked_store))"

lemma reconcile_run:
  "reconcileAuthorityTransitions zero_sha t2 sys_cx ''transfer-mandate-1'' (fst tranche_world, Some asked_store) =
     (Inr [''transfer-execution-1''], reconciled_world)"
  "map_get (ts_mandates (fst tranche_world)) ''transfer-mandate-1'' = Some tranche_mandate"
  "executionsOf_transfer (fst tranche_world) ''transfer-mandate-1'' = [tranche_execution]"
  by code_simp+

definition revoke_transfer :: RevokeTransferMandateRequest where
  "revoke_transfer =
     \<lparr>rv_mandateId = ''transfer-mandate-1'', rv_reason = ''withdrawn'', rv_requestedBy = ''ops'', rv_revokedAt = None,
      rv_description = None, rv_evidenceRefs = None, rv_correlationId = None\<rparr>"

definition revoked_world :: transfer_world where
  "revoked_world = snd (revokeTransferMandate zero_sha t2 t2 (id_of ''1'') sys_cx revoke_transfer
     (asked_mandates, Some asked_store))"

definition revoked_store :: auth_store where
  "revoked_store = (case revoked_world of (_, Some st) \<Rightarrow> st | (_, None) \<Rightarrow> alice_store)"

definition revoked_outcome :: TransferRevokeOutcome where
  "revoked_outcome = (case fst (revokeTransferMandate zero_sha t2 t2 (id_of ''1'') sys_cx revoke_transfer
     (asked_mandates, Some asked_store)) of Inr out \<Rightarrow> out)"

lemma revoke_run:
  "revokeTransferMandate zero_sha t2 t2 (id_of ''1'') sys_cx revoke_transfer (asked_mandates, Some asked_store) =
     (Inr revoked_outcome, fst revoked_world, Some revoked_store)"
  "map_option mr_status (map_get (ts_mandates (fst revoked_world)) ''transfer-mandate-1'') = Some TmRevoked"
  by code_simp+

lemma asked_facts:
  "map_get (ts_mandates asked_mandates) ''transfer-mandate-1'' = Some asked_mandate"
  "keys_unused ''org'' ''transfer-mandate-1'' [''ownership-interest''] alice_store"
  "isEnrolled alice_store ''org'' \<lparr>rr_kind = ''asset'', rr_id = ''work-a''\<rparr>"
  "alreadyApplied asked_store ''org'' ''transfer-execution-1'' = []"
  by code_simp+

lemma asked_room: "room_for (Proportional 1000) asked_store"
  unfolding room_for_def by code_simp

end
