(* ===== verification/CollateralScenario.thy ===== *)
theory CollateralScenario
  imports CollateralProtocol TransferScenario
begin

text \<open>
  A concrete collateralization for the witnesses: a manager asks for 60% of \<open>work-a\<close>, which Alice holds
  (\<open>Scenario\<close>), to secure a loan; the registry's report comes in time, or too late.
\<close>

section \<open>The calls\<close>

definition loan_terms :: EnterpriseCollateralizationTerms where
  "loan_terms =
     \<lparr>ct_rights = [''ownership-interest''], ct_scope = Proportional 6000, ct_securedObligationRef = ''loan-1'',
      ct_securedObligationKind = None, ct_securedPartyRef = ''bank'', ct_executorRef = ''registrar'',
      ct_constraints = \<lparr>cc_maximumSecuredAmount = Some \<lparr>sa_minorUnits = 50000, sa_currency = ''EUR''\<rparr>,
        cc_permittedJurisdictions = None, cc_permittedRegistries = Some [''registry-1''], cc_requiredPriorityRank = Some 1,
        cc_exclusive = None, cc_releaseEvidenceRequired = None, cc_additionalCollateralizationAllowed = False\<rparr>\<rparr>"

definition ask_collateral :: SubmitCollateralizationRequestInput where
  "ask_collateral =
     \<lparr>sk_requestId = None, sk_asset = \<lparr>ta_kind = ''asset'', ta_id = ''work-a'', ta_tenantId = None\<rparr>,
      sk_requestedBy = ''manager'', sk_trustDomainId = ''domain'', sk_principalActorId = None, sk_actorType = None,
      sk_terms = loan_terms, sk_resourceScope = None, sk_requestedAt = None, sk_correlationId = None,
      sk_requestedExpiresAt = None, sk_justification = None, sk_evidenceRefs = None, sk_idempotencyKey = None,
      sk_mandateExpiresAt = t2, sk_issuerRef = None, sk_obligationRefs = None, sk_auditRefs = None,
      sk_authorityHolderRef = Some ''alice''\<rparr>"

definition kernel_allows_collateral :: "CollateralKernelRequest \<Rightarrow> KernelEvaluationResult option" where
  "kernel_allows_collateral q = Some
     \<lparr>kr_requestId = kn_requestId q, kr_decisionId = ''decision'', kr_status = KernelAllowed, kr_reasonCodes = [],
      kr_summary = ''allowed'', kr_approvalProofId = None, kr_approvalDecisionId = None,
      kr_approvalRequestId = None, kr_evaluatedAt = t1\<rparr>"

definition report_loan :: RecordCollateralizationExecutionRequest where
  "report_loan =
     \<lparr>rk_executionId = Some ''loan-execution'', rk_mandateId = ''collateralization-mandate-1'',
      rk_executorRef = ''registrar'', rk_executedAt = t1, rk_securedObligationRef = ''loan-1'',
      rk_securedPartyRef = ''bank'', rk_committedScope = Proportional 6000, rk_rights = [''ownership-interest''],
      rk_correlationId = None, rk_securedAmount = Some \<lparr>sa_minorUnits = 40000, sa_currency = ''EUR''\<rparr>,
      rk_externalSystem = None, rk_externalRegistry = Some ''registry-1'', rk_externalAgreementReference = None,
      rk_externalFilingReference = None, rk_externalTransactionReference = None, rk_jurisdiction = None,
      rk_priorityRank = Some 1, rk_evidenceRefs = None\<rparr>"

definition revoke_loan :: RevokeCollateralizationMandateRequest where
  "revoke_loan =
     \<lparr>rw_mandateId = ''collateralization-mandate-1'', rw_reason = ''withdrawn'', rw_requestedBy = ''ops'',
      rw_revokedAt = None, rw_description = None, rw_evidenceRefs = None, rw_correlationId = None\<rparr>"

section \<open>A mandate and its commitment\<close>

definition loan_mandate :: CollateralizationMandateRecord where
  "loan_mandate =
     \<lparr>km_id = ''collateralization-mandate-1'', km_organizationId = ''org'', km_status = TmActive,
      km_assetKind = ''asset'', km_assetId = ''work-a'', km_assetTenantId = None, km_terms = loan_terms,
      km_requestRef = ''collateralization-request-1'', km_requestedBy = ''manager'', km_decisionRef = ''decision'',
      km_evaluationRef = Some ''evaluation'', km_effectiveFrom = t1, km_expiresAt = t2,
      km_correlationId = ''collateralization-correlation-1'', km_issuerRef = None, km_approvalRefs = None,
      km_obligationRefs = None, km_evidenceRefs = None, km_auditRefs = None, km_committedScope = None,
      km_executionCount = 0, km_createdAt = t1\<rparr>"

definition loan_mandates :: collateral_store where
  "loan_mandates = empty_collateral_store
     \<lparr>ks_mandates := [(''collateralization-mandate-1'', loan_mandate)],
      ks_mandateIdByRequestRef := [(''collateralization-request-1'', ''collateralization-mandate-1'')],
      ks_executions := [(''collateralization-mandate-1'', [])], ks_releases := [(''collateralization-mandate-1'', [])]\<rparr>"

definition ask_loan :: "collateral_world \<Rightarrow> (collateral_failure + CollateralizationRequestOutcome) \<times> collateral_world" where
  "ask_loan = requestCollateralization zero_sha t1 t1 t1 (id_of ''1'') kernel_allows_collateral
     (\<lambda>_ _. Appended ''evaluation'' False) (\<lambda>_ _. True) sys_cx ''org'' ask_collateral"

definition loan_reservation :: GovernedAuthorityReservation where
  "loan_reservation =
     \<lparr>r_id = ''governed-authority-reservation-0'', r_tenantId = ''org'', r_holderRef = ''alice'',
      r_resourceKind = ''asset'', r_resourceId = ''work-a'', r_governedRight = ''ownership-interest'',
      r_scope = Proportional 6000, r_action = ''collateralize'', r_sourceRequestRef = ''collateralization-request-1'',
      r_sourceDecisionRef = Some ''decision'', r_sourceMandateRef = ''collateralization-mandate-1'',
      r_effectiveFrom = t1, r_expiresAt = t2, r_status = RsActive,
      r_idempotencyKey = ''collateralization-mandate-1:ownership-interest'',
      r_correlationId = Some ''collateralization-correlation-1'', r_createdAt = t1, r_updatedAt = t1,
      r_digest = ''sha256:0''\<rparr>"

definition loan_store :: auth_store where
  "loan_store = alice_store\<lparr>reservations := [(''governed-authority-reservation-0'', loan_reservation)]\<rparr>"

lemma ask_loan_run:
  "ask_loan (empty_collateral_store, Some alice_store) =
     (Inr \<lparr>ko_status = KernelAllowed, ko_requestId = ''collateralization-request-1'', ko_decisionId = ''decision'',
           ko_evaluationId = ''evaluation'', ko_reasonCodes = [], ko_summary = ''allowed'',
           ko_mandate = Some loan_mandate\<rparr>,
      loan_mandates, Some loan_store)"
  by code_simp

lemma loan_store_wf: "store_wf zero_sha loan_store"
proof -
  have "loan_store = snd (acquireReservation zero_sha t1 sys_cx (collateralReservationInput ''org''
      \<lparr>cr_schemaVersion = ENTERPRISE_COLLATERALIZATION_SCHEMA_VERSION, cr_id = ''collateralization-request-1'',
       cr_capability = ENTERPRISE_COLLATERALIZE_CAPABILITY, cr_asset = sk_asset ask_collateral,
       cr_requestedBy = ''manager'', cr_terms = loan_terms, cr_requestedAt = t1,
       cr_correlationId = ''collateralization-correlation-1'', cr_requestedExpiresAt = None,
       cr_justification = None, cr_evidenceRefs = None\<rparr> ''alice'' ''collateralization-mandate-1'' ''decision'' t1 t2
      ''ownership-interest'') alice_store)"
    by code_simp
  with acquire_wf [OF alice_store_wf] show ?thesis by metis
qed

section \<open>Reported in time\<close>

definition loan_execution :: CollateralizationExecutionRecord where
  "loan_execution =
     \<lparr>kx_id = ''loan-execution'', kx_mandateId = ''collateralization-mandate-1'', kx_organizationId = ''org'',
      kx_executorRef = ''registrar'', kx_executedAt = t1, kx_securedObligationRef = ''loan-1'',
      kx_securedPartyRef = ''bank'', kx_committedScope = Proportional 6000, kx_rights = [''ownership-interest''],
      kx_correlationId = ''collateralization-execution-correlation-2'',
      kx_securedAmount = Some \<lparr>sa_minorUnits = 40000, sa_currency = ''EUR''\<rparr>, kx_externalSystem = None,
      kx_externalRegistry = Some ''registry-1'', kx_externalAgreementReference = None,
      kx_externalFilingReference = None, kx_externalTransactionReference = None, kx_jurisdiction = None,
      kx_priorityRank = Some 1, kx_evidenceRefs = None, kx_recordedAt = t1\<rparr>"

definition drawn_mandate :: CollateralizationMandateRecord where
  "drawn_mandate = committed_mandate loan_mandate (Proportional 6000)"

definition drawn_mandates :: collateral_store where
  "drawn_mandates = loan_mandates
     \<lparr>ks_mandates := [(''collateralization-mandate-1'', drawn_mandate)],
      ks_executions := [(''collateralization-mandate-1'', [loan_execution])], ks_executionIds := [''loan-execution'']\<rparr>"

definition report :: "string \<Rightarrow> collateral_world \<Rightarrow>
    (collateral_failure + (CollateralizationMandateRecord \<times> CollateralizationExecutionRecord)) \<times> collateral_world" where
  "report anow = recordCollateralExecution zero_sha t1 anow (id_of ''2'') (\<lambda>_ _. True) sys_cx report_loan"

definition drawn_store :: auth_store where
  "drawn_store = (case snd (report t1 (loan_mandates, Some loan_store)) of (_, Some st) \<Rightarrow> st | (_, None) \<Rightarrow> loan_store)"

lemma report_run:
  "report t1 (loan_mandates, Some loan_store) = (Inr (drawn_mandate, loan_execution), drawn_mandates, Some drawn_store)"
  by code_simp

section \<open>Reported after the commitment has lapsed\<close>

text \<open>The mandate's window is over, its reservation with it, and somebody else has been given the authority.\<close>

definition late_store :: auth_store where
  "late_store = snd (recordEncumbrance zero_sha t2 sys_cx pledge_alice loan_store)"

lemma late_run:
  "report t2 (loan_mandates, Some late_store) =
     (Inl (CollateralAuthorityFailed AVAILABILITY_INSUFFICIENT), drawn_mandates, Some late_store)"
  "fst (report t2 (drawn_mandates, Some loan_store)) = Inl (CollateralizationFailed COLLATERALIZATION_EXECUTION_ALREADY_RECORDED)"
  by code_simp+

lemma loan_recorded:
  "recordExecution_collateral t1 sys_cx (collateralExecutionInput (id_of ''2'') report_loan loan_mandate) loan_mandates =
     (Inr (drawn_mandate, loan_execution), drawn_mandates)"
  by code_simp

section \<open>Withdrawal\<close>

definition withdrawn_loan :: "(collateral_failure + CollateralizationRevokeOutcome) \<times> collateral_world" where
  "withdrawn_loan = revokeCollateralMandate zero_sha t2 t2 (id_of ''3'') sys_cx revoke_loan (loan_mandates, Some loan_store)"

definition withdrawn_store :: auth_store where
  "withdrawn_store = (case snd withdrawn_loan of (_, Some st) \<Rightarrow> st | (_, None) \<Rightarrow> loan_store)"

definition withdrawn_outcome :: CollateralizationRevokeOutcome where
  "withdrawn_outcome = (case fst withdrawn_loan of Inr out \<Rightarrow> out)"

lemma withdrawn_run:
  "revokeCollateralMandate zero_sha t2 t2 (id_of ''3'') sys_cx revoke_loan (loan_mandates, Some loan_store) =
     (Inr withdrawn_outcome, fst (snd withdrawn_loan), Some withdrawn_store)"
  by code_simp

section \<open>A run of the mandate store\<close>

definition loan_calls :: "collateral_call list" where
  "loan_calls =
     [CollateralIssue t1 sys_cx
        \<lparr>imk_id = ''collateralization-mandate-1'', imk_organizationId = ''org'', imk_assetKind = ''asset'',
         imk_assetId = ''work-a'', imk_assetTenantId = None, imk_terms = loan_terms, imk_requestedTerms = loan_terms,
         imk_requestRef = ''collateralization-request-1'', imk_requestedBy = ''manager'', imk_decisionRef = ''decision'',
         imk_evaluationRef = Some ''evaluation'', imk_effectiveFrom = t1, imk_expiresAt = t2,
         imk_correlationId = ''collateralization-correlation-1'', imk_issuerRef = None, imk_approvalRefs = None,
         imk_obligationRefs = None, imk_evidenceRefs = None, imk_auditRefs = None\<rparr>,
      CollateralExecution t1 sys_cx (collateralExecutionInput (id_of ''2'') report_loan loan_mandate)]"

lemma loan_calls_run: "run_collaterals loan_calls = drawn_mandates"
  by code_simp

end
