(* ===== verification/JsonReadback.thy ===== *)
theory JsonReadback
  imports CanonicalJson
begin

text \<open>
  What a digested text says: canonical serialization (\<open>canonical-json.ts\<close>) writes two values alike
  only if they are the same value up to the order of keys and up to keys without a value. The
  integrity checks of the governance store rest on it: a digest that has not changed stands for
  content that has not changed.
\<close>

section \<open>The canonical form of a value\<close>

text \<open>
  The value the text is of: entries without a value dropped, the others in the order of their keys;
  a missing array element is \<open>null\<close>.
\<close>

fun canonical :: "json \<Rightarrow> json"
  and canonicalItems :: "json list \<Rightarrow> json list"
  and canonicalEntries :: "(string \<times> json) list \<Rightarrow> (string \<times> json) list" where
  "canonical JNull = JNull"
| "canonical JUndefined = JNull"
| "canonical (JBool b) = JBool b"
| "canonical (JNum n) = JNum n"
| "canonical (JStr s) = JStr s"
| "canonical (JArr xs) = JArr (canonicalItems xs)"
| "canonical (JObj fs) = JObj (sort_by_id fst (canonicalEntries fs))"
| "canonicalItems [] = []"
| "canonicalItems (x # xs) = canonical x # canonicalItems xs"
| "canonicalEntries [] = []"
| "canonicalEntries ((k, v) # fs) =
     (case v of JUndefined \<Rightarrow> canonicalEntries fs | _ \<Rightarrow> (k, canonical v) # canonicalEntries fs)"

text \<open>The text of a value in canonical form: nothing left to drop or to sort.\<close>

fun plainText :: "json \<Rightarrow> string"
  and plainItems :: "json list \<Rightarrow> string list"
  and plainEntries :: "(string \<times> json) list \<Rightarrow> string list" where
  "plainText JNull = ''null''"
| "plainText JUndefined = ''null''"
| "plainText (JBool b) = (if b then ''true'' else ''false'')"
| "plainText (JNum n) = int_str n"
| "plainText (JStr s) = json_quote s"
| "plainText (JArr xs) = ''['' @ join '','' (plainItems xs) @ '']''"
| "plainText (JObj fs) = ''{'' @ join '','' (plainEntries fs) @ ''}''"
| "plainItems [] = []"
| "plainItems (x # xs) = plainText x # plainItems xs"
| "plainEntries [] = []"
| "plainEntries ((k, v) # fs) = (json_quote k @ '':'' @ plainText v) # plainEntries fs"

fun json_defined :: "json \<Rightarrow> bool" where
  "json_defined JUndefined = False"
| "json_defined (JArr xs) = (\<forall>x \<in> set xs. json_defined x)"
| "json_defined (JObj fs) = (\<forall>f \<in> set fs. json_defined (snd f))"
| "json_defined _ = True"

lemma plainItems_map: "plainItems xs = map plainText xs"
  by (induction xs) auto

lemma plainEntries_map: "plainEntries fs = map (\<lambda>f. json_quote (fst f) @ '':'' @ plainText (snd f)) fs"
  by (induction fs) auto

lemma sort_by_id_map:
  "(\<And>x. f (g x) = f' x) \<Longrightarrow> sort_by_id f (map g xs) = map g (sort_by_id f' xs)"
proof (induction xs)
  case (Cons x xs)
  have "insort_key f (g x) (map g ys) = map g (insort_key f' x ys)" for ys
    using Cons.prems by (induction ys) auto
  with Cons show ?case by (simp add: sort_by_id_def)
qed (simp add: sort_by_id_def)

lemma canonical_json_defined:
  "json_defined (canonical v)"
  "\<forall>x \<in> set (canonicalItems xs). json_defined x"
  "\<forall>f \<in> set (canonicalEntries fs). json_defined (snd f)"
proof (induction v and xs and fs rule: canonical_canonicalItems_canonicalEntries.induct)
  case (11 k v fs)
  then show ?case by (cases v) auto
qed auto

lemma serialize_canonical:
  "serializeValue v = plainText (canonical v)"
  "serializeItems xs = plainItems (canonicalItems xs)"
  "serializeEntries fs = map (\<lambda>f. (fst f, plainText (snd f))) (canonicalEntries fs)"
proof (induction v and xs and fs rule: canonical_canonicalItems_canonicalEntries.induct)
  case (7 fs)
  have "sort_by_id fst (map (\<lambda>f. (fst f, plainText (snd f))) (canonicalEntries fs)) =
      map (\<lambda>f. (fst f, plainText (snd f))) (sort_by_id fst (canonicalEntries fs))"
    by (rule sort_by_id_map) auto
  with 7 show ?case by (simp add: plainEntries_map o_def case_prod_beta)
next
  case (11 k v fs)
  then show ?case by (cases v) auto
qed auto

section \<open>A text is read back in one way\<close>

text \<open>A value inside a text ends where the text does, or before a comma or a closing bracket.\<close>

definition ends_value :: "string \<Rightarrow> bool" where
  "ends_value r \<longleftrightarrow> r = [] \<or> hd r \<in> {CHR '','', CHR '']'', CHR ''}''}"

lemma ends_value_simps [simp]:
  "ends_value []" "ends_value (CHR '','' # r)" "ends_value (CHR '']'' # r)" "ends_value (CHR ''}'' # r)"
  by (simp_all add: ends_value_def)

lemma int_str_read:
  assumes "int_str m @ r = int_str n @ u" and "ends_value r" and "ends_value u"
  shows "m = n \<and> r = u"
proof -
  have "r @ ''}'' = u @ ''}'' \<and> m = n"
  proof -
    obtain c r' where r: "r @ ''}'' = c # r'" "c \<in> {CHR '','', CHR '']'', CHR ''}''}"
      using assms(2) by (cases r) (auto simp: ends_value_def)
    obtain d u' where u: "u @ ''}'' = d # u'" "d \<in> {CHR '','', CHR '']'', CHR ''}''}"
      using assms(3) by (cases u) (auto simp: ends_value_def)
    have "int_str m @ c # r' = int_str n @ d # u'" using assms(1) r(1) u(1) by (metis append_assoc)
    then show ?thesis using r u by (auto dest: int_str_prefix)
  qed
  then show ?thesis by simp
qed

lemma first_chars:
  "hd (json_quote s @ r) = CHR 0x22" "json_quote s \<noteq> []"
  by (simp_all add: json_quote_def)

lemma int_str_first: "\<exists>c s. int_str n = c # s \<and> c \<in> set (CHR ''-'' # ''0123456789'')"
proof -
  have "int_str n \<noteq> []" using pos_str_nonempty by (simp add: int_str_def)
  then obtain c s where cs: "int_str n = c # s" by (cases "int_str n") auto
  moreover have "c \<in> set (CHR ''-'' # ''0123456789'')"
    using cs pos_str_digits [of n] pos_str_digits [of "- n"]
    by (cases "n < 0") (auto simp: int_str_def is_digit_def)
  ultimately show ?thesis by blast
qed

text \<open>The first character tells the kind of a value.\<close>

fun kind_of :: "json \<Rightarrow> nat" where
  "kind_of JNull = 1"
| "kind_of JUndefined = 1"
| "kind_of (JBool b) = (if b then 2 else 3)"
| "kind_of (JStr s) = 4"
| "kind_of (JArr xs) = 5"
| "kind_of (JObj fs) = 6"
| "kind_of (JNum n) = 0"

definition kind_read :: "char \<Rightarrow> nat" where
  "kind_read c =
     (if c = CHR ''n'' then 1 else if c = CHR ''t'' then 2 else if c = CHR ''f'' then 3
      else if c = CHR 0x22 then 4 else if c = CHR ''['' then 5 else if c = CHR ''{'' then 6 else 0)"

lemma kind_read_number:
  "\<forall>c \<in> set (CHR ''-'' # ''0123456789''). kind_read c = 0 \<and> c \<noteq> CHR '','' \<and> c \<noteq> CHR '']'' \<and> c \<noteq> CHR ''}''"
  by code_simp

lemma plainText_first: "\<exists>c s. plainText v = c # s \<and> kind_read c = kind_of v \<and> \<not> ends_value [c]"
proof (cases v)
  case (JNum n)
  obtain c s where "int_str n = c # s" "c \<in> set (CHR ''-'' # ''0123456789'')" using int_str_first by blast
  then show ?thesis using kind_read_number JNum unfolding ends_value_def
    by (metis empty_iff insert_iff kind_of.simps(7) list.sel(1) neq_Nil_conv plainText.simps(4))
qed (simp_all add: json_quote_def kind_read_def ends_value_def)

lemma same_kind: "plainText v @ r = plainText w @ u \<Longrightarrow> kind_of v = kind_of w"
  using plainText_first [of v] plainText_first [of w] by auto

lemma join_Cons: "join sep (x # xs) = x @ (if xs = [] then [] else sep @ join sep xs)"
  by (cases xs) auto

lemma join_read:
  assumes "\<And>x y r u. x \<in> set xs \<Longrightarrow> y \<in> set ys \<Longrightarrow> f x @ r = f y @ u \<Longrightarrow> ends_value r \<Longrightarrow> ends_value u \<Longrightarrow>
      x = y \<and> r = u"
    and "\<And>x r. \<not> ends_value (f x @ r)" and "e = CHR '']'' \<or> e = CHR ''}''"
    and "join '','' (map f xs) @ e # r = join '','' (map f ys) @ e # u"
  shows "xs = ys \<and> r = u"
  using assms(1,4)
proof (induction xs arbitrary: ys)
  case Nil
  show ?case
  proof (cases ys)
    case (Cons y ys')
    then have "e # r = f y @ (if ys' = [] then [] else '','' @ join '','' (map f ys')) @ e # u"
      using Nil.prems(2) by (simp add: join_Cons)
    moreover have "ends_value (e # r)" using assms(3) by auto
    ultimately show ?thesis using assms(2) by metis
  qed (use Nil in auto)
next
  case (Cons x xs)
  define more where "more = (\<lambda>zs q. (if zs = [] then [] else '','' @ join '','' (map f zs)) @ e # q)"
  have ends: "ends_value (more zs q)" for zs q using assms(3) by (auto simp: more_def)
  have body: "f x @ more xs r = join '','' (map f ys) @ e # u"
    using Cons.prems(2) by (auto simp: join_Cons more_def)
  show ?case
  proof (cases ys)
    case Nil
    then have "ends_value (f x @ more xs r)" using body assms(3) by auto
    with assms(2) show ?thesis by blast
  next
    case (Cons y ys')
    then have "f x @ more xs r = f y @ more ys' u" using body by (auto simp: join_Cons more_def)
    then have eq: "x = y" "more xs r = more ys' u" using Cons.prems(1) [of x y] ends Cons by auto
    show ?thesis
    proof (cases "xs = [] \<or> ys' = []")
      case True
      then show ?thesis using eq Cons assms(3) by (auto simp: more_def split: if_splits)
    next
      case False
      then have "join '','' (map f xs) @ e # r = join '','' (map f ys') @ e # u"
        using eq(2) by (simp add: more_def)
      then have "xs = ys' \<and> r = u" by (intro Cons.IH) (use Cons.prems(1) Cons in auto)
      then show ?thesis using eq Cons by simp
    qed
  qed
qed

lemma plainText_not_end: "\<not> ends_value (plainText v @ r)"
  using plainText_first [of v] by (auto simp: ends_value_def)

lemma entry_not_end: "\<not> ends_value ((json_quote k @ '':'' @ plainText v) @ r)"
  by (simp add: json_quote_def ends_value_def)

lemma plainText_read:
  assumes "plainText v @ r = plainText w @ u" and "json_defined v" and "json_defined w"
    and "ends_value r" and "ends_value u"
  shows "v = w \<and> r = u"
  using assms
proof (induction v arbitrary: w r u)
  case JNull
  then show ?case using same_kind [OF JNull.prems(1)] by (cases w) (auto split: if_splits)
next
  case JUndefined
  then show ?case by simp
next
  case (JBool b)
  then show ?case using same_kind [OF JBool.prems(1)] by (cases w) (auto split: if_splits)
next
  case (JNum n)
  obtain m where w: "w = JNum m" using same_kind [OF JNum.prems(1)] by (cases w) (auto split: if_splits)
  then show ?case using int_str_read [of n r m u] JNum.prems by simp
next
  case (JStr s)
  obtain x where w: "w = JStr x" using same_kind [OF JStr.prems(1)] by (cases w) (auto split: if_splits)
  then show ?case using json_quote_unique [of s r x u] JStr.prems by simp
next
  case (JArr xs)
  obtain ys where w: "w = JArr ys" using same_kind [OF JArr.prems(1)] by (cases w) (auto split: if_splits)
  have "xs = ys \<and> r = u"
  proof (rule join_read [where f = plainText and e = "CHR '']''"])
    show "join '','' (map plainText xs) @ CHR '']'' # r = join '','' (map plainText ys) @ CHR '']'' # u"
      using JArr.prems(1) w by (simp add: plainItems_map)
  next
    fix x y r u
    assume "x \<in> set xs" "y \<in> set ys" "plainText x @ r = plainText y @ u" "ends_value r" "ends_value u"
    then show "x = y \<and> r = u" using JArr.IH [of x r y u] JArr.prems(2,3) w by auto
  qed (simp_all add: plainText_not_end)
  with w show ?case by simp
next
  case (JObj fs)
  obtain gs where w: "w = JObj gs" using same_kind [OF JObj.prems(1)] by (cases w) (auto split: if_splits)
  let ?text = "\<lambda>f. json_quote (fst f) @ '':'' @ plainText (snd f)"
  have "fs = gs \<and> r = u"
  proof (rule join_read [where f = ?text and e = "CHR ''}''"])
    show "join '','' (map ?text fs) @ CHR ''}'' # r = join '','' (map ?text gs) @ CHR ''}'' # u"
      using JObj.prems(1) w by (simp add: plainEntries_map)
  next
    fix f g r u
    assume *: "f \<in> set fs" "g \<in> set gs" "?text f @ r = ?text g @ u" "ends_value r" "ends_value u"
    then have "fst f = fst g" and "plainText (snd f) @ r = plainText (snd g) @ u"
      using json_quote_unique [of "fst f" "'':'' @ plainText (snd f) @ r" "fst g"] by auto
    moreover have "snd f = snd g \<and> r = u"
      using JObj.IH [of f "snd f" r "snd g" u] * calculation JObj.prems(2,3) w by (auto simp: snds.simps)
    ultimately show "f = g \<and> r = u" by (simp add: prod_eq_iff)
  qed (simp_all add: entry_not_end [simplified])
  with w show ?case by simp
qed

lemma serialization_faithful:
  "canonicalSerialize v = canonicalSerialize w \<longleftrightarrow> canonical v = canonical w"
proof
  assume "canonicalSerialize v = canonicalSerialize w"
  then have "plainText (canonical v) @ [] = plainText (canonical w) @ []"
    by (simp add: canonicalSerialize_def serialize_canonical)
  then show "canonical v = canonical w" by (rule plainText_read [THEN conjunct1]) (simp_all add: canonical_json_defined)
qed (simp add: canonicalSerialize_def serialize_canonical)

text \<open>The canonical form is a value of its own, with the same text.\<close>

lemma canonical_fixed:
  "canonical (canonical v) = canonical v"
  "canonicalItems (canonicalItems xs) = canonicalItems xs"
  "\<forall>f \<in> set (canonicalEntries fs). canonical (snd f) = snd f"
proof (induction v and xs and fs rule: canonical_canonicalItems_canonicalEntries.induct)
  case (7 fs)
  let ?es = "sort_by_id fst (canonicalEntries fs)"
  have "canonicalEntries es = es" if "\<forall>f \<in> set es. canonical (snd f) = snd f \<and> snd f \<noteq> JUndefined" for es
    using that
  proof (induction es)
    case (Cons e es)
    obtain k v where "e = (k, v)" by (cases e)
    with Cons show ?case by (cases v) auto
  qed simp
  moreover have "snd f \<noteq> JUndefined" if "f \<in> set (canonicalEntries fs)" for f
    using canonical_json_defined(3) [of fs] that by force
  ultimately have "canonicalEntries ?es = ?es" using 7 by simp
  moreover have "sort_by_id fst ?es = ?es"
    by (simp add: sort_by_id_def sort_key_id_if_sorted)
  ultimately show ?case by simp
next
  case (11 k v fs)
  then show ?case by (cases v) auto
qed auto

lemma serialize_of_canonical: "canonicalSerialize (canonical v) = canonicalSerialize v"
  by (simp add: serialization_faithful canonical_fixed)

section \<open>Reading an entry of an object\<close>

definition json_entry :: "string \<Rightarrow> (string \<times> json) list \<Rightarrow> json option" where
  "json_entry k fs = (case map_of fs k of Some JUndefined \<Rightarrow> None | v \<Rightarrow> v)"

lemma canonicalEntries_keys: "set (map fst (canonicalEntries fs)) \<subseteq> set (map fst fs)"
proof (induction fs)
  case (Cons f fs)
  obtain k v where "f = (k, v)" by (cases f)
  with Cons show ?case by (cases v) auto
qed simp

lemma map_of_canonicalEntries:
  "distinct (map fst fs) \<Longrightarrow> map_of (canonicalEntries fs) k = map_option canonical (json_entry k fs)"
proof (induction fs)
  case (Cons f fs)
  obtain k' v where f: "f = (k', v)" by (cases f)
  have "map_of fs k' = None" "map_of (canonicalEntries fs) k' = None"
    using Cons.prems canonicalEntries_keys [of fs] by (auto simp: f map_of_eq_None_iff)
  with Cons f show ?case by (cases v) (auto simp: json_entry_def)
qed (simp add: json_entry_def)

lemma canonicalEntries_distinct: "distinct (map fst fs) \<Longrightarrow> distinct (map fst (canonicalEntries fs))"
proof (induction fs)
  case (Cons f fs)
  obtain k v where "f = (k, v)" by (cases f)
  with Cons show ?case using canonicalEntries_keys [of fs] by (cases v) auto
qed simp

lemma map_of_sort_by_id:
  assumes "distinct (map fst fs)"
  shows "map_of (sort_by_id fst fs) = map_of fs"
proof -
  have "mset (map fst (sort_by_id fst fs)) = mset (map fst fs)" by simp
  then have "distinct (map fst (sort_by_id fst fs))" using assms by (metis mset_eq_imp_distinct_iff)
  then show ?thesis using assms by (intro map_of_inject_set [THEN iffD2]) auto
qed

lemma canonical_entries:
  assumes "canonical (JObj fs) = canonical (JObj gs)" and "distinct (map fst fs)" and "distinct (map fst gs)"
  shows "map_option canonical (json_entry k fs) = map_option canonical (json_entry k gs)"
proof -
  have "map_of (sort_by_id fst (canonicalEntries fs)) k = map_of (sort_by_id fst (canonicalEntries gs)) k"
    using assms(1) by simp
  with assms(2,3) show ?thesis
    by (simp add: map_of_sort_by_id canonicalEntries_distinct map_of_canonicalEntries)
qed

end
