(* ===== verification/GovernanceRedaction.thy ===== *)
theory GovernanceRedaction
  imports JsonReadback
begin

text \<open>
  Redaction before persistence: \<open>src/src/enterprise/governance-store/redaction.ts\<close>. Every payload the
  governance store keeps goes through it before it is digested.

  A key is split into words where a lower case letter or digit meets an upper case letter, before the last
  letter of a run of upper case letters, and at white space, underscores, hyphens and dots; it is sensitive
  when its words contain a sensitive term and its last word is not \<open>id\<close> or \<open>ids\<close>. Objects are JSON data, as
  in \<open>CanonicalJson\<close>: no \<open>Date\<close>, and no entry called \<open>__proto__\<close>.
\<close>

section \<open>Words of a key\<close>

definition is_upper :: "char \<Rightarrow> bool" where
  "is_upper c \<longleftrightarrow> 65 \<le> (of_char c :: nat) \<and> of_char c \<le> (90 :: nat)"

definition is_lower :: "char \<Rightarrow> bool" where
  "is_lower c \<longleftrightarrow> 97 \<le> (of_char c :: nat) \<and> of_char c \<le> (122 :: nat)"

definition is_numeral :: "char \<Rightarrow> bool" where
  "is_numeral c \<longleftrightarrow> 48 \<le> (of_char c :: nat) \<and> of_char c \<le> (57 :: nat)"

text \<open>\<open>key.replace(/([a-z0-9])([A-Z])/g, '$1 $2')\<close>\<close>

fun split_camel :: "string \<Rightarrow> string" where
  "split_camel (a # b # s) =
     (if (is_lower a \<or> is_numeral a) \<and> is_upper b then a # CHR '' '' # split_camel (b # s)
      else a # split_camel (b # s))"
| "split_camel s = s"

text \<open>\<open>.replace(/([A-Z]+)([A-Z][a-z])/g, '$1 $2')\<close>\<close>

fun split_acronym :: "string \<Rightarrow> string" where
  "split_acronym (a # b # c # s) =
     (if is_upper a \<and> is_upper b \<and> is_lower c then a # CHR '' '' # split_acronym (b # c # s)
      else a # split_acronym (b # c # s))"
| "split_acronym s = s"

text \<open>
  \<open>.split(/[\s_\-.]+/)\<close>: splitting at every separator instead of every run of them only adds empty words,
  which are dropped.
\<close>

definition is_separator :: "char \<Rightarrow> bool" where
  "is_separator c \<longleftrightarrow>
     (9 \<le> (of_char c :: nat) \<and> of_char c \<le> (13 :: nat)) \<or> c = CHR '' '' \<or> c = CHR 0xA0 \<or>
     c = CHR ''_'' \<or> c = CHR ''-'' \<or> c = CHR ''.''"

fun split_at :: "(char \<Rightarrow> bool) \<Rightarrow> string \<Rightarrow> string list" where
  "split_at p [] = [[]]"
| "split_at p (c # s) =
     (if p c then [] # split_at p s
      else case split_at p s of [] \<Rightarrow> [[c]] | w # ws \<Rightarrow> (c # w) # ws)"

definition lower_char :: "char \<Rightarrow> char" where
  "lower_char c =
     (let n = of_char c :: nat
      in if (65 \<le> n \<and> n \<le> 90) \<or> (192 \<le> n \<and> n \<le> 222 \<and> n \<noteq> 215) then char_of (n + 32) else c)"

definition splitKeyIntoWords :: "string \<Rightarrow> string list" where
  "splitKeyIntoWords key =
     filter (\<lambda>w. w \<noteq> []) (map (map lower_char) (split_at is_separator (split_acronym (split_camel key))))"

fun contains_words :: "string list \<Rightarrow> string list \<Rightarrow> bool" where
  "contains_words [] ts = False"
| "contains_words (w # ws) ts = (take (length ts) (w # ws) = ts \<or> contains_words ws ts)"

definition containsConsecutiveWords :: "string list \<Rightarrow> string \<Rightarrow> bool" where
  "containsConsecutiveWords words trm = contains_words words (split_at (\<lambda>c. c = CHR '' '') trm)"

definition DEFAULT_SENSITIVE_KEY_TERMS :: "string list" where
  "DEFAULT_SENSITIVE_KEY_TERMS =
     [''authorization'', ''token'', ''api key'', ''secret'', ''password'', ''passphrase'', ''private key'',
      ''cookie'', ''session'', ''credential'', ''bearer'']"

definition isSensitiveKey :: "string \<Rightarrow> bool" where
  "isSensitiveKey key =
     (let words = splitKeyIntoWords key
      in if words = [] then False
         else if last words = ''id'' \<or> last words = ''ids'' then False
         else list_ex (containsConsecutiveWords words) DEFAULT_SENSITIVE_KEY_TERMS)"

section \<open>Redaction of a value\<close>

definition GOVERNANCE_REDACTED_VALUE :: string where
  "GOVERNANCE_REDACTED_VALUE = ''[REDACTED]''"

fun redactValue :: "json \<Rightarrow> json"
  and redactItems :: "json list \<Rightarrow> json list"
  and redactEntries :: "(string \<times> json) list \<Rightarrow> (string \<times> json) list" where
  "redactValue (JArr xs) = JArr (redactItems xs)"
| "redactValue (JObj fs) = JObj (redactEntries fs)"
| "redactValue JNull = JNull"
| "redactValue JUndefined = JUndefined"
| "redactValue (JBool b) = JBool b"
| "redactValue (JNum n) = JNum n"
| "redactValue (JStr s) = JStr s"
| "redactItems [] = []"
| "redactItems (x # xs) = redactValue x # redactItems xs"
| "redactEntries [] = []"
| "redactEntries ((k, v) # fs) =
     (case v of
        JUndefined \<Rightarrow> redactEntries fs
      | _ \<Rightarrow> (k, if isSensitiveKey k then JStr GOVERNANCE_REDACTED_VALUE else redactValue v) # redactEntries fs)"

definition redactSensitiveValues :: "json \<Rightarrow> json" where
  "redactSensitiveValues v = redactValue v"

text \<open>\<open>redactSensitiveValues({ ...fields })\<close>, of an object given by its entries\<close>

definition redactFields :: "(string \<times> json) list \<Rightarrow> (string \<times> json) list" where
  "redactFields fs = redactEntries fs"

section \<open>Nothing sensitive is left\<close>

text \<open>At any depth, a value under a sensitive key is the redaction marker.\<close>

fun redacted :: "json \<Rightarrow> bool" where
  "redacted (JArr xs) = (\<forall>x \<in> set xs. redacted x)"
| "redacted (JObj fs) =
     (\<forall>f \<in> set fs. (isSensitiveKey (fst f) \<longrightarrow> snd f = JStr GOVERNANCE_REDACTED_VALUE) \<and> redacted (snd f))"
| "redacted _ = True"

lemma redactValue_redacted:
  "redacted (redactValue v)"
  "\<forall>x \<in> set (redactItems xs). redacted x"
  "redacted (JObj (redactEntries fs))"
proof (induction v and xs and fs rule: redactValue_redactItems_redactEntries.induct)
  case (11 k v fs)
  then show ?case by (cases v) auto
qed auto

text \<open>What is kept: every other entry with a value, itself redacted, in the same order.\<close>

lemma redactEntries_filter:
  "redactEntries fs =
     map (\<lambda>f. (fst f, if isSensitiveKey (fst f) then JStr GOVERNANCE_REDACTED_VALUE else redactValue (snd f)))
       (filter (\<lambda>f. snd f \<noteq> JUndefined) fs)"
proof (induction fs)
  case (Cons f fs)
  obtain k v where "f = (k, v)" by (cases f)
  with Cons show ?case by (cases v) auto
qed simp

lemma redacted_fixed:
  "redacted v \<Longrightarrow> json_defined v \<Longrightarrow> redactValue v = v"
  "\<forall>x \<in> set xs. redacted x \<and> json_defined x \<Longrightarrow> redactItems xs = xs"
  "redacted (JObj fs) \<Longrightarrow> json_defined (JObj fs) \<Longrightarrow> redactEntries fs = fs"
proof (induction v and xs and fs rule: redactValue_redactItems_redactEntries.induct)
  case (11 k v fs)
  then show ?case by (cases v) auto
qed auto

end
