(* ===== verification/GovernanceRecords.thy ===== *)
theory GovernanceRecords
  imports GovernanceRedaction
begin

text \<open>
  The record model of the governance store (\<open>src/src/enterprise/governance-store/contracts.ts\<close>), its errors
  (\<open>errors.ts\<close>) and what the digests of an aggregate cover (the digest inputs of \<open>projection.ts\<close>).

  The kernel's request and result (\<open>src/src/kernel/contracts\<close>) and the host's events are records of the
  fields the store reads; the fields it only copies into the payloads are the JSON entries
  \<open>..._rest\<close>. A decision status, a trace status and the type of a reference are the strings the code stores:
  the store compares and serializes them and gives them no meaning. In \<open>GovernanceProjection\<close> the clock and the identifier
  generator are injected, as in the code: \<open>pd_now\<close> is what the clock returns to the call and
  \<open>pd_nextId n prefix\<close> the \<open>n\<close>-th identifier it draws.
\<close>

section \<open>Errors\<close>

datatype GovernanceIdempotencyConflictKind = IdempotencyKeyConflict | RequestIdConflict

datatype GovernanceStoreErrorCode =
    GOVERNANCE_STORE_VALIDATION_ERROR
  | GOVERNANCE_STORE_UNAVAILABLE
  | GOVERNANCE_STORE_TRANSACTION_FAILED
  | GOVERNANCE_RECORD_NOT_FOUND
  | GOVERNANCE_RECORD_CORRUPTED
  | GOVERNANCE_INTEGRITY_VERIFICATION_FAILED
  | GOVERNANCE_IDEMPOTENCY_CONFLICT GovernanceIdempotencyConflictKind
  | GOVERNANCE_TENANT_SCOPE_REQUIRED
  | GOVERNANCE_ACCESS_SCOPE_VIOLATION
  | GOVERNANCE_RECORD_TOO_LARGE
  | GOVERNANCE_TRACE_LIMIT_EXCEEDED
  | GOVERNANCE_EVENT_PAYLOAD_TOO_LARGE
  | GOVERNANCE_SCHEMA_VERSION_UNSUPPORTED

type_synonym 'a store_outcome = "GovernanceStoreErrorCode + 'a"

section \<open>What the kernel and the host hand over\<close>

record ActorReference =
  ar_id :: string
  ar_type :: "string option"
  ar_rest :: "(string \<times> json) list"

record ActionDescriptor =
  ad_type :: string
  ad_domain :: "string option"
  ad_resourceScope :: string
  ad_rest :: "(string \<times> json) list"

record TargetReference =
  tf_id :: "string option"
  tf_type :: "string option"
  tf_rest :: "(string \<times> json) list"

record OrganizationReference =
  of_id :: string
  of_rest :: "(string \<times> json) list"

record KernelEvaluationRequest =
  er_requestId :: string
  er_actor :: ActorReference
  er_action :: ActionDescriptor
  er_target :: "TargetReference option"
  er_organization :: "OrganizationReference option"
  er_requestedAt :: string
  er_correlationId :: "string option"
  er_rest :: "(string \<times> json) list"

record KernelTraceStep =
  kt_sequence :: int
  kt_operator :: string
  kt_status :: string
  kt_reasonCodes :: "string list"
  kt_startedAt :: "string option"
  kt_completedAt :: "string option"
  kt_metadata :: "(string \<times> json) list option"

record KernelEvaluation =
  el_requestId :: string
  el_decisionId :: string
  el_status :: string
  el_reasonCodes :: "string list"
  el_summary :: string
  el_steps :: "KernelTraceStep list"
  el_evaluatedAt :: string
  el_kernelVersion :: string
  el_correlationId :: "string option"
  el_rest :: "(string \<times> json) list"

record EnterpriseEvent =
  ee_eventId :: string
  ee_type :: string
  ee_occurredAt :: string
  ee_requestId :: "string option"
  ee_decisionId :: "string option"
  ee_correlationId :: "string option"
  ee_lifecycleCorrelationId :: "string option"
  ee_enterpriseVersion :: "string option"
  ee_moduleId :: "string option"
  ee_rest :: "(string \<times> json) list"

section \<open>Records\<close>

record GovernanceRequestRecord =
  qr_recordId :: string
  qr_requestId :: string
  qr_correlationId :: "string option"
  qr_actorId :: string
  qr_actorType :: "string option"
  qr_organizationId :: "string option"
  qr_actionType :: string
  qr_actionDomain :: "string option"
  qr_resourceScope :: string
  qr_targetType :: "string option"
  qr_targetId :: "string option"
  qr_requestedAt :: string
  qr_receivedAt :: string
  qr_requestContract :: string
  qr_requestPayload :: json
  qr_payloadDigest :: string

record GovernanceEvaluationRecord =
  vl_recordId :: string
  vl_evaluationId :: string
  vl_decisionId :: string
  vl_requestId :: string
  vl_correlationId :: "string option"
  vl_status :: string
  vl_summary :: string
  vl_reasonCodes :: "string list"
  vl_evaluatedAt :: string
  vl_persistedAt :: string
  vl_kernelVersion :: string
  vl_enterpriseVersion :: string
  vl_evaluationContract :: string
  vl_resultPayload :: json
  vl_resultDigest :: string

record GovernanceTraceRecord =
  tp_traceRecordId :: string
  tp_evaluationId :: string
  tp_sequence :: int
  tp_operator :: string
  tp_status :: string
  tp_reasonCodes :: "string list"
  tp_startedAt :: "string option"
  tp_completedAt :: "string option"
  tp_metadata :: "json option"
  tp_traceContract :: string
  tp_traceDigest :: string

record GovernanceReasonRecord =
  rn_reasonRecordId :: string
  rn_evaluationId :: string
  rn_sequence :: int
  rn_reasonCode :: string

datatype GovernanceEventAggregateType =
    AggregateGovernanceRequest | AggregateGovernanceEvaluation | AggregateEnterpriseLifecycle | AggregateEnterpriseModule

record GovernanceEventRecord =
  vt_eventId :: string
  vt_eventType :: string
  vt_aggregateType :: GovernanceEventAggregateType
  vt_aggregateId :: string
  vt_requestId :: "string option"
  vt_decisionId :: "string option"
  vt_correlationId :: "string option"
  vt_causationId :: "string option"
  vt_sequence :: "int option"
  vt_occurredAt :: string
  vt_persistedAt :: string
  vt_enterpriseVersion :: string
  vt_kernelVersion :: "string option"
  vt_eventContract :: string
  vt_eventPayload :: json
  vt_eventDigest :: string

record GovernanceModuleSnapshot =
  gp_moduleId :: string
  gp_version :: string
  gp_state :: string
  gp_required :: bool

record GovernanceProviderSnapshot =
  pv_providerType :: string
  pv_providerId :: "string option"
  pv_providerVersion :: "string option"
  pv_ready :: bool

record GovernanceRecordMetadata =
  mt_metadataId :: string
  mt_evaluationId :: string
  mt_enterpriseVersion :: string
  mt_kernelVersion :: string
  mt_lifecycleState :: string
  mt_moduleSnapshot :: "GovernanceModuleSnapshot list"
  mt_providerSnapshot :: "GovernanceProviderSnapshot list option"
  mt_environment :: "string option"
  mt_buildVersion :: "string option"
  mt_createdAt :: string
  mt_schemaVersion :: string
  mt_migrationSource :: "string option"

record GovernanceIntegrityMetadata =
  ig_integrityId :: string
  ig_evaluationId :: string
  ig_algorithm :: string
  ig_canonicalizationVersion :: string
  ig_requestDigest :: string
  ig_evaluationDigest :: string
  ig_traceDigest :: string
  ig_eventsDigest :: string
  ig_metadataDigest :: string
  ig_aggregateDigest :: string
  ig_previousAggregateDigest :: "string option"
  ig_chainPosition :: int
  ig_createdAt :: string

record GovernanceReferenceInput =
  rf_referenceId :: string
  rf_evaluationId :: string
  rf_referenceType :: string
  rf_externalId :: string
  rf_externalVersion :: "string option"
  rf_digest :: "string option"
  rf_uri :: "string option"
  rf_createdAt :: string

record GovernanceReferenceRecord = GovernanceReferenceInput +
  rf_sequence :: "int option"
  rf_integrityVersion :: "string option"
  rf_previousReferenceDigest :: "string option"
  rf_referenceDigest :: "string option"

record GovernanceReferenceChainState =
  ch_evaluationId :: string
  ch_integrityVersion :: string
  ch_latestSequence :: int
  ch_latestReferenceDigest :: string
  ch_updatedAt :: string

record GovernanceRecord =
  gr_recordId :: string
  gr_request :: GovernanceRequestRecord
  gr_evaluation :: GovernanceEvaluationRecord
  gr_trace :: "GovernanceTraceRecord list"
  gr_reasons :: "GovernanceReasonRecord list"
  gr_events :: "GovernanceEventRecord list"
  gr_metadata :: GovernanceRecordMetadata
  gr_integrity :: GovernanceIntegrityMetadata
  gr_references :: "GovernanceReferenceRecord list"

record GovernanceStoreAccessContext =
  ax_organizationId :: "string option"
  ax_actorId :: "string option"
  ax_system :: bool

record GovernanceIdempotencyContext =
  dk_idempotencyKey :: string
  dk_scope :: string

record EnterpriseModuleSnapshot_governance =
  em_id :: string
  em_version :: string
  em_state :: string
  em_required :: bool

record GovernanceEnterpriseContext =
  ec_enterpriseVersion :: string
  ec_lifecycleState :: string
  ec_modules :: "EnterpriseModuleSnapshot_governance list"
  ec_providers :: "GovernanceProviderSnapshot list option"
  ec_buildVersion :: "string option"
  ec_environment :: "string option"

record AppendGovernanceEvaluationInput =
  ap_request :: KernelEvaluationRequest
  ap_result :: KernelEvaluation
  ap_receivedAt :: string
  ap_enterpriseContext :: GovernanceEnterpriseContext
  ap_events :: "EnterpriseEvent list"
  ap_idempotency :: "GovernanceIdempotencyContext option"
  ap_accessContext :: GovernanceStoreAccessContext

definition GOVERNANCE_STORE_SCHEMA_VERSION :: string where
  "GOVERNANCE_STORE_SCHEMA_VERSION = ''aoc.governance-store.schema.v1''"

definition GOVERNANCE_REFERENCE_INTEGRITY_VERSION :: string where
  "GOVERNANCE_REFERENCE_INTEGRITY_VERSION = ''aoc.governance-reference-integrity.v1''"

definition GOVERNANCE_REFERENCE_TYPES :: "string list" where
  "GOVERNANCE_REFERENCE_TYPES =
     [''passport_event'', ''evidence_bundle'', ''assurance_record'', ''execution_record'', ''external_artifact'',
      ''authorization_artifact'']"

definition isCanonicalGovernanceReferenceType :: "string \<Rightarrow> bool" where
  "isCanonicalGovernanceReferenceType t \<longleftrightarrow> t \<in> set GOVERNANCE_REFERENCE_TYPES"

section \<open>Records as JSON\<close>

definition opt_json :: "string \<Rightarrow> json option \<Rightarrow> (string \<times> json) list" where
  "opt_json k v = (case v of None \<Rightarrow> [] | Some j \<Rightarrow> [(k, j)])"

definition strs :: "string list \<Rightarrow> json" where
  "strs xs = JArr (map JStr xs)"

definition actorEntries :: "ActorReference \<Rightarrow> (string \<times> json) list" where
  "actorEntries a = [(''id'', JStr (ar_id a))] @ opt_field ''type'' (ar_type a) @ ar_rest a"

definition actionEntries :: "ActionDescriptor \<Rightarrow> (string \<times> json) list" where
  "actionEntries a =
     [(''type'', JStr (ad_type a))] @ opt_field ''domain'' (ad_domain a) @
     [(''resourceScope'', JStr (ad_resourceScope a))] @ ad_rest a"

definition targetEntries :: "TargetReference \<Rightarrow> (string \<times> json) list" where
  "targetEntries t = opt_field ''id'' (tf_id t) @ opt_field ''type'' (tf_type t) @ tf_rest t"

definition organizationEntries :: "OrganizationReference \<Rightarrow> (string \<times> json) list" where
  "organizationEntries o' = [(''id'', JStr (of_id o'))] @ of_rest o'"

text \<open>\<open>{ ...request }\<close>\<close>

definition requestEntries :: "KernelEvaluationRequest \<Rightarrow> (string \<times> json) list" where
  "requestEntries q =
     [(''requestId'', JStr (er_requestId q)), (''actor'', JObj (actorEntries (er_actor q))),
      (''action'', JObj (actionEntries (er_action q)))] @
     opt_json ''target'' (map_option (JObj \<circ> targetEntries) (er_target q)) @
     opt_json ''organization'' (map_option (JObj \<circ> organizationEntries) (er_organization q)) @
     [(''requestedAt'', JStr (er_requestedAt q))] @ opt_field ''correlationId'' (er_correlationId q) @ er_rest q"

text \<open>The result without its trace, which is kept as records of its own.\<close>

definition resultEntries :: "KernelEvaluation \<Rightarrow> (string \<times> json) list" where
  "resultEntries l =
     [(''requestId'', JStr (el_requestId l)), (''decisionId'', JStr (el_decisionId l)),
      (''status'', JStr (el_status l)), (''reasonCodes'', strs (el_reasonCodes l)),
      (''summary'', JStr (el_summary l)), (''evaluatedAt'', JStr (el_evaluatedAt l)),
      (''kernelVersion'', JStr (el_kernelVersion l))] @
     opt_field ''correlationId'' (el_correlationId l) @ el_rest l"

section \<open>Digest inputs\<close>

definition requestRecordDigestInput :: "GovernanceRequestRecord \<Rightarrow> json" where
  "requestRecordDigestInput r = JObj
     ([(''recordId'', JStr (qr_recordId r)), (''requestId'', JStr (qr_requestId r))] @
      opt_field ''correlationId'' (qr_correlationId r) @ [(''actorId'', JStr (qr_actorId r))] @
      opt_field ''actorType'' (qr_actorType r) @ opt_field ''organizationId'' (qr_organizationId r) @
      [(''actionType'', JStr (qr_actionType r))] @ opt_field ''actionDomain'' (qr_actionDomain r) @
      [(''resourceScope'', JStr (qr_resourceScope r))] @ opt_field ''targetType'' (qr_targetType r) @
      opt_field ''targetId'' (qr_targetId r) @
      [(''requestedAt'', JStr (qr_requestedAt r)), (''receivedAt'', JStr (qr_receivedAt r)),
       (''requestContract'', JStr (qr_requestContract r)), (''requestPayload'', qr_requestPayload r),
       (''payloadDigest'', JStr (qr_payloadDigest r))])"

definition evaluationRecordDigestInput :: "GovernanceEvaluationRecord \<Rightarrow> json" where
  "evaluationRecordDigestInput r = JObj
     ([(''recordId'', JStr (vl_recordId r)), (''evaluationId'', JStr (vl_evaluationId r)),
       (''decisionId'', JStr (vl_decisionId r)), (''requestId'', JStr (vl_requestId r))] @
      opt_field ''correlationId'' (vl_correlationId r) @
      [(''status'', JStr (vl_status r)), (''summary'', JStr (vl_summary r)),
       (''reasonCodes'', strs (vl_reasonCodes r)), (''evaluatedAt'', JStr (vl_evaluatedAt r)),
       (''persistedAt'', JStr (vl_persistedAt r)), (''kernelVersion'', JStr (vl_kernelVersion r)),
       (''enterpriseVersion'', JStr (vl_enterpriseVersion r)),
       (''evaluationContract'', JStr (vl_evaluationContract r)), (''resultPayload'', vl_resultPayload r),
       (''resultDigest'', JStr (vl_resultDigest r))])"

definition traceStepEntries :: "GovernanceTraceRecord \<Rightarrow> (string \<times> json) list" where
  "traceStepEntries r =
     [(''traceRecordId'', JStr (tp_traceRecordId r)), (''evaluationId'', JStr (tp_evaluationId r)),
      (''sequence'', JNum (tp_sequence r)), (''operator'', JStr (tp_operator r)),
      (''status'', JStr (tp_status r)), (''reasonCodes'', strs (tp_reasonCodes r))] @
     opt_field ''startedAt'' (tp_startedAt r) @ opt_field ''completedAt'' (tp_completedAt r) @
     opt_json ''metadata'' (tp_metadata r) @ [(''traceContract'', JStr (tp_traceContract r))]"

definition traceStepDigestInput :: "GovernanceTraceRecord \<Rightarrow> json" where
  "traceStepDigestInput r = JObj (traceStepEntries r)"

definition by_sequence :: "('a \<Rightarrow> int) \<Rightarrow> 'a list \<Rightarrow> 'a list" where
  "by_sequence f xs = sort_key f xs"

definition traceRecordsDigestInput :: "GovernanceTraceRecord list \<Rightarrow> json" where
  "traceRecordsDigestInput rs = JArr
     (map (\<lambda>r. JObj (traceStepEntries r @ [(''traceDigest'', JStr (tp_traceDigest r))])) (by_sequence tp_sequence rs))"

fun aggregateType_text :: "GovernanceEventAggregateType \<Rightarrow> string" where
  "aggregateType_text AggregateGovernanceRequest = ''governance_request''"
| "aggregateType_text AggregateGovernanceEvaluation = ''governance_evaluation''"
| "aggregateType_text AggregateEnterpriseLifecycle = ''enterprise_lifecycle''"
| "aggregateType_text AggregateEnterpriseModule = ''enterprise_module''"

definition eventEntries :: "GovernanceEventRecord \<Rightarrow> (string \<times> json) list" where
  "eventEntries r =
     [(''eventId'', JStr (vt_eventId r)), (''eventType'', JStr (vt_eventType r)),
      (''aggregateType'', JStr (aggregateType_text (vt_aggregateType r))),
      (''aggregateId'', JStr (vt_aggregateId r))] @
     opt_field ''requestId'' (vt_requestId r) @ opt_field ''decisionId'' (vt_decisionId r) @
     opt_field ''correlationId'' (vt_correlationId r) @ opt_field ''causationId'' (vt_causationId r) @
     opt_json ''sequence'' (map_option JNum (vt_sequence r)) @
     [(''occurredAt'', JStr (vt_occurredAt r)), (''persistedAt'', JStr (vt_persistedAt r)),
      (''enterpriseVersion'', JStr (vt_enterpriseVersion r))] @
     opt_field ''kernelVersion'' (vt_kernelVersion r) @
     [(''eventContract'', JStr (vt_eventContract r)), (''eventPayload'', vt_eventPayload r)]"

definition eventRecordDigestInput :: "GovernanceEventRecord \<Rightarrow> json" where
  "eventRecordDigestInput r = JObj (eventEntries r)"

definition eventRecordsDigestInput :: "GovernanceEventRecord list \<Rightarrow> json" where
  "eventRecordsDigestInput rs = JArr
     (map (\<lambda>r. JObj (eventEntries r @ [(''eventDigest'', JStr (vt_eventDigest r))]))
       (by_sequence (\<lambda>r. case vt_sequence r of None \<Rightarrow> 0 | Some n \<Rightarrow> n) rs))"

definition moduleSnapshotJson :: "GovernanceModuleSnapshot \<Rightarrow> json" where
  "moduleSnapshotJson m = JObj
     [(''moduleId'', JStr (gp_moduleId m)), (''version'', JStr (gp_version m)), (''state'', JStr (gp_state m)),
      (''required'', JBool (gp_required m))]"

definition providerSnapshotJson :: "GovernanceProviderSnapshot \<Rightarrow> json" where
  "providerSnapshotJson p = JObj
     ([(''providerType'', JStr (pv_providerType p))] @ opt_field ''providerId'' (pv_providerId p) @
      opt_field ''providerVersion'' (pv_providerVersion p) @ [(''ready'', JBool (pv_ready p))])"

definition metadataDigestInput :: "GovernanceRecordMetadata \<Rightarrow> json" where
  "metadataDigestInput m = JObj
     ([(''metadataId'', JStr (mt_metadataId m)), (''evaluationId'', JStr (mt_evaluationId m)),
       (''enterpriseVersion'', JStr (mt_enterpriseVersion m)), (''kernelVersion'', JStr (mt_kernelVersion m)),
       (''lifecycleState'', JStr (mt_lifecycleState m)),
       (''moduleSnapshot'', JArr (map moduleSnapshotJson (mt_moduleSnapshot m)))] @
      opt_json ''providerSnapshot'' (map_option (\<lambda>ps. JArr (map providerSnapshotJson ps)) (mt_providerSnapshot m)) @
      opt_field ''environment'' (mt_environment m) @ opt_field ''buildVersion'' (mt_buildVersion m) @
      [(''createdAt'', JStr (mt_createdAt m)), (''schemaVersion'', JStr (mt_schemaVersion m))] @
      opt_field ''migrationSource'' (mt_migrationSource m))"

definition aggregateDigestInput ::
  "string \<Rightarrow> string \<Rightarrow> string \<Rightarrow> string \<Rightarrow> string \<Rightarrow> string option \<Rightarrow> json" where
  "aggregateDigestInput requestDigest evaluationDigest traceDigest eventsDigest metadataDigest previous = JObj
     ([(''requestDigest'', JStr requestDigest), (''evaluationDigest'', JStr evaluationDigest),
       (''traceDigest'', JStr traceDigest), (''eventsDigest'', JStr eventsDigest),
       (''metadataDigest'', JStr metadataDigest)] @ opt_field ''previousAggregateDigest'' previous)"

definition computeAggregateDigest ::
  "(string \<Rightarrow> string) \<Rightarrow> string \<Rightarrow> string \<Rightarrow> string \<Rightarrow> string \<Rightarrow> string \<Rightarrow> string option \<Rightarrow> string" where
  "computeAggregateDigest sha requestDigest evaluationDigest traceDigest eventsDigest metadataDigest previous =
     computeDigest sha
       (aggregateDigestInput requestDigest evaluationDigest traceDigest eventsDigest metadataDigest previous)"

end
