(* ===== verification/GovernanceProjection.thy ===== *)
theory GovernanceProjection
  imports GovernanceRecords
begin

text \<open>
  The persistence projection (\<open>src/src/enterprise/governance-store/projection.ts\<close>): from a request, its
  evaluation and the host's context to the redacted, bounded and sealed records of one aggregate. The
  builder is pure: what the clock and the identifier generator return to it is part of its argument.
\<close>

section \<open>Limits\<close>

record GovernanceStoreLimits =
  lm_maxRequestPayloadBytes :: int
  lm_maxResultPayloadBytes :: int
  lm_maxEventPayloadBytes :: int
  lm_maxTraceSteps :: int

definition DEFAULT_GOVERNANCE_STORE_LIMITS :: GovernanceStoreLimits where
  "DEFAULT_GOVERNANCE_STORE_LIMITS =
     \<lparr>lm_maxRequestPayloadBytes = 262144, lm_maxResultPayloadBytes = 524288, lm_maxEventPayloadBytes = 65536,
      lm_maxTraceSteps = 500\<rparr>"

definition validateGovernanceStoreLimits :: "GovernanceStoreLimits \<Rightarrow> unit store_outcome" where
  "validateGovernanceStoreLimits l =
     (if lm_maxRequestPayloadBytes l \<le> 0 \<or> lm_maxResultPayloadBytes l \<le> 0 \<or> lm_maxEventPayloadBytes l \<le> 0 \<or>
         lm_maxTraceSteps l \<le> 0
      then Inl GOVERNANCE_STORE_VALIDATION_ERROR else Inr ())"

record GovernanceProjectionDependencies =
  pd_now :: string
  pd_nextId :: "nat \<Rightarrow> string \<Rightarrow> string"
  pd_limits :: GovernanceStoreLimits

text \<open>
  \<open>Buffer.byteLength(text, 'utf8')\<close>: a code unit below 128 takes one byte, the others of a \<^typ>\<open>char\<close> two.
\<close>

definition byteLength :: "json \<Rightarrow> int" where
  "byteLength v = sum_list (map (\<lambda>c. if of_char c < (128 :: nat) then 1 else 2) (canonicalSerialize v))"

section \<open>Payloads\<close>

definition projectRequestPayload :: "KernelEvaluationRequest \<Rightarrow> json" where
  "projectRequestPayload q = redactSensitiveValues (JObj (requestEntries q))"

definition computeGovernanceRequestPayloadDigest :: "(string \<Rightarrow> string) \<Rightarrow> KernelEvaluationRequest \<Rightarrow> string" where
  "computeGovernanceRequestPayloadDigest sha q = computeDigest sha (projectRequestPayload q)"

definition projectResultPayload :: "KernelEvaluation \<Rightarrow> json" where
  "projectResultPayload l = redactSensitiveValues (JObj (resultEntries l))"

definition request_org :: "KernelEvaluationRequest \<Rightarrow> string option" where
  "request_org q = map_option of_id (er_organization q)"

section \<open>Records of one aggregate\<close>

definition validateAppendInput :: "AppendGovernanceEvaluationInput \<Rightarrow> unit store_outcome" where
  "validateAppendInput input =
     (if er_requestId (ap_request input) = [] \<or> el_decisionId (ap_result input) = [] \<or>
         el_requestId (ap_result input) \<noteq> er_requestId (ap_request input) \<or> ap_receivedAt input = []
      then Inl GOVERNANCE_STORE_VALIDATION_ERROR
      else if \<not> ax_system (ap_accessContext input) \<and>
              ax_organizationId (ap_accessContext input) \<noteq> request_org (ap_request input)
      then Inl GOVERNANCE_ACCESS_SCOPE_VIOLATION
      else Inr ())"

definition requestRecord ::
  "(string \<Rightarrow> string) \<Rightarrow> string \<Rightarrow> AppendGovernanceEvaluationInput \<Rightarrow> GovernanceRequestRecord" where
  "requestRecord sha recordId input =
     (let q = ap_request input
      in \<lparr>qr_recordId = recordId, qr_requestId = er_requestId q, qr_correlationId = er_correlationId q,
          qr_actorId = ar_id (er_actor q), qr_actorType = ar_type (er_actor q),
          qr_organizationId = request_org q, qr_actionType = ad_type (er_action q),
          qr_actionDomain = ad_domain (er_action q), qr_resourceScope = ad_resourceScope (er_action q),
          qr_targetType = (case er_target q of None \<Rightarrow> None | Some t \<Rightarrow> tf_type t),
          qr_targetId = (case er_target q of None \<Rightarrow> None | Some t \<Rightarrow> tf_id t),
          qr_requestedAt = er_requestedAt q, qr_receivedAt = ap_receivedAt input,
          qr_requestContract = ''aoc.governance-request-record.v1'',
          qr_requestPayload = projectRequestPayload q,
          qr_payloadDigest = computeDigest sha (projectRequestPayload q)\<rparr>)"

definition evaluationRecord ::
  "(string \<Rightarrow> string) \<Rightarrow> string \<Rightarrow> string \<Rightarrow> string \<Rightarrow> AppendGovernanceEvaluationInput \<Rightarrow> GovernanceEvaluationRecord" where
  "evaluationRecord sha recordId evaluationId persistedAt input =
     (let l = ap_result input
      in \<lparr>vl_recordId = recordId, vl_evaluationId = evaluationId, vl_decisionId = el_decisionId l,
          vl_requestId = el_requestId l, vl_correlationId = el_correlationId l, vl_status = el_status l,
          vl_summary = el_summary l, vl_reasonCodes = el_reasonCodes l, vl_evaluatedAt = el_evaluatedAt l,
          vl_persistedAt = persistedAt, vl_kernelVersion = el_kernelVersion l,
          vl_enterpriseVersion = ec_enterpriseVersion (ap_enterpriseContext input),
          vl_evaluationContract = ''aoc.governance-evaluation-record.v1'',
          vl_resultPayload = projectResultPayload l,
          vl_resultDigest = computeDigest sha (projectResultPayload l)\<rparr>)"

text \<open>A record without its own digest is written with an empty one, which its digest input leaves out.\<close>

definition traceRecord :: "(string \<Rightarrow> string) \<Rightarrow> string \<Rightarrow> string \<Rightarrow> KernelTraceStep \<Rightarrow> GovernanceTraceRecord" where
  "traceRecord sha traceRecordId evaluationId step =
     (let withoutDigest =
        \<lparr>tp_traceRecordId = traceRecordId, tp_evaluationId = evaluationId, tp_sequence = kt_sequence step,
         tp_operator = kt_operator step, tp_status = kt_status step, tp_reasonCodes = kt_reasonCodes step,
         tp_startedAt = kt_startedAt step, tp_completedAt = kt_completedAt step,
         tp_metadata = map_option (\<lambda>fs. redactSensitiveValues (JObj fs)) (kt_metadata step),
         tp_traceContract = ''aoc.governance-trace-record.v1'', tp_traceDigest = []\<rparr>
      in withoutDigest\<lparr>tp_traceDigest := computeDigest sha (traceStepDigestInput withoutDigest)\<rparr>)"

definition reasonRecord :: "string \<Rightarrow> string \<Rightarrow> nat \<Rightarrow> string \<Rightarrow> GovernanceReasonRecord" where
  "reasonRecord reasonRecordId evaluationId index reasonCode =
     \<lparr>rn_reasonRecordId = reasonRecordId, rn_evaluationId = evaluationId, rn_sequence = int index + 1,
      rn_reasonCode = reasonCode\<rparr>"

text \<open>
  The event without the fields that get columns of their own; a life cycle event in the aggregate keeps its
  other fields in the payload.
\<close>

definition evaluationEventPayload :: "EnterpriseEvent \<Rightarrow> json" where
  "evaluationEventPayload ev = redactSensitiveValues (JObj
     (opt_field ''enterpriseVersion'' (ee_enterpriseVersion ev) @
      opt_field ''lifecycleCorrelationId'' (ee_lifecycleCorrelationId ev) @
      opt_field ''moduleId'' (ee_moduleId ev) @ ee_rest ev))"

definition toEvaluationEventRecord ::
  "(string \<Rightarrow> string) \<Rightarrow> GovernanceStoreLimits \<Rightarrow> string \<Rightarrow> string \<Rightarrow> string \<Rightarrow> string \<Rightarrow> string option \<Rightarrow> nat \<Rightarrow>
     EnterpriseEvent \<Rightarrow> GovernanceEventRecord store_outcome" where
  "toEvaluationEventRecord sha limits evaluationId enterpriseVersion kernelVersion persistedAt causationId index ev =
     (let eventPayload = evaluationEventPayload ev
      in if byteLength eventPayload > lm_maxEventPayloadBytes limits
         then Inl GOVERNANCE_EVENT_PAYLOAD_TOO_LARGE
         else (let withoutDigest =
                 \<lparr>vt_eventId = ee_eventId ev, vt_eventType = ee_type ev,
                  vt_aggregateType = AggregateGovernanceEvaluation, vt_aggregateId = evaluationId,
                  vt_requestId = ee_requestId ev, vt_decisionId = ee_decisionId ev,
                  vt_correlationId = ee_correlationId ev, vt_causationId = causationId,
                  vt_sequence = Some (int index + 1), vt_occurredAt = ee_occurredAt ev,
                  vt_persistedAt = persistedAt, vt_enterpriseVersion = enterpriseVersion,
                  vt_kernelVersion = Some kernelVersion, vt_eventContract = ''aoc.governance-event-record.v1'',
                  vt_eventPayload = eventPayload, vt_eventDigest = []\<rparr>
               in Inr (withoutDigest\<lparr>vt_eventDigest := computeDigest sha (eventRecordDigestInput withoutDigest)\<rparr>)))"

text \<open>The event that asked for the evaluation is the cause of those after it, when it comes first.\<close>

definition causationSource :: "EnterpriseEvent list \<Rightarrow> string option" where
  "causationSource evs =
     (case evs of
        [] \<Rightarrow> None
      | ev # _ \<Rightarrow> if ee_type ev = ''GovernanceEvaluationRequested'' then Some (ee_eventId ev) else None)"

definition metadataRecord :: "string \<Rightarrow> string \<Rightarrow> string \<Rightarrow> AppendGovernanceEvaluationInput \<Rightarrow> GovernanceRecordMetadata" where
  "metadataRecord metadataId evaluationId persistedAt input =
     (let c = ap_enterpriseContext input
      in \<lparr>mt_metadataId = metadataId, mt_evaluationId = evaluationId,
          mt_enterpriseVersion = ec_enterpriseVersion c, mt_kernelVersion = el_kernelVersion (ap_result input),
          mt_lifecycleState = ec_lifecycleState c,
          mt_moduleSnapshot = map (\<lambda>m. \<lparr>gp_moduleId = em_id m, gp_version = em_version m, gp_state = em_state m,
            gp_required = em_required m\<rparr>) (ec_modules c),
          mt_providerSnapshot = ec_providers c, mt_environment = ec_environment c,
          mt_buildVersion = ec_buildVersion c, mt_createdAt = persistedAt,
          mt_schemaVersion = GOVERNANCE_STORE_SCHEMA_VERSION, mt_migrationSource = None\<rparr>)"

definition integrityRecord ::
  "(string \<Rightarrow> string) \<Rightarrow> string \<Rightarrow> string \<Rightarrow> string \<Rightarrow> string option \<Rightarrow> int \<Rightarrow> GovernanceRequestRecord \<Rightarrow>
     GovernanceEvaluationRecord \<Rightarrow> GovernanceTraceRecord list \<Rightarrow> GovernanceEventRecord list \<Rightarrow>
     GovernanceRecordMetadata \<Rightarrow> GovernanceIntegrityMetadata" where
  "integrityRecord sha integrityId evaluationId persistedAt previous position q l traces events m =
     (let requestDigest = computeDigest sha (requestRecordDigestInput q);
          evaluationDigest = computeDigest sha (evaluationRecordDigestInput l);
          traceDigest = computeDigest sha (traceRecordsDigestInput traces);
          eventsDigest = computeDigest sha (eventRecordsDigestInput events);
          metadataDigest = computeDigest sha (metadataDigestInput m)
      in \<lparr>ig_integrityId = integrityId, ig_evaluationId = evaluationId, ig_algorithm = ''sha256'',
          ig_canonicalizationVersion = ''aoc.canonical-json.v1'', ig_requestDigest = requestDigest,
          ig_evaluationDigest = evaluationDigest, ig_traceDigest = traceDigest, ig_eventsDigest = eventsDigest,
          ig_metadataDigest = metadataDigest,
          ig_aggregateDigest =
            computeAggregateDigest sha requestDigest evaluationDigest traceDigest eventsDigest metadataDigest previous,
          ig_previousAggregateDigest = previous, ig_chainPosition = position, ig_createdAt = persistedAt\<rparr>)"

definition numbered :: "'a list \<Rightarrow> (nat \<times> 'a) list" where
  "numbered xs = List.enumerate 0 xs"

definition evaluationEvents ::
  "(string \<Rightarrow> string) \<Rightarrow> GovernanceProjectionDependencies \<Rightarrow> AppendGovernanceEvaluationInput \<Rightarrow>
     GovernanceEventRecord list store_outcome" where
  "evaluationEvents sha deps input =
     mapR (\<lambda>(i, ev). toEvaluationEventRecord sha (pd_limits deps) (pd_nextId deps 1 ''gov-evaluation'')
         (ec_enterpriseVersion (ap_enterpriseContext input)) (el_kernelVersion (ap_result input)) (pd_now deps)
         (if i > 0 then causationSource (ap_events input) else None) i ev)
       (numbered (ap_events input))"

text \<open>The records put together, once every check has passed.\<close>

definition assembleAggregate ::
  "(string \<Rightarrow> string) \<Rightarrow> GovernanceProjectionDependencies \<Rightarrow> string option \<Rightarrow> int \<Rightarrow> AppendGovernanceEvaluationInput \<Rightarrow>
     GovernanceEventRecord list \<Rightarrow> GovernanceRecord" where
  "assembleAggregate sha deps previous position input events =
     (let steps = el_steps (ap_result input); codes = el_reasonCodes (ap_result input);
          draw = pd_nextId deps; persistedAt = pd_now deps; evaluationId = draw 1 ''gov-evaluation'';
          q = requestRecord sha (draw 0 ''gov-request-record'') input;
          l = evaluationRecord sha (draw 2 ''gov-evaluation-record'') evaluationId persistedAt input;
          traces = map (\<lambda>(i, step). traceRecord sha (draw (3 + i) ''gov-trace-record'') evaluationId step)
            (numbered steps);
          reasons = map (\<lambda>(i, code).
            reasonRecord (draw (3 + length steps + i) ''gov-reason-record'') evaluationId i code) (numbered codes);
          m = metadataRecord (draw (3 + length steps + length codes) ''gov-metadata'') evaluationId persistedAt input
      in \<lparr>gr_recordId = vl_recordId l, gr_request = q, gr_evaluation = l, gr_trace = traces,
          gr_reasons = reasons, gr_events = events, gr_metadata = m,
          gr_integrity = integrityRecord sha (draw (4 + length steps + length codes) ''gov-integrity'')
            evaluationId persistedAt previous position q l traces events m,
          gr_references = []\<rparr>)"

definition buildGovernanceAggregate ::
  "(string \<Rightarrow> string) \<Rightarrow> GovernanceProjectionDependencies \<Rightarrow> string option \<Rightarrow> int \<Rightarrow> AppendGovernanceEvaluationInput \<Rightarrow>
     GovernanceRecord store_outcome" where
  "buildGovernanceAggregate sha deps previous position input =
     rbind (validateAppendInput input) (\<lambda>_.
       let limits = pd_limits deps; result = ap_result input
       in if byteLength (projectRequestPayload (ap_request input)) > lm_maxRequestPayloadBytes limits
          then Inl GOVERNANCE_RECORD_TOO_LARGE
          else if byteLength (projectResultPayload result) > lm_maxResultPayloadBytes limits
          then Inl GOVERNANCE_RECORD_TOO_LARGE
          else if int (length (el_steps result)) > lm_maxTraceSteps limits
          then Inl GOVERNANCE_TRACE_LIMIT_EXCEEDED
          else if \<not> distinct (map kt_sequence (el_steps result))
          then Inl GOVERNANCE_STORE_VALIDATION_ERROR
          else rbind (evaluationEvents sha deps input)
            (\<lambda>events. Inr (assembleAggregate sha deps previous position input events)))"

end
