(* ===== verification/GovernanceReferences.thy ===== *)
theory GovernanceReferences
  imports GovernanceProjection
begin

text \<open>
  The chain of references of one evaluation
  (\<open>src/src/enterprise/governance-store/reference-integrity.ts\<close>): how a reference is sealed, how a chain is
  verified, and what a chain that verifies says. A failure carries what its message names.
\<close>

section \<open>Sealing\<close>

definition nullable :: "string option \<Rightarrow> json" where
  "nullable v = (case v of None \<Rightarrow> JNull | Some s \<Rightarrow> JStr s)"

record GovernanceReferenceDigestInput =
  di_referenceId :: string
  di_evaluationId :: string
  di_organizationId :: "string option"
  di_sequence :: int
  di_referenceType :: string
  di_externalId :: string
  di_externalVersion :: "string option"
  di_digest :: "string option"
  di_uri :: "string option"
  di_createdAt :: string
  di_integrityVersion :: string
  di_previousReferenceDigest :: "string option"

definition referenceDigestEntries :: "GovernanceReferenceDigestInput \<Rightarrow> (string \<times> json) list" where
  "referenceDigestEntries i =
     [(''referenceId'', JStr (di_referenceId i)), (''evaluationId'', JStr (di_evaluationId i)),
      (''organizationId'', nullable (di_organizationId i)), (''sequence'', JNum (di_sequence i)),
      (''referenceType'', JStr (di_referenceType i)), (''externalId'', JStr (di_externalId i)),
      (''externalVersion'', nullable (di_externalVersion i)), (''digest'', nullable (di_digest i)),
      (''uri'', nullable (di_uri i)), (''createdAt'', JStr (di_createdAt i)),
      (''integrityVersion'', JStr (di_integrityVersion i)),
      (''previousReferenceDigest'', nullable (di_previousReferenceDigest i))]"

definition referenceDigestInput :: "GovernanceReferenceDigestInput \<Rightarrow> json" where
  "referenceDigestInput i = JObj (referenceDigestEntries i)"

definition computeGovernanceReferenceDigest :: "(string \<Rightarrow> string) \<Rightarrow> GovernanceReferenceDigestInput \<Rightarrow> string" where
  "computeGovernanceReferenceDigest sha i = computeDigest sha (referenceDigestInput i)"

record GovernanceReferenceSealContext =
  sl_organizationId :: "string option"
  sl_sequence :: int
  sl_previousReferenceDigest :: "string option"

definition sealGovernanceReference ::
  "(string \<Rightarrow> string) \<Rightarrow> GovernanceReferenceInput \<Rightarrow> GovernanceReferenceSealContext \<Rightarrow> GovernanceReferenceRecord" where
  "sealGovernanceReference sha reference context =
     (let digestInput =
        \<lparr>di_referenceId = rf_referenceId reference, di_evaluationId = rf_evaluationId reference,
         di_organizationId = sl_organizationId context, di_sequence = sl_sequence context,
         di_referenceType = rf_referenceType reference, di_externalId = rf_externalId reference,
         di_externalVersion = rf_externalVersion reference, di_digest = rf_digest reference,
         di_uri = rf_uri reference, di_createdAt = rf_createdAt reference,
         di_integrityVersion = GOVERNANCE_REFERENCE_INTEGRITY_VERSION,
         di_previousReferenceDigest = sl_previousReferenceDigest context\<rparr>
      in \<lparr>rf_referenceId = rf_referenceId reference, rf_evaluationId = rf_evaluationId reference,
          rf_referenceType = rf_referenceType reference, rf_externalId = rf_externalId reference,
          rf_externalVersion = rf_externalVersion reference, rf_digest = rf_digest reference,
          rf_uri = rf_uri reference, rf_createdAt = rf_createdAt reference,
          rf_sequence = Some (sl_sequence context),
          rf_integrityVersion = Some GOVERNANCE_REFERENCE_INTEGRITY_VERSION,
          rf_previousReferenceDigest = sl_previousReferenceDigest context,
          rf_referenceDigest = Some (computeGovernanceReferenceDigest sha digestInput)\<rparr>)"

section \<open>Verification\<close>

datatype GovernanceReferenceIntegrityStatus =
    LegacyUnprotected | ProtectedValid | ProtectedCorrupted | ProtectedUnsupportedVersion

datatype reference_problem =
    MissingIntegrityVersion | InvalidSequence | MissingReferenceDigest | MalformedReferenceDigest

datatype reference_failure =
    UnsupportedVersion string string
  | IncompleteProtection string "reference_problem list"
  | SequenceMismatch string "int option" int
  | ReferenceDigestMismatch string
  | UnexpectedPreviousDigest string
  | ChainBreak string
  | HeadMissing int
  | HeadUnsupportedVersion string
  | HeadWithoutReferences int
  | HeadMismatch int "int option"

record GovernanceReferenceIntegritySummary =
  is_legacyUnprotected :: int
  is_protectedValid :: int
  is_protectedCorrupted :: int
  is_protectedUnsupportedVersion :: int

record GovernanceReferenceIntegrityResult =
  iv_valid :: bool
  iv_summary :: GovernanceReferenceIntegritySummary
  iv_statuses :: "(string, GovernanceReferenceIntegrityStatus) js_map"
  iv_failures :: "reference_failure list"

text \<open>\<open>/^sha256:[0-9a-f]{64}$/\<close>\<close>

definition is_hex :: "char \<Rightarrow> bool" where
  "is_hex c \<longleftrightarrow> c \<in> set ''0123456789abcdef''"

definition isWellFormedDigest :: "string \<Rightarrow> bool" where
  "isWellFormedDigest d \<longleftrightarrow> take 7 d = ''sha256:'' \<and> length d = 71 \<and> list_all is_hex (drop 7 d)"

definition isLegacyUnprotected :: "GovernanceReferenceRecord \<Rightarrow> bool" where
  "isLegacyUnprotected r \<longleftrightarrow>
     rf_sequence r = None \<and> rf_integrityVersion r = None \<and> rf_previousReferenceDigest r = None \<and>
     rf_referenceDigest r = None"

definition unsupported :: "GovernanceReferenceRecord \<Rightarrow> bool" where
  "unsupported r \<longleftrightarrow>
     (case rf_integrityVersion r of None \<Rightarrow> False | Some v \<Rightarrow> v \<noteq> GOVERNANCE_REFERENCE_INTEGRITY_VERSION)"

definition referenceProblems :: "GovernanceReferenceRecord \<Rightarrow> reference_problem list" where
  "referenceProblems r =
     (if rf_integrityVersion r = None then [MissingIntegrityVersion] else []) @
     (case rf_sequence r of None \<Rightarrow> [InvalidSequence] | Some n \<Rightarrow> if n < 1 then [InvalidSequence] else []) @
     (case rf_referenceDigest r of
        None \<Rightarrow> [MissingReferenceDigest]
      | Some d \<Rightarrow> if isWellFormedDigest d then [] else [MalformedReferenceDigest])"

definition reference_sequence :: "GovernanceReferenceRecord \<Rightarrow> int" where
  "reference_sequence r = (case rf_sequence r of None \<Rightarrow> 0 | Some n \<Rightarrow> n)"

definition recomputedReferenceDigest ::
  "(string \<Rightarrow> string) \<Rightarrow> string option \<Rightarrow> int \<Rightarrow> GovernanceReferenceRecord \<Rightarrow> string" where
  "recomputedReferenceDigest sha organizationId expectedSequence r =
     computeGovernanceReferenceDigest sha
       \<lparr>di_referenceId = rf_referenceId r, di_evaluationId = rf_evaluationId r,
        di_organizationId = organizationId,
        di_sequence = (case rf_sequence r of None \<Rightarrow> expectedSequence | Some n \<Rightarrow> n),
        di_referenceType = rf_referenceType r, di_externalId = rf_externalId r,
        di_externalVersion = rf_externalVersion r, di_digest = rf_digest r, di_uri = rf_uri r,
        di_createdAt = rf_createdAt r, di_integrityVersion = GOVERNANCE_REFERENCE_INTEGRITY_VERSION,
        di_previousReferenceDigest = rf_previousReferenceDigest r\<rparr>"

text \<open>One link of the chain: its position, its digest and its link to the reference before it.\<close>

definition linkFailures ::
  "(string \<Rightarrow> string) \<Rightarrow> string option \<Rightarrow> nat \<Rightarrow> string option \<Rightarrow> GovernanceReferenceRecord \<Rightarrow> reference_failure list" where
  "linkFailures sha organizationId index previousDigest r =
     (let expectedSequence = int index + 1
      in (if rf_sequence r \<noteq> Some expectedSequence
          then [SequenceMismatch (rf_referenceId r) (rf_sequence r) expectedSequence] else []) @
         (if Some (recomputedReferenceDigest sha organizationId expectedSequence r) \<noteq> rf_referenceDigest r
          then [ReferenceDigestMismatch (rf_referenceId r)] else []) @
         (if index = 0
          then (if rf_previousReferenceDigest r \<noteq> None then [UnexpectedPreviousDigest (rf_referenceId r)] else [])
          else if rf_previousReferenceDigest r \<noteq> previousDigest then [ChainBreak (rf_referenceId r)] else []))"

fun chain_walk ::
  "(string \<Rightarrow> string) \<Rightarrow> string option \<Rightarrow> nat \<Rightarrow> string option \<Rightarrow> GovernanceReferenceRecord list \<Rightarrow>
     (GovernanceReferenceRecord \<times> reference_failure list) list" where
  "chain_walk sha organizationId index previousDigest [] = []"
| "chain_walk sha organizationId index previousDigest (r # rs) =
     (r, linkFailures sha organizationId index previousDigest r) #
       chain_walk sha organizationId (Suc index) (rf_referenceDigest r) rs"

definition mark ::
  "GovernanceReferenceIntegrityStatus \<Rightarrow> GovernanceReferenceRecord list \<Rightarrow>
     (string, GovernanceReferenceIntegrityStatus) js_map \<Rightarrow> (string, GovernanceReferenceIntegrityStatus) js_map" where
  "mark st rs m = fold (\<lambda>r m. map_set m (rf_referenceId r) st) rs m"

text \<open>
  The stored head. No head supplied (\<open>undefined\<close>) is \<^const>\<open>None\<close>, no head stored (\<open>null\<close>) is
  \<^term>\<open>Some None\<close>.
\<close>

definition headFailures ::
  "GovernanceReferenceChainState option option \<Rightarrow> GovernanceReferenceRecord list \<Rightarrow> reference_failure list" where
  "headFailures chain ordered =
     (case chain of
        None \<Rightarrow> []
      | Some None \<Rightarrow> if ordered \<noteq> [] then [HeadMissing (int (length ordered))] else []
      | Some (Some c) \<Rightarrow>
          if ch_integrityVersion c \<noteq> GOVERNANCE_REFERENCE_INTEGRITY_VERSION
          then [HeadUnsupportedVersion (ch_integrityVersion c)]
          else if ordered = [] then [HeadWithoutReferences (ch_latestSequence c)]
          else if Some (ch_latestSequence c) \<noteq> rf_sequence (last ordered) \<or>
                  Some (ch_latestReferenceDigest c) \<noteq> rf_referenceDigest (last ordered)
          then [HeadMismatch (ch_latestSequence c) (rf_sequence (last ordered))]
          else [])"

text \<open>The references whose status the check of the head turns: all of them, or the newest.\<close>

definition headCorrupted ::
  "GovernanceReferenceChainState option option \<Rightarrow> GovernanceReferenceRecord list \<Rightarrow> GovernanceReferenceRecord list" where
  "headCorrupted chain ordered =
     (case chain of
        None \<Rightarrow> []
      | Some None \<Rightarrow> ordered
      | Some (Some c) \<Rightarrow>
          if ch_integrityVersion c \<noteq> GOVERNANCE_REFERENCE_INTEGRITY_VERSION then []
          else if ordered = [] then []
          else if Some (ch_latestSequence c) \<noteq> rf_sequence (last ordered) \<or>
                  Some (ch_latestReferenceDigest c) \<noteq> rf_referenceDigest (last ordered)
          then [last ordered]
          else [])"

definition status_count ::
  "GovernanceReferenceIntegrityStatus \<Rightarrow> (string, GovernanceReferenceIntegrityStatus) js_map \<Rightarrow> int" where
  "status_count st m = int (length (filter (\<lambda>s. s = st) (map_values m)))"

definition verifyGovernanceReferenceIntegrity ::
  "(string \<Rightarrow> string) \<Rightarrow> GovernanceReferenceRecord list \<Rightarrow> string option \<Rightarrow>
     GovernanceReferenceChainState option option \<Rightarrow> GovernanceReferenceIntegrityResult" where
  "verifyGovernanceReferenceIntegrity sha references organizationId chain =
     (let legacy = filter isLegacyUnprotected references;
          claimed = filter (\<lambda>r. \<not> isLegacyUnprotected r) references;
          statuses = mark LegacyUnprotected legacy [];
          unknown = filter unsupported claimed;
          verifiable = filter (\<lambda>r. \<not> unsupported r) claimed;
          statuses1 = mark ProtectedUnsupportedVersion unknown statuses;
          failures1 = map (\<lambda>r. UnsupportedVersion (rf_referenceId r) (the (rf_integrityVersion r))) unknown;
          incomplete = filter (\<lambda>r. referenceProblems r \<noteq> []) verifiable;
          complete = filter (\<lambda>r. referenceProblems r = []) verifiable;
          statuses2 = mark ProtectedCorrupted incomplete statuses1;
          failures2 = map (\<lambda>r. IncompleteProtection (rf_referenceId r) (referenceProblems r)) incomplete;
          ordered = by_sequence reference_sequence complete;
          walk = chain_walk sha organizationId 0 None ordered;
          statuses3 = fold (\<lambda>(r, fs) m. map_set m (rf_referenceId r)
            (if fs = [] then ProtectedValid else ProtectedCorrupted)) walk statuses2;
          failures3 = concat (map snd walk);
          statuses4 = mark ProtectedCorrupted (headCorrupted chain ordered) statuses3;
          failures = failures1 @ failures2 @ failures3 @ headFailures chain ordered
      in \<lparr>iv_valid = (failures = []),
          iv_summary = \<lparr>is_legacyUnprotected = status_count LegacyUnprotected statuses4,
            is_protectedValid = status_count ProtectedValid statuses4,
            is_protectedCorrupted = status_count ProtectedCorrupted statuses4,
            is_protectedUnsupportedVersion = status_count ProtectedUnsupportedVersion statuses4\<rparr>,
          iv_statuses = statuses4, iv_failures = failures\<rparr>)"

text \<open>The references that are not legacy rows, in the order of their positions.\<close>

definition protected_references :: "GovernanceReferenceRecord list \<Rightarrow> GovernanceReferenceRecord list" where
  "protected_references references =
     by_sequence reference_sequence (filter (\<lambda>r. \<not> isLegacyUnprotected r) references)"

text \<open>The texts digested in verifying a list of references.\<close>

definition reference_texts :: "string option \<Rightarrow> GovernanceReferenceRecord list \<Rightarrow> string list" where
  "reference_texts organizationId references =
     map (\<lambda>r. canonicalSerialize (referenceDigestInput
        \<lparr>di_referenceId = rf_referenceId r, di_evaluationId = rf_evaluationId r,
         di_organizationId = organizationId, di_sequence = reference_sequence r,
         di_referenceType = rf_referenceType r, di_externalId = rf_externalId r,
         di_externalVersion = rf_externalVersion r, di_digest = rf_digest r, di_uri = rf_uri r,
         di_createdAt = rf_createdAt r, di_integrityVersion = GOVERNANCE_REFERENCE_INTEGRITY_VERSION,
         di_previousReferenceDigest = rf_previousReferenceDigest r\<rparr>)) references"

section \<open>Chains that verify\<close>

fun sealed_from ::
  "(string \<Rightarrow> string) \<Rightarrow> string option \<Rightarrow> nat \<Rightarrow> string option \<Rightarrow> GovernanceReferenceRecord list \<Rightarrow> bool" where
  "sealed_from sha organizationId index previousDigest [] = True"
| "sealed_from sha organizationId index previousDigest (r # rs) =
     (linkFailures sha organizationId index previousDigest r = [] \<and>
      rf_integrityVersion r = Some GOVERNANCE_REFERENCE_INTEGRITY_VERSION \<and>
      sealed_from sha organizationId (Suc index) (rf_referenceDigest r) rs)"

lemma digest_well_formed:
  "(\<And>t. length (sha t) = 64 \<and> list_all is_hex (sha t)) \<Longrightarrow> isWellFormedDigest (computeDigest sha v)"
  by (simp add: isWellFormedDigest_def computeDigest_def)

lemma linkFailures_None:
  "linkFailures sha org n prev r = [] \<longleftrightarrow>
     rf_sequence r = Some (int n + 1) \<and>
     rf_referenceDigest r = Some (recomputedReferenceDigest sha org (int n + 1) r) \<and>
     rf_previousReferenceDigest r = (if n = 0 then None else prev)"
  by (auto simp: linkFailures_def Let_def)

lemma chain_walk_failures:
  "concat (map snd (chain_walk sha org n prev rs)) = [] \<and>
     (\<forall>r \<in> set rs. rf_integrityVersion r = Some GOVERNANCE_REFERENCE_INTEGRITY_VERSION) \<longleftrightarrow>
   sealed_from sha org n prev rs"
  by (induction rs arbitrary: n prev) auto

lemma sealed_walk: "sealed_from sha org n prev rs \<Longrightarrow> chain_walk sha org n prev rs = map (\<lambda>r. (r, [])) rs"
  by (induction rs arbitrary: n prev) auto

lemma sealed_from_append:
  "sealed_from sha org n prev (rs @ qs) \<longleftrightarrow>
     sealed_from sha org n prev rs \<and>
     sealed_from sha org (n + length rs) (if rs = [] then prev else rf_referenceDigest (last rs)) qs"
  by (induction rs arbitrary: n prev) auto

lemma sealed_nth:
  "sealed_from sha org n prev rs \<Longrightarrow> i < length rs \<Longrightarrow> rf_sequence (rs ! i) = Some (int (n + i) + 1)"
proof (induction rs arbitrary: n prev i)
  case (Cons r rs)
  then show ?case by (cases i) (auto simp: linkFailures_None)
qed simp

lemma sealed_sequences:
  assumes "sealed_from sha org n prev rs"
  shows "map reference_sequence rs = map (\<lambda>i. int (n + i) + 1) [0..<length rs]"
  using sealed_nth [OF assms] by (intro nth_equalityI) (auto simp: reference_sequence_def)

lemma sealed_sorted: "sealed_from sha org n prev rs \<Longrightarrow> by_sequence reference_sequence rs = rs"
  unfolding by_sequence_def
  by (rule sort_key_id_if_sorted) (auto simp: sealed_sequences sorted_map sorted_wrt_upt intro: sorted_wrt_mono_rel)

lemma sealed_complete:
  assumes "\<And>t. length (sha t) = 64 \<and> list_all is_hex (sha t)"
    and "sealed_from sha org n prev rs" and "r \<in> set rs"
  shows "\<not> isLegacyUnprotected r \<and> \<not> unsupported r \<and> referenceProblems r = []"
proof -
  have "rf_integrityVersion r = Some GOVERNANCE_REFERENCE_INTEGRITY_VERSION \<and> (\<exists>k \<ge> 1. rf_sequence r = Some k) \<and>
      (\<exists>d. rf_referenceDigest r = Some d \<and> isWellFormedDigest d)"
    using assms(2,3)
    by (induction rs arbitrary: n prev)
      (auto simp: linkFailures_None recomputedReferenceDigest_def computeGovernanceReferenceDigest_def
        intro!: digest_well_formed [of sha] assms(1))
  then show ?thesis
    by (auto simp: isLegacyUnprotected_def unsupported_def referenceProblems_def)
qed

lemma fold_map_set_fresh:
  "distinct (map f rs) \<Longrightarrow> (\<And>r. r \<in> set rs \<Longrightarrow> map_get m (f r) = None) \<Longrightarrow>
     fold (\<lambda>r m. map_set m (f r) st) rs m = m @ map (\<lambda>r. (f r, st)) rs"
proof (induction rs arbitrary: m)
  case (Cons r rs)
  have "map_set m (f r) st = m @ [(f r, st)]"
  proof -
    have "k \<notin> fst ` set m \<Longrightarrow> AList.update k v m = m @ [(k, v)]" for k v
      by (induction m) auto
    moreover have "f r \<notin> fst ` set m" using Cons.prems(2) [of r] by (simp add: map_get_def map_of_eq_None_iff)
    ultimately show ?thesis by (simp add: map_set_def)
  qed
  moreover have "map_get (m @ [(f r, st)]) (f q) = None" if "q \<in> set rs" for q
  proof -
    have "f q \<noteq> f r" using that Cons.prems(1) by (metis distinct.simps(2) imageI list.simps(9) set_map)
    then show ?thesis using that Cons.prems(2) [of q] by (simp add: map_get_def map_add_def)
  qed
  ultimately show ?case using Cons by simp
qed simp

text \<open>The stored head of a chain: the position and the digest of its last reference.\<close>

definition head_of :: "GovernanceReferenceChainState option \<Rightarrow> GovernanceReferenceRecord list \<Rightarrow> bool" where
  "head_of c rs =
     (case c of
        None \<Rightarrow> rs = []
      | Some h \<Rightarrow> rs \<noteq> [] \<and> ch_integrityVersion h = GOVERNANCE_REFERENCE_INTEGRITY_VERSION \<and>
          Some (ch_latestSequence h) = rf_sequence (last rs) \<and>
          Some (ch_latestReferenceDigest h) = rf_referenceDigest (last rs))"

text \<open>A sealed chain verifies against its head, and every one of its references counts as valid.\<close>

lemma sealed_verifies:
  assumes sha: "\<And>t. length (sha t) = 64 \<and> list_all is_hex (sha t)"
    and "sealed_from sha org 0 None rs" and "distinct (map rf_referenceId rs)" and "head_of c rs"
  shows "let v = verifyGovernanceReferenceIntegrity sha rs org (Some c)
    in iv_valid v \<and> iv_failures v = [] \<and>
       iv_summary v = \<lparr>is_legacyUnprotected = 0, is_protectedValid = int (length rs), is_protectedCorrupted = 0,
         is_protectedUnsupportedVersion = 0\<rparr>"
proof -
  note ok = sealed_complete [OF sha assms(2)]
  have rows: "filter isLegacyUnprotected rs = []" "filter (\<lambda>r. \<not> isLegacyUnprotected r) rs = rs"
    "filter unsupported rs = []" "filter (\<lambda>r. \<not> unsupported r) rs = rs"
    "filter (\<lambda>r. referenceProblems r \<noteq> []) rs = []" "filter (\<lambda>r. referenceProblems r = []) rs = rs"
    using ok by (auto simp: filter_empty_conv filter_id_conv)
  have statuses: "fold (\<lambda>(r, fs) m. map_set m (rf_referenceId r) (if fs = [] then ProtectedValid else ProtectedCorrupted))
      (map (\<lambda>r. (r, [])) rs) [] = map (\<lambda>r. (rf_referenceId r, ProtectedValid)) rs"
    using fold_map_set_fresh [OF assms(3), of "[]" ProtectedValid] by (simp add: fold_map o_def)
  have head: "headFailures (Some c) rs = []" "headCorrupted (Some c) rs = []"
    using assms(4) by (auto simp: headFailures_def headCorrupted_def head_of_def split: option.splits)
  have "verifyGovernanceReferenceIntegrity sha rs org (Some c) =
     (let statuses = map (\<lambda>r. (rf_referenceId r, ProtectedValid)) rs
      in \<lparr>iv_valid = True, iv_summary = \<lparr>is_legacyUnprotected = status_count LegacyUnprotected statuses,
            is_protectedValid = status_count ProtectedValid statuses,
            is_protectedCorrupted = status_count ProtectedCorrupted statuses,
            is_protectedUnsupportedVersion = status_count ProtectedUnsupportedVersion statuses\<rparr>,
          iv_statuses = statuses, iv_failures = []\<rparr>)"
    unfolding verifyGovernanceReferenceIntegrity_def Let_def rows mark_def sealed_sorted [OF assms(2)]
      sealed_walk [OF assms(2)] fold_simps list.map append_Nil statuses head
    by (auto simp: concat_eq_Nil_conv)
  then show ?thesis by (simp add: Let_def status_count_def map_values_def o_def filter_map)
qed

section \<open>A chain that verifies is the chain that was sealed\<close>

lemma verified_chain:
  assumes "iv_valid (verifyGovernanceReferenceIntegrity sha refs org (Some (Some h)))"
  shows "sealed_from sha org 0 None (protected_references refs) \<and> head_of (Some h) (protected_references refs)"
proof -
  let ?claimed = "filter (\<lambda>r. \<not> isLegacyUnprotected r) refs"
  have none: "filter unsupported ?claimed = []"
    and "filter (\<lambda>r. referenceProblems r \<noteq> []) (filter (\<lambda>r. \<not> unsupported r) ?claimed) = []"
    using assms by (auto simp: verifyGovernanceReferenceIntegrity_def Let_def)
  then have all: "filter (\<lambda>r. \<not> unsupported r) ?claimed = ?claimed"
    "filter (\<lambda>r. referenceProblems r = []) ?claimed = ?claimed"
    by (auto simp: filter_empty_conv intro: filter_cong)
  have ordered: "by_sequence reference_sequence
      (filter (\<lambda>r. referenceProblems r = []) (filter (\<lambda>r. \<not> unsupported r) ?claimed)) = protected_references refs"
    unfolding all protected_references_def ..
  have walk: "concat (map snd (chain_walk sha org 0 None (protected_references refs))) = []"
    and head: "headFailures (Some (Some h)) (protected_references refs) = []"
    using assms unfolding verifyGovernanceReferenceIntegrity_def Let_def ordered by auto
  have "rf_integrityVersion r = Some GOVERNANCE_REFERENCE_INTEGRITY_VERSION" if "r \<in> set ?claimed" for r
  proof -
    have "\<not> unsupported r" "referenceProblems r = []"
      using that none arg_cong [OF all(2), of set] unfolding filter_empty_conv by auto
    then show ?thesis by (auto simp: unsupported_def referenceProblems_def split: option.splits if_splits)
  qed
  then have "\<forall>r \<in> set (protected_references refs). rf_integrityVersion r = Some GOVERNANCE_REFERENCE_INTEGRITY_VERSION"
    by (auto simp: protected_references_def by_sequence_def)
  with walk have "sealed_from sha org 0 None (protected_references refs)" by (simp add: chain_walk_failures [symmetric])
  with head show ?thesis by (auto simp: headFailures_def head_of_def split: if_splits)
qed

lemma nullable_inject [simp]: "nullable a = nullable b \<longleftrightarrow> a = b"
  by (auto simp: nullable_def split: option.splits)

lemma canonical_nullable [simp]: "canonical (nullable a) = nullable a" "nullable a \<noteq> JUndefined"
  by (auto simp: nullable_def split: option.splits)

lemma json_entry_step [simp]:
  "json_entry k [] = None"
  "json_entry k ((k', v) # fs) = (if k' = k then (case v of JUndefined \<Rightarrow> None | _ \<Rightarrow> Some v) else json_entry k fs)"
  by (auto simp: json_entry_def split: json.splits)

lemma present_nullable [simp]: "(case nullable a of JUndefined \<Rightarrow> None | _ \<Rightarrow> Some (nullable a)) = Some (nullable a)"
  by (auto simp: nullable_def split: option.splits)

lemma referenceDigestInput_faithful:
  assumes "canonical (referenceDigestInput a) = canonical (referenceDigestInput b)"
  shows "a = b"
proof -
  have keys: "distinct (map fst (referenceDigestEntries i))" for i by (simp add: referenceDigestEntries_def)
  note field = canonical_entries [OF assms [unfolded referenceDigestInput_def] keys keys,
      unfolded referenceDigestEntries_def]
  show ?thesis
    using field [of "''referenceId''"] field [of "''evaluationId''"] field [of "''organizationId''"]
      field [of "''sequence''"] field [of "''referenceType''"] field [of "''externalId''"]
      field [of "''externalVersion''"] field [of "''digest''"] field [of "''uri''"] field [of "''createdAt''"]
      field [of "''integrityVersion''"] field [of "''previousReferenceDigest''"]
    by simp
qed

lemma recomputed_text:
  "rf_sequence r = Some n \<Longrightarrow>
     recomputedReferenceDigest sha org k r = ''sha256:'' @ sha (hd (reference_texts org [r]))"
  by (simp add: recomputedReferenceDigest_def computeGovernanceReferenceDigest_def computeDigest_def
    reference_texts_def reference_sequence_def)

lemma same_text:
  assumes "hd (reference_texts org [x]) = hd (reference_texts org' [y])"
  shows "org = org' \<and> rf_referenceId x = rf_referenceId y \<and> rf_evaluationId x = rf_evaluationId y \<and>
    reference_sequence x = reference_sequence y \<and> rf_referenceType x = rf_referenceType y \<and>
    rf_externalId x = rf_externalId y \<and> rf_externalVersion x = rf_externalVersion y \<and>
    rf_digest x = rf_digest y \<and> rf_uri x = rf_uri y \<and> rf_createdAt x = rf_createdAt y \<and>
    rf_previousReferenceDigest x = rf_previousReferenceDigest y"
  using assms unfolding reference_texts_def serialization_faithful
  by (auto dest!: referenceDigestInput_faithful simp: serialization_faithful)

text \<open>Two sealed chains of one length whose last digests agree are one chain.\<close>

lemma sealed_unique:
  assumes "sealed_from sha org 0 None xs" and "sealed_from sha org' 0 None ys"
    and "length xs = length ys"
    and "xs \<noteq> [] \<Longrightarrow> rf_referenceDigest (last xs) = rf_referenceDigest (last ys)"
    and "inj_on sha (set (reference_texts org xs) \<union> set (reference_texts org' ys))"
  shows "xs = ys \<and> (xs \<noteq> [] \<longrightarrow> org = org')"
  using assms
proof (induction xs arbitrary: ys rule: rev_induct)
  case (snoc x xs)
  obtain y ys' where ys: "ys = ys' @ [y]" using snoc.prems(3) by (cases ys rule: rev_cases) auto
  have len: "length xs = length ys'" using snoc.prems(3) ys by simp
  have x: "sealed_from sha org 0 None xs" "linkFailures sha org (length xs) (if xs = [] then None else rf_referenceDigest (last xs)) x = []"
      "rf_integrityVersion x = Some GOVERNANCE_REFERENCE_INTEGRITY_VERSION"
    and y: "sealed_from sha org' 0 None ys'" "linkFailures sha org' (length xs) (if ys' = [] then None else rf_referenceDigest (last ys')) y = []"
      "rf_integrityVersion y = Some GOVERNANCE_REFERENCE_INTEGRITY_VERSION"
    using snoc.prems(1,2) len by (auto simp: ys sealed_from_append)
  have "sha (hd (reference_texts org [x])) = sha (hd (reference_texts org' [y]))"
    using x(2) y(2) snoc.prems(4) ys by (auto simp: linkFailures_None recomputed_text)
  then have texts: "hd (reference_texts org [x]) = hd (reference_texts org' [y])"
    by (rule inj_onD [OF snoc.prems(5)]) (auto simp: ys reference_texts_def)
  note same = same_text [OF texts]
  have "x = y" using same x(2,3) y(2,3) snoc.prems(4) ys len by (auto simp: linkFailures_None)
  moreover have "xs = ys'"
  proof -
    have "xs = ys' \<and> (xs \<noteq> [] \<longrightarrow> org = org')"
    proof (rule snoc.IH [OF x(1) y(1) len])
      show "rf_referenceDigest (last xs) = rf_referenceDigest (last ys')" if "xs \<noteq> []"
        using that same x(2) y(2) len by (auto simp: linkFailures_None split: if_splits)
      show "inj_on sha (set (reference_texts org xs) \<union> set (reference_texts org' ys'))"
        by (rule inj_on_subset [OF snoc.prems(5)]) (auto simp: ys reference_texts_def)
    qed
    then show ?thesis by simp
  qed
  ultimately show ?case using ys same by simp
qed simp

lemma reference_chain_committed:
  assumes "iv_valid (verifyGovernanceReferenceIntegrity sha refs org (Some (Some h)))"
    and "iv_valid (verifyGovernanceReferenceIntegrity sha refs' org' (Some (Some h)))"
    and "inj_on sha (set (reference_texts org (protected_references refs)) \<union>
      set (reference_texts org' (protected_references refs')))"
  shows "protected_references refs = protected_references refs' \<and> org = org'"
proof -
  let ?xs = "protected_references refs" and ?ys = "protected_references refs'"
  note x = verified_chain [OF assms(1)] and y = verified_chain [OF assms(2)]
  have ne: "?xs \<noteq> []" "?ys \<noteq> []" and last: "rf_sequence (last ?xs) = rf_sequence (last ?ys)"
    "rf_referenceDigest (last ?xs) = rf_referenceDigest (last ?ys)"
    using x y by (auto simp: head_of_def)
  have "rf_sequence (last zs) = Some (int (length zs))" if "zs \<noteq> []" "sealed_from sha o' 0 None zs" for zs o'
    using sealed_nth [OF that(2), of "length zs - 1"] that(1) by (cases zs rule: rev_cases) (simp_all add: last_conv_nth)
  then have "length ?xs = length ?ys" using ne x y last(1) by (metis option.inject of_nat_eq_iff)
  then have "?xs = ?ys \<and> (?xs \<noteq> [] \<longrightarrow> org = org')"
    using x y last(2) assms(3) by (intro sealed_unique) auto
  with ne show ?thesis by simp
qed

end
