(* ===== verification/GovernanceVerification.thy ===== *)
theory GovernanceVerification
  imports GovernanceReferences
begin

text \<open>
  Integrity of one evaluation aggregate (\<open>src/src/enterprise/governance-store/verification.ts\<close>), what the
  builder of \<open>GovernanceProjection\<close> guarantees of it, and what a history of aggregates that verifies says.
\<close>

section \<open>Verification of a record\<close>

datatype record_failure =
    RequestPayloadMismatch | RequestRecordMismatch
  | ResultPayloadMismatch | EvaluationRecordMismatch
  | TraceStepMismatch int | TraceSetMismatch
  | EventMismatch string | EventSetMismatch
  | MetadataMismatch | AggregateMismatch
  | PredecessorUnresolved | PredecessorMissing | PredecessorMismatch
  | ReferenceFailure reference_failure

record GovernanceRecordChecks =
  gk_requestDigest :: bool
  gk_evaluationDigest :: bool
  gk_traceDigest :: bool
  gk_eventsDigest :: bool
  gk_metadataDigest :: bool
  gk_aggregateDigest :: bool
  gk_previousDigest :: "bool option"
  gk_referenceIntegrity :: bool

record GovernanceRecordVerificationResult =
  gf_evaluationId :: string
  gf_valid :: bool
  gf_checks :: GovernanceRecordChecks
  gf_verifiedAt :: string
  gf_failures :: "record_failure list"
  gf_referenceIntegrity :: GovernanceReferenceIntegritySummary

definition fails :: "'f \<Rightarrow> bool \<Rightarrow> 'f list" where
  "fails f ok = (if ok then [] else [f])"

text \<open>
  The digest the predecessor is expected to have: the digest, \<^term>\<open>Some None\<close> when the record is the first of
  its chain (\<open>null\<close>), \<^const>\<open>None\<close> when the predecessor could not be found (\<open>undefined\<close>).
\<close>

definition linkCheck :: "GovernanceIntegrityMetadata \<Rightarrow> string option option \<Rightarrow> bool option \<times> record_failure list" where
  "linkCheck integrity expected =
     (if ig_chainPosition integrity > 1 \<or> ig_previousAggregateDigest integrity \<noteq> None
      then (case expected of
              None \<Rightarrow> (Some False, [PredecessorUnresolved])
            | Some None \<Rightarrow> (Some False, [PredecessorMissing])
            | Some (Some d) \<Rightarrow>
                if ig_previousAggregateDigest integrity = Some d then (Some True, [])
                else (Some False, [PredecessorMismatch]))
      else (None, []))"

definition verifyGovernanceRecordIntegrity ::
  "(string \<Rightarrow> string) \<Rightarrow> GovernanceRecord \<Rightarrow> string option option \<Rightarrow> string \<Rightarrow>
     GovernanceReferenceChainState option option \<Rightarrow> GovernanceRecordVerificationResult" where
  "verifyGovernanceRecordIntegrity sha r expected now referenceChain =
     (let digest = computeDigest sha; integrity = gr_integrity r;
          payload = digest (qr_requestPayload (gr_request r)) = qr_payloadDigest (gr_request r);
          requestDigest = digest (requestRecordDigestInput (gr_request r));
          request = requestDigest = ig_requestDigest integrity;
          resultOk = digest (vl_resultPayload (gr_evaluation r)) = vl_resultDigest (gr_evaluation r);
          evaluationDigest = digest (evaluationRecordDigestInput (gr_evaluation r));
          evaluation = evaluationDigest = ig_evaluationDigest integrity;
          badSteps = filter (\<lambda>s. digest (traceStepDigestInput s) \<noteq> tp_traceDigest s) (gr_trace r);
          traceDigest = digest (traceRecordsDigestInput (gr_trace r));
          traceSet = traceDigest = ig_traceDigest integrity;
          badEvents = filter (\<lambda>e. digest (eventRecordDigestInput e) \<noteq> vt_eventDigest e) (gr_events r);
          eventsDigest = digest (eventRecordsDigestInput (gr_events r));
          eventSet = eventsDigest = ig_eventsDigest integrity;
          metadataDigest = digest (metadataDigestInput (gr_metadata r));
          metadata = metadataDigest = ig_metadataDigest integrity;
          aggregate = computeAggregateDigest sha requestDigest evaluationDigest traceDigest eventsDigest metadataDigest
            (ig_previousAggregateDigest integrity) = ig_aggregateDigest integrity;
          link = linkCheck integrity expected;
          references = verifyGovernanceReferenceIntegrity sha (gr_references r) (qr_organizationId (gr_request r)) referenceChain;
          failures = fails RequestPayloadMismatch payload @ fails RequestRecordMismatch request @
            fails ResultPayloadMismatch resultOk @ fails EvaluationRecordMismatch evaluation @
            map (\<lambda>s. TraceStepMismatch (tp_sequence s)) badSteps @ fails TraceSetMismatch traceSet @
            map (\<lambda>e. EventMismatch (vt_eventId e)) badEvents @ fails EventSetMismatch eventSet @
            fails MetadataMismatch metadata @ fails AggregateMismatch aggregate @ snd link @
            map ReferenceFailure (iv_failures references)
      in \<lparr>gf_evaluationId = vl_evaluationId (gr_evaluation r), gf_valid = (failures = []),
          gf_checks = \<lparr>gk_requestDigest = (payload \<and> request), gk_evaluationDigest = (resultOk \<and> evaluation),
            gk_traceDigest = (badSteps = [] \<and> traceSet), gk_eventsDigest = (badEvents = [] \<and> eventSet),
            gk_metadataDigest = metadata, gk_aggregateDigest = aggregate, gk_previousDigest = fst link,
            gk_referenceIntegrity = iv_valid references\<rparr>,
          gf_verifiedAt = now, gf_failures = failures, gf_referenceIntegrity = iv_summary references\<rparr>)"

section \<open>Sealed records\<close>

text \<open>Every digest of the record is the digest of what it covers.\<close>

definition record_sealed :: "(string \<Rightarrow> string) \<Rightarrow> GovernanceRecord \<Rightarrow> bool" where
  "record_sealed sha r \<longleftrightarrow>
     (let integrity = gr_integrity r
      in qr_payloadDigest (gr_request r) = computeDigest sha (qr_requestPayload (gr_request r)) \<and>
         ig_requestDigest integrity = computeDigest sha (requestRecordDigestInput (gr_request r)) \<and>
         vl_resultDigest (gr_evaluation r) = computeDigest sha (vl_resultPayload (gr_evaluation r)) \<and>
         ig_evaluationDigest integrity = computeDigest sha (evaluationRecordDigestInput (gr_evaluation r)) \<and>
         (\<forall>s \<in> set (gr_trace r). tp_traceDigest s = computeDigest sha (traceStepDigestInput s)) \<and>
         ig_traceDigest integrity = computeDigest sha (traceRecordsDigestInput (gr_trace r)) \<and>
         (\<forall>e \<in> set (gr_events r). vt_eventDigest e = computeDigest sha (eventRecordDigestInput e)) \<and>
         ig_eventsDigest integrity = computeDigest sha (eventRecordsDigestInput (gr_events r)) \<and>
         ig_metadataDigest integrity = computeDigest sha (metadataDigestInput (gr_metadata r)) \<and>
         ig_aggregateDigest integrity = computeAggregateDigest sha (ig_requestDigest integrity)
           (ig_evaluationDigest integrity) (ig_traceDigest integrity) (ig_eventsDigest integrity)
           (ig_metadataDigest integrity) (ig_previousAggregateDigest integrity))"

lemma fails_Nil [simp]: "fails f ok = [] \<longleftrightarrow> ok"
  by (simp add: fails_def)

lemma iv_valid_failures: "iv_valid (verifyGovernanceReferenceIntegrity sha rs org c) \<longleftrightarrow>
    iv_failures (verifyGovernanceReferenceIntegrity sha rs org c) = []"
  by (simp add: verifyGovernanceReferenceIntegrity_def Let_def)

lemma verified_iff:
  "gf_valid (verifyGovernanceRecordIntegrity sha r expected now chain) \<longleftrightarrow>
     record_sealed sha r \<and> snd (linkCheck (gr_integrity r) expected) = [] \<and>
     iv_valid (verifyGovernanceReferenceIntegrity sha (gr_references r) (qr_organizationId (gr_request r)) chain)"
proof
  assume "gf_valid (verifyGovernanceRecordIntegrity sha r expected now chain)"
  then show "record_sealed sha r \<and> snd (linkCheck (gr_integrity r) expected) = [] \<and>
     iv_valid (verifyGovernanceReferenceIntegrity sha (gr_references r) (qr_organizationId (gr_request r)) chain)"
    unfolding iv_valid_failures verifyGovernanceRecordIntegrity_def record_sealed_def Let_def
    by (clarsimp simp: filter_empty_conv)
next
  assume "record_sealed sha r \<and> snd (linkCheck (gr_integrity r) expected) = [] \<and>
     iv_valid (verifyGovernanceReferenceIntegrity sha (gr_references r) (qr_organizationId (gr_request r)) chain)"
  then show "gf_valid (verifyGovernanceRecordIntegrity sha r expected now chain)"
    unfolding iv_valid_failures verifyGovernanceRecordIntegrity_def record_sealed_def Let_def
    by (clarsimp simp: filter_empty_conv)
qed

section \<open>What the builder guarantees\<close>

lemma redactSensitive [simp]: "redacted (redactSensitiveValues v)"
  by (simp add: redactSensitiveValues_def redactValue_redacted)

lemma traceRecord_sealed: "tp_traceDigest (traceRecord sha i e step) = computeDigest sha (traceStepDigestInput (traceRecord sha i e step))"
  by (simp add: traceRecord_def Let_def traceStepDigestInput_def traceStepEntries_def)

lemma traceRecord_redacted: "case tp_metadata (traceRecord sha i e step) of None \<Rightarrow> True | Some m \<Rightarrow> redacted m"
  by (auto simp: traceRecord_def Let_def split: option.splits)

lemma toEvaluationEventRecord_sealed:
  "toEvaluationEventRecord sha limits eid ev kv at c i e = Inr x \<Longrightarrow>
     vt_eventDigest x = computeDigest sha (eventRecordDigestInput x) \<and> redacted (vt_eventPayload x)"
  by (auto simp: toEvaluationEventRecord_def Let_def eventRecordDigestInput_def eventEntries_def
    evaluationEventPayload_def split: if_splits)

lemma mapR_set: "mapR f xs = Inr ys \<Longrightarrow> y \<in> set ys \<Longrightarrow> \<exists>x \<in> set xs. f x = Inr y"
  using mapR_Inr_all2 [of f xs ys] by (fastforce simp: list_all2_conv_all_nth in_set_conv_nth)

text \<open>What the store and its invariant read of a new aggregate.\<close>

definition aggregate_of ::
  "(string \<Rightarrow> string) \<Rightarrow> GovernanceProjectionDependencies \<Rightarrow> string option \<Rightarrow> int \<Rightarrow> AppendGovernanceEvaluationInput \<Rightarrow>
     GovernanceRecord \<Rightarrow> bool" where
  "aggregate_of sha deps previous position input r \<longleftrightarrow>
     record_sealed sha r \<and> ig_previousAggregateDigest (gr_integrity r) = previous \<and>
     ig_chainPosition (gr_integrity r) = position \<and> gr_references r = [] \<and>
     vl_evaluationId (gr_evaluation r) = pd_nextId deps 1 ''gov-evaluation'' \<and>
     vl_requestId (gr_evaluation r) = er_requestId (ap_request input) \<and>
     qr_requestId (gr_request r) = er_requestId (ap_request input) \<and>
     vl_decisionId (gr_evaluation r) = el_decisionId (ap_result input) \<and>
     qr_organizationId (gr_request r) = request_org (ap_request input) \<and>
     qr_payloadDigest (gr_request r) = computeGovernanceRequestPayloadDigest sha (ap_request input) \<and>
     vl_persistedAt (gr_evaluation r) = pd_now deps \<and>
     mt_schemaVersion (gr_metadata r) = GOVERNANCE_STORE_SCHEMA_VERSION \<and>
     vl_status (gr_evaluation r) = el_status (ap_result input) \<and>
     vl_reasonCodes (gr_evaluation r) = el_reasonCodes (ap_result input) \<and>
     redacted (qr_requestPayload (gr_request r)) \<and> redacted (vl_resultPayload (gr_evaluation r)) \<and>
     (\<forall>e \<in> set (gr_events r). redacted (vt_eventPayload e)) \<and>
     (\<forall>s \<in> set (gr_trace r). case tp_metadata s of None \<Rightarrow> True | Some m \<Rightarrow> redacted m)"

lemma assembled_aggregate:
  assumes "validateAppendInput input = Inr ()"
    and "\<forall>e \<in> set events. vt_eventDigest e = computeDigest sha (eventRecordDigestInput e) \<and> redacted (vt_eventPayload e)"
  shows "aggregate_of sha deps previous position input (assembleAggregate sha deps previous position input events)"
proof -
  have "el_requestId (ap_result input) = er_requestId (ap_request input)"
    using assms(1) by (auto simp: validateAppendInput_def split: if_splits)
  then show ?thesis
    using assms(2)
    by (auto simp: assembleAggregate_def aggregate_of_def record_sealed_def integrityRecord_def requestRecord_def
      evaluationRecord_def metadataRecord_def computeGovernanceRequestPayloadDigest_def traceRecord_sealed Let_def
      projectRequestPayload_def projectResultPayload_def traceRecord_redacted)
qed

lemma built_aggregate:
  assumes "buildGovernanceAggregate sha deps previous position input = Inr r"
  shows "aggregate_of sha deps previous position input r \<and> validateAppendInput input = Inr ()"
proof -
  obtain evs where "validateAppendInput input = Inr ()" "evaluationEvents sha deps input = Inr evs"
      "r = assembleAggregate sha deps previous position input evs"
    using assms by (auto simp: buildGovernanceAggregate_def outcome_simps Let_def split: if_splits)
  moreover from this(2) have "vt_eventDigest e = computeDigest sha (eventRecordDigestInput e) \<and> redacted (vt_eventPayload e)"
    if "e \<in> set evs" for e
    using that mapR_set [of _ "numbered (ap_events input)" evs e] toEvaluationEventRecord_sealed
    unfolding evaluationEvents_def by fastforce
  ultimately show ?thesis by (simp add: assembled_aggregate)
qed

section \<open>A history that verifies\<close>

text \<open>Equal content, of records as the digests see them: equal up to the order of keys in the payloads.\<close>

definition same_content :: "GovernanceRecord \<Rightarrow> GovernanceRecord \<Rightarrow> bool" where
  "same_content r s \<longleftrightarrow>
     canonical (requestRecordDigestInput (gr_request r)) = canonical (requestRecordDigestInput (gr_request s)) \<and>
     canonical (evaluationRecordDigestInput (gr_evaluation r)) = canonical (evaluationRecordDigestInput (gr_evaluation s)) \<and>
     canonical (traceRecordsDigestInput (gr_trace r)) = canonical (traceRecordsDigestInput (gr_trace s)) \<and>
     canonical (eventRecordsDigestInput (gr_events r)) = canonical (eventRecordsDigestInput (gr_events s)) \<and>
     canonical (metadataDigestInput (gr_metadata r)) = canonical (metadataDigestInput (gr_metadata s))"

text \<open>The texts whose digests seal a record.\<close>

definition record_texts :: "(string \<Rightarrow> string) \<Rightarrow> GovernanceRecord \<Rightarrow> string list" where
  "record_texts sha r =
     (let integrity = gr_integrity r
      in [canonicalSerialize (requestRecordDigestInput (gr_request r)),
          canonicalSerialize (evaluationRecordDigestInput (gr_evaluation r)),
          canonicalSerialize (traceRecordsDigestInput (gr_trace r)),
          canonicalSerialize (eventRecordsDigestInput (gr_events r)),
          canonicalSerialize (metadataDigestInput (gr_metadata r)),
          canonicalSerialize (aggregateDigestInput (ig_requestDigest integrity) (ig_evaluationDigest integrity)
            (ig_traceDigest integrity) (ig_eventsDigest integrity) (ig_metadataDigest integrity)
            (ig_previousAggregateDigest integrity))])"

fun linked_from :: "(string \<Rightarrow> string) \<Rightarrow> string option \<Rightarrow> GovernanceRecord list \<Rightarrow> bool" where
  "linked_from sha previous [] = True"
| "linked_from sha previous (r # rs) =
     (record_sealed sha r \<and> ig_previousAggregateDigest (gr_integrity r) = previous \<and>
      linked_from sha (Some (ig_aggregateDigest (gr_integrity r))) rs)"

lemma linked_append:
  "linked_from sha previous (rs @ qs) \<longleftrightarrow>
     linked_from sha previous rs \<and>
     linked_from sha (if rs = [] then previous else Some (ig_aggregateDigest (gr_integrity (last rs)))) qs"
  by (induction rs arbitrary: previous) auto

lemma aggregateDigestInput_faithful:
  assumes "canonical (aggregateDigestInput a b c d e p) = canonical (aggregateDigestInput a' b' c' d' e' p')"
  shows "a = a' \<and> b = b' \<and> c = c' \<and> d = d' \<and> e = e' \<and> p = p'"
proof -
  let ?entries = "\<lambda>a b c d e p. [(''requestDigest'', JStr a), (''evaluationDigest'', JStr b), (''traceDigest'', JStr c),
    (''eventsDigest'', JStr d), (''metadataDigest'', JStr e)] @ opt_field ''previousAggregateDigest'' p"
  have keys: "distinct (map fst (?entries a b c d e p))" for a b c d e p
    by (simp add: opt_field_def split: option.splits)
  note field = canonical_entries [OF assms [unfolded aggregateDigestInput_def] keys keys]
  show ?thesis
    using field [of "''requestDigest''"] field [of "''evaluationDigest''"] field [of "''traceDigest''"]
      field [of "''eventsDigest''"] field [of "''metadataDigest''"] field [of "''previousAggregateDigest''"]
    by (auto simp: opt_field_def split: option.splits)
qed

lemma same_seal:
  assumes "record_sealed sha r" and "record_sealed sha s"
    and "ig_aggregateDigest (gr_integrity r) = ig_aggregateDigest (gr_integrity s)"
    and inj: "inj_on sha (set (record_texts sha r) \<union> set (record_texts sha s))"
  shows "same_content r s \<and>
    ig_previousAggregateDigest (gr_integrity r) = ig_previousAggregateDigest (gr_integrity s)"
proof -
  have known: "x = y" if "sha x = sha y" "x \<in> set (record_texts sha r)" "y \<in> set (record_texts sha s)" for x y
    using inj_onD [OF inj that(1)] that(2,3) by blast
  have "canonicalSerialize (aggregateDigestInput (ig_requestDigest (gr_integrity r)) (ig_evaluationDigest (gr_integrity r))
        (ig_traceDigest (gr_integrity r)) (ig_eventsDigest (gr_integrity r)) (ig_metadataDigest (gr_integrity r))
        (ig_previousAggregateDigest (gr_integrity r))) =
      canonicalSerialize (aggregateDigestInput (ig_requestDigest (gr_integrity s)) (ig_evaluationDigest (gr_integrity s))
        (ig_traceDigest (gr_integrity s)) (ig_eventsDigest (gr_integrity s)) (ig_metadataDigest (gr_integrity s))
        (ig_previousAggregateDigest (gr_integrity s)))"
    by (rule known) (use assms(1,2,3) in \<open>simp_all add: record_sealed_def computeAggregateDigest_def computeDigest_def
      record_texts_def Let_def\<close>)
  then have parts: "ig_requestDigest (gr_integrity r) = ig_requestDigest (gr_integrity s)"
    "ig_evaluationDigest (gr_integrity r) = ig_evaluationDigest (gr_integrity s)"
    "ig_traceDigest (gr_integrity r) = ig_traceDigest (gr_integrity s)"
    "ig_eventsDigest (gr_integrity r) = ig_eventsDigest (gr_integrity s)"
    "ig_metadataDigest (gr_integrity r) = ig_metadataDigest (gr_integrity s)"
    "ig_previousAggregateDigest (gr_integrity r) = ig_previousAggregateDigest (gr_integrity s)"
    unfolding serialization_faithful by (simp_all add: aggregateDigestInput_faithful)
  have same: "canonical v = canonical w"
    if "computeDigest sha v = computeDigest sha w" "canonicalSerialize v \<in> set (record_texts sha r)"
      "canonicalSerialize w \<in> set (record_texts sha s)" for v w
    using known [of "canonicalSerialize v" "canonicalSerialize w"] that
    by (simp add: computeDigest_def serialization_faithful)
  have "same_content r s" unfolding same_content_def
    by (intro conjI same) (use assms(1,2) parts in \<open>simp_all add: record_sealed_def record_texts_def Let_def\<close>)
  with parts show ?thesis by simp
qed

text \<open>The digest of the last aggregate determines the whole history before it.\<close>

lemma history_unique:
  assumes "linked_from sha None xs" and "linked_from sha None ys" and "xs \<noteq> []" and "ys \<noteq> []"
    and "ig_aggregateDigest (gr_integrity (last xs)) = ig_aggregateDigest (gr_integrity (last ys))"
    and "inj_on sha (\<Union>r \<in> set xs \<union> set ys. set (record_texts sha r))"
  shows "list_all2 same_content xs ys"
  using assms
proof (induction xs arbitrary: ys rule: rev_induct)
  case (snoc x xs)
  obtain y ys' where ys: "ys = ys' @ [y]" using snoc.prems(4) by (cases ys rule: rev_cases) auto
  have x: "linked_from sha None xs" "record_sealed sha x"
      "ig_previousAggregateDigest (gr_integrity x) =
        (if xs = [] then None else Some (ig_aggregateDigest (gr_integrity (last xs))))"
    and y: "linked_from sha None ys'" "record_sealed sha y"
      "ig_previousAggregateDigest (gr_integrity y) =
        (if ys' = [] then None else Some (ig_aggregateDigest (gr_integrity (last ys'))))"
    using snoc.prems(1,2) by (auto simp: ys linked_append)
  have same: "same_content x y \<and>
      ig_previousAggregateDigest (gr_integrity x) = ig_previousAggregateDigest (gr_integrity y)"
  proof (rule same_seal [OF x(2) y(2)])
    show "ig_aggregateDigest (gr_integrity x) = ig_aggregateDigest (gr_integrity y)"
      using snoc.prems(5) by (simp add: ys)
    show "inj_on sha (set (record_texts sha x) \<union> set (record_texts sha y))"
      by (rule inj_on_subset [OF snoc.prems(6)]) (auto simp: ys)
  qed
  have "list_all2 same_content xs ys'"
  proof (cases "xs = []")
    case True
    then show ?thesis using same x(3) y(3) by (simp split: if_splits)
  next
    case False
    then have "ys' \<noteq> []" "ig_aggregateDigest (gr_integrity (last xs)) = ig_aggregateDigest (gr_integrity (last ys'))"
      using same x(3) y(3) by (auto split: if_splits)
    moreover have "inj_on sha (\<Union>r \<in> set xs \<union> set ys'. set (record_texts sha r))"
      by (rule inj_on_subset [OF snoc.prems(6)]) (auto simp: ys)
    ultimately show ?thesis using False x(1) y(1) by (intro snoc.IH)
  qed
  with same ys show ?case by (simp add: list_all2_appendI)
qed simp

text \<open>
  A history as the store holds it: each record at the position it names, verified against the digest of the
  record before it and the stored head of its references.
\<close>

definition history_verifies ::
  "(string \<Rightarrow> string) \<Rightarrow> string \<Rightarrow> (GovernanceRecord \<times> GovernanceReferenceChainState option) list \<Rightarrow> bool" where
  "history_verifies sha now rs \<longleftrightarrow>
     list_all (\<lambda>i.
        ig_chainPosition (gr_integrity (fst (rs ! i))) = int i + 1 \<and>
        gf_valid (verifyGovernanceRecordIntegrity sha (fst (rs ! i))
          (if i = 0 then Some None else Some (Some (ig_aggregateDigest (gr_integrity (fst (rs ! (i - 1)))))))
          now (Some (snd (rs ! i))))) [0..<length rs]"

lemma history_linked:
  assumes "history_verifies sha now rs"
  shows "linked_from sha None (map fst rs)"
  using assms
proof (induction rs rule: rev_induct)
  case (snoc r rs)
  have all: "ig_chainPosition (gr_integrity (fst ((rs @ [r]) ! i))) = int i + 1 \<and>
        gf_valid (verifyGovernanceRecordIntegrity sha (fst ((rs @ [r]) ! i))
          (if i = 0 then Some None else Some (Some (ig_aggregateDigest (gr_integrity (fst ((rs @ [r]) ! (i - 1)))))))
          now (Some (snd ((rs @ [r]) ! i))))" if "i < Suc (length rs)" for i
  proof -
    have "i \<in> set [0..<length (rs @ [r])]" using that by auto
    from bspec [OF snoc.prems [unfolded history_verifies_def list_all_iff] this] show ?thesis .
  qed
  have "history_verifies sha now rs"
    unfolding history_verifies_def list_all_iff
  proof
    fix i assume "i \<in> set [0..<length rs]"
    then have "i < Suc (length rs)" "(rs @ [r]) ! i = rs ! i" "(rs @ [r]) ! (i - 1) = rs ! (i - 1)"
      by (auto simp: nth_append)
    from all [OF this(1), unfolded this(2,3)] show "ig_chainPosition (gr_integrity (fst (rs ! i))) = int i + 1 \<and>
        gf_valid (verifyGovernanceRecordIntegrity sha (fst (rs ! i))
          (if i = 0 then Some None else Some (Some (ig_aggregateDigest (gr_integrity (fst (rs ! (i - 1)))))))
          now (Some (snd (rs ! i))))" .
  qed
  with snoc.IH have "linked_from sha None (map fst rs)" by simp
  moreover have "record_sealed sha (fst r) \<and> ig_previousAggregateDigest (gr_integrity (fst r)) =
      (if rs = [] then None else Some (ig_aggregateDigest (gr_integrity (fst (last rs)))))"
    using all [of "length rs"]
    by (cases rs rule: rev_cases) (auto simp: verified_iff linkCheck_def nth_append split: if_splits)
  ultimately show ?case by (auto simp: linked_append last_map)
qed simp

text \<open>What the content of an evaluation includes.\<close>

lemma canonical_strs [simp]: "canonical (strs xs) = strs xs"
proof -
  have "canonicalItems (map JStr xs) = map JStr xs" by (induction xs) auto
  then show ?thesis by (simp add: strs_def)
qed

lemma strs_simps [simp]: "strs xs = strs ys \<longleftrightarrow> xs = ys"
    "(case strs xs of JUndefined \<Rightarrow> None | _ \<Rightarrow> Some (strs xs)) = Some (strs xs)"
  by (auto simp: strs_def inj_def map_injective)

lemma same_content_decision:
  assumes "same_content r s"
  shows "vl_decisionId (gr_evaluation r) = vl_decisionId (gr_evaluation s) \<and>
    vl_requestId (gr_evaluation r) = vl_requestId (gr_evaluation s) \<and>
    vl_status (gr_evaluation r) = vl_status (gr_evaluation s) \<and>
    vl_reasonCodes (gr_evaluation r) = vl_reasonCodes (gr_evaluation s) \<and>
    vl_evaluatedAt (gr_evaluation r) = vl_evaluatedAt (gr_evaluation s)"
proof -
  have eq: "canonical (evaluationRecordDigestInput (gr_evaluation r)) = canonical (evaluationRecordDigestInput (gr_evaluation s))"
    using assms by (simp add: same_content_def)
  obtain fs gs where fs: "evaluationRecordDigestInput (gr_evaluation r) = JObj fs"
      "evaluationRecordDigestInput (gr_evaluation s) = JObj gs"
      and keys: "distinct (map fst fs)" "distinct (map fst gs)"
    by (auto simp: evaluationRecordDigestInput_def opt_field_def split: option.splits)
  note field = canonical_entries [OF eq [unfolded fs] keys]
  show ?thesis
    using fs field [of "''decisionId''"] field [of "''requestId''"] field [of "''status''"]
      field [of "''reasonCodes''"] field [of "''evaluatedAt''"]
    by (auto simp: evaluationRecordDigestInput_def opt_field_def split: option.splits)
qed

end
