(* ===== verification/GovernanceStore.thy ===== *)
theory GovernanceStore
  imports GovernanceVerification
begin

text \<open>
  The in-memory governance store (\<open>src/src/enterprise/governance-store/in-memory-governance-store.ts\<close>) with the
  semantics its providers share (\<open>store-common.ts\<close>) and the surface of \<open>governance-store.ts\<close>. Every method runs
  to its end without an \<open>await\<close>, so each is one function from a store to a result and a store. Freezing and
  copying a record have no counterpart: values are immutable here.

  A cursor goes through Node's \<open>Buffer\<close> and \<open>JSON.parse\<close>: \<open>b64\<close> is the base64url encoding of a text, \<open>parse\<close>
  decodes a cursor and parses it, \<^const>\<open>None\<close> when either throws.
\<close>

section \<open>State\<close>

record GovernanceIdempotencyRecord =
  dc_scope :: string
  dc_idempotencyKey :: string
  dc_requestDigest :: string
  dc_evaluationId :: string
  dc_createdAt :: string

record EnterpriseVersionRecord =
  bv_bootId :: string
  bv_enterpriseVersion :: string
  bv_kernelVersion :: string
  bv_recordedAt :: string

record governance_store =
  gs_aggregates :: "(string, GovernanceRecord) js_map"
  gs_evaluationIdByRequestId :: "(string, string) js_map"
  gs_evaluationIdByDecisionId :: "(string, string) js_map"
  gs_chain :: "string list"
  gs_idempotency :: "(string, GovernanceIdempotencyRecord) js_map"
  gs_references :: "(string, GovernanceReferenceRecord list) js_map"
  gs_referenceChain :: "(string, GovernanceReferenceChainState) js_map"
  gs_standaloneEvents :: "GovernanceEventRecord list"
  gs_sequenceByAggregate :: "(string, int) js_map"
  gs_versions :: "EnterpriseVersionRecord list"
  gs_closed :: bool

definition empty_governance_store :: governance_store where
  "empty_governance_store =
     \<lparr>gs_aggregates = [], gs_evaluationIdByRequestId = [], gs_evaluationIdByDecisionId = [], gs_chain = [],
      gs_idempotency = [], gs_references = [], gs_referenceChain = [], gs_standaloneEvents = [],
      gs_sequenceByAggregate = [], gs_versions = [], gs_closed = False\<rparr>"

definition idempotencyMapKey :: "string \<Rightarrow> string \<Rightarrow> string" where
  "idempotencyMapKey scope key = scope @ [CHR 0x00] @ key"

definition assertOpen_governance :: "governance_store \<Rightarrow> unit store_outcome" where
  "assertOpen_governance st = check GOVERNANCE_STORE_UNAVAILABLE (\<not> gs_closed st)"

section \<open>Who may read what\<close>

definition requireReadScope :: "GovernanceStoreAccessContext \<Rightarrow> unit store_outcome" where
  "requireReadScope context =
     (if \<not> ax_system context \<and> (ax_organizationId context = None \<or> ax_organizationId context = Some [])
      then Inl GOVERNANCE_TENANT_SCOPE_REQUIRED else Inr ())"

definition canSeeRecord :: "GovernanceStoreAccessContext \<Rightarrow> string option \<Rightarrow> bool" where
  "canSeeRecord context recordOrganizationId =
     (if ax_system context then True
      else recordOrganizationId \<noteq> None \<and> recordOrganizationId = ax_organizationId context)"

definition referencesOf :: "governance_store \<Rightarrow> string \<Rightarrow> GovernanceReferenceRecord list" where
  "referencesOf st evaluationId = (case map_get (gs_references st) evaluationId of None \<Rightarrow> [] | Some rs \<Rightarrow> rs)"

definition withReferences :: "governance_store \<Rightarrow> GovernanceRecord \<Rightarrow> GovernanceRecord" where
  "withReferences st r =
     (let references = referencesOf st (vl_evaluationId (gr_evaluation r))
      in if references = [] then r else r\<lparr>gr_references := references\<rparr>)"

definition loadVisibleRecord ::
  "GovernanceStoreAccessContext \<Rightarrow> string option \<Rightarrow> governance_store \<Rightarrow> GovernanceRecord option store_outcome" where
  "loadVisibleRecord context evaluationId st =
     rbind (requireReadScope context) (\<lambda>_.
       Inr (case evaluationId of
              None \<Rightarrow> None
            | Some e \<Rightarrow>
                (case map_get (gs_aggregates st) e of
                   None \<Rightarrow> None
                 | Some r \<Rightarrow>
                     if \<not> canSeeRecord context (qr_organizationId (gr_request r)) then None
                     else Some (withReferences st r))))"

section \<open>Idempotency\<close>

record GovernanceIdempotencyProbe =
  ip_requestId :: string
  ip_payloadDigest :: string
  ip_idempotency :: "GovernanceIdempotencyContext option"

datatype GovernanceIdempotencyResolution =
    IdempotencyNew
  | IdempotencyReplay GovernanceRecord
  | IdempotencyConflict GovernanceIdempotencyConflictKind

definition replayOrConflict ::
  "GovernanceStoreAccessContext \<Rightarrow> GovernanceIdempotencyConflictKind \<Rightarrow> string \<Rightarrow> governance_store \<Rightarrow>
     GovernanceIdempotencyResolution store_outcome" where
  "replayOrConflict context kind evaluationId st =
     rbind (loadVisibleRecord context (Some evaluationId) st) (\<lambda>r.
       Inr (case r of None \<Rightarrow> IdempotencyConflict kind | Some r \<Rightarrow> IdempotencyReplay r))"

definition resolveByRequestId ::
  "GovernanceStoreAccessContext \<Rightarrow> GovernanceIdempotencyProbe \<Rightarrow> governance_store \<Rightarrow>
     GovernanceIdempotencyResolution store_outcome" where
  "resolveByRequestId context probe st =
     (case map_get (gs_evaluationIdByRequestId st) (ip_requestId probe) of
        None \<Rightarrow> Inr IdempotencyNew
      | Some existing \<Rightarrow>
          (case map_get (gs_aggregates st) existing of
             None \<Rightarrow> Inr (IdempotencyConflict RequestIdConflict)
           | Some stored \<Rightarrow>
               if qr_payloadDigest (gr_request stored) \<noteq> ip_payloadDigest probe
               then Inr (IdempotencyConflict RequestIdConflict)
               else replayOrConflict context RequestIdConflict existing st))"

definition claimOf :: "governance_store \<Rightarrow> GovernanceIdempotencyContext \<Rightarrow> GovernanceIdempotencyRecord option" where
  "claimOf st c = map_get (gs_idempotency st) (idempotencyMapKey (dk_scope c) (dk_idempotencyKey c))"

definition resolveIdempotencySync ::
  "GovernanceStoreAccessContext \<Rightarrow> GovernanceIdempotencyProbe \<Rightarrow> governance_store \<Rightarrow>
     GovernanceIdempotencyResolution store_outcome" where
  "resolveIdempotencySync context probe st =
     (case (case ip_idempotency probe of None \<Rightarrow> None | Some c \<Rightarrow> claimOf st c) of
        Some claim \<Rightarrow>
          if dc_requestDigest claim \<noteq> ip_payloadDigest probe
          then Inr (IdempotencyConflict IdempotencyKeyConflict)
          else replayOrConflict context IdempotencyKeyConflict (dc_evaluationId claim) st
      | None \<Rightarrow> resolveByRequestId context probe st)"

definition resolveIdempotency_governance ::
  "GovernanceStoreAccessContext \<Rightarrow> GovernanceIdempotencyProbe \<Rightarrow> governance_store \<Rightarrow>
     GovernanceIdempotencyResolution store_outcome" where
  "resolveIdempotency_governance context probe st =
     rbind (assertOpen_governance st) (\<lambda>_. resolveIdempotencySync context probe st)"

section \<open>Appending an evaluation\<close>

record AppendGovernanceEvaluationResult =
  ao_evaluationId :: string
  ao_decisionId :: string
  ao_requestId :: string
  ao_created :: bool
  ao_idempotentReplay :: bool
  ao_aggregateDigest :: string
  ao_persistedAt :: string
  ao_existingRecord :: "GovernanceRecord option"

definition appendResult :: "bool \<Rightarrow> GovernanceRecord option \<Rightarrow> GovernanceRecord \<Rightarrow> AppendGovernanceEvaluationResult" where
  "appendResult created existing r =
     \<lparr>ao_evaluationId = vl_evaluationId (gr_evaluation r), ao_decisionId = vl_decisionId (gr_evaluation r),
      ao_requestId = vl_requestId (gr_evaluation r), ao_created = created, ao_idempotentReplay = (\<not> created),
      ao_aggregateDigest = ig_aggregateDigest (gr_integrity r),
      ao_persistedAt = vl_persistedAt (gr_evaluation r), ao_existingRecord = existing\<rparr>"

definition previousDigest :: "governance_store \<Rightarrow> string option" where
  "previousDigest st =
     (if gs_chain st = [] then None
      else map_option (\<lambda>r. ig_aggregateDigest (gr_integrity r)) (map_get (gs_aggregates st) (last (gs_chain st))))"

text \<open>The commit: the aggregate and every index.\<close>

definition commitAggregate ::
  "GovernanceIdempotencyContext option \<Rightarrow> string \<Rightarrow> GovernanceRecord \<Rightarrow> governance_store \<Rightarrow> governance_store" where
  "commitAggregate idempotency payloadDigest r st =
     (let evaluationId = vl_evaluationId (gr_evaluation r)
      in st\<lparr>gs_aggregates := map_set (gs_aggregates st) evaluationId r,
           gs_evaluationIdByRequestId :=
             map_set (gs_evaluationIdByRequestId st) (vl_requestId (gr_evaluation r)) evaluationId,
           gs_evaluationIdByDecisionId :=
             map_set (gs_evaluationIdByDecisionId st) (vl_decisionId (gr_evaluation r)) evaluationId,
           gs_chain := gs_chain st @ [evaluationId],
           gs_idempotency :=
             (case idempotency of
                None \<Rightarrow> gs_idempotency st
              | Some c \<Rightarrow> map_set (gs_idempotency st) (idempotencyMapKey (dk_scope c) (dk_idempotencyKey c))
                  \<lparr>dc_scope = dk_scope c, dc_idempotencyKey = dk_idempotencyKey c,
                   dc_requestDigest = payloadDigest, dc_evaluationId = evaluationId,
                   dc_createdAt = vl_persistedAt (gr_evaluation r)\<rparr>)\<rparr>)"

definition appendNew ::
  "(string \<Rightarrow> string) \<Rightarrow> GovernanceProjectionDependencies \<Rightarrow> AppendGovernanceEvaluationInput \<Rightarrow> governance_store \<Rightarrow>
     AppendGovernanceEvaluationResult store_outcome \<times> governance_store" where
  "appendNew sha deps input st =
     attempt (buildGovernanceAggregate sha deps (previousDigest st) (int (length (gs_chain st)) + 1) input) st (\<lambda>r.
       if map_get (gs_evaluationIdByDecisionId st) (vl_decisionId (gr_evaluation r)) \<noteq> None
       then (Inl GOVERNANCE_STORE_TRANSACTION_FAILED, st)
       else if map_get (gs_aggregates st) (vl_evaluationId (gr_evaluation r)) \<noteq> None
       then (Inl GOVERNANCE_STORE_TRANSACTION_FAILED, st)
       else (Inr (appendResult True None r),
             commitAggregate (ap_idempotency input)
               (computeGovernanceRequestPayloadDigest sha (ap_request input)) r st))"

definition probeOf ::
  "(string \<Rightarrow> string) \<Rightarrow> AppendGovernanceEvaluationInput \<Rightarrow> GovernanceIdempotencyProbe" where
  "probeOf sha input =
     \<lparr>ip_requestId = er_requestId (ap_request input),
      ip_payloadDigest = computeGovernanceRequestPayloadDigest sha (ap_request input),
      ip_idempotency = ap_idempotency input\<rparr>"

definition appendEvaluation_governance ::
  "(string \<Rightarrow> string) \<Rightarrow> GovernanceProjectionDependencies \<Rightarrow> AppendGovernanceEvaluationInput \<Rightarrow> governance_store \<Rightarrow>
     AppendGovernanceEvaluationResult store_outcome \<times> governance_store" where
  "appendEvaluation_governance sha deps input st =
     attempt (assertOpen_governance st) st (\<lambda>_.
     attempt (resolveIdempotencySync (ap_accessContext input) (probeOf sha input) st) st (\<lambda>resolution.
       case resolution of
         IdempotencyConflict kind \<Rightarrow> (Inl (GOVERNANCE_IDEMPOTENCY_CONFLICT kind), st)
       | IdempotencyReplay r \<Rightarrow> (Inr (appendResult False (Some r) r), st)
       | IdempotencyNew \<Rightarrow> appendNew sha deps input st))"

section \<open>Appending a reference\<close>

definition assertCanonicalReferenceType :: "string \<Rightarrow> unit store_outcome" where
  "assertCanonicalReferenceType t = check GOVERNANCE_STORE_VALIDATION_ERROR (isCanonicalGovernanceReferenceType t)"

definition sealContext :: "governance_store \<Rightarrow> GovernanceRecord \<Rightarrow> string \<Rightarrow> GovernanceReferenceSealContext" where
  "sealContext st r evaluationId =
     (let head = map_get (gs_referenceChain st) evaluationId
      in \<lparr>sl_organizationId = qr_organizationId (gr_request r),
          sl_sequence = (case head of None \<Rightarrow> 0 | Some h \<Rightarrow> ch_latestSequence h) + 1,
          sl_previousReferenceDigest = map_option ch_latestReferenceDigest head\<rparr>)"

definition headAfter :: "GovernanceReferenceRecord \<Rightarrow> GovernanceReferenceChainState" where
  "headAfter s =
     \<lparr>ch_evaluationId = rf_evaluationId s, ch_integrityVersion = the (rf_integrityVersion s),
      ch_latestSequence = the (rf_sequence s), ch_latestReferenceDigest = the (rf_referenceDigest s),
      ch_updatedAt = rf_createdAt s\<rparr>"

definition appendReference_governance ::
  "(string \<Rightarrow> string) \<Rightarrow> GovernanceStoreAccessContext \<Rightarrow> GovernanceReferenceInput \<Rightarrow> governance_store \<Rightarrow>
     unit store_outcome \<times> governance_store" where
  "appendReference_governance sha context reference st =
     attempt (assertOpen_governance st) st (\<lambda>_.
     attempt (assertCanonicalReferenceType (rf_referenceType reference)) st (\<lambda>_.
     attempt (loadVisibleRecord context (Some (rf_evaluationId reference)) st) st (\<lambda>found.
       case found of
         None \<Rightarrow> (Inl GOVERNANCE_RECORD_NOT_FOUND, st)
       | Some r \<Rightarrow>
           let evaluationId = rf_evaluationId reference; existing = referencesOf st evaluationId
           in if list_ex (\<lambda>x. rf_referenceId x = rf_referenceId reference) existing
              then (Inl GOVERNANCE_STORE_VALIDATION_ERROR, st)
              else let s = sealGovernanceReference sha reference (sealContext st r evaluationId)
                   in (Inr (), st\<lparr>gs_references := map_set (gs_references st) evaluationId (existing @ [s]),
                                 gs_referenceChain := map_set (gs_referenceChain st) evaluationId (headAfter s)\<rparr>))))"

section \<open>Events outside an evaluation\<close>

text \<open>A life cycle event is one with a \<open>lifecycleCorrelationId\<close>.\<close>

definition lifecycleEventRecord ::
  "(string \<Rightarrow> string) \<Rightarrow> string \<Rightarrow> int \<Rightarrow> EnterpriseEvent \<Rightarrow> string \<Rightarrow> GovernanceEventRecord" where
  "lifecycleEventRecord sha now sequence ev correlation =
     (let withoutDigest =
        \<lparr>vt_eventId = ee_eventId ev, vt_eventType = ee_type ev,
         vt_aggregateType = (if ee_moduleId ev = None then AggregateEnterpriseLifecycle else AggregateEnterpriseModule),
         vt_aggregateId = (case ee_moduleId ev of None \<Rightarrow> correlation | Some m \<Rightarrow> m),
         vt_requestId = None, vt_decisionId = None, vt_correlationId = Some correlation, vt_causationId = None,
         vt_sequence = Some sequence, vt_occurredAt = ee_occurredAt ev, vt_persistedAt = now,
         vt_enterpriseVersion = (case ee_enterpriseVersion ev of None \<Rightarrow> [] | Some v \<Rightarrow> v),
         vt_kernelVersion = None, vt_eventContract = ''aoc.governance-event-record.v1'',
         vt_eventPayload = redactSensitiveValues (JObj
           (opt_field ''requestId'' (ee_requestId ev) @ opt_field ''decisionId'' (ee_decisionId ev) @
            opt_field ''correlationId'' (ee_correlationId ev) @ ee_rest ev @ opt_field ''moduleId'' (ee_moduleId ev))),
         vt_eventDigest = []\<rparr>
      in withoutDigest\<lparr>vt_eventDigest := computeDigest sha (eventRecordDigestInput withoutDigest)\<rparr>)"

definition governanceEventRecord ::
  "(string \<Rightarrow> string) \<Rightarrow> string \<Rightarrow> string \<Rightarrow> int \<Rightarrow> EnterpriseEvent \<Rightarrow> string \<Rightarrow> GovernanceEventRecord" where
  "governanceEventRecord sha now enterpriseVersion sequence ev requestId =
     (let withoutDigest =
        \<lparr>vt_eventId = ee_eventId ev, vt_eventType = ee_type ev, vt_aggregateType = AggregateGovernanceRequest,
         vt_aggregateId = requestId, vt_requestId = Some requestId, vt_decisionId = ee_decisionId ev,
         vt_correlationId = ee_correlationId ev, vt_causationId = None, vt_sequence = Some sequence,
         vt_occurredAt = ee_occurredAt ev, vt_persistedAt = now, vt_enterpriseVersion = enterpriseVersion,
         vt_kernelVersion = None, vt_eventContract = ''aoc.governance-event-record.v1'',
         vt_eventPayload = redactSensitiveValues (JObj
           (opt_field ''decisionId'' (ee_decisionId ev) @ opt_field ''enterpriseVersion'' (ee_enterpriseVersion ev) @
            opt_field ''moduleId'' (ee_moduleId ev) @ ee_rest ev)),
         vt_eventDigest = []\<rparr>
      in withoutDigest\<lparr>vt_eventDigest := computeDigest sha (eventRecordDigestInput withoutDigest)\<rparr>)"

text \<open>Every event that is not a life cycle event has a request identifier.\<close>

definition eventAggregateId :: "EnterpriseEvent \<Rightarrow> string" where
  "eventAggregateId ev =
     (case ee_lifecycleCorrelationId ev of
        Some correlation \<Rightarrow> (case ee_moduleId ev of None \<Rightarrow> correlation | Some m \<Rightarrow> m)
      | None \<Rightarrow> the (ee_requestId ev))"

definition toStandaloneEventRecord ::
  "(string \<Rightarrow> string) \<Rightarrow> string \<Rightarrow> string \<Rightarrow> int \<Rightarrow> EnterpriseEvent \<Rightarrow> GovernanceEventRecord" where
  "toStandaloneEventRecord sha now enterpriseVersion sequence ev =
     (case ee_lifecycleCorrelationId ev of
        Some correlation \<Rightarrow> lifecycleEventRecord sha now sequence ev correlation
      | None \<Rightarrow> governanceEventRecord sha now enterpriseVersion sequence ev (the (ee_requestId ev)))"

definition nextSequence_governance :: "governance_store \<Rightarrow> string \<Rightarrow> int" where
  "nextSequence_governance st aggregateId =
     (case map_get (gs_sequenceByAggregate st) aggregateId of None \<Rightarrow> 0 | Some n \<Rightarrow> n) + 1"

definition pushStandalone :: "string \<Rightarrow> int \<Rightarrow> GovernanceEventRecord \<Rightarrow> governance_store \<Rightarrow> governance_store" where
  "pushStandalone aggregateId sequence e st =
     st\<lparr>gs_sequenceByAggregate := map_set (gs_sequenceByAggregate st) aggregateId sequence,
        gs_standaloneEvents := gs_standaloneEvents st @ [e]\<rparr>"

definition appendLifecycleEvent ::
  "(string \<Rightarrow> string) \<Rightarrow> string \<Rightarrow> string \<Rightarrow> EnterpriseEvent \<Rightarrow> governance_store \<Rightarrow>
     unit store_outcome \<times> governance_store" where
  "appendLifecycleEvent sha now enterpriseVersion ev st =
     attempt (assertOpen_governance st) st (\<lambda>_.
       let aggregateId = eventAggregateId ev; sequence = nextSequence_governance st aggregateId
       in (Inr (), pushStandalone aggregateId sequence
             (toStandaloneEventRecord sha now enterpriseVersion sequence ev) st))"

end
