(* ===== verification/GovernanceReads.thy ===== *)
theory GovernanceReads
  imports GovernanceStore
begin

text \<open>
  The reads of the in-memory governance store: records by identifier, the paged query, reconstruction,
  verification and health, and the older surface (\<open>persistEvaluation\<close> and what is read through it). The
  test-only corruption hook is left out.
\<close>

section \<open>By identifier\<close>

definition getByEvaluationId ::
  "GovernanceStoreAccessContext \<Rightarrow> string \<Rightarrow> governance_store \<Rightarrow> GovernanceRecord option store_outcome" where
  "getByEvaluationId context evaluationId st =
     rbind (assertOpen_governance st) (\<lambda>_. loadVisibleRecord context (Some evaluationId) st)"

definition getByDecisionId ::
  "GovernanceStoreAccessContext \<Rightarrow> string \<Rightarrow> governance_store \<Rightarrow> GovernanceRecord option store_outcome" where
  "getByDecisionId context decisionId st =
     rbind (assertOpen_governance st) (\<lambda>_. rbind (requireReadScope context) (\<lambda>_.
       loadVisibleRecord context (map_get (gs_evaluationIdByDecisionId st) decisionId) st))"

definition getByRequestId ::
  "GovernanceStoreAccessContext \<Rightarrow> string \<Rightarrow> governance_store \<Rightarrow> GovernanceRecord option store_outcome" where
  "getByRequestId context requestId st =
     rbind (assertOpen_governance st) (\<lambda>_. rbind (requireReadScope context) (\<lambda>_.
       loadVisibleRecord context (map_get (gs_evaluationIdByRequestId st) requestId) st))"

section \<open>Queries\<close>

record GovernanceStoreQuery =
  gy_requestId :: "string option"
  gy_evaluationId :: "string option"
  gy_decisionId :: "string option"
  gy_correlationId :: "string option"
  gy_organizationId :: "string option"
  gy_actorId :: "string option"
  gy_actionType :: "string option"
  gy_status :: "string option"
  gy_reasonCode :: "string option"
  gy_from :: "string option"
  gy_to :: "string option"
  gy_limit :: "int option"
  gy_cursor :: "string option"

record GovernanceRecordSummary =
  gz_evaluationId :: string
  gz_decisionId :: string
  gz_requestId :: string
  gz_correlationId :: "string option"
  gz_organizationId :: "string option"
  gz_actorId :: string
  gz_actionType :: string
  gz_status :: string
  gz_reasonCodes :: "string list"
  gz_evaluatedAt :: string
  gz_persistedAt :: string
  gz_aggregateDigest :: string

record GovernanceStoreQueryResult =
  gl_records :: "GovernanceRecordSummary list"
  gl_nextCursor :: "string option"

definition toGovernanceRecordSummary :: "GovernanceRecord \<Rightarrow> GovernanceRecordSummary" where
  "toGovernanceRecordSummary r =
     \<lparr>gz_evaluationId = vl_evaluationId (gr_evaluation r), gz_decisionId = vl_decisionId (gr_evaluation r),
      gz_requestId = vl_requestId (gr_evaluation r), gz_correlationId = vl_correlationId (gr_evaluation r),
      gz_organizationId = qr_organizationId (gr_request r), gz_actorId = qr_actorId (gr_request r),
      gz_actionType = qr_actionType (gr_request r), gz_status = vl_status (gr_evaluation r),
      gz_reasonCodes = vl_reasonCodes (gr_evaluation r), gz_evaluatedAt = vl_evaluatedAt (gr_evaluation r),
      gz_persistedAt = vl_persistedAt (gr_evaluation r),
      gz_aggregateDigest = ig_aggregateDigest (gr_integrity r)\<rparr>"

definition resolveQueryOrganization ::
  "GovernanceStoreAccessContext \<Rightarrow> GovernanceStoreQuery \<Rightarrow> string option store_outcome" where
  "resolveQueryOrganization context q =
     rbind (requireReadScope context) (\<lambda>_.
       if ax_system context then Inr (gy_organizationId q)
       else if gy_organizationId q \<noteq> None \<and> gy_organizationId q \<noteq> ax_organizationId context
       then Inl GOVERNANCE_ACCESS_SCOPE_VIOLATION
       else Inr (ax_organizationId context))"

definition normalizeQueryLimit :: "int option \<Rightarrow> int store_outcome" where
  "normalizeQueryLimit limit =
     (case limit of
        None \<Rightarrow> Inr 50
      | Some n \<Rightarrow> if n \<le> 0 \<or> n > 200 then Inl GOVERNANCE_STORE_VALIDATION_ERROR else Inr n)"

text \<open>\<open>JSON.stringify({ p: chainPosition })\<close> is the canonical text of that object.\<close>

definition encodeQueryCursor :: "(string \<Rightarrow> string) \<Rightarrow> int \<Rightarrow> string" where
  "encodeQueryCursor b64 chainPosition = b64 (canonicalSerialize (JObj [(''p'', JNum chainPosition)]))"

definition decodeQueryCursor :: "(string \<Rightarrow> json option) \<Rightarrow> string \<Rightarrow> int store_outcome" where
  "decodeQueryCursor parse cursor =
     (case parse cursor of
        Some (JObj fs) \<Rightarrow>
          (case map_of fs ''p'' of
             Some (JNum n) \<Rightarrow> if n > 0 then Inr n else Inl GOVERNANCE_STORE_VALIDATION_ERROR
           | _ \<Rightarrow> Inl GOVERNANCE_STORE_VALIDATION_ERROR)
      | _ \<Rightarrow> Inl GOVERNANCE_STORE_VALIDATION_ERROR)"

definition unless_wanted :: "'a option \<Rightarrow> 'a option \<Rightarrow> bool" where
  "unless_wanted wanted v \<longleftrightarrow> wanted \<noteq> None \<and> v \<noteq> wanted"

definition matchesQueryFilters :: "GovernanceRecord \<Rightarrow> GovernanceStoreQuery \<Rightarrow> string option \<Rightarrow> bool" where
  "matchesQueryFilters r q organizationId =
     (let l = gr_evaluation r; request = gr_request r
      in if unless_wanted organizationId (qr_organizationId request) then False
         else if unless_wanted (gy_requestId q) (Some (vl_requestId l)) then False
         else if unless_wanted (gy_evaluationId q) (Some (vl_evaluationId l)) then False
         else if unless_wanted (gy_decisionId q) (Some (vl_decisionId l)) then False
         else if unless_wanted (gy_correlationId q) (vl_correlationId l) then False
         else if unless_wanted (gy_actorId q) (Some (qr_actorId request)) then False
         else if unless_wanted (gy_actionType q) (Some (qr_actionType request)) then False
         else if unless_wanted (gy_status q) (Some (vl_status l)) then False
         else if (case gy_reasonCode q of None \<Rightarrow> False | Some c \<Rightarrow> c \<notin> set (vl_reasonCodes l)) then False
         else if (case gy_from q of None \<Rightarrow> False | Some t \<Rightarrow> vl_evaluatedAt l < t) then False
         else if (case gy_to q of None \<Rightarrow> False | Some t \<Rightarrow> t < vl_evaluatedAt l) then False
         else True)"

text \<open>Whether the entry of the chain at an index is a hit.\<close>

definition hit_at ::
  "GovernanceStoreAccessContext \<Rightarrow> GovernanceStoreQuery \<Rightarrow> string option \<Rightarrow> int option \<Rightarrow> governance_store \<Rightarrow> nat \<Rightarrow>
     (int \<times> GovernanceRecord) option" where
  "hit_at context q organizationId before st index =
     (let position = int index + 1
      in if (case before of None \<Rightarrow> False | Some b \<Rightarrow> position \<ge> b) then None
         else case map_get (gs_aggregates st) (gs_chain st ! index) of
                None \<Rightarrow> None
              | Some r \<Rightarrow>
                  if \<not> ax_system context \<and> \<not> canSeeRecord context (qr_organizationId (gr_request r)) then None
                  else if \<not> matchesQueryFilters r q organizationId then None
                  else Some (position, r))"

text \<open>The loop: from the newest entry down, until one hit more than the limit has been found.\<close>

fun scan_hits :: "(nat \<Rightarrow> (int \<times> GovernanceRecord) option) \<Rightarrow> int \<Rightarrow> nat \<Rightarrow> (int \<times> GovernanceRecord) list \<Rightarrow>
    (int \<times> GovernanceRecord) list" where
  "scan_hits hit limit 0 hits = hits"
| "scan_hits hit limit (Suc index) hits =
     (case hit index of
        None \<Rightarrow> scan_hits hit limit index hits
      | Some h \<Rightarrow>
          if int (length (hits @ [h])) > limit then hits @ [h]
          else scan_hits hit limit index (hits @ [h]))"

definition query_governance ::
  "(string \<Rightarrow> string) \<Rightarrow> (string \<Rightarrow> json option) \<Rightarrow> GovernanceStoreAccessContext \<Rightarrow> GovernanceStoreQuery \<Rightarrow>
     governance_store \<Rightarrow> GovernanceStoreQueryResult store_outcome" where
  "query_governance b64 parse context q st =
     rbind (assertOpen_governance st) (\<lambda>_.
     rbind (resolveQueryOrganization context q) (\<lambda>organizationId.
     rbind (normalizeQueryLimit (gy_limit q)) (\<lambda>limit.
     rbind (case gy_cursor q of None \<Rightarrow> Inr None
            | Some c \<Rightarrow> rbind (decodeQueryCursor parse c) (\<lambda>p. Inr (Some p))) (\<lambda>before.
       let hits = scan_hits (hit_at context q organizationId before st) limit (length (gs_chain st)) [];
           page = take (nat limit) hits
       in Inr \<lparr>gl_records = map (\<lambda>h. toGovernanceRecordSummary (snd h)) page,
               gl_nextCursor = (if int (length hits) > limit \<and> page \<noteq> []
                 then Some (encodeQueryCursor b64 (fst (last page))) else None)\<rparr>))))"

section \<open>Reconstruction and verification\<close>

datatype load_status = LoadComplete | LoadCorrupted

record GovernanceRecordLoadResult =
  gd_status :: load_status
  gd_record :: "GovernanceRecord option"
  gd_missingComponents :: "string list"
  gd_integrityFailures :: "string list"

definition reconstruct_governance ::
  "GovernanceStoreAccessContext \<Rightarrow> string \<Rightarrow> governance_store \<Rightarrow> GovernanceRecordLoadResult store_outcome" where
  "reconstruct_governance context evaluationId st =
     rbind (assertOpen_governance st) (\<lambda>_.
     rbind (loadVisibleRecord context (Some evaluationId) st) (\<lambda>found.
       case found of
         None \<Rightarrow> Inl GOVERNANCE_RECORD_NOT_FOUND
       | Some r \<Rightarrow>
           if mt_schemaVersion (gr_metadata r) \<noteq> GOVERNANCE_STORE_SCHEMA_VERSION
           then Inr \<lparr>gd_status = LoadCorrupted, gd_record = None, gd_missingComponents = [],
             gd_integrityFailures = [(''Unsupported schema version '' @ [CHR 0x27]) @ mt_schemaVersion (gr_metadata r) @ [CHR 0x27] @ ''.'']\<rparr>
           else Inr \<lparr>gd_status = LoadComplete, gd_record = Some r, gd_missingComponents = [], gd_integrityFailures = []\<rparr>))"

definition expectedPrevious :: "governance_store \<Rightarrow> GovernanceRecord \<Rightarrow> string option option" where
  "expectedPrevious st r =
     (let position = ig_chainPosition (gr_integrity r)
      in if position > 1
         then (if nat (position - 2) < length (gs_chain st)
               then map_option (\<lambda>p. Some (ig_aggregateDigest (gr_integrity p)))
                      (map_get (gs_aggregates st) (gs_chain st ! nat (position - 2)))
               else None)
         else Some None)"

definition verify_governance ::
  "(string \<Rightarrow> string) \<Rightarrow> string \<Rightarrow> GovernanceStoreAccessContext \<Rightarrow> string \<Rightarrow> governance_store \<Rightarrow>
     GovernanceRecordVerificationResult store_outcome" where
  "verify_governance sha now context evaluationId st =
     rbind (assertOpen_governance st) (\<lambda>_.
     rbind (loadVisibleRecord context (Some evaluationId) st) (\<lambda>found.
       case found of
         None \<Rightarrow> Inl GOVERNANCE_RECORD_NOT_FOUND
       | Some r \<Rightarrow>
           Inr (verifyGovernanceRecordIntegrity sha r (expectedPrevious st r) now
             (Some (map_get (gs_referenceChain st) evaluationId)))))"

record GovernanceStoreHealth =
  gh_healthy :: bool
  gh_writable :: bool
  gh_readable :: bool
  gh_schemaVersion :: string
  gh_migrationState :: string
  gh_checkedAt :: string
  gh_provider :: string
  gh_aggregates :: nat

definition health_governance :: "string \<Rightarrow> governance_store \<Rightarrow> GovernanceStoreHealth" where
  "health_governance now st =
     \<lparr>gh_healthy = (\<not> gs_closed st), gh_writable = (\<not> gs_closed st), gh_readable = (\<not> gs_closed st),
      gh_schemaVersion = GOVERNANCE_STORE_SCHEMA_VERSION, gh_migrationState = ''not-applicable'', gh_checkedAt = now,
      gh_provider = ''memory'', gh_aggregates = length (gs_aggregates st)\<rparr>"

section \<open>The older surface\<close>

record PersistEvaluationInput =
  pe_request :: KernelEvaluationRequest
  pe_result :: KernelEvaluation
  pe_receivedAt :: string

datatype PersistEvaluationOutcome = PersistStored | PersistIdempotentReplay | PersistConflict

record PersistEvaluationResult =
  po_outcome :: PersistEvaluationOutcome
  po_evaluation :: GovernanceEvaluationRecord

definition system_context :: GovernanceStoreAccessContext where
  "system_context = \<lparr>ax_organizationId = None, ax_actorId = None, ax_system = True\<rparr>"

definition toLegacyAppendInput :: "PersistEvaluationInput \<Rightarrow> string \<Rightarrow> AppendGovernanceEvaluationInput" where
  "toLegacyAppendInput input enterpriseVersion =
     \<lparr>ap_request = pe_request input, ap_result = pe_result input, ap_receivedAt = pe_receivedAt input,
      ap_enterpriseContext = \<lparr>ec_enterpriseVersion = enterpriseVersion, ec_lifecycleState = ''unrecorded'',
        ec_modules = [], ec_providers = None, ec_buildVersion = None, ec_environment = None\<rparr>,
      ap_events = [], ap_idempotency = None, ap_accessContext = system_context\<rparr>"

definition persistEvaluation ::
  "(string \<Rightarrow> string) \<Rightarrow> GovernanceProjectionDependencies \<Rightarrow> string \<Rightarrow> PersistEvaluationInput \<Rightarrow> governance_store \<Rightarrow>
     PersistEvaluationResult store_outcome \<times> governance_store" where
  "persistEvaluation sha deps enterpriseVersion input st =
     attempt (assertOpen_governance st) st (\<lambda>_.
       case appendEvaluation_governance sha deps (toLegacyAppendInput input enterpriseVersion) st of
         (Inr appended, st') \<Rightarrow>
           (case (case ao_existingRecord appended of
                    Some r \<Rightarrow> Some r | None \<Rightarrow> map_get (gs_aggregates st') (ao_evaluationId appended)) of
              None \<Rightarrow> (Inl GOVERNANCE_STORE_TRANSACTION_FAILED, st')
            | Some r \<Rightarrow>
                (Inr \<lparr>po_outcome = (if ao_idempotentReplay appended then PersistIdempotentReplay else PersistStored),
                      po_evaluation = gr_evaluation r\<rparr>, st'))
       | (Inl (GOVERNANCE_IDEMPOTENCY_CONFLICT kind), st') \<Rightarrow>
           (case getByRequestId system_context (er_requestId (pe_request input)) st' of
              Inr (Some existing) \<Rightarrow> (Inr \<lparr>po_outcome = PersistConflict, po_evaluation = gr_evaluation existing\<rparr>, st')
            | Inr None \<Rightarrow> (Inl (GOVERNANCE_IDEMPOTENCY_CONFLICT kind), st')
            | Inl e \<Rightarrow> (Inl e, st'))
       | (Inl e, st') \<Rightarrow> (Inl e, st'))"

definition getRequestById :: "string \<Rightarrow> governance_store \<Rightarrow> GovernanceRequestRecord option store_outcome" where
  "getRequestById requestId st =
     rbind (assertOpen_governance st) (\<lambda>_.
     rbind (loadVisibleRecord system_context (map_get (gs_evaluationIdByRequestId st) requestId) st) (\<lambda>found.
       Inr (map_option gr_request found)))"

definition getEvaluationByRequestId :: "string \<Rightarrow> governance_store \<Rightarrow> GovernanceEvaluationRecord option store_outcome" where
  "getEvaluationByRequestId requestId st =
     rbind (assertOpen_governance st) (\<lambda>_.
     rbind (loadVisibleRecord system_context (map_get (gs_evaluationIdByRequestId st) requestId) st) (\<lambda>found.
       Inr (map_option gr_evaluation found)))"

definition getEvaluationByDecisionId :: "string \<Rightarrow> governance_store \<Rightarrow> GovernanceEvaluationRecord option store_outcome" where
  "getEvaluationByDecisionId decisionId st =
     rbind (assertOpen_governance st) (\<lambda>_.
     rbind (loadVisibleRecord system_context (map_get (gs_evaluationIdByDecisionId st) decisionId) st) (\<lambda>found.
       Inr (map_option gr_evaluation found)))"

record KernelTraceView =
  tv_steps :: "KernelTraceStep list"
  tv_decisionId :: string
  tv_kernelVersion :: string

text \<open>The trace as the kernel wrote it: the stored steps in the order of their sequence numbers.\<close>

definition toKernelTraceStep :: "GovernanceTraceRecord \<Rightarrow> KernelTraceStep" where
  "toKernelTraceStep s =
     \<lparr>kt_sequence = tp_sequence s, kt_operator = tp_operator s, kt_status = tp_status s,
      kt_reasonCodes = tp_reasonCodes s, kt_startedAt = tp_startedAt s, kt_completedAt = tp_completedAt s,
      kt_metadata = (case tp_metadata s of Some (JObj fs) \<Rightarrow> Some fs | _ \<Rightarrow> None)\<rparr>"

definition toKernelTrace :: "GovernanceRecord \<Rightarrow> KernelTraceView" where
  "toKernelTrace r =
     \<lparr>tv_steps = map toKernelTraceStep (by_sequence tp_sequence (gr_trace r)), tv_decisionId = vl_decisionId (gr_evaluation r),
      tv_kernelVersion = vl_kernelVersion (gr_evaluation r)\<rparr>"

definition getTraceByDecisionId :: "string \<Rightarrow> governance_store \<Rightarrow> KernelTraceView option store_outcome" where
  "getTraceByDecisionId decisionId st =
     rbind (assertOpen_governance st) (\<lambda>_.
     rbind (loadVisibleRecord system_context (map_get (gs_evaluationIdByDecisionId st) decisionId) st) (\<lambda>found.
       Inr (map_option toKernelTrace found)))"

record EnterpriseEventRecord =
  eo_eventId :: string
  eo_eventType :: string
  eo_requestId :: string
  eo_decisionId :: "string option"
  eo_correlationId :: "string option"
  eo_occurredAt :: string
  eo_payload :: json

definition legacyEventToRecord ::
  "(string \<Rightarrow> string) \<Rightarrow> string \<Rightarrow> string \<Rightarrow> int \<Rightarrow> EnterpriseEventRecord \<Rightarrow> GovernanceEventRecord" where
  "legacyEventToRecord sha now enterpriseVersion sequence e =
     (let withoutDigest =
        \<lparr>vt_eventId = eo_eventId e, vt_eventType = eo_eventType e, vt_aggregateType = AggregateGovernanceRequest,
         vt_aggregateId = eo_requestId e, vt_requestId = Some (eo_requestId e), vt_decisionId = eo_decisionId e,
         vt_correlationId = eo_correlationId e, vt_causationId = None, vt_sequence = Some sequence,
         vt_occurredAt = eo_occurredAt e, vt_persistedAt = now, vt_enterpriseVersion = enterpriseVersion,
         vt_kernelVersion = None, vt_eventContract = ''aoc.governance-event-record.v1'',
         vt_eventPayload = redactSensitiveValues (eo_payload e), vt_eventDigest = []\<rparr>
      in withoutDigest\<lparr>vt_eventDigest := computeDigest sha (eventRecordDigestInput withoutDigest)\<rparr>)"

definition recordToLegacyEvent :: "GovernanceEventRecord \<Rightarrow> EnterpriseEventRecord option" where
  "recordToLegacyEvent r =
     (case vt_requestId r of
        None \<Rightarrow> None
      | Some requestId \<Rightarrow>
          Some \<lparr>eo_eventId = vt_eventId r, eo_eventType = vt_eventType r, eo_requestId = requestId,
                eo_decisionId = vt_decisionId r, eo_correlationId = vt_correlationId r,
                eo_occurredAt = vt_occurredAt r, eo_payload = vt_eventPayload r\<rparr>)"

definition appendEnterpriseEvent ::
  "(string \<Rightarrow> string) \<Rightarrow> string \<Rightarrow> string \<Rightarrow> EnterpriseEventRecord \<Rightarrow> governance_store \<Rightarrow>
     unit store_outcome \<times> governance_store" where
  "appendEnterpriseEvent sha now enterpriseVersion e st =
     attempt (assertOpen_governance st) st (\<lambda>_.
       let sequence = nextSequence_governance st (eo_requestId e)
       in (Inr (), pushStandalone (eo_requestId e) sequence
             (legacyEventToRecord sha now enterpriseVersion sequence e) st))"

definition chainRecords :: "governance_store \<Rightarrow> GovernanceRecord list" where
  "chainRecords st = List.map_filter (map_get (gs_aggregates st)) (gs_chain st)"

definition listEnterpriseEvents ::
  "string option \<Rightarrow> string option \<Rightarrow> governance_store \<Rightarrow> EnterpriseEventRecord list store_outcome" where
  "listEnterpriseEvents requestId correlationId st =
     rbind (assertOpen_governance st) (\<lambda>_.
       Inr (filter (\<lambda>e. (requestId = None \<or> Some (eo_requestId e) = requestId) \<and>
                        (correlationId = None \<or> eo_correlationId e = correlationId))
              (List.map_filter recordToLegacyEvent
                (gs_standaloneEvents st @ concat (map gr_events (chainRecords st))))))"

definition recordEnterpriseVersion ::
  "EnterpriseVersionRecord \<Rightarrow> governance_store \<Rightarrow> unit store_outcome \<times> governance_store" where
  "recordEnterpriseVersion v st =
     attempt (assertOpen_governance st) st (\<lambda>_. (Inr (), st\<lparr>gs_versions := gs_versions st @ [v]\<rparr>))"

definition getLatestEnterpriseVersion :: "governance_store \<Rightarrow> EnterpriseVersionRecord option store_outcome" where
  "getLatestEnterpriseVersion st =
     rbind (assertOpen_governance st) (\<lambda>_.
       Inr (if gs_versions st = [] then None else Some (last (gs_versions st))))"

definition checkConnectivity :: "governance_store \<Rightarrow> bool" where
  "checkConnectivity st = (\<not> gs_closed st)"

definition close_governance :: "governance_store \<Rightarrow> governance_store" where
  "close_governance st = st\<lparr>gs_closed := True\<rparr>"

end
