(* ===== verification/GovernanceInvariants.thy ===== *)
theory GovernanceInvariants
  imports GovernanceReads
begin

text \<open>
  What holds of every governance store its operations can reach: the aggregates form one sealed chain, each
  request and each decision names exactly one of them, an idempotency claim names an aggregate with the
  claimed payload, and the references of an evaluation form one sealed chain that ends at the stored head.
\<close>

section \<open>Runs\<close>

datatype governance_call =
    GvAppend GovernanceProjectionDependencies AppendGovernanceEvaluationInput
  | GvReference GovernanceStoreAccessContext GovernanceReferenceInput
  | GvLifecycle string EnterpriseEvent
  | GvPersist GovernanceProjectionDependencies PersistEvaluationInput
  | GvEvent string EnterpriseEventRecord
  | GvVersion EnterpriseVersionRecord
  | GvClose

fun run_governance :: "(string \<Rightarrow> string) \<Rightarrow> string \<Rightarrow> governance_call \<Rightarrow> governance_store \<Rightarrow> governance_store" where
  "run_governance sha version (GvAppend deps input) st = snd (appendEvaluation_governance sha deps input st)"
| "run_governance sha version (GvReference context reference) st = snd (appendReference_governance sha context reference st)"
| "run_governance sha version (GvLifecycle now ev) st = snd (appendLifecycleEvent sha now version ev st)"
| "run_governance sha version (GvPersist deps input) st = snd (persistEvaluation sha deps version input st)"
| "run_governance sha version (GvEvent now e) st = snd (appendEnterpriseEvent sha now version e st)"
| "run_governance sha version (GvVersion v) st = snd (recordEnterpriseVersion v st)"
| "run_governance sha version GvClose st = close_governance st"

definition run_governances ::
  "(string \<Rightarrow> string) \<Rightarrow> string \<Rightarrow> governance_call list \<Rightarrow> governance_store" where
  "run_governances sha version calls = fold (run_governance sha version) calls empty_governance_store"

section \<open>The invariant\<close>

definition chain_ok :: "(string \<Rightarrow> string) \<Rightarrow> governance_store \<Rightarrow> GovernanceRecord list \<Rightarrow> bool" where
  "chain_ok sha st rs \<longleftrightarrow>
     distinct (gs_chain st) \<and> map (\<lambda>r. vl_evaluationId (gr_evaluation r)) rs = gs_chain st \<and>
     map (map_get (gs_aggregates st)) (gs_chain st) = map Some rs \<and>
     (\<forall>e r. map_get (gs_aggregates st) e = Some r \<longrightarrow> e \<in> set (gs_chain st)) \<and>
     linked_from sha None rs \<and>
     map (\<lambda>r. ig_chainPosition (gr_integrity r)) rs = map (\<lambda>i. int i + 1) [0..<length rs] \<and>
     (\<forall>r \<in> set rs. gr_references r = [] \<and> mt_schemaVersion (gr_metadata r) = GOVERNANCE_STORE_SCHEMA_VERSION \<and>
        qr_requestId (gr_request r) = vl_requestId (gr_evaluation r))"

text \<open>An index names exactly the aggregates that have the identifier it is by.\<close>

definition index_ok :: "(GovernanceRecord \<Rightarrow> string) \<Rightarrow> (string, string) js_map \<Rightarrow> governance_store \<Rightarrow> bool" where
  "index_ok f index st \<longleftrightarrow>
     (\<forall>k e. map_get index k = Some e \<longleftrightarrow> (\<exists>r. map_get (gs_aggregates st) e = Some r \<and> f r = k))"

definition claims_ok :: "governance_store \<Rightarrow> bool" where
  "claims_ok st \<longleftrightarrow>
     (\<forall>k c. map_get (gs_idempotency st) k = Some c \<longrightarrow>
        (\<exists>r. map_get (gs_aggregates st) (dc_evaluationId c) = Some r \<and>
             qr_payloadDigest (gr_request r) = dc_requestDigest c))"

definition references_ok :: "(string \<Rightarrow> string) \<Rightarrow> governance_store \<Rightarrow> bool" where
  "references_ok sha st \<longleftrightarrow>
     (\<forall>e. head_of (map_get (gs_referenceChain st) e) (referencesOf st e) \<and>
          distinct (map rf_referenceId (referencesOf st e)) \<and>
          (\<forall>x \<in> set (referencesOf st e). rf_evaluationId x = e) \<and>
          (case map_get (gs_aggregates st) e of
             None \<Rightarrow> referencesOf st e = []
           | Some r \<Rightarrow> sealed_from sha (qr_organizationId (gr_request r)) 0 None (referencesOf st e)))"

definition governance_ok :: "(string \<Rightarrow> string) \<Rightarrow> governance_store \<Rightarrow> bool" where
  "governance_ok sha st \<longleftrightarrow>
     (\<exists>rs. chain_ok sha st rs) \<and>
     index_ok (\<lambda>r. vl_requestId (gr_evaluation r)) (gs_evaluationIdByRequestId st) st \<and>
     index_ok (\<lambda>r. vl_decisionId (gr_evaluation r)) (gs_evaluationIdByDecisionId st) st \<and>
     claims_ok st \<and> references_ok sha st"

lemma empty_governance_ok: "governance_ok sha empty_governance_store"
proof -
  have "chain_ok sha empty_governance_store []"
    by (simp add: chain_ok_def empty_governance_store_def)
  then show ?thesis
    by (auto simp: governance_ok_def index_ok_def claims_ok_def references_ok_def referencesOf_def head_of_def
      empty_governance_store_def)
qed

section \<open>Appending an evaluation\<close>

lemma commit_fields [simp]:
  "gs_aggregates (commitAggregate c p r st) = map_set (gs_aggregates st) (vl_evaluationId (gr_evaluation r)) r"
  "gs_chain (commitAggregate c p r st) = gs_chain st @ [vl_evaluationId (gr_evaluation r)]"
  "gs_evaluationIdByRequestId (commitAggregate c p r st) =
     map_set (gs_evaluationIdByRequestId st) (vl_requestId (gr_evaluation r)) (vl_evaluationId (gr_evaluation r))"
  "gs_evaluationIdByDecisionId (commitAggregate c p r st) =
     map_set (gs_evaluationIdByDecisionId st) (vl_decisionId (gr_evaluation r)) (vl_evaluationId (gr_evaluation r))"
  "gs_references (commitAggregate c p r st) = gs_references st"
  "gs_referenceChain (commitAggregate c p r st) = gs_referenceChain st"
  "gs_closed (commitAggregate c p r st) = gs_closed st"
  by (simp_all add: commitAggregate_def Let_def)

lemma commit_claims:
  "map_get (gs_idempotency (commitAggregate c p r st)) k = Some d \<Longrightarrow>
     map_get (gs_idempotency st) k = Some d \<or>
     (dc_evaluationId d = vl_evaluationId (gr_evaluation r) \<and> dc_requestDigest d = p)"
  by (auto simp: commitAggregate_def Let_def map_simps split: option.splits if_splits)

lemma chain_ok_commit:
  assumes "chain_ok sha st rs" and "map_get (gs_aggregates st) (vl_evaluationId (gr_evaluation r)) = None"
    and "aggregate_of sha deps (previousDigest st) (int (length (gs_chain st)) + 1) input r"
  shows "chain_ok sha (commitAggregate c p r st) (rs @ [r])"
proof -
  let ?e = "vl_evaluationId (gr_evaluation r)"
  have len: "length rs = length (gs_chain st)" using assms(1) by (metis chain_ok_def length_map)
  have fresh: "?e \<notin> set (gs_chain st)"
  proof
    assume "?e \<in> set (gs_chain st)"
    then have "map_get (gs_aggregates st) ?e \<in> set (map Some rs)"
      using assms(1) unfolding chain_ok_def by (metis image_eqI list.set_map)
    with assms(2) show False by auto
  qed
  have prev: "previousDigest st = (if rs = [] then None else Some (ig_aggregateDigest (gr_integrity (last rs))))"
  proof (cases rs rule: rev_cases)
    case Nil
    then show ?thesis using len by (simp add: previousDigest_def)
  next
    case (snoc qs q)
    then have "gs_chain st \<noteq> []" using len by auto
    moreover have "map_get (gs_aggregates st) (last (gs_chain st)) = Some (last rs)"
      using assms(1) calculation snoc unfolding chain_ok_def
      by (metis last_map list.map_disc_iff snoc_eq_iff_butlast)
    ultimately show ?thesis using snoc by (simp add: previousDigest_def)
  qed
  have "map (map_get (map_set (gs_aggregates st) ?e r)) (gs_chain st) = map (map_get (gs_aggregates st)) (gs_chain st)"
    using fresh by (intro map_cong) (auto simp: map_simps)
  also have "\<dots> = map Some rs" using assms(1) unfolding chain_ok_def by (elim conjE)
  finally have "map (map_get (gs_aggregates (commitAggregate c p r st))) (gs_chain (commitAggregate c p r st)) =
      map Some (rs @ [r])"
    by (simp only: commit_fields map_append list.map jsmap.get_put_same)
  moreover have "linked_from sha None (rs @ [r])"
    using assms(1,3) prev by (simp add: chain_ok_def linked_append aggregate_of_def)
  moreover have "\<forall>q \<in> set (rs @ [r]). gr_references q = [] \<and>
      mt_schemaVersion (gr_metadata q) = GOVERNANCE_STORE_SCHEMA_VERSION \<and>
      qr_requestId (gr_request q) = vl_requestId (gr_evaluation q)"
    using assms(1,3) by (simp add: chain_ok_def aggregate_of_def)
  moreover have "ig_chainPosition (gr_integrity r) = int (length rs) + 1"
    using assms(3) len by (simp add: aggregate_of_def)
  moreover have "e \<in> set (gs_chain st) \<or> e = ?e"
    if "map_get (map_set (gs_aggregates st) ?e r) e = Some q" for e q
    using that assms(1) by (auto simp: chain_ok_def map_simps split: if_splits)
  ultimately show ?thesis
    using assms(1) fresh by (auto simp: chain_ok_def)
qed

lemma index_ok_commit:
  assumes "index_ok f index st" and "map_get index (f r) = None"
    and "map_get (gs_aggregates st) (vl_evaluationId (gr_evaluation r)) = None"
    and "gs_aggregates st' = map_set (gs_aggregates st) (vl_evaluationId (gr_evaluation r)) r"
  shows "index_ok f (map_set index (f r) (vl_evaluationId (gr_evaluation r))) st'"
proof -
  let ?e = "vl_evaluationId (gr_evaluation r)"
  have there: "map_get index (f q) = Some e" if "map_get (gs_aggregates st) e = Some q" for e q
    using assms(1) that by (auto simp: index_ok_def)
  have back_there: "\<exists>q. map_get (gs_aggregates st) e = Some q \<and> f q = k" if "map_get index k = Some e" for e k
    using assms(1) that by (auto simp: index_ok_def)
  have "map_get (map_set index (f r) ?e) k = Some e \<longleftrightarrow> (\<exists>q. map_get (map_set (gs_aggregates st) ?e r) e = Some q \<and> f q = k)"
    for k e
    using there [of e] back_there [of k e] assms(2,3)
    by (cases "k = f r"; cases "e = ?e") (auto simp: map_simps)
  then show ?thesis by (simp add: index_ok_def assms(4))
qed

lemma governance_ok_commit:
  assumes ok: "governance_ok sha st"
    and "map_get (gs_evaluationIdByRequestId st) (er_requestId (ap_request input)) = None"
    and "map_get (gs_evaluationIdByDecisionId st) (vl_decisionId (gr_evaluation r)) = None"
    and new: "map_get (gs_aggregates st) (vl_evaluationId (gr_evaluation r)) = None"
    and r: "aggregate_of sha deps (previousDigest st) (int (length (gs_chain st)) + 1) input r"
  shows "governance_ok sha (commitAggregate c (computeGovernanceRequestPayloadDigest sha (ap_request input)) r st)"
proof -
  let ?st = "commitAggregate c (computeGovernanceRequestPayloadDigest sha (ap_request input)) r st"
  let ?e = "vl_evaluationId (gr_evaluation r)"
  have agg: "gs_aggregates ?st = map_set (gs_aggregates st) ?e r"
    and refs: "referencesOf ?st = referencesOf st" "gs_referenceChain ?st = gs_referenceChain st"
    by (simp_all add: referencesOf_def fun_eq_iff)
  obtain rs where "chain_ok sha st rs" using ok by (auto simp: governance_ok_def)
  then have "\<exists>rs. chain_ok sha ?st rs" using chain_ok_commit [OF _ new r] by blast
  moreover have "index_ok (\<lambda>r. vl_requestId (gr_evaluation r)) (gs_evaluationIdByRequestId ?st) ?st"
    using index_ok_commit [of "\<lambda>r. vl_requestId (gr_evaluation r)" "gs_evaluationIdByRequestId st" st r ?st]
      ok assms(2) new agg r by (simp add: governance_ok_def aggregate_of_def)
  moreover have "index_ok (\<lambda>r. vl_decisionId (gr_evaluation r)) (gs_evaluationIdByDecisionId ?st) ?st"
    using index_ok_commit [of "\<lambda>r. vl_decisionId (gr_evaluation r)" "gs_evaluationIdByDecisionId st" st r ?st]
      ok assms(3) new agg by (simp add: governance_ok_def)
  moreover have "claims_ok ?st"
    unfolding claims_ok_def
  proof (intro allI impI)
    fix k d assume "map_get (gs_idempotency ?st) k = Some d"
    from commit_claims [OF this]
    show "\<exists>r'. map_get (gs_aggregates ?st) (dc_evaluationId d) = Some r' \<and>
        qr_payloadDigest (gr_request r') = dc_requestDigest d"
    proof
      assume "map_get (gs_idempotency st) k = Some d"
      then obtain q where "map_get (gs_aggregates st) (dc_evaluationId d) = Some q"
          "qr_payloadDigest (gr_request q) = dc_requestDigest d"
        using ok by (auto simp: governance_ok_def claims_ok_def)
      with new show ?thesis by (auto simp: map_simps)
    qed (use r in \<open>simp add: aggregate_of_def map_simps\<close>)
  qed
  moreover have "referencesOf st ?e = []"
    using ok new by (auto simp: governance_ok_def references_ok_def dest!: spec [of _ ?e])
  then have "references_ok sha ?st"
    using ok new unfolding governance_ok_def references_ok_def refs agg
    by (auto simp: map_simps split: option.splits if_splits)
  ultimately show ?thesis by (simp add: governance_ok_def)
qed

lemma resolved_new:
  assumes "resolveIdempotencySync context (probeOf sha input) st = Inr IdempotencyNew"
  shows "map_get (gs_evaluationIdByRequestId st) (er_requestId (ap_request input)) = None"
  using assms
  by (auto simp: resolveIdempotencySync_def resolveByRequestId_def replayOrConflict_def probeOf_def outcome_simps
    split: option.splits if_splits)

text \<open>A call that is refused, or replays, leaves the store as it is; the others commit one new aggregate.\<close>

definition newly_built ::
  "(string \<Rightarrow> string) \<Rightarrow> GovernanceProjectionDependencies \<Rightarrow> AppendGovernanceEvaluationInput \<Rightarrow> governance_store \<Rightarrow>
     GovernanceRecord \<Rightarrow> bool" where
  "newly_built sha deps input st r \<longleftrightarrow>
     \<not> gs_closed st \<and>
     resolveIdempotencySync (ap_accessContext input) (probeOf sha input) st = Inr IdempotencyNew \<and>
     buildGovernanceAggregate sha deps (previousDigest st) (int (length (gs_chain st)) + 1) input = Inr r \<and>
     map_get (gs_evaluationIdByDecisionId st) (vl_decisionId (gr_evaluation r)) = None \<and>
     map_get (gs_aggregates st) (vl_evaluationId (gr_evaluation r)) = None"

definition committed ::
  "(string \<Rightarrow> string) \<Rightarrow> AppendGovernanceEvaluationInput \<Rightarrow> GovernanceRecord \<Rightarrow> governance_store \<Rightarrow> governance_store" where
  "committed sha input r st =
     commitAggregate (ap_idempotency input) (computeGovernanceRequestPayloadDigest sha (ap_request input)) r st"

lemma append_cases:
  obtains (same) "snd (appendEvaluation_governance sha deps input st) = st"
    "\<And>o'. fst (appendEvaluation_governance sha deps input st) = Inr o' \<Longrightarrow> ao_created o' = False"
  | (new) r where "newly_built sha deps input st r"
    "appendEvaluation_governance sha deps input st = (Inr (appendResult True None r), committed sha input r st)"
proof (cases "assertOpen_governance st")
  case Inl
  then show thesis by (intro same) (simp_all add: appendEvaluation_governance_def)
next
  case (Inr u)
  then have op: "\<not> gs_closed st" by (simp add: assertOpen_governance_def outcome_simps)
  show thesis
  proof (cases "resolveIdempotencySync (ap_accessContext input) (probeOf sha input) st")
    case Inl
    with Inr show thesis by (intro same) (simp_all add: appendEvaluation_governance_def)
  next
    case resolved: (Inr resolution)
    show thesis
    proof (cases resolution)
      case IdempotencyNew
      then have run: "appendEvaluation_governance sha deps input st = appendNew sha deps input st"
        using Inr resolved by (simp add: appendEvaluation_governance_def)
      show thesis
      proof (cases "buildGovernanceAggregate sha deps (previousDigest st) (int (length (gs_chain st)) + 1) input")
        case Inl
        with run show thesis by (intro same) (simp_all add: appendNew_def)
      next
        case built: (Inr r)
        show thesis
        proof (cases "newly_built sha deps input st r")
          case True
          with run built show thesis
            by (intro new [of r]) (simp_all add: appendNew_def newly_built_def committed_def)
        next
          case False
          then have "appendNew sha deps input st = (Inl GOVERNANCE_STORE_TRANSACTION_FAILED, st)"
            using built op resolved IdempotencyNew by (auto simp: appendNew_def newly_built_def)
          with run show thesis by (intro same) simp_all
        qed
      qed
    next
      case IdempotencyReplay
      with Inr resolved show thesis by (intro same) (auto simp: appendEvaluation_governance_def appendResult_def)
    next
      case IdempotencyConflict
      with Inr resolved show thesis by (intro same) (simp_all add: appendEvaluation_governance_def)
    qed
  qed
qed

lemma governance_ok_append:
  assumes "governance_ok sha st"
  shows "governance_ok sha (snd (appendEvaluation_governance sha deps input st))"
proof (cases rule: append_cases [of sha deps input st])
  case same
  with assms show ?thesis by simp
next
  case (new r)
  then have "aggregate_of sha deps (previousDigest st) (int (length (gs_chain st)) + 1) input r"
    using built_aggregate by (auto simp: newly_built_def)
  with new show ?thesis
    using governance_ok_commit [OF assms resolved_new [of "ap_accessContext input" sha input]]
    by (simp add: newly_built_def committed_def)
qed

section \<open>Appending a reference\<close>

lemma seal_links:
  assumes "head_of h rs" and "sealed_from sha org 0 None rs"
  shows "sealed_from sha org 0 None (rs @ [sealGovernanceReference sha reference
      \<lparr>sl_organizationId = org, sl_sequence = (case h of None \<Rightarrow> 0 | Some h \<Rightarrow> ch_latestSequence h) + 1,
       sl_previousReferenceDigest = map_option ch_latestReferenceDigest h\<rparr>])"
proof -
  have "(case h of None \<Rightarrow> 0 | Some h \<Rightarrow> ch_latestSequence h) = int (length rs)"
  proof (cases h)
    case (Some c)
    then have "rs \<noteq> []" "Some (ch_latestSequence c) = rf_sequence (rs ! (length rs - 1))"
      using assms(1) by (auto simp: head_of_def last_conv_nth)
    then show ?thesis
      using Some sealed_nth [OF assms(2), of "length rs - 1"] by (cases rs rule: rev_cases) auto
  qed (use assms(1) in \<open>simp add: head_of_def\<close>)
  moreover have "map_option ch_latestReferenceDigest h = (if rs = [] then None else rf_referenceDigest (last rs))"
    using assms(1) by (auto simp: head_of_def split: option.splits)
  ultimately show ?thesis
    using assms(2)
    by (auto simp: sealed_from_append linkFailures_None sealGovernanceReference_def recomputedReferenceDigest_def Let_def)
qed

lemma loaded_visible:
  "loadVisibleRecord context (Some e) st = Inr (Some r) \<Longrightarrow>
     \<exists>r0. map_get (gs_aggregates st) e = Some r0 \<and> r = withReferences st r0 \<and>
       canSeeRecord context (qr_organizationId (gr_request r0)) \<and> requireReadScope context = Inr ()"
  by (auto simp: loadVisibleRecord_def outcome_simps split: option.splits if_splits)

lemma withReferences_simps [simp]:
  "gr_request (withReferences st r) = gr_request r" "gr_evaluation (withReferences st r) = gr_evaluation r"
  "gr_integrity (withReferences st r) = gr_integrity r" "gr_metadata (withReferences st r) = gr_metadata r"
  "gr_trace (withReferences st r) = gr_trace r" "gr_events (withReferences st r) = gr_events r"
  by (simp_all add: withReferences_def Let_def)

definition reference_appended ::
  "(string \<Rightarrow> string) \<Rightarrow> GovernanceReferenceInput \<Rightarrow> GovernanceRecord \<Rightarrow> governance_store \<Rightarrow> governance_store" where
  "reference_appended sha reference r st =
     (let e = rf_evaluationId reference; s = sealGovernanceReference sha reference (sealContext st r e)
      in st\<lparr>gs_references := map_set (gs_references st) e (referencesOf st e @ [s]),
           gs_referenceChain := map_set (gs_referenceChain st) e (headAfter s)\<rparr>)"

lemma reference_cases:
  "snd (appendReference_governance sha context reference st) = st \<or>
   (\<exists>r. appendReference_governance sha context reference st = (Inr (), reference_appended sha reference r st) \<and>
        \<not> gs_closed st \<and> isCanonicalGovernanceReferenceType (rf_referenceType reference) \<and>
        map_get (gs_aggregates st) (rf_evaluationId reference) = Some r \<and>
        canSeeRecord context (qr_organizationId (gr_request r)) \<and>
        rf_referenceId reference \<notin> set (map rf_referenceId (referencesOf st (rf_evaluationId reference))))"
proof (cases "fst (appendReference_governance sha context reference st)")
  case (Inl e)
  then have "snd (appendReference_governance sha context reference st) = st"
    by (auto simp: appendReference_governance_def Let_def attempt_def split: option.splits if_splits sum.splits)
  then show ?thesis ..
next
  case (Inr u)
  obtain r where r: "loadVisibleRecord context (Some (rf_evaluationId reference)) st = Inr (Some r)"
    using Inr by (auto simp: appendReference_governance_def Let_def attempt_def split: option.splits if_splits sum.splits)
  obtain r0 where r0: "map_get (gs_aggregates st) (rf_evaluationId reference) = Some r0" "r = withReferences st r0"
      "canSeeRecord context (qr_organizationId (gr_request r0))"
    using loaded_visible [OF r] by blast
  then show ?thesis
    using Inr r
    by (auto simp: appendReference_governance_def reference_appended_def sealContext_def Let_def attempt_def list_ex_iff
      assertOpen_governance_def assertCanonicalReferenceType_def check_def split: if_splits sum.splits)
qed

lemma governance_ok_reference:
  assumes ok: "governance_ok sha st" and r: "map_get (gs_aggregates st) (rf_evaluationId reference) = Some r"
    and new: "rf_referenceId reference \<notin> set (map rf_referenceId (referencesOf st (rf_evaluationId reference)))"
  shows "governance_ok sha (reference_appended sha reference r st)"
proof -
  let ?st = "reference_appended sha reference r st" and ?e = "rf_evaluationId reference"
  define s where "s = sealGovernanceReference sha reference (sealContext st r ?e)"
  have refs: "referencesOf ?st e = (if e = ?e then referencesOf st ?e @ [s] else referencesOf st e)"
    "map_get (gs_referenceChain ?st) e = (if e = ?e then Some (headAfter s) else map_get (gs_referenceChain st) e)"
    "gs_aggregates ?st = gs_aggregates st" "gs_chain ?st = gs_chain st" for e
    by (auto simp: reference_appended_def referencesOf_def s_def Let_def map_simps)
  have sealed: "sealed_from sha (qr_organizationId (gr_request r)) 0 None (referencesOf st ?e @ [s])"
    using ok r seal_links [of "map_get (gs_referenceChain st) ?e" "referencesOf st ?e" sha "qr_organizationId (gr_request r)" reference]
    by (simp add: governance_ok_def references_ok_def s_def sealContext_def Let_def) (metis option.simps(5))
  have "rf_referenceId s = rf_referenceId reference" "rf_evaluationId s = ?e"
    "head_of (Some (headAfter s)) (referencesOf st ?e @ [s])"
    by (simp_all add: s_def sealGovernanceReference_def head_of_def headAfter_def Let_def)
  with sealed new ok r have "references_ok sha ?st"
    unfolding references_ok_def refs governance_ok_def by auto
  moreover have "(\<exists>rs. chain_ok sha ?st rs) \<and>
      index_ok (\<lambda>r. vl_requestId (gr_evaluation r)) (gs_evaluationIdByRequestId ?st) ?st \<and>
      index_ok (\<lambda>r. vl_decisionId (gr_evaluation r)) (gs_evaluationIdByDecisionId ?st) ?st \<and> claims_ok ?st"
    using ok by (simp add: governance_ok_def chain_ok_def index_ok_def claims_ok_def reference_appended_def Let_def)
  ultimately show ?thesis by (simp add: governance_ok_def)
qed

section \<open>Every call\<close>

lemma governance_ok_frame:
  "governance_ok sha st \<Longrightarrow> gs_aggregates st' = gs_aggregates st \<Longrightarrow> gs_chain st' = gs_chain st \<Longrightarrow>
     gs_evaluationIdByRequestId st' = gs_evaluationIdByRequestId st \<Longrightarrow>
     gs_evaluationIdByDecisionId st' = gs_evaluationIdByDecisionId st \<Longrightarrow> gs_idempotency st' = gs_idempotency st \<Longrightarrow>
     gs_references st' = gs_references st \<Longrightarrow> gs_referenceChain st' = gs_referenceChain st \<Longrightarrow> governance_ok sha st'"
proof -
  assume "gs_references st' = gs_references st"
  then have "referencesOf st' = referencesOf st" by (simp add: fun_eq_iff referencesOf_def)
  then show "governance_ok sha st \<Longrightarrow> gs_aggregates st' = gs_aggregates st \<Longrightarrow> gs_chain st' = gs_chain st \<Longrightarrow>
     gs_evaluationIdByRequestId st' = gs_evaluationIdByRequestId st \<Longrightarrow>
     gs_evaluationIdByDecisionId st' = gs_evaluationIdByDecisionId st \<Longrightarrow> gs_idempotency st' = gs_idempotency st \<Longrightarrow>
     gs_referenceChain st' = gs_referenceChain st \<Longrightarrow> governance_ok sha st'"
    by (simp add: governance_ok_def chain_ok_def index_ok_def claims_ok_def references_ok_def cong: option.case_cong)
qed

lemma persist_state:
  "snd (persistEvaluation sha deps version input st) = snd (appendEvaluation_governance sha deps (toLegacyAppendInput input version) st)"
proof (cases "gs_closed st")
  case True
  then show ?thesis by (simp add: persistEvaluation_def appendEvaluation_governance_def assertOpen_governance_def)
next
  case False
  then show ?thesis
    by (cases "appendEvaluation_governance sha deps (toLegacyAppendInput input version) st")
      (auto simp: persistEvaluation_def assertOpen_governance_def split: sum.splits option.splits
        GovernanceStoreErrorCode.splits)
qed

lemma governance_ok_run:
  assumes "governance_ok sha st"
  shows "governance_ok sha (run_governance sha version call st)"
proof (cases call)
  case (GvReference cx reference)
  have "governance_ok sha (snd (appendReference_governance sha cx reference st))"
    using reference_cases [of sha cx reference st] governance_ok_reference [OF assms] assms
    by (metis snd_conv)
  with GvReference show ?thesis by simp
next
  case (GvPersist deps input)
  then show ?thesis using governance_ok_append [OF assms] by (simp add: persist_state)
qed (use assms governance_ok_append [OF assms] in
    \<open>auto simp: appendLifecycleEvent_def appendEnterpriseEvent_def recordEnterpriseVersion_def close_governance_def
      attempt_def pushStandalone_def Let_def split: sum.splits intro: governance_ok_frame\<close>)

interpretation governance: invariant_machine empty_governance_store "run_governance sha version" "governance_ok sha"
  for sha version
  by unfold_locales (simp_all add: empty_governance_ok governance_ok_run)

lemma reached_governance_ok: "governance_ok sha (run_governances sha version calls)"
  unfolding run_governances_def by (rule governance.inv_reached)

end
