(* ===== verification/GovernanceProtocol.thy ===== *)
theory GovernanceProtocol
  imports GovernanceInvariants
begin

text \<open>
  What the governance store promises over whole runs: every record it holds verifies, an evaluation that has
  been recorded is replayed and never recorded again, paging through a query shows every match once while
  others append, and nothing sensitive is stored.
\<close>

section \<open>Every record verifies\<close>

lemma linked_nth:
  "linked_from sha previous rs \<Longrightarrow> i < length rs \<Longrightarrow>
     record_sealed sha (rs ! i) \<and>
     ig_previousAggregateDigest (gr_integrity (rs ! i)) =
       (if i = 0 then previous else Some (ig_aggregateDigest (gr_integrity (rs ! (i - 1)))))"
proof (induction rs arbitrary: previous i)
  case (Cons r rs)
  then show ?case by (cases i; cases "i - 1") auto
qed simp

lemma chain_entry:
  assumes "chain_ok sha st rs"
  shows "length rs = length (gs_chain st)"
    and "i < length rs \<Longrightarrow> map_get (gs_aggregates st) (gs_chain st ! i) = Some (rs ! i)"
    and "i < length rs \<Longrightarrow> ig_chainPosition (gr_integrity (rs ! i)) = int i + 1"
    and "i < length rs \<Longrightarrow> vl_evaluationId (gr_evaluation (rs ! i)) = gs_chain st ! i"
    and "map_get (gs_aggregates st) e = Some r \<Longrightarrow> \<exists>i < length rs. e = gs_chain st ! i \<and> r = rs ! i"
proof -
  show len: "length rs = length (gs_chain st)" using assms by (metis chain_ok_def length_map)
  show entry: "map_get (gs_aggregates st) (gs_chain st ! i) = Some (rs ! i)" if "i < length rs" for i
  proof -
    have "map (map_get (gs_aggregates st)) (gs_chain st) ! i = map Some rs ! i"
      using assms by (simp only: chain_ok_def)
    with that len show ?thesis by simp
  qed
  show "ig_chainPosition (gr_integrity (rs ! i)) = int i + 1" if "i < length rs"
  proof -
    have "map (\<lambda>r. ig_chainPosition (gr_integrity r)) rs ! i = map (\<lambda>i. int i + 1) [0..<length rs] ! i"
      using assms by (simp only: chain_ok_def)
    with that show ?thesis by simp
  qed
  show "vl_evaluationId (gr_evaluation (rs ! i)) = gs_chain st ! i" if "i < length rs"
  proof -
    have "map (\<lambda>r. vl_evaluationId (gr_evaluation r)) rs ! i = gs_chain st ! i"
      using assms by (simp only: chain_ok_def)
    with that show ?thesis by simp
  qed
  show "\<exists>i < length rs. e = gs_chain st ! i \<and> r = rs ! i" if "map_get (gs_aggregates st) e = Some r"
  proof -
    have "e \<in> set (gs_chain st)" using assms that by (auto simp: chain_ok_def)
    then obtain i where "i < length rs" "e = gs_chain st ! i" using len by (auto simp: in_set_conv_nth)
    with entry [of i] that show ?thesis by auto
  qed
qed

lemma expected_link:
  assumes "chain_ok sha st rs" and "i < length rs"
  shows "expectedPrevious st (rs ! i) =
      (if i = 0 then Some None else Some (Some (ig_aggregateDigest (gr_integrity (rs ! (i - 1))))))"
proof (cases i)
  case 0
  then show ?thesis using chain_entry(3) [OF assms] by (simp add: expectedPrevious_def)
next
  case (Suc j)
  have "nat (ig_chainPosition (gr_integrity (rs ! i)) - 2) = j" "ig_chainPosition (gr_integrity (rs ! i)) > 1"
    using chain_entry(3) [OF assms] Suc by simp_all
  moreover have "j < length (gs_chain st)" "map_get (gs_aggregates st) (gs_chain st ! j) = Some (rs ! j)"
    using assms Suc chain_entry(1) [OF assms(1)] chain_entry(2) [OF assms(1), of j] by auto
  ultimately show ?thesis using Suc by (simp add: expectedPrevious_def Let_def)
qed

lemma link_holds:
  assumes "chain_ok sha st rs" and "i < length rs"
  shows "record_sealed sha (rs ! i) \<and> snd (linkCheck (gr_integrity (rs ! i)) (expectedPrevious st (rs ! i))) = []"
  using linked_nth [of sha None rs i] assms chain_entry(3) [OF assms]
  by (auto simp: chain_ok_def expected_link [OF assms] linkCheck_def)

lemma stored_references:
  assumes "governance_ok sha st" and "map_get (gs_aggregates st) e = Some r"
  shows "sealed_from sha (qr_organizationId (gr_request r)) 0 None (referencesOf st e) \<and>
    distinct (map rf_referenceId (referencesOf st e)) \<and>
    head_of (map_get (gs_referenceChain st) e) (referencesOf st e)"
  using assms by (auto simp: governance_ok_def references_ok_def dest!: spec [of _ e])

lemma loaded_references:
  assumes "governance_ok sha st" and "map_get (gs_aggregates st) e = Some r"
  shows "gr_references (withReferences st r) = referencesOf st e"
proof -
  obtain rs where rs: "chain_ok sha st rs" using assms(1) by (auto simp: governance_ok_def)
  obtain i where "i < length rs" "e = gs_chain st ! i" "r = rs ! i" using chain_entry(5) [OF rs assms(2)] by auto
  then have "vl_evaluationId (gr_evaluation r) = e" "gr_references r = []"
    using chain_entry(4) [OF rs] rs by (auto simp: chain_ok_def)
  then show ?thesis by (simp add: withReferences_def Let_def)
qed

lemma same_sealed [simp]: "record_sealed sha (withReferences st r) = record_sealed sha r"
  by (simp add: record_sealed_def)

lemma failures_valid: "gf_valid (verifyGovernanceRecordIntegrity sha r x now c) \<longleftrightarrow>
    gf_failures (verifyGovernanceRecordIntegrity sha r x now c) = []"
  by (simp add: verifyGovernanceRecordIntegrity_def Let_def)

lemma stored_record_verifies:
  assumes sha: "\<And>t. length (sha t) = 64 \<and> list_all is_hex (sha t)"
    and ok: "governance_ok sha st" and "loadVisibleRecord cx (Some e) st = Inr (Some r)"
  shows "let v = verifyGovernanceRecordIntegrity sha r (expectedPrevious st r) now (Some (map_get (gs_referenceChain st) e))
    in gf_valid v \<and> gf_failures v = [] \<and>
       gf_referenceIntegrity v = \<lparr>is_legacyUnprotected = 0, is_protectedValid = int (length (gr_references r)),
         is_protectedCorrupted = 0, is_protectedUnsupportedVersion = 0\<rparr>"
proof -
  obtain rs where rs: "chain_ok sha st rs" using ok by (auto simp: governance_ok_def)
  obtain r0 where r0: "map_get (gs_aggregates st) e = Some r0" "r = withReferences st r0"
    using loaded_visible [OF assms(3)] by auto
  obtain i where i: "i < length rs" "r0 = rs ! i" using chain_entry(5) [OF rs r0(1)] by auto
  have refs: "gr_references r = referencesOf st e" using loaded_references [OF ok r0(1)] r0(2) by simp
  have v: "iv_valid (verifyGovernanceReferenceIntegrity sha (gr_references r) (qr_organizationId (gr_request r))
        (Some (map_get (gs_referenceChain st) e)))"
      "iv_summary (verifyGovernanceReferenceIntegrity sha (gr_references r) (qr_organizationId (gr_request r))
        (Some (map_get (gs_referenceChain st) e))) =
       \<lparr>is_legacyUnprotected = 0, is_protectedValid = int (length (gr_references r)), is_protectedCorrupted = 0,
         is_protectedUnsupportedVersion = 0\<rparr>"
    using sealed_verifies [of sha "qr_organizationId (gr_request r0)" "referencesOf st e" "map_get (gs_referenceChain st) e", OF sha]
      stored_references [OF ok r0(1)]
    unfolding refs by (simp_all add: r0(2) Let_def)
  have "expectedPrevious st r = expectedPrevious st r0" by (simp add: r0(2) expectedPrevious_def)
  then have "gf_valid (verifyGovernanceRecordIntegrity sha r (expectedPrevious st r) now (Some (map_get (gs_referenceChain st) e)))"
    unfolding verified_iff using v(1) link_holds [OF rs i(1)] i(2) r0(2) by simp
  moreover have "gf_referenceIntegrity (verifyGovernanceRecordIntegrity sha r (expectedPrevious st r) now (Some (map_get (gs_referenceChain st) e))) =
      iv_summary (verifyGovernanceReferenceIntegrity sha (gr_references r) (qr_organizationId (gr_request r))
        (Some (map_get (gs_referenceChain st) e)))"
    by (simp add: verifyGovernanceRecordIntegrity_def Let_def)
  ultimately show ?thesis using v(2) by (simp add: Let_def failures_valid)
qed

text \<open>The whole history of a store verifies, each record against the one before it.\<close>

lemma stored_history_verifies:
  assumes "\<And>t. length (sha t) = 64 \<and> list_all is_hex (sha t)" and ok: "governance_ok sha st"
    and rs: "chain_ok sha st rs"
  shows "history_verifies sha now (map (\<lambda>r. (withReferences st r,
      map_get (gs_referenceChain st) (vl_evaluationId (gr_evaluation r)))) rs)"
proof -
  have step: "ig_chainPosition (gr_integrity (rs ! i)) = int i + 1 \<and>
      gf_valid (verifyGovernanceRecordIntegrity sha (withReferences st (rs ! i))
        (if i = 0 then Some None else Some (Some (ig_aggregateDigest (gr_integrity (rs ! (i - 1))))))
        now (Some (map_get (gs_referenceChain st) (vl_evaluationId (gr_evaluation (rs ! i))))))"
    if i: "i < length rs" for i
  proof -
    have "loadVisibleRecord system_context (Some (gs_chain st ! i)) st = Inr (Some (withReferences st (rs ! i)))"
      using chain_entry(2) [OF rs i]
      by (simp add: loadVisibleRecord_def requireReadScope_def system_context_def canSeeRecord_def)
    from stored_record_verifies [OF assms(1) ok this, of now] show ?thesis
      using expected_link [OF rs i] chain_entry(3,4) [OF rs i]
      by (simp add: Let_def expectedPrevious_def split: if_splits)
  qed
  show ?thesis unfolding history_verifies_def list_all_iff length_map
  proof
    fix i assume "i \<in> set [0..<length rs]"
    then have i: "i < length rs" "i - 1 < length rs" by auto
    from step [OF i(1)] show "ig_chainPosition (gr_integrity (fst (map (\<lambda>r. (withReferences st r,
          map_get (gs_referenceChain st) (vl_evaluationId (gr_evaluation r)))) rs ! i))) = int i + 1 \<and>
        gf_valid (verifyGovernanceRecordIntegrity sha (fst (map (\<lambda>r. (withReferences st r,
          map_get (gs_referenceChain st) (vl_evaluationId (gr_evaluation r)))) rs ! i))
          (if i = 0 then Some None else Some (Some (ig_aggregateDigest (gr_integrity (fst (map (\<lambda>r. (withReferences st r,
            map_get (gs_referenceChain st) (vl_evaluationId (gr_evaluation r)))) rs ! (i - 1)))))))
          now (Some (snd (map (\<lambda>r. (withReferences st r,
            map_get (gs_referenceChain st) (vl_evaluationId (gr_evaluation r)))) rs ! i))))"
      by (simp only: nth_map [OF i(1)] nth_map [OF i(2)] fst_conv snd_conv withReferences_simps)
  qed
qed

section \<open>Nothing that was recorded changes\<close>

definition keeps :: "governance_store \<Rightarrow> governance_store \<Rightarrow> bool" where
  "keeps st st' \<longleftrightarrow>
     (\<exists>more. gs_chain st' = gs_chain st @ more) \<and>
     (\<forall>e r. map_get (gs_aggregates st) e = Some r \<longrightarrow> map_get (gs_aggregates st') e = Some r) \<and>
     (\<forall>k c. map_get (gs_idempotency st) k = Some c \<longrightarrow> map_get (gs_idempotency st') k = Some c)"

lemma keeps_refl: "keeps st st"
  by (simp add: keeps_def)

lemma keeps_trans: "keeps a b \<Longrightarrow> keeps b c \<Longrightarrow> keeps a c"
  unfolding keeps_def by (metis append_assoc)

lemma resolved_new_claim:
  assumes "resolveIdempotencySync cx (probeOf sha input) st = Inr IdempotencyNew" and "ap_idempotency input = Some c"
  shows "claimOf st c = None"
  using assms
  by (auto simp: resolveIdempotencySync_def replayOrConflict_def probeOf_def outcome_simps
    split: option.splits if_splits)

lemma keeps_append: "keeps st (snd (appendEvaluation_governance sha deps input st))"
proof (cases rule: append_cases [of sha deps input st])
  case (new r)
  have fresh: "map_get (gs_aggregates st) (vl_evaluationId (gr_evaluation r)) = None"
    and claim: "\<And>c. ap_idempotency input = Some c \<Longrightarrow> claimOf st c = None"
    using new(1) resolved_new_claim by (auto simp: newly_built_def)
  have "map_get (gs_idempotency (committed sha input r st)) k = Some d" if "map_get (gs_idempotency st) k = Some d" for k d
    using that claim
    by (cases "ap_idempotency input") (auto simp: committed_def commitAggregate_def claimOf_def Let_def map_simps)
  with new(2) fresh show ?thesis by (auto simp: keeps_def committed_def map_simps)
qed (simp add: keeps_refl)

lemma keeps_run: "keeps st (run_governance sha version call st)"
proof (cases call)
  case (GvReference cx reference)
  then show ?thesis
    using reference_cases [of sha cx reference st] by (auto simp: keeps_def reference_appended_def Let_def)
next
  case (GvPersist deps input)
  then show ?thesis using keeps_append by (simp add: persist_state)
qed (use keeps_append in
    \<open>auto simp: appendLifecycleEvent_def appendEnterpriseEvent_def recordEnterpriseVersion_def close_governance_def
      attempt_def pushStandalone_def Let_def keeps_def split: sum.splits\<close>)

lemma keeps_runs: "keeps st (fold (run_governance sha version) calls st)"
  by (induction calls arbitrary: st) (auto intro: keeps_refl keeps_trans [OF keeps_run])

lemma open_append: "gs_closed (snd (appendEvaluation_governance sha deps input st)) = gs_closed st"
  by (cases rule: append_cases [of sha deps input st]) (simp_all add: committed_def)

lemma open_frames:
  "gs_closed (snd (appendLifecycleEvent sha now version ev st)) = gs_closed st"
  "gs_closed (snd (appendEnterpriseEvent sha now version e st)) = gs_closed st"
  "gs_closed (snd (recordEnterpriseVersion v st)) = gs_closed st"
  by (cases "assertOpen_governance st"; simp add: appendLifecycleEvent_def appendEnterpriseEvent_def
      recordEnterpriseVersion_def pushStandalone_def Let_def)+

lemma open_reference: "gs_closed (snd (appendReference_governance sha cx reference st)) = gs_closed st"
  using reference_cases [of sha cx reference st] by (elim disjE exE conjE) (simp_all add: reference_appended_def Let_def)

lemma open_run: "call \<noteq> GvClose \<Longrightarrow> gs_closed (run_governance sha version call st) = gs_closed st"
  by (cases call) (simp_all add: open_append open_frames open_reference persist_state)

lemma open_runs: "GvClose \<notin> set calls \<Longrightarrow> gs_closed (fold (run_governance sha version) calls st) = gs_closed st"
proof (induction calls arbitrary: st)
  case (Cons call calls)
  then have "call \<noteq> GvClose" and "GvClose \<notin> set calls" by simp_all metis
  then show ?case by (simp only: fold_simps Cons.IH open_run not_False_eq_True)
qed simp

section \<open>Replays\<close>

lemma index_found:
  "index_ok f index st \<Longrightarrow> map_get (gs_aggregates st) e = Some r \<Longrightarrow> map_get index (f r) = Some e"
  by (auto simp: index_ok_def)

lemma visible_load:
  assumes "requireReadScope cx = Inr ()" and "map_get (gs_aggregates st) e = Some r"
    and "canSeeRecord cx (qr_organizationId (gr_request r))"
  shows "loadVisibleRecord cx (Some e) st = Inr (Some (withReferences st r))"
  using assms by (simp add: loadVisibleRecord_def)

text \<open>A recorded evaluation and the claim of its key answer every later submission of the same request.\<close>

lemma replay_resolves:
  assumes ok: "governance_ok sha st"
    and r: "map_get (gs_aggregates st) e = Some r" "vl_requestId (gr_evaluation r) = er_requestId (ap_request input)"
      "qr_payloadDigest (gr_request r) = computeGovernanceRequestPayloadDigest sha (ap_request input)"
    and scope: "requireReadScope (ap_accessContext input) = Inr ()"
      "canSeeRecord (ap_accessContext input) (qr_organizationId (gr_request r))"
    and claim: "\<And>c. ap_idempotency input = Some c \<Longrightarrow>
      \<exists>d. claimOf st c = Some d \<and> dc_evaluationId d = e \<and>
        dc_requestDigest d = computeGovernanceRequestPayloadDigest sha (ap_request input)"
  shows "resolveIdempotencySync (ap_accessContext input) (probeOf sha input) st =
    Inr (IdempotencyReplay (withReferences st r))"
proof -
  note load = visible_load [OF scope(1) r(1) scope(2)]
  have "map_get (gs_evaluationIdByRequestId st) (er_requestId (ap_request input)) = Some e"
    using index_found [of "\<lambda>r. vl_requestId (gr_evaluation r)" _ st e r] ok r(1,2) by (simp add: governance_ok_def)
  then have "resolveByRequestId (ap_accessContext input) (probeOf sha input) st =
      Inr (IdempotencyReplay (withReferences st r))"
    using load r(1,3) by (simp add: resolveByRequestId_def replayOrConflict_def probeOf_def)
  then show ?thesis
    using claim load
    by (cases "ap_idempotency input") (auto simp: resolveIdempotencySync_def replayOrConflict_def probeOf_def)
qed

lemma committed_answers:
  assumes "newly_built sha deps input st r" and "requireReadScope (ap_accessContext input) = Inr ()"
  shows "map_get (gs_aggregates (committed sha input r st)) (vl_evaluationId (gr_evaluation r)) = Some r"
    and "vl_requestId (gr_evaluation r) = er_requestId (ap_request input)"
    and "qr_payloadDigest (gr_request r) = computeGovernanceRequestPayloadDigest sha (ap_request input)"
    and "canSeeRecord (ap_accessContext input) (qr_organizationId (gr_request r))"
    and "ap_idempotency input = Some c \<Longrightarrow>
      \<exists>d. claimOf (committed sha input r st) c = Some d \<and> dc_evaluationId d = vl_evaluationId (gr_evaluation r) \<and>
        dc_requestDigest d = computeGovernanceRequestPayloadDigest sha (ap_request input)"
proof -
  have built: "aggregate_of sha deps (previousDigest st) (int (length (gs_chain st)) + 1) input r"
    "validateAppendInput input = Inr ()"
    using assms(1) built_aggregate by (auto simp: newly_built_def)
  show "map_get (gs_aggregates (committed sha input r st)) (vl_evaluationId (gr_evaluation r)) = Some r"
    by (simp add: committed_def map_simps)
  show "vl_requestId (gr_evaluation r) = er_requestId (ap_request input)"
    "qr_payloadDigest (gr_request r) = computeGovernanceRequestPayloadDigest sha (ap_request input)"
    using built(1) by (simp_all add: aggregate_of_def)
  show "canSeeRecord (ap_accessContext input) (qr_organizationId (gr_request r))"
    using built assms(2)
    by (auto simp: aggregate_of_def validateAppendInput_def canSeeRecord_def requireReadScope_def split: if_splits)
  show "\<exists>d. claimOf (committed sha input r st) c = Some d \<and> dc_evaluationId d = vl_evaluationId (gr_evaluation r) \<and>
        dc_requestDigest d = computeGovernanceRequestPayloadDigest sha (ap_request input)"
    if "ap_idempotency input = Some c"
    using that by (simp add: committed_def commitAggregate_def claimOf_def Let_def map_simps)
qed

lemma recorded_once:
  assumes ok: "governance_ok sha st"
    and first: "appendEvaluation_governance sha deps input st = (Inr o1, st1)" "ao_created o1"
    and reads: "requireReadScope (ap_accessContext input) = Inr ()"
    and later: "GvClose \<notin> set calls" "st2 = fold (run_governance sha version) calls st1"
    and again: "ap_request input2 = ap_request input" "ap_accessContext input2 = ap_accessContext input"
      "ap_idempotency input2 = ap_idempotency input"
  shows "\<exists>r. appendEvaluation_governance sha deps2 input2 st2 = (Inr (appendResult False (Some (withReferences st2 r)) r), st2) \<and>
    map_get (gs_aggregates st1) (ao_evaluationId o1) = Some r \<and> o1 = appendResult True None r"
proof (cases rule: append_cases [of sha deps input st])
  case same
  with first show ?thesis by simp
next
  case (new r)
  have st1: "st1 = committed sha input r st" and o1: "o1 = appendResult True None r" using new(2) first by simp_all
  note answer = committed_answers [OF new(1) reads]
  have keeps: "keeps st1 st2" using keeps_runs later(2) by simp
  have op: "\<not> gs_closed st2"
    using new(1) open_runs [OF later(1), of sha version st1] by (simp add: later(2) st1 committed_def newly_built_def)
  have ok1: "governance_ok sha st1" using governance_ok_append [OF ok, of deps input] first by simp
  then have ok2: "governance_ok sha st2" unfolding later(2) by (rule governance.inv_runs)
  let ?e = "vl_evaluationId (gr_evaluation r)"
  have r: "map_get (gs_aggregates st2) ?e = Some r" using keeps answer(1) by (simp add: keeps_def st1)
  have digest: "computeGovernanceRequestPayloadDigest sha (ap_request input2) =
      computeGovernanceRequestPayloadDigest sha (ap_request input)" by (simp add: again)
  have "resolveIdempotencySync (ap_accessContext input2) (probeOf sha input2) st2 =
      Inr (IdempotencyReplay (withReferences st2 r))"
  proof (rule replay_resolves [OF ok2 r])
    show "\<exists>d. claimOf st2 c = Some d \<and> dc_evaluationId d = ?e \<and>
        dc_requestDigest d = computeGovernanceRequestPayloadDigest sha (ap_request input2)"
      if "ap_idempotency input2 = Some c" for c
    proof -
      have key: "ap_idempotency input = Some c" using that by (simp add: again(3))
      obtain d where d: "claimOf st1 c = Some d" "dc_evaluationId d = ?e"
          "dc_requestDigest d = computeGovernanceRequestPayloadDigest sha (ap_request input)"
        using answer(5) [OF key] unfolding st1 by blast
      then have "claimOf st2 c = Some d" using keeps by (simp add: keeps_def claimOf_def)
      with d digest show ?thesis by simp
    qed
  qed (use answer reads again in simp_all)
  then have "appendEvaluation_governance sha deps2 input2 st2 =
      (Inr (appendResult False (Some (withReferences st2 r)) (withReferences st2 r)), st2)"
    using op by (simp add: appendEvaluation_governance_def assertOpen_governance_def)
  moreover have "appendResult False x (withReferences st2 r) = appendResult False x r" for x
    by (simp add: appendResult_def)
  ultimately show ?thesis using answer(1) st1 o1 by (auto simp: appendResult_def)
qed

section \<open>Reading within one organization\<close>

lemma loaded_own:
  assumes "loadVisibleRecord cx e st = Inr (Some r)" and "\<not> ax_system cx"
  shows "qr_organizationId (gr_request r) = ax_organizationId cx \<and> qr_organizationId (gr_request r) \<noteq> None"
  using assms
  by (auto simp: loadVisibleRecord_def canSeeRecord_def outcome_simps split: option.splits if_splits) (metis option.exhaust)

lemma replay_load:
  assumes "resolveIdempotencySync cx probe st = Inr (IdempotencyReplay r)"
  shows "\<exists>e. loadVisibleRecord cx e st = Inr (Some r)"
proof -
  have "\<exists>e. loadVisibleRecord cx e st = Inr (Some r)"
    if "replayOrConflict cx kind e st = Inr (IdempotencyReplay r)" for kind e
    using that by (auto simp: replayOrConflict_def outcome_simps split: option.splits)
  then show ?thesis
    using assms
    by (auto simp: resolveIdempotencySync_def resolveByRequestId_def split: option.splits if_splits)
qed

text \<open>Every way to read a record goes through \<^const>\<open>loadVisibleRecord\<close>.\<close>

lemma reads_load:
  "getByEvaluationId cx e st = Inr (Some r) \<Longrightarrow> \<exists>k. loadVisibleRecord cx k st = Inr (Some r)"
  "getByDecisionId cx e st = Inr (Some r) \<Longrightarrow> \<exists>k. loadVisibleRecord cx k st = Inr (Some r)"
  "getByRequestId cx e st = Inr (Some r) \<Longrightarrow> \<exists>k. loadVisibleRecord cx k st = Inr (Some r)"
  "resolveIdempotency_governance cx probe st = Inr (IdempotencyReplay r) \<Longrightarrow> \<exists>k. loadVisibleRecord cx k st = Inr (Some r)"
  by (auto simp: getByEvaluationId_def getByDecisionId_def getByRequestId_def resolveIdempotency_governance_def
    outcome_simps dest: replay_load)

lemma reconstruct_load:
  "reconstruct_governance cx e st = Inr load \<Longrightarrow> gd_record load = Some r \<Longrightarrow>
     \<exists>k. loadVisibleRecord cx k st = Inr (Some r)"
  by (cases load) (auto simp: reconstruct_governance_def outcome_simps split: option.splits if_splits)

lemma reference_visible:
  assumes "appendReference_governance sha cx reference st = (Inr (), st')"
  shows "\<exists>r. map_get (gs_aggregates st) (rf_evaluationId reference) = Some r \<and>
    canSeeRecord cx (qr_organizationId (gr_request r))"
proof -
  obtain r where "loadVisibleRecord cx (Some (rf_evaluationId reference)) st = Inr (Some r)"
    using assms by (auto simp: appendReference_governance_def Let_def attempt_def split: option.splits if_splits sum.splits)
  then show ?thesis using loaded_visible by blast
qed

lemma hit_own: "hit_at cx q org before st i = Some h \<Longrightarrow> \<not> ax_system cx \<Longrightarrow>
    qr_organizationId (gr_request (snd h)) = ax_organizationId cx"
  by (auto simp: hit_at_def canSeeRecord_def Let_def split: option.splits if_splits)

lemma scan_members: "h \<in> set (scan_hits hit limit n hits) \<Longrightarrow> h \<in> set hits \<or> (\<exists>i. hit i = Some h)"
  by (induction hit limit n hits rule: scan_hits.induct) (auto split: option.splits if_splits)

lemma query_own:
  assumes "query_governance b64 parse cx q st = Inr res" and "\<not> ax_system cx" and "s \<in> set (gl_records res)"
  shows "gz_organizationId s = ax_organizationId cx"
proof -
  obtain org before limit where "s \<in> set (map (\<lambda>h. toGovernanceRecordSummary (snd h))
      (take (nat limit) (scan_hits (hit_at cx q org before st) limit (length (gs_chain st)) [])))"
    using assms(1,3) by (auto simp: query_governance_def outcome_simps Let_def)
  then obtain h where "h \<in> set (scan_hits (hit_at cx q org before st) limit (length (gs_chain st)) [])"
      "s = toGovernanceRecordSummary (snd h)"
    by (auto dest: in_set_takeD)
  then show ?thesis
    using scan_members [of h "hit_at cx q org before st" limit "length (gs_chain st)" "[]"] hit_own assms(2)
    by (fastforce simp: toGovernanceRecordSummary_def)
qed

section \<open>Nothing sensitive is stored\<close>

definition record_redacted :: "GovernanceRecord \<Rightarrow> bool" where
  "record_redacted r \<longleftrightarrow>
     redacted (qr_requestPayload (gr_request r)) \<and> redacted (vl_resultPayload (gr_evaluation r)) \<and>
     (\<forall>e \<in> set (gr_events r). redacted (vt_eventPayload e)) \<and>
     (\<forall>s \<in> set (gr_trace r). case tp_metadata s of None \<Rightarrow> True | Some m \<Rightarrow> redacted m)"

definition store_redacted :: "governance_store \<Rightarrow> bool" where
  "store_redacted st \<longleftrightarrow>
     map_all (\<lambda>_. record_redacted) (gs_aggregates st) \<and>
     (\<forall>e \<in> set (gs_standaloneEvents st). redacted (vt_eventPayload e))"

lemma redacted_append:
  assumes "store_redacted st"
  shows "store_redacted (snd (appendEvaluation_governance sha deps input st))"
proof (cases rule: append_cases [of sha deps input st])
  case (new r)
  then have "record_redacted r"
    using built_aggregate by (fastforce simp: newly_built_def aggregate_of_def record_redacted_def)
  with new assms show ?thesis
    by (auto simp: store_redacted_def committed_def commitAggregate_def Let_def)
qed (use assms in simp)

lemma redacted_events:
  "redacted (vt_eventPayload (toStandaloneEventRecord sha now version n ev))"
  "redacted (vt_eventPayload (legacyEventToRecord sha now version n e))"
  by (simp_all add: toStandaloneEventRecord_def lifecycleEventRecord_def governanceEventRecord_def legacyEventToRecord_def
    Let_def split: option.splits)

lemma redacted_run:
  assumes "store_redacted st"
  shows "store_redacted (run_governance sha version call st)"
proof (cases call)
  case (GvReference cx reference)
  then show ?thesis
    using reference_cases [of sha cx reference st] assms
    by (elim disjE exE conjE) (simp_all add: store_redacted_def reference_appended_def Let_def)
next
  case (GvLifecycle now ev)
  then show ?thesis
    using assms by (cases "assertOpen_governance st")
      (auto simp: appendLifecycleEvent_def store_redacted_def pushStandalone_def Let_def redacted_events)
next
  case (GvEvent now e)
  then show ?thesis
    using assms by (cases "assertOpen_governance st")
      (auto simp: appendEnterpriseEvent_def store_redacted_def pushStandalone_def Let_def redacted_events)
next
  case (GvVersion v)
  then show ?thesis
    using assms by (cases "assertOpen_governance st") (auto simp: recordEnterpriseVersion_def store_redacted_def)
qed (use assms redacted_append [OF assms] in \<open>simp_all add: persist_state close_governance_def store_redacted_def\<close>)

lemma listed_event:
  assumes "listEnterpriseEvents request correlation st = Inr events" and "x \<in> set events"
  shows "\<exists>e \<in> set (gs_standaloneEvents st @ concat (map gr_events (chainRecords st))). eo_payload x = vt_eventPayload e"
proof -
  have "x \<in> set (List.map_filter recordToLegacyEvent (gs_standaloneEvents st @ concat (map gr_events (chainRecords st))))"
    using assms by (auto simp: listEnterpriseEvents_def rbind_Inr)
  then obtain e where "e \<in> set (gs_standaloneEvents st @ concat (map gr_events (chainRecords st)))"
      "recordToLegacyEvent e = Some x"
    by (fastforce simp: List.map_filter_def)
  then show ?thesis by (auto simp: recordToLegacyEvent_def split: option.splits)
qed

lemma listed_redacted:
  assumes "store_redacted st" and "listEnterpriseEvents request correlation st = Inr events"
  shows "list_all (\<lambda>x. redacted (eo_payload x)) events"
proof -
  have "record_redacted q" if "q \<in> set (chainRecords st)" for q
    using that assms(1) by (auto simp: chainRecords_def List.map_filter_def store_redacted_def dest: map_all_get)
  then have "redacted (vt_eventPayload e)"
    if "e \<in> set (gs_standaloneEvents st @ concat (map gr_events (chainRecords st)))" for e
    using that assms(1) by (auto simp: store_redacted_def record_redacted_def)
  with listed_event [OF assms(2)] show ?thesis by (metis list_all_iff)
qed

interpretation redaction: invariant_machine empty_governance_store "run_governance sha version" store_redacted
  for sha version
  by unfold_locales (simp add: store_redacted_def empty_governance_store_def, rule redacted_run)

lemma reached_redacted: "store_redacted (run_governances sha version calls)"
  unfolding run_governances_def by (rule redaction.inv_reached)

end
