(* ===== verification/GovernancePaging.thy ===== *)
theory GovernancePaging
  imports GovernanceProtocol
begin

text \<open>
  Reading a query page by page: following the cursors shows every matching record once, newest first, whatever
  is appended between the pages.
\<close>

section \<open>One page\<close>

lemma scan_hits_take:
  "int (length hits) \<le> limit \<Longrightarrow>
     scan_hits hit limit n hits = take (Suc (nat limit)) (hits @ List.map_filter hit (rev [0..<n]))"
proof (induction n arbitrary: hits)
  case 0
  then show ?case by (simp add: map_filter_simps)
next
  case (Suc n)
  show ?case
  proof (cases "hit n")
    case None
    then show ?thesis using Suc by (simp add: map_filter_simps)
  next
    case (Some h)
    show ?thesis
    proof (cases "int (length hits) < limit")
      case True
      then show ?thesis using Suc.IH [of "hits @ [h]"] Some by (simp add: map_filter_simps)
    next
      case False
      then have "length hits = nat limit" using Suc.prems by simp
      then show ?thesis using Some False by (simp add: map_filter_simps)
    qed
  qed
qed

definition hits ::
  "GovernanceStoreAccessContext \<Rightarrow> GovernanceStoreQuery \<Rightarrow> string option \<Rightarrow> int option \<Rightarrow> governance_store \<Rightarrow>
     (int \<times> GovernanceRecord) list" where
  "hits cx q org before st = List.map_filter (hit_at cx q org before st) (rev [0..<length (gs_chain st)])"

definition page_cursor :: "(string \<Rightarrow> json option) \<Rightarrow> GovernanceStoreQuery \<Rightarrow> int option store_outcome" where
  "page_cursor parse q =
     (case gy_cursor q of None \<Rightarrow> Inr None | Some c \<Rightarrow> rbind (decodeQueryCursor parse c) (\<lambda>p. Inr (Some p)))"

lemma query_page:
  assumes "\<not> gs_closed st" and "resolveQueryOrganization cx q = Inr org" and "normalizeQueryLimit (gy_limit q) = Inr limit"
    and "page_cursor parse q = Inr before"
  shows "query_governance b64 parse cx q st =
    (let hs = hits cx q org before st; page = take (nat limit) hs
     in Inr \<lparr>gl_records = map (\<lambda>h. toGovernanceRecordSummary (snd h)) page,
             gl_nextCursor = (if nat limit < length hs then Some (encodeQueryCursor b64 (fst (last page))) else None)\<rparr>)"
proof -
  have "0 < limit" using assms(3) by (auto simp: normalizeQueryLimit_def split: option.splits if_splits)
  then obtain n where n: "limit = int n" "0 < n" by (metis pos_int_cases)
  have scan: "scan_hits (hit_at cx q org before st) limit (length (gs_chain st)) [] = take (Suc n) (hits cx q org before st)"
    using scan_hits_take [of "[]" limit] by (simp add: hits_def n(1))
  have page: "take n (take (Suc n) hs) = take n hs" "(limit < int (length (take (Suc n) hs)) \<and> take n hs \<noteq> []) = (n < length hs)"
    for hs :: "(int \<times> GovernanceRecord) list"
    using n by (auto simp: min_def)
  show ?thesis
    using assms unfolding query_governance_def assertOpen_governance_def page_cursor_def
    by (simp only: scan [unfolded n(1)] Let_def rbind_simps check_simps not_False_eq_True nat_int n(1) page(1) page(2) [unfolded n(1)])
qed

section \<open>What the pages leave out\<close>

lemma hit_at_before:
  "hit_at cx q org (Some b) st i = (if int i + 1 \<ge> b then None else hit_at cx q org None st i)"
  by (simp add: hit_at_def Let_def)

lemma hit_position: "hit_at cx q org before st i = Some h \<Longrightarrow> fst h = int i + 1"
  by (auto simp: hit_at_def Let_def split: option.splits if_splits)

lemma hits_bound:
  assumes "h \<in> set (hits cx q org before st)"
  shows "0 < fst h \<and> fst h \<le> int (length (gs_chain st))"
proof -
  obtain i where "i < length (gs_chain st)" "hit_at cx q org before st i = Some h"
    using assms by (auto simp: hits_def List.map_filter_def)
  then show ?thesis using hit_position [of cx q org before st i h] by simp
qed

lemma map_filter_all: "map f xs = map Some ys \<Longrightarrow> List.map_filter f xs = ys"
  by (induction xs arbitrary: ys) (auto simp: map_filter_simps)

lemma map_filter_append: "List.map_filter f (xs @ ys) = List.map_filter f xs @ List.map_filter f ys"
  by (simp add: List.map_filter_def)

lemma hits_before: "hits cx q org (Some b) st = filter (\<lambda>h. fst h < b) (hits cx q org None st)"
proof -
  have "List.map_filter (hit_at cx q org (Some b) st) is =
      filter (\<lambda>h. fst h < b) (List.map_filter (hit_at cx q org None st) is)" for "is"
    using hit_position [of cx q org None st]
    by (induction "is") (fastforce simp: map_filter_simps hit_at_before split: option.splits)+
  then show ?thesis by (simp add: hits_def)
qed

lemma hits_descending: "sorted_wrt (\<lambda>a b. fst b < fst a) (hits cx q org before st)"
proof -
  have "sorted_wrt (\<lambda>a b. fst b < fst a) (List.map_filter (hit_at cx q org before st) (rev [0..<n])) \<and>
      (\<forall>h \<in> set (List.map_filter (hit_at cx q org before st) (rev [0..<n])). fst h \<le> int n)" for n
    by (induction n) (fastforce simp: map_filter_simps dest: hit_position split: option.splits)+
  then show ?thesis by (simp add: hits_def)
qed

lemma after_page:
  assumes "sorted_wrt (\<lambda>a b. fst b < (fst a :: int)) xs" and "0 < n" and "n < length xs"
  shows "filter (\<lambda>h. fst h < fst (last (take n xs))) xs = drop n xs"
proof -
  obtain ys zs where xs: "xs = ys @ zs" "length ys = n"
    using assms(3) by (metis append_take_drop_id length_take min.absorb2 less_imp_le)
  have ne: "ys \<noteq> []" using xs(2) assms(2) by auto
  then obtain us y where ys: "ys = us @ [y]" by (cases ys rule: rev_cases) auto
  have "filter (\<lambda>h. fst h < fst y) ys = []" "filter (\<lambda>h. fst h < fst y) zs = zs"
    using assms(1) by (auto simp: xs(1) ys sorted_wrt_append filter_empty_conv filter_id_conv)
  moreover have "take n xs = ys" "drop n xs = zs" using xs by auto
  ultimately show ?thesis using ys xs(1) by simp
qed

text \<open>Later appends do not reach the part of the chain a cursor has passed.\<close>

lemma hits_kept:
  assumes "keeps st st'" and rs: "chain_ok sha st rs" and "b \<le> int (length (gs_chain st)) + 1"
  shows "hits cx q org (Some b) st' = hits cx q org (Some b) st"
proof -
  obtain more where chain: "gs_chain st' = gs_chain st @ more" using assms(1) by (auto simp: keeps_def)
  have same: "hit_at cx q org (Some b) st' i = hit_at cx q org (Some b) st i" if "i < length (gs_chain st)" for i
  proof -
    have "map_get (gs_aggregates st) (gs_chain st ! i) = Some (rs ! i)"
      using chain_entry(1,2) [OF rs] that by simp
    moreover from this have "map_get (gs_aggregates st') (gs_chain st ! i) = Some (rs ! i)"
      using assms(1) by (simp add: keeps_def)
    ultimately show ?thesis using that by (simp add: hit_at_def chain nth_append Let_def)
  qed
  have late: "hit_at cx q org (Some b) st' i = None" if "length (gs_chain st) \<le> i" for i
    using that assms(3) by (simp add: hit_at_before)
  have "List.map_filter (hit_at cx q org (Some b) st') (rev [length (gs_chain st)..<length (gs_chain st) + length more]) = []"
    using late by (auto simp: List.map_filter_def filter_empty_conv)
  moreover have "List.map_filter (hit_at cx q org (Some b) st') (rev [0..<length (gs_chain st)]) =
      List.map_filter (hit_at cx q org (Some b) st) (rev [0..<length (gs_chain st)])"
    unfolding List.map_filter_def using same by (intro map_cong filter_cong) auto
  ultimately show ?thesis
    by (simp add: hits_def chain upt_add_eq_append [of 0 "length (gs_chain st)" "length more"] map_filter_append del: upt_Suc)
qed

section \<open>Reading every page\<close>

text \<open>
  A client that follows the cursors to the end; between two pages other calls come in. \<^const>\<open>None\<close> when a
  page is refused or the client stops first.
\<close>

fun read_pages ::
  "(string \<Rightarrow> string) \<Rightarrow> string \<Rightarrow> (string \<Rightarrow> string) \<Rightarrow> (string \<Rightarrow> json option) \<Rightarrow> GovernanceStoreAccessContext \<Rightarrow>
     GovernanceStoreQuery \<Rightarrow> governance_store \<Rightarrow> governance_call list list \<Rightarrow> GovernanceRecordSummary list option" where
  "read_pages sha version b64 parse cx q st [] = None"
| "read_pages sha version b64 parse cx q st (calls # later) =
     (case query_governance b64 parse cx q st of
        Inl e \<Rightarrow> None
      | Inr res \<Rightarrow>
          (case gl_nextCursor res of
             None \<Rightarrow> Some (gl_records res)
           | Some c \<Rightarrow>
               map_option (\<lambda>rest. gl_records res @ rest)
                 (read_pages sha version b64 parse cx (q\<lparr>gy_cursor := Some c\<rparr>)
                   (fold (run_governance sha version) calls st) later)))"

text \<open>The records a query is about, newest first.\<close>

definition matching ::
  "GovernanceStoreAccessContext \<Rightarrow> GovernanceStoreQuery \<Rightarrow> string option \<Rightarrow> governance_store \<Rightarrow> GovernanceRecord list" where
  "matching cx q org st =
     filter (\<lambda>r. (ax_system cx \<or> canSeeRecord cx (qr_organizationId (gr_request r))) \<and> matchesQueryFilters r q org)
       (rev (chainRecords st))"

lemma hits_matching:
  assumes "chain_ok sha st rs"
  shows "map snd (hits cx q org None st) = matching cx q org st"
proof -
  note entry = chain_entry(1,2) [OF assms]
  have records: "chainRecords st = rs"
    unfolding chainRecords_def by (rule map_filter_all) (use assms in \<open>simp only: chain_ok_def\<close>)
  have "map snd (List.map_filter (hit_at cx q org None st) (rev [0..<n])) =
      filter (\<lambda>r. (ax_system cx \<or> canSeeRecord cx (qr_organizationId (gr_request r))) \<and> matchesQueryFilters r q org)
        (rev (take n rs))" if "n \<le> length rs" for n
    using that
  proof (induction n)
    case (Suc n)
    then have "take (Suc n) rs = take n rs @ [rs ! n]" by (simp add: take_Suc_conv_app_nth)
    moreover have "map_get (gs_aggregates st) (gs_chain st ! n) = Some (rs ! n)" using entry(2) Suc.prems by simp
    ultimately show ?case using Suc by (auto simp: map_filter_simps hit_at_def Let_def)
  qed (simp add: map_filter_simps)
  from this [of "length rs"] show ?thesis by (simp add: hits_def matching_def records entry(1))
qed

lemma cursor_ignored:
  "hits cx (q\<lparr>gy_cursor := c\<rparr>) org before st = hits cx q org before st"
  "resolveQueryOrganization cx (q\<lparr>gy_cursor := c\<rparr>) = resolveQueryOrganization cx q"
proof -
  have same: "matchesQueryFilters r (q\<lparr>gy_cursor := c\<rparr>) org = matchesQueryFilters r q org" for r
    by (simp add: matchesQueryFilters_def)
  have "hit_at cx (q\<lparr>gy_cursor := c\<rparr>) org before st = hit_at cx q org before st"
    by (rule ext) (simp only: hit_at_def same)
  then show "hits cx (q\<lparr>gy_cursor := c\<rparr>) org before st = hits cx q org before st" by (simp add: hits_def)
qed (simp add: resolveQueryOrganization_def)

lemma pages_from:
  assumes rs: "chain_ok sha st0 rs"
    and query: "resolveQueryOrganization cx q = Inr org" "normalizeQueryLimit (gy_limit q) = Inr limit"
    and cursor: "\<And>n. 0 < n \<Longrightarrow> decodeQueryCursor parse (encodeQueryCursor b64 n) = Inr n"
    and st: "keeps st0 st" "\<not> gs_closed st" "GvClose \<notin> set (concat pages)"
    and before: "page_cursor parse q = Inr before" "hits cx q org before st = hits cx q org (Some b) st0"
      "b \<le> int (length (gs_chain st0)) + 1"
    and enough: "length (hits cx q org (Some b) st0) < length pages"
  shows "read_pages sha version b64 parse cx q st pages =
    Some (map (\<lambda>h. toGovernanceRecordSummary (snd h)) (hits cx q org (Some b) st0))"
  using query(1) query(2) st before enough
proof (induction pages arbitrary: q st before b)
  case (Cons calls later)
  let ?hs = "hits cx q org (Some b) st0"
  let ?n = "nat limit"
  have limit: "0 < ?n" using Cons.prems(2) by (auto simp: normalizeQueryLimit_def split: option.splits if_splits)
  note page = query_page [OF Cons.prems(4,1,2,6), unfolded Cons.prems(7) Let_def]
  show ?case
  proof (cases "?n < length ?hs")
    case False
    then show ?thesis by (simp add: page)
  next
    case True
    define p where "p = fst (last (take ?n ?hs))"
    have "last (take ?n ?hs) \<in> set ?hs" using True limit by (metis in_set_takeD last_in_set length_greater_0_conv
      length_take min.absorb2 less_imp_le)
    then have pos: "0 < p" "p < b"
      using hits_bound [of "last (take ?n ?hs)" cx q org "Some b" st0] by (auto simp: p_def hits_before)
    have rest: "hits cx q org (Some p) st0 = drop ?n ?hs"
    proof -
      have "hits cx q org (Some p) st0 = filter (\<lambda>h. fst h < p) ?hs"
        using pos(2) unfolding hits_before by (auto intro: filter_cong)
      also have "\<dots> = drop ?n ?hs"
        unfolding p_def by (rule after_page [OF hits_descending limit True])
      finally show ?thesis .
    qed
    let ?q = "q\<lparr>gy_cursor := Some (encodeQueryCursor b64 p)\<rparr>"
      and ?st = "fold (run_governance sha version) calls st"
    have "read_pages sha version b64 parse cx ?q ?st later =
        Some (map (\<lambda>h. toGovernanceRecordSummary (snd h)) (hits cx ?q org (Some p) st0))"
    proof (rule Cons.IH)
      show "keeps st0 ?st" using keeps_trans [OF Cons.prems(3) keeps_runs] .
      then show "hits cx ?q org (Some p) ?st = hits cx ?q org (Some p) st0"
        using hits_kept [OF _ rs] pos(2) Cons.prems(8) by (simp add: cursor_ignored)
      show "\<not> gs_closed ?st" using Cons.prems(4,5) by (simp add: open_runs)
      show "page_cursor parse ?q = Inr (Some p)" using cursor [OF pos(1)] by (simp add: page_cursor_def)
      show "length (hits cx ?q org (Some p) st0) < length later"
        using rest Cons.prems(9) True limit by (simp add: cursor_ignored)
    qed (use Cons.prems pos in \<open>simp_all add: cursor_ignored\<close>)
    then show ?thesis
      using True by (simp add: page p_def [symmetric] cursor_ignored rest map_append [symmetric] del: map_append)
  qed
qed simp

lemma query_pages_complete:
  assumes "governance_ok sha st" and "\<not> gs_closed st"
    and "resolveQueryOrganization cx q = Inr org" and "normalizeQueryLimit (gy_limit q) = Inr limit" and "gy_cursor q = None"
    and "\<And>n. 0 < n \<Longrightarrow> decodeQueryCursor parse (encodeQueryCursor b64 n) = Inr n"
    and "GvClose \<notin> set (concat pages)" and "length (gs_chain st) < length pages"
  shows "read_pages sha version b64 parse cx q st pages = Some (map toGovernanceRecordSummary (matching cx q org st))"
proof -
  obtain rs where rs: "chain_ok sha st rs" using assms(1) by (auto simp: governance_ok_def)
  let ?b = "int (length (gs_chain st)) + 1"
  have all: "hits cx q org None st = hits cx q org (Some ?b) st"
    unfolding hits_before using hits_bound [of _ cx q org None st] by (auto simp: filter_id_conv)
  have "length (hits cx q org None st) \<le> length (gs_chain st)"
    by (simp add: hits_def List.map_filter_def) (metis diff_zero length_filter_le length_rev length_upt)
  then have "read_pages sha version b64 parse cx q st pages =
      Some (map (\<lambda>h. toGovernanceRecordSummary (snd h)) (hits cx q org (Some ?b) st))"
    using assms by (intro pages_from [OF rs, where before = None]) (simp_all add: keeps_refl page_cursor_def all [symmetric])
  then show ?thesis using hits_matching [OF rs, of cx q org, symmetric] by (simp add: all [symmetric] o_def)
qed

end
