(* ===== verification/GovernanceScenario.thy ===== *)
theory GovernanceScenario
  imports GovernancePaging
begin

text \<open>
  A concrete evaluation for the witnesses: a request that carries an access token, its decision, and a
  reference to the mandate issued under it.
\<close>

definition hex_sha :: "string \<Rightarrow> string" where
  "hex_sha t = replicate 64 CHR ''0''"

definition org_context :: GovernanceStoreAccessContext where
  "org_context = \<lparr>ax_organizationId = Some ''org'', ax_actorId = None, ax_system = False\<rparr>"

definition pay_request :: KernelEvaluationRequest where
  "pay_request =
     \<lparr>er_requestId = ''q'', er_actor = \<lparr>ar_id = ''agent'', ar_type = None, ar_rest = []\<rparr>,
      er_action = \<lparr>ad_type = ''pay'', ad_domain = None, ad_resourceScope = ''r'', ad_rest = []\<rparr>,
      er_target = None, er_organization = Some \<lparr>of_id = ''org'', of_rest = []\<rparr>, er_requestedAt = ''t0'',
      er_correlationId = None,
      er_rest = [(''context'', JObj [(''accessToken'', JStr ''s3cret''), (''note'', JStr ''ok'')])]\<rparr>"

definition pay_decision :: KernelEvaluation where
  "pay_decision =
     \<lparr>el_requestId = ''q'', el_decisionId = ''d'', el_status = ''allowed'', el_reasonCodes = [''OK''],
      el_summary = ''ok'',
      el_steps = [\<lparr>kt_sequence = 1, kt_operator = ''policy'', kt_status = ''passed'', kt_reasonCodes = [],
        kt_startedAt = None, kt_completedAt = None, kt_metadata = None\<rparr>],
      el_evaluatedAt = ''t1'', el_kernelVersion = ''1'', el_correlationId = None, el_rest = []\<rparr>"

definition pay_deps :: GovernanceProjectionDependencies where
  "pay_deps = \<lparr>pd_now = ''t2'', pd_nextId = (\<lambda>n prefix. prefix), pd_limits = DEFAULT_GOVERNANCE_STORE_LIMITS\<rparr>"

definition pay_input :: AppendGovernanceEvaluationInput where
  "pay_input =
     \<lparr>ap_request = pay_request, ap_result = pay_decision, ap_receivedAt = ''t0'',
      ap_enterpriseContext = \<lparr>ec_enterpriseVersion = ''1'', ec_lifecycleState = ''ready'', ec_modules = [],
        ec_providers = None, ec_buildVersion = None, ec_environment = None\<rparr>,
      ap_events = [],
      ap_idempotency = Some \<lparr>dk_idempotencyKey = ''k'', dk_scope = ''org:org''\<rparr>, ap_accessContext = org_context\<rparr>"

definition pay_mandate :: GovernanceReferenceInput where
  "pay_mandate =
     \<lparr>rf_referenceId = ''ref'', rf_evaluationId = ''gov-evaluation'', rf_referenceType = ''authorization_artifact'',
      rf_externalId = ''mandate'', rf_externalVersion = None, rf_digest = None, rf_uri = None, rf_createdAt = ''t3''\<rparr>"

definition pay_calls :: "governance_call list" where
  "pay_calls = [GvAppend pay_deps pay_input, GvReference org_context pay_mandate]"

definition pay_record :: "(string \<Rightarrow> string) \<Rightarrow> GovernanceRecord" where
  "pay_record sha = assembleAggregate sha pay_deps None 1 pay_input []"

lemma hex_sha_output: "length (hex_sha t) = 64 \<and> list_all is_hex (hex_sha t)"
  by (simp add: hex_sha_def list_all_iff is_hex_def)

lemma hex_digest: "computeDigest hex_sha v = ''sha256:'' @ replicate 64 CHR ''0''"
  by (simp only: computeDigest_def hex_sha_def)

lemma pay_sizes:
  "byteLength (projectRequestPayload pay_request) < 262144" "byteLength (projectResultPayload pay_decision) < 524288"
  by code_simp+

lemma pay_valid: "validateAppendInput pay_input = Inr ()"
  by code_simp

lemma pay_parts:
  "ap_request pay_input = pay_request" "ap_result pay_input = pay_decision" "ap_events pay_input = []"
  "pd_limits pay_deps = DEFAULT_GOVERNANCE_STORE_LIMITS" "length (el_steps pay_decision) = 1"
  "distinct (map kt_sequence (el_steps pay_decision))"
  by (simp_all add: pay_input_def pay_deps_def pay_decision_def)

lemma pay_built: "buildGovernanceAggregate sha pay_deps None 1 pay_input = Inr (pay_record sha)"
proof -
  have "evaluationEvents sha pay_deps pay_input = Inr []"
    by (simp add: evaluationEvents_def pay_parts numbered_def)
  then show ?thesis
    using pay_sizes
    by (simp add: buildGovernanceAggregate_def pay_valid pay_record_def pay_parts DEFAULT_GOVERNANCE_STORE_LIMITS_def Let_def)
qed

lemma pay_ids:
  "vl_evaluationId (gr_evaluation (pay_record sha)) = ''gov-evaluation''"
  "vl_decisionId (gr_evaluation (pay_record sha)) = ''d''" "vl_requestId (gr_evaluation (pay_record sha)) = ''q''"
  "qr_organizationId (gr_request (pay_record sha)) = Some ''org''"
  using assembled_aggregate [OF pay_valid, of "[]" sha pay_deps None 1]
  by (simp_all add: aggregate_of_def pay_record_def pay_deps_def pay_input_def pay_request_def pay_decision_def request_org_def)

definition paid :: "(string \<Rightarrow> string) \<Rightarrow> governance_store" where
  "paid sha = committed sha pay_input (pay_record sha) empty_governance_store"

lemma pay_first: "appendEvaluation_governance sha pay_deps pay_input empty_governance_store =
    (Inr (appendResult True None (pay_record sha)), paid sha)"
proof -
  have "resolveIdempotencySync (ap_accessContext pay_input) (probeOf sha pay_input) empty_governance_store = Inr IdempotencyNew"
    by (simp add: resolveIdempotencySync_def resolveByRequestId_def probeOf_def pay_input_def claimOf_def empty_governance_store_def)
  then show ?thesis
    using pay_built [of sha]
    by (simp add: appendEvaluation_governance_def appendNew_def assertOpen_governance_def previousDigest_def paid_def committed_def
      empty_governance_store_def)
qed

lemma paid_runs: "run_governances sha ''1'' [GvAppend pay_deps pay_input] = paid sha"
  by (simp add: run_governances_def pay_first)

lemma paid_load: "loadVisibleRecord org_context (Some ''gov-evaluation'') (paid sha) = Inr (Some (pay_record sha))"
proof -
  have "referencesOf (paid sha) e = []" for e
    by (simp add: paid_def committed_def referencesOf_def empty_governance_store_def)
  then show ?thesis
    by (simp add: loadVisibleRecord_def requireReadScope_def canSeeRecord_def org_context_def pay_ids withReferences_def
      paid_def committed_def map_simps)
qed

definition paid_referenced :: "(string \<Rightarrow> string) \<Rightarrow> governance_store" where
  "paid_referenced sha = reference_appended sha pay_mandate (pay_record sha) (paid sha)"

lemma paid_references: "referencesOf (paid sha) e = []"
  by (simp add: paid_def committed_def referencesOf_def empty_governance_store_def)

lemma mandate_appended: "appendReference_governance sha org_context pay_mandate (paid sha) = (Inr (), paid_referenced sha)"
proof -
  have "loadVisibleRecord org_context (Some (rf_evaluationId pay_mandate)) (paid sha) = Inr (Some (pay_record sha))"
    using paid_load by (simp add: pay_mandate_def)
  moreover have "isCanonicalGovernanceReferenceType (rf_referenceType pay_mandate)"
    by (simp add: isCanonicalGovernanceReferenceType_def GOVERNANCE_REFERENCE_TYPES_def pay_mandate_def)
  moreover have "\<not> gs_closed (paid sha)" by (simp add: paid_def committed_def empty_governance_store_def)
  ultimately show ?thesis
    by (simp add: appendReference_governance_def assertOpen_governance_def assertCanonicalReferenceType_def paid_references
      paid_referenced_def reference_appended_def Let_def)
qed

lemma pay_calls_run: "run_governances sha ''1'' pay_calls = paid_referenced sha"
  by (simp add: run_governances_def pay_calls_def pay_first mandate_appended)

lemma pay_calls_chain: "length (gs_chain (run_governances sha ''1'' pay_calls)) = 1"
  by (simp add: pay_calls_run paid_referenced_def reference_appended_def paid_def committed_def empty_governance_store_def Let_def)

lemma paid_referenced_verified:
  "\<exists>v. verify_governance sha ''t4'' org_context ''gov-evaluation'' (run_governances sha ''1'' pay_calls) = Inr v"
proof -
  have "loadVisibleRecord org_context (Some ''gov-evaluation'') (paid_referenced sha) =
      Inr (Some (withReferences (paid_referenced sha) (pay_record sha)))"
    by (simp add: loadVisibleRecord_def requireReadScope_def canSeeRecord_def org_context_def pay_ids
      paid_referenced_def reference_appended_def paid_def committed_def map_simps Let_def)
  moreover have "\<not> gs_closed (paid_referenced sha)"
    by (simp add: paid_referenced_def reference_appended_def paid_def committed_def empty_governance_store_def Let_def)
  ultimately show ?thesis
    unfolding pay_calls_run by (simp add: verify_governance_def assertOpen_governance_def)
qed

lemma paid_reference_count: "length (referencesOf (run_governances sha ''1'' pay_calls) ''gov-evaluation'') = 1"
  unfolding pay_calls_run
  by (simp add: paid_referenced_def reference_appended_def referencesOf_def pay_mandate_def map_simps Let_def paid_def
    committed_def empty_governance_store_def)

text \<open>The chain of that one reference, and the history of that one record.\<close>

definition mandate_sealed :: GovernanceReferenceRecord where
  "mandate_sealed = sealGovernanceReference hex_sha pay_mandate
     \<lparr>sl_organizationId = Some ''org'', sl_sequence = 1, sl_previousReferenceDigest = None\<rparr>"

lemma mandate_chain_verifies:
  "iv_valid (verifyGovernanceReferenceIntegrity hex_sha [mandate_sealed] (Some ''org'') (Some (Some (headAfter mandate_sealed))))"
proof -
  have "sealed_from hex_sha (Some ''org'') 0 None [mandate_sealed]"
    using seal_links [of None "[]" hex_sha "Some ''org''" pay_mandate]
    by (simp add: head_of_def mandate_sealed_def)
  moreover have "head_of (Some (headAfter mandate_sealed)) [mandate_sealed]"
    by (simp add: head_of_def headAfter_def mandate_sealed_def sealGovernanceReference_def Let_def)
  ultimately show ?thesis
    using sealed_verifies [of hex_sha "Some ''org''" "[mandate_sealed]" "Some (headAfter mandate_sealed)", OF hex_sha_output]
    by (simp add: Let_def)
qed

lemma mandate_protected: "protected_references [mandate_sealed] = [mandate_sealed]"
  by (simp add: protected_references_def by_sequence_def isLegacyUnprotected_def mandate_sealed_def
    sealGovernanceReference_def Let_def)

lemma pay_history: "history_verifies id ''t4'' [(pay_record id, None)]"
proof -
  have "aggregate_of id pay_deps None 1 pay_input (pay_record id)"
    unfolding pay_record_def by (rule assembled_aggregate) (simp_all add: pay_valid)
  then have "record_sealed id (pay_record id)" "ig_chainPosition (gr_integrity (pay_record id)) = 1"
    "ig_previousAggregateDigest (gr_integrity (pay_record id)) = None" "gr_references (pay_record id) = []"
    by (simp_all add: aggregate_of_def)
  then show ?thesis
    by (simp add: history_verifies_def verified_iff linkCheck_def iv_valid_failures)
      (simp add: verifyGovernanceReferenceIntegrity_def headFailures_def headCorrupted_def by_sequence_def mark_def Let_def)
qed

text \<open>A cursor as it stands, and the number it is read back as.\<close>

definition read_cursor :: "string \<Rightarrow> json option" where
  "read_cursor c = Some (JObj [(''p'', JNum (str_val (drop 5 (butlast c))))])"

lemma cursor_read: "0 < n \<Longrightarrow> decodeQueryCursor read_cursor (encodeQueryCursor id n) = Inr n"
  by (simp add: encodeQueryCursor_def read_cursor_def decodeQueryCursor_def canonicalSerialize_def json_quote_def
    escape_char_def int_str_def str_val_pos_str sort_by_id_def)

definition all_query :: GovernanceStoreQuery where
  "all_query =
     \<lparr>gy_requestId = None, gy_evaluationId = None, gy_decisionId = None, gy_correlationId = None,
      gy_organizationId = None, gy_actorId = None, gy_actionType = None, gy_status = Some ''allowed'',
      gy_reasonCode = None, gy_from = None, gy_to = None, gy_limit = Some 1, gy_cursor = None\<rparr>"

end
