(* ===== verification/Spec2Isabelle.thy ===== *)
theory Spec2Isabelle
  imports RepresentationScenario ReleaseScenario LifecycleProperties CollateralScenario GovernanceScenario
begin

text \<open>
  The governed authority core of Soberania Enterprise (the AOC-Enterprise repository): who holds how
  much of which right over which resource, how that moves, what holds it back, who may act for a
  holder, and the host the modules of the enterprise run in. Paths below are under \<open>src/\<close>;
  \<open>authority-governance\<close> is short for \<open>src/enterprise/authority-governance\<close>.

  The parts and how they interact. The in-memory authority store keeps positions (holder, right,
  resource, scope), an append-only transition ledger per tenant, reservations and encumbrances.
  Issuances and movements change positions; reservations commit authority to a mandate that is being
  issued, encumbrances constrain it; both are counted by the capacity computation every guard asks.
  The representation store keeps bindings that let one party act for a holder, and its resolver
  answers whether a chain of them holds now. The release service ends an encumbrance: it asks the
  kernel, keeps a mandate and its execution evidence in a store of its own, calls an external
  executor and then the authority store. The transfer service asks the kernel, commits the
  transferor's authority by reservations, keeps a mandate and the evidence of what was moved under it
  in a store of its own, and then has the authority store move it. The collateralization service does
  the same up to the commitment, and then has the authority store constrain what it reserved: those are
  the encumbrances the release service ends. What the kernel decided is kept by the governance store: each
  evaluation becomes an aggregate of redacted records, sealed by digests and chained to the aggregate
  before it, to which references (to evidence, to authorization artifacts) are attached in a chain of their
  own. Beside them, the module registry orders the enterprise's modules and the lifecycle controller
  starts and stops them.

  Theories and the code they model.
  \<^item> \<open>Prelude\<close>: results (\<open>Inl\<close> an error code, \<open>Inr\<close> a value), JavaScript maps as association lists in
    insertion order behind the locale \<open>keyed_map\<close>, the collections \<open>outcome_simps\<close> and \<open>map_simps\<close>.
  \<^item> \<open>JsNumber\<close>, \<open>UtcTime\<close>, \<open>CanonicalJson\<close>: JavaScript's rounded addition, strict UTC timestamps,
    \<open>governance-store/canonical-json.ts\<close> and \<open>digest.ts\<close>. SHA-256 is the parameter \<open>sha\<close>; a theorem
    that needs two digests to differ says so.
  \<^item> \<open>RightsScope\<close>, \<open>AuthorityTypes\<close>, \<open>AuthorityLifecycle\<close>, \<open>Capacity\<close>, \<open>ConstraintApplicability\<close>: the
    packages \<open>governed-authorization\<close> and \<open>governed-authority\<close> and the pure files of
    \<open>authority-governance\<close>: quantities, records, keys, digests, the transition chain, what counts when,
    how much is available, which constraints bear on an action.
  \<^item> \<open>AuthorityStore\<close>, \<open>CommitmentStore\<close>, \<open>Resolvers\<close>: \<open>in-memory-authority-store.ts\<close>, one function
    per operation from a store to a result and a store, and the two resolvers.
  \<^item> \<open>Representation\<close>, \<open>RepresentationStore\<close>: \<open>governed-representative-authority.ts\<close>,
    \<open>representation-lifecycle.ts\<close>, \<open>in-memory-representation-store.ts\<close>, \<open>representation-resolver.ts\<close>.
  \<^item> \<open>ReleaseMandateStore\<close>, \<open>ReleaseService\<close>: \<open>src/enterprise/encumbrance-release-governance\<close>.
  \<^item> \<open>TransferTerms\<close>, \<open>TransferMandate\<close>: the package \<open>transfer-mandate\<close>: terms, requests, mandates and
    the decision whether a mandate authorizes a movement. \<open>TransferStore\<close>, \<open>TransferService\<close>:
    \<open>lifecycle.ts\<close>, \<open>in-memory-mandate-store.ts\<close> and \<open>service.ts\<close> of \<open>src/enterprise/transfer-governance\<close>;
    the state of the service is the pair of the mandate store and the authority store, if there is one.
  \<^item> \<open>CollateralTerms\<close>, \<open>CollateralMandate\<close>, \<open>CollateralStore\<close>, \<open>CollateralService\<close>: the package
    \<open>collateralization-mandate\<close> and \<open>src/enterprise/collateralization-governance\<close>, in the same four parts.
  \<^item> \<open>GovernanceRedaction\<close>, \<open>GovernanceRecords\<close>, \<open>GovernanceProjection\<close>, \<open>GovernanceReferences\<close>,
    \<open>GovernanceVerification\<close>, \<open>GovernanceStore\<close>, \<open>GovernanceReads\<close>: \<open>redaction.ts\<close>, \<open>contracts.ts\<close>,
    \<open>projection.ts\<close>, \<open>reference-integrity.ts\<close>, \<open>verification.ts\<close>, and \<open>store-common.ts\<close> with
    \<open>in-memory-governance-store.ts\<close> of \<open>src/enterprise/governance-store\<close>. What the clock and the
    identifier generator return to a call is an argument of it; Node's base64url and \<open>JSON.parse\<close> on a
    cursor are parameters.
  \<^item> \<open>ModuleOrder\<close>, \<open>ModuleRegistry\<close>, \<open>ModuleLifecycle\<close>: \<open>src/enterprise/registry\<close>,
    \<open>src/enterprise/lifecycle\<close> and the descriptors of \<open>src/enterprise/modules\<close>.

  What the lemmas show.
  \<^item> \<open>StoreInvariants\<close>, \<open>Movement\<close>, \<open>CommitmentMachine\<close>, \<open>CommitmentInvariants\<close>, \<open>StoreProtocol\<close>,
    \<open>Scenario\<close>: every reachable store is well formed and chained; movements conserve, are atomic and
    idempotent; along disciplined runs no pool is overcommitted; releases are unique and final;
    tenants are isolated.
  \<^item> \<open>RepresentationInvariants\<close>, \<open>RepresentationProtocol\<close>, \<open>RepresentationScenario\<close>: bindings only
    narrow along their lineage, the resolver is exact, withdrawal is final and disables what hangs
    under the binding.
  \<^item> \<open>ReleaseMachine\<close>, \<open>ReleaseProtocol\<close>, \<open>ReleaseScenario\<close>: a machine over both stores that allows any
    interleaving, crash and retry, its invariant, the service as a refinement of it, and recovery.
  \<^item> \<open>TransferInvariants\<close>, \<open>TransferProtocol\<close>, \<open>TransferScenario\<close>: what is on record under a mandate
    was authorized by it and its total stays within it; a request leaves no commitment without a
    mandate and no mandate without its commitments; an execution moves exactly what it reports;
    reconciliation completes; withdrawal frees the commitment only.
  \<^item> \<open>CollateralInvariants\<close>, \<open>CollateralProtocol\<close>, \<open>CollateralScenario\<close>: the same of the arrangements on
    record, with their limits; an execution constrains exactly what it reports and moves nothing, a
    withdrawal leaves its constraint, and a constraint that was not written is never written.
  \<^item> \<open>JsonReadback\<close>: the canonical text of a value determines its canonical form, and nothing else does.
  \<^item> \<open>GovernanceInvariants\<close>, \<open>GovernanceProtocol\<close>, \<open>GovernancePaging\<close>, \<open>GovernanceScenario\<close>: in every
    reachable governance store the chain and the references are sealed and the indexes agree, so every
    record verifies; what verifies against a digest is determined by it, unless digested texts collide;
    records and claims last; reads and references stay in the caller's organization; payloads are
    redacted at every depth; a query read page by page shows every match once.
  \<^item> \<open>ModuleOrderCorrect\<close>, \<open>LifecycleSpec\<close>, \<open>LifecycleRefinement\<close>, \<open>LifecycleProperties\<close>: the
    initialization order is the greedy topological one or a real cycle is named; the controller
    implements an abstract life cycle, from which ordering, rollback and termination follow.

  Conventions and bounds. A store operation is synchronous between two awaits in the code, so it is
  one function here; an asynchronous service is the sequence of its store calls, and where concurrent
  calls matter a step relation interleaves them (\<open>ReleaseMachine\<close>). Clocks are arguments. Absent
  optional fields are \<open>None\<close>. The representation chain is followed for the 16 links the code allows;
  the other loops are structural or have a termination proof. Texts of error messages are kept only
  where the code compares or returns them.

  Not modelled: the SQLite twins of the stores, which add a third-party engine to the same decision
  logic; the kernel and the executors, which are parameters, as is, for the mandate services, the record of
  an evaluation they are handed; the governance store's test-only corruption hook and its projections for
  callers outside it (\<open>toKernelEvaluationResult\<close>); values its JSON model excludes (dates, functions, the key
  \<open>__proto__\<close>), and characters beyond code 255; the
  other mandate services (license, tokenization), assurance, passports, access
  grants and content protection; HTTP, configuration, telemetry, demonstrators and applications. The
  manifest lists each with its reason.
\<close>

section \<open>Runs\<close>

text \<open>
  C1. Every store the operations can reach, whatever calls were made and refused in whatever
  order, is well formed: each record stands under its own key, verifies against its own digest
  and holds a valid quantity, and each tenant's transitions form one unbroken chain.
\<close>

theorem reachable_store_well_formed: "store_wf sha (run_store sha calls)"
  by (rule run_store_wf)

lemma alice_issued: "(disciplined zero_sha)\<^sup>*\<^sup>* (t0, empty_store) (t0, alice_store)"
proof -
  have "disciplined zero_sha (t0, empty_store)
      (t0, snd (bootstrapPosition zero_sha t0 sys_cx (issue_alice (Proportional 10000)) empty_store))"
    by (rule disciplined.issue) (simp add: room_for_def empty_store_def)
  then show ?thesis unfolding bootstrap_run snd_conv by (rule r_into_rtranclp)
qed

lemma alice_reserved: "(disciplined zero_sha)\<^sup>*\<^sup>* (t0, empty_store) (t1, reserved_store RsActive t1)"
proof -
  have "disciplined zero_sha (t0, alice_store) (t1, alice_store)"
    by (rule disciplined.tick) code_simp
  moreover have "disciplined zero_sha (t1, alice_store)
      (t1, snd (acquireReservation zero_sha t1 sys_cx reserve_alice alice_store))"
    by (rule disciplined.reserve) code_simp+
  ultimately show ?thesis
    using alice_issued unfolding acquire_run snd_conv by (meson rtranclp.rtrancl_into_rtrancl)
qed

text \<open>
  C2. No overcommitment: along every disciplined run, in every pool, what constrains the position
  and what stands committed against it together never exceed what it holds.
\<close>

theorem disciplined_pools_covered:
  assumes "(disciplined sha)\<^sup>*\<^sup>* (begun, empty_store) (t, st)"
  shows "pool_constrained st k t + pool_committed st k t \<le> held_at st k"
  using disciplined_run_accounted [OF assms] by (simp add: covered_def)

theorem disciplined_pools_covered_witness:
  "pool_constrained (reserved_store RsActive t1) alice_key t1 +
   pool_committed (reserved_store RsActive t1) alice_key t1 \<le> 10000"
proof -
  have "held_at (reserved_store RsActive t1) alice_key = 10000" by code_simp
  with disciplined_pools_covered [OF alice_reserved, of alice_key] show ?thesis by simp
qed

text \<open>
  C3. Along every disciplined run the availability of a pool, asked for at the instant the run has
  reached, is never reported overcommitted, overencumbered or incommensurable: it is "no authority"
  where there is no position, and otherwise exactly what is held less what constrains and what stands
  committed at that instant.
\<close>

theorem disciplined_availability:
  assumes "(disciplined sha)\<^sup>*\<^sup>* (begun, empty_store) (t, st)"
    and "requireAuthorityAccessToOrganization cx (av_tenantId q) = Inr ()"
    and "av_at q = t" and "isStrictUtcTimestamp t"
    and "k = positionKey (av_tenantId q) (av_holderRef q) (av_resource q) (av_governedRight q)"
  shows "case scope_at st k of
      None \<Rightarrow> resolveAvailability sha cx q st = Inr NoAuthority
    | Some held \<Rightarrow> \<exists>i cm en a. resolveAvailability sha cx q st = Inr (Available i held cm en a) \<and>
        unit_of a = unit_of held \<and>
        amount a = held_at st k - pool_constrained st k t - pool_committed st k t"
  by (rule availability_exact [OF disciplined_run_accounted [OF assms(1)] assms(2-)])

definition alice_question :: GovernedAuthorityAvailabilityQuery where
  "alice_question = \<lparr>av_tenantId = ''org'', av_holderRef = ''alice'', av_resource = work_a,
     av_governedRight = ''ownership-interest'', av_at = t1\<rparr>"

theorem disciplined_availability_witness:
  "\<exists>i cm en a. resolveAvailability zero_sha sys_cx alice_question (reserved_store RsActive t1) =
     Inr (Available i (Proportional 10000) cm en a) \<and> amount a = 6000"
proof -
  have k: "alice_key = positionKey (av_tenantId alice_question) (av_holderRef alice_question)
      (av_resource alice_question) (av_governedRight alice_question)" by code_simp
  have s: "scope_at (reserved_store RsActive t1) alice_key = Some (Proportional 10000)" by code_simp
  have q: "requireAuthorityAccessToOrganization sys_cx (av_tenantId alice_question) = Inr ()" by code_simp
  have t: "av_at alice_question = t1" "isStrictUtcTimestamp t1" by code_simp+
  have a: "held_at (reserved_store RsActive t1) alice_key - pool_constrained (reserved_store RsActive t1) alice_key t1 -
      pool_committed (reserved_store RsActive t1) alice_key t1 = 6000" by code_simp
  show ?thesis
    using disciplined_availability [OF alice_reserved q t k] unfolding s a by auto
qed

section \<open>Movements of authority\<close>

lemma alice_room: "room_for (Proportional 2500) alice_store"
  unfolding room_for_def by code_simp

lemma move_scope: "a_scope (move_alice_bob c) = Proportional 2500"
  "a_governedRights (move_alice_bob c) = [''ownership-interest'']"
  "a_occurredAt (move_alice_bob c) = t1"
  "a_consumesReservationsForMandateRef (move_alice_bob c) = c"
  by (simp_all add: move_alice_bob_def)

text \<open>
  C4. A movement conserves governed authority: for every tenant, resource, right and unit the
  total held over all positions is the same after it, as long as no position and the moved quantity
  together exceed 2^53 - 1, the largest sum the code adds without rounding.
\<close>

theorem movement_conserves:
  assumes "store_wf sha st" and "room_for (a_scope input) st"
    and "applyTransition sha now cx input st = (Inr out, st')"
  shows "total_held ten res right u st' = total_held ten res right u st"
  using assms by (rule apply_conserves)

theorem movement_conserves_witness:
  "total_held ''org'' work_a ''ownership-interest'' None (moved_from alice_store) = 10000"
proof -
  have "total_held ''org'' work_a ''ownership-interest'' None (moved_from alice_store) =
      total_held ''org'' work_a ''ownership-interest'' None alice_store"
    by (rule movement_conserves [OF alice_store_wf _ move_run]) (simp add: move_scope alice_room)
  moreover have "total_held ''org'' work_a ''ownership-interest'' None alice_store = 10000"
    by code_simp
  ultimately show ?thesis by simp
qed

text \<open>
  C5. As long as no position and the moved quantity together exceed 2^53 - 1, a movement that is not a
  replay takes exactly the moved quantity from the source position of every listed right, gives
  exactly that to the target position, never takes more than the source held, and leaves the source
  with at least what its active encumbrances still pin.
\<close>

theorem movement_effect:
  assumes "store_wf sha st" and "room_for (a_scope input) st"
    and "applyTransition sha now cx input st = (Inr out, st')" and "\<not> ao_replayed out"
    and "right \<in> set (a_governedRights input)"
  shows "amount (a_scope input) \<le> held_at st (sourceKey input right) \<and>
    held_at st' (sourceKey input right) = held_at st (sourceKey input right) - amount (a_scope input) \<and>
    held_at st' (targetKey input right) = held_at st (targetKey input right) + amount (a_scope input) \<and>
    constrainedAmount (sourceConstraints st input right) (a_occurredAt input)
      \<le> held_at st' (sourceKey input right)"
  using apply_effect [OF assms] by blast

theorem movement_effect_witness:
  "held_at (moved_from alice_store) (targetKey (move_alice_bob None) ''ownership-interest'') = 2500"
proof -
  have "held_at (moved_from alice_store) (targetKey (move_alice_bob None) ''ownership-interest'') =
      held_at alice_store (targetKey (move_alice_bob None) ''ownership-interest'') + 2500"
    using movement_effect [OF alice_store_wf _ move_run, of "''ownership-interest''"]
    by (simp add: move_scope alice_room)
  moreover have "held_at alice_store (targetKey (move_alice_bob None) ''ownership-interest'') = 0"
    by code_simp
  ultimately show ?thesis by simp
qed

text \<open>
  A movement touches no position but the source and target of its listed rights, and no
  encumbrance at all.
\<close>

theorem movement_frame:
  assumes "store_wf sha st" and "applyTransition sha now cx input st = (Inr out, st')"
    and "\<And>right. right \<in> set (a_governedRights input) \<Longrightarrow>
           k \<noteq> sourceKey input right \<and> k \<noteq> targetKey input right"
  shows "scope_at st' k = scope_at st k \<and> encumbrances st' = encumbrances st"
  using apply_frame [OF assms] by blast

theorem movement_frame_witness:
  "scope_at (moved_from alice_store) (alice_key\<lparr>pk_actorRef := ''carol''\<rparr>) = None"
proof -
  have "scope_at (moved_from alice_store) (alice_key\<lparr>pk_actorRef := ''carol''\<rparr>) =
      scope_at alice_store (alice_key\<lparr>pk_actorRef := ''carol''\<rparr>)"
  proof (rule movement_frame [OF alice_store_wf move_run, THEN conjunct1])
    fix right
    have "pk_actorRef (sourceKey (move_alice_bob None) right) = ''alice'' \<and>
        pk_actorRef (targetKey (move_alice_bob None) right) = ''bob''"
      by (simp add: sourceKey_def targetKey_def positionKey_def move_alice_bob_def)
    then show "alice_key\<lparr>pk_actorRef := ''carol''\<rparr> \<noteq> sourceKey (move_alice_bob None) right \<and>
        alice_key\<lparr>pk_actorRef := ''carol''\<rparr> \<noteq> targetKey (move_alice_bob None) right"
      by (auto simp: alice_key_def dest: arg_cong [where f = pk_actorRef])
  qed
  also have "\<dots> = None" by code_simp
  finally show ?thesis .
qed


text \<open>
  C6. A refused movement leaves the store exactly as it was, whichever of its rights was refused:
  every right is staged before any is written.
\<close>

theorem movement_atomic:
  assumes "store_wf sha st" and "applyTransition sha now cx input st = (Inl e, st')"
  shows "st' = st"
  using assms by (rule apply_atomic)

definition move_too_much :: ApplyGovernedAuthorityTransitionInput where
  "move_too_much = (move_alice_bob None)\<lparr>a_scope := Proportional 5000\<rparr>"

theorem movement_atomic_witness:
  "snd (applyTransition zero_sha t2 sys_cx move_too_much (pledged_store alice_pledge)) = pledged_store alice_pledge"
proof -
  have "fst (applyTransition zero_sha t2 sys_cx move_too_much (pledged_store alice_pledge)) = Inl ENCUMBRANCE_UNCOVERED"
    by code_simp
  then have "applyTransition zero_sha t2 sys_cx move_too_much (pledged_store alice_pledge) =
      (Inl ENCUMBRANCE_UNCOVERED, snd (applyTransition zero_sha t2 sys_cx move_too_much (pledged_store alice_pledge)))"
    by (metis prod.collapse)
  from movement_atomic [OF pledged_store_wf this] show ?thesis .
qed

text \<open>
  Calling a movement that has been applied again returns the transitions it recorded and
  writes nothing, when it lists each right once. When a right is listed twice, two transitions
  were recorded for one debit and the same call is refused as a conflict.
\<close>

theorem movement_replay:
  assumes "store_wf sha st" and "applyTransition sha now cx input st = (Inr out, st')"
    and "\<not> ao_replayed out" and "isStrictUtcTimestamp later"
  shows "applyTransition sha later cx input st' =
    (if distinct (a_governedRights input)
     then (Inr \<lparr>ao_transitions = ao_transitions out, ao_replayed = True\<rparr>, st')
     else (Inl TRANSITION_CONFLICT, st'))"
  using assms by (rule apply_replay)

theorem movement_replay_witness:
  "applyTransition zero_sha t2 sys_cx (move_alice_bob None) (moved_from alice_store) =
     (Inr \<lparr>ao_transitions = [alice_transfer], ao_replayed = True\<rparr>, moved_from alice_store)"
proof -
  have "isStrictUtcTimestamp t2" by code_simp
  from movement_replay [OF alice_store_wf move_run _ this] show ?thesis by (simp add: move_scope)
qed

text \<open>
  A movement that consumes a mandate's reservations marks every active reservation of that
  mandate consumed as a whole, whatever quantity moved, and changes no other reservation.
\<close>

theorem movement_consumes:
  assumes "store_wf sha st" and "applyTransition sha now cx input st = (Inr out, st')"
    and "\<not> ao_replayed out"
  shows "map_get (reservations st') k =
     (case map_get (reservations st) k of
        None \<Rightarrow> None
      | Some r \<Rightarrow> Some (case a_consumesReservationsForMandateRef input of
          None \<Rightarrow> r
        | Some man \<Rightarrow> if spent_by (a_tenantId input) man r
            then seal_reservation sha (r\<lparr>r_status := RsConsumed, r_updatedAt := now\<rparr>) else r))"
  using assms by (rule apply_consumes)

theorem movement_consumes_witness:
  "map_option r_status (map_get (reservations (moved_from (reserved_store RsConsumed t1)))
     ''governed-authority-reservation-0'') = Some RsConsumed"
proof -
  have "map_get (reservations (reserved_store RsActive t1)) ''governed-authority-reservation-0'' =
      Some (alice_reservation RsActive t1)" by code_simp
  moreover have "spent_by (a_tenantId (move_alice_bob (Some ''man-1''))) ''man-1'' (alice_reservation RsActive t1)"
    by code_simp
  ultimately show ?thesis
    using movement_consumes [OF reserved_store_wf consume_run, of "''governed-authority-reservation-0''"]
    by (simp add: move_scope)
qed

section \<open>Issuance\<close>

text \<open>
  An issuance adds exactly its quantity to the position it names and to the total of its
  right and unit, and no other position changes.
\<close>

theorem issuance_effect:
  assumes "store_wf sha st" and "room_for (b_scope input) st"
    and "bootstrapPosition sha now cx input st = (Inr p, st')"
  shows "held_at st' (bootstrapKey input) = held_at st (bootstrapKey input) + amount (b_scope input) \<and>
    total_held ten res right u st' = total_held ten res right u st +
      (if over_right ten res right (bootstrapKey input) then amount_in u (b_scope input) else 0) \<and>
    (\<forall>k. k \<noteq> bootstrapKey input \<longrightarrow> scope_at st' k = scope_at st k)"
  using bootstrap_effect [OF assms] by blast

theorem issuance_effect_witness: "held_at alice_store (bootstrapKey (issue_alice (Proportional 10000))) = 10000"
proof -
  have "held_at empty_store (bootstrapKey (issue_alice (Proportional 10000))) = 0" by code_simp
  with issuance_effect [OF store_wf_empty _ bootstrap_run] show ?thesis
    by (simp add: room_for_def issue_alice_def empty_store_def)
qed

text \<open>
  Issuing over a position held in another unit is refused, but the issuance transition has
  been appended by then: the ledger keeps a transition no position reflects.
\<close>

theorem issuance_orphan:
  assumes "store_wf sha st" and "bootstrapGuards now cx input = Inr (eff, ex, occ, rec)"
    and "scope_at st (bootstrapKey input) = Some s" and "unit_of s \<noteq> unit_of (b_scope input)"
  shows "\<exists>t st'. bootstrapPosition sha now cx input st = (Inl SCOPE_INCOMPATIBLE, st') \<and>
    positions st' = positions st \<and> transitions st' = transitions st @ [t]"
  using assms by (rule bootstrap_orphan)

theorem issuance_orphan_witness:
  "length (transitions (snd (bootstrapPosition zero_sha t1 sys_cx (issue_alice (Unitized 5 ''shares'')) alice_store))) = 2"
proof -
  have g: "bootstrapGuards t1 sys_cx (issue_alice (Unitized 5 ''shares'')) = Inr (t0, None, t0, t1)" by code_simp
  have s: "scope_at alice_store (bootstrapKey (issue_alice (Unitized 5 ''shares''))) = Some (Proportional 10000)" by code_simp
  have "unit_of (Proportional 10000) \<noteq> unit_of (b_scope (issue_alice (Unitized 5 ''shares'')))" by code_simp
  from issuance_orphan [OF alice_store_wf g s this] have
    "length (transitions (snd (bootstrapPosition zero_sha t1 sys_cx (issue_alice (Unitized 5 ''shares'')) alice_store))) =
     Suc (length (transitions alice_store))" by auto
  then show ?thesis by (simp add: alice_store_def)
qed

section \<open>Invariants of every run\<close>

text \<open>
  C7. In every reachable store each reservation and each encumbrance stands over an existing
  position of the same unit.
\<close>

theorem reachable_units_agree: "units_agree (run_store sha calls)"
  by (rule run_store_units)

text \<open>
  C8. In every reachable store one governed release execution has ended at most one encumbrance
  of its tenant.
\<close>

theorem reachable_release_unique: "release_unique (run_store sha calls)"
  by (rule run_store_release_unique)

text \<open>
  C9. Tenant isolation: whatever a caller confined to one organization calls, with whatever input,
  the positions, reservations, encumbrances and transitions of every other tenant are what they were,
  each whole and in its place, none gone and none added, and so are the counters and the digest the
  other tenant's next records build on; unless a truncated digest collides with another tenant's record.
\<close>

theorem tenant_isolation:
  assumes "store_wf sha st" and "call_context c = Some cx" and "\<not> cx_system cx"
    and "cx_organizationId cx = Some org" and "\<not> foreign_id sha c st"
  shows "foreign_same org st (run_call sha c st)"
  using assms by (rule call_isolated)

definition mallory_cx :: AuthorityGovernanceContext where
  "mallory_cx = \<lparr>cx_system = False, cx_organizationId = Some ''rival'', cx_actorId = Some ''mallory''\<rparr>"

theorem tenant_isolation_witness:
  "others p_tenantId ''rival'' (positions (run_call zero_sha (CallApply t1 mallory_cx (move_alice_bob None)) alice_store)) =
     [(governedAuthorityPositionKey alice_key,
       alice_position (Proportional 10000) t0 ''governed-authority-transition-0-1'')]"
proof -
  have "foreign_same ''rival'' alice_store (run_call zero_sha (CallApply t1 mallory_cx (move_alice_bob None)) alice_store)"
    by (rule tenant_isolation [OF alice_store_wf, where cx = mallory_cx]) (simp_all add: mallory_cx_def)
  moreover have "others p_tenantId ''rival'' (positions alice_store) = [(governedAuthorityPositionKey alice_key,
       alice_position (Proportional 10000) t0 ''governed-authority-transition-0-1'')]"
    by code_simp
  ultimately show ?thesis by (simp add: foreign_same_def)
qed

section \<open>Commitments and constraints\<close>

text \<open>
  Acquiring the same reservation again, at any later instant, returns the reservation that
  was made and writes nothing.
\<close>

theorem acquisition_replay:
  assumes "store_wf sha st" and "acquireReservation sha now cx input st = (Inr (Reserved r False), st')"
    and "isStrictUtcTimestamp later"
  shows "acquireReservation sha later cx input st' = (Inr (Reserved r True), st')"
  using assms by (rule acquire_replay)

theorem acquisition_replay_witness:
  "acquireReservation zero_sha t2 sys_cx reserve_alice (reserved_store RsActive t1) =
     (Inr (Reserved (alice_reservation RsActive t1) True), reserved_store RsActive t1)"
proof -
  have "isStrictUtcTimestamp t2" by code_simp
  from acquisition_replay [OF alice_store_wf acquire_run this] show ?thesis .
qed

text \<open>
  Releasing a reservation returns it released, and releasing it again, at any instant,
  returns the same record and writes nothing.
\<close>

theorem reservation_release_final:
  assumes "store_wf sha st" and "releaseReservation sha now cx input st = (Inr r, st')"
  shows "r_status r = RsReleased \<and> releaseReservation sha later cx input st' = (Inr r, st')"
  using assms by (rule releaseReservation_idempotent)

theorem reservation_release_final_witness:
  "releaseReservation zero_sha t3 sys_cx reserve_release (reserved_store RsReleased t2) =
     (Inr (alice_reservation RsReleased t2), reserved_store RsReleased t2)"
  using reservation_release_final [OF reserved_store_wf releaseReservation_run] by simp

text \<open>
  The release of an encumbrance is final: the same basis again returns the same record, any
  other acceptable and permitted basis is refused as a conflict, and neither writes.
\<close>

theorem constraint_release_final:
  assumes "store_wf sha st" and "releaseEncumbrance sha now cx input st = (Inr e, st')"
    and "assertEncumbranceReleaseBasisAcceptable b = Inr ()"
    and "\<And>by why. b = ReleaseByAdministrator by why \<Longrightarrow> cx_system cx"
  shows "e_status e = EsReleased \<and> releaseEncumbrance sha later cx (input\<lparr>l_basis := b\<rparr>) st' =
    (if b = l_basis input then Inr e else Inl ENCUMBRANCE_RELEASE_CONFLICT, st')"
  using assms by (rule releaseEncumbrance_final)

theorem constraint_release_final_witness:
  "releaseEncumbrance zero_sha t3 sys_cx (pledge_release\<lparr>l_basis := ReleaseByAdministrator ''ops'' ''error''\<rparr>)
     (pledged_store pledge_released) = (Inl ENCUMBRANCE_RELEASE_CONFLICT, pledged_store pledge_released)"
proof -
  have "assertEncumbranceReleaseBasisAcceptable (ReleaseByAdministrator ''ops'' ''error'') = Inr ()" by code_simp
  from constraint_release_final [OF pledged_store_wf releaseEncumbrance_run this, of t3] show ?thesis
    by (simp add: sys_cx_def pledge_release_def)
qed

section \<open>Capacity\<close>


definition alice_whole :: GovernedAuthorityPosition where
  "alice_whole = alice_position (Proportional 10000) t0 ''governed-authority-transition-0-1''"


text \<open>
  Over quantities of one unit the computation reports an available quantity exactly when the
  constraints and commitments fit in the position; it is complete as well as sound.
\<close>

theorem capacity_complete:
  assumes "unit_of (p_scope p) = u" and "\<forall>r \<in> set rs. unit_of (r_scope r) = u"
    and "\<forall>e \<in> set es. unit_of (e_scope e) = u" and "\<forall>e \<in> set ap. unit_of (e_scope e) = u"
    and "valid_reservations rs" and "valid_encumbrances es" and "valid_encumbrances ap"
    and "0 \<le> amount (p_scope p)" and "amount (p_scope p) \<le> MAX_SAFE_INTEGER"
  shows "(\<exists>cm en a. computeActionCapacity (Some p) rs es ap at = Available (p_id p) (p_scope p) cm en a)
     \<longleftrightarrow> constrainedAmount ap at + committedAmount rs es at \<le> amount (p_scope p)"
  using assms by (rule action_capacity_complete)

theorem capacity_complete_witness:
  "\<not> (\<exists>cm en a. computeActionCapacity (Some (alice_whole\<lparr>p_scope := Proportional 3000\<rparr>)) [alice_reservation RsActive t1] [] [] t1 =
     Available ''governed-authority-position-0'' (Proportional 3000) cm en a)"
proof -
  let ?p = "alice_whole\<lparr>p_scope := Proportional 3000\<rparr>"
  have c: "constrainedAmount [] t1 = 0" "committedAmount [alice_reservation RsActive t1] [] t1 = 4000" by code_simp+
  have "(\<exists>cm en a. computeActionCapacity (Some ?p) [alice_reservation RsActive t1] [] [] t1 = Available (p_id ?p) (p_scope ?p) cm en a)
     \<longleftrightarrow> constrainedAmount [] t1 + committedAmount [alice_reservation RsActive t1] [] t1 \<le> amount (p_scope ?p)"
    by (rule capacity_complete [where u = None])
      (simp_all add: valid_reservations_def valid_encumbrances_def valid_scope_def alice_reservation_def alice_whole_def
        MAX_SAFE_INTEGER_def GOVERNED_RIGHTS_SCOPE_FULL_BASIS_POINTS_def)
  then show ?thesis using c by (simp add: alice_whole_def alice_position_def)
qed

section \<open>Constraint applicability\<close>

text \<open>
  The evaluation fails closed: its state is invalid exactly when some constraint in force
  over the very pool asked about has a source action of no known class.
\<close>

theorem applicability_fails_closed:
  "ga_status (evaluateGovernedConstraintApplicability profile classify q cs) = ConstraintStateInvalid \<longleftrightarrow>
     (\<exists>e \<in> set cs. boundTo q e \<and> governedAuthorityEncumbranceConstrains e (cq_at q) \<and>
        classify (e_sourceAction e) = None)"
  by (rule evaluation_invalid_iff)

text \<open>
  For the two actions that commit authority the applicable constraints carry the whole of
  what constrains the pool: filtering by applicability never frees authority for them.
\<close>

theorem committing_action_constrained:
  assumes "applicableGovernedConstraintsFor action q cs = Inr (g, ap)"
    and "action \<in> {''transfer'', ''collateralize''}" and "\<forall>e \<in> set cs. boundTo q e"
  shows "constrainedAmount ap (cq_at q) = constrainedAmount cs (cq_at q) \<and> set ap \<subseteq> set cs"
  using committing_action_applicable [OF assms] by simp

definition alice_constraint_question :: ConstraintQuestion where
  "alice_constraint_question = \<lparr>cq_tenantId = ''org'', cq_holderRef = ''alice'', cq_resource = work_a,
     cq_governedRight = ''ownership-interest'', cq_at = t1\<rparr>"

theorem committing_action_constrained_witness:
  "\<exists>g ap. applicableGovernedConstraintsFor ''transfer'' alice_constraint_question [alice_pledge] = Inr (g, ap) \<and>
     constrainedAmount ap t1 = 6000"
proof -
  have ok: "\<not> isl (applicableGovernedConstraintsFor ''transfer'' alice_constraint_question [alice_pledge])" by code_simp
  then obtain g ap where r: "applicableGovernedConstraintsFor ''transfer'' alice_constraint_question [alice_pledge] = Inr (g, ap)"
    by (cases "applicableGovernedConstraintsFor ''transfer'' alice_constraint_question [alice_pledge]") auto
  have b: "\<forall>e \<in> set [alice_pledge]. boundTo alice_constraint_question e"
    by (simp add: boundTo_def alice_constraint_question_def alice_pledge_def work_a_def)
  have a: "constrainedAmount [alice_pledge] t1 = 6000" by code_simp
  have "cq_at alice_constraint_question = t1" by (simp add: alice_constraint_question_def)
  with committing_action_constrained [OF r _ b] a r show ?thesis by auto
qed

section \<open>Coverage\<close>

text \<open>
  C11. On a well-formed store a holder is covered exactly when it has a position of the right, in
  force at the instant asked about, and the requested quantity, when one is asked for, is of the
  position's unit, not zero and at most what the position holds; the answer names the position and
  what it holds. (The resolver asks for no more: a negative quantity counts as covered.)
\<close>

theorem coverage_correct:
  assumes "store_wf sha st" and "requireAuthorityAccessToOrganization cx (gq_tenantId q) = Inr ()"
    and "k = positionKey (gq_tenantId q) (gq_holderRef q) (gq_resource q) (gq_governedRight q)"
  shows "resolveGovernedAuthority sha pol cx q st = Inr (Covered i a) \<longleftrightarrow>
    (\<exists>p. map_get (positions st) (governedAuthorityPositionKey k) = Some p \<and> i = p_id p \<and> a = p_scope p \<and>
       governedAuthorityPositionState p (gq_at q) = PsActive \<and>
       (\<forall>s. gq_requestedScope q = Some s \<longrightarrow>
          unit_of s = unit_of (p_scope p) \<and> amount s \<le> amount (p_scope p) \<and> amount s \<noteq> 0))"
  using assms
  by (cases "map_get (positions st) (governedAuthorityPositionKey k)")
    (auto simp: resolveGovernedAuthority_def getPosition_def isResourceEnrolled_def readPosition_total [OF assms(1)]
      positionKey_def coverageOfPosition_def scopesDiffer_iff within_iff isZero_iff Let_def
      split: GovernedAuthorityPositionState.splits option.splits if_splits)

definition alice_coverage :: GovernedAuthorityQuery where
  "alice_coverage = \<lparr>gq_tenantId = ''org'', gq_holderRef = ''alice'', gq_resource = work_a,
     gq_governedRight = ''ownership-interest'', gq_requestedScope = Some (Proportional 2500), gq_at = t1\<rparr>"

theorem coverage_correct_witness:
  "resolveGovernedAuthority zero_sha Deny sys_cx alice_coverage alice_store =
     Inr (Covered ''governed-authority-position-0'' (Proportional 10000))"
proof -
  have k: "alice_key = positionKey (gq_tenantId alice_coverage) (gq_holderRef alice_coverage)
      (gq_resource alice_coverage) (gq_governedRight alice_coverage)" by code_simp
  have acc: "requireAuthorityAccessToOrganization sys_cx (gq_tenantId alice_coverage) = Inr ()" by code_simp
  have p: "map_get (positions alice_store) (governedAuthorityPositionKey alice_key) = Some alice_whole" by code_simp
  have s: "governedAuthorityPositionState alice_whole (gq_at alice_coverage) = PsActive" by code_simp
  show ?thesis
    unfolding coverage_correct [OF alice_store_wf acc k]
    using p s by (auto simp: alice_coverage_def) (simp_all add: alice_whole_def alice_position_def)
qed

section \<open>Keys and digests\<close>

text \<open>
  The string a position is stored under determines the five components it was built from,
  whatever characters they contain.
\<close>

theorem position_key_injective:
  "governedAuthorityPositionKey k = governedAuthorityPositionKey k' \<longleftrightarrow> k = k'"
  by (rule positionKey_inject)

text \<open>
  The canonical text of an object does not depend on the order its fields were written in.
\<close>

theorem canonical_key_order:
  assumes "mset fs = mset gs" and "distinct (map fst fs)"
  shows "canonicalSerialize (JObj fs) = canonicalSerialize (JObj gs)"
  using assms by (rule serialize_key_order)

theorem canonical_key_order_witness:
  "canonicalSerialize (JObj [(''b'', JNum 1), (''a'', JNull)]) = canonicalSerialize (JObj [(''a'', JNull), (''b'', JNum 1)])"
  by (rule canonical_key_order) simp_all

section \<open>Representation\<close>

text \<open>
  C12. However bindings were granted, redelegated and withdrawn, every binding traces back to a
  root that was issued on an issuing basis, and it is no wider than any binding on the way: same
  tenant, holder and resource, no further right or action, no higher ceiling, no longer window;
  every ancestor may be redelegated.
\<close>

theorem representation_never_widens:
  assumes "st = fold (run_rep sha) calls empty_rep_store" and "stored st rid g"
  shows "\<exists>ps. lineage st g ps \<and> (\<forall>p \<in> set ps. narrows g p) \<and> (\<forall>p \<in> set (tl ps). g_canRedelegate p) \<and>
    isGovernedRepresentativeIssuanceBasis (g_basis (last ps))"
proof -
  have wf: "rep_wf sha st" unfolding assms(1) by (rule rep_machine.inv_reached)
  then obtain ps where ps: "lineage st g ps" using rep_wf_lineage assms(2) by blast
  then show ?thesis
    using lineage_narrows [OF ps wf assms(2)] lineage_redelegable [OF ps wf assms(2)]
      lineage_root_issued [OF ps wf assms(2)] by blast
qed

lemma dave_store_run: "dave_store = fold (run_rep zero_sha)
    [RepGrant None t0 sys_cx appoint_carol, RepGrant None t1 carol_cx redelegate_dave] empty_rep_store"
  by (simp add: appoint_run redelegate_run)

lemma dave_stored: "stored dave_store ''rep-2'' dave_rep" "stored dave_store ''rep-1'' carol_rep"
  by (simp_all add: stored_def dave_store_def map_get_def)

theorem representation_never_widens_witness:
  "\<exists>ps. lineage dave_store dave_rep ps \<and> (\<forall>p \<in> set ps. narrows dave_rep p) \<and>
    (\<forall>p \<in> set (tl ps). g_canRedelegate p) \<and> isGovernedRepresentativeIssuanceBasis (g_basis (last ps))"
  by (rule representation_never_widens [OF dave_store_run dave_stored(1)])

text \<open>
  C13. No self-appointment: whatever calls unprivileged callers make, every binding in the store
  they reach is no wider than a binding the store already held before them.
\<close>

theorem delegated_calls_only_narrow:
  assumes "st = fold (run_rep sha) calls empty_rep_store" and "\<forall>c \<in> set rest. unprivileged c"
    and "stored (fold (run_rep sha) rest st) rid g"
  shows "\<exists>rid0 g0. stored st rid0 g0 \<and> narrows g g0"
  by (rule unprivileged_runs [OF _ assms(2,3)]) (simp add: assms(1) rep_machine.inv_reached)

theorem delegated_calls_only_narrow_witness:
  "\<exists>rid0 g0. stored carol_store rid0 g0 \<and> narrows dave_rep g0"
proof -
  have "carol_store = fold (run_rep zero_sha) [RepGrant None t0 sys_cx appoint_carol] empty_rep_store"
    by (simp add: appoint_run)
  moreover have "\<forall>c \<in> set [RepGrant None t1 carol_cx redelegate_dave]. unprivileged c"
    by (simp add: carol_cx_def)
  moreover have "stored (fold (run_rep zero_sha) [RepGrant None t1 carol_cx redelegate_dave] carol_store)
      ''rep-2'' dave_rep"
    by (simp add: redelegate_run dave_stored)
  ultimately show ?thesis by (rule delegated_calls_only_narrow)
qed

text \<open>
  C14. The resolver lets a request through exactly when the requester is the holder, or some
  stored binding from this requester to this holder over this resource may be exercised for it
  (\<^const>\<open>exercisable\<close>): the chain it then reports is that binding's whole lineage.
\<close>

theorem representation_resolved_exactly:
  assumes "st = fold (run_rep sha) calls empty_rep_store"
    and "requireAuthorityAccessToOrganization cx (rq_tenantId q) = Inr ()"
  shows "\<exists>v. resolveGovernedRepresentation sha collate delegations cx q st = Inr v \<and>
    (isGovernedRepresentationCovered v \<longleftrightarrow>
       rq_representativeRef q = rq_holderRef q \<or> (\<exists>g ps. exercisable delegations q st g ps)) \<and>
    (\<forall>rid chain. v = Represented rid chain \<longrightarrow>
       (\<exists>g ps. exercisable delegations q st g ps \<and> rid = g_id g \<and> chain = map g_id ps))"
proof (cases "rq_representativeRef q = rq_holderRef q")
  case True
  then show ?thesis by (simp add: resolveGovernedRepresentation_def)
next
  case False
  have wf: "rep_wf sha st" unfolding assms(1) by (rule rep_machine.inv_reached)
  from resolver_correct [OF wf assms(2) False, of collate delegations] False show ?thesis by fastforce
qed

theorem representation_resolved_exactly_witness:
  "\<exists>g ps. exercisable None dave_query dave_store g ps \<and> ''rep-2'' = g_id g \<and>
     [''rep-2'', ''rep-1''] = map g_id ps"
proof -
  have "requireAuthorityAccessToOrganization sys_cx (rq_tenantId dave_query) = Inr ()" by code_simp
  from representation_resolved_exactly [OF dave_store_run this, of "\<lambda>_ _. 0" None]
  show ?thesis unfolding dave_represented by simp
qed

text \<open>
  C15. Withdrawing a binding disables everything under it: once a withdrawal has returned,
  however the store goes on, no request at or after the instant of withdrawal is answered by a
  chain through the withdrawn binding.
\<close>

theorem withdrawal_disables_subtree:
  assumes "st = fold (run_rep sha) calls empty_rep_store"
    and "revokeRepresentativeAuthority sha now cx tid rid st = (Inr g, st')" and "g_revokedAt g = Some t"
    and "RepClose \<notin> set rest"
    and "requireAuthorityAccessToOrganization qcx (rq_tenantId q) = Inr ()" and "instant_ge (rq_at q) t"
  shows "resolveGovernedRepresentation sha collate delegations qcx q (fold (run_rep sha) rest st') \<noteq>
      Inr (Represented x chain) \<or> rid \<notin> set chain"
proof -
  have "rep_wf sha st" unfolding assms(1) by (rule rep_machine.inv_reached)
  from revoke_returns [OF this assms(2)] have s: "stored st' rid g" and wf: "rep_wf sha st'" by auto
  have "stored (fold (run_rep sha) rest st') rid g"
    using withdrawn_stays [OF wf s _ assms(4)] assms(3) by simp
  from withdrawn_disables [OF rep_machine.inv_runs [OF wf] assms(5) this assms(3,6)] show ?thesis by blast
qed

theorem withdrawal_disables_subtree_witness:
  "resolveGovernedRepresentation zero_sha (\<lambda>_ _. 0) None sys_cx dave_query
     (dave_store\<lparr>byId := [(''rep-1'', carol_revoked), (''rep-2'', dave_rep)]\<rparr>) \<noteq>
     Inr (Represented ''rep-2'' [''rep-2'', ''rep-1''])"
proof -
  have "g_revokedAt carol_revoked = Some t1" by (simp add: carol_revoked_def)
  moreover have "requireAuthorityAccessToOrganization sys_cx (rq_tenantId dave_query) = Inr ()"
    and "instant_ge (rq_at dave_query) t1" by code_simp+
  ultimately show ?thesis
    using withdrawal_disables_subtree [OF dave_store_run withdraw_run, of t1 "[]" sys_cx dave_query
        "\<lambda>_ _. 0" None "''rep-2''" "[''rep-2'', ''rep-1'']"] by simp
qed

text \<open>
  A withdrawal is final and is recorded once: the withdrawn binding stands unchanged in
  every later store, and withdrawing it again, by anyone, writes nothing.
\<close>

theorem withdrawal_final:
  assumes "st = fold (run_rep sha) calls empty_rep_store"
    and "revokeRepresentativeAuthority sha now cx tid rid st = (Inr g, st')" and "RepClose \<notin> set rest"
    and "later_st = fold (run_rep sha) rest st'"
  shows "stored later_st rid g \<and> g_revokedAt g \<noteq> None \<and>
    snd (revokeRepresentativeAuthority sha now' cx' tid rid later_st) = later_st"
proof -
  have "rep_wf sha st" unfolding assms(1) by (rule rep_machine.inv_reached)
  from revoke_returns [OF this assms(2)] have s: "stored st' rid g" "g_revokedAt g \<noteq> None"
    and wf: "rep_wf sha st'" by auto
  from withdrawn_stays [OF wf s assms(3)] have "stored later_st rid g" by (simp add: assms(4))
  moreover have "rep_wf sha later_st" unfolding assms(4) by (rule rep_machine.inv_runs [OF wf])
  ultimately show ?thesis using s(2) revoke_again by simp
qed

theorem withdrawal_final_witness:
  "stored (fold (run_rep zero_sha) [RepGrant None t2 carol_cx redelegate_dave]
     (dave_store\<lparr>byId := [(''rep-1'', carol_revoked), (''rep-2'', dave_rep)]\<rparr>)) ''rep-1'' carol_revoked"
  using withdrawal_final [OF dave_store_run withdraw_run, of "[RepGrant None t2 carol_cx redelegate_dave]"]
  by simp

text \<open>
  Granting is idempotent: a grant made with a key and made again later, with any calls in
  between, returns the same binding on the same terms and writes nothing - as long as no other
  tenant's grant spells the same idempotency scope (compare \<open>grant_scope_collision\<close> below).
\<close>

theorem grant_idempotent:
  assumes "st = fold (run_rep sha) calls empty_rep_store"
    and "grantRepresentativeAuthority sha delegations now cx i st =
      (Inr \<lparr>go_representation = g, go_replayed = b\<rparr>, st')"
    and "i_idempotencyKey i \<noteq> None" and "\<forall>c \<in> set rest. scope_private i c"
    and "later_st = fold (run_rep sha) rest st'"
  shows "\<exists>g'. stored later_st (g_id g) g' \<and> same_terms g g' \<and>
    grantRepresentativeAuthority sha delegations now' cx i later_st =
      (Inr \<lparr>go_representation = g', go_replayed = True\<rparr>, later_st)"
  by (rule grant_retry [OF _ assms(2-)]) (simp add: assms(1) rep_machine.inv_reached)

theorem grant_idempotent_witness:
  "\<exists>g'. stored dave_store ''rep-1'' g' \<and> same_terms carol_rep g' \<and>
    grantRepresentativeAuthority zero_sha None t2 sys_cx appoint_carol dave_store =
      (Inr \<lparr>go_representation = g', go_replayed = True\<rparr>, dave_store)"
proof -
  have "idempotencyScope appoint_carol \<noteq> idempotencyScope redelegate_dave"
    by (simp add: idempotencyScope_def appoint_carol_def redelegate_dave_def)
  then have "\<forall>c \<in> set [RepGrant None t1 carol_cx redelegate_dave]. scope_private appoint_carol c"
    by simp
  from grant_idempotent [OF _ appoint_run _ this, of "[]" dave_store] show ?thesis
    by (simp add: redelegate_run appoint_carol_def carol_rep_def)
qed

text \<open>
  The idempotency scope joins tenant and key with a separator either may contain: a grant
  of another tenant whose tenant and key spell the same text takes the entry over, and the first
  grant, made again, is refused as a conflict instead of being replayed.
\<close>

theorem grant_scope_collision:
  assumes "st = fold (run_rep sha) calls empty_rep_store"
    and "grantRepresentativeAuthority sha delegations now cx i st =
      (Inr \<lparr>go_representation = g, go_replayed = False\<rparr>, st1)"
    and "i_idempotencyKey i \<noteq> None"
    and "grantRepresentativeAuthority sha delegations2 now2 cx2 j st1 =
      (Inr \<lparr>go_representation = h, go_replayed = False\<rparr>, st2)"
    and "idempotencyScope j = idempotencyScope i" and "i_tenantId j \<noteq> i_tenantId i"
  shows "fst (grantRepresentativeAuthority sha delegations now3 cx i st2) = Inl REPRESENTATION_CONFLICT"
  by (rule grant_collision [OF _ assms(2-)]) (simp add: assms(1) rep_machine.inv_reached)

definition appoint_split :: GrantRepresentativeAuthorityInput where
  "appoint_split = appoint_carol\<lparr>i_idempotencyKey := Some ''a::key-1''\<rparr>"

definition appoint_other :: GrantRepresentativeAuthorityInput where
  "appoint_other = appoint_carol\<lparr>i_id := Some ''rep-9'', i_tenantId := ''org::a''\<rparr>"

theorem grant_scope_collision_witness:
  "fst (grantRepresentativeAuthority zero_sha None t2 sys_cx appoint_split
     (run_rep zero_sha (RepGrant None t1 sys_cx appoint_other)
       (run_rep zero_sha (RepGrant None t0 sys_cx appoint_split) empty_rep_store))) =
   Inl REPRESENTATION_CONFLICT"
proof -
  let ?a = "grantRepresentativeAuthority zero_sha None t0 sys_cx appoint_split empty_rep_store"
  let ?b = "grantRepresentativeAuthority zero_sha None t1 sys_cx appoint_other (snd ?a)"
  have "go_replayed (projr (fst ?a)) = False \<and> isl (fst ?a) = False" by code_simp
  then have a: "?a = (Inr \<lparr>go_representation = go_representation (projr (fst ?a)), go_replayed = False\<rparr>, snd ?a)"
    by (cases ?a; cases "fst ?a") auto
  have "go_replayed (projr (fst ?b)) = False \<and> isl (fst ?b) = False" by code_simp
  then have b: "?b = (Inr \<lparr>go_representation = go_representation (projr (fst ?b)), go_replayed = False\<rparr>, snd ?b)"
    by (cases ?b; cases "fst ?b") auto
  have "i_idempotencyKey appoint_split \<noteq> None" "idempotencyScope appoint_other = idempotencyScope appoint_split"
    "i_tenantId appoint_other \<noteq> i_tenantId appoint_split" by code_simp+
  from grant_scope_collision [OF _ a this(1) b this(2,3), of "[]" t2] show ?thesis by simp
qed

text \<open>
  Tenants do not reach each other's bindings: a call for one tenant leaves every other
  tenant's bindings as they were, and a call from outside the tenant it names changes nothing at
  all.
\<close>

theorem representation_tenants_isolated:
  assumes "st = fold (run_rep sha) calls empty_rep_store" and "call_cx c = Some (cx, tid)"
  shows "(\<forall>rid g. g_tenantId g \<noteq> tid \<longrightarrow> stored (run_rep sha c st) rid g = stored st rid g) \<and>
    (requireAuthorityAccessToOrganization cx tid \<noteq> Inr () \<longrightarrow> run_rep sha c st = st)"
  using call_frame [OF _ assms(2)] call_outside [OF assms(2)]
  by (simp add: assms(1) rep_machine.inv_reached)

theorem representation_tenants_isolated_witness:
  "stored (run_rep zero_sha (RepGrant None t1 sys_cx appoint_other) carol_store) ''rep-1'' carol_rep"
proof -
  have "carol_store = fold (run_rep zero_sha) [RepGrant None t0 sys_cx appoint_carol] empty_rep_store"
    by (simp add: appoint_run)
  from representation_tenants_isolated [OF this, of "RepGrant None t1 sys_cx appoint_other" sys_cx "''org::a''"]
  have "g_tenantId carol_rep \<noteq> ''org::a'' \<longrightarrow>
      stored (run_rep zero_sha (RepGrant None t1 sys_cx appoint_other) carol_store) ''rep-1'' carol_rep =
      stored carol_store ''rep-1'' carol_rep"
    by (simp add: appoint_other_def)
  then show ?thesis by (simp add: carol_rep_def stored_def carol_store_def map_get_def)
qed

text \<open>
  C16. No constraint ends by execution without evidence: however concurrent calls of the release
  service and of the rest of the system interleave, crash or retry, a constraint marked ended by a
  governed execution is the one its release mandate authorized, in its tenant; that mandate is
  spent on exactly this execution, whose recorded evidence is a confirmed success about this
  constraint, and the constraint ended at the instant the evidence gives.
\<close>

theorem release_requires_evidence:
  assumes "(release_step sha)\<^sup>*\<^sup>* release_start s"
    and "map_get (encumbrances (rs_authority s)) i = Some e" and "e_releaseBasis e = Some RbGovernedExecution"
  shows "\<exists>mid m x. e_releaseMandateRef e = Some mid \<and> mandate_of (rs_mandates s) mid m \<and>
    m_encumbranceRef m = i \<and> m_organizationId m = e_tenantId e \<and> m_status m = MsExecuted \<and>
    m_executionRef m = e_releaseExecutionRef e \<and> x \<in> set (executionsOf (rs_mandates s) mid) \<and>
    e_releaseExecutionRef e = Some (x_id x) \<and> x_outcome x = ConfirmedSuccess \<and> x_encumbranceRef x = i \<and>
    e_releasedAt e = Some (case x_confirmedAt x of None \<Rightarrow> x_attemptedAt x | Some c \<Rightarrow> c)"
proof -
  have inv: "release_inv sha s" by (rule release_reachable_inv [OF assms(1)])
  then have wf: "store_wf sha (rs_authority s)" by (simp add: release_inv_def)
  have mem: "e \<in> set (map_values (encumbrances (rs_authority s)))"
    using wf assms(2) by (auto simp: store_wf_def intro: map_all_member)
  from released_by_execution [OF wf assms(2,3)] obtain xid where x: "e_id e = i" "e_releaseExecutionRef e = Some xid" by blast
  from inv mem have "evidenced (rs_mandates s) e" by (simp add: release_inv_def)
  with x obtain mid x where ev: "e_releaseMandateRef e = Some mid" "x \<in> set (executionsOf (rs_mandates s) mid)" "x_id x = xid"
    "x_outcome x = ConfirmedSuccess" "x_encumbranceRef x = i" "x_organizationId x = e_tenantId e"
    "e_releasedAt e = Some (case x_confirmedAt x of None \<Rightarrow> x_attemptedAt x | Some c \<Rightarrow> c)"
    unfolding evidenced_def by blast
  from release_wf_execution [OF release_inv_wf [OF inv] ev(2)] ev x show ?thesis
    unfolding execution_ok_def by auto
qed

theorem release_requires_evidence_witness:
  "\<exists>m x. mandate_of spent_mandates ''man-3'' m \<and> m_encumbranceRef m = pledge_id \<and> m_status m = MsExecuted \<and>
    x \<in> set (executionsOf spent_mandates ''man-3'') \<and> x_id x = ''ex-3'' \<and> x_outcome x = ConfirmedSuccess"
proof -
  have get: "map_get (encumbrances (rs_authority settled)) pledge_id = Some pledge_released"
    and basis: "e_releaseBasis pledge_released = Some RbGovernedExecution"
    and refs: "e_releaseMandateRef pledge_released = Some ''man-3''" "e_releaseExecutionRef pledge_released = Some ''ex-3''"
    by code_simp+
  have "rs_mandates settled = spent_mandates" by (simp add: settled_def crashed_def)
  with release_requires_evidence [OF settled_reachable get basis]
  show ?thesis unfolding refs \<open>rs_mandates settled = spent_mandates\<close> by force
qed

text \<open>
  C17. A mandate authorizes one discharge: in every reachable state a mandate is spent exactly when
  it carries a confirmed release, it never carries two, and no constraint has two live mandates.
\<close>

theorem mandate_spent_once:
  assumes "(release_step sha)\<^sup>*\<^sup>* release_start s" and "mandate_of (rs_mandates s) mid m"
  shows "(m_status m = MsExecuted \<longleftrightarrow> (\<exists>x \<in> set (executionsOf (rs_mandates s) mid). x_outcome x = ConfirmedSuccess)) \<and>
    length (filter (\<lambda>x. x_outcome x = ConfirmedSuccess) (executionsOf (rs_mandates s) mid)) \<le> 1 \<and>
    (\<forall>mid' m'. mandate_of (rs_mandates s) mid' m' \<and> m_status m = MsActive \<and> m_status m' = MsActive \<and>
       m_organizationId m' = m_organizationId m \<and> m_encumbranceRef m' = m_encumbranceRef m \<longrightarrow> mid' = mid)"
proof (intro conjI)
  have wf: "release_wf (rs_mandates s)" by (rule release_inv_wf [OF release_reachable_inv [OF assms(1)]])
  let ?xs = "filter (\<lambda>x. x_outcome x = ConfirmedSuccess) (executionsOf (rs_mandates s) mid)"
  show "m_status m = MsExecuted \<longleftrightarrow> (\<exists>x \<in> set (executionsOf (rs_mandates s) mid). x_outcome x = ConfirmedSuccess)"
    using release_wf_spent [OF wf assms(2)] release_wf_execution [OF wf] assms(2) mandate_of_fun
    by (auto simp: execution_ok_def) metis
  have "\<forall>x \<in> set ?xs. \<forall>y \<in> set ?xs. x = y" using confirmed_once [OF wf] by auto
  moreover have "distinct ?xs" using release_wf_distinct [OF wf] by simp
  ultimately show "length ?xs \<le> 1" by (intro all_equal_length)
  show "\<forall>mid' m'. mandate_of (rs_mandates s) mid' m' \<and> m_status m = MsActive \<and> m_status m' = MsActive \<and>
       m_organizationId m' = m_organizationId m \<and> m_encumbranceRef m' = m_encumbranceRef m \<longrightarrow> mid' = mid"
    using release_wf_active [OF wf _ assms(2)] by blast
qed


theorem mandate_spent_once_witness:
  "length (filter (\<lambda>x. x_outcome x = ConfirmedSuccess) (executionsOf spent_mandates ''man-3'')) \<le> 1"
proof -
  have "mandate_of (rs_mandates crashed) ''man-3'' (release_mandate MsExecuted (Some ''ex-3''))"
    by (simp add: crashed_def spent_mandates_def mandate_of_def map_get_def)
  from mandate_spent_once [OF crashed_reachable this] show ?thesis by (simp add: crashed_def)
qed

text \<open>
  C18. Recovery completes: whenever a confirmed release is on record under a mandate, neither with an
  empty identifier, and its constraint still stands, recovery by any caller the mandate is visible to
  ends exactly that constraint, on exactly that evidence; recovering again reports the same release as already done and changes
  nothing.
\<close>

theorem recovery_completes:
  assumes "(release_step sha)\<^sup>*\<^sup>* release_start s" and "getMandate cx mid (rs_mandates s) = Inr m"
    and "x \<in> set (executionsOf (rs_mandates s) mid)" and "x_outcome x = ConfirmedSuccess"
    and "map_get (encumbrances (rs_authority s)) (x_encumbranceRef x) = Some e" and "e_tenantId e = x_organizationId x"
    and "e_status e = EsActive" and "mid \<noteq> []" and "x_id x \<noteq> []"
  shows "\<exists>e' st'. recoverEncumbranceRelease sha now cx mid (rs_mandates s, rs_authority s) =
      (Inr (Some \<lparr>zo_mandate = m, zo_execution = x, zo_encumbrance = e', zo_terminalized = True\<rparr>), rs_mandates s, st') \<and>
    e_status e' = EsReleased \<and> e_releaseMandateRef e' = Some mid \<and> e_releaseExecutionRef e' = Some (x_id x) \<and>
    (\<forall>i. map_get (encumbrances st') i =
       (if i = x_encumbranceRef x then Some e' else map_get (encumbrances (rs_authority s)) i)) \<and>
    recoverEncumbranceRelease sha later cx mid (rs_mandates s, st') =
      (Inr (Some \<lparr>zo_mandate = m, zo_execution = x, zo_encumbrance = e', zo_terminalized = False\<rparr>), rs_mandates s, st')"
proof -
  have inv: "release_inv sha s" by (rule release_reachable_inv [OF assms(1)])
  have "e_id e = x_encumbranceRef x"
    using inv assms(5) map_all_get by (fastforce simp: release_inv_def store_wf_def encumbrance_ok_def)
  moreover have "m_id m = mid" by (rule getConfirmedExecution_found(2) [OF release_inv_wf [OF inv] assms(2-4)])
  ultimately show ?thesis
    using recover_completes [OF inv assms(2-)]
    by (intro exI [of _ "ended sha m x e"] exI [of _ "put_encumbrance_in (rs_authority s) (ended sha m x e)"])
      (simp add: ended_fields put_encumbrance_in_def map_simps)
qed

theorem recovery_completes_witness:
  "\<exists>e' st'. recoverEncumbranceRelease zero_sha t3 sys_cx ''man-3'' (spent_mandates, pledged_store alice_pledge) =
      (Inr (Some \<lparr>zo_mandate = release_mandate MsExecuted (Some ''ex-3''), zo_execution = confirmed_release,
         zo_encumbrance = e', zo_terminalized = True\<rparr>), spent_mandates, st') \<and> e_status e' = EsReleased"
proof -
  have m: "getMandate sys_cx ''man-3'' (rs_mandates crashed) = Inr (release_mandate MsExecuted (Some ''ex-3''))"
    and x: "confirmed_release \<in> set (executionsOf (rs_mandates crashed) ''man-3'')"
      "x_outcome confirmed_release = ConfirmedSuccess" "x_id confirmed_release \<noteq> []"
    and e: "map_get (encumbrances (rs_authority crashed)) (x_encumbranceRef confirmed_release) = Some alice_pledge"
      "e_tenantId alice_pledge = x_organizationId confirmed_release" "e_status alice_pledge = EsActive"
    by (simp_all add: crashed_def spent_mandates_def authorized_mandates_def executionsOf_def map_get_def
        confirmed_release_def pledged_store_def pledge_id_def alice_pledge_def) code_simp
  have "''man-3'' \<noteq> []" by simp
  from recovery_completes [OF crashed_reachable m x(1,2) e this x(3), of t3 t3]
  show ?thesis by (simp add: crashed_def) blast
qed

text \<open>
  C19. An executor that does not confirm this constraint frees nothing: under a mandate that is
  not already spent, a failure, an unknown outcome, a thrown error or a confirmation about another
  constraint leaves every constraint and every mandate as it was, and the call never reports a
  release.
\<close>

theorem unconfirmed_release_frees_nothing:
  assumes "(release_step sha)\<^sup>*\<^sup>* release_start s" and "getMandate cx (z_mandateId i) (rs_mandates s) = Inr m"
    and "m_status m \<noteq> MsExecuted" and "\<And>q. \<not> confirms m (settledOutcome (executor q))"
    and "executeEncumbranceRelease sha now mnow anow nextId providerSystem executor appendReference cx i
      (rs_mandates s, rs_authority s) = (res, ms', st')"
  shows "st' = rs_authority s \<and> (\<forall>mid k. mandate_of ms' mid k = mandate_of (rs_mandates s) mid k) \<and>
    (\<forall>out. res = Inr out \<longrightarrow> \<not> zo_terminalized out)"
  using execute_unconfirmed [OF release_inv_wf [OF release_reachable_inv [OF assms(1)]] assms(2-5)] by blast

theorem unconfirmed_release_frees_nothing_witness:
  "snd (snd (executeEncumbranceRelease zero_sha t2 t2 t2 (\<lambda>_. ''n'') ''bank'' (\<lambda>_. Threw (Some ''timeout'')) (\<lambda>_ _. True)
     sys_cx execute_release (authorized_mandates, pledged_store alice_pledge))) = pledged_store alice_pledge"
proof -
  have m: "getMandate sys_cx (z_mandateId execute_release) (rs_mandates authorized) = Inr (release_mandate MsActive None)"
    "m_status (release_mandate MsActive None) \<noteq> MsExecuted"
    by (simp add: authorized_def) code_simp+
  have no: "\<not> confirms (release_mandate MsActive None) (settledOutcome (Threw (Some ''timeout'')))"
    by (simp add: confirms_def)
  obtain res ms' st' where run: "executeEncumbranceRelease zero_sha t2 t2 t2 (\<lambda>_. ''n'') ''bank''
      (\<lambda>_. Threw (Some ''timeout'')) (\<lambda>_ _. True) sys_cx execute_release (rs_mandates authorized, rs_authority authorized) =
      (res, ms', st')" by (metis prod.collapse)
  from unconfirmed_release_frees_nothing [OF authorized_reachable m no run] run
  show ?thesis by (simp add: authorized_def)
qed

text \<open>
  C20. The service refines the machine: requesting, executing, recovering and withdrawing a
  release, whatever the kernel, the governance store and the executor answer, each leave the two
  stores in a state the machine reaches by its own steps.
\<close>

theorem release_service_refines:
  "release_run sha s (snd (requestEncumbranceRelease sha now mnow nextId evaluate appendEvaluation appendReference
       cx org request (rs_authority s) (rs_mandates s))) (rs_authority s) \<and>
   (case executeEncumbranceRelease sha now mnow anow nextId providerSystem executor appendReference cx execution
       (rs_mandates s, rs_authority s) of (res, ms', st') \<Rightarrow> release_run sha s ms' st') \<and>
   (case recoverEncumbranceRelease sha anow cx mid (rs_mandates s, rs_authority s) of
      (res, ms', st') \<Rightarrow> release_run sha s ms' st') \<and>
   release_run sha s (snd (revokeReleaseMandate now nextId cx withdrawal (rs_mandates s))) (rs_authority s)"
  by (intro conjI request_runs [OF prod.collapse [symmetric]] revoke_runs [OF prod.collapse [symmetric]])
    (auto split: prod.split intro: execute_runs recover_runs)

text \<open>
  What is decided stays decided: along every run a mandate keeps all its terms, once spent or
  withdrawn it never changes again, and recorded evidence is never lost.
\<close>

theorem release_records_last:
  assumes "(release_step sha)\<^sup>*\<^sup>* release_start s" and "(release_step sha)\<^sup>*\<^sup>* s s'"
    and "mandate_of (rs_mandates s) mid m"
  shows "(\<exists>status ref. mandate_of (rs_mandates s') mid (m\<lparr>m_status := status, m_executionRef := ref\<rparr>)) \<and>
    (m_status m \<noteq> MsActive \<longrightarrow> mandate_of (rs_mandates s') mid m) \<and>
    set (executionsOf (rs_mandates s) mid) \<subseteq> set (executionsOf (rs_mandates s') mid)"
proof -
  from release_run_grows [OF assms(2) release_reachable_inv [OF assms(1)]] have
    g: "ms_grows (rs_mandates s) (rs_mandates s')" .
  with assms(3) obtain m' where "mandate_of (rs_mandates s') mid m'" "same_mandate m m'"
    unfolding ms_grows_def by blast
  with g show ?thesis by (auto simp: ms_grows_def same_mandate_def)
qed

theorem release_records_last_witness:
  "set (executionsOf authorized_mandates ''man-3'') \<subseteq> set (executionsOf spent_mandates ''man-3'')"
proof -
  have "mandate_of (rs_mandates authorized) ''man-3'' (release_mandate MsActive None)"
    by (simp add: authorized_def authorized_mandates_def mandate_of_def map_get_def)
  from release_records_last [OF authorized_reachable r_into_rtranclp [of "release_step zero_sha", OF authorized_crashed] this]
  show ?thesis by (simp add: authorized_def crashed_def)
qed

section \<open>Governance store\<close>

text \<open>
  C21. Every record of the governance store verifies: after any calls, whoever may ask to verify an evaluation is
  told that every digest, its link to the aggregate before it and the whole chain of its references are
  intact, with no failure, and each reference counts as protected and valid. The digest function is only
  assumed to give 64 lower case hexadecimal digits.
\<close>

theorem every_record_verifies:
  assumes "\<And>t. length (sha t) = 64 \<and> list_all is_hex (sha t)"
    and "verify_governance sha now cx e (run_governances sha version calls) = Inr v"
  shows "gf_valid v \<and> gf_failures v = [] \<and>
    gf_referenceIntegrity v =
      \<lparr>is_legacyUnprotected = 0,
       is_protectedValid = int (length (referencesOf (run_governances sha version calls) e)),
       is_protectedCorrupted = 0, is_protectedUnsupportedVersion = 0\<rparr>"
proof -
  let ?st = "run_governances sha version calls"
  obtain r where r: "loadVisibleRecord cx (Some e) ?st = Inr (Some r)"
      and v: "v = verifyGovernanceRecordIntegrity sha r (expectedPrevious ?st r) now (Some (map_get (gs_referenceChain ?st) e))"
    using assms(2) by (auto simp: verify_governance_def outcome_simps split: option.splits)
  have "gr_references r = referencesOf ?st e"
    using loaded_visible [OF r] loaded_references [OF reached_governance_ok] by blast
  with stored_record_verifies [OF assms(1) reached_governance_ok r, of now] v show ?thesis by (simp add: Let_def)
qed

theorem every_record_verifies_witness:
  "\<exists>v. verify_governance hex_sha ''t4'' org_context ''gov-evaluation'' (run_governances hex_sha ''1'' pay_calls) = Inr v \<and>
     gf_valid v \<and> is_protectedValid (gf_referenceIntegrity v) = 1"
proof -
  obtain v where v: "verify_governance hex_sha ''t4'' org_context ''gov-evaluation''
      (run_governances hex_sha ''1'' pay_calls) = Inr v"
    using paid_referenced_verified by blast
  from every_record_verifies [OF hex_sha_output v] v show ?thesis by (simp add: paid_reference_count)
qed



text \<open>
  C23. The stored head commits to the references of an evaluation: two lists of references that both verify against
  one head have the same protected rows in the same order, under one organization, unless two of the texts
  digested in them collide. Removing the newest reference, swapping two of them or stripping one of its
  protection is noticed; rows that never claimed protection are the ones it says nothing about.
\<close>

theorem references_committed:
  assumes "iv_valid (verifyGovernanceReferenceIntegrity sha refs org (Some (Some head)))"
    and "iv_valid (verifyGovernanceReferenceIntegrity sha refs' org' (Some (Some head)))"
    and "inj_on sha (set (reference_texts org (protected_references refs)) \<union>
      set (reference_texts org' (protected_references refs')))"
  shows "protected_references refs = protected_references refs' \<and> org = org'"
  using assms by (rule reference_chain_committed)

theorem references_committed_witness:
  "protected_references [mandate_sealed] = protected_references [mandate_sealed] \<and> Some ''org'' = Some ''org''"
  by (rule references_committed [OF mandate_chain_verifies mandate_chain_verifies])
    (simp add: mandate_protected reference_texts_def)

text \<open>
  C24. Paging loses nothing and repeats nothing: as long as the store is not closed, a client that follows the cursors
  of a query the store accepts from its first page to the end gets every record that matched when it began, each once
  and newest first, whatever other calls come in between its pages. That a cursor decodes to the position it was
  encoded from is what is asked of Node's base64url and JSON parser; a page more than there are records is enough.
\<close>

theorem query_pages_show_every_match:
  assumes "GvClose \<notin> set earlier"
    and "resolveQueryOrganization cx q = Inr org" and "normalizeQueryLimit (gy_limit q) = Inr limit" and "gy_cursor q = None"
    and "\<And>n. 0 < n \<Longrightarrow> decodeQueryCursor parse (encodeQueryCursor b64 n) = Inr n"
    and "GvClose \<notin> set (concat pages)"
    and "length (gs_chain (run_governances sha version earlier)) < length pages"
  shows "read_pages sha version b64 parse cx q (run_governances sha version earlier) pages =
    Some (map toGovernanceRecordSummary (matching cx q org (run_governances sha version earlier)))"
proof -
  have "\<not> gs_closed (run_governances sha version earlier)"
    using open_runs [OF assms(1)] by (simp add: run_governances_def empty_governance_store_def)
  then show ?thesis using query_pages_complete [OF reached_governance_ok] assms(2-7) by blast
qed

theorem query_pages_show_every_match_witness:
  "read_pages hex_sha ''1'' id read_cursor org_context all_query (run_governances hex_sha ''1'' pay_calls) [[], [], []] =
     Some (map toGovernanceRecordSummary
       (matching org_context all_query (Some ''org'') (run_governances hex_sha ''1'' pay_calls)))"
proof (rule query_pages_show_every_match [where limit = 1])
  show "GvClose \<notin> set pay_calls" by (simp add: pay_calls_def)
  show "resolveQueryOrganization org_context all_query = Inr (Some ''org'')"
    by (simp add: resolveQueryOrganization_def requireReadScope_def org_context_def all_query_def)
  show "normalizeQueryLimit (gy_limit all_query) = Inr 1" "gy_cursor all_query = None"
    by (simp_all add: all_query_def normalizeQueryLimit_def)
  show "decodeQueryCursor read_cursor (encodeQueryCursor id n) = Inr n" if "0 < n" for n
    using that by (rule cursor_read)
  show "GvClose \<notin> set (concat [[], [], []])" by simp
  show "length (gs_chain (run_governances hex_sha ''1'' pay_calls)) < length [[], [], []]"
    by (simp add: pay_calls_chain)
qed

text \<open>
  C25. An evaluation is recorded once: when a call of the system or of a caller with an organization has recorded one,
  any later submission of the same request with the same key by the same caller, whatever its result and whatever
  calls but closing the store came in between, is answered with the recorded identifiers and digest and changes nothing.
\<close>

theorem recorded_evaluation_replayed:
  assumes "appendEvaluation_governance sha deps input (run_governances sha version earlier) = (Inr first, st)" and "ao_created first"
    and "requireReadScope (ap_accessContext input) = Inr ()" and "GvClose \<notin> set calls"
    and "ap_request again = ap_request input" and "ap_accessContext again = ap_accessContext input"
    and "ap_idempotency again = ap_idempotency input"
  shows "\<exists>second. appendEvaluation_governance sha deps2 again (fold (run_governance sha version) calls st) =
      (Inr second, fold (run_governance sha version) calls st) \<and>
    ao_idempotentReplay second \<and> \<not> ao_created second \<and> ao_evaluationId second = ao_evaluationId first \<and>
    ao_decisionId second = ao_decisionId first \<and> ao_requestId second = ao_requestId first \<and>
    ao_aggregateDigest second = ao_aggregateDigest first \<and> ao_persistedAt second = ao_persistedAt first"
proof -
  obtain r where "appendEvaluation_governance sha deps2 again (fold (run_governance sha version) calls st) =
      (Inr (appendResult False (Some (withReferences (fold (run_governance sha version) calls st) r)) r),
       fold (run_governance sha version) calls st)" "first = appendResult True None r"
    using recorded_once [OF reached_governance_ok assms(1-4) refl assms(5-7), of deps2] by blast
  then show ?thesis by (simp add: appendResult_def)
qed

theorem recorded_evaluation_replayed_witness:
  "\<exists>second. appendEvaluation_governance hex_sha pay_deps pay_input
       (fold (run_governance hex_sha ''1'') [GvReference org_context pay_mandate] (paid hex_sha)) =
     (Inr second, fold (run_governance hex_sha ''1'') [GvReference org_context pay_mandate] (paid hex_sha)) \<and>
     ao_idempotentReplay second \<and> ao_evaluationId second = ''gov-evaluation''"
proof -
  have "appendEvaluation_governance hex_sha pay_deps pay_input (run_governances hex_sha ''1'' []) =
      (Inr (appendResult True None (pay_record hex_sha)), paid hex_sha)"
    using pay_first [of hex_sha] by (simp add: run_governances_def)
  from recorded_evaluation_replayed [OF this, of "[GvReference org_context pay_mandate]" pay_input pay_deps]
  show ?thesis
    by (auto simp: appendResult_def pay_ids requireReadScope_def pay_input_def org_context_def)
qed





text \<open>
  Canonical serialization says exactly what a value is: two values have one text only when they are one value up
  to the order of keys and to keys without a value, and the text of a value is the text of its canonical form.
\<close>

theorem canonical_text_faithful:
  "(canonicalSerialize v = canonicalSerialize w \<longleftrightarrow> canonical v = canonical w) \<and>
   canonicalSerialize (canonical v) = canonicalSerialize v"
  by (simp add: serialization_faithful serialize_of_canonical)

section \<open>Modules and their life cycle\<close>

text \<open>
  C28. The initialization order is right whichever modules are registered: resolving it either
  names a concrete dependency cycle, or, exactly when there is none, gives every registered module
  once, each after all registered modules it depends on, and always the earliest registered one
  among those that could come next.
\<close>

theorem initialization_order_correct:
  "(\<exists>path. resolveInitializationOrder (built ms) = Inl (ModuleCycleError path) \<and>
      cycle_in (requires (descriptors (built ms))) path) \<or>
   (\<exists>order. resolveInitializationOrder (built ms) = Inr order \<and>
      greedy_order (descriptors (built ms)) order \<and> distinct order \<and>
      set order = set (registrationOrder (built ms)) \<and> (\<nexists>path. cycle_in (requires (descriptors (built ms))) path))"
proof -
  have wf: "registry_wf (built ms)" by (rule fresh_wf [OF built_fresh])
  then have ids: "module_ids (descriptors (built ms)) = registrationOrder (built ms)"
    by (simp add: module_ids_def descriptors_ids)
  with wf have "distinct (module_ids (descriptors (built ms)))" by (simp add: registry_wf_def)
  from resolve_order_correct [OF this] ids show ?thesis
    by (auto simp: resolveInitializationOrder_def dest: greedy_distinct split: sum.splits)
qed

text \<open>
  C29. The controller implements the abstract life cycle: after any sequence of calls and settled
  awaits the host state, both promises, what is awaited, the initialized modules and the whole event
  log are those of the abstract phase, and every registered module's state is what the log's last
  event about it says.
\<close>

theorem controller_implements_life_cycle: "realises (built ms) (life_cycle (built ms) evs) (host ms evs)"
  by (rule host_realises)

text \<open>
  A module starts after everything it depends on: whenever the initialization of a module is
  started, each registered dependency has reported ready before, or is optional and has reported
  degraded.
\<close>

theorem startup_respects_dependencies:
  assumes "lc_log (host ms evs) = before @ InitializationStarted i # after"
    and "j \<in> set (requires (descriptors (built ms)) i)"
  shows "ModuleReadyEvent j \<in> set before \<or> \<not> is_required (built ms) j \<and> ModuleDegradedEvent j \<in> set before"
  using host_starts_in_order [of ms evs] assms unfolding starts_in_order_def available_in_def by blast

theorem startup_respects_dependencies_witness:
  "ModuleReadyEvent ''store'' \<in>
     set [StartupRequested, InitializationStarted ''store'', ModuleReadyEvent ''store'',
       InitializationStarted ''cache'', ModuleDegradedEvent ''cache'']"
proof -
  have "''store'' \<in> set (requires (descriptors (built example_modules)) ''api'')" by code_simp
  from startup_respects_dependencies [OF _ this, of "[CallStart, Settle True, Settle False, Settle True]"
      "[StartupRequested, InitializationStarted ''store'', ModuleReadyEvent ''store'',
        InitializationStarted ''cache'', ModuleDegradedEvent ''cache'']" "[ModuleReadyEvent ''api'', EnterpriseReady]"]
  show ?thesis by (simp add: example_boot)
qed

text \<open>
  C30. Modules are stopped in the reverse of the order they became ready, on a failed start as on a
  shutdown, and none that became ready is left out: at any moment the shutdowns begun are the first
  of that reverse order, and they are all of it once the start is reported failed or the host stopped.
\<close>

theorem stops_reverse_starts:
  "prefix (stopped_from (lc_log (host ms evs))) (rev (readied (lc_log (host ms evs)))) \<and>
   ((\<exists>i. StartupFailed i \<in> set (lc_log (host ms evs))) \<or> EnterpriseStopped \<in> set (lc_log (host ms evs)) \<longrightarrow>
      stopped_from (lc_log (host ms evs)) = rev (readied (lc_log (host ms evs))))"
  using host_stops_reverse(1) [of ms evs] host_stops_reverse(2) [of _ ms evs] by blast

theorem stops_reverse_starts_witness:
  "stopped_from (lc_log (host example_modules [CallStart, CallShutdown, Settle True, Settle True, Settle False, Settle True, Settle False])) =
     [''cache'', ''store'']"
  using stops_reverse_starts [of example_modules "[CallStart, CallShutdown, Settle True, Settle True, Settle False, Settle True, Settle False]"]
  by (simp add: example_failed)

text \<open>
  C31. Starting and stopping end: with n modules, after at most 2n settled awaits (modules that
  return, reject or time out) nothing is awaited and neither promise is left pending, whatever was
  called before and whatever the modules answered.
\<close>

theorem host_settles:
  assumes "2 * length ms \<le> length outcomes"
  shows "lc_await (host ms (evs @ map Settle outcomes)) = None \<and>
    startupPromise (host ms (evs @ map Settle outcomes)) \<noteq> Some Pending \<and>
    shutdownPromise (host ms (evs @ map Settle outcomes)) \<noteq> Some Pending"
  using host_settled [OF assms, of evs] pending_awaits [of ms "evs @ map Settle outcomes"] by blast

theorem host_settles_witness:
  "lc_await (host example_modules ([CallStart] @ map Settle [True, False, True, True, True, True])) = None"
  using host_settles [of example_modules "[True, False, True, True, True, True]" "[CallStart]"]
  by (simp add: example_modules_def)

text \<open>
  A shutdown asked for while the host is starting is refused, and the refusal is kept: from
  then on, whatever happens, the host never stops, and every later call is answered with the same
  rejection.
\<close>

theorem shutdown_while_starting_lost:
  assumes "hostState (host ms evs) = HStarting"
  shows "hostState (host ms (evs @ CallShutdown # later)) \<notin> {HStopping, HStopped} \<and>
    fst (shutdown (host ms (evs @ CallShutdown # later))) = Rejected ModuleStateError \<and>
    isLive (host ms (evs @ CallShutdown # later))"
  using jammed_host [OF refused_shutdown_jams [OF assms, of later]] by (simp add: shutdown_def isLive_def)

theorem shutdown_while_starting_lost_witness:
  "fst (shutdown (host example_modules ([CallStart] @ CallShutdown # [Settle True, Settle True, Settle True, CallShutdown]))) =
     Rejected ModuleStateError"
proof -
  have "hostState (host example_modules [CallStart]) = HStarting" by code_simp
  from shutdown_while_starting_lost [OF this] show ?thesis by blast
qed

section \<open>Transfers\<close>

text \<open>
  C32. No movement is on record that its mandate does not authorize: in every reachable mandate store
  each recorded execution names the mandate's transferor, transferee and executor, moves some of its
  rights and no others, at most the quantity it authorizes, inside its window.
\<close>

theorem transfer_evidence_authorized:
  assumes "map_get (ts_mandates (run_transfers calls)) k = Some m"
    and "x \<in> set (executionsOf_transfer (run_transfers calls) k)"
  shows "xr_mandateId x = k \<and> xr_transferorRef x = tt_transferorRef (mr_terms m) \<and>
    xr_transfereeRef x = tt_transfereeRef (mr_terms m) \<and>
    tt_executorRef (mr_terms m) \<in> {None, Some (xr_executedBy x)} \<and>
    xr_rights x \<noteq> [] \<and> set (xr_rights x) \<subseteq> set (tt_rights (mr_terms m)) \<and>
    governedRightsScopeWithin (xr_transferredScope x) (tt_scope (mr_terms m)) \<and>
    \<not> instant_lt (xr_executedAt x) (mr_effectiveFrom m) \<and> \<not> instant_ge (xr_executedAt x) (mr_expiresAt m)"
  using run_execution_authorized [OF assms] run_log(1) [OF assms(1)] by (auto simp: execution_authorized_def)

theorem transfer_evidence_authorized_witness:
  "\<not> instant_ge (xr_executedAt tranche_execution) (mr_expiresAt tranche_mandate)"
  using transfer_evidence_authorized [OF transfer_calls_run(1), of tranche_execution] transfer_calls_run(2) by simp

text \<open>
  C33. A mandate never moves more than it authorizes: in every reachable mandate store, whatever whole
  quantities were reported, the running total of a mandate is within its authorized quantity and its
  count is the number of its executions; and when no recorded quantity is negative, the recorded
  quantities sum to no more than it authorizes.
\<close>

theorem transfer_total_bounded:
  assumes "map_get (ts_mandates (run_transfers calls)) k = Some m"
  shows "mr_executionCount m = int (length (executionsOf_transfer (run_transfers calls) k)) \<and>
    (\<forall>s. mr_transferredScope m = Some s \<longrightarrow> governedRightsScopeWithin s (tt_scope (mr_terms m))) \<and>
    ((\<forall>x \<in> set (executionsOf_transfer (run_transfers calls) k). 0 \<le> amount (xr_transferredScope x)) \<longrightarrow>
      (\<Sum>x \<leftarrow> executionsOf_transfer (run_transfers calls) k. amount (xr_transferredScope x)) \<le> amount (tt_scope (mr_terms m)))"
  using run_total [OF assms] run_log(2) [OF assms] by (auto simp: log_ok_def total_of_log_def)

theorem transfer_total_bounded_witness:
  "mr_executionCount tranche_mandate = 1 \<and> 1000 \<le> amount (tt_scope (mr_terms tranche_mandate))"
  using transfer_total_bounded [OF transfer_calls_run(1)]
  by (simp add: transfer_calls_run(2)) (simp add: tranche_execution_def)

text \<open>
  An example: after reports of a negative quantity a mandate over 40% has moved 50% of the asset, and
  its record says 40%.
\<close>

theorem negative_report_reopens_mandate:
  "\<exists>ts st m. negative_reports = (ts, Some st) \<and> map_get (ts_mandates ts) ''transfer-mandate-1'' = Some m \<and>
     tt_scope (mr_terms asked_mandate) = Proportional 4000 \<and> mr_transferredScope m = Some (Proportional 4000) \<and>
     held_at asked_store alice_key - held_at st alice_key = 5000"
proof -
  obtain st where sn: "snd negative_reports = Some st" using negative_reports_run(1) by auto
  have w: "negative_reports = (fst negative_reports, Some st)" unfolding sn [symmetric] by simp
  have "held_at st alice_key = 5000" using negative_reports_run(1) unfolding sn by simp
  moreover obtain m where "map_get (ts_mandates (fst negative_reports)) ''transfer-mandate-1'' = Some m"
      "mr_transferredScope m = Some (Proportional 4000)"
    using negative_reports_run(2) by auto
  moreover have "held_at asked_store alice_key = 10000" by code_simp
  moreover have "tt_scope (mr_terms asked_mandate) = Proportional 4000" by (simp add: asked_mandate_def alice_terms_def)
  ultimately show ?thesis
    by (intro exI [of _ "fst negative_reports"] exI [of _ st] exI [of _ m] conjI w) simp_all
qed

text \<open>
  A mandate that prohibits partial transfer is used once and whole: in every reachable mandate
  store it has no execution, or a single one of exactly the authorized quantity.
\<close>

theorem whole_transfer_once:
  assumes "map_get (ts_mandates (run_transfers calls)) k = Some m"
    and "\<not> tc_partialTransferAllowed (tt_constraints (mr_terms m))"
  shows "executionsOf_transfer (run_transfers calls) k = [] \<or>
    (\<exists>x. executionsOf_transfer (run_transfers calls) k = [x] \<and> xr_transferredScope x = tt_scope (mr_terms m))"
  using run_log(2) [OF assms(1)] assms(2) by (simp add: log_ok_def)

theorem whole_transfer_once_witness:
  "xr_transferredScope (tranche_execution\<lparr>xr_transferredScope := Proportional 4000\<rparr>) = tt_scope (mr_terms moved_whole)"
proof -
  have "\<not> tc_partialTransferAllowed (tt_constraints (mr_terms moved_whole))" by code_simp
  from whole_transfer_once [OF transfer_calls_run(3) this] show ?thesis by (simp add: transfer_calls_run(4))
qed

text \<open>
  C34. No commitment is stranded: whatever becomes of a request for a transfer - denied, refused by
  the authority store half way through its rights, refused by the mandate store - every reservation
  active afterwards was active before, or stands for a mandate the store holds.
\<close>

theorem request_strands_nothing:
  assumes "store_wf sha st" and "keys_unused org (nextId ''transfer-mandate'') (tt_rights (sb_terms input)) st"
    and "requestTransfer sha now mnow anow nextId evaluate appendE appendR cx org input (ts, Some st) = (res, ts', Some st')"
    and "active_at st' k r"
  shows "active_at st k r \<or> (\<exists>m. map_get (ts_mandates ts') (r_sourceMandateRef r) = Some m)"
  by (rule request_no_strand [OF assms])

theorem request_strands_nothing_witness: "\<nexists>k r. active_at refused_store k r"
proof (intro notI, elim exE)
  fix k r assume a: "active_at refused_store k r"
  have k: "keys_unused ''org'' (id_of ''1'' ''transfer-mandate'') (tt_rights (sb_terms (ask_transfer True 4000))) alice_store"
    by code_simp
  from request_strands_nothing [OF alice_store_wf k refused_run [unfolded ask_alice_def] a] show False
    by (simp add: active_at_def alice_store_def close_transfer_def empty_transfer_store_def map_get_def)
qed

text \<open>
  C35. A mandate stands on committed authority: when a request over an enrolled asset returns a new
  mandate, every right of it is covered by an active reservation of the transferor for the whole
  authorized quantity, made for this mandate (unless two of its rights are given one reservation id).
\<close>

theorem request_commits_authority:
  assumes "store_wf sha st" and "keys_unused org (nextId ''transfer-mandate'') (tt_rights (sb_terms input)) st"
    and "isEnrolled st org \<lparr>rr_kind = ta_kind (sb_asset input), rr_id = ta_id (sb_asset input)\<rparr>"
    and "inj_on (deriveReservationId sha org (nextId ''transfer-mandate'')) (set (tt_rights (sb_terms input)))"
    and "requestTransfer sha now mnow anow nextId evaluate appendE appendR cx org input (ts, Some st) =
      (Inr outcome, ts', Some st')"
    and "to_mandate outcome = Some m" and "m \<notin> set (map_values (ts_mandates ts))"
    and "right \<in> set (tt_rights (mr_terms m))"
  shows "\<exists>k r. active_at st' k r \<and> r_sourceMandateRef r = mr_id m \<and> r_governedRight r = right \<and>
    r_holderRef r = tt_transferorRef (mr_terms m) \<and> r_scope r = tt_scope (mr_terms m)"
  by (rule request_backed [OF assms])

theorem request_commits_authority_witness:
  "\<exists>k r. active_at asked_store k r \<and> r_sourceMandateRef r = ''transfer-mandate-1'' \<and> r_holderRef r = ''alice'' \<and>
     r_scope r = Proportional 4000"
proof -
  have k: "keys_unused ''org'' (id_of ''1'' ''transfer-mandate'') (tt_rights (sb_terms (ask_transfer True 4000))) alice_store"
    and e: "isEnrolled alice_store ''org'' \<lparr>rr_kind = ta_kind (sb_asset (ask_transfer True 4000)),
       rr_id = ta_id (sb_asset (ask_transfer True 4000))\<rparr>" by code_simp+
  have r: "tt_rights (sb_terms (ask_transfer True 4000)) = [''ownership-interest'']"
    and a: "asked_mandate \<notin> set (map_values (ts_mandates empty_transfer_store))"
    and o: "''ownership-interest'' \<in> set (tt_rights (mr_terms asked_mandate))"
    by (simp_all add: ask_transfer_def alice_terms_def asked_mandate_def empty_transfer_store_def map_values_def)
  have i: "inj_on (deriveReservationId zero_sha ''org'' (id_of ''1'' ''transfer-mandate''))
      (set (tt_rights (sb_terms (ask_transfer True 4000))))" by (simp add: r)
  from request_commits_authority [OF alice_store_wf k e i asked_run [unfolded ask_alice_def] _ a o]
  show ?thesis by (auto simp: asked_mandate_def alice_terms_def)
qed

text \<open>
  C36. Recording an execution moves exactly what it reports: when the call returns for an execution not
  applied before, and no position and the reported quantity together exceed 2^53 - 1, the transferor holds the reported quantity less of each reported right, the
  transferee that much more. It also ends every commitment of the mandate: a mandate that has moved
  a part of its quantity keeps no reservation for the rest.
\<close>

theorem transfer_moves_exactly:
  assumes "store_wf sha st" and "room_for (rx_transferredScope input) st"
    and "recordTransferExecution sha mnow anow nextId appendR cx input (ts, Some st) = (Inr (m, x), ts', Some st')"
    and "alreadyApplied st (mr_organizationId m) (xr_id x) = []" and "right \<in> set (rx_rights input)"
    and "from = positionKey (mr_organizationId m) (rx_transferorRef input) (asset_of m) right"
    and "to = positionKey (mr_organizationId m) (rx_transfereeRef input) (asset_of m) right"
  shows "held_at st' from = held_at st from - amount (rx_transferredScope input) \<and>
    held_at st' to = held_at st to + amount (rx_transferredScope input) \<and>
    \<not> (\<exists>k r. active_at st' k r \<and> r_tenantId r = mr_organizationId m \<and> r_sourceMandateRef r = mr_id m)"
  using record_moves [OF assms(1-5)] unfolding assms(6,7) by blast

theorem transfer_moves_exactly_witness:
  "held_at tranche_store alice_key = 9000 \<and> mr_transferredScope tranche_mandate = Some (Proportional 1000) \<and>
   tt_scope (mr_terms tranche_mandate) = Proportional 4000 \<and>
   \<not> (\<exists>k r. active_at tranche_store k r \<and> r_tenantId r = ''org'' \<and> r_sourceMandateRef r = ''transfer-mandate-1'')"
proof -
  have k: "alice_key = positionKey (mr_organizationId tranche_mandate) (rx_transferorRef (move_tranche 1000))
      (asset_of tranche_mandate) ''ownership-interest''" by code_simp
  have f: "rx_transferredScope (move_tranche 1000) = Proportional 1000"
    "''ownership-interest'' \<in> set (rx_rights (move_tranche 1000))"
    "mr_organizationId tranche_mandate = ''org''" "mr_id tranche_mandate = ''transfer-mandate-1''"
    "xr_id tranche_execution = ''transfer-execution-1''"
    by (simp_all add: move_tranche_def tranche_mandate_def moved_mandate_def asked_mandate_def tranche_execution_def)
  have h: "held_at asked_store alice_key = 10000" by code_simp
  have n: "alreadyApplied asked_store (mr_organizationId tranche_mandate) (xr_id tranche_execution) = []"
    using asked_facts(4) f(3,5) by simp
  from transfer_moves_exactly [OF asked_store_wf _ tranche_run [unfolded record_tranche_def] n f(2) k refl] asked_room f h
  show ?thesis by (simp add: tranche_mandate_def moved_mandate_def asked_mandate_def alice_terms_def)
qed

text \<open>
  C37. Reconciliation completes: whenever it returns - whatever crashed between the evidence and the
  movement before - every recorded execution of the mandate has its transitions in the ledger, no
  evidence has changed, and reconciling again, at any time, repairs nothing and changes nothing.
\<close>

theorem reconciliation_completes:
  assumes "store_wf sha st" and "map_get (ts_mandates ts) mandateId = Some m"
    and "reconcileAuthorityTransitions sha anow cx mandateId (ts, Some st) = (Inr repaired, w)"
  shows "\<exists>st'. w = (ts, Some st') \<and>
    (\<forall>x \<in> set (executionsOf_transfer ts mandateId). alreadyApplied st' (mr_organizationId m) (xr_id x) \<noteq> []) \<and>
    reconcileAuthorityTransitions sha later cx mandateId w = (Inr [], w)"
  by (rule reconcile_world [OF assms(1,3,2)])

theorem reconciliation_completes_witness:
  "reconcileAuthorityTransitions zero_sha t3 sys_cx ''transfer-mandate-1'' reconciled_world = (Inr [], reconciled_world)"
  using reconciliation_completes [OF asked_store_wf reconcile_run(2) reconcile_run(1), of t3] by auto

text \<open>
  Withdrawing a mandate frees what it held back and nothing else: once the call has returned no
  active reservation of the mandate is left, and no position and no transition has changed.
\<close>

theorem revocation_frees_commitment:
  assumes "store_wf sha st" and "map_get (ts_mandates ts) (rv_mandateId input) = Some m"
    and "revokeTransferMandate sha now anow nextId cx input (ts, Some st) = (Inr outcome, ts', Some st')"
  shows "\<not> (\<exists>k r. active_at st' k r \<and> r_tenantId r = mr_organizationId m \<and> r_sourceMandateRef r = mr_id m) \<and>
    positions st' = positions st \<and> transitions st' = transitions st"
  using revoke_world [OF assms(1,3,2)] by blast

theorem revocation_frees_commitment_witness:
  "\<not> (\<exists>k r. active_at revoked_store k r \<and> r_tenantId r = ''org'' \<and> r_sourceMandateRef r = ''transfer-mandate-1'')"
proof -
  have m: "map_get (ts_mandates asked_mandates) (rv_mandateId revoke_transfer) = Some asked_mandate"
    using asked_facts(1) by (simp add: revoke_transfer_def)
  from revocation_frees_commitment [OF asked_store_wf m revoke_run(1)] show ?thesis by (simp add: asked_mandate_def)
qed

section \<open>Collateral\<close>

text \<open>
  C38. No arrangement is on record that its mandate does not authorize: in every reachable mandate store
  each recorded execution names the mandate's executor, obligation and secured party, commits some of
  its rights and no others, at most the quantity it authorizes, inside its window and its limits on
  amount, registry, jurisdiction and rank; and unless the mandate allows more than one it is the only one.
\<close>

theorem collateral_evidence_authorized:
  assumes "map_get (ks_mandates (run_collaterals calls)) k = Some m"
    and "x \<in> set (executionsOf_collateral (run_collaterals calls) k)"
  shows "kx_mandateId x = k \<and> kx_executorRef x = ct_executorRef (km_terms m) \<and>
    kx_securedObligationRef x = ct_securedObligationRef (km_terms m) \<and>
    kx_securedPartyRef x = ct_securedPartyRef (km_terms m) \<and>
    kx_rights x \<noteq> [] \<and> set (kx_rights x) \<subseteq> set (ct_rights (km_terms m)) \<and>
    governedRightsScopeWithin (kx_committedScope x) (ct_scope (km_terms m)) \<and>
    limits_kept (ct_constraints (km_terms m)) x \<and>
    \<not> instant_lt (kx_executedAt x) (km_effectiveFrom m) \<and> \<not> instant_ge (kx_executedAt x) (km_expiresAt m) \<and>
    (cc_additionalCollateralizationAllowed (ct_constraints (km_terms m)) \<or>
     executionsOf_collateral (run_collaterals calls) k = [x])"
  using run_collateral_log [OF assms(1)] assms(2)
  by (auto simp: collateral_log_ok_def list_all_iff arrangement_authorized_def length_Suc_conv le_Suc_eq)

theorem collateral_evidence_authorized_witness:
  "executionsOf_collateral drawn_mandates ''collateralization-mandate-1'' = [loan_execution] \<and>
   governedRightsScopeWithin (kx_committedScope loan_execution) (ct_scope loan_terms) \<and>
   limits_kept (ct_constraints loan_terms) loan_execution"
proof -
  have m: "map_get (ks_mandates (run_collaterals loan_calls)) ''collateralization-mandate-1'' = Some drawn_mandate"
    and x: "loan_execution \<in> set (executionsOf_collateral (run_collaterals loan_calls) ''collateralization-mandate-1'')"
    and t: "km_terms drawn_mandate = loan_terms" "\<not> cc_additionalCollateralizationAllowed (ct_constraints loan_terms)"
    unfolding loan_calls_run by code_simp+
  from collateral_evidence_authorized [OF m x] show ?thesis unfolding loan_calls_run t(1) using t(2) by blast
qed

text \<open>
  C39. A recorded execution constrains exactly what it reports and moves nothing: when the call returns,
  every reported right the mandate had committed, and the authority store had not seen reported before,
  carries an active constraint of the reported quantity on the holder of the commitment, made for this
  execution, and no position and no transition has changed (unless two rights are given one constraint id).
\<close>

theorem collateral_constrains_exactly:
  assumes "store_wf sha st"
    and "recordCollateralExecution sha mnow anow nextId appendR cx input (ks, Some st) = (Inr (m, x), ks', Some st')"
    and "inj_on (deriveEncumbranceId sha (km_organizationId m) (kx_id x)) (set (rk_rights input))"
    and "right \<in> set (rk_rights input)" and "unreported m x right st"
    and "isEnrolled st (km_organizationId m) \<lparr>rr_kind = km_assetKind m, rr_id = km_assetId m\<rparr>"
    and "r \<in> set (map_values (reservations st))" and "r_tenantId r = km_organizationId m"
    and "r_sourceMandateRef r = km_id m" and "r_governedRight r = right"
  shows "positions st' = positions st \<and> transitions st' = transitions st \<and>
    pledged_for sha m x (filter (\<lambda>r. r_tenantId r = km_organizationId m \<and> r_sourceMandateRef r = km_id m)
      (map_values (reservations st))) right st'"
  using collateral_record_pledges [OF assms] by blast

theorem collateral_constrains_exactly_witness:
  "\<exists>e. map_get (encumbrances drawn_store) (e_id e) = Some e \<and> e_status e = EsActive \<and>
     e_holderRef e = ''alice'' \<and> e_scope e = Proportional 6000 \<and> e_sourceExecutionRef e = ''loan-execution''"
proof -
  have f: "rk_rights report_loan = [''ownership-interest'']" by (simp add: report_loan_def)
  have i: "inj_on (deriveEncumbranceId zero_sha (km_organizationId drawn_mandate) (kx_id loan_execution))
      (set (rk_rights report_loan))" by (simp add: f)
  have u: "unreported drawn_mandate loan_execution ''ownership-interest'' loan_store"
    and e: "isEnrolled loan_store (km_organizationId drawn_mandate)
       \<lparr>rr_kind = km_assetKind drawn_mandate, rr_id = km_assetId drawn_mandate\<rparr>" by code_simp+
  have v: "map_values (reservations loan_store) = [loan_reservation]" by code_simp
  have "pledged_for zero_sha drawn_mandate loan_execution [loan_reservation] ''ownership-interest'' drawn_store"
    using collateral_constrains_exactly [OF loan_store_wf report_run [unfolded report_def] i _ u e, of loan_reservation]
    by (simp add: f v loan_reservation_def drawn_mandate_def committed_mandate_def loan_mandate_def)
  then show ?thesis
    by (auto simp: pledged_for_def pledge_for_def loan_reservation_def loan_execution_def)
qed



text \<open>
  Withdrawing a mandate ends its commitment and not what was done under it: once the call has
  returned no active reservation of the mandate is left, and every constraint and every position is
  what it was.
\<close>

theorem collateral_withdrawal_keeps_constraints:
  assumes "store_wf sha st" and "map_get (ks_mandates ks) (rw_mandateId input) = Some m"
    and "revokeCollateralMandate sha now anow nextId cx input (ks, Some st) = (Inr outcome, ks', Some st')"
  shows "\<not> (\<exists>k r. active_at st' k r \<and> r_tenantId r = km_organizationId m \<and> r_sourceMandateRef r = km_id m) \<and>
    positions st' = positions st \<and> encumbrances st' = encumbrances st"
  using collateral_revoke_world [OF assms(1,3,2)] by blast

theorem collateral_withdrawal_keeps_constraints_witness:
  "\<not> (\<exists>k r. active_at withdrawn_store k r \<and> r_tenantId r = ''org'' \<and>
      r_sourceMandateRef r = ''collateralization-mandate-1'')"
proof -
  have m: "map_get (ks_mandates loan_mandates) (rw_mandateId revoke_loan) = Some loan_mandate" by code_simp
  from collateral_withdrawal_keeps_constraints [OF loan_store_wf m withdrawn_run] show ?thesis
    by (simp add: loan_mandate_def)
qed

end
